(* ===== verification/Prelude.thy ===== *)
theory Prelude
  imports Complex_Main "HOL-Library.Monad_Syntax" "HOL-Library.Multiset"
begin

text \<open>
  Shared vocabulary of the development: the JSON values that cross the program's
  interfaces, the result and computation types every service is written in, the
  weakest-precondition calculus the services are proved with, and the generic
  operations on table contents (lists of rows with a key) and association lists.

  A Python function that may raise is a value of a sum type (\<open>Inl\<close> the exception).
  A coroutine that works on the session is a computation: a function from a state to
  a result and the state left behind.  A raise keeps the state it was raised in, as
  in Python, where only the surrounding request handler rolls the session back.
\<close>

section \<open>Collections of facts\<close>

named_theorems wp_simps \<open>weakest preconditions of computations, as rewrite rules\<close>
named_theorems row_simps \<open>reads and writes of table rows\<close>

section \<open>JSON values\<close>

text \<open>\<open>JId i\<close> is the text of the identifier \<open>i\<close> and \<open>JTime t\<close> the ISO text of the
  instant \<open>t\<close>: identifiers and instants stay abstract numbers inside the model.\<close>

datatype json =
    JNull
  | JBool bool
  | JInt int
  | JRat rat
  | JStr string
  | JId nat
  | JTime int
  | JList "json list"
  | JObj "(string \<times> json) list"

text \<open>Python's truth of a JSON value, and an optional value as JSON.\<close>

fun json_truthy :: "json \<Rightarrow> bool" where
  "json_truthy JNull = False"
| "json_truthy (JBool b) = b"
| "json_truthy (JInt n) = (n \<noteq> 0)"
| "json_truthy (JRat r) = (r \<noteq> 0)"
| "json_truthy (JStr s) = (s \<noteq> [])"
| "json_truthy (JId i) = True"
| "json_truthy (JTime t) = True"
| "json_truthy (JList xs) = (xs \<noteq> [])"
| "json_truthy (JObj fs) = (fs \<noteq> [])"

definition json_opt :: "('a \<Rightarrow> json) \<Rightarrow> 'a option \<Rightarrow> json" where
  "json_opt f x = (case x of None \<Rightarrow> JNull | Some a \<Rightarrow> f a)"

section \<open>Python values\<close>

text \<open>Truth and \<open>or\<close> of an optional text, decimal rendering, and dict update in insertion
  order.\<close>

definition truthy :: "string option \<Rightarrow> bool" where
  "truthy x = (case x of None \<Rightarrow> False | Some s \<Rightarrow> s \<noteq> [])"

definition or_else :: "string option \<Rightarrow> string option \<Rightarrow> string option" where
  "or_else x y = (if truthy x then x else y)"

definition show_digit :: "nat \<Rightarrow> char" where
  "show_digit n = char_of (48 + n mod 10)"

fun show_nat :: "nat \<Rightarrow> string" where
  "show_nat n = (if n < 10 then [show_digit n] else show_nat (n div 10) @ [show_digit n])"

declare show_nat.simps [simp del]

definition show_int :: "int \<Rightarrow> string" where
  "show_int i = (if i < 0 then ''-'' @ show_nat (nat (- i)) else show_nat (nat i))"

definition dict_set :: "string \<Rightarrow> 'v \<Rightarrow> (string \<times> 'v) list \<Rightarrow> (string \<times> 'v) list" where
  "dict_set k v d =
     (if k \<in> set (map fst d) then map (\<lambda>(a, b). (a, if a = k then v else b)) d else d @ [(k, v)])"

definition dict_merge :: "(string \<times> 'v) list \<Rightarrow> (string \<times> 'v) list \<Rightarrow> (string \<times> 'v) list" where
  "dict_merge d e = fold (\<lambda>(k, v) a. dict_set k v a) e d"

lemma dict_set_get [simp]: "map_of (dict_set k v d) = (map_of d)(k \<mapsto> v)"
proof
  fix x
  let ?d = "map (\<lambda>(a, b). (a, if a = k then v else b)) d"
  have other: "x \<noteq> k \<Longrightarrow> map_of ?d x = map_of d x"
    by (induction d) auto
  have same: "k \<in> fst ` set d \<Longrightarrow> map_of ?d k = Some v"
    by (induction d) (auto simp: image_iff)
  have fresh: "k \<notin> fst ` set d \<Longrightarrow> map_of d k = None"
    by (simp add: map_of_eq_None_iff)
  show "map_of (dict_set k v d) x = ((map_of d)(k \<mapsto> v)) x"
    using other same fresh by (auto simp: dict_set_def map_add_def split: option.split)
qed

section \<open>Computations\<close>

type_synonym ('e, 's, 'a) comp = "'s \<Rightarrow> ('e + 'a) \<times> 's"

definition ret :: "'a \<Rightarrow> ('e, 's, 'a) comp" where
  "ret a = (\<lambda>s. (Inr a, s))"

definition raise :: "'e \<Rightarrow> ('e, 's, 'a) comp" where
  "raise e = (\<lambda>s. (Inl e, s))"

definition ebind :: "('e, 's, 'a) comp \<Rightarrow> ('a \<Rightarrow> ('e, 's, 'b) comp) \<Rightarrow> ('e, 's, 'b) comp" where
  "ebind m f = (\<lambda>s. case m s of (Inl e, t) \<Rightarrow> (Inl e, t) | (Inr a, t) \<Rightarrow> f a t)"

definition ethen :: "('e, 's, 'a) comp \<Rightarrow> ('e, 's, 'b) comp \<Rightarrow> ('e, 's, 'b) comp" where
  "ethen m n = ebind m (\<lambda>_. n)"

definition gets :: "('s \<Rightarrow> 'a) \<Rightarrow> ('e, 's, 'a) comp" where
  "gets f = (\<lambda>s. (Inr (f s), s))"

definition modify :: "('s \<Rightarrow> 's) \<Rightarrow> ('e, 's, unit) comp" where
  "modify f = (\<lambda>s. (Inr (), f s))"

definition raise_if :: "bool \<Rightarrow> 'e \<Rightarrow> ('e, 's, unit) comp" where
  "raise_if b e = (if b then raise e else ret ())"

definition do_when :: "bool \<Rightarrow> ('e, 's, unit) comp \<Rightarrow> ('e, 's, unit) comp" where
  "do_when b m = (if b then m else ret ())"

definition lift_sum :: "'e + 'a \<Rightarrow> ('e, 's, 'a) comp" where
  "lift_sum r = (case r of Inl e \<Rightarrow> raise e | Inr a \<Rightarrow> ret a)"

text \<open>\<open>try\<close>: the handler runs in the state the exception was raised in.\<close>

definition recover :: "('e, 's, 'a) comp \<Rightarrow> ('e \<Rightarrow> ('e, 's, 'a) comp) \<Rightarrow> ('e, 's, 'a) comp" where
  "recover m h = (\<lambda>s. case m s of (Inl e, t) \<Rightarrow> h e t | (Inr a, t) \<Rightarrow> (Inr a, t))"

fun for_each :: "('a \<Rightarrow> ('e, 's, unit) comp) \<Rightarrow> 'a list \<Rightarrow> ('e, 's, unit) comp" where
  "for_each f [] = ret ()"
| "for_each f (x # xs) = ethen (f x) (for_each f xs)"

subsection \<open>Weakest preconditions\<close>

text \<open>\<open>wp m Q E s\<close>: run from \<open>s\<close>, a normal return satisfies \<open>Q\<close> and a raise
  satisfies \<open>E\<close>.  The rules below compute it by rewriting.\<close>

definition wp :: "('e, 's, 'a) comp \<Rightarrow> ('a \<Rightarrow> 's \<Rightarrow> bool) \<Rightarrow> ('e \<Rightarrow> 's \<Rightarrow> bool) \<Rightarrow> 's \<Rightarrow> bool" where
  "wp m Q E s = (case m s of (Inl e, t) \<Rightarrow> E e t | (Inr a, t) \<Rightarrow> Q a t)"

lemma wp_ret [wp_simps]: "wp (ret a) Q E s = Q a s"
  by (simp add: wp_def ret_def)

lemma wp_raise [wp_simps]: "wp (raise e) Q E s = E e s"
  by (simp add: wp_def raise_def)

lemma wp_ebind [wp_simps]: "wp (ebind m f) Q E s = wp m (\<lambda>a. wp (f a) Q E) E s"
  by (simp add: wp_def ebind_def split: sum.splits prod.splits)

lemma wp_ethen [wp_simps]: "wp (ethen m n) Q E s = wp m (\<lambda>_. wp n Q E) E s"
  by (simp add: ethen_def wp_ebind)

lemma wp_gets [wp_simps]: "wp (gets f) Q E s = Q (f s) s"
  by (simp add: wp_def gets_def)

lemma wp_modify [wp_simps]: "wp (modify f) Q E s = Q () (f s)"
  by (simp add: wp_def modify_def)

lemma wp_raise_if [wp_simps]: "wp (raise_if b e) Q E s = (if b then E e s else Q () s)"
  by (simp add: raise_if_def wp_ret wp_raise)

lemma wp_do_when [wp_simps]: "wp (do_when b m) Q E s = (if b then wp m Q E s else Q () s)"
  by (simp add: do_when_def wp_ret)

lemma wp_if [wp_simps]: "wp (if b then m else n) Q E s = (if b then wp m Q E s else wp n Q E s)"
  by simp

lemma wp_let [wp_simps]: "wp (let x = v in m x) Q E s = wp (m v) Q E s"
  by simp

lemma wp_case_option [wp_simps]:
  "wp (case x of None \<Rightarrow> m | Some y \<Rightarrow> f y) Q E s
   = (case x of None \<Rightarrow> wp m Q E s | Some y \<Rightarrow> wp (f y) Q E s)"
  by (simp split: option.splits)

lemma wp_case_prod [wp_simps]: "wp (case p of (x, y) \<Rightarrow> f x y) Q E s = (case p of (x, y) \<Rightarrow> wp (f x y) Q E s)"
  by (simp split: prod.splits)

lemma wp_lift_sum [wp_simps]: "wp (lift_sum r) Q E s = (case r of Inl e \<Rightarrow> E e s | Inr a \<Rightarrow> Q a s)"
  by (simp add: lift_sum_def wp_ret wp_raise split: sum.splits)

lemma wp_recover [wp_simps]: "wp (recover m h) Q E s = wp m Q (\<lambda>e. wp (h e) Q E) s"
  by (simp add: wp_def recover_def split: sum.splits prod.splits)

lemma wp_mono:
  assumes "wp m Q E s"
    and "\<And>a t. Q a t \<Longrightarrow> Q' a t"
    and "\<And>e t. E e t \<Longrightarrow> E' e t"
  shows "wp m Q' E' s"
  using assms by (auto simp: wp_def split: sum.splits prod.splits)

lemma wp_conj: "wp m Q E s \<Longrightarrow> wp m Q' E' s \<Longrightarrow> wp m (\<lambda>a t. Q a t \<and> Q' a t) (\<lambda>e t. E e t \<and> E' e t) s"
  by (auto simp: wp_def split: sum.splits prod.splits)

lemma wp_Inr: "wp m Q E s \<Longrightarrow> m s = (Inr a, t) \<Longrightarrow> Q a t"
  by (simp add: wp_def)

lemma wp_Inl: "wp m Q E s \<Longrightarrow> m s = (Inl e, t) \<Longrightarrow> E e t"
  by (simp add: wp_def)

lemma wp_snd: "wp m (\<lambda>_. I) (\<lambda>_. I) s \<Longrightarrow> I (snd (m s))"
  by (auto simp: wp_def split: sum.splits prod.splits)

lemma snd_wp: "I (snd (m s)) \<Longrightarrow> wp m (\<lambda>_. I) (\<lambda>_. I) s"
  by (auto simp: wp_def split: sum.splits prod.splits)

lemma wp_exec: "wp m (\<lambda>a t. r = (Inr a, t)) (\<lambda>e t. r = (Inl e, t)) s \<longleftrightarrow> m s = r"
proof (cases "m s")
  case (Pair x t)
  then show ?thesis by (cases x) (auto simp: wp_def)
qed

lemma wp_only_raises: "wp m (\<lambda>_ _. False) E s \<Longrightarrow> \<exists>e t. m s = (Inl e, t) \<and> E e t"
  by (cases "m s"; cases "fst (m s)") (auto simp: wp_def)

lemma wp_only_returns: "wp m Q (\<lambda>_ _. False) s \<Longrightarrow> \<exists>a t. m s = (Inr a, t) \<and> Q a t"
  by (cases "m s"; cases "fst (m s)") (auto simp: wp_def)

lemma wp_for_each:
  assumes "\<And>x t. x \<in> set xs \<Longrightarrow> I t \<Longrightarrow> wp (f x) (\<lambda>_. I) (\<lambda>_. I) t" and "I s"
  shows "wp (for_each f xs) (\<lambda>_. I) (\<lambda>_. I) s"
  using assms
proof (induction xs arbitrary: s)
  case Nil
  then show ?case by (simp add: wp_simps)
next
  case (Cons x xs)
  have "wp (f x) (\<lambda>_. I) (\<lambda>_. I) s" using Cons.prems by simp
  then show ?case
    by (auto simp: wp_simps intro!: Cons.IH Cons.prems elim!: wp_mono)
qed

lemma ebind_Inr_iff:
  "ebind m f s = (Inr b, t) \<longleftrightarrow> (\<exists>a u. m s = (Inr a, u) \<and> f a u = (Inr b, t))"
  by (auto simp: ebind_def split: sum.splits prod.splits)

lemma ebind_Inl_iff:
  "ebind m f s = (Inl e, t) \<longleftrightarrow>
   m s = (Inl e, t) \<or> (\<exists>a u. m s = (Inr a, u) \<and> f a u = (Inl e, t))"
  by (auto simp: ebind_def split: sum.splits prod.splits)

subsection \<open>Reads\<close>

text \<open>A computation that only reads, whether it returns or raises.\<close>

named_theorems reads_intros \<open>computations that leave the state alone\<close>

definition reads :: "('e, 's, 'a) comp \<Rightarrow> bool" where
  "reads m = (\<forall>s. snd (m s) = s)"

lemma reads_ret [reads_intros]: "reads (ret a)"
  by (simp add: reads_def ret_def)

lemma reads_raise [reads_intros]: "reads (raise e)"
  by (simp add: reads_def raise_def)

lemma reads_gets [reads_intros]: "reads (gets f)"
  by (simp add: reads_def gets_def)

lemma reads_ebind [reads_intros]: "reads m \<Longrightarrow> (\<And>a. reads (f a)) \<Longrightarrow> reads (ebind m f)"
  unfolding reads_def ebind_def by (auto split: sum.splits prod.splits) (metis snd_conv)+

lemma reads_ethen [reads_intros]: "reads m \<Longrightarrow> reads n \<Longrightarrow> reads (ethen m n)"
  unfolding ethen_def by (rule reads_ebind)

lemma reads_raise_if [reads_intros]: "reads (raise_if b e)"
  by (simp add: raise_if_def reads_ret reads_raise)

lemma reads_lift_sum [reads_intros]: "reads (lift_sum r)"
  by (simp add: lift_sum_def reads_ret reads_raise split: sum.split)

lemma reads_if [reads_intros]: "reads m \<Longrightarrow> reads n \<Longrightarrow> reads (if b then m else n)"
  by simp

lemma reads_let [reads_intros]: "reads (f v) \<Longrightarrow> reads (let x = v in f x)"
  by simp

lemma reads_option [reads_intros]:
  "reads m \<Longrightarrow> (\<And>y. reads (f y)) \<Longrightarrow> reads (case x of None \<Rightarrow> m | Some y \<Rightarrow> f y)"
  by (simp split: option.split)

lemma reads_prod [reads_intros]: "(\<And>x y. reads (f x y)) \<Longrightarrow> reads (case p of (x, y) \<Rightarrow> f x y)"
  by (simp split: prod.split)

lemma wp_reads:
  assumes "reads m"
    and "\<And>a. m s = (Inr a, s) \<Longrightarrow> Q a s" and "\<And>e. m s = (Inl e, s) \<Longrightarrow> E e s"
  shows "wp m Q E s"
proof (cases "m s")
  case (Pair x t)
  then have "t = s" using assms(1) by (metis reads_def snd_conv)
  then show ?thesis using Pair assms(2,3) by (cases x) (simp_all add: wp_def)
qed

subsection \<open>Invariants\<close>

text \<open>\<open>keeps I m\<close>: the computation preserves the state predicate, whether it returns or raises.\<close>

named_theorems keeps_intros \<open>computations that keep an invariant\<close>

definition keeps :: "('s \<Rightarrow> bool) \<Rightarrow> ('e, 's, 'a) comp \<Rightarrow> bool" where
  "keeps I m = (\<forall>s. I s \<longrightarrow> I (snd (m s)))"

lemma keepsI: "(\<And>s. I s \<Longrightarrow> wp m (\<lambda>_. I) (\<lambda>_. I) s) \<Longrightarrow> keeps I m"
  by (simp add: keeps_def wp_snd)

lemma keepsD: "keeps I m \<Longrightarrow> I s \<Longrightarrow> wp m (\<lambda>_. I) (\<lambda>_. I) s"
  by (simp add: keeps_def snd_wp)

lemma keeps_reads: "reads m \<Longrightarrow> keeps I m"
  by (simp add: keeps_def reads_def)

lemma keeps_ebind [keeps_intros]: "keeps I m \<Longrightarrow> (\<And>a. keeps I (f a)) \<Longrightarrow> keeps I (ebind m f)"
  unfolding keeps_def ebind_def by (auto split: sum.splits prod.splits)

lemma keeps_ethen [keeps_intros]: "keeps I m \<Longrightarrow> keeps I n \<Longrightarrow> keeps I (ethen m n)"
  unfolding ethen_def by (rule keeps_ebind)

lemma keeps_if [keeps_intros]: "keeps I m \<Longrightarrow> keeps I n \<Longrightarrow> keeps I (if b then m else n)"
  by simp

lemma keeps_let [keeps_intros]: "keeps I (f v) \<Longrightarrow> keeps I (let x = v in f x)"
  by simp

lemma keeps_option [keeps_intros]:
  "keeps I m \<Longrightarrow> (\<And>y. keeps I (g y)) \<Longrightarrow> keeps I (case x of None \<Rightarrow> m | Some y \<Rightarrow> g y)"
  by (simp split: option.split)

lemma keeps_prod [keeps_intros]: "(\<And>x y. keeps I (g x y)) \<Longrightarrow> keeps I (case p of (x, y) \<Rightarrow> g x y)"
  by (simp split: prod.split)

lemmas keeps_basic_reads [keeps_intros] =
  reads_ret [THEN keeps_reads] reads_raise [THEN keeps_reads] reads_gets [THEN keeps_reads]
  reads_raise_if [THEN keeps_reads] reads_lift_sum [THEN keeps_reads]

lemma wp_keeps_bind:
  assumes "keeps I m" and "I s" and "\<And>a t. I t \<Longrightarrow> m s = (Inr a, t) \<Longrightarrow> wp (f a) (\<lambda>_. I) (\<lambda>_. I) t"
  shows "wp (ebind m f) (\<lambda>_. I) (\<lambda>_. I) s"
proof (cases "m s")
  case (Pair x t)
  have "I t" using assms(1,2) Pair by (metis keeps_def snd_conv)
  then show ?thesis using assms(3) Pair by (cases x) (simp_all add: wp_def ebind_def)
qed

subsection \<open>Frames\<close>

text \<open>What a computation may do to the state, as a relation between the state before and after:
  \<open>R\<close> when it returns, \<open>E\<close> when it raises.  Relations that compose give rules for every
  construct of the language, stated once here for any such pair.\<close>

named_theorems frame_intros \<open>computations that stay inside a frame\<close>

definition inside :: "('s \<Rightarrow> 's \<Rightarrow> bool) \<Rightarrow> ('s \<Rightarrow> 's \<Rightarrow> bool) \<Rightarrow> ('e, 's, 'a) comp \<Rightarrow> bool" where
  "inside R E m = (\<forall>s. wp m (\<lambda>_. R s) (\<lambda>_. E s) s)"

lemma insideD: "inside R E m \<Longrightarrow> wp m (\<lambda>_. R s) (\<lambda>_. E s) s"
  by (simp add: inside_def)

locale frame =
  fixes R E :: "'s \<Rightarrow> 's \<Rightarrow> bool"
  assumes refl: "R s s" and trans: "R s t \<Longrightarrow> R t u \<Longrightarrow> R s u"
    and raised: "R s t \<Longrightarrow> E s t" and late: "R s t \<Longrightarrow> E t u \<Longrightarrow> E s u"
begin

lemma inside_reads: "reads m \<Longrightarrow> inside R E m"
  unfolding inside_def by (intro allI wp_reads) (simp_all add: refl raised)

lemma inside_ebind [frame_intros]:
  assumes "inside R E m" and "\<And>a. inside R E (f a)"
  shows "inside R E (ebind m f)"
  unfolding inside_def wp_ebind
proof
  fix s
  show "wp m (\<lambda>a. wp (f a) (\<lambda>_. R s) (\<lambda>_. E s)) (\<lambda>_. E s) s"
  proof (rule wp_mono [OF insideD [OF assms(1)]])
    fix a t assume "R s t"
    then show "wp (f a) (\<lambda>_. R s) (\<lambda>_. E s) t"
      using wp_mono [OF insideD [OF assms(2), of a t], of "\<lambda>_. R s" "\<lambda>_. E s"] trans late by blast
  qed
qed

lemma inside_ethen [frame_intros]: "inside R E m \<Longrightarrow> inside R E n \<Longrightarrow> inside R E (ethen m n)"
  unfolding ethen_def by (rule inside_ebind)

lemma inside_for_each [frame_intros]: "(\<And>x. inside R E (f x)) \<Longrightarrow> inside R E (for_each f xs)"
  by (induction xs) (auto intro: inside_ethen inside_reads reads_ret)

lemma inside_modify [frame_intros]: "(\<And>s. R s (g s)) \<Longrightarrow> inside R E (modify g)"
  by (simp add: inside_def wp_modify)

lemmas inside_basic [frame_intros] =
  reads_ret [THEN inside_reads] reads_raise [THEN inside_reads] reads_gets [THEN inside_reads]
  reads_raise_if [THEN inside_reads] reads_lift_sum [THEN inside_reads]

end

lemma inside_if [frame_intros]: "inside R E m \<Longrightarrow> inside R E n \<Longrightarrow> inside R E (if b then m else n)"
  by simp

lemma inside_let [frame_intros]: "inside R E (f v) \<Longrightarrow> inside R E (let x = v in f x)"
  by simp

lemma inside_option [frame_intros]:
  "inside R E m \<Longrightarrow> (\<And>y. inside R E (g y)) \<Longrightarrow> inside R E (case x of None \<Rightarrow> m | Some y \<Rightarrow> g y)"
  by (simp split: option.split)

lemma inside_prod [frame_intros]: "(\<And>x y. inside R E (g x y)) \<Longrightarrow> inside R E (case p of (x, y) \<Rightarrow> g x y)"
  by (simp split: prod.split)

lemma inside_list [frame_intros]:
  "inside R E m \<Longrightarrow> (\<And>y ys. inside R E (g y ys)) \<Longrightarrow> inside R E (case xs of [] \<Rightarrow> m | y # ys \<Rightarrow> g y ys)"
  by (simp split: list.split)

lemmas comp_defs = ret_def raise_def ebind_def ethen_def gets_def modify_def raise_if_def
  do_when_def lift_sum_def

section \<open>Tables\<close>

text \<open>A table is the list of its rows in insertion order; \<open>k\<close> reads a row's primary key.\<close>

definition row_find :: "('r \<Rightarrow> 'k) \<Rightarrow> 'k \<Rightarrow> 'r list \<Rightarrow> 'r option" where
  "row_find k i rows = find (\<lambda>r. k r = i) rows"

definition row_put :: "('r \<Rightarrow> 'k) \<Rightarrow> 'r \<Rightarrow> 'r list \<Rightarrow> 'r list" where
  "row_put k r rows = map (\<lambda>x. if k x = k r then r else x) rows"

definition row_drop :: "('r \<Rightarrow> 'k) \<Rightarrow> 'k \<Rightarrow> 'r list \<Rightarrow> 'r list" where
  "row_drop k i rows = filter (\<lambda>r. k r \<noteq> i) rows"

lemma row_find_Some: "row_find k i rows = Some r \<Longrightarrow> r \<in> set rows \<and> k r = i"
  by (auto simp: row_find_def find_Some_iff)

lemma row_find_None: "row_find k i rows = None \<longleftrightarrow> (\<forall>r\<in>set rows. k r \<noteq> i)"
  by (auto simp: row_find_def find_None_iff)

lemma row_find_unique:
  "distinct (map k rows) \<Longrightarrow> r \<in> set rows \<Longrightarrow> row_find k (k r) rows = Some r"
  by (induction rows) (auto simp: row_find_def)

lemma row_put_keys [simp]: "map k (row_put k r rows) = map k rows"
  by (simp add: row_put_def)

lemma row_put_length [simp]: "length (row_put k r rows) = length rows"
  by (simp add: row_put_def)

lemma row_put_set: "x \<in> set (row_put k r rows) \<Longrightarrow> x = r \<or> (x \<in> set rows \<and> k x \<noteq> k r)"
  by (auto simp: row_put_def)

lemma row_put_mem: "y \<in> set rows \<Longrightarrow> k y = k r \<Longrightarrow> r \<in> set (row_put k r rows)"
  by (force simp: row_put_def)

lemma row_put_other: "x \<in> set rows \<Longrightarrow> k x \<noteq> k r \<Longrightarrow> x \<in> set (row_put k r rows)"
  by (force simp: row_put_def)

lemma unique_row:
  assumes "distinct (map k rows)" and "r \<in> set rows"
  shows "filter (\<lambda>x. k x = k r) rows = [r]"
  using assms by (induction rows) (auto simp: filter_empty_conv, metis imageI)

lemma row_find_put [row_simps]:
  "row_find k i (row_put k r rows) =
   (if i = k r then (if row_find k i rows = None then None else Some r) else row_find k i rows)"
  by (induction rows) (auto simp: row_find_def row_put_def)

lemma row_find_append [row_simps]:
  "row_find k i (rows @ [r]) = (case row_find k i rows of None \<Rightarrow> if k r = i then Some r else None | Some x \<Rightarrow> Some x)"
  by (induction rows) (auto simp: row_find_def)

lemma row_find_drop [row_simps]:
  "row_find k i (row_drop k j rows) = (if i = j then None else row_find k i rows)"
  by (induction rows) (auto simp: row_find_def row_drop_def)

lemma row_drop_set: "set (row_drop k i rows) \<subseteq> set rows"
  by (auto simp: row_drop_def)

lemma row_drop_keys: "distinct (map k rows) \<Longrightarrow> distinct (map k (row_drop k i rows))"
  by (simp add: row_drop_def distinct_map_filter)

section \<open>Blanks\<close>

text \<open>\<open>str.strip\<close>.\<close>

definition is_blank :: "char \<Rightarrow> bool" where
  "is_blank c = (let n = (of_char c :: nat) in (9 \<le> n \<and> n \<le> 13) \<or> (28 \<le> n \<and> n \<le> 32))"

definition str_strip :: "string \<Rightarrow> string" where
  "str_strip s = rev (dropWhile is_blank (rev (dropWhile is_blank s)))"

section \<open>Partial updates\<close>

text \<open>
  The partial update every domain service performs field by field:
  \<open>if value is not None and value != getattr(row, field): setattr(...); changed.append(field)\<close>.
  A patch is a function on the row and the list of changed fields, so an update is a chain of them.
\<close>

definition edit_field ::
  "string \<Rightarrow> 'v option \<Rightarrow> ('r \<Rightarrow> 'v \<Rightarrow> bool) \<Rightarrow> ('v \<Rightarrow> 'r \<Rightarrow> 'r) \<Rightarrow> 'r \<times> string list \<Rightarrow> 'r \<times> string list" where
  "edit_field field x same put rc =
     (case x of
        None \<Rightarrow> rc
      | Some v \<Rightarrow> if same (fst rc) v then rc else (put v (fst rc), snd rc @ [field]))"

text \<open>A column no setter of the chain touches stays as it was.\<close>

lemma edit_field_frame:
  "(\<And>v r. f (put v r) = f r) \<Longrightarrow> f (fst (edit_field field x same put rc)) = f (fst rc)"
  by (auto simp: edit_field_def split: option.split)

lemma edit_field_none [simp]: "edit_field field None same put rc = rc"
  by (simp add: edit_field_def)

lemma edit_field_sets:
  assumes "\<And>r v. same r v \<longleftrightarrow> get r = v" and "\<And>v r. get (put v r) = v"
  shows "get (fst (edit_field field (Some v) same put rc)) = v"
  using assms by (simp add: edit_field_def)

end
