(* ===== verification/Enums.thy ===== *)
theory Enums
  imports Prelude
begin

text \<open>
  The domain enumerations of \<open>core/enums.py\<close>: one datatype per \<open>DomainEnum\<close>, its
  members in source order and the text each member is stored as.  A constructor is the
  source's member name behind a short prefix of its class, so that \<open>READY\<close> of a
  submission (\<open>S_READY\<close>, the alias \<open>S\<close> of the source) and of an opportunity
  (\<open>O_READY\<close>) stay apart.  The locale \<open>text_enum\<close> is the contract every one of them
  keeps: members are stored under different texts, so reading a column back is exact.
\<close>

section \<open>The contract of a text-coded enumeration\<close>

definition enum_values :: "'a list \<Rightarrow> ('a \<Rightarrow> string) \<Rightarrow> string list" where
  "enum_values ms v = map v ms"

definition enum_parse :: "'a list \<Rightarrow> ('a \<Rightarrow> string) \<Rightarrow> string \<Rightarrow> 'a option" where
  "enum_parse ms v t = find (\<lambda>m. v m = t) ms"

definition enum_check :: "'a list \<Rightarrow> ('a \<Rightarrow> string) \<Rightarrow> string \<Rightarrow> bool" where
  "enum_check ms v t = (t \<in> set (enum_values ms v))"

fun join_with :: "string \<Rightarrow> string list \<Rightarrow> string" where
  "join_with sep [] = []"
| "join_with sep [x] = x"
| "join_with sep (x # y # xs) = x @ sep @ join_with sep (y # xs)"

definition check_constraint :: "'a list \<Rightarrow> ('a \<Rightarrow> string) \<Rightarrow> string \<Rightarrow> string" where
  "check_constraint ms v column =
     column @ '' IN ('' @ join_with '', '' (map (\<lambda>t. [CHR 0x27] @ t @ [CHR 0x27]) (enum_values ms v)) @ '')''"

locale text_enum =
  fixes members :: "'a list" and val :: "'a \<Rightarrow> string"
  assumes complete: "m \<in> set members"
    and distinct_values: "distinct (map val members)"
begin

lemma val_inj: "val a = val b \<longleftrightarrow> a = b"
  using complete distinct_values by (metis distinct_map inj_on_def)

lemma parse_value: "enum_parse members val (val m) = Some m"
  using complete [of m] unfolding enum_parse_def val_inj
  by (induction members) auto

lemma parse_Some: "enum_parse members val t = Some m \<longleftrightarrow> t = val m"
  using parse_value by (auto simp: enum_parse_def find_Some_iff)

lemma check_iff_parse: "enum_check members val t \<longleftrightarrow> enum_parse members val t \<noteq> None"
  by (auto simp: enum_check_def enum_values_def enum_parse_def find_None_iff)

lemma check_value: "enum_check members val (val m)"
  using check_iff_parse parse_value by simp

end

section \<open>The enumerations\<close>

subsection \<open>\<open>TenantStatus\<close>\<close>

datatype tenant_status =
    T_ACTIVE | T_SUSPENDED | T_ARCHIVED

primrec tenant_status_value :: "tenant_status \<Rightarrow> string" where
  "tenant_status_value T_ACTIVE = ''ACTIVE''"
| "tenant_status_value T_SUSPENDED = ''SUSPENDED''"
| "tenant_status_value T_ARCHIVED = ''ARCHIVED''"

definition tenant_status_members :: "tenant_status list" where
  "tenant_status_members =
     [T_ACTIVE, T_SUSPENDED, T_ARCHIVED]"

interpretation tenant_status_enum: text_enum tenant_status_members tenant_status_value
proof
  show "m \<in> set tenant_status_members" for m
    by (cases m) (simp_all add: tenant_status_members_def)
qed (simp add: tenant_status_members_def)

subsection \<open>\<open>MembershipStatus\<close>\<close>

datatype membership_status =
    M_ACTIVE | M_INVITED | M_SUSPENDED | M_REMOVED

primrec membership_status_value :: "membership_status \<Rightarrow> string" where
  "membership_status_value M_ACTIVE = ''ACTIVE''"
| "membership_status_value M_INVITED = ''INVITED''"
| "membership_status_value M_SUSPENDED = ''SUSPENDED''"
| "membership_status_value M_REMOVED = ''REMOVED''"

definition membership_status_members :: "membership_status list" where
  "membership_status_members =
     [M_ACTIVE, M_INVITED, M_SUSPENDED, M_REMOVED]"

interpretation membership_status_enum: text_enum membership_status_members membership_status_value
proof
  show "m \<in> set membership_status_members" for m
    by (cases m) (simp_all add: membership_status_members_def)
qed (simp add: membership_status_members_def)

subsection \<open>\<open>SystemRoleSlug\<close>\<close>

datatype system_role_slug =
    R_OWNER | R_ADMIN | R_SEO_MANAGER | R_SEO_SPECIALIST | R_VIEWER

primrec system_role_slug_value :: "system_role_slug \<Rightarrow> string" where
  "system_role_slug_value R_OWNER = ''owner''"
| "system_role_slug_value R_ADMIN = ''admin''"
| "system_role_slug_value R_SEO_MANAGER = ''seo_manager''"
| "system_role_slug_value R_SEO_SPECIALIST = ''seo_specialist''"
| "system_role_slug_value R_VIEWER = ''viewer''"

definition system_role_slug_members :: "system_role_slug list" where
  "system_role_slug_members =
     [R_OWNER, R_ADMIN, R_SEO_MANAGER, R_SEO_SPECIALIST, R_VIEWER]"

interpretation system_role_slug_enum: text_enum system_role_slug_members system_role_slug_value
proof
  show "m \<in> set system_role_slug_members" for m
    by (cases m) (simp_all add: system_role_slug_members_def)
qed (simp add: system_role_slug_members_def)

subsection \<open>\<open>ClientWebsiteStatus\<close>\<close>

datatype client_website_status =
    W_ACTIVE | W_PAUSED | W_ARCHIVED

primrec client_website_status_value :: "client_website_status \<Rightarrow> string" where
  "client_website_status_value W_ACTIVE = ''ACTIVE''"
| "client_website_status_value W_PAUSED = ''PAUSED''"
| "client_website_status_value W_ARCHIVED = ''ARCHIVED''"

definition client_website_status_members :: "client_website_status list" where
  "client_website_status_members =
     [W_ACTIVE, W_PAUSED, W_ARCHIVED]"

interpretation client_website_status_enum: text_enum client_website_status_members client_website_status_value
proof
  show "m \<in> set client_website_status_members" for m
    by (cases m) (simp_all add: client_website_status_members_def)
qed (simp add: client_website_status_members_def)

subsection \<open>\<open>CampaignStatus\<close>\<close>

datatype campaign_status =
    C_DRAFT | C_ACTIVE | C_PAUSED | C_COMPLETED | C_ARCHIVED

primrec campaign_status_value :: "campaign_status \<Rightarrow> string" where
  "campaign_status_value C_DRAFT = ''DRAFT''"
| "campaign_status_value C_ACTIVE = ''ACTIVE''"
| "campaign_status_value C_PAUSED = ''PAUSED''"
| "campaign_status_value C_COMPLETED = ''COMPLETED''"
| "campaign_status_value C_ARCHIVED = ''ARCHIVED''"

definition campaign_status_members :: "campaign_status list" where
  "campaign_status_members =
     [C_DRAFT, C_ACTIVE, C_PAUSED, C_COMPLETED, C_ARCHIVED]"

interpretation campaign_status_enum: text_enum campaign_status_members campaign_status_value
proof
  show "m \<in> set campaign_status_members" for m
    by (cases m) (simp_all add: campaign_status_members_def)
qed (simp add: campaign_status_members_def)

subsection \<open>\<open>PricingType\<close>\<close>

datatype pricing_type =
    Pr_FREE | Pr_PAID | Pr_MIXED | Pr_UNKNOWN

primrec pricing_type_value :: "pricing_type \<Rightarrow> string" where
  "pricing_type_value Pr_FREE = ''FREE''"
| "pricing_type_value Pr_PAID = ''PAID''"
| "pricing_type_value Pr_MIXED = ''MIXED''"
| "pricing_type_value Pr_UNKNOWN = ''UNKNOWN''"

definition pricing_type_members :: "pricing_type list" where
  "pricing_type_members =
     [Pr_FREE, Pr_PAID, Pr_MIXED, Pr_UNKNOWN]"

interpretation pricing_type_enum: text_enum pricing_type_members pricing_type_value
proof
  show "m \<in> set pricing_type_members" for m
    by (cases m) (simp_all add: pricing_type_members_def)
qed (simp add: pricing_type_members_def)

subsection \<open>\<open>PublisherStatus\<close>\<close>

datatype publisher_status =
    Pb_DISCOVERED | Pb_QUALIFYING | Pb_QUALIFIED | Pb_REJECTED | Pb_BLOCKED | Pb_ARCHIVED

primrec publisher_status_value :: "publisher_status \<Rightarrow> string" where
  "publisher_status_value Pb_DISCOVERED = ''DISCOVERED''"
| "publisher_status_value Pb_QUALIFYING = ''QUALIFYING''"
| "publisher_status_value Pb_QUALIFIED = ''QUALIFIED''"
| "publisher_status_value Pb_REJECTED = ''REJECTED''"
| "publisher_status_value Pb_BLOCKED = ''BLOCKED''"
| "publisher_status_value Pb_ARCHIVED = ''ARCHIVED''"

definition publisher_status_members :: "publisher_status list" where
  "publisher_status_members =
     [Pb_DISCOVERED, Pb_QUALIFYING, Pb_QUALIFIED, Pb_REJECTED, Pb_BLOCKED, Pb_ARCHIVED]"

interpretation publisher_status_enum: text_enum publisher_status_members publisher_status_value
proof
  show "m \<in> set publisher_status_members" for m
    by (cases m) (simp_all add: publisher_status_members_def)
qed (simp add: publisher_status_members_def)

subsection \<open>\<open>SubmissionMethod\<close>\<close>

datatype submission_method =
    Me_MANUAL | Me_FORM | Me_EMAIL | Me_API | Me_ACCOUNT_REQUIRED | Me_UNKNOWN

primrec submission_method_value :: "submission_method \<Rightarrow> string" where
  "submission_method_value Me_MANUAL = ''MANUAL''"
| "submission_method_value Me_FORM = ''FORM''"
| "submission_method_value Me_EMAIL = ''EMAIL''"
| "submission_method_value Me_API = ''API''"
| "submission_method_value Me_ACCOUNT_REQUIRED = ''ACCOUNT_REQUIRED''"
| "submission_method_value Me_UNKNOWN = ''UNKNOWN''"

definition submission_method_members :: "submission_method list" where
  "submission_method_members =
     [Me_MANUAL, Me_FORM, Me_EMAIL, Me_API, Me_ACCOUNT_REQUIRED, Me_UNKNOWN]"

interpretation submission_method_enum: text_enum submission_method_members submission_method_value
proof
  show "m \<in> set submission_method_members" for m
    by (cases m) (simp_all add: submission_method_members_def)
qed (simp add: submission_method_members_def)

subsection \<open>\<open>LinkType\<close>\<close>

datatype link_type =
    Li_DOFOLLOW | Li_NOFOLLOW | Li_MIXED | Li_UNKNOWN

primrec link_type_value :: "link_type \<Rightarrow> string" where
  "link_type_value Li_DOFOLLOW = ''DOFOLLOW''"
| "link_type_value Li_NOFOLLOW = ''NOFOLLOW''"
| "link_type_value Li_MIXED = ''MIXED''"
| "link_type_value Li_UNKNOWN = ''UNKNOWN''"

definition link_type_members :: "link_type list" where
  "link_type_members =
     [Li_DOFOLLOW, Li_NOFOLLOW, Li_MIXED, Li_UNKNOWN]"

interpretation link_type_enum: text_enum link_type_members link_type_value
proof
  show "m \<in> set link_type_members" for m
    by (cases m) (simp_all add: link_type_members_def)
qed (simp add: link_type_members_def)

subsection \<open>\<open>PublisherCategory\<close>\<close>

datatype publisher_category =
    Ca_BUSINESS_DIRECTORY | Ca_LOCAL_DIRECTORY | Ca_COMPANY_LISTING | Ca_STARTUP_DIRECTORY
    | Ca_SOFTWARE_DIRECTORY | Ca_INDUSTRY_DIRECTORY | Ca_ORGANIZATION_LISTING
    | Ca_PROFILE_LISTING | Ca_REVIEW_PLATFORM | Ca_EVENT_LISTING | Ca_JOB_BOARD | Ca_OTHER

primrec publisher_category_value :: "publisher_category \<Rightarrow> string" where
  "publisher_category_value Ca_BUSINESS_DIRECTORY = ''BUSINESS_DIRECTORY''"
| "publisher_category_value Ca_LOCAL_DIRECTORY = ''LOCAL_DIRECTORY''"
| "publisher_category_value Ca_COMPANY_LISTING = ''COMPANY_LISTING''"
| "publisher_category_value Ca_STARTUP_DIRECTORY = ''STARTUP_DIRECTORY''"
| "publisher_category_value Ca_SOFTWARE_DIRECTORY = ''SOFTWARE_DIRECTORY''"
| "publisher_category_value Ca_INDUSTRY_DIRECTORY = ''INDUSTRY_DIRECTORY''"
| "publisher_category_value Ca_ORGANIZATION_LISTING = ''ORGANIZATION_LISTING''"
| "publisher_category_value Ca_PROFILE_LISTING = ''PROFILE_LISTING''"
| "publisher_category_value Ca_REVIEW_PLATFORM = ''REVIEW_PLATFORM''"
| "publisher_category_value Ca_EVENT_LISTING = ''EVENT_LISTING''"
| "publisher_category_value Ca_JOB_BOARD = ''JOB_BOARD''"
| "publisher_category_value Ca_OTHER = ''OTHER''"

definition publisher_category_members :: "publisher_category list" where
  "publisher_category_members =
     [Ca_BUSINESS_DIRECTORY, Ca_LOCAL_DIRECTORY, Ca_COMPANY_LISTING, Ca_STARTUP_DIRECTORY
     , Ca_SOFTWARE_DIRECTORY, Ca_INDUSTRY_DIRECTORY, Ca_ORGANIZATION_LISTING
     , Ca_PROFILE_LISTING, Ca_REVIEW_PLATFORM, Ca_EVENT_LISTING, Ca_JOB_BOARD, Ca_OTHER]"

interpretation publisher_category_enum: text_enum publisher_category_members publisher_category_value
proof
  show "m \<in> set publisher_category_members" for m
    by (cases m) (simp_all add: publisher_category_members_def)
qed (simp add: publisher_category_members_def)

subsection \<open>\<open>DiscoveryRunStatus\<close>\<close>

datatype discovery_run_status =
    D_PENDING | D_RUNNING | D_COMPLETED | D_FAILED

primrec discovery_run_status_value :: "discovery_run_status \<Rightarrow> string" where
  "discovery_run_status_value D_PENDING = ''PENDING''"
| "discovery_run_status_value D_RUNNING = ''RUNNING''"
| "discovery_run_status_value D_COMPLETED = ''COMPLETED''"
| "discovery_run_status_value D_FAILED = ''FAILED''"

definition discovery_run_status_members :: "discovery_run_status list" where
  "discovery_run_status_members =
     [D_PENDING, D_RUNNING, D_COMPLETED, D_FAILED]"

interpretation discovery_run_status_enum: text_enum discovery_run_status_members discovery_run_status_value
proof
  show "m \<in> set discovery_run_status_members" for m
    by (cases m) (simp_all add: discovery_run_status_members_def)
qed (simp add: discovery_run_status_members_def)

subsection \<open>\<open>OpportunityType\<close>\<close>

datatype opportunity_type =
    OT_FREE_DIRECTORY_LISTING | OT_FREE_LOCAL_LISTING | OT_FREE_COMPANY_PROFILE
    | OT_FREE_STARTUP_LISTING | OT_FREE_SOFTWARE_LISTING | OT_FREE_INDUSTRY_LISTING
    | OT_FREE_ORGANIZATION_LISTING | OT_FREE_PROFILE_LISTING

primrec opportunity_type_value :: "opportunity_type \<Rightarrow> string" where
  "opportunity_type_value OT_FREE_DIRECTORY_LISTING = ''FREE_DIRECTORY_LISTING''"
| "opportunity_type_value OT_FREE_LOCAL_LISTING = ''FREE_LOCAL_LISTING''"
| "opportunity_type_value OT_FREE_COMPANY_PROFILE = ''FREE_COMPANY_PROFILE''"
| "opportunity_type_value OT_FREE_STARTUP_LISTING = ''FREE_STARTUP_LISTING''"
| "opportunity_type_value OT_FREE_SOFTWARE_LISTING = ''FREE_SOFTWARE_LISTING''"
| "opportunity_type_value OT_FREE_INDUSTRY_LISTING = ''FREE_INDUSTRY_LISTING''"
| "opportunity_type_value OT_FREE_ORGANIZATION_LISTING = ''FREE_ORGANIZATION_LISTING''"
| "opportunity_type_value OT_FREE_PROFILE_LISTING = ''FREE_PROFILE_LISTING''"

definition opportunity_type_members :: "opportunity_type list" where
  "opportunity_type_members =
     [OT_FREE_DIRECTORY_LISTING, OT_FREE_LOCAL_LISTING, OT_FREE_COMPANY_PROFILE
     , OT_FREE_STARTUP_LISTING, OT_FREE_SOFTWARE_LISTING, OT_FREE_INDUSTRY_LISTING
     , OT_FREE_ORGANIZATION_LISTING, OT_FREE_PROFILE_LISTING]"

interpretation opportunity_type_enum: text_enum opportunity_type_members opportunity_type_value
proof
  show "m \<in> set opportunity_type_members" for m
    by (cases m) (simp_all add: opportunity_type_members_def)
qed (simp add: opportunity_type_members_def)

subsection \<open>\<open>OpportunityStatus\<close>\<close>

datatype opportunity_status =
    O_DISCOVERED | O_QUALIFYING | O_QUALIFIED | O_REJECTED | O_SELECTED | O_READY
    | O_SUBMITTED | O_PUBLISHED | O_FAILED | O_EXPIRED

primrec opportunity_status_value :: "opportunity_status \<Rightarrow> string" where
  "opportunity_status_value O_DISCOVERED = ''DISCOVERED''"
| "opportunity_status_value O_QUALIFYING = ''QUALIFYING''"
| "opportunity_status_value O_QUALIFIED = ''QUALIFIED''"
| "opportunity_status_value O_REJECTED = ''REJECTED''"
| "opportunity_status_value O_SELECTED = ''SELECTED''"
| "opportunity_status_value O_READY = ''READY''"
| "opportunity_status_value O_SUBMITTED = ''SUBMITTED''"
| "opportunity_status_value O_PUBLISHED = ''PUBLISHED''"
| "opportunity_status_value O_FAILED = ''FAILED''"
| "opportunity_status_value O_EXPIRED = ''EXPIRED''"

definition opportunity_status_members :: "opportunity_status list" where
  "opportunity_status_members =
     [O_DISCOVERED, O_QUALIFYING, O_QUALIFIED, O_REJECTED, O_SELECTED, O_READY, O_SUBMITTED
     , O_PUBLISHED, O_FAILED, O_EXPIRED]"

interpretation opportunity_status_enum: text_enum opportunity_status_members opportunity_status_value
proof
  show "m \<in> set opportunity_status_members" for m
    by (cases m) (simp_all add: opportunity_status_members_def)
qed (simp add: opportunity_status_members_def)

subsection \<open>\<open>SubmissionStatus\<close>\<close>

datatype submission_status =
    S_READY | S_IN_PROGRESS | S_SUBMITTED | S_PENDING_APPROVAL | S_PUBLISHED
    | S_VERIFICATION_PENDING | S_VERIFIED | S_REJECTED | S_FAILED

primrec submission_status_value :: "submission_status \<Rightarrow> string" where
  "submission_status_value S_READY = ''READY''"
| "submission_status_value S_IN_PROGRESS = ''IN_PROGRESS''"
| "submission_status_value S_SUBMITTED = ''SUBMITTED''"
| "submission_status_value S_PENDING_APPROVAL = ''PENDING_APPROVAL''"
| "submission_status_value S_PUBLISHED = ''PUBLISHED''"
| "submission_status_value S_VERIFICATION_PENDING = ''VERIFICATION_PENDING''"
| "submission_status_value S_VERIFIED = ''VERIFIED''"
| "submission_status_value S_REJECTED = ''REJECTED''"
| "submission_status_value S_FAILED = ''FAILED''"

definition submission_status_members :: "submission_status list" where
  "submission_status_members =
     [S_READY, S_IN_PROGRESS, S_SUBMITTED, S_PENDING_APPROVAL, S_PUBLISHED
     , S_VERIFICATION_PENDING, S_VERIFIED, S_REJECTED, S_FAILED]"

interpretation submission_status_enum: text_enum submission_status_members submission_status_value
proof
  show "m \<in> set submission_status_members" for m
    by (cases m) (simp_all add: submission_status_members_def)
qed (simp add: submission_status_members_def)

subsection \<open>\<open>ContentStatus\<close>\<close>

datatype content_status =
    Ct_DRAFT | Ct_PENDING_REVIEW | Ct_APPROVED | Ct_REJECTED | Ct_SUPERSEDED

primrec content_status_value :: "content_status \<Rightarrow> string" where
  "content_status_value Ct_DRAFT = ''DRAFT''"
| "content_status_value Ct_PENDING_REVIEW = ''PENDING_REVIEW''"
| "content_status_value Ct_APPROVED = ''APPROVED''"
| "content_status_value Ct_REJECTED = ''REJECTED''"
| "content_status_value Ct_SUPERSEDED = ''SUPERSEDED''"

definition content_status_members :: "content_status list" where
  "content_status_members =
     [Ct_DRAFT, Ct_PENDING_REVIEW, Ct_APPROVED, Ct_REJECTED, Ct_SUPERSEDED]"

interpretation content_status_enum: text_enum content_status_members content_status_value
proof
  show "m \<in> set content_status_members" for m
    by (cases m) (simp_all add: content_status_members_def)
qed (simp add: content_status_members_def)

subsection \<open>\<open>CredentialProviderType\<close>\<close>

datatype credential_provider_type =
    CP_AI | CP_SEARCH | CP_SEO_METRICS | CP_WEBSITE_INTELLIGENCE | CP_OTHER

primrec credential_provider_type_value :: "credential_provider_type \<Rightarrow> string" where
  "credential_provider_type_value CP_AI = ''AI''"
| "credential_provider_type_value CP_SEARCH = ''SEARCH''"
| "credential_provider_type_value CP_SEO_METRICS = ''SEO_METRICS''"
| "credential_provider_type_value CP_WEBSITE_INTELLIGENCE = ''WEBSITE_INTELLIGENCE''"
| "credential_provider_type_value CP_OTHER = ''OTHER''"

definition credential_provider_type_members :: "credential_provider_type list" where
  "credential_provider_type_members =
     [CP_AI, CP_SEARCH, CP_SEO_METRICS, CP_WEBSITE_INTELLIGENCE, CP_OTHER]"

interpretation credential_provider_type_enum: text_enum credential_provider_type_members credential_provider_type_value
proof
  show "m \<in> set credential_provider_type_members" for m
    by (cases m) (simp_all add: credential_provider_type_members_def)
qed (simp add: credential_provider_type_members_def)

subsection \<open>\<open>CredentialStatus\<close>\<close>

datatype credential_status =
    CS_CONFIGURED | CS_VERIFIED | CS_INVALID | CS_DISABLED

primrec credential_status_value :: "credential_status \<Rightarrow> string" where
  "credential_status_value CS_CONFIGURED = ''CONFIGURED''"
| "credential_status_value CS_VERIFIED = ''VERIFIED''"
| "credential_status_value CS_INVALID = ''INVALID''"
| "credential_status_value CS_DISABLED = ''DISABLED''"

definition credential_status_members :: "credential_status list" where
  "credential_status_members =
     [CS_CONFIGURED, CS_VERIFIED, CS_INVALID, CS_DISABLED]"

interpretation credential_status_enum: text_enum credential_status_members credential_status_value
proof
  show "m \<in> set credential_status_members" for m
    by (cases m) (simp_all add: credential_status_members_def)
qed (simp add: credential_status_members_def)

subsection \<open>\<open>AiProvider\<close>\<close>

datatype ai_provider =
    AP_OPENAI | AP_ANTHROPIC | AP_GEMINI | AP_OPENROUTER | AP_CUSTOM

primrec ai_provider_value :: "ai_provider \<Rightarrow> string" where
  "ai_provider_value AP_OPENAI = ''openai''"
| "ai_provider_value AP_ANTHROPIC = ''anthropic''"
| "ai_provider_value AP_GEMINI = ''gemini''"
| "ai_provider_value AP_OPENROUTER = ''openrouter''"
| "ai_provider_value AP_CUSTOM = ''custom''"

definition ai_provider_members :: "ai_provider list" where
  "ai_provider_members =
     [AP_OPENAI, AP_ANTHROPIC, AP_GEMINI, AP_OPENROUTER, AP_CUSTOM]"

interpretation ai_provider_enum: text_enum ai_provider_members ai_provider_value
proof
  show "m \<in> set ai_provider_members" for m
    by (cases m) (simp_all add: ai_provider_members_def)
qed (simp add: ai_provider_members_def)

subsection \<open>\<open>AiPurpose\<close>\<close>

datatype ai_purpose =
    AU_CONTENT_GENERATION | AU_DISCOVERY | AU_QUALIFICATION | AU_EMBEDDING

primrec ai_purpose_value :: "ai_purpose \<Rightarrow> string" where
  "ai_purpose_value AU_CONTENT_GENERATION = ''content_generation''"
| "ai_purpose_value AU_DISCOVERY = ''discovery''"
| "ai_purpose_value AU_QUALIFICATION = ''qualification''"
| "ai_purpose_value AU_EMBEDDING = ''embedding''"

definition ai_purpose_members :: "ai_purpose list" where
  "ai_purpose_members =
     [AU_CONTENT_GENERATION, AU_DISCOVERY, AU_QUALIFICATION, AU_EMBEDDING]"

interpretation ai_purpose_enum: text_enum ai_purpose_members ai_purpose_value
proof
  show "m \<in> set ai_purpose_members" for m
    by (cases m) (simp_all add: ai_purpose_members_def)
qed (simp add: ai_purpose_members_def)

subsection \<open>\<open>AiOperation\<close>\<close>

datatype ai_operation =
    AO_GENERATE | AO_EMBED

primrec ai_operation_value :: "ai_operation \<Rightarrow> string" where
  "ai_operation_value AO_GENERATE = ''generate''"
| "ai_operation_value AO_EMBED = ''embed''"

definition ai_operation_members :: "ai_operation list" where
  "ai_operation_members =
     [AO_GENERATE, AO_EMBED]"

interpretation ai_operation_enum: text_enum ai_operation_members ai_operation_value
proof
  show "m \<in> set ai_operation_members" for m
    by (cases m) (simp_all add: ai_operation_members_def)
qed (simp add: ai_operation_members_def)

subsection \<open>\<open>AiUsageStatus\<close>\<close>

datatype ai_usage_status =
    AS_SUCCEEDED | AS_FAILED

primrec ai_usage_status_value :: "ai_usage_status \<Rightarrow> string" where
  "ai_usage_status_value AS_SUCCEEDED = ''SUCCEEDED''"
| "ai_usage_status_value AS_FAILED = ''FAILED''"

definition ai_usage_status_members :: "ai_usage_status list" where
  "ai_usage_status_members =
     [AS_SUCCEEDED, AS_FAILED]"

interpretation ai_usage_status_enum: text_enum ai_usage_status_members ai_usage_status_value
proof
  show "m \<in> set ai_usage_status_members" for m
    by (cases m) (simp_all add: ai_usage_status_members_def)
qed (simp add: ai_usage_status_members_def)

subsection \<open>\<open>JobStatus\<close>\<close>

datatype job_status =
    J_PENDING | J_RUNNING | J_SUCCEEDED | J_FAILED | J_CANCELLED

primrec job_status_value :: "job_status \<Rightarrow> string" where
  "job_status_value J_PENDING = ''PENDING''"
| "job_status_value J_RUNNING = ''RUNNING''"
| "job_status_value J_SUCCEEDED = ''SUCCEEDED''"
| "job_status_value J_FAILED = ''FAILED''"
| "job_status_value J_CANCELLED = ''CANCELLED''"

definition job_status_members :: "job_status list" where
  "job_status_members =
     [J_PENDING, J_RUNNING, J_SUCCEEDED, J_FAILED, J_CANCELLED]"

interpretation job_status_enum: text_enum job_status_members job_status_value
proof
  show "m \<in> set job_status_members" for m
    by (cases m) (simp_all add: job_status_members_def)
qed (simp add: job_status_members_def)

section \<open>Derived value sets\<close>

definition submittable_values :: "string list" where
  "submittable_values = [pricing_type_value Pr_FREE]"

definition submission_terminal_values :: "string list" where
  "submission_terminal_values = [submission_status_value S_REJECTED, submission_status_value S_FAILED]"

section \<open>Finite enumeration of the two workflow statuses\<close>

instantiation submission_status :: enum
begin

definition enum_submission_status :: "submission_status list" where
  "enum_submission_status = submission_status_members"

definition enum_all_submission_status :: "(submission_status \<Rightarrow> bool) \<Rightarrow> bool" where
  "enum_all_submission_status P = list_all P submission_status_members"

definition enum_ex_submission_status :: "(submission_status \<Rightarrow> bool) \<Rightarrow> bool" where
  "enum_ex_submission_status P = list_ex P submission_status_members"

instance
proof
  show "distinct (enum_class.enum :: submission_status list)"
    by (simp add: enum_submission_status_def submission_status_members_def)
qed (use submission_status_enum.complete in \<open>auto simp: enum_submission_status_def enum_all_submission_status_def
      enum_ex_submission_status_def list_all_iff list_ex_iff\<close>)

end

instantiation opportunity_status :: enum
begin

definition enum_opportunity_status :: "opportunity_status list" where
  "enum_opportunity_status = opportunity_status_members"

definition enum_all_opportunity_status :: "(opportunity_status \<Rightarrow> bool) \<Rightarrow> bool" where
  "enum_all_opportunity_status P = list_all P opportunity_status_members"

definition enum_ex_opportunity_status :: "(opportunity_status \<Rightarrow> bool) \<Rightarrow> bool" where
  "enum_ex_opportunity_status P = list_ex P opportunity_status_members"

instance
proof
  show "distinct (enum_class.enum :: opportunity_status list)"
    by (simp add: enum_opportunity_status_def opportunity_status_members_def)
qed (use opportunity_status_enum.complete in \<open>auto simp: enum_opportunity_status_def enum_all_opportunity_status_def
      enum_ex_opportunity_status_def list_all_iff list_ex_iff\<close>)

end

end
