(* ===== verification/Models.thy ===== *)
theory Models
  imports Enums
begin

text \<open>
  The mapped classes of \<open>models/\<close>: one record per table, its fields the columns in
  source order behind a prefix of the class (Isabelle record fields share one name
  space), identifiers as natural numbers, timestamps as integers (seconds), fixed-point
  columns as exact rationals and JSONB objects as association lists.  Columns guarded by
  an enum \<open>CHECK\<close> have the enum's datatype: \<open>Enums.text_enum\<close> shows the stored texts are
  exactly its values.  \<open>db\<close> is the whole database, one list of rows per table.
\<close>

record user_row =
  usr_id :: nat
  usr_email :: string
  usr_password_hash :: string
  usr_first_name :: "string option"
  usr_last_name :: "string option"
  usr_is_active :: bool
  usr_is_verified :: bool
  usr_is_superuser :: bool
  usr_last_login_at :: "int option"
  usr_created_at :: int
  usr_updated_at :: int

record tenant_row =
  ten_id :: nat
  ten_name :: string
  ten_slug :: string
  ten_status :: tenant_status
  ten_settings :: "(string \<times> json) list"
  ten_created_by_user_id :: "nat option"
  ten_created_at :: int
  ten_updated_at :: int

record membership_row =
  mem_id :: nat
  mem_tenant_id :: nat
  mem_user_id :: nat
  mem_status :: membership_status
  mem_is_owner :: bool
  mem_notes :: "string option"
  mem_created_at :: int
  mem_updated_at :: int

record permission_row =
  perm_id :: nat
  perm_code :: string
  perm_resource :: string
  perm_action :: string
  perm_description :: "string option"

record role_row =
  role_id :: nat
  role_tenant_id :: nat
  role_slug :: string
  role_name :: string
  role_description :: "string option"
  role_is_system :: bool
  role_created_at :: int
  role_updated_at :: int

record role_permission_row =
  rp_id :: nat
  rp_tenant_id :: nat
  rp_role_id :: nat
  rp_permission_id :: nat

record membership_role_row =
  mr_id :: nat
  mr_tenant_id :: nat
  mr_membership_id :: nat
  mr_role_id :: nat

record refresh_session_row =
  rs_id :: nat
  rs_user_id :: nat
  rs_family_id :: nat
  rs_token_hash :: string
  rs_active_tenant_id :: "nat option"
  rs_user_agent :: "string option"
  rs_ip_address :: "string option"
  rs_revoked :: bool
  rs_revoked_reason :: "string option"
  rs_revoked_at :: "int option"
  rs_expires_at :: int
  rs_last_used_at :: "int option"
  rs_created_at :: int

record client_website_row =
  web_id :: nat
  web_tenant_id :: nat
  web_name :: string
  web_domain :: string
  web_normalized_domain :: string
  web_website_url :: string
  web_description :: "string option"
  web_industry :: "string option"
  web_target_country :: "string option"
  web_target_countries :: "string list"
  web_target_language :: "string option"
  web_status :: client_website_status
  web_created_at :: int
  web_updated_at :: int

record campaign_row =
  cmp_id :: nat
  cmp_tenant_id :: nat
  cmp_client_website_id :: nat
  cmp_name :: string
  cmp_description :: "string option"
  cmp_status :: campaign_status
  cmp_target_country :: "string option"
  cmp_target_language :: "string option"
  cmp_budget :: "rat option"
  cmp_free_only :: bool
  cmp_target_link_count :: "int option"
  cmp_start_date :: "int option"
  cmp_end_date :: "int option"
  cmp_created_at :: int
  cmp_updated_at :: int

record publisher_row =
  pub_id :: nat
  pub_tenant_id :: nat
  pub_domain :: string
  pub_normalized_domain :: string
  pub_website_url :: string
  pub_name :: "string option"
  pub_description :: "string option"
  pub_category :: "publisher_category option"
  pub_country :: "string option"
  pub_language :: "string option"
  pub_submission_url :: "string option"
  pub_contact_url :: "string option"
  pub_submission_method :: submission_method
  pub_pricing_type :: pricing_type
  pub_link_type :: link_type
  pub_dofollow_supported :: "bool option"
  pub_nofollow_supported :: "bool option"
  pub_status :: publisher_status
  pub_quality_score :: "rat option"
  pub_relevance_score :: "rat option"
  pub_spam_score :: "rat option"
  pub_authority_score :: "rat option"
  pub_organic_traffic :: "int option"
  pub_signals :: "(string \<times> json) list"
  pub_discovery_run_id :: "nat option"
  pub_last_checked_at :: "int option"
  pub_created_at :: int
  pub_updated_at :: int

record discovery_run_row =
  run_id :: nat
  run_tenant_id :: nat
  run_campaign_id :: "nat option"
  run_provider :: string
  run_query :: "(string \<times> json) list"
  run_status :: discovery_run_status
  run_results_found :: int
  run_publishers_created :: int
  run_duplicates_skipped :: int
  run_error :: "string option"
  run_started_at :: "int option"
  run_finished_at :: "int option"
  run_created_at :: int
  run_updated_at :: int

record opportunity_row =
  opp_id :: nat
  opp_tenant_id :: nat
  opp_campaign_id :: nat
  opp_publisher_id :: nat
  opp_opportunity_type :: opportunity_type
  opp_target_url :: string
  opp_suggested_anchor :: "string option"
  opp_suggested_title :: "string option"
  opp_suggested_description :: "string option"
  opp_category :: "string option"
  opp_status :: opportunity_status
  opp_qualification_score :: "rat option"
  opp_priority :: int
  opp_submission_url :: "string option"
  opp_rejection_reason :: "string option"
  opp_discovered_at :: "int option"
  opp_qualified_at :: "int option"
  opp_created_at :: int
  opp_updated_at :: int

record submission_row =
  sub_id :: nat
  sub_tenant_id :: nat
  sub_campaign_id :: nat
  sub_opportunity_id :: nat
  sub_status :: submission_status
  sub_submitted_url :: "string option"
  sub_target_url :: string
  sub_anchor_text :: "string option"
  sub_submitted_title :: "string option"
  sub_submitted_description :: "string option"
  sub_submission_method :: submission_method
  sub_approved_by_user_id :: "nat option"
  sub_approved_at :: "int option"
  sub_submitted_at :: "int option"
  sub_published_at :: "int option"
  sub_verified_at :: "int option"
  sub_failure_reason :: "string option"
  sub_notes :: "string option"
  sub_verification_evidence :: "(string \<times> json) list"
  sub_created_at :: int
  sub_updated_at :: int

record content_row =
  con_id :: nat
  con_tenant_id :: nat
  con_opportunity_id :: nat
  con_content_status :: content_status
  con_generated_content :: "(string \<times> json) list"
  con_ai_provider :: "string option"
  con_ai_model :: "string option"
  con_generation_timestamp :: "int option"
  con_reviewed_by_user_id :: "nat option"
  con_reviewed_at :: "int option"
  con_review_notes :: "string option"
  con_created_at :: int
  con_updated_at :: int

record audit_row =
  aud_id :: nat
  aud_tenant_id :: nat
  aud_user_id :: "nat option"
  aud_action :: string
  aud_resource_type :: "string option"
  aud_resource_id :: "json option"
  aud_metadata :: "(string \<times> json) list"
  aud_ip_address :: "string option"
  aud_user_agent :: "string option"
  aud_request_id :: "string option"
  aud_created_at :: int

record job_row =
  job_id :: nat
  job_tenant_id :: nat
  job_task_name :: string
  job_payload :: "(string \<times> json) list"
  job_status :: job_status
  job_attempts :: int
  job_max_attempts :: int
  job_run_at :: int
  job_started_at :: "int option"
  job_finished_at :: "int option"
  job_last_error :: "string option"
  job_enqueued_by_user_id :: "nat option"
  job_idempotency_key :: "string option"
  job_created_at :: int
  job_updated_at :: int

record credential_row =
  crd_id :: nat
  crd_tenant_id :: nat
  crd_provider :: string
  crd_provider_type :: credential_provider_type
  crd_label :: string
  crd_status :: credential_status
  crd_masked_hint :: string
  crd_ciphertext :: string
  crd_nonce :: string
  crd_encrypted_dek :: string
  crd_dek_nonce :: string
  crd_key_version :: int
  crd_provider_metadata :: "(string \<times> json) list"
  crd_last_verified_at :: "int option"
  crd_created_at :: int
  crd_updated_at :: int

record ai_config_row =
  aic_id :: nat
  aic_tenant_id :: nat
  aic_purpose :: ai_purpose
  aic_provider :: string
  aic_model :: string
  aic_credential_id :: "nat option"
  aic_parameters :: "(string \<times> json) list"
  aic_is_default :: bool
  aic_created_at :: int
  aic_updated_at :: int

record ai_usage_row =
  aiu_id :: nat
  aiu_tenant_id :: nat
  aiu_provider :: string
  aiu_model :: string
  aiu_operation :: ai_operation
  aiu_purpose :: "string option"
  aiu_input_tokens :: "int option"
  aiu_output_tokens :: "int option"
  aiu_estimated_cost :: "rat option"
  aiu_request_id :: "string option"
  aiu_status :: ai_usage_status
  aiu_error_code :: "string option"
  aiu_latency_ms :: "int option"
  aiu_created_at :: int

record idempotency_row =
  idk_id :: nat
  idk_tenant_id :: nat
  idk_key :: string
  idk_endpoint :: string
  idk_request_hash :: string
  idk_response_status :: "int option"
  idk_response_body :: "json option"
  idk_resource_id :: "string option"
  idk_created_at :: int

record db =
  users :: "user_row list"
  tenants :: "tenant_row list"
  tenant_memberships :: "membership_row list"
  permissions :: "permission_row list"
  roles :: "role_row list"
  role_permissions :: "role_permission_row list"
  membership_roles :: "membership_role_row list"
  refresh_sessions :: "refresh_session_row list"
  client_websites :: "client_website_row list"
  campaigns :: "campaign_row list"
  publishers :: "publisher_row list"
  discovery_runs :: "discovery_run_row list"
  opportunities :: "opportunity_row list"
  submissions :: "submission_row list"
  generated_contents :: "content_row list"
  audit_logs :: "audit_row list"
  jobs :: "job_row list"
  credentials :: "credential_row list"
  tenant_ai_configs :: "ai_config_row list"
  ai_usage_records :: "ai_usage_row list"
  idempotency_keys :: "idempotency_row list"

definition empty_db :: db where
  "empty_db = \<lparr>users = [],
     tenants = [],
     tenant_memberships = [],
     permissions = [],
     roles = [],
     role_permissions = [],
     membership_roles = [],
     refresh_sessions = [],
     client_websites = [],
     campaigns = [],
     publishers = [],
     discovery_runs = [],
     opportunities = [],
     submissions = [],
     generated_contents = [],
     audit_logs = [],
     jobs = [],
     credentials = [],
     tenant_ai_configs = [],
     ai_usage_records = [],
     idempotency_keys = []\<rparr>"

section \<open>Model properties\<close>

definition tenant_is_active :: "tenant_row \<Rightarrow> bool" where
  "tenant_is_active t = (ten_status t = T_ACTIVE)"

definition membership_is_active :: "membership_row \<Rightarrow> bool" where
  "membership_is_active m = (mem_status m = M_ACTIVE)"

definition campaign_is_active :: "campaign_row \<Rightarrow> bool" where
  "campaign_is_active c = (cmp_status c = C_ACTIVE)"

definition publisher_is_free :: "publisher_row \<Rightarrow> bool" where
  "publisher_is_free p = (pub_pricing_type p = Pr_FREE)"

definition publisher_is_submittable :: "publisher_row \<Rightarrow> bool" where
  "publisher_is_submittable p = (publisher_is_free p \<and> pub_status p = Pb_QUALIFIED)"

definition is_ready_for_submission :: "opportunity_row \<Rightarrow> bool" where
  "is_ready_for_submission op = (opp_status op = O_READY)"

definition job_can_retry :: "job_row \<Rightarrow> bool" where
  "job_can_retry j = (job_attempts j < job_max_attempts j)"

end
