(* ===== verification/Errors.thy ===== *)
theory Errors
  imports Prelude
begin

text \<open>
  The exception hierarchy of \<open>core/exceptions.py\<close>.  \<open>error_class\<close> names the classes,
  \<open>error_parent\<close> the \<open>AppError\<close> branch of their inheritance, and the three class
  attributes are functions of the class.  An instance is an \<open>app_error\<close> record built by
  \<open>app_error_init\<close>.  \<open>exn\<close> adds the exceptions of Python and of the database driver
  that leave a service: they are not \<open>AppError\<close>s and no \<open>except AppError\<close> sees them.
\<close>

section \<open>The classes\<close>

datatype (plugins only: code size) error_class =
    AppError | AuthenticationError | InvalidCredentialsError | TokenExpiredError
  | TokenRevokedError | InvalidTokenError | InactiveUserError | AuthorizationError
  | TenantAccessError | TenantContextMissingError | ResourceNotFoundError | ConflictError
  | DuplicateResourceError | IdempotencyConflictError | ValidationError
  | InvalidSortFieldError | BusinessRuleError | PaidPlacementNotAllowedError
  | SubmissionError | InvalidStateTransitionError | CredentialError
  | CredentialDecryptionError | CredentialNotConfiguredError | ProviderError
  | ProviderUnavailableError | ProviderNotSupportedError | ProviderTimeoutError
  | ResponseTooLargeError | RateLimitExceededError

fun error_parent :: "error_class \<Rightarrow> error_class" where
  "error_parent InvalidCredentialsError = AuthenticationError"
| "error_parent TokenExpiredError = AuthenticationError"
| "error_parent TokenRevokedError = AuthenticationError"
| "error_parent InvalidTokenError = AuthenticationError"
| "error_parent InactiveUserError = AuthenticationError"
| "error_parent DuplicateResourceError = ConflictError"
| "error_parent IdempotencyConflictError = ConflictError"
| "error_parent InvalidSortFieldError = ValidationError"
| "error_parent PaidPlacementNotAllowedError = BusinessRuleError"
| "error_parent InvalidStateTransitionError = SubmissionError"
| "error_parent CredentialDecryptionError = CredentialError"
| "error_parent CredentialNotConfiguredError = CredentialError"
| "error_parent ProviderUnavailableError = ProviderError"
| "error_parent ProviderTimeoutError = ProviderError"
| "error_parent ResponseTooLargeError = ProviderError"
| "error_parent _ = AppError"

text \<open>The hierarchy is at most three classes deep, so two steps up reach \<open>AppError\<close>.\<close>

definition is_subclass :: "error_class \<Rightarrow> error_class \<Rightarrow> bool" where
  "is_subclass c d = (c = d \<or> error_parent c = d \<or> error_parent (error_parent c) = d)"

primrec class_status :: "error_class \<Rightarrow> nat" where
  "class_status AppError = 500"
| "class_status AuthenticationError = 401"
| "class_status InvalidCredentialsError = 401"
| "class_status TokenExpiredError = 401"
| "class_status TokenRevokedError = 401"
| "class_status InvalidTokenError = 401"
| "class_status InactiveUserError = 403"
| "class_status AuthorizationError = 403"
| "class_status TenantAccessError = 403"
| "class_status TenantContextMissingError = 400"
| "class_status ResourceNotFoundError = 404"
| "class_status ConflictError = 409"
| "class_status DuplicateResourceError = 409"
| "class_status IdempotencyConflictError = 409"
| "class_status ValidationError = 422"
| "class_status InvalidSortFieldError = 422"
| "class_status BusinessRuleError = 422"
| "class_status PaidPlacementNotAllowedError = 422"
| "class_status SubmissionError = 409"
| "class_status InvalidStateTransitionError = 409"
| "class_status CredentialError = 422"
| "class_status CredentialDecryptionError = 500"
| "class_status CredentialNotConfiguredError = 422"
| "class_status ProviderError = 502"
| "class_status ProviderUnavailableError = 503"
| "class_status ProviderNotSupportedError = 422"
| "class_status ProviderTimeoutError = 504"
| "class_status ResponseTooLargeError = 502"
| "class_status RateLimitExceededError = 429"

primrec class_code :: "error_class \<Rightarrow> string" where
  "class_code AppError = ''INTERNAL_ERROR''"
| "class_code AuthenticationError = ''AUTHENTICATION_FAILED''"
| "class_code InvalidCredentialsError = ''INVALID_CREDENTIALS''"
| "class_code TokenExpiredError = ''TOKEN_EXPIRED''"
| "class_code TokenRevokedError = ''TOKEN_REVOKED''"
| "class_code InvalidTokenError = ''INVALID_TOKEN''"
| "class_code InactiveUserError = ''USER_INACTIVE''"
| "class_code AuthorizationError = ''PERMISSION_DENIED''"
| "class_code TenantAccessError = ''TENANT_ACCESS_DENIED''"
| "class_code TenantContextMissingError = ''TENANT_CONTEXT_REQUIRED''"
| "class_code ResourceNotFoundError = ''RESOURCE_NOT_FOUND''"
| "class_code ConflictError = ''CONFLICT''"
| "class_code DuplicateResourceError = ''DUPLICATE_RESOURCE''"
| "class_code IdempotencyConflictError = ''IDEMPOTENCY_KEY_REUSED''"
| "class_code ValidationError = ''VALIDATION_ERROR''"
| "class_code InvalidSortFieldError = ''INVALID_SORT_FIELD''"
| "class_code BusinessRuleError = ''BUSINESS_RULE_VIOLATION''"
| "class_code PaidPlacementNotAllowedError = ''PAID_PLACEMENT_NOT_ALLOWED''"
| "class_code SubmissionError = ''SUBMISSION_ERROR''"
| "class_code InvalidStateTransitionError = ''INVALID_STATE_TRANSITION''"
| "class_code CredentialError = ''CREDENTIAL_ERROR''"
| "class_code CredentialDecryptionError = ''CREDENTIAL_DECRYPTION_FAILED''"
| "class_code CredentialNotConfiguredError = ''CREDENTIAL_NOT_CONFIGURED''"
| "class_code ProviderError = ''PROVIDER_ERROR''"
| "class_code ProviderUnavailableError = ''PROVIDER_UNAVAILABLE''"
| "class_code ProviderNotSupportedError = ''PROVIDER_NOT_SUPPORTED''"
| "class_code ProviderTimeoutError = ''PROVIDER_TIMEOUT''"
| "class_code ResponseTooLargeError = ''RESPONSE_TOO_LARGE''"
| "class_code RateLimitExceededError = ''RATE_LIMIT_EXCEEDED''"

primrec class_message :: "error_class \<Rightarrow> string" where
  "class_message AppError = ''An unexpected error occurred''"
| "class_message AuthenticationError = ''Authentication failed''"
| "class_message InvalidCredentialsError = ''Incorrect email or password''"
| "class_message TokenExpiredError = ''Token has expired''"
| "class_message TokenRevokedError = ''Token has been revoked''"
| "class_message InvalidTokenError = ''Token is invalid''"
| "class_message InactiveUserError = ''User account is not active''"
| "class_message AuthorizationError = ''You do not have permission to perform this action''"
| "class_message TenantAccessError = ''You do not have access to this tenant''"
| "class_message TenantContextMissingError =
     ''An active tenant must be selected for this request''"
| "class_message ResourceNotFoundError = ''Resource was not found''"
| "class_message ConflictError =
     ''The request conflicts with the current state of the resource''"
| "class_message DuplicateResourceError = ''A resource with these values already exists''"
| "class_message IdempotencyConflictError =
     ''This idempotency key was already used with a different request body''"
| "class_message ValidationError = ''Request validation failed''"
| "class_message InvalidSortFieldError = ''Request validation failed''"
| "class_message BusinessRuleError = ''The request violates a business rule''"
| "class_message PaidPlacementNotAllowedError =
     ''Only publishers with pricing_type=FREE may enter the submission workflow. Paid placements are out of scope for this platform.''"
| "class_message SubmissionError = ''The submission could not be processed''"
| "class_message InvalidStateTransitionError = ''That status transition is not allowed''"
| "class_message CredentialError = ''The credential could not be processed''"
| "class_message CredentialDecryptionError = ''Stored credential could not be decrypted''"
| "class_message CredentialNotConfiguredError =
     ''No credential is configured for this provider''"
| "class_message ProviderError = ''An external provider returned an error''"
| "class_message ProviderUnavailableError =
     ''An external provider is temporarily unavailable''"
| "class_message ProviderNotSupportedError = ''That provider is not supported''"
| "class_message ProviderTimeoutError = ''An external provider did not respond in time''"
| "class_message ResponseTooLargeError =
     ''An external response exceeded the maximum allowed size''"
| "class_message RateLimitExceededError = ''Too many requests''"

section \<open>Instances\<close>

record app_error =
  err_class :: error_class
  err_code :: string
  err_message :: string
  err_details :: "(string \<times> json) list"
  err_status :: nat
  err_retry_after :: "int option"

text \<open>\<open>AppError.__init__\<close>: an absent or empty argument falls back to the class attribute.\<close>

definition or_default :: "string option \<Rightarrow> string \<Rightarrow> string" where
  "or_default x d = (case x of None \<Rightarrow> d | Some s \<Rightarrow> if s = [] then d else s)"

definition app_error_init ::
  "error_class \<Rightarrow> string option \<Rightarrow> string option \<Rightarrow> (string \<times> json) list option \<Rightarrow>
   nat option \<Rightarrow> app_error" where
  "app_error_init c msg cod details st =
     \<lparr>err_class = c,
      err_code = or_default cod (class_code c),
      err_message = or_default msg (class_message c),
      err_details = (case details of None \<Rightarrow> [] | Some d \<Rightarrow> d),
      err_status = (case st of None \<Rightarrow> class_status c | Some n \<Rightarrow> n),
      err_retry_after = None\<rparr>"

definition plain_error :: "error_class \<Rightarrow> app_error" where
  "plain_error c = app_error_init c None None None None"

definition coded_error :: "error_class \<Rightarrow> string \<Rightarrow> string \<Rightarrow> (string \<times> json) list \<Rightarrow> app_error" where
  "coded_error c msg cod details = app_error_init c (Some msg) (Some cod) (Some details) None"

definition message_error :: "error_class \<Rightarrow> string \<Rightarrow> app_error" where
  "message_error c msg = app_error_init c (Some msg) None None None"

definition rate_limit_exceeded :: "string option \<Rightarrow> int option \<Rightarrow> (string \<times> json) list option \<Rightarrow> app_error" where
  "rate_limit_exceeded msg retry details =
     (app_error_init RateLimitExceededError msg None details None)\<lparr>err_retry_after := retry\<rparr>"

subsection \<open>Text of the alternative constructors\<close>

text \<open>ASCII case mapping; resource names in the source are ASCII identifiers.\<close>

definition upper_char :: "char \<Rightarrow> char" where
  "upper_char c = (let n = (of_char c :: nat) in if 97 \<le> n \<and> n \<le> 122 then char_of (n - 32) else c)"

definition lower_char :: "char \<Rightarrow> char" where
  "lower_char c = (let n = (of_char c :: nat) in if 65 \<le> n \<and> n \<le> 90 then char_of (n + 32) else c)"

definition str_upper :: "string \<Rightarrow> string" where
  "str_upper s = map upper_char s"

definition str_lower :: "string \<Rightarrow> string" where
  "str_lower s = map lower_char s"

fun str_capitalize :: "string \<Rightarrow> string" where
  "str_capitalize [] = []"
| "str_capitalize (c # cs) = upper_char c # str_lower cs"

definition human_name :: "string \<Rightarrow> string" where
  "human_name resource =
     str_capitalize (map (\<lambda>c. if c = CHR ''_'' then CHR '' '' else c) resource)"

definition for_permission :: "string \<Rightarrow> app_error" where
  "for_permission p =
     app_error_init AuthorizationError (Some (''Missing required permission: '' @ p)) None
       (Some [(''required_permission'', JStr p)]) None"

definition for_resource :: "string \<Rightarrow> nat option \<Rightarrow> app_error" where
  "for_resource resource ident =
     app_error_init ResourceNotFoundError
       (Some (human_name resource @ '' was not found''))
       (Some (str_upper resource @ ''_NOT_FOUND''))
       (case ident of None \<Rightarrow> None
        | Some i \<Rightarrow> Some [(''resource'', JStr resource), (''id'', JInt (int i))])
       None"

definition transition_between :: "string \<Rightarrow> string \<Rightarrow> string \<Rightarrow> app_error" where
  "transition_between entity current target =
     app_error_init InvalidStateTransitionError
       (Some (''Cannot transition '' @ entity @ '' from '' @ current @ '' to '' @ target)) None
       (Some [(''entity'', JStr entity), (''from'', JStr current), (''to'', JStr target)]) None"

definition sort_field_error :: "string \<Rightarrow> string list \<Rightarrow> app_error" where
  "sort_field_error requested allowed =
     app_error_init InvalidSortFieldError
       (Some ([CHR 0x27] @ requested @ [CHR 0x27] @ '' is not a sortable field'')) None
       (Some [(''field'', JStr requested), (''allowed'', JList (map JStr allowed))]) None"

section \<open>Everything a service may raise\<close>

datatype exn =
    AppExn app_error
  | IntegrityExn string
  | ValueExn string
  | RuntimeExn string
  | TimeoutExn

fun is_app_error :: "exn \<Rightarrow> error_class \<Rightarrow> bool" where
  "is_app_error (AppExn e) c = is_subclass (err_class e) c"
| "is_app_error _ c = False"

primrec error_class_name :: "error_class \<Rightarrow> string" where
  "error_class_name AppError = ''AppError''"
| "error_class_name AuthenticationError = ''AuthenticationError''"
| "error_class_name InvalidCredentialsError = ''InvalidCredentialsError''"
| "error_class_name TokenExpiredError = ''TokenExpiredError''"
| "error_class_name TokenRevokedError = ''TokenRevokedError''"
| "error_class_name InvalidTokenError = ''InvalidTokenError''"
| "error_class_name InactiveUserError = ''InactiveUserError''"
| "error_class_name AuthorizationError = ''AuthorizationError''"
| "error_class_name TenantAccessError = ''TenantAccessError''"
| "error_class_name TenantContextMissingError = ''TenantContextMissingError''"
| "error_class_name ResourceNotFoundError = ''ResourceNotFoundError''"
| "error_class_name ConflictError = ''ConflictError''"
| "error_class_name DuplicateResourceError = ''DuplicateResourceError''"
| "error_class_name IdempotencyConflictError = ''IdempotencyConflictError''"
| "error_class_name ValidationError = ''ValidationError''"
| "error_class_name InvalidSortFieldError = ''InvalidSortFieldError''"
| "error_class_name BusinessRuleError = ''BusinessRuleError''"
| "error_class_name PaidPlacementNotAllowedError = ''PaidPlacementNotAllowedError''"
| "error_class_name SubmissionError = ''SubmissionError''"
| "error_class_name InvalidStateTransitionError = ''InvalidStateTransitionError''"
| "error_class_name CredentialError = ''CredentialError''"
| "error_class_name CredentialDecryptionError = ''CredentialDecryptionError''"
| "error_class_name CredentialNotConfiguredError = ''CredentialNotConfiguredError''"
| "error_class_name ProviderError = ''ProviderError''"
| "error_class_name ProviderUnavailableError = ''ProviderUnavailableError''"
| "error_class_name ProviderNotSupportedError = ''ProviderNotSupportedError''"
| "error_class_name ProviderTimeoutError = ''ProviderTimeoutError''"
| "error_class_name ResponseTooLargeError = ''ResponseTooLargeError''"
| "error_class_name RateLimitExceededError = ''RateLimitExceededError''"

text \<open>\<open>f"{type(exc).__name__}: {exc}"\<close>, as the worker records a failure.\<close>

fun exn_text :: "exn \<Rightarrow> string" where
  "exn_text (AppExn e) = error_class_name (err_class e) @ '': '' @ err_message e"
| "exn_text (IntegrityExn m) = ''IntegrityError: '' @ m"
| "exn_text (ValueExn m) = ''ValueError: '' @ m"
| "exn_text (RuntimeExn m) = ''RuntimeError: '' @ m"
| "exn_text TimeoutExn = ''TimeoutError: ''"

definition err :: "error_class \<Rightarrow> exn" where
  "err c = AppExn (plain_error c)"

definition err_msg :: "error_class \<Rightarrow> string \<Rightarrow> exn" where
  "err_msg c msg = AppExn (message_error c msg)"

definition err_coded :: "error_class \<Rightarrow> string \<Rightarrow> string \<Rightarrow> exn" where
  "err_coded c msg cod = AppExn (coded_error c msg cod [])"

definition not_found :: "string \<Rightarrow> nat \<Rightarrow> exn" where
  "not_found resource i = AppExn (for_resource resource (Some i))"

section \<open>Facts\<close>

lemma is_subclass_refl [simp]: "is_subclass c c"
  by (simp add: is_subclass_def)

lemma is_subclass_AppError [simp]: "is_subclass c AppError"
  by (cases c) (simp_all add: is_subclass_def)

lemma is_subclass_trans: "is_subclass a b \<Longrightarrow> is_subclass b c \<Longrightarrow> is_subclass a c"
  by (cases a; simp add: is_subclass_def; (elim disjE)?; simp)

lemma err_class_of [simp]:
  "err_class (app_error_init c m d x st) = c"
  "err_class (plain_error c) = c"
  "err_class (coded_error c msg cod details) = c"
  "err_class (message_error c msg) = c"
  "err_class (for_resource r i) = ResourceNotFoundError"
  "err_class (transition_between en cu ta) = InvalidStateTransitionError"
  "err_class (for_permission p) = AuthorizationError"
  "err_class (sort_field_error f al) = InvalidSortFieldError"
  by (simp_all add: app_error_init_def plain_error_def coded_error_def message_error_def
      for_resource_def transition_between_def for_permission_def sort_field_error_def)

lemma err_status_of [simp]:
  "err_status (plain_error c) = class_status c"
  "err_status (coded_error c msg cod details) = class_status c"
  "err_status (message_error c msg) = class_status c"
  "err_status (for_resource r i) = 404"
  "err_status (transition_between en cu ta) = 409"
  "err_status (for_permission p) = 403"
  by (simp_all add: app_error_init_def plain_error_def coded_error_def message_error_def
      for_resource_def transition_between_def for_permission_def)

lemma exn_inject [simp]:
  "err c = err d \<longleftrightarrow> c = d"
  by (metis err_class_of(2) err_def exn.inject(1))

lemma status_is_error: "400 \<le> class_status c \<and> class_status c < 600"
  by (cases c) simp_all

end
