(* ===== verification/Session.thy ===== *)
theory Session
  imports Models Errors
begin

text \<open>
  \<open>db/session.py\<close>, \<open>db/context.py\<close>, \<open>core/context.py\<close> and the session dependency of
  \<open>api/dependencies/db.py\<close>.  A \<open>world\<close> is what a service sees: the database as its
  transaction reads it, the last committed database, the tenant and user the session is
  bound to, the ambient request context, the clock and the source of fresh identifiers.
  A service operation has type \<open>'a svc\<close>.  A flush is visible at once to the session and
  to nobody else until a commit; a rollback returns to the committed database.
\<close>

section \<open>The world\<close>

record request_context =
  rc_request_id :: "string option"
  rc_user_id :: "nat option"
  rc_tenant_id :: "nat option"
  rc_client_ip :: "string option"
  rc_user_agent :: "string option"

definition no_context :: request_context where
  "no_context = \<lparr>rc_request_id = None, rc_user_id = None, rc_tenant_id = None,
     rc_client_ip = None, rc_user_agent = None\<rparr>"

record world =
  w_db :: db
  w_committed :: db
  w_tenant :: "nat option"
  w_user :: "nat option"
  w_ctx :: request_context
  w_now :: int
  w_next :: nat

type_synonym 'a svc = "(exn, world, 'a) comp"

definition initial_world :: world where
  "initial_world = \<lparr>w_db = empty_db, w_committed = empty_db, w_tenant = None, w_user = None,
     w_ctx = no_context, w_now = 0, w_next = 1\<rparr>"

definition fresh_id :: "nat svc" where
  "fresh_id = (\<lambda>w. (Inr (w_next w), w\<lparr>w_next := Suc (w_next w)\<rparr>))"

definition now :: "int svc" where
  "now = gets w_now"

definition query :: "(db \<Rightarrow> 'a) \<Rightarrow> 'a svc" where
  "query f = gets (\<lambda>w. f (w_db w))"

definition change_db :: "(db \<Rightarrow> db) \<Rightarrow> unit svc" where
  "change_db f = modify (\<lambda>w. w\<lparr>w_db := f (w_db w)\<rparr>)"

text \<open>Pending SQL is sent: a violated constraint raises, and the whole transaction is lost.\<close>

definition flush_check :: "(db \<Rightarrow> bool) \<Rightarrow> string \<Rightarrow> unit svc" where
  "flush_check ok constraint =
     (\<lambda>w. if ok (w_db w) then (Inr (), w)
          else (Inl (IntegrityExn constraint), w\<lparr>w_db := w_committed w\<rparr>))"

section \<open>The session\<close>

definition set_tenant_context :: "nat option \<Rightarrow> nat option \<Rightarrow> unit svc" where
  "set_tenant_context t u = modify (\<lambda>w. w\<lparr>w_tenant := t, w_user := u\<rparr>)"

definition set_user_context :: "nat \<Rightarrow> unit svc" where
  "set_user_context u = modify (\<lambda>w. w\<lparr>w_user := Some u\<rparr>)"

definition require_tenant_id :: "nat svc" where
  "require_tenant_id =
     (\<lambda>w. case w_tenant w of
            None \<Rightarrow> (Inl (err TenantContextMissingError), w)
          | Some t \<Rightarrow> (Inr t, w))"

text \<open>The context is reasserted after each commit and rollback, so it outlives both.\<close>

definition session_commit :: "unit svc" where
  "session_commit = modify (\<lambda>w. w\<lparr>w_committed := w_db w\<rparr>)"

definition session_rollback :: "unit svc" where
  "session_rollback = modify (\<lambda>w. w\<lparr>w_db := w_committed w\<rparr>)"

text \<open>\<open>session_scope\<close>: a new session reads the committed database; the body's return
  commits, its raise rolls back and is raised again; the session is closed either way.\<close>

definition open_session :: "nat option \<Rightarrow> nat option \<Rightarrow> world \<Rightarrow> world" where
  "open_session t u w = w\<lparr>w_db := w_committed w, w_tenant := t, w_user := u\<rparr>"

definition close_session :: "world \<Rightarrow> world" where
  "close_session w = w\<lparr>w_tenant := None, w_user := None\<rparr>"

definition session_scope :: "nat option \<Rightarrow> nat option \<Rightarrow> 'a svc \<Rightarrow> 'a svc" where
  "session_scope t u body =
     (\<lambda>w. case body (open_session t u w) of
            (Inr a, v) \<Rightarrow> (Inr a, close_session (snd (session_commit v)))
          | (Inl e, v) \<Rightarrow> (Inl e, close_session (snd (session_rollback v))))"

definition get_unscoped_session :: "'a svc \<Rightarrow> 'a svc" where
  "get_unscoped_session handler = session_scope None None handler"

text \<open>\<open>request_context\<close>: bind the ambient context for a block, then restore it.\<close>

definition with_context :: "request_context \<Rightarrow> 'a svc \<Rightarrow> 'a svc" where
  "with_context c body =
     (\<lambda>w. case body (w\<lparr>w_ctx := c\<rparr>) of (r, v) \<Rightarrow> (r, v\<lparr>w_ctx := w_ctx w\<rparr>))"

text \<open>A handler whose result the model drops.\<close>

definition done_with :: "'a svc \<Rightarrow> unit svc" where
  "done_with m = ebind m (\<lambda>_. ret ())"

section \<open>Row-level security\<close>

text \<open>The policy of revision 0017: a tenant-owned row is visible when its \<open>tenant_id\<close> is the
  transaction's; with no tenant bound the comparison is NULL and nothing is.\<close>

definition rls_visible :: "('r \<Rightarrow> nat) \<Rightarrow> nat option \<Rightarrow> 'r list \<Rightarrow> 'r list" where
  "rls_visible tenant_of t rows =
     (case t of None \<Rightarrow> [] | Some i \<Rightarrow> filter (\<lambda>r. tenant_of r = i) rows)"

text \<open>\<open>tenant_memberships_self_read\<close>: the bound user also reads their own memberships.\<close>

definition rls_memberships :: "world \<Rightarrow> membership_row list" where
  "rls_memberships w =
     filter (\<lambda>m. w_tenant w = Some (mem_tenant_id m) \<or> w_user w = Some (mem_user_id m))
       (tenant_memberships (w_db w))"

section \<open>Weakest preconditions\<close>

lemma wp_fresh_id [wp_simps]:
  "wp fresh_id Q E w = Q (w_next w) (w\<lparr>w_next := Suc (w_next w)\<rparr>)"
  by (simp add: wp_def fresh_id_def)

lemma wp_now [wp_simps]: "wp now Q E w = Q (w_now w) w"
  by (simp add: now_def wp_simps)

lemma wp_query [wp_simps]: "wp (query f) Q E w = Q (f (w_db w)) w"
  by (simp add: query_def wp_simps)

lemma wp_change_db [wp_simps]: "wp (change_db f) Q E w = Q () (w\<lparr>w_db := f (w_db w)\<rparr>)"
  by (simp add: change_db_def wp_simps)

lemma wp_flush_check [wp_simps]:
  "wp (flush_check ok c) Q E w =
   (if ok (w_db w) then Q () w else E (IntegrityExn c) (w\<lparr>w_db := w_committed w\<rparr>))"
  by (simp add: wp_def flush_check_def)

lemma wp_require_tenant_id [wp_simps]:
  "wp require_tenant_id Q E w =
   (case w_tenant w of None \<Rightarrow> E (err TenantContextMissingError) w | Some t \<Rightarrow> Q t w)"
  by (simp add: wp_def require_tenant_id_def split: option.splits)

lemma wp_set_tenant_context [wp_simps]:
  "wp (set_tenant_context t u) Q E w = Q () (w\<lparr>w_tenant := t, w_user := u\<rparr>)"
  by (simp add: set_tenant_context_def wp_simps)

lemma wp_set_user_context [wp_simps]: "wp (set_user_context u) Q E w = Q () (w\<lparr>w_user := Some u\<rparr>)"
  by (simp add: set_user_context_def wp_simps)

lemma wp_session_commit [wp_simps]: "wp session_commit Q E w = Q () (w\<lparr>w_committed := w_db w\<rparr>)"
  by (simp add: session_commit_def wp_simps)

lemma reads_session [reads_intros]:
  "reads now" "reads (query f)" "reads require_tenant_id"
  by (simp_all add: reads_def now_def query_def gets_def require_tenant_id_def split: option.split)

section \<open>Facts\<close>

lemma scope_return:
  "body (open_session t u w) = (Inr a, v) \<Longrightarrow>
   session_scope t u body w = (Inr a, close_session (v\<lparr>w_committed := w_db v\<rparr>))"
  by (simp add: session_scope_def session_commit_def modify_def)

lemma scope_raise:
  "body (open_session t u w) = (Inl e, v) \<Longrightarrow>
   session_scope t u body w = (Inl e, close_session (v\<lparr>w_db := w_committed v\<rparr>))"
  by (simp add: session_scope_def session_rollback_def modify_def)

text \<open>A body that never commits by itself leaves the committed database alone; then a raise
  makes the whole unit of work disappear.\<close>

definition no_commit :: "'a svc \<Rightarrow> bool" where
  "no_commit m = (\<forall>w. w_committed (snd (m w)) = w_committed w)"

named_theorems no_commit_intros \<open>computations that leave committing to the request scope\<close>

lemma no_commit_reads: "reads m \<Longrightarrow> no_commit m"
  by (simp add: no_commit_def reads_def)

lemma no_commit_ebind [no_commit_intros]:
  "no_commit m \<Longrightarrow> (\<And>a. no_commit (f a)) \<Longrightarrow> no_commit (ebind m f)"
  unfolding no_commit_def ebind_def by (auto split: sum.splits prod.splits) (metis snd_conv)+

lemma no_commit_basic [no_commit_intros]:
  "no_commit (ret a)" "no_commit (raise e)" "no_commit (gets f)" "no_commit now"
  "no_commit fresh_id" "no_commit (query g)" "no_commit (change_db h)"
  "no_commit (flush_check ok c)" "no_commit require_tenant_id" "no_commit (raise_if b e)"
  "no_commit (lift_sum r)" "no_commit (set_tenant_context t u)" "no_commit (set_user_context v)"
  by (auto simp: no_commit_def comp_defs now_def fresh_id_def query_def change_db_def flush_check_def
      require_tenant_id_def set_tenant_context_def set_user_context_def split: option.split sum.split)

lemma no_commit_compound [no_commit_intros]:
  "no_commit m0 \<Longrightarrow> no_commit n0 \<Longrightarrow> no_commit (ethen m0 n0)"
  "no_commit m \<Longrightarrow> no_commit n \<Longrightarrow> no_commit (if b then m else n)"
  "no_commit (f v) \<Longrightarrow> no_commit (let x = v in f x)"
  "no_commit m \<Longrightarrow> (\<And>y. no_commit (g y)) \<Longrightarrow> no_commit (case x of None \<Rightarrow> m | Some y \<Rightarrow> g y)"
  "(\<And>a b. no_commit (k a b)) \<Longrightarrow> no_commit (case p of (a, b) \<Rightarrow> k a b)"
  by (auto simp: ethen_def intro: no_commit_ebind split: option.split prod.split)

lemma scope_raise_atomic:
  assumes "no_commit body" and "session_scope t u body w = (Inl e, v)"
  shows "w_committed v = w_committed w \<and> w_db v = w_committed w"
proof (cases "body (open_session t u w)")
  case (Pair r x)
  have "w_committed x = w_committed w"
    using assms(1) Pair by (auto simp: no_commit_def open_session_def dest: spec [of _ "open_session t u w"])
  then show ?thesis
    using assms(2) Pair
    by (auto simp: session_scope_def session_commit_def session_rollback_def modify_def
        close_session_def split: sum.splits)
qed

lemma scope_return_durable:
  "session_scope t u body w = (Inr a, v) \<Longrightarrow> w_db v = w_committed v"
  by (auto simp: session_scope_def session_commit_def session_rollback_def modify_def
      close_session_def split: sum.splits prod.splits)

end
