(* ===== verification/Pagination.thy ===== *)
theory Pagination
  imports Errors "HOL-Library.List_Lexorder" "HOL-Library.Char_ord"
begin

text \<open>
  \<open>core/pagination.py\<close>, \<open>api/dependencies/pagination.py\<close> and the ordering and
  windowing half of \<open>repositories/base.py\<close> (\<open>_order_by\<close>, \<open>_paginate\<close>): page
  parameters, the sort allow-list, the tie-broken order and the page window.  The
  lemmas show the pages of a collection cut it into consecutive disjoint windows.
\<close>

section \<open>Values a column can be sorted by\<close>

text \<open>A column holds values of one kind, or NULL; PostgreSQL sorts NULL above every value.\<close>

datatype sort_val = SV_Int int | SV_Rat rat | SV_Str string | SV_Null

fun sort_rank :: "sort_val \<Rightarrow> nat" where
  "sort_rank (SV_Int _) = 0"
| "sort_rank (SV_Rat _) = 1"
| "sort_rank (SV_Str _) = 2"
| "sort_rank SV_Null = 3"

fun sort_le :: "sort_val \<Rightarrow> sort_val \<Rightarrow> bool" where
  "sort_le (SV_Int a) (SV_Int b) = (a \<le> b)"
| "sort_le (SV_Rat a) (SV_Rat b) = (a \<le> b)"
| "sort_le (SV_Str a) (SV_Str b) = (a \<le> b)"
| "sort_le a b = (sort_rank a \<le> sort_rank b)"

instantiation sort_val :: linorder
begin

definition less_eq_sort_val :: "sort_val \<Rightarrow> sort_val \<Rightarrow> bool" where
  "less_eq_sort_val = sort_le"

definition less_sort_val :: "sort_val \<Rightarrow> sort_val \<Rightarrow> bool" where
  "less_sort_val a b = (sort_le a b \<and> \<not> sort_le b a)"

instance
proof
  fix a b c :: sort_val
  show "a < b \<longleftrightarrow> a \<le> b \<and> \<not> b \<le> a" by (simp add: less_sort_val_def less_eq_sort_val_def)
  show "a \<le> a" by (cases a) (simp_all add: less_eq_sort_val_def)
  show "a \<le> c" if "a \<le> b" "b \<le> c"
    using that by (cases a; cases b; cases c) (simp_all add: less_eq_sort_val_def)
  show "a = b" if "a \<le> b" "b \<le> a"
    using that by (cases a; cases b) (simp_all add: less_eq_sort_val_def)
  show "a \<le> b \<or> b \<le> a" by (cases a; cases b) (auto simp: less_eq_sort_val_def)
qed

end

fun opt_sort :: "('a \<Rightarrow> sort_val) \<Rightarrow> 'a option \<Rightarrow> sort_val" where
  "opt_sort f None = SV_Null"
| "opt_sort f (Some x) = f x"

section \<open>Parameters\<close>

record page_params =
  pp_page :: int
  pp_page_size :: int

definition pp_offset :: "page_params \<Rightarrow> int" where
  "pp_offset p = (pp_page p - 1) * pp_page_size p"

definition pp_limit :: "page_params \<Rightarrow> int" where
  "pp_limit p = pp_page_size p"

record sort_params =
  so_field :: "string option"
  so_order :: string

definition so_descending :: "sort_params \<Rightarrow> bool" where
  "so_descending s = (so_order s = ''desc'')"

record 'a page =
  pg_items :: "'a list"
  pg_total :: int
  pg_page :: int
  pg_page_size :: int

definition total_pages :: "'a page \<Rightarrow> int" where
  "total_pages p =
     (if pg_page_size p \<le> 0 then 0
      else (pg_total p + pg_page_size p - 1) div pg_page_size p)"

definition clamp_page_size :: "int option \<Rightarrow> int \<Rightarrow> int \<Rightarrow> int" where
  "clamp_page_size requested dflt maximum =
     (case requested of None \<Rightarrow> dflt | Some n \<Rightarrow> max 1 (min n maximum))"

definition resolve_sort :: "string option \<Rightarrow> string list \<Rightarrow> string \<Rightarrow> exn + string" where
  "resolve_sort requested allowed dflt =
     (case requested of
        None \<Rightarrow> Inr dflt
      | Some f \<Rightarrow> if f \<notin> set allowed then Inl (AppExn (sort_field_error f (sort allowed))) else Inr f)"

text \<open>The query-parameter dependencies; FastAPI rejects a value outside the declared bounds
  with a 422 before the function runs, which is the \<open>None\<close> of the model.\<close>

definition get_page_params :: "int \<Rightarrow> int \<Rightarrow> int \<Rightarrow> int option \<Rightarrow> page_params option" where
  "get_page_params default_size max_size page page_size =
     (if 1 \<le> page \<and> page \<le> 100000 \<and> (case page_size of None \<Rightarrow> True | Some n \<Rightarrow> 1 \<le> n)
      then Some \<lparr>pp_page = page, pp_page_size = clamp_page_size page_size default_size max_size\<rparr>
      else None)"

definition get_sort_params :: "string option \<Rightarrow> string \<Rightarrow> sort_params option" where
  "get_sort_params srt order =
     (if (case srt of None \<Rightarrow> True | Some s \<Rightarrow> length s \<le> 64) \<and> (order = ''asc'' \<or> order = ''desc'')
      then Some \<lparr>so_field = srt, so_order = (if order = ''asc'' then ''asc'' else ''desc'')\<rparr>
      else None)"

section \<open>Ordering and windowing\<close>

text \<open>\<open>ORDER BY column, id\<close>: ascending in both, or descending in both.\<close>

definition order_rows :: "('r \<Rightarrow> nat) \<Rightarrow> ('r \<Rightarrow> sort_val) \<Rightarrow> bool \<Rightarrow> 'r list \<Rightarrow> 'r list" where
  "order_rows idf column descending rows =
     (let asc = sort_key column (sort_key idf rows) in if descending then rev asc else asc)"

definition window_rows :: "page_params \<Rightarrow> 'r list \<Rightarrow> 'r list" where
  "window_rows p rows = take (nat (pp_limit p)) (drop (nat (pp_offset p)) rows)"

definition column_of :: "(string \<times> ('r \<Rightarrow> sort_val)) list \<Rightarrow> string \<Rightarrow> 'r \<Rightarrow> sort_val" where
  "column_of columns field = (case map_of columns field of Some c \<Rightarrow> c | None \<Rightarrow> (\<lambda>_. SV_Null))"

definition paginate ::
  "('r \<Rightarrow> nat) \<Rightarrow> (string \<times> ('r \<Rightarrow> sort_val)) list \<Rightarrow> string \<Rightarrow> page_params \<Rightarrow>
   sort_params option \<Rightarrow> 'r list \<Rightarrow> exn + 'r page" where
  "paginate idf columns dflt p srt rows =
     (case resolve_sort (case srt of None \<Rightarrow> None | Some s \<Rightarrow> so_field s) (map fst columns) dflt of
        Inl e \<Rightarrow> Inl e
      | Inr field \<Rightarrow>
          let ordered = order_rows idf (column_of columns field)
                          (case srt of None \<Rightarrow> True | Some s \<Rightarrow> so_descending s) rows
          in Inr \<lparr>pg_items = window_rows p ordered, pg_total = int (length rows),
                  pg_page = pp_page p, pg_page_size = pp_page_size p\<rparr>)"

section \<open>Facts\<close>

lemma order_rows_set [simp]: "set (order_rows idf c d rows) = set rows"
  by (simp add: order_rows_def Let_def)

lemma order_rows_length [simp]: "length (order_rows idf c d rows) = length rows"
  by (simp add: order_rows_def Let_def)

lemma order_rows_mset: "mset (order_rows idf c d rows) = mset rows"
  by (simp add: order_rows_def Let_def)

lemma clamp_bounds:
  assumes "1 \<le> dflt" "dflt \<le> maximum"
  shows "1 \<le> clamp_page_size r dflt maximum \<and> clamp_page_size r dflt maximum \<le> maximum"
  using assms by (auto simp: clamp_page_size_def split: option.splits)

text \<open>The windows of pages \<open>1 .. k\<close> are the first \<open>k * sz\<close> rows.\<close>

lemma windows_prefix:
  "concat (map (\<lambda>i. take n (drop (i * n) xs)) [0..<k]) = take (k * n) xs"
proof (induction k)
  case (Suc k)
  have "take (Suc k * n) xs = take (k * n) xs @ take n (drop (k * n) xs)"
    by (metis add.commute mult_Suc take_add)
  then show ?case using Suc by simp
qed simp

definition page_window :: "int \<Rightarrow> 'r list \<Rightarrow> nat \<Rightarrow> 'r list" where
  "page_window sz rows i = window_rows \<lparr>pp_page = int i, pp_page_size = sz\<rparr> rows"

lemma page_window_drop:
  assumes "0 < sz"
  shows "page_window sz rows (Suc i) = take (nat sz) (drop (i * nat sz) rows)"
  using assms
  by (simp add: page_window_def window_rows_def pp_limit_def pp_offset_def nat_mult_distrib)

lemma pages_cover_nat:
  assumes "0 < n" shows "m \<le> ((m + n - 1) div n) * (n::nat)"
proof -
  have "m + n - 1 < ((m + n - 1) div n) * n + n"
    using div_mult_mod_eq [of "m + n - 1" n] mod_less_divisor [OF assms, of "m + n - 1"] by linarith
  then show ?thesis using assms by linarith
qed

text \<open>The pages of a collection, read in order, are the collection: no row is on two pages and
  none is missed, whatever the page size.\<close>

lemma windows_concat:
  assumes "0 < sz" and "k = nat ((int (length rows) + sz - 1) div sz)"
  shows "concat (map (page_window sz rows) (map Suc [0..<k])) = rows"
proof -
  have k: "k = (length rows + nat sz - 1) div nat sz"
  proof -
    have "(int (length rows) + sz - 1) div sz = int ((length rows + nat sz - 1) div nat sz)"
      using assms(1) by (simp add: zdiv_int of_nat_diff)
    then show ?thesis using assms(2) by simp
  qed
  have "concat (map (page_window sz rows) (map Suc [0..<k])) = take (k * nat sz) rows"
    unfolding map_map comp_def page_window_drop [OF assms(1)] by (rule windows_prefix)
  then show ?thesis using pages_cover_nat [of "nat sz" "length rows"] assms(1) k by simp
qed

end
