(* ===== verification/Repository.thy ===== *)
theory Repository
  imports Session Pagination
begin

text \<open>
  \<open>repositories/base.py\<close>.  A mapped class is a \<open>model\<close> value: how to read and rewrite its
  table in the database, its key and tenant columns and its sortable columns, the class
  attributes a repository is parameterised by in the source.  \<open>repo_rows\<close> is
  \<open>TenantRepository._select\<close>: every read and every insert goes through the session's
  tenant.  The locale \<open>tenant_table\<close> states the laws of a tenant-owned table and proves
  the isolation of the generic operations once; each table is an interpretation.
\<close>

section \<open>Models and generic operations\<close>

record 'r model =
  m_rows :: "db \<Rightarrow> 'r list"
  m_upd :: "('r list \<Rightarrow> 'r list) \<Rightarrow> db \<Rightarrow> db"
  m_id :: "'r \<Rightarrow> nat"
  m_tenant :: "'r \<Rightarrow> nat"
  m_touch :: "int \<Rightarrow> 'r \<Rightarrow> 'r"
  m_columns :: "(string \<times> ('r \<Rightarrow> sort_val)) list"
  m_default_sort :: string

definition tenant_rows :: "'r model \<Rightarrow> nat \<Rightarrow> db \<Rightarrow> 'r list" where
  "tenant_rows m t d = filter (\<lambda>r. m_tenant m r = t) (m_rows m d)"

definition repo_rows :: "'r model \<Rightarrow> 'r list svc" where
  "repo_rows m = ebind require_tenant_id (\<lambda>t. query (tenant_rows m t))"

definition repo_where :: "'r model \<Rightarrow> ('r \<Rightarrow> bool) \<Rightarrow> 'r list svc" where
  "repo_where m p = ebind (repo_rows m) (\<lambda>rs. ret (filter p rs))"

fun scalar_one_or_none :: "'r list \<Rightarrow> 'r option svc" where
  "scalar_one_or_none [] = ret None"
| "scalar_one_or_none [r] = ret (Some r)"
| "scalar_one_or_none (r # s # rs) = raise (RuntimeExn ''MultipleResultsFound'')"

definition repo_get :: "'r model \<Rightarrow> nat \<Rightarrow> 'r option svc" where
  "repo_get m i = ebind (repo_where m (\<lambda>r. m_id m r = i)) scalar_one_or_none"

definition repo_get_or_raise :: "'r model \<Rightarrow> string \<Rightarrow> nat \<Rightarrow> 'r svc" where
  "repo_get_or_raise m resource i =
     ebind (repo_get m i) (\<lambda>e. case e of None \<Rightarrow> raise (not_found resource i) | Some r \<Rightarrow> ret r)"

definition repo_list_page ::
  "'r model \<Rightarrow> page_params \<Rightarrow> sort_params option \<Rightarrow> ('r \<Rightarrow> bool) list \<Rightarrow> 'r page svc" where
  "repo_list_page m p srt filters =
     ebind (repo_where m (\<lambda>r. list_all (\<lambda>f. f r) filters))
       (\<lambda>rs. lift_sum (paginate (m_id m) (m_columns m) (m_default_sort m) p srt rs))"

definition repo_count :: "'r model \<Rightarrow> ('r \<Rightarrow> bool) list \<Rightarrow> nat svc" where
  "repo_count m filters =
     ebind (repo_where m (\<lambda>r. list_all (\<lambda>f. f r) filters)) (\<lambda>rs. ret (length rs))"

definition repo_exists :: "'r model \<Rightarrow> ('r \<Rightarrow> bool) list \<Rightarrow> bool svc" where
  "repo_exists m filters =
     ebind (repo_where m (\<lambda>r. list_all (\<lambda>f. f r) filters)) (\<lambda>rs. ret (rs \<noteq> []))"

text \<open>\<open>new\<close>: the constructor \<open>mk\<close> is handed the fresh key, the session's tenant and the
  server's clock; a caller has no way to name another tenant.\<close>

definition repo_new :: "'r model \<Rightarrow> (nat \<Rightarrow> nat \<Rightarrow> int \<Rightarrow> 'r) \<Rightarrow> 'r svc" where
  "repo_new m mk =
     ebind require_tenant_id (\<lambda>t. ebind fresh_id (\<lambda>i. ebind now (\<lambda>n.
       let r = mk i t n in ethen (change_db (m_upd m (\<lambda>rows. rows @ [r]))) (ret r))))"

text \<open>An attribute assignment on a loaded row, sent by the next flush; the \<open>set_updated_at\<close>
  trigger stamps it.\<close>

definition repo_save :: "'r model \<Rightarrow> 'r \<Rightarrow> unit svc" where
  "repo_save m r = ebind now (\<lambda>n. change_db (m_upd m (row_put (m_id m) (m_touch m n r))))"

definition repo_delete :: "'r model \<Rightarrow> 'r \<Rightarrow> unit svc" where
  "repo_delete m r = change_db (m_upd m (row_drop (m_id m) (m_id m r)))"

definition repo_delete_by_id :: "'r model \<Rightarrow> nat \<Rightarrow> nat svc" where
  "repo_delete_by_id m i =
     ebind require_tenant_id (\<lambda>t. ebind (query (\<lambda>d. filter (\<lambda>r. m_tenant m r = t \<and> m_id m r = i) (m_rows m d)))
       (\<lambda>rs. ethen (change_db (m_upd m (filter (\<lambda>r. \<not> (m_tenant m r = t \<and> m_id m r = i)))))
               (ret (length rs))))"

subsection \<open>Search terms\<close>

text \<open>\<open>ILIKE\<close>: \<open>%\<close> any run, \<open>_\<close> any character, a backslash escapes; both sides in lower
  case.  The term is not escaped by the source, so its own wildcards count.\<close>

fun like_match :: "string \<Rightarrow> string \<Rightarrow> bool" where
  "like_match [] s = (s = [])"
| "like_match (c # p) [] = (c = CHR ''%'' \<and> like_match p [])"
| "like_match (c # p) (x # s) =
     (if c = CHR ''%'' then like_match p (x # s) \<or> like_match (c # p) s
      else if c = CHR ''_'' then like_match p s
      else if c = CHR 0x5C then (case p of [] \<Rightarrow> False | e # q \<Rightarrow> e = x \<and> like_match q s)
      else c = x \<and> like_match p s)"

definition ilike_term :: "string \<Rightarrow> string \<Rightarrow> bool" where
  "ilike_term search txt = like_match (''%'' @ str_lower (str_strip search) @ ''%'') (str_lower txt)"

section \<open>The contract of a tenant-owned table\<close>

lemma reads_scalar_one_or_none [reads_intros]: "reads (scalar_one_or_none rs)"
  by (cases rs rule: scalar_one_or_none.cases) (simp_all add: reads_ret reads_raise)

lemma reads_repo [reads_intros]:
  "reads (repo_rows m)" "reads (repo_where m p)" "reads (repo_get m i)"
  "reads (repo_get_or_raise m res i)" "reads (repo_list_page m pg srt fs)"
  "reads (repo_count m fs)" "reads (repo_exists m fs)"
  unfolding repo_rows_def repo_where_def repo_get_def repo_get_or_raise_def repo_list_page_def
    repo_count_def repo_exists_def
  by (intro reads_intros)+

lemmas no_commit_repo_reads [no_commit_intros] =
  reads_repo [THEN no_commit_reads] reads_scalar_one_or_none [THEN no_commit_reads]

lemma no_commit_repo [no_commit_intros]:
  "no_commit (repo_new m mk)" "no_commit (repo_save m r)" "no_commit (repo_delete m r)"
  "no_commit (repo_delete_by_id m i)"
  unfolding repo_new_def repo_save_def repo_delete_def repo_delete_by_id_def Let_def
  by (intro no_commit_intros)+

lemma wp_scalar: "wp (scalar_one_or_none rs) Q E w =
  (case rs of [] \<Rightarrow> Q None w | [r] \<Rightarrow> Q (Some r) w
   | _ \<Rightarrow> E (RuntimeExn ''MultipleResultsFound'') w)"
  by (cases rs rule: scalar_one_or_none.cases) (simp_all add: wp_simps)

lemma scalar_one_SomeD: "scalar_one_or_none rs w = (Inr (Some r), v) \<Longrightarrow> rs = [r]"
  by (cases rs rule: scalar_one_or_none.cases) (auto simp: comp_defs)

lemma scalar_one_memD: "scalar_one_or_none rs w = (Inr (Some r), v) \<Longrightarrow> r \<in> set rs"
  by (drule scalar_one_SomeD) simp

lemma scalar_one_NoneD: "scalar_one_or_none rs w = (Inr None, v) \<Longrightarrow> rs = []"
  by (cases rs rule: scalar_one_or_none.cases) (auto simp: comp_defs)

locale tenant_table =
  fixes m :: "'r model"
  assumes rows_upd: "m_rows m (m_upd m f d) = f (m_rows m d)"
    and touch_id: "m_id m (m_touch m n r) = m_id m r"
    and touch_tenant: "m_tenant m (m_touch m n r) = m_tenant m r"
begin

lemma wp_rows:
  "wp (repo_rows m) Q E w = (case w_tenant w of None \<Rightarrow> E (err TenantContextMissingError) w
     | Some t \<Rightarrow> Q (tenant_rows m t (w_db w)) w)"
  by (simp add: repo_rows_def wp_simps split: option.splits)

lemma wp_where:
  "wp (repo_where m p) Q E w = (case w_tenant w of None \<Rightarrow> E (err TenantContextMissingError) w
     | Some t \<Rightarrow> Q (filter p (tenant_rows m t (w_db w))) w)"
  by (simp add: repo_where_def wp_simps wp_rows split: option.splits)

lemma unbound_denied: "w_tenant w = None \<Longrightarrow> repo_where m p w = (Inl (err TenantContextMissingError), w)"
  by (simp add: repo_where_def repo_rows_def comp_defs require_tenant_id_def)

lemma get_or_raise_own:
  assumes "repo_get_or_raise m resource i w = (Inr r, v)"
  shows "v = w \<and> r \<in> set (m_rows m (w_db w)) \<and> m_id m r = i \<and> w_tenant w = Some (m_tenant m r)"
proof -
  have "wp (repo_get_or_raise m resource i)
     (\<lambda>r v. v = w \<and> r \<in> set (m_rows m (w_db w)) \<and> m_id m r = i \<and> w_tenant w = Some (m_tenant m r))
     (\<lambda>_ _. True) w"
  proof (cases "w_tenant w")
    case (Some t)
    let ?rs = "filter (\<lambda>r. m_id m r = i) (tenant_rows m t (w_db w))"
    show ?thesis
    proof (cases ?rs rule: scalar_one_or_none.cases)
      case (2 r)
      then have "r \<in> set ?rs" by simp
      then show ?thesis using 2 Some
        by (simp add: repo_get_or_raise_def repo_get_def wp_simps wp_where tenant_rows_def)
    qed (use Some in \<open>simp_all add: repo_get_or_raise_def repo_get_def wp_simps wp_where\<close>)
  qed (simp add: repo_get_or_raise_def repo_get_def wp_simps wp_where)
  then show ?thesis using assms by (rule wp_Inr)
qed

lemma get_or_raise_foreign:
  assumes "w_tenant w = Some t"
    and "\<forall>r\<in>set (m_rows m (w_db w)). m_id m r = i \<longrightarrow> m_tenant m r \<noteq> t"
  shows "repo_get_or_raise m resource i w = (Inl (not_found resource i), w)"
proof -
  have "filter (\<lambda>r. m_id m r = i) (tenant_rows m t (w_db w)) = []"
    using assms(2) by (auto simp: tenant_rows_def filter_empty_conv)
  then show ?thesis using assms(1)
    by (simp add: repo_get_or_raise_def repo_get_def repo_where_def repo_rows_def comp_defs
        require_tenant_id_def query_def)
qed

lemma get_or_raise_found:
  assumes "w_tenant w = Some t" and "distinct (map (m_id m) (m_rows m (w_db w)))"
    and "r \<in> set (m_rows m (w_db w))" and "m_tenant m r = t"
  shows "repo_get_or_raise m resource (m_id m r) w = (Inr r, w)"
proof -
  have "filter (\<lambda>x. m_id m x = m_id m r) rows = [r]"
    if "distinct (map (m_id m) rows)" "r \<in> set rows" for rows
    using that by (induction rows) (auto simp: filter_empty_conv rev_image_eqI)
  moreover have "filter (\<lambda>x. m_id m x = m_id m r) (tenant_rows m t (w_db w))
      = filter (\<lambda>x. m_tenant m x = t) (filter (\<lambda>x. m_id m x = m_id m r) (m_rows m (w_db w)))"
    by (simp add: tenant_rows_def conj_commute)
  ultimately have "filter (\<lambda>x. m_id m x = m_id m r) (tenant_rows m t (w_db w)) = [r]"
    using assms(2,3,4) by simp
  then show ?thesis using assms(1)
    by (simp add: repo_get_or_raise_def repo_get_def repo_where_def repo_rows_def comp_defs
        require_tenant_id_def query_def)
qed

lemma get_or_raise_same: "snd (repo_get_or_raise m resource i w) = w"
proof -
  have "wp (repo_get_or_raise m resource i) (\<lambda>_ v. v = w) (\<lambda>_ v. v = w) w"
  proof (cases "w_tenant w")
    case (Some t)
    show ?thesis using Some
      by (cases "filter (\<lambda>r. m_id m r = i) (tenant_rows m t (w_db w))" rule: scalar_one_or_none.cases)
        (simp_all add: repo_get_or_raise_def repo_get_def wp_simps wp_where)
  qed (simp add: repo_get_or_raise_def repo_get_def wp_simps wp_where)
  then show ?thesis by (rule wp_snd)
qed

lemma wp_get_or_raise:
  assumes "\<And>r. w_tenant w = Some (m_tenant m r) \<Longrightarrow> r \<in> set (m_rows m (w_db w)) \<Longrightarrow> m_id m r = i \<Longrightarrow> Q r w"
    and "\<And>e. E e w"
  shows "wp (repo_get_or_raise m resource i) Q E w"
proof (cases "repo_get_or_raise m resource i w")
  case (Pair x v)
  have v: "v = w" using get_or_raise_same [of resource i w] Pair by simp
  show ?thesis
  proof (cases x)
    case (Inr r)
    then show ?thesis using get_or_raise_own Pair assms(1) v by (simp add: wp_def)
  qed (simp add: wp_def Pair v assms(2))
qed

lemma wp_new:
  "wp (repo_new m mk) Q E w =
   (case w_tenant w of None \<Rightarrow> E (err TenantContextMissingError) w
    | Some t \<Rightarrow> Q (mk (w_next w) t (w_now w))
        (w\<lparr>w_next := Suc (w_next w),
           w_db := m_upd m (\<lambda>rows. rows @ [mk (w_next w) t (w_now w)]) (w_db w)\<rparr>))"
  by (simp add: repo_new_def wp_simps split: option.splits)

lemma wp_save:
  "wp (repo_save m r) Q E w =
   Q () (w\<lparr>w_db := m_upd m (row_put (m_id m) (m_touch m (w_now w) r)) (w_db w)\<rparr>)"
  by (simp add: repo_save_def wp_simps)

lemma wp_delete:
  "wp (repo_delete m r) Q E w = Q () (w\<lparr>w_db := m_upd m (row_drop (m_id m) (m_id m r)) (w_db w)\<rparr>)"
  by (simp add: repo_delete_def wp_simps)

lemma new_owned:
  assumes "repo_new m mk w = (Inr r, v)" and "\<And>i t n. m_tenant m (mk i t n) = t"
  shows "w_tenant w = Some (m_tenant m r)"
proof -
  have "wp (repo_new m mk) (\<lambda>r v. w_tenant w = Some (m_tenant m r)) (\<lambda>_ _. True) w"
    by (simp add: wp_new assms(2) split: option.splits)
  then show ?thesis using assms(1) by (rule wp_Inr)
qed

text \<open>The rows of another tenant are out of reach of a read, a save of an own row and a
  delete.\<close>

lemma save_other_tenant:
  assumes "distinct (map (m_id m) (m_rows m (w_db w)))" and "r0 \<in> set (m_rows m (w_db w))"
    and "m_id m r = m_id m r0" and "m_tenant m r = m_tenant m r0" and "u \<noteq> m_tenant m r0"
  shows "tenant_rows m u (w_db (snd (repo_save m r w))) = tenant_rows m u (w_db w)"
proof -
  have "filter (\<lambda>x. m_tenant m x = u) (row_put (m_id m) (m_touch m n r) rows)
      = filter (\<lambda>x. m_tenant m x = u) rows"
    if "\<forall>x\<in>set rows. m_id m x = m_id m r \<longrightarrow> m_tenant m x \<noteq> u" for rows n
    using that assms(4,5) by (induction rows) (auto simp: row_put_def touch_id touch_tenant)
  moreover have "\<forall>x\<in>set (m_rows m (w_db w)). m_id m x = m_id m r \<longrightarrow> m_tenant m x \<noteq> u"
    using assms by (metis (no_types, lifting) distinct_map inj_on_eq_iff)
  ultimately show ?thesis
    by (simp add: tenant_rows_def repo_save_def comp_defs now_def change_db_def rows_upd)
qed

end

lemmas repo_defs = repo_rows_def repo_where_def repo_get_def repo_get_or_raise_def
  repo_new_def repo_save_def repo_delete_def

end
