(* ===== verification/Tables.thy ===== *)
theory Tables
  imports Repository
begin

text \<open>
  The tenant repositories' class attributes (\<open>model\<close>, \<open>sortable_fields\<close>,
  \<open>default_sort\<close> in \<open>repositories/*.py\<close>): one \<open>model\<close> value per tenant-owned table,
  each shown to be a \<open>tenant_table\<close>, so the isolation lemmas hold for all of them.
\<close>

definition client_website_model :: "client_website_row model" where
  "client_website_model = \<lparr>m_rows = client_websites, m_upd = (\<lambda>f d. d\<lparr>client_websites := f (client_websites d)\<rparr>), m_id = web_id,
     m_tenant = web_tenant_id, m_touch = (\<lambda>n r. r\<lparr>web_updated_at := n\<rparr>),
     m_columns =
       [(''created_at'', \<lambda>r. SV_Int (web_created_at r)),
        (''updated_at'', \<lambda>r. SV_Int (web_updated_at r)),
        (''name'', \<lambda>r. SV_Str (web_name r)),
        (''normalized_domain'', \<lambda>r. SV_Str (web_normalized_domain r)),
        (''status'', \<lambda>r. SV_Str (client_website_status_value (web_status r)))],
     m_default_sort = ''created_at''\<rparr>"

lemma client_website_model_simps [simp]:
  "m_rows client_website_model = client_websites" "m_upd client_website_model = (\<lambda>f d. d\<lparr>client_websites := f (client_websites d)\<rparr>)" "m_id client_website_model = web_id"
  "m_tenant client_website_model = web_tenant_id" "m_touch client_website_model = (\<lambda>n r. r\<lparr>web_updated_at := n\<rparr>)"
  by (simp_all add: client_website_model_def)

interpretation client_website_table: tenant_table client_website_model
  by unfold_locales simp_all

definition campaign_model :: "campaign_row model" where
  "campaign_model = \<lparr>m_rows = campaigns, m_upd = (\<lambda>f d. d\<lparr>campaigns := f (campaigns d)\<rparr>), m_id = cmp_id,
     m_tenant = cmp_tenant_id, m_touch = (\<lambda>n r. r\<lparr>cmp_updated_at := n\<rparr>),
     m_columns =
       [(''created_at'', \<lambda>r. SV_Int (cmp_created_at r)),
        (''updated_at'', \<lambda>r. SV_Int (cmp_updated_at r)),
        (''name'', \<lambda>r. SV_Str (cmp_name r)),
        (''status'', \<lambda>r. SV_Str (campaign_status_value (cmp_status r))),
        (''start_date'', \<lambda>r. opt_sort SV_Int (cmp_start_date r)),
        (''end_date'', \<lambda>r. opt_sort SV_Int (cmp_end_date r))],
     m_default_sort = ''created_at''\<rparr>"

lemma campaign_model_simps [simp]:
  "m_rows campaign_model = campaigns" "m_upd campaign_model = (\<lambda>f d. d\<lparr>campaigns := f (campaigns d)\<rparr>)" "m_id campaign_model = cmp_id"
  "m_tenant campaign_model = cmp_tenant_id" "m_touch campaign_model = (\<lambda>n r. r\<lparr>cmp_updated_at := n\<rparr>)"
  by (simp_all add: campaign_model_def)

interpretation campaign_table: tenant_table campaign_model
  by unfold_locales simp_all

definition publisher_model :: "publisher_row model" where
  "publisher_model = \<lparr>m_rows = publishers, m_upd = (\<lambda>f d. d\<lparr>publishers := f (publishers d)\<rparr>), m_id = pub_id,
     m_tenant = pub_tenant_id, m_touch = (\<lambda>n r. r\<lparr>pub_updated_at := n\<rparr>),
     m_columns =
       [(''created_at'', \<lambda>r. SV_Int (pub_created_at r)),
        (''updated_at'', \<lambda>r. SV_Int (pub_updated_at r)),
        (''domain'', \<lambda>r. SV_Str (pub_domain r)),
        (''normalized_domain'', \<lambda>r. SV_Str (pub_normalized_domain r)),
        (''name'', \<lambda>r. opt_sort SV_Str (pub_name r)),
        (''status'', \<lambda>r. SV_Str (publisher_status_value (pub_status r))),
        (''quality_score'', \<lambda>r. opt_sort SV_Rat (pub_quality_score r)),
        (''relevance_score'', \<lambda>r. opt_sort SV_Rat (pub_relevance_score r)),
        (''spam_score'', \<lambda>r. opt_sort SV_Rat (pub_spam_score r)),
        (''authority_score'', \<lambda>r. opt_sort SV_Rat (pub_authority_score r)),
        (''organic_traffic'', \<lambda>r. opt_sort SV_Int (pub_organic_traffic r)),
        (''last_checked_at'', \<lambda>r. opt_sort SV_Int (pub_last_checked_at r))],
     m_default_sort = ''created_at''\<rparr>"

lemma publisher_model_simps [simp]:
  "m_rows publisher_model = publishers" "m_upd publisher_model = (\<lambda>f d. d\<lparr>publishers := f (publishers d)\<rparr>)" "m_id publisher_model = pub_id"
  "m_tenant publisher_model = pub_tenant_id" "m_touch publisher_model = (\<lambda>n r. r\<lparr>pub_updated_at := n\<rparr>)"
  by (simp_all add: publisher_model_def)

interpretation publisher_table: tenant_table publisher_model
  by unfold_locales simp_all

definition discovery_run_model :: "discovery_run_row model" where
  "discovery_run_model = \<lparr>m_rows = discovery_runs, m_upd = (\<lambda>f d. d\<lparr>discovery_runs := f (discovery_runs d)\<rparr>), m_id = run_id,
     m_tenant = run_tenant_id, m_touch = (\<lambda>n r. r\<lparr>run_updated_at := n\<rparr>),
     m_columns =
       [(''created_at'', \<lambda>r. SV_Int (run_created_at r)),
        (''updated_at'', \<lambda>r. SV_Int (run_updated_at r)),
        (''status'', \<lambda>r. SV_Str (discovery_run_status_value (run_status r))),
        (''provider'', \<lambda>r. SV_Str (run_provider r))],
     m_default_sort = ''created_at''\<rparr>"

lemma discovery_run_model_simps [simp]:
  "m_rows discovery_run_model = discovery_runs" "m_upd discovery_run_model = (\<lambda>f d. d\<lparr>discovery_runs := f (discovery_runs d)\<rparr>)" "m_id discovery_run_model = run_id"
  "m_tenant discovery_run_model = run_tenant_id" "m_touch discovery_run_model = (\<lambda>n r. r\<lparr>run_updated_at := n\<rparr>)"
  by (simp_all add: discovery_run_model_def)

interpretation discovery_run_table: tenant_table discovery_run_model
  by unfold_locales simp_all

definition opportunity_model :: "opportunity_row model" where
  "opportunity_model = \<lparr>m_rows = opportunities, m_upd = (\<lambda>f d. d\<lparr>opportunities := f (opportunities d)\<rparr>), m_id = opp_id,
     m_tenant = opp_tenant_id, m_touch = (\<lambda>n r. r\<lparr>opp_updated_at := n\<rparr>),
     m_columns =
       [(''created_at'', \<lambda>r. SV_Int (opp_created_at r)),
        (''updated_at'', \<lambda>r. SV_Int (opp_updated_at r)),
        (''status'', \<lambda>r. SV_Str (opportunity_status_value (opp_status r))),
        (''priority'', \<lambda>r. SV_Int (opp_priority r)),
        (''qualification_score'', \<lambda>r. opt_sort SV_Rat (opp_qualification_score r)),
        (''discovered_at'', \<lambda>r. opt_sort SV_Int (opp_discovered_at r)),
        (''qualified_at'', \<lambda>r. opt_sort SV_Int (opp_qualified_at r))],
     m_default_sort = ''created_at''\<rparr>"

lemma opportunity_model_simps [simp]:
  "m_rows opportunity_model = opportunities" "m_upd opportunity_model = (\<lambda>f d. d\<lparr>opportunities := f (opportunities d)\<rparr>)" "m_id opportunity_model = opp_id"
  "m_tenant opportunity_model = opp_tenant_id" "m_touch opportunity_model = (\<lambda>n r. r\<lparr>opp_updated_at := n\<rparr>)"
  by (simp_all add: opportunity_model_def)

interpretation opportunity_table: tenant_table opportunity_model
  by unfold_locales simp_all

definition submission_model :: "submission_row model" where
  "submission_model = \<lparr>m_rows = submissions, m_upd = (\<lambda>f d. d\<lparr>submissions := f (submissions d)\<rparr>), m_id = sub_id,
     m_tenant = sub_tenant_id, m_touch = (\<lambda>n r. r\<lparr>sub_updated_at := n\<rparr>),
     m_columns =
       [(''created_at'', \<lambda>r. SV_Int (sub_created_at r)),
        (''updated_at'', \<lambda>r. SV_Int (sub_updated_at r)),
        (''status'', \<lambda>r. SV_Str (submission_status_value (sub_status r))),
        (''submitted_at'', \<lambda>r. opt_sort SV_Int (sub_submitted_at r)),
        (''published_at'', \<lambda>r. opt_sort SV_Int (sub_published_at r)),
        (''verified_at'', \<lambda>r. opt_sort SV_Int (sub_verified_at r)),
        (''approved_at'', \<lambda>r. opt_sort SV_Int (sub_approved_at r))],
     m_default_sort = ''created_at''\<rparr>"

lemma submission_model_simps [simp]:
  "m_rows submission_model = submissions" "m_upd submission_model = (\<lambda>f d. d\<lparr>submissions := f (submissions d)\<rparr>)" "m_id submission_model = sub_id"
  "m_tenant submission_model = sub_tenant_id" "m_touch submission_model = (\<lambda>n r. r\<lparr>sub_updated_at := n\<rparr>)"
  by (simp_all add: submission_model_def)

interpretation submission_table: tenant_table submission_model
  by unfold_locales simp_all

definition content_model :: "content_row model" where
  "content_model = \<lparr>m_rows = generated_contents, m_upd = (\<lambda>f d. d\<lparr>generated_contents := f (generated_contents d)\<rparr>), m_id = con_id,
     m_tenant = con_tenant_id, m_touch = (\<lambda>n r. r\<lparr>con_updated_at := n\<rparr>),
     m_columns =
       [(''created_at'', \<lambda>r. SV_Int (con_created_at r)),
        (''updated_at'', \<lambda>r. SV_Int (con_updated_at r)),
        (''content_status'', \<lambda>r. SV_Str (content_status_value (con_content_status r)))],
     m_default_sort = ''created_at''\<rparr>"

lemma content_model_simps [simp]:
  "m_rows content_model = generated_contents" "m_upd content_model = (\<lambda>f d. d\<lparr>generated_contents := f (generated_contents d)\<rparr>)" "m_id content_model = con_id"
  "m_tenant content_model = con_tenant_id" "m_touch content_model = (\<lambda>n r. r\<lparr>con_updated_at := n\<rparr>)"
  by (simp_all add: content_model_def)

interpretation content_table: tenant_table content_model
  by unfold_locales simp_all

definition audit_model :: "audit_row model" where
  "audit_model = \<lparr>m_rows = audit_logs, m_upd = (\<lambda>f d. d\<lparr>audit_logs := f (audit_logs d)\<rparr>), m_id = aud_id,
     m_tenant = aud_tenant_id, m_touch = (\<lambda>n r. r),
     m_columns =
       [(''created_at'', \<lambda>r. SV_Int (aud_created_at r)),
        (''action'', \<lambda>r. SV_Str (aud_action r)),
        (''resource_type'', \<lambda>r. opt_sort SV_Str (aud_resource_type r))],
     m_default_sort = ''created_at''\<rparr>"

lemma audit_model_simps [simp]:
  "m_rows audit_model = audit_logs" "m_upd audit_model = (\<lambda>f d. d\<lparr>audit_logs := f (audit_logs d)\<rparr>)" "m_id audit_model = aud_id"
  "m_tenant audit_model = aud_tenant_id" "m_touch audit_model = (\<lambda>n r. r)"
  by (simp_all add: audit_model_def)

interpretation audit_table: tenant_table audit_model
  by unfold_locales simp_all

definition job_model :: "job_row model" where
  "job_model = \<lparr>m_rows = jobs, m_upd = (\<lambda>f d. d\<lparr>jobs := f (jobs d)\<rparr>), m_id = job_id,
     m_tenant = job_tenant_id, m_touch = (\<lambda>n r. r\<lparr>job_updated_at := n\<rparr>),
     m_columns =
       [(''created_at'', \<lambda>r. SV_Int (job_created_at r)),
        (''updated_at'', \<lambda>r. SV_Int (job_updated_at r)),
        (''status'', \<lambda>r. SV_Str (job_status_value (job_status r))),
        (''task_name'', \<lambda>r. SV_Str (job_task_name r)),
        (''run_at'', \<lambda>r. SV_Int (job_run_at r))],
     m_default_sort = ''created_at''\<rparr>"

lemma job_model_simps [simp]:
  "m_rows job_model = jobs" "m_upd job_model = (\<lambda>f d. d\<lparr>jobs := f (jobs d)\<rparr>)" "m_id job_model = job_id"
  "m_tenant job_model = job_tenant_id" "m_touch job_model = (\<lambda>n r. r\<lparr>job_updated_at := n\<rparr>)"
  by (simp_all add: job_model_def)

interpretation job_table: tenant_table job_model
  by unfold_locales simp_all

definition role_model :: "role_row model" where
  "role_model = \<lparr>m_rows = roles, m_upd = (\<lambda>f d. d\<lparr>roles := f (roles d)\<rparr>), m_id = role_id,
     m_tenant = role_tenant_id, m_touch = (\<lambda>n r. r\<lparr>role_updated_at := n\<rparr>),
     m_columns =
       [(''created_at'', \<lambda>r. SV_Int (role_created_at r)),
        (''updated_at'', \<lambda>r. SV_Int (role_updated_at r)),
        (''name'', \<lambda>r. SV_Str (role_name r)),
        (''slug'', \<lambda>r. SV_Str (role_slug r))],
     m_default_sort = ''name''\<rparr>"

lemma role_model_simps [simp]:
  "m_rows role_model = roles" "m_upd role_model = (\<lambda>f d. d\<lparr>roles := f (roles d)\<rparr>)" "m_id role_model = role_id"
  "m_tenant role_model = role_tenant_id" "m_touch role_model = (\<lambda>n r. r\<lparr>role_updated_at := n\<rparr>)"
  by (simp_all add: role_model_def)

interpretation role_table: tenant_table role_model
  by unfold_locales simp_all

definition role_permission_model :: "role_permission_row model" where
  "role_permission_model = \<lparr>m_rows = role_permissions, m_upd = (\<lambda>f d. d\<lparr>role_permissions := f (role_permissions d)\<rparr>), m_id = rp_id,
     m_tenant = rp_tenant_id, m_touch = (\<lambda>n r. r),
     m_columns =
       [(''id'', \<lambda>r. SV_Int (int (rp_id r)))],
     m_default_sort = ''id''\<rparr>"

lemma role_permission_model_simps [simp]:
  "m_rows role_permission_model = role_permissions" "m_upd role_permission_model = (\<lambda>f d. d\<lparr>role_permissions := f (role_permissions d)\<rparr>)" "m_id role_permission_model = rp_id"
  "m_tenant role_permission_model = rp_tenant_id" "m_touch role_permission_model = (\<lambda>n r. r)"
  by (simp_all add: role_permission_model_def)

interpretation role_permission_table: tenant_table role_permission_model
  by unfold_locales simp_all

definition membership_role_model :: "membership_role_row model" where
  "membership_role_model = \<lparr>m_rows = membership_roles, m_upd = (\<lambda>f d. d\<lparr>membership_roles := f (membership_roles d)\<rparr>), m_id = mr_id,
     m_tenant = mr_tenant_id, m_touch = (\<lambda>n r. r),
     m_columns =
       [(''id'', \<lambda>r. SV_Int (int (mr_id r)))],
     m_default_sort = ''id''\<rparr>"

lemma membership_role_model_simps [simp]:
  "m_rows membership_role_model = membership_roles" "m_upd membership_role_model = (\<lambda>f d. d\<lparr>membership_roles := f (membership_roles d)\<rparr>)" "m_id membership_role_model = mr_id"
  "m_tenant membership_role_model = mr_tenant_id" "m_touch membership_role_model = (\<lambda>n r. r)"
  by (simp_all add: membership_role_model_def)

interpretation membership_role_table: tenant_table membership_role_model
  by unfold_locales simp_all

definition credential_model :: "credential_row model" where
  "credential_model = \<lparr>m_rows = credentials, m_upd = (\<lambda>f d. d\<lparr>credentials := f (credentials d)\<rparr>), m_id = crd_id,
     m_tenant = crd_tenant_id, m_touch = (\<lambda>n r. r\<lparr>crd_updated_at := n\<rparr>),
     m_columns =
       [(''created_at'', \<lambda>r. SV_Int (crd_created_at r)),
        (''updated_at'', \<lambda>r. SV_Int (crd_updated_at r)),
        (''provider'', \<lambda>r. SV_Str (crd_provider r)),
        (''label'', \<lambda>r. SV_Str (crd_label r)),
        (''status'', \<lambda>r. SV_Str (credential_status_value (crd_status r)))],
     m_default_sort = ''created_at''\<rparr>"

lemma credential_model_simps [simp]:
  "m_rows credential_model = credentials" "m_upd credential_model = (\<lambda>f d. d\<lparr>credentials := f (credentials d)\<rparr>)" "m_id credential_model = crd_id"
  "m_tenant credential_model = crd_tenant_id" "m_touch credential_model = (\<lambda>n r. r\<lparr>crd_updated_at := n\<rparr>)"
  by (simp_all add: credential_model_def)

interpretation credential_table: tenant_table credential_model
  by unfold_locales simp_all

definition ai_config_model :: "ai_config_row model" where
  "ai_config_model = \<lparr>m_rows = tenant_ai_configs, m_upd = (\<lambda>f d. d\<lparr>tenant_ai_configs := f (tenant_ai_configs d)\<rparr>), m_id = aic_id,
     m_tenant = aic_tenant_id, m_touch = (\<lambda>n r. r\<lparr>aic_updated_at := n\<rparr>),
     m_columns =
       [(''created_at'', \<lambda>r. SV_Int (aic_created_at r)),
        (''updated_at'', \<lambda>r. SV_Int (aic_updated_at r)),
        (''purpose'', \<lambda>r. SV_Str (ai_purpose_value (aic_purpose r))),
        (''provider'', \<lambda>r. SV_Str (aic_provider r))],
     m_default_sort = ''purpose''\<rparr>"

lemma ai_config_model_simps [simp]:
  "m_rows ai_config_model = tenant_ai_configs" "m_upd ai_config_model = (\<lambda>f d. d\<lparr>tenant_ai_configs := f (tenant_ai_configs d)\<rparr>)" "m_id ai_config_model = aic_id"
  "m_tenant ai_config_model = aic_tenant_id" "m_touch ai_config_model = (\<lambda>n r. r\<lparr>aic_updated_at := n\<rparr>)"
  by (simp_all add: ai_config_model_def)

interpretation ai_config_table: tenant_table ai_config_model
  by unfold_locales simp_all

definition ai_usage_model :: "ai_usage_row model" where
  "ai_usage_model = \<lparr>m_rows = ai_usage_records, m_upd = (\<lambda>f d. d\<lparr>ai_usage_records := f (ai_usage_records d)\<rparr>), m_id = aiu_id,
     m_tenant = aiu_tenant_id, m_touch = (\<lambda>n r. r),
     m_columns =
       [(''created_at'', \<lambda>r. SV_Int (aiu_created_at r)),
        (''provider'', \<lambda>r. SV_Str (aiu_provider r)),
        (''model'', \<lambda>r. SV_Str (aiu_model r)),
        (''operation'', \<lambda>r. SV_Str (ai_operation_value (aiu_operation r)))],
     m_default_sort = ''created_at''\<rparr>"

lemma ai_usage_model_simps [simp]:
  "m_rows ai_usage_model = ai_usage_records" "m_upd ai_usage_model = (\<lambda>f d. d\<lparr>ai_usage_records := f (ai_usage_records d)\<rparr>)" "m_id ai_usage_model = aiu_id"
  "m_tenant ai_usage_model = aiu_tenant_id" "m_touch ai_usage_model = (\<lambda>n r. r)"
  by (simp_all add: ai_usage_model_def)

interpretation ai_usage_table: tenant_table ai_usage_model
  by unfold_locales simp_all

definition idempotency_model :: "idempotency_row model" where
  "idempotency_model = \<lparr>m_rows = idempotency_keys, m_upd = (\<lambda>f d. d\<lparr>idempotency_keys := f (idempotency_keys d)\<rparr>), m_id = idk_id,
     m_tenant = idk_tenant_id, m_touch = (\<lambda>n r. r),
     m_columns =
       [(''created_at'', \<lambda>r. SV_Int (idk_created_at r))],
     m_default_sort = ''created_at''\<rparr>"

lemma idempotency_model_simps [simp]:
  "m_rows idempotency_model = idempotency_keys" "m_upd idempotency_model = (\<lambda>f d. d\<lparr>idempotency_keys := f (idempotency_keys d)\<rparr>)" "m_id idempotency_model = idk_id"
  "m_tenant idempotency_model = idk_tenant_id" "m_touch idempotency_model = (\<lambda>n r. r)"
  by (simp_all add: idempotency_model_def)

interpretation idempotency_table: tenant_table idempotency_model
  by unfold_locales simp_all

end
