(* ===== verification/Redaction.thy ===== *)
theory Redaction
  imports Errors
begin

text \<open>
  The redaction pipeline of \<open>config/logging.py\<close>: sensitive keys, secret-shaped text and
  the recursive scrubber that the audit trail and the log filter share.  The five value
  patterns are sequences of character classes, bounded-below greedy repetitions and word
  boundaries; \<open>rx_sub\<close> is \<open>Pattern.sub\<close> for them (leftmost match, greedy with
  backtracking, scanning resumes behind the match).  Characters are ASCII.
\<close>

section \<open>Patterns\<close>

datatype rx_item = Cls "char \<Rightarrow> bool" | AtLeast nat "char \<Rightarrow> bool" | WordBoundary

definition char_between :: "char \<Rightarrow> char \<Rightarrow> char \<Rightarrow> bool" where
  "char_between a b c = ((of_char a :: nat) \<le> of_char c \<and> (of_char c :: nat) \<le> of_char b)"

definition is_alnum :: "char \<Rightarrow> bool" where
  "is_alnum c = (char_between CHR ''a'' CHR ''z'' c \<or> char_between CHR ''A'' CHR ''Z'' c
                 \<or> char_between CHR ''0'' CHR ''9'' c)"

definition is_word_char :: "char \<Rightarrow> bool" where
  "is_word_char c = (is_alnum c \<or> c = CHR ''_'')"

definition is_space_char :: "char \<Rightarrow> bool" where
  "is_space_char c = (char_between (CHR 0x09) (CHR 0x0D) c \<or> char_between (CHR 0x1C) (CHR 0x20) c)"

definition word_at :: "char option \<Rightarrow> bool" where
  "word_at c = (case c of None \<Rightarrow> False | Some x \<Rightarrow> is_word_char x)"

definition head_opt :: "string \<Rightarrow> char option" where
  "head_opt s = (case s of [] \<Rightarrow> None | c # cs \<Rightarrow> Some c)"

fun first_some :: "('a \<Rightarrow> 'b option) \<Rightarrow> 'a list \<Rightarrow> 'b option" where
  "first_some f [] = None"
| "first_some f (x # xs) = (case f x of None \<Rightarrow> first_some f xs | Some y \<Rightarrow> Some y)"

definition prev_char :: "char option \<Rightarrow> string \<Rightarrow> nat \<Rightarrow> char option" where
  "prev_char p s j = (if j = 0 then p else Some (s ! (j - 1)))"

fun rx_step ::
  "rx_item \<Rightarrow> (char option \<Rightarrow> string \<Rightarrow> 'b option) \<Rightarrow> char option \<Rightarrow> string \<Rightarrow> 'b option" where
  "rx_step WordBoundary k p s = (if word_at p \<noteq> word_at (head_opt s) then k p s else None)"
| "rx_step (Cls c) k p [] = None"
| "rx_step (Cls c) k p (x # t) = (if c x then k (Some x) t else None)"
| "rx_step (AtLeast n c) k p s =
     first_some (\<lambda>j. k (prev_char p s j) (drop j s)) (rev [n..<Suc (length (takeWhile c s))])"

primrec rx_run ::
  "rx_item list \<Rightarrow> (char option \<Rightarrow> string \<Rightarrow> 'b option) \<Rightarrow> char option \<Rightarrow> string \<Rightarrow> 'b option" where
  "rx_run [] k = k"
| "rx_run (i # items) k = rx_step i (rx_run items k)"

definition rx_seq :: "rx_item list \<Rightarrow> char option \<Rightarrow> string \<Rightarrow> string option" where
  "rx_seq items = rx_run items (\<lambda>p s. Some s)"

definition rx_match :: "rx_item list list \<Rightarrow> char option \<Rightarrow> string \<Rightarrow> string option" where
  "rx_match alts p s = first_some (\<lambda>items. rx_seq items p s) alts"

function rx_sub :: "rx_item list list \<Rightarrow> string \<Rightarrow> char option \<Rightarrow> string \<Rightarrow> string" where
  "rx_sub alts r p [] = []"
| "rx_sub alts r p (c # cs) =
     (case rx_match alts p (c # cs) of
        Some rest \<Rightarrow>
          if length rest \<le> length cs
          then r @ rx_sub alts r (prev_char p (c # cs) (Suc (length cs) - length rest)) rest
          else c # rx_sub alts r (Some c) cs
      | None \<Rightarrow> c # rx_sub alts r (Some c) cs)"
  by pat_completeness auto
termination by (relation "measure (\<lambda>(_, _, _, s). length s)") auto

definition lit :: "string \<Rightarrow> rx_item list" where
  "lit s = map (\<lambda>x. Cls (\<lambda>c. c = x)) s"

definition lit_nocase :: "string \<Rightarrow> rx_item list" where
  "lit_nocase s = map (\<lambda>x. Cls (\<lambda>c. lower_char c = x)) s"

definition token_char :: "char \<Rightarrow> bool" where
  "token_char c = (is_alnum c \<or> c = CHR ''_'' \<or> c = CHR ''-'')"

definition header_char :: "char \<Rightarrow> bool" where
  "header_char c = (is_alnum c \<or> c \<in> set ''._-+/='')"

definition value_patterns :: "rx_item list list list" where
  "value_patterns =
    [map (\<lambda>w. [WordBoundary] @ lit_nocase w @ [AtLeast 1 is_space_char, AtLeast 8 header_char])
       [''bearer'', ''basic''],
     [[WordBoundary] @ lit ''eyJ'' @ [AtLeast 5 token_char] @ lit ''.'' @ [AtLeast 5 token_char]
        @ lit ''.'' @ [AtLeast 5 token_char, WordBoundary]],
     map (\<lambda>w. [WordBoundary] @ lit w @ lit ''-'' @ [AtLeast 12 token_char, WordBoundary])
       [''sk'', ''rk'', ''pk'', ''xai'', ''gsk''],
     [[WordBoundary] @ lit ''AIza'' @ [AtLeast 20 token_char, WordBoundary]],
     [[WordBoundary] @ lit ''sk-ant-'' @ [AtLeast 12 token_char, WordBoundary]]]"

section \<open>Scrubbing\<close>

definition redacted :: string where
  "redacted = ''***REDACTED***''"

definition scrub_text :: "string \<Rightarrow> string" where
  "scrub_text txt = fold (\<lambda>alts s. rx_sub alts redacted None s) value_patterns txt"

fun starts_with :: "string \<Rightarrow> string \<Rightarrow> bool" where
  "starts_with [] s = True"
| "starts_with (x # xs) [] = False"
| "starts_with (x # xs) (y # ys) = (x = y \<and> starts_with xs ys)"

fun contains :: "string \<Rightarrow> string \<Rightarrow> bool" where
  "contains p [] = (p = [])"
| "contains p (c # cs) = (starts_with p (c # cs) \<or> contains p cs)"

definition sensitive_key_parts :: "string list" where
  "sensitive_key_parts =
    [''password'', ''passwd'', ''secret'', ''token'', ''authorization'', ''auth_header'',
     ''api_key'', ''apikey'', ''access_key'', ''private_key'', ''encryption_key'',
     ''master_key'', ''credential'', ''ciphertext'', ''encrypted_dek'', ''dek'', ''cookie'',
     ''set-cookie'', ''session_token'', ''refresh_token'', ''client_secret'', ''signature'']"

definition is_sensitive_key :: "string \<Rightarrow> bool" where
  "is_sensitive_key key = list_ex (\<lambda>part. contains part (str_lower key)) sensitive_key_parts"

fun scrub_value :: "nat \<Rightarrow> json \<Rightarrow> json"
  and scrub_items :: "nat \<Rightarrow> json list \<Rightarrow> json list"
  and scrub_fields :: "nat \<Rightarrow> (string \<times> json) list \<Rightarrow> (string \<times> json) list" where
  "scrub_value depth v =
     (if depth > 6 then JStr ''<truncated>''
      else case v of
        JObj fs \<Rightarrow> JObj (scrub_fields depth fs)
      | JList items \<Rightarrow> JList (scrub_items depth items)
      | JStr s \<Rightarrow> JStr (scrub_text s)
      | _ \<Rightarrow> v)"
| "scrub_items depth [] = []"
| "scrub_items depth (x # xs) = scrub_value (Suc depth) x # scrub_items depth xs"
| "scrub_fields depth [] = []"
| "scrub_fields depth ((k, v) # xs) =
     (k, if is_sensitive_key k then JStr redacted else scrub_value (Suc depth) v)
     # scrub_fields depth xs"

declare scrub_value.simps [simp del]

section \<open>Facts\<close>

lemma rx_sub_nomatch:
  assumes "\<And>p s. s \<noteq> [] \<Longrightarrow> rx_match alts p s = None"
  shows "rx_sub alts r p s = s"
  using assms by (induction alts r p s rule: rx_sub.induct) simp_all

lemma scrub_fields_keys [simp]: "map fst (scrub_fields d fs) = map fst fs"
  by (induction fs) auto

lemma scrub_items_length [simp]: "length (scrub_items d xs) = length xs"
  by (induction xs) auto

text \<open>No secret under a recognisable key survives, at any depth the scrubber descends to.\<close>

fun key_clean :: "json \<Rightarrow> bool"
  and items_clean :: "json list \<Rightarrow> bool"
  and fields_clean :: "(string \<times> json) list \<Rightarrow> bool" where
  "key_clean (JObj fs) = fields_clean fs"
| "key_clean (JList xs) = items_clean xs"
| "key_clean _ = True"
| "items_clean [] = True"
| "items_clean (x # xs) = (key_clean x \<and> items_clean xs)"
| "fields_clean [] = True"
| "fields_clean ((k, v) # fs) =
     ((is_sensitive_key k \<longrightarrow> v = JStr redacted) \<and> key_clean v \<and> fields_clean fs)"

lemma scrub_key_clean:
  "key_clean (scrub_value d v)" "items_clean (scrub_items d xs)" "fields_clean (scrub_fields d fs)"
proof (induction d v and d xs and d fs rule: scrub_value_scrub_items_scrub_fields.induct)
  case (1 d v)
  then show ?case by (cases v) (simp_all add: scrub_value.simps)
qed simp_all

text \<open>Nesting is bounded: a scrubbed value is never deeper than eight levels.\<close>

fun json_depth :: "json \<Rightarrow> nat"
  and items_depth :: "json list \<Rightarrow> nat"
  and fields_depth :: "(string \<times> json) list \<Rightarrow> nat" where
  "json_depth (JObj fs) = Suc (fields_depth fs)"
| "json_depth (JList xs) = Suc (items_depth xs)"
| "json_depth _ = 0"
| "items_depth [] = 0"
| "items_depth (x # xs) = max (json_depth x) (items_depth xs)"
| "fields_depth [] = 0"
| "fields_depth ((k, v) # fs) = max (json_depth v) (fields_depth fs)"

lemma scrub_depth_aux:
  "json_depth (scrub_value d v) \<le> 7 - d" "items_depth (scrub_items d xs) \<le> 6 - d"
  "fields_depth (scrub_fields d fs) \<le> 6 - d"
proof (induction d v and d xs and d fs rule: scrub_value_scrub_items_scrub_fields.induct)
  case (1 d v)
  then show ?case by (cases v) (auto simp: scrub_value.simps)
qed auto

end
