(* ===== verification/AuditActions.thy ===== *)
theory AuditActions
  imports Enums
begin

text \<open>
  The vocabulary of \<open>audit/actions.py\<close>: the stable action codes and, per action, the
  metadata fields that may be recorded.
\<close>

section \<open>Actions and allow-lists\<close>

datatype (plugins only: code size) audit_action =
    A_USER_REGISTERED | A_USER_LOGIN | A_USER_LOGIN_FAILED | A_USER_LOGOUT
    | A_TOKEN_REFRESHED | A_TOKEN_REUSE_DETECTED | A_SESSION_REVOKED | A_PASSWORD_CHANGED
    | A_TENANT_SELECTED | A_TENANT_ACCESS_DENIED | A_PERMISSION_DENIED | A_TENANT_CREATED
    | A_TENANT_UPDATED | A_MEMBER_ADDED | A_MEMBER_UPDATED | A_MEMBER_REMOVED
    | A_ROLE_CREATED | A_ROLE_UPDATED | A_ROLE_DELETED | A_CLIENT_WEBSITE_CREATED
    | A_CLIENT_WEBSITE_UPDATED | A_CLIENT_WEBSITE_DELETED | A_CAMPAIGN_CREATED
    | A_CAMPAIGN_UPDATED | A_CAMPAIGN_DELETED | A_PUBLISHER_CREATED | A_PUBLISHER_UPDATED
    | A_PUBLISHER_DELETED | A_PUBLISHER_DISCOVERY_STARTED | A_PUBLISHER_DISCOVERY_COMPLETED
    | A_PUBLISHER_QUALIFIED | A_OPPORTUNITY_CREATED | A_OPPORTUNITY_UPDATED
    | A_OPPORTUNITY_QUALIFIED | A_OPPORTUNITY_SELECTED | A_OPPORTUNITY_REJECTED
    | A_OPPORTUNITY_DELETED | A_SUBMISSION_CREATED | A_SUBMISSION_UPDATED
    | A_SUBMISSION_APPROVED | A_SUBMISSION_EXECUTED | A_SUBMISSION_VERIFIED
    | A_SUBMISSION_FAILED | A_SUBMISSION_DELETED | A_PAID_PLACEMENT_BLOCKED
    | A_CONTENT_GENERATED | A_CONTENT_REVIEWED | A_CREDENTIAL_CREATED | A_CREDENTIAL_UPDATED
    | A_CREDENTIAL_ROTATED | A_CREDENTIAL_VERIFIED | A_CREDENTIAL_DELETED
    | A_AI_CONFIG_UPDATED | A_JOB_ENQUEUED | A_JOB_FAILED

primrec audit_action_value :: "audit_action \<Rightarrow> string" where
  "audit_action_value A_USER_REGISTERED = ''USER_REGISTERED''"
| "audit_action_value A_USER_LOGIN = ''USER_LOGIN''"
| "audit_action_value A_USER_LOGIN_FAILED = ''USER_LOGIN_FAILED''"
| "audit_action_value A_USER_LOGOUT = ''USER_LOGOUT''"
| "audit_action_value A_TOKEN_REFRESHED = ''TOKEN_REFRESHED''"
| "audit_action_value A_TOKEN_REUSE_DETECTED = ''TOKEN_REUSE_DETECTED''"
| "audit_action_value A_SESSION_REVOKED = ''SESSION_REVOKED''"
| "audit_action_value A_PASSWORD_CHANGED = ''PASSWORD_CHANGED''"
| "audit_action_value A_TENANT_SELECTED = ''TENANT_SELECTED''"
| "audit_action_value A_TENANT_ACCESS_DENIED = ''TENANT_ACCESS_DENIED''"
| "audit_action_value A_PERMISSION_DENIED = ''PERMISSION_DENIED''"
| "audit_action_value A_TENANT_CREATED = ''TENANT_CREATED''"
| "audit_action_value A_TENANT_UPDATED = ''TENANT_UPDATED''"
| "audit_action_value A_MEMBER_ADDED = ''MEMBER_ADDED''"
| "audit_action_value A_MEMBER_UPDATED = ''MEMBER_UPDATED''"
| "audit_action_value A_MEMBER_REMOVED = ''MEMBER_REMOVED''"
| "audit_action_value A_ROLE_CREATED = ''ROLE_CREATED''"
| "audit_action_value A_ROLE_UPDATED = ''ROLE_UPDATED''"
| "audit_action_value A_ROLE_DELETED = ''ROLE_DELETED''"
| "audit_action_value A_CLIENT_WEBSITE_CREATED = ''CLIENT_WEBSITE_CREATED''"
| "audit_action_value A_CLIENT_WEBSITE_UPDATED = ''CLIENT_WEBSITE_UPDATED''"
| "audit_action_value A_CLIENT_WEBSITE_DELETED = ''CLIENT_WEBSITE_DELETED''"
| "audit_action_value A_CAMPAIGN_CREATED = ''CAMPAIGN_CREATED''"
| "audit_action_value A_CAMPAIGN_UPDATED = ''CAMPAIGN_UPDATED''"
| "audit_action_value A_CAMPAIGN_DELETED = ''CAMPAIGN_DELETED''"
| "audit_action_value A_PUBLISHER_CREATED = ''PUBLISHER_CREATED''"
| "audit_action_value A_PUBLISHER_UPDATED = ''PUBLISHER_UPDATED''"
| "audit_action_value A_PUBLISHER_DELETED = ''PUBLISHER_DELETED''"
| "audit_action_value A_PUBLISHER_DISCOVERY_STARTED = ''PUBLISHER_DISCOVERY_STARTED''"
| "audit_action_value A_PUBLISHER_DISCOVERY_COMPLETED = ''PUBLISHER_DISCOVERY_COMPLETED''"
| "audit_action_value A_PUBLISHER_QUALIFIED = ''PUBLISHER_QUALIFIED''"
| "audit_action_value A_OPPORTUNITY_CREATED = ''OPPORTUNITY_CREATED''"
| "audit_action_value A_OPPORTUNITY_UPDATED = ''OPPORTUNITY_UPDATED''"
| "audit_action_value A_OPPORTUNITY_QUALIFIED = ''OPPORTUNITY_QUALIFIED''"
| "audit_action_value A_OPPORTUNITY_SELECTED = ''OPPORTUNITY_SELECTED''"
| "audit_action_value A_OPPORTUNITY_REJECTED = ''OPPORTUNITY_REJECTED''"
| "audit_action_value A_OPPORTUNITY_DELETED = ''OPPORTUNITY_DELETED''"
| "audit_action_value A_SUBMISSION_CREATED = ''SUBMISSION_CREATED''"
| "audit_action_value A_SUBMISSION_UPDATED = ''SUBMISSION_UPDATED''"
| "audit_action_value A_SUBMISSION_APPROVED = ''SUBMISSION_APPROVED''"
| "audit_action_value A_SUBMISSION_EXECUTED = ''SUBMISSION_EXECUTED''"
| "audit_action_value A_SUBMISSION_VERIFIED = ''SUBMISSION_VERIFIED''"
| "audit_action_value A_SUBMISSION_FAILED = ''SUBMISSION_FAILED''"
| "audit_action_value A_SUBMISSION_DELETED = ''SUBMISSION_DELETED''"
| "audit_action_value A_PAID_PLACEMENT_BLOCKED = ''PAID_PLACEMENT_BLOCKED''"
| "audit_action_value A_CONTENT_GENERATED = ''CONTENT_GENERATED''"
| "audit_action_value A_CONTENT_REVIEWED = ''CONTENT_REVIEWED''"
| "audit_action_value A_CREDENTIAL_CREATED = ''CREDENTIAL_CREATED''"
| "audit_action_value A_CREDENTIAL_UPDATED = ''CREDENTIAL_UPDATED''"
| "audit_action_value A_CREDENTIAL_ROTATED = ''CREDENTIAL_ROTATED''"
| "audit_action_value A_CREDENTIAL_VERIFIED = ''CREDENTIAL_VERIFIED''"
| "audit_action_value A_CREDENTIAL_DELETED = ''CREDENTIAL_DELETED''"
| "audit_action_value A_AI_CONFIG_UPDATED = ''AI_CONFIG_UPDATED''"
| "audit_action_value A_JOB_ENQUEUED = ''JOB_ENQUEUED''"
| "audit_action_value A_JOB_FAILED = ''JOB_FAILED''"

definition audit_action_members :: "audit_action list" where
  "audit_action_members =
     [A_USER_REGISTERED, A_USER_LOGIN, A_USER_LOGIN_FAILED, A_USER_LOGOUT, A_TOKEN_REFRESHED
     , A_TOKEN_REUSE_DETECTED, A_SESSION_REVOKED, A_PASSWORD_CHANGED, A_TENANT_SELECTED
     , A_TENANT_ACCESS_DENIED, A_PERMISSION_DENIED, A_TENANT_CREATED, A_TENANT_UPDATED
     , A_MEMBER_ADDED, A_MEMBER_UPDATED, A_MEMBER_REMOVED, A_ROLE_CREATED, A_ROLE_UPDATED
     , A_ROLE_DELETED, A_CLIENT_WEBSITE_CREATED, A_CLIENT_WEBSITE_UPDATED
     , A_CLIENT_WEBSITE_DELETED, A_CAMPAIGN_CREATED, A_CAMPAIGN_UPDATED, A_CAMPAIGN_DELETED
     , A_PUBLISHER_CREATED, A_PUBLISHER_UPDATED, A_PUBLISHER_DELETED
     , A_PUBLISHER_DISCOVERY_STARTED, A_PUBLISHER_DISCOVERY_COMPLETED, A_PUBLISHER_QUALIFIED
     , A_OPPORTUNITY_CREATED, A_OPPORTUNITY_UPDATED, A_OPPORTUNITY_QUALIFIED
     , A_OPPORTUNITY_SELECTED, A_OPPORTUNITY_REJECTED, A_OPPORTUNITY_DELETED
     , A_SUBMISSION_CREATED, A_SUBMISSION_UPDATED, A_SUBMISSION_APPROVED
     , A_SUBMISSION_EXECUTED, A_SUBMISSION_VERIFIED, A_SUBMISSION_FAILED
     , A_SUBMISSION_DELETED, A_PAID_PLACEMENT_BLOCKED, A_CONTENT_GENERATED
     , A_CONTENT_REVIEWED, A_CREDENTIAL_CREATED, A_CREDENTIAL_UPDATED, A_CREDENTIAL_ROTATED
     , A_CREDENTIAL_VERIFIED, A_CREDENTIAL_DELETED, A_AI_CONFIG_UPDATED, A_JOB_ENQUEUED
     , A_JOB_FAILED]"

interpretation audit_action_enum: text_enum audit_action_members audit_action_value
proof
  show "m \<in> set audit_action_members" for m
    by (cases m) (simp_all add: audit_action_members_def)
qed (simp add: audit_action_members_def)

primrec metadata_allowlist :: "audit_action \<Rightarrow> string list" where
  "metadata_allowlist A_USER_REGISTERED = [''email'', ''tenant_created'', ''tenant_slug'']"
| "metadata_allowlist A_USER_LOGIN = [''email'', ''session_id'', ''tenant_id'']"
| "metadata_allowlist A_USER_LOGIN_FAILED = [''email'', ''failure'']"
| "metadata_allowlist A_USER_LOGOUT = [''session_id'', ''all_sessions'']"
| "metadata_allowlist A_TOKEN_REFRESHED = [''session_id'', ''family_id'']"
| "metadata_allowlist A_TOKEN_REUSE_DETECTED = [''family_id'', ''revoked_count'']"
| "metadata_allowlist A_SESSION_REVOKED = [''session_id'', ''revoked_count'']"
| "metadata_allowlist A_PASSWORD_CHANGED = [''revoked_sessions'']"
| "metadata_allowlist A_TENANT_SELECTED = [''tenant_id'', ''tenant_slug'']"
| "metadata_allowlist A_TENANT_ACCESS_DENIED = [''requested_tenant_id'']"
| "metadata_allowlist A_PERMISSION_DENIED =
     [''required_permission'', ''endpoint'', ''method'']"
| "metadata_allowlist A_TENANT_CREATED = [''name'', ''slug'']"
| "metadata_allowlist A_TENANT_UPDATED = [''changed_fields'', ''status'']"
| "metadata_allowlist A_MEMBER_ADDED = [''user_id'', ''email'', ''role_slugs'', ''status'']"
| "metadata_allowlist A_MEMBER_UPDATED =
     [''user_id'', ''role_slugs'', ''status'', ''is_owner'', ''changed_fields'']"
| "metadata_allowlist A_MEMBER_REMOVED = [''user_id'', ''email'']"
| "metadata_allowlist A_ROLE_CREATED = [''slug'', ''name'', ''permission_count'']"
| "metadata_allowlist A_ROLE_UPDATED =
     [''slug'', ''name'', ''permission_count'', ''changed_fields'']"
| "metadata_allowlist A_ROLE_DELETED = [''slug'', ''name'']"
| "metadata_allowlist A_CLIENT_WEBSITE_CREATED = [''name'', ''normalized_domain'']"
| "metadata_allowlist A_CLIENT_WEBSITE_UPDATED = [''changed_fields'', ''status'']"
| "metadata_allowlist A_CLIENT_WEBSITE_DELETED = [''name'', ''normalized_domain'']"
| "metadata_allowlist A_CAMPAIGN_CREATED = [''name'', ''client_website_id'', ''status'']"
| "metadata_allowlist A_CAMPAIGN_UPDATED = [''changed_fields'', ''status'']"
| "metadata_allowlist A_CAMPAIGN_DELETED = [''name'']"
| "metadata_allowlist A_PUBLISHER_CREATED =
     [''normalized_domain'', ''pricing_type'', ''category'', ''country''
      , ''discovery_run_id'']"
| "metadata_allowlist A_PUBLISHER_UPDATED =
     [''changed_fields'', ''pricing_type'', ''status'', ''normalized_domain'']"
| "metadata_allowlist A_PUBLISHER_DELETED = [''normalized_domain'']"
| "metadata_allowlist A_PUBLISHER_DISCOVERY_STARTED =
     [''provider'', ''keywords'', ''country'', ''category'', ''limit'', ''campaign_id'']"
| "metadata_allowlist A_PUBLISHER_DISCOVERY_COMPLETED =
     [''provider'', ''results_found'', ''publishers_created'', ''duplicates_skipped''
      , ''status'']"
| "metadata_allowlist A_PUBLISHER_QUALIFIED =
     [''normalized_domain'', ''quality_score'', ''relevance_score'', ''spam_score''
      , ''authority_score'', ''recommended_status'', ''eligible_for_submission'']"
| "metadata_allowlist A_OPPORTUNITY_CREATED =
     [''campaign_id'', ''publisher_id'', ''opportunity_type'', ''target_url'']"
| "metadata_allowlist A_OPPORTUNITY_UPDATED = [''changed_fields'', ''priority'']"
| "metadata_allowlist A_OPPORTUNITY_QUALIFIED = [''qualification_score'', ''priority'']"
| "metadata_allowlist A_OPPORTUNITY_SELECTED =
     [''campaign_id'', ''publisher_id'', ''priority'']"
| "metadata_allowlist A_OPPORTUNITY_REJECTED = [''campaign_id'', ''publisher_id'']"
| "metadata_allowlist A_OPPORTUNITY_DELETED = [''campaign_id'', ''publisher_id'']"
| "metadata_allowlist A_SUBMISSION_CREATED =
     [''campaign_id'', ''opportunity_id'', ''submission_method'', ''target_url'']"
| "metadata_allowlist A_SUBMISSION_UPDATED = [''changed_fields'', ''status'']"
| "metadata_allowlist A_SUBMISSION_APPROVED = [''opportunity_id'', ''approved_by_user_id'']"
| "metadata_allowlist A_SUBMISSION_EXECUTED =
     [''opportunity_id'', ''submitted_url'', ''submission_method'', ''status'']"
| "metadata_allowlist A_SUBMISSION_VERIFIED =
     [''opportunity_id'', ''verified'', ''published_url'']"
| "metadata_allowlist A_SUBMISSION_FAILED = [''opportunity_id'', ''failure_reason'']"
| "metadata_allowlist A_SUBMISSION_DELETED = [''opportunity_id'']"
| "metadata_allowlist A_PAID_PLACEMENT_BLOCKED =
     [''publisher_id'', ''normalized_domain'', ''pricing_type'', ''opportunity_id'']"
| "metadata_allowlist A_CONTENT_GENERATED =
     [''opportunity_id'', ''ai_provider'', ''ai_model'', ''content_id'', ''field_count'']"
| "metadata_allowlist A_CONTENT_REVIEWED = [''content_id'', ''decision'', ''edited'']"
| "metadata_allowlist A_CREDENTIAL_CREATED = [''provider'', ''provider_type'', ''label'']"
| "metadata_allowlist A_CREDENTIAL_UPDATED =
     [''provider'', ''label'', ''changed_fields'', ''status'']"
| "metadata_allowlist A_CREDENTIAL_ROTATED = [''provider'', ''label'', ''key_version'']"
| "metadata_allowlist A_CREDENTIAL_VERIFIED =
     [''provider'', ''label'', ''verified'', ''error_code'']"
| "metadata_allowlist A_CREDENTIAL_DELETED = [''provider'', ''label'']"
| "metadata_allowlist A_AI_CONFIG_UPDATED =
     [''purpose'', ''provider'', ''model'', ''is_default'']"
| "metadata_allowlist A_JOB_ENQUEUED = [''task_name'', ''job_id'']"
| "metadata_allowlist A_JOB_FAILED =
     [''task_name'', ''job_id'', ''attempts'', ''error_code'']"

definition common_fields :: "string list" where
  "common_fields = [''reason'', ''source'', ''job_id'']"

definition allowed_metadata_fields :: "audit_action \<Rightarrow> string list" where
  "allowed_metadata_fields a = metadata_allowlist a @ common_fields"

end
