(* ===== verification/AuditTrail.thy ===== *)
theory AuditTrail
  imports Tables Redaction AuditActions
begin

text \<open>
  \<open>audit/actions.py\<close> and \<open>audit/service.py\<close>: the metadata sanitiser over the allow-lists
  of \<open>AuditActions\<close>, and \<open>AuditService.record\<close>.  The lemmas show what an audit row
  can hold and that recording only appends to the active tenant's trail.
\<close>

section \<open>Sanitising metadata\<close>

definition max_value_length :: nat where
  "max_value_length = 500"

definition max_list_items :: nat where
  "max_list_items = 50"

fun truncate_value :: "json \<Rightarrow> json" and truncate_items :: "json list \<Rightarrow> json list" where
  "truncate_value (JStr s) =
     (if length s > max_value_length then JStr (take max_value_length s @ ''...'') else JStr s)"
| "truncate_value (JList xs) =
     (if length xs > max_list_items
      then JList (take max_list_items (truncate_items xs) @ [JStr ''...''])
      else JList (truncate_items xs))"
| "truncate_value v = v"
| "truncate_items [] = []"
| "truncate_items (x # xs) = truncate_value x # truncate_items xs"

definition sanitize_metadata ::
  "audit_action \<Rightarrow> (string \<times> json) list \<Rightarrow> (string \<times> json) list" where
  "sanitize_metadata a metadata =
     (let allowed = allowed_metadata_fields a;
          filtered = filter (\<lambda>(k, v). k \<in> set allowed) metadata
      in map (\<lambda>(k, v). (k, truncate_value (scrub_value 0 v))) filtered)"

section \<open>Recording\<close>

definition audit_entry ::
  "audit_action \<Rightarrow> string option \<Rightarrow> json option \<Rightarrow> (string \<times> json) list \<Rightarrow> nat option \<Rightarrow>
   request_context \<Rightarrow> nat \<Rightarrow> nat \<Rightarrow> int \<Rightarrow> audit_row" where
  "audit_entry a rtype rid metadata uid c i t n =
     \<lparr>aud_id = i, aud_tenant_id = t,
      aud_user_id = (case uid of None \<Rightarrow> rc_user_id c | Some u \<Rightarrow> Some u),
      aud_action = audit_action_value a, aud_resource_type = rtype, aud_resource_id = rid,
      aud_metadata = sanitize_metadata a metadata, aud_ip_address = rc_client_ip c,
      aud_user_agent = rc_user_agent c, aud_request_id = rc_request_id c, aud_created_at = n\<rparr>"

definition audit_record ::
  "audit_action \<Rightarrow> string option \<Rightarrow> json option \<Rightarrow> (string \<times> json) list \<Rightarrow> nat option \<Rightarrow>
   audit_row svc" where
  "audit_record a rtype rid metadata uid =
     ebind (gets w_ctx) (\<lambda>c. repo_new audit_model (audit_entry a rtype rid metadata uid c))"

text \<open>The common call of the domain services: a typed resource and the ambient user.\<close>

definition audit_on :: "audit_action \<Rightarrow> string \<Rightarrow> nat \<Rightarrow> (string \<times> json) list \<Rightarrow> unit svc" where
  "audit_on a rtype rid metadata =
     ebind (audit_record a (Some rtype) (Some (JId rid)) metadata None) (\<lambda>_. ret ())"

section \<open>Facts\<close>

lemma truncate_items_map: "truncate_items xs = map truncate_value xs"
  by (induction xs) auto

lemma sanitize_keys:
  "set (map fst (sanitize_metadata a md)) \<subseteq> set (map fst md) \<inter> set (allowed_metadata_fields a)"
  by (force simp: sanitize_metadata_def)

lemma wp_audit_record [wp_simps]:
  "wp (audit_record a rt ri md u) Q E w =
   (case w_tenant w of None \<Rightarrow> E (err TenantContextMissingError) w
    | Some t \<Rightarrow> let r = audit_entry a rt ri md u (w_ctx w) (w_next w) t (w_now w) in
        Q r (w\<lparr>w_next := Suc (w_next w), w_db := w_db w\<lparr>audit_logs := audit_logs (w_db w) @ [r]\<rparr>\<rparr>))"
  by (simp add: audit_record_def wp_simps audit_table.wp_new Let_def split: option.splits)

lemma wp_audit_on [wp_simps]:
  "wp (audit_on a rt ri md) Q E w =
   (case w_tenant w of None \<Rightarrow> E (err TenantContextMissingError) w
    | Some t \<Rightarrow>
        Q () (w\<lparr>w_next := Suc (w_next w),
          w_db := w_db w\<lparr>audit_logs := audit_logs (w_db w) @
            [audit_entry a (Some rt) (Some (JId ri)) md None (w_ctx w) (w_next w) t (w_now w)]\<rparr>\<rparr>))"
  by (simp add: audit_on_def wp_simps Let_def split: option.splits)

lemma no_commit_audit [no_commit_intros]:
  "no_commit (audit_record a rt ri md u)" "no_commit (audit_on a r i md)"
  unfolding audit_on_def audit_record_def by (intro no_commit_intros)+

end
