(* ===== verification/Workflows.thy ===== *)
theory Workflows
  imports Enums Errors "HOL-Library.List_Lexorder" "HOL-Library.Char_ord"
begin

text \<open>
  The two declarative state machines: \<open>submissions/workflow.py\<close> and
  \<open>opportunities/workflow.py\<close>.  Each is its transition table, its terminal set and the
  functions that read them.  The locale \<open>transition_table\<close> is the contract both keep;
  it is interpreted on both tables, and the services rest on the interpretations.
\<close>

section \<open>The contract of a transition table\<close>

locale transition_table =
  fixes targets :: "'a \<Rightarrow> 'a set"
    and terminal :: "'a set"
    and initial :: 'a
    and check :: "'a \<Rightarrow> 'a \<Rightarrow> exn + unit"
  assumes terminal_iff: "s \<in> terminal \<longleftrightarrow> targets s = {}"
    and irreflexive: "s \<notin> targets s"
    and initial_open: "initial \<notin> terminal"
    and initial_reaches: "(initial, t) \<in> {(a, b). b \<in> targets a}\<^sup>*"
    and check_ok: "check s t = Inr () \<longleftrightarrow> t \<in> targets s"
begin

definition step :: "('a \<times> 'a) set" where
  "step = {(a, b). b \<in> targets a}"

lemma reachable: "(initial, t) \<in> step\<^sup>*"
  using initial_reaches by (simp add: step_def)

lemma terminal_dead_end:
  assumes "(s, t) \<in> step\<^sup>*" and "s \<in> terminal"
  shows "t = s"
  using assms(1)
proof (cases rule: converse_rtranclE)
  case (step y)
  then show ?thesis using assms(2) terminal_iff by (auto simp: step_def)
qed simp

lemma check_refuses_terminal: "s \<in> terminal \<Longrightarrow> check s t \<noteq> Inr ()"
  using check_ok terminal_iff by auto

lemma check_refuses_self: "check s s \<noteq> Inr ()"
  using check_ok irreflexive by auto

end

text \<open>Every path into \<open>goal\<close> from \<open>s\<close> passes a state of \<open>gate\<close>: a refinement of the contract
  for a machine with a human gate.\<close>

locale gated_table = transition_table +
  fixes gate :: 'a and gated :: "'a set"
  assumes gate_open: "gate \<notin> gated"
    and initial_ungated: "initial \<notin> gated"
    and entry: "\<lbrakk>t \<in> targets s; t \<in> gated\<rbrakk> \<Longrightarrow> s = gate \<or> s \<in> gated"
begin

lemma gated_trace:
  assumes "rtranclp (\<lambda>a b. b \<in> targets a) s t" and "t \<in> gated" and "s \<notin> gated"
  shows "rtranclp (\<lambda>a b. b \<in> targets a) s gate"
  using assms
proof (induction rule: rtranclp_induct)
  case base
  then show ?case by simp
next
  case (step y z)
  then show ?case using entry by blast
qed

end

section \<open>Submissions\<close>

fun submission_transitions :: "submission_status \<Rightarrow> submission_status set" where
  "submission_transitions S_READY = {S_IN_PROGRESS, S_REJECTED, S_FAILED}"
| "submission_transitions S_IN_PROGRESS = {S_PENDING_APPROVAL, S_REJECTED, S_FAILED}"
| "submission_transitions S_PENDING_APPROVAL = {S_SUBMITTED, S_IN_PROGRESS, S_REJECTED}"
| "submission_transitions S_SUBMITTED = {S_VERIFICATION_PENDING, S_PUBLISHED, S_FAILED}"
| "submission_transitions S_VERIFICATION_PENDING = {S_PUBLISHED, S_FAILED}"
| "submission_transitions S_PUBLISHED = {S_VERIFIED, S_VERIFICATION_PENDING, S_FAILED}"
| "submission_transitions S_FAILED = {S_READY}"
| "submission_transitions S_VERIFIED = {}"
| "submission_transitions S_REJECTED = {}"

definition submission_terminal :: "submission_status set" where
  "submission_terminal = {S_VERIFIED, S_REJECTED}"

definition approval_required_statuses :: "submission_status set" where
  "approval_required_statuses = {S_SUBMITTED, S_PUBLISHED, S_VERIFICATION_PENDING, S_VERIFIED}"

definition submission_initial :: submission_status where
  "submission_initial = S_READY"

definition submission_can_transition :: "submission_status \<Rightarrow> submission_status \<Rightarrow> bool" where
  "submission_can_transition current target = (target \<in> submission_transitions current)"

definition submission_assert_transition :: "submission_status \<Rightarrow> submission_status \<Rightarrow> exn + unit" where
  "submission_assert_transition current target =
     (if \<not> submission_can_transition current target
      then Inl (AppExn (transition_between ''submission'' (submission_status_value current)
                          (submission_status_value target)))
      else Inr ())"

definition requires_approval :: "submission_status \<Rightarrow> bool" where
  "requires_approval target = (target \<in> approval_required_statuses)"

definition submission_is_terminal :: "submission_status \<Rightarrow> bool" where
  "submission_is_terminal status = (status \<in> submission_terminal)"

definition submission_describe :: json where
  "submission_describe = JObj
     [(''statuses'', JList (map (\<lambda>s. JStr (submission_status_value s)) submission_status_members)),
      (''transitions'', JObj (map (\<lambda>s. (submission_status_value s,
           JList (map JStr (sorted_list_of_set (submission_status_value ` submission_transitions s)))))
         [S_READY, S_IN_PROGRESS, S_PENDING_APPROVAL, S_SUBMITTED, S_VERIFICATION_PENDING,
          S_PUBLISHED, S_FAILED, S_VERIFIED, S_REJECTED])),
      (''terminal_statuses'',
         JList (map JStr (sorted_list_of_set (submission_status_value ` submission_terminal)))),
      (''approval_required_for'',
         JList (map JStr (sorted_list_of_set (submission_status_value ` approval_required_statuses))))]"

section \<open>Opportunities\<close>

fun opportunity_transitions :: "opportunity_status \<Rightarrow> opportunity_status set" where
  "opportunity_transitions O_DISCOVERED = {O_QUALIFYING, O_REJECTED}"
| "opportunity_transitions O_QUALIFYING = {O_QUALIFIED, O_REJECTED}"
| "opportunity_transitions O_QUALIFIED = {O_SELECTED, O_REJECTED, O_EXPIRED}"
| "opportunity_transitions O_SELECTED = {O_READY, O_QUALIFIED, O_REJECTED}"
| "opportunity_transitions O_READY = {O_SUBMITTED, O_REJECTED, O_EXPIRED}"
| "opportunity_transitions O_SUBMITTED = {O_PUBLISHED, O_FAILED}"
| "opportunity_transitions O_FAILED = {O_READY, O_REJECTED}"
| "opportunity_transitions O_PUBLISHED = {}"
| "opportunity_transitions O_REJECTED = {}"
| "opportunity_transitions O_EXPIRED = {}"

definition opportunity_terminal :: "opportunity_status set" where
  "opportunity_terminal = {O_PUBLISHED, O_REJECTED, O_EXPIRED}"

definition submittable_statuses :: "opportunity_status set" where
  "submittable_statuses = {O_SELECTED, O_READY}"

definition opportunity_initial :: opportunity_status where
  "opportunity_initial = O_DISCOVERED"

definition opportunity_can_transition :: "opportunity_status \<Rightarrow> opportunity_status \<Rightarrow> bool" where
  "opportunity_can_transition current target = (target \<in> opportunity_transitions current)"

definition opportunity_assert_transition ::
  "opportunity_status \<Rightarrow> opportunity_status \<Rightarrow> exn + unit" where
  "opportunity_assert_transition current target =
     (if \<not> opportunity_can_transition current target
      then Inl (AppExn (transition_between ''opportunity'' (opportunity_status_value current)
                          (opportunity_status_value target)))
      else Inr ())"

definition opportunity_is_terminal :: "opportunity_status \<Rightarrow> bool" where
  "opportunity_is_terminal status = (status \<in> opportunity_terminal)"

definition opportunity_is_submittable :: "opportunity_status \<Rightarrow> bool" where
  "opportunity_is_submittable status = (status \<in> submittable_statuses)"

definition opportunity_describe :: json where
  "opportunity_describe = JObj
     [(''statuses'', JList (map (\<lambda>s. JStr (opportunity_status_value s)) opportunity_status_members)),
      (''transitions'', JObj (map (\<lambda>s. (opportunity_status_value s,
           JList (map JStr (sorted_list_of_set (opportunity_status_value ` opportunity_transitions s)))))
         [O_DISCOVERED, O_QUALIFYING, O_QUALIFIED, O_SELECTED, O_READY, O_SUBMITTED, O_FAILED,
          O_PUBLISHED, O_REJECTED, O_EXPIRED])),
      (''terminal_statuses'',
         JList (map JStr (sorted_list_of_set (opportunity_status_value ` opportunity_terminal)))),
      (''submittable_statuses'',
         JList (map JStr (sorted_list_of_set (opportunity_status_value ` submittable_statuses))))]"

section \<open>Both tables keep the contract\<close>

lemma submission_reachable:
  "(S_READY, t) \<in> {(a, b). b \<in> submission_transitions a}\<^sup>*"
proof -
  let ?r = "{(a, b). b \<in> submission_transitions a}"
  have 1: "(S_READY, S_READY) \<in> ?r\<^sup>*" "(S_READY, S_IN_PROGRESS) \<in> ?r\<^sup>*"
    "(S_READY, S_REJECTED) \<in> ?r\<^sup>*" "(S_READY, S_FAILED) \<in> ?r\<^sup>*" by auto
  have 2: "(S_READY, S_PENDING_APPROVAL) \<in> ?r\<^sup>*"
    by (rule rtrancl_into_rtrancl [OF 1(2)]) simp
  have 3: "(S_READY, S_SUBMITTED) \<in> ?r\<^sup>*" by (rule rtrancl_into_rtrancl [OF 2]) simp
  have 4: "(S_READY, S_PUBLISHED) \<in> ?r\<^sup>*" "(S_READY, S_VERIFICATION_PENDING) \<in> ?r\<^sup>*"
    by (rule rtrancl_into_rtrancl [OF 3], simp)+
  have 5: "(S_READY, S_VERIFIED) \<in> ?r\<^sup>*" by (rule rtrancl_into_rtrancl [OF 4(1)]) simp
  show ?thesis using 1 2 3 4 5 by (cases t) simp_all
qed

lemma opportunity_reachable:
  "(O_DISCOVERED, t) \<in> {(a, b). b \<in> opportunity_transitions a}\<^sup>*"
proof -
  let ?r = "{(a, b). b \<in> opportunity_transitions a}"
  have 1: "(O_DISCOVERED, O_DISCOVERED) \<in> ?r\<^sup>*" "(O_DISCOVERED, O_QUALIFYING) \<in> ?r\<^sup>*"
    "(O_DISCOVERED, O_REJECTED) \<in> ?r\<^sup>*" by auto
  have 2: "(O_DISCOVERED, O_QUALIFIED) \<in> ?r\<^sup>*" by (rule rtrancl_into_rtrancl [OF 1(2)]) simp
  have 3: "(O_DISCOVERED, O_SELECTED) \<in> ?r\<^sup>*" "(O_DISCOVERED, O_EXPIRED) \<in> ?r\<^sup>*"
    by (rule rtrancl_into_rtrancl [OF 2], simp)+
  have 4: "(O_DISCOVERED, O_READY) \<in> ?r\<^sup>*" by (rule rtrancl_into_rtrancl [OF 3(1)]) simp
  have 5: "(O_DISCOVERED, O_SUBMITTED) \<in> ?r\<^sup>*" by (rule rtrancl_into_rtrancl [OF 4]) simp
  have 6: "(O_DISCOVERED, O_PUBLISHED) \<in> ?r\<^sup>*" "(O_DISCOVERED, O_FAILED) \<in> ?r\<^sup>*"
    by (rule rtrancl_into_rtrancl [OF 5], simp)+
  show ?thesis using 1 2 3 4 5 6 by (cases t) simp_all
qed

interpretation submission_flow: gated_table submission_transitions submission_terminal
  submission_initial submission_assert_transition S_PENDING_APPROVAL approval_required_statuses
proof
  fix s t :: submission_status
  show "s \<in> submission_terminal \<longleftrightarrow> submission_transitions s = {}"
    by (cases s) (simp_all add: submission_terminal_def)
  show "s \<notin> submission_transitions s" by (cases s) simp_all
  show "(submission_initial, t) \<in> {(a, b). b \<in> submission_transitions a}\<^sup>*"
    unfolding submission_initial_def by (rule submission_reachable)
  show "submission_assert_transition s t = Inr () \<longleftrightarrow> t \<in> submission_transitions s"
    by (simp add: submission_assert_transition_def submission_can_transition_def)
  show "s = S_PENDING_APPROVAL \<or> s \<in> approval_required_statuses"
    if "t \<in> submission_transitions s" "t \<in> approval_required_statuses"
    using that by (cases s) (auto simp: approval_required_statuses_def)
qed (simp_all add: submission_initial_def submission_terminal_def approval_required_statuses_def)

interpretation opportunity_flow: transition_table opportunity_transitions opportunity_terminal
  opportunity_initial opportunity_assert_transition
proof
  fix s t :: opportunity_status
  show "s \<in> opportunity_terminal \<longleftrightarrow> opportunity_transitions s = {}"
    by (cases s) (simp_all add: opportunity_terminal_def)
  show "s \<notin> opportunity_transitions s" by (cases s) simp_all
  show "(opportunity_initial, t) \<in> {(a, b). b \<in> opportunity_transitions a}\<^sup>*"
    unfolding opportunity_initial_def by (rule opportunity_reachable)
  show "opportunity_assert_transition s t = Inr () \<longleftrightarrow> t \<in> opportunity_transitions s"
    by (simp add: opportunity_assert_transition_def opportunity_can_transition_def)
qed (simp add: opportunity_initial_def opportunity_terminal_def)

end
