(* ===== verification/Urls.thy ===== *)
theory Urls
  imports Repository
begin

text \<open>
  What the program uses of Python's \<open>urllib.parse\<close> and \<open>ipaddress\<close> (3.12): splitting an
  address into scheme, authority, path and query, the host and port of an authority,
  reassembly, and the classification of IP literals.  Texts are ASCII; the raises of the
  library are \<open>ValueExn\<close>.
\<close>

section \<open>Texts\<close>

definition code_of :: "char \<Rightarrow> nat" where
  "code_of c = of_char c"

definition ascii_digit :: "char \<Rightarrow> bool" where
  "ascii_digit c = (48 \<le> code_of c \<and> code_of c \<le> 57)"

definition ascii_lower :: "char \<Rightarrow> bool" where
  "ascii_lower c = (97 \<le> code_of c \<and> code_of c \<le> 122)"

definition ascii_alpha :: "char \<Rightarrow> bool" where
  "ascii_alpha c = (ascii_lower c \<or> (65 \<le> code_of c \<and> code_of c \<le> 90))"

definition scheme_char :: "char \<Rightarrow> bool" where
  "scheme_char c = (ascii_alpha c \<or> ascii_digit c \<or> c \<in> {CHR ''+'', CHR ''-'', CHR ''.''})"

text \<open>\<open>s.partition(c)\<close> without the separator, and \<open>s.rpartition(c)[2]\<close>.\<close>

definition before :: "char \<Rightarrow> string \<Rightarrow> string" where
  "before c s = takeWhile (\<lambda>x. x \<noteq> c) s"

definition after :: "char \<Rightarrow> string \<Rightarrow> string" where
  "after c s = drop 1 (dropWhile (\<lambda>x. x \<noteq> c) s)"

definition after_last :: "char \<Rightarrow> string \<Rightarrow> string" where
  "after_last c s = rev (takeWhile (\<lambda>x. x \<noteq> c) (rev s))"

fun split_on :: "char \<Rightarrow> string \<Rightarrow> string list" where
  "split_on c [] = [[]]"
| "split_on c (x # s) =
     (if x = c then [] # split_on c s
      else case split_on c s of [] \<Rightarrow> [[x]] | p # ps \<Rightarrow> (x # p) # ps)"

fun join_char :: "char \<Rightarrow> string list \<Rightarrow> string" where
  "join_char c [] = []"
| "join_char c [p] = p"
| "join_char c (p # q # ps) = p @ c # join_char c (q # ps)"

definition strip_chars :: "string \<Rightarrow> string \<Rightarrow> string" where
  "strip_chars cs s = rev (dropWhile (\<lambda>c. c \<in> set cs) (rev (dropWhile (\<lambda>c. c \<in> set cs) s)))"

definition has_prefix :: "string \<Rightarrow> string \<Rightarrow> bool" where
  "has_prefix p s = (take (length p) s = p)"

definition has_suffix :: "string \<Rightarrow> string \<Rightarrow> bool" where
  "has_suffix p s = has_prefix (rev p) (rev s)"

section \<open>IP literals\<close>

datatype ip = IPv4 int | IPv6 int

fun digits_value :: "int \<Rightarrow> (char \<Rightarrow> nat) \<Rightarrow> int \<Rightarrow> string \<Rightarrow> int" where
  "digits_value base f acc [] = acc"
| "digits_value base f acc (c # s) = digits_value base f (acc * base + int (f c)) s"

definition decimal_value :: "string \<Rightarrow> int" where
  "decimal_value s = digits_value 10 (\<lambda>c. code_of c - 48) 0 s"

definition all_digits :: "string \<Rightarrow> bool" where
  "all_digits s = (s \<noteq> [] \<and> list_all ascii_digit s)"

definition parse_octet :: "string \<Rightarrow> int option" where
  "parse_octet s =
     (if \<not> all_digits s \<or> length s > 3 \<or> (s \<noteq> ''0'' \<and> hd s = CHR ''0'') \<or> decimal_value s > 255
      then None else Some (decimal_value s))"

definition parse_ipv4 :: "string \<Rightarrow> int option" where
  "parse_ipv4 s =
     (case map parse_octet (split_on CHR ''.'' s) of
        [Some a, Some b, Some c, Some d] \<Rightarrow> Some (((a * 256 + b) * 256 + c) * 256 + d)
      | _ \<Rightarrow> None)"

definition hex_digit :: "char \<Rightarrow> bool" where
  "hex_digit c = (ascii_digit c \<or> (97 \<le> code_of c \<and> code_of c \<le> 102) \<or> (65 \<le> code_of c \<and> code_of c \<le> 70))"

definition hex_value :: "char \<Rightarrow> nat" where
  "hex_value c = (if ascii_digit c then code_of c - 48
     else if ascii_lower c then code_of c - 87 else code_of c - 55)"

definition parse_hextet :: "string \<Rightarrow> int option" where
  "parse_hextet s =
     (if s = [] \<or> \<not> list_all hex_digit s \<or> length s > 4 then None
      else Some (digits_value 16 hex_value 0 s))"

fun all_some :: "'a option list \<Rightarrow> 'a list option" where
  "all_some [] = Some []"
| "all_some (None # xs) = None"
| "all_some (Some x # xs) = (case all_some xs of None \<Rightarrow> None | Some ys \<Rightarrow> Some (x # ys))"

definition hextets_value :: "int list \<Rightarrow> int" where
  "hextets_value hs = fold (\<lambda>h acc. acc * 65536 + h) hs 0"

text \<open>A dotted last part becomes two hextets; one empty inner part stands for the zeros left out.\<close>

definition ipv6_parts :: "string \<Rightarrow> (int option) list option" where
  "ipv6_parts s =
     (let parts = split_on CHR '':'' s;
          tail = last parts
      in if length parts < 3 then None
         else if CHR ''.'' \<in> set tail
         then (case parse_ipv4 tail of
                 None \<Rightarrow> None
               | Some v \<Rightarrow> Some (map parse_hextet (butlast parts) @ [Some (v div 65536), Some (v mod 65536)]))
         else Some (map parse_hextet parts))"

text \<open>The same parts as texts, to see which are empty.\<close>

definition ipv6_blank :: "string \<Rightarrow> bool list" where
  "ipv6_blank s =
     (let parts = split_on CHR '':'' s
      in if CHR ''.'' \<in> set (last parts) then map (\<lambda>p. p = []) (butlast parts) @ [False, False]
         else map (\<lambda>p. p = []) parts)"

definition inner_blanks :: "bool list \<Rightarrow> nat list" where
  "inner_blanks bs = filter (\<lambda>i. bs ! i) [1..<length bs - 1]"

definition parse_ipv6 :: "string \<Rightarrow> int option" where
  "parse_ipv6 s =
     (if CHR ''/'' \<in> set s then None
      else let address = before CHR ''%'' s; zone = after CHR ''%'' s
      in if CHR ''%'' \<in> set s \<and> (zone = [] \<or> CHR ''%'' \<in> set zone) then None
      else case ipv6_parts address of
        None \<Rightarrow> None
      | Some parts \<Rightarrow>
          let bs = ipv6_blank address; n = length parts
          in if n > 9 then None
             else (case inner_blanks bs of
               [] \<Rightarrow> (if n \<noteq> 8 then None else map_option hextets_value (all_some parts))
             | [k] \<Rightarrow>
                 let hi = (if hd bs then k - 1 else k);
                     lo = (if last bs then n - k - 2 else n - k - 1)
                 in if (hd bs \<and> hi \<noteq> 0) \<or> (last bs \<and> lo \<noteq> 0) \<or> hi + lo > 7 then None
                    else (case (all_some (take hi parts), all_some (drop (n - lo) parts)) of
                            (Some a, Some b) \<Rightarrow> Some (hextets_value (a @ replicate (8 - (hi + lo)) 0 @ b))
                          | _ \<Rightarrow> None)
             | _ \<Rightarrow> None))"

definition ip_address :: "string \<Rightarrow> ip option" where
  "ip_address s =
     (case parse_ipv4 s of Some v \<Rightarrow> Some (IPv4 v) | None \<Rightarrow> map_option IPv6 (parse_ipv6 s))"

section \<open>Address ranges\<close>

definition in_net :: "nat \<Rightarrow> int \<Rightarrow> int \<times> nat \<Rightarrow> bool" where
  "in_net bits v net = (v div 2 ^ (bits - snd net) = fst net div 2 ^ (bits - snd net))"

definition v4 :: "int \<Rightarrow> int \<Rightarrow> int \<Rightarrow> int \<Rightarrow> int" where
  "v4 a b c d = ((a * 256 + b) * 256 + c) * 256 + d"

definition v6 :: "int list \<Rightarrow> int" where
  "v6 hs = hextets_value (hs @ replicate (8 - length hs) 0)"

definition private_v4 :: "(int \<times> nat) list" where
  "private_v4 = [(v4 0 0 0 0, 8), (v4 10 0 0 0, 8), (v4 127 0 0 0, 8), (v4 169 254 0 0, 16),
     (v4 172 16 0 0, 12), (v4 192 0 0 0, 24), (v4 192 0 0 170, 31), (v4 192 0 2 0, 24),
     (v4 192 168 0 0, 16), (v4 198 18 0 0, 15), (v4 198 51 100 0, 24), (v4 203 0 113 0, 24),
     (v4 240 0 0 0, 4), (v4 255 255 255 255, 32)]"

definition private_v4_exceptions :: "(int \<times> nat) list" where
  "private_v4_exceptions = [(v4 192 0 0 9, 32), (v4 192 0 0 10, 32)]"

definition private_v6 :: "(int \<times> nat) list" where
  "private_v6 = [(1, 128), (0, 128), (v6 [0, 0, 0, 0, 0, 0xffff], 96), (v6 [0x64, 0xff9b, 1], 48),
     (v6 [0x100], 64), (v6 [0x2001], 23), (v6 [0x2001, 0xdb8], 32), (v6 [0x2002], 16),
     (v6 [0xfc00], 7), (v6 [0xfe80], 10)]"

definition private_v6_exceptions :: "(int \<times> nat) list" where
  "private_v6_exceptions = [(v6 [0x2001, 1, 0, 0, 0, 0, 0, 1], 128), (v6 [0x2001, 1, 0, 0, 0, 0, 0, 2], 128),
     (v6 [0x2001, 3], 32), (v6 [0x2001, 4, 0x112], 48), (v6 [0x2001, 0x20], 28), (v6 [0x2001, 0x30], 28)]"

definition reserved_v6 :: "(int \<times> nat) list" where
  "reserved_v6 = [(0, 8), (v6 [0x100], 8), (v6 [0x200], 7), (v6 [0x400], 6), (v6 [0x800], 5),
     (v6 [0x1000], 4), (v6 [0x4000], 3), (v6 [0x6000], 3), (v6 [0x8000], 3), (v6 [0xa000], 3),
     (v6 [0xc000], 3), (v6 [0xe000], 4), (v6 [0xf000], 5), (v6 [0xf800], 6), (v6 [0xfe00], 9)]"

definition private_among :: "nat \<Rightarrow> (int \<times> nat) list \<Rightarrow> (int \<times> nat) list \<Rightarrow> int \<Rightarrow> bool" where
  "private_among bits nets exceptions v =
     (list_ex (in_net bits v) nets \<and> \<not> list_ex (in_net bits v) exceptions)"

definition private_ipv4 :: "int \<Rightarrow> bool" where
  "private_ipv4 v = private_among 32 private_v4 private_v4_exceptions v"

definition mapped_ipv4 :: "int \<Rightarrow> int option" where
  "mapped_ipv4 v = (if v div 2 ^ 32 = 0xffff then Some (v mod 2 ^ 32) else None)"

fun ip_is_private :: "ip \<Rightarrow> bool" where
  "ip_is_private (IPv4 v) = private_ipv4 v"
| "ip_is_private (IPv6 v) =
     (case mapped_ipv4 v of
        Some x \<Rightarrow> private_ipv4 x
      | None \<Rightarrow> private_among 128 private_v6 private_v6_exceptions v)"

fun ip_is_loopback :: "ip \<Rightarrow> bool" where
  "ip_is_loopback (IPv4 v) = in_net 32 v (v4 127 0 0 0, 8)"
| "ip_is_loopback (IPv6 v) = (v = 1)"

fun ip_is_link_local :: "ip \<Rightarrow> bool" where
  "ip_is_link_local (IPv4 v) = in_net 32 v (v4 169 254 0 0, 16)"
| "ip_is_link_local (IPv6 v) = in_net 128 v (v6 [0xfe80], 10)"

fun ip_is_multicast :: "ip \<Rightarrow> bool" where
  "ip_is_multicast (IPv4 v) = in_net 32 v (v4 224 0 0 0, 4)"
| "ip_is_multicast (IPv6 v) = in_net 128 v (v6 [0xff00], 8)"

fun ip_is_reserved :: "ip \<Rightarrow> bool" where
  "ip_is_reserved (IPv4 v) = in_net 32 v (v4 240 0 0 0, 4)"
| "ip_is_reserved (IPv6 v) = list_ex (in_net 128 v) reserved_v6"

fun ip_is_unspecified :: "ip \<Rightarrow> bool" where
  "ip_is_unspecified (IPv4 v) = (v = 0)"
| "ip_is_unspecified (IPv6 v) = (v = 0)"

section \<open>Splitting an address\<close>

record split_result =
  u_scheme :: string
  u_netloc :: string
  u_path :: string
  u_query :: string
  u_fragment :: string

definition lstrip_control :: "string \<Rightarrow> string" where
  "lstrip_control s = dropWhile (\<lambda>c. code_of c \<le> 32) s"

definition drop_unsafe :: "string \<Rightarrow> string" where
  "drop_unsafe s = filter (\<lambda>c. code_of c \<notin> {9, 10, 13}) s"

definition split_scheme :: "string \<Rightarrow> string \<times> string" where
  "split_scheme url =
     (let pre = before CHR '':'' url
      in if CHR '':'' \<in> set url \<and> pre \<noteq> [] \<and> ascii_alpha (hd pre) \<and> list_all scheme_char pre
         then (str_lower pre, after CHR '':'' url) else ([], url))"

definition valid_bracketed :: "string \<Rightarrow> bool" where
  "valid_bracketed hostname =
     (if has_prefix ''v'' hostname
      then (let hex = before CHR ''.'' (drop 1 hostname)
            in hex \<noteq> [] \<and> list_all hex_digit hex \<and> CHR ''.'' \<in> set hostname \<and> after CHR ''.'' hostname \<noteq> [])
      else (case ip_address hostname of Some (IPv6 _) \<Rightarrow> True | _ \<Rightarrow> False))"

definition check_brackets :: "string \<Rightarrow> exn + unit" where
  "check_brackets netloc =
     (let has_open = CHR ''['' \<in> set netloc; has_close = CHR '']'' \<in> set netloc;
          hostinfo = after_last CHR ''@'' netloc;
          rest = after CHR '']'' (after CHR ''['' hostinfo)
      in if has_open \<noteq> has_close then Inl (ValueExn ''Invalid IPv6 URL'')
         else if \<not> has_open then Inr ()
         else if CHR ''['' \<in> set hostinfo
         then (if before CHR ''['' hostinfo \<noteq> [] \<or> (rest \<noteq> [] \<and> hd rest \<noteq> CHR '':'')
               then Inl (ValueExn ''Invalid IPv6 URL'')
               else if valid_bracketed (before CHR '']'' (after CHR ''['' hostinfo)) then Inr ()
               else Inl (ValueExn ''Invalid IPv6 URL''))
         else if valid_bracketed (before CHR '':'' hostinfo) then Inr ()
         else Inl (ValueExn ''Invalid IPv6 URL''))"

definition urlsplit :: "string \<Rightarrow> exn + split_result" where
  "urlsplit address =
     (let (scheme, url) = split_scheme (drop_unsafe (lstrip_control address));
          authority = has_prefix ''//'' url;
          tail = drop 2 url;
          netloc = (if authority then takeWhile (\<lambda>c. c \<notin> set ''/?#'') tail else []);
          rest = (if authority then dropWhile (\<lambda>c. c \<notin> set ''/?#'') tail else url);
          unfragmented = before CHR ''#'' rest
      in case check_brackets netloc of
           Inl e \<Rightarrow> Inl e
         | Inr _ \<Rightarrow> Inr \<lparr>u_scheme = scheme, u_netloc = netloc, u_path = before CHR ''?'' unfragmented,
                         u_query = after CHR ''?'' unfragmented, u_fragment = after CHR ''#'' rest\<rparr>)"

definition host_and_port :: "string \<Rightarrow> string \<times> string" where
  "host_and_port netloc =
     (let hostinfo = after_last CHR ''@'' netloc
      in if CHR ''['' \<in> set hostinfo
         then (let bracketed = after CHR ''['' hostinfo
               in (before CHR '']'' bracketed, after CHR '':'' (after CHR '']'' bracketed)))
         else (before CHR '':'' hostinfo, after CHR '':'' hostinfo))"

definition url_hostname :: "split_result \<Rightarrow> string" where
  "url_hostname u =
     (let host = fst (host_and_port (u_netloc u))
      in str_lower (before CHR ''%'' host) @ drop (length (before CHR ''%'' host)) host)"

definition url_port :: "split_result \<Rightarrow> exn + int option" where
  "url_port u =
     (let port = snd (host_and_port (u_netloc u))
      in if port = [] then Inr None
         else if \<not> all_digits port then Inl (ValueExn ''Port could not be cast to integer value'')
         else if decimal_value port > 65535 then Inl (ValueExn ''Port out of range 0-65535'')
         else Inr (Some (decimal_value port)))"

definition urlunsplit :: "string \<Rightarrow> string \<Rightarrow> string \<Rightarrow> string \<Rightarrow> string" where
  "urlunsplit scheme netloc path qs =
     scheme @ ''://'' @ netloc
     @ (if path \<noteq> [] \<and> hd path \<noteq> CHR ''/'' then CHR ''/'' # path else path)
     @ (if qs = [] then [] else CHR ''?'' # qs)"

end
