(* ===== verification/Domains.thy ===== *)
theory Domains
  imports Urls Redaction
begin

text \<open>
  Canonical domains and addresses, \<open>core/domains.py\<close>.  \<open>idna\<close> stands for
  \<open>idna.encode(host, uts46=True)\<close>, a third-party package: \<open>None\<close> is its \<open>IDNAError\<close>; it is
  consulted for a non-ASCII host only.  The lemmas show that a canonical domain is a fixed
  point of the normalisation, whatever the package does.
\<close>

type_synonym idna = "string \<Rightarrow> string option"

definition max_domain_length :: nat where
  "max_domain_length = 253"

definition max_label_length :: nat where
  "max_label_length = 63"

definition multi_label_suffixes :: "string list" where
  "multi_label_suffixes =
     [''co.uk'', ''org.uk'', ''ac.uk'', ''gov.uk'', ''me.uk'', ''net.uk'', ''sch.uk'', ''com.au'',
      ''net.au'', ''org.au'', ''edu.au'', ''gov.au'', ''id.au'', ''co.nz'', ''net.nz'', ''org.nz'',
      ''govt.nz'', ''ac.nz'', ''co.za'', ''org.za'', ''net.za'', ''web.za'', ''com.br'', ''net.br'',
      ''org.br'', ''gov.br'', ''co.in'', ''net.in'', ''org.in'', ''gen.in'', ''firm.in'', ''ind.in'',
      ''com.sg'', ''com.my'', ''com.hk'', ''com.tw'', ''com.cn'', ''net.cn'', ''org.cn'', ''co.jp'',
      ''or.jp'', ''ne.jp'', ''ac.jp'', ''go.jp'', ''com.mx'', ''com.ar'', ''com.co'', ''com.tr'',
      ''com.ua'', ''com.pl'', ''co.il'', ''co.kr'', ''or.kr'', ''co.th'', ''in.th'', ''com.ph'',
      ''com.vn'']"

definition invalid_domain :: "string \<Rightarrow> (string \<times> json) list \<Rightarrow> exn" where
  "invalid_domain msg details = AppExn (coded_error ValidationError msg ''INVALID_DOMAIN'' details)"

definition invalid_url :: "string \<Rightarrow> (string \<times> json) list \<Rightarrow> exn" where
  "invalid_url msg details = AppExn (coded_error ValidationError msg ''INVALID_URL'' details)"

text \<open>\<open>^[a-zA-Z][a-zA-Z0-9+.\-]*\<close> followed by \<open>rest\<close>.\<close>

definition scheme_then :: "string \<Rightarrow> string \<Rightarrow> bool" where
  "scheme_then rest s =
     (let pre = before CHR '':'' s
      in pre \<noteq> [] \<and> ascii_alpha (hd pre) \<and> list_all scheme_char pre
         \<and> has_prefix rest (drop (length pre) s))"

fun from_slashes :: "string \<Rightarrow> string" where
  "from_slashes [] = []"
| "from_slashes (c # s) = (if has_prefix ''//'' (c # s) then c # s else from_slashes s)"

definition strip_scheme_prefix :: "string \<Rightarrow> exn + string" where
  "strip_scheme_prefix value =
     (let candidate = str_strip value
      in if candidate = [] then Inl (invalid_domain ''Domain must not be empty'' [])
         else if \<not> contains ''//'' candidate then Inr (''//'' @ candidate)
         else if \<not> scheme_then '':'' candidate then Inr (from_slashes candidate)
         else Inr candidate)"

definition to_ascii_host :: "idna \<Rightarrow> string \<Rightarrow> exn + string" where
  "to_ascii_host idna raw =
     (let host = str_lower (strip_chars ''.'' (str_strip raw))
      in if host = [] then Inl (invalid_domain ''Domain must not be empty'' [])
         else if list_all (\<lambda>c. code_of c < 128) host then Inr host
         else case idna host of
                None \<Rightarrow> Inl (invalid_domain ''Domain is not a valid internationalised domain name''
                               [(''domain'', JStr host)])
              | Some h \<Rightarrow> Inr h)"

definition label_end :: "char \<Rightarrow> bool" where
  "label_end c = (ascii_lower c \<or> ascii_digit c)"

text \<open>\<open>^[a-z0-9]([a-z0-9-]{0,61}[a-z0-9])?$\<close>; the newline \<open>$\<close> would let pass at the end is
  already gone, \<open>urlsplit\<close> drops it.\<close>

definition label_matches :: "string \<Rightarrow> bool" where
  "label_matches l =
     (l \<noteq> [] \<and> length l \<le> max_label_length \<and> label_end (hd l) \<and> label_end (last l)
      \<and> list_all (\<lambda>c. label_end c \<or> c = CHR ''-'') l)"

definition bad_label :: "string \<Rightarrow> bool" where
  "bad_label l = (l = [] \<or> length l > max_label_length \<or> \<not> label_matches l)"

definition validate_host :: "string \<Rightarrow> exn + unit" where
  "validate_host host =
     (if length host > max_domain_length then Inl (invalid_domain ''Domain exceeds 253 characters'' [])
      else let labels = split_on CHR ''.'' host
      in if length labels < 2
         then Inl (invalid_domain ''Domain must include a top-level domain'' [(''domain'', JStr host)])
         else case find bad_label labels of
                Some l \<Rightarrow> Inl (invalid_domain ''Domain contains an invalid label''
                                [(''domain'', JStr host), (''label'', JStr l)])
              | None \<Rightarrow>
                  if all_digits (last labels)
                  then Inl (invalid_domain ''Domain top-level label must not be numeric''
                              [(''domain'', JStr host)])
                  else Inr ())"

definition is_ip_literal :: "string \<Rightarrow> bool" where
  "is_ip_literal host = (ip_address (strip_chars ''[]'' host) \<noteq> None)"

function strip_www_prefix :: "string \<Rightarrow> string" where
  "strip_www_prefix host =
     (if has_prefix ''www.'' host \<and> 2 \<le> length (split_on CHR ''.'' (drop 4 host))
      then strip_www_prefix (drop 4 host) else host)"
  by pat_completeness auto
termination
  by (relation "measure length") (auto simp: has_prefix_def dest: arg_cong [where f = length])

declare strip_www_prefix.simps [simp del]

definition normalize_domain_with :: "idna \<Rightarrow> bool \<Rightarrow> string \<Rightarrow> exn + string" where
  "normalize_domain_with idna strip_www value =
     (case strip_scheme_prefix value of Inl e \<Rightarrow> Inl e | Inr candidate \<Rightarrow>
      case urlsplit candidate of Inl e \<Rightarrow> Inl e | Inr parts \<Rightarrow>
      let host = url_hostname parts in
      if host = [] then Inl (invalid_domain ''Could not extract a domain'' [(''value'', JStr value)])
      else if has_prefix ''['' host \<or> is_ip_literal host
      then Inl (invalid_domain ''IP addresses are not accepted as publisher domains'' [(''value'', JStr value)])
      else case to_ascii_host idna host of Inl e \<Rightarrow> Inl e | Inr ascii \<Rightarrow>
      case validate_host ascii of Inl e \<Rightarrow> Inl e | Inr _ \<Rightarrow>
        Inr (if strip_www then strip_www_prefix ascii else ascii))"

definition normalize_domain :: "idna \<Rightarrow> string \<Rightarrow> exn + string" where
  "normalize_domain idna value = normalize_domain_with idna True value"

definition default_port :: "string \<Rightarrow> int option" where
  "default_port scheme = map_of [(''http'', 80), (''https'', 443)] scheme"

definition checked_host :: "idna \<Rightarrow> string \<Rightarrow> exn + string" where
  "checked_host idna host =
     (if is_ip_literal host then Inr host
      else case to_ascii_host idna host of Inl e \<Rightarrow> Inl e | Inr ascii \<Rightarrow>
           case validate_host ascii of Inl e \<Rightarrow> Inl e | Inr _ \<Rightarrow> Inr ascii)"

definition normalize_url :: "idna \<Rightarrow> string \<Rightarrow> exn + string" where
  "normalize_url idna value =
     (let stripped = str_strip value in
      if stripped = [] then Inl (invalid_url ''URL must not be empty'' [])
      else let candidate = (if scheme_then ''://'' stripped then stripped
                            else ''https://'' @ dropWhile (\<lambda>c. c = CHR ''/'') stripped) in
      case urlsplit candidate of Inl e \<Rightarrow> Inl e | Inr parts \<Rightarrow>
      let scheme = str_lower (u_scheme parts) in
      if scheme \<notin> {''http'', ''https''}
      then Inl (invalid_url ''URL scheme must be http or https'' [(''scheme'', JStr scheme)])
      else let hostname = url_hostname parts in
      if hostname = [] then Inl (invalid_url ''URL must include a host'' [])
      else case checked_host idna hostname of Inl e \<Rightarrow> Inl e | Inr host \<Rightarrow>
      case url_port parts of Inl e \<Rightarrow> Inl e | Inr port \<Rightarrow>
      let netloc = (case port of
                      None \<Rightarrow> host
                    | Some n \<Rightarrow> if Some n \<noteq> default_port scheme then host @ '':'' @ show_int n else host);
          path = (if u_path parts = ''/'' then [] else u_path parts)
      in Inr (urlunsplit scheme netloc path (u_query parts)))"

definition extract_domain :: "idna \<Rightarrow> string \<Rightarrow> exn + string" where
  "extract_domain idna value = normalize_domain idna value"

definition registrable_domain :: "idna \<Rightarrow> string \<Rightarrow> exn + string" where
  "registrable_domain idna value =
     (case normalize_domain idna value of Inl e \<Rightarrow> Inl e | Inr host \<Rightarrow>
      let labels = split_on CHR ''.'' host; n = length labels
      in if n \<le> 2 then Inr host
         else if join_char CHR ''.'' (drop (n - 2) labels) \<in> set multi_label_suffixes
         then Inr (join_char CHR ''.'' (drop (n - 3) labels))
         else Inr (join_char CHR ''.'' (drop (n - 2) labels)))"

definition is_validation_error :: "exn \<Rightarrow> bool" where
  "is_validation_error e = is_app_error e ValidationError"

definition same_site :: "idna \<Rightarrow> string \<Rightarrow> string \<Rightarrow> exn + bool" where
  "same_site idna left right =
     (case normalize_domain idna left of
        Inl e \<Rightarrow> if is_validation_error e then Inr False else Inl e
      | Inr a \<Rightarrow>
          (case normalize_domain idna right of
             Inl e \<Rightarrow> if is_validation_error e then Inr False else Inl e
           | Inr b \<Rightarrow> Inr (a = b)))"

definition is_public_host :: "string \<Rightarrow> bool" where
  "is_public_host host =
     (let cleaned = str_lower (strip_chars ''[]'' (str_strip host)) in
      if cleaned = [] then False
      else case ip_address cleaned of
        None \<Rightarrow> \<not> (cleaned \<in> {''localhost'', ''localhost.localdomain''}
                   \<or> list_ex (\<lambda>x. has_suffix x cleaned)
                       [''.localhost'', ''.local'', ''.internal'', ''.localdomain''])
      | Some a \<Rightarrow> \<not> (ip_is_private a \<or> ip_is_loopback a \<or> ip_is_link_local a \<or> ip_is_multicast a
                      \<or> ip_is_reserved a \<or> ip_is_unspecified a))"

definition mask_secret :: "string \<Rightarrow> string" where
  "mask_secret secret =
     (if secret = [] then []
      else if length secret \<le> 3 + 4 + 2 then replicate 8 (CHR ''*'')
      else take 3 secret @ replicate 4 (CHR ''*'') @ drop (length secret - 4) secret)"

section \<open>Canonical domains\<close>

text \<open>A host the validation accepts, with nothing left to strip.\<close>

definition canonical_domain :: "string \<Rightarrow> bool" where
  "canonical_domain h = (validate_host h = Inr () \<and> strip_www_prefix h = h)"

lemma split_on_nonempty [simp]: "split_on c s \<noteq> []"
  by (induction s) (auto split: list.split)

lemma split_on_mem: "x \<in> set s \<Longrightarrow> x = c \<or> (\<exists>p\<in>set (split_on c s). x \<in> set p)"
  by (induction s) (auto split: list.splits)

lemma split_on_absent: "c \<notin> set s \<Longrightarrow> split_on c s = [s]"
  by (induction s) auto

lemma split_on_hd: "hd (split_on c s) = before c s"
  by (induction s) (auto simp: before_def split: list.split)

lemma split_on_prefix: "split_on c (s @ c # t) = split_on c s @ split_on c t"
  by (induction s) (auto split: list.split simp: append_eq_Cons_conv)

lemma split_on_last: "s \<noteq> [] \<Longrightarrow> last s = c \<Longrightarrow> last (split_on c s) = []"
proof -
  assume "s \<noteq> []" "last s = c"
  then have "s = butlast s @ c # []" by (metis append_butlast_last_id)
  then have "split_on c s = split_on c (butlast s) @ [[]]" using split_on_prefix [of c "butlast s" "[]"] by simp
  then show ?thesis by simp
qed

lemma validate_host_iff:
  "validate_host h = Inr () \<longleftrightarrow>
   length h \<le> max_domain_length \<and> 2 \<le> length (split_on CHR ''.'' h)
   \<and> list_all (\<lambda>l. \<not> bad_label l) (split_on CHR ''.'' h) \<and> \<not> all_digits (last (split_on CHR ''.'' h))"
  by (auto simp: validate_host_def Let_def list_all_iff find_None_iff split: option.split dest!: find_Some_iff [THEN iffD1])

definition host_char :: "char \<Rightarrow> bool" where
  "host_char c = (label_end c \<or> c = CHR ''-'' \<or> c = CHR ''.'')"

lemma host_chars:
  assumes "validate_host h = Inr ()"
  shows "list_all host_char h"
proof -
  have "host_char x" if "x \<in> set h" for x
  proof -
    from split_on_mem [OF that, of "CHR ''.''"] consider "x = CHR ''.''"
      | p where "p \<in> set (split_on CHR ''.'' h)" "x \<in> set p" by blast
    then show ?thesis
    proof cases
      case 2
      then have "label_matches p" using assms by (auto simp: validate_host_iff list_all_iff bad_label_def)
      then show ?thesis using 2 by (auto simp: label_matches_def list_all_iff host_char_def)
    qed (simp add: host_char_def)
  qed
  then show ?thesis by (simp add: list_all_iff)
qed

lemma host_ends:
  assumes "validate_host h = Inr ()"
  shows "h \<noteq> []" "hd h \<noteq> CHR ''.''" "last h \<noteq> CHR ''.''"
proof -
  have bad: "\<forall>l\<in>set (split_on CHR ''.'' h). l \<noteq> []" and two: "2 \<le> length (split_on CHR ''.'' h)"
    using assms by (auto simp: validate_host_iff list_all_iff bad_label_def)
  show h: "h \<noteq> []" using two by auto
  have "before CHR ''.'' h \<noteq> []" using bad split_on_hd [of "CHR ''.''" h] by (metis hd_in_set split_on_nonempty)
  then show "hd h \<noteq> CHR ''.''" using h by (cases h) (auto simp: before_def)
  show "last h \<noteq> CHR ''.''" using bad split_on_last [OF h, of "CHR ''.''"] last_in_set split_on_nonempty by metis
qed

lemma host_char_plain:
  assumes "host_char c"
  shows "\<not> is_blank c" "code_of c > 32" "code_of c < 128" "lower_char c = c" "c \<notin> set ''/?#@[]:%''"
    "c \<notin> {CHR 0x09, CHR 0x0A, CHR 0x0D}"
  using assms
  by (auto simp: host_char_def label_end_def ascii_lower_def ascii_digit_def code_of_def is_blank_def
      lower_char_def Let_def)

text \<open>Each step of the normalisation leaves such a text alone.\<close>

lemma dropWhile_hd: "s = [] \<or> \<not> P (hd s) \<Longrightarrow> dropWhile P s = s"
  by (cases s) auto

lemma takeWhile_all: "(\<And>x. x \<in> set s \<Longrightarrow> P x) \<Longrightarrow> takeWhile P s = s"
  by (induction s) auto

lemma strip_ends:
  assumes "s = [] \<or> (\<not> P (hd s) \<and> \<not> P (last s))"
  shows "rev (dropWhile P (rev (dropWhile P s))) = s"
  using assms by (auto simp: dropWhile_hd hd_rev)

lemma starts_with_set: "starts_with p s \<Longrightarrow> set p \<subseteq> set s"
  by (induction p s rule: starts_with.induct) auto

lemma contains_set: "contains p s \<Longrightarrow> set p \<subseteq> set s"
proof (induction s)
  case (Cons x s)
  then show ?case using starts_with_set [of p "x # s"] by auto
qed auto

definition plain_host :: "string \<Rightarrow> bool" where
  "plain_host h = (list_all host_char h \<and> h \<noteq> [] \<and> hd h \<noteq> CHR ''.'' \<and> last h \<noteq> CHR ''.'')"

lemma validated_plain: "validate_host h = Inr () \<Longrightarrow> plain_host h"
  by (simp add: plain_host_def host_chars host_ends)

lemma plain_char: "plain_host h \<Longrightarrow> c \<in> set h \<Longrightarrow> host_char c"
  by (simp add: plain_host_def list_all_iff)

lemma plain_strip:
  assumes "plain_host h"
  shows "str_strip h = h"
proof -
  have "hd h \<in> set h" "last h \<in> set h" using assms by (simp_all add: plain_host_def)
  then have "\<not> is_blank (hd h)" "\<not> is_blank (last h)"
    using plain_char [OF assms] host_char_plain(1) by blast+
  then show ?thesis unfolding str_strip_def by (intro strip_ends) simp
qed

lemma plain_dots: "plain_host h \<Longrightarrow> strip_chars ''.'' h = h"
  unfolding strip_chars_def plain_host_def by (intro strip_ends) simp

lemma plain_absent:
  assumes "plain_host h"
  shows "CHR ''/'' \<notin> set h" "CHR ''?'' \<notin> set h" "CHR ''#'' \<notin> set h" "CHR ''@'' \<notin> set h"
    "CHR ''['' \<notin> set h" "CHR '']'' \<notin> set h" "CHR '':'' \<notin> set h" "CHR ''%'' \<notin> set h"
  using plain_char [OF assms] host_char_plain(5) by force+

lemma plain_brackets:
  assumes "plain_host h"
  shows "strip_chars ''[]'' h = h"
proof -
  have "hd h \<in> set h" "last h \<in> set h" using assms by (simp_all add: plain_host_def)
  then have "hd h \<notin> set ''[]''" "last h \<notin> set ''[]''" using plain_absent(5,6) [OF assms] by auto
  then show ?thesis unfolding strip_chars_def by (intro strip_ends) simp
qed

lemma plain_lower: "plain_host h \<Longrightarrow> str_lower h = h"
  unfolding str_lower_def using plain_char host_char_plain(4) by (simp add: map_idI)

lemma before_absent: "c \<notin> set s \<Longrightarrow> before c s = s"
  unfolding before_def by (intro takeWhile_all) auto

lemma after_absent: "c \<notin> set s \<Longrightarrow> after c s = []"
  by (induction s) (auto simp: after_def)

lemma after_last_absent: "c \<notin> set s \<Longrightarrow> after_last c s = s"
  unfolding after_last_def by (subst takeWhile_all) auto

lemma plain_prefix:
  assumes "plain_host h"
  shows "strip_scheme_prefix h = Inr (''//'' @ h)"
proof -
  have "\<not> contains ''//'' h" using contains_set [of "''//''" h] plain_absent(1) [OF assms] by auto
  moreover have "h \<noteq> []" using assms by (simp add: plain_host_def)
  ultimately show ?thesis by (simp add: strip_scheme_prefix_def plain_strip [OF assms] Let_def)
qed

lemma plain_urlsplit:
  assumes "plain_host h"
  shows "urlsplit (''//'' @ h) = Inr \<lparr>u_scheme = [], u_netloc = h, u_path = [], u_query = [], u_fragment = []\<rparr>"
proof -
  note absent = plain_absent [OF assms]
  have l: "lstrip_control (''//'' @ h) = ''//'' @ h" by (simp add: lstrip_control_def code_of_def)
  have "code_of c > 32" if "c \<in> set h" for c using plain_char [OF assms that] by (rule host_char_plain(2))
  then have "filter (\<lambda>c. code_of c \<notin> {9, 10, 13}) h = h" by (intro filter_True) force
  then have d: "drop_unsafe (''//'' @ h) = ''//'' @ h" by (simp add: drop_unsafe_def code_of_def)
  have s: "split_scheme (''//'' @ h) = ([], ''//'' @ h)"
    using absent(7) by (simp add: split_scheme_def Let_def)
  have n: "takeWhile (\<lambda>c. c \<notin> set ''/?#'') h = h" using absent(1-3) by (intro takeWhile_all) auto
  have n': "dropWhile (\<lambda>c. c \<notin> set ''/?#'') h = []" using absent(1-3) by (auto simp: dropWhile_eq_Nil_conv)
  have b: "check_brackets h = Inr ()" using absent(5,6) by (simp add: check_brackets_def Let_def)
  have f: "has_prefix ''//'' (''//'' @ h)" "drop 2 (''//'' @ h) = h"
    by (simp_all add: has_prefix_def)
  have e: "before c [] = []" "after c [] = []" for c by (simp_all add: before_def after_def)
  show ?thesis
    unfolding urlsplit_def l d s Let_def case_prod_conv if_P [OF f(1)] f(2) n n' b sum.case e ..
qed

lemma plain_hostname:
  assumes "plain_host h" "u_netloc u = h"
  shows "url_hostname u = h"
  using plain_absent [OF assms(1)] assms
  by (simp add: url_hostname_def host_and_port_def after_last_absent before_absent plain_lower Let_def)

lemma not_ip_literal:
  assumes "validate_host h = Inr ()"
  shows "\<not> is_ip_literal h"
proof -
  have p: "plain_host h" using assms by (rule validated_plain)
  have "parse_octet (last (split_on CHR ''.'' h)) = None"
    using assms by (simp add: validate_host_iff parse_octet_def)
  then have "None \<in> set (map parse_octet (split_on CHR ''.'' h))"
    by (metis last_in_set list.map_disc_iff last_map split_on_nonempty)
  then have "parse_ipv4 h = None" by (auto simp: parse_ipv4_def split: list.split option.split)
  moreover have "parse_ipv6 h = None"
    using plain_absent [OF p]
    by (simp add: parse_ipv6_def before_absent ipv6_parts_def split_on_absent Let_def)
  ultimately show ?thesis by (simp add: is_ip_literal_def plain_brackets [OF p] ip_address_def)
qed

text \<open>The fixed point: a canonical domain is its own canonical form.\<close>

lemma normalize_canonical:
  assumes "canonical_domain h"
  shows "normalize_domain idna h = Inr h"
proof -
  have v: "validate_host h = Inr ()" and w: "strip_www_prefix h = h"
    using assms by (simp_all add: canonical_domain_def)
  have p: "plain_host h" using v by (rule validated_plain)
  have ne: "h \<noteq> []" using p by (simp add: plain_host_def)
  have "hd h \<noteq> CHR ''[''" using plain_absent(5) [OF p] hd_in_set [OF ne] by metis
  then have b: "\<not> has_prefix ''['' h" using ne by (cases h) (auto simp: has_prefix_def)
  have "list_all (\<lambda>c. code_of c < 128) h"
    using plain_char [OF p] host_char_plain(3) by (auto simp: list_all_iff)
  then have a: "to_ascii_host idna h = Inr h"
    using ne by (simp add: to_ascii_host_def plain_strip [OF p] plain_dots [OF p] plain_lower [OF p] Let_def)
  show ?thesis
    using ne b not_ip_literal [OF v]
    by (simp add: normalize_domain_def normalize_domain_with_def plain_prefix [OF p] plain_urlsplit [OF p, simplified]
        plain_hostname [OF p] a v w Let_def)
qed

text \<open>Stripping \<open>www.\<close> keeps a host valid.\<close>

lemma strip_www_valid:
  assumes "validate_host h = Inr ()"
  shows "canonical_domain (strip_www_prefix h)"
  using assms
proof (induction h rule: strip_www_prefix.induct)
  case (1 host)
  let ?rest = "drop 4 host"
  show ?case
  proof (cases "has_prefix ''www.'' host \<and> 2 \<le> length (split_on CHR ''.'' ?rest)")
    case True
    have "host = ''www'' @ CHR ''.'' # ?rest"
    proof -
      have "take 4 host = ''www.''" using True by (simp add: has_prefix_def eval_nat_numeral)
      then have "host = ''www.'' @ ?rest" using append_take_drop_id [of 4 host] by argo
      then show ?thesis by simp
    qed
    then have "split_on CHR ''.'' host = split_on CHR ''.'' ''www'' @ split_on CHR ''.'' ?rest"
      using split_on_prefix [of "CHR ''.''" "''www''" ?rest] by simp
    then have "validate_host ?rest = Inr ()"
      using 1(2) True by (auto simp: validate_host_iff)
    then show ?thesis using 1(1) [OF True] True by (simp add: strip_www_prefix.simps [of host])
  next
    case False
    then have "strip_www_prefix host = host" by (subst strip_www_prefix.simps) (simp only: if_False)
    then show ?thesis using 1(2) by (simp add: canonical_domain_def)
  qed
qed

lemma normalize_domain_canonical:
  assumes "normalize_domain idna v = Inr h"
  shows "canonical_domain h"
  using assms
  by (auto simp: normalize_domain_def normalize_domain_with_def Let_def strip_www_valid
      split: sum.splits if_splits)

section \<open>Spellings of one site\<close>

text \<open>An absolute address around a host: a scheme, credentials, the host in any case, a port and
  whatever follows the authority.\<close>

definition credentials_part :: "string \<Rightarrow> bool" where
  "credentials_part u = (u = [] \<or> (last u = CHR ''@'' \<and> set u \<inter> set ''/?#[]'' = {}))"

definition port_part :: "string \<Rightarrow> bool" where
  "port_part p = (p = [] \<or> (hd p = CHR '':'' \<and> set p \<inter> set ''/?#[]@'' = {}))"

definition tail_part :: "string \<Rightarrow> bool" where
  "tail_part t = (t = [] \<or> hd t \<in> set ''/?#'')"

definition scheme_part :: "string \<Rightarrow> bool" where
  "scheme_part s = (s \<noteq> [] \<and> ascii_alpha (hd s) \<and> list_all scheme_char s)"

definition spelling :: "string \<Rightarrow> string \<Rightarrow> string \<Rightarrow> string \<Rightarrow> string \<Rightarrow> string" where
  "spelling s u host p t = s @ ''://'' @ u @ host @ p @ t"

lemma scheme_no_colon: "scheme_part s \<Longrightarrow> CHR '':'' \<notin> set s"
  by (auto simp: scheme_part_def list_all_iff scheme_char_def ascii_alpha_def ascii_lower_def ascii_digit_def
      code_of_def)

lemma before_append: "c \<notin> set s \<Longrightarrow> before c (s @ c # t) = s"
  by (induction s) (auto simp: before_def)

lemma after_append: "c \<notin> set s \<Longrightarrow> after c (s @ c # t) = t"
  by (induction s) (auto simp: after_def)

lemma after_last_append: "c \<notin> set t \<Longrightarrow> after_last c (s @ c # t) = t"
proof -
  assume "c \<notin> set t"
  then have "takeWhile (\<lambda>x. x \<noteq> c) (rev t @ c # rev s) = rev t"
    by (subst takeWhile_append2) auto
  then show ?thesis by (simp add: after_last_def)
qed

lemma lower_preimage:
  assumes "host_char (lower_char c)"
  shows "c \<notin> set ''/?#@[]:%''" "code_of c > 32"
proof -
  have "code_of c > 32 \<and> c \<notin> set ''/?#@[]:%''"
  proof (cases "65 \<le> code_of c \<and> code_of c \<le> 90")
    case True
    then show ?thesis by (auto simp: code_of_def)
  next
    case False
    then have "lower_char c = c" by (auto simp: lower_char_def code_of_def Let_def)
    then show ?thesis using assms host_char_plain(2,5) [of c] by simp
  qed
  then show "c \<notin> set ''/?#@[]:%''" "code_of c > 32" by blast+
qed

lemma takeWhile_until:
  assumes "\<And>x. x \<in> set s \<Longrightarrow> P x" and "t = [] \<or> \<not> P (hd t)"
  shows "takeWhile P (s @ t) = s" "dropWhile P (s @ t) = t"
  using assms by (induction s; cases t; auto)+

lemma contains_here: "contains p (s @ p @ t)"
proof (induction s)
  case Nil
  have "starts_with p (p @ t)" by (induction p) auto
  then show ?case by (cases "p @ t") auto
qed auto

lemma urlsplit_spelling:
  assumes "scheme_part s" and "credentials_part u" and "port_part p" and "tail_part t"
    and "list_all host_char (str_lower host)" and "list_all (\<lambda>c. code_of c > 32) (u @ p @ t)"
  obtains r where "urlsplit (spelling s u host p t) = Inr r" and "u_netloc r = u @ host @ p"
proof -
  let ?v = "spelling s u host p t"
  have hostc: "c \<notin> set ''/?#@[]:%''" "code_of c > 32" if "c \<in> set host" for c
    using that assms(5) lower_preimage [of c] by (auto simp: str_lower_def list_all_iff)
  have schemec: "code_of c > 32" if "c \<in> set s" for c
    using that assms(1) by (auto simp: scheme_part_def list_all_iff scheme_char_def ascii_alpha_def
        ascii_lower_def ascii_digit_def code_of_def)
  have big: "code_of c > 32" if "c \<in> set ?v" for c
    using that hostc(2) schemec assms(6) by (auto simp: spelling_def list_all_iff code_of_def)
  have ne: "?v \<noteq> []" by (simp add: spelling_def)
  have l: "lstrip_control ?v = ?v"
    unfolding lstrip_control_def using big [OF hd_in_set [OF ne]] by (intro dropWhile_hd) simp
  have d: "drop_unsafe ?v = ?v" unfolding drop_unsafe_def using big by (intro filter_True) force
  have v: "?v = s @ CHR '':'' # (''//'' @ u @ host @ p @ t)" by (simp add: spelling_def)
  note colon = scheme_no_colon [OF assms(1)]
  have sp: "split_scheme ?v = (str_lower s, ''//'' @ u @ host @ p @ t)"
    unfolding split_scheme_def Let_def v before_append [OF colon] after_append [OF colon]
    using assms(1) by (simp add: scheme_part_def)
  have uc: "c \<notin> set ''/?#[]''" if "c \<in> set u" for c using that assms(2) by (auto simp: credentials_part_def)
  have pc: "c \<notin> set ''/?#[]''" if "c \<in> set p" for c using that assms(3) by (auto simp: port_part_def)
  have clean: "c \<notin> set ''/?#[]''" if "c \<in> set (u @ host @ p)" for c
    using that uc pc hostc(1) [of c] by auto
  have n: "takeWhile (\<lambda>c. c \<notin> set ''/?#'') ((u @ host @ p) @ t) = u @ host @ p"
    using clean assms(4) by (intro takeWhile_until) (auto simp: tail_part_def)
  have "CHR ''['' \<notin> set (u @ host @ p)" "CHR '']'' \<notin> set (u @ host @ p)" using clean by force+
  then have b: "check_brackets (u @ host @ p) = Inr ()" unfolding check_brackets_def Let_def by simp
  have f: "has_prefix ''//'' (''//'' @ u @ host @ p @ t)" "drop 2 (''//'' @ u @ host @ p @ t) = (u @ host @ p) @ t"
    by (simp_all add: has_prefix_def)
  show ?thesis
  proof (rule that)
    show "urlsplit ?v = Inr \<lparr>u_scheme = str_lower s, u_netloc = u @ host @ p,
        u_path = before CHR ''?'' (before CHR ''#'' (dropWhile (\<lambda>c. c \<notin> set ''/?#'') ((u @ host @ p) @ t))),
        u_query = after CHR ''?'' (before CHR ''#'' (dropWhile (\<lambda>c. c \<notin> set ''/?#'') ((u @ host @ p) @ t))),
        u_fragment = after CHR ''#'' (dropWhile (\<lambda>c. c \<notin> set ''/?#'') ((u @ host @ p) @ t))\<rparr>"
      unfolding urlsplit_def l d sp Let_def case_prod_conv if_P [OF f(1)] f(2) n b sum.case ..
  qed simp
qed

lemma hostname_spelling:
  assumes "credentials_part u" and "port_part p" and "list_all host_char (str_lower host)"
    and "u_netloc r = u @ host @ p"
  shows "url_hostname r = str_lower host"
proof -
  have hostc: "c \<notin> set ''/?#@[]:%''" if "c \<in> set host" for c
    using that assms(3) lower_preimage(1) [of c] by (auto simp: str_lower_def list_all_iff)
  have no_at: "CHR ''@'' \<notin> set (host @ p)" "CHR ''['' \<notin> set (host @ p)"
    using hostc assms(2) by (force simp: port_part_def)+
  have info: "after_last CHR ''@'' (u @ host @ p) = host @ p"
  proof (cases "u = []")
    case False
    then have "u = butlast u @ [CHR ''@'']" using assms(1) by (metis append_butlast_last_id credentials_part_def)
    then have "u @ host @ p = butlast u @ CHR ''@'' # (host @ p)"
      by (metis append.assoc append_Cons append_Nil)
    then show ?thesis using after_last_append [OF no_at(1)] by metis
  qed (use no_at in \<open>simp add: after_last_absent\<close>)
  have "before CHR '':'' (host @ p) = host"
    unfolding before_def using hostc assms(2) by (intro takeWhile_until) (force simp: port_part_def)+
  moreover have "CHR ''%'' \<notin> set host" using hostc by force
  ultimately show ?thesis
    unfolding url_hostname_def host_and_port_def assms(4) info Let_def
    using no_at(2) by (simp add: before_absent)
qed

lemma normalize_spelling:
  assumes "scheme_part s" and "credentials_part u" and "port_part p" and "tail_part t"
    and "list_all (\<lambda>c. code_of c > 32) (u @ p @ t)" and "validate_host (str_lower host) = Inr ()"
  shows "normalize_domain idna (spelling s u host p t) = Inr (strip_www_prefix (str_lower host))"
proof -
  let ?v = "spelling s u host p t" and ?h = "str_lower host"
  have plain: "plain_host ?h" using assms(6) by (rule validated_plain)
  have hc: "list_all host_char ?h" using plain by (simp add: plain_host_def)
  obtain r where r: "urlsplit ?v = Inr r" and n: "u_netloc r = u @ host @ p"
    using urlsplit_spelling [OF assms(1-4) hc assms(5)] .
  have hn: "url_hostname r = ?h" using hostname_spelling [OF assms(2,3) hc n] .
  have ne: "?h \<noteq> []" using plain by (simp add: plain_host_def)
  have "hd ?h \<noteq> CHR ''[''" using plain_absent(5) [OF plain] hd_in_set [OF ne] by metis
  then have b: "\<not> has_prefix ''['' ?h" using ne by (cases ?h) (auto simp: has_prefix_def)
  have "list_all (\<lambda>c. code_of c < 128) ?h"
    using plain_char [OF plain] host_char_plain(3) by (auto simp: list_all_iff)
  then have a: "to_ascii_host idna ?h = Inr ?h"
    using ne by (simp add: to_ascii_host_def plain_strip [OF plain] plain_dots [OF plain] plain_lower [OF plain] Let_def)
  have blank: "\<not> is_blank c" if "code_of c > 32" for c
    using that by (auto simp: is_blank_def code_of_def Let_def)
  have sne: "s \<noteq> []" using assms(1) by (simp add: scheme_part_def)
  have lastc: "code_of (last ?v) > 32"
  proof -
    have "last ?v \<in> set (host @ p @ t)"
    proof -
      have "host \<noteq> []" using ne by (simp add: str_lower_def)
      then have "last ?v = last (host @ p @ t)" "host @ p @ t \<noteq> []" by (simp_all add: spelling_def)
      then show ?thesis using last_in_set by metis
    qed
    moreover have "code_of c > 32" if "c \<in> set host" for c
      using that hc lower_preimage(2) [of c] by (auto simp: str_lower_def list_all_iff)
    ultimately show ?thesis using assms(5) by (auto simp: list_all_iff)
  qed
  have hdc: "code_of (hd ?v) > 32"
    using assms(1) sne by (auto simp: spelling_def scheme_part_def ascii_alpha_def ascii_lower_def)
  have strip: "str_strip ?v = ?v"
    unfolding str_strip_def using blank [OF hdc] blank [OF lastc] by (intro strip_ends) simp
  have "contains ''//'' ?v"
    using contains_here [of "''//''" "s @ '':''" "u @ host @ p @ t"] by (simp add: spelling_def)
  moreover have "scheme_then '':'' ?v"
    unfolding scheme_then_def Let_def spelling_def
    using assms(1) before_append [OF scheme_no_colon [OF assms(1)], of "''//'' @ u @ host @ p @ t"]
    by (simp add: scheme_part_def has_prefix_def)
  ultimately have pre: "strip_scheme_prefix ?v = Inr ?v"
  proof -
    have "?v \<noteq> []" using sne by (simp add: spelling_def)
    then show ?thesis using \<open>contains ''//'' ?v\<close> \<open>scheme_then '':'' ?v\<close>
      unfolding strip_scheme_prefix_def Let_def strip by (simp only: if_False not_True_eq_False)
  qed
  show ?thesis
    using ne b not_ip_literal [OF assms(6)]
    by (simp add: normalize_domain_def normalize_domain_with_def pre r hn a assms(6) Let_def)
qed

end
