(* ===== verification/HttpClient.thy ===== *)
theory HttpClient
  imports Domains Redaction
begin

text \<open>
  The outbound HTTP client, \<open>core/http_client.py\<close>: the SSRF guard, one bounded exchange, the retry
  loop, and redirects followed by hand.  The transport (httpx) is a parameter that answers each
  request in the light of the ones sent before; so is the resolution of a redirect target
  (\<open>httpx.URL.join\<close>).  A \<open>net\<close> records what was sent and how long the client slept.  Bodies are
  ASCII, so their bytes are their text; elapsed times are left out.
\<close>

section \<open>Configuration and responses\<close>

record http_config =
  hc_timeout_seconds :: rat
  hc_connect_timeout_seconds :: rat
  hc_max_connections :: int
  hc_max_keepalive_connections :: int
  hc_max_retries :: int
  hc_max_response_bytes :: int
  hc_follow_redirects :: bool
  hc_max_redirects :: int
  hc_user_agent :: string
  hc_enforce_public_hosts :: bool

definition default_http_config :: http_config where
  "default_http_config =
     \<lparr>hc_timeout_seconds = 15, hc_connect_timeout_seconds = 5, hc_max_connections = 100,
      hc_max_keepalive_connections = 20, hc_max_retries = 2, hc_max_response_bytes = 5 * 1024 * 1024,
      hc_follow_redirects = True, hc_max_redirects = 5, hc_user_agent = ''BuildSEO/0.1'',
      hc_enforce_public_hosts = True\<rparr>"

record http_response =
  resp_status :: int
  resp_url :: string
  resp_headers :: "(string \<times> string) list"
  resp_text :: string

definition resp_is_success :: "http_response \<Rightarrow> bool" where
  "resp_is_success r = (200 \<le> resp_status r \<and> resp_status r < 300)"

text \<open>\<open>parse\<close> is \<open>json.loads\<close>.\<close>

definition resp_json :: "(string \<Rightarrow> json option) \<Rightarrow> http_response \<Rightarrow> exn + json" where
  "resp_json parse r =
     (case parse (resp_text r) of
        Some j \<Rightarrow> Inr j
      | None \<Rightarrow> Inl (AppExn (app_error_init ProviderError
            (Some ''Provider returned a malformed JSON response'') None
            (Some [(''status_code'', JInt (resp_status r))]) None)))"

section \<open>The transport\<close>

record http_request =
  hr_method :: string
  hr_url :: string
  hr_headers :: "(string \<times> string) list"
  hr_params :: "(string \<times> string) list"
  hr_json :: "json option"
  hr_content :: "string option"

datatype body_end = BodyDone | BodyTimeout | BodyFailed

record raw_response =
  rw_status :: int
  rw_url :: string
  rw_headers :: "(string \<times> string) list"
  rw_chunks :: "string list"
  rw_end :: body_end

datatype send_result = Sent raw_response | SendTimeout | SendFailed | SendRaised exn

record net =
  nt_log :: "http_request list"
  nt_slept :: "rat list"

record http_env =
  he_config :: http_config
  he_send :: "http_request list \<Rightarrow> http_request \<Rightarrow> send_result"
  he_join :: "string \<Rightarrow> string \<Rightarrow> exn + string"
  he_random :: "nat \<Rightarrow> rat"

type_synonym 'a online = "(exn, net, 'a) comp"

definition transmit :: "http_env \<Rightarrow> http_request \<Rightarrow> send_result online" where
  "transmit env rq = (\<lambda>s. (Inr (he_send env (nt_log s) rq), s\<lparr>nt_log := nt_log s @ [rq]\<rparr>))"

section \<open>The guard\<close>

definition blocked_url :: "string \<Rightarrow> string \<Rightarrow> (string \<times> json) list \<Rightarrow> exn" where
  "blocked_url msg cod details = AppExn (coded_error ValidationError msg cod details)"

definition assert_safe_url :: "http_config \<Rightarrow> string \<Rightarrow> exn + unit" where
  "assert_safe_url c url =
     (case urlsplit url of Inl e \<Rightarrow> Inl e | Inr parts \<Rightarrow>
      if u_scheme parts \<notin> {''http'', ''https''}
      then Inl (blocked_url ''Only http and https URLs may be fetched'' ''INVALID_URL''
             [(''scheme'', JStr (u_scheme parts))])
      else let host = url_hostname parts in
      if host = [] then Inl (blocked_url ''URL must include a host'' ''INVALID_URL'' [])
      else if hc_enforce_public_hosts c \<and> \<not> is_public_host host
      then Inl (blocked_url ''Refusing to fetch a non-public address'' ''BLOCKED_HOST''
             [(''host'', JStr host)])
      else Inr ())"

definition safe_url :: "string \<Rightarrow> exn + string" where
  "safe_url url =
     (case urlsplit url of Inl e \<Rightarrow> Inl e | Inr parts \<Rightarrow>
      case url_port parts of Inl e \<Rightarrow> Inl e | Inr port \<Rightarrow>
      Inr (u_scheme parts @ ''://'' @ url_hostname parts
           @ (case port of None \<Rightarrow> [] | Some n \<Rightarrow> if n = 0 then [] else CHR '':'' # show_int n)
           @ u_path parts))"

section \<open>One exchange\<close>

definition transport_error :: "error_class \<Rightarrow> string \<Rightarrow> exn" where
  "transport_error c url =
     (case safe_url url of
        Inl e \<Rightarrow> e
      | Inr u \<Rightarrow> AppExn (app_error_init c None None (Some [(''url'', JStr u)]) None))"

definition too_large :: "(string \<times> json) list \<Rightarrow> exn" where
  "too_large details = AppExn (app_error_init ResponseTooLargeError None None (Some details) None)"

fun read_body :: "string \<Rightarrow> int \<Rightarrow> body_end \<Rightarrow> string \<Rightarrow> string list \<Rightarrow> exn + string" where
  "read_body url cap fin buffer [] =
     (case fin of
        BodyDone \<Rightarrow> Inr buffer
      | BodyTimeout \<Rightarrow> Inl (transport_error ProviderTimeoutError url)
      | BodyFailed \<Rightarrow> Inl (transport_error ProviderUnavailableError url))"
| "read_body url cap fin buffer (chunk # chunks) =
     (if int (length (buffer @ chunk)) > cap then Inl (too_large [(''limit_bytes'', JInt cap)])
      else read_body url cap fin (buffer @ chunk) chunks)"

text \<open>httpx looks headers up whatever their case; the response keeps them in lower case.\<close>

definition header_of :: "string \<Rightarrow> (string \<times> string) list \<Rightarrow> string option" where
  "header_of k hs = map_of (map (\<lambda>(a, v). (str_lower a, v)) hs) k"

definition declared_length :: "raw_response \<Rightarrow> int option" where
  "declared_length r =
     (case header_of ''content-length'' (rw_headers r) of
        None \<Rightarrow> None
      | Some d \<Rightarrow> if d \<noteq> [] \<and> all_digits d then Some (decimal_value d) else None)"

definition receive :: "string \<Rightarrow> int \<Rightarrow> raw_response \<Rightarrow> exn + http_response" where
  "receive url cap r =
     (let whole =
        (case read_body url cap (rw_end r) [] (rw_chunks r) of
           Inl e \<Rightarrow> Inl e
         | Inr body \<Rightarrow> Inr \<lparr>resp_status = rw_status r, resp_url = rw_url r,
             resp_headers = map (\<lambda>(a, v). (str_lower a, v)) (rw_headers r), resp_text = body\<rparr>)
      in case declared_length r of
           None \<Rightarrow> whole
         | Some n \<Rightarrow> if n > cap
             then Inl (too_large [(''limit_bytes'', JInt cap), (''declared_bytes'', JInt n)]) else whole)"

definition send_once :: "http_env \<Rightarrow> int \<Rightarrow> http_request \<Rightarrow> http_response online" where
  "send_once env cap rq =
     ebind (transmit env rq) (\<lambda>answer.
     case answer of
       SendTimeout \<Rightarrow> raise (transport_error ProviderTimeoutError (hr_url rq))
     | SendFailed \<Rightarrow> raise (transport_error ProviderUnavailableError (hr_url rq))
     | SendRaised e \<Rightarrow> raise e
     | Sent r \<Rightarrow> lift_sum (receive (hr_url rq) cap r))"

section \<open>Retries and redirects\<close>

definition retry_status_codes :: "int list" where
  "retry_status_codes = [408, 425, 429, 500, 502, 503, 504]"

definition backoff_delay :: "nat \<Rightarrow> string option \<Rightarrow> rat" where
  "backoff_delay attempt retry_after =
     (case retry_after of
        Some d \<Rightarrow> if d \<noteq> [] \<and> all_digits d then min (of_int (decimal_value d)) 30
                  else min (2 ^ attempt * (1/4)) 8
      | None \<Rightarrow> min (2 ^ attempt * (1/4)) 8)"

definition sleep_backoff :: "http_env \<Rightarrow> nat \<Rightarrow> string option \<Rightarrow> unit online" where
  "sleep_backoff env attempt retry_after =
     modify (\<lambda>s. s\<lparr>nt_slept := nt_slept s
       @ [backoff_delay attempt retry_after * (1/2 + he_random env (length (nt_slept s)) / 2)]\<rparr>)"

definition is_transient :: "exn \<Rightarrow> bool" where
  "is_transient e = (is_app_error e ProviderTimeoutError \<or> is_app_error e ProviderUnavailableError)"

definition wants_redirect :: "http_config \<Rightarrow> http_response \<Rightarrow> string option" where
  "wants_redirect c r =
     (if 300 \<le> resp_status r \<and> resp_status r < 400 \<and> hc_follow_redirects c
      then (case map_of (resp_headers r) ''location'' of
              None \<Rightarrow> None | Some l \<Rightarrow> if l = [] then None else Some l)
      else None)"

text \<open>The attempts at one address; \<open>follow\<close> takes over when the answer redirects.  The budget can only
  be negative from the start, and then nothing is sent.\<close>

fun attempts ::
  "http_env \<Rightarrow> int \<Rightarrow> http_request \<Rightarrow> (int \<Rightarrow> string \<Rightarrow> http_response online) \<Rightarrow> nat \<Rightarrow> nat \<Rightarrow> http_response online" where
  "attempts env cap rq follow i 0 = raise (err_msg ProviderError ''Request failed without a response'')"
| "attempts env cap rq follow i (Suc n) =
     (\<lambda>s. case send_once env cap rq s of
        (Inl e, t) \<Rightarrow>
          (if is_transient e \<and> n \<noteq> 0
           then ethen (sleep_backoff env i None) (attempts env cap rq follow (Suc i) n) t
           else (Inl e, t))
      | (Inr r, t) \<Rightarrow>
          (if resp_status r \<in> set retry_status_codes \<and> n \<noteq> 0
           then ethen (sleep_backoff env i (map_of (resp_headers r) ''retry-after''))
                  (attempts env cap rq follow (Suc i) n) t
           else case wants_redirect (he_config env) r of
                  Some location \<Rightarrow> follow (resp_status r) location t
                | None \<Rightarrow> (Inr r, t)))"

text \<open>Per RFC 9110 a redirected request that is not a HEAD becomes a GET without a body.\<close>

definition redirected :: "int \<Rightarrow> string \<Rightarrow> http_request \<Rightarrow> http_request" where
  "redirected status url rq =
     (if status \<in> {301, 302, 303} \<and> str_upper (hr_method rq) \<noteq> ''HEAD''
      then rq\<lparr>hr_url := url, hr_method := ''GET'', hr_json := None, hr_content := None\<rparr>
      else rq\<lparr>hr_url := url\<rparr>)"

text \<open>\<open>left\<close> is how many redirects may still be followed.\<close>

fun visit :: "http_env \<Rightarrow> int \<Rightarrow> int \<Rightarrow> nat \<Rightarrow> http_request \<Rightarrow> http_response online" where
  "visit env cap budget 0 rq =
     ethen (lift_sum (assert_safe_url (he_config env) (hr_url rq)))
       (attempts env cap rq
          (\<lambda>status location. raise (AppExn (app_error_init ProviderError (Some ''Too many redirects'') None
               (Some [(''max_redirects'', JInt (hc_max_redirects (he_config env)))]) None)))
          0 (nat (budget + 1)))"
| "visit env cap budget (Suc left) rq =
     ethen (lift_sum (assert_safe_url (he_config env) (hr_url rq)))
       (attempts env cap rq
          (\<lambda>status location.
             ebind (lift_sum (he_join env (hr_url rq) location)) (\<lambda>url.
             visit env cap budget left (redirected status url rq)))
          0 (nat (budget + 1)))"

record call_options =
  co_headers :: "(string \<times> string) list"
  co_params :: "(string \<times> string) list"
  co_json :: "json option"
  co_content :: "string option"
  co_max_response_bytes :: "int option"
  co_retries :: "int option"

definition plain_call :: call_options where
  "plain_call = \<lparr>co_headers = [], co_params = [], co_json = None, co_content = None,
     co_max_response_bytes = None, co_retries = None\<rparr>"

definition attempt_budget :: "http_config \<Rightarrow> call_options \<Rightarrow> int" where
  "attempt_budget c opts = (case co_retries opts of None \<Rightarrow> hc_max_retries c | Some n \<Rightarrow> n)"

definition size_cap :: "http_config \<Rightarrow> call_options \<Rightarrow> int" where
  "size_cap c opts =
     (case co_max_response_bytes opts of
        None \<Rightarrow> hc_max_response_bytes c
      | Some n \<Rightarrow> if n = 0 then hc_max_response_bytes c else n)"

definition http_call :: "http_env \<Rightarrow> string \<Rightarrow> string \<Rightarrow> call_options \<Rightarrow> http_response online" where
  "http_call env method url opts =
     (let c = he_config env in
      visit env (size_cap c opts) (attempt_budget c opts) (nat (hc_max_redirects c))
        \<lparr>hr_method = method, hr_url = url, hr_headers = co_headers opts, hr_params = co_params opts,
         hr_json = co_json opts, hr_content = co_content opts\<rparr>)"

definition http_get :: "http_env \<Rightarrow> string \<Rightarrow> call_options \<Rightarrow> http_response online" where
  "http_get env url opts = http_call env ''GET'' url opts"

definition http_post :: "http_env \<Rightarrow> string \<Rightarrow> call_options \<Rightarrow> http_response online" where
  "http_post env url opts = http_call env ''POST'' url opts"

definition post_json :: "http_env \<Rightarrow> string \<Rightarrow> json \<Rightarrow> (string \<times> string) list \<Rightarrow> http_response online" where
  "post_json env url payload headers =
     http_call env ''POST'' url
       (plain_call\<lparr>co_json := Some payload,
          co_headers := dict_merge [(''Content-Type'', ''application/json''), (''Accept'', ''application/json'')] headers\<rparr>)"

section \<open>What is sent\<close>

text \<open>\<open>dispatched c k s t\<close>: between \<open>s\<close> and \<open>t\<close> at most \<open>k\<close> requests were sent, all of them past
  the guard.\<close>

definition dispatched :: "http_config \<Rightarrow> nat \<Rightarrow> net \<Rightarrow> net \<Rightarrow> bool" where
  "dispatched c k s t =
     (\<exists>new. nt_log t = nt_log s @ new \<and> length new \<le> k
        \<and> list_all (\<lambda>r. assert_safe_url c (hr_url r) = Inr ()) new)"

lemma dispatched_refl [simp]: "dispatched c k s s"
  by (simp add: dispatched_def)

lemma dispatched_trans: "dispatched c j s t \<Longrightarrow> dispatched c k t u \<Longrightarrow> j + k \<le> m \<Longrightarrow> dispatched c m s u"
  unfolding dispatched_def by (elim exE conjE, rule_tac x = "new @ newa" in exI) simp

lemma dispatched_slept [simp]:
  "dispatched c k s (t\<lparr>nt_slept := xs\<rparr>) = dispatched c k s t"
  "dispatched c k (s\<lparr>nt_slept := xs\<rparr>) t = dispatched c k s t"
  by (simp_all add: dispatched_def)

lemma dispatched_more: "dispatched c k s t \<Longrightarrow> k \<le> m \<Longrightarrow> dispatched c m s t"
  unfolding dispatched_def using order_trans by blast

lemma wp_send_once:
  assumes "assert_safe_url c (hr_url rq) = Inr ()"
  shows "wp (send_once env cap rq) (\<lambda>_. dispatched c 1 s) (\<lambda>_. dispatched c 1 s) s"
  using assms by (auto simp: send_once_def transmit_def wp_def ebind_def raise_def lift_sum_def ret_def dispatched_def
      split: send_result.split sum.split)

lemma wp_attempt:
  "wp (attempts env cap rq follow i (Suc n)) Q E s =
     wp (send_once env cap rq)
       (\<lambda>r t. if resp_status r \<in> set retry_status_codes \<and> n \<noteq> 0
          then wp (ethen (sleep_backoff env i (map_of (resp_headers r) ''retry-after'')) (attempts env cap rq follow (Suc i) n)) Q E t
          else case wants_redirect (he_config env) r of
                 Some location \<Rightarrow> wp (follow (resp_status r) location) Q E t
               | None \<Rightarrow> Q r t)
       (\<lambda>e t. if is_transient e \<and> n \<noteq> 0
          then wp (ethen (sleep_backoff env i None) (attempts env cap rq follow (Suc i) n)) Q E t else E e t) s"
proof (cases "send_once env cap rq s")
  case (Pair a t)
  then show ?thesis by (cases a) (simp_all add: wp_def split: option.split)
qed

lemma wp_attempts_dispatched:
  assumes safe: "assert_safe_url c (hr_url rq) = Inr ()"
    and follow: "\<And>st loc u. wp (follow st loc) (\<lambda>_. dispatched c k u) (\<lambda>_. dispatched c k u) u"
  shows "wp (attempts env cap rq follow i n) (\<lambda>_. dispatched c (n + k) s) (\<lambda>_. dispatched c (n + k) s) s"
proof (induction n arbitrary: i s)
  case 0
  then show ?case by (simp add: wp_raise)
next
  case (Suc n)
  have again: "wp (ethen (sleep_backoff env i x) (attempts env cap rq follow (Suc i) n))
      (\<lambda>_. dispatched c (Suc n + k) s) (\<lambda>_. dispatched c (Suc n + k) s) t" if "dispatched c 1 s t" for x t
    unfolding wp_ethen sleep_backoff_def wp_modify
    by (rule wp_mono [OF Suc.IH]) (use dispatched_trans [OF that] in \<open>simp_all\<close>)
  have on: "wp (follow st loc) (\<lambda>_. dispatched c (Suc n + k) s) (\<lambda>_. dispatched c (Suc n + k) s) t"
    if "dispatched c 1 s t" for st loc t
    by (rule wp_mono [OF follow]) (use dispatched_trans [OF that] in \<open>simp_all\<close>)
  show ?case unfolding wp_attempt
    by (rule wp_mono [OF wp_send_once [OF safe]]) (use again on dispatched_more in \<open>auto split: option.split\<close>)
qed

lemma wp_visit_dispatched:
  "wp (visit env cap budget left rq) (\<lambda>_. dispatched (he_config env) (Suc left * nat (budget + 1)) s)
     (\<lambda>_. dispatched (he_config env) (Suc left * nat (budget + 1)) s) s"
proof (induction left arbitrary: rq s)
  case 0
  show ?case
  proof (cases "assert_safe_url (he_config env) (hr_url rq)")
    case (Inr x)
    then show ?thesis
      using wp_attempts_dispatched [of "he_config env" rq "\<lambda>status location. raise _" 0 env cap 0 "nat (budget + 1)" s]
      by (simp add: wp_simps)
  qed (simp add: wp_simps)
next
  case (Suc left)
  show ?case
  proof (cases "assert_safe_url (he_config env) (hr_url rq)")
    case (Inr x)
    have "wp (ebind (lift_sum (he_join env (hr_url rq) location)) (\<lambda>url. visit env cap budget left (redirected status url rq)))
       (\<lambda>_. dispatched (he_config env) (Suc left * nat (budget + 1)) u)
       (\<lambda>_. dispatched (he_config env) (Suc left * nat (budget + 1)) u) u" for status location u
      using Suc.IH by (simp add: wp_simps split: sum.split)
    then show ?thesis using wp_attempts_dispatched [of "he_config env" rq _ "Suc left * nat (budget + 1)"] Inr
      by (simp add: wp_simps)
  qed (simp add: wp_simps)
qed

text \<open>\<open>sends c k m\<close>: the computation sends at most \<open>k\<close> requests, all past the guard.\<close>

named_theorems sends_intros \<open>bounds on what a computation sends\<close>

definition sends :: "http_config \<Rightarrow> nat \<Rightarrow> 'a online \<Rightarrow> bool" where
  "sends c k m = (\<forall>s. dispatched c k s (snd (m s)))"

lemma sendsI: "(\<And>s. wp m (\<lambda>_. dispatched c k s) (\<lambda>_. dispatched c k s) s) \<Longrightarrow> sends c k m"
  by (simp add: sends_def wp_snd)

lemma sendsD: "sends c k m \<Longrightarrow> wp m (\<lambda>_. dispatched c k s) (\<lambda>_. dispatched c k s) s"
  by (simp add: sends_def snd_wp)

lemma sends_more: "sends c j m \<Longrightarrow> j \<le> k \<Longrightarrow> sends c k m"
  unfolding sends_def using dispatched_more by blast

lemma sends_reads: "reads m \<Longrightarrow> sends c k m"
  by (simp add: sends_def reads_def)

lemmas sends_still [sends_intros] =
  reads_ret [THEN sends_reads] reads_raise [THEN sends_reads] reads_lift_sum [THEN sends_reads]

lemma sends_ebind [sends_intros]: "sends c j m \<Longrightarrow> (\<And>a. sends c k (f a)) \<Longrightarrow> sends c (j + k) (ebind m f)"
proof (rule sendsI)
  fix s
  assume m: "sends c j m" and f: "\<And>a. sends c k (f a)"
  have on: "wp (f a) (\<lambda>_. dispatched c (j + k) s) (\<lambda>_. dispatched c (j + k) s) t" if "dispatched c j s t" for a t
    by (rule wp_mono [OF sendsD [OF f]]) (use dispatched_trans [OF that] in \<open>simp_all\<close>)
  show "wp (ebind m f) (\<lambda>_. dispatched c (j + k) s) (\<lambda>_. dispatched c (j + k) s) s"
    unfolding wp_ebind by (rule wp_mono [OF sendsD [OF m]]) (auto intro: on dispatched_more)
qed

lemma sends_recover [sends_intros]: "sends c j m \<Longrightarrow> (\<And>e. sends c k (h e)) \<Longrightarrow> sends c (j + k) (recover m h)"
proof (rule sendsI)
  fix s
  assume m: "sends c j m" and h: "\<And>a. sends c k (h a)"
  have on: "wp (h a) (\<lambda>_. dispatched c (j + k) s) (\<lambda>_. dispatched c (j + k) s) t" if "dispatched c j s t" for a t
    by (rule wp_mono [OF sendsD [OF h]]) (use dispatched_trans [OF that] in \<open>simp_all\<close>)
  show "wp (recover m h) (\<lambda>_. dispatched c (j + k) s) (\<lambda>_. dispatched c (j + k) s) s"
    unfolding wp_recover by (rule wp_mono [OF sendsD [OF m]]) (auto intro: on dispatched_more)
qed

lemma sends_if [sends_intros]: "sends c k m \<Longrightarrow> sends c k n \<Longrightarrow> sends c k (if b then m else n)"
  by simp

lemma sends_option [sends_intros]:
  "sends c k m \<Longrightarrow> (\<And>y. sends c k (f y)) \<Longrightarrow> sends c k (case x of None \<Rightarrow> m | Some y \<Rightarrow> f y)"
  by (simp split: option.split)

text \<open>The most one call may send.\<close>

definition call_limit :: "http_config \<Rightarrow> call_options \<Rightarrow> nat" where
  "call_limit c opts = Suc (nat (hc_max_redirects c)) * nat (attempt_budget c opts + 1)"

lemma sends_call [sends_intros]:
  "sends (he_config env) (call_limit (he_config env) opts) (http_call env method url opts)"
  unfolding http_call_def call_limit_def Let_def by (rule sendsI) (rule wp_visit_dispatched)

lemma sends_get [sends_intros]:
  "sends (he_config env) (call_limit (he_config env) opts) (http_get env url opts)"
  unfolding http_get_def by (rule sends_call)

text \<open>The first request of a call is the one it was asked for.\<close>

definition begins :: "http_request \<Rightarrow> net \<Rightarrow> net \<Rightarrow> bool" where
  "begins rq s t = (\<exists>more. nt_log t = nt_log s @ rq # more)"

lemma begins_then: "nt_log t = nt_log s @ [rq] \<Longrightarrow> dispatched c k t u \<Longrightarrow> begins rq s u"
  by (auto simp: begins_def dispatched_def)

lemma begins_sent: "nt_log t = nt_log s @ [rq] \<Longrightarrow> begins rq s t"
  by (simp add: begins_def)

lemma wp_send_begins:
  "wp (send_once env cap rq) (\<lambda>_ t. nt_log t = nt_log s @ [rq]) (\<lambda>_ t. nt_log t = nt_log s @ [rq]) s"
  by (auto simp: send_once_def transmit_def wp_def ebind_def raise_def lift_sum_def ret_def
      split: send_result.split sum.split)

lemma wp_attempts_begin:
  assumes safe: "assert_safe_url c (hr_url rq) = Inr ()" and follow: "\<And>st loc. sends c k (follow st loc)"
  shows "wp (attempts env cap rq follow i (Suc n)) (\<lambda>_. begins rq s) (\<lambda>_. begins rq s) s"
proof -
  have again: "wp (ethen (sleep_backoff env i x) (attempts env cap rq follow (Suc i) n))
      (\<lambda>_. begins rq s) (\<lambda>_. begins rq s) t" if "nt_log t = nt_log s @ [rq]" for x t
    unfolding wp_ethen sleep_backoff_def wp_modify
    by (rule wp_mono [OF wp_attempts_dispatched [OF safe sendsD [OF follow]]])
      (use begins_then [OF that] in \<open>simp_all\<close>)
  have on: "wp (follow st loc) (\<lambda>_. begins rq s) (\<lambda>_. begins rq s) t" if "nt_log t = nt_log s @ [rq]" for st loc t
    by (rule wp_mono [OF sendsD [OF follow]]) (use begins_then [OF that] in \<open>simp_all\<close>)
  show ?thesis unfolding wp_attempt
    by (rule wp_mono [OF wp_send_begins]) (use again on begins_sent in \<open>auto split: option.split\<close>)
qed

lemma sends_visit: "sends (he_config env) (Suc left * nat (budget + 1)) (visit env cap budget left rq)"
  by (rule sendsI) (rule wp_visit_dispatched)

lemma visit_begins:
  assumes "assert_safe_url (he_config env) (hr_url rq) = Inr ()" "0 \<le> budget"
  shows "wp (visit env cap budget left rq) (\<lambda>_. begins rq s) (\<lambda>_. begins rq s) s"
proof -
  obtain n where n: "nat (budget + 1) = Suc n" using assms(2) by (cases "nat (budget + 1)") auto
  show ?thesis
  proof (cases left)
    case 0
    show ?thesis unfolding 0 visit.simps wp_ethen wp_lift_sum assms(1) n sum.case
      by (rule wp_attempts_begin [OF assms(1), where k = 0]) (rule sends_still)
  next
    case (Suc l)
    have "sends (he_config env) (0 + Suc l * nat (budget + 1))
        (ebind (lift_sum (he_join env (hr_url rq) location)) (\<lambda>url. visit env cap budget l (redirected status url rq)))"
      for location status
      by (rule sends_ebind sends_still sends_visit)+
    then show ?thesis unfolding Suc visit.simps wp_ethen wp_lift_sum assms(1) n sum.case
      by (rule wp_attempts_begin [OF assms(1)])
  qed
qed

section \<open>What comes back\<close>

lemma read_body_bounded:
  "read_body url cap fin buffer chunks = Inr body \<Longrightarrow> int (length buffer) \<le> max 0 cap \<Longrightarrow> int (length body) \<le> max 0 cap"
  by (induction chunks arbitrary: buffer) (auto split: body_end.splits if_splits)

lemma receive_bounded: "receive url cap r = Inr x \<Longrightarrow> int (length (resp_text x)) \<le> max 0 cap"
  by (auto simp: receive_def Let_def split: sum.splits option.splits if_splits dest!: read_body_bounded)

lemma wp_send_bounded: "wp (send_once env cap rq) (\<lambda>r _. int (length (resp_text r)) \<le> max 0 cap) (\<lambda>_ _. True) s"
  by (auto simp: send_once_def transmit_def wp_def ebind_def raise_def lift_sum_def ret_def
      dest!: receive_bounded split: send_result.splits sum.splits)

lemma wp_attempts_bounded:
  assumes "\<And>st loc u. wp (follow st loc) (\<lambda>r _. int (length (resp_text r)) \<le> max 0 cap) (\<lambda>_ _. True) u"
  shows "wp (attempts env cap rq follow i n) (\<lambda>r _. int (length (resp_text r)) \<le> max 0 cap) (\<lambda>_ _. True) s"
proof (induction n arbitrary: i s)
  case (Suc n)
  show ?case unfolding wp_attempt
    by (rule wp_mono [OF wp_send_bounded])
      (use assms Suc.IH in \<open>auto simp: wp_ethen sleep_backoff_def wp_modify split: option.split\<close>)
qed (simp add: wp_raise)

lemma wp_visit_bounded:
  "wp (visit env cap budget left rq) (\<lambda>r _. int (length (resp_text r)) \<le> max 0 cap) (\<lambda>_ _. True) s"
proof (induction left arbitrary: rq s)
  case 0
  show ?case by (auto simp: wp_simps intro!: wp_attempts_bounded split: sum.split)
next
  case (Suc left)
  then show ?case by (auto simp: wp_simps intro!: wp_attempts_bounded split: sum.split)
qed

lemma call_bounded:
  "http_call env method url opts s = (Inr r, t) \<Longrightarrow>
   int (length (resp_text r)) \<le> max 0 (size_cap (he_config env) opts)"
  unfolding http_call_def Let_def by (rule wp_Inr [OF wp_visit_bounded])

section \<open>A call that is answered at once\<close>

definition request_of :: "string \<Rightarrow> string \<Rightarrow> call_options \<Rightarrow> http_request" where
  "request_of method url opts =
     \<lparr>hr_method = method, hr_url = url, hr_headers = co_headers opts, hr_params = co_params opts,
      hr_json = co_json opts, hr_content = co_content opts\<rparr>"

lemma call_answered:
  assumes "assert_safe_url (he_config env) url = Inr ()" "0 \<le> attempt_budget (he_config env) opts"
    and "he_send env (nt_log s) (request_of method url opts) = Sent raw"
    and "receive url (size_cap (he_config env) opts) raw = Inr r"
    and "resp_status r \<notin> set retry_status_codes" "wants_redirect (he_config env) r = None"
  shows "http_call env method url opts s = (Inr r, s\<lparr>nt_log := nt_log s @ [request_of method url opts]\<rparr>)"
proof -
  obtain n where n: "nat (attempt_budget (he_config env) opts + 1) = Suc n"
    using assms(2) by (cases "nat (attempt_budget (he_config env) opts + 1)") auto
  have rq: "hr_url (request_of method url opts) = url" by (simp add: request_of_def)
  have sent: "send_once env (size_cap (he_config env) opts) (request_of method url opts) s
      = (Inr r, s\<lparr>nt_log := nt_log s @ [request_of method url opts]\<rparr>)"
    using assms(3,4) by (simp add: send_once_def transmit_def ebind_def lift_sum_def ret_def rq)
  have "attempts env (size_cap (he_config env) opts) (request_of method url opts) follow 0 (Suc n) s
      = (Inr r, s\<lparr>nt_log := nt_log s @ [request_of method url opts]\<rparr>)" for follow
    using assms(5,6) by (simp add: sent)
  then show ?thesis unfolding http_call_def Let_def request_of_def [symmetric]
    by (cases "nat (hc_max_redirects (he_config env))")
      (simp_all add: rq assms(1) n ethen_def ebind_def lift_sum_def ret_def del: attempts.simps)
qed

end
