(* ===== verification/HtmlText.thy ===== *)
theory HtmlText
  imports Redaction
begin

text \<open>
  Reading HTML with regular expressions, as the form pre-flight, the crawler and the link verifier
  do: \<open>re.search\<close> and \<open>re.findall\<close> with captured groups over the pattern items of \<open>Redaction\<close>, lazy
  repetition, and the text of a page.
\<close>

section \<open>Searching\<close>

fun rx_search :: "rx_item list \<Rightarrow> char option \<Rightarrow> string \<Rightarrow> bool" where
  "rx_search items p [] = (rx_seq items p [] \<noteq> None)"
| "rx_search items p (c # cs) = (rx_seq items p (c # cs) \<noteq> None \<or> rx_search items (Some c) cs)"

text \<open>\<open>m p s\<close> is a match at the start of \<open>s\<close> behind the character \<open>p\<close>: what it captures and the rest.\<close>

type_synonym 'a matcher = "char option \<Rightarrow> string \<Rightarrow> ('a \<times> string) option"

function rx_collect :: "'a matcher \<Rightarrow> char option \<Rightarrow> string \<Rightarrow> 'a list" where
  "rx_collect m p [] = []"
| "rx_collect m p (c # cs) =
     (case m p (c # cs) of
        Some (g, rest) \<Rightarrow>
          if length rest \<le> length cs
          then g # rx_collect m (prev_char p (c # cs) (Suc (length cs) - length rest)) rest
          else rx_collect m (Some c) cs
      | None \<Rightarrow> rx_collect m (Some c) cs)"
  by pat_completeness auto
termination by (relation "measure (\<lambda>(_, _, s). length s)") auto

function rx_erase :: "'a matcher \<Rightarrow> string \<Rightarrow> char option \<Rightarrow> string \<Rightarrow> string" where
  "rx_erase m r p [] = []"
| "rx_erase m r p (c # cs) =
     (case m p (c # cs) of
        Some (g, rest) \<Rightarrow>
          if length rest \<le> length cs
          then r @ rx_erase m r (prev_char p (c # cs) (Suc (length cs) - length rest)) rest
          else c # rx_erase m r (Some c) cs
      | None \<Rightarrow> c # rx_erase m r (Some c) cs)"
  by pat_completeness auto
termination by (relation "measure (\<lambda>(_, _, _, s). length s)") auto

text \<open>A repetition handed to \<open>k\<close> with what it took: greedy takes the longest run first, lazy the
  shortest.\<close>

definition rx_greedy ::
  "nat \<Rightarrow> (char \<Rightarrow> bool) \<Rightarrow> (string \<Rightarrow> char option \<Rightarrow> string \<Rightarrow> 'b option) \<Rightarrow> char option \<Rightarrow> string \<Rightarrow> 'b option" where
  "rx_greedy n c k p s =
     first_some (\<lambda>j. k (take j s) (prev_char p s j) (drop j s)) (rev [n..<Suc (length (takeWhile c s))])"

definition rx_lazy ::
  "nat \<Rightarrow> (char \<Rightarrow> bool) \<Rightarrow> (string \<Rightarrow> char option \<Rightarrow> string \<Rightarrow> 'b option) \<Rightarrow> char option \<Rightarrow> string \<Rightarrow> 'b option" where
  "rx_lazy n c k p s =
     first_some (\<lambda>j. k (take j s) (prev_char p s j) (drop j s)) [n..<Suc (length (takeWhile c s))]"

definition is_quote :: "char \<Rightarrow> bool" where
  "is_quote c = (c = CHR 0x22 \<or> c = CHR 0x27)"

definition not_gt :: "char \<Rightarrow> bool" where
  "not_gt c = (c \<noteq> CHR ''>'')"

section \<open>Page text\<close>

text \<open>\<open><(script|style|noscript)[^>]*>.*?</\1>\<close>, \<open><[^>]+>\<close>, \<open>\s+\<close> and the title.\<close>

definition block_match :: "unit matcher" where
  "block_match p s =
     first_some (\<lambda>tag.
        rx_run (lit_nocase (''<'' @ tag) @ [AtLeast 0 not_gt] @ lit ''>'')
          (rx_lazy 0 (\<lambda>_. True) (\<lambda>_. rx_run (lit_nocase (''</'' @ tag @ ''>'')) (\<lambda>_ rest. Some ((), rest)))) p s)
       [''script'', ''style'', ''noscript'']"

definition markup_re :: "rx_item list list" where
  "markup_re = [lit ''<'' @ [AtLeast 1 not_gt] @ lit ''>'']"

definition whitespace_re :: "rx_item list list" where
  "whitespace_re = [[AtLeast 1 is_space_char]]"

definition visible_text :: "string \<Rightarrow> string" where
  "visible_text html =
     str_lower (str_strip (rx_sub whitespace_re '' '' None
       (rx_sub markup_re '' '' None (rx_erase block_match '' '' None html))))"

definition title_match :: "string matcher" where
  "title_match p s =
     rx_run (lit_nocase ''<title'' @ [AtLeast 0 not_gt] @ lit ''>'')
       (rx_lazy 0 (\<lambda>_. True) (\<lambda>inner. rx_run (lit_nocase ''</title>'') (\<lambda>_ rest. Some (inner, rest)))) p s"

definition extract_title :: "string \<Rightarrow> string option" where
  "extract_title html =
     (case rx_collect title_match None html of
        [] \<Rightarrow> None
      | inner # _ \<Rightarrow>
          let title = take 255 (str_strip (rx_sub whitespace_re '' '' None (rx_sub markup_re [] None inner)))
          in if title = [] then None else Some title)"

text \<open>The addresses of the links, \<open><a\s[^>]*href=["']([^"'#]+)\<close>.\<close>

definition link_match :: "string matcher" where
  "link_match p s =
     rx_run (lit_nocase ''<a'' @ [Cls is_space_char, AtLeast 0 not_gt] @ lit_nocase ''href='' @ [Cls is_quote])
       (rx_greedy 1 (\<lambda>c. \<not> is_quote c \<and> c \<noteq> CHR ''#'') (\<lambda>href _ rest. Some (href, rest))) p s"

definition link_hrefs :: "string \<Rightarrow> string list" where
  "link_hrefs html = rx_collect link_match None html"

definition noindex_re :: "rx_item list" where
  "noindex_re =
     lit_nocase ''<meta'' @ [AtLeast 1 not_gt] @ lit_nocase ''name='' @ [Cls is_quote] @ lit_nocase ''robots''
     @ [Cls is_quote, AtLeast 1 not_gt] @ lit_nocase ''content='' @ [Cls is_quote, AtLeast 0 (\<lambda>c. \<not> is_quote c)]
     @ lit_nocase ''noindex''"

definition page_noindex :: "string \<Rightarrow> bool" where
  "page_noindex html = rx_search noindex_re None html"

text \<open>An anchor with what stands before and after its address and its content,
  \<open><a\s([^>]*?)href=["']([^"']+)["']([^>]*)>(.*?)</a>\<close>.\<close>

record anchor =
  an_before :: string
  an_href :: string
  an_after :: string
  an_inner :: string

definition anchor_match :: "anchor matcher" where
  "anchor_match p s =
     rx_run (lit_nocase ''<a'' @ [Cls is_space_char])
      (rx_lazy 0 not_gt (\<lambda>bef.
       rx_run (lit_nocase ''href='' @ [Cls is_quote])
      (rx_greedy 1 (\<lambda>c. \<not> is_quote c) (\<lambda>href.
       rx_run [Cls is_quote]
      (rx_greedy 0 not_gt (\<lambda>aft.
       rx_run (lit ''>'')
      (rx_lazy 0 (\<lambda>_. True) (\<lambda>inner.
       rx_run (lit_nocase ''</a>'') (\<lambda>_ rest.
         Some (\<lparr>an_before = bef, an_href = href, an_after = aft, an_inner = inner\<rparr>, rest)))))))))) p s"

definition page_anchors :: "string \<Rightarrow> anchor list" where
  "page_anchors html = rx_collect anchor_match None html"

text \<open>\<open>rel=["']([^"']*)["']\<close>.\<close>

definition rel_match :: "string matcher" where
  "rel_match p s =
     rx_run (lit_nocase ''rel='' @ [Cls is_quote])
       (rx_greedy 0 (\<lambda>c. \<not> is_quote c) (\<lambda>v. rx_run [Cls is_quote] (\<lambda>_ rest. Some (v, rest)))) p s"

definition rel_of :: "string \<Rightarrow> string option" where
  "rel_of attrs = (case rx_collect rel_match None attrs of [] \<Rightarrow> None | v # _ \<Rightarrow> Some v)"

lemma first_someD: "first_some f xs = Some y \<Longrightarrow> \<exists>x \<in> set xs. f x = Some y"
  by (induction xs) (auto split: option.splits)

end
