(* ===== verification/SubmissionProviders.thy ===== *)
theory SubmissionProviders
  imports HttpClient HtmlText Enums "HOL-Library.List_Lexorder" "HOL-Library.Char_ord"
begin

text \<open>
  \<open>integrations/submission/\<close>: the provider contract (\<open>base.py\<close>), the manual provider
  (\<open>manual.py\<close>) and the form pre-flight (\<open>form.py\<close>).  The HTTP client is the argument
  \<open>fetch\<close>: what a GET of a URL returns, a response or the \<open>ProviderError\<close> or
  \<open>ValidationError\<close> it raises.  The locale \<open>submission_provider\<close> is the protocol's
  promise that a target which needs a human is never delivered to.
\<close>

section \<open>The contract\<close>

datatype outcome_status =
  OC_RECORDED | OC_SUBMITTED | OC_PUBLISHED | OC_BLOCKED_REQUIRES_MANUAL | OC_FAILED

record submission_request =
  rq_target_url :: string
  rq_submission_url :: "string option"
  rq_title :: "string option"
  rq_description :: "string option"
  rq_anchor_text :: "string option"
  rq_category :: "string option"

record submission_outcome =
  oc_status :: outcome_status
  oc_submitted_url :: "string option"
  oc_reason :: "string option"
  oc_evidence :: "(string \<times> json) list"

definition needs_human :: "submission_outcome \<Rightarrow> bool" where
  "needs_human oc = (oc_status oc = OC_BLOCKED_REQUIRES_MANUAL)"

type_synonym fetcher = "string \<Rightarrow> app_error + http_response"
type_synonym provider = "submission_request \<Rightarrow> submission_outcome"

section \<open>Manual\<close>

definition manual_submit :: provider where
  "manual_submit rq =
     \<lparr>oc_status = OC_RECORDED, oc_submitted_url = rq_submission_url rq,
      oc_reason = Some ''recorded_for_manual_submission'',
      oc_evidence = [(''method'', JStr ''MANUAL'')]\<rparr>"

section \<open>Form\<close>

definition human_required_markers :: "(string \<times> string list) list" where
  "human_required_markers =
    [(''captcha_present'',
        [''recaptcha'', ''g-recaptcha'', ''hcaptcha'', ''turnstile'', ''captcha'', ''are you human'']),
     (''login_required'',
        [''sign in to submit'', ''log in to submit'', ''you must be logged in'',
         ''create an account to submit'', ''register to submit'']),
     (''anti_bot_challenge'',
        [''checking your browser'', ''enable javascript and cookies to continue'',
         ''cf-challenge'', ''ddos protection by'']),
     (''automation_prohibited'',
        [''automated submissions are not permitted'', ''no automated submissions'',
         ''bots are not allowed'', ''manual review required before submission''])]"

definition form_re :: "rx_item list" where
  "form_re = lit_nocase ''<form'' @ [WordBoundary, AtLeast 0 (\<lambda>c. c \<noteq> CHR ''>'')] @ lit ''>''"

definition input_name_re :: "rx_item list list" where
  "input_name_re =
     map (\<lambda>tag. lit_nocase (''<'' @ tag) @ [WordBoundary, AtLeast 0 (\<lambda>c. c \<noteq> CHR ''>'')]
                  @ lit_nocase ''name='' @ [Cls is_quote])
       [''input'', ''textarea'', ''select'']"

text \<open>The capture group: the longest non-empty run of non-quote characters, and the rest.\<close>

definition name_group :: "char option \<Rightarrow> string \<Rightarrow> (string \<times> string) option" where
  "name_group p s =
     (let g = takeWhile (\<lambda>c. \<not> is_quote c) s
      in if g = [] then None else Some (g, drop (length g) s))"

definition input_names :: "char option \<Rightarrow> string \<Rightarrow> string list" where
  "input_names p s =
     rx_collect (\<lambda>q t. first_some (\<lambda>items. rx_run items name_group q t) input_name_re) p s"

definition form_blockers :: "string \<Rightarrow> string list" where
  "form_blockers html =
     map fst (filter (\<lambda>(marker, phrases). list_ex (\<lambda>ph. contains ph (str_lower html)) phrases)
                human_required_markers)"

definition blocked :: "string \<Rightarrow> (string \<times> json) list \<Rightarrow> submission_outcome" where
  "blocked reason evidence =
     \<lparr>oc_status = OC_BLOCKED_REQUIRES_MANUAL, oc_submitted_url = None,
      oc_reason = Some reason, oc_evidence = evidence\<rparr>"

definition form_submit :: "fetcher \<Rightarrow> bool \<Rightarrow> provider" where
  "form_submit fetch allow_automatic rq =
     (case rq_submission_url rq of
        None \<Rightarrow> blocked ''no_submission_url_known'' []
      | Some url \<Rightarrow>
         if url = [] then blocked ''no_submission_url_known'' []
         else case fetch url of
           Inl e \<Rightarrow> blocked (''preflight_failed:'' @ str_lower (err_code e)) [(''submission_url'', JStr url)]
         | Inr response \<Rightarrow>
            if \<not> resp_is_success response
            then blocked (''preflight_http_'' @ show_int (resp_status response)) []
            else
              let html = resp_text response;
                  blockers = form_blockers html;
                  has_form = rx_search form_re None html;
                  field_names = take 40 (sort (remdups (input_names None html)));
                  evidence = [(''submission_url'', JStr url), (''form_detected'', JBool has_form),
                              (''form_fields'', JList (map JStr field_names)),
                              (''blockers'', JList (map JStr blockers))]
              in if blockers \<noteq> [] then blocked (''requires_human:'' @ join_with '','' blockers) evidence
                 else if \<not> has_form then blocked ''no_form_found'' evidence
                 else if \<not> allow_automatic
                 then blocked ''automatic_submission_disabled'' (evidence @ [(''preflight'', JStr ''clean'')])
                 else blocked ''automatic_delivery_not_implemented_for_target''
                        (evidence @ [(''preflight'', JStr ''clean'')]))"

section \<open>The protocol\<close>

text \<open>\<open>human rq\<close>: proceeding with \<open>rq\<close> would mean working around the publisher's controls.
  A provider may then only decline or record; it never reports a delivery.\<close>

locale submission_provider =
  fixes submit :: provider and human :: "submission_request \<Rightarrow> bool"
  assumes declines: "human rq \<Longrightarrow> oc_status (submit rq) = OC_BLOCKED_REQUIRES_MANUAL
                                   \<or> oc_status (submit rq) = OC_RECORDED"
begin

lemma not_delivered: "human rq \<Longrightarrow> oc_status (submit rq) \<notin> {OC_SUBMITTED, OC_PUBLISHED}"
  using declines by fastforce

end

lemma blocked_status [simp]: "oc_status (blocked r ev) = OC_BLOCKED_REQUIRES_MANUAL"
  by (simp add: blocked_def)

lemma form_submit_status:
  "oc_status (form_submit fetch auto rq) = OC_BLOCKED_REQUIRES_MANUAL"
  by (simp add: form_submit_def Let_def split: option.split sum.split)

interpretation manual_provider: submission_provider manual_submit "\<lambda>_. True"
  by unfold_locales (simp add: manual_submit_def)

interpretation form_provider: submission_provider "form_submit fetch auto" "\<lambda>_. True"
  by unfold_locales (simp add: form_submit_status)

end
