(* ===== verification/Submissions.thy ===== *)
theory Submissions
  imports AuditTrail Workflows SubmissionProviders
begin

text \<open>
  The submission service, \<open>submissions/service.py\<close>, over the repositories of
  \<open>repositories/submissions.py\<close> and \<open>repositories/opportunities.py\<close>, with the database
  rules of \<open>models/submissions.py\<close> and revision 0013 (the one-live-submission index, the
  approval CHECK, the FREE-only trigger).  An assignment to a loaded row is a
  \<open>repo_save\<close>, so the session sees it at once; \<open>flush_submissions\<close> is the flush, where
  the constraints are checked.  The service's collaborators are the record
  \<open>submission_service\<close>.
\<close>

section \<open>Requests and collaborators\<close>

record submission_create =
  sc_opportunity_id :: nat
  sc_anchor_text :: "string option"
  sc_submitted_title :: "string option"
  sc_submitted_description :: "string option"
  sc_submission_method :: "submission_method option"
  sc_notes :: "string option"
  sc_use_approved_content :: bool

record submission_update =
  su_anchor_text :: "string option"
  su_submitted_title :: "string option"
  su_submitted_description :: "string option"
  su_submission_method :: "submission_method option"
  su_notes :: "string option"

record execute_request =
  ex_submitted_url :: "string option"
  ex_mark_published :: bool
  ex_notes :: "string option"

record verify_request =
  vf_published_url :: "string option"
  vf_fetch_live :: bool
  vf_manual_result :: "bool option"

record verification_result =
  vr_verified :: bool
  vr_checked_url :: string
  vr_page_reachable :: bool
  vr_http_status :: "int option"
  vr_found_href :: "string option"
  vr_anchor_text :: "string option"
  vr_rel :: "string option"
  vr_is_dofollow :: "bool option"
  vr_error :: "string option"
  vr_evidence :: "(string \<times> json) list"

type_synonym link_verifier = "string \<Rightarrow> string \<Rightarrow> exn + verification_result"

record submission_service =
  sv_manual :: provider
  sv_form :: "provider option"
  sv_verifier :: "link_verifier option"

section \<open>Database rules\<close>

definition is_live :: "submission_row \<Rightarrow> bool" where
  "is_live s = (submission_status_value (sub_status s) \<notin> set submission_terminal_values)"

definition approval_recorded :: "submission_row \<Rightarrow> bool" where
  "approval_recorded s = (sub_approved_by_user_id s \<noteq> None \<and> sub_approved_at s \<noteq> None)"

definition submitted_requires_approval :: "submission_row \<Rightarrow> bool" where
  "submitted_requires_approval s =
     (sub_status s \<in> {S_SUBMITTED, S_PUBLISHED, S_VERIFICATION_PENDING, S_VERIFIED}
      \<longrightarrow> approval_recorded s)"

definition live_key :: "submission_row \<Rightarrow> nat \<times> nat" where
  "live_key s = (sub_tenant_id s, sub_opportunity_id s)"

definition submissions_ok :: "db \<Rightarrow> bool" where
  "submissions_ok d =
     (distinct (map live_key (filter is_live (submissions d)))
      \<and> list_all submitted_requires_approval (submissions d))"

definition flush_submissions :: "unit svc" where
  "flush_submissions = flush_check submissions_ok ''submissions''"

text \<open>\<open>enforce_submission_free_only\<close>, before an insert: the join runs under the caller's
  row-level security, so an invisible opportunity or publisher is refused too.\<close>

definition trigger_pricing :: "nat \<Rightarrow> world \<Rightarrow> pricing_type option" where
  "trigger_pricing oid w =
     (case filter (\<lambda>op. opp_id op = oid) (rls_visible opp_tenant_id (w_tenant w) (opportunities (w_db w))) of
        [] \<Rightarrow> None
      | op # _ \<Rightarrow>
          (case filter (\<lambda>p. pub_id p = opp_publisher_id op)
                  (rls_visible pub_tenant_id (w_tenant w) (publishers (w_db w))) of
             [] \<Rightarrow> None
           | p # _ \<Rightarrow> Some (pub_pricing_type p)))"

definition enforce_submission_free_only :: "nat \<Rightarrow> unit svc" where
  "enforce_submission_free_only oid =
     ebind (gets (trigger_pricing oid)) (\<lambda>pr. case pr of
        None \<Rightarrow> raise (IntegrityExn ''foreign_key_violation'')
      | Some x \<Rightarrow> raise_if (x \<noteq> Pr_FREE) (IntegrityExn ''check_violation''))"

section \<open>Repository queries\<close>

definition get_live_for_opportunity :: "nat \<Rightarrow> submission_row option svc" where
  "get_live_for_opportunity oid =
     ebind (repo_where submission_model (\<lambda>s. sub_opportunity_id s = oid \<and> is_live s))
       scalar_one_or_none"

definition list_awaiting_approval :: "nat \<Rightarrow> submission_row list svc" where
  "list_awaiting_approval k =
     ebind (repo_where submission_model (\<lambda>s. sub_status s = S_PENDING_APPROVAL))
       (\<lambda>rs. ret (take k (sort_key sub_updated_at rs)))"

text \<open>\<open>ORDER BY reviewed_at DESC NULLS LAST\<close>, first row.\<close>

definition review_order :: "content_row \<Rightarrow> sort_val" where
  "review_order c = (case con_reviewed_at c of None \<Rightarrow> SV_Null | Some t \<Rightarrow> SV_Int (- t))"

definition get_approved_for_opportunity :: "nat \<Rightarrow> content_row option svc" where
  "get_approved_for_opportunity oid =
     ebind (repo_where content_model
              (\<lambda>c. con_opportunity_id c = oid \<and> con_content_status c = Ct_APPROVED))
       (\<lambda>rs. ret (case sort_key review_order rs of [] \<Rightarrow> None | c # _ \<Rightarrow> Some c))"

text \<open>The join filters the opportunity by tenant in the query and the publisher by policy.\<close>

definition get_with_publisher :: "nat \<Rightarrow> (opportunity_row \<times> publisher_row) option svc" where
  "get_with_publisher oid =
     ebind (repo_where opportunity_model (\<lambda>op. opp_id op = oid)) (\<lambda>ops.
     ebind (gets (\<lambda>w. rls_visible pub_tenant_id (w_tenant w) (publishers (w_db w)))) (\<lambda>pubs.
       scalar_one_or_none
         (concat (map (\<lambda>op. map (\<lambda>p. (op, p)) (filter (\<lambda>p. pub_id p = opp_publisher_id op) pubs)) ops))))"

section \<open>Shared steps\<close>

definition load_pair :: "nat \<Rightarrow> (opportunity_row \<times> publisher_row) svc" where
  "load_pair oid =
     ebind (get_with_publisher oid) (\<lambda>pr. case pr of
        None \<Rightarrow> raise (not_found ''opportunity'' oid) | Some x \<Rightarrow> ret x)"

definition paid_details :: "publisher_row \<Rightarrow> (string \<times> json) list" where
  "paid_details p =
     [(''publisher_id'', JId (pub_id p)), (''normalized_domain'', JStr (pub_normalized_domain p)),
      (''pricing_type'', JStr (pricing_type_value (pub_pricing_type p)))]"

definition paid_error :: "publisher_row \<Rightarrow> exn" where
  "paid_error p =
     AppExn (app_error_init PaidPlacementNotAllowedError None None (Some (paid_details p)) None)"

definition assert_free :: "publisher_row \<Rightarrow> opportunity_row \<Rightarrow> unit svc" where
  "assert_free p op =
     (if pub_pricing_type p = Pr_FREE then ret ()
      else ethen (audit_on A_PAID_PLACEMENT_BLOCKED ''publisher'' (pub_id p)
                    (paid_details p @ [(''opportunity_id'', JId (opp_id op))]))
             (raise (paid_error p)))"

definition text_field :: "(string \<times> json) list \<Rightarrow> string \<Rightarrow> string option" where
  "text_field fs k = (case map_of fs k of Some (JStr s) \<Rightarrow> Some s | _ \<Rightarrow> None)"

definition or_none :: "string option \<Rightarrow> string option" where
  "or_none x = (if truthy x then x else None)"

definition resolve_content ::
  "submission_create \<Rightarrow> opportunity_row \<Rightarrow> (string option \<times> string option \<times> string option) svc" where
  "resolve_content payload op =
     (let plain = (or_else (sc_submitted_title payload) (opp_suggested_title op),
                   or_else (sc_submitted_description payload) (opp_suggested_description op),
                   or_else (sc_anchor_text payload) (opp_suggested_anchor op))
      in if sc_use_approved_content payload
         then ebind (get_approved_for_opportunity (opp_id op)) (\<lambda>approved. case approved of
                None \<Rightarrow> ret plain
              | Some c \<Rightarrow>
                  let fs = con_generated_content c in
                  ret (or_none (or_else (sc_submitted_title payload) (text_field fs ''listing_title'')),
                       or_none (or_else (sc_submitted_description payload)
                         (or_else (text_field fs ''long_description'')
                                  (text_field fs ''short_description''))),
                       or_none (or_else (sc_anchor_text payload) (text_field fs ''anchor_suggestion''))))
         else ret plain)"

definition default_method :: "publisher_row \<Rightarrow> submission_method" where
  "default_method p =
     (if pub_submission_method p = Me_UNKNOWN then Me_MANUAL else pub_submission_method p)"

text \<open>\<open>strftime("%Y-%m-%d %H:%M")\<close> in UTC, on seconds since the epoch (proleptic Gregorian).\<close>

definition pad :: "nat \<Rightarrow> int \<Rightarrow> string" where
  "pad n i = (let s = show_int i in replicate (n - length s) (CHR ''0'') @ s)"

definition civil_date :: "int \<Rightarrow> int \<times> int \<times> int" where
  "civil_date days =
     (let z = days + 719468; era = z div 146097; doe = z mod 146097;
          yoe = (doe - doe div 1460 + doe div 36524 - doe div 146096) div 365;
          doy = doe - (365 * yoe + yoe div 4 - yoe div 100);
          mp = (5 * doy + 2) div 153;
          d = doy - (153 * mp + 2) div 5 + 1;
          m = (if mp < 10 then mp + 3 else mp - 9)
      in (yoe + era * 400 + (if m \<le> 2 then 1 else 0), m, d))"

definition minute_stamp :: "int \<Rightarrow> string" where
  "minute_stamp t =
     (let (y, m, d) = civil_date (t div 86400); s = t mod 86400
      in pad 4 y @ ''-'' @ pad 2 m @ ''-'' @ pad 2 d @ '' ''
         @ pad 2 (s div 3600) @ '':'' @ pad 2 (s mod 3600 div 60))"

definition append_note :: "string option \<Rightarrow> string \<Rightarrow> int \<Rightarrow> string" where
  "append_note existing addition t =
     (let line = ''['' @ minute_stamp t @ ''] '' @ addition
      in if truthy existing then the existing @ [CHR 0x0A] @ line else line)"

definition provider_for :: "submission_service \<Rightarrow> submission_method \<Rightarrow> provider" where
  "provider_for sv m =
     (case sv_form sv of
        Some f \<Rightarrow> if m = Me_FORM then f else sv_manual sv
      | None \<Rightarrow> sv_manual sv)"

definition save_submission :: "submission_row \<Rightarrow> unit svc" where
  "save_submission s = repo_save submission_model s"

definition get_submission :: "nat \<Rightarrow> submission_row svc" where
  "get_submission i = repo_get_or_raise submission_model ''submission'' i"

definition status_details :: "submission_row \<Rightarrow> (string \<times> json) list" where
  "status_details s = [(''status'', JStr (submission_status_value (sub_status s)))]"

definition submission_error :: "string \<Rightarrow> string \<Rightarrow> (string \<times> json) list \<Rightarrow> exn" where
  "submission_error msg cod details = AppExn (coded_error SubmissionError msg cod details)"

definition rule_error :: "string \<Rightarrow> string \<Rightarrow> (string \<times> json) list \<Rightarrow> exn" where
  "rule_error msg cod details = AppExn (coded_error BusinessRuleError msg cod details)"

definition advance_opportunity :: "opportunity_row \<Rightarrow> opportunity_status \<Rightarrow> unit svc" where
  "advance_opportunity op target =
     (if opportunity_can_transition (opp_status op) target
      then repo_save opportunity_model (op\<lparr>opp_status := target\<rparr>) else ret ())"

section \<open>Operations\<close>

definition new_submission ::
  "submission_create \<Rightarrow> opportunity_row \<Rightarrow> publisher_row \<Rightarrow>
   string option \<times> string option \<times> string option \<Rightarrow> submission_method \<Rightarrow>
   nat \<Rightarrow> nat \<Rightarrow> int \<Rightarrow> submission_row" where
  "new_submission payload op p content method i t n =
     (case content of (title, descr, anchor) \<Rightarrow>
      \<lparr>sub_id = i, sub_tenant_id = t, sub_campaign_id = opp_campaign_id op,
       sub_opportunity_id = opp_id op, sub_status = submission_initial,
       sub_submitted_url = or_else (opp_submission_url op) (pub_submission_url p),
       sub_target_url = opp_target_url op, sub_anchor_text = anchor,
       sub_submitted_title = title, sub_submitted_description = descr,
       sub_submission_method = method, sub_approved_by_user_id = None, sub_approved_at = None,
       sub_submitted_at = None, sub_published_at = None, sub_verified_at = None,
       sub_failure_reason = None, sub_notes = sc_notes payload, sub_verification_evidence = [],
       sub_created_at = n, sub_updated_at = n\<rparr>)"

definition create_submission :: "submission_create \<Rightarrow> submission_row svc" where
  "create_submission payload =
     ebind (load_pair (sc_opportunity_id payload)) (\<lambda>(op, p).
     ethen (assert_free p op) (
     ethen (raise_if (\<not> opportunity_is_submittable (opp_status op))
              (rule_error (''An opportunity must be SELECTED or READY before a submission can be prepared (it is ''
                             @ opportunity_status_value (opp_status op) @ '')'')
                 ''OPPORTUNITY_NOT_SUBMITTABLE''
                 [(''status'', JStr (opportunity_status_value (opp_status op)))])) (
     ebind (get_live_for_opportunity (sc_opportunity_id payload)) (\<lambda>live.
     case live of
       Some l \<Rightarrow> raise (rule_error ''This opportunity already has an active submission''
                   ''SUBMISSION_ALREADY_ACTIVE''
                   [(''submission_id'', JId (sub_id l)),
                    (''status'', JStr (submission_status_value (sub_status l)))])
     | None \<Rightarrow>
         ebind (resolve_content payload op) (\<lambda>content.
         let method = (case sc_submission_method payload of Some m \<Rightarrow> m | None \<Rightarrow> default_method p) in
         ebind (repo_new submission_model (new_submission payload op p content method)) (\<lambda>s.
         ethen (enforce_submission_free_only (sub_opportunity_id s)) (
         ethen flush_submissions (
         ethen (audit_on A_SUBMISSION_CREATED ''submission'' (sub_id s)
                  [(''campaign_id'', JId (sub_campaign_id s)),
                   (''opportunity_id'', JId (sub_opportunity_id s)),
                   (''submission_method'', JStr (submission_method_value (sub_submission_method s))),
                   (''target_url'', JStr (sub_target_url s))])
           (ret s)))))))))"

definition submission_filters ::
  "string option \<Rightarrow> nat option \<Rightarrow> nat option \<Rightarrow> string option \<Rightarrow>
   string option \<Rightarrow> (submission_row \<Rightarrow> bool) list" where
  "submission_filters st cid oid meth search =
     (if truthy st then [\<lambda>s. submission_status_value (sub_status s) = the st] else [])
     @ (case cid of None \<Rightarrow> [] | Some x \<Rightarrow> [\<lambda>s. sub_campaign_id s = x])
     @ (case oid of None \<Rightarrow> [] | Some x \<Rightarrow> [\<lambda>s. sub_opportunity_id s = x])
     @ (if truthy meth then [\<lambda>s. submission_method_value (sub_submission_method s) = the meth] else [])
     @ (if truthy search then [\<lambda>s. ilike_term (the search) (sub_target_url s)] else [])"

definition list_submissions ::
  "page_params \<Rightarrow> sort_params option \<Rightarrow> string option \<Rightarrow> nat option \<Rightarrow> nat option \<Rightarrow>
   string option \<Rightarrow> string option \<Rightarrow> submission_row page svc" where
  "list_submissions pg srt st cid oid meth search =
     repo_list_page submission_model pg srt (submission_filters st cid oid meth search)"

text \<open>One \<open>setattr\<close> of \<open>update\<close>: an absent or equal value changes nothing.\<close>

definition set_if_changed ::
  "string \<Rightarrow> string option \<Rightarrow> ('r \<Rightarrow> string option) \<Rightarrow> (string option \<Rightarrow> 'r \<Rightarrow> 'r) \<Rightarrow>
   'r \<times> string list \<Rightarrow> 'r \<times> string list" where
  "set_if_changed field v get put acc =
     (case acc of (r, changed) \<Rightarrow>
       if v \<noteq> None \<and> v \<noteq> get r then (put v r, changed @ [field]) else (r, changed))"

definition apply_text_update :: "submission_update \<Rightarrow> submission_row \<Rightarrow> submission_row \<times> string list" where
  "apply_text_update u s0 =
     (let a1 = set_if_changed ''anchor_text'' (su_anchor_text u) sub_anchor_text
                 (\<lambda>v r. r\<lparr>sub_anchor_text := v\<rparr>) (s0, []);
          a2 = set_if_changed ''submitted_title'' (su_submitted_title u) sub_submitted_title
                 (\<lambda>v r. r\<lparr>sub_submitted_title := v\<rparr>) a1;
          a3 = set_if_changed ''submitted_description'' (su_submitted_description u)
                 sub_submitted_description (\<lambda>v r. r\<lparr>sub_submitted_description := v\<rparr>) a2
      in set_if_changed ''notes'' (su_notes u) sub_notes (\<lambda>v r. r\<lparr>sub_notes := v\<rparr>) a3)"

definition apply_update :: "submission_update \<Rightarrow> submission_row \<Rightarrow> submission_row \<times> string list" where
  "apply_update u s0 =
     (case apply_text_update u s0 of (s, changed) \<Rightarrow>
        (case su_submission_method u of
           None \<Rightarrow> (s, changed)
         | Some m \<Rightarrow> if m \<noteq> sub_submission_method s
                     then (s\<lparr>sub_submission_method := m\<rparr>, changed @ [''submission_method''])
                     else (s, changed)))"

definition clear_approval :: "submission_row \<Rightarrow> submission_row" where
  "clear_approval s =
     s\<lparr>sub_status := S_IN_PROGRESS, sub_approved_by_user_id := None, sub_approved_at := None\<rparr>"

text \<open>Editing content after approval would defeat the review, so an edit of a submission in
  the review queue sends it back.\<close>

definition send_back :: "submission_row \<times> string list \<Rightarrow> submission_row \<times> string list" where
  "send_back acc =
     (case acc of (s, changed) \<Rightarrow>
        if changed \<noteq> [] \<and> sub_status s = S_PENDING_APPROVAL
        then (clear_approval s, changed @ [''status'']) else (s, changed))"

definition update_submission :: "nat \<Rightarrow> submission_update \<Rightarrow> submission_row svc" where
  "update_submission i u =
     ebind (get_submission i) (\<lambda>s0.
     ethen (raise_if (sub_status s0 \<notin> {S_READY, S_IN_PROGRESS, S_PENDING_APPROVAL})
              (submission_error (''A submission in '' @ submission_status_value (sub_status s0)
                                   @ '' can no longer be edited'')
                 ''SUBMISSION_NOT_EDITABLE'' (status_details s0))) (
     let (s, changed) = send_back (apply_update u s0) in
     ethen (save_submission s) (
     ethen flush_submissions (
     ethen (audit_on A_SUBMISSION_UPDATED ''submission'' (sub_id s)
              ((''changed_fields'', JList (map JStr changed)) # status_details s))
       (ret s)))))"

definition transition_submission ::
  "nat \<Rightarrow> submission_status \<Rightarrow> string option \<Rightarrow> submission_row svc" where
  "transition_submission i target reason =
     ebind (get_submission i) (\<lambda>s0.
     ethen (lift_sum (submission_assert_transition (sub_status s0) target)) (
     ethen (raise_if (requires_approval target \<and> sub_approved_by_user_id s0 = None)
              (submission_error (submission_status_value target
                   @ '' requires an approval. Call POST /submissions/{id}/approve first.'')
                 ''APPROVAL_REQUIRED'' [(''target_status'', JStr (submission_status_value target))])) (
     let s1 = s0\<lparr>sub_status := target\<rparr>;
         s = (if target = S_FAILED \<and> truthy reason
              then s1\<lparr>sub_failure_reason := Some (take 500 (the reason))\<rparr> else s1) in
     ethen (save_submission s) (
     ethen flush_submissions (
     ethen (audit_on A_SUBMISSION_UPDATED ''submission'' (sub_id s)
              [(''status'', JStr (submission_status_value target)),
               (''reason'', case reason of None \<Rightarrow> JNull | Some x \<Rightarrow> JStr x)])
       (ret s))))))"

definition prepare_for_review :: "nat \<Rightarrow> submission_row svc" where
  "prepare_for_review i =
     ebind (get_submission i) (\<lambda>s0.
     ebind (if sub_status s0 = S_READY
            then ethen (lift_sum (submission_assert_transition (sub_status s0) S_IN_PROGRESS))
                   (let s1 = s0\<lparr>sub_status := S_IN_PROGRESS\<rparr> in ethen (save_submission s1) (ret s1))
            else ret s0) (\<lambda>s1.
     ethen (lift_sum (submission_assert_transition (sub_status s1) S_PENDING_APPROVAL)) (
     ethen (raise_if (\<not> truthy (sub_submitted_title s1))
              (rule_error ''A submission needs a title before it can be reviewed. Generate content or set one explicitly.''
                 ''SUBMISSION_CONTENT_MISSING'' [])) (
     let s = s1\<lparr>sub_status := S_PENDING_APPROVAL\<rparr> in
     ethen (save_submission s) (
     ethen flush_submissions (
     ethen (audit_on A_SUBMISSION_UPDATED ''submission'' (sub_id s) (status_details s))
       (ret s)))))))"

definition approve_submission :: "nat \<Rightarrow> nat \<Rightarrow> string option \<Rightarrow> submission_row svc" where
  "approve_submission i approver notes =
     ebind (get_submission i) (\<lambda>s0.
     ethen (raise_if (sub_status s0 \<noteq> S_PENDING_APPROVAL)
              (submission_error (''Only a submission awaiting approval can be approved (it is ''
                   @ submission_status_value (sub_status s0) @ '')'')
                 ''SUBMISSION_NOT_AWAITING_APPROVAL'' (status_details s0))) (
     ebind now (\<lambda>n.
     let s1 = s0\<lparr>sub_approved_by_user_id := Some approver, sub_approved_at := Some n\<rparr>;
         s = (if truthy notes then s1\<lparr>sub_notes := notes\<rparr> else s1) in
     ethen (save_submission s) (
     ethen flush_submissions (
     ethen (ebind (audit_record A_SUBMISSION_APPROVED (Some ''submission'') (Some (JId (sub_id s)))
              [(''opportunity_id'', JId (sub_opportunity_id s)),
               (''approved_by_user_id'', JId approver)] (Some approver)) (\<lambda>_. ret ()))
       (ret s))))))"

definition delete_submission :: "nat \<Rightarrow> unit svc" where
  "delete_submission i =
     ebind (get_submission i) (\<lambda>s.
     ethen (repo_delete submission_model s) (
     ethen flush_submissions (
       audit_on A_SUBMISSION_DELETED ''submission'' i
         [(''opportunity_id'', JId (sub_opportunity_id s))])))"

subsection \<open>Execution\<close>

definition execute_metadata :: "submission_row \<Rightarrow> (string \<times> json) list" where
  "execute_metadata s =
     [(''opportunity_id'', JId (sub_opportunity_id s)),
      (''submitted_url'', case sub_submitted_url s of None \<Rightarrow> JNull | Some u \<Rightarrow> JStr u),
      (''submission_method'', JStr (submission_method_value (sub_submission_method s))),
      (''status'', JStr (submission_status_value (sub_status s)))]"

definition reason_json :: "string option \<Rightarrow> json" where
  "reason_json r = (case r of None \<Rightarrow> JNull | Some x \<Rightarrow> JStr x)"

definition reason_text :: "string option \<Rightarrow> string" where
  "reason_text r = (case r of None \<Rightarrow> ''None'' | Some x \<Rightarrow> x)"

definition execute_manual ::
  "submission_row \<Rightarrow> opportunity_row \<Rightarrow> submission_outcome \<Rightarrow> submission_row svc" where
  "execute_manual s0 op oc =
     ebind now (\<lambda>n.
     let s = s0\<lparr>sub_submission_method := Me_MANUAL, sub_status := S_SUBMITTED,
               sub_submitted_at := Some n,
               sub_submitted_url := or_else (oc_submitted_url oc) (sub_submitted_url s0),
               sub_notes := Some (append_note (sub_notes s0)
                              (''manual required: '' @ reason_text (oc_reason oc)) n),
               sub_verification_evidence :=
                 dict_set ''manual_reason'' (reason_json (oc_reason oc))
                   (dict_set ''submission_preflight'' (JObj (oc_evidence oc))
                      (sub_verification_evidence s0))\<rparr> in
     ethen (save_submission s) (
     ethen flush_submissions (
     ethen (audit_on A_SUBMISSION_EXECUTED ''submission'' (sub_id s)
              (execute_metadata s @ [(''reason'', reason_json (oc_reason oc))])) (
     ethen (advance_opportunity op O_SUBMITTED) (ret s)))))"

definition execute_failed ::
  "submission_row \<Rightarrow> opportunity_row \<Rightarrow> submission_outcome \<Rightarrow> submission_row svc" where
  "execute_failed s0 op oc =
     (let s = s0\<lparr>sub_status := S_FAILED,
               sub_failure_reason :=
                 Some (take 500 (the (or_else (oc_reason oc) (Some ''submission_failed''))))\<rparr> in
     ethen (save_submission s) (
     ethen flush_submissions (
     ethen (audit_on A_SUBMISSION_FAILED ''submission'' (sub_id s)
              [(''opportunity_id'', JId (sub_opportunity_id s)),
               (''failure_reason'', reason_json (sub_failure_reason s))]) (
     ethen (advance_opportunity op O_FAILED) (ret s)))))"

definition execute_sent ::
  "submission_row \<Rightarrow> opportunity_row \<Rightarrow> execute_request \<Rightarrow> submission_outcome \<Rightarrow>
   submission_row svc" where
  "execute_sent s0 op rq oc =
     ebind now (\<lambda>n.
     let s1 = s0\<lparr>sub_status := S_SUBMITTED, sub_submitted_at := Some n,
                sub_submitted_url := or_else (oc_submitted_url oc) (sub_submitted_url s0)\<rparr>;
         s2 = (if truthy (ex_notes rq)
               then s1\<lparr>sub_notes := Some (append_note (sub_notes s1) (the (ex_notes rq)) n)\<rparr> else s1) in
     ebind (if ex_mark_published rq \<or> oc_status oc = OC_PUBLISHED
            then ethen (lift_sum (submission_assert_transition (sub_status s2) S_PUBLISHED))
                   (ret (s2\<lparr>sub_status := S_PUBLISHED, sub_published_at := Some n\<rparr>))
            else ethen (lift_sum (submission_assert_transition (sub_status s2) S_VERIFICATION_PENDING))
                   (ret (s2\<lparr>sub_status := S_VERIFICATION_PENDING\<rparr>))) (\<lambda>s.
     ethen (save_submission s) (
     ethen flush_submissions (
     ethen (audit_on A_SUBMISSION_EXECUTED ''submission'' (sub_id s) (execute_metadata s)) (
     ethen (advance_opportunity op
              (if sub_status s = S_PUBLISHED then O_PUBLISHED else O_SUBMITTED)) (ret s))))))"

definition execute_submission ::
  "submission_service \<Rightarrow> nat \<Rightarrow> execute_request \<Rightarrow> submission_row svc" where
  "execute_submission sv i rq =
     ebind (get_submission i) (\<lambda>s0.
     ethen (raise_if (sub_approved_by_user_id s0 = None)
              (submission_error ''This submission has not been approved'' ''APPROVAL_REQUIRED''
                 (status_details s0))) (
     ethen (lift_sum (submission_assert_transition (sub_status s0) S_SUBMITTED)) (
     ebind (load_pair (sub_opportunity_id s0)) (\<lambda>(op, p).
     ethen (assert_free p op) (
     let oc = provider_for sv (sub_submission_method s0)
                \<lparr>rq_target_url = sub_target_url s0,
                 rq_submission_url = or_else (ex_submitted_url rq) (sub_submitted_url s0),
                 rq_title = sub_submitted_title s0, rq_description = sub_submitted_description s0,
                 rq_anchor_text = sub_anchor_text s0, rq_category = opp_category op\<rparr> in
     if needs_human oc then execute_manual s0 op oc
     else if oc_status oc = OC_FAILED then execute_failed s0 op oc
     else execute_sent s0 op rq oc)))))"

subsection \<open>Verification\<close>

definition fetched_evidence :: "verification_result \<Rightarrow> int \<Rightarrow> (string \<times> json) list" where
  "fetched_evidence r n =
     dict_merge
       [(''checked_url'', JStr (vr_checked_url r)),
        (''http_status'', json_opt JInt (vr_http_status r)),
        (''page_reachable'', JBool (vr_page_reachable r)),
        (''found_href'', json_opt JStr (vr_found_href r)),
        (''anchor_text'', json_opt JStr (vr_anchor_text r)),
        (''rel'', json_opt JStr (vr_rel r)),
        (''is_dofollow'', json_opt JBool (vr_is_dofollow r)),
        (''error'', json_opt JStr (vr_error r)),
        (''verified_at'', JTime n)]
       (vr_evidence r)"

definition verification_evidence ::
  "submission_service \<Rightarrow> verify_request \<Rightarrow> submission_row \<Rightarrow> (bool \<times> (string \<times> json) list) svc" where
  "verification_evidence sv rq s =
     (let url = or_else (vf_published_url rq) (sub_submitted_url s) in
      case (if vf_fetch_live rq then sv_verifier sv else None) of
        Some verifier \<Rightarrow>
          ethen (raise_if (\<not> truthy url)
                   (rule_error ''No published URL is recorded for this submission. Supply published_url, or record the outcome manually.''
                      ''PUBLISHED_URL_REQUIRED'' []))
            (ebind (lift_sum (verifier (the url) (sub_target_url s))) (\<lambda>r. ebind now (\<lambda>n.
               ret (vr_verified r, fetched_evidence r n))))
      | None \<Rightarrow>
          (case vf_manual_result rq of
             None \<Rightarrow> raise (rule_error ''Set manual_result when fetch_live is false''
                        ''MANUAL_RESULT_REQUIRED'' [])
           | Some b \<Rightarrow> ebind now (\<lambda>n.
               ret (b, [(''manual'', JBool True), (''checked_url'', json_opt JStr url),
                        (''verified_at'', JTime n)]))))"

definition evidence_error :: "(string \<times> json) list \<Rightarrow> string" where
  "evidence_error ev =
     (case map_of ev ''error'' of Some (JStr e) \<Rightarrow> if e = [] then ''not found'' else e
      | _ \<Rightarrow> ''not found'')"

definition record_verified :: "submission_row \<Rightarrow> submission_row svc" where
  "record_verified s0 =
     ebind now (\<lambda>n.
     ebind (if sub_status s0 \<noteq> S_PUBLISHED
            then ethen (lift_sum (submission_assert_transition (sub_status s0) S_PUBLISHED))
                   (ret (s0\<lparr>sub_status := S_PUBLISHED,
                            sub_published_at := (case sub_published_at s0 of
                               None \<Rightarrow> Some n | Some t \<Rightarrow> Some t)\<rparr>))
            else ret s0) (\<lambda>s1.
     ethen (lift_sum (submission_assert_transition (sub_status s1) S_VERIFIED))
       (ret (s1\<lparr>sub_status := S_VERIFIED, sub_verified_at := Some n\<rparr>))))"

definition record_unverified :: "submission_row \<Rightarrow> (string \<times> json) list \<Rightarrow> submission_row" where
  "record_unverified s0 ev =
     (let s1 = (if sub_status s0 = S_SUBMITTED then s0\<lparr>sub_status := S_VERIFICATION_PENDING\<rparr> else s0)
      in s1\<lparr>sub_failure_reason := Some (take 500 (''link not verified: '' @ evidence_error ev))\<rparr>)"

definition verify_submission ::
  "submission_service \<Rightarrow> nat \<Rightarrow> verify_request \<Rightarrow> submission_row svc" where
  "verify_submission sv i rq =
     ebind (get_submission i) (\<lambda>s0.
     ethen (raise_if (sub_status s0 \<notin> {S_SUBMITTED, S_VERIFICATION_PENDING, S_PUBLISHED})
              (submission_error (''A submission in '' @ submission_status_value (sub_status s0)
                   @ '' cannot be verified'')
                 ''SUBMISSION_NOT_VERIFIABLE'' (status_details s0))) (
     ebind (verification_evidence sv rq s0) (\<lambda>(verified, ev).
     let s1 = s0\<lparr>sub_verification_evidence :=
                 dict_set ''verification'' (JObj ev) (sub_verification_evidence s0)\<rparr> in
     ethen (save_submission s1) (
     ebind (if verified then record_verified s1 else ret (record_unverified s1 ev)) (\<lambda>s.
     ethen (save_submission s) (
     ethen flush_submissions (
     ethen (audit_on A_SUBMISSION_VERIFIED ''submission'' (sub_id s)
              [(''opportunity_id'', JId (sub_opportunity_id s)), (''verified'', JBool verified),
               (''published_url'', json_opt JStr
                  (or_else (vf_published_url rq) (sub_submitted_url s0)))])
       (ret s))))))))"

end
