(* ===== verification/SubmissionLifecycle.thy ===== *)
theory SubmissionLifecycle
  imports Submissions
begin

text \<open>
  The submission service against its abstract specification.  \<open>sub_move\<close> says how one
  row may change, \<open>table_move\<close> how the table may (\<open>n\<close> bounds the identifiers in use): an initial row is added, a row makes a
  permitted move, a row is dropped.  Every operation that returns refines it; the table
  invariants then follow by induction over moves, once for all operations.
\<close>

section \<open>The abstract specification\<close>

definition submission_path :: "submission_status \<Rightarrow> submission_status \<Rightarrow> bool" where
  "submission_path a b = ((a, b) \<in> {(x, y). y \<in> submission_transitions x}\<^sup>*)"

definition approval :: "submission_row \<Rightarrow> nat option \<times> int option" where
  "approval s = (sub_approved_by_user_id s, sub_approved_at s)"

definition sub_key :: "submission_row \<Rightarrow> nat \<times> nat \<times> nat" where
  "sub_key s = (sub_id s, sub_tenant_id s, sub_opportunity_id s)"

inductive sub_move :: "submission_row \<Rightarrow> submission_row \<Rightarrow> bool" where
  carry: "\<lbrakk>sub_key s' = sub_key s; submission_path (sub_status s) (sub_status s');
           approval s' = approval s;
           requires_approval (sub_status s') \<Longrightarrow>
             requires_approval (sub_status s) \<or> sub_approved_by_user_id s' \<noteq> None\<rbrakk>
          \<Longrightarrow> sub_move s s'"
| sign: "\<lbrakk>sub_key s' = sub_key s; sub_status s = S_PENDING_APPROVAL;
          sub_status s' = S_PENDING_APPROVAL; approval s' = (Some u, Some n)\<rbrakk> \<Longrightarrow> sub_move s s'"
| reset: "\<lbrakk>sub_key s' = sub_key s; sub_status s = S_PENDING_APPROVAL;
           sub_status s' = S_IN_PROGRESS; approval s' = (None, None)\<rbrakk> \<Longrightarrow> sub_move s s'"

inductive_simps sub_move_iff: "sub_move s s'"

inductive table_move :: "nat \<Rightarrow> submission_row list \<Rightarrow> submission_row list \<Rightarrow> bool" for n where
  put: "\<lbrakk>s \<in> set rs; sub_move s s'\<rbrakk> \<Longrightarrow> table_move n rs (row_put sub_id s' rs)"
| add: "\<lbrakk>sub_status s = S_READY; approval s = (None, None); n \<le> sub_id s\<rbrakk>
        \<Longrightarrow> table_move n rs (rs @ [s])"
| drop: "table_move n rs (row_drop sub_id i rs)"

abbreviation table_moves :: "nat \<Rightarrow> submission_row list \<Rightarrow> submission_row list \<Rightarrow> bool" where
  "table_moves n \<equiv> (table_move n)\<^sup>*\<^sup>*"

definition refines_moves :: "'a svc \<Rightarrow> bool" where
  "refines_moves m =
     (\<forall>w. wp m (\<lambda>_ v. table_moves (w_next w) (submissions (w_db w)) (submissions (w_db v))) (\<lambda>_ _. True) w)"

section \<open>Paths\<close>

lemma path_refl [simp, intro]: "submission_path a a"
  by (simp add: submission_path_def)

lemma path_step: "b \<in> submission_transitions a \<Longrightarrow> submission_path a b"
  by (auto simp: submission_path_def)

lemma path_trans: "submission_path a b \<Longrightarrow> submission_path b c \<Longrightarrow> submission_path a c"
  by (simp add: submission_path_def)

lemma path_from_pending:
  "submission_path S_PENDING_APPROVAL S_SUBMITTED" "submission_path S_PENDING_APPROVAL S_PUBLISHED"
  "submission_path S_PENDING_APPROVAL S_VERIFICATION_PENDING" "submission_path S_PENDING_APPROVAL S_FAILED"
proof -
  have s: "submission_path S_PENDING_APPROVAL S_SUBMITTED" by (rule path_step) simp
  show "submission_path S_PENDING_APPROVAL S_SUBMITTED" by (rule s)
  show "submission_path S_PENDING_APPROVAL S_PUBLISHED"
    by (rule path_trans [OF s]) (simp add: path_step)
  show "submission_path S_PENDING_APPROVAL S_VERIFICATION_PENDING"
    by (rule path_trans [OF s]) (simp add: path_step)
  show "submission_path S_PENDING_APPROVAL S_FAILED"
    by (rule path_trans [OF s]) (simp add: path_step)
qed

lemma assert_transition_cases:
  "(case submission_assert_transition a b of Inl e \<Rightarrow> P e | Inr u \<Rightarrow> Q u)
   = (if b \<in> submission_transitions a then Q ()
      else P (AppExn (transition_between ''submission'' (submission_status_value a)
                        (submission_status_value b))))"
  by (simp add: submission_assert_transition_def submission_can_transition_def)

lemma touched_move:
  "sub_move s s' \<Longrightarrow> sub_move s (s'\<lparr>sub_updated_at := n\<rparr>)"
  by (simp add: sub_move_iff sub_key_def approval_def)

lemma moves_add: "\<lbrakk>sub_status s = S_READY; approval s = (None, None); k \<le> sub_id s\<rbrakk> \<Longrightarrow> table_moves k rs (rs @ [s])"
  by (intro r_into_rtranclp table_move.add)

lemma moves_put:
  "\<lbrakk>s \<in> set rs; sub_move s s'\<rbrakk> \<Longrightarrow> table_moves k rs (row_put sub_id (s'\<lparr>sub_updated_at := n\<rparr>) rs)"
  by (intro r_into_rtranclp table_move.put touched_move)

section \<open>Weakest preconditions of the shared steps\<close>

lemma wp_save_submission [wp_simps]:
  "wp (save_submission s) Q E w =
   Q () (w\<lparr>w_db := w_db w\<lparr>submissions :=
            row_put sub_id (s\<lparr>sub_updated_at := w_now w\<rparr>) (submissions (w_db w))\<rparr>\<rparr>)"
  by (simp add: save_submission_def submission_table.wp_save)

lemma wp_flush_submissions [wp_simps]:
  "wp flush_submissions Q E w =
   (if submissions_ok (w_db w) then Q () w
    else E (IntegrityExn ''submissions'') (w\<lparr>w_db := w_committed w\<rparr>))"
  by (simp add: flush_submissions_def wp_simps)

lemma wp_get_submission:
  assumes "\<And>s. \<lbrakk>w_tenant w = Some (sub_tenant_id s); s \<in> set (submissions (w_db w)); sub_id s = i\<rbrakk> \<Longrightarrow> Q s w"
    and "\<And>e. E e w"
  shows "wp (get_submission i) Q E w"
  unfolding get_submission_def using assms by (intro submission_table.wp_get_or_raise) simp_all

lemma wp_advance_opportunity [wp_simps]:
  "wp (advance_opportunity op target) Q E w =
   (if opportunity_can_transition (opp_status op) target
    then Q () (w\<lparr>w_db := w_db w\<lparr>opportunities := row_put opp_id
                (op\<lparr>opp_status := target, opp_updated_at := w_now w\<rparr>) (opportunities (w_db w))\<rparr>\<rparr>)
    else Q () w)"
  by (simp add: advance_opportunity_def opportunity_table.wp_save wp_simps)

lemma reads_submission_queries [reads_intros]:
  "reads (get_with_publisher oid)" "reads (load_pair oid)" "reads (get_live_for_opportunity oid)"
  "reads (get_approved_for_opportunity oid)" "reads (resolve_content payload op)"
  "reads (enforce_submission_free_only oid)" "reads (get_submission i)"
  "reads (verification_evidence sv rq s)" "reads (record_verified s)"
  unfolding get_with_publisher_def load_pair_def get_live_for_opportunity_def
    get_approved_for_opportunity_def resolve_content_def enforce_submission_free_only_def
    get_submission_def verification_evidence_def record_verified_def Let_def
  by (intro reads_intros)+

text \<open>The guard of rules 1 and 2: it lets a FREE publisher pass without a trace, and for any
  other it writes one audit row and raises.\<close>

lemma wp_assert_free:
  assumes "pub_pricing_type p = Pr_FREE \<Longrightarrow> Q () w" and "\<And>e v. E e v"
  shows "wp (assert_free p op) Q E w"
  using assms by (auto simp: assert_free_def wp_simps split: option.split)

section \<open>Each operation refines the specification\<close>

lemma set_if_changed_keeps:
  assumes "\<And>v r. f (put v r) = f r"
  shows "f (fst (set_if_changed field v get put acc)) = f (fst acc)"
  using assms by (simp add: set_if_changed_def split: prod.split)

lemma apply_update_keeps:
  assumes "\<And>v r. f (r\<lparr>sub_anchor_text := v\<rparr>) = f r" "\<And>v r. f (r\<lparr>sub_submitted_title := v\<rparr>) = f r"
    "\<And>v r. f (r\<lparr>sub_submitted_description := v\<rparr>) = f r" "\<And>v r. f (r\<lparr>sub_notes := v\<rparr>) = f r"
    "\<And>v r. f (r\<lparr>sub_submission_method := v\<rparr>) = f r"
  shows "f (fst (apply_update u s)) = f s"
proof -
  have "f (fst (apply_text_update u s)) = f s"
    by (simp add: apply_text_update_def Let_def set_if_changed_keeps [of f] assms(1-4))
  then show ?thesis
    by (auto simp: apply_update_def assms(5) split: prod.splits option.splits)
qed

lemma apply_update_row [simp]:
  "sub_key (fst (apply_update u s)) = sub_key s"
  "sub_status (fst (apply_update u s)) = sub_status s"
  "approval (fst (apply_update u s)) = approval s"
  by (rule apply_update_keeps; simp add: sub_key_def approval_def)+

lemma set_if_changed_nil:
  assumes "snd (set_if_changed field v get put acc) = []"
  shows "set_if_changed field v get put acc = acc"
  using assms by (auto simp: set_if_changed_def split: prod.splits if_splits)

lemma unchanged_update: "snd (apply_update u s) = [] \<Longrightarrow> fst (apply_update u s) = s"
proof -
  assume nil: "snd (apply_update u s) = []"
  then have inner: "snd (apply_text_update u s) = []"
    and same: "fst (apply_update u s) = fst (apply_text_update u s)"
    by (auto simp: apply_update_def split: prod.splits option.splits if_splits)
  have "apply_text_update u s = (s, [])"
    using inner unfolding apply_text_update_def Let_def by (metis set_if_changed_nil)
  then show ?thesis using same by simp
qed

lemma update_move: "sub_move s (fst (send_back (apply_update u s)))"
proof (cases "snd (apply_update u s) \<noteq> [] \<and> sub_status s = S_PENDING_APPROVAL")
  case True
  then have "sub_move s (clear_approval (fst (apply_update u s)))"
    using apply_update_row(1) [of u s]
    by (intro sub_move.reset) (simp_all add: clear_approval_def sub_key_def approval_def)
  then show ?thesis using True by (simp add: send_back_def case_prod_beta)
next
  case False
  then show ?thesis
    by (auto simp: send_back_def case_prod_beta intro!: sub_move.carry)
qed

lemma refines_update: "refines_moves (update_submission i u)"
  unfolding refines_moves_def update_submission_def
  by (auto simp: wp_simps Let_def case_prod_beta intro!: wp_get_submission moves_put update_move)

lemma transition_move:
  assumes "target \<in> submission_transitions (sub_status s)"
    and "requires_approval target \<Longrightarrow> sub_approved_by_user_id s \<noteq> None"
  shows "sub_move s (s\<lparr>sub_status := target\<rparr>)"
    "sub_move s (s\<lparr>sub_status := target, sub_failure_reason := r\<rparr>)"
  using assms by (auto intro!: sub_move.carry simp: sub_key_def approval_def path_step)

lemma refines_transition: "refines_moves (transition_submission i target reason)"
  unfolding refines_moves_def transition_submission_def
  by (auto simp: wp_simps Let_def assert_transition_cases
      intro!: wp_get_submission moves_put transition_move)

lemma refines_prepare: "refines_moves (prepare_for_review i)"
proof -
  have once: "sub_move s (s\<lparr>sub_status := S_PENDING_APPROVAL\<rparr>)" if "sub_status s = S_IN_PROGRESS" for s
    using that by (intro transition_move) (simp_all add: requires_approval_def approval_required_statuses_def)
  have first: "sub_move s (s\<lparr>sub_status := S_IN_PROGRESS\<rparr>)" if "sub_status s = S_READY" for s
    using that by (intro transition_move) (simp_all add: requires_approval_def approval_required_statuses_def)
  have status: "sub_status s = S_IN_PROGRESS"
    if "S_PENDING_APPROVAL \<in> submission_transitions (sub_status s)" for s
    using that by (cases "sub_status s") simp_all
  have twice: "table_moves k rs (row_put sub_id (s\<lparr>sub_status := S_PENDING_APPROVAL, sub_updated_at := n\<rparr>)
      (row_put sub_id (s\<lparr>sub_status := S_IN_PROGRESS, sub_updated_at := n\<rparr>) rs))"
    if "s \<in> set rs" "sub_status s = S_READY" for s rs n k
  proof (rule rtranclp_trans)
    let ?s = "s\<lparr>sub_status := S_IN_PROGRESS, sub_updated_at := n\<rparr>"
    show "table_moves k rs (row_put sub_id ?s rs)"
      using moves_put [OF that(1) first [OF that(2)], where n = n] by simp
    have "?s \<in> set (row_put sub_id ?s rs)"
      using that(1) by (rule row_put_mem) simp
    from moves_put [OF this once, where n = n]
    show "table_moves k (row_put sub_id ?s rs)
        (row_put sub_id (s\<lparr>sub_status := S_PENDING_APPROVAL, sub_updated_at := n\<rparr>) (row_put sub_id ?s rs))"
      by simp
  qed
  show ?thesis
    unfolding refines_moves_def prepare_for_review_def
    by (auto simp: wp_simps Let_def assert_transition_cases
        intro!: wp_get_submission moves_put once twice dest: status)
qed

lemma refines_approve: "refines_moves (approve_submission i approver notes)"
proof -
  have "sub_move s (s\<lparr>sub_approved_by_user_id := Some approver, sub_approved_at := Some n\<rparr>)"
    "sub_move s (s\<lparr>sub_approved_by_user_id := Some approver, sub_approved_at := Some n, sub_notes := x\<rparr>)"
    if "sub_status s = S_PENDING_APPROVAL" for s n x
    using that by (auto intro!: sub_move.sign simp: sub_key_def approval_def)
  then show ?thesis
    unfolding refines_moves_def approve_submission_def
    by (auto simp: wp_simps Let_def intro!: wp_get_submission moves_put split: option.splits)
qed

lemma refines_delete: "refines_moves (delete_submission i)"
  unfolding refines_moves_def delete_submission_def
  by (auto simp: wp_simps submission_table.wp_delete intro!: wp_get_submission table_move.drop)

lemma new_submission_simps [simp]:
  "sub_id (new_submission payload op p c m i t n) = i"
  "sub_tenant_id (new_submission payload op p c m i t n) = t"
  "sub_status (new_submission payload op p c m i t n) = S_READY"
  "sub_opportunity_id (new_submission payload op p c m i t n) = opp_id op"
  "approval (new_submission payload op p c m i t n) = (None, None)"
  by (simp_all add: new_submission_def submission_initial_def approval_def split: prod.split)

lemma refines_create: "refines_moves (create_submission payload)"
  unfolding refines_moves_def create_submission_def
  by (auto simp: wp_simps Let_def submission_table.wp_new
      intro!: wp_reads [OF reads_submission_queries(2)] wp_assert_free
        wp_reads [OF reads_submission_queries(3)] wp_reads [OF reads_submission_queries(5)]
        wp_reads [OF reads_submission_queries(6)] moves_add
      split: option.splits)

text \<open>Execution leaves the review queue for one of the statuses behind it, and the row it does
  so with carries the approval.\<close>

lemma executed_move:
  assumes "sub_key s' = sub_key s" "approval s' = approval s" "sub_approved_by_user_id s \<noteq> None"
    and "S_SUBMITTED \<in> submission_transitions (sub_status s)"
    and "sub_status s' \<in> {S_SUBMITTED, S_PUBLISHED, S_VERIFICATION_PENDING, S_FAILED}"
  shows "sub_move s s'"
proof -
  have "sub_status s = S_PENDING_APPROVAL" using assms(4) by (cases "sub_status s") simp_all
  then show ?thesis using assms path_from_pending
    by (intro sub_move.carry) (auto simp: approval_def)
qed

lemma execute_branches:
  assumes "s \<in> set (submissions (w_db w))" "sub_approved_by_user_id s = Some u"
    and "S_SUBMITTED \<in> submission_transitions (sub_status s)"
  defines "Q \<equiv> \<lambda>(_::submission_row) v. table_moves (w_next w) (submissions (w_db w)) (submissions (w_db v))"
  shows "wp (execute_manual s op oc) Q (\<lambda>_ _. True) w"
    "wp (execute_failed s op oc) Q (\<lambda>_ _. True) w"
    "wp (execute_sent s op rq oc) Q (\<lambda>_ _. True) w"
proof -
  have move: "table_moves (w_next w) (submissions (w_db w))
      (row_put sub_id (s'\<lparr>sub_updated_at := n\<rparr>) (submissions (w_db w)))"
    if "sub_key s' = sub_key s" "approval s' = approval s"
      "sub_status s' \<in> {S_SUBMITTED, S_PUBLISHED, S_VERIFICATION_PENDING, S_FAILED}" for s' n
    using that assms(1-3) by (intro moves_put [where s = s] executed_move) simp_all
  note facts = wp_simps Let_def assert_transition_cases sub_key_def approval_def Q_def
  show "wp (execute_manual s op oc) Q (\<lambda>_ _. True) w"
    by (auto simp: execute_manual_def facts split: option.split intro!: move)
  show "wp (execute_failed s op oc) Q (\<lambda>_ _. True) w"
    by (auto simp: execute_failed_def facts split: option.split intro!: move)
  show "wp (execute_sent s op rq oc) Q (\<lambda>_ _. True) w"
    by (auto simp: execute_sent_def facts split: option.split intro!: move)
qed

lemma refines_execute: "refines_moves (execute_submission sv i rq)"
  unfolding refines_moves_def execute_submission_def
  by (auto simp: wp_simps Let_def assert_transition_cases
      intro!: wp_get_submission wp_reads [OF reads_submission_queries(2)] wp_assert_free
        execute_branches)

lemma wp_record_verified:
  assumes "\<And>s'. \<lbrakk>sub_key s' = sub_key s; approval s' = approval s; sub_status s' = S_VERIFIED;
      submission_path (sub_status s) S_VERIFIED\<rbrakk> \<Longrightarrow> Q s' w"
    and "\<And>e. E e w"
  shows "wp (record_verified s) Q E w"
proof -
  have last: "submission_path S_PUBLISHED S_VERIFIED" by (simp add: path_step)
  then have "submission_path (sub_status s) S_VERIFIED" if "S_PUBLISHED \<in> submission_transitions (sub_status s)"
    using that path_step path_trans by blast
  then show ?thesis
    using last
    by (auto simp: record_verified_def wp_simps assert_transition_cases sub_key_def approval_def
        intro!: assms)
qed

lemma record_unverified_row:
  "sub_key (record_unverified s ev) = sub_key s"
  "approval (record_unverified s ev) = approval s"
  "submission_path (sub_status s) (sub_status (record_unverified s ev))"
  by (auto simp: record_unverified_def Let_def sub_key_def approval_def path_step)

lemma moves_put_twice:
  assumes "s \<in> set rs" and "sub_move s a" and "sub_move (a\<lparr>sub_updated_at := n\<rparr>) b"
  shows "table_moves k rs (row_put sub_id (b\<lparr>sub_updated_at := n\<rparr>)
           (row_put sub_id (a\<lparr>sub_updated_at := n\<rparr>) rs))"
proof -
  let ?a = "a\<lparr>sub_updated_at := n\<rparr>"
  have key: "sub_id ?a = sub_id s" using assms(2) by (auto simp: sub_move_iff sub_key_def)
  have first: "table_moves k rs (row_put sub_id ?a rs)" using assms(1,2) by (rule moves_put)
  have "?a \<in> set (row_put sub_id ?a rs)" using assms(1) key by (intro row_put_mem) simp_all
  then have "table_moves k (row_put sub_id ?a rs) (row_put sub_id (b\<lparr>sub_updated_at := n\<rparr>) (row_put sub_id ?a rs))"
    using assms(3) by (rule moves_put)
  with first show ?thesis by (rule rtranclp_trans)
qed

lemma refines_verify: "refines_moves (verify_submission sv i rq)"
proof -
  have gated: "requires_approval (sub_status s)"
    if "sub_status s \<in> {S_SUBMITTED, S_VERIFICATION_PENDING, S_PUBLISHED}" for s
    using that by (auto simp: requires_approval_def approval_required_statuses_def)
  have evidence: "sub_move s (s\<lparr>sub_verification_evidence := ev\<rparr>)" for s ev
    by (intro sub_move.carry) (simp_all add: sub_key_def approval_def)
  have final: "sub_move (s\<lparr>sub_verification_evidence := ev, sub_updated_at := n\<rparr>) s'"
    if "sub_key s' = sub_key (s\<lparr>sub_verification_evidence := ev\<rparr>)"
      "approval s' = approval (s\<lparr>sub_verification_evidence := ev\<rparr>)"
      "submission_path (sub_status s) (sub_status s')"
      "sub_status s \<in> {S_SUBMITTED, S_VERIFICATION_PENDING, S_PUBLISHED}" for s ev n s'
    using that gated [of s] by (intro sub_move.carry) (simp_all add: sub_key_def approval_def)
  have twice: "table_moves k rs (row_put sub_id (s'\<lparr>sub_updated_at := n\<rparr>)
      (row_put sub_id (s\<lparr>sub_verification_evidence := ev, sub_updated_at := n\<rparr>) rs))"
    if "s \<in> set rs" "sub_key s' = sub_key (s\<lparr>sub_verification_evidence := ev\<rparr>)"
      "approval s' = approval (s\<lparr>sub_verification_evidence := ev\<rparr>)"
      "submission_path (sub_status s) (sub_status s')"
      "sub_status s \<in> {S_SUBMITTED, S_VERIFICATION_PENDING, S_PUBLISHED}" for s ev n s' rs k
    by (rule moves_put_twice [OF that(1) evidence]) (rule final [OF that(2-5)])
  note unverified = record_unverified_row [of "s\<lparr>sub_verification_evidence := ev\<rparr>" for s ev, simplified]
  show ?thesis
    unfolding refines_moves_def verify_submission_def
    by (auto simp: wp_simps Let_def split: option.split
        intro!: wp_get_submission wp_reads [OF reads_submission_queries(8)] wp_record_verified
          twice unverified)
qed

section \<open>Table invariants\<close>

lemma sub_move_path: "sub_move s s' \<Longrightarrow> submission_path (sub_status s) (sub_status s')"
  by (auto simp: sub_move_iff path_step)

text \<open>The approval rule in the code's own terms: both columns are set together, and they are
  set whenever the status is one that needs them.\<close>

definition approval_sound :: "submission_row \<Rightarrow> bool" where
  "approval_sound s =
     ((requires_approval (sub_status s) \<longrightarrow> approval_recorded s)
      \<and> (sub_approved_by_user_id s = None \<longleftrightarrow> sub_approved_at s = None))"

lemma approval_sound_move:
  assumes "sub_move s s'" and "approval_sound s"
  shows "approval_sound s'"
  using assms(1)
proof cases
  case carry
  then have "sub_approved_by_user_id s' = sub_approved_by_user_id s" "sub_approved_at s' = sub_approved_at s"
    by (simp_all add: approval_def)
  with carry(4) assms(2) show ?thesis
    unfolding approval_sound_def approval_recorded_def by metis
qed (simp_all add: approval_sound_def approval_recorded_def approval_def requires_approval_def
    approval_required_statuses_def)

lemma approval_sound_table:
  assumes "table_move k rs rs'" and "list_all approval_sound rs"
  shows "list_all approval_sound rs'"
  using assms
proof (cases rule: table_move.cases)
  case (put s s')
  then have "approval_sound s'" using assms(2) approval_sound_move by (auto simp: list_all_iff)
  then show ?thesis using put assms(2) by (auto simp: list_all_iff dest!: row_put_set)
next
  case (add s)
  then show ?thesis using assms(2)
    by (simp add: approval_sound_def approval_def requires_approval_def approval_required_statuses_def)
next
  case (drop i)
  then show ?thesis using assms(2) by (auto simp: list_all_iff row_drop_def)
qed

lemma moves_trace:
  assumes "table_moves k rs rs'" and "s' \<in> set rs'" and "sub_id s' < k"
  shows "\<exists>s\<in>set rs. sub_key s = sub_key s' \<and> submission_path (sub_status s) (sub_status s')"
  using assms
proof (induction arbitrary: s' rule: rtranclp_induct)
  case base
  then show ?case by blast
next
  case (step ms ms')
  have "\<exists>s\<in>set ms. sub_key s = sub_key s' \<and> submission_path (sub_status s) (sub_status s')"
    using step.hyps(2) step.prems
  proof cases
    case (put s a)
    then show ?thesis using step.prems sub_move_path
      by (metis path_refl row_put_set sub_move_iff)
  qed (use step.prems in \<open>auto simp: row_drop_def\<close>)
  then obtain s where s: "s \<in> set ms" "sub_key s = sub_key s'"
    "submission_path (sub_status s) (sub_status s')" by blast
  then have "sub_id s < k" using step.prems(2) by (simp add: sub_key_def)
  from step.IH [OF s(1) this] s(2,3) show ?case using path_trans by metis
qed

lemma approval_sound_tables:
  "table_moves k rs rs' \<Longrightarrow> list_all approval_sound rs \<Longrightarrow> list_all approval_sound rs'"
  by (induction rule: rtranclp_induct) (auto intro: approval_sound_table)

lemma approval_sound_check: "approval_sound s \<Longrightarrow> submitted_requires_approval s"
  by (auto simp: approval_sound_def submitted_requires_approval_def requires_approval_def
      approval_required_statuses_def)

section \<open>Requests\<close>

text \<open>The API's submission requests, each a unit of work of one tenant's member.\<close>

datatype submission_request_kind =
    R_Create submission_create
  | R_Update nat submission_update
  | R_Transition nat submission_status "string option"
  | R_Prepare nat
  | R_Approve nat "string option"
  | R_Execute nat execute_request
  | R_Verify nat verify_request
  | R_Delete nat

definition discard :: "'a svc \<Rightarrow> unit svc" where
  "discard m = ebind m (\<lambda>_. ret ())"

fun submission_handler :: "submission_service \<Rightarrow> nat \<Rightarrow> submission_request_kind \<Rightarrow> unit svc" where
  "submission_handler sv u (R_Create p) = discard (create_submission p)"
| "submission_handler sv u (R_Update i x) = discard (update_submission i x)"
| "submission_handler sv u (R_Transition i t r) = discard (transition_submission i t r)"
| "submission_handler sv u (R_Prepare i) = discard (prepare_for_review i)"
| "submission_handler sv u (R_Approve i n) = discard (approve_submission i u n)"
| "submission_handler sv u (R_Execute i rq) = discard (execute_submission sv i rq)"
| "submission_handler sv u (R_Verify i rq) = discard (verify_submission sv i rq)"
| "submission_handler sv u (R_Delete i) = delete_submission i"

definition serve_submission ::
  "submission_service \<Rightarrow> nat \<Rightarrow> nat \<Rightarrow> submission_request_kind \<Rightarrow> world \<Rightarrow> (exn + unit) \<times> world" where
  "serve_submission sv t u r = session_scope (Some t) (Some u) (submission_handler sv u r)"

lemma no_commit_submission_steps [no_commit_intros]:
  "no_commit (save_submission s)" "no_commit (get_submission i)" "no_commit flush_submissions"
  "no_commit (assert_free p op)" "no_commit (advance_opportunity op target)"
  unfolding save_submission_def get_submission_def flush_submissions_def assert_free_def
    advance_opportunity_def
  by (intro no_commit_intros)+

lemmas no_commit_submission_queries [no_commit_intros] =
  reads_submission_queries [THEN no_commit_reads]

lemma no_commit_handler: "no_commit (submission_handler sv u r)"
proof -
  have "no_commit (create_submission p)" "no_commit (update_submission i x)"
    "no_commit (transition_submission i t rs)" "no_commit (prepare_for_review i)"
    "no_commit (approve_submission i u n)" "no_commit (verify_submission sv i vq)"
    "no_commit (delete_submission i)" for p i x t rs u n vq
    unfolding create_submission_def update_submission_def transition_submission_def
      prepare_for_review_def approve_submission_def verify_submission_def delete_submission_def Let_def
    by (intro no_commit_intros)+
  moreover have "no_commit (execute_submission sv i rq)" for i rq
    unfolding execute_submission_def execute_manual_def execute_failed_def execute_sent_def Let_def
    by (intro no_commit_intros)+
  ultimately show ?thesis
    by (cases r) (simp_all add: discard_def no_commit_intros)
qed

lemma wp_discard: "wp (discard m) Q E w = wp m (\<lambda>_. Q ()) E w"
  unfolding discard_def wp_ebind
  by (simp add: wp_def [of m] wp_ret split: sum.split prod.split)

lemma refines_handler: "refines_moves (submission_handler sv u r)"
proof -
  have "refines_moves (discard m)" if "refines_moves m" for m :: "submission_row svc"
    using that by (simp add: refines_moves_def wp_discard)
  then show ?thesis
    by (cases r) (simp_all add: refines_create refines_update refines_transition refines_prepare
        refines_approve refines_execute refines_verify refines_delete)
qed

text \<open>A request leaves the committed table unchanged when it is refused and moves it by
  permitted moves when it is served.\<close>

lemma serve_moves:
  assumes "serve_submission sv t u r w = (res, w')"
  shows "table_moves (w_next w) (submissions (w_committed w)) (submissions (w_committed w'))"
proof (cases res)
  case (Inl e)
  then show ?thesis
    using scope_raise_atomic [OF no_commit_handler] assms by (simp add: serve_submission_def)
next
  case (Inr x)
  obtain y v where y: "submission_handler sv u r (open_session (Some t) (Some u) w) = (y, v)"
    by fastforce
  with Inr assms have v: "y = Inr x" "w_committed w' = w_db v"
    by (auto simp: serve_submission_def session_scope_def session_commit_def modify_def
        close_session_def session_rollback_def split: sum.splits)
  have start: "w_db (open_session (Some t) (Some u) w) = w_committed w"
    "w_next (open_session (Some t) (Some u) w) = w_next w"
    by (simp_all add: open_session_def)
  have "wp (submission_handler sv u r)
      (\<lambda>_ v. table_moves (w_next w) (submissions (w_committed w)) (submissions (w_db v))) (\<lambda>_ _. True)
      (open_session (Some t) (Some u) w)"
    using refines_handler [of sv u r, unfolded refines_moves_def, rule_format,
        of "open_session (Some t) (Some u) w"] unfolding start .
  then have "table_moves (w_next w) (submissions (w_committed w)) (submissions (w_db v))"
    using y unfolding v(1) by (rule wp_Inr)
  then show ?thesis using v(2) by simp
qed

text \<open>Every operation that writes the table ends behind a flush, so what a served request
  commits satisfies the table's constraints.\<close>

definition leaves_checked :: "'a svc \<Rightarrow> bool" where
  "leaves_checked m = (\<forall>w. wp m (\<lambda>_ v. submissions_ok (w_db v)) (\<lambda>_ _. True) w)"

lemma submissions_ok_other [simp]:
  "submissions_ok (d\<lparr>audit_logs := a\<rparr>) = submissions_ok d"
  "submissions_ok (d\<lparr>opportunities := ops\<rparr>) = submissions_ok d"
  by (simp_all add: submissions_ok_def)

lemma wp_audit_checked:
  "submissions_ok (w_db w) \<Longrightarrow> wp (audit_on a r i md) (\<lambda>_ v. submissions_ok (w_db v)) (\<lambda>_ _. True) w"
  "submissions_ok (w_db w) \<Longrightarrow> wp (audit_record a rt ri md u) (\<lambda>_ v. submissions_ok (w_db v)) (\<lambda>_ _. True) w"
  by (simp_all add: wp_simps Let_def split: option.split)

lemma checked_handler: "leaves_checked (submission_handler sv u r)"
proof -
  have "leaves_checked (create_submission p)" for p
    unfolding leaves_checked_def create_submission_def
    by (auto simp: wp_simps Let_def submission_table.wp_new
        intro!: wp_reads [OF reads_submission_queries(2)] wp_assert_free
          wp_reads [OF reads_submission_queries(3)] wp_reads [OF reads_submission_queries(5)]
          wp_reads [OF reads_submission_queries(6)]
        split: option.splits)
  moreover have "leaves_checked (update_submission i x)" for i x
    unfolding leaves_checked_def update_submission_def
    by (auto simp: wp_simps Let_def case_prod_beta split: option.split intro!: wp_get_submission)
  moreover have "leaves_checked (transition_submission i t rs)" for i t rs
    unfolding leaves_checked_def transition_submission_def
    by (auto simp: wp_simps Let_def assert_transition_cases split: option.split intro!: wp_get_submission)
  moreover have "leaves_checked (prepare_for_review i)" for i
    unfolding leaves_checked_def prepare_for_review_def
    by (auto simp: wp_simps Let_def assert_transition_cases split: option.split intro!: wp_get_submission)
  moreover have "leaves_checked (approve_submission i u n)" for i n
    unfolding leaves_checked_def approve_submission_def
    by (auto simp: wp_simps Let_def split: option.split intro!: wp_get_submission)
  moreover have "leaves_checked (delete_submission i)" for i
    unfolding leaves_checked_def delete_submission_def
    by (auto simp: wp_simps submission_table.wp_delete split: option.split intro!: wp_get_submission)
  moreover have "leaves_checked (execute_submission sv i rq)" for i rq
    unfolding leaves_checked_def execute_submission_def execute_manual_def execute_failed_def
      execute_sent_def
    by (auto simp: wp_simps Let_def assert_transition_cases split: option.split
        intro!: wp_get_submission wp_reads [OF reads_submission_queries(2)] wp_assert_free)
  moreover have "leaves_checked (verify_submission sv i vq)" for i vq
    unfolding leaves_checked_def verify_submission_def
    by (auto simp: wp_simps Let_def split: option.split
        intro!: wp_get_submission wp_reads [OF reads_submission_queries(8)] wp_record_verified)
  moreover have "leaves_checked (discard m)" if "leaves_checked m" for m :: "submission_row svc"
    using that by (simp add: leaves_checked_def wp_discard)
  ultimately show ?thesis by (cases r) simp_all
qed

lemma served_checked:
  assumes "serve_submission sv t u r w = (Inr x, w')"
  shows "submissions_ok (w_committed w')"
proof -
  obtain y v where y: "submission_handler sv u r (open_session (Some t) (Some u) w) = (y, v)"
    by fastforce
  with assms have v: "y = Inr x" "w_committed w' = w_db v"
    by (auto simp: serve_submission_def session_scope_def session_commit_def modify_def
        close_session_def session_rollback_def split: sum.splits)
  show ?thesis using wp_Inr [OF checked_handler [unfolded leaves_checked_def, rule_format] y [unfolded v(1)]] v(2)
    by simp
qed

lemma load_pair_rows:
  assumes "load_pair oid w = (Inr (op, p), v)"
  shows "op \<in> set (opportunities (w_db w)) \<and> opp_id op = oid \<and> w_tenant w = Some (opp_tenant_id op)
    \<and> p \<in> set (publishers (w_db w)) \<and> pub_id p = opp_publisher_id op \<and> w_tenant w = Some (pub_tenant_id p)"
proof -
  have "wp (load_pair oid) (\<lambda>(op, p) _. op \<in> set (opportunities (w_db w)) \<and> opp_id op = oid
      \<and> w_tenant w = Some (opp_tenant_id op) \<and> p \<in> set (publishers (w_db w))
      \<and> pub_id p = opp_publisher_id op \<and> w_tenant w = Some (pub_tenant_id p)) (\<lambda>_ _. True) w"
    unfolding load_pair_def get_with_publisher_def
    by (auto simp: wp_simps opportunity_table.wp_where split: option.split
        intro!: wp_reads [OF reads_scalar_one_or_none] dest!: scalar_one_memD
        simp: tenant_rows_def rls_visible_def)
  from wp_Inr [OF this assms] show ?thesis by auto
qed

lemma wp_const: "P \<Longrightarrow> wp m (\<lambda>_ _. P) (\<lambda>_ _. True) w"
  by (simp add: wp_def split: prod.split sum.split)

text \<open>What must hold when \<open>execute\<close> is to send the submission \<open>i\<close>.\<close>

definition sendable :: "nat \<Rightarrow> world \<Rightarrow> bool" where
  "sendable i w =
     (\<exists>s op p. s \<in> set (submissions (w_db w)) \<and> sub_id s = i \<and> w_tenant w = Some (sub_tenant_id s)
        \<and> sub_status s = S_PENDING_APPROVAL \<and> sub_approved_by_user_id s \<noteq> None
        \<and> op \<in> set (opportunities (w_db w)) \<and> opp_id op = sub_opportunity_id s
        \<and> p \<in> set (publishers (w_db w)) \<and> pub_id p = opp_publisher_id op
        \<and> pub_pricing_type p = Pr_FREE)"

lemma wp_execute_sendable: "wp (execute_submission sv i rq) (\<lambda>_ _. sendable i w) (\<lambda>_ _. True) w"
  unfolding execute_submission_def wp_ebind
proof (rule wp_get_submission)
  fix s assume s: "w_tenant w = Some (sub_tenant_id s)" "s \<in> set (submissions (w_db w))" "sub_id s = i"
  have pending: "sub_status s = S_PENDING_APPROVAL" if "S_SUBMITTED \<in> submission_transitions (sub_status s)"
    using that by (cases "sub_status s") simp_all
  have free: "wp (assert_free p op) (\<lambda>_. wp m (\<lambda>_ _. sendable i w) (\<lambda>_ _. True)) (\<lambda>_ _. True) w"
    if "sub_approved_by_user_id s \<noteq> None" "S_SUBMITTED \<in> submission_transitions (sub_status s)"
      "load_pair (sub_opportunity_id s) w = (Inr (op, p), w)" for op p and m :: "submission_row svc"
  proof (rule wp_assert_free)
    assume "pub_pricing_type p = Pr_FREE"
    then have "sendable i w"
      using s that pending load_pair_rows [OF that(3)] unfolding sendable_def by blast
    then show "wp m (\<lambda>_ _. sendable i w) (\<lambda>_ _. True) w" by (rule wp_const)
  qed simp
  show "wp (ethen (raise_if (sub_approved_by_user_id s = None) e1) (ethen (lift_sum
        (submission_assert_transition (sub_status s) S_SUBMITTED)) (ebind (load_pair (sub_opportunity_id s))
        (\<lambda>(op, p). ethen (assert_free p op) (m op p))))) (\<lambda>_ _. sendable i w) (\<lambda>_ _. True) w"
    for e1 and m :: "_ \<Rightarrow> _ \<Rightarrow> submission_row svc"
    by (simp add: wp_simps assert_transition_cases case_prod_beta)
      (auto simp: wp_ethen intro!: wp_reads [OF reads_submission_queries(2)] free)
qed simp

end
