(* ===== verification/SubmissionProperties.thy ===== *)
theory SubmissionProperties
  imports SubmissionLifecycle
begin

text \<open>
  The properties of the submission workflow, with a small concrete workspace for their
  witnesses: one tenant, one FREE publisher and one opportunity that is ready.
\<close>

section \<open>A concrete workspace\<close>

definition demo_publisher :: publisher_row where
  "demo_publisher = \<lparr>pub_id = 10, pub_tenant_id = 5, pub_domain = ''d.org'',
     pub_normalized_domain = ''d.org'', pub_website_url = ''https://d.org/'', pub_name = None,
     pub_description = None, pub_category = None, pub_country = None, pub_language = None,
     pub_submission_url = Some ''https://d.org/add'', pub_contact_url = None,
     pub_submission_method = Me_UNKNOWN, pub_pricing_type = Pr_FREE, pub_link_type = Li_UNKNOWN,
     pub_dofollow_supported = None, pub_nofollow_supported = None, pub_status = Pb_QUALIFIED,
     pub_quality_score = None, pub_relevance_score = None, pub_spam_score = None,
     pub_authority_score = None, pub_organic_traffic = None, pub_signals = [],
     pub_discovery_run_id = None, pub_last_checked_at = None, pub_created_at = 0,
     pub_updated_at = 0\<rparr>"

definition demo_opportunity :: opportunity_row where
  "demo_opportunity = \<lparr>opp_id = 20, opp_tenant_id = 5, opp_campaign_id = 30,
     opp_publisher_id = 10, opp_opportunity_type = OT_FREE_DIRECTORY_LISTING,
     opp_target_url = ''https://c.com/'', opp_suggested_anchor = None,
     opp_suggested_title = Some ''Title'', opp_suggested_description = None, opp_category = None,
     opp_status = O_READY, opp_qualification_score = None, opp_priority = 50,
     opp_submission_url = None, opp_rejection_reason = None, opp_discovered_at = None,
     opp_qualified_at = None, opp_created_at = 0, opp_updated_at = 0\<rparr>"

definition demo_world :: world where
  "demo_world = initial_world\<lparr>w_next := 100,
     w_committed := empty_db\<lparr>publishers := [demo_publisher], opportunities := [demo_opportunity]\<rparr>\<rparr>"

definition demo_service :: submission_service where
  "demo_service = \<lparr>sv_manual = manual_submit, sv_form = None, sv_verifier = None\<rparr>"

definition demo_create :: submission_create where
  "demo_create = \<lparr>sc_opportunity_id = 20, sc_anchor_text = None, sc_submitted_title = None,
     sc_submitted_description = None, sc_submission_method = None, sc_notes = None,
     sc_use_approved_content = True\<rparr>"

definition plain_execute :: execute_request where
  "plain_execute = \<lparr>ex_submitted_url = None, ex_mark_published = False, ex_notes = None\<rparr>"

definition plain_verify :: verify_request where
  "plain_verify = \<lparr>vf_published_url = None, vf_fetch_live = False, vf_manual_result = Some True\<rparr>"

text \<open>What later requests of the scenario depend on.\<close>

definition demo_state :: "submission_row \<Rightarrow> world \<Rightarrow> bool" where
  "demo_state s w =
     (submissions (w_committed w) = [s] \<and> publishers (w_committed w) = [demo_publisher]
      \<and> opportunities (w_committed w) = [demo_opportunity] \<and> generated_contents (w_committed w) = []
      \<and> w_now w = 0)"

lemma serve_wp:
  assumes "wp (submission_handler sv u r)
      (\<lambda>_ v. P (close_session (v\<lparr>w_committed := w_db v\<rparr>))) (\<lambda>_ _. False) (open_session (Some t) (Some u) w)"
  shows "fst (serve_submission sv t u r w) = Inr () \<and> P (snd (serve_submission sv t u r w))"
proof (cases "submission_handler sv u r (open_session (Some t) (Some u) w)")
  case (Pair x v)
  then show ?thesis using assms
    by (cases x) (simp_all add: serve_submission_def wp_def session_scope_def session_commit_def modify_def)
qed

lemma demo_publisher_simps [simp]:
  "pub_id demo_publisher = 10" "pub_tenant_id demo_publisher = 5"
  "pub_pricing_type demo_publisher = Pr_FREE" "pub_submission_method demo_publisher = Me_UNKNOWN"
  "pub_submission_url demo_publisher = Some ''https://d.org/add''"
  by (simp_all add: demo_publisher_def)

lemma demo_opportunity_simps [simp]:
  "opp_id demo_opportunity = 20" "opp_tenant_id demo_opportunity = 5"
  "opp_publisher_id demo_opportunity = 10" "opp_status demo_opportunity = O_READY"
  "opp_suggested_title demo_opportunity = Some ''Title''"
  "opp_suggested_description demo_opportunity = None"
  "opp_suggested_anchor demo_opportunity = None" "opp_target_url demo_opportunity = ''https://c.com/''"
  "opp_submission_url demo_opportunity = None" "opp_category demo_opportunity = None"
  by (simp_all add: demo_opportunity_def)

definition demo_row :: submission_row where
  "demo_row = new_submission demo_create demo_opportunity demo_publisher
     (Some ''Title'', None, None) Me_MANUAL 100 5 0"

lemmas run_simps = wp_discard create_submission_def load_pair_def get_with_publisher_def
  get_live_for_opportunity_def resolve_content_def get_approved_for_opportunity_def wp_simps
  opportunity_table.wp_where submission_table.wp_where content_table.wp_where
  submission_table.wp_new tenant_rows_def rls_visible_def assert_free_def
  enforce_submission_free_only_def trigger_pricing_def get_submission_def repo_get_or_raise_def
  repo_get_def submissions_ok_def is_live_def submission_terminal_values_def live_key_def
  submitted_requires_approval_def

lemma demo_create_simps [simp]:
  "sc_opportunity_id demo_create = 20" "sc_submission_method demo_create = None"
  "sc_use_approved_content demo_create" "sc_submitted_title demo_create = None"
  "sc_submitted_description demo_create = None" "sc_anchor_text demo_create = None"
  by (simp_all add: demo_create_def)

lemmas text_simps = truthy_def or_else_def or_none_def default_method_def

lemma demo_created:
  "fst (serve_submission demo_service 5 7 (R_Create demo_create) demo_world) = Inr ()
   \<and> demo_state demo_row (snd (serve_submission demo_service 5 7 (R_Create demo_create) demo_world))"
  by (rule serve_wp)
    (simp add: run_simps open_session_def demo_world_def initial_world_def empty_db_def
      opportunity_is_submittable_def submittable_statuses_def demo_state_def close_session_def
      text_simps demo_row_def)

text \<open>One further request on a workspace that holds the row \<open>s\<close>.\<close>

definition demo_next :: "submission_request_kind \<Rightarrow> submission_row \<Rightarrow> submission_row \<Rightarrow> bool" where
  "demo_next r s s' =
     (\<forall>w. demo_state s w \<longrightarrow>
        fst (serve_submission demo_service 5 7 r w) = Inr ()
        \<and> demo_state s' (snd (serve_submission demo_service 5 7 r w)))"

lemma demo_nextI:
  assumes "\<And>w. demo_state s w \<Longrightarrow> wp (submission_handler demo_service 7 r)
      (\<lambda>_ v. demo_state s' (close_session (v\<lparr>w_committed := w_db v\<rparr>))) (\<lambda>_ _. False)
      (open_session (Some 5) (Some 7) w)"
  shows "demo_next r s s'"
  using assms by (auto simp: demo_next_def intro: serve_wp [THEN conjunct1] serve_wp [THEN conjunct2])

lemma demo_prepare:
  assumes "sub_id s = 100" "sub_tenant_id s = 5" "sub_status s = S_READY \<or> sub_status s = S_IN_PROGRESS"
    and "truthy (sub_submitted_title s)" and "sub_updated_at s = 0"
  shows "demo_next (R_Prepare 100) s (s\<lparr>sub_status := S_PENDING_APPROVAL\<rparr>)"
  using assms
  by (intro demo_nextI)
    (auto simp: run_simps prepare_for_review_def open_session_def demo_state_def close_session_def
      assert_transition_cases row_put_def Let_def)

lemma demo_request_changes:
  assumes "sub_id s = 100" "sub_tenant_id s = 5" "sub_status s = S_PENDING_APPROVAL"
    and "sub_updated_at s = 0"
  shows "demo_next (R_Transition 100 S_IN_PROGRESS None) s (s\<lparr>sub_status := S_IN_PROGRESS\<rparr>)"
  using assms
  by (intro demo_nextI)
    (auto simp: run_simps transition_submission_def open_session_def demo_state_def close_session_def
      assert_transition_cases row_put_def Let_def requires_approval_def approval_required_statuses_def)

lemma demo_approve:
  assumes "sub_id s = 100" "sub_tenant_id s = 5" "sub_status s = S_PENDING_APPROVAL"
    and "sub_updated_at s = 0"
  shows "demo_next (R_Approve 100 None) s
    (s\<lparr>sub_approved_by_user_id := Some 7, sub_approved_at := Some 0\<rparr>)"
  using assms
  by (intro demo_nextI)
    (auto simp: run_simps approve_submission_def open_session_def demo_state_def close_session_def
      row_put_def Let_def text_simps)

definition retitle :: "string \<Rightarrow> submission_update" where
  "retitle t = \<lparr>su_anchor_text = None, su_submitted_title = Some t, su_submitted_description = None,
     su_submission_method = None, su_notes = None\<rparr>"

lemma demo_retitle:
  assumes "sub_id s = 100" "sub_tenant_id s = 5" "sub_status s = S_IN_PROGRESS"
    and "sub_updated_at s = 0" "sub_submitted_title s \<noteq> Some t"
  shows "demo_next (R_Update 100 (retitle t)) s (s\<lparr>sub_submitted_title := Some t\<rparr>)"
  using assms
  by (intro demo_nextI)
    (auto simp: run_simps update_submission_def open_session_def demo_state_def close_session_def
      row_put_def Let_def retitle_def apply_update_def apply_text_update_def set_if_changed_def send_back_def)

text \<open>Execution, for a publisher that confirms at once or not.\<close>

definition sent_row :: "bool \<Rightarrow> submission_row \<Rightarrow> submission_row" where
  "sent_row published s =
     (if published
      then s\<lparr>sub_status := S_PUBLISHED, sub_submitted_at := Some 0, sub_published_at := Some 0\<rparr>
      else s\<lparr>sub_status := S_VERIFICATION_PENDING, sub_submitted_at := Some 0\<rparr>)"

lemma demo_execute:
  assumes "demo_state s w" "sub_id s = 100" "sub_tenant_id s = 5" "sub_status s = S_PENDING_APPROVAL"
    and "sub_updated_at s = 0" "sub_approved_by_user_id s = Some 7" "sub_approved_at s = Some 0"
    and "sub_opportunity_id s = 20" "sub_submitted_url s = Some ''https://d.org/add''"
    and "ex_submitted_url rq = None" "ex_notes rq = None"
  shows "fst (serve_submission demo_service 5 7 (R_Execute 100 rq) w) = Inr () \<and>
    submissions (w_committed (snd (serve_submission demo_service 5 7 (R_Execute 100 rq) w)))
      = [sent_row (ex_mark_published rq) s]
    \<and> map opp_status (opportunities (w_committed (snd (serve_submission demo_service 5 7 (R_Execute 100 rq) w))))
      = [if ex_mark_published rq then O_READY else O_SUBMITTED]"
proof -
  note facts = assms(1)[unfolded demo_state_def] assms(2-)
  have prov: "provider_for demo_service m = manual_submit" for m
    by (simp add: provider_for_def demo_service_def)
  let ?P = "\<lambda>w'. submissions (w_committed w') = [sent_row (ex_mark_published rq) s] \<and>
     map opp_status (opportunities (w_committed w')) = [if ex_mark_published rq then O_READY else O_SUBMITTED]"
  have "fst (serve_submission demo_service 5 7 (R_Execute 100 rq) w) = Inr () \<and>
     ?P (snd (serve_submission demo_service 5 7 (R_Execute 100 rq) w))"
    by (rule serve_wp, cases "sub_submitted_url s")
      (use facts in \<open>simp_all add: run_simps execute_submission_def execute_sent_def open_session_def
        close_session_def assert_transition_cases row_put_def Let_def text_simps prov
        manual_submit_def needs_human_def opportunity_can_transition_def sent_row_def approval_recorded_def\<close>)
  then show ?thesis by simp
qed

section \<open>Committed databases the requests can reach\<close>

inductive reachable :: "submission_service \<Rightarrow> world \<Rightarrow> bool" for sv where
  start: "submissions (w_committed w) = [] \<Longrightarrow> reachable sv w"
| request: "\<lbrakk>reachable sv w; serve_submission sv t u r w = (res, w')\<rbrakk> \<Longrightarrow> reachable sv w'"
| elsewhere: "\<lbrakk>reachable sv w; submissions (w_committed w') = submissions (w_committed w)\<rbrakk>
              \<Longrightarrow> reachable sv w'"

lemma reachable_next:
  "\<lbrakk>reachable sv w; P \<and> Q (snd (serve_submission sv t u r w))\<rbrakk>
   \<Longrightarrow> \<exists>w'. reachable sv w' \<and> Q w'"
  by (metis prod.collapse reachable.request)

lemma demo_reach:
  assumes "\<exists>w. reachable demo_service w \<and> demo_state s w" and "demo_next r s s'"
  shows "\<exists>w. reachable demo_service w \<and> demo_state s' w"
  using assms by (metis demo_next_def prod.collapse reachable.request)

lemma demo_row_simps [simp]:
  "sub_id demo_row = 100" "sub_tenant_id demo_row = 5" "sub_status demo_row = S_READY"
  "sub_opportunity_id demo_row = 20" "sub_submitted_title demo_row = Some ''Title''"
  "sub_submitted_url demo_row = Some ''https://d.org/add''" "sub_updated_at demo_row = 0"
  "sub_submission_method demo_row = Me_MANUAL"
  by (simp_all add: demo_row_def) (simp_all add: new_submission_def text_simps)

definition approved_row :: submission_row where
  "approved_row = demo_row\<lparr>sub_status := S_PENDING_APPROVAL, sub_approved_by_user_id := Some 7,
     sub_approved_at := Some 0\<rparr>"

lemma demo_approved: "\<exists>w. reachable demo_service w \<and> demo_state approved_row w"
proof -
  have "reachable demo_service demo_world"
    by (rule reachable.start) (simp add: demo_world_def empty_db_def)
  then have "\<exists>w. reachable demo_service w \<and> demo_state demo_row w"
    using demo_created by (rule reachable_next)
  then have "\<exists>w. reachable demo_service w \<and> demo_state (demo_row\<lparr>sub_status := S_PENDING_APPROVAL\<rparr>) w"
    by (rule demo_reach) (rule demo_prepare, simp_all add: truthy_def)
  then have "\<exists>w. reachable demo_service w \<and> demo_state (demo_row\<lparr>sub_status := S_PENDING_APPROVAL,
      sub_approved_by_user_id := Some 7, sub_approved_at := Some 0\<rparr>) w"
    by (rule demo_reach) (rule demo_approve, simp_all)
  then show ?thesis by (simp add: approved_row_def)
qed

lemma demo_sent: "\<exists>w. reachable demo_service w \<and> submissions (w_committed w) = [sent_row False approved_row]"
proof -
  obtain w where w: "reachable demo_service w" "demo_state approved_row w" using demo_approved by blast
  from demo_execute [OF w(2), of plain_execute] have
    "submissions (w_committed (snd (serve_submission demo_service 5 7 (R_Execute 100 plain_execute) w)))
       = [sent_row False approved_row]"
    by (simp add: approved_row_def plain_execute_def)
  then show ?thesis using reachable.request [OF w(1)] by (metis prod.collapse)
qed

lemma reachable_sound: "reachable sv w \<Longrightarrow> list_all approval_sound (submissions (w_committed w))"
proof (induction rule: reachable.induct)
  case (request w t u r res w')
  then show ?case using serve_moves approval_sound_tables by blast
qed simp_all

section \<open>Properties\<close>

text \<open>C2: no submission is past the human gate without its approval.  In every committed
  database the API's requests can reach, whatever order tenants issue them in, a row whose
  status is SUBMITTED, VERIFICATION_PENDING, PUBLISHED or VERIFIED names the user who approved
  it and when; the database's own CHECK is not used in the argument.\<close>

theorem approval_gate:
  assumes "reachable sv w" and "s \<in> set (submissions (w_committed w))"
    and "sub_status s \<in> {S_SUBMITTED, S_PUBLISHED, S_VERIFICATION_PENDING, S_VERIFIED}"
  shows "\<exists>u n. sub_approved_by_user_id s = Some u \<and> sub_approved_at s = Some n"
  using reachable_sound [OF assms(1)] assms(2,3)
  by (fastforce simp: list_all_iff approval_sound_def approval_recorded_def requires_approval_def
      approval_required_statuses_def)

theorem approval_gate_witness:
  "\<exists>u n. sub_approved_by_user_id (sent_row False approved_row) = Some u
      \<and> sub_approved_at (sent_row False approved_row) = Some n"
proof -
  obtain w where "reachable demo_service w" "submissions (w_committed w) = [sent_row False approved_row]"
    using demo_sent by blast
  then show ?thesis by (intro approval_gate [of demo_service w]) (simp_all add: sent_row_def)
qed





text \<open>C4: nothing is sent without an approval, from another state than the review queue, or to a
  publisher that is not FREE.  If \<open>execute\<close> returns, the row it loaded is the tenant's own, was
  PENDING_APPROVAL with an approver, and the publisher of its opportunity is FREE at that
  moment.\<close>

theorem execute_guards:
  assumes "execute_submission sv i rq w = (Inr s', w')"
  shows "\<exists>s op p. s \<in> set (submissions (w_db w)) \<and> sub_id s = i \<and> w_tenant w = Some (sub_tenant_id s)
      \<and> sub_status s = S_PENDING_APPROVAL \<and> sub_approved_by_user_id s \<noteq> None
      \<and> op \<in> set (opportunities (w_db w)) \<and> opp_id op = sub_opportunity_id s
      \<and> p \<in> set (publishers (w_db w)) \<and> pub_id p = opp_publisher_id op \<and> pub_pricing_type p = Pr_FREE"
  using wp_Inr [OF wp_execute_sendable assms] by (simp add: sendable_def)

text \<open>The approved demo row goes out.\<close>

theorem execute_guards_witness:
  "\<exists>(w::world) s. s \<in> set (submissions (w_db w)) \<and> sub_id s = 100 \<and> sub_status s = S_PENDING_APPROVAL
     \<and> sub_approved_by_user_id s \<noteq> None"
proof -
  obtain w where w: "demo_state approved_row w" using demo_approved by blast
  let ?w = "open_session (Some 5) (Some 7) w"
  have "fst (serve_submission demo_service 5 7 (R_Execute 100 plain_execute) w) = Inr ()"
    using demo_execute [OF w, of plain_execute] by (simp add: approved_row_def plain_execute_def)
  then obtain s' v where "execute_submission demo_service 100 plain_execute ?w = (Inr s', v)"
    by (auto simp: serve_submission_def session_scope_def discard_def ebind_def split: sum.splits prod.splits)
  from execute_guards [OF this] show ?thesis by blast
qed

text \<open>An edit of a submission in the review queue voids its approval.  If \<open>update\<close> changes any
  of the five editable columns of a PENDING_APPROVAL row, the row it returns is IN_PROGRESS with
  both approval columns cleared; if it changes nothing the row keeps status and approval.\<close>

theorem edit_voids_approval:
  assumes "update_submission i u w = (Inr s', w')" and "s0 \<in> set (submissions (w_db w))"
    and "distinct (map sub_id (submissions (w_db w)))" "sub_id s0 = i"
    and "sub_status s0 = S_PENDING_APPROVAL"
  shows "if snd (apply_update u s0) = [] then s' = s0
         else sub_status s' = S_IN_PROGRESS \<and> approval s' = (None, None)"
proof -
  have only: "s = s0" if "s \<in> set (submissions (w_db w))" "sub_id s = i" for s
    using that assms(2-4) by (metis distinct_map inj_onD)
  have "wp (update_submission i u) (\<lambda>s' _. s' = fst (send_back (apply_update u s0))) (\<lambda>_ _. True) w"
    unfolding update_submission_def
    by (auto simp: wp_simps case_prod_beta intro!: wp_get_submission dest: only split: option.split)
  then have s': "s' = fst (send_back (apply_update u s0))" using assms(1) by (rule wp_Inr)
  have st: "sub_status (fst (apply_update u s0)) = S_PENDING_APPROVAL"
    using assms(5) by simp
  show ?thesis
    using st s' unchanged_update [of u s0]
    by (auto simp: send_back_def case_prod_beta clear_approval_def approval_def)
qed

theorem edit_voids_approval_witness:
  "\<exists>s'. fst (update_submission 100 (retitle ''New'')
       (initial_world\<lparr>w_tenant := Some 5, w_db := empty_db\<lparr>submissions := [approved_row]\<rparr>\<rparr>)) = Inr s'
     \<and> sub_status s' = S_IN_PROGRESS \<and> approval s' = (None, None)"
proof -
  let ?w = "initial_world\<lparr>w_tenant := Some 5, w_db := empty_db\<lparr>submissions := [approved_row]\<rparr>\<rparr>"
  have ch: "snd (apply_update (retitle ''New'') approved_row) \<noteq> []"
    by (simp add: apply_update_def apply_text_update_def set_if_changed_def retitle_def approved_row_def)
  have "wp (update_submission 100 (retitle ''New'')) (\<lambda>_ _. True) (\<lambda>_ _. False) ?w"
    by (simp add: run_simps update_submission_def initial_world_def empty_db_def approved_row_def
        row_put_def retitle_def apply_update_def apply_text_update_def set_if_changed_def send_back_def
        clear_approval_def)
  then obtain s' v where run: "update_submission 100 (retitle ''New'') ?w = (Inr s', v)"
    by (cases "update_submission 100 (retitle ''New'') ?w") (auto simp: wp_def split: sum.splits)
  from edit_voids_approval [OF run, of approved_row] ch show ?thesis
    unfolding run by (simp add: approved_row_def)
qed

text \<open>A refusal for a paid publisher leaves no audit row behind.  \<open>_assert_free\<close> writes
  PAID_PLACEMENT_BLOCKED into the request's session and then raises; the request scope answers
  the raise with a rollback, so the committed audit trail is what it was before the request,
  although the session held the extra row.\<close>

theorem paid_refusal_audit_lost:
  assumes "load_pair (sc_opportunity_id pl) (open_session (Some t) (Some u) w)
             = (Inr (op, p), open_session (Some t) (Some u) w)"
    and "pub_pricing_type p \<noteq> Pr_FREE"
  shows "(\<exists>v. create_submission pl (open_session (Some t) (Some u) w) = (Inl (paid_error p), v)
            \<and> map aud_action (audit_logs (w_db v))
              = map aud_action (audit_logs (w_committed w)) @ [''PAID_PLACEMENT_BLOCKED''])
         \<and> fst (serve_submission sv t u (R_Create pl) w) = Inl (paid_error p)
         \<and> audit_logs (w_committed (snd (serve_submission sv t u (R_Create pl) w)))
           = audit_logs (w_committed w)"
proof -
  let ?w = "open_session (Some t) (Some u) w"
  have "wp (create_submission pl) (\<lambda>_ _. False) (\<lambda>e v. e = paid_error p \<and> map aud_action (audit_logs (w_db v))
      = map aud_action (audit_logs (w_committed w)) @ [''PAID_PLACEMENT_BLOCKED'']) ?w"
    unfolding create_submission_def wp_ebind
    by (rule wp_reads [OF reads_submission_queries(2)])
      (use assms in \<open>auto simp: wp_simps assert_free_def open_session_def audit_entry_def\<close>)
  then obtain v where v: "create_submission pl ?w = (Inl (paid_error p), v)"
    "map aud_action (audit_logs (w_db v)) = map aud_action (audit_logs (w_committed w)) @ [''PAID_PLACEMENT_BLOCKED'']"
    by (cases "create_submission pl ?w") (auto simp: wp_def split: sum.splits)
  then have res: "fst (serve_submission sv t u (R_Create pl) w) = Inl (paid_error p)"
    by (simp add: serve_submission_def session_scope_def discard_def ebind_def)
  then have "w_committed (snd (serve_submission sv t u (R_Create pl) w)) = w_committed w"
    using scope_raise_atomic [OF no_commit_handler] unfolding serve_submission_def by (metis prod.collapse)
  with v res show ?thesis by auto
qed

theorem paid_refusal_audit_lost_witness:
  "let p = demo_publisher\<lparr>pub_pricing_type := Pr_PAID\<rparr>;
       w = demo_world\<lparr>w_committed := (w_committed demo_world)\<lparr>publishers := [p]\<rparr>\<rparr>
   in fst (serve_submission demo_service 5 7 (R_Create demo_create) w) = Inl (paid_error p)
      \<and> audit_logs (w_committed (snd (serve_submission demo_service 5 7 (R_Create demo_create) w))) = []"
proof -
  let ?p = "demo_publisher\<lparr>pub_pricing_type := Pr_PAID\<rparr>"
  let ?w = "demo_world\<lparr>w_committed := (w_committed demo_world)\<lparr>publishers := [?p]\<rparr>\<rparr>"
  have "load_pair 20 (open_session (Some 5) (Some 7) ?w)
      = (Inr (demo_opportunity, ?p), open_session (Some 5) (Some 7) ?w)"
    by (rule wp_exec [THEN iffD1])
      (simp add: run_simps open_session_def demo_world_def initial_world_def empty_db_def)
  from paid_refusal_audit_lost [of demo_create, simplified, OF this, of demo_service] show ?thesis
    by (simp add: Let_def demo_world_def empty_db_def)
qed

text \<open>C12: an approval can outlive the text it approved.  Requesting changes on an approved
  submission keeps the approval columns, an edit of an IN_PROGRESS row does not clear them, and
  the row may then be queued and executed: the five requests below are all served, and what is
  sent carries the new title with the approval given to the old one.\<close>

theorem stale_approval_is_sent:
  "\<exists>w w1 w2 w3 w4. reachable demo_service w \<and> submissions (w_committed w) = [approved_row]
     \<and> sub_submitted_title approved_row = Some ''Title''
     \<and> serve_submission demo_service 5 7 (R_Transition 100 S_IN_PROGRESS None) w = (Inr (), w1)
     \<and> serve_submission demo_service 5 7 (R_Update 100 (retitle ''Unreviewed'')) w1 = (Inr (), w2)
     \<and> serve_submission demo_service 5 7 (R_Prepare 100) w2 = (Inr (), w3)
     \<and> serve_submission demo_service 5 7 (R_Execute 100 plain_execute) w3 = (Inr (), w4)
     \<and> submissions (w_committed w4) =
         [sent_row False (approved_row\<lparr>sub_submitted_title := Some ''Unreviewed''\<rparr>)]"
proof -
  let ?s1 = "approved_row\<lparr>sub_status := S_IN_PROGRESS\<rparr>"
  let ?s2 = "?s1\<lparr>sub_submitted_title := Some ''Unreviewed''\<rparr>"
  let ?s3 = "?s2\<lparr>sub_status := S_PENDING_APPROVAL\<rparr>"
  obtain w where w: "reachable demo_service w" "demo_state approved_row w" using demo_approved by blast
  have "demo_next (R_Transition 100 S_IN_PROGRESS None) approved_row ?s1"
    by (rule demo_request_changes) (simp_all add: approved_row_def)
  then obtain w1 where w1: "serve_submission demo_service 5 7 (R_Transition 100 S_IN_PROGRESS None) w = (Inr (), w1)"
    "demo_state ?s1 w1" using w(2) unfolding demo_next_def by (metis prod.collapse)
  have "demo_next (R_Update 100 (retitle ''Unreviewed'')) ?s1 ?s2"
    by (rule demo_retitle) (simp_all add: approved_row_def)
  then obtain w2 where w2: "serve_submission demo_service 5 7 (R_Update 100 (retitle ''Unreviewed'')) w1 = (Inr (), w2)"
    "demo_state ?s2 w2" using w1(2) unfolding demo_next_def by (metis prod.collapse)
  have "demo_next (R_Prepare 100) ?s2 ?s3"
    by (rule demo_prepare) (simp_all add: approved_row_def truthy_def)
  then obtain w3 where w3: "serve_submission demo_service 5 7 (R_Prepare 100) w2 = (Inr (), w3)"
    "demo_state ?s3 w3" using w2(2) unfolding demo_next_def by (metis prod.collapse)
  obtain w4 where w4: "serve_submission demo_service 5 7 (R_Execute 100 plain_execute) w3 = (Inr (), w4)"
    "submissions (w_committed w4) = [sent_row False ?s3]"
    using demo_execute [OF w3(2), of plain_execute]
    by (simp add: approved_row_def plain_execute_def) (metis prod.collapse)
  have "sent_row False ?s3 = sent_row False (approved_row\<lparr>sub_submitted_title := Some ''Unreviewed''\<rparr>)"
    by (simp add: sent_row_def approved_row_def)
  then have "submissions (w_committed w4) = [sent_row False (approved_row\<lparr>sub_submitted_title := Some ''Unreviewed''\<rparr>)]"
    using w4(2) by simp
  moreover have "submissions (w_committed w) = [approved_row]" using w(2) by (simp add: demo_state_def)
  moreover have "sub_submitted_title approved_row = Some ''Title''" by (simp add: approved_row_def)
  ultimately show ?thesis using w(1) w1(1) w2(1) w3(1) w4(1) by blast
qed

text \<open>A verified submission cannot be verified again.  Whatever the request, the fetcher and the
  rest of the database, \<open>verify\<close> on a VERIFIED (or REJECTED, FAILED, unsent) row raises
  SUBMISSION_NOT_VERIFIABLE and changes nothing; the link-monitoring task re-verifies exactly
  the VERIFIED rows.\<close>

theorem verify_refuses:
  assumes "w_tenant w = Some t" and "distinct (map sub_id (submissions (w_db w)))"
    and "s \<in> set (submissions (w_db w))" and "sub_tenant_id s = t"
    and "sub_status s \<notin> {S_SUBMITTED, S_VERIFICATION_PENDING, S_PUBLISHED}"
  shows "\<exists>e. verify_submission sv (sub_id s) rq w = (Inl (AppExn e), w)
           \<and> err_code e = ''SUBMISSION_NOT_VERIFIABLE'' \<and> err_status e = 409"
proof -
  have "get_submission (sub_id s) w = (Inr s, w)"
    using submission_table.get_or_raise_found [of w t s "''submission''"] assms
    by (simp add: get_submission_def)
  then show ?thesis using assms(5)
    by (simp add: verify_submission_def ebind_def ethen_def raise_if_def raise_def submission_error_def)
      (simp add: coded_error_def app_error_init_def or_default_def)
qed

theorem verify_refuses_witness:
  "let s = approved_row\<lparr>sub_status := S_VERIFIED\<rparr>;
       w = initial_world\<lparr>w_tenant := Some 5, w_db := empty_db\<lparr>submissions := [s]\<rparr>\<rparr>
   in \<exists>e. verify_submission demo_service 100 plain_verify w = (Inl (AppExn e), w)
        \<and> err_code e = ''SUBMISSION_NOT_VERIFIABLE''"
  using verify_refuses [of "initial_world\<lparr>w_tenant := Some 5,
      w_db := empty_db\<lparr>submissions := [approved_row\<lparr>sub_status := S_VERIFIED\<rparr>]\<rparr>\<rparr>" 5
      "approved_row\<lparr>sub_status := S_VERIFIED\<rparr>" demo_service plain_verify]
  by (auto simp: Let_def approved_row_def empty_db_def)

text \<open>Publication never reaches the opportunity.  A submission is only prepared for a SELECTED
  or READY opportunity, and from those the opportunity table allows neither PUBLISHED nor FAILED:
  the sync step after an execution that published or failed leaves the opportunity as it was,
  and from SELECTED even the plain SUBMITTED sync does.\<close>

theorem opportunity_left_behind:
  assumes "opportunity_is_submittable (opp_status op)"
  shows "advance_opportunity op O_PUBLISHED w = (Inr (), w)
       \<and> advance_opportunity op O_FAILED w = (Inr (), w)
       \<and> (opp_status op = O_SELECTED \<longrightarrow> advance_opportunity op O_SUBMITTED w = (Inr (), w))"
  using assms
  by (auto simp: opportunity_is_submittable_def submittable_statuses_def advance_opportunity_def
      opportunity_can_transition_def ret_def)

theorem opportunity_left_behind_witness:
  "advance_opportunity demo_opportunity O_PUBLISHED demo_world = (Inr (), demo_world)"
  using opportunity_left_behind [of demo_opportunity demo_world]
  by (simp add: opportunity_is_submittable_def submittable_statuses_def)

lemma form_needs_human:
  "needs_human (provider_for \<lparr>sv_manual = m, sv_form = Some (form_submit fetch auto), sv_verifier = v\<rparr> Me_FORM q)"
  by (simp add: provider_for_def needs_human_def form_submit_status)

text \<open>Automation is never more than a pre-flight.  Whatever the target's form page answers and
  even with automatic delivery switched on, the form provider declines; an execution through it
  records the submission as MANUAL and SUBMITTED, with the reason kept as evidence.\<close>

theorem form_goes_to_a_person:
  assumes "execute_submission \<lparr>sv_manual = m, sv_form = Some (form_submit fetch auto), sv_verifier = v\<rparr> i rq w
             = (Inr s', w')"
    and "s \<in> set (submissions (w_db w))" "sub_id s = i" "distinct (map sub_id (submissions (w_db w)))"
    and "sub_submission_method s = Me_FORM"
  shows "sub_submission_method s' = Me_MANUAL \<and> sub_status s' = S_SUBMITTED
       \<and> map_of (sub_verification_evidence s') ''manual_reason'' \<noteq> None"
proof -
  let ?sv = "\<lparr>sv_manual = m, sv_form = Some (form_submit fetch auto), sv_verifier = v\<rparr>"
  let ?P = "\<lambda>s'. sub_submission_method s' = Me_MANUAL \<and> sub_status s' = S_SUBMITTED
       \<and> map_of (sub_verification_evidence s') ''manual_reason'' \<noteq> None"
  have only: "x = s" if "x \<in> set (submissions (w_db w))" "sub_id x = i" for x
    using that assms(2-4) by (metis distinct_map inj_onD)
  have manual: "wp (execute_manual x op oc) (\<lambda>s' _. ?P s') (\<lambda>_ _. True) w" for x op oc
    by (auto simp: execute_manual_def wp_simps Let_def split: option.split)
  have "wp (execute_submission ?sv i rq) (\<lambda>s' _. ?P s') (\<lambda>_ _. True) w"
    unfolding execute_submission_def wp_ebind
    by (rule wp_get_submission, drule (1) only)
      (auto simp: wp_simps assert_transition_cases Let_def assms(5) form_needs_human
        intro!: wp_reads [OF reads_submission_queries(2)] wp_assert_free manual [simplified])
  then show ?thesis using assms(1) by (rule wp_Inr)
qed

theorem form_goes_to_a_person_witness:
  "\<exists>s' w'. execute_submission \<lparr>sv_manual = manual_submit,
        sv_form = Some (form_submit (\<lambda>_. Inl (plain_error ProviderTimeoutError)) True), sv_verifier = None\<rparr>
       100 plain_execute
       (initial_world\<lparr>w_tenant := Some 5, w_db := empty_db\<lparr>publishers := [demo_publisher],
          opportunities := [demo_opportunity],
          submissions := [approved_row\<lparr>sub_submission_method := Me_FORM\<rparr>]\<rparr>\<rparr>) = (Inr s', w')
     \<and> sub_submission_method s' = Me_MANUAL \<and> sub_status s' = S_SUBMITTED"
proof -
  let ?s = "approved_row\<lparr>sub_submission_method := Me_FORM\<rparr>"
  let ?f = "\<lambda>_. Inl (plain_error ProviderTimeoutError)"
  let ?sv = "\<lparr>sv_manual = manual_submit, sv_form = Some (form_submit ?f True), sv_verifier = None\<rparr>"
  let ?w = "initial_world\<lparr>w_tenant := Some 5, w_db := empty_db\<lparr>publishers := [demo_publisher],
      opportunities := [demo_opportunity], submissions := [?s]\<rparr>\<rparr>"
  have "wp (execute_submission ?sv 100 plain_execute) (\<lambda>_ _. True) (\<lambda>_ _. False) ?w"
    by (simp add: run_simps execute_submission_def execute_manual_def assert_transition_cases Let_def
        initial_world_def empty_db_def approved_row_def form_needs_human row_put_def approval_recorded_def)
  then obtain s' w' where run: "execute_submission ?sv 100 plain_execute ?w = (Inr s', w')"
    by (cases "execute_submission ?sv 100 plain_execute ?w") (auto simp: wp_def split: sum.splits)
  from form_goes_to_a_person [OF run, of ?s] run show ?thesis
    by (simp add: approved_row_def)
qed

end
