(* ===== verification/Jobs.thy ===== *)
theory Jobs
  imports AuditTrail
begin

text \<open>
  The background queue: \<open>workers/queue.py\<close>, \<open>repositories/jobs.py\<close>, the registry lookup
  of \<open>workers/registry.py\<close> and the worker of \<open>workers/runner.py\<close>.  A handler is any
  service computation; it may move the clock, raise, or time out (\<open>TimeoutExn\<close>).  The
  claim repository reads the queue without a tenant filter of its own, so what it sees is
  decided by the database role the worker connects as: \<open>Bypass\<close> is not subject to the
  row policies, \<open>Runtime\<close> is.
\<close>

section \<open>The queue\<close>

datatype db_role = Runtime | Bypass

record enqueued_task =
  et_job_id :: nat
  et_task_name :: string
  et_status :: job_status

record task_envelope =
  te_job_id :: nat
  te_tenant_id :: nat
  te_task_name :: string
  te_payload :: "(string \<times> json) list"
  te_attempts :: int
  te_enqueued_by :: "nat option"
  te_metadata :: "(string \<times> json) list"

definition get_by_idempotency_key :: "string \<Rightarrow> job_row option svc" where
  "get_by_idempotency_key key =
     ebind (repo_where job_model (\<lambda>j. job_idempotency_key j = Some key)) scalar_one_or_none"

definition job_key :: "job_row \<Rightarrow> (nat \<times> string) option" where
  "job_key j = (case job_idempotency_key j of None \<Rightarrow> None | Some k \<Rightarrow> Some (job_tenant_id j, k))"

definition jobs_ok :: "db \<Rightarrow> bool" where
  "jobs_ok d =
     (distinct (filter (\<lambda>k. k \<noteq> None) (map job_key (jobs d)))
      \<and> list_all (\<lambda>j. 0 \<le> job_attempts j \<and> 1 \<le> job_max_attempts j) (jobs d))"

definition flush_jobs :: "unit svc" where
  "flush_jobs = flush_check jobs_ok ''jobs''"

definition task_handle :: "job_row \<Rightarrow> enqueued_task" where
  "task_handle j = \<lparr>et_job_id = job_id j, et_task_name = job_task_name j, et_status = job_status j\<rparr>"

definition poll_url :: "enqueued_task \<Rightarrow> string" where
  "poll_url e = ''/api/v1/jobs/'' @ show_nat (et_job_id e)"

definition int_or :: "int option \<Rightarrow> int \<Rightarrow> int" where
  "int_or x d = (case x of None \<Rightarrow> d | Some n \<Rightarrow> if n = 0 then d else n)"

definition new_job ::
  "string \<Rightarrow> (string \<times> json) list \<Rightarrow> int \<Rightarrow> int \<Rightarrow> string option \<Rightarrow> nat option \<Rightarrow>
   nat \<Rightarrow> nat \<Rightarrow> int \<Rightarrow> job_row" where
  "new_job task payload delay maxa key uid i t n =
     \<lparr>job_id = i, job_tenant_id = t, job_task_name = task, job_payload = payload,
      job_status = J_PENDING, job_attempts = 0, job_max_attempts = maxa,
      job_run_at = n + max 0 delay, job_started_at = None, job_finished_at = None,
      job_last_error = None, job_enqueued_by_user_id = uid, job_idempotency_key = key,
      job_created_at = n, job_updated_at = n\<rparr>"

definition enqueue ::
  "int \<Rightarrow> string \<Rightarrow> (string \<times> json) list \<Rightarrow> int \<Rightarrow> int option \<Rightarrow> string option \<Rightarrow> nat option \<Rightarrow>
   enqueued_task svc" where
  "enqueue default_max task payload delay maxa key uid =
     ebind (if truthy key then get_by_idempotency_key (the key) else ret None) (\<lambda>existing.
     case existing of
       Some j \<Rightarrow> ret (task_handle j)
     | None \<Rightarrow>
         ebind (repo_new job_model (new_job task payload delay (int_or maxa default_max) key uid)) (\<lambda>j.
         ethen flush_jobs (
         ethen (audit_on A_JOB_ENQUEUED ''job'' (job_id j)
                  [(''task_name'', JStr task), (''job_id'', JId (job_id j))])
           (ret (task_handle j)))))"

section \<open>Claiming\<close>

definition visible_jobs :: "db_role \<Rightarrow> world \<Rightarrow> job_row list" where
  "visible_jobs role w =
     (case role of Bypass \<Rightarrow> jobs (w_db w)
      | Runtime \<Rightarrow> rls_visible job_tenant_id (w_tenant w) (jobs (w_db w)))"

definition due :: "int \<Rightarrow> job_row \<Rightarrow> bool" where
  "due n j = (job_status j = J_PENDING \<and> job_run_at j \<le> n)"

definition candidate_ids :: "nat \<Rightarrow> int \<Rightarrow> job_row list \<Rightarrow> nat list" where
  "candidate_ids batch n js =
     map job_id (take batch (sort_key job_run_at (sort_key job_id (filter (due n) js))))"

definition start_job :: "int \<Rightarrow> string \<Rightarrow> job_row \<Rightarrow> job_row" where
  "start_job n worker j =
     j\<lparr>job_status := J_RUNNING, job_attempts := job_attempts j + 1, job_started_at := Some n,
       job_last_error := None, job_payload := dict_set ''_worker_id'' (JStr worker) (job_payload j),
       job_updated_at := n\<rparr>"

definition claim :: "db_role \<Rightarrow> nat \<Rightarrow> string \<Rightarrow> job_row list svc" where
  "claim role batch worker =
     ebind (gets (visible_jobs role)) (\<lambda>js.
     ebind now (\<lambda>n.
     let ids = candidate_ids batch n js in
     if ids = [] then ret []
     else ethen (change_db (\<lambda>d. d\<lparr>jobs := map (\<lambda>j. if job_id j \<in> set ids then start_job n worker j else j) (jobs d)\<rparr>))
            (ret (map (start_job n worker) (filter (\<lambda>j. job_id j \<in> set ids) js)))))"

definition save_job :: "job_row \<Rightarrow> unit svc" where
  "save_job j = ethen (repo_save job_model j) flush_jobs"

definition mark_succeeded :: "job_row \<Rightarrow> unit svc" where
  "mark_succeeded j =
     ebind now (\<lambda>n. save_job (j\<lparr>job_status := J_SUCCEEDED, job_finished_at := Some n, job_last_error := None\<rparr>))"

text \<open>A job is claimed before it fails, so \<open>attempts\<close> is at least one in the exponent.\<close>

definition retry_delay :: "int \<Rightarrow> int \<Rightarrow> int" where
  "retry_delay backoff attempts = backoff * 2 ^ nat (attempts - 1)"

definition fail_job :: "int \<Rightarrow> string \<Rightarrow> int \<Rightarrow> job_row \<Rightarrow> job_row" where
  "fail_job n error backoff j0 =
     (let j = j0\<lparr>job_last_error := Some (take 2000 error)\<rparr> in
      if job_can_retry j
      then j\<lparr>job_status := J_PENDING, job_run_at := n + retry_delay backoff (job_attempts j),
             job_started_at := None\<rparr>
      else j\<lparr>job_status := J_FAILED, job_finished_at := Some n\<rparr>)"

definition mark_failed :: "job_row \<Rightarrow> string \<Rightarrow> int \<Rightarrow> unit svc" where
  "mark_failed j error backoff = ebind now (\<lambda>n. save_job (fail_job n error backoff j))"

definition stale :: "int \<Rightarrow> job_row \<Rightarrow> bool" where
  "stale cutoff j =
     (job_status j = J_RUNNING \<and> (case job_started_at j of None \<Rightarrow> False | Some t \<Rightarrow> t < cutoff))"

definition requeue_job :: "int \<Rightarrow> job_row \<Rightarrow> job_row" where
  "requeue_job n j =
     j\<lparr>job_status := J_PENDING, job_started_at := None,
       job_last_error := Some ''worker timed out; requeued'', job_updated_at := n\<rparr>"

definition requeue_stale :: "db_role \<Rightarrow> int \<Rightarrow> nat svc" where
  "requeue_stale role timeout =
     ebind now (\<lambda>n.
     ebind (gets (visible_jobs role)) (\<lambda>js.
     let ids = map job_id (filter (stale (n - timeout)) js) in
     ethen (change_db (\<lambda>d. d\<lparr>jobs := map (\<lambda>j. if job_id j \<in> set ids then requeue_job n j else j) (jobs d)\<rparr>))
       (ret (length ids))))"

definition get_job :: "db_role \<Rightarrow> nat \<Rightarrow> job_row option svc" where
  "get_job role i =
     ebind (gets (visible_jobs role)) (\<lambda>js. scalar_one_or_none (filter (\<lambda>j. job_id j = i) js))"

section \<open>The registry\<close>

definition register_task ::
  "string \<Rightarrow> 'h \<Rightarrow> (string \<Rightarrow> 'h option) \<Rightarrow> exn + (string \<Rightarrow> 'h option)" where
  "register_task name h reg =
     (case reg name of
        Some _ \<Rightarrow> Inl (RuntimeExn (''task '' @ [CHR 39] @ name @ [CHR 39] @ '' is already registered''))
      | None \<Rightarrow> Inr (reg(name \<mapsto> h)))"

definition resolve_task :: "(string \<Rightarrow> 'h option) \<Rightarrow> string \<Rightarrow> 'h option" where
  "resolve_task reg name = reg name"

definition describe_task :: "task_envelope \<Rightarrow> string" where
  "describe_task env = te_task_name env @ ''#'' @ show_nat (te_job_id env)"

section \<open>The worker\<close>

record worker =
  wk_role :: db_role
  wk_id :: string
  wk_timeout :: int
  wk_batch :: nat
  wk_backoff :: int
  wk_registry :: "string \<Rightarrow> (task_envelope \<Rightarrow> unit svc) option"

definition envelope_of :: "job_row \<Rightarrow> task_envelope" where
  "envelope_of j =
     \<lparr>te_job_id = job_id j, te_tenant_id = job_tenant_id j, te_task_name = job_task_name j,
      te_payload = filter (\<lambda>(k, v). k \<noteq> ''_worker_id'') (job_payload j),
      te_attempts = job_attempts j, te_enqueued_by = job_enqueued_by_user_id j,
      te_metadata = []\<rparr>"

definition finish_job :: "worker \<Rightarrow> task_envelope \<Rightarrow> string option \<Rightarrow> bool \<Rightarrow> unit svc" where
  "finish_job wk env error permanent =
     session_scope None None
       (ebind (get_job (wk_role wk) (te_job_id env)) (\<lambda>found. case found of
          None \<Rightarrow> ret ()
        | Some j \<Rightarrow>
            (case error of
               None \<Rightarrow> mark_succeeded j
             | Some e \<Rightarrow>
                 mark_failed (if permanent then j\<lparr>job_attempts := job_max_attempts j\<rparr> else j)
                   e (wk_backoff wk))))"

definition job_context :: "task_envelope \<Rightarrow> request_context" where
  "job_context env =
     \<lparr>rc_request_id = Some (''job:'' @ show_nat (te_job_id env)), rc_user_id = te_enqueued_by env,
      rc_tenant_id = Some (te_tenant_id env), rc_client_ip = None, rc_user_agent = None\<rparr>"

definition run_job :: "worker \<Rightarrow> task_envelope \<Rightarrow> unit svc" where
  "run_job wk env =
     with_context (job_context env)
       (case resolve_task (wk_registry wk) (te_task_name env) of
          None \<Rightarrow> finish_job wk env (Some ''unknown_task'') True
        | Some handler \<Rightarrow>
            (\<lambda>w. case session_scope (Some (te_tenant_id env)) (te_enqueued_by env) (handler env) w of
                   (Inr _, v) \<Rightarrow> finish_job wk env None False v
                 | (Inl TimeoutExn, v) \<Rightarrow> finish_job wk env (Some ''job_timeout'') False v
                 | (Inl e, v) \<Rightarrow> finish_job wk env (Some (exn_text e)) False v))"

definition tick :: "worker \<Rightarrow> nat svc" where
  "tick wk =
     ethen (session_scope None None (requeue_stale (wk_role wk) (wk_timeout wk))) (
     ebind (session_scope None None (claim (wk_role wk) (wk_batch wk) (wk_id wk))) (\<lambda>claimed.
     let envelopes = map envelope_of claimed in
     ethen (for_each (run_job wk) envelopes) (ret (length envelopes))))"

end
