(* ===== verification/JobProperties.thy ===== *)
theory JobProperties
  imports Jobs
begin

text \<open>
  The queue's guarantees: which jobs a claim takes and that no two claims take the same,
  what a retry does, that a failed handler leaves only its failure behind, and where the
  queue's promises stop (jobs whose worker keeps dying, a worker under row-level security).
\<close>

section \<open>Claims\<close>

definition earlier :: "job_row \<Rightarrow> job_row \<Rightarrow> bool" where
  "earlier a b = (job_run_at a < job_run_at b \<or> (job_run_at a = job_run_at b \<and> job_id a \<le> job_id b))"

lemma insort_earlier:
  "\<lbrakk>sorted_wrt earlier zs; \<forall>z\<in>set zs. job_id y \<le> job_id z\<rbrakk>
   \<Longrightarrow> sorted_wrt earlier (insort_key job_run_at y zs)"
  by (induction zs) (auto simp: earlier_def set_insort_key)

lemma queue_sorted: "sorted_wrt earlier (sort_key job_run_at (sort_key job_id js))"
proof -
  have "sorted (map job_id ys) \<Longrightarrow> sorted_wrt earlier (sort_key job_run_at ys)" for ys
    by (induction ys) (auto intro!: insort_earlier)
  then show ?thesis by simp
qed

definition picked :: "nat \<Rightarrow> int \<Rightarrow> job_row list \<Rightarrow> job_row list" where
  "picked batch n js = take batch (sort_key job_run_at (sort_key job_id (filter (due n) js)))"

lemma picked_ids: "candidate_ids batch n js = map job_id (picked batch n js)"
  by (simp add: candidate_ids_def picked_def)

lemma picked_due: "j \<in> set (picked batch n js) \<Longrightarrow> j \<in> set js \<and> due n j"
  by (auto simp: picked_def dest: in_set_takeD)

lemma picked_length: "length (picked batch n js) = min batch (length (filter (due n) js))"
  by (simp add: picked_def min.commute)

lemma picked_first:
  assumes "p \<in> set (picked batch n js)" and "j \<in> set js" "due n j" "j \<notin> set (picked batch n js)"
  shows "earlier p j"
proof -
  let ?q = "sort_key job_run_at (sort_key job_id (filter (due n) js))"
  have "j \<in> set ?q" using assms(2,3) by simp
  then have "j \<in> set (drop batch ?q)" using assms(4)
    by (metis Un_iff append_take_drop_id picked_def set_append)
  moreover have "sorted_wrt earlier (take batch ?q @ drop batch ?q)" using queue_sorted by simp
  ultimately show ?thesis using assms(1) unfolding sorted_wrt_append picked_def by blast
qed

lemma wp_claim:
  "wp (claim role batch worker) Q E w =
   (let js = visible_jobs role w; ids = candidate_ids batch (w_now w) js in
    if ids = [] then Q [] w
    else Q (map (start_job (w_now w) worker) (filter (\<lambda>j. job_id j \<in> set ids) js))
      (w\<lparr>w_db := w_db w\<lparr>jobs := map (\<lambda>j. if job_id j \<in> set ids then start_job (w_now w) worker j else j)
           (jobs (w_db w))\<rparr>\<rparr>))"
  by (simp add: claim_def wp_simps Let_def)

lemma claim_eq:
  "claim role batch worker w =
   (let js = visible_jobs role w; ids = candidate_ids batch (w_now w) js in
    if ids = [] then (Inr [], w)
    else (Inr (map (start_job (w_now w) worker) (filter (\<lambda>j. job_id j \<in> set ids) js)),
      w\<lparr>w_db := w_db w\<lparr>jobs := map (\<lambda>j. if job_id j \<in> set ids then start_job (w_now w) worker j else j)
           (jobs (w_db w))\<rparr>\<rparr>))"
  by (rule wp_exec [THEN iffD1]) (simp add: wp_claim Let_def)

lemma claim_returns: "\<exists>js w'. claim role batch worker w = (Inr js, w')"
  by (simp add: claim_eq Let_def)

lemma visible_subset: "set (visible_jobs role w) \<subseteq> set (jobs (w_db w))"
  by (auto simp: visible_jobs_def rls_visible_def split: db_role.splits option.splits)

lemma start_job_simps [simp]:
  "job_id (start_job n wk j) = job_id j" "job_status (start_job n wk j) = J_RUNNING"
  "job_attempts (start_job n wk j) = job_attempts j + 1" "job_started_at (start_job n wk j) = Some n"
  "job_max_attempts (start_job n wk j) = job_max_attempts j" "job_run_at (start_job n wk j) = job_run_at j"
  by (simp_all add: start_job_def)

lemma in_picked_iff:
  assumes "distinct (map job_id js)" and "j \<in> set js"
  shows "job_id j \<in> set (candidate_ids batch n js) \<longleftrightarrow> j \<in> set (picked batch n js)"
proof
  assume "job_id j \<in> set (candidate_ids batch n js)"
  then obtain p where p: "p \<in> set (picked batch n js)" "job_id p = job_id j"
    by (auto simp: picked_ids)
  then have "p = j" using assms picked_due [OF p(1)] by (metis distinct_map inj_onD)
  then show "j \<in> set (picked batch n js)" using p by simp
qed (simp add: picked_ids)

lemma distinct_same_length:
  "\<lbrakk>set xs = set ys; distinct xs; distinct ys\<rbrakk> \<Longrightarrow> length xs = length ys"
  by (metis distinct_card)

lemma claim_rows:
  assumes "claim role batch worker w = (Inr js, w')"
  shows "jobs (w_db w') = map (\<lambda>j. if job_id j \<in> job_id ` set js then start_job (w_now w) worker j else j) (jobs (w_db w))"
    and "job_id ` set js = set (candidate_ids batch (w_now w) (visible_jobs role w))"
proof -
  let ?ids = "set (candidate_ids batch (w_now w) (visible_jobs role w))"
  have "js = map (start_job (w_now w) worker) (filter (\<lambda>j. job_id j \<in> ?ids) (visible_jobs role w))"
    using assms by (auto simp: claim_eq Let_def split: if_splits)
  then show ids: "job_id ` set js = ?ids"
    by (fastforce simp: picked_ids image_iff dest: picked_due)
  show "jobs (w_db w') = map (\<lambda>j. if job_id j \<in> job_id ` set js then start_job (w_now w) worker j else j) (jobs (w_db w))"
    unfolding ids using assms by (auto simp: claim_eq Let_def map_idI split: if_splits)
qed


definition demo_job :: "nat \<Rightarrow> int \<Rightarrow> job_row" where
  "demo_job i run_at = (new_job ''publisher.qualify'' [] run_at 3 None None i 7 0)"

definition demo_queue :: "job_row list \<Rightarrow> world" where
  "demo_queue js =
     (let d = empty_db\<lparr>jobs := js\<rparr> in initial_world\<lparr>w_db := d, w_committed := d, w_now := 100, w_next := 50\<rparr>)"

lemmas demo_job_defs = demo_job_def demo_queue_def new_job_def initial_world_def Let_def


text \<open>No job is handed to two workers.  Between one claim and the next nothing but the
  clock, the session and the claiming worker change; whatever the second claim returns is
  disjoint from what the first returned.\<close>

theorem claims_are_disjoint:
  assumes "claim r1 b1 k1 w = (Inr first, w1)"
    and "claim r2 b2 k2 (w1\<lparr>w_now := n, w_tenant := t, w_user := u\<rparr>) = (Inr second, w2)"
  shows "job_id ` set first \<inter> job_id ` set second = {}"
proof -
  have running: "job_status j = J_RUNNING"
    if "j \<in> set (jobs (w_db w1))" "job_id j \<in> job_id ` set first" for j
    using that claim_rows [OF assms(1)] by auto
  have pending: "\<exists>j\<in>set (jobs (w_db w1)). job_id j = i \<and> job_status j = J_PENDING"
    if "i \<in> job_id ` set second" for i
    using that visible_subset unfolding claim_rows(2) [OF assms(2)]
    by (fastforce simp: picked_ids due_def dest: picked_due)
  show ?thesis
    using running pending by fastforce
qed

theorem claims_are_disjoint_witness:
  "\<exists>a b v v'. claim Bypass 1 ''w1'' (demo_queue [demo_job 1 30, demo_job 2 10]) = (Inr a, v)
     \<and> claim Bypass 1 ''w2'' (v\<lparr>w_now := 120, w_tenant := None, w_user := None\<rparr>) = (Inr b, v')
     \<and> job_id ` set a \<inter> job_id ` set b = {}"
proof -
  obtain a v where c: "claim Bypass 1 ''w1'' (demo_queue [demo_job 1 30, demo_job 2 10]) = (Inr a, v)"
    using claim_returns by blast
  obtain b v' where d: "claim Bypass 1 ''w2'' (v\<lparr>w_now := 120, w_tenant := None, w_user := None\<rparr>) = (Inr b, v')"
    using claim_returns by blast
  show ?thesis using c d claims_are_disjoint [OF c d] by blast
qed

section \<open>Enqueueing\<close>

lemma wp_flush_jobs [wp_simps]:
  "wp flush_jobs Q E w =
   (if jobs_ok (w_db w) then Q () w else E (IntegrityExn ''jobs'') (w\<lparr>w_db := w_committed w\<rparr>))"
  by (simp add: flush_jobs_def wp_simps)

definition stored :: "string \<Rightarrow> enqueued_task \<Rightarrow> world \<Rightarrow> bool" where
  "stored k h w = (\<exists>t j. w_tenant w = Some t \<and> task_handle j = h
     \<and> filter (\<lambda>j. job_idempotency_key j = Some k) (tenant_rows job_model t (w_db w)) = [j])"

lemma wp_key_query [wp_simps]:
  "wp (get_by_idempotency_key k) Q E w =
   (case w_tenant w of None \<Rightarrow> E (err TenantContextMissingError) w
    | Some t \<Rightarrow> wp (scalar_one_or_none
        (filter (\<lambda>j. job_idempotency_key j = Some k) (tenant_rows job_model t (w_db w)))) Q E w)"
  by (simp add: get_by_idempotency_key_def repo_where_def repo_rows_def wp_simps split: option.split)

lemma enqueue_stores:
  "k \<noteq> [] \<Longrightarrow> wp (enqueue dm task payload delay maxa (Some k) uid) (stored k) (\<lambda>_ _. True) w"
  by (simp add: enqueue_def truthy_def wp_simps wp_scalar job_table.wp_new split: option.split list.split)
     (auto simp: stored_def tenant_rows_def new_job_def)

lemma stored_enqueue:
  assumes "stored k h w" and "k \<noteq> []"
  shows "enqueue dm task payload delay maxa (Some k) uid w = (Inr h, w)"
proof (rule wp_exec [THEN iffD1])
  obtain t j where "w_tenant w = Some t" "task_handle j = h"
      "filter (\<lambda>j. job_idempotency_key j = Some k) (tenant_rows job_model t (w_db w)) = [j]"
    using assms(1) by (auto simp: stored_def)
  then show "wp (enqueue dm task payload delay maxa (Some k) uid) (\<lambda>a t. (Inr h, w) = (Inr a, t))
      (\<lambda>e t. (Inr h, w) = (Inl e, t)) w"
    using assms(2) by (simp add: enqueue_def truthy_def wp_simps wp_scalar)
qed

text \<open>A retried request does not schedule the same work twice.  Once an enqueue with a
  non-empty idempotency key has returned, every later enqueue of the session with that key
  returns the same handle and changes nothing, whatever the task, payload or limits it names.\<close>

theorem enqueue_is_idempotent:
  assumes "enqueue dm task payload delay maxa (Some k) uid w = (Inr h, w1)" and "k \<noteq> []"
  shows "enqueue dm' task' payload' delay' maxa' (Some k) uid' w1 = (Inr h, w1)"
  using stored_enqueue wp_Inr [OF enqueue_stores] assms by blast

theorem enqueue_is_idempotent_witness:
  "\<exists>h w1. enqueue 3 ''link.monitor'' [] 0 None (Some ''k1'') None ((demo_queue [])\<lparr>w_tenant := Some 7\<rparr>) = (Inr h, w1)
     \<and> enqueue 5 ''other'' [] 60 (Some 9) (Some ''k1'') None w1 = (Inr h, w1)"
proof -
  have "wp (enqueue 3 ''link.monitor'' [] 0 None (Some ''k1'') None) (\<lambda>_ _. True) (\<lambda>_ _. False)
      ((demo_queue [])\<lparr>w_tenant := Some 7\<rparr>)"
    by (simp add: enqueue_def truthy_def wp_simps wp_scalar job_table.wp_new demo_job_defs
        empty_db_def tenant_rows_def jobs_ok_def job_key_def int_or_def)
  then obtain h w1 where
    c: "enqueue 3 ''link.monitor'' [] 0 None (Some ''k1'') None ((demo_queue [])\<lparr>w_tenant := Some 7\<rparr>) = (Inr h, w1)"
    by (auto simp: wp_def split: sum.splits prod.splits)
  show ?thesis using c enqueue_is_idempotent [OF c] by blast
qed

section \<open>Retries\<close>

definition failed_attempt :: "int \<Rightarrow> string \<Rightarrow> string \<Rightarrow> int \<Rightarrow> job_row \<Rightarrow> job_row" where
  "failed_attempt n worker error backoff j = fail_job n error backoff (start_job n worker j)"

lemma fail_job_simps [simp]:
  "job_id (fail_job n e b j) = job_id j" "job_attempts (fail_job n e b j) = job_attempts j"
  "job_max_attempts (fail_job n e b j) = job_max_attempts j"
  "job_last_error (fail_job n e b j) = Some (take 2000 e)"
  "job_tenant_id (fail_job n e b j) = job_tenant_id j"
  "job_idempotency_key (fail_job n e b j) = job_idempotency_key j"
  by (simp_all add: fail_job_def Let_def job_can_retry_def)

lemma fail_job_status:
  "job_status (fail_job n e b j) = (if job_attempts j < job_max_attempts j then J_PENDING else J_FAILED)"
  by (simp add: fail_job_def Let_def job_can_retry_def)

lemma failed_attempts:
  "job_attempts ((failed_attempt n worker e b ^^ k) j) = job_attempts j + int k
   \<and> job_max_attempts ((failed_attempt n worker e b ^^ k) j) = job_max_attempts j"
  by (induction k) (auto simp: failed_attempt_def)



section \<open>A handler that fails\<close>

lemma jobs_ok_put:
  assumes "jobs_ok d" and "j \<in> set (jobs d)" and "distinct (map job_id (jobs d))"
    and "job_id j' = job_id j" "job_key j' = job_key j"
    and "0 \<le> job_attempts j'" "1 \<le> job_max_attempts j'"
  shows "jobs_ok (d\<lparr>jobs := row_put job_id j' (jobs d)\<rparr>)"
proof -
  have "x = j" if "x \<in> set (jobs d)" "job_id x = job_id j'" for x
    using assms(2-4) that by (metis distinct_map inj_onD)
  then have "map job_key (row_put job_id j' (jobs d)) = map job_key (jobs d)"
    using assms(5) by (auto simp: row_put_def)
  then show ?thesis
    using assms(1,6,7) by (auto simp: jobs_ok_def list_all_iff dest: row_put_set)
qed

lemma wp_get_job:
  "wp (get_job role i) Q E w = wp (scalar_one_or_none (filter (\<lambda>j. job_id j = i) (visible_jobs role w))) Q E w"
  by (simp add: get_job_def wp_simps)

lemma wp_save_job [wp_simps]:
  "wp (save_job j) Q E w =
   (let d = w_db w; d' = d\<lparr>jobs := row_put job_id (j\<lparr>job_updated_at := w_now w\<rparr>) (jobs d)\<rparr> in
    if jobs_ok d' then Q () (w\<lparr>w_db := d'\<rparr>)
    else E (IntegrityExn ''jobs'') (w\<lparr>w_db := w_committed w\<rparr>))"
  by (simp add: save_job_def wp_simps job_table.wp_save Let_def)

definition demo_worker :: "db_role \<Rightarrow> (string \<Rightarrow> (task_envelope \<Rightarrow> unit svc) option) \<Rightarrow> worker" where
  "demo_worker role handlers =
     \<lparr>wk_role = role, wk_id = ''w'', wk_timeout = 300, wk_batch = 5, wk_backoff = 30, wk_registry = handlers\<rparr>"

text \<open>Recording a failure of job \<open>j\<close> in a committed queue.\<close>

lemma finish_failure:
  assumes "wk_role wk = Bypass" and "jobs_ok (w_committed v)" and "distinct (map job_id (jobs (w_committed v)))"
    and "j \<in> set (jobs (w_committed v))" and "job_id j = te_job_id env"
  shows "\<exists>v'. finish_job wk env (Some e) False v = (Inr (), v')
    \<and> w_committed v' = (w_committed v)\<lparr>jobs :=
          row_put job_id ((fail_job (w_now v) e (wk_backoff wk) j)\<lparr>job_updated_at := w_now v\<rparr>) (jobs (w_committed v))\<rparr>
    \<and> w_ctx v' = w_ctx v"
proof -
  let ?d = "w_committed v" and ?n = "w_now v"
  let ?j = "(fail_job ?n e (wk_backoff wk) j)\<lparr>job_updated_at := ?n\<rparr>"
  let ?body = "ebind (get_job (wk_role wk) (te_job_id env)) (\<lambda>found. case found of
      None \<Rightarrow> ret () | Some j \<Rightarrow> mark_failed j e (wk_backoff wk))"
  let ?w = "(open_session None None v)\<lparr>w_db := ?d\<lparr>jobs := row_put job_id ?j (jobs ?d)\<rparr>\<rparr>"
  have found: "filter (\<lambda>x. job_id x = te_job_id env) (visible_jobs (wk_role wk) (open_session None None v)) = [j]"
    using unique_row [OF assms(3,4)] assms(1,5) by (simp add: visible_jobs_def open_session_def)
  have "0 \<le> job_attempts j" "1 \<le> job_max_attempts j"
    using assms(2,4) by (auto simp: jobs_ok_def list_all_iff)
  then have ok: "jobs_ok (?d\<lparr>jobs := row_put job_id ?j (jobs ?d)\<rparr>)"
    using assms(2,3,4) by (intro jobs_ok_put [of _ j]) (simp_all add: job_key_def split: option.split)
  have "?body (open_session None None v) = (Inr (), ?w)"
    by (rule wp_exec [THEN iffD1])
       (simp add: wp_simps wp_get_job found mark_failed_def Let_def, simp add: open_session_def ok)
  then have "finish_job wk env (Some e) False v = (Inr (), close_session (?w\<lparr>w_committed := w_db ?w\<rparr>))"
    unfolding finish_job_def by (simp add: scope_return)
  then show ?thesis
    by (simp add: close_session_def open_session_def)
qed

text \<open>What the runner writes as \<open>last_error\<close> when a handler raises.\<close>

definition failure_text :: "exn \<Rightarrow> string" where
  "failure_text e = (if e = TimeoutExn then ''job_timeout'' else exn_text e)"

text \<open>C13: a handler that raises or times out leaves its failure behind and nothing else.  When a
  handler that does not commit by itself raises, all its work is rolled back and the only
  difference in the committed database is the job's own row, which records the error and is
  retried or given up; the runner itself returns.\<close>

theorem failed_handler_leaves_only_its_failure:
  assumes "wk_role wk = Bypass" and "resolve_task (wk_registry wk) (te_task_name env) = Some handler"
    and "no_commit (handler env)"
    and "handler env (open_session (Some (te_tenant_id env)) (te_enqueued_by env) (w\<lparr>w_ctx := job_context env\<rparr>)) = (Inl e, v)"
    and "jobs_ok (w_committed w)" and "distinct (map job_id (jobs (w_committed w)))"
    and "j \<in> set (jobs (w_committed w))" and "job_id j = te_job_id env"
  shows "\<exists>w'. run_job wk env w = (Inr (), w')
    \<and> w_committed w' = (w_committed w)\<lparr>jobs := row_put job_id
          ((fail_job (w_now v) (failure_text e) (wk_backoff wk) j)\<lparr>job_updated_at := w_now v\<rparr>)
          (jobs (w_committed w))\<rparr>"
proof -
  let ?w0 = "open_session (Some (te_tenant_id env)) (te_enqueued_by env) (w\<lparr>w_ctx := job_context env\<rparr>)"
  let ?v = "close_session (v\<lparr>w_db := w_committed v\<rparr>)"
  have c: "w_committed v = w_committed w"
  proof -
    have "w_committed (snd (handler env ?w0)) = w_committed ?w0"
      using assms(3) by (simp only: no_commit_def)
    then show ?thesis unfolding assms(4) by (simp add: open_session_def)
  qed
  have scope: "session_scope (Some (te_tenant_id env)) (te_enqueued_by env) (handler env) (w\<lparr>w_ctx := job_context env\<rparr>) = (Inl e, ?v)"
    by (rule scope_raise) (rule assms(4))
  have v: "w_committed ?v = w_committed w" "w_now ?v = w_now v"
    by (simp_all add: close_session_def c)
  obtain v' where f: "finish_job wk env (Some (failure_text e)) False ?v = (Inr (), v')"
    "w_committed v' = (w_committed w)\<lparr>jobs := row_put job_id
          ((fail_job (w_now v) (failure_text e) (wk_backoff wk) j)\<lparr>job_updated_at := w_now v\<rparr>) (jobs (w_committed w))\<rparr>"
    using finish_failure [of wk ?v j env "failure_text e"] assms(1,5-8) unfolding v by blast
  have "run_job wk env w = (Inr (), v'\<lparr>w_ctx := w_ctx w\<rparr>)"
    using f(1) scope assms(2) by (cases e) (simp_all add: run_job_def with_context_def failure_text_def)
  then show ?thesis using f(2) by simp
qed

definition demo_handler :: "task_envelope \<Rightarrow> unit svc" where
  "demo_handler env =
     ethen (audit_on A_JOB_ENQUEUED ''job'' (te_job_id env) []) (raise (RuntimeExn ''boom''))"

definition demo_running :: job_row where
  "demo_running = start_job 100 ''w'' (demo_job 1 30)"

theorem failed_handler_leaves_only_its_failure_witness:
  "\<exists>w' n. run_job (demo_worker Bypass (\<lambda>_. Some demo_handler)) (envelope_of demo_running)
        (demo_queue [demo_running, demo_job 2 10]) = (Inr (), w')
     \<and> jobs (w_committed w') =
        [(fail_job n ''RuntimeError: boom'' 30 demo_running)\<lparr>job_updated_at := n\<rparr>, demo_job 2 10]
     \<and> audit_logs (w_committed w') = []"
proof -
  let ?wk = "demo_worker Bypass (\<lambda>_. Some demo_handler)"
  let ?w = "demo_queue [demo_running, demo_job 2 10]"
  let ?env = "envelope_of demo_running"
  have "wp (demo_handler ?env) (\<lambda>_ _. False) (\<lambda>e _. e = RuntimeExn ''boom'')
      (open_session (Some (te_tenant_id ?env)) (te_enqueued_by ?env) (?w\<lparr>w_ctx := job_context ?env\<rparr>))"
    by (simp add: demo_handler_def wp_simps open_session_def)
  then obtain v where h: "demo_handler ?env
      (open_session (Some (te_tenant_id ?env)) (te_enqueued_by ?env) (?w\<lparr>w_ctx := job_context ?env\<rparr>))
      = (Inl (RuntimeExn ''boom''), v)"
    by (auto simp: wp_def split: sum.splits prod.splits)
  have d: "jobs (w_committed ?w) = [demo_running, demo_job 2 10]" "audit_logs (w_committed ?w) = []"
      "jobs_ok (w_committed ?w)" "job_id demo_running = 1" "job_id (demo_job 2 10) = 2"
      "te_job_id ?env = 1" "wk_role ?wk = Bypass" "wk_backoff ?wk = 30"
      "resolve_task (wk_registry ?wk) (te_task_name ?env) = Some demo_handler"
    by (simp_all add: demo_job_defs demo_running_def start_job_def empty_db_def jobs_ok_def job_key_def
        envelope_of_def demo_worker_def resolve_task_def)
  have "no_commit (demo_handler ?env)"
    unfolding demo_handler_def by (intro no_commit_intros)
  then obtain w' where "run_job ?wk ?env ?w = (Inr (), w')"
    "w_committed w' = (w_committed ?w)\<lparr>jobs := row_put job_id
       ((fail_job (w_now v) (failure_text (RuntimeExn ''boom'')) (wk_backoff ?wk) demo_running)\<lparr>job_updated_at := w_now v\<rparr>)
       (jobs (w_committed ?w))\<rparr>"
    using failed_handler_leaves_only_its_failure [OF d(7) d(9) _ h d(3), of demo_running] d by auto
  then show ?thesis
    using d by (auto simp: row_put_def failure_text_def)
qed

section \<open>Where the promises stop\<close>

text \<open>A worker that dies: its claim is committed, no outcome is ever recorded, and once the
  timeout has passed the sweep of another worker finds the row.\<close>

definition later :: "int \<Rightarrow> world \<Rightarrow> world" where
  "later dt w = w\<lparr>w_now := w_now w + dt\<rparr>"

definition crash_cycle :: "nat \<Rightarrow> string \<Rightarrow> int \<Rightarrow> world \<Rightarrow> world" where
  "crash_cycle batch worker timeout w =
     snd (session_scope None None (requeue_stale Bypass timeout)
       (later (timeout + 1) (snd (session_scope None None (claim Bypass batch worker) w))))"

lemma requeue_eq:
  "requeue_stale Bypass timeout w =
   (let ids = map job_id (filter (stale (w_now w - timeout)) (jobs (w_db w))) in
    (Inr (length ids), w\<lparr>w_db := w_db w\<lparr>jobs :=
        map (\<lambda>j. if job_id j \<in> set ids then requeue_job (w_now w) j else j) (jobs (w_db w))\<rparr>\<rparr>))"
  by (rule wp_exec [THEN iffD1]) (simp add: requeue_stale_def wp_simps visible_jobs_def Let_def)

lemma requeue_job_simps [simp]:
  "job_id (requeue_job n j) = job_id j" "job_status (requeue_job n j) = J_PENDING"
  "job_started_at (requeue_job n j) = None" "job_attempts (requeue_job n j) = job_attempts j"
  "job_max_attempts (requeue_job n j) = job_max_attempts j" "job_run_at (requeue_job n j) = job_run_at j"
  by (simp_all add: requeue_job_def)

lemma crash_once:
  assumes "jobs (w_committed w) = [j]" and "due (w_now w) j" and "1 \<le> batch" and "0 \<le> timeout"
  shows "\<exists>j'. jobs (w_committed (crash_cycle batch worker timeout w)) = [j']
    \<and> due (w_now (crash_cycle batch worker timeout w)) j'
    \<and> job_attempts j' = job_attempts j + 1 \<and> job_max_attempts j' = job_max_attempts j"
proof -
  let ?o = "open_session None None w" and ?j = "start_job (w_now w) worker j"
  have ids: "candidate_ids batch (w_now ?o) (visible_jobs Bypass ?o) = [job_id j]"
    using assms(1-3) by (simp add: candidate_ids_def visible_jobs_def open_session_def due_def)
  let ?w1 = "close_session (w\<lparr>w_db := (w_committed w)\<lparr>jobs := [?j]\<rparr>, w_committed := (w_committed w)\<lparr>jobs := [?j]\<rparr>\<rparr>)"
  have one: "snd (session_scope None None (claim Bypass batch worker) w) = ?w1"
    by (simp add: session_scope_def claim_eq ids Let_def session_commit_def modify_def)
       (simp add: open_session_def close_session_def assms(1))
  have "stale (w_now w + 1) ?j" by (simp add: stale_def)
  then have "jobs (w_committed (crash_cycle batch worker timeout w)) = [requeue_job (w_now w + (timeout + 1)) ?j]
      \<and> w_now (crash_cycle batch worker timeout w) = w_now w + (timeout + 1)"
    unfolding crash_cycle_def one
    by (simp add: session_scope_def requeue_eq Let_def session_commit_def modify_def later_def
        open_session_def close_session_def)
  then show ?thesis using assms(2,4) by (auto simp: due_def)
qed

text \<open>C16: a job whose worker keeps dying is run again for ever: no number of crashes exhausts
  \<open>max_attempts\<close>.  After \<open>n\<close> claims that each end in a crash the job is PENDING and due with
  \<open>n\<close> attempts more than before, however small its limit is; the sweep never looks at it.\<close>

theorem crashes_are_retried_for_ever:
  assumes "jobs (w_committed w) = [j]" and "due (w_now w) j" and "1 \<le> batch" and "0 \<le> timeout"
  shows "\<exists>j'. jobs (w_committed ((crash_cycle batch worker timeout ^^ n) w)) = [j']
    \<and> due (w_now ((crash_cycle batch worker timeout ^^ n) w)) j'
    \<and> job_attempts j' = job_attempts j + int n \<and> job_max_attempts j' = job_max_attempts j"
proof (induction n)
  case (Suc n)
  then show ?case using crash_once [OF _ _ assms(3,4)] by fastforce
qed (use assms in simp)

theorem crashes_are_retried_for_ever_witness:
  "\<exists>j'. jobs (w_committed ((crash_cycle 5 ''w'' 300 ^^ 40) (demo_queue [demo_job 1 30]))) = [j']
     \<and> job_status j' = J_PENDING \<and> job_attempts j' = 40 \<and> job_max_attempts j' = 3"
  using crashes_are_retried_for_ever [of "demo_queue [demo_job 1 30]" "demo_job 1 30" 5 300 40 "''w''"]
  by (auto simp: demo_job_defs due_def)

text \<open>The sweep takes back jobs from a worker that is alive.  All jobs of a batch share the
  time of the claim and are run one after the other, each with the full timeout; the moment
  the batch as a whole is older than one timeout, a sweep returns every row of it that has no
  outcome yet to PENDING, including those whose handler is running or has not started.\<close>

theorem sweep_takes_back_live_batch:
  assumes "claim Bypass batch worker w = (Inr js, w1)"
  shows "\<exists>n w2. requeue_stale Bypass timeout (later (timeout + 1) w1) = (Inr n, w2)
    \<and> (\<forall>j\<in>set (jobs (w_db w2)). job_id j \<in> job_id ` set js
          \<longrightarrow> job_status j = J_PENDING \<and> job_started_at j = None)"
proof -
  let ?n = "w_now w + (timeout + 1)"
  have now: "w_now w1 = w_now w"
    using assms by (auto simp: claim_eq Let_def split: if_splits)
  have "stale (?n - timeout) j" if "j \<in> set (jobs (w_db w1))" "job_id j \<in> job_id ` set js" for j
    using that claim_rows(1) [OF assms] by (auto simp: stale_def)
  then have "job_status j = J_PENDING \<and> job_started_at j = None"
    if "j \<in> set (jobs (w_db (snd (requeue_stale Bypass timeout (later (timeout + 1) w1)))))"
      "job_id j \<in> job_id ` set js" for j
    using that by (auto simp: requeue_eq Let_def later_def now)
  then show ?thesis
    by (metis (no_types, lifting) requeue_eq snd_conv)
qed

theorem sweep_takes_back_live_batch_witness:
  "\<exists>js w1. claim Bypass 2 ''w1'' (demo_queue [demo_job 1 30, demo_job 2 10]) = (Inr js, w1)
     \<and> length js = 2 \<and> (\<exists>n w2. requeue_stale Bypass 300 (later 301 w1) = (Inr n, w2)
        \<and> list_all (\<lambda>j. job_status j = J_PENDING) (jobs (w_db w2)))"
proof -
  let ?w = "demo_queue [demo_job 1 30, demo_job 2 10]"
  have ids: "set (candidate_ids 2 (w_now ?w) (visible_jobs Bypass ?w)) = {1, 2}"
    by (auto simp: candidate_ids_def visible_jobs_def demo_job_defs due_def)
  obtain js w1 where c: "claim Bypass 2 ''w1'' ?w = (Inr js, w1)" using claim_returns by blast
  have rows: "map job_id (jobs (w_db w1)) = [1, 2]" and got: "job_id ` set js = {1, 2}"
    using claim_rows [OF c] ids by (simp_all add: demo_job_defs)
  obtain n w2 where r: "requeue_stale Bypass 300 (later 301 w1) = (Inr n, w2)"
      and p: "\<And>j. j \<in> set (jobs (w_db w2)) \<Longrightarrow> job_id j \<in> {1, 2} \<Longrightarrow> job_status j = J_PENDING"
    using sweep_takes_back_live_batch [OF c, of 300] got by auto
  have "map job_id (jobs (w_db w2)) = [1, 2]"
    using r rows by (auto simp: requeue_eq Let_def later_def comp_def if_distrib [of job_id] cong: if_cong)
  then have "job_id j \<in> {1, 2}" if "j \<in> set (jobs (w_db w2))" for j
    using that by (metis list.set_map image_eqI list.simps(15) list.set(1))
  moreover have "length js = 2"
    using c ids by (auto simp: claim_eq Let_def visible_jobs_def demo_job_defs split: if_splits)
  ultimately show ?thesis using c r p by (auto simp: list_all_iff)
qed

text \<open>A worker that connects as the runtime role never runs anything.  The tick opens its
  sessions without a tenant, the queue is under forced row-level security, so both the sweep
  and the claim see no row: the tick reports no work and the committed database, due jobs and
  all, is as it was.\<close>

theorem runtime_worker_is_blind:
  assumes "wk_role wk = Runtime"
  shows "\<exists>w'. tick wk w = (Inr 0, w') \<and> w_committed w' = w_committed w"
proof -
  let ?w1 = "close_session (w\<lparr>w_db := w_committed w\<rparr>)"
  have sweep: "session_scope None None (requeue_stale (wk_role wk) (wk_timeout wk)) w = (Inr 0, ?w1)"
    using wp_exec [THEN iffD1, of "requeue_stale Runtime (wk_timeout wk)" "(Inr 0, open_session None None w)"]
    by (simp add: assms session_scope_def requeue_stale_def wp_simps visible_jobs_def rls_visible_def
        open_session_def close_session_def session_commit_def modify_def)
  have claim: "session_scope None None (claim (wk_role wk) (wk_batch wk) (wk_id wk)) ?w1 = (Inr [], ?w1)"
    by (simp add: assms session_scope_def claim_eq visible_jobs_def rls_visible_def candidate_ids_def
        open_session_def close_session_def session_commit_def modify_def)
  have "tick wk w = (Inr 0, ?w1)"
    by (simp add: tick_def ethen_def ebind_def sweep claim ret_def)
  then show ?thesis by (simp add: close_session_def)
qed

theorem runtime_worker_is_blind_witness:
  "\<exists>w'. tick (demo_worker Runtime (\<lambda>_. Some demo_handler)) (demo_queue [demo_job 1 30]) = (Inr 0, w')
     \<and> list_all (due 100) (jobs (w_committed w'))"
  using runtime_worker_is_blind [of "demo_worker Runtime (\<lambda>_. Some demo_handler)" "demo_queue [demo_job 1 30]"]
  by (auto simp: demo_worker_def demo_job_defs due_def)

end
