(* ===== verification/Tokens.thy ===== *)
theory Tokens
  imports Session "HOL-Library.Countable"
begin

text \<open>
  \<open>core/security/jwt.py\<close> and \<open>core/security/refresh_tokens.py\<close>.  The JWT library, the
  digest and the random source are parameters: a \<open>jwt_library\<close> is PyJWT's \<open>encode\<close> and
  \<open>decode\<close> with the arguments the service passes, and \<open>jwt_contract\<close> states what PyJWT
  documents for a token it issued itself.  Payload identifiers are \<open>JId\<close> values, the texts
  \<open>str(uuid)\<close> and \<open>UUID(text)\<close> agree on.
\<close>

section \<open>Access tokens\<close>

datatype jwt_failure = Jwt_Expired | Jwt_Invalid

record jwt_library =
  jl_encode :: "(string \<times> json) list \<Rightarrow> string \<Rightarrow> string \<Rightarrow> string"
  jl_decode :: "string \<Rightarrow> string \<Rightarrow> string list \<Rightarrow> string \<Rightarrow> string \<Rightarrow> int \<Rightarrow> string list \<Rightarrow> int \<Rightarrow>
     jwt_failure + (string \<times> json) list"

definition access_token_type :: string where
  "access_token_type = ''access''"

definition required_claims :: "string list" where
  "required_claims = [''exp'', ''iat'', ''nbf'', ''sub'', ''jti'', ''typ'', ''iss'', ''aud'']"

record access_claims =
  ac_user_id :: nat
  ac_session_id :: nat
  ac_token_id :: nat
  ac_tenant_id :: "nat option"
  ac_issued_at :: int
  ac_expires_at :: int

definition claims_have_tenant :: "access_claims \<Rightarrow> bool" where
  "claims_have_tenant c = (ac_tenant_id c \<noteq> None)"

record jwt_service =
  jw_lib :: jwt_library
  jw_secret :: string
  jw_algorithm :: string
  jw_issuer :: string
  jw_audience :: string
  jw_ttl :: int
  jw_leeway :: int

definition jwt_service_init ::
  "jwt_library \<Rightarrow> string \<Rightarrow> string \<Rightarrow> string \<Rightarrow> string \<Rightarrow> int \<Rightarrow> int \<Rightarrow> exn + jwt_service" where
  "jwt_service_init lib secret alg iss aud ttl leeway =
     (if secret = [] \<or> length secret < 32
      then Inl (ValueExn ''JWT secret must be at least 32 characters'')
      else if alg \<notin> {''HS256'', ''HS384'', ''HS512''}
      then Inl (ValueExn (''unsupported JWT algorithm: '' @ alg))
      else Inr \<lparr>jw_lib = lib, jw_secret = secret, jw_algorithm = alg, jw_issuer = iss,
                jw_audience = aud, jw_ttl = ttl, jw_leeway = leeway\<rparr>)"

definition token_payload :: "jwt_service \<Rightarrow> access_claims \<Rightarrow> (string \<times> json) list" where
  "token_payload js c =
     [(''sub'', JId (ac_user_id c)), (''jti'', JId (ac_token_id c)), (''sid'', JId (ac_session_id c)),
      (''typ'', JStr access_token_type), (''iss'', JStr (jw_issuer js)), (''aud'', JStr (jw_audience js)),
      (''iat'', JInt (ac_issued_at c)), (''nbf'', JInt (ac_issued_at c)), (''exp'', JInt (ac_expires_at c))]
     @ (case ac_tenant_id c of None \<Rightarrow> [] | Some t \<Rightarrow> [(''tid'', JId t)])"

definition create_access_token ::
  "jwt_service \<Rightarrow> nat \<Rightarrow> nat \<Rightarrow> nat option \<Rightarrow> int option \<Rightarrow> (string \<times> access_claims) svc" where
  "create_access_token js uid sid tid issued =
     ebind now (\<lambda>n0. ebind fresh_id (\<lambda>jti.
       let n = (case issued of None \<Rightarrow> n0 | Some t \<Rightarrow> t);
           c = \<lparr>ac_user_id = uid, ac_session_id = sid, ac_token_id = jti, ac_tenant_id = tid,
                ac_issued_at = n, ac_expires_at = n + jw_ttl js\<rparr>
       in ret (jl_encode (jw_lib js) (token_payload js c) (jw_secret js) (jw_algorithm js), c)))"

text \<open>The reads of a decoded payload: \<open>UUID(payload[k])\<close> gives \<open>None\<close> where Python raises
  KeyError, ValueError or TypeError.\<close>

fun uuid_claim :: "json option \<Rightarrow> nat option" where
  "uuid_claim (Some (JId i)) = Some i"
| "uuid_claim _ = None"

definition tenant_claim :: "json option \<Rightarrow> nat option option" where
  "tenant_claim x =
     (case x of None \<Rightarrow> Some None
      | Some v \<Rightarrow> if json_truthy v then map_option Some (uuid_claim (Some v)) else Some None)"

fun timestamp_claim :: "json option \<Rightarrow> exn + int" where
  "timestamp_claim (Some (JInt n)) = Inr n"
| "timestamp_claim (Some (JRat r)) = Inr \<lfloor>r\<rfloor>"
| "timestamp_claim _ = Inl (ValueExn ''timestamp'')"

definition decode_access_token :: "jwt_service \<Rightarrow> string \<Rightarrow> access_claims svc" where
  "decode_access_token js token =
     ethen (raise_if (token = []) (err_msg InvalidTokenError ''Access token is missing'')) (
     ebind now (\<lambda>n.
     case jl_decode (jw_lib js) token (jw_secret js) [jw_algorithm js] (jw_issuer js) (jw_audience js)
            (jw_leeway js) required_claims n of
       Inl Jwt_Expired \<Rightarrow> raise (err TokenExpiredError)
     | Inl Jwt_Invalid \<Rightarrow> raise (err InvalidTokenError)
     | Inr p \<Rightarrow>
         ethen (raise_if (map_of p ''typ'' \<noteq> Some (JStr access_token_type))
                  (err_msg InvalidTokenError ''Token is not an access token'')) (
         case (uuid_claim (map_of p ''sub''), uuid_claim (map_of p ''sid''), uuid_claim (map_of p ''jti''),
               tenant_claim (map_of p ''tid'')) of
           (Some u, Some s, Some j, Some t) \<Rightarrow>
             ebind (lift_sum (timestamp_claim (map_of p ''iat''))) (\<lambda>i.
             ebind (lift_sum (timestamp_claim (map_of p ''exp''))) (\<lambda>e.
             ret \<lparr>ac_user_id = u, ac_session_id = s, ac_token_id = j, ac_tenant_id = t,
                  ac_issued_at = i, ac_expires_at = e\<rparr>))
         | _ \<Rightarrow> raise (err_msg InvalidTokenError ''Token claims are malformed''))))"

section \<open>What the library promises\<close>

text \<open>PyJWT on a token it encoded with the same secret and algorithm, with the issuer and
  audience asked for, all required claims present and not issued in the future: the payload
  comes back until \<open>exp + leeway\<close>, and the expiry error from then on.  An encoded token is
  not empty.\<close>

definition valid_claims :: "(string \<times> json) list \<Rightarrow> string \<Rightarrow> string \<Rightarrow> int \<Rightarrow> string list \<Rightarrow> int \<Rightarrow> int \<Rightarrow> bool" where
  "valid_claims p iss aud leeway req n e =
     (map_of p ''iss'' = Some (JStr iss) \<and> map_of p ''aud'' = Some (JStr aud)
      \<and> set req \<subseteq> set (map fst p)
      \<and> (\<exists>i. map_of p ''iat'' = Some (JInt i) \<and> i \<le> n + leeway)
      \<and> (\<exists>b. map_of p ''nbf'' = Some (JInt b) \<and> b \<le> n + leeway)
      \<and> map_of p ''exp'' = Some (JInt e))"

definition jwt_contract :: "jwt_library \<Rightarrow> bool" where
  "jwt_contract lib =
     ((\<forall>p s a iss aud lw req n e. valid_claims p iss aud lw req n e \<longrightarrow>
         jl_decode lib (jl_encode lib p s a) s [a] iss aud lw req n
           = (if n < e + lw then Inr p else Inl Jwt_Expired))
      \<and> (\<forall>p s a. jl_encode lib p s a \<noteq> []))"

text \<open>C20: an access token decodes to the claims it was minted with, until it expires.  Minted by
  the service at \<open>t\<close> and presented at \<open>n \<ge> t\<close>, it gives back user, session, token id, workspace
  and both instants while \<open>n\<close> is before the expiry plus the leeway, and TOKEN_EXPIRED from
  then on; decoding changes nothing.\<close>

theorem access_token_roundtrip:
  assumes "jwt_contract (jw_lib js)" and "0 \<le> jw_leeway js"
    and "create_access_token js uid sid tid None w = (Inr (token, c), w')"
    and "w_now w \<le> w_now v"
  shows "decode_access_token js token v =
     (if w_now v < w_now w + jw_ttl js + jw_leeway js then (Inr c, v)
      else (Inl (err TokenExpiredError), v))
    \<and> ac_user_id c = uid \<and> ac_session_id c = sid \<and> ac_tenant_id c = tid
    \<and> ac_expires_at c = w_now w + jw_ttl js"
proof -
  have c: "c = \<lparr>ac_user_id = uid, ac_session_id = sid, ac_token_id = w_next w, ac_tenant_id = tid,
        ac_issued_at = w_now w, ac_expires_at = w_now w + jw_ttl js\<rparr>"
    and token: "token = jl_encode (jw_lib js) (token_payload js c) (jw_secret js) (jw_algorithm js)"
    using assms(3) by (auto simp: create_access_token_def comp_defs now_def fresh_id_def Let_def)
  let ?p = "token_payload js c"
  have "valid_claims ?p (jw_issuer js) (jw_audience js) (jw_leeway js) required_claims (w_now v) (ac_expires_at c)"
    using assms(2,4) by (simp add: valid_claims_def token_payload_def c required_claims_def)
  then have decode: "jl_decode (jw_lib js) token (jw_secret js) [jw_algorithm js] (jw_issuer js) (jw_audience js)
      (jw_leeway js) required_claims (w_now v)
      = (if w_now v < ac_expires_at c + jw_leeway js then Inr ?p else Inl Jwt_Expired)"
    using assms(1) unfolding jwt_contract_def token by blast
  have "token \<noteq> []" using assms(1) unfolding jwt_contract_def token by blast
  moreover have "tenant_claim (map_of ?p ''tid'') = Some tid"
    by (cases tid) (simp_all add: token_payload_def c tenant_claim_def)
  ultimately show ?thesis
    using decode by (simp add: decode_access_token_def comp_defs now_def c token_payload_def)
qed

instance json :: countable
  by countable_datatype

definition demo_jwt_library :: jwt_library where
  "demo_jwt_library =
     \<lparr>jl_encode = (\<lambda>p s a. replicate (Suc (to_nat (p, s, a))) CHR ''.''),
      jl_decode = (\<lambda>tok s as iss aud lw req n.
        case from_nat (length tok - 1) of (p, s', a) \<Rightarrow>
          if s' = s \<and> a \<in> set as
          then (case map_of p ''exp'' of
                  Some (JInt e) \<Rightarrow> if n < e + lw then Inr p else Inl Jwt_Expired
                | _ \<Rightarrow> Inl Jwt_Invalid)
          else Inl Jwt_Invalid)\<rparr>"

definition demo_jwt :: jwt_service where
  "demo_jwt = \<lparr>jw_lib = demo_jwt_library, jw_secret = replicate 32 CHR ''s'', jw_algorithm = ''HS256'',
     jw_issuer = ''buildseo'', jw_audience = ''buildseo-api'', jw_ttl = 900, jw_leeway = 10\<rparr>"

lemma demo_jwt_contract: "jwt_contract (jw_lib demo_jwt)"
  by (auto simp: jwt_contract_def valid_claims_def demo_jwt_def demo_jwt_library_def)

theorem access_token_roundtrip_witness:
  "\<exists>tok c w'. create_access_token demo_jwt 4 9 (Some 7) None initial_world = (Inr (tok, c), w')
     \<and> decode_access_token demo_jwt tok (w'\<lparr>w_now := 909\<rparr>) = (Inr c, w'\<lparr>w_now := 909\<rparr>)
     \<and> fst (decode_access_token demo_jwt tok (w'\<lparr>w_now := 910\<rparr>)) = Inl (err TokenExpiredError)"
proof -
  obtain tok c w' where t: "create_access_token demo_jwt 4 9 (Some 7) None initial_world = (Inr (tok, c), w')"
    by (simp add: create_access_token_def comp_defs now_def fresh_id_def Let_def)
  have "0 \<le> jw_leeway demo_jwt" "w_now initial_world = 0" "jw_ttl demo_jwt + jw_leeway demo_jwt = 910"
    by (simp_all add: demo_jwt_def initial_world_def)
  then show ?thesis
    using t access_token_roundtrip [OF demo_jwt_contract _ t, of "w'\<lparr>w_now := 909\<rparr>"]
      access_token_roundtrip [OF demo_jwt_contract _ t, of "w'\<lparr>w_now := 910\<rparr>"]
    by auto
qed

section \<open>Refresh tokens\<close>

text \<open>Only a digest of the opaque token is stored.  \<open>td_random\<close> is the random source, one text
  for every draw, and \<open>td_sha256\<close> the hex digest.\<close>

record token_digest =
  td_random :: "nat \<Rightarrow> string"
  td_sha256 :: "string \<Rightarrow> string"

definition generate_refresh_token :: "token_digest \<Rightarrow> string svc" where
  "generate_refresh_token td = ebind fresh_id (\<lambda>i. ret (td_random td i))"

definition hash_refresh_token :: "token_digest \<Rightarrow> string \<Rightarrow> string" where
  "hash_refresh_token td token = td_sha256 td token"

definition refresh_token_matches :: "token_digest \<Rightarrow> string \<Rightarrow> string \<Rightarrow> bool" where
  "refresh_token_matches td token digest = (hash_refresh_token td token = digest)"

end
