(* ===== verification/PasswordPolicy.thy ===== *)
theory PasswordPolicy
  imports Repository Redaction
begin

text \<open>
  \<open>core/security/password_policy.py\<close>: the strength rules and the list of violations, in the
  order the code reports them.  Text is ASCII, on which NFKC normalisation is the identity and
  case folding is lower-casing; the ratio of the repetition rule is an exact rational.
\<close>

section \<open>Text\<close>

definition is_upper :: "char \<Rightarrow> bool" where
  "is_upper c = (65 \<le> (of_char c :: nat) \<and> (of_char c :: nat) \<le> 90)"

definition is_lower :: "char \<Rightarrow> bool" where
  "is_lower c = (97 \<le> (of_char c :: nat) \<and> (of_char c :: nat) \<le> 122)"

definition is_digit :: "char \<Rightarrow> bool" where
  "is_digit c = (48 \<le> (of_char c :: nat) \<and> (of_char c :: nat) \<le> 57)"

definition is_symbol :: "char \<Rightarrow> bool" where
  "is_symbol c = (\<not> is_upper c \<and> \<not> is_lower c \<and> \<not> is_digit c)"

definition casefold :: "string \<Rightarrow> string" where
  "casefold s = str_lower s"

section \<open>The policy\<close>

definition sequences :: "string list" where
  "sequences =
    [''abcdef'', ''bcdefg'', ''cdefgh'', ''qwerty'', ''asdfgh'', ''zxcvbn'', ''123456'', ''234567'',
     ''345678'', ''456789'', ''987654'']"

definition common_passwords :: "string list" where
  "common_passwords =
    [''password'', ''password1'', ''password123'', ''passw0rd'', ''p@ssw0rd'', ''p@ssword'',
     ''administrator'', ''letmein'', ''welcome'', ''welcome1'', ''iloveyou'', ''monkey'',
     ''dragon'', ''sunshine'', ''princess'', ''football'', ''baseball'', ''qwerty'', ''qwerty123'',
     ''1q2w3e4r'', ''abc123'', ''123456'', ''1234567'', ''12345678'', ''123456789'',
     ''1234567890'', ''qwertyuiop'', ''trustno1'', ''changeme'', ''secret'', ''master'',
     ''starwars'', ''superman'', ''batman'', ''buildseo'', ''buildseo123'', ''admin'',
     ''admin123'', ''root'', ''toor'', ''test'', ''test123'']"

record password_policy =
  pp_min_length :: nat
  pp_max_length :: nat
  pp_require_uppercase :: bool
  pp_require_lowercase :: bool
  pp_require_digit :: bool
  pp_require_symbol :: bool
  pp_forbid_common :: bool
  pp_forbid_personal_data :: bool
  pp_min_distinct_characters :: nat
  pp_max_single_character_ratio :: rat
  pp_extra_denylist :: "string list"

definition default_policy :: password_policy where
  "default_policy =
     \<lparr>pp_min_length = 12, pp_max_length = 128, pp_require_uppercase = True, pp_require_lowercase = True,
      pp_require_digit = True, pp_require_symbol = True, pp_forbid_common = True,
      pp_forbid_personal_data = True, pp_min_distinct_characters = 5,
      pp_max_single_character_ratio = 1 / 2, pp_extra_denylist = []\<rparr>"

definition complain :: "bool \<Rightarrow> string \<Rightarrow> string list" where
  "complain b msg = (if b then [msg] else [])"

definition most_common :: "string \<Rightarrow> nat" where
  "most_common s = fold max (map (count_list s) s) 0"

definition personal_token :: "string \<Rightarrow> string" where
  "personal_token item = casefold (takeWhile (\<lambda>c. c \<noteq> CHR ''@'') item)"

definition common_problems :: "password_policy \<Rightarrow> string \<Rightarrow> string list" where
  "common_problems pp folded =
     (let stripped = filter (\<lambda>c. is_lower c \<or> is_digit c) folded in
      if \<not> pp_forbid_common pp then []
      else if folded \<in> set common_passwords \<or> stripped \<in> set common_passwords then [''is too common'']
      else complain (list_ex (\<lambda>q. contains q folded) sequences) ''must not contain a keyboard or numeric sequence'')"

definition class_problems :: "password_policy \<Rightarrow> string \<Rightarrow> string list" where
  "class_problems pp password =
     complain (length password < pp_min_length pp)
       (''must be at least '' @ show_nat (pp_min_length pp) @ '' characters long'')
     @ complain (length password > pp_max_length pp)
       (''must be at most '' @ show_nat (pp_max_length pp) @ '' characters long'')
     @ complain (pp_require_uppercase pp \<and> \<not> list_ex is_upper password) ''must contain an uppercase letter''
     @ complain (pp_require_lowercase pp \<and> \<not> list_ex is_lower password) ''must contain a lowercase letter''
     @ complain (pp_require_digit pp \<and> \<not> list_ex is_digit password) ''must contain a digit''
     @ complain (pp_require_symbol pp \<and> \<not> list_ex is_symbol password) ''must contain a symbol''
     @ complain (str_strip password \<noteq> password) ''must not begin or end with whitespace''"

definition repetition_problems :: "password_policy \<Rightarrow> string \<Rightarrow> string list" where
  "repetition_problems pp password =
     (if password = [] then []
      else complain (length (remdups password) < pp_min_distinct_characters pp)
             (''must contain at least '' @ show_nat (pp_min_distinct_characters pp) @ '' different characters'')
           @ complain (rat_of_nat (most_common password)
                        > rat_of_nat (length password) * pp_max_single_character_ratio pp)
             ''must not repeat one character through most of the password'')"

definition personal_problems :: "password_policy \<Rightarrow> string \<Rightarrow> string list \<Rightarrow> string list" where
  "personal_problems pp folded personal =
     complain (pp_forbid_personal_data pp
         \<and> list_ex (\<lambda>item. 4 \<le> length (personal_token item) \<and> contains (personal_token item) folded) personal)
       ''must not contain your name or email address''"

definition violations :: "password_policy \<Rightarrow> string \<Rightarrow> string list \<Rightarrow> string list" where
  "violations pp password personal =
     (let folded = casefold password in
      class_problems pp password
      @ common_problems pp folded
      @ complain (pp_extra_denylist pp \<noteq> [] \<and> folded \<in> set (pp_extra_denylist pp)) ''is not allowed''
      @ repetition_problems pp password
      @ personal_problems pp folded personal)"

definition is_acceptable :: "password_policy \<Rightarrow> string \<Rightarrow> string list \<Rightarrow> bool" where
  "is_acceptable pp password personal = (violations pp password personal = [])"

text \<open>\<open>PasswordHasher.validate_strength\<close>.\<close>

definition validate_strength :: "password_policy \<Rightarrow> string \<Rightarrow> string list \<Rightarrow> exn + unit" where
  "validate_strength pp password personal =
     (let problems = violations pp password personal in
      if problems \<noteq> []
      then Inl (AppExn (coded_error ValidationError ''Password does not meet the security policy''
                  ''WEAK_PASSWORD'' [(''requirements'', JList (map JStr problems))]))
      else Inr ())"

section \<open>Facts\<close>

lemma complain_Nil [simp]: "complain b msg = [] \<longleftrightarrow> \<not> b"
  by (simp add: complain_def)

lemma default_policy_simps [simp]:
  "pp_min_length default_policy = 12" "pp_max_length default_policy = 128"
  "pp_require_uppercase default_policy" "pp_require_lowercase default_policy"
  "pp_require_digit default_policy" "pp_require_symbol default_policy"
  "pp_forbid_common default_policy" "pp_forbid_personal_data default_policy"
  "pp_min_distinct_characters default_policy = 5"
  "pp_max_single_character_ratio default_policy = 1 / 2" "pp_extra_denylist default_policy = []"
  by (simp_all add: default_policy_def)

lemma fold_max_ge: "n \<le> fold max xs (n :: nat)"
  by (induction xs arbitrary: n) (simp_all, metis max.bounded_iff)

lemma fold_max_mem: "x \<in> set xs \<Longrightarrow> x \<le> fold max xs (n :: nat)"
proof (induction xs arbitrary: n)
  case (Cons y xs)
  then show ?case using fold_max_ge [of "max y n" xs] by auto
qed simp

lemma count_most_common: "c \<in> set s \<Longrightarrow> count_list s c \<le> most_common s"
  unfolding most_common_def by (rule fold_max_mem) simp

text \<open>A password the policy accepts is as strong as the policy says.  Accepted under the default
  policy, it has 12 to 128 characters of all four classes and no blank at either end, at least
  five different characters, none making up more than half of it, no listed sequence, is
  no common password even with its symbols removed, and contains none of the user's
  identifiers of four characters or more.\<close>

theorem accepted_password_is_strong:
  assumes "is_acceptable default_policy password personal"
  shows "12 \<le> length password \<and> length password \<le> 128
    \<and> (\<exists>c\<in>set password. is_upper c) \<and> (\<exists>c\<in>set password. is_lower c)
    \<and> (\<exists>c\<in>set password. is_digit c) \<and> (\<exists>c\<in>set password. is_symbol c)
    \<and> str_strip password = password
    \<and> 5 \<le> card (set password)
    \<and> (\<forall>c\<in>set password. 2 * count_list password c \<le> length password)
    \<and> (\<forall>q\<in>set sequences. \<not> contains q (casefold password))
    \<and> filter (\<lambda>c. is_lower c \<or> is_digit c) (casefold password) \<notin> set common_passwords
    \<and> (\<forall>item\<in>set personal. 4 \<le> length (personal_token item)
          \<longrightarrow> \<not> contains (personal_token item) (casefold password))"
proof -
  let ?f = "casefold password"
  have none: "class_problems default_policy password = []" "common_problems default_policy ?f = []"
    "repetition_problems default_policy password = []" "personal_problems default_policy ?f personal = []"
    using assms by (simp_all add: is_acceptable_def violations_def Let_def)
  have len: "12 \<le> length password" using none(1) by (simp add: class_problems_def)
  then have rep: "5 \<le> length (remdups password)"
      "rat_of_nat (most_common password) \<le> rat_of_nat (length password) / 2"
    using none(3) by (auto simp: repetition_problems_def split: if_splits)
  have "2 * count_list password c \<le> length password" if "c \<in> set password" for c
  proof -
    have "rat_of_nat (2 * most_common password) \<le> rat_of_nat (length password)" using rep(2) by simp
    then have "2 * most_common password \<le> length password" by (simp only: of_nat_le_iff)
    then show ?thesis using count_most_common [OF that] by linarith
  qed
  moreover have "5 \<le> card (set password)"
    using rep(1) by (simp add: length_remdups_card_conv)
  moreover have "\<forall>q\<in>set sequences. \<not> contains q ?f"
      "filter (\<lambda>c. is_lower c \<or> is_digit c) ?f \<notin> set common_passwords"
    using none(2) by (auto simp: common_problems_def list_ex_iff Let_def split: if_splits)
  ultimately show ?thesis
    using none(1,4) len by (auto simp: class_problems_def personal_problems_def list_ex_iff)
qed

theorem accepted_password_is_strong_witness:
  "5 \<le> card (set ''Tr0ub4dor&Three'') \<and> \<not> contains ''ada.lovelace'' ''tr0ub4dor&three''"
proof -
  have "is_acceptable default_policy ''Tr0ub4dor&Three'' [''ada.lovelace@example.com'']" by code_simp
  from accepted_password_is_strong [OF this]
  have "5 \<le> card (set ''Tr0ub4dor&Three'')"
    and "\<forall>item\<in>set [''ada.lovelace@example.com'']. 4 \<le> length (personal_token item)
          \<longrightarrow> \<not> contains (personal_token item) (casefold ''Tr0ub4dor&Three'')"
    by blast+
  moreover have "personal_token ''ada.lovelace@example.com'' = ''ada.lovelace''"
    and "casefold ''Tr0ub4dor&Three'' = ''tr0ub4dor&three''" by code_simp+
  ultimately show ?thesis by simp
qed

end
