(* ===== verification/Auth.thy ===== *)
theory Auth
  imports AuditTrail Tokens PasswordPolicy
begin

text \<open>
  \<open>auth/service.py\<close> with the queries of \<open>repositories/sessions.py\<close>, \<open>repositories/users.py\<close>,
  \<open>repositories/tenants.py\<close> and \<open>repositories/rbac.py\<close> it uses.  Argon2, the digest, the
  random source and the JWT library are parameters of the service record.  Refresh sessions,
  users and tenants are global tables; memberships are read under the row policies.
\<close>

section \<open>Parameters\<close>

record password_hasher =
  ph_hash :: "string \<Rightarrow> nat \<Rightarrow> string"
  ph_verify :: "string \<Rightarrow> string \<Rightarrow> bool"
  ph_needs_rehash :: "string \<Rightarrow> bool"
  ph_policy :: password_policy

record auth_service =
  as_hasher :: password_hasher
  as_jwt :: jwt_service
  as_digest :: token_digest
  as_refresh_days :: int

definition hash_password :: "password_hasher \<Rightarrow> string \<Rightarrow> string svc" where
  "hash_password h password = ebind fresh_id (\<lambda>salt. ret (ph_hash h password salt))"

definition reason_rotated :: string where "reason_rotated = ''rotated''"
definition reason_logout :: string where "reason_logout = ''logout''"
definition reason_reuse_detected :: string where "reason_reuse_detected = ''reuse_detected''"
definition reason_password_changed :: string where "reason_password_changed = ''password_changed''"
definition reason_revoked_by_user :: string where "reason_revoked_by_user = ''revoked_by_user''"

section \<open>Users, tenants and memberships\<close>

definition user_by_id :: "nat \<Rightarrow> user_row option svc" where
  "user_by_id i = ebind (query (\<lambda>d. filter (\<lambda>u. usr_id u = i) (users d))) scalar_one_or_none"

text \<open>\<open>users.email\<close> is CITEXT: compared without case.\<close>

definition same_email :: "string \<Rightarrow> user_row \<Rightarrow> bool" where
  "same_email email u = (str_lower (usr_email u) = str_lower (str_strip email))"

definition user_by_email :: "string \<Rightarrow> user_row option svc" where
  "user_by_email email = ebind (query (\<lambda>d. filter (same_email email) (users d))) scalar_one_or_none"

definition email_exists :: "string \<Rightarrow> bool svc" where
  "email_exists email = query (\<lambda>d. length (filter (same_email email) (users d)) > 0)"

definition users_ok :: "db \<Rightarrow> bool" where
  "users_ok d = distinct (map (\<lambda>u. str_lower (usr_email u)) (users d))"

definition flush_users :: "unit svc" where
  "flush_users = flush_check users_ok ''users''"

definition save_user :: "user_row \<Rightarrow> unit svc" where
  "save_user u =
     ethen (ebind now (\<lambda>n. change_db (\<lambda>d. d\<lparr>users := row_put usr_id (u\<lparr>usr_updated_at := n\<rparr>) (users d)\<rparr>)))
       flush_users"

definition tenant_by_id :: "nat \<Rightarrow> tenant_row option svc" where
  "tenant_by_id i = ebind (query (\<lambda>d. filter (\<lambda>t. ten_id t = i) (tenants d))) scalar_one_or_none"

definition active_membership :: "nat \<Rightarrow> nat \<Rightarrow> membership_row option svc" where
  "active_membership uid tid =
     ebind (gets rls_memberships) (\<lambda>ms.
     scalar_one_or_none (filter (\<lambda>m. mem_user_id m = uid \<and> mem_tenant_id m = tid \<and> mem_status m = M_ACTIVE) ms))"

definition memberships_for_user :: "nat \<Rightarrow> membership_row list svc" where
  "memberships_for_user uid =
     gets (\<lambda>w. sort_key mem_created_at (filter (\<lambda>m. mem_user_id m = uid) (rls_memberships w)))"

text \<open>\<open>EffectivePermissionRepository\<close>: membership, its roles, their grants, the codes.\<close>

definition grants :: "nat \<Rightarrow> nat \<Rightarrow> membership_row list \<Rightarrow> membership_role_row list \<Rightarrow> role_permission_row \<Rightarrow> bool" where
  "grants uid tid ms mrs rp =
     (rp_tenant_id rp = tid
      \<and> list_ex (\<lambda>mr. mr_role_id mr = rp_role_id rp \<and> mr_tenant_id mr = tid
          \<and> list_ex (\<lambda>m. mem_id m = mr_membership_id mr \<and> mem_user_id m = uid \<and> mem_tenant_id m = tid
                          \<and> mem_status m = M_ACTIVE) ms) mrs)"

definition effective_permissions :: "nat \<Rightarrow> nat \<Rightarrow> string list svc" where
  "effective_permissions uid tid =
     gets (\<lambda>w. remdups (map perm_code (filter
       (\<lambda>p. list_ex (\<lambda>rp. rp_permission_id rp = perm_id p
              \<and> grants uid tid (rls_memberships w)
                  (rls_visible mr_tenant_id (w_tenant w) (membership_roles (w_db w))) rp)
            (rls_visible rp_tenant_id (w_tenant w) (role_permissions (w_db w))))
       (permissions (w_db w)))))"

section \<open>Refresh sessions\<close>

definition session_by_hash :: "string \<Rightarrow> refresh_session_row option svc" where
  "session_by_hash h =
     ebind (query (\<lambda>d. filter (\<lambda>r. rs_token_hash r = h) (refresh_sessions d))) scalar_one_or_none"

definition session_for_user :: "nat \<Rightarrow> nat \<Rightarrow> refresh_session_row option svc" where
  "session_for_user sid uid =
     ebind (query (\<lambda>d. filter (\<lambda>r. rs_id r = sid \<and> rs_user_id r = uid) (refresh_sessions d)))
       scalar_one_or_none"

definition list_sessions :: "nat \<Rightarrow> refresh_session_row list svc" where
  "list_sessions uid =
     ebind now (\<lambda>n. query (\<lambda>d. sort_key (\<lambda>r. - rs_created_at r)
       (filter (\<lambda>r. rs_user_id r = uid \<and> \<not> rs_revoked r \<and> rs_expires_at r > n) (refresh_sessions d))))"

definition sessions_ok :: "db \<Rightarrow> bool" where
  "sessions_ok d = distinct (map rs_token_hash (refresh_sessions d))"

definition flush_sessions :: "unit svc" where
  "flush_sessions = flush_check sessions_ok ''refresh_sessions''"

definition save_session :: "refresh_session_row \<Rightarrow> unit svc" where
  "save_session r =
     ethen (change_db (\<lambda>d. d\<lparr>refresh_sessions := row_put rs_id r (refresh_sessions d)\<rparr>)) flush_sessions"

definition add_session :: "refresh_session_row \<Rightarrow> unit svc" where
  "add_session r =
     ethen (change_db (\<lambda>d. d\<lparr>refresh_sessions := refresh_sessions d @ [r]\<rparr>)) flush_sessions"

definition revoked_row :: "string \<Rightarrow> int \<Rightarrow> refresh_session_row \<Rightarrow> refresh_session_row" where
  "revoked_row reason n r =
     r\<lparr>rs_revoked := True, rs_revoked_reason := Some reason, rs_revoked_at := Some n\<rparr>"

definition revoke_session_row :: "refresh_session_row \<Rightarrow> string \<Rightarrow> unit svc" where
  "revoke_session_row r reason = ebind now (\<lambda>n. save_session (revoked_row reason n r))"

definition revoke_where :: "(refresh_session_row \<Rightarrow> bool) \<Rightarrow> string \<Rightarrow> nat svc" where
  "revoke_where p reason =
     ebind now (\<lambda>n. ebind (query (\<lambda>d. length (filter (\<lambda>r. p r \<and> \<not> rs_revoked r) (refresh_sessions d)))) (\<lambda>k.
     ethen (change_db (\<lambda>d. d\<lparr>refresh_sessions :=
              map (\<lambda>r. if p r \<and> \<not> rs_revoked r then revoked_row reason n r else r) (refresh_sessions d)\<rparr>))
       (ret k)))"

definition revoke_family :: "nat \<Rightarrow> string \<Rightarrow> nat svc" where
  "revoke_family fam reason = revoke_where (\<lambda>r. rs_family_id r = fam) reason"

definition revoke_all_for_user :: "nat \<Rightarrow> string \<Rightarrow> nat svc" where
  "revoke_all_for_user uid reason = revoke_where (\<lambda>r. rs_user_id r = uid) reason"

definition touch_session :: "refresh_session_row \<Rightarrow> unit svc" where
  "touch_session r = ebind now (\<lambda>n. save_session (r\<lparr>rs_last_used_at := Some n\<rparr>))"

definition delete_expired_sessions :: "int option \<Rightarrow> nat svc" where
  "delete_expired_sessions before =
     ebind now (\<lambda>n. let cutoff = (case before of None \<Rightarrow> n | Some t \<Rightarrow> t) in
     ebind (query (\<lambda>d. length (filter (\<lambda>r. rs_expires_at r < cutoff) (refresh_sessions d)))) (\<lambda>k.
     ethen (change_db (\<lambda>d. d\<lparr>refresh_sessions := filter (\<lambda>r. \<not> rs_expires_at r < cutoff) (refresh_sessions d)\<rparr>))
       (ret k)))"

section \<open>Registration and login\<close>

definition some_texts :: "string option list \<Rightarrow> string list" where
  "some_texts xs = map the (filter truthy xs)"

definition register_user :: "auth_service \<Rightarrow> string \<Rightarrow> string \<Rightarrow> string option \<Rightarrow> string option \<Rightarrow> user_row svc" where
  "register_user sv email password first_name last_name =
     (let normalized = str_lower (str_strip email) in
      ebind (email_exists normalized) (\<lambda>taken.
      ethen (raise_if taken (err_coded DuplicateResourceError
               ''An account with this email address already exists'' ''EMAIL_ALREADY_REGISTERED'')) (
      ethen (lift_sum (validate_strength (ph_policy (as_hasher sv)) password
               (some_texts [Some normalized, first_name, last_name]))) (
      ebind (hash_password (as_hasher sv) password) (\<lambda>h. ebind fresh_id (\<lambda>i. ebind now (\<lambda>n.
      let u = \<lparr>usr_id = i, usr_email = normalized, usr_password_hash = h, usr_first_name = first_name,
               usr_last_name = last_name, usr_is_active = True, usr_is_verified = False,
               usr_is_superuser = False, usr_last_login_at = None, usr_created_at = n, usr_updated_at = n\<rparr> in
      ethen (change_db (\<lambda>d. d\<lparr>users := users d @ [u]\<rparr>)) (ethen flush_users (ret u)))))))))"

text \<open>The dummy verification of an unknown address costs time and has no other effect.\<close>

definition authenticate :: "auth_service \<Rightarrow> string \<Rightarrow> string \<Rightarrow> user_row svc" where
  "authenticate sv email password =
     ebind (user_by_email (str_lower (str_strip email))) (\<lambda>found. case found of
       None \<Rightarrow> raise (err InvalidCredentialsError)
     | Some u \<Rightarrow>
         ethen (raise_if (\<not> ph_verify (as_hasher sv) password (usr_password_hash u)) (err InvalidCredentialsError)) (
         ethen (raise_if (\<not> usr_is_active u) (err InactiveUserError)) (
         ebind (if ph_needs_rehash (as_hasher sv) (usr_password_hash u)
                then ebind (hash_password (as_hasher sv) password) (\<lambda>h. ret (u\<lparr>usr_password_hash := h\<rparr>))
                else ret u) (\<lambda>u1.
         ebind now (\<lambda>n.
         let u2 = u1\<lparr>usr_last_login_at := Some n\<rparr> in ethen (save_user u2) (ret u2))))))"

definition tenant_inactive :: "tenant_status \<Rightarrow> exn" where
  "tenant_inactive st =
     AppExn (coded_error TenantAccessError ''This workspace is not active'' ''TENANT_INACTIVE''
       [(''status'', JStr (tenant_status_value st))])"

definition require_membership :: "nat \<Rightarrow> nat \<Rightarrow> tenant_row svc" where
  "require_membership uid tid =
     ethen (set_user_context uid) (
     ebind (active_membership uid tid) (\<lambda>m. case m of
       None \<Rightarrow> raise (err TenantAccessError)
     | Some _ \<Rightarrow>
         ebind (tenant_by_id tid) (\<lambda>t. case t of
           None \<Rightarrow> raise (tenant_inactive T_ARCHIVED)
         | Some t \<Rightarrow> if tenant_is_active t then ret t else raise (tenant_inactive (ten_status t)))))"

definition resolve_login_tenant :: "user_row \<Rightarrow> nat option \<Rightarrow> tenant_row option svc" where
  "resolve_login_tenant u requested =
     (case requested of
        Some tid \<Rightarrow> ebind (require_membership (usr_id u) tid) (\<lambda>t. ret (Some t))
      | None \<Rightarrow>
          ebind (memberships_for_user (usr_id u)) (\<lambda>ms.
          case filter membership_is_active ms of
            [m] \<Rightarrow> ebind (tenant_by_id (mem_tenant_id m)) (\<lambda>t. case t of
                     None \<Rightarrow> ret None
                   | Some t \<Rightarrow> ret (if tenant_is_active t then Some t else None))
          | _ \<Rightarrow> ret None))"

record token_pair =
  tp_access_token :: string
  tp_refresh_token :: string
  tp_token_type :: string
  tp_expires_in :: int
  tp_expires_at :: int
  tp_active_tenant_id :: "nat option"

definition new_session ::
  "nat \<Rightarrow> nat \<Rightarrow> nat \<Rightarrow> string \<Rightarrow> nat option \<Rightarrow> string option \<Rightarrow> string option \<Rightarrow> int \<Rightarrow> int \<Rightarrow> refresh_session_row" where
  "new_session i uid fam digest tid agent ip days n =
     \<lparr>rs_id = i, rs_user_id = uid, rs_family_id = fam, rs_token_hash = digest, rs_active_tenant_id = tid,
      rs_user_agent = agent, rs_ip_address = ip, rs_revoked = False, rs_revoked_reason = None,
      rs_revoked_at = None, rs_expires_at = n + days * 86400, rs_last_used_at = Some n, rs_created_at = n\<rparr>"

definition start_session :: "auth_service \<Rightarrow> user_row \<Rightarrow> nat option \<Rightarrow> (refresh_session_row \<times> string) svc" where
  "start_session sv u tid =
     ebind (gets w_ctx) (\<lambda>c.
     ebind (generate_refresh_token (as_digest sv)) (\<lambda>token.
     ebind fresh_id (\<lambda>fam. ebind fresh_id (\<lambda>i. ebind now (\<lambda>n.
     let r = new_session i (usr_id u) fam (hash_refresh_token (as_digest sv) token) tid
               (or_else (rc_user_agent c) None) (rc_client_ip c) (as_refresh_days sv) n in
     ethen (add_session r) (ret (r, token)))))))"

definition issue_pair :: "auth_service \<Rightarrow> user_row \<Rightarrow> refresh_session_row \<Rightarrow> string \<Rightarrow> nat option \<Rightarrow> token_pair svc" where
  "issue_pair sv u r token tid =
     ebind (create_access_token (as_jwt sv) (usr_id u) (rs_id r) tid None) (\<lambda>(access, c).
     ret \<lparr>tp_access_token = access, tp_refresh_token = token, tp_token_type = ''bearer'',
          tp_expires_in = jw_ttl (as_jwt sv), tp_expires_at = ac_expires_at c, tp_active_tenant_id = tid\<rparr>)"

definition audit_as :: "audit_action \<Rightarrow> string \<Rightarrow> nat \<Rightarrow> nat \<Rightarrow> (string \<times> json) list \<Rightarrow> unit svc" where
  "audit_as a rtype rid uid md =
     ebind (audit_record a (Some rtype) (Some (JId rid)) md (Some uid)) (\<lambda>_. ret ())"

definition login :: "auth_service \<Rightarrow> string \<Rightarrow> string \<Rightarrow> nat option \<Rightarrow> token_pair svc" where
  "login sv email password requested =
     ebind (authenticate sv email password) (\<lambda>u.
     ethen (set_user_context (usr_id u)) (
     ebind (resolve_login_tenant u requested) (\<lambda>t.
     let tid = map_option ten_id t in
     ebind (start_session sv u tid) (\<lambda>(r, token).
     ebind (issue_pair sv u r token tid) (\<lambda>pair.
     ethen (case tid of None \<Rightarrow> ret ()
            | Some i \<Rightarrow>
                ethen (set_tenant_context (Some i) (Some (usr_id u)))
                  (audit_as A_USER_LOGIN ''user'' (usr_id u) (usr_id u)
                     [(''email'', JStr (usr_email u)), (''session_id'', JId (rs_id r)),
                      (''tenant_id'', JId i)]))
       (ret pair))))))"

section \<open>Rotation and revocation\<close>

definition try_audit_for_tenant ::
  "nat option \<Rightarrow> nat \<Rightarrow> audit_action \<Rightarrow> nat \<Rightarrow> (string \<times> json) list \<Rightarrow> unit svc" where
  "try_audit_for_tenant tid uid a rid md =
     (case tid of None \<Rightarrow> ret ()
      | Some t \<Rightarrow> ethen (set_tenant_context (Some t) (Some uid)) (audit_as a ''session'' rid uid md))"

text \<open>A revoked token is presented again: the lineage is revoked, and committed before the
  raise that would roll it back.\<close>

definition reuse_detected :: "refresh_session_row \<Rightarrow> 'a svc" where
  "reuse_detected r =
     ebind (revoke_family (rs_family_id r) reason_reuse_detected) (\<lambda>k.
     ethen (try_audit_for_tenant (rs_active_tenant_id r) (rs_user_id r) A_TOKEN_REUSE_DETECTED (rs_id r)
              [(''family_id'', JId (rs_family_id r)), (''revoked_count'', JInt (int k))]) (
     ethen session_commit (
       raise (err_msg TokenRevokedError ''This refresh token has already been used''))))"

definition refused_user :: "refresh_session_row \<Rightarrow> 'a svc" where
  "refused_user r =
     ebind (revoke_family (rs_family_id r) reason_logout) (\<lambda>_.
     ethen session_commit (raise (err InactiveUserError)))"

text \<open>The workspace remembered on the row, if the user is still an active member of it.\<close>

definition restore_tenant :: "nat \<Rightarrow> refresh_session_row \<Rightarrow> nat option svc" where
  "restore_tenant uid r =
     ethen (set_user_context uid) (
     case rs_active_tenant_id r of None \<Rightarrow> ret None
     | Some t \<Rightarrow> ebind (active_membership uid t) (\<lambda>m. ret (if m = None then None else Some t)))"

text \<open>\<open>refresh\<close> is its reads and checks followed by the rotation.\<close>

definition refresh_check :: "auth_service \<Rightarrow> string \<Rightarrow> (refresh_session_row \<times> user_row \<times> nat option) svc" where
  "refresh_check sv token =
     ebind (session_by_hash (hash_refresh_token (as_digest sv) token)) (\<lambda>found. case found of
       None \<Rightarrow> raise (err_msg InvalidTokenError ''Refresh token is not recognised'')
     | Some r \<Rightarrow>
         if rs_revoked r then reuse_detected r
         else ebind now (\<lambda>n.
           ethen (raise_if (rs_expires_at r \<le> n) (err_msg TokenExpiredError ''Refresh token has expired'')) (
           ebind (user_by_id (rs_user_id r)) (\<lambda>u. case u of
             None \<Rightarrow> refused_user r
           | Some u \<Rightarrow>
               if \<not> usr_is_active u then refused_user r
               else ebind (restore_tenant (usr_id u) r) (\<lambda>tid. ret (r, u, tid))))))"

definition refresh_rotate :: "auth_service \<Rightarrow> refresh_session_row \<times> user_row \<times> nat option \<Rightarrow> token_pair svc" where
  "refresh_rotate sv = (\<lambda>(r, u, tid).
     ethen (revoke_session_row r reason_rotated) (
     ebind (gets w_ctx) (\<lambda>c.
     ebind (generate_refresh_token (as_digest sv)) (\<lambda>token.
     ebind fresh_id (\<lambda>i. ebind now (\<lambda>n.
     let r' = new_session i (usr_id u) (rs_family_id r) (hash_refresh_token (as_digest sv) token) tid
                (or_else (rc_user_agent c) (rs_user_agent r)) (or_else (rc_client_ip c) (rs_ip_address r))
                (as_refresh_days sv) n in
     ethen (add_session r') (
     ebind (issue_pair sv u r' token tid) (\<lambda>pair.
     ethen (try_audit_for_tenant tid (usr_id u) A_TOKEN_REFRESHED (rs_id r')
              [(''session_id'', JId (rs_id r')), (''family_id'', JId (rs_family_id r'))])
       (ret pair)))))))))"

definition refresh :: "auth_service \<Rightarrow> string \<Rightarrow> token_pair svc" where
  "refresh sv token = ebind (refresh_check sv token) (refresh_rotate sv)"

definition logout :: "auth_service \<Rightarrow> nat \<Rightarrow> nat option \<Rightarrow> string option \<Rightarrow> bool \<Rightarrow> nat svc" where
  "logout sv uid sid token all_sessions =
     (if all_sessions then revoke_all_for_user uid reason_logout
      else if truthy token
      then ebind (session_by_hash (hash_refresh_token (as_digest sv) (the token))) (\<lambda>found. case found of
             None \<Rightarrow> ret 0
           | Some r \<Rightarrow> if rs_user_id r \<noteq> uid then ret 0
                       else revoke_family (rs_family_id r) reason_logout)
      else (case sid of
              Some i \<Rightarrow> ebind (session_for_user i uid) (\<lambda>found. case found of
                None \<Rightarrow> ret 0
              | Some r \<Rightarrow> revoke_family (rs_family_id r) reason_logout)
            | None \<Rightarrow> raise (err_coded ValidationError
                ''Provide a refresh token, a session id, or set all_sessions'' ''LOGOUT_TARGET_REQUIRED'')))"

definition revoke_session :: "nat \<Rightarrow> nat \<Rightarrow> nat svc" where
  "revoke_session uid sid =
     ebind (session_for_user sid uid) (\<lambda>found. case found of
       None \<Rightarrow> ret 0
     | Some r \<Rightarrow> revoke_family (rs_family_id r) reason_revoked_by_user)"

record access_token_response =
  at_access_token :: string
  at_token_type :: string
  at_expires_in :: int
  at_expires_at :: int
  at_active_tenant_id :: nat

definition scope_session ::
  "auth_service \<Rightarrow> user_row \<Rightarrow> tenant_row \<Rightarrow> refresh_session_row \<Rightarrow> access_token_response svc" where
  "scope_session sv u t r =
     ethen (save_session (r\<lparr>rs_active_tenant_id := Some (ten_id t)\<rparr>)) (
     ebind (create_access_token (as_jwt sv) (usr_id u) (rs_id r) (Some (ten_id t)) None) (\<lambda>(access, c).
     ethen (set_tenant_context (Some (ten_id t)) (Some (usr_id u))) (
     ethen (audit_as A_TENANT_SELECTED ''tenant'' (ten_id t) (usr_id u)
              [(''tenant_id'', JId (ten_id t)), (''tenant_slug'', JStr (ten_slug t))])
       (ret \<lparr>at_access_token = access, at_token_type = ''bearer'', at_expires_in = jw_ttl (as_jwt sv),
             at_expires_at = ac_expires_at c, at_active_tenant_id = ten_id t\<rparr>))))"

definition select_tenant :: "auth_service \<Rightarrow> user_row \<Rightarrow> nat \<Rightarrow> nat \<Rightarrow> access_token_response svc" where
  "select_tenant sv u tid sid =
     ebind (require_membership (usr_id u) tid) (\<lambda>t.
     ebind (session_for_user sid (usr_id u)) (\<lambda>found. case found of
       None \<Rightarrow> raise (err_msg AuthenticationError ''Session is no longer valid'')
     | Some r \<Rightarrow>
         if rs_revoked r then raise (err_msg AuthenticationError ''Session is no longer valid'')
         else scope_session sv u t r))"

text \<open>The caller's own session survives the sweep: its row is restored.\<close>

definition keep_current :: "nat \<Rightarrow> nat \<Rightarrow> nat \<Rightarrow> nat svc" where
  "keep_current sid uid k =
     ebind (session_for_user sid uid) (\<lambda>found. case found of
       None \<Rightarrow> ret k
     | Some r \<Rightarrow>
         ethen (save_session (r\<lparr>rs_revoked := False, rs_revoked_reason := None, rs_revoked_at := None\<rparr>))
           (ret (k - 1)))"

definition change_password ::
  "auth_service \<Rightarrow> user_row \<Rightarrow> string \<Rightarrow> string \<Rightarrow> bool \<Rightarrow> nat option \<Rightarrow> nat svc" where
  "change_password sv u current_password new_password revoke_others current =
     ethen (raise_if (\<not> ph_verify (as_hasher sv) current_password (usr_password_hash u))
              (err_msg InvalidCredentialsError ''Current password is incorrect'')) (
     ethen (lift_sum (validate_strength (ph_policy (as_hasher sv)) new_password
              (some_texts [Some (usr_email u), usr_first_name u, usr_last_name u]))) (
     ethen (raise_if (ph_verify (as_hasher sv) new_password (usr_password_hash u))
              (err_coded ValidationError ''New password must differ from the current one'' ''PASSWORD_UNCHANGED'')) (
     ebind (hash_password (as_hasher sv) new_password) (\<lambda>h.
     ethen (save_user (u\<lparr>usr_password_hash := h\<rparr>)) (
     if \<not> revoke_others then ret 0
     else ebind (revoke_all_for_user (usr_id u) reason_password_changed) (\<lambda>k.
       case current of None \<Rightarrow> ret k | Some sid \<Rightarrow> keep_current sid (usr_id u) k))))))"

end
