(* ===== verification/Gate.thy ===== *)
theory Gate
  imports Auth
begin

text \<open>
  The request gate of \<open>api/dependencies\<close>: bearer token to principal (\<open>auth.py\<close>), requested
  workspace to tenant context (\<open>tenant.py\<close>), permissions (\<open>rbac.py\<close>).
\<close>

section \<open>The principal\<close>

record credentials =
  cr_scheme :: string
  cr_credentials :: string

record principal =
  pr_user :: user_row
  pr_claims :: access_claims

definition claimed_tenant_id :: "principal \<Rightarrow> nat option" where
  "claimed_tenant_id p = ac_tenant_id (pr_claims p)"

definition principal_session_id :: "principal \<Rightarrow> nat" where
  "principal_session_id p = ac_session_id (pr_claims p)"

definition set_context_user :: "nat option \<Rightarrow> unit svc" where
  "set_context_user u = modify (\<lambda>w. w\<lparr>w_ctx := (w_ctx w)\<lparr>rc_user_id := u\<rparr>\<rparr>)"

definition set_context_tenant :: "nat option \<Rightarrow> unit svc" where
  "set_context_tenant t = modify (\<lambda>w. w\<lparr>w_ctx := (w_ctx w)\<lparr>rc_tenant_id := t\<rparr>\<rparr>)"

definition get_principal :: "jwt_service \<Rightarrow> credentials option \<Rightarrow> principal svc" where
  "get_principal js creds =
     (case creds of
        None \<Rightarrow> raise (err_msg AuthenticationError ''An Authorization: Bearer <token> header is required'')
      | Some cr \<Rightarrow>
          ethen (raise_if (cr_credentials cr = [])
                   (err_msg AuthenticationError ''An Authorization: Bearer <token> header is required'')) (
          ethen (raise_if (str_lower (cr_scheme cr) \<noteq> ''bearer'')
                   (err_msg InvalidTokenError ''Authorization scheme must be Bearer'')) (
          ebind (decode_access_token js (cr_credentials cr)) (\<lambda>c.
          ebind (session_for_user (ac_session_id c) (ac_user_id c)) (\<lambda>row.
          ethen (raise_if (row = None \<or> rs_revoked (the row))
                   (err_coded AuthenticationError ''Session is no longer valid'' ''SESSION_REVOKED'')) (
          ebind (user_by_id (ac_user_id c)) (\<lambda>u. case u of
            None \<Rightarrow> raise (err AuthenticationError)
          | Some u \<Rightarrow>
              ethen (raise_if (\<not> usr_is_active u) (err InactiveUserError)) (
              ethen (set_context_user (Some (usr_id u))) (
              ethen (set_user_context (usr_id u)) (
                ret \<lparr>pr_user = u, pr_claims = c\<rparr>))))))))))"

section \<open>The workspace\<close>

record tenant_context =
  tc_tenant :: tenant_row
  tc_membership :: membership_row
  tc_permissions :: "string list"

definition tenant_context_id :: "tenant_context \<Rightarrow> nat" where
  "tenant_context_id c = ten_id (tc_tenant c)"

definition has_permission :: "tenant_context \<Rightarrow> string \<Rightarrow> bool" where
  "has_permission c code = (code \<in> set (tc_permissions c))"

definition requested_tenant_id :: "principal \<Rightarrow> nat option \<Rightarrow> nat option" where
  "requested_tenant_id p header = (case header of Some t \<Rightarrow> Some t | None \<Rightarrow> claimed_tenant_id p)"

definition get_tenant_context :: "principal \<Rightarrow> nat option \<Rightarrow> tenant_context svc" where
  "get_tenant_context p requested =
     (case requested of
        None \<Rightarrow> raise (err_msg TenantContextMissingError
          ''Select a workspace with POST /api/v1/auth/select-tenant, or send an X-Tenant-ID header'')
      | Some tid \<Rightarrow>
          ebind (active_membership (usr_id (pr_user p)) tid) (\<lambda>m. case m of
            None \<Rightarrow> raise (err TenantAccessError)
          | Some m \<Rightarrow>
              ebind (tenant_by_id tid) (\<lambda>t. case t of
                None \<Rightarrow> raise (AppExn (coded_error TenantAccessError ''This workspace is not active''
                           ''TENANT_INACTIVE'' [(''status'', JStr ''MISSING'')]))
              | Some t \<Rightarrow>
                  ethen (raise_if (ten_status t \<noteq> T_ACTIVE) (tenant_inactive (ten_status t))) (
                  ethen (set_tenant_context (Some (ten_id t)) (Some (usr_id (pr_user p)))) (
                  ethen (set_context_tenant (Some (ten_id t))) (
                  ebind (effective_permissions (usr_id (pr_user p)) (ten_id t)) (\<lambda>perms.
                    ret \<lparr>tc_tenant = t, tc_membership = m, tc_permissions = perms\<rparr>)))))))"

section \<open>Permissions\<close>

definition deny :: "string \<Rightarrow> exn" where
  "deny required = AppExn (for_permission required)"

definition require_permission :: "string \<Rightarrow> tenant_context \<Rightarrow> exn + tenant_context" where
  "require_permission code c = (if has_permission c code then Inr c else Inl (deny code))"

definition require_all_permissions :: "string list \<Rightarrow> tenant_context \<Rightarrow> exn + tenant_context" where
  "require_all_permissions codes c =
     (let missing = filter (\<lambda>code. \<not> has_permission c code) codes in
      if missing \<noteq> [] then Inl (deny (join_with '', '' missing)) else Inr c)"

definition require_any_permission :: "string list \<Rightarrow> tenant_context \<Rightarrow> exn + tenant_context" where
  "require_any_permission codes c =
     (if list_ex (has_permission c) codes then Inr c else Inl (deny (join_with '' or '' codes)))"

definition require_owner :: "tenant_context \<Rightarrow> exn + tenant_context" where
  "require_owner c = (if mem_is_owner (tc_membership c) then Inr c else Inl (deny ''workspace ownership''))"

text \<open>A guarded request: one session, the gate, then the handler in the tenant's session; a raise
  anywhere rolls everything back.\<close>

definition guarded_request ::
  "jwt_service \<Rightarrow> credentials option \<Rightarrow> nat option \<Rightarrow> string \<Rightarrow> (tenant_context \<Rightarrow> 'a svc) \<Rightarrow> 'a svc" where
  "guarded_request js creds header code handler =
     get_unscoped_session (
       ebind (get_principal js creds) (\<lambda>p.
       ebind (get_tenant_context p (requested_tenant_id p header)) (\<lambda>c.
       ebind (lift_sum (require_permission code c)) handler)))"

end
