(* ===== verification/AuthFamilies.thy ===== *)
theory AuthFamilies
  imports Gate
begin

text \<open>
  The invariant of the refresh-session table (\<open>families\<close>: at most one live token per login,
  one user per family), its preservation by every authentication operation, the API's
  authentication requests as steps of a run, and a concrete service to run.
\<close>

section \<open>Token families\<close>

definition live :: "refresh_session_row \<Rightarrow> bool" where
  "live r = (\<not> rs_revoked r)"

text \<open>The shape of the table: keys are distinct and behind the counter, a family belongs to one
  user and has at most one row that is not revoked.\<close>

definition kin :: "refresh_session_row \<Rightarrow> refresh_session_row \<Rightarrow> bool" where
  "kin r s = (rs_family_id r = rs_family_id s \<longrightarrow> rs_user_id r = rs_user_id s \<and> (live r \<and> live s \<longrightarrow> r = s))"

definition below :: "nat \<Rightarrow> refresh_session_row \<Rightarrow> bool" where
  "below n r = (rs_id r < n \<and> rs_family_id r < n)"

definition families :: "nat \<Rightarrow> refresh_session_row list \<Rightarrow> bool" where
  "families n ss =
     (distinct (map rs_id ss) \<and> (\<forall>r\<in>set ss. below n r) \<and> (\<forall>r\<in>set ss. \<forall>s\<in>set ss. kin r s))"

definition auth_inv :: "world \<Rightarrow> bool" where
  "auth_inv w = (families (w_next w) (refresh_sessions (w_db w))
     \<and> families (w_next w) (refresh_sessions (w_committed w)))"

lemma families_mono: "families n ss \<Longrightarrow> n \<le> m \<Longrightarrow> families m ss"
  by (auto simp: families_def below_def intro: less_le_trans)

lemma families_nil [simp]: "families n []"
  by (simp add: families_def)

text \<open>Updates that keep keys and owners and bring no row back to life.\<close>

definition same_lineage :: "refresh_session_row \<Rightarrow> refresh_session_row \<Rightarrow> bool" where
  "same_lineage r r' = (rs_id r' = rs_id r \<and> rs_family_id r' = rs_family_id r
     \<and> rs_user_id r' = rs_user_id r \<and> (live r' \<longrightarrow> live r))"

lemma families_map:
  assumes "families n ss" and "\<And>r. r \<in> set ss \<Longrightarrow> same_lineage r (f r)"
  shows "families n (map f ss)"
proof -
  have "map rs_id (map f ss) = map rs_id ss" using assms(2) by (simp add: same_lineage_def)
  moreover have "kin (f r) (f s)" if "r \<in> set ss" "s \<in> set ss" for r s
  proof -
    have "kin r s" using assms(1) that by (simp add: families_def)
    then show ?thesis using assms(2) [OF that(1)] assms(2) [OF that(2)]
      by (auto simp: kin_def same_lineage_def)
  qed
  moreover have "below n (f r)" if "r \<in> set ss" for r
    using assms(1) assms(2) [OF that] that by (auto simp: families_def below_def same_lineage_def)
  ultimately show ?thesis using assms(1) by (simp add: families_def del: map_map)
qed

lemma same_row: "families n ss \<Longrightarrow> r \<in> set ss \<Longrightarrow> s \<in> set ss \<Longrightarrow> rs_id r = rs_id s \<Longrightarrow> r = s"
  by (metis distinct_map families_def inj_onD)

lemma families_put:
  assumes "families n ss" and "r0 \<in> set ss" and "same_lineage r0 r"
  shows "families n (row_put rs_id r ss)"
proof -
  have "x = r0" if "x \<in> set ss" "rs_id x = rs_id r" for x
    using assms that same_row by (metis same_lineage_def)
  then show ?thesis unfolding row_put_def
    using assms(3) by (intro families_map assms(1)) (auto simp: same_lineage_def)
qed

text \<open>A new row joins a family whose rows are all revoked, or opens one.\<close>

lemma families_add:
  assumes "families n ss" and "n \<le> rs_id r" "below m r"
    and "\<And>s. s \<in> set ss \<Longrightarrow> rs_family_id s = rs_family_id r \<Longrightarrow> rs_user_id s = rs_user_id r \<and> \<not> live s"
  shows "families m (ss @ [r])"
proof -
  have "families m ss" using assms(1-3) families_mono by (fastforce simp: below_def)
  moreover have "rs_id r \<notin> rs_id ` set ss" using assms(1,2) by (fastforce simp: families_def below_def)
  moreover have "kin r s \<and> kin s r" if "s \<in> set ss" for s
    using assms(4) [OF that] by (auto simp: kin_def)
  moreover have "kin r r" by (simp add: kin_def)
  ultimately show ?thesis using assms(3) by (simp add: families_def)
qed

section \<open>Every operation keeps the families\<close>

lemma auth_inv_steps [keeps_intros]:
  "keeps auth_inv now" "keeps auth_inv (query g)" "keeps auth_inv fresh_id"
  "keeps auth_inv (set_user_context u)" "keeps auth_inv (set_tenant_context t v)"
  "keeps auth_inv session_commit" "keeps auth_inv (flush_check ok c)" "keeps auth_inv require_tenant_id"
  "keeps auth_inv (set_context_user cu)" "keeps auth_inv (set_context_tenant ct)"
  by (rule keepsI; auto simp: wp_simps auth_inv_def set_context_user_def set_context_tenant_def
      intro: families_mono split: option.split)+

lemma keeps_other_table [keeps_intros]:
  "(\<And>d. refresh_sessions (g d) = refresh_sessions d) \<Longrightarrow> keeps auth_inv (change_db g)"
  by (rule keepsI) (simp add: wp_simps auth_inv_def)

lemma keeps_audit [keeps_intros]: "keeps auth_inv (audit_record a rt ri md u)"
  by (rule keepsI) (auto simp: wp_simps auth_inv_def Let_def intro: families_mono split: option.split)

lemma keeps_queries [keeps_intros]:
  "keeps auth_inv (scalar_one_or_none rs)"
  by (rule keeps_reads) (rule reads_intros)

lemma keeps_revoke_where [keeps_intros]: "keeps auth_inv (revoke_where p reason)"
  by (rule keepsI) (auto simp: revoke_where_def wp_simps auth_inv_def same_lineage_def live_def
      revoked_row_def intro!: families_map)

lemma keeps_small [keeps_intros]:
  "keeps auth_inv (user_by_id i)" "keeps auth_inv (user_by_email e)" "keeps auth_inv (email_exists e)"
  "keeps auth_inv (save_user u)" "keeps auth_inv (tenant_by_id i)" "keeps auth_inv (active_membership i t)"
  "keeps auth_inv (memberships_for_user i)" "keeps auth_inv (session_by_hash h)"
  "keeps auth_inv (session_for_user s i)" "keeps auth_inv (revoke_family f reason)"
  "keeps auth_inv (revoke_all_for_user i reason)" "keeps auth_inv (hash_password hs pw)"
  "keeps auth_inv (generate_refresh_token td)" "keeps auth_inv (create_access_token js i s tid iss)"
  "keeps auth_inv (audit_as a rt ri aid md)" "keeps auth_inv (effective_permissions i t)"
  unfolding user_by_id_def user_by_email_def email_exists_def save_user_def flush_users_def
    tenant_by_id_def active_membership_def memberships_for_user_def session_by_hash_def
    session_for_user_def revoke_family_def revoke_all_for_user_def hash_password_def
    generate_refresh_token_def create_access_token_def audit_as_def effective_permissions_def Let_def
  by (intro keeps_intros; simp)+

lemma families_revive:
  assumes "families n ss" and "r0 \<in> set ss"
    and "rs_id r = rs_id r0" "rs_family_id r = rs_family_id r0" "rs_user_id r = rs_user_id r0"
    and "\<And>s. s \<in> set ss \<Longrightarrow> rs_family_id s = rs_family_id r0 \<Longrightarrow> \<not> live s"
  shows "families n (row_put rs_id r ss)"
proof -
  have "distinct (map rs_id (row_put rs_id r ss))"
    using assms(1) by (simp add: families_def)
  moreover have "below n x" if "x \<in> set (row_put rs_id r ss)" for x
    using row_put_set [OF that] assms(1-4) by (auto simp: families_def below_def)
  moreover have "kin r s \<and> kin s r" if "s \<in> set ss" for s
  proof -
    have "kin r0 s" using assms(1,2) that by (simp add: families_def)
    then show ?thesis using assms(4,5) assms(6) [OF that] by (auto simp: kin_def)
  qed
  moreover have "kin r r" by (simp add: kin_def)
  moreover have "kin x y" if "x \<in> set ss" "y \<in> set ss" for x y
    using assms(1) that by (simp add: families_def)
  ultimately show ?thesis
    unfolding families_def by (auto dest!: row_put_set)
qed

lemma wp_one_row:
  assumes "\<And>r. r \<in> set rs \<Longrightarrow> Q (Some r) w" and "Q None w" and "\<And>e. E e w"
  shows "wp (scalar_one_or_none rs) Q E w"
  using assms by (cases rs rule: scalar_one_or_none.cases) (simp_all add: wp_simps)

lemma wp_session_by_hash:
  assumes "\<And>r. r \<in> set (refresh_sessions (w_db w)) \<Longrightarrow> rs_token_hash r = h \<Longrightarrow> Q (Some r) w"
    and "Q None w" and "\<And>e. E e w"
  shows "wp (session_by_hash h) Q E w"
  unfolding session_by_hash_def using assms by (auto simp: wp_simps intro: wp_one_row)

lemma wp_session_for_user:
  assumes "\<And>r. r \<in> set (refresh_sessions (w_db w)) \<Longrightarrow> rs_id r = sid \<Longrightarrow> rs_user_id r = uid \<Longrightarrow> Q (Some r) w"
    and "Q None w" and "\<And>e. E e w"
  shows "wp (session_for_user sid uid) Q E w"
  unfolding session_for_user_def using assms by (auto simp: wp_simps intro: wp_one_row)

lemma wp_user_by_id:
  assumes "\<And>u. u \<in> set (users (w_db w)) \<Longrightarrow> usr_id u = i \<Longrightarrow> Q (Some u) w"
    and "Q None w" and "\<And>e. E e w"
  shows "wp (user_by_id i) Q E w"
  unfolding user_by_id_def using assms by (auto simp: wp_simps intro: wp_one_row)

lemma wp_save_session [wp_simps]:
  "wp (save_session r) Q E w =
   (let d = (w_db w)\<lparr>refresh_sessions := row_put rs_id r (refresh_sessions (w_db w))\<rparr> in
    if sessions_ok d then Q () (w\<lparr>w_db := d\<rparr>)
    else E (IntegrityExn ''refresh_sessions'') (w\<lparr>w_db := w_committed w\<rparr>))"
  by (simp add: save_session_def flush_sessions_def wp_simps Let_def)

lemma wp_add_session [wp_simps]:
  "wp (add_session r) Q E w =
   (let d = (w_db w)\<lparr>refresh_sessions := refresh_sessions (w_db w) @ [r]\<rparr> in
    if sessions_ok d then Q () (w\<lparr>w_db := d\<rparr>)
    else E (IntegrityExn ''refresh_sessions'') (w\<lparr>w_db := w_committed w\<rparr>))"
  by (simp add: add_session_def flush_sessions_def wp_simps Let_def)

lemma inv_save:
  assumes "auth_inv w" and "r0 \<in> set (refresh_sessions (w_db w))" and "same_lineage r0 r"
  shows "wp (save_session r) (\<lambda>_. auth_inv) (\<lambda>_. auth_inv) w"
  using assms by (auto simp: wp_simps Let_def auth_inv_def intro: families_put)

lemma new_session_simps [simp]:
  "rs_id (new_session i u f h t a p d n) = i" "rs_user_id (new_session i u f h t a p d n) = u"
  "rs_family_id (new_session i u f h t a p d n) = f" "rs_token_hash (new_session i u f h t a p d n) = h"
  "live (new_session i u f h t a p d n)" "rs_active_tenant_id (new_session i u f h t a p d n) = t"
  "\<not> rs_revoked (new_session i u f h t a p d n)"
  by (simp_all add: new_session_def live_def)

lemma keeps_start_session [keeps_intros]: "keeps auth_inv (start_session sv u tid)"
proof (rule keepsI)
  fix w assume "auth_inv w"
  then have f: "families (w_next w) (refresh_sessions (w_db w))"
    "families (w_next w) (refresh_sessions (w_committed w))" by (simp_all add: auth_inv_def)
  have fresh: "rs_family_id s \<noteq> Suc (w_next w)" if "s \<in> set (refresh_sessions (w_db w))" for s
    using f(1) that by (fastforce simp: families_def below_def)
  have "families (Suc (Suc (Suc (w_next w)))) (refresh_sessions (w_committed w))"
    using f(2) by (rule families_mono) simp
  moreover have "families (Suc (Suc (Suc (w_next w))))
      (refresh_sessions (w_db w) @ [new_session (Suc (Suc (w_next w))) i (Suc (w_next w)) h t a p d n])" for i h t a p d n
    using f(1) fresh by (intro families_add) (auto simp: below_def)
  ultimately show "wp (start_session sv u tid) (\<lambda>_. auth_inv) (\<lambda>_. auth_inv) w"
    by (simp add: start_session_def generate_refresh_token_def wp_simps Let_def auth_inv_def)
qed

lemma keeps_login_parts [keeps_intros]:
  "keeps auth_inv (authenticate sv e pw)" "keeps auth_inv (require_membership i t)"
  "keeps auth_inv (issue_pair sv u r tok tid)" "keeps auth_inv (register_user sv e pw fname lname)"
  "keeps auth_inv (try_audit_for_tenant tid i a j md)" "keeps auth_inv (reuse_detected r)"
  "keeps auth_inv (refused_user r)" "keeps auth_inv (restore_tenant i r)"
  "keeps auth_inv (revoke_session i s)" "keeps auth_inv (logout sv i so otok al)"
  unfolding authenticate_def require_membership_def issue_pair_def register_user_def flush_users_def
    try_audit_for_tenant_def reuse_detected_def refused_user_def restore_tenant_def revoke_session_def
    logout_def Let_def
  by (intro keeps_intros; simp)+

lemma keeps_resolve [keeps_intros]: "keeps auth_inv (resolve_login_tenant u req)"
  unfolding resolve_login_tenant_def
  by (cases req) (auto intro!: keeps_intros split: list.split)

lemma keeps_login: "keeps auth_inv (login sv e pw req)"
  unfolding login_def Let_def by (intro keeps_intros)

lemma refresh_sessions_kept:
  "wp (restore_tenant i r) (\<lambda>_ v. refresh_sessions (w_db v) = refresh_sessions (w_db w)) (\<lambda>_ _. True) w"
  by (simp add: restore_tenant_def wp_simps active_membership_def split: option.split)
     (auto intro!: wp_one_row simp: wp_simps)

definition raises :: "('e, 's, 'a) comp \<Rightarrow> bool" where
  "raises m = (\<forall>s. isl (fst (m s)))"

lemma raises_simps:
  "raises (raise e)" "(\<And>a. raises (f a)) \<Longrightarrow> raises (ebind m f)" "raises n \<Longrightarrow> raises (ethen k n)"
  by (auto simp: raises_def comp_defs split: sum.split prod.split)

lemma wp_raises: "raises m \<Longrightarrow> keeps I m \<Longrightarrow> I s \<Longrightarrow> wp m Q (\<lambda>_. I) s"
  by (auto simp: raises_def keeps_def wp_def split: sum.split prod.split dest!: spec [of _ s])

lemma dead_raise: "raises (reuse_detected r)" "raises (refused_user r)"
  unfolding reuse_detected_def refused_user_def by (intro raises_simps)+

text \<open>What the checks of a refresh establish: a live row of the table, its user, nothing changed.\<close>

lemma wp_refresh_check:
  assumes "auth_inv w"
  shows "wp (refresh_check sv tok)
     (\<lambda>(r, u, tid) v. auth_inv v \<and> r \<in> set (refresh_sessions (w_db v)) \<and> live r
        \<and> usr_id u = rs_user_id r \<and> rs_token_hash r = hash_refresh_token (as_digest sv) tok)
     (\<lambda>_. auth_inv) w"
proof -
  have rest: "wp (restore_tenant i r) (\<lambda>_ v. auth_inv v \<and> refresh_sessions (w_db v) = refresh_sessions (w_db w))
      (\<lambda>_. auth_inv) w" for i r
    using wp_conj [OF keepsD [OF keeps_login_parts(8) assms] refresh_sessions_kept]
    by (rule wp_mono) auto
  have dead: "wp (reuse_detected r) Q (\<lambda>_. auth_inv) w" "wp (refused_user r) Q (\<lambda>_. auth_inv) w" for r Q
    by (rule wp_raises; (rule dead_raise keeps_login_parts assms))+
  show ?thesis
    unfolding refresh_check_def
    by (simp only: wp_ebind, rule wp_session_by_hash)
       (auto simp: wp_simps assms live_def dead intro!: wp_user_by_id wp_mono [OF rest])
qed

lemma keeps_rotate:
  assumes "auth_inv w" and "r \<in> set (refresh_sessions (w_db w))" and "live r" and "usr_id u = rs_user_id r"
  shows "wp (refresh_rotate sv (r, u, tid)) (\<lambda>_. auth_inv) (\<lambda>_. auth_inv) w"
proof -
  let ?ss = "refresh_sessions (w_db w)" and ?n = "w_next w"
  let ?dead = "row_put rs_id (revoked_row reason_rotated (w_now w) r) ?ss"
  have f: "families ?n ?ss" "families ?n (refresh_sessions (w_committed w))"
    using assms(1) by (simp_all add: auth_inv_def)
  have dead: "families ?n ?dead"
    using f(1) assms(2) by (rule families_put) (simp add: same_lineage_def revoked_row_def live_def)
  have family: "rs_user_id s = rs_user_id r \<and> \<not> live s" if "s \<in> set ?dead" "rs_family_id s = rs_family_id r" for s
  proof (cases "s = revoked_row reason_rotated (w_now w) r")
    case False
    then have s: "s \<in> set ?ss" "rs_id s \<noteq> rs_id r"
      using row_put_set [OF that(1)] by (auto simp: revoked_row_def)
    then have "kin s r" using f(1) assms(2) by (simp add: families_def)
    then show ?thesis using s(2) assms(3) that(2) by (auto simp: kin_def)
  qed (simp add: revoked_row_def live_def)
  have "below ?n r" using f(1) assms(2) by (simp add: families_def)
  then have "families (Suc (Suc ?n)) (?dead @ [new_session (Suc ?n) (rs_user_id r) (rs_family_id r) h t a p d n])"
    for h t a p d n
    using dead family by (intro families_add) (auto simp: below_def)
  moreover have "families (Suc (Suc ?n)) (refresh_sessions (w_committed w))"
    using f(2) by (rule families_mono) simp
  moreover have "wp (issue_pair sv u x token tid)
      (\<lambda>pair. wp (ethen (try_audit_for_tenant tid (usr_id u) A_TOKEN_REFRESHED i md) (ret pair)) (\<lambda>_. auth_inv) (\<lambda>_. auth_inv))
      (\<lambda>_. auth_inv) v" if "auth_inv v" for x token i md v
    unfolding wp_ebind [symmetric] by (rule keepsD, intro keeps_intros, rule that)
  ultimately show ?thesis
    using f(2) dead assms(4)
    by (simp add: refresh_rotate_def revoke_session_row_def generate_refresh_token_def wp_simps Let_def auth_inv_def)
qed

lemma keeps_refresh: "keeps auth_inv (refresh sv tok)"
proof (rule keepsI)
  fix w assume "auth_inv w"
  then show "wp (refresh sv tok) (\<lambda>_. auth_inv) (\<lambda>_. auth_inv) w"
    unfolding refresh_def wp_ebind
    by (rule wp_mono [OF wp_refresh_check]) (auto intro: keeps_rotate)
qed

lemma keeps_scope_session:
  assumes "auth_inv w" and "r \<in> set (refresh_sessions (w_db w))"
  shows "wp (scope_session sv u t r) (\<lambda>_. auth_inv) (\<lambda>_. auth_inv) w"
proof -
  have "wp (save_session (r\<lparr>rs_active_tenant_id := x\<rparr>)) (\<lambda>_. auth_inv) (\<lambda>_. auth_inv) w" for x
    using assms by (rule inv_save) (simp add: same_lineage_def live_def)
  then show ?thesis
    unfolding scope_session_def wp_ethen [of "save_session s" for s]
    by (rule wp_mono) (rule keepsD, intro keeps_intros)
qed

lemma keeps_select: "keeps auth_inv (select_tenant sv u tid sid)"
proof (rule keepsI)
  fix w assume w: "auth_inv w"
  show "wp (select_tenant sv u tid sid) (\<lambda>_. auth_inv) (\<lambda>_. auth_inv) w"
    unfolding select_tenant_def
  proof (rule wp_keeps_bind [OF keeps_login_parts(2) w])
    fix t v assume v: "auth_inv v"
    then show "wp (ebind (session_for_user sid (usr_id u)) (\<lambda>found. case found of
       None \<Rightarrow> raise (err_msg AuthenticationError ''Session is no longer valid'')
     | Some r \<Rightarrow>
         if rs_revoked r then raise (err_msg AuthenticationError ''Session is no longer valid'')
         else scope_session sv u t r)) (\<lambda>_. auth_inv) (\<lambda>_. auth_inv) v"
      unfolding wp_ebind
      by (intro wp_session_for_user) (simp_all add: keeps_scope_session wp_if wp_raise)
  qed
qed

lemma wp_revoke_where [wp_simps]:
  "wp (revoke_where p reason) Q E w =
   Q (length (filter (\<lambda>r. p r \<and> \<not> rs_revoked r) (refresh_sessions (w_db w))))
     (w\<lparr>w_db := (w_db w)\<lparr>refresh_sessions :=
         map (\<lambda>r. if p r \<and> \<not> rs_revoked r then revoked_row reason (w_now w) r else r) (refresh_sessions (w_db w))\<rparr>\<rparr>)"
  by (simp add: revoke_where_def wp_simps)

lemma keep_current_inv:
  assumes "auth_inv w" and "\<forall>r\<in>set (refresh_sessions (w_db w)). rs_user_id r = uid \<longrightarrow> \<not> live r"
  shows "wp (keep_current sid uid k) (\<lambda>_. auth_inv) (\<lambda>_. auth_inv) w"
proof -
  have f: "families (w_next w) (refresh_sessions (w_db w))" "families (w_next w) (refresh_sessions (w_committed w))"
    using assms(1) by (simp_all add: auth_inv_def)
  have revived: "families (w_next w) (row_put rs_id (r\<lparr>rs_revoked := False, rs_revoked_reason := None,
      rs_revoked_at := None\<rparr>) (refresh_sessions (w_db w)))"
    if r: "r \<in> set (refresh_sessions (w_db w))" "rs_user_id r = uid" for r
  proof (rule families_revive [OF f(1) r(1)])
    fix s assume s: "s \<in> set (refresh_sessions (w_db w))" "rs_family_id s = rs_family_id r"
    then have "kin s r" using f(1) r(1) by (simp add: families_def)
    then show "\<not> live s" using s r(2) assms(2) by (simp add: kin_def)
  qed simp_all
  show ?thesis
    unfolding keep_current_def wp_ebind
  proof (rule wp_session_for_user)
    fix r assume "r \<in> set (refresh_sessions (w_db w))" "rs_user_id r = uid"
    from revived [OF this] f(2)
    show "wp (case Some r of None \<Rightarrow> ret k | Some r \<Rightarrow> ethen (save_session
        (r\<lparr>rs_revoked := False, rs_revoked_reason := None, rs_revoked_at := None\<rparr>)) (ret (k - 1)))
      (\<lambda>_. auth_inv) (\<lambda>_. auth_inv) w"
      by (simp add: wp_simps Let_def auth_inv_def)
  qed (simp_all add: wp_ret assms(1))
qed

lemma keeps_change_password: "keeps auth_inv (change_password sv u cur new others sid)"
proof -
  have sweep: "keeps auth_inv (ebind (revoke_all_for_user i reason) (\<lambda>k.
      case sid of None \<Rightarrow> ret k | Some s \<Rightarrow> keep_current s i k))" for i reason
  proof (rule keepsI)
    fix w assume w: "auth_inv w"
    let ?w = "w\<lparr>w_db := (w_db w)\<lparr>refresh_sessions := map (\<lambda>r. if rs_user_id r = i \<and> \<not> rs_revoked r
        then revoked_row reason (w_now w) r else r) (refresh_sessions (w_db w))\<rparr>\<rparr>"
    have "wp (revoke_all_for_user i reason) (\<lambda>_. auth_inv) (\<lambda>_. auth_inv) w"
      using w by (rule keepsD [OF keeps_small(11)])
    then have "auth_inv ?w" by (simp add: revoke_all_for_user_def wp_simps)
    moreover have "\<forall>r\<in>set (refresh_sessions (w_db ?w)). rs_user_id r = i \<longrightarrow> \<not> live r"
      by (simp add: live_def revoked_row_def ball_Un)
    ultimately show "wp (ebind (revoke_all_for_user i reason) (\<lambda>k.
        case sid of None \<Rightarrow> ret k | Some s \<Rightarrow> keep_current s i k)) (\<lambda>_. auth_inv) (\<lambda>_. auth_inv) w"
      using keep_current_inv [of ?w i]
      by (simp add: revoke_all_for_user_def wp_simps split: option.split)
  qed
  show ?thesis unfolding change_password_def by (intro keeps_intros sweep)
qed

lemma keeps_principal: "keeps auth_inv (get_principal js creds)"
proof -
  have "keeps auth_inv (decode_access_token js tok)" for tok
    unfolding decode_access_token_def
    by (intro keeps_reads reads_intros)
       (auto intro!: reads_intros split: sum.split jwt_failure.split option.split prod.split)
  then show ?thesis
    unfolding get_principal_def
    by (cases creds) (auto intro!: keeps_intros)
qed

section \<open>The API's authentication requests\<close>

datatype auth_request =
    AR_Register string string "string option" "string option"
  | AR_Login string string "nat option"
  | AR_Refresh string
  | AR_Logout "credentials option" "string option" bool
  | AR_SelectTenant "credentials option" nat
  | AR_RevokeSession "credentials option" nat
  | AR_ChangePassword "credentials option" string string bool

fun auth_handler :: "auth_service \<Rightarrow> auth_request \<Rightarrow> unit svc" where
  "auth_handler sv (AR_Register email pw fname lname) = done_with (register_user sv email pw fname lname)"
| "auth_handler sv (AR_Login email pw tid) = done_with (login sv email pw tid)"
| "auth_handler sv (AR_Refresh token) = done_with (refresh sv token)"
| "auth_handler sv (AR_Logout creds token all_sessions) =
     ebind (get_principal (as_jwt sv) creds) (\<lambda>p.
     done_with (logout sv (usr_id (pr_user p)) (Some (principal_session_id p)) token all_sessions))"
| "auth_handler sv (AR_SelectTenant creds tid) =
     ebind (get_principal (as_jwt sv) creds) (\<lambda>p.
     done_with (select_tenant sv (pr_user p) tid (principal_session_id p)))"
| "auth_handler sv (AR_RevokeSession creds sid) =
     ebind (get_principal (as_jwt sv) creds) (\<lambda>p. done_with (revoke_session (usr_id (pr_user p)) sid))"
| "auth_handler sv (AR_ChangePassword creds current new others) =
     ebind (get_principal (as_jwt sv) creds) (\<lambda>p.
     done_with (change_password sv (pr_user p) current new others (Some (principal_session_id p))))"

definition serve_auth :: "auth_service \<Rightarrow> auth_request \<Rightarrow> world \<Rightarrow> world" where
  "serve_auth sv q w = snd (get_unscoped_session (auth_handler sv q) w)"

text \<open>Worlds the service can reach from an empty session table: requests in any order, and
  between them anything that leaves the session table alone (other services, other tables,
  the clock, the ambient context).\<close>

inductive auth_run :: "auth_service \<Rightarrow> world \<Rightarrow> bool" for sv where
  start: "refresh_sessions (w_committed w) = [] \<Longrightarrow> auth_run sv w"
| request: "auth_run sv w \<Longrightarrow> auth_run sv (serve_auth sv q w)"
| elsewhere: "\<lbrakk>auth_run sv w; refresh_sessions (w_committed v) = refresh_sessions (w_committed w);
    w_next w \<le> w_next v\<rbrakk> \<Longrightarrow> auth_run sv v"

lemma keeps_auth_handler: "keeps auth_inv (auth_handler sv q)"
  by (cases q) (auto simp: done_with_def intro!: keeps_intros keeps_principal keeps_login keeps_refresh
      keeps_select keeps_change_password)

lemma serve_inv:
  assumes "families (w_next w) (refresh_sessions (w_committed w))"
  shows "families (w_next (serve_auth sv q w)) (refresh_sessions (w_committed (serve_auth sv q w)))"
proof -
  have "auth_inv (open_session None None w)" using assms by (simp add: auth_inv_def open_session_def)
  then have "auth_inv (snd (auth_handler sv q (open_session None None w)))"
    using keeps_auth_handler by (simp add: keeps_def)
  moreover obtain x v where "auth_handler sv q (open_session None None w) = (x, v)" by fastforce
  ultimately show ?thesis
    by (cases x) (simp_all add: serve_auth_def get_unscoped_session_def session_scope_def auth_inv_def
        close_session_def session_commit_def session_rollback_def modify_def)
qed

lemma auth_run_families:
  "auth_run sv w \<Longrightarrow> families (w_next w) (refresh_sessions (w_committed w))"
proof (induction rule: auth_run.induct)
  case (request w q)
  then show ?case by (rule_tac serve_inv)
qed (auto intro: families_mono)

subsection \<open>A concrete service\<close>

definition demo_auth :: auth_service where
  "demo_auth =
     \<lparr>as_hasher = \<lparr>ph_hash = (\<lambda>pw salt. pw), ph_verify = (\<lambda>pw h. pw = h), ph_needs_rehash = (\<lambda>_. False),
        ph_policy = default_policy\<rparr>,
      as_jwt = demo_jwt, as_digest = \<lparr>td_random = (\<lambda>i. replicate i CHR ''r''), td_sha256 = (\<lambda>s. s)\<rparr>,
      as_refresh_days = 30\<rparr>"

definition demo_user :: user_row where
  "demo_user = \<lparr>usr_id = 4, usr_email = ''ada'', usr_password_hash = ''pw'', usr_first_name = None,
     usr_last_name = None, usr_is_active = True, usr_is_verified = False, usr_is_superuser = False,
     usr_last_login_at = None, usr_created_at = 0, usr_updated_at = 0\<rparr>"

definition demo_auth_world :: "refresh_session_row list \<Rightarrow> nat \<Rightarrow> world" where
  "demo_auth_world ss n =
     (let d = empty_db\<lparr>users := [demo_user], refresh_sessions := ss\<rparr>
      in initial_world\<lparr>w_db := d, w_committed := d, w_now := 50, w_next := n\<rparr>)"

definition demo_session :: "nat \<Rightarrow> nat \<Rightarrow> refresh_session_row" where
  "demo_session i k = new_session i 4 11 (replicate k CHR ''r'') None None None 30 50"

lemma demo_auth_simps [simp]:
  "hash_refresh_token (as_digest demo_auth) tok = tok" "td_random (as_digest demo_auth) i = replicate i CHR ''r''"
  "as_refresh_days demo_auth = 30" "ph_verify (as_hasher demo_auth) pw h = (pw = h)"
  "\<not> ph_needs_rehash (as_hasher demo_auth) h" "as_jwt demo_auth = demo_jwt"
  by (simp_all add: demo_auth_def hash_refresh_token_def)

lemma demo_world_simps [simp]:
  "refresh_sessions (w_committed (demo_auth_world ss n)) = ss" "w_next (demo_auth_world ss n) = n"
  "w_now (demo_auth_world ss n) = 50" "users (w_committed (demo_auth_world ss n)) = [demo_user]"
  "w_ctx (demo_auth_world ss n) = no_context" "tenant_memberships (w_committed (demo_auth_world ss n)) = []"
  by (simp_all add: demo_auth_world_def Let_def initial_world_def empty_db_def)

lemma serve_auth_wp:
  assumes "wp (auth_handler sv q) (\<lambda>_ v. P (close_session (v\<lparr>w_committed := w_db v\<rparr>)))
      (\<lambda>_ v. P (close_session (v\<lparr>w_db := w_committed v\<rparr>))) (open_session None None w)"
  shows "P (serve_auth sv q w)"
proof -
  obtain x v where "auth_handler sv q (open_session None None w) = (x, v)" by fastforce
  then show ?thesis
    using assms by (cases x) (simp_all add: serve_auth_def get_unscoped_session_def session_scope_def wp_def
        session_commit_def session_rollback_def modify_def)
qed

lemmas auth_run_defs = register_user_def login_def authenticate_def user_by_email_def
  resolve_login_tenant_def memberships_for_user_def start_session_def generate_refresh_token_def
  issue_pair_def create_access_token_def save_user_def flush_users_def done_with_def

lemma demo_email [simp]: "same_email (str_lower (str_strip ''Ada'')) demo_user"
  by code_simp

lemma demo_user_simps [simp]:
  "usr_id demo_user = 4" "usr_password_hash demo_user = ''pw''" "usr_is_active demo_user"
  by (simp_all add: demo_user_def)

lemma demo_login:
  "let v = serve_auth demo_auth (AR_Login ''Ada'' ''pw'' None) (demo_auth_world [] 10) in
   refresh_sessions (w_committed v) = [demo_session 12 10] \<and> w_next v = 14"
  unfolding Let_def
  by (rule serve_auth_wp)
     (simp add: auth_run_defs wp_simps Let_def open_session_def close_session_def wp_scalar users_ok_def
        row_put_def rls_memberships_def sessions_ok_def demo_session_def or_else_def truthy_def no_context_def)

definition demo_rotated :: "refresh_session_row list" where
  "demo_rotated = [revoked_row reason_rotated 50 (demo_session 12 10), demo_session 15 14]"

lemma demo_session_simps [simp]:
  "rs_id (demo_session i k) = i" "rs_user_id (demo_session i k) = 4" "rs_family_id (demo_session i k) = 11"
  "rs_token_hash (demo_session i k) = replicate k CHR ''r''" "\<not> rs_revoked (demo_session i k)"
  "rs_active_tenant_id (demo_session i k) = None" "rs_expires_at (demo_session i k) = 2592050"
  "rs_user_agent (demo_session i k) = None" "rs_ip_address (demo_session i k) = None"
  by (simp_all add: demo_session_def) (simp_all add: new_session_def)

lemma revoked_row_simps [simp]:
  "rs_id (revoked_row reason n r) = rs_id r" "rs_family_id (revoked_row reason n r) = rs_family_id r"
  "rs_user_id (revoked_row reason n r) = rs_user_id r" "rs_revoked (revoked_row reason n r)"
  "rs_token_hash (revoked_row reason n r) = rs_token_hash r"
  "rs_active_tenant_id (revoked_row reason n r) = rs_active_tenant_id r"
  by (simp_all add: revoked_row_def)

lemmas refresh_defs = refresh_def refresh_check_def refresh_rotate_def session_by_hash_def user_by_id_def
  restore_tenant_def try_audit_for_tenant_def revoke_session_row_def

lemma demo_refresh:
  "let v = serve_auth demo_auth (AR_Refresh (replicate 10 CHR ''r'')) (demo_auth_world [demo_session 12 10] 14) in
   refresh_sessions (w_committed v) = demo_rotated \<and> w_next v = 17"
  unfolding Let_def
  by (rule serve_auth_wp)
     (simp add: auth_run_defs refresh_defs wp_simps Let_def open_session_def close_session_def wp_scalar
        row_put_def sessions_ok_def or_else_def truthy_def no_context_def demo_rotated_def,
      simp add: demo_session_def)

lemma demo_rotated_run: "auth_run demo_auth (demo_auth_world demo_rotated 17)"
proof -
  have "auth_run demo_auth (demo_auth_world [] 10)" by (rule auth_run.start) simp
  from auth_run.request [OF this, of "AR_Login ''Ada'' ''pw'' None"]
  have "auth_run demo_auth (demo_auth_world [demo_session 12 10] 14)"
    by (rule auth_run.elsewhere) (use demo_login in \<open>simp_all add: Let_def\<close>)
  from auth_run.request [OF this, of "AR_Refresh (replicate 10 CHR ''r'')"]
  show ?thesis
    by (rule auth_run.elsewhere) (use demo_refresh in \<open>simp_all add: Let_def\<close>)
qed

end
