(* ===== verification/AuthProperties.thy ===== *)
theory AuthProperties
  imports AuthFamilies
begin

text \<open>
  What the authentication service guarantees: at most one live refresh token per login, the
  durable death of a replayed family, what logout and a password change leave alive, what the
  request gate demands, and where two concurrent refreshes defeat the rotation.
\<close>

section \<open>Properties\<close>



lemma session_by_hash_found:
  assumes "sessions_ok (w_db w)" and "r \<in> set (refresh_sessions (w_db w))"
  shows "session_by_hash (rs_token_hash r) w = (Inr (Some r), w)"
proof -
  have "filter (\<lambda>s. rs_token_hash s = rs_token_hash r) (refresh_sessions (w_db w)) = [r]"
    using assms by (intro unique_row) (simp_all add: sessions_ok_def)
  then show ?thesis by (simp add: session_by_hash_def comp_defs query_def)
qed

lemma wp_try_audit:
  "wp (try_audit_for_tenant tid uid a rid md)
     (\<lambda>_ v. refresh_sessions (w_db v) = refresh_sessions (w_db w)) (\<lambda>_ v. False) w"
  by (simp add: try_audit_for_tenant_def audit_as_def wp_simps Let_def split: option.split)

text \<open>Replaying a used refresh token kills its family, and the kill is durable.  A request
  that presents a token whose row is revoked fails with TOKEN_REVOKED, and although the
  request fails the committed table then has every row of that family revoked (those that
  were live with reason \<open>reuse_detected\<close>) and every other row as it was.\<close>

lemma replay_kills_family:
  assumes "sessions_ok (w_committed w)" and "r \<in> set (refresh_sessions (w_committed w))"
    and "rs_revoked r" and "rs_token_hash r = hash_refresh_token (as_digest sv) token"
  shows "\<exists>v. get_unscoped_session (refresh sv token) w
      = (Inl (err_msg TokenRevokedError ''This refresh token has already been used''), v)
    \<and> refresh_sessions (w_committed v) = map (\<lambda>s. if rs_family_id s = rs_family_id r \<and> \<not> rs_revoked s
        then revoked_row reason_reuse_detected (w_now w) s else s) (refresh_sessions (w_committed w))"
proof -
  let ?w = "open_session None None w"
  let ?ss = "map (\<lambda>s. if rs_family_id s = rs_family_id r \<and> \<not> rs_revoked s
        then revoked_row reason_reuse_detected (w_now w) s else s) (refresh_sessions (w_committed w))"
  let ?e = "err_msg TokenRevokedError ''This refresh token has already been used''"
  let ?killed = "reuse_detected r :: (refresh_session_row \<times> user_row \<times> nat option) svc"
  have found: "session_by_hash (hash_refresh_token (as_digest sv) token) ?w = (Inr (Some r), ?w)"
    using session_by_hash_found [of ?w r] assms by (simp add: open_session_def)
  have last: "wp (ethen session_commit (raise ?e)) (\<lambda>_ _. False)
      (\<lambda>e v. e = ?e \<and> refresh_sessions (w_committed v) = ss) v" if "refresh_sessions (w_db v) = ss" for v ss
    using that by (simp add: wp_simps)
  have audited: "wp (ethen (try_audit_for_tenant tid uid a rid md) (ethen session_commit (raise ?e))) (\<lambda>_ _. False)
      (\<lambda>e v. e = ?e \<and> refresh_sessions (w_committed v) = refresh_sessions (w_db v0)) v0" for tid uid a rid md v0
    unfolding wp_ethen [of "try_audit_for_tenant tid uid a rid md"]
    by (rule wp_mono [OF wp_try_audit]) (simp_all add: last)
  have "wp ?killed (\<lambda>_ _. False)
      (\<lambda>e v. e = ?e \<and> refresh_sessions (w_committed v) = ?ss) ?w"
    unfolding reuse_detected_def revoke_family_def wp_ebind wp_revoke_where
    by (rule wp_mono [OF audited]) (simp_all add: open_session_def)
  from wp_only_raises [OF this]
  obtain v where "?killed ?w = (Inl ?e, v)" and ss: "refresh_sessions (w_committed v) = ?ss"
    by (elim exE conjE) simp
  then have "refresh sv token ?w = (Inl ?e, v)"
    using found assms(3) by (simp add: refresh_def refresh_check_def ebind_def)
  then have "get_unscoped_session (refresh sv token) w = (Inl ?e, close_session (v\<lparr>w_db := w_committed v\<rparr>))"
    unfolding get_unscoped_session_def by (rule scope_raise)
  then show ?thesis using ss by (simp add: close_session_def)
qed

text \<open>A login failure says nothing about the account.  An address that is not registered and
  one that is registered but comes with a wrong password give the same error and leave the
  same state, also when the account is deactivated.\<close>

theorem login_failure_reveals_nothing:
  assumes "users_ok (w_db w)"
    and "\<forall>u\<in>set (users (w_db w)). same_email (str_lower (str_strip email)) u
           \<longrightarrow> \<not> ph_verify (as_hasher sv) password (usr_password_hash u)"
  shows "authenticate sv email password w = (Inl (err InvalidCredentialsError), w)
    \<and> login sv email password tid w = (Inl (err InvalidCredentialsError), w)"
proof -
  let ?us = "filter (same_email (str_lower (str_strip email))) (users (w_db w))"
  have "distinct (map (\<lambda>u. str_lower (usr_email u)) ?us)"
    using assms(1) by (simp add: users_ok_def distinct_map_filter)
  moreover have "\<forall>u\<in>set ?us. str_lower (usr_email u) = str_lower (str_strip (str_lower (str_strip email)))"
    by (simp add: same_email_def)
  ultimately have "length ?us \<le> 1"
    by (cases ?us rule: scalar_one_or_none.cases) auto
  then consider "?us = []" | u where "?us = [u]"
    by (cases ?us rule: scalar_one_or_none.cases) auto
  then have auth: "authenticate sv email password w = (Inl (err InvalidCredentialsError), w)"
  proof cases
    case (2 u)
    then have "u \<in> set ?us" by (simp only: list.set_intros)
    then have "\<not> ph_verify (as_hasher sv) password (usr_password_hash u)" using assms(2) by simp
    then show ?thesis using 2 by (simp add: authenticate_def user_by_email_def comp_defs query_def)
  qed (simp add: authenticate_def user_by_email_def comp_defs query_def)
  then show ?thesis by (simp add: login_def ebind_def)
qed

theorem login_failure_reveals_nothing_witness:
  "fst (login demo_auth ''Ada'' ''guess'' None (demo_auth_world [] 10)) = Inl (err InvalidCredentialsError)
   \<and> fst (login demo_auth ''nobody'' ''guess'' None (demo_auth_world [] 10)) = Inl (err InvalidCredentialsError)"
proof -
  have w: "users_ok (w_db (demo_auth_world [] 10))" "users (w_db (demo_auth_world [] 10)) = [demo_user]"
    by (simp_all add: demo_auth_world_def users_ok_def empty_db_def initial_world_def Let_def)
  show ?thesis
    using login_failure_reveals_nothing [OF w(1), of "''Ada''" demo_auth "''guess''" None]
      login_failure_reveals_nothing [OF w(1), of "''nobody''" demo_auth "''guess''" None]
    by (simp add: w(2))
qed

section \<open>The gate\<close>

definition authenticated :: "nat \<Rightarrow> db \<Rightarrow> bool" where
  "authenticated uid d =
     ((\<exists>u\<in>set (users d). usr_id u = uid \<and> usr_is_active u)
      \<and> (\<exists>r\<in>set (refresh_sessions d). rs_user_id r = uid \<and> \<not> rs_revoked r))"

text \<open>\<open>granted uid tid code d\<close>: an active membership of the user in the workspace holds a role of
  that workspace which grants the permission.\<close>

definition granted :: "nat \<Rightarrow> nat \<Rightarrow> string \<Rightarrow> db \<Rightarrow> bool" where
  "granted uid tid code d =
     (\<exists>p\<in>set (permissions d). \<exists>rp\<in>set (role_permissions d). \<exists>mr\<in>set (membership_roles d).
        \<exists>m\<in>set (tenant_memberships d).
          perm_code p = code \<and> rp_permission_id rp = perm_id p \<and> rp_tenant_id rp = tid
          \<and> mr_role_id mr = rp_role_id rp \<and> mr_tenant_id mr = tid
          \<and> mem_id m = mr_membership_id mr \<and> mem_user_id m = uid \<and> mem_tenant_id m = tid
          \<and> mem_status m = M_ACTIVE)"

lemma reads_decode [reads_intros]: "reads (decode_access_token js tok)"
  unfolding decode_access_token_def
  by (intro reads_intros)
     (auto intro!: reads_intros split: sum.split jwt_failure.split option.split prod.split)

lemma wp_principal:
  "wp (get_principal js creds)
     (\<lambda>p v. authenticated (usr_id (pr_user p)) (w_db w) \<and> w_db v = w_db w \<and> w_user v = Some (usr_id (pr_user p))
        \<and> pr_user p \<in> set (users (w_db w)) \<and> w_tenant v = w_tenant w) (\<lambda>_ _. True) w"
proof (cases creds)
  case (Some cr)
  show ?thesis
    unfolding Some get_principal_def
    by (simp add: wp_simps)
       (intro impI wp_reads [OF reads_decode],
        auto simp: authenticated_def wp_simps set_context_user_def intro!: wp_session_for_user wp_user_by_id, blast+)
qed (simp add: get_principal_def wp_simps)

lemma codes_granted:
  "\<lbrakk>code \<in> set (remdups (map perm_code (filter
       (\<lambda>p. list_ex (\<lambda>rp. rp_permission_id rp = perm_id p
              \<and> grants uid tid (rls_memberships v) (rls_visible mr_tenant_id t (membership_roles d)) rp)
            (rls_visible rp_tenant_id t (role_permissions d))) (permissions d)))); w_db v = d\<rbrakk>
   \<Longrightarrow> granted uid tid code d"
  unfolding granted_def grants_def rls_memberships_def rls_visible_def list_ex_iff
  by (fastforce split: option.splits)

lemma wp_tenant_context:
  assumes "requested = Some tid"
  shows "wp (get_tenant_context p requested)
     (\<lambda>c v. w_db v = w_db w \<and> w_tenant v = Some (ten_id (tc_tenant c)) \<and> ten_id (tc_tenant c) = tid
        \<and> tc_tenant c \<in> set (tenants (w_db w)) \<and> ten_status (tc_tenant c) = T_ACTIVE
        \<and> tc_membership c \<in> set (tenant_memberships (w_db w)) \<and> mem_status (tc_membership c) = M_ACTIVE
        \<and> mem_user_id (tc_membership c) = usr_id (pr_user p) \<and> mem_tenant_id (tc_membership c) = tid
        \<and> (\<forall>code\<in>set (tc_permissions c). granted (usr_id (pr_user p)) tid code (w_db w)))
     (\<lambda>_ _. True) w"
proof -
  have m: "wp (active_membership uid tid)
      (\<lambda>m v. v = w \<and> (\<forall>x. m = Some x \<longrightarrow> x \<in> set (tenant_memberships (w_db w)) \<and> mem_status x = M_ACTIVE
          \<and> mem_user_id x = uid \<and> mem_tenant_id x = tid)) (\<lambda>_ _. True) w" for uid
    unfolding active_membership_def by (simp add: wp_simps) (auto intro!: wp_one_row simp: rls_memberships_def)
  have t: "wp (tenant_by_id tid) (\<lambda>t v. v = w \<and> (\<forall>x. t = Some x \<longrightarrow> x \<in> set (tenants (w_db w)) \<and> ten_id x = tid))
      (\<lambda>_ _. True) w"
    unfolding tenant_by_id_def by (simp add: wp_simps) (auto intro!: wp_one_row)
  show ?thesis
    unfolding assms get_tenant_context_def option.case wp_ebind
  proof (rule wp_mono [OF m], safe)
    fix x
    assume x: "\<forall>y. x = Some y \<longrightarrow> y \<in> set (tenant_memberships (w_db w)) \<and> mem_status y = M_ACTIVE
          \<and> mem_user_id y = usr_id (pr_user p) \<and> mem_tenant_id y = tid"
    show "wp (case x of None \<Rightarrow> raise (err TenantAccessError)
          | Some m \<Rightarrow>
              ebind (tenant_by_id tid) (\<lambda>t. case t of
                None \<Rightarrow> raise (AppExn (coded_error TenantAccessError ''This workspace is not active''
                           ''TENANT_INACTIVE'' [(''status'', JStr ''MISSING'')]))
              | Some t \<Rightarrow>
                  ethen (raise_if (ten_status t \<noteq> T_ACTIVE) (tenant_inactive (ten_status t))) (
                  ethen (set_tenant_context (Some (ten_id t)) (Some (usr_id (pr_user p)))) (
                  ethen (set_context_tenant (Some (ten_id t))) (
                  ebind (effective_permissions (usr_id (pr_user p)) (ten_id t)) (\<lambda>perms.
                    ret \<lparr>tc_tenant = t, tc_membership = m, tc_permissions = perms\<rparr>))))))
     (\<lambda>c v. w_db v = w_db w \<and> w_tenant v = Some (ten_id (tc_tenant c)) \<and> ten_id (tc_tenant c) = tid
        \<and> tc_tenant c \<in> set (tenants (w_db w)) \<and> ten_status (tc_tenant c) = T_ACTIVE
        \<and> tc_membership c \<in> set (tenant_memberships (w_db w)) \<and> mem_status (tc_membership c) = M_ACTIVE
        \<and> mem_user_id (tc_membership c) = usr_id (pr_user p) \<and> mem_tenant_id (tc_membership c) = tid
        \<and> (\<forall>code\<in>set (tc_permissions c). granted (usr_id (pr_user p)) tid code (w_db w)))
     (\<lambda>_ _. True) w"
    proof (cases x)
      case (Some y)
      show ?thesis
        unfolding Some option.case wp_ebind
        using x Some
        by (intro wp_mono [OF t])
           (auto simp: wp_simps effective_permissions_def set_context_tenant_def simp del: set_remdups set_map
             intro: codes_granted split: option.split)
    qed (simp add: wp_simps)
  qed
qed

lemma lift_sum_Inr_iff: "lift_sum x s = (Inr a, t) \<longleftrightarrow> x = Inr a \<and> t = s"
  by (auto simp: lift_sum_def ret_def raise_def split: sum.split)

lemma scope_Inr: "session_scope t u m w = (Inr a, v) \<Longrightarrow> \<exists>x. m (open_session t u w) = (Inr a, x)"
  by (auto simp: session_scope_def split: sum.splits prod.splits)


text \<open>A revoked session is worth nothing, its access tokens included.  A bearer token whose claims
  name a session that is revoked (by logout, rotation, replay or a password change) is refused
  with SESSION_REVOKED however long it is still valid, and nothing changes.\<close>

theorem revoked_session_is_refused:
  assumes "decode_access_token js token w = (Inr c, w)" and "token \<noteq> []" and "str_lower scheme = ''bearer''"
    and "distinct (map rs_id (refresh_sessions (w_db w)))" and "r \<in> set (refresh_sessions (w_db w))"
    and "rs_id r = ac_session_id c" and "rs_revoked r"
  shows "get_principal js (Some \<lparr>cr_scheme = scheme, cr_credentials = token\<rparr>) w
    = (Inl (err_coded AuthenticationError ''Session is no longer valid'' ''SESSION_REVOKED''), w)"
proof -
  have "filter (\<lambda>s. rs_id s = ac_session_id c) (refresh_sessions (w_db w)) = [r]"
    using unique_row [OF assms(4,5)] assms(6) by simp
  moreover have "filter (\<lambda>s. rs_id s = ac_session_id c \<and> rs_user_id s = ac_user_id c) (refresh_sessions (w_db w))
      = filter (\<lambda>s. rs_user_id s = ac_user_id c) (filter (\<lambda>s. rs_id s = ac_session_id c) (refresh_sessions (w_db w)))"
    by simp
  ultimately have "filter (\<lambda>s. rs_id s = ac_session_id c \<and> rs_user_id s = ac_user_id c) (refresh_sessions (w_db w))
      = (if rs_user_id r = ac_user_id c then [r] else [])"
    by (simp only: filter.simps)
  then have "session_for_user (ac_session_id c) (ac_user_id c) w
      = (Inr (if rs_user_id r = ac_user_id c then Some r else None), w)"
    by (simp add: session_for_user_def comp_defs query_def)
  then show ?thesis
    using assms(1-3,7) by (auto simp: get_principal_def comp_defs)
qed

definition demo_db :: db where
  "demo_db = empty_db\<lparr>users := [demo_user], refresh_sessions := [demo_session 12 10],
     tenants := [\<lparr>ten_id = 7, ten_name = ''Acme'', ten_slug = ''acme'', ten_status = T_ACTIVE, ten_settings = [],
                  ten_created_by_user_id = None, ten_created_at = 0, ten_updated_at = 0\<rparr>],
     tenant_memberships := [\<lparr>mem_id = 21, mem_tenant_id = 7, mem_user_id = 4, mem_status = M_ACTIVE,
                  mem_is_owner = False, mem_notes = None, mem_created_at = 0, mem_updated_at = 0\<rparr>],
     permissions := [\<lparr>perm_id = 31, perm_code = ''publisher.read'', perm_resource = ''publisher'',
                  perm_action = ''read'', perm_description = None\<rparr>],
     role_permissions := [\<lparr>rp_id = 41, rp_tenant_id = 7, rp_role_id = 51, rp_permission_id = 31\<rparr>],
     membership_roles := [\<lparr>mr_id = 61, mr_tenant_id = 7, mr_membership_id = 21, mr_role_id = 51\<rparr>]\<rparr>"

definition demo_gate_world :: world where
  "demo_gate_world = initial_world\<lparr>w_db := demo_db, w_committed := demo_db, w_now := 60, w_next := 100\<rparr>"

definition demo_token :: string where
  "demo_token = jl_encode (jw_lib demo_jwt) (token_payload demo_jwt
     \<lparr>ac_user_id = 4, ac_session_id = 12, ac_token_id = 13, ac_tenant_id = Some 7, ac_issued_at = 50, ac_expires_at = 950\<rparr>)
     (jw_secret demo_jwt) (jw_algorithm demo_jwt)"

definition demo_bearer :: credentials where
  "demo_bearer = \<lparr>cr_scheme = ''Bearer'', cr_credentials = demo_token\<rparr>"

lemma demo_token_decodes:
  assumes "50 \<le> w_now w" and "w_now w < 960"
  shows "decode_access_token demo_jwt demo_token w = (Inr \<lparr>ac_user_id = 4, ac_session_id = 12, ac_token_id = 13,
     ac_tenant_id = Some 7, ac_issued_at = 50, ac_expires_at = 950\<rparr>, w)"
  using assms
  by (simp add: demo_token_def decode_access_token_def comp_defs now_def demo_jwt_def demo_jwt_library_def
      token_payload_def tenant_claim_def)

lemma demo_token_nonempty [simp]: "demo_token \<noteq> []"
  by (simp add: demo_token_def demo_jwt_def demo_jwt_library_def)

lemma wp_demo_token:
  assumes "50 \<le> w_now w" and "w_now w < 960"
  shows "wp (decode_access_token demo_jwt demo_token) Q E w = Q \<lparr>ac_user_id = 4, ac_session_id = 12,
     ac_token_id = 13, ac_tenant_id = Some 7, ac_issued_at = 50, ac_expires_at = 950\<rparr> w"
  using demo_token_decodes [OF assms] by (simp add: wp_def)

lemma demo_lower [simp]: "str_lower ''Bearer'' = ''bearer''"
  by code_simp

lemmas gate_defs = get_principal_def session_for_user_def user_by_id_def set_context_user_def
  requested_tenant_id_def claimed_tenant_id_def get_tenant_context_def active_membership_def tenant_by_id_def
  set_context_tenant_def effective_permissions_def require_permission_def has_permission_def


theorem revoked_session_is_refused_witness:
  "fst (get_principal demo_jwt (Some demo_bearer) ((demo_auth_world demo_rotated 17)\<lparr>w_db :=
        demo_db\<lparr>refresh_sessions := demo_rotated\<rparr>\<rparr>))
   = Inl (err_coded AuthenticationError ''Session is no longer valid'' ''SESSION_REVOKED'')"
proof -
  let ?w = "(demo_auth_world demo_rotated 17)\<lparr>w_db := demo_db\<lparr>refresh_sessions := demo_rotated\<rparr>\<rparr>"
  have "decode_access_token demo_jwt demo_token ?w = (Inr \<lparr>ac_user_id = 4, ac_session_id = 12,
     ac_token_id = 13, ac_tenant_id = Some 7, ac_issued_at = 50, ac_expires_at = 950\<rparr>, ?w)"
    by (rule demo_token_decodes) simp_all
  from revoked_session_is_refused [OF this, of "''Bearer''" "revoked_row reason_rotated 50 (demo_session 12 10)"]
  show ?thesis by (simp add: demo_rotated_def demo_bearer_def)
qed

section \<open>Password changes\<close>

definition signed_out :: "nat \<Rightarrow> int \<Rightarrow> refresh_session_row \<Rightarrow> refresh_session_row" where
  "signed_out uid n s =
     (if rs_user_id s = uid \<and> \<not> rs_revoked s then revoked_row reason_password_changed n s else s)"

definition revived :: "refresh_session_row \<Rightarrow> refresh_session_row" where
  "revived s = s\<lparr>rs_revoked := False, rs_revoked_reason := None, rs_revoked_at := None\<rparr>"

lemma signed_out_simps [simp]:
  "rs_id (signed_out uid n s) = rs_id s" "rs_user_id (signed_out uid n s) = rs_user_id s"
  "rs_revoked (signed_out uid n s) \<longleftrightarrow> rs_revoked s \<or> rs_user_id s = uid"
  "rs_id (revived s) = rs_id s" "rs_user_id (revived s) = rs_user_id s" "\<not> rs_revoked (revived s)"
  by (auto simp: signed_out_def revived_def)

lemma signed_out_other: "rs_user_id s \<noteq> uid \<Longrightarrow> signed_out uid n s = s"
  by (simp add: signed_out_def)

lemma wp_sign_out:
  assumes "distinct (map rs_id (refresh_sessions (w_db w)))" and "r \<in> set (refresh_sessions (w_db w))"
    and "rs_user_id r = uid"
  shows "wp (ebind (revoke_all_for_user uid reason_password_changed) (\<lambda>k. keep_current (rs_id r) uid k))
     (\<lambda>k v. refresh_sessions (w_db v) = row_put rs_id (revived (signed_out uid (w_now w) r))
               (map (signed_out uid (w_now w)) (refresh_sessions (w_db w)))
        \<and> k = length (filter (\<lambda>s. rs_user_id s = uid \<and> \<not> rs_revoked s) (refresh_sessions (w_db w))) - 1)
     (\<lambda>_ _. True) w"
proof -
  let ?ss = "map (signed_out uid (w_now w)) (refresh_sessions (w_db w))"
  let ?r = "signed_out uid (w_now w) r"
  have "filter (\<lambda>s. rs_id s = rs_id r) ?ss = [?r]"
    using unique_row [of rs_id ?ss ?r] assms(1,2) by (simp add: comp_def)
  moreover have "filter (\<lambda>s. rs_id s = rs_id r \<and> rs_user_id s = uid) ?ss
      = filter (\<lambda>s. rs_user_id s = uid) (filter (\<lambda>s. rs_id s = rs_id r) ?ss)"
    by (simp only: filter_filter)
  ultimately have one: "filter (\<lambda>s. rs_id s = rs_id r \<and> rs_user_id s = uid) ?ss = [?r]"
    using assms(3) by (simp only: filter.simps signed_out_simps simp_thms if_True)
  have map: "map (\<lambda>s. if rs_user_id s = uid \<and> \<not> rs_revoked s then revoked_row reason_password_changed n s else s) ss
      = map (signed_out uid n) ss" for n ss
    by (simp add: signed_out_def)
  show ?thesis
    by (simp add: revoke_all_for_user_def wp_simps map keep_current_def session_for_user_def wp_scalar one Let_def
        revived_def)
qed

text \<open>A password change signs out every other device and only those.  When it returns, the caller
  had proved the current password, of the caller's sessions exactly the calling one is live,
  every session of every other user is as it was, and the number returned counts the other
  sessions that were live.\<close>

theorem password_change_keeps_one_session:
  assumes "change_password sv u current new True (Some (rs_id r)) w = (Inr k, v)"
    and "distinct (map rs_id (refresh_sessions (w_db w)))" and "r \<in> set (refresh_sessions (w_db w))"
    and "rs_user_id r = usr_id u"
  shows "ph_verify (as_hasher sv) current (usr_password_hash u)
    \<and> (\<forall>s\<in>set (refresh_sessions (w_db v)). rs_user_id s = usr_id u
          \<longrightarrow> (\<not> rs_revoked s \<longleftrightarrow> rs_id s = rs_id r))
    \<and> map rs_id (refresh_sessions (w_db v)) = map rs_id (refresh_sessions (w_db w))
    \<and> filter (\<lambda>s. rs_user_id s \<noteq> usr_id u) (refresh_sessions (w_db v))
        = filter (\<lambda>s. rs_user_id s \<noteq> usr_id u) (refresh_sessions (w_db w))
    \<and> k = length (filter (\<lambda>s. rs_user_id s = usr_id u \<and> \<not> rs_revoked s) (refresh_sessions (w_db w))) - 1"
proof -
  let ?uid = "usr_id u" and ?ss = "refresh_sessions (w_db w)"
  let ?out = "row_put rs_id (revived (signed_out ?uid (w_now w) r)) (map (signed_out ?uid (w_now w)) ?ss)"
  obtain n where n: "n = length (filter (\<lambda>s. rs_user_id s = ?uid \<and> \<not> rs_revoked s) ?ss) - 1" by simp
  have sweep: "wp (ebind (revoke_all_for_user ?uid reason_password_changed) (\<lambda>k. keep_current (rs_id r) ?uid k))
      (\<lambda>k v. refresh_sessions (w_db v) = ?out \<and> k = n) (\<lambda>_ _. True) x"
    if "refresh_sessions (w_db x) = ?ss" "w_now x = w_now w" for x
    using wp_sign_out [of x r ?uid] assms(2-4) unfolding that n by simp
  have "wp (change_password sv u current new True (Some (rs_id r)))
      (\<lambda>k v. ph_verify (as_hasher sv) current (usr_password_hash u) \<and> refresh_sessions (w_db v) = ?out \<and> k = n)
      (\<lambda>_ _. True) w"
    unfolding change_password_def hash_password_def save_user_def flush_users_def
    by (auto simp: wp_simps sweep [unfolded wp_ebind] split: sum.split)
  from wp_Inr [OF this assms(1)]
  have v: "ph_verify (as_hasher sv) current (usr_password_hash u)" "refresh_sessions (w_db v) = ?out" "k = n"
    by simp_all
  have other: "filter (\<lambda>s. rs_user_id s \<noteq> ?uid) (map f ss) = filter (\<lambda>s. rs_user_id s \<noteq> ?uid) ss"
    if "\<And>s. s \<in> set ss \<Longrightarrow> rs_user_id (f s) = rs_user_id s \<and> (rs_user_id s \<noteq> ?uid \<longrightarrow> f s = s)" for f ss
    using that by (induction ss) auto
  have rows: "?out = map (\<lambda>s. if rs_id s = rs_id r then revived (signed_out ?uid (w_now w) r)
      else signed_out ?uid (w_now w) s) ?ss"
    by (simp add: row_put_def comp_def)
  have same: "s = r" if "s \<in> set ?ss" "rs_id s = rs_id r" for s
    using assms(2,3) that by (metis distinct_map inj_onD)
  have "filter (\<lambda>s. rs_user_id s \<noteq> ?uid) ?out = filter (\<lambda>s. rs_user_id s \<noteq> ?uid) ?ss"
    unfolding rows by (rule other) (auto simp: signed_out_other assms(4) dest: same)
  then show ?thesis
    using v n assms(4) by (auto simp: rows)
qed

theorem password_change_keeps_one_session_witness:
  "\<exists>k v. change_password demo_auth demo_user ''pw'' ''Tr0ub4dor&Three'' True (Some 15)
        (demo_gate_world\<lparr>w_db := demo_db\<lparr>refresh_sessions := [demo_session 15 14, demo_session 12 10]\<rparr>\<rparr>) = (Inr k, v)
     \<and> k = 1 \<and> (\<forall>s\<in>set (refresh_sessions (w_db v)). rs_user_id s = 4 \<longrightarrow> (\<not> rs_revoked s \<longleftrightarrow> rs_id s = 15))"
proof -
  let ?w = "demo_gate_world\<lparr>w_db := demo_db\<lparr>refresh_sessions := [demo_session 15 14, demo_session 12 10]\<rparr>\<rparr>"
  have strong: "validate_strength default_policy ''Tr0ub4dor&Three'' [''ada''] = Inr ()" by code_simp
  have "wp (change_password demo_auth demo_user ''pw'' ''Tr0ub4dor&Three'' True (Some 15)) (\<lambda>_ _. True) (\<lambda>_ _. False) ?w"
    by (simp add: change_password_def hash_password_def save_user_def flush_users_def wp_simps strong some_texts_def
        truthy_def demo_auth_def demo_user_def demo_gate_world_def demo_db_def empty_db_def users_ok_def row_put_def
        keep_current_def session_for_user_def wp_scalar revoke_all_for_user_def sessions_ok_def Let_def)
  from wp_only_returns [OF this]
  obtain k v where c: "change_password demo_auth demo_user ''pw'' ''Tr0ub4dor&Three'' True (Some 15) ?w = (Inr k, v)"
    by (elim exE conjE)
  have "k = 1 \<and> (\<forall>s\<in>set (refresh_sessions (w_db v)). rs_user_id s = 4 \<longrightarrow> (\<not> rs_revoked s \<longleftrightarrow> rs_id s = 15))"
    using password_change_keeps_one_session [of demo_auth demo_user "''pw''" "''Tr0ub4dor&Three''" "demo_session 15 14" ?w k v] c
    by simp
  then show ?thesis by (intro exI) (rule conjI [OF c])
qed

section \<open>Two refreshes at once\<close>

lemma raises_wp: "raises m \<Longrightarrow> wp m Q (\<lambda>_ _. True) w"
  by (auto simp: raises_def wp_def split: sum.split prod.split dest: spec [of _ w])

lemma wp_checked:
  "wp (refresh_check sv token)
     (\<lambda>(r, u, tid) v. refresh_sessions (w_db v) = refresh_sessions (w_db w) \<and> w_next v = w_next w
        \<and> r \<in> set (refresh_sessions (w_db w)) \<and> live r \<and> usr_id u = rs_user_id r
        \<and> rs_token_hash r = hash_refresh_token (as_digest sv) token)
     (\<lambda>_ _. True) w"
proof -
  have rest: "wp (restore_tenant i r) (\<lambda>_ v. refresh_sessions (w_db v) = refresh_sessions (w_db w) \<and> w_next v = w_next w)
      (\<lambda>_ _. True) w" for i r
    by (simp add: restore_tenant_def wp_simps active_membership_def split: option.split)
       (auto intro!: wp_one_row simp: wp_simps)
  show ?thesis
    unfolding refresh_check_def
    by (simp only: wp_ebind, rule wp_session_by_hash)
       (auto simp: wp_simps live_def dead_raise raises_wp intro!: wp_user_by_id wp_mono [OF rest])
qed

lemma wp_rotate:
  "wp (refresh_rotate sv (r, u, tid))
     (\<lambda>pair v. \<exists>a p. refresh_sessions (w_db v) = row_put rs_id (revoked_row reason_rotated (w_now w) r)
              (refresh_sessions (w_db w))
            @ [new_session (Suc (w_next w)) (usr_id u) (rs_family_id r)
                 (hash_refresh_token (as_digest sv) (tp_refresh_token pair)) tid a p (as_refresh_days sv) (w_now w)]
        \<and> Suc (w_next w) < w_next v \<and> sessions_ok (w_db v))
     (\<lambda>_ _. True) w"
  by (simp add: refresh_rotate_def revoke_session_row_def generate_refresh_token_def issue_pair_def
      create_access_token_def try_audit_for_tenant_def audit_as_def wp_simps Let_def split: option.split)
     (auto simp: sessions_ok_def)

text \<open>Rotation does not survive concurrency.  The row of the presented token is read without a
  lock and revoked without asking whether it still was live.  When two requests with the same
  token both pass their checks before either writes, and the second writes after the first
  has committed, both succeed and the family has two live tokens, the state the rotation
  exists to exclude.\<close>

theorem concurrent_refresh_forks_family:
  assumes "families (w_next w) (refresh_sessions (w_db w))"
    and "refresh_check sv token w = (Inr (r, u, tid), w1)"
    and "refresh_rotate sv (r, u, tid) w1 = (Inr first, w2)"
    and "refresh_rotate sv (r, u, tid) (w2\<lparr>w_committed := w_db w2, w_ctx := c, w_now := n\<rparr>) = (Inr second, w3)"
  shows "\<exists>a b. a \<in> set (refresh_sessions (w_db w3)) \<and> b \<in> set (refresh_sessions (w_db w3)) \<and> a \<noteq> b
    \<and> rs_family_id a = rs_family_id b \<and> \<not> rs_revoked a \<and> \<not> rs_revoked b"
proof -
  have r: "r \<in> set (refresh_sessions (w_db w))" "w_next w1 = w_next w"
    using wp_Inr [OF wp_checked assms(2)] by simp_all
  obtain x y where t2: "refresh_sessions (w_db w2) = row_put rs_id (revoked_row reason_rotated (w_now w1) r)
      (refresh_sessions (w_db w1)) @ [x]" and x: "rs_id x = Suc (w_next w1)" "rs_family_id x = rs_family_id r" "\<not> rs_revoked x"
    and n2: "Suc (w_next w1) < w_next w2"
    using wp_Inr [OF wp_rotate assms(3)] by fastforce
  obtain y where t3: "refresh_sessions (w_db w3) = row_put rs_id (revoked_row reason_rotated n r)
      (refresh_sessions (w_db w2)) @ [y]" and y: "rs_id y = Suc (w_next w2)" "rs_family_id y = rs_family_id r" "\<not> rs_revoked y"
    using wp_Inr [OF wp_rotate assms(4)] by fastforce
  have "x \<in> set (refresh_sessions (w_db w3))"
    using r assms(1) x(1) by (fastforce simp: t3 t2 families_def below_def intro!: row_put_other)
  moreover have "y \<in> set (refresh_sessions (w_db w3))" by (simp add: t3)
  moreover have "x \<noteq> y" using x(1) y(1) n2 by auto
  ultimately show ?thesis using x y by (intro exI [of _ x] exI [of _ y]) simp
qed

theorem concurrent_refresh_forks_family_witness:
  "\<exists>x w1 p w2 q w3. refresh_check demo_auth (replicate 10 CHR ''r'') demo_gate_world = (Inr x, w1)
     \<and> refresh_rotate demo_auth x w1 = (Inr p, w2)
     \<and> refresh_rotate demo_auth x (w2\<lparr>w_committed := w_db w2, w_ctx := no_context, w_now := 61\<rparr>) = (Inr q, w3)
     \<and> (\<exists>a b. a \<in> set (refresh_sessions (w_db w3)) \<and> b \<in> set (refresh_sessions (w_db w3)) \<and> a \<noteq> b
          \<and> rs_family_id a = rs_family_id b \<and> \<not> rs_revoked a \<and> \<not> rs_revoked b)"
proof -
  let ?s = "demo_session 12 10" and ?tok = "replicate 10 CHR ''r''"
  let ?x = "(?s, demo_user, None :: nat option)"
  have fam: "families (w_next demo_gate_world) (refresh_sessions (w_db demo_gate_world))"
    by (simp add: families_def below_def kin_def demo_gate_world_def demo_db_def initial_world_def empty_db_def)
  have "wp (refresh_check demo_auth ?tok) (\<lambda>x v. x = ?x \<and> v = demo_gate_world\<lparr>w_user := Some 4\<rparr>) (\<lambda>_ _. False) demo_gate_world"
    by (simp add: refresh_defs wp_simps wp_scalar demo_gate_world_def demo_db_def empty_db_def initial_world_def)
  from wp_only_returns [OF this]
  have c: "refresh_check demo_auth ?tok demo_gate_world = (Inr ?x, demo_gate_world\<lparr>w_user := Some 4\<rparr>)" by auto
  let ?new = "new_session 101 4 11 (replicate 100 CHR ''r'') None None None 30 60"
  let ?two = "[revoked_row reason_rotated 60 ?s, ?new]"
  have "wp (refresh_rotate demo_auth ?x) (\<lambda>_ v. refresh_sessions (w_db v) = ?two \<and> w_next v = 103) (\<lambda>_ _. False)
      (demo_gate_world\<lparr>w_user := Some 4\<rparr>)"
    by (simp add: auth_run_defs refresh_defs wp_simps Let_def row_put_def sessions_ok_def or_else_def truthy_def
        no_context_def demo_gate_world_def demo_db_def empty_db_def initial_world_def)
  from wp_only_returns [OF this]
  obtain p w2 where one: "refresh_rotate demo_auth ?x (demo_gate_world\<lparr>w_user := Some 4\<rparr>) = (Inr p, w2)"
    and w2: "refresh_sessions (w_db w2) = ?two" "w_next w2 = 103" by (elim exE conjE)
  have "wp (refresh_rotate demo_auth ?x) (\<lambda>_ _. True) (\<lambda>_ _. False)
      (w2\<lparr>w_committed := w_db w2, w_ctx := no_context, w_now := 61\<rparr>)"
    by (simp add: auth_run_defs refresh_defs wp_simps Let_def row_put_def sessions_ok_def or_else_def truthy_def
        no_context_def w2)
  from wp_only_returns [OF this]
  obtain q w3 where two: "refresh_rotate demo_auth ?x (w2\<lparr>w_committed := w_db w2, w_ctx := no_context, w_now := 61\<rparr>)
      = (Inr q, w3)" by (elim exE conjE)
  show ?thesis
    by (intro exI) (rule conjI [OF c conjI [OF one conjI [OF two concurrent_refresh_forks_family [OF fam c one two]]]])
qed

text \<open>C18: a stolen token is worth at most one rotation.  After a refresh with a token has succeeded,
  anyone who presents that token again, at whatever later time, gets TOKEN_REVOKED, and from
  then on no token of that login is live: neither the one the thief minted nor the one the
  owner holds.\<close>

theorem replay_after_rotation_ends_login:
  assumes "families (w_next w) (refresh_sessions (w_committed w))"
    and "get_unscoped_session (refresh sv token) w = (Inr pair, w1)"
  shows "\<exists>r\<in>set (refresh_sessions (w_committed w)). rs_token_hash r = hash_refresh_token (as_digest sv) token
    \<and> \<not> rs_revoked r \<and> (\<exists>v. get_unscoped_session (refresh sv token) (w1\<lparr>w_now := n\<rparr>)
        = (Inl (err_msg TokenRevokedError ''This refresh token has already been used''), v)
      \<and> (\<forall>s\<in>set (refresh_sessions (w_committed v)). rs_family_id s = rs_family_id r \<longrightarrow> rs_revoked s))"
proof -
  let ?o = "open_session None None w"
  obtain x where "refresh sv token ?o = (Inr pair, x)" and w1: "w1 = close_session (x\<lparr>w_committed := w_db x\<rparr>)"
    using assms(2) by (auto simp: get_unscoped_session_def session_scope_def session_commit_def session_rollback_def
        modify_def split: sum.splits prod.splits)
  then obtain r u tid y where check: "refresh_check sv token ?o = (Inr (r, u, tid), y)"
    and rot: "refresh_rotate sv (r, u, tid) y = (Inr pair, x)"
    by (auto simp: refresh_def ebind_Inr_iff)
  from wp_Inr [OF wp_checked check]
  have r: "r \<in> set (refresh_sessions (w_committed w))" "\<not> rs_revoked r"
      "rs_token_hash r = hash_refresh_token (as_digest sv) token"
    and y: "refresh_sessions (w_db y) = refresh_sessions (w_committed w)"
    by (simp_all add: open_session_def live_def)
  let ?r = "revoked_row reason_rotated (w_now y) r"
  from wp_Inr [OF wp_rotate rot]
  have "?r \<in> set (refresh_sessions (w_db x))" "sessions_ok (w_db x)"
    using r(1) by (auto simp: y intro!: row_put_mem)
  then have "?r \<in> set (refresh_sessions (w_committed (w1\<lparr>w_now := n\<rparr>)))" "sessions_ok (w_committed (w1\<lparr>w_now := n\<rparr>))"
    by (simp_all add: w1 close_session_def)
  from replay_kills_family [OF this(2,1), of sv token] r
  show ?thesis by (intro bexI [OF _ r(1)]) auto
qed

theorem replay_after_rotation_ends_login_witness:
  "\<exists>pair w1 e v. get_unscoped_session (refresh demo_auth (replicate 10 CHR ''r'')) demo_gate_world = (Inr pair, w1)
     \<and> get_unscoped_session (refresh demo_auth (replicate 10 CHR ''r'')) (w1\<lparr>w_now := 99\<rparr>) = (Inl e, v)
     \<and> (\<forall>s\<in>set (refresh_sessions (w_committed v)). rs_family_id s = 11 \<longrightarrow> rs_revoked s)"
proof -
  let ?o = "open_session None None demo_gate_world"
  have "wp (refresh demo_auth (replicate 10 CHR ''r'')) (\<lambda>_ _. True) (\<lambda>_ _. False) ?o"
    by (simp add: auth_run_defs refresh_defs wp_simps wp_scalar Let_def row_put_def sessions_ok_def or_else_def truthy_def
        no_context_def demo_gate_world_def demo_db_def empty_db_def initial_world_def open_session_def)
  from wp_only_returns [OF this]
  obtain pair x where "refresh demo_auth (replicate 10 CHR ''r'') ?o = (Inr pair, x)" by (elim exE conjE)
  from scope_return [where body = "refresh demo_auth (replicate 10 CHR ''r'')", OF this]
  have "\<exists>w1. get_unscoped_session (refresh demo_auth (replicate 10 CHR ''r'')) demo_gate_world = (Inr pair, w1)"
    unfolding get_unscoped_session_def by (rule exI)
  then obtain w1 where
    g: "get_unscoped_session (refresh demo_auth (replicate 10 CHR ''r'')) demo_gate_world = (Inr pair, w1)"
    by (elim exE)
  have ss: "refresh_sessions (w_committed demo_gate_world) = [demo_session 12 10]"
    by (simp add: demo_gate_world_def demo_db_def)
  have "families (w_next demo_gate_world) (refresh_sessions (w_committed demo_gate_world))"
    by (simp add: ss) (simp add: families_def below_def kin_def demo_gate_world_def)
  from replay_after_rotation_ends_login [OF this g, of 99]
  obtain v where v: "get_unscoped_session (refresh demo_auth (replicate 10 CHR ''r'')) (w1\<lparr>w_now := 99\<rparr>)
      = (Inl (err_msg TokenRevokedError ''This refresh token has already been used''), v)"
    "\<forall>s\<in>set (refresh_sessions (w_committed v)). rs_family_id s = 11 \<longrightarrow> rs_revoked s"
    by (auto simp: ss)
  show ?thesis by (intro exI) (rule conjI [OF g conjI [OF v]])
qed

end
