(* ===== verification/PermCatalog.thy ===== *)
theory PermCatalog
  imports Enums Errors
begin

text \<open>
  \<open>rbac/catalog.py\<close>: every permission code, the catalog that describes them and the five
  seeded roles.  A frozenset of permissions is the list of its members in catalog order,
  without repetitions.  The lemmas show the codes are distinct and that the roles nest.
\<close>

section \<open>Permissions\<close>

datatype (plugins only: code size) perm =
    P_TENANT_READ | P_TENANT_UPDATE | P_TENANT_DELETE | P_TENANT_TRANSFER_OWNERSHIP
  | P_USER_READ | P_USER_CREATE | P_USER_UPDATE | P_USER_DELETE | P_ROLE_READ | P_ROLE_CREATE
  | P_ROLE_UPDATE | P_ROLE_DELETE | P_PERMISSION_READ | P_CLIENT_WEBSITE_READ
  | P_CLIENT_WEBSITE_CREATE | P_CLIENT_WEBSITE_UPDATE | P_CLIENT_WEBSITE_DELETE
  | P_CAMPAIGN_READ | P_CAMPAIGN_CREATE | P_CAMPAIGN_UPDATE | P_CAMPAIGN_DELETE
  | P_PUBLISHER_READ | P_PUBLISHER_CREATE | P_PUBLISHER_UPDATE | P_PUBLISHER_DELETE
  | P_PUBLISHER_DISCOVER | P_PUBLISHER_QUALIFY | P_OPPORTUNITY_READ | P_OPPORTUNITY_CREATE
  | P_OPPORTUNITY_UPDATE | P_OPPORTUNITY_DELETE | P_SUBMISSION_READ | P_SUBMISSION_CREATE
  | P_SUBMISSION_UPDATE | P_SUBMISSION_DELETE | P_SUBMISSION_APPROVE | P_SUBMISSION_VERIFY
  | P_CREDENTIAL_READ | P_CREDENTIAL_CREATE | P_CREDENTIAL_UPDATE | P_CREDENTIAL_DELETE
  | P_INTEGRATION_READ | P_INTEGRATION_CREATE | P_INTEGRATION_UPDATE | P_INTEGRATION_DELETE
  | P_AI_GENERATE | P_AI_USAGE_READ | P_AUDIT_READ | P_JOB_READ | P_JOB_CREATE

primrec perm_value :: "perm \<Rightarrow> string" where
  "perm_value P_TENANT_READ = ''tenant.read''"
| "perm_value P_TENANT_UPDATE = ''tenant.update''"
| "perm_value P_TENANT_DELETE = ''tenant.delete''"
| "perm_value P_TENANT_TRANSFER_OWNERSHIP = ''tenant.transfer_ownership''"
| "perm_value P_USER_READ = ''user.read''"
| "perm_value P_USER_CREATE = ''user.create''"
| "perm_value P_USER_UPDATE = ''user.update''"
| "perm_value P_USER_DELETE = ''user.delete''"
| "perm_value P_ROLE_READ = ''role.read''"
| "perm_value P_ROLE_CREATE = ''role.create''"
| "perm_value P_ROLE_UPDATE = ''role.update''"
| "perm_value P_ROLE_DELETE = ''role.delete''"
| "perm_value P_PERMISSION_READ = ''permission.read''"
| "perm_value P_CLIENT_WEBSITE_READ = ''client_website.read''"
| "perm_value P_CLIENT_WEBSITE_CREATE = ''client_website.create''"
| "perm_value P_CLIENT_WEBSITE_UPDATE = ''client_website.update''"
| "perm_value P_CLIENT_WEBSITE_DELETE = ''client_website.delete''"
| "perm_value P_CAMPAIGN_READ = ''campaign.read''"
| "perm_value P_CAMPAIGN_CREATE = ''campaign.create''"
| "perm_value P_CAMPAIGN_UPDATE = ''campaign.update''"
| "perm_value P_CAMPAIGN_DELETE = ''campaign.delete''"
| "perm_value P_PUBLISHER_READ = ''publisher.read''"
| "perm_value P_PUBLISHER_CREATE = ''publisher.create''"
| "perm_value P_PUBLISHER_UPDATE = ''publisher.update''"
| "perm_value P_PUBLISHER_DELETE = ''publisher.delete''"
| "perm_value P_PUBLISHER_DISCOVER = ''publisher.discover''"
| "perm_value P_PUBLISHER_QUALIFY = ''publisher.qualify''"
| "perm_value P_OPPORTUNITY_READ = ''opportunity.read''"
| "perm_value P_OPPORTUNITY_CREATE = ''opportunity.create''"
| "perm_value P_OPPORTUNITY_UPDATE = ''opportunity.update''"
| "perm_value P_OPPORTUNITY_DELETE = ''opportunity.delete''"
| "perm_value P_SUBMISSION_READ = ''submission.read''"
| "perm_value P_SUBMISSION_CREATE = ''submission.create''"
| "perm_value P_SUBMISSION_UPDATE = ''submission.update''"
| "perm_value P_SUBMISSION_DELETE = ''submission.delete''"
| "perm_value P_SUBMISSION_APPROVE = ''submission.approve''"
| "perm_value P_SUBMISSION_VERIFY = ''submission.verify''"
| "perm_value P_CREDENTIAL_READ = ''credential.read''"
| "perm_value P_CREDENTIAL_CREATE = ''credential.create''"
| "perm_value P_CREDENTIAL_UPDATE = ''credential.update''"
| "perm_value P_CREDENTIAL_DELETE = ''credential.delete''"
| "perm_value P_INTEGRATION_READ = ''integration.read''"
| "perm_value P_INTEGRATION_CREATE = ''integration.create''"
| "perm_value P_INTEGRATION_UPDATE = ''integration.update''"
| "perm_value P_INTEGRATION_DELETE = ''integration.delete''"
| "perm_value P_AI_GENERATE = ''ai.generate''"
| "perm_value P_AI_USAGE_READ = ''ai.usage_read''"
| "perm_value P_AUDIT_READ = ''audit.read''"
| "perm_value P_JOB_READ = ''job.read''"
| "perm_value P_JOB_CREATE = ''job.create''"

definition perm_members :: "perm list" where
  "perm_members =
     [P_TENANT_READ, P_TENANT_UPDATE, P_TENANT_DELETE, P_TENANT_TRANSFER_OWNERSHIP
      , P_USER_READ, P_USER_CREATE, P_USER_UPDATE, P_USER_DELETE, P_ROLE_READ, P_ROLE_CREATE
      , P_ROLE_UPDATE, P_ROLE_DELETE, P_PERMISSION_READ, P_CLIENT_WEBSITE_READ
      , P_CLIENT_WEBSITE_CREATE, P_CLIENT_WEBSITE_UPDATE, P_CLIENT_WEBSITE_DELETE
      , P_CAMPAIGN_READ, P_CAMPAIGN_CREATE, P_CAMPAIGN_UPDATE, P_CAMPAIGN_DELETE
      , P_PUBLISHER_READ, P_PUBLISHER_CREATE, P_PUBLISHER_UPDATE, P_PUBLISHER_DELETE
      , P_PUBLISHER_DISCOVER, P_PUBLISHER_QUALIFY, P_OPPORTUNITY_READ, P_OPPORTUNITY_CREATE
      , P_OPPORTUNITY_UPDATE, P_OPPORTUNITY_DELETE, P_SUBMISSION_READ, P_SUBMISSION_CREATE
      , P_SUBMISSION_UPDATE, P_SUBMISSION_DELETE, P_SUBMISSION_APPROVE, P_SUBMISSION_VERIFY
      , P_CREDENTIAL_READ, P_CREDENTIAL_CREATE, P_CREDENTIAL_UPDATE, P_CREDENTIAL_DELETE
      , P_INTEGRATION_READ, P_INTEGRATION_CREATE, P_INTEGRATION_UPDATE, P_INTEGRATION_DELETE
      , P_AI_GENERATE, P_AI_USAGE_READ, P_AUDIT_READ, P_JOB_READ, P_JOB_CREATE]"

lemma perm_cases_all: "p \<in> set perm_members"
  by (cases p) (simp_all add: perm_members_def)

interpretation perm_enum: text_enum perm_members perm_value
  by unfold_locales (simp_all add: perm_cases_all, code_simp)

text \<open>\<open>value.split(".", 1)\<close>: what stands before and after the first dot.\<close>

definition perm_resource_part :: "perm \<Rightarrow> string" where
  "perm_resource_part p = takeWhile (\<lambda>c. c \<noteq> CHR ''.'') (perm_value p)"

definition perm_action_part :: "perm \<Rightarrow> string" where
  "perm_action_part p = drop 1 (dropWhile (\<lambda>c. c \<noteq> CHR ''.'') (perm_value p))"

section \<open>The catalog\<close>

record permission_spec =
  ps_permission :: perm
  ps_description :: string

definition permission_catalog :: "permission_spec list" where
  "permission_catalog = map (\<lambda>(p, d). \<lparr>ps_permission = p, ps_description = d\<rparr>)
     [(P_TENANT_READ, ''View workspace settings and details''),
      (P_TENANT_UPDATE, ''Change workspace settings''),
      (P_TENANT_DELETE, ''Archive or delete the workspace''),
      (P_TENANT_TRANSFER_OWNERSHIP, ''Transfer workspace ownership''),
      (P_USER_READ, ''View workspace members''),
      (P_USER_CREATE, ''Add a member to the workspace''),
      (P_USER_UPDATE, ''Change a member'' @ [CHR 0x27] @ ''s status or roles''),
      (P_USER_DELETE, ''Remove a member from the workspace''),
      (P_ROLE_READ, ''View roles and their permissions''),
      (P_ROLE_CREATE, ''Create a custom role''),
      (P_ROLE_UPDATE, ''Change a custom role'' @ [CHR 0x27] @ ''s permissions''),
      (P_ROLE_DELETE, ''Delete a custom role''),
      (P_PERMISSION_READ, ''View the permission catalog''),
      (P_CLIENT_WEBSITE_READ, ''View client websites''),
      (P_CLIENT_WEBSITE_CREATE, ''Add a client website''),
      (P_CLIENT_WEBSITE_UPDATE, ''Edit a client website''),
      (P_CLIENT_WEBSITE_DELETE, ''Delete a client website''),
      (P_CAMPAIGN_READ, ''View campaigns''),
      (P_CAMPAIGN_CREATE, ''Create a campaign''),
      (P_CAMPAIGN_UPDATE, ''Edit a campaign''),
      (P_CAMPAIGN_DELETE, ''Delete a campaign''),
      (P_PUBLISHER_READ, ''View publishers''),
      (P_PUBLISHER_CREATE, ''Add a publisher''),
      (P_PUBLISHER_UPDATE, ''Edit a publisher''),
      (P_PUBLISHER_DELETE, ''Delete a publisher''),
      (P_PUBLISHER_DISCOVER, ''Run publisher discovery''),
      (P_PUBLISHER_QUALIFY, ''Run publisher qualification and scoring''),
      (P_OPPORTUNITY_READ, ''View link opportunities''),
      (P_OPPORTUNITY_CREATE, ''Create link opportunities''),
      (P_OPPORTUNITY_UPDATE, ''Edit or advance link opportunities''),
      (P_OPPORTUNITY_DELETE, ''Delete link opportunities''),
      (P_SUBMISSION_READ, ''View submissions''),
      (P_SUBMISSION_CREATE, ''Prepare a submission''),
      (P_SUBMISSION_UPDATE, ''Edit or advance a submission''),
      (P_SUBMISSION_DELETE, ''Delete a submission''),
      (P_SUBMISSION_APPROVE, ''Approve a submission for sending''),
      (P_SUBMISSION_VERIFY, ''Verify a published link''),
      (P_CREDENTIAL_READ, ''View configured provider credentials (metadata only)''),
      (P_CREDENTIAL_CREATE, ''Add a provider credential''),
      (P_CREDENTIAL_UPDATE, ''Replace or disable a provider credential''),
      (P_CREDENTIAL_DELETE, ''Delete a provider credential''),
      (P_INTEGRATION_READ, ''View integration configuration''),
      (P_INTEGRATION_CREATE, ''Add an integration configuration''),
      (P_INTEGRATION_UPDATE, ''Change an integration configuration''),
      (P_INTEGRATION_DELETE, ''Remove an integration configuration''),
      (P_AI_GENERATE, ''Generate listing content with AI''),
      (P_AI_USAGE_READ, ''View AI usage and cost accounting''),
      (P_AUDIT_READ, ''Read the audit trail''),
      (P_JOB_READ, ''View background jobs''),
      (P_JOB_CREATE, ''Enqueue background jobs'')]"

definition spec_code :: "permission_spec \<Rightarrow> string" where
  "spec_code s = perm_value (ps_permission s)"

definition all_permissions :: "perm list" where
  "all_permissions = remdups (map ps_permission permission_catalog)"

section \<open>Permission sets\<close>

definition perm_union :: "perm list \<Rightarrow> perm list \<Rightarrow> perm list" where
  "perm_union a b = a @ filter (\<lambda>p. p \<notin> set a) b"

definition perm_minus :: "perm list \<Rightarrow> perm list \<Rightarrow> perm list" where
  "perm_minus a b = filter (\<lambda>p. p \<notin> set b) a"

definition read_only :: "string list \<Rightarrow> perm list" where
  "read_only resources =
     filter (\<lambda>p. perm_resource_part p \<in> set resources \<and> perm_action_part p = ''read'') all_permissions"

definition all_for :: "string list \<Rightarrow> perm list" where
  "all_for resources = filter (\<lambda>p. perm_resource_part p \<in> set resources) all_permissions"

definition ownership_only :: "perm list" where
  "ownership_only = [P_TENANT_DELETE, P_TENANT_TRANSFER_OWNERSHIP]"

definition manager_permissions :: "perm list" where
  "manager_permissions =
     perm_union (perm_union
       (all_for [''client_website'', ''campaign'', ''publisher'', ''opportunity'', ''submission''])
       [P_AI_GENERATE, P_AI_USAGE_READ, P_JOB_READ, P_JOB_CREATE])
       (read_only [''tenant'', ''user'', ''role'', ''permission'', ''credential'', ''integration''])"

definition specialist_permissions :: "perm list" where
  "specialist_permissions =
     perm_union (read_only [''tenant'', ''user'', ''role'', ''permission'', ''client_website'',
         ''campaign'', ''publisher'', ''opportunity'', ''submission''])
       [P_OPPORTUNITY_CREATE, P_OPPORTUNITY_UPDATE, P_SUBMISSION_CREATE, P_SUBMISSION_UPDATE,
        P_PUBLISHER_CREATE, P_PUBLISHER_UPDATE, P_PUBLISHER_QUALIFY, P_AI_GENERATE, P_JOB_READ]"

definition viewer_permissions :: "perm list" where
  "viewer_permissions =
     read_only [''tenant'', ''user'', ''role'', ''permission'', ''client_website'', ''campaign'',
       ''publisher'', ''opportunity'', ''submission'']"

section \<open>Roles\<close>

record role_definition =
  rd_slug :: system_role_slug
  rd_name :: string
  rd_description :: string
  rd_permissions :: "perm list"

definition default_role_definitions :: "role_definition list" where
  "default_role_definitions =
     [\<lparr>rd_slug = R_OWNER, rd_name = ''Owner'',
        rd_description = ''Full access to the workspace, including ownership transfer and deletion.'',
        rd_permissions = all_permissions\<rparr>,
      \<lparr>rd_slug = R_ADMIN, rd_name = ''Admin'',
        rd_description = ''Administrative access to everything except ownership-level operations (deleting the workspace or transferring ownership).'',
        rd_permissions = perm_minus all_permissions ownership_only\<rparr>,
      \<lparr>rd_slug = R_SEO_MANAGER, rd_name = ''SEO Manager'',
        rd_description = ''Runs the full campaign, publisher, opportunity and submission lifecycle, including submission approval. Read-only on members, roles and credentials.'',
        rd_permissions = manager_permissions\<rparr>,
      \<lparr>rd_slug = R_SEO_SPECIALIST, rd_name = ''SEO Specialist'',
        rd_description = ''Works assigned campaigns and the submission queue. Cannot approve submissions, delete records, or access credentials.'',
        rd_permissions = specialist_permissions\<rparr>,
      \<lparr>rd_slug = R_VIEWER, rd_name = ''Viewer'',
        rd_description = ''Read-only access. Excludes credentials and the audit trail.'',
        rd_permissions = viewer_permissions\<rparr>]"

text \<open>\<open>permissions_for_role\<close>: \<open>Inl\<close> is the \<open>KeyError\<close> of a slug that is not a seeded role's.\<close>

definition permissions_for_role :: "string \<Rightarrow> string + perm list" where
  "permissions_for_role slug =
     (case find (\<lambda>d. system_role_slug_value (rd_slug d) = slug) default_role_definitions of
        None \<Rightarrow> Inl (''unknown system role: '' @ slug)
      | Some d \<Rightarrow> Inr (rd_permissions d))"

section \<open>Facts\<close>

text \<open>The computed sets, as the lists they evaluate to.\<close>

lemma distinct_perm_members: "distinct perm_members"
  using perm_enum.distinct_values by (simp add: distinct_map)

lemma all_permissions_members: "all_permissions = perm_members"
proof -
  have "map ps_permission permission_catalog = perm_members"
    unfolding permission_catalog_def perm_members_def by (simp only: list.map prod.case permission_spec.simps)
  then show ?thesis unfolding all_permissions_def by (simp only: distinct_remdups_id [OF distinct_perm_members])
qed

lemma all_permissions_all [simp]: "p \<in> set all_permissions"
  by (simp add: all_permissions_members perm_cases_all)

lemma distinct_all_permissions: "distinct all_permissions"
  by (simp add: all_permissions_def)

lemma perm_value_inj: "inj_on perm_value A"
  by (simp add: inj_on_def perm_enum.val_inj)

lemma in_perm_union [simp]: "p \<in> set (perm_union a b) \<longleftrightarrow> p \<in> set a \<or> p \<in> set b"
  by (auto simp: perm_union_def)

lemma in_perm_minus [simp]: "p \<in> set (perm_minus a b) \<longleftrightarrow> p \<in> set a \<and> p \<notin> set b"
  by (simp add: perm_minus_def)

lemma in_read_only: "p \<in> set (read_only rs) \<longleftrightarrow> perm_resource_part p \<in> set rs \<and> perm_action_part p = ''read''"
  by (simp add: read_only_def)

lemma in_all_for: "p \<in> set (all_for rs) \<longleftrightarrow> perm_resource_part p \<in> set rs"
  by (simp add: all_for_def)

lemma distinct_perm_union: "distinct a \<Longrightarrow> distinct b \<Longrightarrow> distinct (perm_union a b)"
  by (auto simp: perm_union_def)

lemma distinct_perm_filters: "distinct a \<Longrightarrow> distinct (perm_minus a b)" "distinct (read_only rs)" "distinct (all_for rs)"
  unfolding perm_minus_def read_only_def all_for_def
  by (simp_all only: distinct_filter distinct_all_permissions)

lemma distinct_perm_sets:
  "distinct (rd_permissions d)" if "d \<in> set default_role_definitions"
proof -
  have "distinct (perm_minus all_permissions ownership_only)"
    by (rule distinct_perm_filters(1) [OF distinct_all_permissions])
  moreover have "distinct manager_permissions" "distinct specialist_permissions"
    unfolding manager_permissions_def specialist_permissions_def
    by (intro distinct_perm_union distinct_perm_filters, simp)+
  moreover have "distinct viewer_permissions"
    unfolding viewer_permissions_def by (rule distinct_perm_filters)
  ultimately show ?thesis
    using that distinct_all_permissions by (auto simp: default_role_definitions_def)
qed

section \<open>The privilege ladder\<close>

lemma ladder_steps:
  "list_all (\<lambda>p. p \<in> set specialist_permissions) viewer_permissions"
  "list_all (\<lambda>p. p \<in> set manager_permissions) specialist_permissions"
  "list_all (\<lambda>p. p \<notin> set ownership_only) manager_permissions"
  by code_simp+

lemma ladder_limits:
  "list_all (\<lambda>p. p \<noteq> P_SUBMISSION_APPROVE \<and> perm_action_part p \<noteq> ''delete''
     \<and> perm_resource_part p \<noteq> ''credential'') specialist_permissions"
  "list_all (\<lambda>p. perm_action_part p = ''read'' \<and> perm_resource_part p \<notin> {''credential'', ''audit''})
     viewer_permissions"
  by code_simp+

lemma ladder_strict:
  "P_PUBLISHER_CREATE \<in> set specialist_permissions \<and> P_PUBLISHER_CREATE \<notin> set viewer_permissions"
  "P_SUBMISSION_APPROVE \<in> set manager_permissions \<and> P_SUBMISSION_APPROVE \<notin> set specialist_permissions"
  "P_TENANT_UPDATE \<notin> set manager_permissions"
  by code_simp+

text \<open>The seeded roles nest as the catalog documents: a Viewer's permissions are a Specialist's,
  those a Manager's, those an Admin's, those the Owner's, each step strictly.  The ownership
  permissions are the only ones an Admin lacks, approving a submission starts at the
  Manager, nobody below the Manager deletes anything or sees a credential, and the Viewer
  holds nothing but reads, without the credentials and the audit trail.\<close>

theorem privilege_ladder:
  "set viewer_permissions \<subset> set specialist_permissions
   \<and> set specialist_permissions \<subset> set manager_permissions
   \<and> set manager_permissions \<subset> set (perm_minus all_permissions ownership_only)
   \<and> set (perm_minus all_permissions ownership_only) = UNIV - {P_TENANT_DELETE, P_TENANT_TRANSFER_OWNERSHIP}
   \<and> P_SUBMISSION_APPROVE \<in> set manager_permissions
   \<and> set specialist_permissions \<subseteq> {p. p \<noteq> P_SUBMISSION_APPROVE \<and> perm_action_part p \<noteq> ''delete''
        \<and> perm_resource_part p \<noteq> ''credential''}
   \<and> set viewer_permissions \<subseteq> {p. perm_action_part p = ''read''
        \<and> perm_resource_part p \<notin> {''credential'', ''audit''}}"
proof (intro conjI psubsetI)
  show "set specialist_permissions \<subseteq> {p. p \<noteq> P_SUBMISSION_APPROVE \<and> perm_action_part p \<noteq> ''delete''
        \<and> perm_resource_part p \<noteq> ''credential''}"
    using ladder_limits(1) by (auto simp only: list_all_iff)
  show "set viewer_permissions \<noteq> set specialist_permissions" using ladder_strict(1) by auto
qed (use ladder_steps ladder_limits(2) ladder_strict in \<open>auto simp: list_all_iff ownership_only_def\<close>)

end
