(* ===== verification/Tenants.thy ===== *)
theory Tenants
  imports Gate PermCatalog
begin

text \<open>
  \<open>tenants/service.py\<close> with the queries of \<open>repositories/tenants.py\<close> and the grant
  repositories of \<open>repositories/rbac.py\<close>: provisioning a workspace and its seeded roles,
  members, ownership and settings.  \<open>tenants\<close> and \<open>permissions\<close> are global tables;
  memberships are read under the row policies; roles and grants go through the session's
  tenant.  The unique and check constraints of the four tables are the predicates the
  flushes test.
\<close>

section \<open>The workspace handle\<close>

definition handle_char :: "char \<Rightarrow> bool" where
  "handle_char c = (let n = (of_char c :: nat) in (48 \<le> n \<and> n \<le> 57) \<or> (97 \<le> n \<and> n \<le> 122))"

definition dash :: char where
  "dash = CHR ''-''"

text \<open>\<open>re.sub("[^a-z0-9]+", "-", s)\<close>: each run of other characters becomes one dash.\<close>

function slug_sub :: "string \<Rightarrow> string" where
  "slug_sub [] = []"
| "slug_sub (c # cs) =
     (if handle_char c then c # slug_sub cs
      else dash # slug_sub (dropWhile (\<lambda>x. \<not> handle_char x) cs))"
  by pat_completeness auto

termination slug_sub
  by (relation "measure length") (auto simp: le_imp_less_Suc length_dropWhile_le)

definition strip_dashes :: "string \<Rightarrow> string" where
  "strip_dashes s = rev (dropWhile (\<lambda>c. c = dash) (rev (dropWhile (\<lambda>c. c = dash) s)))"

definition max_slug_length :: nat where
  "max_slug_length = 64"

definition slugify :: "string \<Rightarrow> exn + string" where
  "slugify v =
     (let lowered = strip_dashes (slug_sub (str_lower (str_strip v)));
          trimmed = strip_dashes (take max_slug_length lowered)
      in if length trimmed < 3
         then Inl (err_coded ValidationError
                ''Could not derive a workspace handle from that name; supply 'slug' explicitly'' ''INVALID_SLUG'')
         else Inr trimmed)"

text \<open>\<open>ck_tenants_slug_format\<close> and the role check: an alphanumeric, then 1 to 62 alphanumerics or
  separators, then an alphanumeric.\<close>

definition slug_format :: "char \<Rightarrow> string \<Rightarrow> bool" where
  "slug_format sep s =
     (3 \<le> length s \<and> length s \<le> 64 \<and> handle_char (hd s) \<and> handle_char (last s)
      \<and> list_all (\<lambda>c. handle_char c \<or> c = sep) s)"

section \<open>Constraints\<close>

definition tenants_ok :: "db \<Rightarrow> bool" where
  "tenants_ok d = (distinct (map ten_slug (tenants d)) \<and> list_all (\<lambda>t. slug_format dash (ten_slug t)) (tenants d))"

definition memberships_ok :: "db \<Rightarrow> bool" where
  "memberships_ok d = distinct (map (\<lambda>m. (mem_tenant_id m, mem_user_id m)) (tenant_memberships d))"

definition roles_ok :: "db \<Rightarrow> bool" where
  "roles_ok d = (distinct (map (\<lambda>r. (role_tenant_id r, role_slug r)) (roles d))
     \<and> list_all (\<lambda>r. slug_format CHR ''_'' (role_slug r)) (roles d))"

definition grants_ok :: "db \<Rightarrow> bool" where
  "grants_ok d = distinct (map (\<lambda>g. (rp_role_id g, rp_permission_id g)) (role_permissions d))"

definition assignments_ok :: "db \<Rightarrow> bool" where
  "assignments_ok d = distinct (map (\<lambda>a. (mr_membership_id a, mr_role_id a)) (membership_roles d))"

section \<open>Roles, grants and assignments\<close>

definition permission_list :: "permission_row list svc" where
  "permission_list = query (\<lambda>d. sort_key perm_resource (sort_key perm_action (permissions d)))"

definition map_by_code :: "(string \<times> permission_row) list svc" where
  "map_by_code = ebind permission_list (\<lambda>ps. ret (fold (\<lambda>p m. dict_set (perm_code p) p m) ps []))"

definition permissions_by_codes :: "string list \<Rightarrow> permission_row list svc" where
  "permissions_by_codes codes =
     (if codes = [] then ret [] else query (\<lambda>d. filter (\<lambda>p. perm_code p \<in> set codes) (permissions d)))"

definition role_by_slug :: "string \<Rightarrow> role_row option svc" where
  "role_by_slug slug = ebind (repo_where role_model (\<lambda>r. role_slug r = slug)) scalar_one_or_none"

definition role_list_all :: "role_row list svc" where
  "role_list_all = ebind (repo_rows role_model) (\<lambda>rs. ret (sort_key role_name rs))"

definition new_role :: "string \<Rightarrow> string \<Rightarrow> string option \<Rightarrow> bool \<Rightarrow> role_row svc" where
  "new_role slug name descr is_system =
     ebind (repo_new role_model (\<lambda>i t n. \<lparr>role_id = i, role_tenant_id = t, role_slug = slug, role_name = name,
        role_description = descr, role_is_system = is_system, role_created_at = n, role_updated_at = n\<rparr>)) (\<lambda>r.
     ethen (flush_check roles_ok ''roles'') (ret r))"

text \<open>\<open>replace_for_role\<close>, \<open>replace_for_membership\<close>: delete the old rows, insert one per distinct id.\<close>

definition replace_for_role :: "nat \<Rightarrow> nat list \<Rightarrow> unit svc" where
  "replace_for_role rid pids =
     ebind require_tenant_id (\<lambda>t.
     ethen (change_db (\<lambda>d. d\<lparr>role_permissions :=
        filter (\<lambda>g. \<not> (rp_tenant_id g = t \<and> rp_role_id g = rid)) (role_permissions d)\<rparr>)) (
     ethen (for_each (\<lambda>p. ebind (repo_new role_permission_model
               (\<lambda>i t n. \<lparr>rp_id = i, rp_tenant_id = t, rp_role_id = rid, rp_permission_id = p\<rparr>)) (\<lambda>_. ret ()))
             (rev (remdups (rev pids))))
       (flush_check grants_ok ''role_permissions'')))"

definition replace_for_membership :: "nat \<Rightarrow> nat list \<Rightarrow> unit svc" where
  "replace_for_membership mid rids =
     ebind require_tenant_id (\<lambda>t.
     ethen (change_db (\<lambda>d. d\<lparr>membership_roles :=
        filter (\<lambda>a. \<not> (mr_tenant_id a = t \<and> mr_membership_id a = mid)) (membership_roles d)\<rparr>)) (
     ethen (for_each (\<lambda>r. ebind (repo_new membership_role_model
               (\<lambda>i t n. \<lparr>mr_id = i, mr_tenant_id = t, mr_membership_id = mid, mr_role_id = r\<rparr>)) (\<lambda>_. ret ()))
             (rev (remdups (rev rids))))
       (flush_check assignments_ok ''membership_roles'')))"

definition codes_for_role :: "nat \<Rightarrow> string list svc" where
  "codes_for_role rid =
     ebind require_tenant_id (\<lambda>t. query (\<lambda>d. sort (concat (map (\<lambda>g.
       map perm_code (filter (\<lambda>p. perm_id p = rp_permission_id g) (permissions d)))
       (filter (\<lambda>g. rp_tenant_id g = t \<and> rp_role_id g = rid) (role_permissions d))))))"

text \<open>\<open>list_roles_for_membership\<close>: the optional tenant is the one \<open>GET /me\<close> reads off a membership.\<close>

definition roles_for_membership_in :: "nat \<Rightarrow> nat option \<Rightarrow> role_row list svc" where
  "roles_for_membership_in mid explicit =
     ebind (case explicit of None \<Rightarrow> require_tenant_id | Some t \<Rightarrow> ret t) (\<lambda>scope.
     query (\<lambda>d. sort_key role_name (concat (map (\<lambda>a.
       filter (\<lambda>r. role_id r = mr_role_id a) (roles d))
       (filter (\<lambda>a. mr_tenant_id a = scope \<and> mr_membership_id a = mid) (membership_roles d))))))"

definition count_for_role :: "nat \<Rightarrow> nat svc" where
  "count_for_role rid = repo_count membership_role_model [\<lambda>a. mr_role_id a = rid]"

section \<open>Tenants and memberships\<close>

definition slug_exists :: "string \<Rightarrow> bool svc" where
  "slug_exists slug = query (\<lambda>d. length (filter (\<lambda>t. ten_slug t = slug) (tenants d)) > 0)"

definition membership_for :: "nat \<Rightarrow> nat \<Rightarrow> membership_row option svc" where
  "membership_for uid tid =
     ebind (gets rls_memberships) (\<lambda>ms.
     scalar_one_or_none (filter (\<lambda>m. mem_user_id m = uid \<and> mem_tenant_id m = tid) ms))"

definition membership_in_tenant :: "nat \<Rightarrow> nat \<Rightarrow> membership_row option svc" where
  "membership_in_tenant mid tid =
     ebind (gets rls_memberships) (\<lambda>ms.
     scalar_one_or_none (filter (\<lambda>m. mem_id m = mid \<and> mem_tenant_id m = tid) ms))"

definition is_active_owner :: "nat \<Rightarrow> membership_row \<Rightarrow> bool" where
  "is_active_owner tid m = (mem_tenant_id m = tid \<and> mem_is_owner m \<and> mem_status m = M_ACTIVE)"

definition count_owners :: "nat \<Rightarrow> nat svc" where
  "count_owners tid = gets (\<lambda>w. length (filter (is_active_owner tid) (rls_memberships w)))"

definition membership_columns :: "(string \<times> (membership_row \<Rightarrow> sort_val)) list" where
  "membership_columns =
     [(''created_at'', \<lambda>m. SV_Int (mem_created_at m)), (''updated_at'', \<lambda>m. SV_Int (mem_updated_at m)),
      (''status'', \<lambda>m. SV_Str (membership_status_value (mem_status m)))]"

definition tenant_columns :: "(string \<times> (tenant_row \<Rightarrow> sort_val)) list" where
  "tenant_columns =
     [(''created_at'', \<lambda>t. SV_Int (ten_created_at t)), (''updated_at'', \<lambda>t. SV_Int (ten_updated_at t)),
      (''name'', \<lambda>t. SV_Str (ten_name t)), (''slug'', \<lambda>t. SV_Str (ten_slug t))]"

definition list_members ::
  "nat \<Rightarrow> page_params \<Rightarrow> sort_params option \<Rightarrow> string option \<Rightarrow> membership_row page svc" where
  "list_members tid p srt status =
     ebind (gets rls_memberships) (\<lambda>ms.
     lift_sum (paginate mem_id membership_columns ''created_at'' p srt
       (filter (\<lambda>m. mem_tenant_id m = tid
          \<and> (truthy status \<longrightarrow> membership_status_value (mem_status m) = the status)) ms)))"

definition tenants_for_user ::
  "nat \<Rightarrow> page_params \<Rightarrow> sort_params option \<Rightarrow> bool \<Rightarrow> tenant_row page svc" where
  "tenants_for_user uid p srt only_active =
     ebind (gets rls_memberships) (\<lambda>ms. ebind (query tenants) (\<lambda>ts.
     lift_sum (paginate ten_id tenant_columns ''created_at'' p srt
       (concat (map (\<lambda>t. map (\<lambda>_. t) (filter (\<lambda>m. mem_tenant_id m = ten_id t \<and> mem_user_id m = uid
            \<and> (only_active \<longrightarrow> mem_status m = M_ACTIVE \<and> ten_status t = T_ACTIVE)) ms)) ts)))))"

definition save_membership :: "membership_row \<Rightarrow> unit svc" where
  "save_membership m = ebind now (\<lambda>n. change_db (\<lambda>d. d\<lparr>tenant_memberships :=
     row_put mem_id (m\<lparr>mem_updated_at := n\<rparr>) (tenant_memberships d)\<rparr>))"

definition save_tenant :: "tenant_row \<Rightarrow> unit svc" where
  "save_tenant t = ebind now (\<lambda>n. change_db (\<lambda>d. d\<lparr>tenants :=
     row_put ten_id (t\<lparr>ten_updated_at := n\<rparr>) (tenants d)\<rparr>))"

definition flush_memberships :: "unit svc" where
  "flush_memberships = flush_check memberships_ok ''tenant_memberships''"

definition flush_tenants :: "unit svc" where
  "flush_tenants = flush_check tenants_ok ''tenants''"

section \<open>Provisioning\<close>

definition missing_roles :: "string list \<Rightarrow> exn" where
  "missing_roles unknown =
     AppExn (coded_error ResourceNotFoundError ''One or more roles do not exist in this workspace''
       ''ROLE_NOT_FOUND'' [(''unknown_roles'', JList (map JStr unknown))])"

definition roles_by_slug :: "(string \<times> role_row) list svc" where
  "roles_by_slug = ebind role_list_all (\<lambda>rs. ret (fold (\<lambda>r m. dict_set (role_slug r) r m) rs []))"

definition role_ids :: "(string \<times> role_row) list \<Rightarrow> string list \<Rightarrow> nat list" where
  "role_ids d slugs = map (\<lambda>s. role_id (the (map_of d s))) slugs"

definition assign_roles :: "(string \<times> role_row) list \<Rightarrow> nat \<Rightarrow> string list \<Rightarrow> unit svc" where
  "assign_roles d mid slugs =
     (let unknown = filter (\<lambda>s. map_of d s = None) slugs in
      if unknown \<noteq> [] then raise (missing_roles unknown)
      else replace_for_membership mid (role_ids d slugs))"

text \<open>One definition of \<open>DEFAULT_ROLE_DEFINITIONS\<close>: the workspace's role of that slug, made when it
  is not there, and its grants; the codes the catalog lacks are collected.\<close>

definition seed_role ::
  "(string \<times> permission_row) list \<Rightarrow> (string \<times> role_row) list \<Rightarrow> role_definition \<Rightarrow>
   (role_row \<times> string list) svc" where
  "seed_role catalog existing d =
     ebind (case map_of existing (system_role_slug_value (rd_slug d)) of
              Some r \<Rightarrow> ret r
            | None \<Rightarrow> new_role (system_role_slug_value (rd_slug d)) (rd_name d) (Some (rd_description d)) True) (\<lambda>r.
     let codes = map perm_value (sort_key perm_value (rd_permissions d));
         found = filter (\<lambda>c. map_of catalog c \<noteq> None) codes
     in ethen (replace_for_role (role_id r) (map (\<lambda>c. perm_id (the (map_of catalog c))) found))
          (ret (r, filter (\<lambda>c. map_of catalog c = None) codes)))"

fun seed_roles ::
  "(string \<times> permission_row) list \<Rightarrow> (string \<times> role_row) list \<Rightarrow> role_definition list \<Rightarrow>
   ((string \<times> role_row) list \<times> string list) svc" where
  "seed_roles catalog existing [] = ret ([], [])"
| "seed_roles catalog existing (d # ds) =
     ebind (seed_role catalog existing d) (\<lambda>(r, missing).
     ebind (seed_roles catalog existing ds) (\<lambda>(rest, more).
       ret ((system_role_slug_value (rd_slug d), r) # rest, missing @ more)))"

definition seed_system_roles :: "(string \<times> role_row) list svc" where
  "seed_system_roles =
     ebind map_by_code (\<lambda>catalog. ebind roles_by_slug (\<lambda>existing.
     ebind (seed_roles catalog existing default_role_definitions) (\<lambda>(result, missing).
       if missing \<noteq> []
       then raise (AppExn (coded_error BusinessRuleError ''The permission catalog is incomplete; run the seed script''
              ''PERMISSION_CATALOG_INCOMPLETE'' [(''missing'', JList (map JStr (sort (remdups missing))))]))
       else ret result)))"

definition new_membership :: "nat \<Rightarrow> nat \<Rightarrow> membership_status \<Rightarrow> bool \<Rightarrow> membership_row svc" where
  "new_membership tid uid status is_owner =
     ebind fresh_id (\<lambda>i. ebind now (\<lambda>n.
     let m = \<lparr>mem_id = i, mem_tenant_id = tid, mem_user_id = uid, mem_status = status,
              mem_is_owner = is_owner, mem_notes = None, mem_created_at = n, mem_updated_at = n\<rparr> in
     ethen (change_db (\<lambda>d. d\<lparr>tenant_memberships := tenant_memberships d @ [m]\<rparr>)) (
     ethen flush_memberships (ret m))))"

text \<open>\<open>available_roles or {...}\<close>: an absent or empty dict is read from the session.\<close>

definition create_membership ::
  "nat \<Rightarrow> user_row \<Rightarrow> string list \<Rightarrow> membership_status \<Rightarrow> bool \<Rightarrow> (string \<times> role_row) list option \<Rightarrow>
   membership_row svc" where
  "create_membership tid user slugs status is_owner available =
     ebind (case available of Some (r # rs) \<Rightarrow> ret (r # rs) | _ \<Rightarrow> roles_by_slug) (\<lambda>rs.
     let unknown = filter (\<lambda>s. map_of rs s = None) slugs in
     ethen (raise_if (unknown \<noteq> []) (missing_roles unknown)) (
     ebind (new_membership tid (usr_id user) status is_owner) (\<lambda>m.
     ethen (replace_for_membership (mem_id m) (role_ids rs slugs)) (ret m))))"

definition new_tenant :: "string \<Rightarrow> string \<Rightarrow> nat \<Rightarrow> tenant_row svc" where
  "new_tenant name handle owner =
     ebind fresh_id (\<lambda>i. ebind now (\<lambda>n.
     let t = \<lparr>ten_id = i, ten_name = str_strip name, ten_slug = handle, ten_status = T_ACTIVE,
              ten_settings = [], ten_created_by_user_id = Some owner, ten_created_at = n, ten_updated_at = n\<rparr> in
     ethen (change_db (\<lambda>d. d\<lparr>tenants := tenants d @ [t]\<rparr>)) (
     ethen flush_tenants (ret t))))"

text \<open>What follows the insert of the workspace: its context, then the rows it owns.\<close>

definition provision_tenant :: "user_row \<Rightarrow> tenant_row \<Rightarrow> (tenant_row \<times> membership_row) svc" where
  "provision_tenant owner t =
     ethen (set_tenant_context (Some (ten_id t)) (Some (usr_id owner))) (
     ebind seed_system_roles (\<lambda>rs.
     ebind (create_membership (ten_id t) owner [system_role_slug_value R_OWNER] M_ACTIVE True (Some rs)) (\<lambda>m.
     ebind (audit_record A_TENANT_CREATED (Some ''tenant'') (Some (JId (ten_id t)))
       [(''name'', JStr (ten_name t)), (''slug'', JStr (ten_slug t))] (Some (usr_id owner))) (\<lambda>_.
       ret (t, m)))))"

definition create_tenant :: "string \<Rightarrow> string option \<Rightarrow> user_row \<Rightarrow> (tenant_row \<times> membership_row) svc" where
  "create_tenant name slug owner =
     ebind (lift_sum (if truthy slug then Inr (the slug) else slugify name)) (\<lambda>raw.
     let handle = str_lower raw in
     ebind (slug_exists handle) (\<lambda>taken.
     ethen (raise_if taken (AppExn (coded_error DuplicateResourceError
         (''The workspace handle '' @ [CHR 0x27] @ handle @ [CHR 0x27] @ '' is already taken'')
         ''TENANT_SLUG_TAKEN'' [(''slug'', JStr handle)]))) (
     ebind (new_tenant name handle (usr_id owner)) (provision_tenant owner))))"

section \<open>Members\<close>

definition last_owner_protected :: exn where
  "last_owner_protected =
     err_coded BusinessRuleError ''This workspace must keep at least one active owner'' ''LAST_OWNER_PROTECTED''"

definition add_member ::
  "nat \<Rightarrow> string option \<Rightarrow> nat option \<Rightarrow> string list \<Rightarrow> membership_status \<Rightarrow> membership_row svc" where
  "add_member tid email user_id slugs status =
     ethen (raise_if (\<not> truthy email \<and> user_id = None)
       (err_coded ValidationError (''Provide either 'email' or 'user_id'' @ [CHR 0x27]) ''MEMBER_IDENTIFIER_REQUIRED'')) (
     ebind (case user_id of Some i \<Rightarrow> user_by_id i | None \<Rightarrow> user_by_email (the email)) (\<lambda>found. case found of
       None \<Rightarrow> raise (err_coded ResourceNotFoundError
                 ''No account matches that identifier. The person must register first.'' ''USER_NOT_FOUND'')
     | Some u \<Rightarrow>
         ethen (raise_if (\<not> usr_is_active u)
           (err_coded BusinessRuleError ''That account is deactivated'' ''USER_INACTIVE'')) (
         ebind (membership_for (usr_id u) tid) (\<lambda>existing.
         ethen (raise_if (existing \<noteq> None)
           (err_coded DuplicateResourceError ''That account is already a member of this workspace''
              ''MEMBERSHIP_EXISTS'')) (
         ebind (create_membership tid u slugs status False None) (\<lambda>m.
         ethen (audit_on A_MEMBER_ADDED ''membership'' (mem_id m)
           [(''user_id'', JId (usr_id u)), (''email'', JStr (usr_email u)),
            (''role_slugs'', JList (map JStr slugs)), (''status'', JStr (membership_status_value status))])
           (ret m)))))))"

text \<open>The guard of both operations: counted only when the change would take ownership away.\<close>

definition keep_an_owner :: "bool \<Rightarrow> nat \<Rightarrow> unit svc" where
  "keep_an_owner losing tid =
     (if losing then ebind (count_owners tid) (\<lambda>n. raise_if (n \<le> 1) last_owner_protected) else ret ())"

definition losing_ownership :: "membership_status option \<Rightarrow> bool option \<Rightarrow> membership_row \<Rightarrow> bool" where
  "losing_ownership status is_owner m =
     ((is_owner = Some False \<and> mem_is_owner m)
      \<or> (status \<noteq> None \<and> status \<noteq> Some M_ACTIVE \<and> mem_is_owner m))"

text \<open>The assignments of \<open>update_member\<close> and the field names it reports.\<close>

definition member_changes ::
  "membership_status option \<Rightarrow> bool option \<Rightarrow> membership_row \<Rightarrow> membership_row \<times> string list" where
  "member_changes status is_owner m =
     (let (m1, c1) = (case status of
            Some s \<Rightarrow> if s \<noteq> mem_status m then (m\<lparr>mem_status := s\<rparr>, [''status'']) else (m, [])
          | None \<Rightarrow> (m, []))
      in case is_owner of
           Some b \<Rightarrow> if b \<noteq> mem_is_owner m1 then (m1\<lparr>mem_is_owner := b\<rparr>, c1 @ [''is_owner'']) else (m1, c1)
         | None \<Rightarrow> (m1, c1))"

definition settle_member ::
  "nat \<Rightarrow> membership_row \<Rightarrow> string list \<Rightarrow> string list option \<Rightarrow> membership_row svc" where
  "settle_member mid m changed slugs =
     ethen (case slugs of None \<Rightarrow> ret ()
            | Some ss \<Rightarrow> ebind roles_by_slug (\<lambda>rs. assign_roles rs mid ss)) (
     ethen flush_memberships (
     ethen (audit_on A_MEMBER_UPDATED ''membership'' mid
       [(''user_id'', JId (mem_user_id m)),
        (''changed_fields'', JList (map JStr (changed @ (if slugs = None then [] else [''roles''])))),
        (''status'', JStr (membership_status_value (mem_status m))),
        (''is_owner'', JBool (mem_is_owner m)),
        (''role_slugs'', JList (map JStr (case slugs of None \<Rightarrow> [] | Some ss \<Rightarrow> ss)))])
       (ret m)))"

definition update_member ::
  "nat \<Rightarrow> nat \<Rightarrow> membership_status option \<Rightarrow> string list option \<Rightarrow> bool option \<Rightarrow> membership_row svc" where
  "update_member tid mid status slugs is_owner =
     ebind (membership_in_tenant mid tid) (\<lambda>found. case found of
       None \<Rightarrow> raise (not_found ''membership'' mid)
     | Some m \<Rightarrow>
         ethen (keep_an_owner (losing_ownership status is_owner m) tid) (
         let (m', changed) = member_changes status is_owner m in
         ethen (do_when (changed \<noteq> []) (save_membership m')) (
           settle_member mid m' changed slugs)))"

text \<open>Deleting a membership takes its role assignments along.\<close>

definition delete_membership :: "nat \<Rightarrow> unit svc" where
  "delete_membership mid = change_db (\<lambda>d. d\<lparr>tenant_memberships := row_drop mem_id mid (tenant_memberships d),
     membership_roles := filter (\<lambda>a. mr_membership_id a \<noteq> mid) (membership_roles d)\<rparr>)"

definition remove_member :: "nat \<Rightarrow> nat \<Rightarrow> unit svc" where
  "remove_member tid mid =
     ebind (membership_in_tenant mid tid) (\<lambda>found. case found of
       None \<Rightarrow> raise (not_found ''membership'' mid)
     | Some m \<Rightarrow>
         ethen (keep_an_owner (mem_is_owner m) tid) (
         ebind (user_by_id (mem_user_id m)) (\<lambda>u.
         ethen (delete_membership mid) (
         ethen flush_memberships (
           audit_on A_MEMBER_REMOVED ''membership'' mid
             [(''user_id'', JId (mem_user_id m)),
              (''email'', case u of None \<Rightarrow> JNull | Some x \<Rightarrow> JStr (usr_email x))])))))"

definition roles_for_membership :: "nat \<Rightarrow> string list svc" where
  "roles_for_membership mid = ebind (roles_for_membership_in mid None) (\<lambda>rs. ret (map role_slug rs))"

section \<open>Settings\<close>

definition validate_settings :: "(string \<times> json) list \<Rightarrow> exn + (string \<times> json) list" where
  "validate_settings settings =
     (let offending = filter is_sensitive_key (map fst settings) in
      if offending \<noteq> []
      then Inl (AppExn (coded_error ValidationError
             ''Workspace settings must not contain secret-like keys; store provider credentials through /credentials instead''
             ''SECRET_IN_SETTINGS'' [(''fields'', JList (map JStr (sort offending)))]))
      else Inr settings)"

definition update_tenant ::
  "tenant_row \<Rightarrow> string option \<Rightarrow> tenant_status option \<Rightarrow> (string \<times> json) list option \<Rightarrow> tenant_row svc" where
  "update_tenant t name status settings =
     (let (t1, c1) = (case name of
            Some n \<Rightarrow> if str_strip n \<noteq> ten_name t then (t\<lparr>ten_name := str_strip n\<rparr>, [''name'']) else (t, [])
          | None \<Rightarrow> (t, []));
          (t2, c2) = (case status of
            Some s \<Rightarrow> if s \<noteq> ten_status t1 then (t1\<lparr>ten_status := s\<rparr>, c1 @ [''status'']) else (t1, c1)
          | None \<Rightarrow> (t1, c1))
      in ebind (case settings of
                  None \<Rightarrow> ret (t2, c2)
                | Some js \<Rightarrow> ebind (lift_sum (validate_settings js)) (\<lambda>v. ret (t2\<lparr>ten_settings := v\<rparr>, c2 @ [''settings'']))) (\<lambda>(t3, changed).
         ethen (do_when (t3 \<noteq> t) (save_tenant t3)) (
         ethen flush_tenants (
         ethen (audit_on A_TENANT_UPDATED ''tenant'' (ten_id t)
           [(''changed_fields'', JList (map JStr changed)), (''status'', JStr (tenant_status_value (ten_status t3)))])
           (ret t3)))))"

end
