(* ===== verification/Rbac.thy ===== *)
theory Rbac
  imports Tenants
begin

text \<open>
  \<open>rbac/service.py\<close>: permission codes to catalog ids, custom roles, and the guards that keep
  system roles immutable and roles in use undeletable; with the routes of
  \<open>api/v1/tenants.py\<close> and \<open>api/v1/rbac.py\<close> that change a workspace, as guarded requests.
\<close>

section \<open>Permission codes\<close>

definition known_codes :: "string list" where
  "known_codes = map perm_value all_permissions"

definition resolve_permission_ids :: "string list \<Rightarrow> nat list svc" where
  "resolve_permission_ids codes =
     (let requested = rev (remdups (rev codes));
          unknown = filter (\<lambda>c. c \<notin> set known_codes) requested
      in ethen (raise_if (unknown \<noteq> []) (AppExn (coded_error ValidationError ''Unknown permission codes''
           ''UNKNOWN_PERMISSION'' [(''unknown'', JList (map JStr (sort unknown)))]))) (
         ebind (permissions_by_codes requested) (\<lambda>rows.
         ethen (raise_if (length rows \<noteq> length requested)
           (AppExn (coded_error BusinessRuleError ''The permission catalog is incomplete; run the seed script''
              ''PERMISSION_CATALOG_INCOMPLETE''
              [(''missing'', JList (map JStr (sort (filter (\<lambda>c. c \<notin> set (map perm_code rows)) requested))))])))
           (ret (map perm_id rows)))))"

section \<open>Roles\<close>

definition list_roles :: "page_params \<Rightarrow> sort_params option \<Rightarrow> bool option \<Rightarrow> role_row page svc" where
  "list_roles p srt is_system =
     repo_list_page role_model p srt (case is_system of None \<Rightarrow> [] | Some b \<Rightarrow> [\<lambda>r. role_is_system r = b])"

definition get_role :: "nat \<Rightarrow> role_row svc" where
  "get_role rid = ebind (repo_get role_model rid) (\<lambda>r. case r of
     None \<Rightarrow> raise (not_found ''role'' rid) | Some r \<Rightarrow> ret r)"

definition create_role :: "string \<Rightarrow> string \<Rightarrow> string option \<Rightarrow> string list \<Rightarrow> role_row svc" where
  "create_role slug name descr perms =
     ebind (role_by_slug slug) (\<lambda>existing.
     ethen (raise_if (existing \<noteq> None) (AppExn (coded_error DuplicateResourceError
         (''A role with the handle '' @ [CHR 0x27] @ slug @ [CHR 0x27] @ '' already exists in this workspace'')
         ''ROLE_SLUG_TAKEN'' [(''slug'', JStr slug)]))) (
     ebind (resolve_permission_ids perms) (\<lambda>pids.
     ebind (new_role slug name descr False) (\<lambda>r.
     ethen (replace_for_role (role_id r) pids) (
     ethen (audit_on A_ROLE_CREATED ''role'' (role_id r)
       [(''slug'', JStr slug), (''name'', JStr name), (''permission_count'', JInt (int (length pids)))])
       (ret r))))))"

definition system_role_immutable :: "string \<Rightarrow> role_row \<Rightarrow> exn" where
  "system_role_immutable msg r =
     AppExn (coded_error BusinessRuleError msg ''SYSTEM_ROLE_IMMUTABLE'' [(''slug'', JStr (role_slug r))])"

definition role_changes :: "string option \<Rightarrow> string option \<Rightarrow> role_row \<Rightarrow> role_row \<times> string list" where
  "role_changes name descr r =
     (let (r1, c1) = (case name of
            Some n \<Rightarrow> if n \<noteq> role_name r then (r\<lparr>role_name := n\<rparr>, [''name'']) else (r, [])
          | None \<Rightarrow> (r, []))
      in case descr of
           Some x \<Rightarrow> if Some x \<noteq> role_description r1
                     then (r1\<lparr>role_description := Some x\<rparr>, c1 @ [''description'']) else (r1, c1)
         | None \<Rightarrow> (r1, c1))"

definition update_role ::
  "nat \<Rightarrow> string option \<Rightarrow> string option \<Rightarrow> string list option \<Rightarrow> role_row svc" where
  "update_role rid name descr perms =
     ebind (repo_get role_model rid) (\<lambda>found. case found of
       None \<Rightarrow> raise (not_found ''role'' rid)
     | Some r \<Rightarrow>
         ethen (raise_if (role_is_system r) (system_role_immutable
             ''System roles cannot be modified. Create a custom role instead.'' r)) (
         let (r', changed) = role_changes name descr r in
         ethen (do_when (changed \<noteq> []) (repo_save role_model r')) (
         ebind (case perms of
                  None \<Rightarrow> ret (0, changed)
                | Some ps \<Rightarrow> ebind (resolve_permission_ids ps) (\<lambda>pids.
                    ethen (replace_for_role rid pids) (ret (length pids, changed @ [''permissions''])))) (\<lambda>(n, fields).
         ethen (flush_check roles_ok ''roles'') (
         ethen (audit_on A_ROLE_UPDATED ''role'' rid
           [(''slug'', JStr (role_slug r')), (''name'', JStr (role_name r')),
            (''changed_fields'', JList (map JStr fields)), (''permission_count'', JInt (int n))])
           (ret r'))))))"

text \<open>The grants of a deleted role go with it; assignments are refused before.\<close>

definition drop_role :: "nat \<Rightarrow> unit svc" where
  "drop_role rid = change_db (\<lambda>d. d\<lparr>roles := row_drop role_id rid (roles d),
     role_permissions := filter (\<lambda>g. rp_role_id g \<noteq> rid) (role_permissions d),
     membership_roles := filter (\<lambda>a. mr_role_id a \<noteq> rid) (membership_roles d)\<rparr>)"

definition delete_role :: "nat \<Rightarrow> unit svc" where
  "delete_role rid =
     ebind (repo_get role_model rid) (\<lambda>found. case found of
       None \<Rightarrow> raise (not_found ''role'' rid)
     | Some r \<Rightarrow>
         ethen (raise_if (role_is_system r) (system_role_immutable ''System roles cannot be deleted'' r)) (
         ebind (count_for_role rid) (\<lambda>assigned.
         ethen (raise_if (assigned \<noteq> 0) (AppExn (coded_error BusinessRuleError
             (''This role is still assigned to '' @ show_nat assigned @ '' member(s)'') ''ROLE_IN_USE''
             [(''assigned_members'', JInt (int assigned))]))) (
         ethen (drop_role rid) (
           audit_on A_ROLE_DELETED ''role'' rid
             [(''slug'', JStr (role_slug r)), (''name'', JStr (role_name r))])))))"

section \<open>The workspace routes\<close>

definition assert_path_matches_context :: "nat \<Rightarrow> tenant_context \<Rightarrow> unit svc" where
  "assert_path_matches_context path c =
     raise_if (path \<noteq> tenant_context_id c) (err_coded TenantAccessError
       ''This request is scoped to a different workspace. Switch with /auth/select-tenant or send a matching X-Tenant-ID header.''
       ''TENANT_CONTEXT_MISMATCH'')"

datatype workspace_call =
    WC_Update "string option" "tenant_status option" "(string \<times> json) list option"
  | WC_AddMember "string option" "nat option" "string list" membership_status
  | WC_UpdateMember nat "membership_status option" "string list option" "bool option"
  | WC_RemoveMember nat
  | WC_CreateRole string string "string option" "string list"
  | WC_UpdateRole nat "string option" "string option" "string list option"
  | WC_DeleteRole nat

fun call_permission :: "workspace_call \<Rightarrow> perm" where
  "call_permission (WC_Update _ _ _) = P_TENANT_UPDATE"
| "call_permission (WC_AddMember _ _ _ _) = P_USER_CREATE"
| "call_permission (WC_UpdateMember _ _ _ _) = P_USER_UPDATE"
| "call_permission (WC_RemoveMember _) = P_USER_DELETE"
| "call_permission (WC_CreateRole _ _ _ _) = P_ROLE_CREATE"
| "call_permission (WC_UpdateRole _ _ _ _) = P_ROLE_UPDATE"
| "call_permission (WC_DeleteRole _) = P_ROLE_DELETE"

definition non_empty :: "string list option \<Rightarrow> string list option" where
  "non_empty xs = (if xs = Some [] then None else xs)"

definition route_update_tenant ::
  "nat \<Rightarrow> string option \<Rightarrow> tenant_status option \<Rightarrow> (string \<times> json) list option \<Rightarrow> tenant_context \<Rightarrow> unit svc" where
  "route_update_tenant path name status settings c =
     ethen (assert_path_matches_context path c) (done_with (update_tenant (tc_tenant c) name status settings))"

definition route_add_member ::
  "nat \<Rightarrow> string option \<Rightarrow> nat option \<Rightarrow> string list \<Rightarrow> membership_status \<Rightarrow> tenant_context \<Rightarrow> unit svc" where
  "route_add_member path email uid slugs status c =
     ethen (assert_path_matches_context path c)
       (done_with (ebind (add_member (tenant_context_id c) email uid slugs status) (\<lambda>m. roles_for_membership (mem_id m))))"

definition route_update_member ::
  "nat \<Rightarrow> nat \<Rightarrow> membership_status option \<Rightarrow> string list option \<Rightarrow> bool option \<Rightarrow> tenant_context \<Rightarrow> unit svc" where
  "route_update_member path mid status slugs is_owner c =
     ethen (assert_path_matches_context path c)
       (done_with (ebind (update_member (tenant_context_id c) mid status (non_empty slugs) is_owner)
          (\<lambda>m. roles_for_membership (mem_id m))))"

definition route_remove_member :: "nat \<Rightarrow> nat \<Rightarrow> tenant_context \<Rightarrow> unit svc" where
  "route_remove_member path mid c =
     ethen (assert_path_matches_context path c) (remove_member (tenant_context_id c) mid)"

definition route_create_role :: "string \<Rightarrow> string \<Rightarrow> string option \<Rightarrow> string list \<Rightarrow> unit svc" where
  "route_create_role slug name descr perms =
     done_with (ebind (create_role slug name descr perms) (\<lambda>r. codes_for_role (role_id r)))"

definition route_update_role ::
  "nat \<Rightarrow> string option \<Rightarrow> string option \<Rightarrow> string list option \<Rightarrow> unit svc" where
  "route_update_role rid name descr perms =
     done_with (ebind (update_role rid name descr (non_empty perms)) (\<lambda>r. codes_for_role (role_id r)))"

definition route_delete_role :: "nat \<Rightarrow> unit svc" where
  "route_delete_role rid = delete_role rid"

fun call_handler :: "nat \<Rightarrow> workspace_call \<Rightarrow> tenant_context \<Rightarrow> unit svc" where
  "call_handler path (WC_Update name status settings) c = route_update_tenant path name status settings c"
| "call_handler path (WC_AddMember email uid slugs status) c = route_add_member path email uid slugs status c"
| "call_handler path (WC_UpdateMember mid status slugs is_owner) c = route_update_member path mid status slugs is_owner c"
| "call_handler path (WC_RemoveMember mid) c = route_remove_member path mid c"
| "call_handler path (WC_CreateRole slug name descr perms) c = route_create_role slug name descr perms"
| "call_handler path (WC_UpdateRole rid name descr perms) c = route_update_role rid name descr perms"
| "call_handler path (WC_DeleteRole rid) c = route_delete_role rid"

lemmas call_routes = route_update_tenant_def route_add_member_def route_update_member_def route_remove_member_def
  route_create_role_def route_update_role_def route_delete_role_def assert_path_matches_context_def

text \<open>A workspace request: its route's permission, then its handler.\<close>

definition workspace_request ::
  "jwt_service \<Rightarrow> credentials option \<Rightarrow> nat option \<Rightarrow> nat \<Rightarrow> workspace_call \<Rightarrow> unit svc" where
  "workspace_request js creds header path q =
     guarded_request js creds header (perm_value (call_permission q)) (call_handler path q)"

definition create_tenant_request :: "jwt_service \<Rightarrow> credentials option \<Rightarrow> string \<Rightarrow> string option \<Rightarrow> unit svc" where
  "create_tenant_request js creds name slug =
     get_unscoped_session (ebind (get_principal js creds) (\<lambda>p. done_with (create_tenant name slug (pr_user p))))"

end
