(* ===== verification/Frames.thy ===== *)
theory Frames
  imports AuditTrail
begin

text \<open>
  What a service leaves alone: \<open>same_part f\<close> relates two worlds whose databases agree on the
  part \<open>f\<close> reads, when nothing was committed in between.  It is a frame for every \<open>f\<close>; the
  rules below put the session, the repositories and the audit trail inside it whenever the
  tables they write are not in the part.
\<close>

definition uncommitted :: "world \<Rightarrow> world \<Rightarrow> bool" where
  "uncommitted w v = (w_committed v = w_committed w \<and> w_next w \<le> w_next v)"

definition same_part :: "(db \<Rightarrow> 'a) \<Rightarrow> world \<Rightarrow> world \<Rightarrow> bool" where
  "same_part f w v = (uncommitted w v \<and> f (w_db v) = f (w_db w))"

interpretation part: frame "same_part f" uncommitted for f
  by unfold_locales (auto simp: same_part_def uncommitted_def)

lemma uncommitted_refl [simp]: "uncommitted w w"
  by (simp add: uncommitted_def)

lemma uncommitted_trans: "uncommitted w v \<Longrightarrow> uncommitted v u \<Longrightarrow> uncommitted w u"
  by (auto simp: uncommitted_def)

lemma part_reads: "reads m \<Longrightarrow> inside (same_part f) uncommitted m"
  by (rule part.inside_reads)

lemmas part_session_reads [frame_intros] = reads_session [THEN part_reads] reads_repo [THEN part_reads]

lemma part_session [frame_intros]:
  "inside (same_part f) uncommitted fresh_id" "inside (same_part f) uncommitted (set_tenant_context t u)"
  "inside (same_part f) uncommitted (set_user_context v)" "inside (same_part f) uncommitted (flush_check ok c)"
  by (simp_all add: inside_def wp_simps same_part_def uncommitted_def)

lemma part_change [frame_intros]:
  "(\<And>d. f (g d) = f d) \<Longrightarrow> inside (same_part f) uncommitted (change_db g)"
  by (simp add: inside_def wp_simps same_part_def uncommitted_def)

lemma part_do_when [frame_intros]:
  "inside (same_part f) uncommitted m \<Longrightarrow> inside (same_part f) uncommitted (do_when b m)"
  by (simp add: do_when_def part.inside_reads reads_ret)

lemma part_repo [frame_intros]:
  "(\<And>g d. f (m_upd m g d) = f d) \<Longrightarrow> inside (same_part f) uncommitted (repo_new m mk)"
  "(\<And>g d. f (m_upd m g d) = f d) \<Longrightarrow> inside (same_part f) uncommitted (repo_save m r)"
  "(\<And>g d. f (m_upd m g d) = f d) \<Longrightarrow> inside (same_part f) uncommitted (repo_delete m r)"
  unfolding repo_new_def repo_save_def repo_delete_def by (intro frame_intros; simp)+

lemma part_audit [frame_intros]:
  "(\<And>d x. f (d\<lparr>audit_logs := x\<rparr>) = f d) \<Longrightarrow> inside (same_part f) uncommitted (audit_record a rt ri md u)"
  "(\<And>d x. f (d\<lparr>audit_logs := x\<rparr>) = f d) \<Longrightarrow> inside (same_part f) uncommitted (audit_on a r i md)"
  unfolding audit_on_def audit_record_def by (intro frame_intros; simp)+

lemma part_done [frame_intros]:
  "inside (same_part f) uncommitted m \<Longrightarrow> inside (same_part f) uncommitted (done_with m)"
  unfolding done_with_def by (intro frame_intros)

text \<open>A tail that stays in the frame finishes a step.\<close>

lemma wp_part:
  assumes "inside (same_part f) uncommitted m" and "\<And>a v. same_part f w v \<Longrightarrow> Q a v"
    and "\<And>e v. uncommitted w v \<Longrightarrow> E e v"
  shows "wp m Q E w"
  using assms by (blast intro: wp_mono [OF insideD])

text \<open>What the request scope makes of a body: the committed database is the one the session left,
  or the one before.\<close>

lemma scope_committed:
  assumes "wp body (\<lambda>_ u. P (w_next u) (w_db u)) (\<lambda>_ u. P (w_next u) (w_committed u)) (open_session t u0 w)"
    and "v = snd (session_scope t u0 body w)"
  shows "P (w_next v) (w_committed v)"
  using assms(1) unfolding assms(2) session_scope_def
  by (cases "body (open_session t u0 w)") (auto simp: wp_def close_session_def session_commit_def session_rollback_def
      modify_def split: sum.splits)

section \<open>Invariants\<close>

text \<open>
  Invariants of the database as frames: \<open>keeping S\<close> relates two worlds when nothing was committed in
  between and \<open>S\<close> survives.  What stays in the frame of the part \<open>S\<close> looks at keeps it, the constructs of
  the language compose, and the request scope turns it into an invariant of the committed database.
\<close>

definition keeping :: "(db \<Rightarrow> bool) \<Rightarrow> world \<Rightarrow> world \<Rightarrow> bool" where
  "keeping S w v = (uncommitted w v \<and> (S (w_db w) \<longrightarrow> S (w_db v)))"

interpretation keeping: frame "keeping S" uncommitted for S
  by unfold_locales (auto simp: keeping_def uncommitted_def)

lemma keeping_part:
  assumes "inside (same_part f) uncommitted m" and "\<And>d e. f d = f e \<Longrightarrow> S d = S e"
  shows "inside (keeping S) uncommitted m"
  unfolding inside_def
proof
  fix w
  show "wp m (\<lambda>_. keeping S w) (\<lambda>_. uncommitted w) w"
  proof (rule wp_part [OF assms(1)])
    fix a v assume "same_part f w v"
    then show "keeping S w v" using assms(2) [of "w_db v" "w_db w"] by (simp add: same_part_def keeping_def)
  qed
qed

lemma keeping_reads: "reads m \<Longrightarrow> inside (keeping S) uncommitted m"
  by (rule keeping.inside_reads)

lemma keeping_change: "(\<And>d. S d \<Longrightarrow> S (g d)) \<Longrightarrow> inside (keeping S) uncommitted (change_db g)"
  by (simp add: inside_def wp_simps keeping_def uncommitted_def)

lemma keeping_do_when:
  "inside (keeping S) uncommitted m \<Longrightarrow> inside (keeping S) uncommitted (do_when b m)"
  by (simp add: do_when_def keeping_reads reads_ret)

lemma keeping_flush: "inside (keeping S) uncommitted (flush_check ok c)"
  by (simp add: inside_def wp_simps keeping_def uncommitted_def)

lemma inside_recover:
  assumes "frame R E" and "inside R E m" and "\<And>e. inside R E (h e)" and "\<And>s t u. E s t \<Longrightarrow> E t u \<Longrightarrow> E s u"
    and "\<And>s t u. E s t \<Longrightarrow> R t u \<Longrightarrow> R s u"
  shows "inside R E (recover m h)"
  unfolding inside_def wp_recover
proof
  fix s
  show "wp m (\<lambda>_. R s) (\<lambda>e. wp (h e) (\<lambda>_. R s) (\<lambda>_. E s)) s"
  proof (rule wp_mono [OF insideD [OF assms(2)]])
    fix e t assume "E s t"
    then show "wp (h e) (\<lambda>_. R s) (\<lambda>_. E s) t"
      using assms(4,5) by (blast intro: wp_mono [OF insideD [OF assms(3)]])
  qed
qed

text \<open>A \<open>try\<close> whose body only reads is as good as its handler.\<close>

lemma inside_recover_reads:
  assumes "frame R E" and "reads m" and "\<And>e. inside R E (h e)"
  shows "inside R E (recover m h)"
  unfolding inside_def wp_recover
proof
  fix s
  have "R s s" using assms(1) by (rule frame.refl)
  then show "wp m (\<lambda>_. R s) (\<lambda>e. wp (h e) (\<lambda>_. R s) (\<lambda>_. E s)) s"
    using insideD [OF assms(3)] by (intro wp_reads [OF assms(2)]) auto
qed

lemma scope_keeping:
  assumes "inside (keeping S) uncommitted body" and "S (w_committed w)"
  shows "S (w_committed (snd (session_scope t u body w)))"
proof (rule scope_committed [where P = "\<lambda>_. S", OF _ refl])
  show "wp body (\<lambda>_ u. S (w_db u)) (\<lambda>_ u. S (w_committed u)) (open_session t u w)"
    by (rule wp_mono [OF insideD [OF assms(1)]])
      (use assms(2) in \<open>auto simp: keeping_def uncommitted_def open_session_def\<close>)
qed

text \<open>What a lifted result was is known to the rest.\<close>

lemma inside_lift_bind:
  assumes "frame R E" and "\<And>a. r = Inr a \<Longrightarrow> inside R E (f a)"
  shows "inside R E (ebind (lift_sum r) f)"
proof (cases r)
  case (Inl e)
  then show ?thesis using frame.raised [OF assms(1) frame.refl [OF assms(1)]] by (simp add: inside_def wp_simps)
next
  case (Inr a)
  then show ?thesis using assms(2) by (simp add: inside_def wp_simps)
qed

lemmas keeping_try = inside_recover_reads [OF keeping.frame_axioms] inside_lift_bind [OF keeping.frame_axioms]

end
