(* ===== verification/TenantOwners.thy ===== *)
theory TenantOwners
  imports Rbac Frames
begin

text \<open>
  The ownership invariant of the workspaces: membership keys are unique and every workspace
  has an active owner.  Steps that leave memberships and tenants alone are one frame, steps
  that keep the invariant another; each workspace operation is shown to stay inside it, then
  the requests, then the worlds that sequences of requests reach.
\<close>

section \<open>Frames\<close>

abbreviation same_members :: "world \<Rightarrow> world \<Rightarrow> bool" where
  "same_members \<equiv> same_part (\<lambda>d. (tenants d, tenant_memberships d))"

definition keyed :: "nat \<Rightarrow> db \<Rightarrow> bool" where
  "keyed n d = (distinct (map mem_id (tenant_memberships d)) \<and> (\<forall>m\<in>set (tenant_memberships d). mem_id m < n)
     \<and> distinct (map ten_id (tenants d)) \<and> (\<forall>t\<in>set (tenants d). ten_id t < n))"

definition owned :: "db \<Rightarrow> bool" where
  "owned d = (\<forall>i\<in>set (map ten_id (tenants d)). \<exists>m\<in>set (tenant_memberships d). is_active_owner i m)"

definition workspace_ok :: "nat \<Rightarrow> db \<Rightarrow> bool" where
  "workspace_ok n d = (keyed n d \<and> owned d)"

definition keeps_owners :: "world \<Rightarrow> world \<Rightarrow> bool" where
  "keeps_owners w v = (uncommitted w v
     \<and> (workspace_ok (w_next w) (w_db w) \<longrightarrow> workspace_ok (w_next v) (w_db v)))"

interpretation owning: frame keeps_owners uncommitted
  by unfold_locales (auto simp: keeps_owners_def uncommitted_def)

lemma workspace_ok_mono: "workspace_ok n d \<Longrightarrow> n \<le> k \<Longrightarrow> workspace_ok k d"
  by (fastforce simp: workspace_ok_def keyed_def)

lemma workspace_ok_tables:
  "tenants d = tenants e \<Longrightarrow> tenant_memberships d = tenant_memberships e \<Longrightarrow> workspace_ok n d = workspace_ok n e"
  by (simp add: workspace_ok_def keyed_def owned_def)

lemma aside_keeps: "same_members w v \<Longrightarrow> keeps_owners w v"
  using workspace_ok_tables [of "w_db v" "w_db w"] workspace_ok_mono
  by (auto simp: keeps_owners_def same_part_def uncommitted_def)

lemma inside_keeps: "inside same_members uncommitted m \<Longrightarrow> inside keeps_owners uncommitted m"
  unfolding inside_def by (blast intro: wp_mono aside_keeps)

subsection \<open>What stays aside\<close>

lemma part_roles [frame_intros]:
  "(\<And>d x. f (d\<lparr>role_permissions := x\<rparr>) = f d) \<Longrightarrow> inside (same_part f) uncommitted (replace_for_role rid pids)"
  "(\<And>d x. f (d\<lparr>membership_roles := x\<rparr>) = f d) \<Longrightarrow> inside (same_part f) uncommitted (replace_for_membership mid rids)"
  "(\<And>d x. f (d\<lparr>roles := x\<rparr>) = f d) \<Longrightarrow> inside (same_part f) uncommitted (new_role slug name descr b)"
  unfolding replace_for_role_def replace_for_membership_def new_role_def
  by (intro frame_intros; simp)+

lemma reads_roles [reads_intros]:
  "reads permission_list" "reads map_by_code" "reads (permissions_by_codes cs)" "reads roles_by_slug"
  "reads (role_by_slug s)" "reads (codes_for_role rid)" "reads (roles_for_membership_in mid x)"
  "reads (roles_for_membership mid)" "reads (count_for_role rid)" "reads (membership_in_tenant mid tid)"
  "reads (membership_for uid tid)" "reads (count_owners tid)" "reads (user_by_id uid)" "reads (user_by_email em)"
  "reads (resolve_permission_ids cs)" "reads (slug_exists s)"
  unfolding permission_list_def map_by_code_def permissions_by_codes_def roles_by_slug_def role_list_all_def
    role_by_slug_def codes_for_role_def roles_for_membership_in_def roles_for_membership_def count_for_role_def
    membership_in_tenant_def membership_for_def count_owners_def user_by_id_def user_by_email_def
    resolve_permission_ids_def slug_exists_def
  by (intro reads_intros)+

lemmas part_role_reads [frame_intros] = reads_roles [THEN part_reads]

lemma aside_seed [frame_intros]:
  "inside same_members uncommitted (seed_role cat ex d)"
  "inside same_members uncommitted (seed_roles cat ex ds)"
  "inside same_members uncommitted seed_system_roles"
proof -
  show role: "inside same_members uncommitted (seed_role cat ex d)" for cat ex d
    unfolding seed_role_def by (intro frame_intros) simp_all
  show roles: "inside same_members uncommitted (seed_roles cat ex ds)" for cat ex ds
    by (induction ds) (auto intro!: frame_intros role)
  show "inside same_members uncommitted seed_system_roles"
    unfolding seed_system_roles_def by (intro frame_intros roles)
qed

text \<open>The role routes never touch a membership.\<close>

lemma aside_rbac [frame_intros]:
  "inside same_members uncommitted (create_role s n d ps)"
  "inside same_members uncommitted (update_role rid n' d' ps')"
  "inside same_members uncommitted (delete_role rid)"
  unfolding create_role_def update_role_def delete_role_def drop_role_def
  by (intro frame_intros; simp)+

section \<open>Membership steps\<close>

lemma wp_some_row:
  assumes "\<And>r. r \<in> set rs \<Longrightarrow> Q (Some r) w" and "Q None w" and "\<And>e. E e w"
  shows "wp (scalar_one_or_none rs) Q E w"
  using assms by (cases rs rule: scalar_one_or_none.cases) (simp_all add: wp_simps)

lemma wp_membership_in_tenant:
  assumes "\<And>m. m \<in> set (tenant_memberships (w_db w)) \<Longrightarrow> mem_id m = mid \<Longrightarrow> mem_tenant_id m = tid \<Longrightarrow> Q (Some m) w"
    and "Q None w" and "\<And>e. E e w"
  shows "wp (membership_in_tenant mid tid) Q E w"
  unfolding membership_in_tenant_def using assms
  by (simp add: wp_simps) (auto intro!: wp_some_row simp: rls_memberships_def)

lemma other_row:
  assumes "distinct (map k xs)" and "2 \<le> length (filter P xs)"
  shows "\<exists>y\<in>set xs. P y \<and> k y \<noteq> i"
proof (rule ccontr)
  assume "\<not> ?thesis"
  then have same: "\<forall>y\<in>set (filter P xs). k y = i" by auto
  have "distinct (map k (filter P xs))" using assms(1) by (simp add: distinct_map_filter)
  moreover have "map k (filter P xs) = replicate (length (filter P xs)) i"
    using same by (simp add: map_replicate_const [symmetric] cong: map_cong)
  ultimately show False
    using assms(2) by (cases "length (filter P xs)"; cases "length (filter P xs) - 1") auto
qed

lemma owners_seen:
  assumes "distinct (map mem_id (tenant_memberships (w_db w)))"
    and "\<not> length (filter (is_active_owner tid) (rls_memberships w)) \<le> 1"
  shows "\<exists>m\<in>set (tenant_memberships (w_db w)). is_active_owner tid m \<and> mem_id m \<noteq> mid"
proof -
  have "distinct (map mem_id (rls_memberships w))"
    using assms(1) by (simp add: rls_memberships_def distinct_map_filter)
  then have "\<exists>m\<in>set (rls_memberships w). is_active_owner tid m \<and> mem_id m \<noteq> mid"
    using assms(2) by (intro other_row) simp_all
  then show ?thesis by (auto simp: rls_memberships_def)
qed

text \<open>Rewriting or dropping one member keeps the invariant when another active owner stays, or when
  the row was no active owner, or still is one.\<close>

definition replaceable :: "db \<Rightarrow> membership_row \<Rightarrow> bool" where
  "replaceable d m = (is_active_owner (mem_tenant_id m) m \<longrightarrow>
     (\<exists>x\<in>set (tenant_memberships d). is_active_owner (mem_tenant_id m) x \<and> mem_id x \<noteq> mem_id m))"

lemma owner_elsewhere:
  assumes "workspace_ok n d" and "m \<in> set (tenant_memberships d)" and "replaceable d m" and "t \<in> set (tenants d)"
  shows "\<exists>x\<in>set (tenant_memberships d). is_active_owner (ten_id t) x \<and> mem_id x \<noteq> mem_id m"
proof -
  obtain x where x: "x \<in> set (tenant_memberships d)" "is_active_owner (ten_id t) x"
    using assms(1,4) by (auto simp: workspace_ok_def owned_def)
  show ?thesis
  proof (cases "mem_id x = mem_id m")
    case True
    then have "x = m" using assms(1,2) x(1) by (auto simp: workspace_ok_def keyed_def distinct_map inj_on_def)
    moreover have "ten_id t = mem_tenant_id x" using x(2) by (simp add: is_active_owner_def)
    ultimately show ?thesis using assms(3) x(2) unfolding replaceable_def by simp
  qed (use x in blast)
qed

lemma drop_keeps:
  assumes "workspace_ok n d" and "m \<in> set (tenant_memberships d)" and "replaceable d m"
  shows "workspace_ok n (d\<lparr>tenant_memberships := row_drop mem_id (mem_id m) (tenant_memberships d), membership_roles := rs\<rparr>)"
proof -
  have "\<exists>x\<in>set (row_drop mem_id (mem_id m) (tenant_memberships d)). is_active_owner (ten_id t) x"
    if "t \<in> set (tenants d)" for t
    using owner_elsewhere [OF assms that] by (auto simp: row_drop_def)
  then show ?thesis
    using assms(1) by (auto simp: workspace_ok_def keyed_def owned_def row_drop_keys) (auto simp: row_drop_def)
qed

lemma put_keeps:
  assumes "workspace_ok n d" and "m \<in> set (tenant_memberships d)" and "mem_id m' = mem_id m"
    and "replaceable d m \<or> is_active_owner (mem_tenant_id m) m'"
  shows "workspace_ok n (d\<lparr>tenant_memberships := row_put mem_id m' (tenant_memberships d)\<rparr>)"
proof -
  have "\<exists>x\<in>set (row_put mem_id m' (tenant_memberships d)). is_active_owner (ten_id t) x" if t: "t \<in> set (tenants d)" for t
  proof (cases "replaceable d m")
    case True
    from owner_elsewhere [OF assms(1,2) True t] show ?thesis using assms(3) row_put_other [of _ _ mem_id m'] by metis
  next
    case False
    then have own: "is_active_owner (mem_tenant_id m) m'" using assms(4) by simp
    obtain x where x: "x \<in> set (tenant_memberships d)" "is_active_owner (ten_id t) x"
      using assms(1) t by (auto simp: workspace_ok_def owned_def)
    show ?thesis
    proof (cases "mem_id x = mem_id m'")
      case True
      then have "x = m" using assms(1-3) x(1) by (auto simp: workspace_ok_def keyed_def distinct_map inj_on_def)
      then have "is_active_owner (ten_id t) m'" using x(2) own by (simp add: is_active_owner_def)
      then show ?thesis using row_put_mem [OF assms(2)] assms(3) by metis
    qed (use x row_put_other in metis)
  qed
  moreover have "\<forall>x\<in>set (row_put mem_id m' (tenant_memberships d)). mem_id x < n"
    using assms(1-3) by (auto simp: workspace_ok_def keyed_def dest!: row_put_set)
  ultimately show ?thesis using assms(1) by (auto simp: workspace_ok_def keyed_def owned_def)
qed

lemma add_keeps:
  assumes "workspace_ok n d" and "mem_id m = n"
  shows "workspace_ok (Suc n) (d\<lparr>tenant_memberships := tenant_memberships d @ [m]\<rparr>)"
  using assms by (fastforce simp: workspace_ok_def keyed_def owned_def)

lemma save_tenant_keeps:
  assumes "workspace_ok n d"
  shows "workspace_ok n (d\<lparr>tenants := row_put ten_id t (tenants d)\<rparr>)"
proof -
  have "ten_id ` set (row_put ten_id t (tenants d)) = ten_id ` set (tenants d)"
    by (metis list.set_map row_put_keys)
  then show ?thesis
    using assms by (auto simp: workspace_ok_def keyed_def owned_def image_iff Ball_def) (metis imageE imageI)+
qed

section \<open>The operations\<close>

text \<open>A tail that stays aside after a write that kept the invariant.\<close>

lemma wp_settled:
  assumes "inside same_members uncommitted m" and "uncommitted w v"
    and "workspace_ok (w_next w) (w_db w) \<Longrightarrow> workspace_ok (w_next v) (w_db v)"
  shows "wp m (\<lambda>_. keeps_owners w) (\<lambda>_. uncommitted w) v"
proof (rule wp_part [OF assms(1)])
  fix u assume u: "same_members v u"
  then have "uncommitted w u" using uncommitted_trans [OF assms(2)] by (simp add: same_part_def)
  then show "keeps_owners w u" using aside_keeps [OF u] assms(3) by (simp add: keeps_owners_def)
qed (rule uncommitted_trans [OF assms(2)])

lemma wp_keep_an_owner:
  "wp (keep_an_owner b tid) Q E w = (if b \<and> length (filter (is_active_owner tid) (rls_memberships w)) \<le> 1
     then E last_owner_protected w else Q () w)"
  by (simp add: keep_an_owner_def count_owners_def wp_simps)

lemma wp_delete_membership:
  "wp (delete_membership mid) Q E w = Q () (w\<lparr>w_db := (w_db w)\<lparr>
     tenant_memberships := row_drop mem_id mid (tenant_memberships (w_db w)),
     membership_roles := filter (\<lambda>a. mr_membership_id a \<noteq> mid) (membership_roles (w_db w))\<rparr>\<rparr>)"
  by (simp add: delete_membership_def wp_simps)

lemma keeps_remove_member: "inside keeps_owners uncommitted (remove_member tid mid)"
  unfolding inside_def
proof
  fix w
  have gone: "wp (ebind (user_by_id (mem_user_id m)) (\<lambda>u. ethen (delete_membership mid) (ethen flush_memberships
        (audit_on A_MEMBER_REMOVED ''membership'' mid (md u))))) (\<lambda>_. keeps_owners w) (\<lambda>_. uncommitted w) w"
    if "m \<in> set (tenant_memberships (w_db w))" "mem_id m = mid"
      "workspace_ok (w_next w) (w_db w) \<Longrightarrow> replaceable (w_db w) m" for m md
    unfolding wp_ebind [of "user_by_id (mem_user_id m)"]
  proof (rule wp_reads, rule reads_roles)
    fix u
    show "wp (ethen (delete_membership mid) (ethen flush_memberships
        (audit_on A_MEMBER_REMOVED ''membership'' mid (md u)))) (\<lambda>_. keeps_owners w) (\<lambda>_. uncommitted w) w"
      unfolding wp_ethen [of "delete_membership mid"] wp_delete_membership flush_memberships_def
      using that drop_keeps [of "w_next w" "w_db w" m]
      by (intro wp_settled frame_intros) (auto simp: uncommitted_def)
  qed simp
  show "wp (remove_member tid mid) (\<lambda>_. keeps_owners w) (\<lambda>_. uncommitted w) w"
    unfolding remove_member_def wp_ebind [of "membership_in_tenant mid tid"]
  proof (rule wp_membership_in_tenant)
    fix m
    assume m: "m \<in> set (tenant_memberships (w_db w))" "mem_id m = mid" "mem_tenant_id m = tid"
    have free: "replaceable (w_db w) m" if "\<not> mem_is_owner m"
      using that by (simp add: replaceable_def is_active_owner_def)
    have spare: "replaceable (w_db w) m"
      if "\<not> length (filter (is_active_owner tid) (rls_memberships w)) \<le> 1" "workspace_ok (w_next w) (w_db w)"
      using that owners_seen [of w tid mid] m by (simp add: replaceable_def workspace_ok_def keyed_def)
    show "wp (case Some m of None \<Rightarrow> raise (not_found ''membership'' mid)
     | Some m \<Rightarrow>
         ethen (keep_an_owner (mem_is_owner m) tid) (
         ebind (user_by_id (mem_user_id m)) (\<lambda>u.
         ethen (delete_membership mid) (
         ethen flush_memberships (
           audit_on A_MEMBER_REMOVED ''membership'' mid
             [(''user_id'', JId (mem_user_id m)),
              (''email'', case u of None \<Rightarrow> JNull | Some x \<Rightarrow> JStr (usr_email x))]))))) (\<lambda>_. keeps_owners w) (\<lambda>_. uncommitted w) w"
      unfolding option.case wp_ethen [of "keep_an_owner (mem_is_owner m) tid"] wp_keep_an_owner
      using gone [OF m(1,2)] free spare by auto
  qed (simp_all add: wp_simps)
qed

lemma member_changes_keys:
  assumes "member_changes status is_owner m = (m', changed)"
  shows "mem_id m' = mem_id m" "mem_tenant_id m' = mem_tenant_id m"
  using assms by (auto simp: member_changes_def split: option.splits if_splits)

lemma member_changes_owner:
  assumes "member_changes status is_owner m = (m', changed)" and "\<not> losing_ownership status is_owner m"
    and "is_active_owner (mem_tenant_id m) m"
  shows "is_active_owner (mem_tenant_id m) (m'\<lparr>mem_updated_at := n\<rparr>)"
  using assms by (auto simp: member_changes_def losing_ownership_def is_active_owner_def split: option.splits if_splits)

lemma wp_save_membership:
  "wp (save_membership m) Q E w = Q () (w\<lparr>w_db := (w_db w)\<lparr>
     tenant_memberships := row_put mem_id (m\<lparr>mem_updated_at := w_now w\<rparr>) (tenant_memberships (w_db w))\<rparr>\<rparr>)"
  by (simp add: save_membership_def wp_simps)

lemma part_assign [frame_intros]:
  "(\<And>d x. f (d\<lparr>membership_roles := x\<rparr>) = f d) \<Longrightarrow> inside (same_part f) uncommitted (assign_roles rs mid ss)"
  unfolding assign_roles_def by (intro frame_intros) simp_all

lemma part_settle [frame_intros]:
  "(\<And>d x. f (d\<lparr>membership_roles := x\<rparr>) = f d) \<Longrightarrow> (\<And>d x. f (d\<lparr>audit_logs := x\<rparr>) = f d)
   \<Longrightarrow> inside (same_part f) uncommitted (settle_member mid m changed slugs)"
  unfolding settle_member_def flush_memberships_def by (intro frame_intros) simp_all

lemma keeps_update_member: "inside keeps_owners uncommitted (update_member tid mid status slugs is_owner)"
  unfolding inside_def
proof
  fix w
  show "wp (update_member tid mid status slugs is_owner) (\<lambda>_. keeps_owners w) (\<lambda>_. uncommitted w) w"
    unfolding update_member_def wp_ebind [of "membership_in_tenant mid tid"]
  proof (rule wp_membership_in_tenant)
    fix m
    assume m: "m \<in> set (tenant_memberships (w_db w))" "mem_id m = mid" "mem_tenant_id m = tid"
    obtain m' changed where c: "member_changes status is_owner m = (m', changed)" by fastforce
    have allowed: "replaceable (w_db w) m \<or> is_active_owner (mem_tenant_id m) (m'\<lparr>mem_updated_at := n\<rparr>)"
      if "losing_ownership status is_owner m \<Longrightarrow> \<not> length (filter (is_active_owner tid) (rls_memberships w)) \<le> 1"
        "workspace_ok (w_next w) (w_db w)" for n
    proof (cases "losing_ownership status is_owner m")
      case True
      then show ?thesis
        using that owners_seen [of w tid mid] m by (simp add: replaceable_def workspace_ok_def keyed_def)
    qed (use member_changes_owner [OF c] in \<open>auto simp: replaceable_def\<close>)
    have saved: "workspace_ok (w_next w) ((w_db w)\<lparr>tenant_memberships :=
        row_put mem_id (m'\<lparr>mem_updated_at := w_now w\<rparr>) (tenant_memberships (w_db w))\<rparr>)"
      if "losing_ownership status is_owner m \<Longrightarrow> \<not> length (filter (is_active_owner tid) (rls_memberships w)) \<le> 1"
        "workspace_ok (w_next w) (w_db w)"
    proof (rule put_keeps [OF that(2) m(1)])
      show "replaceable (w_db w) m \<or> is_active_owner (mem_tenant_id m) (m'\<lparr>mem_updated_at := w_now w\<rparr>)"
        using allowed that by blast
    qed (simp add: member_changes_keys [OF c])
    show "wp (case Some m of None \<Rightarrow> raise (not_found ''membership'' mid)
     | Some m \<Rightarrow>
         ethen (keep_an_owner (losing_ownership status is_owner m) tid) (
         let (m', changed) = member_changes status is_owner m in
         ethen (do_when (changed \<noteq> []) (save_membership m')) (
           settle_member mid m' changed slugs))) (\<lambda>_. keeps_owners w) (\<lambda>_. uncommitted w) w"
      unfolding option.case Let_def c prod.case wp_ethen wp_keep_an_owner wp_do_when wp_save_membership
      using saved by (auto intro!: wp_settled [OF part_settle] simp: uncommitted_def)
  qed (simp_all add: wp_simps)
qed

text \<open>A new member.\<close>

lemma wp_new_membership:
  "wp (new_membership tid uid status b) Q E w =
   (let m = \<lparr>mem_id = w_next w, mem_tenant_id = tid, mem_user_id = uid, mem_status = status,
              mem_is_owner = b, mem_notes = None, mem_created_at = w_now w, mem_updated_at = w_now w\<rparr>;
        d = (w_db w)\<lparr>tenant_memberships := tenant_memberships (w_db w) @ [m]\<rparr>
    in if memberships_ok d then Q m (w\<lparr>w_next := Suc (w_next w), w_db := d\<rparr>)
       else E (IntegrityExn ''tenant_memberships'') (w\<lparr>w_next := Suc (w_next w), w_db := w_committed w\<rparr>))"
  by (simp add: new_membership_def flush_memberships_def wp_simps Let_def)

lemma keeps_create_membership:
  "inside keeps_owners uncommitted (create_membership tid user slugs status is_owner available)"
proof -
  have new: "inside keeps_owners uncommitted (new_membership tid (usr_id user) status is_owner)"
    by (simp add: inside_def wp_new_membership Let_def keeps_owners_def uncommitted_def add_keeps)
  have assign: "inside keeps_owners uncommitted (replace_for_membership mid rids)" for mid rids
    by (intro inside_keeps frame_intros) simp_all
  have roles: "inside keeps_owners uncommitted roles_by_slug"
    by (intro owning.inside_reads reads_roles)
  show ?thesis
    unfolding create_membership_def by (intro frame_intros new assign roles)
qed

lemma keeps_add_member: "inside keeps_owners uncommitted (add_member tid email uid slugs status)"
  unfolding add_member_def
  by (intro frame_intros keeps_create_membership owning.inside_reads [OF reads_roles(10)]
      owning.inside_reads [OF reads_roles(11)] owning.inside_reads [OF reads_roles(13)]
      owning.inside_reads [OF reads_roles(14)] inside_keeps [OF part_audit(2)]) simp_all

lemma keeps_update_tenant: "inside keeps_owners uncommitted (update_tenant t name status settings)"
proof -
  have save: "inside keeps_owners uncommitted (save_tenant t')" for t'
    by (auto simp: inside_def save_tenant_def wp_simps keeps_owners_def uncommitted_def intro!: save_tenant_keeps)
  have flush: "inside keeps_owners uncommitted flush_tenants"
    unfolding flush_tenants_def by (intro inside_keeps frame_intros)
  show ?thesis
    unfolding update_tenant_def do_when_def
    by (intro frame_intros save flush inside_keeps [OF part_audit(2)]) simp_all
qed

section \<open>A new workspace\<close>

lemma wp_new_tenant:
  "wp (new_tenant name handle owner) Q E w =
   (let t = \<lparr>ten_id = w_next w, ten_name = str_strip name, ten_slug = handle, ten_status = T_ACTIVE,
              ten_settings = [], ten_created_by_user_id = Some owner, ten_created_at = w_now w,
              ten_updated_at = w_now w\<rparr>;
        d = (w_db w)\<lparr>tenants := tenants (w_db w) @ [t]\<rparr>
    in if tenants_ok d then Q t (w\<lparr>w_next := Suc (w_next w), w_db := d\<rparr>)
       else E (IntegrityExn ''tenants'') (w\<lparr>w_next := Suc (w_next w), w_db := w_committed w\<rparr>))"
  by (simp add: new_tenant_def flush_tenants_def wp_simps Let_def)

text \<open>Between the two inserts the invariant is broken: the new workspace has no owner yet.\<close>

definition awaiting_owner :: "nat \<Rightarrow> world \<Rightarrow> world \<Rightarrow> bool" where
  "awaiting_owner i w v = (uncommitted w v
     \<and> (workspace_ok (w_next w) (w_db w) \<longrightarrow> keyed (w_next v) (w_db v)
          \<and> (\<forall>t\<in>set (tenants (w_db v)). ten_id t = i \<or> (\<exists>m\<in>set (tenant_memberships (w_db v)). is_active_owner (ten_id t) m))))"

lemma awaiting_aside: "awaiting_owner i w v \<Longrightarrow> same_members v u \<Longrightarrow> awaiting_owner i w u"
  by (fastforce simp: awaiting_owner_def same_part_def uncommitted_def keyed_def)

lemma awaiting_start:
  assumes "ten_id t = w_next w"
  shows "awaiting_owner (w_next w) w (w\<lparr>w_next := Suc (w_next w), w_db := (w_db w)\<lparr>tenants := tenants (w_db w) @ [t]\<rparr>\<rparr>)"
  using assms by (fastforce simp: awaiting_owner_def uncommitted_def workspace_ok_def keyed_def owned_def)

lemma awaiting_end:
  assumes "awaiting_owner i w v" and "mem_id m = w_next v" and "is_active_owner i m"
  shows "keeps_owners w (v\<lparr>w_next := Suc (w_next v),
     w_db := (w_db v)\<lparr>tenant_memberships := tenant_memberships (w_db v) @ [m]\<rparr>\<rparr>)"
  using assms by (fastforce simp: awaiting_owner_def keeps_owners_def uncommitted_def workspace_ok_def keyed_def owned_def)

lemma wp_awaiting:
  assumes "inside same_members uncommitted m" and "awaiting_owner i w v"
    and "\<And>a u. awaiting_owner i w u \<Longrightarrow> Q a u"
  shows "wp m Q (\<lambda>_. uncommitted w) v"
  using assms(2) uncommitted_trans [of w v]
  by (intro wp_part [OF assms(1)] assms(3) awaiting_aside [OF assms(2)]) (simp_all add: awaiting_owner_def)

lemma wp_keeps_then:
  assumes "inside same_members uncommitted m" and "keeps_owners w v"
  shows "wp m (\<lambda>_. keeps_owners w) (\<lambda>_. uncommitted w) v"
  using assms(2) by (intro wp_settled [OF assms(1)]) (simp_all add: keeps_owners_def)

lemma wp_owner_membership:
  assumes "awaiting_owner i w v"
  shows "wp (create_membership i user slugs M_ACTIVE True available) (\<lambda>_. keeps_owners w) (\<lambda>_. uncommitted w) v"
proof -
  have roles: "inside same_members uncommitted (case available of Some (r # rs) \<Rightarrow> ret (r # rs) | _ \<Rightarrow> roles_by_slug)"
    by (intro frame_intros)
  have unc: "uncommitted w u" if "awaiting_owner i w u" for u using that by (simp add: awaiting_owner_def)
  show ?thesis
    unfolding create_membership_def wp_ebind [of "case available of Some (r # rs) \<Rightarrow> ret (r # rs) | _ \<Rightarrow> roles_by_slug"]
  proof (rule wp_awaiting [OF roles assms])
    fix rs u assume u: "awaiting_owner i w u"
    have new: "wp (ebind (new_membership i (usr_id user) M_ACTIVE True) (\<lambda>m.
        ethen (replace_for_membership (mem_id m) (role_ids rs slugs)) (ret m)))
        (\<lambda>_. keeps_owners w) (\<lambda>_. uncommitted w) u"
      unfolding wp_ebind [of "new_membership i (usr_id user) M_ACTIVE True"] wp_new_membership Let_def
      using unc [OF u] by (auto intro!: wp_keeps_then frame_intros awaiting_end [OF u]
          simp: is_active_owner_def uncommitted_def)
    show "wp (let unknown = filter (\<lambda>s. map_of rs s = None) slugs in
       ethen (raise_if (unknown \<noteq> []) (missing_roles unknown)) (
       ebind (new_membership i (usr_id user) M_ACTIVE True) (\<lambda>m.
       ethen (replace_for_membership (mem_id m) (role_ids rs slugs)) (ret m))))
       (\<lambda>_. keeps_owners w) (\<lambda>_. uncommitted w) u"
      using new unc [OF u] unfolding Let_def wp_ethen [of "raise_if b e" for b e] wp_raise_if by simp
  qed
qed

lemma wp_provision:
  assumes v: "awaiting_owner (ten_id t) w v"
  shows "wp (provision_tenant owner t) (\<lambda>_. keeps_owners w) (\<lambda>_. uncommitted w) v"
  unfolding provision_tenant_def wp_ethen
proof (rule wp_awaiting [OF _ v])
  fix u assume u: "awaiting_owner (ten_id t) w u"
  show "wp (ebind seed_system_roles (\<lambda>rs.
     ebind (create_membership (ten_id t) owner [system_role_slug_value R_OWNER] M_ACTIVE True (Some rs)) (\<lambda>m.
     ebind (audit_record A_TENANT_CREATED (Some ''tenant'') (Some (JId (ten_id t)))
       [(''name'', JStr (ten_name t)), (''slug'', JStr (ten_slug t))] (Some (usr_id owner))) (\<lambda>_.
       ret (t, m))))) (\<lambda>_. keeps_owners w) (\<lambda>_. uncommitted w) u"
    unfolding wp_ebind [of seed_system_roles]
  proof (rule wp_awaiting [OF aside_seed(3) u])
    fix rs x assume x: "awaiting_owner (ten_id t) w x"
    show "wp (ebind (create_membership (ten_id t) owner [system_role_slug_value R_OWNER] M_ACTIVE True (Some rs)) (\<lambda>m.
       ebind (audit_record A_TENANT_CREATED (Some ''tenant'') (Some (JId (ten_id t)))
         [(''name'', JStr (ten_name t)), (''slug'', JStr (ten_slug t))] (Some (usr_id owner))) (\<lambda>_.
         ret (t, m)))) (\<lambda>_. keeps_owners w) (\<lambda>_. uncommitted w) x"
      unfolding wp_ebind [of "create_membership (ten_id t) owner [system_role_slug_value R_OWNER] M_ACTIVE True (Some rs)"]
      by (rule wp_mono [OF wp_owner_membership [OF x]]) (auto intro!: wp_keeps_then frame_intros)
  qed
qed (rule part_session)

lemma keeps_create_tenant: "inside keeps_owners uncommitted (create_tenant name slug owner)"
proof -
  have new: "inside keeps_owners uncommitted (ebind (new_tenant name handle (usr_id owner)) (provision_tenant owner))" for handle
    unfolding inside_def wp_ebind wp_new_tenant Let_def
    by (auto simp: uncommitted_def intro!: wp_provision awaiting_start)
  have taken: "inside keeps_owners uncommitted (slug_exists s)" for s
    by (rule owning.inside_reads [OF reads_roles(16)])
  show ?thesis
    unfolding create_tenant_def Let_def
    by (rule owning.inside_ebind [OF owning.inside_basic(5)] owning.inside_ebind [OF taken]
        owning.inside_ethen [OF owning.inside_basic(4)] new)+
qed

section \<open>Requests\<close>

lemma part_gate [frame_intros]:
  "inside (same_part f) uncommitted (get_principal js creds)"
  "inside (same_part f) uncommitted (get_tenant_context p requested)"
proof -
  have set: "inside (same_part f) uncommitted (set_context_user a)" "inside (same_part f) uncommitted (set_context_tenant b)" for a b
    by (simp_all add: inside_def wp_simps set_context_user_def set_context_tenant_def same_part_def uncommitted_def)
  have reads: "reads (decode_access_token js tok)" "reads (session_for_user i j)" "reads (active_membership i j)"
    "reads (tenant_by_id i)" "reads (effective_permissions i j)" for tok i j
    unfolding decode_access_token_def session_for_user_def active_membership_def tenant_by_id_def effective_permissions_def
    by (auto intro!: reads_intros split: sum.split jwt_failure.split option.split prod.split)
  note intros = set reads [THEN part_reads]
  show "inside (same_part f) uncommitted (get_principal js creds)"
    unfolding get_principal_def by (intro frame_intros intros)
  show "inside (same_part f) uncommitted (get_tenant_context p requested)"
    unfolding get_tenant_context_def by (intro frame_intros intros)
qed

lemma keeps_call: "inside keeps_owners uncommitted (call_handler path q c)"
proof -
  note tail = inside_keeps [OF part_role_reads(8)] inside_keeps [OF part_role_reads(6)]
  note ops = keeps_update_tenant keeps_add_member keeps_update_member keeps_remove_member
    aside_rbac [THEN inside_keeps]
  show ?thesis
    by (cases q) (simp_all add: call_routes done_with_def,
      (intro owning.inside_ebind owning.inside_ethen owning.inside_basic tail ops)+)
qed

text \<open>A request leaves the committed database as its body left the session's, or as it was.\<close>

lemma scope_owned:
  assumes "inside keeps_owners uncommitted body" and "workspace_ok (w_next w) (w_committed w)"
    and "v = snd (get_unscoped_session body w)"
  shows "workspace_ok (w_next v) (w_committed v)"
proof -
  let ?o = "open_session None None w"
  have "workspace_ok (w_next ?o) (w_db ?o)" "workspace_ok (w_next ?o) (w_committed ?o)"
    using assms(2) by (simp_all add: open_session_def)
  then have "wp body (\<lambda>_ u. workspace_ok (w_next u) (w_db u)) (\<lambda>_ u. workspace_ok (w_next u) (w_committed u)) ?o"
    by (intro wp_mono [OF insideD [OF assms(1)]])
      (auto simp: keeps_owners_def uncommitted_def intro: workspace_ok_mono)
  then show ?thesis
    unfolding assms(3) get_unscoped_session_def session_scope_def
    by (cases "body ?o") (auto simp: wp_def close_session_def session_commit_def session_rollback_def modify_def
        split: sum.splits)
qed

definition serve_call ::
  "jwt_service \<Rightarrow> credentials option \<Rightarrow> nat option \<Rightarrow> nat \<Rightarrow> workspace_call \<Rightarrow> world \<Rightarrow> world" where
  "serve_call js creds header path q w = snd (workspace_request js creds header path q w)"

definition serve_create :: "jwt_service \<Rightarrow> credentials option \<Rightarrow> string \<Rightarrow> string option \<Rightarrow> world \<Rightarrow> world" where
  "serve_create js creds name slug w = snd (create_tenant_request js creds name slug w)"

text \<open>What a platform with no workspace yet can become: workspaces are created and administered
  through the API, by anybody, in any order, and between the requests everything else happens
  that leaves workspaces and memberships alone.\<close>

inductive workspace_run :: "jwt_service \<Rightarrow> world \<Rightarrow> bool" for js where
  start: "tenants (w_committed w) = [] \<Longrightarrow> tenant_memberships (w_committed w) = [] \<Longrightarrow> workspace_run js w"
| create: "workspace_run js w \<Longrightarrow> workspace_run js (serve_create js creds name slug w)"
| call: "workspace_run js w \<Longrightarrow> workspace_run js (serve_call js creds header path q w)"
| elsewhere: "\<lbrakk>workspace_run js w; tenants (w_committed v) = tenants (w_committed w);
    tenant_memberships (w_committed v) = tenant_memberships (w_committed w); w_next w \<le> w_next v\<rbrakk>
   \<Longrightarrow> workspace_run js v"

lemma workspace_run_ok: "workspace_run js w \<Longrightarrow> workspace_ok (w_next w) (w_committed w)"
proof (induction rule: workspace_run.induct)
  case (start w)
  then show ?case by (simp add: workspace_ok_def keyed_def owned_def)
next
  case (create w creds name slug)
  have "inside keeps_owners uncommitted (ebind (get_principal js creds) (\<lambda>p. done_with (create_tenant name slug (pr_user p))))"
    unfolding done_with_def
    by (intro owning.inside_ebind owning.inside_basic inside_keeps [OF part_gate(1)] keeps_create_tenant)
  then show ?case
    using create.IH by (rule scope_owned) (simp add: serve_create_def create_tenant_request_def)
next
  case (call w creds header path q)
  have "inside keeps_owners uncommitted (ebind (get_principal js creds) (\<lambda>p.
       ebind (get_tenant_context p (requested_tenant_id p header)) (\<lambda>c.
       ebind (lift_sum (require_permission (perm_value (call_permission q)) c)) (call_handler path q))))"
    by (intro owning.inside_ebind owning.inside_basic inside_keeps [OF part_gate(1)]
        inside_keeps [OF part_gate(2)] keeps_call)
  then show ?case
    using call.IH by (rule scope_owned) (simp add: serve_call_def workspace_request_def guarded_request_def)
next
  case (elsewhere w v)
  then show ?case
    using workspace_ok_tables [of "w_committed v" "w_committed w"] workspace_ok_mono by simp
qed

end
