(* ===== verification/TenantProvision.thy ===== *)
theory TenantProvision
  imports TenantOwners
begin

text \<open>
  What creating a workspace builds: the effect of the grant replacements in closed form, one
  seeded role, all five, the owner's membership, and the permissions the owner ends up with.
\<close>

section \<open>Replacing grants and assignments\<close>

fun grant_rows :: "nat \<Rightarrow> nat \<Rightarrow> nat \<Rightarrow> nat list \<Rightarrow> role_permission_row list" where
  "grant_rows i t rid [] = []"
| "grant_rows i t rid (p # ps) =
     \<lparr>rp_id = i, rp_tenant_id = t, rp_role_id = rid, rp_permission_id = p\<rparr> # grant_rows (Suc i) t rid ps"

fun assignment_rows :: "nat \<Rightarrow> nat \<Rightarrow> nat \<Rightarrow> nat list \<Rightarrow> membership_role_row list" where
  "assignment_rows i t mid [] = []"
| "assignment_rows i t mid (r # rs) =
     \<lparr>mr_id = i, mr_tenant_id = t, mr_membership_id = mid, mr_role_id = r\<rparr> # assignment_rows (Suc i) t mid rs"

lemma grant_rows_set: "g \<in> set (grant_rows i t rid ps) \<Longrightarrow> rp_tenant_id g = t \<and> rp_role_id g = rid"
  by (induction ps arbitrary: i) auto

lemma grant_rows_pairs: "map (\<lambda>g. (rp_role_id g, rp_permission_id g)) (grant_rows i t rid ps) = map (Pair rid) ps"
  by (induction ps arbitrary: i) auto

lemma grant_rows_permissions: "rp_permission_id ` set (grant_rows i t rid ps) = set ps"
  by (induction ps arbitrary: i) auto

lemma assignment_rows_set: "a \<in> set (assignment_rows i t mid rs) \<Longrightarrow> mr_tenant_id a = t \<and> mr_membership_id a = mid"
  by (induction rs arbitrary: i) auto

lemma assignment_rows_pairs:
  "map (\<lambda>a. (mr_membership_id a, mr_role_id a)) (assignment_rows i t mid rs) = map (Pair mid) rs"
  by (induction rs arbitrary: i) auto

lemma wp_new_grants:
  "w_tenant w = Some t \<Longrightarrow>
   wp (for_each (\<lambda>p. ebind (repo_new role_permission_model
         (\<lambda>i t n. \<lparr>rp_id = i, rp_tenant_id = t, rp_role_id = rid, rp_permission_id = p\<rparr>)) (\<lambda>_. ret ())) ps) Q E w
   = Q () (w\<lparr>w_next := w_next w + length ps,
       w_db := (w_db w)\<lparr>role_permissions := role_permissions (w_db w) @ grant_rows (w_next w) t rid ps\<rparr>\<rparr>)"
  by (induction ps arbitrary: w) (simp_all add: wp_simps role_permission_table.wp_new)

lemma wp_new_assignments:
  "w_tenant w = Some t \<Longrightarrow>
   wp (for_each (\<lambda>r. ebind (repo_new membership_role_model
         (\<lambda>i t n. \<lparr>mr_id = i, mr_tenant_id = t, mr_membership_id = mid, mr_role_id = r\<rparr>)) (\<lambda>_. ret ())) rs) Q E w
   = Q () (w\<lparr>w_next := w_next w + length rs,
       w_db := (w_db w)\<lparr>membership_roles := membership_roles (w_db w) @ assignment_rows (w_next w) t mid rs\<rparr>\<rparr>)"
  by (induction rs arbitrary: w) (simp_all add: wp_simps membership_role_table.wp_new)

text \<open>The permissions a role grants in a workspace.\<close>

definition grants_of :: "nat \<Rightarrow> nat \<Rightarrow> db \<Rightarrow> nat set" where
  "grants_of t rid d = rp_permission_id ` {g \<in> set (role_permissions d). rp_tenant_id g = t \<and> rp_role_id g = rid}"

text \<open>A role that no grant mentions yet is granted exactly what is asked for, and nothing else moves.\<close>

lemma wp_first_grants:
  assumes "w_tenant w = Some t" and "grants_ok (w_db w)" and "\<forall>g\<in>set (role_permissions (w_db w)). rp_role_id g \<noteq> rid"
    and "\<And>n gs. \<lbrakk>w_next w \<le> n; \<forall>g\<in>set gs. rp_tenant_id g = t \<and> rp_role_id g = rid; rp_permission_id ` set gs = set pids;
        grants_ok ((w_db w)\<lparr>role_permissions := role_permissions (w_db w) @ gs\<rparr>)\<rbrakk>
      \<Longrightarrow> Q () (w\<lparr>w_next := n, w_db := (w_db w)\<lparr>role_permissions := role_permissions (w_db w) @ gs\<rparr>\<rparr>)"
  shows "wp (replace_for_role rid pids) Q E w"
proof -
  let ?ps = "rev (remdups (rev pids))"
  have none: "filter (\<lambda>g. \<not> (rp_tenant_id g = t \<and> rp_role_id g = rid)) (role_permissions (w_db w)) = role_permissions (w_db w)"
    using assms(3) by (simp add: filter_id_conv)
  have ok: "grants_ok ((w_db w)\<lparr>role_permissions := role_permissions (w_db w) @ grant_rows i t rid ?ps\<rparr>)" for i
  proof -
    have "(rid, p) \<notin> set (map (\<lambda>g. (rp_role_id g, rp_permission_id g)) (role_permissions (w_db w)))" for p
      using assms(3) by auto
    then show ?thesis
      using assms(2) unfolding grants_ok_def
      by (auto simp: grant_rows_pairs distinct_map inj_on_def)
  qed
  have "rp_permission_id ` set (grant_rows i t rid ?ps) = set pids" for i
    by (simp add: grant_rows_permissions)
  then have "Q () (w\<lparr>w_next := w_next w + length ?ps, w_db := (w_db w)\<lparr>role_permissions :=
      role_permissions (w_db w) @ grant_rows (w_next w) t rid ?ps\<rparr>\<rparr>)" 
    using ok by (intro assms(4)) (simp_all add: grant_rows_set)
  then show ?thesis
    using assms(1) none ok by (simp add: replace_for_role_def wp_simps wp_new_grants)
qed

lemma wp_first_assignments:
  assumes "w_tenant w = Some t" and "assignments_ok (w_db w)"
    and "\<forall>a\<in>set (membership_roles (w_db w)). mr_membership_id a \<noteq> mid"
    and "\<And>n. \<lbrakk>w_next w \<le> n; assignments_ok ((w_db w)\<lparr>membership_roles := membership_roles (w_db w)
          @ assignment_rows (w_next w) t mid (rev (remdups (rev rids)))\<rparr>)\<rbrakk>
      \<Longrightarrow> Q () (w\<lparr>w_next := n, w_db := (w_db w)\<lparr>membership_roles := membership_roles (w_db w)
          @ assignment_rows (w_next w) t mid (rev (remdups (rev rids)))\<rparr>\<rparr>)"
  shows "wp (replace_for_membership mid rids) Q E w"
proof -
  have none: "filter (\<lambda>a. \<not> (mr_tenant_id a = t \<and> mr_membership_id a = mid)) (membership_roles (w_db w)) = membership_roles (w_db w)"
    using assms(3) by (simp add: filter_id_conv)
  have "assignments_ok ((w_db w)\<lparr>membership_roles := membership_roles (w_db w) @ assignment_rows i t mid (rev (remdups (rev rids)))\<rparr>)" for i
  proof -
    have "(mid, r) \<notin> set (map (\<lambda>a. (mr_membership_id a, mr_role_id a)) (membership_roles (w_db w)))" for r
      using assms(3) by auto
    then show ?thesis
      using assms(2) unfolding assignments_ok_def
      by (auto simp: assignment_rows_pairs distinct_map inj_on_def)
  qed
  then show ?thesis
    using assms(1) none
    by (auto simp: replace_for_membership_def wp_simps wp_new_assignments intro!: assms(4))
qed

section \<open>The catalog\<close>

lemma dict_of_rows:
  "map_of (fold (\<lambda>p m. dict_set (k p) p m) ps m0) c = Some p \<Longrightarrow> (p \<in> set ps \<and> k p = c) \<or> map_of m0 c = Some p"
  by (induction ps arbitrary: m0) (fastforce split: if_splits)+

lemma dict_of_rows_None:
  "map_of (fold (\<lambda>p m. dict_set (k p) p m) ps m0) c = None \<longleftrightarrow> c \<notin> k ` set ps \<and> map_of m0 c = None"
  by (induction ps arbitrary: m0) auto

definition catalog_complete :: "db \<Rightarrow> bool" where
  "catalog_complete d = (set known_codes \<subseteq> set (map perm_code (permissions d))
     \<and> distinct (map perm_code (permissions d)) \<and> distinct (map perm_id (permissions d)))"

definition catalog_of :: "db \<Rightarrow> (string \<times> permission_row) list" where
  "catalog_of d = fold (\<lambda>p m. dict_set (perm_code p) p m) (sort_key perm_resource (sort_key perm_action (permissions d))) []"

lemma wp_map_by_code: "wp map_by_code Q E w = Q (catalog_of (w_db w)) w"
  by (simp add: map_by_code_def permission_list_def catalog_of_def wp_simps)

lemma catalog_row: "map_of (catalog_of d) c = Some p \<Longrightarrow> p \<in> set (permissions d) \<and> perm_code p = c"
  unfolding catalog_of_def by (drule dict_of_rows) simp

lemma catalog_known:
  assumes "catalog_complete d" shows "map_of (catalog_of d) (perm_value p) \<noteq> None"
  using assms by (auto simp: catalog_of_def dict_of_rows_None catalog_complete_def known_codes_def)

text \<open>The ids of a set of permissions.\<close>

definition permission_ids :: "perm set \<Rightarrow> db \<Rightarrow> nat set" where
  "permission_ids ps d = perm_id ` {p \<in> set (permissions d). perm_code p \<in> perm_value ` ps}"

lemma seeded_ids:
  assumes "catalog_complete d"
  shows "(\<lambda>c. perm_id (the (map_of (catalog_of d) c))) ` perm_value ` ps = permission_ids ps d"
proof -
  have *: "the (map_of (catalog_of d) (perm_value p)) \<in> set (permissions d)
      \<and> perm_code (the (map_of (catalog_of d) (perm_value p))) = perm_value p" for p
    using catalog_known [OF assms] catalog_row [of d] by fastforce
  have **: "the (map_of (catalog_of d) (perm_code r)) = r" if "r \<in> set (permissions d)" "perm_code r = perm_value p" for r p
    using * [of p] that assms by (auto simp: catalog_complete_def distinct_map inj_on_def)
  show ?thesis
    unfolding permission_ids_def using * ** by (fastforce simp: image_iff)
qed

section \<open>Seeding\<close>

text \<open>\<open>ready t used w\<close>: the session is in workspace \<open>t\<close>, whose roles so far have the handles \<open>used\<close>;
  the constraints hold and no grant names a role that does not exist yet.\<close>

definition ready :: "nat \<Rightarrow> string set \<Rightarrow> world \<Rightarrow> bool" where
  "ready t used w = (w_tenant w = Some t \<and> catalog_complete (w_db w) \<and> roles_ok (w_db w) \<and> grants_ok (w_db w)
     \<and> (\<forall>r\<in>set (roles (w_db w)). role_tenant_id r = t \<longrightarrow> role_slug r \<in> used)
     \<and> (\<forall>r\<in>set (roles (w_db w)). role_id r < w_next w)
     \<and> (\<forall>g\<in>set (role_permissions (w_db w)). rp_role_id g < w_next w))"

definition seeded_from :: "nat \<Rightarrow> world \<Rightarrow> world \<Rightarrow> bool" where
  "seeded_from t w v = (\<exists>n rs gs. w_next w \<le> n
     \<and> v = w\<lparr>w_next := n, w_db := (w_db w)\<lparr>roles := roles (w_db w) @ rs,
              role_permissions := role_permissions (w_db w) @ gs\<rparr>\<rparr>
     \<and> (\<forall>g\<in>set gs. w_next w \<le> rp_role_id g))"

lemma seeded_from_refl: "seeded_from t w w"
  unfolding seeded_from_def by (rule exI [of _ "w_next w"]) (rule exI [of _ "[]"], rule exI [of _ "[]"], simp)

lemma seeded_from_trans:
  assumes "seeded_from t w v" and "seeded_from t v u"
  shows "seeded_from t w u"
proof -
  obtain n rs gs where v: "w_next w \<le> n"
      "v = w\<lparr>w_next := n, w_db := (w_db w)\<lparr>roles := roles (w_db w) @ rs,
              role_permissions := role_permissions (w_db w) @ gs\<rparr>\<rparr>" "\<forall>g\<in>set gs. w_next w \<le> rp_role_id g"
    using assms(1) unfolding seeded_from_def by (elim exE conjE)
  obtain k rs' gs' where u: "w_next v \<le> k"
      "u = v\<lparr>w_next := k, w_db := (w_db v)\<lparr>roles := roles (w_db v) @ rs',
              role_permissions := role_permissions (w_db v) @ gs'\<rparr>\<rparr>" "\<forall>g\<in>set gs'. w_next v \<le> rp_role_id g"
    using assms(2) unfolding seeded_from_def by (elim exE conjE)
  have "\<forall>g\<in>set gs'. w_next w \<le> rp_role_id g" using u(3) v(1,2) by fastforce
  then show ?thesis
    unfolding seeded_from_def using u(1,2) v
    by (intro exI [of _ k] exI [of _ "rs @ rs'"] exI [of _ "gs @ gs'"]) (simp add: ball_Un)
qed

lemma seeded_from_grants:
  "seeded_from t w v \<Longrightarrow> rid < w_next w \<Longrightarrow> grants_of t rid (w_db v) = grants_of t rid (w_db w)"
proof -
  assume "seeded_from t w v" and rid: "rid < w_next w"
  then obtain gs where "role_permissions (w_db v) = role_permissions (w_db w) @ gs" "\<forall>g\<in>set gs. w_next w \<le> rp_role_id g"
    unfolding seeded_from_def by (elim exE conjE) simp
  then have "{g \<in> set (role_permissions (w_db v)). rp_tenant_id g = t \<and> rp_role_id g = rid}
      = {g \<in> set (role_permissions (w_db w)). rp_tenant_id g = t \<and> rp_role_id g = rid}"
    using rid by auto
  then show ?thesis by (simp only: grants_of_def)
qed

definition role_seeded :: "nat \<Rightarrow> role_definition \<Rightarrow> role_row \<Rightarrow> world \<Rightarrow> bool" where
  "role_seeded t d r v = (r \<in> set (roles (w_db v)) \<and> role_tenant_id r = t \<and> role_is_system r
     \<and> role_slug r = system_role_slug_value (rd_slug d) \<and> role_name r = rd_name d \<and> role_id r < w_next v
     \<and> grants_of t (role_id r) (w_db v) = permission_ids (set (rd_permissions d)) (w_db v))"

lemma role_seeded_later: "role_seeded t d r w \<Longrightarrow> seeded_from t w v \<Longrightarrow> role_seeded t d r v"
  using seeded_from_grants [of t w v "role_id r"]
  by (auto simp: role_seeded_def seeded_from_def permission_ids_def)

lemma slug_of_role: "slug_format CHR ''_'' (system_role_slug_value s)"
  by (cases s) (simp_all add: slug_format_def handle_char_def)

lemma wp_seed_role:
  assumes "ready t used w" and "system_role_slug_value (rd_slug d) \<notin> used"
  shows "wp (seed_role (catalog_of (w_db w)) [] d)
     (\<lambda>(r, missing) v. missing = [] \<and> role_seeded t d r v \<and> seeded_from t w v
        \<and> ready t (insert (system_role_slug_value (rd_slug d)) used) v) (\<lambda>_ _. False) w"
proof -
  let ?slug = "system_role_slug_value (rd_slug d)"
  let ?r = "\<lparr>role_id = w_next w, role_tenant_id = t, role_slug = ?slug, role_name = rd_name d,
     role_description = Some (rd_description d), role_is_system = True, role_created_at = w_now w,
     role_updated_at = w_now w\<rparr>"
  let ?w = "w\<lparr>w_next := Suc (w_next w), w_db := (w_db w)\<lparr>roles := roles (w_db w) @ [?r]\<rparr>\<rparr>"
  let ?codes = "map perm_value (sort_key perm_value (rd_permissions d))"
  let ?pids = "map (\<lambda>c. perm_id (the (map_of (catalog_of (w_db w)) c))) ?codes"
  note rd = assms(1) [unfolded ready_def]
  have known: "filter (\<lambda>c. map_of (catalog_of (w_db w)) c \<noteq> None) ?codes = ?codes"
      "filter (\<lambda>c. map_of (catalog_of (w_db w)) c = None) ?codes = []"
    using catalog_known [of "w_db w"] rd by (auto simp: filter_id_conv filter_empty_conv)
  have pids: "set ?pids = permission_ids (set (rd_permissions d)) (w_db w)"
    using seeded_ids [of "w_db w" "set (rd_permissions d)"] rd by (simp add: image_image)
  have roles: "roles_ok ((w_db w)\<lparr>roles := roles (w_db w) @ [?r]\<rparr>)"
    using rd assms(2) slug_of_role by (auto simp: roles_ok_def)
  have "wp (replace_for_role (w_next w) ?pids) (\<lambda>_ v. role_seeded t d ?r v \<and> seeded_from t w v
        \<and> ready t (insert ?slug used) v) (\<lambda>_ _. False) ?w"
  proof (rule wp_first_grants [where t = t])
    fix n gs
    assume n: "w_next ?w \<le> n" and gs: "\<forall>g\<in>set gs. rp_tenant_id g = t \<and> rp_role_id g = w_next w"
        "rp_permission_id ` set gs = set ?pids"
      and ok: "grants_ok ((w_db ?w)\<lparr>role_permissions := role_permissions (w_db ?w) @ gs\<rparr>)"
    let ?v = "?w\<lparr>w_next := n, w_db := (w_db ?w)\<lparr>role_permissions := role_permissions (w_db ?w) @ gs\<rparr>\<rparr>"
    have from_w: "seeded_from t w ?v"
      unfolding seeded_from_def using n gs(1)
      by (intro exI [of _ n] exI [of _ "[?r]"] exI [of _ gs]) simp
    have "{g \<in> set (role_permissions (w_db ?v)). rp_tenant_id g = t \<and> rp_role_id g = w_next w} = set gs"
      using gs(1) rd by auto
    then have "grants_of t (w_next w) (w_db ?v) = permission_ids (set (rd_permissions d)) (w_db w)"
      using gs(2) pids unfolding grants_of_def by (simp only:)
    then have made: "role_seeded t d ?r ?v"
      using n by (simp add: role_seeded_def permission_ids_def)
    have "ready t (insert ?slug used) ?v"
      using rd ok roles n gs(1) unfolding ready_def
      by (auto simp: catalog_complete_def roles_ok_def grants_ok_def)
    then show "role_seeded t d ?r ?v \<and> seeded_from t w ?v \<and> ready t (insert ?slug used) ?v"
      using made from_w by blast
  qed (use rd in \<open>auto simp: grants_ok_def\<close>)
  then show ?thesis
    unfolding seed_role_def Let_def known map_of.simps option.case new_role_def wp_ebind wp_ethen
      role_table.wp_new wp_flush_check wp_ret
    using rd roles by simp
qed

lemma wp_seed_roles:
  assumes "ready t used w" and "distinct (map (\<lambda>d. system_role_slug_value (rd_slug d)) ds)"
    and "\<forall>d\<in>set ds. system_role_slug_value (rd_slug d) \<notin> used"
  shows "wp (seed_roles (catalog_of (w_db w)) [] ds)
     (\<lambda>(rs, missing) v. missing = [] \<and> seeded_from t w v
        \<and> map fst rs = map (\<lambda>d. system_role_slug_value (rd_slug d)) ds
        \<and> (\<forall>d\<in>set ds. \<exists>r. map_of rs (system_role_slug_value (rd_slug d)) = Some r \<and> role_seeded t d r v))
     (\<lambda>_ _. False) w"
  using assms
proof (induction ds arbitrary: used w)
  case Nil
  then show ?case by (simp add: wp_simps seeded_from_refl)
next
  case (Cons d ds)
  let ?slug = "\<lambda>d. system_role_slug_value (rd_slug d)"
  have fresh: "?slug d \<notin> used" using Cons.prems(3) by simp
  have ne: "?slug e \<noteq> ?slug d" if "e \<in> set ds" for e
    using Cons.prems(2) that by (simp add: image_iff) metis
  show ?case
    unfolding seed_roles.simps wp_ebind
  proof (rule wp_mono [OF wp_seed_role [OF Cons.prems(1) fresh]])
    fix b :: "role_row \<times> string list" and v
    assume "(\<lambda>(r, missing) v. missing = [] \<and> role_seeded t d r v \<and> seeded_from t w v
        \<and> ready t (insert (?slug d) used) v) b v"
    then obtain r where b: "b = (r, [])" and made: "role_seeded t d r v" and from_w: "seeded_from t w v"
      and rd: "ready t (insert (?slug d) used) v" by auto
    have same: "catalog_of (w_db w) = catalog_of (w_db v)"
      using from_w by (auto simp: seeded_from_def catalog_of_def)
    have "wp (seed_roles (catalog_of (w_db v)) [] ds)
       (\<lambda>(rs, missing) u. missing = [] \<and> seeded_from t v u \<and> map fst rs = map ?slug ds
          \<and> (\<forall>d\<in>set ds. \<exists>r. map_of rs (?slug d) = Some r \<and> role_seeded t d r u)) (\<lambda>_ _. False) v"
      using Cons.prems(2,3) ne by (intro Cons.IH [OF rd]) simp_all
    then have "wp (seed_roles (catalog_of (w_db v)) [] ds)
       (\<lambda>a. wp (case a of (rest, ms) \<Rightarrow> (ret ((?slug d, r) # rest, [] @ ms) :: ((string \<times> role_row) list \<times> string list) svc))
         (\<lambda>(rs, missing) u. missing = [] \<and> seeded_from t w u \<and> map fst rs = map ?slug (d # ds)
          \<and> (\<forall>d\<in>set (d # ds). \<exists>r. map_of rs (?slug d) = Some r \<and> role_seeded t d r u)) (\<lambda>_ _. False)) (\<lambda>_ _. False) v"
    proof (rule wp_mono)
      fix a :: "(string \<times> role_row) list \<times> string list" and u
      assume IH: "(\<lambda>(rs, missing) u. missing = [] \<and> seeded_from t v u \<and> map fst rs = map ?slug ds
          \<and> (\<forall>d\<in>set ds. \<exists>r. map_of rs (?slug d) = Some r \<and> role_seeded t d r u)) a u"
      obtain rs missing where a: "a = (rs, missing)" by fastforce
      have u: "seeded_from t v u" using IH a by simp
      show "wp (case a of (rest, ms) \<Rightarrow> (ret ((?slug d, r) # rest, [] @ ms) :: ((string \<times> role_row) list \<times> string list) svc))
         (\<lambda>(rs, missing) u. missing = [] \<and> seeded_from t w u \<and> map fst rs = map ?slug (d # ds)
          \<and> (\<forall>d\<in>set (d # ds). \<exists>r. map_of rs (?slug d) = Some r \<and> role_seeded t d r u)) (\<lambda>_ _. False) u"
        using IH a seeded_from_trans [OF from_w u] role_seeded_later [OF made u] ne by (simp add: wp_ret)
    qed simp
    then show "wp (case b of (r, missing) \<Rightarrow> ebind (seed_roles (catalog_of (w_db w)) [] ds) (\<lambda>(rest, ms).
         ret ((?slug d, r) # rest, missing @ ms)))
       (\<lambda>(rs, missing) u. missing = [] \<and> seeded_from t w u \<and> map fst rs = map ?slug (d # ds)
          \<and> (\<forall>d\<in>set (d # ds). \<exists>r. map_of rs (?slug d) = Some r \<and> role_seeded t d r u)) (\<lambda>_ _. False) v"
      unfolding b same prod.case wp_ebind .
  qed simp
qed

lemma wp_seed_system_roles:
  assumes "ready t {} w"
  shows "wp seed_system_roles
     (\<lambda>rs v. seeded_from t w v \<and> rs \<noteq> []
        \<and> (\<forall>d\<in>set default_role_definitions. \<exists>r. map_of rs (system_role_slug_value (rd_slug d)) = Some r \<and> role_seeded t d r v))
     (\<lambda>_ _. False) w"
proof -
  have none: "filter (\<lambda>r. role_tenant_id r = t) (roles (w_db w)) = []"
    using assms by (auto simp: ready_def filter_empty_conv)
  have "distinct (map (\<lambda>d. system_role_slug_value (rd_slug d)) default_role_definitions)"
    by (simp add: default_role_definitions_def)
  from wp_seed_roles [OF assms this]
  have "wp (seed_roles (catalog_of (w_db w)) [] default_role_definitions)
     (\<lambda>(rs, missing) v. missing = [] \<and> seeded_from t w v
        \<and> map fst rs = map (\<lambda>d. system_role_slug_value (rd_slug d)) default_role_definitions
        \<and> (\<forall>d\<in>set default_role_definitions. \<exists>r. map_of rs (system_role_slug_value (rd_slug d)) = Some r \<and> role_seeded t d r v))
     (\<lambda>_ _. False) w"
    by simp
  moreover have "default_role_definitions \<noteq> []" by (simp add: default_role_definitions_def)
  ultimately show ?thesis
    using assms none unfolding seed_system_roles_def wp_ebind wp_map_by_code
    by (auto simp: roles_by_slug_def role_list_all_def wp_simps role_table.wp_rows tenant_rows_def ready_def
        elim!: wp_mono split: option.splits)
qed

section \<open>The whole provisioning\<close>

text \<open>The state a workspace can be created in: constraints hold, the catalog is seeded, and no row
  mentions an identifier that was not given out yet.\<close>

definition platform_ok :: "world \<Rightarrow> bool" where
  "platform_ok w = (let d = w_db w; n = w_next w in
     tenants_ok d \<and> memberships_ok d \<and> roles_ok d \<and> grants_ok d \<and> assignments_ok d \<and> catalog_complete d
     \<and> (\<forall>m\<in>set (tenant_memberships d). mem_id m < n \<and> mem_tenant_id m < n)
     \<and> (\<forall>r\<in>set (roles d). role_id r < n \<and> role_tenant_id r < n)
     \<and> (\<forall>g\<in>set (role_permissions d). rp_role_id g < n)
     \<and> (\<forall>a\<in>set (membership_roles d). mr_membership_id a < n))"

definition provisioned :: "user_row \<Rightarrow> string \<Rightarrow> tenant_row \<Rightarrow> membership_row \<Rightarrow> world \<Rightarrow> bool" where
  "provisioned owner handle t m v =
     (catalog_complete (w_db v) \<and> t \<in> set (tenants (w_db v)) \<and> ten_status t = T_ACTIVE \<and> ten_slug t = handle \<and> w_tenant v = Some (ten_id t)
      \<and> m \<in> set (tenant_memberships (w_db v)) \<and> mem_user_id m = usr_id owner \<and> is_active_owner (ten_id t) m
      \<and> (\<forall>d\<in>set default_role_definitions. \<exists>r. role_seeded (ten_id t) d r v)
      \<and> (\<exists>r a. role_seeded (ten_id t) (hd default_role_definitions) r v \<and> a \<in> set (membership_roles (w_db v))
          \<and> mr_tenant_id a = ten_id t \<and> mr_membership_id a = mem_id m \<and> mr_role_id a = role_id r))"

lemma provisioned_later:
  assumes "provisioned owner handle t m v" and "w_tenant u = w_tenant v" and "w_next v \<le> w_next u"
    and "tenants (w_db u) = tenants (w_db v)" "tenant_memberships (w_db u) = tenant_memberships (w_db v)"
      "roles (w_db u) = roles (w_db v)" "role_permissions (w_db u) = role_permissions (w_db v)"
      "permissions (w_db u) = permissions (w_db v)" "membership_roles (w_db u) = membership_roles (w_db v)"
  shows "provisioned owner handle t m u"
proof -
  have "role_seeded i d r v \<Longrightarrow> role_seeded i d r u" for i d r
    using assms(3,6-8) by (auto simp: role_seeded_def grants_of_def permission_ids_def)
  moreover have "catalog_complete (w_db u) = catalog_complete (w_db v)"
    using assms(8) by (simp add: catalog_complete_def)
  ultimately show ?thesis using assms unfolding provisioned_def by metis
qed

lemma wp_create_membership:
  assumes roles: "rs \<noteq> []" "map_of rs slug = Some r"
    and v: "w_tenant v = Some tid" "memberships_ok (w_db v)" "assignments_ok (w_db v)"
      "\<forall>m\<in>set (tenant_memberships (w_db v)). (mem_tenant_id m, mem_user_id m) \<noteq> (tid, usr_id user)"
      "\<forall>a\<in>set (membership_roles (w_db v)). mr_membership_id a < w_next v"
    and Q: "\<And>n m. \<lbrakk>w_next v \<le> n; mem_id m = w_next v; mem_user_id m = usr_id user; mem_tenant_id m = tid;
        mem_is_owner m = b; mem_status m = status\<rbrakk>
      \<Longrightarrow> Q m (v\<lparr>w_next := n, w_db := (w_db v)\<lparr>tenant_memberships := tenant_memberships (w_db v) @ [m],
             membership_roles := membership_roles (w_db v) @ assignment_rows (Suc (w_next v)) tid (w_next v) [role_id r]\<rparr>\<rparr>)"
  shows "wp (create_membership tid user [slug] status b (Some rs)) Q E v"
proof -
  let ?m = "\<lparr>mem_id = w_next v, mem_tenant_id = tid, mem_user_id = usr_id user, mem_status = status,
              mem_is_owner = b, mem_notes = None, mem_created_at = w_now v, mem_updated_at = w_now v\<rparr>"
  let ?v = "v\<lparr>w_next := Suc (w_next v), w_db := (w_db v)\<lparr>tenant_memberships := tenant_memberships (w_db v) @ [?m]\<rparr>\<rparr>"
  obtain x xs where rs: "rs = x # xs" using roles(1) by (cases rs) auto
  have ok: "memberships_ok (w_db ?v)" using v(2,4) by (auto simp: memberships_ok_def)
  have "wp (replace_for_membership (w_next v) [role_id r]) (\<lambda>_. Q ?m) E ?v"
  proof (rule wp_first_assignments)
    fix n assume "w_next ?v \<le> n"
    then show "Q ?m (?v\<lparr>w_next := n, w_db := (w_db ?v)\<lparr>membership_roles := membership_roles (w_db ?v)
          @ assignment_rows (w_next ?v) tid (w_next v) (rev (remdups (rev [role_id r])))\<rparr>\<rparr>)"
      using Q [of n ?m] by simp
  qed (use v in \<open>auto simp: assignments_ok_def\<close>)
  moreover have "wp (ret ?m) Q E = Q ?m"
    by (simp add: fun_eq_iff wp_ret)
  ultimately show ?thesis
    using ok roles(2) unfolding create_membership_def rs Let_def
    by (simp add: wp_simps wp_new_membership Let_def role_ids_def)
qed

lemma owner_first: "hd default_role_definitions \<in> set default_role_definitions"
    "rd_slug (hd default_role_definitions) = R_OWNER" "rd_permissions (hd default_role_definitions) = all_permissions"
  by (simp_all add: default_role_definitions_def)

lemma wp_provision_tenant:
  assumes v: "ready (ten_id t) {} v" "memberships_ok (w_db v)" "assignments_ok (w_db v)"
      "\<forall>m\<in>set (tenant_memberships (w_db v)). mem_tenant_id m \<noteq> ten_id t"
      "\<forall>a\<in>set (membership_roles (w_db v)). mr_membership_id a < w_next v"
    and t: "t \<in> set (tenants (w_db v))" "ten_status t = T_ACTIVE"
  shows "wp (provision_tenant owner t) (\<lambda>(t', m) u. t' = t \<and> provisioned owner (ten_slug t) t m u) (\<lambda>_ _. False)
     (v\<lparr>w_tenant := old, w_user := u0\<rparr>)"
proof -
  let ?i = "ten_id t" and ?owner = "hd default_role_definitions"
  let ?v = "v\<lparr>w_tenant := Some ?i, w_user := Some (usr_id owner)\<rparr>"
  have bound: "ready ?i {} ?v" using v(1) by (simp add: ready_def)
  have member: "wp (create_membership ?i owner [system_role_slug_value R_OWNER] M_ACTIVE True (Some rs))
      (\<lambda>m x. provisioned owner (ten_slug t) t m x) (\<lambda>_ _. False) u"
    if u: "seeded_from ?i ?v u" and rs: "rs \<noteq> []"
      "\<forall>d\<in>set default_role_definitions. \<exists>r. map_of rs (system_role_slug_value (rd_slug d)) = Some r \<and> role_seeded ?i d r u"
    for rs u
  proof -
    obtain r where r: "map_of rs (system_role_slug_value R_OWNER) = Some r" "role_seeded ?i ?owner r u"
      using bspec [OF rs(2) owner_first(1)] unfolding owner_first(2) by blast
    have same: "tenant_memberships (w_db u) = tenant_memberships (w_db v)" "tenants (w_db u) = tenants (w_db v)"
        "membership_roles (w_db u) = membership_roles (w_db v)" "w_next v \<le> w_next u" "w_tenant u = Some ?i"
      using u by (auto simp: seeded_from_def)
    show ?thesis
    proof (rule wp_create_membership [OF rs(1) r(1) same(5)])
      fix n and m :: membership_row
      assume n: "w_next u \<le> n" and m: "mem_id m = w_next u" "mem_user_id m = usr_id owner" "mem_tenant_id m = ?i"
        "mem_is_owner m = True" "mem_status m = M_ACTIVE"
      let ?x = "u\<lparr>w_next := n, w_db := (w_db u)\<lparr>tenant_memberships := tenant_memberships (w_db u) @ [m],
             membership_roles := membership_roles (w_db u) @ assignment_rows (Suc (w_next u)) ?i (w_next u) [role_id r]\<rparr>\<rparr>"
      have later: "role_seeded ?i d r ?x" if "role_seeded ?i d r u" for d and r :: role_row
        using that n by (auto simp: role_seeded_def grants_of_def permission_ids_def)
      have "\<exists>a\<in>set (membership_roles (w_db ?x)). mr_tenant_id a = ?i \<and> mr_membership_id a = mem_id m \<and> mr_role_id a = role_id r"
        using m(1) by simp
      moreover have "\<forall>d\<in>set default_role_definitions. \<exists>r. role_seeded ?i d r ?x"
        using rs(2) later by blast
      moreover have "role_seeded ?i ?owner r ?x" using r(2) later by blast
      moreover have "t \<in> set (tenants (w_db ?x))" "w_tenant ?x = Some ?i" "m \<in> set (tenant_memberships (w_db ?x))"
        using t(1) same by simp_all
      moreover have "catalog_complete (w_db ?x)"
        using u bound by (auto simp: ready_def catalog_complete_def seeded_from_def)
      ultimately show "provisioned owner (ten_slug t) t m ?x"
        using t(2) m(2-5) unfolding provisioned_def is_active_owner_def by blast
    qed (use v same in \<open>auto simp: memberships_ok_def assignments_ok_def\<close>)
  qed
  have audit: "wp (audit_record A_TENANT_CREATED (Some ''tenant'') (Some (JId ?i))
       [(''name'', JStr (ten_name t)), (''slug'', JStr (ten_slug t))] (Some (usr_id owner)))
       (\<lambda>_ x. provisioned owner (ten_slug t) t m x) (\<lambda>_ _. False) u" if "provisioned owner (ten_slug t) t m u" for m u
  proof -
    have "w_tenant u = Some ?i" using that by (simp add: provisioned_def)
    then show ?thesis by (auto simp: wp_simps Let_def intro: provisioned_later [OF that])
  qed
  have after: "wp (ebind (create_membership ?i owner [system_role_slug_value R_OWNER] M_ACTIVE True (Some rs)) (\<lambda>m.
     ebind (audit_record A_TENANT_CREATED (Some ''tenant'') (Some (JId ?i))
       [(''name'', JStr (ten_name t)), (''slug'', JStr (ten_slug t))] (Some (usr_id owner))) (\<lambda>_.
       ret (t, m)))) (\<lambda>(t', m) u. t' = t \<and> provisioned owner (ten_slug t) t m u) (\<lambda>_ _. False) u"
    if "seeded_from ?i ?v u \<and> rs \<noteq> []
      \<and> (\<forall>d\<in>set default_role_definitions. \<exists>r. map_of rs (system_role_slug_value (rd_slug d)) = Some r \<and> role_seeded ?i d r u)"
    for rs u
    unfolding wp_ebind [of "create_membership ?i owner [system_role_slug_value R_OWNER] M_ACTIVE True (Some rs)"]
  proof (rule wp_mono [OF member])
    fix m x assume x: "provisioned owner (ten_slug t) t m x"
    show "wp (ebind (audit_record A_TENANT_CREATED (Some ''tenant'') (Some (JId ?i))
       [(''name'', JStr (ten_name t)), (''slug'', JStr (ten_slug t))] (Some (usr_id owner))) (\<lambda>_.
       ret (t, m))) (\<lambda>(t', m) u. t' = t \<and> provisioned owner (ten_slug t) t m u) (\<lambda>_ _. False) x"
      unfolding wp_ebind by (rule wp_mono [OF audit [OF x]]) (simp_all add: wp_ret)
  qed (use that in auto)
  show ?thesis
    unfolding provision_tenant_def wp_ethen wp_set_tenant_context wp_ebind [of seed_system_roles]
    using wp_mono [OF wp_seed_system_roles [OF bound] after] by simp
qed

lemma wp_create_tenant:
  assumes ok: "platform_ok w" and raw: "(if truthy slug then Inr (the slug) else slugify name) = Inr raw"
    and fmt: "slug_format dash (str_lower raw)" and free: "str_lower raw \<notin> ten_slug ` set (tenants (w_db w))"
  shows "wp (create_tenant name slug owner)
    (\<lambda>(t, m) v. ten_id t = w_next w \<and> ten_name t = str_strip name \<and> provisioned owner (str_lower raw) t m v)
    (\<lambda>_ _. False) w"
proof -
  let ?t = "\<lparr>ten_id = w_next w, ten_name = str_strip name, ten_slug = str_lower raw, ten_status = T_ACTIVE,
              ten_settings = [], ten_created_by_user_id = Some (usr_id owner), ten_created_at = w_now w,
              ten_updated_at = w_now w\<rparr>"
  let ?w = "w\<lparr>w_next := Suc (w_next w), w_db := (w_db w)\<lparr>tenants := tenants (w_db w) @ [?t]\<rparr>\<rparr>"
  let ?v = "?w\<lparr>w_tenant := Some (ten_id ?t)\<rparr>"
  note p = ok [unfolded platform_ok_def Let_def]
  have fine: "tenants_ok (w_db ?w)"
    using p fmt free by (auto simp: tenants_ok_def)
  have taken: "wp (slug_exists (str_lower raw)) Q E w = Q False w" for Q E
  proof -
    have none: "filter (\<lambda>t. ten_slug t = str_lower raw) (tenants (w_db w)) = []"
      using free by (simp add: filter_empty_conv image_iff) metis
    show ?thesis unfolding slug_exists_def wp_query none by simp
  qed
  have "wp (provision_tenant owner ?t) (\<lambda>(t', m) u. t' = ?t \<and> provisioned owner (ten_slug ?t) ?t m u) (\<lambda>_ _. False)
     (?v\<lparr>w_tenant := w_tenant w, w_user := w_user w\<rparr>)"
  proof (rule wp_provision_tenant)
    have "\<forall>r\<in>set (roles (w_db w)). role_tenant_id r \<noteq> w_next w" using p by fastforce
    then show "ready (ten_id ?t) {} ?v"
      using p by (simp add: ready_def catalog_complete_def roles_ok_def grants_ok_def less_Suc_eq)
    show "\<forall>m\<in>set (tenant_memberships (w_db ?v)). mem_tenant_id m \<noteq> ten_id ?t" using p by auto
  qed (use p in \<open>simp_all add: memberships_ok_def assignments_ok_def less_Suc_eq\<close>)
  then have "wp (provision_tenant owner ?t)
     (\<lambda>(t, m) v. ten_id t = w_next w \<and> ten_name t = str_strip name \<and> provisioned owner (str_lower raw) t m v) (\<lambda>_ _. False) ?w"
    by (auto elim: wp_mono)
  then show ?thesis
    using fine unfolding create_tenant_def Let_def raw
    by (simp add: wp_ebind wp_ethen wp_lift_sum taken wp_raise_if wp_new_tenant Let_def)
qed

text \<open>The owner of a provisioned workspace holds every permission there.\<close>

lemma owner_permissions:
  assumes "provisioned owner handle t m v"
  shows "\<exists>codes. effective_permissions (usr_id owner) (ten_id t) v = (Inr codes, v) \<and> perm_value ` UNIV \<subseteq> set codes"
proof -
  let ?i = "ten_id t"
  note p = assms [unfolded provisioned_def]
  obtain r a where r: "role_seeded ?i (hd default_role_definitions) r v" and a: "a \<in> set (membership_roles (w_db v))"
      "mr_tenant_id a = ?i" "mr_membership_id a = mem_id m" "mr_role_id a = role_id r"
    using p by blast
  have grants: "grants_of ?i (role_id r) (w_db v) = permission_ids UNIV (w_db v)"
  proof -
    have "set all_permissions = UNIV" by auto
    then show ?thesis using r owner_first(3) by (simp only: role_seeded_def)
  qed
  let ?ok = "\<lambda>p. list_ex (\<lambda>rp. rp_permission_id rp = perm_id p
              \<and> grants (usr_id owner) ?i (rls_memberships v)
                  (rls_visible mr_tenant_id (w_tenant v) (membership_roles (w_db v))) rp)
            (rls_visible rp_tenant_id (w_tenant v) (role_permissions (w_db v)))"
  have "\<exists>x\<in>set (permissions (w_db v)). ?ok x \<and> perm_code x = perm_value q" for q
  proof -
    have "perm_value q \<in> set (map perm_code (permissions (w_db v)))"
      using p by (auto simp: catalog_complete_def known_codes_def)
    then obtain x where x: "x \<in> set (permissions (w_db v))" "perm_code x = perm_value q" by auto
    then have "perm_id x \<in> grants_of ?i (role_id r) (w_db v)"
      unfolding grants permission_ids_def by auto
    then obtain g where g: "g \<in> set (role_permissions (w_db v))" "rp_tenant_id g = ?i" "rp_role_id g = role_id r"
        "rp_permission_id g = perm_id x"
      unfolding grants_of_def by auto
    have "m \<in> set (rls_memberships v)" "mem_tenant_id m = ?i" "mem_status m = M_ACTIVE" "mem_user_id m = usr_id owner"
      using p by (simp_all add: rls_memberships_def is_active_owner_def)
    then have "grants (usr_id owner) ?i (rls_memberships v)
        (rls_visible mr_tenant_id (w_tenant v) (membership_roles (w_db v))) g"
      using a g p unfolding grants_def rls_visible_def list_ex_iff
      by (intro conjI bexI [of _ a] bexI [of _ m]) simp_all
    then have "?ok x"
      using g p unfolding list_ex_iff rls_visible_def by (intro bexI [of _ g]) simp_all
    then show ?thesis using x by blast
  qed
  then have "perm_value ` UNIV \<subseteq> set (remdups (map perm_code (filter ?ok (permissions (w_db v)))))"
    by (auto simp: image_iff) metis
  then show ?thesis
    unfolding effective_permissions_def gets_def by blast
qed

subsection \<open>A concrete platform\<close>

definition catalog_rows :: "permission_row list" where
  "catalog_rows = map (\<lambda>(i, p). \<lparr>perm_id = i, perm_code = perm_value p, perm_resource = perm_resource_part p,
     perm_action = perm_action_part p, perm_description = None\<rparr>) (enumerate 100 perm_members)"

definition fresh_platform :: "user_row list \<Rightarrow> refresh_session_row list \<Rightarrow> world" where
  "fresh_platform us ss = (let d = empty_db\<lparr>users := us, permissions := catalog_rows, refresh_sessions := ss\<rparr> in
     initial_world\<lparr>w_db := d, w_committed := d, w_now := 60, w_next := 1000\<rparr>)"

lemma catalog_rows_complete: "catalog_complete (empty_db\<lparr>users := us, permissions := catalog_rows, refresh_sessions := ss\<rparr>)"
proof -
  have "map perm_code catalog_rows = map perm_value (map snd (enumerate 100 perm_members))"
    by (simp add: catalog_rows_def comp_def case_prod_unfold del: map_snd_enumerate)
  moreover have "map perm_id catalog_rows = map fst (enumerate 100 perm_members)"
    by (simp add: catalog_rows_def comp_def case_prod_unfold del: map_fst_enumerate)
  ultimately show ?thesis
    using perm_enum.distinct_values
    by (auto simp: catalog_complete_def known_codes_def all_permissions_members simp del: map_map)
qed

lemma fresh_platform_ok: "platform_ok (fresh_platform us ss)"
  using catalog_rows_complete
  by (simp add: platform_ok_def fresh_platform_def Let_def initial_world_def empty_db_def tenants_ok_def memberships_ok_def
      roles_ok_def grants_ok_def assignments_ok_def)

lemma fresh_platform_simps [simp]:
  "tenants (w_db (fresh_platform us ss)) = []" "tenants (w_committed (fresh_platform us ss)) = []"
  "tenant_memberships (w_db (fresh_platform us ss)) = []" "w_next (fresh_platform us ss) = 1000"
  "w_committed (fresh_platform us ss) = w_db (fresh_platform us ss)" "users (w_db (fresh_platform us ss)) = us"
  "refresh_sessions (w_db (fresh_platform us ss)) = ss" "w_now (fresh_platform us ss) = 60"
  by (simp_all add: fresh_platform_def Let_def initial_world_def empty_db_def)

end
