(* ===== verification/TenantGuards.thy ===== *)
theory TenantGuards
  imports TenantProvision AuthProperties
begin

text \<open>
  Two frames of the workspace routes: a step keeps every workspace that is not ACTIVE as it
  is, and a step keeps the system roles and what they grant.  Every route is shown to stay
  inside both.
\<close>

section \<open>Closed workspaces\<close>

text \<open>A step keeps every workspace that is not ACTIVE as it is.\<close>

definition tenants_keyed :: "world \<Rightarrow> bool" where
  "tenants_keyed w = (distinct (map ten_id (tenants (w_db w))) \<and> (\<forall>t\<in>set (tenants (w_db w)). ten_id t < w_next w))"

definition keeps_closed :: "world \<Rightarrow> world \<Rightarrow> bool" where
  "keeps_closed w v = (uncommitted w v \<and> (tenants_keyed w \<longrightarrow> tenants_keyed v
     \<and> {t \<in> set (tenants (w_db w)). ten_status t \<noteq> T_ACTIVE} \<subseteq> set (tenants (w_db v))))"

lemma part_keeps_closed: "inside (same_part tenants) uncommitted m \<Longrightarrow> wp m (\<lambda>_. keeps_closed w) (\<lambda>_. uncommitted w) w"
  by (rule wp_part) (fastforce simp: same_part_def keeps_closed_def tenants_keyed_def uncommitted_def)+

lemma part_membership_ops [frame_intros]:
  "(\<And>d x. f (d\<lparr>tenant_memberships := x\<rparr>) = f d) \<Longrightarrow> inside (same_part f) uncommitted (save_membership m)"
  "(\<And>d x y. f (d\<lparr>tenant_memberships := x, membership_roles := y\<rparr>) = f d) \<Longrightarrow> inside (same_part f) uncommitted (delete_membership i)"
  "(\<And>d x. f (d\<lparr>tenant_memberships := x\<rparr>) = f d) \<Longrightarrow> inside (same_part f) uncommitted (new_membership tid uid st b)"
  unfolding save_membership_def delete_membership_def new_membership_def flush_memberships_def Let_def
  by (intro frame_intros; simp)+

text \<open>The member routes stay out of a part that reads neither memberships, assignments nor the trail.\<close>

lemma part_members:
  assumes "\<And>d x. f (d\<lparr>tenant_memberships := x\<rparr>) = f d" and "\<And>d x. f (d\<lparr>membership_roles := x\<rparr>) = f d"
    and "\<And>d x. f (d\<lparr>audit_logs := x\<rparr>) = f d"
  shows "inside (same_part f) uncommitted (add_member tid em uid slugs st)"
    "inside (same_part f) uncommitted (update_member tid mid st' sl' ow)"
    "inside (same_part f) uncommitted (remove_member tid mid)"
proof -
  have both: "f (d\<lparr>tenant_memberships := x, membership_roles := y\<rparr>) = f d" for d x y
    using assms(1,2) by metis
  show "inside (same_part f) uncommitted (add_member tid em uid slugs st)"
    unfolding add_member_def create_membership_def by (intro frame_intros assms both)
  show "inside (same_part f) uncommitted (update_member tid mid st' sl' ow)"
    unfolding update_member_def keep_an_owner_def by (intro frame_intros assms both)
  show "inside (same_part f) uncommitted (remove_member tid mid)"
    unfolding remove_member_def keep_an_owner_def flush_memberships_def by (intro frame_intros assms both)
qed

lemma keeps_closed_tail:
  assumes "inside (same_part tenants) uncommitted m" and "keeps_closed w v"
  shows "wp m (\<lambda>_. keeps_closed w) (\<lambda>_. uncommitted w) v"
proof (rule wp_part [OF assms(1)])
  fix u assume u: "same_part tenants v u"
  have "tenants_keyed v \<Longrightarrow> tenants_keyed u"
    using u by (fastforce simp: same_part_def tenants_keyed_def uncommitted_def)
  then show "keeps_closed w u"
    using assms(2) u by (auto simp: keeps_closed_def same_part_def uncommitted_def)
qed (use assms(2) in \<open>auto simp: keeps_closed_def uncommitted_def\<close>)

lemma closed_put:
  assumes "tenants_keyed w" and "t \<in> set (tenants (w_db w))" and "ten_status t = T_ACTIVE" and "ten_id t' = ten_id t"
  shows "keeps_closed w (w\<lparr>w_db := (w_db w)\<lparr>tenants := row_put ten_id t' (tenants (w_db w))\<rparr>\<rparr>)"
proof -
  have "s \<in> set (row_put ten_id t' (tenants (w_db w)))" if "s \<in> set (tenants (w_db w))" "ten_status s \<noteq> T_ACTIVE" for s
  proof -
    have "ten_id s \<noteq> ten_id t"
      using that assms(1-3) by (auto simp: tenants_keyed_def distinct_map inj_on_def)
    then show ?thesis using row_put_other [OF that(1)] assms(4) by metis
  qed
  moreover have "\<forall>s\<in>set (row_put ten_id t' (tenants (w_db w))). ten_id s < w_next w"
    using assms by (auto simp: tenants_keyed_def dest!: row_put_set)
  ultimately show ?thesis
    using assms(1) by (auto simp: keeps_closed_def tenants_keyed_def uncommitted_def)
qed

lemma update_tenant_closed:
  assumes "t \<in> set (tenants (w_db w))" and "ten_status t = T_ACTIVE"
  shows "wp (update_tenant t name status settings) (\<lambda>_. keeps_closed w) (\<lambda>_. uncommitted w) w"
proof -
  have refl: "keeps_closed w w" by (auto simp: keeps_closed_def)
  have rest: "wp (ethen (do_when b (save_tenant t3)) (ethen flush_tenants (
         ethen (audit_on A_TENANT_UPDATED ''tenant'' (ten_id t) md) (ret t3)))) (\<lambda>_. keeps_closed w) (\<lambda>_. uncommitted w) w"
    if "ten_id t3 = ten_id t" for t3 md b
  proof -
    have tail: "inside (same_part tenants) uncommitted (ethen flush_tenants (
         ethen (audit_on A_TENANT_UPDATED ''tenant'' (ten_id t) md) (ret t3)))"
      unfolding flush_tenants_def by (intro frame_intros) simp_all
    have "keeps_closed w (w\<lparr>w_db := (w_db w)\<lparr>tenants := row_put ten_id (t3\<lparr>ten_updated_at := n\<rparr>) (tenants (w_db w))\<rparr>\<rparr>)" for n
      using closed_put [OF _ assms, of "t3\<lparr>ten_updated_at := n\<rparr>"] that
      by (cases "tenants_keyed w") (auto simp: keeps_closed_def uncommitted_def)
    then show ?thesis
      using keeps_closed_tail [OF tail] refl
      unfolding wp_ethen [of "do_when b m" for b m] wp_do_when save_tenant_def wp_ebind [of now] wp_now wp_change_db
      by simp
  qed
  show ?thesis
    unfolding update_tenant_def Let_def
    by (auto simp: wp_ebind wp_lift_sum wp_ret split: option.split sum.split intro!: rest)
qed

lemma wp_both: "wp m (\<lambda>_. R) (\<lambda>_. E) s \<Longrightarrow> wp m Q (\<lambda>_ _. True) s \<Longrightarrow> wp m (\<lambda>a t. Q a t \<and> R t) (\<lambda>_. E) s"
  by (auto simp: wp_def split: sum.splits prod.splits)

lemma call_closed:
  assumes "tc_tenant c \<in> set (tenants (w_db w))" and "ten_status (tc_tenant c) = T_ACTIVE"
  shows "wp (call_handler path q c) (\<lambda>_. keeps_closed w) (\<lambda>_. uncommitted w) w"
proof (cases q)
  case (WC_Update name status settings)
  have "wp (done_with (update_tenant (tc_tenant c) name status settings)) (\<lambda>_. keeps_closed w) (\<lambda>_. uncommitted w) w"
    unfolding done_with_def wp_ebind by (rule wp_mono [OF update_tenant_closed [OF assms]]) (simp_all add: wp_ret)
  then show ?thesis
    unfolding WC_Update call_handler.simps call_routes wp_ethen wp_raise_if by simp
next
  case (WC_UpdateRole rid name descr perms)
  then show ?thesis
    by (auto intro!: part_keeps_closed frame_intros simp: call_routes update_role_def)
qed (auto intro!: part_keeps_closed frame_intros part_members
      simp: call_routes create_role_def delete_role_def drop_role_def)

lemma create_closed: "wp (create_tenant name slug owner) (\<lambda>_. keeps_closed w) (\<lambda>_. uncommitted w) w"
proof -
  have provision: "inside (same_part tenants) uncommitted (provision_tenant owner t)" for t
  proof -
    have role: "inside (same_part tenants) uncommitted (seed_role cat ex d)" for cat ex d
      unfolding seed_role_def by (intro frame_intros) simp_all
    have roles: "inside (same_part tenants) uncommitted (seed_roles cat ex ds)" for cat ex ds
      by (induction ds) (auto intro!: frame_intros role)
    show ?thesis
      unfolding provision_tenant_def seed_system_roles_def create_membership_def
      by (intro frame_intros roles) simp_all
  qed
  have new: "wp (ebind (new_tenant name handle (usr_id owner)) (provision_tenant owner)) (\<lambda>_. keeps_closed w) (\<lambda>_. uncommitted w) w"
    for handle
  proof -
    have "keeps_closed w (w\<lparr>w_next := Suc (w_next w), w_db := (w_db w)\<lparr>tenants := tenants (w_db w) @ [t]\<rparr>\<rparr>)"
      if "ten_id t = w_next w" for t
      using that by (fastforce simp: keeps_closed_def tenants_keyed_def uncommitted_def less_Suc_eq)
    then show ?thesis
      unfolding wp_ebind wp_new_tenant Let_def
      by (auto intro!: keeps_closed_tail [OF provision] simp: uncommitted_def)
  qed
  show ?thesis
    unfolding create_tenant_def Let_def using new
    by (auto simp: wp_ebind wp_ethen wp_lift_sum wp_raise_if slug_exists_def wp_query split: sum.split)
qed

datatype platform_request =
    PR_Create "credentials option" string "string option"
  | PR_Call "credentials option" "nat option" nat workspace_call

fun serve_platform :: "jwt_service \<Rightarrow> platform_request \<Rightarrow> world \<Rightarrow> world" where
  "serve_platform js (PR_Create creds name slug) w = serve_create js creds name slug w"
| "serve_platform js (PR_Call creds header path q) w = serve_call js creds header path q w"

lemma wp_enter_workspace:
  "wp (ebind (get_principal js creds) (\<lambda>p. get_tenant_context p (requested_tenant_id p header)))
     (\<lambda>c v. same_part id w v \<and> tc_tenant c \<in> set (tenants (w_db v)) \<and> ten_status (tc_tenant c) = T_ACTIVE
        \<and> (\<forall>tid. header = Some tid \<longrightarrow> ten_id (tc_tenant c) = tid))
     (\<lambda>_. uncommitted w) w"
proof -
  have ctx: "wp (get_tenant_context p req) (\<lambda>c v. (tc_tenant c \<in> set (tenants (w_db v)) \<and> ten_status (tc_tenant c) = T_ACTIVE
        \<and> req = Some (ten_id (tc_tenant c))) \<and> same_part id u v) (\<lambda>_. uncommitted u) u" for p req u
  proof (rule wp_both [OF insideD [OF part_gate(2)]])
    show "wp (get_tenant_context p req) (\<lambda>c v. tc_tenant c \<in> set (tenants (w_db v)) \<and> ten_status (tc_tenant c) = T_ACTIVE
        \<and> req = Some (ten_id (tc_tenant c))) (\<lambda>_ _. True) u"
    proof (cases req)
      case (Some tid)
      show ?thesis by (rule wp_mono [OF wp_tenant_context [OF Some]]) (auto simp: Some)
    qed (simp add: get_tenant_context_def wp_simps)
  qed
  show ?thesis
    unfolding wp_ebind
  proof (rule wp_part [OF part_gate(1), where f = id])
    fix p v assume v: "same_part id w v"
    show "wp (get_tenant_context p (requested_tenant_id p header))
     (\<lambda>c v. same_part id w v \<and> tc_tenant c \<in> set (tenants (w_db v)) \<and> ten_status (tc_tenant c) = T_ACTIVE
        \<and> (\<forall>tid. header = Some tid \<longrightarrow> ten_id (tc_tenant c) = tid)) (\<lambda>_. uncommitted w) v"
      using v by (intro wp_mono [OF ctx]) (auto simp: same_part_def uncommitted_def requested_tenant_id_def)
  qed
qed

lemma serve_closed:
  assumes "tenants_keyed (w\<lparr>w_db := w_committed w\<rparr>)" and "v = serve_platform js q w"
  shows "tenants_keyed (v\<lparr>w_db := w_committed v\<rparr>)"
    "{t \<in> set (tenants (w_committed w)). ten_status t \<noteq> T_ACTIVE} \<subseteq> set (tenants (w_committed v))"
proof -
  let ?o = "open_session None None w"
  let ?P = "\<lambda>n d. distinct (map ten_id (tenants d)) \<and> (\<forall>t\<in>set (tenants d). ten_id t < n)
     \<and> {t \<in> set (tenants (w_committed w)). ten_status t \<noteq> T_ACTIVE} \<subseteq> set (tenants d)"
  have start: "tenants_keyed ?o" "w_committed ?o = w_committed w" "w_db ?o = w_committed w"
    using assms(1) by (simp_all add: tenants_keyed_def open_session_def)
  have post: "wp body (\<lambda>_ u. ?P (w_next u) (w_db u)) (\<lambda>_ u. ?P (w_next u) (w_committed u)) ?o"
    if "wp body (\<lambda>_. keeps_closed ?o) (\<lambda>_. uncommitted ?o) ?o" for body :: "unit svc"
    using start by (intro wp_mono [OF that]) (fastforce simp: keeps_closed_def tenants_keyed_def uncommitted_def)+
  have "?P (w_next v) (w_committed v)"
  proof (cases q)
    case (PR_Create creds name slug)
    have "wp (ebind (get_principal js creds) (\<lambda>p. done_with (create_tenant name slug (pr_user p))))
        (\<lambda>_. keeps_closed ?o) (\<lambda>_. uncommitted ?o) ?o"
      unfolding wp_ebind
    proof (rule wp_part [OF part_gate(1), where f = id])
      fix p u assume u: "same_part id ?o u"
      show "wp (done_with (create_tenant name slug (pr_user p))) (\<lambda>_. keeps_closed ?o) (\<lambda>_. uncommitted ?o) u"
        unfolding done_with_def wp_ebind using u
        by (intro wp_mono [OF create_closed])
          (fastforce simp: wp_ret keeps_closed_def same_part_def uncommitted_def tenants_keyed_def)+
    qed
    then show ?thesis
      using scope_committed [OF post] assms(2) unfolding PR_Create serve_platform.simps serve_create_def
        create_tenant_request_def get_unscoped_session_def by blast
  next
    case (PR_Call creds header path c)
    have "wp (ebind (get_principal js creds) (\<lambda>p. ebind (get_tenant_context p (requested_tenant_id p header)) (\<lambda>x.
        ebind (lift_sum (require_permission (perm_value (call_permission c)) x)) (call_handler path c))))
        (\<lambda>_. keeps_closed ?o) (\<lambda>_. uncommitted ?o) ?o"
    proof -
      have handler: "wp (ebind (lift_sum (require_permission (perm_value (call_permission c)) x)) (call_handler path c))
          (\<lambda>_. keeps_closed ?o) (\<lambda>_. uncommitted ?o) u"
        if u: "same_part id ?o u" "tc_tenant x \<in> set (tenants (w_db u))" "ten_status (tc_tenant x) = T_ACTIVE" for x u
      proof -
        have "wp (call_handler path c x) (\<lambda>_. keeps_closed ?o) (\<lambda>_. uncommitted ?o) u"
          using u(1) by (intro wp_mono [OF call_closed [OF u(2,3)]])
            (fastforce simp: keeps_closed_def same_part_def uncommitted_def tenants_keyed_def)+
        then show ?thesis
          using u(1) by (auto simp: wp_ebind wp_lift_sum require_permission_def same_part_def)
      qed
      show ?thesis
        using wp_mono [OF wp_enter_workspace [of js creds header ?o], of "\<lambda>x u. wp (ebind (lift_sum (require_permission
            (perm_value (call_permission c)) x)) (call_handler path c)) (\<lambda>_. keeps_closed ?o) (\<lambda>_. uncommitted ?o) u"
            "\<lambda>_. uncommitted ?o"] handler
        unfolding wp_ebind by blast
    qed
    then show ?thesis
      using scope_committed [OF post] assms(2) unfolding PR_Call serve_platform.simps serve_call_def
        workspace_request_def guarded_request_def get_unscoped_session_def by blast
  qed
  then show "tenants_keyed (v\<lparr>w_db := w_committed v\<rparr>)"
    "{t \<in> set (tenants (w_committed w)). ten_status t \<noteq> T_ACTIVE} \<subseteq> set (tenants (w_committed v))"
    by (simp_all add: tenants_keyed_def)
qed

section \<open>System roles\<close>

definition roles_keyed :: "nat \<Rightarrow> db \<Rightarrow> bool" where
  "roles_keyed n d = (distinct (map role_id (roles d)) \<and> (\<forall>r\<in>set (roles d). role_id r < n))"

definition system_grants :: "db \<Rightarrow> (role_row \<times> nat \<times> nat) set" where
  "system_grants d = {(r, t, p). r \<in> set (roles d) \<and> role_is_system r \<and> p \<in> grants_of t (role_id r) d}"

definition system_roles :: "db \<Rightarrow> role_row set" where
  "system_roles d = {r \<in> set (roles d). role_is_system r}"

definition keeps_system :: "world \<Rightarrow> world \<Rightarrow> bool" where
  "keeps_system w v = (uncommitted w v \<and> (roles_keyed (w_next w) (w_db w) \<longrightarrow> roles_keyed (w_next v) (w_db v)
     \<and> system_roles (w_db v) = system_roles (w_db w) \<and> system_grants (w_db v) = system_grants (w_db w)))"

interpretation system: frame keeps_system uncommitted
  by unfold_locales (auto simp: keeps_system_def uncommitted_def)

abbreviation role_part :: "db \<Rightarrow> role_row list \<times> role_permission_row list" where
  "role_part d \<equiv> (roles d, role_permissions d)"

lemma part_keeps_system:
  assumes "inside (same_part role_part) uncommitted m"
  shows "inside keeps_system uncommitted m"
proof -
  have "keeps_system w v" if "same_part role_part w v" for w v
    using that by (fastforce simp: same_part_def keeps_system_def uncommitted_def roles_keyed_def system_roles_def
        system_grants_def grants_of_def)
  then show ?thesis using assms unfolding inside_def by (blast intro: wp_mono)
qed

text \<open>Writing the grants of a role that is no system role.\<close>

lemma replace_other_grants:
  assumes "\<forall>r\<in>set (roles (w_db w)). role_is_system r \<longrightarrow> role_id r \<noteq> rid"
  shows "wp (replace_for_role rid pids) (\<lambda>_. keeps_system w) (\<lambda>_. uncommitted w) w"
proof (cases "w_tenant w")
  case (Some t)
  let ?d = "\<lambda>gs. (w_db w)\<lparr>role_permissions := filter (\<lambda>g. \<not> (rp_tenant_id g = t \<and> rp_role_id g = rid))
      (role_permissions (w_db w)) @ gs\<rparr>"
  have "grants_of t' (role_id r) (?d (grant_rows i t rid ps)) = grants_of t' (role_id r) (w_db w)"
    if "r \<in> set (roles (w_db w))" "role_is_system r" for t' r i ps
    using that assms by (force simp: grants_of_def dest: grant_rows_set)
  then have "keeps_system w (w\<lparr>w_next := w_next w + k, w_db := ?d (grant_rows i t rid ps)\<rparr>)" for k i ps
    by (auto simp: keeps_system_def uncommitted_def roles_keyed_def system_roles_def system_grants_def intro: trans_less_add1)
  then show ?thesis
    using Some by (simp add: replace_for_role_def wp_simps wp_new_grants uncommitted_def)
qed (simp add: replace_for_role_def wp_simps)

lemma system_tail:
  assumes "wp m (\<lambda>_. keeps_system v) (\<lambda>_. uncommitted v) v" and "keeps_system w v"
  shows "wp m (\<lambda>_. keeps_system w) (\<lambda>_. uncommitted w) v"
  using assms(2) system.trans [of w v] system.late [of w v] by (intro wp_mono [OF assms(1)]) blast+

lemma unkeyed_system:
  assumes "\<not> roles_keyed (w_next w) (w_db w)" and "inside (same_part (\<lambda>_. ())) uncommitted m"
  shows "wp m (\<lambda>_. keeps_system w) (\<lambda>_. uncommitted w) w"
  using assms(1) by (intro wp_part [OF assms(2)]) (simp_all add: same_part_def keeps_system_def)

lemma wp_repo_role:
  assumes "\<And>r. r \<in> set (roles (w_db w)) \<Longrightarrow> role_id r = rid \<Longrightarrow> Q (Some r) w" and "Q None w" and "\<And>e. E e w"
  shows "wp (repo_get role_model rid) Q E w"
proof (cases "w_tenant w")
  case (Some t)
  then show ?thesis
    unfolding repo_get_def wp_ebind role_table.wp_where
    using assms by (auto simp: tenant_rows_def intro!: wp_some_row)
qed (use assms(3) in \<open>simp add: repo_get_def wp_ebind role_table.wp_where\<close>)

lemma system_put:
  assumes "r \<in> set (roles (w_db w))" and "\<not> role_is_system r" and "role_id r' = role_id r" and "\<not> role_is_system r'"
  shows "keeps_system w (w\<lparr>w_db := (w_db w)\<lparr>roles := row_put role_id r' (roles (w_db w))\<rparr>\<rparr>)"
proof (cases "roles_keyed (w_next w) (w_db w)")
  case True
  have other: "s \<in> set (row_put role_id r' (roles (w_db w))) \<longleftrightarrow> s \<in> set (roles (w_db w))" if "role_is_system s" for s
  proof
    assume "s \<in> set (row_put role_id r' (roles (w_db w)))"
    then show "s \<in> set (roles (w_db w))" using row_put_set [of s role_id r'] that assms(4) by blast
  next
    assume s: "s \<in> set (roles (w_db w))"
    then have "role_id s \<noteq> role_id r'"
      using True assms(1-3) that by (auto simp: roles_keyed_def distinct_map inj_on_def)
    then show "s \<in> set (row_put role_id r' (roles (w_db w)))" using row_put_other [OF s] by blast
  qed
  moreover have "\<forall>s\<in>set (row_put role_id r' (roles (w_db w))). role_id s < w_next w"
    using True assms(1,3) by (auto simp: roles_keyed_def dest!: row_put_set)
  ultimately show ?thesis
    using True by (auto simp: keeps_system_def uncommitted_def roles_keyed_def system_roles_def system_grants_def grants_of_def)
qed (simp add: keeps_system_def uncommitted_def)

lemma role_changes_keys:
  assumes "role_changes name descr r = (r', changed)"
  shows "role_id r' = role_id r" "role_is_system r' = role_is_system r" "role_tenant_id r' = role_tenant_id r"
  using assms by (auto simp: role_changes_def split: option.splits if_splits)

lemma custom_role_ids:
  assumes "roles_keyed (w_next w) (w_db w)" and "r \<in> set (roles (w_db w))" and "\<not> role_is_system r"
  shows "\<forall>s\<in>set (roles (w_db w)). role_is_system s \<longrightarrow> role_id s \<noteq> role_id r"
  using assms by (auto simp: roles_keyed_def distinct_map inj_on_def)

lemma grants_custom:
  assumes "r \<in> set (roles (w_db w))" and "\<not> role_is_system r" and "rid = role_id r"
  shows "wp (replace_for_role rid pids) (\<lambda>_. keeps_system w) (\<lambda>_. uncommitted w) w"
proof (cases "roles_keyed (w_next w) (w_db w)")
  case True
  show ?thesis unfolding assms(3) by (rule replace_other_grants) (rule custom_role_ids [OF True assms(1,2)])
next
  case False
  then show ?thesis by (rule unkeyed_system) (intro frame_intros, simp)
qed

lemma update_role_system: "wp (update_role rid name descr perms) (\<lambda>_. keeps_system w) (\<lambda>_. uncommitted w) w"
  unfolding update_role_def wp_ebind [of "repo_get role_model rid"]
proof (rule wp_repo_role)
  fix r assume r: "r \<in> set (roles (w_db w))" "role_id r = rid"
  obtain r' changed where c: "role_changes name descr r = (r', changed)" by fastforce
  note keys = role_changes_keys [OF c]
  have grants: "wp (case perms of None \<Rightarrow> ret (0, changed)
                | Some ps \<Rightarrow> ebind (resolve_permission_ids ps) (\<lambda>pids.
                    ethen (replace_for_role rid pids) (ret (length pids, changed @ [''permissions'']))))
      (\<lambda>_. keeps_system w) (\<lambda>_. uncommitted w) v"
    if v: "keeps_system w v" and x: "x \<in> set (roles (w_db v))" "\<not> role_is_system x" "role_id x = rid" for v x
  proof (cases perms)
    case (Some ps)
    have "wp (ethen (replace_for_role rid pids) (ret (length pids, changed @ [''permissions'']))) (\<lambda>_. keeps_system w)
        (\<lambda>_. uncommitted w) v" for pids
      using wp_mono [OF system_tail [OF grants_custom [OF x(1,2) x(3) [symmetric]] v]] by (simp add: wp_ethen wp_ret)
    then show ?thesis
      unfolding Some option.case wp_ebind using v
      by (intro wp_reads [OF reads_roles(15)]) (simp_all add: keeps_system_def)
  qed (use v in \<open>simp add: wp_ret\<close>)
  have tail: "inside (same_part role_part) uncommitted (ethen (flush_check roles_ok ''roles'') (ethen (audit_on A_ROLE_UPDATED ''role'' rid md) (ret r')))"
    for md by (intro frame_intros) simp_all
  have settle: "wp (ebind (case perms of None \<Rightarrow> ret (0, changed)
                | Some ps \<Rightarrow> ebind (resolve_permission_ids ps) (\<lambda>pids.
                    ethen (replace_for_role rid pids) (ret (length pids, changed @ [''permissions''])))) (\<lambda>(n, fields).
         ethen (flush_check roles_ok ''roles'') (ethen (audit_on A_ROLE_UPDATED ''role'' rid
           [(''slug'', JStr (role_slug r')), (''name'', JStr (role_name r')),
            (''changed_fields'', JList (map JStr fields)), (''permission_count'', JInt (int n))]) (ret r'))))
      (\<lambda>_. keeps_system w) (\<lambda>_. uncommitted w) v"
    if v: "keeps_system w v" and x: "x \<in> set (roles (w_db v))" "\<not> role_is_system x" "role_id x = rid" for v x
    unfolding wp_ebind [of "case perms of None \<Rightarrow> ret (0, changed) | Some ps \<Rightarrow> f ps" for f]
    by (rule wp_mono [OF grants [OF v x]])
      (auto intro!: system_tail [OF insideD [OF part_keeps_system [OF tail]]] split: prod.split)
  show "wp (case Some r of None \<Rightarrow> raise (not_found ''role'' rid)
     | Some r \<Rightarrow>
         ethen (raise_if (role_is_system r) (system_role_immutable
             ''System roles cannot be modified. Create a custom role instead.'' r)) (
         let (r', changed) = role_changes name descr r in
         ethen (do_when (changed \<noteq> []) (repo_save role_model r')) (
         ebind (case perms of
                  None \<Rightarrow> ret (0, changed)
                | Some ps \<Rightarrow> ebind (resolve_permission_ids ps) (\<lambda>pids.
                    ethen (replace_for_role rid pids) (ret (length pids, changed @ [''permissions''])))) (\<lambda>(n, fields).
         ethen (flush_check roles_ok ''roles'') (
         ethen (audit_on A_ROLE_UPDATED ''role'' rid
           [(''slug'', JStr (role_slug r')), (''name'', JStr (role_name r')),
            (''changed_fields'', JList (map JStr fields)), (''permission_count'', JInt (int n))])
           (ret r')))))) (\<lambda>_. keeps_system w) (\<lambda>_. uncommitted w) w"
  proof (cases "role_is_system r")
    case False
    have saved: "keeps_system w (w\<lparr>w_db := (w_db w)\<lparr>roles := row_put role_id (r'\<lparr>role_updated_at := w_now w\<rparr>) (roles (w_db w))\<rparr>\<rparr>)"
      using system_put [OF r(1) False, of "r'\<lparr>role_updated_at := w_now w\<rparr>"] keys False by simp
    have mem: "r'\<lparr>role_updated_at := w_now w\<rparr> \<in> set (row_put role_id (r'\<lparr>role_updated_at := w_now w\<rparr>) (roles (w_db w)))"
      using keys by (intro row_put_mem [OF r(1)]) simp
    show ?thesis
      unfolding option.case c Let_def prod.case wp_ethen [of "raise_if b e" for b e] wp_raise_if
        wp_ethen [of "do_when b m" for b m] wp_do_when role_table.wp_save
      using False settle [OF system.refl r(1) False r(2)]
        settle [OF saved, of "r'\<lparr>role_updated_at := w_now w\<rparr>"] mem keys r(2) by simp
  qed (simp add: wp_simps c)
qed (simp_all add: wp_simps keeps_system_def)

lemma create_role_system: "wp (create_role slug name descr perms) (\<lambda>_. keeps_system w) (\<lambda>_. uncommitted w) w"
proof -
  have tail: "inside (same_part role_part) uncommitted (ethen (audit_on A_ROLE_CREATED ''role'' i md) (ret r))" for i md r
    by (intro frame_intros) simp_all
  have grants: "wp (ethen (replace_for_role (role_id r) pids) (ethen (audit_on A_ROLE_CREATED ''role'' i md) (ret r)))
      (\<lambda>_. keeps_system w) (\<lambda>_. uncommitted w) v"
    if "keeps_system w v" "r \<in> set (roles (w_db v))" "\<not> role_is_system r" for r pids i md v
    unfolding wp_ethen [of "replace_for_role (role_id r) pids"]
    by (rule wp_mono [OF system_tail [OF grants_custom [OF that(2,3) refl] that(1)]])
      (auto intro: system_tail [OF insideD [OF part_keeps_system [OF tail]]])
  have new: "keeps_system w (w\<lparr>w_next := Suc (w_next w), w_db := (w_db w)\<lparr>roles := roles (w_db w) @ [r]\<rparr>\<rparr>)"
    if "role_id r = w_next w" "\<not> role_is_system r" for r
    using that by (fastforce simp: keeps_system_def uncommitted_def roles_keyed_def system_roles_def system_grants_def
        grants_of_def less_Suc_eq)
  have made: "wp (ebind (new_role slug name descr False) (\<lambda>r. ethen (replace_for_role (role_id r) pids) (
       ethen (audit_on A_ROLE_CREATED ''role'' (role_id r)
       [(''slug'', JStr slug), (''name'', JStr name), (''permission_count'', JInt (int (length pids)))])
       (ret r)))) (\<lambda>_. keeps_system w) (\<lambda>_. uncommitted w) w" for pids
  proof (cases "w_tenant w")
    case (Some t)
    let ?r = "\<lparr>role_id = w_next w, role_tenant_id = t, role_slug = slug, role_name = name, role_description = descr,
       role_is_system = False, role_created_at = w_now w, role_updated_at = w_now w\<rparr>"
    have "keeps_system w (w\<lparr>w_next := Suc (w_next w), w_db := (w_db w)\<lparr>roles := roles (w_db w) @ [?r]\<rparr>\<rparr>)"
      by (rule new) simp_all
    from grants [OF this, of ?r] Some show ?thesis
      unfolding wp_ebind new_role_def role_table.wp_new wp_ethen [of "flush_check ok c" for ok c] wp_flush_check wp_ret
      by (simp add: uncommitted_def)
  qed (simp add: wp_ebind new_role_def role_table.wp_new)
  have refl: "keeps_system w w" by (rule system.refl)
  show ?thesis
    unfolding create_role_def wp_ebind [of "role_by_slug slug"]
    by (intro wp_reads [OF reads_roles(5)])
      (auto simp: wp_ethen wp_raise_if wp_ebind [of "resolve_permission_ids perms"] intro!: wp_reads [OF reads_roles(15)] made)
qed

lemma drop_system:
  assumes "r \<in> set (roles (w_db w))" and "\<not> role_is_system r"
  shows "wp (drop_role (role_id r)) (\<lambda>_. keeps_system w) (\<lambda>_. uncommitted w) w"
proof (cases "roles_keyed (w_next w) (w_db w)")
  case True
  note ids = custom_role_ids [OF True assms]
  let ?d = "(w_db w)\<lparr>roles := row_drop role_id (role_id r) (roles (w_db w)),
     role_permissions := filter (\<lambda>g. rp_role_id g \<noteq> role_id r) (role_permissions (w_db w)),
     membership_roles := filter (\<lambda>a. mr_role_id a \<noteq> role_id r) (membership_roles (w_db w))\<rparr>"
  have "grants_of t (role_id s) ?d = grants_of t (role_id s) (w_db w)" if "s \<in> set (roles (w_db w))" "role_is_system s" for s t
    using that ids by (auto simp: grants_of_def)
  moreover have "s \<in> set (roles ?d) \<longleftrightarrow> s \<in> set (roles (w_db w))" if "role_is_system s" for s
    using ids that by (auto simp: row_drop_def)
  moreover have "roles_keyed (w_next w) ?d"
    using True by (auto simp: roles_keyed_def row_drop_keys) (auto simp: row_drop_def)
  ultimately have "keeps_system w (w\<lparr>w_db := ?d\<rparr>)"
    by (auto simp: keeps_system_def uncommitted_def system_roles_def system_grants_def)
  then show ?thesis by (simp add: drop_role_def wp_simps)
next
  case False
  then show ?thesis by (rule unkeyed_system) (unfold drop_role_def, intro frame_intros, simp)
qed

lemma delete_role_system: "wp (delete_role rid) (\<lambda>_. keeps_system w) (\<lambda>_. uncommitted w) w"
  unfolding delete_role_def wp_ebind [of "repo_get role_model rid"]
proof (rule wp_repo_role)
  fix r assume r: "r \<in> set (roles (w_db w))" "role_id r = rid"
  have tail: "inside (same_part role_part) uncommitted (audit_on A_ROLE_DELETED ''role'' rid md)" for md
    by (intro frame_intros) simp_all
  have gone: "wp (ethen (drop_role rid) (audit_on A_ROLE_DELETED ''role'' rid md)) (\<lambda>_. keeps_system w) (\<lambda>_. uncommitted w) w"
    if "\<not> role_is_system r" for md
    unfolding wp_ethen [of "drop_role rid"]
    by (rule wp_mono [OF drop_system [OF r(1) that, unfolded r(2)]])
      (auto intro: system_tail [OF insideD [OF part_keeps_system [OF tail]]])
  show "wp (case Some r of None \<Rightarrow> raise (not_found ''role'' rid)
     | Some r \<Rightarrow>
         ethen (raise_if (role_is_system r) (system_role_immutable ''System roles cannot be deleted'' r)) (
         ebind (count_for_role rid) (\<lambda>assigned.
         ethen (raise_if (assigned \<noteq> 0) (AppExn (coded_error BusinessRuleError
             (''This role is still assigned to '' @ show_nat assigned @ '' member(s)'') ''ROLE_IN_USE''
             [(''assigned_members'', JInt (int assigned))]))) (
         ethen (drop_role rid) (
           audit_on A_ROLE_DELETED ''role'' rid
             [(''slug'', JStr (role_slug r)), (''name'', JStr (role_name r))]))))) (\<lambda>_. keeps_system w) (\<lambda>_. uncommitted w) w"
    unfolding option.case wp_ethen [of "raise_if b e" for b e] wp_raise_if wp_ebind [of "count_for_role rid"]
    by (auto intro!: wp_reads [OF reads_roles(9)] gone simp: wp_raise_if)
qed (simp_all add: wp_simps keeps_system_def uncommitted_def)

lemma part_update_tenant:
  "(\<And>d x. f (d\<lparr>tenants := x\<rparr>) = f d) \<Longrightarrow> (\<And>d x. f (d\<lparr>audit_logs := x\<rparr>) = f d)
   \<Longrightarrow> inside (same_part f) uncommitted (update_tenant t name status settings)"
  unfolding update_tenant_def save_tenant_def flush_tenants_def by (intro frame_intros) simp_all

lemma call_system: "inside keeps_system uncommitted (call_handler path q c)"
proof -
  have roles: "inside keeps_system uncommitted (create_role a b d e)" "inside keeps_system uncommitted (update_role i b' d' e')"
    "inside keeps_system uncommitted (delete_role i)" for a b d e i b' d' e'
    using create_role_system update_role_system delete_role_system by (simp_all add: inside_def)
  have members: "inside keeps_system uncommitted (add_member a b d e st)" "inside keeps_system uncommitted (update_member a i g h j)"
    "inside keeps_system uncommitted (remove_member a i)" "inside keeps_system uncommitted (update_tenant t k l n)"
    for a i b d e st g h j t k l n
    by (intro part_keeps_system part_members part_update_tenant; simp)+
  have reads: "inside keeps_system uncommitted (roles_for_membership a)" "inside keeps_system uncommitted (codes_for_role b)" for a b
    by (intro system.inside_reads reads_roles)+
  show ?thesis
    by (cases q) (simp_all add: call_routes done_with_def,
      (intro system.inside_ebind system.inside_ethen system.inside_basic roles members reads)+)
qed

end
