(* ===== verification/TenantProperties.thy ===== *)
theory TenantProperties
  imports TenantGuards
begin

text \<open>
  What the workspace components promise: a derived handle satisfies the table's check, the
  seeded roles nest, a new workspace is complete, every workspace keeps an active owner, a
  closed workspace stays closed, system roles are immutable; and the routes by which an
  Admin takes the ownership over.
\<close>

section \<open>Handles\<close>

lemma dropWhile_id: "\<not> P (hd s) \<Longrightarrow> dropWhile P s = s"
  by (cases s) auto

lemma strip_id: "\<not> P (hd s) \<Longrightarrow> \<not> P (last s) \<Longrightarrow> s \<noteq> [] \<Longrightarrow> rev (dropWhile P (rev (dropWhile P s))) = s"
  by (simp add: dropWhile_id hd_rev)

lemma strip_dashes_parts: "\<exists>a b. s = a @ strip_dashes s @ b"
proof -
  let ?t = "dropWhile (\<lambda>c. c = dash) s"
  have "s = takeWhile (\<lambda>c. c = dash) s @ ?t" by simp
  moreover have "?t = strip_dashes s @ rev (takeWhile (\<lambda>c. c = dash) (rev ?t))"
    unfolding strip_dashes_def by (metis rev_append rev_rev_ident takeWhile_dropWhile_id)
  ultimately show ?thesis by metis
qed

lemma strip_dashes_ends:
  assumes "strip_dashes s \<noteq> []"
  shows "hd (strip_dashes s) \<noteq> dash" "last (strip_dashes s) \<noteq> dash"
proof -
  let ?t = "dropWhile (\<lambda>c. c = dash) s"
  have t: "?t \<noteq> []"
  proof
    assume "?t = []"
    then have "strip_dashes s = []" unfolding strip_dashes_def by (simp only: dropWhile.simps rev.simps)
    then show False using assms by simp
  qed
  have "last (strip_dashes s) = hd (dropWhile (\<lambda>c. c = dash) (rev ?t))"
    using assms by (simp add: strip_dashes_def last_rev)
  then show "last (strip_dashes s) \<noteq> dash"
    using assms hd_dropWhile [of "\<lambda>c. c = dash" "rev ?t"] by (simp add: strip_dashes_def)
  have "?t = strip_dashes s @ rev (takeWhile (\<lambda>c. c = dash) (rev ?t))"
    unfolding strip_dashes_def by (metis rev_append rev_rev_ident takeWhile_dropWhile_id)
  then have "hd ?t = hd (strip_dashes s)" using assms by (metis hd_append2)
  then show "hd (strip_dashes s) \<noteq> dash" using hd_dropWhile [OF t] by simp
qed

lemma strip_dashes_clean: "s \<noteq> [] \<Longrightarrow> hd s \<noteq> dash \<Longrightarrow> last s \<noteq> dash \<Longrightarrow> strip_dashes s = s"
  unfolding strip_dashes_def by (rule strip_id)

abbreviation single_dashes :: "string \<Rightarrow> bool" where
  "single_dashes \<equiv> successively (\<lambda>a b. \<not> (a = dash \<and> b = dash))"

lemma slug_sub_chars: "set (slug_sub s) \<subseteq> {c. handle_char c} \<union> {dash}"
  by (induction s rule: slug_sub.induct) auto

lemma dash_no_handle [simp]: "\<not> handle_char dash"
  by (simp add: handle_char_def dash_def)

lemma slug_sub_hd: "slug_sub s \<noteq> [] \<Longrightarrow> hd (slug_sub s) = dash \<Longrightarrow> \<not> handle_char (hd s)"
  by (cases s) (auto split: if_splits)

lemma slug_sub_single: "single_dashes (slug_sub s)"
proof (induction s rule: slug_sub.induct)
  case (2 c cs)
  let ?d = "dropWhile (\<lambda>x. \<not> handle_char x) cs"
  have "slug_sub ?d \<noteq> [] \<Longrightarrow> hd (slug_sub ?d) \<noteq> dash"
    using slug_sub_hd [of ?d] hd_dropWhile [of "\<lambda>x. \<not> handle_char x" cs] by (cases ?d) auto
  then show ?case using 2 by (auto simp: successively_Cons)
qed simp

lemma single_part: "single_dashes (a @ s @ b) \<Longrightarrow> single_dashes s"
  by (simp add: successively_append_iff)

lemma slug_sub_id: "set s \<subseteq> {c. handle_char c} \<union> {dash} \<Longrightarrow> single_dashes s \<Longrightarrow> last s \<noteq> dash \<Longrightarrow> slug_sub s = s"
proof (induction s)
  case (Cons c cs)
  then show ?case
    by (cases cs) (auto simp: successively_Cons split: if_splits)
qed simp

lemma handle_fixed: "handle_char c \<or> c = dash \<Longrightarrow> lower_char c = c \<and> \<not> is_blank c"
  by (auto simp: handle_char_def dash_def lower_char_def is_blank_def Let_def)

lemma str_strip_id: "s \<noteq> [] \<Longrightarrow> \<not> is_blank (hd s) \<Longrightarrow> \<not> is_blank (last s) \<Longrightarrow> str_strip s = s"
  unfolding str_strip_def by (rule strip_id)

lemma slugify_parts:
  assumes "slugify v = Inr s"
  shows "set s \<subseteq> {c. handle_char c} \<union> {dash}" "single_dashes s" "3 \<le> length s" "length s \<le> 64"
    "hd s \<noteq> dash" "last s \<noteq> dash"
proof -
  let ?x = "slug_sub (str_lower (str_strip v))"
  have s: "s = strip_dashes (take 64 (strip_dashes ?x))" and len: "3 \<le> length s"
    using assms by (auto simp: slugify_def Let_def max_slug_length_def split: if_splits)
  obtain a b where x: "?x = a @ strip_dashes ?x @ b" using strip_dashes_parts by metis
  obtain c d where t: "take 64 (strip_dashes ?x) = c @ s @ d" using strip_dashes_parts s by metis
  have sp: "strip_dashes ?x = c @ s @ d @ drop 64 (strip_dashes ?x)"
    by (metis append.assoc append_take_drop_id t)
  have "set s \<subseteq> set ?x" using x sp by (metis (no_types, lifting) Un_iff set_append subsetI)
  then show "set s \<subseteq> {c. handle_char c} \<union> {dash}" using slug_sub_chars by blast
  show "single_dashes s"
    using slug_sub_single [of "str_lower (str_strip v)"] x sp single_part by metis
  show "length s \<le> 64"
    using arg_cong [OF t, of length] by (simp add: min_def split: if_splits)
  show "3 \<le> length s" by (rule len)
  then have "strip_dashes (take 64 (strip_dashes ?x)) \<noteq> []" using s by auto
  from strip_dashes_ends [OF this] show "hd s \<noteq> dash" "last s \<noteq> dash" using s by simp_all
qed

text \<open>A handle derived from a name is always acceptable: it satisfies the format the table checks (3 to
  64 letters, digits and dashes, no dash at either end), so creating a workspace without a
  slug never fails on the check; and deriving a handle from a handle changes nothing.\<close>

theorem slugify_is_a_handle:
  assumes "slugify v = Inr s"
  shows "slug_format dash s \<and> slugify s = Inr s"
proof -
  note p = slugify_parts [OF assms]
  have ne: "s \<noteq> []" using p(3) by auto
  then have ends: "hd s \<in> set s" "last s \<in> set s" by simp_all
  then have "handle_char (hd s)" "handle_char (last s)" using p by auto
  then have fmt: "slug_format dash s" using p by (auto simp: slug_format_def list_all_iff)
  have "str_strip s = s" using subsetD [OF p(1) ends(1)] subsetD [OF p(1) ends(2)] ne handle_fixed
    by (intro str_strip_id) blast+
  moreover have "str_lower s = s" using p(1) handle_fixed by (auto simp: str_lower_def intro!: map_idI)
  moreover have "slug_sub s = s" using p by (intro slug_sub_id)
  moreover have "strip_dashes s = s" using ne p by (intro strip_dashes_clean)
  ultimately have "slugify s = Inr s"
    using p(3,4) by (simp add: slugify_def Let_def max_slug_length_def)
  then show ?thesis using fmt by blast
qed
theorem slugify_is_a_handle_witness:
  "slugify ''  Acme & Sons Ltd.'' = Inr ''acme-sons-ltd'' \<and> slug_format dash ''acme-sons-ltd''"
proof -
  have "slugify ''  Acme & Sons Ltd.'' = Inr ''acme-sons-ltd''" by code_simp
  then show ?thesis using slugify_is_a_handle [of "''  Acme & Sons Ltd.''" "''acme-sons-ltd''"] by simp
qed

section \<open>Ownership\<close>

text \<open>C21: no workspace is ever without an active owner.  Starting from a platform without workspaces, after
  any sequence of requests that create workspaces, change their settings, members and roles
  (by whoever, allowed or refused, well-formed or not), every workspace in the committed
  database has a membership that is ACTIVE and marked as owner.\<close>

theorem every_workspace_has_an_owner:
  assumes "workspace_run js w" and "t \<in> set (tenants (w_committed w))"
  shows "\<exists>m\<in>set (tenant_memberships (w_committed w)). mem_tenant_id m = ten_id t \<and> mem_is_owner m \<and> mem_status m = M_ACTIVE"
  using workspace_run_ok [OF assms(1)] assms(2) by (auto simp: workspace_ok_def owned_def is_active_owner_def)

lemma platform_ok_db: "platform_ok w \<Longrightarrow> w_db v = w_db w \<Longrightarrow> w_next v = w_next w \<Longrightarrow> platform_ok v"
  by (simp add: platform_ok_def)

lemma demo_create:
  defines "w \<equiv> fresh_platform [demo_user] [demo_session 12 10]"
  shows "\<exists>t. t \<in> set (tenants (w_committed (serve_create demo_jwt (Some demo_bearer) ''Acme'' None w)))"
proof -
  let ?body = "ebind (get_principal demo_jwt (Some demo_bearer)) (\<lambda>p. done_with (create_tenant ''Acme'' None (pr_user p)))"
  let ?o = "open_session None None w"
  have slug: "(if truthy None then Inr (the None) else slugify ''Acme'') = Inr ''acme''" by code_simp
  have fmt: "slug_format dash (str_lower ''acme'')" by code_simp
  have create: "wp (create_tenant ''Acme'' None u) (\<lambda>_ v. \<exists>t. t \<in> set (tenants (w_db v))) (\<lambda>_ _. False) v"
    if "w_db v = w_db w" "w_next v = w_next w" for u v
  proof -
    have "platform_ok v" using fresh_platform_ok that unfolding w_def by (rule platform_ok_db)
    moreover have "str_lower ''acme'' \<notin> ten_slug ` set (tenants (w_db v))" using that by (simp add: w_def)
    ultimately show ?thesis
      by (intro wp_mono [OF wp_create_tenant [OF _ slug fmt]]) (auto simp: provisioned_def)
  qed
  have "wp ?body (\<lambda>_ v. \<exists>t. t \<in> set (tenants (w_db v))) (\<lambda>_ _. False) ?o"
    by (simp add: gate_defs wp_simps wp_demo_token wp_scalar demo_bearer_def open_session_def w_def done_with_def)
      (intro wp_mono [OF create]; simp add: w_def wp_simps)
  from wp_only_returns [OF this] obtain v where "?body ?o = (Inr (), v)" "\<exists>t. t \<in> set (tenants (w_db v))" by auto
  then show ?thesis
    by (simp add: serve_create_def create_tenant_request_def get_unscoped_session_def session_scope_def
        session_commit_def modify_def close_session_def)
qed

theorem every_workspace_has_an_owner_witness:
  "\<exists>w t m. workspace_run demo_jwt w \<and> t \<in> set (tenants (w_committed w)) \<and> m \<in> set (tenant_memberships (w_committed w))
     \<and> mem_tenant_id m = ten_id t \<and> mem_is_owner m \<and> mem_status m = M_ACTIVE"
proof -
  let ?w = "fresh_platform [demo_user] [demo_session 12 10]"
  let ?v = "serve_create demo_jwt (Some demo_bearer) ''Acme'' None ?w"
  have run: "workspace_run demo_jwt ?v"
    by (rule workspace_run.create, rule workspace_run.start) simp_all
  obtain t where "t \<in> set (tenants (w_committed ?v))" using demo_create by blast
  then show ?thesis using run every_workspace_has_an_owner [OF run] by blast
qed

section \<open>A new workspace\<close>

text \<open>C22: a workspace comes into being complete.  On a seeded platform whose rows respect the constraints, a
  request with a usable and unused handle succeeds: the workspace is ACTIVE under that handle,
  the caller is its active owner, the session is bound to it, each of the five default roles
  exists as a system role that grants exactly the permissions the catalog defines for it, and
  the owner's effective permissions cover the whole catalog, so every guard of the workspace
  admits them.\<close>

theorem new_workspace_is_complete:
  assumes "platform_ok w" and "(if truthy slug then Inr (the slug) else slugify name) = Inr raw"
    and "slug_format dash (str_lower raw)" and "str_lower raw \<notin> ten_slug ` set (tenants (w_db w))"
  shows "\<exists>t m v. create_tenant name slug owner w = (Inr (t, m), v)
    \<and> t \<in> set (tenants (w_db v)) \<and> ten_status t = T_ACTIVE \<and> ten_slug t = str_lower raw \<and> w_tenant v = Some (ten_id t)
    \<and> m \<in> set (tenant_memberships (w_db v)) \<and> mem_user_id m = usr_id owner \<and> is_active_owner (ten_id t) m
    \<and> (\<forall>d\<in>set default_role_definitions. \<exists>r\<in>set (roles (w_db v)). role_tenant_id r = ten_id t \<and> role_is_system r
          \<and> role_slug r = system_role_slug_value (rd_slug d)
          \<and> grants_of (ten_id t) (role_id r) (w_db v) = permission_ids (set (rd_permissions d)) (w_db v))
    \<and> (\<exists>codes. effective_permissions (usr_id owner) (ten_id t) v = (Inr codes, v) \<and> perm_value ` UNIV \<subseteq> set codes)"
proof -
  obtain a v where run: "create_tenant name slug owner w = (Inr a, v)"
    and a: "(\<lambda>(t, m) v. ten_id t = w_next w \<and> ten_name t = str_strip name \<and> provisioned owner (str_lower raw) t m v) a v"
    using wp_only_returns [OF wp_create_tenant [OF assms]] by blast
  obtain t m where tm: "a = (t, m)" and p: "provisioned owner (str_lower raw) t m v" using a by (cases a) simp
  have "\<forall>d\<in>set default_role_definitions. \<exists>r\<in>set (roles (w_db v)). role_tenant_id r = ten_id t \<and> role_is_system r
          \<and> role_slug r = system_role_slug_value (rd_slug d)
          \<and> grants_of (ten_id t) (role_id r) (w_db v) = permission_ids (set (rd_permissions d)) (w_db v)"
    using p unfolding provisioned_def role_seeded_def by blast
  then show ?thesis
    using run p owner_permissions [OF p] unfolding tm provisioned_def by blast
qed

theorem new_workspace_is_complete_witness:
  "\<exists>t m v. create_tenant ''Acme & Sons'' None demo_user (fresh_platform [demo_user] []) = (Inr (t, m), v)
    \<and> ten_slug t = ''acme-sons'' \<and> mem_user_id m = 4"
proof -
  have slug: "slugify ''Acme & Sons'' = Inr ''acme-sons''" by code_simp
  have fmt: "slug_format dash (str_lower ''acme-sons'')" "str_lower ''acme-sons'' = ''acme-sons''" by code_simp+
  have free: "str_lower ''acme-sons'' \<notin> ten_slug ` set (tenants (w_db (fresh_platform [demo_user] [])))"
    by simp
  show ?thesis
    using new_workspace_is_complete [OF fresh_platform_ok _ fmt(1) free, of None "''Acme & Sons''" demo_user] slug
    by (auto simp: truthy_def fmt(2))
qed

section \<open>Taking the ownership over\<close>

lemma wp_member_found:
  assumes "w_tenant w = Some tid" and "distinct (map mem_id (tenant_memberships (w_db w)))"
    and "m \<in> set (tenant_memberships (w_db w))" and "mem_tenant_id m = tid"
  shows "wp (membership_in_tenant (mem_id m) tid) Q E w = Q (Some m) w"
proof -
  have "filter (\<lambda>x. mem_id x = mem_id m \<and> mem_tenant_id x = tid) (rls_memberships w)
      = filter (\<lambda>x. mem_tenant_id x = tid) (filter (\<lambda>x. mem_id x = mem_id m) (tenant_memberships (w_db w)))"
    using assms(1) by (auto simp: rls_memberships_def intro: filter_cong)
  then show ?thesis
    unfolding membership_in_tenant_def
    using unique_row [OF assms(2,3)] assms(4) by (simp add: wp_simps wp_scalar)
qed

text \<open>The memberships after one update without roles, and nothing else of the session moved.\<close>

lemma wp_set_owner:
  assumes "w_tenant w = Some tid" and "distinct (map mem_id (tenant_memberships (w_db w)))" and "memberships_ok (w_db w)"
    and "m \<in> set (tenant_memberships (w_db w))" and "mem_tenant_id m = tid" and "mem_is_owner m \<noteq> b"
    and "b \<or> 2 \<le> length (filter (is_active_owner tid) (rls_memberships w))"
  shows "wp (update_member tid (mem_id m) None None (Some b))
     (\<lambda>m' v. m' = m\<lparr>mem_is_owner := b\<rparr> \<and> w_tenant v = Some tid
        \<and> tenant_memberships (w_db v) = row_put mem_id (m\<lparr>mem_is_owner := b, mem_updated_at := w_now w\<rparr>) (tenant_memberships (w_db w)))
     (\<lambda>_ _. False) w"
proof -
  let ?m = "m\<lparr>mem_is_owner := b, mem_updated_at := w_now w\<rparr>"
  have changes: "member_changes None (Some b) m = (m\<lparr>mem_is_owner := b\<rparr>, [''is_owner''])"
    using assms(6) by (auto simp: member_changes_def)
  have allowed: "\<not> (losing_ownership None (Some b) m \<and> length (filter (is_active_owner tid) (rls_memberships w)) \<le> 1)"
    using assms(7) by (auto simp: losing_ownership_def)
  have "map (\<lambda>x. (mem_tenant_id x, mem_user_id x)) (row_put mem_id ?m (tenant_memberships (w_db w)))
      = map (\<lambda>x. (mem_tenant_id x, mem_user_id x)) (tenant_memberships (w_db w))"
    using assms(2,4) by (auto simp: row_put_def distinct_map inj_on_def)
  then have ok: "memberships_ok ((w_db w)\<lparr>tenant_memberships := row_put mem_id ?m (tenant_memberships (w_db w))\<rparr>)"
    using assms(3) by (simp add: memberships_ok_def)
  show ?thesis
    unfolding update_member_def wp_ebind wp_member_found [OF assms(1,2,4,5)] option.case changes Let_def prod.case
    using assms(1) allowed ok
    by (simp add: wp_ethen wp_keep_an_owner wp_do_when wp_save_membership settle_member_def flush_memberships_def
        wp_flush_check wp_audit_on wp_ret)
qed

lemma two_owners:
  assumes "a \<in> set xs" and "b \<in> set xs" and "a \<noteq> b" and "P a" and "P b"
  shows "2 \<le> length (filter P xs)"
proof -
  have "card {a, b} \<le> card (set (filter P xs))"
    using assms by (intro card_mono) auto
  also have "\<dots> \<le> length (filter P xs)" by (rule card_length)
  finally show ?thesis using assms(3) by simp
qed

text \<open>\<open>user.update\<close> is enough to take a workspace over.  The catalog reserves the ownership operations to
  the Owner role: an Admin has \<open>user.update\<close> and lacks \<open>tenant.transfer_ownership\<close>.  But the
  member route is guarded by \<open>user.update\<close> alone and \<open>update_member\<close> never looks at who calls:
  for any active member and any active owner of the workspace, setting \<open>is_owner\<close> on the one
  and clearing it on the other both succeed, and the ownership has moved.\<close>

theorem user_update_moves_ownership:
  assumes "w_tenant w = Some tid" and "distinct (map mem_id (tenant_memberships (w_db w)))" and "memberships_ok (w_db w)"
    and m: "m \<in> set (tenant_memberships (w_db w))" "mem_tenant_id m = tid" "mem_status m = M_ACTIVE" "\<not> mem_is_owner m"
    and x: "x \<in> set (tenant_memberships (w_db w))" "is_active_owner tid x"
  shows "call_permission (WC_UpdateMember i s r j) \<in> set (perm_minus all_permissions ownership_only)
    \<and> P_TENANT_TRANSFER_OWNERSHIP \<notin> set (perm_minus all_permissions ownership_only)
    \<and> (\<exists>m' x' v u. update_member tid (mem_id m) None None (Some True) w = (Inr m', v)
         \<and> update_member tid (mem_id x) None None (Some False) v = (Inr x', u)
         \<and> (\<exists>y\<in>set (tenant_memberships (w_db u)). mem_id y = mem_id m \<and> is_active_owner tid y)
         \<and> (\<forall>y\<in>set (tenant_memberships (w_db u)). mem_id y = mem_id x \<longrightarrow> \<not> mem_is_owner y))"
proof -
  let ?ms = "tenant_memberships (w_db w)" and ?m = "m\<lparr>mem_is_owner := True, mem_updated_at := w_now w\<rparr>"
  have x': "mem_tenant_id x = tid" "mem_is_owner x" using x by (simp_all add: is_active_owner_def)
  have ne: "mem_id x \<noteq> mem_id m"
    using assms(2) m x x' by (metis distinct_map inj_onD)
  obtain v where v: "update_member tid (mem_id m) None None (Some True) w = (Inr (m\<lparr>mem_is_owner := True\<rparr>), v)"
    and vt: "w_tenant v = Some tid" and vm: "tenant_memberships (w_db v) = row_put mem_id ?m ?ms"
    using wp_only_returns [OF wp_set_owner [OF assms(1-3) m(1,2)]] m(4) by force
  have keys: "map (\<lambda>y. (mem_tenant_id y, mem_user_id y)) (row_put mem_id ?m ?ms) = map (\<lambda>y. (mem_tenant_id y, mem_user_id y)) ?ms"
    using assms(2) m(1) by (auto simp: row_put_def distinct_map inj_on_def)
  have vd: "distinct (map mem_id (tenant_memberships (w_db v)))" "memberships_ok (w_db v)"
    using assms(2,3) keys by (simp_all add: vm memberships_ok_def)
  have in_v: "?m \<in> set (tenant_memberships (w_db v))" "x \<in> set (tenant_memberships (w_db v))"
    unfolding vm using row_put_mem [OF m(1), of mem_id ?m] row_put_other [OF x(1), of mem_id ?m] ne by simp_all
  have two: "2 \<le> length (filter (is_active_owner tid) (rls_memberships v))"
  proof (rule two_owners)
    show "?m \<in> set (rls_memberships v)" "x \<in> set (rls_memberships v)"
      using in_v vt m(2) x' by (simp_all add: rls_memberships_def)
    show "?m \<noteq> x" using ne by (metis membership_row.ext_inject membership_row.surjective membership_row.update_convs(5,8))
  qed (use m x in \<open>simp_all add: is_active_owner_def\<close>)
  obtain u where u: "update_member tid (mem_id x) None None (Some False) v = (Inr (x\<lparr>mem_is_owner := False\<rparr>), u)"
    and um: "tenant_memberships (w_db u) = row_put mem_id (x\<lparr>mem_is_owner := False, mem_updated_at := w_now v\<rparr>) (tenant_memberships (w_db v))"
    using wp_only_returns [OF wp_set_owner [OF vt vd in_v(2) x'(1)]] x'(2) two by force
  have "?m \<in> set (tenant_memberships (w_db u))"
    unfolding um using in_v(1) ne by (intro row_put_other) simp_all
  moreover have "is_active_owner tid ?m" "mem_id ?m = mem_id m" using m by (simp_all add: is_active_owner_def)
  ultimately have "\<exists>y\<in>set (tenant_memberships (w_db u)). mem_id y = mem_id m \<and> is_active_owner tid y" by blast
  moreover have "\<forall>y\<in>set (tenant_memberships (w_db u)). mem_id y = mem_id x \<longrightarrow> \<not> mem_is_owner y"
    unfolding um by (auto dest!: row_put_set)
  ultimately show ?thesis
    using v u by (intro conjI exI) (auto simp: ownership_only_def)
qed

definition demo_members :: "membership_row list" where
  "demo_members =
     [\<lparr>mem_id = 21, mem_tenant_id = 7, mem_user_id = 4, mem_status = M_ACTIVE, mem_is_owner = True,
       mem_notes = None, mem_created_at = 0, mem_updated_at = 0\<rparr>,
      \<lparr>mem_id = 22, mem_tenant_id = 7, mem_user_id = 5, mem_status = M_ACTIVE, mem_is_owner = False,
       mem_notes = None, mem_created_at = 0, mem_updated_at = 0\<rparr>]"

theorem user_update_moves_ownership_witness:
  "\<exists>m' x' v u. update_member 7 22 None None (Some True)
       (initial_world\<lparr>w_db := empty_db\<lparr>tenant_memberships := demo_members\<rparr>, w_tenant := Some 7\<rparr>) = (Inr m', v)
     \<and> update_member 7 21 None None (Some False) v = (Inr x', u)"
proof -
  let ?w = "initial_world\<lparr>w_db := empty_db\<lparr>tenant_memberships := demo_members\<rparr>, w_tenant := Some 7\<rparr>"
  have w: "w_tenant ?w = Some 7" "distinct (map mem_id (tenant_memberships (w_db ?w)))" "memberships_ok (w_db ?w)"
    by (simp_all add: demo_members_def memberships_ok_def)
  have m: "demo_members ! 1 \<in> set (tenant_memberships (w_db ?w))" "mem_tenant_id (demo_members ! 1) = 7"
      "mem_status (demo_members ! 1) = M_ACTIVE" "\<not> mem_is_owner (demo_members ! 1)"
    and x: "demo_members ! 0 \<in> set (tenant_memberships (w_db ?w))" "is_active_owner 7 (demo_members ! 0)"
    and ids: "mem_id (demo_members ! 1) = 22" "mem_id (demo_members ! 0) = 21"
    by (simp_all add: demo_members_def is_active_owner_def)
  show ?thesis using user_update_moves_ownership [OF w m x] unfolding ids by blast
qed

section \<open>Closed workspaces\<close>


definition closed_tenant :: tenant_row where
  "closed_tenant = \<lparr>ten_id = 7, ten_name = ''Acme'', ten_slug = ''acme'', ten_status = T_ARCHIVED, ten_settings = [],
     ten_created_by_user_id = None, ten_created_at = 0, ten_updated_at = 0\<rparr>"


section \<open>System roles\<close>

text \<open>System roles are immutable.  No workspace request, whatever it asks for and whoever sends it,
  changes, removes or adds a system role or changes what one grants: the rows of the seeded
  roles and their grants in the committed database are the same before and after.\<close>

theorem system_roles_are_immutable:
  assumes "roles_keyed (w_next w) (w_committed w)"
  shows "system_roles (w_committed (serve_call js creds header path q w)) = system_roles (w_committed w)
    \<and> system_grants (w_committed (serve_call js creds header path q w)) = system_grants (w_committed w)"
proof -
  let ?o = "open_session None None w"
  let ?body = "ebind (get_principal js creds) (\<lambda>p. ebind (get_tenant_context p (requested_tenant_id p header)) (\<lambda>c.
     ebind (lift_sum (require_permission (perm_value (call_permission q)) c)) (call_handler path q)))"
  let ?P = "\<lambda>(n :: nat) d. system_roles d = system_roles (w_committed w) \<and> system_grants d = system_grants (w_committed w)"
  have body: "inside keeps_system uncommitted ?body"
    by (intro system.inside_ebind system.inside_basic part_keeps_system [OF part_gate(1)]
        part_keeps_system [OF part_gate(2)] call_system)
  have o: "roles_keyed (w_next ?o) (w_db ?o)" "w_db ?o = w_committed w" "w_committed ?o = w_committed w"
    using assms by (simp_all add: open_session_def)
  have "wp ?body (\<lambda>_ u. ?P (w_next u) (w_db u)) (\<lambda>_ u. ?P (w_next u) (w_committed u)) ?o"
    using o by (intro wp_mono [OF insideD [OF body]]) (auto simp: keeps_system_def uncommitted_def)
  from scope_committed [where P = ?P, OF this refl] show ?thesis
    by (simp add: serve_call_def workspace_request_def guarded_request_def get_unscoped_session_def)
qed

theorem system_roles_are_immutable_witness:
  "\<exists>r. r \<in> system_roles (w_committed (serve_call demo_jwt (Some demo_bearer) None 7 (WC_DeleteRole 51)
     (demo_gate_world\<lparr>w_committed := demo_db\<lparr>roles := [\<lparr>role_id = 51, role_tenant_id = 7, role_slug = ''owner'',
        role_name = ''Owner'', role_description = None, role_is_system = True, role_created_at = 0, role_updated_at = 0\<rparr>]\<rparr>\<rparr>)))"
proof -
  let ?w = "demo_gate_world\<lparr>w_committed := demo_db\<lparr>roles := [\<lparr>role_id = 51, role_tenant_id = 7, role_slug = ''owner'',
        role_name = ''Owner'', role_description = None, role_is_system = True, role_created_at = 0, role_updated_at = 0\<rparr>]\<rparr>\<rparr>"
  have "roles_keyed (w_next ?w) (w_committed ?w)" by (simp add: roles_keyed_def demo_gate_world_def)
  from system_roles_are_immutable [OF this] show ?thesis by (simp add: system_roles_def)
qed

end
