(* ===== verification/Scoring.thy ===== *)
theory Scoring
  imports Repository
begin

text \<open>
  Publisher scoring, \<open>publishers/scoring.py\<close>: the tunable weights and how they are read from
  a tenant's settings, the bundle of signals, the four component scores, the disqualifying
  findings and the combined score.  A Python float is an exact rational here, so rounding is
  the only place a score loses precision; \<open>round\<close> is Python's, half to even.  The lemmas
  bound every score whatever the weights, and show when scoring raises and that it is
  monotone in the evidence.
\<close>

section \<open>Weights\<close>

record scoring_weights =
  sw_quality_weight :: rat
  sw_relevance_weight :: rat
  sw_authority_weight :: rat
  sw_spam_weight :: rat
  sw_reachable_points :: rat
  sw_tls_points :: rat
  sw_submission_path_points :: rat
  sw_free_listing_points :: rat
  sw_indexable_points :: rat
  sw_keyword_match_points :: rat
  sw_max_keyword_points :: rat
  sw_category_match_points :: rat
  sw_country_match_points :: rat
  sw_language_match_points :: rat
  sw_spam_signal_points :: rat
  sw_excessive_outbound_links_points :: rat
  sw_min_quality_score :: rat
  sw_max_spam_score :: rat
  sw_min_opportunity_score :: rat
  sw_default_authority_score :: rat

definition default_weights :: scoring_weights where
  "default_weights =
     \<lparr>sw_quality_weight = 35/100, sw_relevance_weight = 30/100, sw_authority_weight = 20/100,
      sw_spam_weight = 15/100, sw_reachable_points = 30, sw_tls_points = 10,
      sw_submission_path_points = 25, sw_free_listing_points = 20, sw_indexable_points = 15,
      sw_keyword_match_points = 12, sw_max_keyword_points = 60, sw_category_match_points = 20,
      sw_country_match_points = 12, sw_language_match_points = 8, sw_spam_signal_points = 22,
      sw_excessive_outbound_links_points = 18, sw_min_quality_score = 45, sw_max_spam_score = 50,
      sw_min_opportunity_score = 40, sw_default_authority_score = 50\<rparr>"

definition weight_fields :: "(string \<times> (rat \<Rightarrow> scoring_weights \<Rightarrow> scoring_weights)) list" where
  "weight_fields =
     [(''quality_weight'', \<lambda>x w. w\<lparr>sw_quality_weight := x\<rparr>),
      (''relevance_weight'', \<lambda>x w. w\<lparr>sw_relevance_weight := x\<rparr>),
      (''authority_weight'', \<lambda>x w. w\<lparr>sw_authority_weight := x\<rparr>),
      (''spam_weight'', \<lambda>x w. w\<lparr>sw_spam_weight := x\<rparr>),
      (''reachable_points'', \<lambda>x w. w\<lparr>sw_reachable_points := x\<rparr>),
      (''tls_points'', \<lambda>x w. w\<lparr>sw_tls_points := x\<rparr>),
      (''submission_path_points'', \<lambda>x w. w\<lparr>sw_submission_path_points := x\<rparr>),
      (''free_listing_points'', \<lambda>x w. w\<lparr>sw_free_listing_points := x\<rparr>),
      (''indexable_points'', \<lambda>x w. w\<lparr>sw_indexable_points := x\<rparr>),
      (''keyword_match_points'', \<lambda>x w. w\<lparr>sw_keyword_match_points := x\<rparr>),
      (''max_keyword_points'', \<lambda>x w. w\<lparr>sw_max_keyword_points := x\<rparr>),
      (''category_match_points'', \<lambda>x w. w\<lparr>sw_category_match_points := x\<rparr>),
      (''country_match_points'', \<lambda>x w. w\<lparr>sw_country_match_points := x\<rparr>),
      (''language_match_points'', \<lambda>x w. w\<lparr>sw_language_match_points := x\<rparr>),
      (''spam_signal_points'', \<lambda>x w. w\<lparr>sw_spam_signal_points := x\<rparr>),
      (''excessive_outbound_links_points'', \<lambda>x w. w\<lparr>sw_excessive_outbound_links_points := x\<rparr>),
      (''min_quality_score'', \<lambda>x w. w\<lparr>sw_min_quality_score := x\<rparr>),
      (''max_spam_score'', \<lambda>x w. w\<lparr>sw_max_spam_score := x\<rparr>),
      (''min_opportunity_score'', \<lambda>x w. w\<lparr>sw_min_opportunity_score := x\<rparr>),
      (''default_authority_score'', \<lambda>x w. w\<lparr>sw_default_authority_score := x\<rparr>)]"

text \<open>A JSON number, \<open>isinstance(value, (int, float))\<close> and not a \<open>bool\<close>.\<close>

fun json_number :: "json \<Rightarrow> rat option" where
  "json_number (JInt i) = Some (of_int i)"
| "json_number (JRat r) = Some r"
| "json_number _ = None"

definition set_weight :: "string \<times> json \<Rightarrow> scoring_weights \<Rightarrow> scoring_weights" where
  "set_weight kv w =
     (case (map_of weight_fields (fst kv), json_number (snd kv)) of
        (Some put, Some x) \<Rightarrow> put x w
      | _ \<Rightarrow> w)"

definition weights_from_mapping :: "(string \<times> json) list option \<Rightarrow> scoring_weights" where
  "weights_from_mapping values =
     (case values of None \<Rightarrow> default_weights | Some d \<Rightarrow> fold set_weight d default_weights)"

section \<open>Signals\<close>

record publisher_signals =
  ps_reachable :: bool
  ps_http_status :: "int option"
  ps_tls_valid :: bool
  ps_has_submission_path :: bool
  ps_is_free :: bool
  ps_is_paid_only :: bool
  ps_indexable :: bool
  ps_keyword_hits :: nat
  ps_keywords_considered :: nat
  ps_category_match :: bool
  ps_country_match :: bool
  ps_language_match :: bool
  ps_authority_score :: "rat option"
  ps_organic_traffic :: "int option"
  ps_spam_signals :: "string list"
  ps_outbound_links :: "int option"

definition no_signals :: publisher_signals where
  "no_signals =
     \<lparr>ps_reachable = False, ps_http_status = None, ps_tls_valid = False,
      ps_has_submission_path = False, ps_is_free = False, ps_is_paid_only = False,
      ps_indexable = True, ps_keyword_hits = 0, ps_keywords_considered = 0,
      ps_category_match = False, ps_country_match = False, ps_language_match = False,
      ps_authority_score = None, ps_organic_traffic = None, ps_spam_signals = [],
      ps_outbound_links = None\<rparr>"

definition signals_to_dict :: "publisher_signals \<Rightarrow> (string \<times> json) list" where
  "signals_to_dict s =
     [(''reachable'', JBool (ps_reachable s)),
      (''http_status'', json_opt JInt (ps_http_status s)),
      (''tls_valid'', JBool (ps_tls_valid s)),
      (''has_submission_path'', JBool (ps_has_submission_path s)),
      (''is_free'', JBool (ps_is_free s)),
      (''is_paid_only'', JBool (ps_is_paid_only s)),
      (''indexable'', JBool (ps_indexable s)),
      (''keyword_hits'', JInt (int (ps_keyword_hits s))),
      (''keywords_considered'', JInt (int (ps_keywords_considered s))),
      (''category_match'', JBool (ps_category_match s)),
      (''country_match'', JBool (ps_country_match s)),
      (''language_match'', JBool (ps_language_match s)),
      (''authority_score'', json_opt JRat (ps_authority_score s)),
      (''organic_traffic'', json_opt JInt (ps_organic_traffic s)),
      (''spam_signals'', JList (map JStr (ps_spam_signals s))),
      (''outbound_links'', json_opt JInt (ps_outbound_links s))]"

section \<open>Scores\<close>

record score_result =
  sr_quality_score :: rat
  sr_relevance_score :: rat
  sr_spam_score :: rat
  sr_authority_score :: rat
  sr_opportunity_score :: rat
  sr_components :: "(string \<times> rat) list"
  sr_reasons :: "string list"
  sr_hard_rejections :: "string list"

definition is_rejected :: "score_result \<Rightarrow> bool" where
  "is_rejected r = (sr_hard_rejections r \<noteq> [])"

text \<open>Python's \<open>round\<close>: to the nearest integer, a tie to the even one; with two digits, of
  the value in hundredths.\<close>

definition round_even :: "rat \<Rightarrow> int" where
  "round_even x =
     (let f = \<lfloor>x\<rfloor>; d = x - of_int f
      in if d < 1/2 then f else if d > 1/2 then f + 1 else if even f then f else f + 1)"

definition round2 :: "rat \<Rightarrow> rat" where
  "round2 x = of_int (round_even (x * 100)) / 100"

definition clamp_score :: "rat \<Rightarrow> rat" where
  "clamp_score x = max 0 (min 100 (round2 x))"

text \<open>Points for a finding that holds, a reason for one that does not.\<close>

definition points_if :: "bool \<Rightarrow> rat \<Rightarrow> rat" where
  "points_if b p = (if b then p else 0)"

definition reason_unless :: "bool \<Rightarrow> string \<Rightarrow> string list" where
  "reason_unless b txt = (if b then [] else [txt])"

definition score_quality :: "publisher_signals \<Rightarrow> scoring_weights \<Rightarrow> rat \<times> string list" where
  "score_quality s w =
     (let total = points_if (ps_reachable s) (sw_reachable_points w)
                + points_if (ps_tls_valid s) (sw_tls_points w)
                + points_if (ps_has_submission_path s) (sw_submission_path_points w)
                + points_if (ps_is_free s) (sw_free_listing_points w)
                + points_if (ps_indexable s) (sw_indexable_points w);
          reasons = reason_unless (ps_reachable s) ''Site did not respond successfully''
            @ reason_unless (ps_tls_valid s) ''No valid HTTPS certificate''
            @ reason_unless (ps_has_submission_path s) ''No listing submission path found''
            @ (if ps_is_free s then []
               else if ps_is_paid_only s then [''Listing appears to require payment'']
               else [''Free listing availability unconfirmed''])
            @ reason_unless (ps_indexable s)
                ''Site blocks indexing, so a listing there would carry no value''
      in (clamp_score total, reasons))"

definition score_relevance :: "publisher_signals \<Rightarrow> scoring_weights \<Rightarrow> rat \<times> string list" where
  "score_relevance s w =
     (let total = min (of_nat (ps_keyword_hits s) * sw_keyword_match_points w) (sw_max_keyword_points w)
                + points_if (ps_category_match s) (sw_category_match_points w)
                + points_if (ps_country_match s) (sw_country_match_points w)
                + points_if (ps_language_match s) (sw_language_match_points w);
          reasons = (if ps_keywords_considered s \<noteq> 0 \<and> ps_keyword_hits s = 0
                     then [''None of the campaign keywords appear on the site''] else [])
            @ reason_unless (ps_category_match s) ''Directory category does not match the campaign''
      in (clamp_score total, reasons))"

definition excessive_links :: "publisher_signals \<Rightarrow> bool" where
  "excessive_links s = (case ps_outbound_links s of None \<Rightarrow> False | Some n \<Rightarrow> n > 300)"

definition spaced :: "string \<Rightarrow> string" where
  "spaced x = map (\<lambda>c. if c = CHR ''_'' then CHR '' '' else c) x"

definition score_spam :: "publisher_signals \<Rightarrow> scoring_weights \<Rightarrow> rat \<times> string list" where
  "score_spam s w =
     (let total = fold (\<lambda>_ acc. acc + sw_spam_signal_points w) (ps_spam_signals s) 0
                + points_if (excessive_links s) (sw_excessive_outbound_links_points w);
          reasons = map (\<lambda>x. ''Spam signal detected: '' @ spaced x) (ps_spam_signals s)
            @ (case ps_outbound_links s of
                 Some n \<Rightarrow> if n > 300
                   then [''Unusually high outbound link count ('' @ show_int n @ '')''] else []
               | None \<Rightarrow> [])
      in (clamp_score total, reasons))"

definition score_authority :: "publisher_signals \<Rightarrow> scoring_weights \<Rightarrow> rat \<times> string list" where
  "score_authority s w =
     (case ps_authority_score s of
        None \<Rightarrow> (clamp_score (sw_default_authority_score w),
                 [''Authority unknown: no SEO metrics provider configured''])
      | Some a \<Rightarrow> (clamp_score a, []))"

definition link_scheme_signals :: "string list" where
  "link_scheme_signals = [''paid_links_offered'', ''link_scheme'', ''pbn_footprint'']"

definition find_hard_rejections :: "publisher_signals \<Rightarrow> string list" where
  "find_hard_rejections s =
     reason_unless (ps_reachable s) ''unreachable''
     @ (if ps_is_paid_only s then [''paid_only''] else [])
     @ reason_unless (ps_has_submission_path s) ''no_submission_path''
     @ (if list_ex (\<lambda>x. x \<in> set link_scheme_signals) (ps_spam_signals s)
        then [''link_scheme_detected''] else [])"

definition positive_mass :: "scoring_weights \<Rightarrow> rat" where
  "positive_mass w = sw_quality_weight w + sw_relevance_weight w + sw_authority_weight w"

definition score_publisher :: "publisher_signals \<Rightarrow> scoring_weights \<Rightarrow> exn + score_result" where
  "score_publisher s w =
     (let (quality, quality_reasons) = score_quality s w;
          (relevance, relevance_reasons) = score_relevance s w;
          (spam, spam_reasons) = score_spam s w;
          (authority, authority_reasons) = score_authority s w
      in if positive_mass w \<le> 0
         then Inl (ValueExn ''quality, relevance and authority weights must sum to a positive value'')
         else
           let weighted = (quality * sw_quality_weight w + relevance * sw_relevance_weight w
                           + authority * sw_authority_weight w) / positive_mass w
           in Inr \<lparr>sr_quality_score = quality, sr_relevance_score = relevance, sr_spam_score = spam,
                sr_authority_score = authority,
                sr_opportunity_score = clamp_score (weighted - spam * sw_spam_weight w),
                sr_components = [(''quality'', quality), (''relevance'', relevance), (''spam'', spam),
                  (''authority'', authority), (''keyword_hits'', of_nat (ps_keyword_hits s))],
                sr_reasons = quality_reasons @ relevance_reasons @ spam_reasons @ authority_reasons,
                sr_hard_rejections = find_hard_rejections s\<rparr>)"

definition meets_thresholds :: "score_result \<Rightarrow> scoring_weights \<Rightarrow> bool" where
  "meets_thresholds r w =
     (\<not> is_rejected r
      \<and> sw_min_quality_score w \<le> sr_quality_score r
      \<and> sr_spam_score r \<le> sw_max_spam_score w
      \<and> sw_min_opportunity_score w \<le> sr_opportunity_score r)"

section \<open>Rounding\<close>

lemma round_even_near: "of_int (round_even x) - x \<le> 1/2 \<and> x - of_int (round_even x) \<le> 1/2"
proof -
  have "of_int \<lfloor>x\<rfloor> \<le> x" "x < of_int \<lfloor>x\<rfloor> + 1" by linarith+
  then show ?thesis unfolding round_even_def Let_def
    by (cases "x - of_int \<lfloor>x\<rfloor> < 1/2"; cases "x - of_int \<lfloor>x\<rfloor> > 1/2"; cases "even \<lfloor>x\<rfloor>") (simp_all del: of_int_floor_le)
qed

lemma round_even_int [simp]: "round_even (of_int n) = n"
  by (simp add: round_even_def)

lemma round_even_mono:
  assumes "x \<le> y"
  shows "round_even x \<le> round_even y"
proof (cases "\<lfloor>x\<rfloor> = \<lfloor>y\<rfloor>")
  case True
  then show ?thesis using assms by (auto simp: round_even_def Let_def)
next
  case False
  then have "\<lfloor>x\<rfloor> + 1 \<le> \<lfloor>y\<rfloor>" using floor_mono [OF assms] by simp
  moreover have "round_even x \<le> \<lfloor>x\<rfloor> + 1" "\<lfloor>y\<rfloor> \<le> round_even y"
    by (simp_all add: round_even_def Let_def)
  ultimately show ?thesis by simp
qed

lemma round2_mono: "x \<le> y \<Longrightarrow> round2 x \<le> round2 y"
  by (simp add: round2_def divide_right_mono round_even_mono)

lemma clamp_mono: "x \<le> y \<Longrightarrow> clamp_score x \<le> clamp_score y"
  unfolding clamp_score_def by (meson max.mono min.mono order_refl round2_mono)

lemma clamp_range: "0 \<le> clamp_score x" "clamp_score x \<le> 100"
  by (simp_all add: clamp_score_def)

lemma clamp_hundredths: "\<exists>n. clamp_score x = of_int n / 100"
proof -
  have "max 0 (min 100 (of_int i / 100 :: rat)) = of_int (max 0 (min 10000 i)) / 100" for i
    by (simp add: max_def min_def field_simps)
  then show ?thesis by (auto simp: clamp_score_def round2_def)
qed

section \<open>Outcomes of scoring\<close>

lemma score_publisher_raises:
  "positive_mass w \<le> 0 \<Longrightarrow> \<exists>msg. score_publisher s w = Inl (ValueExn msg)"
  by (simp add: score_publisher_def split: prod.split)

lemma score_publisher_result:
  assumes "score_publisher s w = Inr r"
  shows "0 < positive_mass w"
    and "sr_quality_score r = fst (score_quality s w)"
    and "sr_relevance_score r = fst (score_relevance s w)"
    and "sr_spam_score r = fst (score_spam s w)"
    and "sr_authority_score r = fst (score_authority s w)"
    and "sr_hard_rejections r = find_hard_rejections s"
    and "sr_opportunity_score r = clamp_score
      ((sr_quality_score r * sw_quality_weight w + sr_relevance_score r * sw_relevance_weight w
        + sr_authority_score r * sw_authority_weight w) / positive_mass w
       - sr_spam_score r * sw_spam_weight w)"
  using assms by (auto simp: score_publisher_def Let_def split: prod.splits if_splits)

lemma component_scores_range:
  "0 \<le> fst (score_quality s w) \<and> fst (score_quality s w) \<le> 100"
  "0 \<le> fst (score_relevance s w) \<and> fst (score_relevance s w) \<le> 100"
  "0 \<le> fst (score_spam s w) \<and> fst (score_spam s w) \<le> 100"
  "0 \<le> fst (score_authority s w) \<and> fst (score_authority s w) \<le> 100"
  by (simp_all add: score_quality_def score_relevance_def score_spam_def score_authority_def
      clamp_range Let_def split: option.split)

lemma score_range:
  assumes "score_publisher s w = Inr r"
  shows "0 \<le> sr_quality_score r \<and> sr_quality_score r \<le> 100"
    and "0 \<le> sr_relevance_score r \<and> sr_relevance_score r \<le> 100"
    and "0 \<le> sr_spam_score r \<and> sr_spam_score r \<le> 100"
    and "0 \<le> sr_authority_score r \<and> sr_authority_score r \<le> 100"
    and "0 \<le> sr_opportunity_score r \<and> sr_opportunity_score r \<le> 100"
  unfolding score_publisher_result(2-5,7) [OF assms] by (simp_all add: component_scores_range clamp_range)

text \<open>A finding that always disqualifies.\<close>

lemma rejected_by_finding:
  assumes "score_publisher s w = Inr r"
    and "\<not> ps_reachable s \<or> ps_is_paid_only s \<or> \<not> ps_has_submission_path s
         \<or> list_ex (\<lambda>x. x \<in> set link_scheme_signals) (ps_spam_signals s)"
  shows "\<not> meets_thresholds r w"
  using assms(2) by (auto simp: meets_thresholds_def is_rejected_def score_publisher_result(6) [OF assms(1)]
      find_hard_rejections_def reason_unless_def)

section \<open>Monotonicity\<close>

text \<open>\<open>evidence_le s t\<close>: \<open>t\<close> has all the positive evidence \<open>s\<close> has, and no negative signal
  that \<open>s\<close> lacks.  \<open>sane_weights\<close>: every point value and weight is a share, not a debt.\<close>

definition authority_le :: "rat option \<Rightarrow> rat option \<Rightarrow> bool" where
  "authority_le a b = (a = b \<or> (case (a, b) of (Some x, Some y) \<Rightarrow> x \<le> y | _ \<Rightarrow> False))"

definition evidence_le :: "publisher_signals \<Rightarrow> publisher_signals \<Rightarrow> bool" where
  "evidence_le s t =
     (ps_reachable s \<le> ps_reachable t \<and> ps_tls_valid s \<le> ps_tls_valid t
      \<and> ps_has_submission_path s \<le> ps_has_submission_path t \<and> ps_is_free s \<le> ps_is_free t
      \<and> ps_is_paid_only t \<le> ps_is_paid_only s \<and> ps_indexable s \<le> ps_indexable t
      \<and> ps_keyword_hits s \<le> ps_keyword_hits t \<and> ps_category_match s \<le> ps_category_match t
      \<and> ps_country_match s \<le> ps_country_match t \<and> ps_language_match s \<le> ps_language_match t
      \<and> authority_le (ps_authority_score s) (ps_authority_score t)
      \<and> mset (ps_spam_signals t) \<subseteq># mset (ps_spam_signals s)
      \<and> excessive_links t \<le> excessive_links s)"

definition sane_weights :: "scoring_weights \<Rightarrow> bool" where
  "sane_weights w =
     (0 \<le> sw_quality_weight w \<and> 0 \<le> sw_relevance_weight w \<and> 0 \<le> sw_authority_weight w
      \<and> 0 \<le> sw_spam_weight w \<and> 0 \<le> sw_reachable_points w \<and> 0 \<le> sw_tls_points w
      \<and> 0 \<le> sw_submission_path_points w \<and> 0 \<le> sw_free_listing_points w
      \<and> 0 \<le> sw_indexable_points w \<and> 0 \<le> sw_keyword_match_points w
      \<and> 0 \<le> sw_category_match_points w \<and> 0 \<le> sw_country_match_points w
      \<and> 0 \<le> sw_language_match_points w \<and> 0 \<le> sw_spam_signal_points w
      \<and> 0 \<le> sw_excessive_outbound_links_points w)"

lemma points_if_mono: "b \<le> c \<Longrightarrow> 0 \<le> p \<Longrightarrow> points_if b p \<le> points_if c p"
  by (simp add: points_if_def)

lemma fold_points: "fold (\<lambda>_ acc. acc + p) xs a = a + of_nat (length xs) * (p :: rat)"
  by (induction xs arbitrary: a) (simp_all add: algebra_simps)

lemma quality_mono:
  "evidence_le s t \<Longrightarrow> sane_weights w \<Longrightarrow> fst (score_quality s w) \<le> fst (score_quality t w)"
  unfolding score_quality_def Let_def fst_conv evidence_le_def sane_weights_def
  by (intro clamp_mono add_mono points_if_mono) simp_all

lemma relevance_mono:
  "evidence_le s t \<Longrightarrow> sane_weights w \<Longrightarrow> fst (score_relevance s w) \<le> fst (score_relevance t w)"
  unfolding score_relevance_def Let_def fst_conv evidence_le_def sane_weights_def
  by (intro clamp_mono add_mono points_if_mono min.mono mult_right_mono) simp_all

lemma spam_mono:
  assumes "evidence_le s t" "sane_weights w"
  shows "fst (score_spam t w) \<le> fst (score_spam s w)"
proof -
  have "length (ps_spam_signals t) \<le> length (ps_spam_signals s)"
  proof -
    have "mset (ps_spam_signals t) \<subseteq># mset (ps_spam_signals s)"
      using assms(1) by (simp add: evidence_le_def)
    then show ?thesis by (metis size_mset size_mset_mono)
  qed
  moreover have "excessive_links t \<le> excessive_links s" "0 \<le> sw_spam_signal_points w"
      "0 \<le> sw_excessive_outbound_links_points w"
    using assms unfolding evidence_le_def sane_weights_def by blast+
  ultimately show ?thesis unfolding score_spam_def Let_def fst_conv fold_points
    by (intro clamp_mono add_mono points_if_mono mult_right_mono) simp_all
qed

lemma authority_mono:
  assumes "evidence_le s t"
  shows "fst (score_authority s w) \<le> fst (score_authority t w)"
proof -
  have "authority_le (ps_authority_score s) (ps_authority_score t)"
    using assms unfolding evidence_le_def by blast
  then show ?thesis
    by (auto simp: authority_le_def score_authority_def clamp_mono split: option.splits)
qed

lemma hard_rejections_mono:
  assumes "evidence_le s t" "find_hard_rejections s = []"
  shows "find_hard_rejections t = []"
proof -
  have "set (ps_spam_signals t) \<subseteq> set (ps_spam_signals s)"
    using assms(1) set_mset_mono unfolding evidence_le_def by (metis set_mset_mset)
  moreover have "ps_reachable s" "\<not> ps_is_paid_only s" "ps_has_submission_path s"
      "\<not> list_ex (\<lambda>x. x \<in> set link_scheme_signals) (ps_spam_signals s)"
    using assms(2) by (simp_all add: find_hard_rejections_def reason_unless_def split: if_splits)
  moreover have "ps_reachable s \<le> ps_reachable t" "ps_is_paid_only t \<le> ps_is_paid_only s"
      "ps_has_submission_path s \<le> ps_has_submission_path t"
    using assms(1) unfolding evidence_le_def by blast+
  ultimately have "ps_reachable t" "\<not> ps_is_paid_only t" "ps_has_submission_path t"
      "\<not> list_ex (\<lambda>x. x \<in> set link_scheme_signals) (ps_spam_signals t)"
    by (auto simp: list_ex_iff)
  then show ?thesis by (simp add: find_hard_rejections_def reason_unless_def)
qed

lemma opportunity_mono:
  assumes "evidence_le s t" "sane_weights w" "score_publisher s w = Inr r" "score_publisher t w = Inr q"
  shows "sr_opportunity_score r \<le> sr_opportunity_score q"
proof -
  note r = score_publisher_result [OF assms(3)] and q = score_publisher_result [OF assms(4)]
  have nn: "0 \<le> sw_quality_weight w" "0 \<le> sw_relevance_weight w" "0 \<le> sw_authority_weight w" "0 \<le> sw_spam_weight w"
    using assms(2) by (simp_all add: sane_weights_def)
  show ?thesis unfolding r(7) q(7) unfolding r(2-5) q(2-5)
    using quality_mono [OF assms(1,2)] relevance_mono [OF assms(1,2)] spam_mono [OF assms(1,2)]
      authority_mono [OF assms(1), of w] r(1) nn
    by (intro clamp_mono diff_mono divide_right_mono add_mono mult_right_mono) simp_all
qed

end
