(* ===== verification/PublisherStore.thy ===== *)
theory PublisherStore
  imports Scoring AuditTrail Frames
begin

text \<open>
  What the publisher tables promise and how they are queried: the constraints of
  \<open>models/publishers.py\<close> and the queries of \<open>repositories/publishers.py\<close>.  The two
  enumerated text columns are compared by their stored text, as the routes pass them.
\<close>

section \<open>The publishers table\<close>

definition in_percent :: "rat option \<Rightarrow> bool" where
  "in_percent x = (case x of None \<Rightarrow> True | Some q \<Rightarrow> 0 \<le> q \<and> q \<le> 100)"

definition publisher_checks :: "publisher_row \<Rightarrow> bool" where
  "publisher_checks p =
     (in_percent (pub_quality_score p) \<and> in_percent (pub_relevance_score p)
      \<and> in_percent (pub_spam_score p) \<and> in_percent (pub_authority_score p)
      \<and> (case pub_organic_traffic p of None \<Rightarrow> True | Some n \<Rightarrow> 0 \<le> n))"

definition domain_key :: "publisher_row \<Rightarrow> nat \<times> string" where
  "domain_key p = (pub_tenant_id p, pub_normalized_domain p)"

definition publishers_ok :: "db \<Rightarrow> bool" where
  "publishers_ok d =
     (distinct (map domain_key (publishers d)) \<and> list_all publisher_checks (publishers d))"

definition flush_publishers :: "unit svc" where
  "flush_publishers = flush_check publishers_ok ''publishers''"

section \<open>Publisher queries\<close>

definition get_by_normalized_domain :: "string \<Rightarrow> publisher_row option svc" where
  "get_by_normalized_domain nd =
     ebind (repo_where publisher_model (\<lambda>p. pub_normalized_domain p = nd)) scalar_one_or_none"

definition existing_domains :: "string list \<Rightarrow> string list svc" where
  "existing_domains domains =
     (if domains = [] then ret []
      else ebind (repo_where publisher_model (\<lambda>p. pub_normalized_domain p \<in> set domains))
             (\<lambda>ps. ret (map pub_normalized_domain ps)))"

definition quality_order :: "publisher_row \<Rightarrow> sort_val" where
  "quality_order p = (case pub_quality_score p of None \<Rightarrow> SV_Null | Some q \<Rightarrow> SV_Rat (- q))"

definition list_submittable :: "nat \<Rightarrow> publisher_row list svc" where
  "list_submittable k =
     ebind (repo_where publisher_model (\<lambda>p. pub_pricing_type p = Pr_FREE \<and> pub_status p = Pb_QUALIFIED))
       (\<lambda>ps. ret (take k (sort_key quality_order ps)))"

record publisher_filters =
  pf_status :: "string option"
  pf_pricing_type :: "string option"
  pf_category :: "string option"
  pf_country :: "string option"
  pf_language :: "string option"
  pf_submission_method :: "string option"
  pf_min_quality_score :: "rat option"
  pf_max_spam_score :: "rat option"
  pf_free_only :: bool
  pf_search :: "string option"

text \<open>A filter on a text column: absent or empty adds no condition; NULL never matches.\<close>

definition text_filter :: "('r \<Rightarrow> string option) \<Rightarrow> string option \<Rightarrow> ('r \<Rightarrow> bool) list" where
  "text_filter col x = (if truthy x then [\<lambda>r. col r = x] else [])"

definition num_filter :: "('r \<Rightarrow> 'n option) \<Rightarrow> ('n \<Rightarrow> 'm \<Rightarrow> bool) \<Rightarrow> 'm option \<Rightarrow> ('r \<Rightarrow> bool) list" where
  "num_filter col cmp x =
     (case x of None \<Rightarrow> [] | Some b \<Rightarrow> [\<lambda>r. case col r of None \<Rightarrow> False | Some a \<Rightarrow> cmp a b])"

definition publisher_build_filters :: "publisher_filters \<Rightarrow> (publisher_row \<Rightarrow> bool) list" where
  "publisher_build_filters f =
     text_filter (\<lambda>p. Some (publisher_status_value (pub_status p))) (pf_status f)
     @ text_filter (\<lambda>p. Some (pricing_type_value (pub_pricing_type p))) (pf_pricing_type f)
     @ (if pf_free_only f then [\<lambda>p. pub_pricing_type p = Pr_FREE] else [])
     @ text_filter (\<lambda>p. map_option publisher_category_value (pub_category p)) (pf_category f)
     @ text_filter pub_country (pf_country f)
     @ text_filter pub_language (pf_language f)
     @ text_filter (\<lambda>p. Some (submission_method_value (pub_submission_method p))) (pf_submission_method f)
     @ num_filter pub_quality_score (\<lambda>a b. b \<le> a) (pf_min_quality_score f)
     @ num_filter pub_spam_score (\<lambda>a b. a \<le> b) (pf_max_spam_score f)
     @ (if truthy (pf_search f)
        then [\<lambda>p. (case pub_name p of None \<Rightarrow> False | Some n \<Rightarrow> ilike_term (the (pf_search f)) n)
                  \<or> ilike_term (the (pf_search f)) (pub_normalized_domain p)]
        else [])"

section \<open>Discovery runs\<close>

text \<open>The counters' CHECKs, and the foreign key to the campaign, which does not compare tenants.\<close>

definition discovery_checks :: "db \<Rightarrow> discovery_run_row \<Rightarrow> bool" where
  "discovery_checks d r =
     (0 \<le> run_results_found r \<and> 0 \<le> run_publishers_created r
      \<and> (case run_campaign_id r of None \<Rightarrow> True | Some c \<Rightarrow> c \<in> set (map cmp_id (campaigns d))))"

definition runs_ok :: "db \<Rightarrow> bool" where
  "runs_ok d = list_all (discovery_checks d) (discovery_runs d)"

definition flush_runs :: "unit svc" where
  "flush_runs = flush_check runs_ok ''discovery_runs''"

definition run_build_filters :: "string option \<Rightarrow> string option \<Rightarrow> nat option \<Rightarrow> (discovery_run_row \<Rightarrow> bool) list" where
  "run_build_filters status provider campaign =
     text_filter (\<lambda>r. Some (discovery_run_status_value (run_status r))) status
     @ text_filter (\<lambda>r. Some (run_provider r)) provider
     @ (case campaign of None \<Rightarrow> [] | Some c \<Rightarrow> [\<lambda>r. run_campaign_id r = Some c])"

section \<open>Facts\<close>

lemma reads_publisher_queries [reads_intros]:
  "reads (get_by_normalized_domain nd)" "reads (existing_domains ds)" "reads (list_submittable k)"
  unfolding get_by_normalized_domain_def existing_domains_def list_submittable_def
  by (intro reads_intros)+

lemma wp_existing_domains:
  assumes "w_tenant w = Some t"
  shows "wp (existing_domains ds) Q E w =
    Q (if ds = [] then [] else map pub_normalized_domain
         (filter (\<lambda>p. pub_normalized_domain p \<in> set ds) (tenant_rows publisher_model t (w_db w)))) w"
  using assms by (simp add: existing_domains_def wp_simps publisher_table.wp_where)

lemma wp_flush_publishers [wp_simps]:
  "wp flush_publishers Q E w = (if publishers_ok (w_db w) then Q () w
     else E (IntegrityExn ''publishers'') (w\<lparr>w_db := w_committed w\<rparr>))"
  by (simp add: flush_publishers_def wp_flush_check)

lemma no_commit_flush_publishers [no_commit_intros]: "no_commit flush_publishers" "no_commit flush_runs"
  unfolding flush_publishers_def flush_runs_def by (intro no_commit_intros)+

end
