(* ===== verification/Qualification.thy ===== *)
theory Qualification
  imports PublisherStore
begin

text \<open>
  The qualification service, \<open>publishers/qualification.py\<close>.  The crawler and the metrics
  vendor of \<open>integrations/crawler/base.py\<close> and \<open>integrations/metrics/base.py\<close> are
  parameters: any function from an address to a snapshot or an exception.
\<close>

section \<open>Evidence\<close>

record site_snapshot =
  ss_url :: string
  ss_reachable :: bool
  ss_status_code :: "int option"
  ss_tls_valid :: bool
  ss_title :: "string option"
  ss_text :: string
  ss_submission_path :: "string option"
  ss_outbound_link_count :: "int option"
  ss_indexable :: bool
  ss_spam_signals :: "string list"
  ss_free_listing_detected :: bool
  ss_paid_listing_detected :: bool
  ss_error :: "string option"
  ss_notes :: "(string \<times> json) list"

record site_metrics =
  sm_domain :: string
  sm_authority_score :: "rat option"
  sm_organic_traffic :: "int option"
  sm_referring_domains :: "int option"
  sm_spam_score :: "rat option"
  sm_provider :: string

definition metrics_known :: "site_metrics \<Rightarrow> bool" where
  "metrics_known m = (sm_authority_score m \<noteq> None \<or> sm_organic_traffic m \<noteq> None)"

definition null_metrics :: "string \<Rightarrow> exn + site_metrics" where
  "null_metrics nd =
     Inr \<lparr>sm_domain = nd, sm_authority_score = None, sm_organic_traffic = None,
       sm_referring_domains = None, sm_spam_score = None, sm_provider = ''none''\<rparr>"

record qualifier =
  qf_crawler :: "string \<Rightarrow> exn + site_snapshot"
  qf_metrics :: "string \<Rightarrow> exn + site_metrics"
  qf_weights :: scoring_weights

record qualify_options =
  qo_fetch_live :: bool
  qo_relevance_keywords :: "string list"
  qo_target_country :: "string option"
  qo_target_language :: "string option"

section \<open>Matching\<close>

definition country_matches :: "string option \<Rightarrow> string option \<Rightarrow> bool" where
  "country_matches country target =
     (case (target, country) of
        (Some t, Some c) \<Rightarrow> str_upper c = str_upper t
      | _ \<Rightarrow> True)"

text \<open>\<open>x.split("-")[0]\<close>.\<close>

definition primary_tag :: "string \<Rightarrow> string" where
  "primary_tag x = takeWhile (\<lambda>c. c \<noteq> CHR ''-'') x"

definition language_matches :: "string option \<Rightarrow> string option \<Rightarrow> bool" where
  "language_matches language target =
     (case (target, language) of
        (Some t, Some l) \<Rightarrow> str_lower (primary_tag l) = str_lower (primary_tag t)
      | _ \<Rightarrow> True)"

definition category_matches :: "publisher_row \<Rightarrow> string \<Rightarrow> bool" where
  "category_matches p page_text =
     (if pub_category p \<noteq> None then True
      else if page_text = [] then False
      else list_ex (\<lambda>marker. contains marker page_text)
             [''directory'', ''listings'', ''business listing'', ''company profiles''])"

section \<open>Stored signals\<close>

text \<open>The conversions \<open>bool\<close>, \<open>tuple\<close>, \<open>float\<close>,
  \<open>int\<close> the service applies to what it stored; a value of a shape it never stores is a
  \<open>TypeError\<close>.\<close>

definition json_get :: "(string \<times> json) list \<Rightarrow> string \<Rightarrow> json" where
  "json_get d k = (case map_of d k of None \<Rightarrow> JNull | Some v \<Rightarrow> v)"

definition stored_flag :: "(string \<times> json) list \<Rightarrow> string \<Rightarrow> bool \<Rightarrow> bool" where
  "stored_flag d k dflt = (case map_of d k of None \<Rightarrow> dflt | Some v \<Rightarrow> json_truthy v)"

definition stored_texts :: "json \<Rightarrow> exn + string list" where
  "stored_texts v =
     (if \<not> json_truthy v then Inr []
      else case v of
        JList xs \<Rightarrow> (if list_all (\<lambda>x. case x of JStr _ \<Rightarrow> True | _ \<Rightarrow> False) xs
                    then Inr (map (\<lambda>x. case x of JStr s \<Rightarrow> s | _ \<Rightarrow> []) xs)
                    else Inl (RuntimeExn ''TypeError''))
      | _ \<Rightarrow> Inl (RuntimeExn ''TypeError''))"

definition stored_rat :: "json \<Rightarrow> exn + rat option" where
  "stored_rat v = (case v of JNull \<Rightarrow> Inr None | JInt i \<Rightarrow> Inr (Some (of_int i)) | JRat r \<Rightarrow> Inr (Some r)
     | _ \<Rightarrow> Inl (RuntimeExn ''TypeError''))"

definition stored_int :: "json \<Rightarrow> exn + int option" where
  "stored_int v = (case v of JNull \<Rightarrow> Inr None | JInt i \<Rightarrow> Inr (Some i)
     | JRat r \<Rightarrow> Inr (Some (if r < 0 then \<lceil>r\<rceil> else \<lfloor>r\<rfloor>))
     | _ \<Rightarrow> Inl (RuntimeExn ''TypeError''))"

section \<open>Building the signals\<close>

definition search_keywords :: "string list \<Rightarrow> string list" where
  "search_keywords ks = map (\<lambda>k. str_lower (str_strip k)) (filter (\<lambda>k. str_strip k \<noteq> []) ks)"

definition vendor_spam :: "site_metrics option \<Rightarrow> bool" where
  "vendor_spam m =
     (case m of None \<Rightarrow> False
      | Some x \<Rightarrow> (case sm_spam_score x of None \<Rightarrow> False | Some s \<Rightarrow> 50 \<le> s))"

definition stored_snapshot :: "string \<Rightarrow> (string \<times> json) list \<Rightarrow> exn + site_snapshot" where
  "stored_snapshot url d =
     (case (stored_texts (json_get d ''spam_signals''), stored_int (json_get d ''outbound_links''),
            stored_int (json_get d ''http_status'')) of
        (Inr spam, Inr links, Inr code) \<Rightarrow>
          Inr \<lparr>ss_url = url, ss_reachable = stored_flag d ''reachable'' False, ss_status_code = code,
             ss_tls_valid = stored_flag d ''tls_valid'' False, ss_title = None, ss_text = [],
             ss_submission_path = (if stored_flag d ''has_submission_path'' False then Some [] else None),
             ss_outbound_link_count = links, ss_indexable = stored_flag d ''indexable'' True,
             ss_spam_signals = spam, ss_free_listing_detected = False,
             ss_paid_listing_detected = stored_flag d ''is_paid_only'' False, ss_error = None,
     ss_notes = []\<rparr>
      | (Inl e, _, _) \<Rightarrow> Inl e
      | (_, Inl e, _) \<Rightarrow> Inl e
      | (_, _, Inl e) \<Rightarrow> Inl e)"

text \<open>\<open>e\<close> is the evidence of this pass: the fresh snapshot, or what was stored, which has no page
  text and no detected free listing.\<close>

definition signals_of ::
  "publisher_row \<Rightarrow> site_snapshot \<Rightarrow> site_metrics option \<Rightarrow> qualify_options \<Rightarrow>
   rat option \<Rightarrow> int option \<Rightarrow> publisher_signals" where
  "signals_of p e metrics qo authority traffic =
     (let keywords = search_keywords (qo_relevance_keywords qo)
      in \<lparr>ps_reachable = ss_reachable e, ps_http_status = ss_status_code e,
          ps_tls_valid = ss_tls_valid e, ps_has_submission_path = ss_submission_path e \<noteq> None,
          ps_is_free =
            (if ss_paid_listing_detected e then False
             else if ss_free_listing_detected e then True
             else pub_pricing_type p = Pr_FREE),
          ps_is_paid_only = ss_paid_listing_detected e,
          ps_indexable = ss_indexable e,
          ps_keyword_hits = length (filter (\<lambda>k. contains k (ss_text e)) keywords),
          ps_keywords_considered = length keywords,
          ps_category_match = category_matches p (ss_text e),
          ps_country_match = country_matches (pub_country p) (qo_target_country qo),
          ps_language_match = language_matches (pub_language p) (qo_target_language qo),
          ps_authority_score = authority, ps_organic_traffic = traffic,
          ps_spam_signals = ss_spam_signals e
            @ (if vendor_spam metrics then [''vendor_spam_score_high''] else []),
          ps_outbound_links = ss_outbound_link_count e\<rparr>)"

definition build_signals ::
  "publisher_row \<Rightarrow> site_snapshot option \<Rightarrow> site_metrics option \<Rightarrow> qualify_options \<Rightarrow>
   exn + publisher_signals" where
  "build_signals p snapshot metrics qo =
     (let stored = pub_signals p;
          evidence = (case snapshot of None \<Rightarrow> stored_snapshot (pub_website_url p) stored | Some s \<Rightarrow> Inr s);
          authority = (case metrics of None \<Rightarrow> stored_rat (json_get stored ''authority_score'')
                       | Some m \<Rightarrow> Inr (sm_authority_score m));
          traffic = (case metrics of None \<Rightarrow> stored_int (json_get stored ''organic_traffic'')
                     | Some m \<Rightarrow> Inr (sm_organic_traffic m))
      in case (evidence, authority, traffic) of
           (Inr e, Inr a, Inr t) \<Rightarrow> Inr (signals_of p e metrics qo a t)
         | (Inl x, _, _) \<Rightarrow> Inl x
         | (_, Inl x, _) \<Rightarrow> Inl x
         | (_, _, Inl x) \<Rightarrow> Inl x)"

section \<open>Applying the result\<close>

definition scored_signals :: "publisher_signals \<Rightarrow> score_result \<Rightarrow> int \<Rightarrow> (string \<times> json) list" where
  "scored_signals sg r n =
     signals_to_dict sg
     @ [(''opportunity_score'', JRat (sr_opportunity_score r)),
        (''hard_rejections'', JList (map JStr (sr_hard_rejections r))),
        (''reasons'', JList (map JStr (take 20 (sr_reasons r)))),
        (''scored_at'', JTime n)]"

definition tightened_pricing :: "publisher_signals \<Rightarrow> pricing_type \<Rightarrow> pricing_type" where
  "tightened_pricing sg old =
     (if ps_is_paid_only sg then Pr_PAID
      else if ps_is_free sg \<and> ps_has_submission_path sg then Pr_FREE else old)"

definition found_path :: "site_snapshot option \<Rightarrow> string option" where
  "found_path snapshot = (case snapshot of None \<Rightarrow> None | Some s \<Rightarrow> ss_submission_path s)"

definition apply_result ::
  "scoring_weights \<Rightarrow> publisher_signals \<Rightarrow> score_result \<Rightarrow> site_snapshot option \<Rightarrow> int \<Rightarrow>
   publisher_row \<Rightarrow> publisher_row" where
  "apply_result w sg r snapshot n p =
     p\<lparr>pub_quality_score := Some (sr_quality_score r),
       pub_relevance_score := Some (sr_relevance_score r),
       pub_spam_score := Some (sr_spam_score r),
       pub_authority_score := Some (sr_authority_score r),
       pub_organic_traffic :=
         (case ps_organic_traffic sg of None \<Rightarrow> pub_organic_traffic p | Some t \<Rightarrow> Some t),
       pub_signals := scored_signals sg r n,
       pub_last_checked_at := Some n,
       pub_pricing_type := tightened_pricing sg (pub_pricing_type p),
       pub_submission_url := or_else (found_path snapshot) (pub_submission_url p),
       pub_status := (if is_rejected r \<or> \<not> meets_thresholds r w then Pb_REJECTED else Pb_QUALIFIED)\<rparr>"

record score_breakdown =
  bd_quality_score :: rat
  bd_relevance_score :: rat
  bd_spam_score :: rat
  bd_authority_score :: rat
  bd_opportunity_score :: rat
  bd_components :: "(string \<times> rat) list"
  bd_reasons :: "string list"
  bd_recommended_status :: publisher_status
  bd_eligible_for_submission :: bool

definition breakdown_of :: "score_result \<Rightarrow> publisher_row \<Rightarrow> score_breakdown" where
  "breakdown_of r p =
     \<lparr>bd_quality_score = sr_quality_score r, bd_relevance_score = sr_relevance_score r,
      bd_spam_score = sr_spam_score r, bd_authority_score = sr_authority_score r,
      bd_opportunity_score = sr_opportunity_score r, bd_components = sr_components r,
      bd_reasons = sr_reasons r, bd_recommended_status = pub_status p,
      bd_eligible_for_submission = publisher_is_submittable p\<rparr>"

definition qualified_metadata :: "publisher_row \<Rightarrow> score_result \<Rightarrow> (string \<times> json) list" where
  "qualified_metadata p r =
     [(''normalized_domain'', JStr (pub_normalized_domain p)),
      (''quality_score'', JRat (sr_quality_score r)),
      (''relevance_score'', JRat (sr_relevance_score r)),
      (''spam_score'', JRat (sr_spam_score r)),
      (''authority_score'', JRat (sr_authority_score r)),
      (''recommended_status'', JStr (publisher_status_value (pub_status p))),
      (''eligible_for_submission'', JBool (publisher_is_submittable p))]"

section \<open>Operations\<close>

definition save_publisher :: "publisher_row \<Rightarrow> unit svc" where
  "save_publisher p = repo_save publisher_model p"

definition gather ::
  "qualifier \<Rightarrow> bool \<Rightarrow> publisher_row \<Rightarrow> (site_snapshot option \<times> site_metrics option) svc" where
  "gather qf live p =
     (if live
      then ebind (lift_sum (qf_crawler qf (pub_website_url p))) (\<lambda>s.
           ebind (lift_sum (qf_metrics qf (pub_normalized_domain p))) (\<lambda>m. ret (Some s, Some m)))
      else ret (None, None))"

definition qualify_publisher ::
  "qualifier \<Rightarrow> qualify_options \<Rightarrow> publisher_row \<Rightarrow> (publisher_row \<times> score_breakdown) svc" where
  "qualify_publisher qf qo p0 =
     (let p1 = p0\<lparr>pub_status := Pb_QUALIFYING\<rparr> in
     ethen (save_publisher p1) (
     ethen flush_publishers (
     ebind (gather qf (qo_fetch_live qo) p1) (\<lambda>(snapshot, metrics).
     ebind (lift_sum (build_signals p1 snapshot metrics qo)) (\<lambda>sg.
     ebind (lift_sum (score_publisher sg (qf_weights qf))) (\<lambda>r.
     ebind now (\<lambda>n.
     let p = apply_result (qf_weights qf) sg r snapshot n p1 in
     ethen (save_publisher p) (
     ethen flush_publishers (
     ethen (audit_on A_PUBLISHER_QUALIFIED ''publisher'' (pub_id p) (qualified_metadata p r))
       (ret (p, breakdown_of r p)))))))))))"

definition qualify_by_id ::
  "qualifier \<Rightarrow> qualify_options \<Rightarrow> nat \<Rightarrow> (publisher_row \<times> score_breakdown) svc" where
  "qualify_by_id qf qo i =
     ebind (repo_get_or_raise publisher_model ''publisher'' i) (qualify_publisher qf qo)"

end
