(* ===== verification/Cascades.thy ===== *)
theory Cascades
  imports Frames
begin

text \<open>
  The foreign keys between the working tables (\<open>ForeignKey(..., ondelete=...)\<close> in
  \<open>models/campaigns.py\<close>, \<open>models/opportunities.py\<close>, \<open>models/publishers.py\<close> and
  \<open>models/submissions.py\<close>): what the database deletes or clears along with a row.  Referential
  actions bypass row-level security, so they are not filtered by tenant.
\<close>

definition drop_opportunities :: "(opportunity_row \<Rightarrow> bool) \<Rightarrow> db \<Rightarrow> db" where
  "drop_opportunities P d =
     (let gone = map opp_id (filter P (opportunities d))
      in d\<lparr>opportunities := filter (\<lambda>x. \<not> P x) (opportunities d),
           submissions := filter (\<lambda>s. sub_opportunity_id s \<notin> set gone) (submissions d),
           generated_contents := filter (\<lambda>c. con_opportunity_id c \<notin> set gone) (generated_contents d)\<rparr>)"

definition drop_publishers :: "(publisher_row \<Rightarrow> bool) \<Rightarrow> db \<Rightarrow> db" where
  "drop_publishers P d =
     (let gone = map pub_id (filter P (publishers d));
          e = drop_opportunities (\<lambda>op. opp_publisher_id op \<in> set gone) d
      in e\<lparr>publishers := filter (\<lambda>x. \<not> P x) (publishers e)\<rparr>)"

definition clear_campaign :: "nat list \<Rightarrow> discovery_run_row \<Rightarrow> discovery_run_row" where
  "clear_campaign gone r =
     (case run_campaign_id r of
        None \<Rightarrow> r
      | Some c \<Rightarrow> if c \<in> set gone then r\<lparr>run_campaign_id := None\<rparr> else r)"

definition drop_campaigns :: "(campaign_row \<Rightarrow> bool) \<Rightarrow> db \<Rightarrow> db" where
  "drop_campaigns P d =
     (let gone = map cmp_id (filter P (campaigns d));
          e = drop_opportunities (\<lambda>op. opp_campaign_id op \<in> set gone) d
      in e\<lparr>campaigns := filter (\<lambda>x. \<not> P x) (campaigns e),
           submissions := filter (\<lambda>s. sub_campaign_id s \<notin> set gone) (submissions e),
           discovery_runs := map (clear_campaign gone) (discovery_runs e)\<rparr>)"

definition drop_websites :: "(client_website_row \<Rightarrow> bool) \<Rightarrow> db \<Rightarrow> db" where
  "drop_websites P d =
     (let gone = map web_id (filter P (client_websites d));
          e = drop_campaigns (\<lambda>c. cmp_client_website_id c \<in> set gone) d
      in e\<lparr>client_websites := filter (\<lambda>x. \<not> P x) (client_websites e)\<rparr>)"

section \<open>Referential integrity within a tenant\<close>

text \<open>Every row's parents exist and belong to the row's own tenant, and a submission records the
  campaign of its opportunity.  The schema promises the first half only: a foreign key does
  not compare tenants.\<close>

definition website_keys :: "db \<Rightarrow> (nat \<times> nat) set" where
  "website_keys d = (\<lambda>x. (web_tenant_id x, web_id x)) ` set (client_websites d)"

definition campaign_keys :: "db \<Rightarrow> (nat \<times> nat) set" where
  "campaign_keys d = (\<lambda>x. (cmp_tenant_id x, cmp_id x)) ` set (campaigns d)"

definition publisher_keys :: "db \<Rightarrow> (nat \<times> nat) set" where
  "publisher_keys d = (\<lambda>x. (pub_tenant_id x, pub_id x)) ` set (publishers d)"

definition opportunity_keys :: "db \<Rightarrow> (nat \<times> nat) set" where
  "opportunity_keys d = (\<lambda>x. (opp_tenant_id x, opp_id x)) ` set (opportunities d)"

definition opportunity_placements :: "db \<Rightarrow> (nat \<times> nat \<times> nat) set" where
  "opportunity_placements d =
     (\<lambda>x. (opp_tenant_id x, opp_campaign_id x, opp_id x)) ` set (opportunities d)"

definition campaign_rooted :: "db \<Rightarrow> campaign_row \<Rightarrow> bool" where
  "campaign_rooted d c = ((cmp_tenant_id c, cmp_client_website_id c) \<in> website_keys d)"

definition opportunity_rooted :: "db \<Rightarrow> opportunity_row \<Rightarrow> bool" where
  "opportunity_rooted d op =
     ((opp_tenant_id op, opp_campaign_id op) \<in> campaign_keys d
      \<and> (opp_tenant_id op, opp_publisher_id op) \<in> publisher_keys d)"

definition submission_rooted :: "db \<Rightarrow> submission_row \<Rightarrow> bool" where
  "submission_rooted d s =
     ((sub_tenant_id s, sub_campaign_id s, sub_opportunity_id s) \<in> opportunity_placements d)"

definition content_rooted :: "db \<Rightarrow> content_row \<Rightarrow> bool" where
  "content_rooted d c = ((con_tenant_id c, con_opportunity_id c) \<in> opportunity_keys d)"

definition tree_ok :: "db \<Rightarrow> bool" where
  "tree_ok d =
     (list_all (campaign_rooted d) (campaigns d) \<and> list_all (opportunity_rooted d) (opportunities d)
      \<and> list_all (submission_rooted d) (submissions d)
      \<and> list_all (content_rooted d) (generated_contents d))"

lemma kept_key:
  assumes "(t, i) \<in> (\<lambda>x. (f x, g x)) ` set rows" and "i \<notin> set (map g (filter P rows))"
  shows "(t, i) \<in> (\<lambda>x. (f x, g x)) ` set (filter (\<lambda>x. \<not> P x) rows)"
  using assms by force

lemma drop_opportunities_rooted:
  "list_all (submission_rooted d) (submissions d) \<Longrightarrow>
   list_all (submission_rooted (drop_opportunities P d)) (submissions (drop_opportunities P d))"
  "list_all (content_rooted d) (generated_contents d) \<Longrightarrow>
   list_all (content_rooted (drop_opportunities P d)) (generated_contents (drop_opportunities P d))"
  by (auto simp: list_all_iff drop_opportunities_def submission_rooted_def content_rooted_def
      opportunity_placements_def opportunity_keys_def)

lemma drop_opportunities_parts [simp]:
  "opportunities (drop_opportunities P d) = filter (\<lambda>x. \<not> P x) (opportunities d)"
  "campaigns (drop_opportunities P d) = campaigns d" "publishers (drop_opportunities P d) = publishers d"
  "client_websites (drop_opportunities P d) = client_websites d"
  "discovery_runs (drop_opportunities P d) = discovery_runs d"
  by (simp_all add: drop_opportunities_def Let_def)

lemma tree_drop_opportunities: "tree_ok d \<Longrightarrow> tree_ok (drop_opportunities P d)"
  unfolding tree_ok_def using drop_opportunities_rooted [of d P]
  by (auto simp: list_all_iff campaign_rooted_def opportunity_rooted_def website_keys_def
      campaign_keys_def publisher_keys_def)

lemma tree_drop_publishers:
  assumes "tree_ok d"
  shows "tree_ok (drop_publishers P d)"
proof -
  obtain e where e: "e = drop_opportunities (\<lambda>op. opp_publisher_id op \<in> set (map pub_id (filter P (publishers d)))) d"
    by simp
  have t: "tree_ok e" unfolding e using assms by (rule tree_drop_opportunities)
  have d: "drop_publishers P d = e\<lparr>publishers := filter (\<lambda>x. \<not> P x) (publishers e)\<rparr>"
    by (simp add: drop_publishers_def Let_def e)
  have orphan: "opp_publisher_id op \<notin> set (map pub_id (filter P (publishers e)))"
    if "op \<in> set (opportunities e)" for op
    using that by (simp add: e)
  have "(opp_tenant_id op, opp_publisher_id op) \<in> publisher_keys (drop_publishers P d)"
    if "op \<in> set (opportunities e)" for op
    unfolding d using kept_key [OF _ orphan [OF that], of "opp_tenant_id op" pub_tenant_id] t that
    by (simp add: tree_ok_def list_all_iff opportunity_rooted_def publisher_keys_def)
  then show ?thesis using t
    by (simp add: d tree_ok_def list_all_iff campaign_rooted_def opportunity_rooted_def submission_rooted_def
        content_rooted_def website_keys_def campaign_keys_def opportunity_keys_def
        opportunity_placements_def)
qed

lemma tree_drop_campaigns:
  assumes "tree_ok d"
  shows "tree_ok (drop_campaigns P d)"
proof -
  obtain gone where gone: "gone = map cmp_id (filter P (campaigns d))" by simp
  obtain e where e: "e = drop_opportunities (\<lambda>op. opp_campaign_id op \<in> set gone) d" by simp
  have t: "tree_ok e" unfolding e using assms by (rule tree_drop_opportunities)
  have d: "drop_campaigns P d = e\<lparr>campaigns := filter (\<lambda>x. \<not> P x) (campaigns e),
           submissions := filter (\<lambda>s. sub_campaign_id s \<notin> set gone) (submissions e),
           discovery_runs := map (clear_campaign gone) (discovery_runs e)\<rparr>"
    by (simp add: drop_campaigns_def Let_def e gone)
  have orphan: "opp_campaign_id op \<notin> set (map cmp_id (filter P (campaigns e)))"
    if "op \<in> set (opportunities e)" for op
    using that by (simp add: e gone)
  have "(opp_tenant_id op, opp_campaign_id op) \<in> campaign_keys (drop_campaigns P d)"
    if "op \<in> set (opportunities e)" for op
    unfolding d using kept_key [OF _ orphan [OF that], of "opp_tenant_id op" cmp_tenant_id] t that
    by (simp add: tree_ok_def list_all_iff opportunity_rooted_def campaign_keys_def)
  then show ?thesis using t
    by (simp add: d tree_ok_def list_all_iff campaign_rooted_def opportunity_rooted_def submission_rooted_def
        content_rooted_def website_keys_def publisher_keys_def opportunity_keys_def
        opportunity_placements_def)
qed

lemma drop_campaigns_parts [simp]:
  "campaigns (drop_campaigns P d) = filter (\<lambda>x. \<not> P x) (campaigns d)"
  "publishers (drop_campaigns P d) = publishers d"
  "client_websites (drop_campaigns P d) = client_websites d"
  by (simp_all add: drop_campaigns_def Let_def)

lemma tree_drop_websites:
  assumes "tree_ok d"
  shows "tree_ok (drop_websites P d)"
proof -
  obtain gone where gone: "gone = map web_id (filter P (client_websites d))" by simp
  obtain e where e: "e = drop_campaigns (\<lambda>c. cmp_client_website_id c \<in> set gone) d" by simp
  have t: "tree_ok e" unfolding e using assms by (rule tree_drop_campaigns)
  have d: "drop_websites P d = e\<lparr>client_websites := filter (\<lambda>x. \<not> P x) (client_websites e)\<rparr>"
    by (simp add: drop_websites_def Let_def e gone)
  have orphan: "cmp_client_website_id c \<notin> set (map web_id (filter P (client_websites e)))"
    if "c \<in> set (campaigns e)" for c
    using that by (simp add: e gone)
  have "(cmp_tenant_id c, cmp_client_website_id c) \<in> website_keys (drop_websites P d)"
    if "c \<in> set (campaigns e)" for c
    unfolding d using kept_key [OF _ orphan [OF that], of "cmp_tenant_id c" web_tenant_id] t that
    by (simp add: tree_ok_def list_all_iff campaign_rooted_def website_keys_def)
  then show ?thesis using t
    by (simp add: d tree_ok_def list_all_iff campaign_rooted_def opportunity_rooted_def submission_rooted_def
        content_rooted_def publisher_keys_def campaign_keys_def opportunity_keys_def
        opportunity_placements_def)
qed

end
