(* ===== verification/Publishers.thy ===== *)
theory Publishers
  imports Qualification Domains Cascades
begin

text \<open>
  The publisher service, \<open>publishers/service.py\<close>, over the request classes of
  \<open>schemas/publishers.py\<close>.
\<close>

record publisher_create =
  pc_website_url :: string
  pc_name :: "string option"
  pc_description :: "string option"
  pc_category :: "publisher_category option"
  pc_country :: "string option"
  pc_language :: "string option"
  pc_submission_url :: "string option"
  pc_contact_url :: "string option"
  pc_submission_method :: submission_method
  pc_pricing_type :: pricing_type
  pc_link_type :: link_type
  pc_dofollow_supported :: "bool option"
  pc_nofollow_supported :: "bool option"
  pc_status :: publisher_status

record publisher_update =
  pu_name :: "string option"
  pu_description :: "string option"
  pu_category :: "publisher_category option"
  pu_country :: "string option"
  pu_language :: "string option"
  pu_submission_url :: "string option"
  pu_contact_url :: "string option"
  pu_submission_method :: "submission_method option"
  pu_pricing_type :: "pricing_type option"
  pu_link_type :: "link_type option"
  pu_dofollow_supported :: "bool option"
  pu_nofollow_supported :: "bool option"
  pu_status :: "publisher_status option"

definition normalize_optional_url :: "idna \<Rightarrow> string option \<Rightarrow> exn + string option" where
  "normalize_optional_url idna value =
     (case value of
        None \<Rightarrow> Inr None
      | Some v \<Rightarrow>
          if str_strip v = [] then Inr None
          else (case normalize_url idna v of
                  Inr u \<Rightarrow> Inr (Some u)
                | Inl (AppExn e) \<Rightarrow> (if is_validation_error (AppExn e) then Inl (ValueExn (err_message e))
                                    else Inl (AppExn e))
                | Inl x \<Rightarrow> Inl x))"

definition publisher_exists :: "string \<Rightarrow> nat \<Rightarrow> exn" where
  "publisher_exists nd i =
     AppExn (coded_error DuplicateResourceError
       (''A publisher for '' @ [CHR 0x27] @ nd @ [CHR 0x27] @ '' already exists in this workspace'')
       ''PUBLISHER_EXISTS'' [(''normalized_domain'', JStr nd), (''existing_id'', JId i)])"

definition new_publisher ::
  "publisher_create \<Rightarrow> string \<Rightarrow> string \<Rightarrow> nat \<Rightarrow> nat \<Rightarrow> int \<Rightarrow> publisher_row" where
  "new_publisher payload nd url i t n =
     \<lparr>pub_id = i, pub_tenant_id = t, pub_domain = nd, pub_normalized_domain = nd, pub_website_url = url,
      pub_name = pc_name payload, pub_description = pc_description payload,
      pub_category = pc_category payload, pub_country = pc_country payload,
      pub_language = pc_language payload, pub_submission_url = pc_submission_url payload,
      pub_contact_url = pc_contact_url payload, pub_submission_method = pc_submission_method payload,
      pub_pricing_type = pc_pricing_type payload, pub_link_type = pc_link_type payload,
      pub_dofollow_supported = pc_dofollow_supported payload,
      pub_nofollow_supported = pc_nofollow_supported payload, pub_status = pc_status payload,
      pub_quality_score = None, pub_relevance_score = None, pub_spam_score = None,
      pub_authority_score = None, pub_organic_traffic = None, pub_signals = [],
      pub_discovery_run_id = None, pub_last_checked_at = None, pub_created_at = n, pub_updated_at = n\<rparr>"

definition create_publisher :: "idna \<Rightarrow> publisher_create \<Rightarrow> publisher_row svc" where
  "create_publisher idna payload =
     ebind (lift_sum (normalize_url idna (pc_website_url payload))) (\<lambda>url.
     ebind (lift_sum (normalize_domain idna url)) (\<lambda>nd.
     ebind (get_by_normalized_domain nd) (\<lambda>existing. case existing of
       Some p \<Rightarrow> raise (publisher_exists nd (pub_id p))
     | None \<Rightarrow>
         ebind (repo_new publisher_model (new_publisher payload nd url)) (\<lambda>p.
         ethen flush_publishers (
         ethen (audit_on A_PUBLISHER_CREATED ''publisher'' (pub_id p)
                  [(''normalized_domain'', JStr nd),
                   (''pricing_type'', JStr (pricing_type_value (pub_pricing_type p))),
                   (''category'', json_opt (\<lambda>c. JStr (publisher_category_value c)) (pub_category p)),
                   (''country'', json_opt JStr (pub_country p))])
           (ret p))))))"

definition get_publisher :: "nat \<Rightarrow> publisher_row svc" where
  "get_publisher i = repo_get_or_raise publisher_model ''publisher'' i"

definition list_publishers ::
  "page_params \<Rightarrow> sort_params option \<Rightarrow> publisher_filters \<Rightarrow> publisher_row page svc" where
  "list_publishers pg srt f = repo_list_page publisher_model pg srt (publisher_build_filters f)"

definition edit_publisher :: "publisher_update \<Rightarrow> publisher_row \<Rightarrow> publisher_row \<times> string list" where
  "edit_publisher u p =
     edit_field ''status'' (pu_status u) (\<lambda>r v. pub_status r = v) (\<lambda>v r. r\<lparr>pub_status := v\<rparr>)
     (edit_field ''link_type'' (pu_link_type u) (\<lambda>r v. pub_link_type r = v) (\<lambda>v r. r\<lparr>pub_link_type := v\<rparr>)
     (edit_field ''pricing_type'' (pu_pricing_type u)
       (\<lambda>r v. pub_pricing_type r = v) (\<lambda>v r. r\<lparr>pub_pricing_type := v\<rparr>)
     (edit_field ''submission_method'' (pu_submission_method u)
       (\<lambda>r v. pub_submission_method r = v) (\<lambda>v r. r\<lparr>pub_submission_method := v\<rparr>)
     (edit_field ''category'' (pu_category u)
       (\<lambda>r v. pub_category r = Some v) (\<lambda>v r. r\<lparr>pub_category := Some v\<rparr>)
     (edit_field ''nofollow_supported'' (pu_nofollow_supported u)
       (\<lambda>r v. pub_nofollow_supported r = Some v) (\<lambda>v r. r\<lparr>pub_nofollow_supported := Some v\<rparr>)
     (edit_field ''dofollow_supported'' (pu_dofollow_supported u)
       (\<lambda>r v. pub_dofollow_supported r = Some v) (\<lambda>v r. r\<lparr>pub_dofollow_supported := Some v\<rparr>)
     (edit_field ''contact_url'' (pu_contact_url u)
       (\<lambda>r v. pub_contact_url r = Some v) (\<lambda>v r. r\<lparr>pub_contact_url := Some v\<rparr>)
     (edit_field ''submission_url'' (pu_submission_url u)
       (\<lambda>r v. pub_submission_url r = Some v) (\<lambda>v r. r\<lparr>pub_submission_url := Some v\<rparr>)
     (edit_field ''language'' (pu_language u)
       (\<lambda>r v. pub_language r = Some v) (\<lambda>v r. r\<lparr>pub_language := Some v\<rparr>)
     (edit_field ''country'' (pu_country u)
       (\<lambda>r v. pub_country r = Some v) (\<lambda>v r. r\<lparr>pub_country := Some v\<rparr>)
     (edit_field ''description'' (pu_description u)
       (\<lambda>r v. pub_description r = Some v) (\<lambda>v r. r\<lparr>pub_description := Some v\<rparr>)
     (edit_field ''name'' (pu_name u)
       (\<lambda>r v. pub_name r = Some v) (\<lambda>v r. r\<lparr>pub_name := Some v\<rparr>)
     (p, [])))))))))))))"

definition update_publisher :: "nat \<Rightarrow> publisher_update \<Rightarrow> publisher_row svc" where
  "update_publisher i u =
     ebind (get_publisher i) (\<lambda>p0.
     let (p, changed) = edit_publisher u p0 in
     ethen (save_publisher p) (
     ethen flush_publishers (
     ethen (audit_on A_PUBLISHER_UPDATED ''publisher'' (pub_id p)
              [(''changed_fields'', JList (map JStr changed)),
               (''pricing_type'', JStr (pricing_type_value (pub_pricing_type p))),
               (''status'', JStr (publisher_status_value (pub_status p))),
               (''normalized_domain'', JStr (pub_normalized_domain p))])
       (ret p))))"

definition delete_publisher :: "nat \<Rightarrow> unit svc" where
  "delete_publisher i =
     ebind (get_publisher i) (\<lambda>p.
     ethen (change_db (drop_publishers (\<lambda>x. pub_id x = pub_id p))) (
     ethen flush_publishers (
       audit_on A_PUBLISHER_DELETED ''publisher'' i
         [(''normalized_domain'', JStr (pub_normalized_domain p))])))"

definition service_is_submittable :: "publisher_row \<Rightarrow> bool" where
  "service_is_submittable p = (pub_pricing_type p = Pr_FREE)"

end
