(* ===== verification/Discovery.thy ===== *)
theory Discovery
  imports Publishers
begin

text \<open>
  Publisher discovery, \<open>publishers/discovery.py\<close>, over the contract of
  \<open>integrations/discovery/base.py\<close>: a provider is any function from a query to candidates or
  an exception.  \<open>materialise_each\<close> is the reference the batch is compared with: one lookup
  per candidate, against the table as it then stands.
\<close>

section \<open>Queries and candidates\<close>

record discovery_query =
  dq_keywords :: "string list"
  dq_country :: "string option"
  dq_language :: "string option"
  dq_category :: "publisher_category option"
  dq_limit :: int
  dq_free_only :: bool

definition json_category :: "publisher_category option \<Rightarrow> json" where
  "json_category c = json_opt (\<lambda>x. JStr (publisher_category_value x)) c"

definition query_as_dict :: "discovery_query \<Rightarrow> (string \<times> json) list" where
  "query_as_dict q =
     [(''keywords'', JList (map JStr (dq_keywords q))), (''country'', json_opt JStr (dq_country q)),
      (''language'', json_opt JStr (dq_language q)), (''category'', json_category (dq_category q)),
      (''limit'', JInt (dq_limit q)), (''free_only'', JBool (dq_free_only q))]"

record discovered_publisher =
  dp_website_url :: string
  dp_name :: "string option"
  dp_description :: "string option"
  dp_category :: "publisher_category option"
  dp_country :: "string option"
  dp_language :: "string option"
  dp_submission_url :: "string option"
  dp_contact_url :: "string option"
  dp_submission_method :: submission_method
  dp_source_metadata :: "(string \<times> json) list"

type_synonym discovery_provider = "discovery_query \<Rightarrow> exn + discovered_publisher list"

section \<open>Starting a run\<close>

definition new_run ::
  "string \<Rightarrow> discovery_query \<Rightarrow> nat option \<Rightarrow> nat \<Rightarrow> nat \<Rightarrow> int \<Rightarrow> discovery_run_row" where
  "new_run key q cid i t n =
     \<lparr>run_id = i, run_tenant_id = t, run_campaign_id = cid, run_provider = key,
      run_query = query_as_dict q, run_status = D_PENDING, run_results_found = 0,
      run_publishers_created = 0, run_duplicates_skipped = 0, run_error = None,
      run_started_at = None, run_finished_at = None, run_created_at = n, run_updated_at = n\<rparr>"

definition start_run :: "string \<Rightarrow> discovery_query \<Rightarrow> nat option \<Rightarrow> discovery_run_row svc" where
  "start_run key q cid =
     ebind (repo_new discovery_run_model (new_run key q cid)) (\<lambda>r.
     ethen flush_runs (
     ethen (audit_on A_PUBLISHER_DISCOVERY_STARTED ''discovery_run'' (run_id r)
              [(''provider'', JStr key), (''keywords'', JList (map JStr (dq_keywords q))),
               (''country'', json_opt JStr (dq_country q)), (''category'', json_category (dq_category q)),
               (''limit'', JInt (dq_limit q)), (''campaign_id'', json_opt JId cid)])
       (ret r)))"

section \<open>Materialising candidates\<close>

type_synonym candidate = "string \<times> string \<times> discovered_publisher"

fun normalise_candidates :: "idna \<Rightarrow> discovered_publisher list \<Rightarrow> exn + candidate list" where
  "normalise_candidates idna [] = Inr []"
| "normalise_candidates idna (c # cs) =
     (case (case normalize_url idna (dp_website_url c) of
              Inl e \<Rightarrow> Inl e
            | Inr url \<Rightarrow> (case normalize_domain idna url of Inl e \<Rightarrow> Inl e | Inr nd \<Rightarrow> Inr (nd, url, c))) of
        Inl e \<Rightarrow> (if is_validation_error e then normalise_candidates idna cs else Inl e)
      | Inr x \<Rightarrow> (case normalise_candidates idna cs of Inl e \<Rightarrow> Inl e | Inr xs \<Rightarrow> Inr (x # xs)))"

definition discovered_row :: "nat \<Rightarrow> candidate \<Rightarrow> nat \<Rightarrow> nat \<Rightarrow> int \<Rightarrow> publisher_row" where
  "discovered_row rid x i t n =
     (case x of (nd, url, c) \<Rightarrow>
      \<lparr>pub_id = i, pub_tenant_id = t, pub_domain = nd, pub_normalized_domain = nd, pub_website_url = url,
       pub_name = dp_name c, pub_description = dp_description c, pub_category = dp_category c,
       pub_country = dp_country c, pub_language = dp_language c,
       pub_submission_url = dp_submission_url c, pub_contact_url = dp_contact_url c,
       pub_submission_method = dp_submission_method c, pub_pricing_type = Pr_UNKNOWN,
       pub_link_type = Li_UNKNOWN, pub_dofollow_supported = None, pub_nofollow_supported = None,
       pub_status = Pb_DISCOVERED, pub_quality_score = None, pub_relevance_score = None,
       pub_spam_score = None, pub_authority_score = None, pub_organic_traffic = None,
       pub_signals = [(''discovery'', JObj (dp_source_metadata c))], pub_discovery_run_id = Some rid,
       pub_last_checked_at = None, pub_created_at = n, pub_updated_at = n\<rparr>)"

fun insert_new :: "nat \<Rightarrow> string list \<Rightarrow> string list \<Rightarrow> candidate list \<Rightarrow> (nat \<times> nat) svc" where
  "insert_new rid existing seen [] = ret (0, 0)"
| "insert_new rid existing seen (x # xs) =
     (if fst x \<in> set existing \<or> fst x \<in> set seen
      then ebind (insert_new rid existing seen xs) (\<lambda>(created, duplicates). ret (created, Suc duplicates))
      else ethen (repo_new publisher_model (discovered_row rid x))
             (ebind (insert_new rid existing (fst x # seen) xs)
                (\<lambda>(created, duplicates). ret (Suc created, duplicates))))"

definition materialise :: "idna \<Rightarrow> nat \<Rightarrow> discovered_publisher list \<Rightarrow> (nat \<times> nat) svc" where
  "materialise idna rid candidates =
     ebind (lift_sum (normalise_candidates idna candidates)) (\<lambda>xs.
     ebind (existing_domains (map fst xs)) (\<lambda>existing.
     ebind (insert_new rid existing [] xs) (\<lambda>counts.
     ethen flush_publishers (ret counts))))"

text \<open>The reference: look each candidate up when its turn comes.\<close>

fun insert_each :: "nat \<Rightarrow> candidate list \<Rightarrow> (nat \<times> nat) svc" where
  "insert_each rid [] = ret (0, 0)"
| "insert_each rid (x # xs) =
     ebind (get_by_normalized_domain (fst x)) (\<lambda>found. case found of
       Some _ \<Rightarrow> ebind (insert_each rid xs) (\<lambda>(created, duplicates). ret (created, Suc duplicates))
     | None \<Rightarrow>
         ethen (repo_new publisher_model (discovered_row rid x))
           (ebind (insert_each rid xs) (\<lambda>(created, duplicates). ret (Suc created, duplicates))))"

definition materialise_each :: "idna \<Rightarrow> nat \<Rightarrow> discovered_publisher list \<Rightarrow> (nat \<times> nat) svc" where
  "materialise_each idna rid candidates =
     ebind (lift_sum (normalise_candidates idna candidates)) (\<lambda>xs.
     ebind (insert_each rid xs) (\<lambda>counts. ethen flush_publishers (ret counts)))"

section \<open>Executing a run\<close>

definition save_run :: "discovery_run_row \<Rightarrow> unit svc" where
  "save_run r = ethen (repo_save discovery_run_model r) flush_runs"

definition record_completion :: "discovery_run_row \<Rightarrow> unit svc" where
  "record_completion r =
     audit_on A_PUBLISHER_DISCOVERY_COMPLETED ''discovery_run'' (run_id r)
       [(''provider'', JStr (run_provider r)), (''results_found'', JInt (run_results_found r)),
        (''publishers_created'', JInt (run_publishers_created r)),
        (''duplicates_skipped'', JInt (run_duplicates_skipped r)),
        (''status'', JStr (discovery_run_status_value (run_status r)))]"

definition failed_run :: "exn \<Rightarrow> int \<Rightarrow> discovery_run_row \<Rightarrow> discovery_run_row" where
  "failed_run e n r =
     r\<lparr>run_status := D_FAILED,
       run_error := (case e of AppExn a \<Rightarrow> Some (err_code a) | _ \<Rightarrow> None),
       run_finished_at := Some n\<rparr>"

definition completed_run :: "nat \<Rightarrow> nat \<times> nat \<Rightarrow> int \<Rightarrow> discovery_run_row \<Rightarrow> discovery_run_row" where
  "completed_run found counts n r =
     r\<lparr>run_results_found := int found, run_publishers_created := int (fst counts),
       run_duplicates_skipped := int (snd counts), run_status := D_COMPLETED, run_finished_at := Some n\<rparr>"

definition execute_run ::
  "idna \<Rightarrow> discovery_run_row \<Rightarrow> discovery_provider \<Rightarrow> discovery_query \<Rightarrow> discovery_run_row svc" where
  "execute_run idna r0 provider q =
     ebind now (\<lambda>n.
     let r = r0\<lparr>run_status := D_RUNNING, run_started_at := Some n\<rparr> in
     ethen (save_run r) (
     case provider q of
       Inl e \<Rightarrow>
         if is_app_error e ProviderError
         then let f = failed_run e n r in
              ethen (save_run f) (ethen (record_completion f) (ret f))
         else raise e
     | Inr candidates \<Rightarrow>
         ebind (materialise idna (run_id r) candidates) (\<lambda>counts.
         let c = completed_run (length candidates) counts n r in
         ethen (save_run c) (ethen (record_completion c) (ret c)))))"

definition get_run :: "nat \<Rightarrow> discovery_run_row svc" where
  "get_run i = repo_get_or_raise discovery_run_model ''discovery_run'' i"

definition list_runs ::
  "page_params \<Rightarrow> sort_params option \<Rightarrow> string option \<Rightarrow> string option \<Rightarrow> nat option \<Rightarrow>
   discovery_run_row page svc" where
  "list_runs pg srt status provider campaign =
     repo_list_page discovery_run_model pg srt (run_build_filters status provider campaign)"

section \<open>The batch and the reference\<close>

text \<open>The tenant's domains as the session reads them.\<close>

definition tenant_domains :: "nat \<Rightarrow> db \<Rightarrow> string list" where
  "tenant_domains t d = map pub_normalized_domain (tenant_rows publisher_model t d)"

lemma tenant_domains_distinct: "publishers_ok d \<Longrightarrow> distinct (tenant_domains t d)"
proof -
  have "distinct (map pub_normalized_domain (filter (\<lambda>p. pub_tenant_id p = t) ps))"
    if "distinct (map domain_key ps)" for ps
    using that by (induction ps) (auto simp: domain_key_def rev_image_eqI)
  then show "publishers_ok d \<Longrightarrow> ?thesis"
    by (simp add: tenant_domains_def tenant_rows_def publishers_ok_def)
qed

lemma lookup_domain:
  assumes "w_tenant w = Some t" and "distinct (tenant_domains t (w_db w))"
  shows "\<exists>x. get_by_normalized_domain nd w = (Inr x, w) \<and> (x \<noteq> None \<longleftrightarrow> nd \<in> set (tenant_domains t (w_db w)))"
proof -
  let ?f = "filter (\<lambda>p. pub_normalized_domain p = nd) (tenant_rows publisher_model t (w_db w))"
  have one: "filter (\<lambda>p. pub_normalized_domain p = nd) ps = [] \<or>
      (\<exists>p. filter (\<lambda>p. pub_normalized_domain p = nd) ps = [p])" if "distinct (map pub_normalized_domain ps)" for ps
  proof (cases "\<exists>p\<in>set ps. pub_normalized_domain p = nd")
    case True
    then show ?thesis using unique_row [OF that] by metis
  next
    case False
    then show ?thesis by (simp add: filter_empty_conv)
  qed
  have mem: "?f = [] \<longleftrightarrow> nd \<notin> set (tenant_domains t (w_db w))"
    by (auto simp: tenant_domains_def filter_empty_conv)
  have "get_by_normalized_domain nd w = scalar_one_or_none ?f w"
    using assms(1) by (simp add: get_by_normalized_domain_def repo_where_def repo_rows_def comp_defs
        require_tenant_id_def query_def)
  then show ?thesis
    using one [of "tenant_rows publisher_model t (w_db w)"] assms(2) mem
    by (auto simp: tenant_domains_def ret_def)
qed

lemma insert_new_each:
  assumes "w_tenant w = Some t" and "distinct (tenant_domains t (w_db w))"
    and "\<And>x. x \<in> set xs \<Longrightarrow> fst x \<in> set existing \<or> fst x \<in> set seen \<longleftrightarrow> fst x \<in> set (tenant_domains t (w_db w))"
  shows "insert_new rid existing seen xs w = insert_each rid xs w"
  using assms
proof (induction xs arbitrary: seen w)
  case (Cons x xs)
  obtain f where f: "get_by_normalized_domain (fst x) w = (Inr f, w)"
      "f \<noteq> None \<longleftrightarrow> fst x \<in> set (tenant_domains t (w_db w))"
    using lookup_domain [OF Cons.prems(1,2)] by blast
  have here: "fst x \<in> set existing \<or> fst x \<in> set seen \<longleftrightarrow> fst x \<in> set (tenant_domains t (w_db w))"
    using Cons.prems(3) by simp
  show ?case
  proof (cases f)
    case (Some p)
    have "insert_new rid existing seen xs w = insert_each rid xs w"
      using Cons.prems by (intro Cons.IH) auto
    then show ?thesis using Some f here by (simp add: ebind_def)
  next
    case None
    obtain r v where n: "repo_new publisher_model (discovered_row rid x) w = (Inr r, v)"
      and v: "w_tenant v = Some t" "w_db v = w_db w\<lparr>publishers := publishers (w_db w) @ [r]\<rparr>"
      and r: "pub_tenant_id r = t" "pub_normalized_domain r = fst x"
      using Cons.prems(1)
      by (auto simp: repo_new_def comp_defs require_tenant_id_def fresh_id_def now_def change_db_def Let_def
          discovered_row_def split: prod.splits)
    have doms: "tenant_domains t (w_db v) = tenant_domains t (w_db w) @ [fst x]"
      using v(2) r by (simp add: tenant_domains_def tenant_rows_def)
    have "insert_new rid existing (fst x # seen) xs v = insert_each rid xs v"
    proof (rule Cons.IH)
      show "w_tenant v = Some t" by (rule v(1))
      show "distinct (tenant_domains t (w_db v))" using doms Cons.prems(2) f(2) None by simp
      show "fst y \<in> set existing \<or> fst y \<in> set (fst x # seen) \<longleftrightarrow> fst y \<in> set (tenant_domains t (w_db v))"
        if "y \<in> set xs" for y
        using Cons.prems(3) [of y] that doms by auto
    qed
    then show ?thesis using None f here n by (simp add: ebind_def ethen_def)
  qed
qed simp

lemma image_restrict: "a \<in> A \<Longrightarrow> a \<in> f ` {x \<in> S. f x \<in> A} \<longleftrightarrow> a \<in> f ` S"
  by auto

lemma materialise_is_reference:
  assumes "w_tenant w = Some t" and "publishers_ok (w_db w)"
  shows "materialise idna rid candidates w = materialise_each idna rid candidates w"
proof (cases "normalise_candidates idna candidates")
  case (Inr xs)
  obtain ex where ex: "existing_domains (map fst xs) w = (Inr ex, w)"
      "\<And>x. x \<in> set xs \<Longrightarrow> fst x \<in> set ex \<longleftrightarrow> fst x \<in> set (tenant_domains t (w_db w))"
  proof (cases "xs = []")
    case True
    then show ?thesis using that [of "[]"] by (simp add: existing_domains_def ret_def)
  next
    case False
    let ?ps = "filter (\<lambda>p. pub_normalized_domain p \<in> set (map fst xs)) (tenant_rows publisher_model t (w_db w))"
    show ?thesis
    proof (rule that [of "map pub_normalized_domain ?ps"])
      show "existing_domains (map fst xs) w = (Inr (map pub_normalized_domain ?ps), w)"
        using assms(1) False
        by (simp add: existing_domains_def repo_where_def repo_rows_def comp_defs require_tenant_id_def query_def)
      fix x assume "x \<in> set xs"
      then have "fst x \<in> set (map fst xs)" by simp
      then show "fst x \<in> set (map pub_normalized_domain ?ps) \<longleftrightarrow> fst x \<in> set (tenant_domains t (w_db w))"
        unfolding tenant_domains_def set_map set_filter by (rule image_restrict)
    qed
  qed
  have "insert_new rid ex [] xs w = insert_each rid xs w"
    using ex(2) by (intro insert_new_each [OF assms(1) tenant_domains_distinct [OF assms(2)]]) simp
  then show ?thesis using Inr ex(1) by (simp add: materialise_def materialise_each_def ebind_def lift_sum_def ret_def)
qed (simp add: materialise_def materialise_each_def ebind_def lift_sum_def raise_def)

end
