(* ===== verification/Portfolio.thy ===== *)
theory Portfolio
  imports Domains Cascades PublisherStore
begin

text \<open>
  Client websites and campaigns: \<open>organizations/service.py\<close> and \<open>campaigns/service.py\<close>,
  with the queries of \<open>repositories/client_websites.py\<close> and \<open>repositories/campaigns.py\<close>,
  the constraints of \<open>models/client_websites.py\<close> and \<open>models/campaigns.py\<close> and the request
  classes of their schemas.  Dates are day numbers.
\<close>

section \<open>Client websites\<close>

record website_create =
  wc_name :: string
  wc_website_url :: string
  wc_description :: "string option"
  wc_industry :: "string option"
  wc_target_country :: "string option"
  wc_target_countries :: "string list"
  wc_target_language :: "string option"
  wc_status :: client_website_status

record website_update =
  wu_name :: "string option"
  wu_description :: "string option"
  wu_industry :: "string option"
  wu_target_country :: "string option"
  wu_target_countries :: "string list option"
  wu_target_language :: "string option"
  wu_status :: "client_website_status option"

definition website_domain_key :: "client_website_row \<Rightarrow> nat \<times> string" where
  "website_domain_key x = (web_tenant_id x, web_normalized_domain x)"

definition websites_ok :: "db \<Rightarrow> bool" where
  "websites_ok d = distinct (map website_domain_key (client_websites d))"

definition flush_websites :: "unit svc" where
  "flush_websites = flush_check websites_ok ''client_websites''"

definition website_by_domain :: "string \<Rightarrow> client_website_row option svc" where
  "website_by_domain nd =
     ebind (repo_where client_website_model (\<lambda>x. web_normalized_domain x = nd)) scalar_one_or_none"

definition domains_in_use :: "string list \<Rightarrow> string list svc" where
  "domains_in_use domains =
     (if domains = [] then ret []
      else ebind (repo_where client_website_model (\<lambda>x. web_normalized_domain x \<in> set domains))
             (\<lambda>xs. ret (map web_normalized_domain xs)))"

definition website_build_filters ::
  "string option \<Rightarrow> string option \<Rightarrow> string option \<Rightarrow> string option \<Rightarrow> (client_website_row \<Rightarrow> bool) list" where
  "website_build_filters status industry country search =
     text_filter (\<lambda>x. Some (client_website_status_value (web_status x))) status
     @ text_filter web_industry industry
     @ text_filter web_target_country country
     @ (if truthy search
        then [\<lambda>x. ilike_term (the search) (web_name x) \<or> ilike_term (the search) (web_normalized_domain x)]
        else [])"

definition website_exists :: "string \<Rightarrow> nat \<Rightarrow> exn" where
  "website_exists nd i =
     AppExn (coded_error DuplicateResourceError
       (''A client website for '' @ [CHR 0x27] @ nd @ [CHR 0x27] @ '' already exists'')
       ''CLIENT_WEBSITE_EXISTS'' [(''normalized_domain'', JStr nd), (''existing_id'', JId i)])"

text \<open>\<open>list(dict.fromkeys(xs))\<close>: the first of equal elements stays.\<close>

definition first_of_each :: "'a list \<Rightarrow> 'a list" where
  "first_of_each xs = rev (remdups (rev xs))"

definition new_website ::
  "website_create \<Rightarrow> string \<Rightarrow> string \<Rightarrow> nat \<Rightarrow> nat \<Rightarrow> int \<Rightarrow> client_website_row" where
  "new_website payload nd url i t n =
     \<lparr>web_id = i, web_tenant_id = t, web_name = wc_name payload, web_domain = nd,
      web_normalized_domain = nd, web_website_url = url, web_description = wc_description payload,
      web_industry = wc_industry payload, web_target_country = wc_target_country payload,
      web_target_countries = first_of_each (wc_target_countries payload),
      web_target_language = wc_target_language payload, web_status = wc_status payload,
      web_created_at = n, web_updated_at = n\<rparr>"

definition create_website :: "idna \<Rightarrow> website_create \<Rightarrow> client_website_row svc" where
  "create_website idna payload =
     ebind (lift_sum (normalize_url idna (wc_website_url payload))) (\<lambda>url.
     ebind (lift_sum (normalize_domain idna url)) (\<lambda>nd.
     ebind (website_by_domain nd) (\<lambda>existing. case existing of
       Some x \<Rightarrow> raise (website_exists nd (web_id x))
     | None \<Rightarrow>
         ebind (repo_new client_website_model (new_website payload nd url)) (\<lambda>x.
         ethen flush_websites (
         ethen (audit_on A_CLIENT_WEBSITE_CREATED ''client_website'' (web_id x)
                  [(''name'', JStr (web_name x)), (''normalized_domain'', JStr nd)])
           (ret x))))))"

definition get_website :: "nat \<Rightarrow> client_website_row svc" where
  "get_website i = repo_get_or_raise client_website_model ''client_website'' i"

definition list_websites ::
  "page_params \<Rightarrow> sort_params option \<Rightarrow> string option \<Rightarrow> string option \<Rightarrow> string option \<Rightarrow>
   string option \<Rightarrow> client_website_row page svc" where
  "list_websites pg srt status industry country search =
     repo_list_page client_website_model pg srt (website_build_filters status industry country search)"

definition edit_website :: "website_update \<Rightarrow> client_website_row \<Rightarrow> client_website_row \<times> string list" where
  "edit_website u x =
     edit_field ''status'' (wu_status u) (\<lambda>r v. web_status r = v) (\<lambda>v r. r\<lparr>web_status := v\<rparr>)
     (edit_field ''target_countries'' (wu_target_countries u) (\<lambda>r v. False)
       (\<lambda>v r. r\<lparr>web_target_countries := first_of_each v\<rparr>)
     (edit_field ''target_language'' (wu_target_language u)
       (\<lambda>r v. web_target_language r = Some v) (\<lambda>v r. r\<lparr>web_target_language := Some v\<rparr>)
     (edit_field ''target_country'' (wu_target_country u)
       (\<lambda>r v. web_target_country r = Some v) (\<lambda>v r. r\<lparr>web_target_country := Some v\<rparr>)
     (edit_field ''industry'' (wu_industry u)
       (\<lambda>r v. web_industry r = Some v) (\<lambda>v r. r\<lparr>web_industry := Some v\<rparr>)
     (edit_field ''description'' (wu_description u)
       (\<lambda>r v. web_description r = Some v) (\<lambda>v r. r\<lparr>web_description := Some v\<rparr>)
     (edit_field ''name'' (wu_name u) (\<lambda>r v. web_name r = v) (\<lambda>v r. r\<lparr>web_name := v\<rparr>)
     (x, [])))))))"

definition update_website :: "nat \<Rightarrow> website_update \<Rightarrow> client_website_row svc" where
  "update_website i u =
     ebind (get_website i) (\<lambda>x0.
     let (x, changed) = edit_website u x0 in
     ethen (repo_save client_website_model x) (
     ethen flush_websites (
     ethen (audit_on A_CLIENT_WEBSITE_UPDATED ''client_website'' (web_id x)
              [(''changed_fields'', JList (map JStr changed)),
               (''status'', JStr (client_website_status_value (web_status x)))])
       (ret x))))"

definition delete_website :: "nat \<Rightarrow> unit svc" where
  "delete_website i =
     ebind (get_website i) (\<lambda>x.
     ethen (change_db (drop_websites (\<lambda>y. web_id y = web_id x))) (
     ethen flush_websites (
       audit_on A_CLIENT_WEBSITE_DELETED ''client_website'' i
         [(''name'', JStr (web_name x)), (''normalized_domain'', JStr (web_normalized_domain x))])))"

section \<open>Campaigns\<close>

record campaign_create =
  cc_client_website_id :: nat
  cc_name :: string
  cc_description :: "string option"
  cc_status :: campaign_status
  cc_target_country :: "string option"
  cc_target_language :: "string option"
  cc_budget :: "rat option"
  cc_target_link_count :: "int option"
  cc_start_date :: "int option"
  cc_end_date :: "int option"

record campaign_update =
  cu_name :: "string option"
  cu_description :: "string option"
  cu_status :: "campaign_status option"
  cu_target_country :: "string option"
  cu_target_language :: "string option"
  cu_budget :: "rat option"
  cu_target_link_count :: "int option"
  cu_start_date :: "int option"
  cu_end_date :: "int option"

definition dates_ordered :: "int option \<Rightarrow> int option \<Rightarrow> bool" where
  "dates_ordered s e = (case (s, e) of (Some a, Some b) \<Rightarrow> a \<le> b | _ \<Rightarrow> True)"

text \<open>The \<open>_check_dates\<close> validator of both request classes: it sees the dates of one request only.\<close>

definition check_dates :: "int option \<Rightarrow> int option \<Rightarrow> exn + unit" where
  "check_dates s e =
     (if dates_ordered s e then Inr () else Inl (ValueExn ''end_date must not precede start_date''))"

definition campaign_key :: "campaign_row \<Rightarrow> nat \<times> nat \<times> string" where
  "campaign_key c = (cmp_tenant_id c, cmp_client_website_id c, cmp_name c)"

definition campaign_checks :: "campaign_row \<Rightarrow> bool" where
  "campaign_checks c =
     (cmp_free_only c \<and> dates_ordered (cmp_start_date c) (cmp_end_date c)
      \<and> (case cmp_budget c of None \<Rightarrow> True | Some b \<Rightarrow> 0 \<le> b)
      \<and> (case cmp_target_link_count c of None \<Rightarrow> True | Some n \<Rightarrow> 0 < n))"

definition campaigns_ok :: "db \<Rightarrow> bool" where
  "campaigns_ok d =
     (distinct (map campaign_key (campaigns d)) \<and> list_all campaign_checks (campaigns d))"

definition flush_campaigns :: "unit svc" where
  "flush_campaigns = flush_check campaigns_ok ''campaigns''"

definition campaign_by_name :: "nat \<Rightarrow> string \<Rightarrow> campaign_row option svc" where
  "campaign_by_name wid name =
     ebind (repo_where campaign_model (\<lambda>c. cmp_client_website_id c = wid \<and> cmp_name c = name))
       scalar_one_or_none"

definition campaign_build_filters ::
  "string option \<Rightarrow> nat option \<Rightarrow> string option \<Rightarrow> string option \<Rightarrow> (campaign_row \<Rightarrow> bool) list" where
  "campaign_build_filters status website country search =
     text_filter (\<lambda>c. Some (campaign_status_value (cmp_status c))) status
     @ (case website of None \<Rightarrow> [] | Some x \<Rightarrow> [\<lambda>c. cmp_client_website_id c = x])
     @ text_filter cmp_target_country country
     @ (if truthy search then [\<lambda>c. ilike_term (the search) (cmp_name c)] else [])"

definition new_campaign ::
  "campaign_create \<Rightarrow> client_website_row \<Rightarrow> nat \<Rightarrow> nat \<Rightarrow> int \<Rightarrow> campaign_row" where
  "new_campaign payload site i t n =
     \<lparr>cmp_id = i, cmp_tenant_id = t, cmp_client_website_id = cc_client_website_id payload,
      cmp_name = cc_name payload, cmp_description = cc_description payload,
      cmp_status = cc_status payload,
      cmp_target_country = or_else (cc_target_country payload) (web_target_country site),
      cmp_target_language = or_else (cc_target_language payload) (web_target_language site),
      cmp_budget = cc_budget payload, cmp_free_only = True,
      cmp_target_link_count = cc_target_link_count payload, cmp_start_date = cc_start_date payload,
      cmp_end_date = cc_end_date payload, cmp_created_at = n, cmp_updated_at = n\<rparr>"

definition create_campaign :: "campaign_create \<Rightarrow> campaign_row svc" where
  "create_campaign payload =
     ebind (repo_get client_website_model (cc_client_website_id payload)) (\<lambda>site. case site of
       None \<Rightarrow> raise (not_found ''client_website'' (cc_client_website_id payload))
     | Some x \<Rightarrow>
         ebind (campaign_by_name (cc_client_website_id payload) (cc_name payload)) (\<lambda>taken.
         ethen (raise_if (taken \<noteq> None)
                  (err_coded DuplicateResourceError
                     (''A campaign named '' @ [CHR 0x27] @ cc_name payload @ [CHR 0x27]
                        @ '' already exists for this client website'') ''CAMPAIGN_NAME_TAKEN'')) (
         ebind (repo_new campaign_model (new_campaign payload x)) (\<lambda>c.
         ethen flush_campaigns (
         ethen (audit_on A_CAMPAIGN_CREATED ''campaign'' (cmp_id c)
                  [(''name'', JStr (cmp_name c)), (''client_website_id'', JId (cmp_client_website_id c)),
                   (''status'', JStr (campaign_status_value (cmp_status c)))])
           (ret c))))))"

definition get_campaign :: "nat \<Rightarrow> campaign_row svc" where
  "get_campaign i = repo_get_or_raise campaign_model ''campaign'' i"

definition list_campaigns ::
  "page_params \<Rightarrow> sort_params option \<Rightarrow> string option \<Rightarrow> nat option \<Rightarrow> string option \<Rightarrow>
   string option \<Rightarrow> campaign_row page svc" where
  "list_campaigns pg srt status website country search =
     repo_list_page campaign_model pg srt (campaign_build_filters status website country search)"

definition edit_campaign :: "campaign_update \<Rightarrow> campaign_row \<Rightarrow> campaign_row \<times> string list" where
  "edit_campaign u c =
     edit_field ''status'' (cu_status u) (\<lambda>r v. cmp_status r = v) (\<lambda>v r. r\<lparr>cmp_status := v\<rparr>)
     (edit_field ''end_date'' (cu_end_date u)
       (\<lambda>r v. cmp_end_date r = Some v) (\<lambda>v r. r\<lparr>cmp_end_date := Some v\<rparr>)
     (edit_field ''start_date'' (cu_start_date u)
       (\<lambda>r v. cmp_start_date r = Some v) (\<lambda>v r. r\<lparr>cmp_start_date := Some v\<rparr>)
     (edit_field ''target_link_count'' (cu_target_link_count u)
       (\<lambda>r v. cmp_target_link_count r = Some v) (\<lambda>v r. r\<lparr>cmp_target_link_count := Some v\<rparr>)
     (edit_field ''budget'' (cu_budget u)
       (\<lambda>r v. cmp_budget r = Some v) (\<lambda>v r. r\<lparr>cmp_budget := Some v\<rparr>)
     (edit_field ''target_language'' (cu_target_language u)
       (\<lambda>r v. cmp_target_language r = Some v) (\<lambda>v r. r\<lparr>cmp_target_language := Some v\<rparr>)
     (edit_field ''target_country'' (cu_target_country u)
       (\<lambda>r v. cmp_target_country r = Some v) (\<lambda>v r. r\<lparr>cmp_target_country := Some v\<rparr>)
     (edit_field ''description'' (cu_description u)
       (\<lambda>r v. cmp_description r = Some v) (\<lambda>v r. r\<lparr>cmp_description := Some v\<rparr>)
     (edit_field ''name'' (cu_name u) (\<lambda>r v. cmp_name r = v) (\<lambda>v r. r\<lparr>cmp_name := v\<rparr>)
     (c, [])))))))))"

definition update_campaign :: "nat \<Rightarrow> campaign_update \<Rightarrow> campaign_row svc" where
  "update_campaign i u =
     ebind (get_campaign i) (\<lambda>c0.
     let (c, changed) = edit_campaign u c0 in
     ethen (repo_save campaign_model c) (
     ethen flush_campaigns (
     ethen (audit_on A_CAMPAIGN_UPDATED ''campaign'' (cmp_id c)
              [(''changed_fields'', JList (map JStr changed)),
               (''status'', JStr (campaign_status_value (cmp_status c)))])
       (ret c))))"

definition delete_campaign :: "nat \<Rightarrow> unit svc" where
  "delete_campaign i =
     ebind (get_campaign i) (\<lambda>c.
     ethen (change_db (drop_campaigns (\<lambda>x. cmp_id x = cmp_id c))) (
     ethen flush_campaigns (
       audit_on A_CAMPAIGN_DELETED ''campaign'' i [(''name'', JStr (cmp_name c))])))"

record campaign_stats =
  cs_campaign_id :: nat
  cs_opportunities_total :: nat
  cs_opportunities_qualified :: nat
  cs_opportunities_ready :: nat
  cs_submissions_total :: nat
  cs_submissions_published :: nat
  cs_submissions_verified :: nat
  cs_target_link_count :: "int option"

definition campaign_statistics :: "nat \<Rightarrow> campaign_stats svc" where
  "campaign_statistics i =
     ebind (get_campaign i) (\<lambda>c.
     let mine = (\<lambda>op. opp_campaign_id op = i); mysub = (\<lambda>s. sub_campaign_id s = i) in
     ebind (repo_count opportunity_model [mine]) (\<lambda>n1.
     ebind (repo_count opportunity_model [mine, \<lambda>op. opp_status op = O_QUALIFIED]) (\<lambda>n2.
     ebind (repo_count opportunity_model [mine, \<lambda>op. opp_status op = O_READY]) (\<lambda>n3.
     ebind (repo_count submission_model [mysub]) (\<lambda>n4.
     ebind (repo_count submission_model [mysub, \<lambda>s. sub_status s = S_PUBLISHED]) (\<lambda>n5.
     ebind (repo_count submission_model [mysub, \<lambda>s. sub_status s = S_VERIFIED]) (\<lambda>n6.
       ret \<lparr>cs_campaign_id = cmp_id c, cs_opportunities_total = n1, cs_opportunities_qualified = n2,
          cs_opportunities_ready = n3, cs_submissions_total = n4, cs_submissions_published = n5,
          cs_submissions_verified = n6, cs_target_link_count = cmp_target_link_count c\<rparr>)))))))"

end
