(* ===== verification/Opportunities.thy ===== *)
theory Opportunities
  imports Qualification Submissions Cascades "HOL-Library.Product_Lexorder"
begin

text \<open>
  The opportunity service, \<open>opportunities/service.py\<close>, with the queries of
  \<open>repositories/opportunities.py\<close>, the constraints of \<open>models/opportunities.py\<close> and the
  request classes of \<open>schemas/opportunities.py\<close> (their target URL is already canonical).
  \<open>get_with_publisher\<close> is shared with the submission service and defined there.
\<close>

section \<open>Requests and constraints\<close>

record opportunity_create =
  oc_campaign_id :: nat
  oc_publisher_id :: nat
  oc_opportunity_type :: opportunity_type
  oc_target_url :: string
  oc_suggested_anchor :: "string option"
  oc_suggested_title :: "string option"
  oc_suggested_description :: "string option"
  oc_category :: "publisher_category option"
  oc_priority :: int

record opportunity_update =
  ou_suggested_anchor :: "string option"
  ou_suggested_title :: "string option"
  ou_suggested_description :: "string option"
  ou_category :: "publisher_category option"
  ou_priority :: "int option"

definition opportunity_key :: "opportunity_row \<Rightarrow> nat \<times> nat \<times> nat \<times> string" where
  "opportunity_key op = (opp_tenant_id op, opp_campaign_id op, opp_publisher_id op, opp_target_url op)"

definition opportunity_checks :: "opportunity_row \<Rightarrow> bool" where
  "opportunity_checks op =
     (in_percent (opp_qualification_score op) \<and> 0 \<le> opp_priority op \<and> opp_priority op \<le> 100)"

definition opportunities_ok :: "db \<Rightarrow> bool" where
  "opportunities_ok d =
     (distinct (map opportunity_key (opportunities d)) \<and> list_all opportunity_checks (opportunities d))"

definition flush_opportunities :: "unit svc" where
  "flush_opportunities = flush_check opportunities_ok ''opportunities''"

section \<open>Queries\<close>

definition find_duplicate :: "nat \<Rightarrow> nat \<Rightarrow> string \<Rightarrow> opportunity_row option svc" where
  "find_duplicate cid pid url =
     ebind (repo_where opportunity_model
              (\<lambda>op. opp_campaign_id op = cid \<and> opp_publisher_id op = pid \<and> opp_target_url op = url))
       scalar_one_or_none"

definition list_workqueue :: "nat \<Rightarrow> nat \<Rightarrow> opportunity_row list svc" where
  "list_workqueue cid k =
     ebind (repo_where opportunity_model
              (\<lambda>op. opp_campaign_id op = cid \<and> opp_status op \<in> {O_QUALIFIED, O_SELECTED, O_READY}))
       (\<lambda>ops. ret (take k (sort_key (\<lambda>op. (- opp_priority op, opp_created_at op)) ops)))"

record opportunity_filters =
  of_status :: "string option"
  of_campaign_id :: "nat option"
  of_publisher_id :: "nat option"
  of_opportunity_type :: "string option"
  of_category :: "string option"
  of_min_priority :: "int option"
  of_min_score :: "rat option"
  of_search :: "string option"

definition opportunity_build_filters :: "opportunity_filters \<Rightarrow> (opportunity_row \<Rightarrow> bool) list" where
  "opportunity_build_filters f =
     text_filter (\<lambda>op. Some (opportunity_status_value (opp_status op))) (of_status f)
     @ (case of_campaign_id f of None \<Rightarrow> [] | Some c \<Rightarrow> [\<lambda>op. opp_campaign_id op = c])
     @ (case of_publisher_id f of None \<Rightarrow> [] | Some p \<Rightarrow> [\<lambda>op. opp_publisher_id op = p])
     @ text_filter (\<lambda>op. Some (opportunity_type_value (opp_opportunity_type op))) (of_opportunity_type f)
     @ text_filter opp_category (of_category f)
     @ num_filter (\<lambda>op. Some (opp_priority op)) (\<lambda>a b. b \<le> a) (of_min_priority f)
     @ num_filter opp_qualification_score (\<lambda>a b. b \<le> a) (of_min_score f)
     @ (if truthy (of_search f) then [\<lambda>op. ilike_term (the (of_search f)) (opp_target_url op)] else [])"

section \<open>Creating\<close>

definition category_to_type :: "publisher_category \<Rightarrow> opportunity_type option" where
  "category_to_type c =
     (case c of
        Ca_BUSINESS_DIRECTORY \<Rightarrow> Some OT_FREE_DIRECTORY_LISTING
      | Ca_LOCAL_DIRECTORY \<Rightarrow> Some OT_FREE_LOCAL_LISTING
      | Ca_COMPANY_LISTING \<Rightarrow> Some OT_FREE_COMPANY_PROFILE
      | Ca_STARTUP_DIRECTORY \<Rightarrow> Some OT_FREE_STARTUP_LISTING
      | Ca_SOFTWARE_DIRECTORY \<Rightarrow> Some OT_FREE_SOFTWARE_LISTING
      | Ca_INDUSTRY_DIRECTORY \<Rightarrow> Some OT_FREE_INDUSTRY_LISTING
      | Ca_ORGANIZATION_LISTING \<Rightarrow> Some OT_FREE_ORGANIZATION_LISTING
      | Ca_PROFILE_LISTING \<Rightarrow> Some OT_FREE_PROFILE_LISTING
      | _ \<Rightarrow> None)"

definition resolve_type :: "opportunity_create \<Rightarrow> publisher_row \<Rightarrow> opportunity_type" where
  "resolve_type payload p =
     (if oc_opportunity_type payload \<noteq> OT_FREE_DIRECTORY_LISTING then oc_opportunity_type payload
      else case pub_category p of
             None \<Rightarrow> oc_opportunity_type payload
           | Some c \<Rightarrow> (case category_to_type c of None \<Rightarrow> oc_opportunity_type payload | Some x \<Rightarrow> x))"

definition assert_free_publisher :: "publisher_row \<Rightarrow> unit svc" where
  "assert_free_publisher p = raise_if (pub_pricing_type p \<noteq> Pr_FREE) (paid_error p)"

definition new_opportunity ::
  "opportunity_create \<Rightarrow> publisher_row \<Rightarrow> nat \<Rightarrow> nat \<Rightarrow> int \<Rightarrow> opportunity_row" where
  "new_opportunity payload p i t n =
     \<lparr>opp_id = i, opp_tenant_id = t, opp_campaign_id = oc_campaign_id payload,
      opp_publisher_id = oc_publisher_id payload, opp_opportunity_type = resolve_type payload p,
      opp_target_url = oc_target_url payload, opp_suggested_anchor = oc_suggested_anchor payload,
      opp_suggested_title = oc_suggested_title payload,
      opp_suggested_description = oc_suggested_description payload,
      opp_category = map_option publisher_category_value
        (case oc_category payload of None \<Rightarrow> pub_category p | Some c \<Rightarrow> Some c),
      opp_status = O_DISCOVERED, opp_qualification_score = None, opp_priority = oc_priority payload,
      opp_submission_url = pub_submission_url p, opp_rejection_reason = None,
      opp_discovered_at = Some n, opp_qualified_at = None, opp_created_at = n, opp_updated_at = n\<rparr>"

definition create_opportunity :: "opportunity_create \<Rightarrow> (opportunity_row \<times> bool) svc" where
  "create_opportunity payload =
     ebind (repo_get campaign_model (oc_campaign_id payload)) (\<lambda>campaign.
     ethen (raise_if (campaign = None) (not_found ''campaign'' (oc_campaign_id payload))) (
     ebind (repo_get publisher_model (oc_publisher_id payload)) (\<lambda>publisher.
     case publisher of
       None \<Rightarrow> raise (not_found ''publisher'' (oc_publisher_id payload))
     | Some p \<Rightarrow>
         ethen (assert_free_publisher p) (
         ebind (find_duplicate (oc_campaign_id payload) (oc_publisher_id payload) (oc_target_url payload))
           (\<lambda>existing. case existing of
              Some op \<Rightarrow> ret (op, False)
            | None \<Rightarrow>
                ebind (repo_new opportunity_model (new_opportunity payload p)) (\<lambda>op.
                ethen flush_opportunities (
                ethen (audit_on A_OPPORTUNITY_CREATED ''opportunity'' (opp_id op)
                         [(''campaign_id'', JId (oc_campaign_id payload)),
                          (''publisher_id'', JId (oc_publisher_id payload)),
                          (''opportunity_type'', JStr (opportunity_type_value (opp_opportunity_type op))),
                          (''target_url'', JStr (opp_target_url op))])
                  (ret (op, True)))))))))"

section \<open>Reading\<close>

definition get_opportunity :: "nat \<Rightarrow> opportunity_row svc" where
  "get_opportunity i = repo_get_or_raise opportunity_model ''opportunity'' i"

definition list_opportunities ::
  "page_params \<Rightarrow> sort_params option \<Rightarrow> opportunity_filters \<Rightarrow> opportunity_row page svc" where
  "list_opportunities pg srt f = repo_list_page opportunity_model pg srt (opportunity_build_filters f)"

section \<open>Editing\<close>

definition edit_opportunity :: "opportunity_update \<Rightarrow> opportunity_row \<Rightarrow> opportunity_row \<times> string list" where
  "edit_opportunity u op =
     edit_field ''category'' (map_option publisher_category_value (ou_category u))
       (\<lambda>r v. opp_category r = Some v) (\<lambda>v r. r\<lparr>opp_category := Some v\<rparr>)
     (edit_field ''priority'' (ou_priority u) (\<lambda>r v. opp_priority r = v) (\<lambda>v r. r\<lparr>opp_priority := v\<rparr>)
     (edit_field ''suggested_description'' (ou_suggested_description u)
       (\<lambda>r v. opp_suggested_description r = Some v) (\<lambda>v r. r\<lparr>opp_suggested_description := Some v\<rparr>)
     (edit_field ''suggested_title'' (ou_suggested_title u)
       (\<lambda>r v. opp_suggested_title r = Some v) (\<lambda>v r. r\<lparr>opp_suggested_title := Some v\<rparr>)
     (edit_field ''suggested_anchor'' (ou_suggested_anchor u)
       (\<lambda>r v. opp_suggested_anchor r = Some v) (\<lambda>v r. r\<lparr>opp_suggested_anchor := Some v\<rparr>)
     (op, [])))))"

definition save_opportunity :: "opportunity_row \<Rightarrow> unit svc" where
  "save_opportunity op = repo_save opportunity_model op"

definition update_opportunity :: "nat \<Rightarrow> opportunity_update \<Rightarrow> opportunity_row svc" where
  "update_opportunity i u =
     ebind (get_opportunity i) (\<lambda>op0.
     let (op, changed) = edit_opportunity u op0 in
     ethen (save_opportunity op) (
     ethen flush_opportunities (
     ethen (audit_on A_OPPORTUNITY_UPDATED ''opportunity'' (opp_id op)
              [(''changed_fields'', JList (map JStr changed)), (''priority'', JInt (opp_priority op))])
       (ret op))))"

section \<open>Moving through the workflow\<close>

definition transition_action :: "opportunity_status \<Rightarrow> audit_action" where
  "transition_action target =
     (case target of O_QUALIFIED \<Rightarrow> A_OPPORTUNITY_QUALIFIED | O_SELECTED \<Rightarrow> A_OPPORTUNITY_SELECTED
      | O_REJECTED \<Rightarrow> A_OPPORTUNITY_REJECTED | _ \<Rightarrow> A_OPPORTUNITY_UPDATED)"

definition moved_opportunity ::
  "opportunity_status \<Rightarrow> string option \<Rightarrow> int \<Rightarrow> opportunity_row \<Rightarrow> opportunity_row" where
  "moved_opportunity target reason n op0 =
     (let op1 = op0\<lparr>opp_status := target\<rparr>;
          op2 = (if target = O_QUALIFIED then op1\<lparr>opp_qualified_at := Some n\<rparr> else op1)
      in if target = O_REJECTED then op2\<lparr>opp_rejection_reason := reason\<rparr> else op2)"

definition transition_opportunity ::
  "nat \<Rightarrow> opportunity_status \<Rightarrow> string option \<Rightarrow> opportunity_row svc" where
  "transition_opportunity i target reason =
     ebind (get_opportunity i) (\<lambda>op0.
     ethen (lift_sum (opportunity_assert_transition (opp_status op0) target)) (
     ethen (raise_if (target = O_REJECTED \<and> \<not> truthy reason)
              (rule_error ''A reason is required when rejecting an opportunity''
                 ''REJECTION_REASON_REQUIRED'' [])) (
     ebind now (\<lambda>n.
     let op = moved_opportunity target reason n op0 in
     ethen (save_opportunity op) (
     ethen flush_opportunities (
     ethen (audit_on (transition_action target) ''opportunity'' (opp_id op)
              [(''campaign_id'', JId (opp_campaign_id op)), (''publisher_id'', JId (opp_publisher_id op)),
               (''priority'', JInt (opp_priority op)),
               (''qualification_score'', json_opt JRat (opp_qualification_score op)),
               (''reason'', json_opt JStr reason)])
       (ret op)))))))"

section \<open>Qualifying\<close>

definition combined_score :: "publisher_row \<Rightarrow> rat" where
  "combined_score p =
     (case json_get (pub_signals p) ''opportunity_score'' of
        JInt i \<Rightarrow> round2 (of_int i)
      | JRat r \<Rightarrow> round2 r
      | JBool b \<Rightarrow> round2 (if b then 1 else 0)
      | _ \<Rightarrow>
          let quality = (case pub_quality_score p of None \<Rightarrow> 0 | Some q \<Rightarrow> q);
              spam = (case pub_spam_score p of None \<Rightarrow> 0 | Some s \<Rightarrow> s)
          in round2 (max 0 (min 100 (quality - spam * (1/2)))))"

definition publisher_eligible :: "publisher_row \<Rightarrow> bool" where
  "publisher_eligible p = (pub_pricing_type p = Pr_FREE \<and> pub_status p = Pb_QUALIFIED)"

definition ineligible_reason :: "publisher_row \<Rightarrow> string" where
  "ineligible_reason p =
     take 255 (''publisher is not a qualified free listing site (pricing=''
       @ pricing_type_value (pub_pricing_type p) @ '', status=''
       @ publisher_status_value (pub_status p) @ '')'')"

definition judged_opportunity :: "publisher_row \<Rightarrow> int \<Rightarrow> opportunity_row \<Rightarrow> opportunity_row" where
  "judged_opportunity p n op0 =
     (let score = combined_score p;
          op1 = op0\<lparr>opp_qualification_score := Some score,
                    opp_priority := max 0 (min 100 (round_even score)),
                    opp_submission_url := or_else (pub_submission_url p) (opp_submission_url op0)\<rparr>
      in if publisher_eligible p
         then op1\<lparr>opp_status := O_QUALIFIED, opp_qualified_at := Some n\<rparr>
         else op1\<lparr>opp_status := O_REJECTED, opp_rejection_reason := Some (ineligible_reason p)\<rparr>)"

definition qualify_opportunity :: "nat \<Rightarrow> opportunity_row svc" where
  "qualify_opportunity i =
     ebind (load_pair i) (\<lambda>(op0, p).
     ethen (if opp_status op0 = O_DISCOVERED
            then lift_sum (opportunity_assert_transition (opp_status op0) O_QUALIFYING) else ret ()) (
     ebind now (\<lambda>n.
     let op = judged_opportunity p n op0 in
     ethen (save_opportunity op) (
     ethen flush_opportunities (
     ethen (audit_on A_OPPORTUNITY_QUALIFIED ''opportunity'' (opp_id op)
              [(''qualification_score'', json_opt JRat (opp_qualification_score op)),
               (''priority'', JInt (opp_priority op)),
               (''reason'', json_opt JStr (opp_rejection_reason op))])
       (ret op))))))"

section \<open>Deleting\<close>

definition delete_opportunity :: "nat \<Rightarrow> unit svc" where
  "delete_opportunity i =
     ebind (get_opportunity i) (\<lambda>op.
     ethen (change_db (drop_opportunities (\<lambda>x. opp_id x = opp_id op))) (
     ethen flush_opportunities (
       audit_on A_OPPORTUNITY_DELETED ''opportunity'' i
         [(''campaign_id'', JId (opp_campaign_id op)), (''publisher_id'', JId (opp_publisher_id op))])))"

end
