(* ===== verification/PortfolioTree.thy ===== *)
theory PortfolioTree
  imports Discovery Portfolio Opportunities SubmissionLifecycle
begin

text \<open>
  Referential integrity of the working tables as an invariant of the services.  \<open>kinship\<close> is
  what a database's rows say about their keys and parents; the invariant reads nothing else, so
  an operation that keeps it keeps the invariant, and only creations and deletions remain.
\<close>

section \<open>Keys and parents\<close>

definition website_kin :: "client_website_row \<Rightarrow> nat \<times> nat" where
  "website_kin x = (web_id x, web_tenant_id x)"

definition campaign_kin :: "campaign_row \<Rightarrow> nat \<times> nat \<times> nat" where
  "campaign_kin c = (cmp_id c, cmp_tenant_id c, cmp_client_website_id c)"

definition publisher_kin :: "publisher_row \<Rightarrow> nat \<times> nat" where
  "publisher_kin p = (pub_id p, pub_tenant_id p)"

definition opportunity_kin :: "opportunity_row \<Rightarrow> nat \<times> nat \<times> nat \<times> nat" where
  "opportunity_kin op = (opp_id op, opp_tenant_id op, opp_campaign_id op, opp_publisher_id op)"

definition content_kin :: "content_row \<Rightarrow> nat \<times> nat" where
  "content_kin c = (con_tenant_id c, con_opportunity_id c)"

definition kinship :: "db \<Rightarrow> (nat \<times> nat) list \<times> (nat \<times> nat \<times> nat) list \<times> (nat \<times> nat) list
    \<times> (nat \<times> nat \<times> nat \<times> nat) list \<times> (nat \<times> nat) list" where
  "kinship d =
     (map website_kin (client_websites d), map campaign_kin (campaigns d), map publisher_kin (publishers d),
      map opportunity_kin (opportunities d), map content_kin (generated_contents d))"

definition sub_place :: "submission_row \<Rightarrow> nat \<times> nat \<times> nat" where
  "sub_place s = (sub_tenant_id s, sub_campaign_id s, sub_opportunity_id s)"

definition places :: "db \<Rightarrow> (nat \<times> nat \<times> nat) set" where
  "places d = sub_place ` set (submissions d)"

text \<open>Identifiers are unique in each parent table, and every one in use is older than the next.\<close>

definition ids_ok :: "nat \<Rightarrow> db \<Rightarrow> bool" where
  "ids_ok n d =
     (distinct (map web_id (client_websites d)) \<and> distinct (map cmp_id (campaigns d))
      \<and> distinct (map pub_id (publishers d)) \<and> distinct (map opp_id (opportunities d))
      \<and> list_all (\<lambda>x. web_id x < n) (client_websites d) \<and> list_all (\<lambda>c. cmp_id c < n) (campaigns d)
      \<and> list_all (\<lambda>p. pub_id p < n) (publishers d) \<and> list_all (\<lambda>op. opp_id op < n) (opportunities d))"

definition rooted :: "nat \<Rightarrow> db \<Rightarrow> bool" where
  "rooted n d = (tree_ok d \<and> ids_ok n d)"

lemma map_transfer: "map g rows = map g rows' \<Longrightarrow> (\<And>r. f r = h (g r)) \<Longrightarrow> map f rows = map f rows'"
proof -
  assume g: "map g rows = map g rows'" and f: "\<And>r. f r = h (g r)"
  have "map f rs = map h (map g rs)" for rs unfolding map_map by (rule map_cong) (simp_all add: f)
  then show ?thesis unfolding \<open>map f _ = _\<close> by (simp only: g)
qed

lemma list_all_transfer:
  assumes "map g rows = map g rows'" and "\<And>r. P r = h (g r)" and "\<And>r. Q r = h (g r)"
  shows "list_all P rows = list_all Q rows'"
proof -
  have "list_all P rows = list_all h (map g rows)" by (simp add: list_all_iff assms(2))
  also have "\<dots> = list_all Q rows'" unfolding assms(1) by (simp add: list_all_iff assms(3))
  finally show ?thesis .
qed

lemma kinship_keys:
  assumes "kinship d = kinship d'"
  shows "website_keys d = website_keys d'" "campaign_keys d = campaign_keys d'"
    "publisher_keys d = publisher_keys d'" "opportunity_keys d = opportunity_keys d'"
    "opportunity_placements d = opportunity_placements d'"
    "list_all (campaign_rooted d) (campaigns d) = list_all (campaign_rooted d') (campaigns d')"
    "list_all (opportunity_rooted d) (opportunities d) = list_all (opportunity_rooted d') (opportunities d')"
    "list_all (content_rooted d) (generated_contents d) = list_all (content_rooted d') (generated_contents d')"
    "map web_id (client_websites d) = map web_id (client_websites d')" "map cmp_id (campaigns d) = map cmp_id (campaigns d')"
    "map pub_id (publishers d) = map pub_id (publishers d')" "map opp_id (opportunities d) = map opp_id (opportunities d')"
proof -
  have w: "map website_kin (client_websites d) = map website_kin (client_websites d')"
    and c: "map campaign_kin (campaigns d) = map campaign_kin (campaigns d')"
    and p: "map publisher_kin (publishers d) = map publisher_kin (publishers d')"
    and op: "map opportunity_kin (opportunities d) = map opportunity_kin (opportunities d')"
    and g: "map content_kin (generated_contents d) = map content_kin (generated_contents d')"
    using assms by (simp_all add: kinship_def)
  note ws = map_transfer [OF w] and cs = map_transfer [OF c] and ps = map_transfer [OF p]
    and os = map_transfer [OF op] and gs = map_transfer [OF g]
  show wk: "website_keys d = website_keys d'" unfolding website_keys_def set_map [symmetric]
    by (subst ws [where h = "\<lambda>(i, t). (t, i)"]) (simp_all add: website_kin_def)
  show ck: "campaign_keys d = campaign_keys d'" unfolding campaign_keys_def set_map [symmetric]
    by (subst cs [where h = "\<lambda>(i, t, x). (t, i)"]) (simp_all add: campaign_kin_def)
  show pk: "publisher_keys d = publisher_keys d'" unfolding publisher_keys_def set_map [symmetric]
    by (subst ps [where h = "\<lambda>(i, t). (t, i)"]) (simp_all add: publisher_kin_def)
  show ok: "opportunity_keys d = opportunity_keys d'" unfolding opportunity_keys_def set_map [symmetric]
    by (subst os [where h = "\<lambda>(i, t, c, p). (t, i)"]) (simp_all add: opportunity_kin_def)
  show "opportunity_placements d = opportunity_placements d'"
    unfolding opportunity_placements_def set_map [symmetric]
    by (subst os [where h = "\<lambda>(i, t, c, p). (t, c, i)"]) (simp_all add: opportunity_kin_def)
  show "list_all (campaign_rooted d) (campaigns d) = list_all (campaign_rooted d') (campaigns d')"
    by (rule list_all_transfer [OF c, where h = "\<lambda>(i, t, x). (t, x) \<in> website_keys d'"])
      (simp_all add: campaign_kin_def campaign_rooted_def wk)
  show "list_all (opportunity_rooted d) (opportunities d) = list_all (opportunity_rooted d') (opportunities d')"
    by (rule list_all_transfer [OF op, where h = "\<lambda>(i, t, c, p). (t, c) \<in> campaign_keys d' \<and> (t, p) \<in> publisher_keys d'"])
      (simp_all add: opportunity_kin_def opportunity_rooted_def ck pk)
  show "list_all (content_rooted d) (generated_contents d) = list_all (content_rooted d') (generated_contents d')"
    by (rule list_all_transfer [OF g, where h = "\<lambda>(t, x). (t, x) \<in> opportunity_keys d'"])
      (simp_all add: content_kin_def content_rooted_def ok)
  show "map web_id (client_websites d) = map web_id (client_websites d')"
    by (rule ws [where h = fst]) (simp add: website_kin_def)
  show "map cmp_id (campaigns d) = map cmp_id (campaigns d')"
    by (rule cs [where h = fst]) (simp add: campaign_kin_def)
  show "map pub_id (publishers d) = map pub_id (publishers d')"
    by (rule ps [where h = fst]) (simp add: publisher_kin_def)
  show "map opp_id (opportunities d) = map opp_id (opportunities d')"
    by (rule os [where h = fst]) (simp add: opportunity_kin_def)
qed

lemma ids_ok_maps:
  "ids_ok n d \<longleftrightarrow> distinct (map web_id (client_websites d)) \<and> distinct (map cmp_id (campaigns d))
      \<and> distinct (map pub_id (publishers d)) \<and> distinct (map opp_id (opportunities d))
      \<and> (\<forall>i \<in> set (map web_id (client_websites d)) \<union> set (map cmp_id (campaigns d))
          \<union> set (map pub_id (publishers d)) \<union> set (map opp_id (opportunities d)). i < n)"
  unfolding ids_ok_def by (auto simp: list_all_iff)

lemma rooted_kinship:
  assumes "rooted n d" and "kinship d' = kinship d" and "places d' \<subseteq> places d" and "n \<le> m"
  shows "rooted m d'"
proof -
  note k = kinship_keys [OF assms(2)]
  have "submission_rooted d' s" if "s \<in> set (submissions d')" for s
  proof -
    have "sub_place s \<in> places d" using that assms(3) by (auto simp: places_def)
    then show ?thesis using assms(1)
      by (auto simp: rooted_def tree_ok_def list_all_iff submission_rooted_def places_def sub_place_def k(5))
  qed
  then have "list_all (submission_rooted d') (submissions d')" by (simp add: list_all_iff)
  then have "tree_ok d'" using assms(1) unfolding rooted_def tree_ok_def k(6-8) by blast
  moreover have "ids_ok m d'" using assms(1,4) unfolding rooted_def ids_ok_maps k(9-12) by (meson order_less_le_trans)
  ultimately show ?thesis by (simp add: rooted_def)
qed

section \<open>What changes the tables\<close>

lemma rooted_other [simp]:
  "rooted n (d\<lparr>audit_logs := a\<rparr>) = rooted n d" "rooted n (d\<lparr>discovery_runs := r\<rparr>) = rooted n d"
  by (simp_all add: rooted_def tree_ok_def ids_ok_def campaign_rooted_def opportunity_rooted_def
      submission_rooted_def content_rooted_def website_keys_def campaign_keys_def publisher_keys_def
      opportunity_keys_def opportunity_placements_def list_all_def cong: ball_cong)

lemma rooted_later: "rooted n d \<Longrightarrow> n \<le> m \<Longrightarrow> rooted m d"
  by (rule rooted_kinship [OF _ refl order_refl])

text \<open>A row put back with its key and parents.\<close>

lemma put_kin:
  assumes "distinct (map k rows)" and "g r \<in> g ` set rows" and "\<And>x y. g x = g y \<Longrightarrow> k x = k y"
  shows "map g (row_put k r rows) = map g rows"
proof -
  obtain r0 where r0: "r0 \<in> set rows" "g r0 = g r" using assms(2) by auto
  have "g (if k x = k r then r else x) = g x" if "x \<in> set rows" for x
  proof (cases "k x = k r")
    case True
    then have "k x = k r0" using assms(3) r0(2) by metis
    then have "x = r0" using assms(1) r0(1) that by (simp add: distinct_map inj_on_def)
    then show ?thesis using r0(2) True by simp
  qed simp
  then show ?thesis unfolding row_put_def map_map by (intro map_cong) simp_all
qed

lemma rooted_put_website:
  assumes "rooted n d" "website_kin r \<in> website_kin ` set (client_websites d)" "n \<le> m"
  shows "rooted m (d\<lparr>client_websites := row_put web_id r (client_websites d)\<rparr>)"
proof -
  have "map website_kin (row_put web_id r (client_websites d)) = map website_kin (client_websites d)"
    using assms by (intro put_kin) (auto simp: rooted_def ids_ok_def website_kin_def)
  then show ?thesis using assms by (intro rooted_kinship [OF assms(1)]) (auto simp: kinship_def places_def)
qed

lemma rooted_put_campaign:
  assumes "rooted n d" "campaign_kin r \<in> campaign_kin ` set (campaigns d)" "n \<le> m"
  shows "rooted m (d\<lparr>campaigns := row_put cmp_id r (campaigns d)\<rparr>)"
proof -
  have "map campaign_kin (row_put cmp_id r (campaigns d)) = map campaign_kin (campaigns d)"
    using assms by (intro put_kin) (auto simp: rooted_def ids_ok_def campaign_kin_def)
  then show ?thesis using assms by (intro rooted_kinship [OF assms(1)]) (auto simp: kinship_def places_def)
qed

lemma put_publisher_kin:
  assumes "rooted n d" "publisher_kin r \<in> publisher_kin ` set (publishers d)"
  shows "map publisher_kin (row_put pub_id r (publishers d)) = map publisher_kin (publishers d)"
  using assms by (intro put_kin) (auto simp: rooted_def ids_ok_def publisher_kin_def)

lemma rooted_put_publisher:
  assumes "rooted n d" "publisher_kin r \<in> publisher_kin ` set (publishers d)" "n \<le> m"
  shows "rooted m (d\<lparr>publishers := row_put pub_id r (publishers d)\<rparr>)"
  using put_publisher_kin [OF assms(1,2)] assms(3)
  by (intro rooted_kinship [OF assms(1)]) (auto simp: kinship_def places_def)

lemma put_opportunity_kin:
  assumes "rooted n d" "opportunity_kin r \<in> opportunity_kin ` set (opportunities d)"
  shows "map opportunity_kin (row_put opp_id r (opportunities d)) = map opportunity_kin (opportunities d)"
  using assms by (intro put_kin) (auto simp: rooted_def ids_ok_def opportunity_kin_def)

lemma rooted_put_opportunity:
  assumes "rooted n d" "opportunity_kin r \<in> opportunity_kin ` set (opportunities d)" "n \<le> m"
  shows "rooted m (d\<lparr>opportunities := row_put opp_id r (opportunities d)\<rparr>)"
  using put_opportunity_kin [OF assms(1,2)] assms(3)
  by (intro rooted_kinship [OF assms(1)]) (auto simp: kinship_def places_def)

lemma rooted_put_submission:
  assumes "rooted n d" "sub_place r \<in> places d" "n \<le> m"
  shows "rooted m (d\<lparr>submissions := row_put sub_id r (submissions d)\<rparr>)"
  using assms(2,3) by (intro rooted_kinship [OF assms(1)]) (auto simp: kinship_def places_def dest!: row_put_set)

text \<open>A new row under existing parents, with the next identifier.\<close>

lemma rooted_new_website:
  assumes "rooted (web_id r) d" "web_id r < m"
  shows "rooted m (d\<lparr>client_websites := client_websites d @ [r]\<rparr>)"
  using assms by (auto simp: rooted_def tree_ok_def ids_ok_def campaign_rooted_def opportunity_rooted_def
      submission_rooted_def content_rooted_def website_keys_def campaign_keys_def publisher_keys_def
      opportunity_keys_def opportunity_placements_def list_all_iff dest: less_trans)

lemma rooted_new_campaign:
  assumes "rooted (cmp_id r) d" "cmp_id r < m" "campaign_rooted d r"
  shows "rooted m (d\<lparr>campaigns := campaigns d @ [r]\<rparr>)"
  using assms by (auto simp: rooted_def tree_ok_def ids_ok_def campaign_rooted_def opportunity_rooted_def
      submission_rooted_def content_rooted_def website_keys_def campaign_keys_def publisher_keys_def
      opportunity_keys_def opportunity_placements_def list_all_iff dest: less_trans)

lemma rooted_new_publisher:
  assumes "rooted (pub_id r) d" "pub_id r < m"
  shows "rooted m (d\<lparr>publishers := publishers d @ [r]\<rparr>)"
  using assms by (auto simp: rooted_def tree_ok_def ids_ok_def campaign_rooted_def opportunity_rooted_def
      submission_rooted_def content_rooted_def website_keys_def campaign_keys_def publisher_keys_def
      opportunity_keys_def opportunity_placements_def list_all_iff dest: less_trans)

lemma rooted_new_opportunity:
  assumes "rooted (opp_id r) d" "opp_id r < m" "opportunity_rooted d r"
  shows "rooted m (d\<lparr>opportunities := opportunities d @ [r]\<rparr>)"
  using assms by (auto simp: rooted_def tree_ok_def ids_ok_def campaign_rooted_def opportunity_rooted_def
      submission_rooted_def content_rooted_def website_keys_def campaign_keys_def publisher_keys_def
      opportunity_keys_def opportunity_placements_def list_all_iff dest: less_trans)

lemma rooted_new_submission:
  assumes "rooted n d" "submission_rooted d r" "n \<le> m"
  shows "rooted m (d\<lparr>submissions := submissions d @ [r]\<rparr>)"
proof -
  have "tree_ok (d\<lparr>submissions := submissions d @ [r]\<rparr>)" using assms(1,2)
    by (auto simp: rooted_def tree_ok_def campaign_rooted_def opportunity_rooted_def
      submission_rooted_def content_rooted_def website_keys_def campaign_keys_def publisher_keys_def
      opportunity_keys_def opportunity_placements_def list_all_iff)
  moreover have "ids_ok m (d\<lparr>submissions := submissions d @ [r]\<rparr>)" using rooted_later [OF assms(1,3)]
    by (simp add: rooted_def ids_ok_def)
  ultimately show ?thesis by (simp add: rooted_def)
qed

text \<open>Cascading deletions.\<close>

lemma ids_ok_sub:
  assumes "ids_ok n d" "n \<le> m"
    and "\<exists>P. client_websites e = filter P (client_websites d)" "\<exists>P. campaigns e = filter P (campaigns d)"
    and "\<exists>P. publishers e = filter P (publishers d)" "\<exists>P. opportunities e = filter P (opportunities d)"
  shows "ids_ok m e"
proof -
  obtain P1 P2 P3 P4 where "client_websites e = filter P1 (client_websites d)" "campaigns e = filter P2 (campaigns d)"
    "publishers e = filter P3 (publishers d)" "opportunities e = filter P4 (opportunities d)" using assms(3-6) by blast
  then show ?thesis using assms(1,2) by (auto simp: ids_ok_def list_all_iff distinct_map_filter)
qed

lemma filter_id: "\<exists>P. xs = filter P xs"
  by (rule exI [of _ "\<lambda>_. True"]) simp

lemma drop_publishers_parts [simp]:
  "opportunities (drop_publishers P d) = filter (\<lambda>op. opp_publisher_id op \<notin> set (map pub_id (filter P (publishers d)))) (opportunities d)"
  "campaigns (drop_publishers P d) = campaigns d" "publishers (drop_publishers P d) = filter (\<lambda>p. \<not> P p) (publishers d)"
  "client_websites (drop_publishers P d) = client_websites d"
  by (simp_all add: drop_publishers_def Let_def)

lemma drop_campaigns_opportunities [simp]:
  "opportunities (drop_campaigns P d) = filter (\<lambda>op. opp_campaign_id op \<notin> set (map cmp_id (filter P (campaigns d)))) (opportunities d)"
  by (simp add: drop_campaigns_def Let_def)

lemma drop_websites_parts [simp]:
  "client_websites (drop_websites P d) = filter (\<lambda>x. \<not> P x) (client_websites d)"
  "publishers (drop_websites P d) = publishers d"
  "\<exists>Q. campaigns (drop_websites P d) = filter Q (campaigns d)"
  "\<exists>Q. opportunities (drop_websites P d) = filter Q (opportunities d)"
  by (auto simp: drop_websites_def Let_def intro: exI)

lemma rooted_drop:
  assumes "rooted n d" "n \<le> m"
  shows "rooted m (drop_opportunities P d)" "rooted m (drop_publishers P' d)"
    "rooted m (drop_campaigns P2 d)" "rooted m (drop_websites P3 d)"
  using assms unfolding rooted_def
  by (auto intro!: tree_drop_opportunities tree_drop_publishers tree_drop_campaigns tree_drop_websites
      ids_ok_sub [of n d m] filter_id)

section \<open>Operations that keep the tree\<close>

definition plants :: "'a svc \<Rightarrow> bool" where
  "plants m =
     (\<forall>w. rooted (w_next w) (w_db w) \<longrightarrow>
        wp m (\<lambda>_ v. rooted (w_next v) (w_db v)) (\<lambda>_ v. uncommitted w v) w)"

lemma plantsI:
  "(\<And>w. rooted (w_next w) (w_db w) \<Longrightarrow>
      wp m (\<lambda>_ v. rooted (w_next v) (w_db v)) (\<lambda>_ v. uncommitted w v) w) \<Longrightarrow> plants m"
  by (simp add: plants_def)

lemma wp_repo_get_rows:
  assumes "\<And>x. w_tenant w = Some (m_tenant m x) \<Longrightarrow> x \<in> set (m_rows m (w_db w)) \<Longrightarrow> m_id m x = i \<Longrightarrow> Q (Some x) w"
    and "Q None w" and "\<And>e. E e w"
  shows "wp (repo_get m i) Q E w"
  unfolding repo_get_def repo_where_def repo_rows_def
  using assms by (auto simp: wp_simps wp_scalar tenant_rows_def split: option.split list.split
      dest!: filter_eq_ConsD)

lemma wp_get_campaign:
  assumes "\<And>c. \<lbrakk>w_tenant w = Some (cmp_tenant_id c); c \<in> set (campaigns (w_db w)); cmp_id c = i\<rbrakk> \<Longrightarrow> Q c w"
    and "\<And>e. E e w"
  shows "wp (get_campaign i) Q E w"
  unfolding get_campaign_def using assms by (intro campaign_table.wp_get_or_raise) simp_all

lemma wp_get_website:
  assumes "\<And>x. \<lbrakk>w_tenant w = Some (web_tenant_id x); x \<in> set (client_websites (w_db w)); web_id x = i\<rbrakk> \<Longrightarrow> Q x w"
    and "\<And>e. E e w"
  shows "wp (get_website i) Q E w"
  unfolding get_website_def using assms by (intro client_website_table.wp_get_or_raise) simp_all

lemma wp_get_publisher:
  assumes "\<And>p. \<lbrakk>w_tenant w = Some (pub_tenant_id p); p \<in> set (publishers (w_db w)); pub_id p = i\<rbrakk> \<Longrightarrow> Q p w"
    and "\<And>e. E e w"
  shows "wp (get_publisher i) Q E w"
  unfolding get_publisher_def using assms by (intro publisher_table.wp_get_or_raise) simp_all

lemma wp_get_opportunity:
  assumes "\<And>op. \<lbrakk>w_tenant w = Some (opp_tenant_id op); op \<in> set (opportunities (w_db w)); opp_id op = i\<rbrakk> \<Longrightarrow> Q op w"
    and "\<And>e. E e w"
  shows "wp (get_opportunity i) Q E w"
  unfolding get_opportunity_def using assms by (intro opportunity_table.wp_get_or_raise) simp_all

lemma edit_kin [simp]:
  "website_kin (fst (edit_website u x)) = website_kin x"
  "campaign_kin (fst (edit_campaign cu c)) = campaign_kin c"
  "publisher_kin (fst (edit_publisher pu p)) = publisher_kin p"
  "opportunity_kin (fst (edit_opportunity ou op)) = opportunity_kin op"
  unfolding edit_website_def edit_campaign_def edit_publisher_def edit_opportunity_def
  by (simp_all add: edit_field_frame website_kin_def campaign_kin_def publisher_kin_def opportunity_kin_def)

lemma touched_kin [simp]:
  "website_kin (x\<lparr>web_updated_at := n\<rparr>) = website_kin x" "campaign_kin (c\<lparr>cmp_updated_at := n\<rparr>) = campaign_kin c"
  "publisher_kin (p\<lparr>pub_updated_at := n\<rparr>) = publisher_kin p"
  "opportunity_kin (op\<lparr>opp_updated_at := n\<rparr>) = opportunity_kin op"
  by (simp_all add: website_kin_def campaign_kin_def publisher_kin_def opportunity_kin_def)

lemma uncommitted_simps [simp]:
  "uncommitted w (v\<lparr>w_db := d\<rparr>) = uncommitted w v"
  "uncommitted w v \<Longrightarrow> uncommitted w (v\<lparr>w_next := Suc (w_next v)\<rparr>)"
  by (simp_all add: uncommitted_def)

lemmas plants_simps = wp_simps Let_def case_prod_beta flush_websites_def flush_campaigns_def
  flush_opportunities_def wp_flush_check client_website_table.wp_save campaign_table.wp_save
  publisher_table.wp_save opportunity_table.wp_save save_publisher_def save_opportunity_def
  client_website_table.wp_new campaign_table.wp_new publisher_table.wp_new opportunity_table.wp_new

lemma plants_update_website: "plants (update_website i u)"
  unfolding update_website_def
  by (intro plantsI) (auto simp: plants_simps split: option.split intro!: wp_get_website rooted_put_website)

lemma plants_delete_website: "plants (delete_website i)"
  unfolding delete_website_def
  by (intro plantsI) (auto simp: plants_simps split: option.split intro!: wp_get_website rooted_drop)

lemma plants_update_campaign: "plants (update_campaign i u)"
  unfolding update_campaign_def
  by (intro plantsI) (auto simp: plants_simps split: option.split intro!: wp_get_campaign rooted_put_campaign)

lemma plants_delete_campaign: "plants (delete_campaign i)"
  unfolding delete_campaign_def
  by (intro plantsI) (auto simp: plants_simps split: option.split intro!: wp_get_campaign rooted_drop)

lemma plants_update_publisher: "plants (update_publisher i u)"
  unfolding update_publisher_def
  by (intro plantsI) (auto simp: plants_simps split: option.split intro!: wp_get_publisher rooted_put_publisher)

lemma plants_delete_publisher: "plants (delete_publisher i)"
  unfolding delete_publisher_def
  by (intro plantsI) (auto simp: plants_simps split: option.split intro!: wp_get_publisher rooted_drop)

lemma plants_update_opportunity: "plants (update_opportunity i u)"
  unfolding update_opportunity_def
  by (intro plantsI) (auto simp: plants_simps split: option.split intro!: wp_get_opportunity rooted_put_opportunity)

lemma plants_delete_opportunity: "plants (delete_opportunity i)"
  unfolding delete_opportunity_def
  by (intro plantsI) (auto simp: plants_simps split: option.split intro!: wp_get_opportunity rooted_drop)

lemma moved_kin [simp]:
  "opportunity_kin (moved_opportunity target reason n op) = opportunity_kin op"
  "opportunity_kin (judged_opportunity p n op) = opportunity_kin op"
  "publisher_kin (apply_result wts sg r snap n p) = publisher_kin p"
  by (simp_all add: moved_opportunity_def judged_opportunity_def apply_result_def opportunity_kin_def
      publisher_kin_def Let_def)

lemma plants_transition_opportunity: "plants (transition_opportunity i target reason)"
  unfolding transition_opportunity_def
  by (intro plantsI) (auto simp: plants_simps split: option.split sum.split
      intro!: wp_get_opportunity rooted_put_opportunity)

lemma plants_qualify_opportunity: "plants (qualify_opportunity i)"
  unfolding qualify_opportunity_def
  by (intro plantsI) (auto simp: plants_simps split: option.split sum.split
      intro!: wp_reads [OF reads_submission_queries(2)] rooted_put_opportunity dest!: load_pair_rows)

text \<open>Creations look their parents up in the same tenant first.\<close>

lemma website_key_member: "x \<in> set (client_websites d) \<Longrightarrow> (web_tenant_id x, web_id x) \<in> website_keys d"
  by (auto simp: website_keys_def)

lemma campaign_key_member: "c \<in> set (campaigns d) \<Longrightarrow> (cmp_tenant_id c, cmp_id c) \<in> campaign_keys d"
  by (auto simp: campaign_keys_def)

lemma publisher_key_member: "p \<in> set (publishers d) \<Longrightarrow> (pub_tenant_id p, pub_id p) \<in> publisher_keys d"
  by (auto simp: publisher_keys_def)

lemma new_row_rooted:
  "x \<in> set (client_websites d) \<Longrightarrow> web_id x = cc_client_website_id pl \<Longrightarrow>
   campaign_rooted d (new_campaign pl x i (web_tenant_id x) n)"
  "c \<in> set (campaigns d) \<Longrightarrow> cmp_id c = oc_campaign_id po \<Longrightarrow> p \<in> set (publishers d) \<Longrightarrow>
   pub_id p = oc_publisher_id po \<Longrightarrow> pub_tenant_id p = cmp_tenant_id c \<Longrightarrow>
   opportunity_rooted d (new_opportunity po p i (cmp_tenant_id c) n)"
  using website_key_member [of x d] campaign_key_member [of c d] publisher_key_member [of p d]
  by (simp_all add: campaign_rooted_def new_campaign_def opportunity_rooted_def new_opportunity_def)

lemma new_row_id [simp]:
  "web_id (new_website pw nd url i t n) = i" "cmp_id (new_campaign pl x i t n) = i"
  "pub_id (new_publisher pp nd url i t n) = i" "opp_id (new_opportunity po p i t n) = i"
  "pub_id (discovered_row rid y i t n) = i"
  by (simp_all add: new_website_def new_campaign_def new_publisher_def new_opportunity_def
      discovered_row_def split: prod.split)

lemma reads_portfolio [reads_intros]:
  "reads (website_by_domain nd)" "reads (campaign_by_name wid nm)" "reads (find_duplicate cid pid url)"
  unfolding website_by_domain_def campaign_by_name_def find_duplicate_def by (intro reads_intros)+

lemma rooted_tail [simp]:
  "rooted n (d\<lparr>client_websites := xs, audit_logs := a\<rparr>) = rooted n (d\<lparr>client_websites := xs\<rparr>)"
  "rooted n (d\<lparr>campaigns := cs, audit_logs := a\<rparr>) = rooted n (d\<lparr>campaigns := cs\<rparr>)"
  "rooted n (d\<lparr>publishers := ps, audit_logs := a\<rparr>) = rooted n (d\<lparr>publishers := ps\<rparr>)"
  "rooted n (d\<lparr>opportunities := ops, audit_logs := a\<rparr>) = rooted n (d\<lparr>opportunities := ops\<rparr>)"
  using rooted_other(1) by metis+

lemma plants_create_website: "plants (create_website idna pl)"
  unfolding create_website_def
  by (intro plantsI) (auto simp: plants_simps uncommitted_def split: option.split sum.split
      intro!: wp_reads [OF reads_portfolio(1)] rooted_new_website)

lemma plants_create_publisher: "plants (create_publisher idna pl)"
  unfolding create_publisher_def
  by (intro plantsI) (auto simp: plants_simps uncommitted_def split: option.split sum.split
      intro!: wp_reads [OF reads_publisher_queries(1)] rooted_new_publisher)

lemma plants_create_campaign: "plants (create_campaign pl)"
  unfolding create_campaign_def
  by (intro plantsI) (auto simp: plants_simps uncommitted_def split: option.split sum.split
      intro!: wp_repo_get_rows wp_reads [OF reads_portfolio(2)] rooted_new_campaign new_row_rooted)

lemma plants_create_opportunity: "plants (create_opportunity pl)"
  unfolding create_opportunity_def assert_free_publisher_def
  by (intro plantsI) (auto simp: plants_simps uncommitted_def split: option.split sum.split
      intro!: wp_repo_get_rows wp_reads [OF reads_portfolio(3)] rooted_new_opportunity new_row_rooted(2))

lemma kin_member: "map g rows = map g rows' \<Longrightarrow> z \<in> g ` set rows \<Longrightarrow> z \<in> g ` set rows'"
  by (metis image_set)

lemma qualifying_kin [simp]: "publisher_kin (p\<lparr>pub_status := st\<rparr>) = publisher_kin p"
  by (simp add: publisher_kin_def)

lemma reads_gather [reads_intros]: "reads (gather qf live p)"
  unfolding gather_def by (intro reads_intros)

lemma rooted_put_publisher_twice:
  assumes "rooted n d" "publisher_kin a \<in> publisher_kin ` set (publishers d)"
    and "publisher_kin b \<in> publisher_kin ` set (publishers d)" "n \<le> m"
  shows "rooted m (d\<lparr>publishers := row_put pub_id b (row_put pub_id a (publishers d))\<rparr>)"
proof -
  obtain e where e: "e = d\<lparr>publishers := row_put pub_id a (publishers d)\<rparr>" by simp
  have r: "rooted n e" unfolding e using assms(1,2) by (rule rooted_put_publisher) simp
  have "publisher_kin b \<in> publisher_kin ` set (publishers e)"
    using kin_member [OF put_publisher_kin [OF assms(1,2), symmetric] assms(3)] by (simp add: e)
  from rooted_put_publisher [OF r this assms(4)] show ?thesis by (simp add: e)
qed

lemma plants_qualify_publisher: "plants (qualify_by_id qf qo i)"
proof (rule plantsI)
  fix w :: world assume "rooted (w_next w) (w_db w)"
  then have later: "rooted (Suc (w_next w)) (w_db w)" by (rule rooted_later) simp
  show "wp (qualify_by_id qf qo i) (\<lambda>_ v. rooted (w_next v) (w_db v)) (\<lambda>_ v. uncommitted w v) w"
    unfolding qualify_by_id_def qualify_publisher_def get_publisher_def [symmetric]
    by (auto simp: plants_simps split: option.split sum.split
      intro!: wp_get_publisher wp_reads [OF reads_gather] rooted_put_publisher_twice [OF later])
qed

text \<open>Discovery writes runs, which have no children, and publishers, which have no parents.\<close>

lemma wp_ret_tail: "wp (ret a) Q E = Q a"
  by (rule ext) (simp add: wp_ret)

lemma wp_insert_new:
  assumes "rooted (w_next w) (w_db w)" and "w_tenant w = Some t"
  shows "wp (insert_new rid existing seen xs)
    (\<lambda>_ v. rooted (w_next v) (w_db v) \<and> w_tenant v = Some t \<and> uncommitted w v) (\<lambda>_ v. uncommitted w v) w"
  using assms
proof (induction xs arbitrary: seen w)
  case Nil
  then show ?case by (simp add: wp_simps)
next
  case (Cons x xs)
  let ?r = "discovered_row rid x (w_next w) t (w_now w)"
  let ?v = "w\<lparr>w_next := Suc (w_next w), w_db := w_db w\<lparr>publishers := publishers (w_db w) @ [?r]\<rparr>\<rparr>"
  have "rooted (w_next ?v) (w_db ?v)" "w_tenant ?v = Some t" using Cons.prems by (auto intro!: rooted_new_publisher)
  from Cons.IH [OF this, of "fst x # seen"]
  have new: "wp (insert_new rid existing (fst x # seen) xs)
    (\<lambda>_ v. rooted (w_next v) (w_db v) \<and> w_tenant v = Some t \<and> uncommitted w v) (\<lambda>_ v. uncommitted w v) ?v"
    by (rule wp_mono) (auto simp: uncommitted_def)
  show ?case
    using Cons.IH [OF Cons.prems, of seen] new Cons.prems(2)
    by (auto simp: wp_simps wp_ret_tail publisher_table.wp_new case_prod_beta)
qed

lemma wp_flush_runs [wp_simps]:
  "wp flush_runs Q E w = (if runs_ok (w_db w) then Q () w
     else E (IntegrityExn ''discovery_runs'') (w\<lparr>w_db := w_committed w\<rparr>))"
  by (simp add: flush_runs_def wp_flush_check)

lemma plants_start_run: "plants (start_run key q cid)"
  unfolding start_run_def
  by (intro plantsI) (auto simp: plants_simps wp_flush_runs uncommitted_def discovery_run_table.wp_new
      split: option.split intro: rooted_later)

lemma plants_execute_run: "plants (execute_run idna r provider q)"
proof (rule plantsI)
  fix w :: world assume w: "rooted (w_next w) (w_db w)"
  show "wp (execute_run idna r provider q) (\<lambda>_ v. rooted (w_next v) (w_db v)) (\<lambda>_ v. uncommitted w v) w"
  proof (cases "w_tenant w")
    case None
    then show ?thesis
      by (auto simp: execute_run_def save_run_def record_completion_def materialise_def existing_domains_def
          repo_where_def repo_rows_def plants_simps wp_flush_runs discovery_run_table.wp_save
          uncommitted_def split: sum.split)
  next
    case (Some t)
    have close: "wp (ethen (save_run c) (ethen (record_completion c) (ret c)))
        (\<lambda>_ v. rooted (w_next v) (w_db v)) (\<lambda>_ v. uncommitted w v) v"
      if "rooted (w_next v) (w_db v)" "w_tenant v = Some t" "uncommitted w v" for c v
      using that by (auto simp: save_run_def record_completion_def plants_simps wp_flush_runs
          discovery_run_table.wp_save intro: rooted_later)
    obtain e where e: "e = w\<lparr>w_db := w_db w\<lparr>discovery_runs := row_put run_id
        (r\<lparr>run_status := D_RUNNING, run_started_at := Some (w_now w), run_updated_at := w_now w\<rparr>)
        (discovery_runs (w_db w))\<rparr>\<rparr>" by simp
    have eprops: "rooted (w_next e) (w_db e)" "w_tenant e = Some t" "uncommitted w e"
      using w Some by (simp_all add: e)
    have mat: "wp (materialise idna rid cs) (\<lambda>_ v. rooted (w_next v) (w_db v) \<and> w_tenant v = Some t \<and> uncommitted w v)
        (\<lambda>_ v. uncommitted w v) e" for rid cs
    proof (cases "normalise_candidates idna cs")
      case (Inl x)
      then show ?thesis using eprops by (simp add: materialise_def wp_simps)
    next
      case (Inr xs)
      have "wp (insert_new rid ex [] xs) (\<lambda>_ v. rooted (w_next v) (w_db v) \<and> w_tenant v = Some t \<and> uncommitted w v)
          (\<lambda>_ v. uncommitted w v) e" for ex
        by (rule wp_mono [OF wp_insert_new [OF eprops(1,2)]]) (use uncommitted_trans [OF eprops(3)] in blast)+
      then have "wp (insert_new rid ex [] xs) (\<lambda>a. wp (ethen flush_publishers (ret a))
          (\<lambda>_ v. rooted (w_next v) (w_db v) \<and> w_tenant v = Some t \<and> uncommitted w v) (\<lambda>_ v. uncommitted w v))
          (\<lambda>_ v. uncommitted w v) e" for ex
        by (rule wp_mono) (auto simp: wp_simps)
      then show ?thesis using Inr eprops(2)
        by (simp add: materialise_def wp_simps wp_existing_domains)
    qed
    have run: "wp (ebind (materialise idna (run_id r') cs) (\<lambda>counts. ethen (save_run (c counts))
          (ethen (record_completion (c counts)) (ret (c counts)))))
        (\<lambda>_ v. rooted (w_next v) (w_db v)) (\<lambda>_ v. uncommitted w v) e" for r' cs and c :: "nat \<times> nat \<Rightarrow> discovery_run_row"
      unfolding wp_ebind by (rule wp_mono [OF mat]) (auto intro: close)
    let ?r = "r\<lparr>run_status := D_RUNNING, run_started_at := Some (w_now w)\<rparr>"
    have tail: "wp (case provider q of
          Inl x \<Rightarrow> if is_app_error x ProviderError
            then let f = failed_run x (w_now w) ?r in ethen (save_run f) (ethen (record_completion f) (ret f))
            else raise x
        | Inr cs \<Rightarrow> ebind (materialise idna (run_id ?r) cs) (\<lambda>counts.
            let c = completed_run (length cs) counts (w_now w) ?r in
            ethen (save_run c) (ethen (record_completion c) (ret c))))
        (\<lambda>_ v. rooted (w_next v) (w_db v)) (\<lambda>_ v. uncommitted w v) e"
    proof (cases "provider q")
      case (Inl x)
      then show ?thesis using close [OF eprops] eprops(3) by (simp add: Let_def wp_raise)
    next
      case (Inr cs)
      then show ?thesis using run by (simp add: Let_def)
    qed
    have "wp (save_run ?r) (\<lambda>_ v. v = e) (\<lambda>_ v. uncommitted w v) w"
      by (simp add: save_run_def wp_simps discovery_run_table.wp_save e)
    then show ?thesis
      unfolding execute_run_def Let_def wp_ebind wp_now wp_ethen [of "save_run ?r"]
      by (rule wp_mono) (simp_all add: tail [unfolded Let_def])
  qed
qed

section \<open>Submissions stay where they are\<close>

lemma place_unchanged [simp]:
  "sub_place (fst (send_back (apply_update u s))) = sub_place s"
  "sub_place (record_unverified s ev) = sub_place s"
  "sub_place (s\<lparr>sub_updated_at := n\<rparr>) = sub_place s"
proof -
  have "sub_place (fst (apply_update u s)) = sub_place s"
    by (rule apply_update_keeps) (simp_all add: sub_place_def)
  then show "sub_place (fst (send_back (apply_update u s))) = sub_place s"
    by (cases "apply_update u s") (simp add: send_back_def clear_approval_def sub_place_def)
qed (simp_all add: record_unverified_def sub_place_def Let_def)

lemma place_here: "s \<in> set (submissions d) \<Longrightarrow> sub_place r = sub_place s \<Longrightarrow> sub_place r \<in> places d"
  by (auto simp: places_def)

lemma own_place [simp]:
  "s \<in> set (submissions d) \<Longrightarrow> sub_place s \<in> places d"
  "s \<in> set (submissions d) \<Longrightarrow> (sub_tenant_id s, sub_campaign_id s, sub_opportunity_id s) \<in> places d"
  by (auto simp: places_def sub_place_def)

lemma rooted_put_twice:
  assumes "rooted n d" "sub_place a \<in> places d" "sub_place r \<in> places d" "n \<le> m"
  shows "rooted m (d\<lparr>submissions := row_put sub_id r (row_put sub_id a (submissions d))\<rparr>)"
  using assms(2-4) by (intro rooted_kinship [OF assms(1)]) (auto simp: kinship_def places_def dest!: row_put_set)

lemma rooted_move_both:
  assumes "rooted n d" "s \<in> set (submissions d)" "sub_place r = sub_place s" "n \<le> m"
    and "opportunity_kin q \<in> opportunity_kin ` set (opportunities d)"
  shows "rooted m (d\<lparr>submissions := row_put sub_id r (submissions d), audit_logs := a,
      opportunities := row_put opp_id q (opportunities d)\<rparr>)"
proof -
  have "rooted n (d\<lparr>submissions := row_put sub_id r (submissions d)\<rparr>)"
    using place_here [OF assms(2,3)] by (intro rooted_put_submission [OF assms(1)]) simp_all
  then have "rooted n (d\<lparr>submissions := row_put sub_id r (submissions d), audit_logs := a\<rparr>)"
    using rooted_other(1) [of n a "d\<lparr>submissions := row_put sub_id r (submissions d)\<rparr>"] by simp
  from rooted_put_opportunity [OF this _ assms(4), of q] assms(5) show ?thesis by simp
qed

lemma rooted_submission_tail [simp]:
  "rooted n (d\<lparr>submissions := xs, audit_logs := a\<rparr>) = rooted n (d\<lparr>submissions := xs\<rparr>)"
  using rooted_other(1) [of n a "d\<lparr>submissions := xs\<rparr>"] by simp

lemma wp_assert_free_part:
  assumes "Q () w" and "\<And>e v. uncommitted w v \<Longrightarrow> E e v"
  shows "wp (assert_free p op) Q E w"
  using assms by (auto simp: assert_free_def wp_simps uncommitted_def split: option.split)

lemma wp_record_verified_place:
  assumes "\<And>s'. sub_place s' = sub_place s \<Longrightarrow> Q s' w" and "\<And>e. E e w"
  shows "wp (record_verified s) Q E w"
  by (auto simp: record_verified_def wp_simps assert_transition_cases sub_place_def intro!: assms)

lemma plants_delete_submission: "plants (delete_submission i)"
  unfolding delete_submission_def
proof (intro plantsI)
  fix w :: world assume w: "rooted (w_next w) (w_db w)"
  have "rooted (Suc (w_next w)) (w_db w\<lparr>submissions := row_drop sub_id j (submissions (w_db w))\<rparr>)" for j
    using w by (rule rooted_kinship) (auto simp: kinship_def places_def dest: row_drop_set [THEN subsetD])
  then show "wp (ebind (get_submission i) (\<lambda>s. ethen (repo_delete submission_model s) (ethen flush_submissions
      (audit_on A_SUBMISSION_DELETED ''submission'' i [(''opportunity_id'', JId (sub_opportunity_id s))]))))
     (\<lambda>_ v. rooted (w_next v) (w_db v)) (\<lambda>_ v. uncommitted w v) w"
    by (auto simp: wp_simps wp_flush_submissions submission_table.wp_delete split: option.split intro!: wp_get_submission)
qed

lemma wp_execute_branches:
  assumes "rooted (w_next w) (w_db w)" and "s \<in> set (submissions (w_db w))" and "op \<in> set (opportunities (w_db w))"
  shows "wp (execute_manual s op oc) (\<lambda>_ v. rooted (w_next v) (w_db v)) (\<lambda>_ v. uncommitted w v) w"
    "wp (execute_failed s op oc) (\<lambda>_ v. rooted (w_next v) (w_db v)) (\<lambda>_ v. uncommitted w v) w"
    "wp (execute_sent s op rq oc) (\<lambda>_ v. rooted (w_next v) (w_db v)) (\<lambda>_ v. uncommitted w v) w"
proof -
  note later = rooted_later [OF assms(1), of "Suc (w_next w)", simplified]
  have kin: "opportunity_kin (op\<lparr>opp_status := st, opp_updated_at := n\<rparr>) \<in> opportunity_kin ` set (opportunities (w_db w))" for st n
    using assms(3) by (auto simp: opportunity_kin_def image_iff)
  note rules = rooted_move_both [OF later assms(2)] rooted_put_submission [OF later] place_here [OF assms(2)] kin
  note facts = wp_simps wp_save_submission wp_flush_submissions wp_advance_opportunity Let_def
    assert_transition_cases sub_place_def
  show "wp (execute_manual s op oc) (\<lambda>_ v. rooted (w_next v) (w_db v)) (\<lambda>_ v. uncommitted w v) w"
    by (auto simp: execute_manual_def facts split: option.split intro!: rules)
  show "wp (execute_failed s op oc) (\<lambda>_ v. rooted (w_next v) (w_db v)) (\<lambda>_ v. uncommitted w v) w"
    by (auto simp: execute_failed_def facts split: option.split intro!: rules)
  show "wp (execute_sent s op rq oc) (\<lambda>_ v. rooted (w_next v) (w_db v)) (\<lambda>_ v. uncommitted w v) w"
    by (auto simp: execute_sent_def facts split: option.split intro!: rules)
qed

lemma plants_execute_submission: "plants (execute_submission sv i rq)"
  unfolding execute_submission_def
  by (intro plantsI) (auto simp: wp_simps Let_def assert_transition_cases dest!: load_pair_rows
      intro!: wp_get_submission wp_reads [OF reads_submission_queries(2)] wp_assert_free_part wp_execute_branches)

lemmas resave_simps = wp_simps wp_save_submission wp_flush_submissions Let_def case_prod_beta assert_transition_cases

lemma plants_update_submission: "plants (update_submission i u)"
proof (rule plantsI)
  fix w :: world assume "rooted (w_next w) (w_db w)"
  note later = rooted_later [OF this, of "Suc (w_next w)", simplified]
  show "wp (update_submission i u) (\<lambda>_ v. rooted (w_next v) (w_db v)) (\<lambda>_ v. uncommitted w v) w"
    unfolding update_submission_def
    by (auto simp: resave_simps split: option.split
        intro!: wp_get_submission
          rooted_put_submission [OF later] rooted_put_twice [OF later])
qed

lemma plants_transition_submission: "plants (transition_submission i target reason)"
proof (rule plantsI)
  fix w :: world assume "rooted (w_next w) (w_db w)"
  note later = rooted_later [OF this, of "Suc (w_next w)", simplified]
  show "wp (transition_submission i target reason) (\<lambda>_ v. rooted (w_next v) (w_db v)) (\<lambda>_ v. uncommitted w v) w"
    unfolding transition_submission_def
    by (auto simp: resave_simps sub_place_def split: option.split
        intro!: wp_get_submission
          rooted_put_submission [OF later] rooted_put_twice [OF later])
qed

lemma plants_approve_submission: "plants (approve_submission i approver notes)"
proof (rule plantsI)
  fix w :: world assume "rooted (w_next w) (w_db w)"
  note later = rooted_later [OF this, of "Suc (w_next w)", simplified]
  show "wp (approve_submission i approver notes) (\<lambda>_ v. rooted (w_next v) (w_db v)) (\<lambda>_ v. uncommitted w v) w"
    unfolding approve_submission_def
    by (auto simp: resave_simps sub_place_def split: option.split
        intro!: wp_get_submission
          rooted_put_submission [OF later] rooted_put_twice [OF later])
qed

lemma plants_prepare_for_review: "plants (prepare_for_review i)"
proof (rule plantsI)
  fix w :: world assume "rooted (w_next w) (w_db w)"
  note later = rooted_later [OF this, of "Suc (w_next w)", simplified]
  show "wp (prepare_for_review i) (\<lambda>_ v. rooted (w_next v) (w_db v)) (\<lambda>_ v. uncommitted w v) w"
    unfolding prepare_for_review_def
    by (auto simp: resave_simps sub_place_def split: option.split
        intro!: wp_get_submission
          rooted_put_submission [OF later] rooted_put_twice [OF later])
qed

lemma evidence_place [simp]: "sub_place (s\<lparr>sub_verification_evidence := ev\<rparr>) = sub_place s"
  by (simp add: sub_place_def)

lemma plants_verify_submission: "plants (verify_submission sv i rq)"
proof (rule plantsI)
  fix w :: world assume "rooted (w_next w) (w_db w)"
  note later = rooted_later [OF this, of "Suc (w_next w)", simplified]
  show "wp (verify_submission sv i rq) (\<lambda>_ v. rooted (w_next v) (w_db v)) (\<lambda>_ v. uncommitted w v) w"
    unfolding verify_submission_def
    by (auto simp: resave_simps split: option.split
        intro!: wp_get_submission
          rooted_put_submission [OF later] rooted_put_twice [OF later] wp_reads [OF reads_submission_queries(8)] wp_record_verified_place)
qed

lemma new_submission_rooted:
  assumes "op \<in> set (opportunities d)"
  shows "submission_rooted d (new_submission pl op p c m i (opp_tenant_id op) n)"
  using assms by (force simp: submission_rooted_def opportunity_placements_def new_submission_def split: prod.split)

lemma plants_create_submission: "plants (create_submission pl)"
proof (rule plantsI)
  fix w :: world assume "rooted (w_next w) (w_db w)"
  note later = rooted_later [OF this, of "Suc (Suc (w_next w))", simplified]
  show "wp (create_submission pl) (\<lambda>_ v. rooted (w_next v) (w_db v)) (\<lambda>_ v. uncommitted w v) w"
    unfolding create_submission_def
    by (auto simp: wp_simps wp_flush_submissions Let_def submission_table.wp_new uncommitted_def dest!: load_pair_rows
        intro!: wp_reads [OF reads_submission_queries(2)] wp_assert_free_part
          wp_reads [OF reads_submission_queries(3)] wp_reads [OF reads_submission_queries(5)]
          wp_reads [OF reads_submission_queries(6)] rooted_new_submission [OF later] new_submission_rooted
        split: option.splits)
qed

section \<open>Requests\<close>

text \<open>The API's requests on a workspace's working tables, each in a unit of work of its own.  An
  inline discovery starts its run, resolves the provider and executes the run.\<close>

datatype portfolio_request =
    PR_CreateWebsite website_create
  | PR_UpdateWebsite nat website_update
  | PR_DeleteWebsite nat
  | PR_CreateCampaign campaign_create
  | PR_UpdateCampaign nat campaign_update
  | PR_DeleteCampaign nat
  | PR_CreatePublisher publisher_create
  | PR_UpdatePublisher nat publisher_update
  | PR_DeletePublisher nat
  | PR_QualifyPublisher nat qualify_options
  | PR_Discover string discovery_query "nat option"
  | PR_CreateOpportunity opportunity_create
  | PR_UpdateOpportunity nat opportunity_update
  | PR_TransitionOpportunity nat opportunity_status "string option"
  | PR_QualifyOpportunity nat
  | PR_DeleteOpportunity nat
  | PR_Submission submission_request_kind

record portfolio_services =
  px_idna :: idna
  px_qualifier :: qualifier
  px_discovery :: "string \<Rightarrow> exn + discovery_provider"
  px_submissions :: submission_service

definition discover_publishers ::
  "portfolio_services \<Rightarrow> string \<Rightarrow> discovery_query \<Rightarrow> nat option \<Rightarrow> discovery_run_row svc" where
  "discover_publishers px key q cid =
     ebind (start_run key q cid) (\<lambda>r.
     ebind (lift_sum (px_discovery px key)) (\<lambda>provider.
     execute_run (px_idna px) r provider q))"

fun portfolio_handler :: "portfolio_services \<Rightarrow> nat \<Rightarrow> portfolio_request \<Rightarrow> unit svc" where
  "portfolio_handler px u (PR_CreateWebsite p) = discard (create_website (px_idna px) p)"
| "portfolio_handler px u (PR_UpdateWebsite i x) = discard (update_website i x)"
| "portfolio_handler px u (PR_DeleteWebsite i) = delete_website i"
| "portfolio_handler px u (PR_CreateCampaign p) = discard (create_campaign p)"
| "portfolio_handler px u (PR_UpdateCampaign i x) = discard (update_campaign i x)"
| "portfolio_handler px u (PR_DeleteCampaign i) = delete_campaign i"
| "portfolio_handler px u (PR_CreatePublisher p) = discard (create_publisher (px_idna px) p)"
| "portfolio_handler px u (PR_UpdatePublisher i x) = discard (update_publisher i x)"
| "portfolio_handler px u (PR_DeletePublisher i) = delete_publisher i"
| "portfolio_handler px u (PR_QualifyPublisher i qo) = discard (qualify_by_id (px_qualifier px) qo i)"
| "portfolio_handler px u (PR_Discover key q cid) = discard (discover_publishers px key q cid)"
| "portfolio_handler px u (PR_CreateOpportunity p) = discard (create_opportunity p)"
| "portfolio_handler px u (PR_UpdateOpportunity i x) = discard (update_opportunity i x)"
| "portfolio_handler px u (PR_TransitionOpportunity i t r) = discard (transition_opportunity i t r)"
| "portfolio_handler px u (PR_QualifyOpportunity i) = discard (qualify_opportunity i)"
| "portfolio_handler px u (PR_DeleteOpportunity i) = delete_opportunity i"
| "portfolio_handler px u (PR_Submission r) = submission_handler (px_submissions px) u r"

text \<open>A call: when it is served, for which tenant, by which member, and what is asked.\<close>

type_synonym portfolio_call = "int \<times> nat \<times> nat \<times> portfolio_request"

definition serve_portfolio :: "portfolio_services \<Rightarrow> portfolio_call \<Rightarrow> world \<Rightarrow> world" where
  "serve_portfolio px c w =
     (case c of (n, t, u, r) \<Rightarrow>
        snd (session_scope (Some t) (Some u) (portfolio_handler px u r) (w\<lparr>w_now := n\<rparr>)))"

lemma plants_ebind:
  assumes "plants m" and "inside (same_part (\<lambda>_. ())) uncommitted m" and "\<And>a. plants (k a)"
  shows "plants (ebind m k)"
proof (rule plantsI)
  fix w :: world assume "rooted (w_next w) (w_db w)"
  then have "wp m (\<lambda>_ v. rooted (w_next v) (w_db v)) (\<lambda>_ v. uncommitted w v) w"
    using assms(1) by (simp add: plants_def)
  from wp_conj [OF this insideD [OF assms(2)]]
  show "wp (ebind m k) (\<lambda>_ v. rooted (w_next v) (w_db v)) (\<lambda>_ v. uncommitted w v) w"
    unfolding wp_ebind
  proof (rule wp_mono)
    fix a v assume v: "rooted (w_next v) (w_db v) \<and> same_part (\<lambda>_. ()) w v"
    then have "wp (k a) (\<lambda>_ u. rooted (w_next u) (w_db u)) (\<lambda>_ u. uncommitted v u) v"
      using assms(3) by (simp add: plants_def)
    then show "wp (k a) (\<lambda>_ u. rooted (w_next u) (w_db u)) (\<lambda>_ u. uncommitted w u) v"
      by (rule wp_mono) (use v uncommitted_trans in \<open>auto simp: same_part_def\<close>)
  qed simp
qed

lemma plants_lift: "plants (lift_sum x)"
  by (intro plantsI) (simp add: wp_simps split: sum.split)

lemma plants_discard: "plants m \<Longrightarrow> plants (discard m)"
  by (simp add: plants_def discard_def wp_simps wp_ret_tail)

lemma plants_discover: "plants (discover_publishers px key q cid)"
  unfolding discover_publishers_def
proof (intro plants_ebind plants_start_run plants_lift plants_execute_run)
  show "inside (same_part (\<lambda>_. ())) uncommitted (start_run key q cid)"
    unfolding start_run_def flush_runs_def by (intro frame_intros) simp_all
  show "inside (same_part (\<lambda>_. ())) uncommitted (lift_sum (px_discovery px key))"
    by (intro frame_intros)
qed

lemma plants_submissions: "plants (submission_handler sv u r)"
  by (cases r) (simp_all add: plants_discard plants_create_submission plants_update_submission
    plants_transition_submission plants_prepare_for_review plants_approve_submission
    plants_execute_submission plants_verify_submission plants_delete_submission)

lemma plants_portfolio: "plants (portfolio_handler px u r)"
  by (cases r) (simp_all add: plants_discard plants_create_website plants_update_website plants_delete_website
    plants_create_campaign plants_update_campaign plants_delete_campaign plants_create_publisher
    plants_update_publisher plants_delete_publisher plants_qualify_publisher plants_discover
    plants_create_opportunity plants_update_opportunity plants_transition_opportunity
    plants_qualify_opportunity plants_delete_opportunity plants_submissions)

lemma serve_rooted:
  assumes "rooted (w_next w) (w_committed w)"
  shows "rooted (w_next (serve_portfolio px c w)) (w_committed (serve_portfolio px c w))"
proof (cases c)
  case (fields n t u r)
  have "wp (portfolio_handler px u r) (\<lambda>_ v. rooted (w_next v) (w_db v))
      (\<lambda>_ v. uncommitted (open_session (Some t) (Some u) (w\<lparr>w_now := n\<rparr>)) v) (open_session (Some t) (Some u) (w\<lparr>w_now := n\<rparr>))"
    using plants_portfolio [of px u r] assms by (simp add: plants_def open_session_def)
  then have "wp (portfolio_handler px u r) (\<lambda>_ v. rooted (w_next v) (w_db v))
      (\<lambda>_ v. rooted (w_next v) (w_committed v)) (open_session (Some t) (Some u) (w\<lparr>w_now := n\<rparr>))"
    by (rule wp_mono) (use assms rooted_later in \<open>auto simp: uncommitted_def open_session_def\<close>)
  from scope_committed [OF this refl] show ?thesis by (simp add: serve_portfolio_def fields)
qed

lemma fold_rooted:
  "rooted (w_next w) (w_committed w) \<Longrightarrow>
   rooted (w_next (fold (serve_portfolio px) cs w)) (w_committed (fold (serve_portfolio px) cs w))"
  by (induction cs arbitrary: w) (simp_all add: serve_rooted)

end
