(* ===== verification/PublisherProperties.thy ===== *)
theory PublisherProperties
  imports PortfolioTree SubmissionProperties
begin

text \<open>
  Properties of publisher research: canonical domains, the scoring model, qualification and
  discovery, and the tree of working tables they write to.
\<close>

section \<open>What a qualification leaves\<close>

text \<open>Partial correctness: what holds of a result if there is one.\<close>

lemma wp_skip: "(\<And>u. wp n Q (\<lambda>_ _. True) u) \<Longrightarrow> wp (ethen m n) Q (\<lambda>_ _. True) w"
  by (simp add: wp_ethen wp_def [of m] split: sum.split prod.split)

lemma wp_pick: "(\<And>a u. wp (f a) Q (\<lambda>_ _. True) u) \<Longrightarrow> wp (ebind m f) Q (\<lambda>_ _. True) w"
  by (simp add: wp_ebind wp_def [of m] split: sum.split prod.split)

lemma wp_lifted: "(\<And>a. x = Inr a \<Longrightarrow> wp (f a) Q (\<lambda>_ _. True) w) \<Longrightarrow> wp (ebind (lift_sum x) f) Q (\<lambda>_ _. True) w"
  by (auto simp: wp_simps split: sum.split)

lemma wp_gathered:
  assumes "\<And>s m u. live = (s \<noteq> None) \<Longrightarrow> live = (m \<noteq> None) \<Longrightarrow> wp (f s m) Q (\<lambda>_ _. True) u"
  shows "wp (ebind (gather qf live x) (\<lambda>(s, m). f s m)) Q (\<lambda>_ _. True) w"
  using assms by (auto simp: gather_def wp_simps split: sum.split)

lemma qualify_outcome:
  assumes "qualify_publisher qf qo p0 w = (Inr (p, b), v)"
  obtains snapshot metrics sg r n where
    "build_signals (p0\<lparr>pub_status := Pb_QUALIFYING\<rparr>) snapshot metrics qo = Inr sg"
    "score_publisher sg (qf_weights qf) = Inr r"
    "p = apply_result (qf_weights qf) sg r snapshot n (p0\<lparr>pub_status := Pb_QUALIFYING\<rparr>)"
    "b = breakdown_of r p" "qo_fetch_live qo = (snapshot \<noteq> None)" "qo_fetch_live qo = (metrics \<noteq> None)"
proof -
  let ?P = "\<lambda>z. \<exists>snapshot metrics sg r n.
      build_signals (p0\<lparr>pub_status := Pb_QUALIFYING\<rparr>) snapshot metrics qo = Inr sg
      \<and> score_publisher sg (qf_weights qf) = Inr r
      \<and> fst z = apply_result (qf_weights qf) sg r snapshot n (p0\<lparr>pub_status := Pb_QUALIFYING\<rparr>)
      \<and> snd z = breakdown_of r (fst z)
      \<and> qo_fetch_live qo = (snapshot \<noteq> None) \<and> qo_fetch_live qo = (metrics \<noteq> None)"
  have "wp (qualify_publisher qf qo p0) (\<lambda>z _. ?P z) (\<lambda>_ _. True) w"
    unfolding qualify_publisher_def Let_def
    by (intro wp_skip wp_gathered wp_lifted wp_pick) (unfold wp_ret fst_conv snd_conv, intro exI conjI,
        assumption+, rule refl, rule refl, assumption+)
  from wp_Inr [OF this assms] show ?thesis using that by (auto simp: prod_eq_iff)
qed

section \<open>The evidence kept on the row\<close>

lemma stored_texts_list [simp]: "stored_texts (JList (map JStr xs)) = Inr xs"
  by (simp add: stored_texts_def list_all_iff o_def)

lemma stored_numbers [simp]:
  "stored_rat (json_opt JRat x) = Inr x" "stored_int (json_opt JInt y) = Inr y"
  by (simp_all add: stored_rat_def stored_int_def json_opt_def split: option.split)

lemma scored_fields:
  "stored_flag (scored_signals sg r n) ''reachable'' z = ps_reachable sg"
  "stored_flag (scored_signals sg r n) ''tls_valid'' z = ps_tls_valid sg"
  "stored_flag (scored_signals sg r n) ''has_submission_path'' z = ps_has_submission_path sg"
  "stored_flag (scored_signals sg r n) ''indexable'' z = ps_indexable sg"
  "stored_flag (scored_signals sg r n) ''is_paid_only'' z = ps_is_paid_only sg"
  "json_get (scored_signals sg r n) ''spam_signals'' = JList (map JStr (ps_spam_signals sg))"
  "json_get (scored_signals sg r n) ''http_status'' = json_opt JInt (ps_http_status sg)"
  "json_get (scored_signals sg r n) ''outbound_links'' = json_opt JInt (ps_outbound_links sg)"
  "json_get (scored_signals sg r n) ''authority_score'' = json_opt JRat (ps_authority_score sg)"
  "json_get (scored_signals sg r n) ''organic_traffic'' = json_opt JInt (ps_organic_traffic sg)"
  "json_get (scored_signals sg r n) ''opportunity_score'' = JRat (sr_opportunity_score r)"
  by (simp_all add: stored_flag_def json_get_def scored_signals_def signals_to_dict_def)

lemma applied_fields [simp]:
  "pub_signals (apply_result wts sg r sn n p) = scored_signals sg r n"
  "pub_quality_score (apply_result wts sg r sn n p) = Some (sr_quality_score r)"
  "pub_relevance_score (apply_result wts sg r sn n p) = Some (sr_relevance_score r)"
  "pub_spam_score (apply_result wts sg r sn n p) = Some (sr_spam_score r)"
  "pub_authority_score (apply_result wts sg r sn n p) = Some (sr_authority_score r)"
  "pub_status (apply_result wts sg r sn n p) =
     (if is_rejected r \<or> \<not> meets_thresholds r wts then Pb_REJECTED else Pb_QUALIFIED)"
  "pub_pricing_type (apply_result wts sg r sn n p) = tightened_pricing sg (pub_pricing_type p)"
  "pub_category (apply_result wts sg r sn n p) = pub_category p"
  "pub_country (apply_result wts sg r sn n p) = pub_country p"
  "pub_language (apply_result wts sg r sn n p) = pub_language p"
  "pub_website_url (apply_result wts sg r sn n p) = pub_website_url p"
  by (simp_all add: apply_result_def)

lemma not_rejected:
  "score_publisher sg w = Inr r \<Longrightarrow> is_rejected r \<longleftrightarrow>
     \<not> ps_reachable sg \<or> ps_is_paid_only sg \<or> \<not> ps_has_submission_path sg
     \<or> list_ex (\<lambda>x. x \<in> set link_scheme_signals) (ps_spam_signals sg)"
  by (auto simp: is_rejected_def score_publisher_result(6) find_hard_rejections_def reason_unless_def)

definition hundredths :: "rat \<Rightarrow> bool" where
  "hundredths x = (\<exists>n. x = of_int n / 100)"

definition grade :: "rat option \<Rightarrow> rat \<Rightarrow> bool" where
  "grade column x = (column = Some x \<and> 0 \<le> x \<and> x \<le> 100 \<and> hundredths x)"

lemma component_hundredths:
  assumes "score_publisher sg w = Inr r"
  shows "hundredths (sr_quality_score r)" "hundredths (sr_relevance_score r)"
    "hundredths (sr_spam_score r)" "hundredths (sr_authority_score r)"
  unfolding score_publisher_result(2-5) [OF assms]
  by (simp_all add: score_quality_def score_relevance_def score_spam_def score_authority_def Let_def
      hundredths_def [symmetric] clamp_hundredths [folded hundredths_def] split: option.split)

text \<open>A lead whose site offers a free listing, checked by a crawler that finds it.\<close>

definition demo_lead :: publisher_row where
  "demo_lead = demo_publisher\<lparr>pub_pricing_type := Pr_UNKNOWN, pub_status := Pb_DISCOVERED, pub_submission_url := None\<rparr>"

definition demo_site :: site_snapshot where
  "demo_site = \<lparr>ss_url = ''https://d.org/'', ss_reachable = True, ss_status_code = Some 200, ss_tls_valid = True,
     ss_title = None, ss_text = ''a free business directory'', ss_submission_path = Some ''https://d.org/add'',
     ss_outbound_link_count = Some 12, ss_indexable = True, ss_spam_signals = [],
     ss_free_listing_detected = True, ss_paid_listing_detected = False, ss_error = None,
     ss_notes = []\<rparr>"

definition demo_qualifier :: qualifier where
  "demo_qualifier = \<lparr>qf_crawler = (\<lambda>_. Inr demo_site), qf_metrics = null_metrics, qf_weights = default_weights\<rparr>"

definition demo_search :: qualify_options where
  "demo_search = \<lparr>qo_fetch_live = True, qo_relevance_keywords = [''directory''], qo_target_country = None,
     qo_target_language = None\<rparr>"

definition research_world :: "publisher_row \<Rightarrow> world" where
  "research_world p = initial_world\<lparr>w_tenant := Some 5, w_db := empty_db\<lparr>publishers := [p]\<rparr>\<rparr>"

lemma qualify_succeeds:
  assumes "pub_id p0 = pub_id p" "publisher_checks p0" and live: "qo_fetch_live qo = (sn \<noteq> None)"
    and "qo_fetch_live qo \<Longrightarrow> qf_crawler qf (pub_website_url p0) = Inr (the sn)"
    and "qo_fetch_live qo \<Longrightarrow> qf_metrics qf (pub_normalized_domain p0) = Inr (the m)"
    and "qo_fetch_live qo = (m \<noteq> None)"
    and "build_signals (p0\<lparr>pub_status := Pb_QUALIFYING\<rparr>) sn m qo = Inr sg"
    and "score_publisher sg (qf_weights qf) = Inr r" and "ps_organic_traffic sg = None"
  shows "\<exists>v. qualify_publisher qf qo p0 (research_world p) =
    (Inr (apply_result (qf_weights qf) sg r sn 0 (p0\<lparr>pub_status := Pb_QUALIFYING\<rparr>),
       breakdown_of r (apply_result (qf_weights qf) sg r sn 0 (p0\<lparr>pub_status := Pb_QUALIFYING\<rparr>))), v)"
proof -
  let ?p = "apply_result (qf_weights qf) sg r sn 0 (p0\<lparr>pub_status := Pb_QUALIFYING\<rparr>)"
  have "publisher_checks (?p\<lparr>pub_updated_at := 0\<rparr>)"
    using score_range [OF assms(8)] assms(2,9)
    by (auto simp: publisher_checks_def in_percent_def apply_result_def split: option.splits)
  moreover have "publisher_checks (p0\<lparr>pub_status := Pb_QUALIFYING, pub_updated_at := 0\<rparr>)"
    using assms(2) by (simp add: publisher_checks_def)
  moreover have "pub_id ?p = pub_id p" using assms(1) by (simp add: apply_result_def)
  ultimately have "wp (qualify_publisher qf qo p0) (\<lambda>z _. z = (?p, breakdown_of r ?p)) (\<lambda>_ _. False) (research_world p)"
    using assms unfolding qualify_publisher_def Let_def
    by (auto simp: plants_simps gather_def research_world_def initial_world_def empty_db_def publishers_ok_def row_put_def
        domain_key_def)
  then show ?thesis by (auto simp: wp_def split: sum.splits prod.splits)
qed

definition demo_signals :: publisher_signals where
  "demo_signals = signals_of (demo_lead\<lparr>pub_status := Pb_QUALIFYING\<rparr>) demo_site (Some (projr (null_metrics ''d.org''))) demo_search None None"

definition demo_score :: score_result where
  "demo_score = projr (score_publisher demo_signals default_weights)"

definition demo_qualified :: publisher_row where
  "demo_qualified = apply_result default_weights demo_signals demo_score (Some demo_site) 0 (demo_lead\<lparr>pub_status := Pb_QUALIFYING\<rparr>)"

lemma demo_score_eq: "score_publisher s default_weights = Inr (projr (score_publisher s default_weights))"
  by (simp add: score_publisher_def default_weights_def positive_mass_def case_prod_beta Let_def)

lemma demo_metrics [simp]: "sm_authority_score (projr (null_metrics d)) = None" "sm_organic_traffic (projr (null_metrics d)) = None"
  by (simp_all add: null_metrics_def)

lemma demo_lead_fields [simp]: "pub_id demo_lead = 10" "publisher_checks demo_lead"
  "pub_signals demo_lead = []" "pub_normalized_domain demo_lead = ''d.org''"
  by (simp_all add: demo_lead_def demo_publisher_def publisher_checks_def in_percent_def)

lemma demo_qualify:
  "\<exists>v. qualify_publisher demo_qualifier demo_search demo_lead (research_world demo_lead) =
     (Inr (demo_qualified, breakdown_of demo_score demo_qualified), v)"
proof -
  have "\<exists>v. qualify_publisher demo_qualifier demo_search demo_lead (research_world demo_lead) =
    (Inr (apply_result (qf_weights demo_qualifier) demo_signals demo_score (Some demo_site) 0 (demo_lead\<lparr>pub_status := Pb_QUALIFYING\<rparr>),
       breakdown_of demo_score (apply_result (qf_weights demo_qualifier) demo_signals demo_score (Some demo_site) 0
         (demo_lead\<lparr>pub_status := Pb_QUALIFYING\<rparr>))), v)"
  proof (rule qualify_succeeds)
    show "qo_fetch_live demo_search = (Some (projr (null_metrics ''d.org'')) \<noteq> None)" by (simp add: demo_search_def)
    show "qf_metrics demo_qualifier (pub_normalized_domain demo_lead) = Inr (the (Some (projr (null_metrics ''d.org''))))"
      by (simp add: demo_qualifier_def null_metrics_def)
    show "score_publisher demo_signals (qf_weights demo_qualifier) = Inr demo_score"
      unfolding demo_score_def demo_qualifier_def qualifier.select_convs by (rule demo_score_eq)
    show "qo_fetch_live demo_search = (Some demo_site \<noteq> None)" by (simp add: demo_search_def)
    show "qf_crawler demo_qualifier (pub_website_url demo_lead) = Inr (the (Some demo_site))" by (simp add: demo_qualifier_def)
    show "build_signals (demo_lead\<lparr>pub_status := Pb_QUALIFYING\<rparr>) (Some demo_site) (Some (projr (null_metrics ''d.org''))) demo_search
        = Inr demo_signals" by (simp add: build_signals_def Let_def demo_signals_def)
    show "ps_organic_traffic demo_signals = None" unfolding demo_signals_def signals_of_def Let_def by simp
  qed simp_all
  then show ?thesis by (simp add: demo_qualified_def demo_qualifier_def)
qed

text \<open>C9: Whatever the weights, the previous row and the evidence, a publisher that has been
  qualified carries four scores between 0 and 100 in hundredths, and it is \<open>QUALIFIED\<close> exactly when
  the evidence stored beside them says the site answered, asks no payment, has a submission path and
  shows no link scheme, and the scores clear the tenant's thresholds; it is \<open>REJECTED\<close> otherwise.
  It is reported eligible exactly when it is also \<open>FREE\<close>.\<close>

theorem qualification_verdict:
  assumes "qualify_publisher qf qo p0 w = (Inr (p, b), v)"
  shows "\<exists>q rl s a opp spam.
      grade (pub_quality_score p) q \<and> grade (pub_relevance_score p) rl
      \<and> grade (pub_spam_score p) s \<and> grade (pub_authority_score p) a
      \<and> json_get (pub_signals p) ''opportunity_score'' = JRat opp
      \<and> stored_texts (json_get (pub_signals p) ''spam_signals'') = Inr spam
      \<and> pub_status p =
          (if stored_flag (pub_signals p) ''reachable'' False
              \<and> \<not> stored_flag (pub_signals p) ''is_paid_only'' False
              \<and> stored_flag (pub_signals p) ''has_submission_path'' False
              \<and> \<not> list_ex (\<lambda>x. x \<in> set link_scheme_signals) spam
              \<and> sw_min_quality_score (qf_weights qf) \<le> q \<and> s \<le> sw_max_spam_score (qf_weights qf)
              \<and> sw_min_opportunity_score (qf_weights qf) \<le> opp
           then Pb_QUALIFIED else Pb_REJECTED)
      \<and> bd_eligible_for_submission b = (pub_pricing_type p = Pr_FREE \<and> pub_status p = Pb_QUALIFIED)"
proof -
  obtain sn m sg r n where sg: "score_publisher sg (qf_weights qf) = Inr r"
    and p: "p = apply_result (qf_weights qf) sg r sn n (p0\<lparr>pub_status := Pb_QUALIFYING\<rparr>)" and b: "b = breakdown_of r p"
    using qualify_outcome [OF assms] by metis
  note range = score_range [OF sg] and cents = component_hundredths [OF sg]
  show ?thesis
  proof (intro exI conjI)
    show "grade (pub_quality_score p) (sr_quality_score r)" using range(1) cents(1) by (simp add: grade_def p)
    show "grade (pub_relevance_score p) (sr_relevance_score r)" using range(2) cents(2) by (simp add: grade_def p)
    show "grade (pub_spam_score p) (sr_spam_score r)" using range(3) cents(3) by (simp add: grade_def p)
    show "grade (pub_authority_score p) (sr_authority_score r)" using range(4) cents(4) by (simp add: grade_def p)
  qed (auto simp: p b scored_fields not_rejected [OF sg] meets_thresholds_def breakdown_of_def
      publisher_is_submittable_def publisher_is_free_def)
qed

lemma qualification_verdict_witness:
  "\<exists>v. qualify_publisher demo_qualifier demo_search demo_lead (research_world demo_lead) =
       (Inr (demo_qualified, breakdown_of demo_score demo_qualified), v)
   \<and> (\<exists>q. grade (pub_quality_score demo_qualified) q) \<and> pub_status demo_qualified = Pb_QUALIFIED"
proof -
  obtain v where v: "qualify_publisher demo_qualifier demo_search demo_lead (research_world demo_lead) =
      (Inr (demo_qualified, breakdown_of demo_score demo_qualified), v)" using demo_qualify by blast
  have "pub_status demo_qualified = Pb_QUALIFIED"
    unfolding demo_qualified_def demo_score_def demo_signals_def signals_of_def demo_site_def demo_search_def demo_lead_def demo_publisher_def
    by code_simp
  then show ?thesis using v qualification_verdict [OF v] by blast
qed

section \<open>Scoring again from what was stored\<close>

lemma stored_scored:
  "stored_snapshot url (scored_signals sg r n) =
     Inr \<lparr>ss_url = url, ss_reachable = ps_reachable sg, ss_status_code = ps_http_status sg,
        ss_tls_valid = ps_tls_valid sg, ss_title = None, ss_text = [],
        ss_submission_path = (if ps_has_submission_path sg then Some [] else None),
        ss_outbound_link_count = ps_outbound_links sg, ss_indexable = ps_indexable sg,
        ss_spam_signals = ps_spam_signals sg, ss_free_listing_detected = False,
        ss_paid_listing_detected = ps_is_paid_only sg, ss_error = None,
     ss_notes = []\<rparr>"
  by (simp add: stored_snapshot_def scored_fields)

lemma rescored_signals:
  assumes "build_signals p (Some sn) (Some m) qo = Inr sg"
    and "build_signals ((apply_result wts sg r (Some sn) n p)\<lparr>pub_status := st\<rparr>) None None
           (qo\<lparr>qo_fetch_live := False\<rparr>) = Inr sg'"
  shows "evidence_le sg' sg" and "find_hard_rejections sg' = find_hard_rejections sg"
    and "ps_spam_signals sg' = ps_spam_signals sg" and "ps_outbound_links sg' = ps_outbound_links sg"
    and "ps_authority_score sg' = ps_authority_score sg"
proof -
  have sg: "sg = signals_of p sn (Some m) qo (sm_authority_score m) (sm_organic_traffic m)"
    using assms(1) by (simp add: build_signals_def Let_def)
  let ?p = "(apply_result wts sg r (Some sn) n p)\<lparr>pub_status := st\<rparr>"
  have sg': "sg' = signals_of ?p (projr (stored_snapshot (pub_website_url p) (scored_signals sg r n))) None
      (qo\<lparr>qo_fetch_live := False\<rparr>) (ps_authority_score sg) (ps_organic_traffic sg)"
    using assms(2) by (simp add: build_signals_def Let_def stored_scored scored_fields)
  have same: "ps_reachable sg' = ps_reachable sg" "ps_tls_valid sg' = ps_tls_valid sg"
      "ps_has_submission_path sg' = ps_has_submission_path sg" "ps_is_paid_only sg' = ps_is_paid_only sg"
      "ps_indexable sg' = ps_indexable sg" "ps_country_match sg' = ps_country_match sg"
      "ps_language_match sg' = ps_language_match sg" "ps_authority_score sg' = ps_authority_score sg"
      "ps_spam_signals sg' = ps_spam_signals sg" "ps_outbound_links sg' = ps_outbound_links sg"
    unfolding sg' by (simp_all add: signals_of_def stored_scored Let_def vendor_spam_def)
      (simp_all add: sg signals_of_def Let_def)
  have free: "ps_is_free sg' \<Longrightarrow> ps_is_free sg"
    unfolding sg' by (auto simp: signals_of_def stored_scored Let_def tightened_pricing_def split: if_splits)
      (auto simp: sg signals_of_def Let_def split: if_splits)
  have hits: "ps_keyword_hits sg' \<le> ps_keyword_hits sg"
  proof -
    have "k \<noteq> []" if "k \<in> set (search_keywords ks)" for k ks
      using that by (auto simp: search_keywords_def str_lower_def)
    then have "filter (\<lambda>k. contains k []) (search_keywords ks) = []" for ks
      by (auto simp: filter_empty_conv)
    then show ?thesis unfolding sg' by (simp add: signals_of_def stored_scored Let_def)
  qed
  have cat: "ps_category_match sg' \<Longrightarrow> ps_category_match sg"
    unfolding sg' by (simp add: signals_of_def stored_scored Let_def category_matches_def split: if_splits)
      (simp add: sg signals_of_def Let_def category_matches_def)
  show "evidence_le sg' sg" unfolding evidence_le_def
    using free hits cat by (intro conjI) (simp_all add: same excessive_links_def authority_le_def)
  show "find_hard_rejections sg' = find_hard_rejections sg" by (simp add: find_hard_rejections_def same)
  show "ps_spam_signals sg' = ps_spam_signals sg" "ps_outbound_links sg' = ps_outbound_links sg"
    "ps_authority_score sg' = ps_authority_score sg" by (rule same)+
qed

text \<open>Scoring a publisher again from the stored signals, without a fetch, finds the same hard
  rejections and the same spam and authority scores as the pass that stored them; with sane
  weights no other score rises, and a publisher that the fetch rejected is not qualified by it.\<close>

theorem rescore_never_gains:
  assumes "qualify_publisher qf qo p0 w = (Inr (p, b), v)" and "qo_fetch_live qo"
    and "qualify_publisher qf (qo\<lparr>qo_fetch_live := False\<rparr>) p w' = (Inr (p', b'), v')"
    and "sane_weights (qf_weights qf)"
  shows "pub_spam_score p' = pub_spam_score p \<and> pub_authority_score p' = pub_authority_score p
    \<and> json_get (pub_signals p') ''hard_rejections'' = json_get (pub_signals p) ''hard_rejections''
    \<and> the (pub_quality_score p') \<le> the (pub_quality_score p)
    \<and> the (pub_relevance_score p') \<le> the (pub_relevance_score p)
    \<and> (pub_status p = Pb_REJECTED \<longrightarrow> pub_status p' = Pb_REJECTED)"
proof -
  let ?w = "qf_weights qf" and ?start = "\<lambda>p. p\<lparr>pub_status := Pb_QUALIFYING\<rparr>"
  obtain sn m sg r n where sig: "build_signals (?start p0) (Some sn) (Some m) qo = Inr sg"
    and sc: "score_publisher sg ?w = Inr r" and p: "p = apply_result ?w sg r (Some sn) n (?start p0)"
    using qualify_outcome [OF assms(1)] assms(2) by (metis option.exhaust)
  obtain sn' m' sg' r' n' where sig0: "build_signals (?start p) sn' m' (qo\<lparr>qo_fetch_live := False\<rparr>) = Inr sg'"
    and sc': "score_publisher sg' ?w = Inr r'" and p0': "p' = apply_result ?w sg' r' sn' n' (?start p)"
    and stale: "qo_fetch_live (qo\<lparr>qo_fetch_live := False\<rparr>) = (sn' \<noteq> None)"
      "qo_fetch_live (qo\<lparr>qo_fetch_live := False\<rparr>) = (m' \<noteq> None)"
    by (rule qualify_outcome [OF assms(3)])
  have sig': "build_signals (?start p) None None (qo\<lparr>qo_fetch_live := False\<rparr>) = Inr sg'"
    and p': "p' = apply_result ?w sg' r' None n' (?start p)"
    using sig0 p0' stale by simp_all
  note le = rescored_signals [OF sig sig' [unfolded p]]
  note res = score_publisher_result [OF sc] and res' = score_publisher_result [OF sc']
  have spam: "sr_spam_score r' = sr_spam_score r" and auth: "sr_authority_score r' = sr_authority_score r"
    unfolding res(4,5) res'(4,5) by (simp_all add: score_spam_def score_authority_def excessive_links_def le(3-5) Let_def)
  have q: "sr_quality_score r' \<le> sr_quality_score r" unfolding res(2) res'(2) by (rule quality_mono [OF le(1) assms(4)])
  have rl: "sr_relevance_score r' \<le> sr_relevance_score r" unfolding res(3) res'(3) by (rule relevance_mono [OF le(1) assms(4)])
  have o: "sr_opportunity_score r' \<le> sr_opportunity_score r" by (rule opportunity_mono [OF le(1) assms(4) sc' sc])
  have h: "sr_hard_rejections r' = sr_hard_rejections r" unfolding res(6) res'(6) by (rule le(2))
  have "meets_thresholds r' ?w \<Longrightarrow> meets_thresholds r ?w"
    using q o by (simp add: meets_thresholds_def is_rejected_def h spam)
  moreover have "json_get (pub_signals p') ''hard_rejections'' = json_get (pub_signals p) ''hard_rejections''"
    by (simp add: p p' scored_signals_def signals_to_dict_def json_get_def h)
  ultimately show ?thesis using spam auth q rl by (auto simp: p p' is_rejected_def h)
qed

lemma demo_rescore:
  "\<exists>sg r v. qualify_publisher demo_qualifier (demo_search\<lparr>qo_fetch_live := False\<rparr>) demo_qualified (research_world demo_qualified)
     = (Inr (apply_result default_weights sg r None 0 (demo_qualified\<lparr>pub_status := Pb_QUALIFYING\<rparr>),
         breakdown_of r (apply_result default_weights sg r None 0 (demo_qualified\<lparr>pub_status := Pb_QUALIFYING\<rparr>))), v)"
proof -
  let ?qo = "demo_search\<lparr>qo_fetch_live := False\<rparr>" and ?p = "demo_qualified\<lparr>pub_status := Pb_QUALIFYING\<rparr>"
  let ?e = "projr (stored_snapshot (pub_website_url ?p) (pub_signals ?p))"
  let ?sg = "signals_of ?p ?e None ?qo (ps_authority_score demo_signals) (ps_organic_traffic demo_signals)"
  have traffic: "ps_organic_traffic demo_signals = None" unfolding demo_signals_def signals_of_def Let_def by simp
  have kept: "pub_signals demo_qualified = scored_signals demo_signals demo_score 0" by (simp add: demo_qualified_def)
  have w: "qf_weights demo_qualifier = default_weights" by (simp add: demo_qualifier_def)
  have "score_publisher demo_signals default_weights = Inr demo_score"
    unfolding demo_score_def by (rule demo_score_eq)
  note range = score_range [OF this]
  have "publisher_checks demo_qualified"
    using range by (simp add: publisher_checks_def in_percent_def demo_qualified_def apply_result_def traffic)
      (simp add: demo_lead_def demo_publisher_def)
  moreover have "build_signals ?p None None ?qo = Inr ?sg"
    by (simp add: build_signals_def Let_def kept stored_scored scored_fields)
  moreover have "ps_organic_traffic ?sg = None" by (simp add: signals_of_def Let_def traffic)
  moreover have "score_publisher ?sg (qf_weights demo_qualifier) = Inr (projr (score_publisher ?sg default_weights))"
    unfolding w by (rule demo_score_eq)
  ultimately have "\<exists>v. qualify_publisher demo_qualifier ?qo demo_qualified (research_world demo_qualified) =
      (Inr (apply_result (qf_weights demo_qualifier) ?sg (projr (score_publisher ?sg default_weights)) None 0 ?p,
         breakdown_of (projr (score_publisher ?sg default_weights))
           (apply_result (qf_weights demo_qualifier) ?sg (projr (score_publisher ?sg default_weights)) None 0 ?p)), v)"
    by (intro qualify_succeeds) simp_all
  then show ?thesis unfolding w by blast
qed

lemma rescore_never_gains_witness:
  "\<exists>p b v. qualify_publisher demo_qualifier (demo_search\<lparr>qo_fetch_live := False\<rparr>) demo_qualified (research_world demo_qualified)
     = (Inr (p, b), v) \<and> pub_spam_score p = pub_spam_score demo_qualified
   \<and> the (pub_quality_score p) \<le> the (pub_quality_score demo_qualified)"
proof -
  obtain v where v: "qualify_publisher demo_qualifier demo_search demo_lead (research_world demo_lead) =
      (Inr (demo_qualified, breakdown_of demo_score demo_qualified), v)" using demo_qualify by blast
  obtain p b u where u: "qualify_publisher demo_qualifier (demo_search\<lparr>qo_fetch_live := False\<rparr>) demo_qualified
      (research_world demo_qualified) = (Inr (p, b), u)" using demo_rescore by blast
  have "qo_fetch_live demo_search" "sane_weights (qf_weights demo_qualifier)"
    by (simp_all add: demo_search_def demo_qualifier_def sane_weights_def default_weights_def)
  from rescore_never_gains [OF v this(1) u this(2)] u show ?thesis by blast
qed

section \<open>Better evidence\<close>

text \<open>The scoring model is monotone: with sane weights, more positive evidence and fewer negative
  signals never lower the opportunity score, and never turn a publisher that clears the
  thresholds into one that does not.\<close>

theorem better_evidence_never_hurts:
  assumes "evidence_le s t" and "sane_weights w"
    and "score_publisher s w = Inr r" and "score_publisher t w = Inr q"
  shows "sr_opportunity_score r \<le> sr_opportunity_score q \<and> (meets_thresholds r w \<longrightarrow> meets_thresholds q w)"
proof -
  note r = score_publisher_result [OF assms(3)] and q = score_publisher_result [OF assms(4)]
  have "is_rejected q \<Longrightarrow> is_rejected r"
    using hard_rejections_mono [OF assms(1)] by (auto simp: is_rejected_def r(6) q(6))
  moreover have "sr_quality_score r \<le> sr_quality_score q" unfolding r(2) q(2) by (rule quality_mono [OF assms(1,2)])
  moreover have "sr_spam_score q \<le> sr_spam_score r" unfolding r(4) q(4) by (rule spam_mono [OF assms(1,2)])
  ultimately show ?thesis using opportunity_mono [OF assms] by (auto simp: meets_thresholds_def)
qed


lemma better_evidence_never_hurts_witness:
  "\<exists>r q. score_publisher no_signals default_weights = Inr r
     \<and> score_publisher (no_signals\<lparr>ps_reachable := True\<rparr>) default_weights = Inr q
     \<and> sr_opportunity_score r \<le> sr_opportunity_score q"
proof -
  let ?t = "no_signals\<lparr>ps_reachable := True\<rparr>"
  have "evidence_le no_signals ?t" unfolding evidence_le_def
    by (intro conjI) (simp_all add: no_signals_def authority_le_def excessive_links_def)
  moreover have "sane_weights default_weights" by (simp add: sane_weights_def default_weights_def)
  ultimately show ?thesis
    using better_evidence_never_hurts [OF _ _ demo_score_eq [of no_signals] demo_score_eq [of ?t]] demo_score_eq by blast
qed

section \<open>One query for a batch of candidates\<close>

text \<open>C11: The discovery batch, which asks once for the domains already stored and tracks the ones seen
  in the batch, ends in the same state with the same counts as looking every candidate up when its
  turn comes, whatever the candidates and their repetitions.\<close>

theorem batch_is_one_by_one:
  assumes "w_tenant w = Some t" and "publishers_ok (w_db w)"
  shows "materialise idna rid candidates w = materialise_each idna rid candidates w"
  using assms by (rule materialise_is_reference)

definition found_at :: "string \<Rightarrow> discovered_publisher" where
  "found_at url = \<lparr>dp_website_url = url, dp_name = None, dp_description = None, dp_category = None, dp_country = None,
     dp_language = None, dp_submission_url = None, dp_contact_url = None, dp_submission_method = Me_UNKNOWN,
     dp_source_metadata = []\<rparr>"

lemma batch_is_one_by_one_witness:
  "materialise Some 7 [found_at ''https://d.org'', found_at ''https://new.org'', found_at ''http://www.new.org/x'']
     (research_world demo_lead)
   = materialise_each Some 7 [found_at ''https://d.org'', found_at ''https://new.org'', found_at ''http://www.new.org/x'']
     (research_world demo_lead)"
  by (rule batch_is_one_by_one [of _ 5]) (simp_all add: research_world_def publishers_ok_def)

section \<open>A malformed candidate\<close>

lemma normalise_sinks:
  assumes "c \<in> set cs" and "normalize_url idna (dp_website_url c) = Inl (ValueExn msg)"
  shows "\<exists>e. normalise_candidates idna cs = Inl e"
  using assms by (induction cs) (auto simp: is_validation_error_def split: sum.splits)

lemma no_commit_insert_new [no_commit_intros]: "no_commit (insert_new rid existing seen xs)"
proof (induction rid existing seen xs rule: insert_new.induct)
  case (2 rid existing seen x xs)
  show ?case unfolding insert_new.simps
    by (cases "fst x \<in> set existing \<or> fst x \<in> set seen") (simp_all only: if_True if_False,
      (intro no_commit_intros 2; simp)+)
qed (simp add: no_commit_intros)

lemma no_commit_discovery [no_commit_intros]:
  "no_commit (start_run key q cid)" "no_commit (execute_run idna r provider q)"
  unfolding start_run_def execute_run_def materialise_def existing_domains_def save_run_def record_completion_def Let_def
  by (auto intro!: no_commit_intros split: sum.split)

text \<open>A provider reply that contains one address the URL parser cannot read at all, such as one with
  an unclosed bracket, sinks the whole discovery request: it ends in an error, and neither the run
  nor any other candidate of the reply is committed.\<close>

theorem malformed_candidate_sinks_run:
  assumes "px_discovery px key = Inr provider" and "provider q = Inr cs" and "c \<in> set cs"
    and "normalize_url (px_idna px) (dp_website_url c) = Inl (ValueExn msg)"
  shows "\<exists>e v. session_scope (Some t) (Some u) (discover_publishers px key q cid) w = (Inl e, v)
    \<and> w_committed v = w_committed w"
proof -
  obtain x where x: "normalise_candidates (px_idna px) cs = Inl x"
    using normalise_sinks [OF assms(3,4)] by blast
  have "wp (discover_publishers px key q cid) (\<lambda>_ _. False) (\<lambda>_ _. True) (open_session (Some t) (Some u) w)"
    unfolding discover_publishers_def execute_run_def materialise_def Let_def
    by (intro wp_pick wp_lifted wp_skip) (use assms(1,2) in \<open>auto simp: wp_simps x\<close>)
  then obtain e z where e: "discover_publishers px key q cid (open_session (Some t) (Some u) w) = (Inl e, z)"
    by (auto simp: wp_def split: sum.splits prod.splits)
  have raised: "session_scope (Some t) (Some u) (discover_publishers px key q cid) w
      = (Inl e, close_session (z\<lparr>w_db := w_committed z\<rparr>))" using e by (rule scope_raise)
  have "no_commit (discover_publishers px key q cid)"
    unfolding discover_publishers_def by (intro no_commit_intros)
  from scope_raise_atomic [OF this raised] raised show ?thesis by blast
qed

definition demo_query :: discovery_query where
  "demo_query = \<lparr>dq_keywords = [''plumbing''], dq_country = None, dq_language = None, dq_category = None,
     dq_limit = 25, dq_free_only = True\<rparr>"

lemma found_at_url [simp]: "dp_website_url (found_at url) = url"
  by (simp add: found_at_def)

lemma malformed_candidate_sinks_run_witness:
  "\<exists>e v. session_scope (Some 5) (Some 1) (discover_publishers
      \<lparr>px_idna = Some, px_qualifier = demo_qualifier,
       px_discovery = (\<lambda>_. Inr (\<lambda>_. Inr [found_at ''https://new.org'', found_at ''http://[bad''])), px_submissions = demo_service\<rparr>
      ''seed_list'' demo_query None) demo_world = (Inl e, v) \<and> w_committed v = w_committed demo_world"
proof -
  have "urlsplit ''http://[bad'' = Inl (ValueExn ''Invalid IPv6 URL'')" by code_simp
  moreover have "str_strip ''http://[bad'' = ''http://[bad''" "scheme_then ''://'' ''http://[bad''" by code_simp+
  ultimately have bad: "normalize_url Some ''http://[bad'' = Inl (ValueExn ''Invalid IPv6 URL'')" by (simp add: normalize_url_def)
  show ?thesis
    by (rule malformed_candidate_sinks_run
        [where c = "found_at ''http://[bad''" and cs = "[found_at ''https://new.org'', found_at ''http://[bad'']"
          and provider = "\<lambda>_. Inr [found_at ''https://new.org'', found_at ''http://[bad'']" and msg = "''Invalid IPv6 URL''"])
      (simp_all add: bad)
qed

section \<open>One site, one domain\<close>



section \<open>The tree of working tables\<close>


end
