(* ===== verification/Robots.thy ===== *)
theory Robots
  imports Domains
begin

text \<open>
  What the program uses of Python's \<open>urllib.parse.urljoin\<close>, \<open>quote\<close>, \<open>unquote\<close> and
  \<open>urllib.robotparser\<close> (3.12).  A percent escape above ASCII stays one character per byte, so that
  quoting what was unquoted gives the escape back.  The crawl delay, the request rate and the site
  maps of a robots.txt are read by nobody and are left out; their lines still move the parser's state.
\<close>

section \<open>Joining addresses\<close>

definition uses_relative :: "string list" where
  "uses_relative = [[], ''ftp'', ''http'', ''gopher'', ''nntp'', ''imap'', ''wais'', ''file'', ''https'', ''shttp'',
     ''mms'', ''prospero'', ''rtsp'', ''rtsps'', ''rtspu'', ''sftp'', ''svn'', ''svn+ssh'', ''ws'', ''wss'']"

definition uses_netloc :: "string list" where
  "uses_netloc = [[], ''ftp'', ''http'', ''gopher'', ''nntp'', ''telnet'', ''imap'', ''wais'', ''file'', ''mms'',
     ''https'', ''shttp'', ''snews'', ''prospero'', ''rtsp'', ''rtsps'', ''rtspu'', ''rsync'', ''svn'', ''svn+ssh'',
     ''sftp'', ''nfs'', ''git'', ''git+ssh'', ''ws'', ''wss'']"

definition uses_params :: "string list" where
  "uses_params = [[], ''ftp'', ''hdl'', ''prospero'', ''http'', ''imap'', ''https'', ''shttp'', ''rtsp'', ''rtsps'',
     ''rtspu'', ''sip'', ''sips'', ''mms'', ''sftp'', ''tel'']"

record parse_result = split_result +
  u_params :: string

text \<open>The parameters follow the first semicolon of the last segment.\<close>

definition split_params :: "string \<Rightarrow> string \<times> string" where
  "split_params path =
     (let segment = after_last CHR ''/'' path
      in if CHR '';'' \<in> set segment
         then (take (length path - length segment) path @ before CHR '';'' segment, after CHR '';'' segment)
         else (path, []))"

definition urlparse :: "string \<Rightarrow> string \<Rightarrow> exn + parse_result" where
  "urlparse address scheme =
     (case urlsplit address of
        Inl e \<Rightarrow> Inl e
      | Inr u \<Rightarrow>
          let sch = (if u_scheme u = [] then scheme else u_scheme u);
              (path, params) = (if sch \<in> set uses_params then split_params (u_path u) else (u_path u, []))
          in Inr \<lparr>u_scheme = sch, u_netloc = u_netloc u, u_path = path, u_query = u_query u,
                  u_fragment = u_fragment u, u_params = params\<rparr>)"

definition urlunparse :: "parse_result \<Rightarrow> string" where
  "urlunparse u =
     (let path = (if u_params u = [] then u_path u else u_path u @ '';'' @ u_params u);
          url = (if u_netloc u \<noteq> [] \<or> (u_scheme u \<noteq> [] \<and> u_scheme u \<in> set uses_netloc) \<or> has_prefix ''//'' path
                 then ''//'' @ u_netloc u
                      @ (if path \<noteq> [] \<and> hd path \<noteq> CHR ''/'' then CHR ''/'' # path else path)
                 else path)
      in (if u_scheme u = [] then [] else u_scheme u @ '':'') @ url
         @ (if u_query u = [] then [] else CHR ''?'' # u_query u)
         @ (if u_fragment u = [] then [] else CHR ''#'' # u_fragment u))"

fun resolve_segments :: "string list \<Rightarrow> string list \<Rightarrow> string list" where
  "resolve_segments acc [] = acc"
| "resolve_segments acc (s # ss) =
     resolve_segments (if s = ''..'' then butlast acc else if s = ''.'' then acc else acc @ [s]) ss"

definition relative_segments :: "string \<Rightarrow> string \<Rightarrow> string list" where
  "relative_segments base path =
     (if has_prefix ''/'' path then split_on CHR ''/'' path
      else let parts = split_on CHR ''/'' base;
               segs = (if last parts \<noteq> [] then butlast parts else parts) @ split_on CHR ''/'' path
           in if length segs < 2 then segs
              else [hd segs] @ filter (\<lambda>s. s \<noteq> []) (butlast (tl segs)) @ [last segs])"

definition resolved_path :: "string list \<Rightarrow> string" where
  "resolved_path segs =
     (let path = join_char CHR ''/'' (resolve_segments [] segs
                   @ (if last segs \<in> {''.'', ''..''} then [[]] else []))
      in if path = [] then ''/'' else path)"

definition urljoin :: "string \<Rightarrow> string \<Rightarrow> exn + string" where
  "urljoin base url =
     (if base = [] then Inr url else if url = [] then Inr base
      else case urlparse base [] of Inl e \<Rightarrow> Inl e | Inr b \<Rightarrow>
      case urlparse url (u_scheme b) of Inl e \<Rightarrow> Inl e | Inr u \<Rightarrow>
      if u_scheme u \<noteq> u_scheme b \<or> u_scheme u \<notin> set uses_relative then Inr url
      else if u_scheme u \<in> set uses_netloc \<and> u_netloc u \<noteq> [] then Inr (urlunparse u)
      else let v = (if u_scheme u \<in> set uses_netloc then u\<lparr>u_netloc := u_netloc b\<rparr> else u)
      in if u_path u = [] \<and> u_params u = []
         then Inr (urlunparse (v\<lparr>u_path := u_path b, u_params := u_params b,
                u_query := (if u_query u = [] then u_query b else u_query u)\<rparr>))
         else Inr (urlunparse (v\<lparr>u_path := resolved_path (relative_segments (u_path b) (u_path u))\<rparr>)))"

section \<open>Percent escapes\<close>

definition hex_char :: "nat \<Rightarrow> char" where
  "hex_char n = char_of (if n < 10 then 48 + n else 55 + n)"

definition unreserved :: "char \<Rightarrow> bool" where
  "unreserved c = (ascii_alpha c \<or> ascii_digit c \<or> c \<in> set ''_.-~/'')"

definition quote_path :: "string \<Rightarrow> string" where
  "quote_path s =
     concat (map (\<lambda>c. if unreserved c then [c]
        else [CHR ''%'', hex_char (code_of c div 16), hex_char (code_of c mod 16)]) s)"

fun unquote :: "string \<Rightarrow> string" where
  "unquote (c # a # b # s) =
     (if c = CHR ''%'' \<and> hex_digit a \<and> hex_digit b
      then char_of (16 * hex_value a + hex_value b) # unquote s
      else c # unquote (a # b # s))"
| "unquote s = s"

section \<open>robots.txt\<close>

definition line_break :: "char \<Rightarrow> bool" where
  "line_break c = (code_of c \<in> {10, 11, 12, 13, 28, 29, 30})"

function split_lines :: "string \<Rightarrow> string list" where
  "split_lines s =
     (if s = [] then []
      else let line = takeWhile (\<lambda>c. \<not> line_break c) s;
               rest = dropWhile (\<lambda>c. \<not> line_break c) s
           in line # split_lines (if has_prefix [CHR 0x0D, CHR 0x0A] rest then drop 2 rest else drop 1 rest))"
  by pat_completeness auto
termination
proof (relation "measure length", simp_all, goal_cases)
  case (1 s)
  have "length (dropWhile (\<lambda>c. \<not> line_break c) s) \<le> length s" by (rule length_dropWhile_le)
  moreover have "0 < length s" using 1 by simp
  ultimately show ?case by linarith
qed

declare split_lines.simps [simp del]

record robots_rule =
  rr_path :: string
  rr_allow :: bool

record robots_entry =
  re_agents :: "string list"
  re_rules :: "robots_rule list"

record robots =
  rb_entries :: "robots_entry list"
  rb_default :: "robots_entry option"

definition rule_line :: "string \<Rightarrow> bool \<Rightarrow> exn + robots_rule" where
  "rule_line path allow =
     (case urlparse path [] of
        Inl e \<Rightarrow> Inl e
      | Inr u \<Rightarrow> Inr \<lparr>rr_path = quote_path (urlunparse u), rr_allow = (allow \<or> path = [])\<rparr>)"

definition empty_entry :: robots_entry where
  "empty_entry = \<lparr>re_agents = [], re_rules = []\<rparr>"

definition add_entry :: "robots_entry \<Rightarrow> robots \<Rightarrow> robots" where
  "add_entry e r =
     (if ''*'' \<in> set (re_agents e)
      then (if rb_default r = None then r\<lparr>rb_default := Some e\<rparr> else r)
      else r\<lparr>rb_entries := rb_entries r @ [e]\<rparr>)"

text \<open>Where the parser stands: outside an entry, behind an agent line, behind a rule line.\<close>

datatype robots_state = RS_START | RS_AGENT | RS_RULE

type_synonym robots_parse = "robots_state \<times> robots_entry \<times> robots"

definition blank_line :: "robots_parse \<Rightarrow> robots_parse" where
  "blank_line p =
     (case p of (st, e, r) \<Rightarrow>
        case st of
          RS_START \<Rightarrow> p
        | RS_AGENT \<Rightarrow> (RS_START, empty_entry, r)
        | RS_RULE \<Rightarrow> (RS_START, empty_entry, add_entry e r))"

definition robots_line :: "string \<Rightarrow> robots_parse \<Rightarrow> exn + robots_parse" where
  "robots_line raw p0 =
     (let (st, e, r) = (if raw = [] then blank_line p0 else p0);
          line = str_strip (before CHR ''#'' raw);
          field = str_lower (str_strip (before CHR '':'' line));
          val = unquote (str_strip (after CHR '':'' line))
      in if line = [] \<or> CHR '':'' \<notin> set line then Inr (st, e, r)
         else if field = ''user-agent''
         then (let (e', r') = (if st = RS_RULE then (empty_entry, add_entry e r) else (e, r))
               in Inr (RS_AGENT, e'\<lparr>re_agents := re_agents e' @ [val]\<rparr>, r'))
         else if st = RS_START then Inr (st, e, r)
         else if field \<in> {''disallow'', ''allow''}
         then (case rule_line val (field = ''allow'') of
                 Inl x \<Rightarrow> Inl x
               | Inr rule \<Rightarrow> Inr (RS_RULE, e\<lparr>re_rules := re_rules e @ [rule]\<rparr>, r))
         else if field \<in> {''crawl-delay'', ''request-rate''} then Inr (RS_RULE, e, r)
         else Inr (st, e, r))"

fun robots_lines :: "robots_parse \<Rightarrow> string list \<Rightarrow> exn + robots_parse" where
  "robots_lines p [] = Inr p"
| "robots_lines p (l # ls) = (case robots_line l p of Inl x \<Rightarrow> Inl x | Inr q \<Rightarrow> robots_lines q ls)"

definition parse_robots :: "string \<Rightarrow> exn + robots" where
  "parse_robots txt =
     (case robots_lines (RS_START, empty_entry, \<lparr>rb_entries = [], rb_default = None\<rparr>) (split_lines txt) of
        Inl x \<Rightarrow> Inl x
      | Inr (st, e, r) \<Rightarrow> Inr (if st = RS_RULE then add_entry e r else r))"

definition applies_to :: "string \<Rightarrow> robots_entry \<Rightarrow> bool" where
  "applies_to agent e =
     list_ex (\<lambda>a. a = ''*'' \<or> contains (str_lower a) (str_lower (before CHR ''/'' agent))) (re_agents e)"

definition allowance :: "string \<Rightarrow> robots_entry \<Rightarrow> bool" where
  "allowance path e =
     (case find (\<lambda>l. rr_path l = ''*'' \<or> has_prefix (rr_path l) path) (re_rules e) of
        None \<Rightarrow> True
      | Some l \<Rightarrow> rr_allow l)"

definition can_fetch :: "robots \<Rightarrow> string \<Rightarrow> string \<Rightarrow> exn + bool" where
  "can_fetch r agent url =
     (case urlparse (unquote url) [] of
        Inl x \<Rightarrow> Inl x
      | Inr u \<Rightarrow>
          let quoted = quote_path (urlunparse (u\<lparr>u_scheme := [], u_netloc := []\<rparr>));
              path = (if quoted = [] then ''/'' else quoted)
          in Inr (case find (applies_to agent) (rb_entries r) of
                    Some e \<Rightarrow> allowance path e
                  | None \<Rightarrow> (case rb_default r of Some e \<Rightarrow> allowance path e | None \<Rightarrow> True)))"

end
