(* ===== verification/Crawler.thy ===== *)
theory Crawler
  imports HttpClient HtmlText Robots Qualification
begin

text \<open>
  The polite crawler of publisher qualification, \<open>integrations/crawler/http_crawler.py\<close>: the phrase
  tables, the signals read off one page, the robots.txt check, the probe of three conventional
  submission paths, and \<open>fetch_site\<close>, which turns every failure into a snapshot.  It works on the
  \<open>net\<close> of the HTTP client.
\<close>

section \<open>The tables\<close>

definition free_phrases :: "string list" where
  "free_phrases =
     [''submit your business'', ''add your business'', ''add your company'', ''submit your site'',
      ''submit a listing'', ''add a listing'', ''free listing'', ''list your business'',
      ''claim your profile'', ''create a free profile'', ''add your product'', ''submit your product'']"

definition paid_phrases :: "string list" where
  "paid_phrases =
     [''paid listing'', ''premium listing'', ''sponsored listing'', ''listing fee'', ''pay to list'',
      ''upgrade to list'', ''purchase a listing'']"

definition spam_phrases :: "(string \<times> string list) list" where
  "spam_phrases =
     [(''paid_links_offered'',
         [''buy backlinks'', ''buy links'', ''paid guest post'', ''sponsored post price'',
          ''link building packages'', ''dofollow link for'', ''guest post service'']),
      (''link_scheme'', [''link exchange'', ''reciprocal link'', ''link wheel'', ''link farm'']),
      (''pbn_footprint'', [''private blog network'', ''pbn network'']),
      (''adult_content'', [''xxx'', ''porn'', ''adult webcam'']),
      (''gambling_content'', [''online casino bonus'', ''betting odds bonus''])]"

definition candidate_paths :: "string list" where
  "candidate_paths =
     [''/submit'', ''/add-listing'', ''/add-business'', ''/submit-site'', ''/add-url'',
      ''/list-your-business'', ''/for-businesses'']"

definition challenge_markers :: "string list" where
  "challenge_markers =
     [''captcha'', ''cf-challenge'', ''checking your browser'', ''verify you are human'',
      ''enable javascript and cookies to continue'']"

definition max_text_chars :: nat where
  "max_text_chars = 200000"

section \<open>Signals of a page\<close>

definition mentions :: "string list \<Rightarrow> string \<Rightarrow> bool" where
  "mentions phrases txt = list_ex (\<lambda>phrase. contains phrase txt) phrases"

definition detect_spam :: "string \<Rightarrow> string list" where
  "detect_spam txt = map fst (filter (\<lambda>(signal, phrases). mentions phrases txt) spam_phrases)"

definition submission_link :: "string \<Rightarrow> bool" where
  "submission_link href =
     mentions [''submit'', ''add-listing'', ''add-business'', ''add-url'', ''list-your''] (str_lower href)"

definition find_submission_path :: "string \<Rightarrow> string \<Rightarrow> string \<Rightarrow> exn + string option" where
  "find_submission_path html base_url txt =
     (case find submission_link (link_hrefs html) of
        Some href \<Rightarrow> (case urljoin base_url href of Inl e \<Rightarrow> Inl e | Inr u \<Rightarrow> Inr (Some u))
      | None \<Rightarrow> Inr (if mentions free_phrases txt then Some base_url else None))"

definition points_off_site :: "string \<Rightarrow> string \<Rightarrow> string \<Rightarrow> exn + bool" where
  "points_off_site host base_url href =
     (case urljoin base_url href of Inl e \<Rightarrow> Inl e | Inr u \<Rightarrow>
      case urlsplit u of Inl e \<Rightarrow> Inl e | Inr parts \<Rightarrow>
      Inr (url_hostname parts \<noteq> [] \<and> str_lower (url_hostname parts) \<noteq> host))"

fun count_links :: "string \<Rightarrow> string \<Rightarrow> int \<Rightarrow> string list \<Rightarrow> exn + int" where
  "count_links host base_url n [] = Inr n"
| "count_links host base_url n (href # hrefs) =
     (case points_off_site host base_url href of
        Inl e \<Rightarrow> Inl e
      | Inr off \<Rightarrow> count_links host base_url (if off then n + 1 else n) hrefs)"

definition count_external_links :: "string \<Rightarrow> string \<Rightarrow> exn + int" where
  "count_external_links html base_url =
     (case urlsplit base_url of
        Inl e \<Rightarrow> Inl e
      | Inr parts \<Rightarrow> count_links (str_lower (url_hostname parts)) base_url 0 (link_hrefs html))"

section \<open>Fetching\<close>

record crawler =
  cw_client :: http_env
  cw_respect_robots :: bool

definition refused_or_down :: "exn \<Rightarrow> bool" where
  "refused_or_down e = (is_app_error e ProviderError \<or> is_app_error e ValidationError)"

definition no_retry :: call_options where
  "no_retry = plain_call\<lparr>co_retries := Some 0\<rparr>"

definition agent_token :: "http_config \<Rightarrow> string" where
  "agent_token c = (let a = before CHR ''/'' (hc_user_agent c) in if a = [] then ''*'' else a)"

definition robots_verdict :: "http_config \<Rightarrow> string \<Rightarrow> string \<Rightarrow> exn + bool" where
  "robots_verdict c txt url =
     (case parse_robots txt of Inl e \<Rightarrow> Inl e | Inr r \<Rightarrow> can_fetch r (agent_token c) url)"

definition robots_allows :: "http_env \<Rightarrow> string \<Rightarrow> bool online" where
  "robots_allows env url =
     ebind (lift_sum (urlsplit url)) (\<lambda>parts.
     ebind (recover
              (ebind (http_get env (u_scheme parts @ ''://'' @ u_netloc parts @ ''/robots.txt'') no_retry)
                 (\<lambda>response. ret (Some response)))
              (\<lambda>e. if refused_or_down e then ret None else raise e)) (\<lambda>answer.
     case answer of
       None \<Rightarrow> ret True
     | Some response \<Rightarrow>
         if \<not> resp_is_success response then ret True
         else lift_sum (robots_verdict (he_config env) (resp_text response) url)))"

definition probe_path :: "http_env \<Rightarrow> string \<Rightarrow> bool online" where
  "probe_path env candidate =
     recover
       (ebind (http_get env candidate no_retry) (\<lambda>response.
          ret (resp_is_success response \<and> mentions free_phrases (visible_text (resp_text response)))))
       (\<lambda>e. if refused_or_down e then ret False else raise e)"

fun probe_paths :: "http_env \<Rightarrow> string \<Rightarrow> string list \<Rightarrow> string option online" where
  "probe_paths env url [] = ret None"
| "probe_paths env url (path # paths) =
     ebind (lift_sum (urljoin url path)) (\<lambda>candidate.
     ebind (probe_path env candidate) (\<lambda>found.
     if found then ret (Some candidate) else probe_paths env url paths))"

definition probe_candidate_paths :: "http_env \<Rightarrow> string \<Rightarrow> string option online" where
  "probe_candidate_paths env url = probe_paths env url (take 3 candidate_paths)"

definition blank_snapshot :: "string \<Rightarrow> site_snapshot" where
  "blank_snapshot url =
     \<lparr>ss_url = url, ss_reachable = False, ss_status_code = None, ss_tls_valid = False, ss_title = None,
      ss_text = [], ss_submission_path = None, ss_outbound_link_count = None, ss_indexable = True,
      ss_spam_signals = [], ss_free_listing_detected = False, ss_paid_listing_detected = False,
      ss_error = None, ss_notes = []\<rparr>"

definition is_https :: "string \<Rightarrow> bool" where
  "is_https url = starts_with ''https://'' (str_lower url)"

definition read_page :: "http_env \<Rightarrow> string \<Rightarrow> http_response \<Rightarrow> site_snapshot online" where
  "read_page env url response =
     (let html = resp_text response; txt = visible_text html in
      ebind (lift_sum (find_submission_path html url txt)) (\<lambda>linked.
      ebind (case linked of None \<Rightarrow> probe_candidate_paths env url | Some p \<Rightarrow> ret (Some p)) (\<lambda>path.
      ebind (lift_sum (count_external_links html url)) (\<lambda>links.
      ret \<lparr>ss_url = url, ss_reachable = True, ss_status_code = Some (resp_status response),
           ss_tls_valid = is_https (resp_url response), ss_title = extract_title html,
           ss_text = take max_text_chars txt, ss_submission_path = path,
           ss_outbound_link_count = Some links, ss_indexable = (\<not> page_noindex html),
           ss_spam_signals = detect_spam txt,
           ss_free_listing_detected = (mentions free_phrases txt \<or> path \<noteq> None),
           ss_paid_listing_detected = (mentions paid_phrases txt \<and> \<not> mentions free_phrases txt),
           ss_error = None, ss_notes = []\<rparr>))))"

definition fetch_page :: "http_env \<Rightarrow> string \<Rightarrow> site_snapshot online" where
  "fetch_page env url =
     ebind (http_get env url (plain_call\<lparr>co_headers := [(''Accept'', ''text/html'')]\<rparr>)) (\<lambda>response.
     let html = resp_text response; txt = visible_text html in
     if \<not> resp_is_success response
     then ret ((blank_snapshot url)\<lparr>ss_status_code := Some (resp_status response), ss_tls_valid := is_https url,
                 ss_error := Some (''http_'' @ show_int (resp_status response))\<rparr>)
     else case find (\<lambda>marker. contains marker txt) challenge_markers of
       Some challenge \<Rightarrow>
         ret ((blank_snapshot url)\<lparr>ss_reachable := True, ss_status_code := Some (resp_status response),
                ss_tls_valid := is_https url, ss_indexable := \<not> page_noindex html,
                ss_error := Some ''bot_challenge_present'',
                ss_notes := [(''challenge_marker'', JStr challenge), (''requires_manual_review'', JBool True)]\<rparr>)
     | None \<Rightarrow> read_page env url response)"

definition crawl :: "crawler \<Rightarrow> string \<Rightarrow> site_snapshot online" where
  "crawl cw url =
     ebind (if cw_respect_robots cw then robots_allows (cw_client cw) url else ret True) (\<lambda>allowed.
     if \<not> allowed
     then ret ((blank_snapshot url)\<lparr>ss_indexable := False, ss_error := Some ''robots_disallowed''\<rparr>)
     else fetch_page (cw_client cw) url)"

definition crawl_failure :: "exn \<Rightarrow> string" where
  "crawl_failure e =
     (if is_app_error e ResponseTooLargeError then ''response_too_large''
      else case e of
        AppExn x \<Rightarrow> if refused_or_down e then str_lower (err_code x) else ''unexpected_error''
      | _ \<Rightarrow> ''unexpected_error'')"

definition fetch_site :: "crawler \<Rightarrow> string \<Rightarrow> site_snapshot online" where
  "fetch_site cw url =
     recover (crawl cw url) (\<lambda>e. ret ((blank_snapshot url)\<lparr>ss_error := Some (crawl_failure e)\<rparr>))"

section \<open>What a crawl sends\<close>

lemma limit_no_retry [simp]: "call_limit c no_retry = Suc (nat (hc_max_redirects c))"
  by (simp add: call_limit_def no_retry_def plain_call_def attempt_budget_def)

lemma sends_robots:
  "sends (he_config env) (Suc (nat (hc_max_redirects (he_config env)))) (robots_allows env url)"
proof -
  have "sends (he_config env) (0 + (Suc (nat (hc_max_redirects (he_config env))) + 0 + 0 + 0)) (robots_allows env url)"
    unfolding robots_allows_def
    by (rule sends_intros | rule sends_get [of env no_retry, simplified])+
  then show ?thesis by simp
qed

lemma sends_probe: "sends (he_config env) (Suc (nat (hc_max_redirects (he_config env)))) (probe_path env p)"
proof -
  have "sends (he_config env) (Suc (nat (hc_max_redirects (he_config env))) + 0 + 0) (probe_path env p)"
    unfolding probe_path_def
    by (rule sends_intros | rule sends_get [of env no_retry, simplified])+
  then show ?thesis by simp
qed

lemma sends_probes:
  "sends (he_config env) (length ps * Suc (nat (hc_max_redirects (he_config env)))) (probe_paths env url ps)"
proof (induction ps)
  case (Cons p ps)
  let ?k = "Suc (nat (hc_max_redirects (he_config env)))"
  have "sends (he_config env) (0 + (?k + length ps * ?k)) (probe_paths env url (p # ps))"
    unfolding probe_paths.simps
    by (rule sends_ebind sends_still sends_if sends_probe Cons.IH)+
  then show ?case by (rule sends_more) simp
qed (simp add: sends_still)

lemma sends_read_page:
  "sends (he_config env) (3 * Suc (nat (hc_max_redirects (he_config env)))) (read_page env url r)"
proof -
  let ?k = "Suc (nat (hc_max_redirects (he_config env)))"
  have three: "length (take 3 candidate_paths) = 3" by (simp add: candidate_paths_def)
  have "sends (he_config env) (0 + (3 * ?k + (0 + 0))) (read_page env url r)"
    unfolding read_page_def Let_def probe_candidate_paths_def
    by (rule sends_ebind sends_still sends_option sends_probes [where ps = "take 3 candidate_paths", unfolded three])+
  then show ?thesis by simp
qed

lemma sends_page:
  "sends (he_config env)
     (call_limit (he_config env) plain_call + 3 * Suc (nat (hc_max_redirects (he_config env)))) (fetch_page env url)"
proof -
  have same: "call_limit c (plain_call\<lparr>co_headers := h\<rparr>) = call_limit c plain_call" for c h
    by (simp add: call_limit_def attempt_budget_def)
  show ?thesis unfolding fetch_page_def Let_def
    by (rule sends_ebind sends_if sends_still sends_option sends_read_page sends_get [of env "plain_call\<lparr>co_headers := h\<rparr>" for h, unfolded same])+
qed

text \<open>The most one crawl may send: the robots file, the page and three probes.\<close>

definition crawl_limit :: "http_config \<Rightarrow> nat" where
  "crawl_limit c = 4 * Suc (nat (hc_max_redirects c)) + call_limit c plain_call"

lemma sends_crawl: "sends (he_config (cw_client cw)) (crawl_limit (he_config (cw_client cw))) (crawl cw url)"
proof -
  let ?c = "he_config (cw_client cw)"
  let ?k = "Suc (nat (hc_max_redirects ?c))"
  have "sends ?c (?k + (call_limit ?c plain_call + 3 * ?k)) (crawl cw url)"
    unfolding crawl_def by (rule sends_ebind sends_if sends_robots sends_still sends_page)+
  then show ?thesis by (rule sends_more) (simp add: crawl_limit_def)
qed

lemma sends_fetch_site:
  "sends (he_config (cw_client cw)) (crawl_limit (he_config (cw_client cw))) (fetch_site cw url)"
proof -
  let ?c = "he_config (cw_client cw)"
  have "sends ?c (crawl_limit ?c + 0) (fetch_site cw url)"
    unfolding fetch_site_def by (rule sends_recover sends_crawl sends_still)+
  then show ?thesis by simp
qed

lemma fetch_site_returns: "\<exists>snap. fst (fetch_site cw url s) = Inr snap"
  by (cases "crawl cw url s"; cases "fst (crawl cw url s)") (simp_all add: fetch_site_def recover_def ret_def)

end
