(* ===== verification/LinkVerifier.thy ===== *)
theory LinkVerifier
  imports HttpClient HtmlText Robots Submissions
begin

text \<open>
  The link verifier of \<open>submissions/verification.py\<close>: one fetch of the published page and a scan of
  its anchors for one whose canonical domain and path are the client's.
\<close>

section \<open>Matching\<close>

definition normalise_path :: "string \<Rightarrow> string" where
  "normalise_path path = str_lower (rev (dropWhile (\<lambda>c. c = CHR ''/'') (rev path)))"

text \<open>\<open>s.split()\<close>, and the tokens of a rel attribute.\<close>

definition split_blank :: "string \<Rightarrow> string list" where
  "split_blank s = filter (\<lambda>w. w \<noteq> []) (split_on CHR '' '' (map (\<lambda>c. if is_blank c then CHR '' '' else c) s))"

definition is_nofollow :: "string option \<Rightarrow> bool" where
  "is_nofollow rel =
     (case rel of
        None \<Rightarrow> False
      | Some r \<Rightarrow>
          list_ex (\<lambda>t. t \<in> {''nofollow'', ''sponsored'', ''ugc''})
            (split_blank (map (\<lambda>c. if c = CHR '','' then CHR '' '' else c) r)))"

text \<open>\<open>None\<close> is an anchor the scan passes by; otherwise the absolute address of the anchor.\<close>

definition anchor_target ::
  "idna \<Rightarrow> string \<Rightarrow> string \<Rightarrow> string \<Rightarrow> anchor \<Rightarrow> exn + string option" where
  "anchor_target idna published wanted_domain wanted_path a =
     (case urljoin published (an_href a) of Inl e \<Rightarrow> Inl e | Inr absolute \<Rightarrow>
      case normalize_domain idna absolute of
        Inl e \<Rightarrow> if is_validation_error e then Inr None else Inl e
      | Inr d \<Rightarrow>
          if d \<noteq> wanted_domain then Inr None
          else if wanted_path = [] then Inr (Some absolute)
          else case urlsplit absolute of Inl e \<Rightarrow> Inl e | Inr parts \<Rightarrow>
               Inr (if normalise_path (u_path parts) \<noteq> wanted_path then None else Some absolute))"

fun scan_anchors ::
  "idna \<Rightarrow> string \<Rightarrow> string \<Rightarrow> string \<Rightarrow> anchor list \<Rightarrow> exn + (anchor \<times> string) option" where
  "scan_anchors idna published d p [] = Inr None"
| "scan_anchors idna published d p (a # as) =
     (case anchor_target idna published d p a of
        Inl e \<Rightarrow> Inl e
      | Inr (Some absolute) \<Rightarrow> Inr (Some (a, absolute))
      | Inr None \<Rightarrow> scan_anchors idna published d p as)"

section \<open>Verification\<close>

definition unverified :: "string \<Rightarrow> verification_result" where
  "unverified url =
     \<lparr>vr_verified = False, vr_checked_url = url, vr_page_reachable = False, vr_http_status = None,
      vr_found_href = None, vr_anchor_text = None, vr_rel = None, vr_is_dofollow = None,
      vr_error = None, vr_evidence = []\<rparr>"

definition declared_rel :: "anchor \<Rightarrow> string option" where
  "declared_rel a =
     (case (case rel_of (an_before a) of None \<Rightarrow> rel_of (an_after a) | r \<Rightarrow> r) of
        None \<Rightarrow> None
      | Some r \<Rightarrow> Some (str_strip (str_lower r)))"

definition found_link :: "string \<Rightarrow> int \<Rightarrow> nat \<Rightarrow> anchor \<Rightarrow> string \<Rightarrow> verification_result" where
  "found_link published code scanned a absolute =
     (let rel = declared_rel a;
          anchor_text = take 255 (str_strip (rx_sub markup_re [] None (an_inner a)))
      in \<lparr>vr_verified = True, vr_checked_url = published, vr_page_reachable = True,
          vr_http_status = Some code, vr_found_href = Some (take 2048 absolute),
          vr_anchor_text = (if anchor_text = [] then None else Some anchor_text),
          vr_rel = rel, vr_is_dofollow = Some (\<not> is_nofollow rel),
          vr_error = None, vr_evidence = [(''anchors_scanned'', JInt (int scanned))]\<rparr>)"

definition link_missing :: "string \<Rightarrow> int \<Rightarrow> nat \<Rightarrow> verification_result" where
  "link_missing published code scanned =
     (unverified published)\<lparr>vr_page_reachable := True, vr_http_status := Some code,
        vr_error := Some ''link_not_found'', vr_evidence := [(''anchors_scanned'', JInt (int scanned))]\<rparr>"

definition inspect_page :: "idna \<Rightarrow> string \<Rightarrow> string \<Rightarrow> http_response \<Rightarrow> exn + verification_result" where
  "inspect_page idna published target response =
     (if \<not> resp_is_success response
      then Inr ((unverified published)\<lparr>vr_http_status := Some (resp_status response),
                  vr_error := Some (''http_'' @ show_int (resp_status response))\<rparr>)
      else case normalize_domain idna target of
        Inl e \<Rightarrow> if is_validation_error e
                then Inr ((unverified published)\<lparr>vr_error := Some ''invalid_target_url''\<rparr>) else Inl e
      | Inr wanted_domain \<Rightarrow>
          (case urlsplit target of Inl e \<Rightarrow> Inl e | Inr parts \<Rightarrow>
           let anchors = page_anchors (resp_text response) in
           case scan_anchors idna published wanted_domain (normalise_path (u_path parts)) anchors of
             Inl e \<Rightarrow> Inl e
           | Inr (Some (a, absolute)) \<Rightarrow>
               Inr (found_link published (resp_status response) (length anchors) a absolute)
           | Inr None \<Rightarrow> Inr (link_missing published (resp_status response) (length anchors))))"

definition fetch_failure :: "string \<Rightarrow> exn \<Rightarrow> (http_response + verification_result) online" where
  "fetch_failure published e =
     (case e of
        AppExn x \<Rightarrow>
          if is_app_error e ProviderError \<or> is_app_error e ValidationError
          then ret (Inr ((unverified published)\<lparr>vr_error := Some (str_lower (err_code x))\<rparr>)) else raise e
      | _ \<Rightarrow> raise e)"

definition verify_link :: "http_env \<Rightarrow> idna \<Rightarrow> string \<Rightarrow> string \<Rightarrow> verification_result online" where
  "verify_link env idna published target =
     ebind (recover
         (ebind (http_get env published (plain_call\<lparr>co_headers := [(''Accept'', ''text/html'')]\<rparr>))
            (\<lambda>response. ret (Inl response)))
         (fetch_failure published)) (\<lambda>answer.
     case answer of
       Inl response \<Rightarrow> lift_sum (inspect_page idna published target response)
     | Inr failed \<Rightarrow> ret failed)"

section \<open>What a verdict rests on\<close>

text \<open>An anchor leads to the client when its absolute address has the wanted domain and, where a path is
  wanted, the wanted path.\<close>

definition leads_to :: "idna \<Rightarrow> string \<Rightarrow> string \<Rightarrow> string \<Rightarrow> anchor \<Rightarrow> bool" where
  "leads_to idna published d p a =
     (case urljoin published (an_href a) of
        Inl _ \<Rightarrow> False
      | Inr absolute \<Rightarrow>
          normalize_domain idna absolute = Inr d
          \<and> (p = [] \<or> (case urlsplit absolute of Inl _ \<Rightarrow> False | Inr u \<Rightarrow> normalise_path (u_path u) = p)))"

lemma anchor_target_leads:
  "anchor_target idna published d p a = Inr r \<Longrightarrow> r \<noteq> None \<longleftrightarrow> leads_to idna published d p a"
  by (auto simp: anchor_target_def leads_to_def split: sum.splits if_splits)

lemma scan_finds:
  "scan_anchors idna published d p as = Inr r \<Longrightarrow>
   (case r of None \<Rightarrow> list_all (\<lambda>a. \<not> leads_to idna published d p a) as
    | Some (a, u) \<Rightarrow> a \<in> set as \<and> leads_to idna published d p a \<and> urljoin published (an_href a) = Inr u)"
proof (induction as)
  case (Cons b as)
  show ?case
  proof (cases "anchor_target idna published d p b")
    case (Inr t)
    note leads = anchor_target_leads [OF Inr]
    show ?thesis
    proof (cases t)
      case None
      then show ?thesis using Cons Inr leads by (auto split: option.splits)
    next
      case (Some u)
      then have "urljoin published (an_href b) = Inr u"
        using Inr by (auto simp: anchor_target_def split: sum.splits if_splits)
      then show ?thesis using Cons.prems Inr Some leads by auto
    qed
  qed (use Cons.prems in simp)
qed simp

end
