(* ===== verification/NetProperties.thy ===== *)
theory NetProperties
  imports Crawler LinkVerifier
begin

text \<open>
  Properties of the outbound side: the HTTP client, the crawler and the link verifier.
\<close>

section \<open>A web to run them on\<close>

definition barred_form :: string where
  "barred_form = ''User-agent: *'' @ [CHR 0x0A] @ ''Disallow: /submit''"

definition page_answer :: "string \<Rightarrow> int \<Rightarrow> string \<Rightarrow> send_result" where
  "page_answer url code body =
     Sent \<lparr>rw_status = code, rw_url = url, rw_headers = [], rw_chunks = [body], rw_end = BodyDone\<rparr>"

text \<open>A small directory that bars crawlers from its submission form.\<close>

definition demo_web :: "http_request list \<Rightarrow> http_request \<Rightarrow> send_result" where
  "demo_web sent rq =
     (if hr_url rq = ''https://d.example/robots.txt''
      then page_answer (hr_url rq) 200 barred_form
      else if hr_url rq = ''https://d.example/'' then page_answer (hr_url rq) 200 ''<p>Hi</p>''
      else if hr_url rq = ''https://d.example/old''
      then Sent \<lparr>rw_status = 302, rw_url = hr_url rq, rw_headers = [(''Location'', ''https://e.example/'')],
                 rw_chunks = [], rw_end = BodyDone\<rparr>
      else if hr_url rq = ''https://d.example/listing''
      then page_answer (hr_url rq) 200 (''<a class=c href='' @ [CHR 0x22] @ ''https://www.shop.example/'' @ [CHR 0x22]
             @ '' rel='' @ [CHR 0x22] @ ''nofollow'' @ [CHR 0x22] @ ''>Shop</a>'')
      else page_answer (hr_url rq) 404 [])"

definition demo_http :: http_env where
  "demo_http = \<lparr>he_config = default_http_config, he_send = demo_web, he_join = urljoin, he_random = (\<lambda>_. 0)\<rparr>"

definition quiet :: net where
  "quiet = \<lparr>nt_log = [], nt_slept = []\<rparr>"

section \<open>Calls\<close>

text \<open>A request to a public web address.\<close>

definition public_request :: "http_request \<Rightarrow> bool" where
  "public_request rq =
     (case urlsplit (hr_url rq) of
        Inl _ \<Rightarrow> False
      | Inr u \<Rightarrow> u_scheme u \<in> {''http'', ''https''} \<and> is_public_host (url_hostname u))"

lemma guarded_is_public:
  "hc_enforce_public_hosts c \<Longrightarrow> assert_safe_url c (hr_url rq) = Inr () \<Longrightarrow> public_request rq"
  by (auto simp: assert_safe_url_def public_request_def Let_def split: sum.splits if_splits)

text \<open>C24: With the guard on, a call sends at most (redirects + 1) * (retries + 1) requests whatever the
  servers answer, every one of them, redirects included, to a public http(s) host, and a returned body
  is within the size cap.\<close>

theorem calls_stay_public_and_bounded:
  assumes "hc_enforce_public_hosts (he_config env)"
    and "http_call env verb url opts s = (r, t)"
  shows "\<exists>new. nt_log t = nt_log s @ new \<and> list_all public_request new
      \<and> length new \<le> Suc (nat (hc_max_redirects (he_config env))) * nat (attempt_budget (he_config env) opts + 1)
      \<and> (\<forall>x. r = Inr x \<longrightarrow> int (length (resp_text x)) \<le> max 0 (size_cap (he_config env) opts))"
proof -
  have "dispatched (he_config env) (call_limit (he_config env) opts) s t"
    using sends_call [of env opts verb url] assms(2) by (metis sends_def snd_conv)
  then obtain new where new: "nt_log t = nt_log s @ new" "length new \<le> call_limit (he_config env) opts"
    "list_all (\<lambda>r. assert_safe_url (he_config env) (hr_url r) = Inr ()) new"
    unfolding dispatched_def by blast
  have "list_all public_request new"
    using new(3) guarded_is_public [OF assms(1)] by (simp add: list_all_iff)
  moreover have "\<forall>x. r = Inr x \<longrightarrow> int (length (resp_text x)) \<le> max 0 (size_cap (he_config env) opts)"
    using call_bounded [of env verb url opts s _ t] assms(2) by simp
  ultimately show ?thesis using new(1,2) unfolding call_limit_def by (intro exI [of _ new] conjI)
qed

text \<open>The guard reads the host as text: spellings of the loopback and the metadata address that a
  resolver accepts and \<open>ipaddress\<close> does not are let through, and so is any name that resolves to one.\<close>

theorem numeric_hosts_pass_the_guard:
  "assert_safe_url default_http_config ''http://127.0.0.1/'' \<noteq> Inr ()
   \<and> assert_safe_url default_http_config ''http://127.1/'' = Inr ()
   \<and> assert_safe_url default_http_config ''http://2130706433/'' = Inr ()
   \<and> assert_safe_url default_http_config ''http://0xa9fea9fe/'' = Inr ()"
  by code_simp

text \<open>A redirect is followed with the headers and parameters of the original request, whatever host
  it leads to: an API key or bearer token in a header, or a key in a query parameter, is sent to the
  host the first server names.\<close>

theorem redirect_carries_credentials:
  assumes "assert_safe_url (he_config env) url = Inr ()"
    and "he_send env (nt_log s) \<lparr>hr_method = m, hr_url = url, hr_headers = co_headers opts,
           hr_params = co_params opts, hr_json = co_json opts, hr_content = co_content opts\<rparr> = Sent raw"
    and "receive url (size_cap (he_config env) opts) raw = Inr r"
    and "resp_status r \<in> {301, 302, 303, 307, 308}" and "hc_follow_redirects (he_config env)"
    and "map_of (resp_headers r) ''location'' = Some loc" and "loc \<noteq> []"
    and "he_join env url loc = Inr target" and "assert_safe_url (he_config env) target = Inr ()"
    and "0 < hc_max_redirects (he_config env)" and "0 \<le> attempt_budget (he_config env) opts"
  shows "\<exists>rq more. nt_log (snd (http_call env m url opts s)) = nt_log s
            @ [\<lparr>hr_method = m, hr_url = url, hr_headers = co_headers opts, hr_params = co_params opts,
                hr_json = co_json opts, hr_content = co_content opts\<rparr>, rq] @ more
          \<and> hr_url rq = target \<and> hr_headers rq = co_headers opts \<and> hr_params rq = co_params opts"
proof -
  let ?rq = "\<lparr>hr_method = m, hr_url = url, hr_headers = co_headers opts, hr_params = co_params opts,
              hr_json = co_json opts, hr_content = co_content opts\<rparr>"
  let ?next = "redirected (resp_status r) target ?rq"
  let ?c = "he_config env" and ?cap = "size_cap (he_config env) opts" and ?b = "attempt_budget (he_config env) opts"
  let ?t = "s\<lparr>nt_log := nt_log s @ [?rq]\<rparr>"
  obtain l where l: "nat (hc_max_redirects ?c) = Suc l" using assms(10) by (cases "nat (hc_max_redirects ?c)") auto
  obtain n where n: "nat (?b + 1) = Suc n" using assms(11) by (cases "nat (?b + 1)") auto
  have sent: "send_once env ?cap ?rq s = (Inr r, ?t)"
    using assms(2,3) by (simp add: send_once_def transmit_def ebind_def lift_sum_def ret_def)
  have code: "resp_status r \<notin> set retry_status_codes" "300 \<le> resp_status r" "resp_status r < 400"
    using assms(4) by (auto simp: retry_status_codes_def)
  have wants: "wants_redirect ?c r = Some loc"
    using code assms(5-7) by (simp add: wants_redirect_def)
  have at: "attempts env ?cap ?rq follow 0 (Suc n) s = follow (resp_status r) loc ?t" for follow
    by (simp add: sent code wants)
  have "http_call env m url opts s = visit env ?cap ?b l ?next ?t"
    unfolding http_call_def Let_def l visit.simps n ethen_def ebind_def
    by (simp only: http_request.simps assms(1,8) lift_sum_def ret_def sum.case prod.case at)
  moreover have "assert_safe_url ?c (hr_url ?next) = Inr ()"
    using assms(9) by (simp add: redirected_def)
  then have "begins ?next ?t (snd (visit env ?cap ?b l ?next ?t))"
    by (rule wp_snd [OF visit_begins]) (rule assms(11))
  ultimately obtain more where "nt_log (snd (http_call env m url opts s)) = nt_log ?t @ ?next # more"
    by (auto simp: begins_def)
  then show ?thesis by (intro exI [of _ ?next] exI [of _ more]) (simp add: redirected_def)
qed

lemma redirect_carries_credentials_witness:
  "\<exists>rq more. nt_log (snd (http_call demo_http ''GET'' ''https://d.example/old''
        (plain_call\<lparr>co_headers := [(''x-api-key'', ''k'')]\<rparr>) quiet))
     = nt_log quiet @ [\<lparr>hr_method = ''GET'', hr_url = ''https://d.example/old'', hr_headers = [(''x-api-key'', ''k'')],
           hr_params = [], hr_json = None, hr_content = None\<rparr>, rq] @ more
     \<and> hr_url rq = ''https://e.example/'' \<and> hr_headers rq = [(''x-api-key'', ''k'')] \<and> hr_params rq = []"
proof -
  let ?o = "plain_call\<lparr>co_headers := [(''x-api-key'', ''k'')]\<rparr>"
  let ?raw = "\<lparr>rw_status = 302, rw_url = ''https://d.example/old'', rw_headers = [(''Location'', ''https://e.example/'')],
                 rw_chunks = [], rw_end = BodyDone\<rparr>"
  let ?r = "\<lparr>resp_status = 302, resp_url = ''https://d.example/old'',
              resp_headers = [(''location'', ''https://e.example/'')], resp_text = []\<rparr>"
  have safe: "assert_safe_url (he_config demo_http) ''https://d.example/old'' = Inr ()"
    "assert_safe_url (he_config demo_http) ''https://e.example/'' = Inr ()" by code_simp+
  have sent: "he_send demo_http (nt_log quiet) \<lparr>hr_method = ''GET'', hr_url = ''https://d.example/old'',
     hr_headers = co_headers ?o, hr_params = co_params ?o, hr_json = co_json ?o, hr_content = co_content ?o\<rparr> = Sent ?raw"
    by code_simp
  have got: "receive ''https://d.example/old'' (size_cap (he_config demo_http) ?o) ?raw = Inr ?r" by code_simp
  have joined: "he_join demo_http ''https://d.example/old'' ''https://e.example/'' = Inr ''https://e.example/''" by code_simp
  show ?thesis
    using redirect_carries_credentials [OF safe(1) sent got _ _ _ _ joined safe(2)]
    by (simp add: demo_http_def default_http_config_def plain_call_def attempt_budget_def)
qed

lemma calls_stay_public_and_bounded_witness:
  "\<exists>new. nt_log (snd (http_call demo_http ''GET'' ''https://d.example/old'' plain_call quiet)) = nt_log quiet @ new
     \<and> list_all public_request new"
proof -
  have guarded: "hc_enforce_public_hosts (he_config demo_http)" by (simp add: demo_http_def default_http_config_def)
  show ?thesis
    using calls_stay_public_and_bounded [OF guarded, of "''GET''" "''https://d.example/old''" plain_call quiet] by (metis prod.collapse)
qed

section \<open>Crawling\<close>

text \<open>C25: Whatever the site does, a crawl returns a snapshot and never raises, and it sends a bounded
  number of requests, every one of them to a public http(s) host: the robots file, the page and at
  most three probes, each with its redirects and only the page with retries.\<close>

theorem crawl_never_raises_and_ends:
  assumes "hc_enforce_public_hosts (he_config (cw_client cw))"
  shows "\<exists>snap new. fst (fetch_site cw url s) = Inr snap \<and> nt_log (snd (fetch_site cw url s)) = nt_log s @ new
      \<and> list_all public_request new
      \<and> length new \<le> Suc (nat (hc_max_redirects (he_config (cw_client cw))))
                       * (4 + nat (hc_max_retries (he_config (cw_client cw)) + 1))"
proof -
  let ?c = "he_config (cw_client cw)"
  obtain snap where snap: "fst (fetch_site cw url s) = Inr snap" using fetch_site_returns by blast
  obtain new where new: "nt_log (snd (fetch_site cw url s)) = nt_log s @ new" "length new \<le> crawl_limit ?c"
    "list_all (\<lambda>r. assert_safe_url ?c (hr_url r) = Inr ()) new"
    using sends_fetch_site [of cw url] unfolding sends_def dispatched_def by blast
  have "list_all public_request new"
    using new(3) guarded_is_public [OF assms] by (simp add: list_all_iff)
  moreover have "crawl_limit ?c = Suc (nat (hc_max_redirects ?c)) * (4 + nat (hc_max_retries ?c + 1))"
    by (simp add: crawl_limit_def call_limit_def attempt_budget_def plain_call_def algebra_simps)
  ultimately show ?thesis using snap new(1,2) by (intro exI [of _ snap] exI [of _ new] conjI) simp_all
qed

definition demo_crawler :: crawler where
  "demo_crawler = \<lparr>cw_client = demo_http, cw_respect_robots = True\<rparr>"

lemma crawl_never_raises_and_ends_witness:
  "\<exists>snap new. fst (fetch_site demo_crawler ''https://d.example/'' quiet) = Inr snap
     \<and> nt_log (snd (fetch_site demo_crawler ''https://d.example/'' quiet)) = nt_log quiet @ new
     \<and> list_all public_request new \<and> length new \<le> 42"
proof -
  have guarded: "hc_enforce_public_hosts (he_config (cw_client demo_crawler))"
    by (simp add: demo_crawler_def demo_http_def default_http_config_def)
  show ?thesis
    using crawl_never_raises_and_ends [OF guarded, of "''https://d.example/''" quiet]
    by (simp add: demo_crawler_def demo_http_def default_http_config_def)
qed

lemma demo_page:
  assumes "assert_safe_url default_http_config url = Inr ()" "demo_web (nt_log s) (request_of ''GET'' url opts) = page_answer url c b"
    and "c \<notin> set retry_status_codes" "c < 300 \<or> 400 \<le> c" "int (length b) \<le> 5242880"
    and "co_retries opts \<in> {None, Some 0}" "co_max_response_bytes opts = None"
  shows "http_get demo_http url opts s =
     (Inr \<lparr>resp_status = c, resp_url = url, resp_headers = [], resp_text = b\<rparr>,
      s\<lparr>nt_log := nt_log s @ [request_of ''GET'' url opts]\<rparr>)"
  unfolding http_get_def
  by (rule call_answered)
    (use assms in \<open>auto simp: demo_http_def default_http_config_def attempt_budget_def size_cap_def page_answer_def
      receive_def declared_length_def header_of_def wants_redirect_def\<close>)

lemma demo_urls:
  "assert_safe_url default_http_config ''https://d.example/'' = Inr ()"
  "assert_safe_url default_http_config ''https://d.example/robots.txt'' = Inr ()"
  "assert_safe_url default_http_config ''https://d.example/submit'' = Inr ()"
  "assert_safe_url default_http_config ''https://d.example/add-listing'' = Inr ()"
  "assert_safe_url default_http_config ''https://d.example/add-business'' = Inr ()"
  "urlsplit ''https://d.example/'' = Inr \<lparr>u_scheme = ''https'', u_netloc = ''d.example'', u_path = ''/'', u_query = [], u_fragment = []\<rparr>"
  "urljoin ''https://d.example/'' ''/submit'' = Inr ''https://d.example/submit''"
  "urljoin ''https://d.example/'' ''/add-listing'' = Inr ''https://d.example/add-listing''"
  "urljoin ''https://d.example/'' ''/add-business'' = Inr ''https://d.example/add-business''"
  by code_simp+

lemma demo_signals:
  "robots_verdict default_http_config barred_form ''https://d.example/'' = Inr True"
  "visible_text ''<p>Hi</p>'' = ''hi''"
  "find_submission_path ''<p>Hi</p>'' ''https://d.example/'' ''hi'' = Inr None"
  "find (\<lambda>marker. contains marker ''hi'') challenge_markers = None"
  "count_external_links ''<p>Hi</p>'' ''https://d.example/'' = Inr 0"
  by code_simp+

lemma demo_robots:
  "\<exists>t. robots_allows demo_http ''https://d.example/'' s = (Inr True, t)"
  using demo_page [of "''https://d.example/robots.txt''" s no_retry 200 barred_form]
    arg_cong [OF barred_form_def, of length]
  by (simp add: robots_allows_def demo_urls demo_signals recover_def ebind_def lift_sum_def ret_def demo_web_def
      request_of_def no_retry_def plain_call_def retry_status_codes_def resp_is_success_def demo_http_def)

lemma demo_probe:
  "\<exists>t. probe_candidate_paths demo_http ''https://d.example/'' s = (Inr None, t)
     \<and> list_ex (\<lambda>rq. hr_url rq = ''https://d.example/submit'') (nt_log t)"
proof -
  have miss: "probe_path demo_http u s = (Inr False, s\<lparr>nt_log := nt_log s @ [request_of ''GET'' u no_retry]\<rparr>)"
    if "u \<in> {''https://d.example/submit'', ''https://d.example/add-listing'', ''https://d.example/add-business''}" for u s
    using demo_page [of u s no_retry 404 "[]"] that
    by (auto simp: probe_path_def recover_def ebind_def ret_def demo_urls demo_web_def request_of_def no_retry_def
        plain_call_def retry_status_codes_def resp_is_success_def)
  show ?thesis
    by (simp add: probe_candidate_paths_def candidate_paths_def demo_urls miss ebind_def lift_sum_def ret_def request_of_def)
qed

text \<open>A path the site's robots.txt disallows is fetched all the same: the crawler asks the robots file
  about the page only, and its probes of conventional submission paths go out unchecked.\<close>

theorem probe_ignores_robots:
  "robots_verdict default_http_config barred_form ''https://d.example/submit''
     = Inr False
   \<and> list_ex (\<lambda>rq. hr_url rq = ''https://d.example/submit'')
       (nt_log (snd (fetch_site demo_crawler ''https://d.example/'' quiet)))"
proof
  show "robots_verdict default_http_config barred_form
      ''https://d.example/submit'' = Inr False" by code_simp
  obtain t where t: "robots_allows demo_http ''https://d.example/'' quiet = (Inr True, t)"
    using demo_robots by blast
  let ?o = "plain_call\<lparr>co_headers := [(''Accept'', ''text/html'')]\<rparr>"
  let ?u = "t\<lparr>nt_log := nt_log t @ [request_of ''GET'' ''https://d.example/'' ?o]\<rparr>"
  have page: "http_get demo_http ''https://d.example/'' ?o t
     = (Inr \<lparr>resp_status = 200, resp_url = ''https://d.example/'', resp_headers = [], resp_text = ''<p>Hi</p>''\<rparr>, ?u)"
    by (rule demo_page) (simp_all add: demo_urls demo_web_def request_of_def plain_call_def retry_status_codes_def)
  obtain p where p: "probe_candidate_paths demo_http ''https://d.example/'' ?u = (Inr None, p)"
    "list_ex (\<lambda>rq. hr_url rq = ''https://d.example/submit'') (nt_log p)"
    using demo_probe by blast
  have "snd (fetch_site demo_crawler ''https://d.example/'' quiet) = p"
    by (simp add: fetch_site_def crawl_def demo_crawler_def fetch_page_def read_page_def recover_def ebind_def Let_def
        t page p demo_signals resp_is_success_def lift_sum_def ret_def del: contains.simps)
  then show "list_ex (\<lambda>rq. hr_url rq = ''https://d.example/submit'')
       (nt_log (snd (fetch_site demo_crawler ''https://d.example/'' quiet)))"
    using p(2) by simp
qed

section \<open>Verifying links\<close>

text \<open>C26: When a verification comes back, it says verified exactly when the page was fetched with a success
  status and one of its anchors leads to the client: the anchor's absolute address has the canonical
  domain of the target and, if the target names a path, that path.\<close>

theorem verified_link_is_there:
  assumes "verify_link env idna published target s = (Inr v, t)"
  shows "vr_verified v \<longleftrightarrow>
     (\<exists>resp d u a. fst (http_get env published (plain_call\<lparr>co_headers := [(''Accept'', ''text/html'')]\<rparr>) s) = Inr resp
        \<and> resp_is_success resp \<and> normalize_domain idna target = Inr d \<and> urlsplit target = Inr u
        \<and> a \<in> set (page_anchors (resp_text resp)) \<and> leads_to idna published d (normalise_path (u_path u)) a)"
proof -
  obtain r q where r: "http_get env published (plain_call\<lparr>co_headers := [(''Accept'', ''text/html'')]\<rparr>) s = (r, q)"
    by fastforce
  show ?thesis
  proof (cases r)
    case (Inl e)
    then have "\<not> vr_verified v"
      using assms r by (auto simp: verify_link_def recover_def ebind_def fetch_failure_def ret_def raise_def
          unverified_def split: exn.splits if_splits)
    then show ?thesis using r Inl by simp
  next
    case (Inr resp)
    then have v: "inspect_page idna published target resp = Inr v"
      using assms r by (auto simp: verify_link_def recover_def ebind_def ret_def raise_def lift_sum_def split: sum.splits)
    show ?thesis
    proof (cases "\<exists>d u. resp_is_success resp \<and> normalize_domain idna target = Inr d \<and> urlsplit target = Inr u")
      case False
      then have "\<not> vr_verified v"
        using v by (auto simp: inspect_page_def unverified_def split: sum.splits if_splits)
      then show ?thesis using r Inr False by auto
    next
      case True
      then obtain d u where d: "resp_is_success resp" "normalize_domain idna target = Inr d" "urlsplit target = Inr u"
        by blast
      let ?as = "page_anchors (resp_text resp)"
      obtain f where f: "scan_anchors idna published d (normalise_path (u_path u)) ?as = Inr f"
        using v d by (auto simp: inspect_page_def Let_def split: sum.splits)
      note scan = scan_finds [OF f]
      show ?thesis
      proof (cases f)
        case None
        then have "\<not> vr_verified v" using v d f by (auto simp: inspect_page_def Let_def link_missing_def unverified_def)
        moreover have "list_all (\<lambda>a. \<not> leads_to idna published d (normalise_path (u_path u)) a) ?as"
          using scan None by simp
        ultimately show ?thesis using r Inr d by (auto simp: list_all_iff)
      next
        case (Some p)
        obtain a x where p: "p = (a, x)" by fastforce
        have "v = found_link published (resp_status resp) (length ?as) a x"
          using v d f Some p by (auto simp: inspect_page_def Let_def)
        then have "vr_verified v" "vr_found_href v = Some (take 2048 x)" by (simp_all add: found_link_def Let_def)
        then show ?thesis using r Inr d scan Some p by auto
      qed
    qed
  qed
qed

definition shop_page :: string where
  "shop_page = ''<a class=c href='' @ [CHR 0x22] @ ''//www.shop.example/'' @ [CHR 0x22] @ ''>Shop</a>''"

definition broken_page :: string where
  "broken_page = ''<a class=c href='' @ [CHR 0x22] @ ''//[x'' @ [CHR 0x22] @ ''>x</a>'' @ shop_page"

definition one_page :: "string \<Rightarrow> http_env" where
  "one_page body = demo_http\<lparr>he_send := (\<lambda>_ rq. page_answer (hr_url rq) 200 body)\<rparr>"

lemma one_page_get:
  assumes "length body \<le> 1000"
  shows "http_get (one_page body) ''https://d.example/'' (plain_call\<lparr>co_headers := [(''Accept'', ''text/html'')]\<rparr>) quiet
     = (Inr \<lparr>resp_status = 200, resp_url = ''https://d.example/'', resp_headers = [], resp_text = body\<rparr>,
        quiet\<lparr>nt_log := nt_log quiet
          @ [request_of ''GET'' ''https://d.example/'' (plain_call\<lparr>co_headers := [(''Accept'', ''text/html'')]\<rparr>)]\<rparr>)"
  unfolding http_get_def
  by (rule call_answered)
    (use assms demo_urls(1) in \<open>auto simp: one_page_def demo_http_def default_http_config_def attempt_budget_def size_cap_def
      page_answer_def receive_def declared_length_def header_of_def wants_redirect_def plain_call_def request_of_def
      retry_status_codes_def\<close>)

lemma page_lengths: "length shop_page \<le> 1000" "length broken_page \<le> 1000"
  by (simp_all add: shop_page_def broken_page_def)

lemma shop_verdict:
  "map_sum (\<lambda>e. e) vr_verified (inspect_page (\<lambda>_. None) ''https://d.example/'' ''https://shop.example/''
     \<lparr>resp_status = 200, resp_url = ''https://d.example/'', resp_headers = [], resp_text = shop_page\<rparr>) = Inr True"
  "inspect_page (\<lambda>_. None) ''https://d.example/'' ''https://shop.example/''
     \<lparr>resp_status = 200, resp_url = ''https://d.example/'', resp_headers = [], resp_text = broken_page\<rparr>
   = Inl (ValueExn ''Invalid IPv6 URL'')"
  by code_simp+

lemma shop_returns:
  "\<exists>v. inspect_page (\<lambda>_. None) ''https://d.example/'' ''https://shop.example/''
     \<lparr>resp_status = 200, resp_url = ''https://d.example/'', resp_headers = [], resp_text = shop_page\<rparr> = Inr v \<and> vr_verified v"
proof -
  have "\<exists>v. x = Inr v \<and> vr_verified v" if "map_sum (\<lambda>e. e) vr_verified x = Inr True" for x :: "exn + verification_result"
    using that by (cases x) simp_all
  then show ?thesis using shop_verdict(1) by blast
qed

lemma verified_link_is_there_witness:
  "\<exists>resp d u a. fst (http_get (one_page shop_page) ''https://d.example/'' (plain_call\<lparr>co_headers := [(''Accept'', ''text/html'')]\<rparr>) quiet) = Inr resp
     \<and> resp_is_success resp \<and> normalize_domain (\<lambda>_. None) ''https://shop.example/'' = Inr d
     \<and> urlsplit ''https://shop.example/'' = Inr u \<and> a \<in> set (page_anchors (resp_text resp))
     \<and> leads_to (\<lambda>_. None) ''https://d.example/'' d (normalise_path (u_path u)) a"
proof -
  obtain v where v: "inspect_page (\<lambda>_. None) ''https://d.example/'' ''https://shop.example/''
     \<lparr>resp_status = 200, resp_url = ''https://d.example/'', resp_headers = [], resp_text = shop_page\<rparr> = Inr v" "vr_verified v"
    using shop_returns by blast
  have "\<exists>t. verify_link (one_page shop_page) (\<lambda>_. None) ''https://d.example/'' ''https://shop.example/'' quiet = (Inr v, t)"
    using v(1) by (simp add: verify_link_def recover_def ebind_def ret_def one_page_get page_lengths lift_sum_def)
  then obtain t where t: "verify_link (one_page shop_page) (\<lambda>_. None) ''https://d.example/'' ''https://shop.example/'' quiet = (Inr v, t)"
    by blast
  show ?thesis by (rule verified_link_is_there [OF t, THEN iffD1]) (rule v(2))
qed

text \<open>One malformed address on the page, here \<open>//[x\<close>, and the verifier raises a ValueError although its
  contract is not to raise; the client's link behind it is not seen.\<close>

theorem malformed_anchor_breaks_verification:
  "fst (verify_link (one_page broken_page) (\<lambda>_. None) ''https://d.example/'' ''https://shop.example/'' quiet)
     = Inl (ValueExn ''Invalid IPv6 URL'')
   \<and> (\<exists>v. fst (verify_link (one_page shop_page) (\<lambda>_. None) ''https://d.example/'' ''https://shop.example/'' quiet) = Inr v
          \<and> vr_verified v)"
proof
  show "fst (verify_link (one_page broken_page) (\<lambda>_. None) ''https://d.example/'' ''https://shop.example/'' quiet)
     = Inl (ValueExn ''Invalid IPv6 URL'')"
    by (simp add: verify_link_def recover_def ebind_def ret_def one_page_get page_lengths lift_sum_def raise_def shop_verdict)
  obtain v where v: "inspect_page (\<lambda>_. None) ''https://d.example/'' ''https://shop.example/''
     \<lparr>resp_status = 200, resp_url = ''https://d.example/'', resp_headers = [], resp_text = shop_page\<rparr> = Inr v" "vr_verified v"
    using shop_returns by blast
  then show "\<exists>v. fst (verify_link (one_page shop_page) (\<lambda>_. None) ''https://d.example/'' ''https://shop.example/'' quiet) = Inr v
      \<and> vr_verified v"
    by (simp add: verify_link_def recover_def ebind_def ret_def one_page_get page_lengths lift_sum_def)
qed

end
