(* ===== verification/Ids.thy ===== *)
theory Ids
  imports Errors "HOL-Library.Word"
begin

unbundle bit_operations_syntax

text \<open>
  Identifier generation, \<open>core/ids.py\<close>: the monotonic source behind UUIDv7 keys, the layout of the 128
  bits, and their text.  The clock and the operating system's random bytes are arguments of each call.
  The lemmas show that the identifiers of one process strictly increase whatever its clock does.
\<close>

section \<open>The source\<close>

definition version_7 :: int where
  "version_7 = 0x7000"

definition variant_rfc4122 :: int where
  "variant_rfc4122 = 0x8000"

definition counter_max :: int where
  "counter_max = 4095"

definition counter_seed_bits :: nat where
  "counter_seed_bits = 10"

record id_source =
  is_last_ms :: int
  is_counter :: int

definition fresh_source :: id_source where
  "fresh_source = \<lparr>is_last_ms = - 1, is_counter = 0\<rparr>"

definition counter_seed :: "int \<Rightarrow> int" where
  "counter_seed two_bytes = drop_bit (16 - counter_seed_bits) two_bytes"

definition next_monotonic :: "int \<Rightarrow> int \<Rightarrow> id_source \<Rightarrow> (int \<times> int) \<times> id_source" where
  "next_monotonic clock two_bytes s =
     (let t = (if clock > is_last_ms s
               then \<lparr>is_last_ms = clock, is_counter = counter_seed two_bytes\<rparr>
               else if is_counter s \<ge> counter_max
               then \<lparr>is_last_ms = is_last_ms s + 1, is_counter = counter_seed two_bytes\<rparr>
               else s\<lparr>is_counter := is_counter s + 1\<rparr>)
      in ((is_last_ms t, is_counter t), t))"

section \<open>The layout\<close>

text \<open>\<open>UUID(int=value)\<close> refuses what does not fit 128 bits.\<close>

definition uuid_of_int :: "int \<Rightarrow> exn + int" where
  "uuid_of_int v =
     (if 0 \<le> v \<and> v < 2 ^ 128 then Inr v else Inl (ValueExn ''int is out of range (need a 128-bit value)''))"

definition uuid7_value :: "int \<Rightarrow> int \<Rightarrow> int \<Rightarrow> int" where
  "uuid7_value ts rand_a rand_b =
     push_bit 80 ts
       OR push_bit 64 (version_7 OR rand_a)
       OR push_bit 48 (variant_rfc4122 OR drop_bit 48 rand_b)
       OR take_bit 48 rand_b"

definition uuid7 :: "int option \<Rightarrow> int \<Rightarrow> int \<Rightarrow> int \<Rightarrow> id_source \<Rightarrow> (exn + int) \<times> id_source" where
  "uuid7 timestamp_ms clock two_bytes eight_bytes s =
     (let rand_b = take_bit 62 eight_bytes in
      case timestamp_ms of
        None \<Rightarrow>
          (let ((ts, rand_a), t) = next_monotonic clock two_bytes s
           in (uuid_of_int (uuid7_value ts rand_a rand_b), t))
      | Some ts \<Rightarrow>
          (if \<not> (0 \<le> ts \<and> ts < 2 ^ 48) then (Inl (ValueExn ''timestamp out of range for UUIDv7''), s)
           else (uuid_of_int (uuid7_value ts (two_bytes AND counter_max) rand_b), s)))"

text \<open>\<open>UUID.version\<close> is defined for the RFC 4122 variant only.\<close>

definition uuid_version :: "int \<Rightarrow> int option" where
  "uuid_version v =
     (if take_bit 2 (drop_bit 62 v) = 2 then Some (take_bit 4 (drop_bit 76 v)) else None)"

definition uuid7_timestamp_ms :: "int \<Rightarrow> exn + int" where
  "uuid7_timestamp_ms v =
     (if uuid_version v \<noteq> Some 7 then Inl (ValueExn ''not a UUIDv7'') else Inr (drop_bit 80 v))"

section \<open>Text\<close>

definition hex_lower :: "nat \<Rightarrow> char" where
  "hex_lower n = char_of (if n < 10 then 48 + n else 87 + n)"

fun hex_fixed :: "nat \<Rightarrow> nat \<Rightarrow> string" where
  "hex_fixed 0 n = []"
| "hex_fixed (Suc k) n = hex_fixed k (n div 16) @ [hex_lower (n mod 16)]"

text \<open>\<open>str(uuid)\<close>: the digits in groups of 8, 4, 4, 4 and 12.\<close>

definition uuid_text :: "nat \<Rightarrow> string" where
  "uuid_text n =
     (let h = hex_fixed 32 n; dash = CHR ''-''
      in take 8 h @ dash # take 4 (drop 8 h) @ dash # take 4 (drop 12 h) @ dash # take 4 (drop 16 h)
         @ dash # drop 20 h)"

section \<open>Layout facts\<close>

lemma high_part: "0 \<le> l \<Longrightarrow> l < m \<Longrightarrow> (h * m + l) div m = (h :: int)"
  by simp

lemma low_rest: "0 \<le> l \<Longrightarrow> l < m \<Longrightarrow> (h * m + l) mod m = (l :: int)"
  by simp

lemma div_below:
  assumes "b < n * m" "0 < (m :: int)"
  shows "b div m < n"
proof (rule ccontr)
  assume "\<not> b div m < n"
  then have "n * m \<le> b div m * m" using assms(2) by (intro mult_right_mono) simp_all
  moreover have "b div m * m + b mod m = b" "0 \<le> b mod m" using assms(2) by simp_all
  ultimately show False using assms(1) by linarith
qed

lemma join_below:
  assumes "0 \<le> h" "h < n" "0 \<le> l" "l < (m :: int)"
  shows "0 \<le> h * m + l" "h * m + l < n * m"
proof -
  have "h * m + m = (h + 1) * m" by (simp add: algebra_simps)
  also have "\<dots> \<le> n * m" using assms by (intro mult_right_mono) simp_all
  finally show "h * m + l < n * m" using assms(4) by linarith
  show "0 \<le> h * m + l" using assms by simp
qed

lemma or_is_add:
  fixes x y :: int
  assumes "take_bit n x = 0" "0 \<le> y" "y < 2 ^ n"
  shows "x OR y = x + y"
proof -
  have "take_bit n y = y" using assms(2,3) by (rule take_bit_int_eq_self)
  then have "\<not> bit x i \<or> \<not> bit y i" for i
    using assms(1) by (metis bit_take_bit_iff bit_0_eq bot_apply bot_bool_def)
  then show ?thesis by (simp add: disjunctive_add)
qed

lemma shifted_or: "0 \<le> y \<Longrightarrow> y < 2 ^ n \<Longrightarrow> push_bit n x OR y = x * 2 ^ n + (y :: int)"
proof -
  assume "0 \<le> y" "y < 2 ^ n"
  moreover have "take_bit n (push_bit n x) = 0" by (simp add: take_bit_push_bit)
  ultimately show ?thesis using or_is_add by (simp only: push_bit_eq_mult)
qed

text \<open>What the source and the random bytes deliver.\<close>

definition parts_ok :: "int \<Rightarrow> int \<Rightarrow> int \<Rightarrow> bool" where
  "parts_ok ts a b = (0 \<le> ts \<and> 0 \<le> a \<and> a \<le> counter_max \<and> 0 \<le> b \<and> b < 2 ^ 62)"

lemma parts_bounds:
  assumes "parts_ok ts a b"
  shows "0 \<le> a" "a < 4096" "0 \<le> b div 2 ^ 48" "b div 2 ^ 48 < 2 ^ 14" "0 \<le> b mod 2 ^ 48" "b mod 2 ^ 48 < 2 ^ 48"
proof -
  have b: "0 \<le> b" "b < 2 ^ 14 * 2 ^ 48" using assms by (simp_all add: parts_ok_def)
  show "0 \<le> b div 2 ^ 48" using b(1) by (simp add: pos_imp_zdiv_nonneg_iff)
  show "b div 2 ^ 48 < 2 ^ 14" by (rule div_below [OF b(2)]) simp
qed (use assms in \<open>simp_all add: parts_ok_def counter_max_def\<close>)

lemma version_or: "0 \<le> a \<Longrightarrow> a < 4096 \<Longrightarrow> version_7 OR a = 0x7000 + a"
  using shifted_or [of a 12 7] by (simp add: version_7_def push_bit_eq_mult)

lemma variant_or: "0 \<le> x \<Longrightarrow> x < 2 ^ 14 \<Longrightarrow> variant_rfc4122 OR x = 0x8000 + x"
  using shifted_or [of x 14 2] by (simp add: variant_rfc4122_def push_bit_eq_mult)

lemma uuid7_sum:
  assumes "parts_ok ts a b"
  shows "uuid7_value ts a b
     = (ts * 2 ^ 16 + (0x7000 + a)) * 2 ^ 64 + ((0x8000 + b div 2 ^ 48) * 2 ^ 48 + b mod 2 ^ 48)"
proof -
  note bounds = parts_bounds [OF assms]
  define y z w where "y = 0x7000 + a" and "z = 0x8000 + b div 2 ^ 48" and "w = b mod 2 ^ 48"
  have w: "0 \<le> w" "w < 2 ^ 48" using bounds by (simp_all add: w_def)
  have z: "0 \<le> z" "z < 2 ^ 16" using bounds by (simp_all add: z_def)
  have y: "0 \<le> y" "y < 2 ^ 16" using bounds by (simp_all add: y_def)
  have "z * 2 ^ 48 \<le> (2 ^ 16 - 1) * 2 ^ 48" using z by (intro mult_right_mono) simp_all
  then have zw: "0 \<le> z * 2 ^ 48 + w" "z * 2 ^ 48 + w < 2 ^ 64" using z w by simp_all
  have "y * 2 ^ 64 \<le> (2 ^ 16 - 1) * 2 ^ 64" using y by (intro mult_right_mono) simp_all
  then have yzw: "0 \<le> y * 2 ^ 64 + (z * 2 ^ 48 + w)" "y * 2 ^ 64 + (z * 2 ^ 48 + w) < 2 ^ 80"
    using y zw by simp_all
  have "version_7 OR a = y" using version_or bounds by (simp add: y_def)
  moreover have "variant_rfc4122 OR drop_bit 48 b = z"
    using variant_or [of "b div 2 ^ 48"] bounds by (simp add: z_def drop_bit_eq_div)
  moreover have "take_bit 48 b = w" by (simp add: w_def take_bit_eq_mod)
  ultimately have "uuid7_value ts a b = push_bit 80 ts OR (push_bit 64 y OR (push_bit 48 z OR w))"
    by (simp add: uuid7_value_def or.assoc)
  also have "\<dots> = ts * 2 ^ 80 + (y * 2 ^ 64 + (z * 2 ^ 48 + w))"
    unfolding shifted_or [OF w] shifted_or [OF zw] shifted_or [OF yzw] ..
  finally show ?thesis by (simp add: y_def z_def w_def)
qed

lemma uuid7_split:
  assumes "parts_ok ts a b"
  shows "uuid7_value ts a b div 2 ^ 64 = ts * 2 ^ 16 + (0x7000 + a)"
    and "uuid7_value ts a b mod 2 ^ 64 = (0x8000 + b div 2 ^ 48) * 2 ^ 48 + b mod 2 ^ 48"
proof -
  note bounds = parts_bounds [OF assms]
  define z w where "z = 0x8000 + b div 2 ^ 48" and "w = b mod 2 ^ 48"
  have w: "0 \<le> w" "w < 2 ^ 48" and z: "0 \<le> z" "z < 2 ^ 16" using bounds by (simp_all add: w_def z_def)
  have "z * 2 ^ 48 \<le> (2 ^ 16 - 1) * 2 ^ 48" using z by (intro mult_right_mono) simp_all
  then have zw: "0 \<le> z * 2 ^ 48 + w" "z * 2 ^ 48 + w < 2 ^ 64" using z w by simp_all
  note sum = uuid7_sum [OF assms, folded z_def w_def]
  show "uuid7_value ts a b div 2 ^ 64 = ts * 2 ^ 16 + (0x7000 + a)" unfolding sum by (rule high_part [OF zw])
  show "uuid7_value ts a b mod 2 ^ 64 = (0x8000 + b div 2 ^ 48) * 2 ^ 48 + b mod 2 ^ 48"
    unfolding sum low_rest [OF zw] by (simp add: z_def w_def)
qed

lemma uuid7_bounds:
  assumes "parts_ok ts a b" "ts < 2 ^ 48"
  shows "0 \<le> uuid7_value ts a b" "uuid7_value ts a b < 2 ^ 128"
proof -
  let ?v = "uuid7_value ts a b"
  note bounds = parts_bounds [OF assms(1)]
  have hi: "0 \<le> ?v div 2 ^ 64" "?v div 2 ^ 64 < 2 ^ 64"
    unfolding uuid7_split(1) [OF assms(1)] using assms bounds by (simp_all add: parts_ok_def)
  have lo: "0 \<le> ?v mod 2 ^ 64" "?v mod 2 ^ 64 < 2 ^ 64" by simp_all
  have v: "?v div 2 ^ 64 * 2 ^ 64 + ?v mod 2 ^ 64 = ?v" by simp
  show "0 \<le> ?v" using join_below(1) [OF hi lo] unfolding v .
  show "?v < 2 ^ 128" using join_below(2) [OF hi lo] unfolding v by simp
qed

lemma uuid7_fields:
  assumes "parts_ok ts a b"
  shows "drop_bit 80 (uuid7_value ts a b) = ts" "uuid_version (uuid7_value ts a b) = Some 7"
proof -
  let ?v = "uuid7_value ts a b"
  note bounds = parts_bounds [OF assms]
  have high: "drop_bit 64 ?v = ts * 2 ^ 16 + (0x7000 + a)"
    using uuid7_split(1) [OF assms] by (simp add: drop_bit_eq_div)
  have "drop_bit 80 ?v = drop_bit 16 (drop_bit 64 ?v)" by simp
  also have "\<dots> = (ts * 2 ^ 16 + (0x7000 + a)) div 2 ^ 16" unfolding high by (simp add: drop_bit_eq_div)
  also have "\<dots> = ts" by (rule high_part) (use bounds in simp_all)
  finally show "drop_bit 80 ?v = ts" .
  have "drop_bit 76 ?v = drop_bit 12 (drop_bit 64 ?v)" by simp
  also have "\<dots> = ((ts * 16 + 7) * 2 ^ 12 + a) div 2 ^ 12" unfolding high by (simp add: drop_bit_eq_div algebra_simps)
  also have "\<dots> = ts * 16 + 7" by (rule high_part) (use bounds in simp_all)
  finally have version: "take_bit 4 (drop_bit 76 ?v) = 7" by (simp add: take_bit_eq_mod)
  have "take_bit 2 (drop_bit 62 ?v) = drop_bit 62 (take_bit 64 ?v)" by (simp add: take_bit_drop_bit)
  also have "\<dots> = ((0x8000 + b div 2 ^ 48) * 2 ^ 48 + b mod 2 ^ 48) div 2 ^ 62"
    using uuid7_split(2) [OF assms] by (simp add: drop_bit_eq_div take_bit_eq_mod)
  also have "\<dots> = (2 * 2 ^ 62 + (b div 2 ^ 48 * 2 ^ 48 + b mod 2 ^ 48)) div 2 ^ 62" by (simp add: algebra_simps)
  also have "\<dots> = (2 * 2 ^ 62 + b) div 2 ^ 62" by simp
  also have "\<dots> = 2" by (rule high_part) (use assms in \<open>simp_all add: parts_ok_def\<close>)
  finally show "uuid_version ?v = Some 7" using version by (simp add: uuid_version_def)
qed

section \<open>Identifiers of one process\<close>

text \<open>A draw is what one call reads: the clock, two random bytes and eight.\<close>

record draw =
  dr_clock :: int
  dr_two :: int
  dr_eight :: int

fun uuid7_run :: "draw list \<Rightarrow> id_source \<Rightarrow> (exn + int) list" where
  "uuid7_run [] s = []"
| "uuid7_run (d # ds) s =
     (let (r, t) = uuid7 None (dr_clock d) (dr_two d) (dr_eight d) s in r # uuid7_run ds t)"

definition draw_ok :: "draw \<Rightarrow> bool" where
  "draw_ok d = (0 \<le> dr_clock d \<and> dr_clock d < 2 ^ 47 \<and> 0 \<le> dr_two d \<and> dr_two d < 2 ^ 16)"

text \<open>The source after \<open>k\<close> calls: it has run ahead of the clocks by no more than a millisecond a call.\<close>

definition source_ok :: "nat \<Rightarrow> id_source \<Rightarrow> bool" where
  "source_ok k s = (- 1 \<le> is_last_ms s \<and> is_last_ms s < 2 ^ 47 + int k \<and> 0 \<le> is_counter s \<and> is_counter s \<le> counter_max
     \<and> (is_last_ms s = - 1 \<longrightarrow> is_counter s = 0))"

definition source_key :: "id_source \<Rightarrow> int" where
  "source_key s = is_last_ms s * 2 ^ 16 + is_counter s"

lemma seed_bounds: "0 \<le> r \<Longrightarrow> r < 2 ^ 16 \<Longrightarrow> 0 \<le> counter_seed r" "0 \<le> r \<Longrightarrow> r < 2 ^ 16 \<Longrightarrow> counter_seed r < 1024"
proof -
  assume r: "0 \<le> r" "r < 2 ^ 16"
  show "0 \<le> counter_seed r" using r(1) by (simp add: counter_seed_def)
  have "r div 2 ^ 6 < 1024" by (rule div_below) (use r in simp_all)
  then show "counter_seed r < 1024" by (simp add: counter_seed_def counter_seed_bits_def drop_bit_eq_div)
qed

lemma next_monotonic_step:
  assumes "source_ok k s" "draw_ok d" "next_monotonic (dr_clock d) (dr_two d) s = ((ts, c), t)"
  shows "ts = is_last_ms t" "c = is_counter t" "0 \<le> ts" "source_ok (Suc k) t" "source_key s < source_key t"
  using assms seed_bounds [of "dr_two d"]
  by (auto simp: next_monotonic_def Let_def source_ok_def draw_ok_def source_key_def counter_max_def split: if_splits)

lemma uuid7_step:
  assumes "source_ok k s" "draw_ok d" "k < 2 ^ 46" "uuid7 None (dr_clock d) (dr_two d) (dr_eight d) s = (r, t)"
  shows "\<exists>v. r = Inr v \<and> v div 2 ^ 64 = source_key t + 0x7000 \<and> uuid_version v = Some 7
     \<and> uuid7_timestamp_ms v = Inr (is_last_ms t)"
    and "source_ok (Suc k) t" "source_key s < source_key t"
proof -
  obtain ts c u where step: "next_monotonic (dr_clock d) (dr_two d) s = ((ts, c), u)" by (metis surj_pair)
  note nx = next_monotonic_step [OF assms(1,2) step]
  have t: "t = u" and r: "r = uuid_of_int (uuid7_value ts c (take_bit 62 (dr_eight d)))"
    using assms(4) by (simp_all add: uuid7_def step)
  have "c \<le> counter_max" "0 \<le> c" "ts < 2 ^ 48"
    using nx(1,2,4) assms(3) by (simp_all add: source_ok_def)
  then have ok: "parts_ok ts c (take_bit 62 (dr_eight d))" "ts < 2 ^ 48"
    using nx(3) take_bit_int_less_exp [of 62 "dr_eight d"] by (auto simp: parts_ok_def simp del: take_bit_int_less_exp)
  show "\<exists>v. r = Inr v \<and> v div 2 ^ 64 = source_key t + 0x7000 \<and> uuid_version v = Some 7
     \<and> uuid7_timestamp_ms v = Inr (is_last_ms t)"
    using uuid7_bounds [OF ok] uuid7_fields [OF ok(1)] uuid7_split(1) [OF ok(1)] nx(1,2)
    by (simp add: r t uuid_of_int_def uuid7_timestamp_ms_def source_key_def)
  show "source_ok (Suc k) t" "source_key s < source_key t" using nx t by simp_all
qed

lemma uuid7_run_ordered:
  assumes "source_ok k s" "list_all draw_ok ds" "k + length ds \<le> 2 ^ 46"
  shows "\<exists>vs. uuid7_run ds s = map Inr vs \<and> sorted_wrt (<) vs
     \<and> (\<forall>v\<in>set vs. source_key s + 0x7000 < v div 2 ^ 64 \<and> uuid_version v = Some 7)"
  using assms
proof (induction ds arbitrary: k s)
  case (Cons d ds)
  obtain r t where rt: "uuid7 None (dr_clock d) (dr_two d) (dr_eight d) s = (r, t)" by fastforce
  have k: "k < 2 ^ 46" using Cons.prems(3) by simp
  have d: "draw_ok d" using Cons.prems(2) by simp
  note step = uuid7_step [OF Cons.prems(1) d k rt]
  obtain v where v: "r = Inr v" "v div 2 ^ 64 = source_key t + 0x7000" "uuid_version v = Some 7" using step(1) by blast
  obtain vs where vs: "uuid7_run ds t = map Inr vs" "sorted_wrt (<) vs"
    "\<forall>v\<in>set vs. source_key t + 0x7000 < v div 2 ^ 64 \<and> uuid_version v = Some 7"
    using Cons.IH [OF step(2)] Cons.prems(2,3) by auto
  have "v < x" if "x \<in> set vs" for x
  proof (rule ccontr)
    assume "\<not> v < x"
    then have "x div 2 ^ 64 \<le> v div 2 ^ 64" by (intro zdiv_mono1) simp_all
    then show False using vs(3) v(2) that by fastforce
  qed
  then show ?case
    using v vs step(3) rt by (intro exI [of _ "v # vs"]) fastforce
qed simp

text \<open>C28: The identifiers one process generates strictly increase, so they are distinct and sort in the
  order of their creation, whatever its clock does between calls (standing still, running backwards)
  and however many fall into one millisecond; each is a version 7 UUID of 128 bits.\<close>

theorem uuid7_strictly_increasing:
  assumes "list_all draw_ok ds" "length ds \<le> 2 ^ 46"
  shows "\<exists>vs. uuid7_run ds fresh_source = map Inr vs \<and> sorted_wrt (<) vs
     \<and> (\<forall>v\<in>set vs. uuid_version v = Some 7)"
  using uuid7_run_ordered [of 0 fresh_source ds] assms
  by (auto simp: source_ok_def fresh_source_def counter_max_def)

definition backwards_clock :: "draw list" where
  "backwards_clock = [\<lparr>dr_clock = 1000, dr_two = 65535, dr_eight = 7\<rparr>, \<lparr>dr_clock = 1000, dr_two = 0, dr_eight = 5\<rparr>,
     \<lparr>dr_clock = 400, dr_two = 9, dr_eight = 3\<rparr>]"

lemma uuid7_strictly_increasing_witness:
  "\<exists>vs. uuid7_run backwards_clock fresh_source = map Inr vs \<and> sorted_wrt (<) vs \<and> (\<forall>v\<in>set vs. uuid_version v = Some 7)"
  by (rule uuid7_strictly_increasing) (simp_all add: backwards_clock_def draw_ok_def)

section \<open>The text is the identifier\<close>

lemma hex_lower_inj: "a < 16 \<Longrightarrow> b < 16 \<Longrightarrow> hex_lower a = hex_lower b \<Longrightarrow> a = b"
proof -
  assume ab: "a < 16" "b < 16" "hex_lower a = hex_lower b"
  have "of_char (hex_lower n) = (if n < 10 then 48 + n else 87 + n)" if "n < 16" for n
    using that by (simp add: hex_lower_def)
  then have "(if a < 10 then 48 + a else 87 + a) = (if b < 10 then 48 + b else 87 + b)" using ab by metis
  then show "a = b" using ab(1,2) by (auto split: if_splits)
qed

lemma hex_fixed_length [simp]: "length (hex_fixed k n) = k"
  by (induction k arbitrary: n) simp_all

lemma hex_fixed_inj: "hex_fixed k n = hex_fixed k m \<Longrightarrow> n mod 16 ^ k = m mod 16 ^ k"
proof (induction k arbitrary: n m)
  case (Suc k)
  have eqs: "hex_fixed k (n div 16) = hex_fixed k (m div 16)" "hex_lower (n mod 16) = hex_lower (m mod 16)"
    using Suc.prems by simp_all
  have "n mod 16 = m mod 16" using eqs(2) by (intro hex_lower_inj) simp_all
  moreover have "n div 16 mod 16 ^ k = m div 16 mod 16 ^ k" by (rule Suc.IH [OF eqs(1)])
  ultimately show ?case unfolding power_Suc mod_mult2_eq by simp
qed simp

lemma uuid_text_inj:
  assumes "n < 2 ^ 128" "m < 2 ^ 128" "uuid_text n = uuid_text m"
  shows "n = m"
proof -
  let ?f = "\<lambda>n. hex_fixed 32 n"
  have split: "h = take 8 h @ take 4 (drop 8 h) @ take 4 (drop 12 h) @ take 4 (drop 16 h) @ drop 20 h"
    if "length h = 32" for h :: string
  proof -
    have "drop 8 h = take 4 (drop 8 h) @ drop 4 (drop 8 h)" "drop 12 h = take 4 (drop 12 h) @ drop 4 (drop 12 h)"
      "drop 16 h = take 4 (drop 16 h) @ drop 4 (drop 16 h)" by (rule append_take_drop_id [symmetric])+
    then show ?thesis using append_take_drop_id [of 8 h] by simp
  qed
  have "take 8 (?f n) = take 8 (?f m)" "take 4 (drop 8 (?f n)) = take 4 (drop 8 (?f m))"
    "take 4 (drop 12 (?f n)) = take 4 (drop 12 (?f m))" "take 4 (drop 16 (?f n)) = take 4 (drop 16 (?f m))"
    "drop 20 (?f n) = drop 20 (?f m)"
    using assms(3) by (simp_all add: uuid_text_def Let_def append_eq_append_conv)
  then have "?f n = ?f m" using split [of "?f n"] split [of "?f m"] by simp
  then have "n mod 16 ^ 32 = m mod 16 ^ 32" by (rule hex_fixed_inj)
  then show ?thesis using assms(1,2) by simp
qed

lemma uuid_text_length: "length (uuid_text n) = 36"
  by (simp add: uuid_text_def Let_def)

end
