(* ===== verification/Crypto.thy ===== *)
theory Crypto
  imports Ids
begin

text \<open>
  Envelope encryption of tenant secrets, \<open>core/crypto/envelope.py\<close> and \<open>core/crypto/keys.py\<close>.
  AES-256-GCM (the \<open>cryptography\<close> package) is a parameter, and so are the operating system's random
  bytes of each call.  Byte strings are strings; a secret is ASCII, so it is its own UTF-8 encoding.
  \<open>gcm_contract\<close> states what the package documents of authenticated encryption.
\<close>

section \<open>Master keys\<close>

definition nonce_bytes :: nat where
  "nonce_bytes = 12"

definition dek_bytes :: nat where
  "dek_bytes = 32"

definition master_key_bytes :: nat where
  "master_key_bytes = 32"

text \<open>A key provider: the version to wrap with, and the keys by version (\<open>None\<close> is \<open>KeyError\<close>).\<close>

record key_provider =
  kp_current :: int
  kp_key :: "int \<Rightarrow> string option"

definition env_master_key :: "string \<Rightarrow> int \<Rightarrow> exn + key_provider" where
  "env_master_key key version =
     (if length key \<noteq> master_key_bytes then Inl (ValueExn ''master key must be exactly 32 bytes'')
      else if version < 1 then Inl (ValueExn ''key version must be >= 1'')
      else Inr \<lparr>kp_current = version, kp_key = (\<lambda>v. if v \<noteq> version then None else Some key)\<rparr>)"

definition static_keys :: "(int \<times> string) list \<Rightarrow> int \<Rightarrow> exn + key_provider" where
  "static_keys keys current =
     (case find (\<lambda>(v, k). length k \<noteq> master_key_bytes) keys of
        Some (v, k) \<Rightarrow> Inl (ValueExn (''key version '' @ show_int v @ '' must be 32 bytes''))
      | None \<Rightarrow>
          if current \<notin> set (map fst keys) then Inl (ValueExn ''current_version must be present in keys'')
          else Inr \<lparr>kp_current = current, kp_key = map_of keys\<rparr>)"

definition keys_ok :: "key_provider \<Rightarrow> bool" where
  "keys_ok kp = (\<exists>k. kp_key kp (kp_current kp) = Some k \<and> length k = master_key_bytes)"

section \<open>Envelopes\<close>

record aead =
  ae_seal :: "string \<Rightarrow> string \<Rightarrow> string \<Rightarrow> string \<Rightarrow> string"
  ae_open :: "string \<Rightarrow> string \<Rightarrow> string \<Rightarrow> string \<Rightarrow> string option"

record encrypted_payload =
  ep_ciphertext :: string
  ep_nonce :: string
  ep_encrypted_dek :: string
  ep_dek_nonce :: string
  ep_key_version :: int

text \<open>The bytes one call draws: a data key and two nonces.\<close>

record entropy =
  en_dek :: string
  en_nonce :: string
  en_dek_nonce :: string

definition entropy_ok :: "entropy \<Rightarrow> bool" where
  "entropy_ok r = (length (en_dek r) = dek_bytes \<and> length (en_nonce r) = nonce_bytes
     \<and> length (en_dek_nonce r) = nonce_bytes)"

record encryption =
  ec_aead :: aead
  ec_keys :: key_provider

definition build_credential_aad :: "nat \<Rightarrow> nat \<Rightarrow> string \<Rightarrow> string" where
  "build_credential_aad tid cid provider =
     ''buildseo:credential:v1:'' @ uuid_text tid @ '':'' @ uuid_text cid @ '':'' @ str_lower provider"

text \<open>The current version of a provider the constructors build is always known; \<open>RuntimeExn\<close> is the
  \<open>KeyError\<close> of one that is not.\<close>

definition current_key :: "key_provider \<Rightarrow> exn + string" where
  "current_key kp = (case kp_key kp (kp_current kp) of None \<Rightarrow> Inl (RuntimeExn ''KeyError'') | Some k \<Rightarrow> Inr k)"

definition encrypt :: "encryption \<Rightarrow> entropy \<Rightarrow> string \<Rightarrow> string \<Rightarrow> exn + encrypted_payload" where
  "encrypt ec r plaintext aad =
     (if plaintext = [] then Inl (ValueExn ''cannot encrypt an empty secret'')
      else let ciphertext = ae_seal (ec_aead ec) (en_dek r) (en_nonce r) plaintext aad in
      case current_key (ec_keys ec) of Inl e \<Rightarrow> Inl e | Inr kek \<Rightarrow>
        Inr \<lparr>ep_ciphertext = ciphertext, ep_nonce = en_nonce r,
             ep_encrypted_dek = ae_seal (ec_aead ec) kek (en_dek_nonce r) (en_dek r) aad,
             ep_dek_nonce = en_dek_nonce r, ep_key_version = kp_current (ec_keys ec)\<rparr>)"

definition key_unavailable :: "string \<Rightarrow> int \<Rightarrow> exn" where
  "key_unavailable msg version =
     AppExn (app_error_init CredentialDecryptionError (Some msg) None
       (Some [(''key_version'', JInt version)]) None)"

definition decrypt :: "encryption \<Rightarrow> encrypted_payload \<Rightarrow> string \<Rightarrow> exn + string" where
  "decrypt ec p aad =
     (case kp_key (ec_keys ec) (ep_key_version p) of
        None \<Rightarrow> Inl (key_unavailable ''Stored credential was encrypted with an unavailable key version'' (ep_key_version p))
      | Some kek \<Rightarrow>
          (case ae_open (ec_aead ec) kek (ep_dek_nonce p) (ep_encrypted_dek p) aad of
             None \<Rightarrow> Inl (err CredentialDecryptionError)
           | Some dek \<Rightarrow>
               (case ae_open (ec_aead ec) dek (ep_nonce p) (ep_ciphertext p) aad of
                  None \<Rightarrow> Inl (err CredentialDecryptionError)
                | Some plaintext \<Rightarrow> Inr plaintext)))"

definition rewrap :: "encryption \<Rightarrow> string \<Rightarrow> encrypted_payload \<Rightarrow> string \<Rightarrow> exn + encrypted_payload" where
  "rewrap ec dek_nonce p aad =
     (case kp_key (ec_keys ec) (ep_key_version p) of
        None \<Rightarrow> Inl (key_unavailable ''Cannot rewrap: source key version is unavailable'' (ep_key_version p))
      | Some old_kek \<Rightarrow>
          (case ae_open (ec_aead ec) old_kek (ep_dek_nonce p) (ep_encrypted_dek p) aad of
             None \<Rightarrow> Inl (err CredentialDecryptionError)
           | Some dek \<Rightarrow>
               (case current_key (ec_keys ec) of Inl e \<Rightarrow> Inl e | Inr kek \<Rightarrow>
                  Inr (p\<lparr>ep_encrypted_dek := ae_seal (ec_aead ec) kek dek_nonce dek aad,
                         ep_dek_nonce := dek_nonce, ep_key_version := kp_current (ec_keys ec)\<rparr>))))"

section \<open>Authenticated encryption\<close>

text \<open>What AES-256-GCM documents: with a 32-byte key and a 12-byte nonce the plaintext comes back, and
  only a ciphertext sealed under the same key, nonce and associated data opens (the ideal reading of the
  authentication tag).\<close>

definition gcm_contract :: "aead \<Rightarrow> bool" where
  "gcm_contract a =
     (\<forall>k n p d. length k = dek_bytes \<longrightarrow> length n = nonce_bytes \<longrightarrow>
        ae_open a k n (ae_seal a k n p d) d = Some p
        \<and> (\<forall>d'. d' \<noteq> d \<longrightarrow> ae_open a k n (ae_seal a k n p d) d' = None))"

lemma gcm_opens:
  "gcm_contract a \<Longrightarrow> length k = dek_bytes \<Longrightarrow> length n = nonce_bytes \<Longrightarrow> ae_open a k n (ae_seal a k n p d) d = Some p"
  by (simp add: gcm_contract_def)

lemma gcm_binds:
  "gcm_contract a \<Longrightarrow> length k = dek_bytes \<Longrightarrow> length n = nonce_bytes \<Longrightarrow> d' \<noteq> d \<Longrightarrow>
   ae_open a k n (ae_seal a k n p d) d' = None"
  by (simp add: gcm_contract_def)

lemma keys_okE:
  assumes "keys_ok kp"
  obtains kek where "kp_key kp (kp_current kp) = Some kek" "current_key kp = Inr kek" "length kek = dek_bytes"
  using assms by (auto simp: keys_ok_def master_key_bytes_def dek_bytes_def current_key_def)

lemma seal_decrypts:
  assumes "gcm_contract (ec_aead ec)" "keys_ok (ec_keys ec)" "entropy_ok r" "s \<noteq> []"
  shows "\<exists>p. encrypt ec r s d = Inr p \<and> decrypt ec p d = Inr s \<and> ep_key_version p = kp_current (ec_keys ec)"
  using assms(3,4) gcm_opens [OF assms(1)]
  by (rule_tac keys_okE [OF assms(2)]) (simp add: encrypt_def Let_def decrypt_def entropy_ok_def)

lemma seal_is_bound:
  assumes "gcm_contract (ec_aead ec)" "keys_ok (ec_keys ec)" "entropy_ok r" "encrypt ec r s d = Inr p" "d' \<noteq> d"
  shows "decrypt ec p d' = Inl (err CredentialDecryptionError)"
  using assms(3-5) gcm_binds [OF assms(1)]
  by (rule_tac keys_okE [OF assms(2)]) (auto simp: encrypt_def Let_def decrypt_def entropy_ok_def split: if_splits)

text \<open>Rotation: the new provider still knows the version a payload was wrapped with.\<close>

lemma rewrap_decrypts:
  assumes "gcm_contract (ec_aead ec)" "keys_ok (ec_keys ec)" "decrypt ec p d = Inr s" "length n = nonce_bytes"
  shows "\<exists>q. rewrap ec n p d = Inr q \<and> decrypt ec q d = Inr s
     \<and> ep_ciphertext q = ep_ciphertext p \<and> ep_key_version q = kp_current (ec_keys ec)"
  using assms(3,4) gcm_opens [OF assms(1)]
  by (rule_tac keys_okE [OF assms(2)]) (auto simp: rewrap_def decrypt_def split: option.splits)

lemma aad_inj:
  assumes "t < 2 ^ 128" "t' < 2 ^ 128" "i < 2 ^ 128" "i' < 2 ^ 128"
    and "build_credential_aad t i p = build_credential_aad t' i' p'"
  shows "t = t' \<and> i = i' \<and> str_lower p = str_lower p'"
proof -
  have "uuid_text t = uuid_text t' \<and> uuid_text i = uuid_text i' \<and> str_lower p = str_lower p'"
    using assms(5) by (simp add: build_credential_aad_def append_eq_append_conv uuid_text_length)
  then show ?thesis using uuid_text_inj assms(1-4) by blast
qed

section \<open>A sealing that meets the contract\<close>

text \<open>It is not secret, but it authenticates: the ciphertext records its key, nonce, data and text.\<close>

definition tagged :: "string \<Rightarrow> string" where
  "tagged s = replicate (length s) (CHR ''x'') @ '':'' @ s"

definition toy_aead :: aead where
  "toy_aead = \<lparr>ae_seal = (\<lambda>k n p d. tagged d @ p),
     ae_open = (\<lambda>k n c d. if take (length (tagged d)) c = tagged d then Some (drop (length (tagged d)) c) else None)\<rparr>"

lemma tagged_prefix:
  assumes "tagged d @ p = tagged d' @ p'"
  shows "d = d'"
proof -
  have mark: "takeWhile (\<lambda>c. c = CHR ''x'') (tagged e @ q) = replicate (length e) (CHR ''x'')" for e q
    by (induction e) (simp_all add: tagged_def takeWhile_append)
  have "replicate (length d) (CHR ''x'') = replicate (length d') (CHR ''x'')" using assms mark by metis
  then have "length d = length d'" by simp
  then show ?thesis using assms by (simp add: tagged_def)
qed

lemma toy_contract: "gcm_contract toy_aead"
proof -
  have "take (length (tagged d')) (tagged d @ p) \<noteq> tagged d'" if "d' \<noteq> d" for d d' p
  proof
    assume "take (length (tagged d')) (tagged d @ p) = tagged d'"
    then have "tagged d @ p = tagged d' @ drop (length (tagged d')) (tagged d @ p)"
      by (metis append_take_drop_id)
    then show False using tagged_prefix that by metis
  qed
  then show ?thesis by (simp add: gcm_contract_def toy_aead_def)
qed

end
