(* ===== verification/Credentials.thy ===== *)
theory Credentials
  imports Crypto AuditTrail PublisherStore Domains
begin

text \<open>
  Tenant credentials, \<open>credentials/service.py\<close> with \<open>repositories/credentials.py\<close> and the validators
  of \<open>schemas/credentials.py\<close>: a secret is sealed under the row's own identity before it is stored and
  opened only by \<open>resolve_secret\<close>.  What the operating system's random source delivers for one sealing
  is a function of a fresh identifier, as the salts of \<open>Auth\<close> are.
\<close>

section \<open>The tables\<close>

text \<open>The constraints of both tables: keys, the unique columns, the checks on the sealed bytes, and the
  RESTRICT reference of a configuration to its credential.\<close>

definition credentials_ok :: "db \<Rightarrow> bool" where
  "credentials_ok d =
     (distinct (map crd_id (credentials d))
      \<and> distinct (map (\<lambda>c. (crd_tenant_id c, crd_provider c, crd_label c)) (credentials d))
      \<and> list_all (\<lambda>c. 1 \<le> crd_key_version c \<and> crd_ciphertext c \<noteq> [] \<and> length (crd_nonce c) = 12
                      \<and> length (crd_dek_nonce c) = 12) (credentials d)
      \<and> distinct (map aic_id (tenant_ai_configs d))
      \<and> distinct (map (\<lambda>k. (aic_tenant_id k, aic_purpose k, aic_provider k)) (tenant_ai_configs d))
      \<and> distinct (map (\<lambda>k. (aic_tenant_id k, aic_purpose k)) (filter aic_is_default (tenant_ai_configs d)))
      \<and> list_all (\<lambda>k. case aic_credential_id k of None \<Rightarrow> True | Some i \<Rightarrow> i \<in> set (map crd_id (credentials d)))
          (tenant_ai_configs d))"

definition flush_credentials :: "unit svc" where
  "flush_credentials = flush_check credentials_ok ''credentials''"

section \<open>Payloads\<close>

definition reject_secret_shaped_keys :: "(string \<times> json) list \<Rightarrow> exn + (string \<times> json) list" where
  "reject_secret_shaped_keys v =
     (let offending = filter is_sensitive_key (map fst v)
      in if offending \<noteq> []
         then Inl (ValueExn (''metadata must not contain secret-like keys ('' @ join_with '', '' (sort offending)
                @ ''); put the secret in 'secret' instead, where it is encrypted at rest''))
         else Inr v)"

definition not_placeholder :: "string \<Rightarrow> exn + string" where
  "not_placeholder v =
     (let raw = str_strip v
      in if raw = [] then Inl (ValueExn ''secret must not be blank'')
         else if str_lower raw \<in> {''string'', ''changeme'', ''your-api-key'', ''test'', ''xxx''}
         then Inl (ValueExn ''secret looks like a placeholder'')
         else Inr raw)"

record credential_create =
  cc_provider :: string
  cc_provider_type :: credential_provider_type
  cc_label :: string
  cc_secret :: string
  cc_provider_metadata :: "(string \<times> json) list"
  cc_verify :: bool

record credential_update =
  cu_label :: "string option"
  cu_secret :: "string option"
  cu_status :: "credential_status option"
  cu_provider_metadata :: "(string \<times> json) list option"
  cu_verify :: bool

definition validate_credential_create :: "credential_create \<Rightarrow> exn + credential_create" where
  "validate_credential_create p =
     (case not_placeholder (cc_secret p) of Inl e \<Rightarrow> Inl e | Inr s \<Rightarrow>
      case reject_secret_shaped_keys (cc_provider_metadata p) of Inl e \<Rightarrow> Inl e | Inr m \<Rightarrow>
      Inr (p\<lparr>cc_secret := s, cc_provider_metadata := m\<rparr>))"

text \<open>An update's secret is taken as it is.\<close>

definition validate_credential_update :: "credential_update \<Rightarrow> exn + credential_update" where
  "validate_credential_update p =
     (case cu_provider_metadata p of
        None \<Rightarrow> Inr p
      | Some m \<Rightarrow> (case reject_secret_shaped_keys m of Inl e \<Rightarrow> Inl e | Inr _ \<Rightarrow> Inr p))"

section \<open>Queries\<close>

definition get_by_provider_and_label :: "string \<Rightarrow> string \<Rightarrow> credential_row option svc" where
  "get_by_provider_and_label provider label =
     ebind (repo_where credential_model (\<lambda>c. crd_provider c = provider \<and> crd_label c = label)) scalar_one_or_none"

definition is_usable :: "string \<Rightarrow> credential_row \<Rightarrow> bool" where
  "is_usable provider c = (crd_provider c = provider \<and> crd_status c \<in> {CS_VERIFIED, CS_CONFIGURED})"

definition verified_order :: "credential_row \<Rightarrow> sort_val" where
  "verified_order c = (case crd_last_verified_at c of None \<Rightarrow> SV_Null | Some t \<Rightarrow> SV_Int (- t))"

definition get_usable_for_provider :: "string \<Rightarrow> credential_row option svc" where
  "get_usable_for_provider provider =
     ebind (repo_where credential_model (is_usable provider)) (\<lambda>cs.
       ret (case sort_key verified_order (sort_key (\<lambda>c. - crd_created_at c) cs) of [] \<Rightarrow> None | c # _ \<Rightarrow> Some c))"

definition credential_build_filters ::
  "string option \<Rightarrow> string option \<Rightarrow> string option \<Rightarrow> (credential_row \<Rightarrow> bool) list" where
  "credential_build_filters provider ptype st =
     text_filter (\<lambda>c. Some (crd_provider c)) provider
     @ text_filter (\<lambda>c. Some (credential_provider_type_value (crd_provider_type c))) ptype
     @ text_filter (\<lambda>c. Some (credential_status_value (crd_status c))) st"

definition uses_credential :: "nat \<Rightarrow> bool svc" where
  "uses_credential cid = repo_exists ai_config_model [\<lambda>k. aic_credential_id k = Some cid]"

section \<open>The service\<close>

record credential_service =
  ct_encryption :: encryption
  ct_entropy :: "nat \<Rightarrow> entropy"

definition credential_exists :: "string \<Rightarrow> string \<Rightarrow> exn" where
  "credential_exists provider label =
     err_coded DuplicateResourceError
       (''A '' @ [CHR 0x27] @ provider @ [CHR 0x27] @ '' credential labelled '' @ [CHR 0x27] @ label @ [CHR 0x27]
        @ '' already exists'') ''CREDENTIAL_EXISTS''"

definition new_credential ::
  "credential_create \<Rightarrow> encrypted_payload \<Rightarrow> nat \<Rightarrow> nat \<Rightarrow> int \<Rightarrow> credential_row" where
  "new_credential p sealed i t n =
     \<lparr>crd_id = i, crd_tenant_id = t, crd_provider = cc_provider p, crd_provider_type = cc_provider_type p,
      crd_label = cc_label p, crd_status = CS_CONFIGURED, crd_masked_hint = mask_secret (cc_secret p),
      crd_ciphertext = ep_ciphertext sealed, crd_nonce = ep_nonce sealed,
      crd_encrypted_dek = ep_encrypted_dek sealed, crd_dek_nonce = ep_dek_nonce sealed,
      crd_key_version = ep_key_version sealed, crd_provider_metadata = cc_provider_metadata p,
      crd_last_verified_at = None, crd_created_at = n, crd_updated_at = n\<rparr>"

definition create_credential :: "credential_service \<Rightarrow> credential_create \<Rightarrow> credential_row svc" where
  "create_credential sv p =
     ebind (get_by_provider_and_label (cc_provider p) (cc_label p)) (\<lambda>found.
     ethen (raise_if (found \<noteq> None) (credential_exists (cc_provider p) (cc_label p))) (
     ebind fresh_id (\<lambda>cid.
     ebind require_tenant_id (\<lambda>t.
     ebind (lift_sum (encrypt (ct_encryption sv) (ct_entropy sv cid) (cc_secret p)
              (build_credential_aad t cid (cc_provider p)))) (\<lambda>sealed.
     ebind now (\<lambda>n.
     let c = new_credential p sealed cid t n in
     ethen (change_db (\<lambda>d. d\<lparr>credentials := credentials d @ [c]\<rparr>)) (
     ethen flush_credentials (
     ethen (audit_on A_CREDENTIAL_CREATED ''credential'' cid
              [(''provider'', JStr (cc_provider p)),
               (''provider_type'', JStr (credential_provider_type_value (cc_provider_type p))),
               (''label'', JStr (cc_label p))]) (
     ret c)))))))))"

definition get_credential :: "nat \<Rightarrow> credential_row svc" where
  "get_credential cid = repo_get_or_raise credential_model ''credential'' cid"

definition list_credentials ::
  "page_params \<Rightarrow> sort_params option \<Rightarrow> string option \<Rightarrow> string option \<Rightarrow> string option \<Rightarrow> credential_row page svc" where
  "list_credentials pg srt provider ptype st =
     repo_list_page credential_model pg srt (credential_build_filters provider ptype st)"

definition reseal_row :: "encrypted_payload \<Rightarrow> string \<Rightarrow> credential_row \<Rightarrow> credential_row" where
  "reseal_row sealed secret c =
     c\<lparr>crd_ciphertext := ep_ciphertext sealed, crd_nonce := ep_nonce sealed,
       crd_encrypted_dek := ep_encrypted_dek sealed, crd_dek_nonce := ep_dek_nonce sealed,
       crd_key_version := ep_key_version sealed, crd_masked_hint := mask_secret secret,
       crd_status := CS_CONFIGURED, crd_last_verified_at := None\<rparr>"

definition credential_aad :: "credential_row \<Rightarrow> string" where
  "credential_aad c = build_credential_aad (crd_tenant_id c) (crd_id c) (crd_provider c)"

definition reseal :: "credential_service \<Rightarrow> credential_row \<Rightarrow> string \<Rightarrow> credential_row svc" where
  "reseal sv c secret =
     ebind fresh_id (\<lambda>k.
     ebind (lift_sum (encrypt (ct_encryption sv) (ct_entropy sv k) secret (credential_aad c))) (\<lambda>sealed.
     ret (reseal_row sealed secret c)))"

text \<open>The steps of an update: the label, then the secret, then status and metadata, then the flush.\<close>

definition renamed :: "credential_row \<Rightarrow> string option \<Rightarrow> (credential_row \<times> string list) svc" where
  "renamed c l =
     (case l of
        None \<Rightarrow> ret (c, [])
      | Some l \<Rightarrow>
          if l = crd_label c then ret (c, [])
          else ebind (get_by_provider_and_label (crd_provider c) l) (\<lambda>found.
               ethen (raise_if (found \<noteq> None) (credential_exists (crd_provider c) l)) (
               ret (c\<lparr>crd_label := l\<rparr>, [''label'']))))"

definition restated :: "credential_update \<Rightarrow> credential_row \<times> string list \<Rightarrow> credential_row \<times> string list" where
  "restated u x =
     (let (c3, l3) = edit_field ''status'' (cu_status u) (\<lambda>r v. crd_status r = v) (\<lambda>v r. r\<lparr>crd_status := v\<rparr>) x
      in case cu_provider_metadata u of None \<Rightarrow> (c3, l3) | Some m \<Rightarrow> (c3\<lparr>crd_provider_metadata := m\<rparr>, l3 @ [''metadata'']))"

definition stored_update :: "nat \<Rightarrow> credential_row \<times> string list \<Rightarrow> credential_row svc" where
  "stored_update cid x =
     (case x of (c4, l4) \<Rightarrow>
     ethen (repo_save credential_model c4) (
     ethen flush_credentials (
     ethen (audit_on (if ''secret'' \<in> set l4 then A_CREDENTIAL_ROTATED else A_CREDENTIAL_UPDATED) ''credential'' cid
              [(''provider'', JStr (crd_provider c4)), (''label'', JStr (crd_label c4)),
               (''changed_fields'', JList (map JStr l4)),
               (''status'', JStr (credential_status_value (crd_status c4))),
               (''key_version'', JInt (crd_key_version c4))]) (
     ret c4))))"

definition update_credential :: "credential_service \<Rightarrow> nat \<Rightarrow> credential_update \<Rightarrow> credential_row svc" where
  "update_credential sv cid u =
     ebind (get_credential cid) (\<lambda>c.
     ebind (renamed c (cu_label u)) (\<lambda>(c1, l1).
     ebind (case cu_secret u of None \<Rightarrow> ret (c1, l1) | Some s \<Rightarrow> ebind (reseal sv c1 s) (\<lambda>r. ret (r, l1 @ [''secret''])))
       (\<lambda>x. stored_update cid (restated u x))))"

definition delete_credential :: "nat \<Rightarrow> unit svc" where
  "delete_credential cid =
     ebind (get_credential cid) (\<lambda>c.
     ebind (uses_credential cid) (\<lambda>used.
     ethen (raise_if used (err_coded BusinessRuleError
              ''This credential is still referenced by an AI configuration. Point that configuration at another credential first.''
              ''CREDENTIAL_IN_USE'')) (
     ethen (repo_delete credential_model c) (
     ethen flush_credentials (
     audit_on A_CREDENTIAL_DELETED ''credential'' cid
       [(''provider'', JStr (crd_provider c)), (''label'', JStr (crd_label c))])))))"

section \<open>Secrets\<close>

definition sealed_of :: "credential_row \<Rightarrow> encrypted_payload" where
  "sealed_of c =
     \<lparr>ep_ciphertext = crd_ciphertext c, ep_nonce = crd_nonce c, ep_encrypted_dek = crd_encrypted_dek c,
      ep_dek_nonce = crd_dek_nonce c, ep_key_version = crd_key_version c\<rparr>"

definition resolve_secret :: "credential_service \<Rightarrow> credential_row \<Rightarrow> exn + string" where
  "resolve_secret sv c = decrypt (ct_encryption sv) (sealed_of c) (credential_aad c)"

definition resolve_for_provider :: "credential_service \<Rightarrow> string \<Rightarrow> (credential_row \<times> string) svc" where
  "resolve_for_provider sv provider =
     ebind (get_usable_for_provider provider) (\<lambda>found. case found of
       None \<Rightarrow> raise (AppExn (app_error_init CredentialNotConfiguredError
                (Some (''No usable '' @ [CHR 0x27] @ provider @ [CHR 0x27]
                  @ '' credential is configured for this workspace. Add one with POST /api/v1/credentials.''))
                None (Some [(''provider'', JStr provider)]) None))
     | Some c \<Rightarrow> ebind (lift_sum (resolve_secret sv c)) (\<lambda>s. ret (c, s)))"

definition get_secret_for_credential :: "credential_service \<Rightarrow> nat \<Rightarrow> (credential_row \<times> string) svc" where
  "get_secret_for_credential sv cid =
     ebind (get_credential cid) (\<lambda>c.
     ethen (raise_if (crd_status c = CS_DISABLED)
              (AppExn (coded_error CredentialNotConfiguredError ''That credential is disabled'' ''CREDENTIAL_DISABLED''
                 [(''credential_id'', JId cid)]))) (
     ebind (lift_sum (resolve_secret sv c)) (\<lambda>s. ret (c, s))))"

definition mark_verification :: "credential_row \<Rightarrow> bool \<Rightarrow> string option \<Rightarrow> credential_row svc" where
  "mark_verification c verified error_code =
     ebind now (\<lambda>n.
     let c' = c\<lparr>crd_status := (if verified then CS_VERIFIED else CS_INVALID),
                crd_last_verified_at := (if verified then Some n else crd_last_verified_at c)\<rparr> in
     ethen (repo_save credential_model c') (
     ethen flush_credentials (
     ethen (audit_on A_CREDENTIAL_VERIFIED ''credential'' (crd_id c)
              [(''provider'', JStr (crd_provider c)), (''label'', JStr (crd_label c)),
               (''verified'', JBool verified), (''error_code'', json_opt JStr error_code)]) (
     ret c'))))"

text \<open>\<open>str(v)\<close> of a JSON value; \<open>render\<close> is Python's rendering of floats and containers.\<close>

fun py_str :: "(json \<Rightarrow> string) \<Rightarrow> json \<Rightarrow> string" where
  "py_str render JNull = ''None''"
| "py_str render (JBool b) = (if b then ''True'' else ''False'')"
| "py_str render (JInt n) = show_int n"
| "py_str render (JStr s) = s"
| "py_str render v = render v"

definition metadata_base_url :: "(json \<Rightarrow> string) \<Rightarrow> credential_row \<Rightarrow> string" where
  "metadata_base_url render c =
     (case map_of (crd_provider_metadata c) ''base_url'' of
        None \<Rightarrow> []
      | Some v \<Rightarrow> if json_truthy v then py_str render v else [])"

end
