(* ===== verification/AiProviders.thy ===== *)
theory AiProviders
  imports HttpClient Credentials Qualification
begin

text \<open>
  The AI provider contract and its five adapters: \<open>integrations/ai/base.py\<close>, \<open>http_provider.py\<close> and
  \<open>providers.py\<close>.  An adapter is an \<open>ai_client\<close>; the methods that differ between the classes are
  functions of its kind.  Answers of a vendor are arbitrary JSON, read as Python reads it: what is not a
  dict, a list or a text where the code expects one raises AttributeError, TypeError or KeyError
  (\<open>RuntimeExn\<close>).  Parsing and rendering of JSON and numbers by the standard library is the parameter
  \<open>py_lib\<close>; the monotonic clock is a function of the \<open>net\<close>.
\<close>

section \<open>Requests and results\<close>

record generation_request =
  gq_prompt :: string
  gq_model :: string
  gq_system :: "string option"
  gq_max_tokens :: int
  gq_temperature :: rat
  gq_json_output :: bool
  gq_extra :: "(string \<times> json) list"

record generation_result =
  gr_text :: string
  gr_model :: string
  gr_provider :: string
  gr_input_tokens :: json
  gr_output_tokens :: json
  gr_finish_reason :: json
  gr_provider_request_id :: json
  gr_latency_ms :: "int option"

record embedding_request =
  er_texts :: "string list"
  er_model :: string
  er_extra :: "(string \<times> json) list"

record embedding_result =
  ev_vectors :: "json list list"
  ev_model :: string
  ev_provider :: string
  ev_input_tokens :: json
  ev_latency_ms :: "int option"

definition default_max_tokens :: int where
  "default_max_tokens = 2048"

definition default_temperature :: rat where
  "default_temperature = 2 / 5"

section \<open>Reading JSON\<close>

record py_lib =
  pl_parse :: "string \<Rightarrow> json option"
  pl_render :: "json \<Rightarrow> string"
  pl_float :: "string \<Rightarrow> rat option"
  pl_int :: "string \<Rightarrow> int option"

definition py_or :: "json \<Rightarrow> json \<Rightarrow> json" where
  "py_or v d = (if json_truthy v then v else d)"

definition attr_get :: "json \<Rightarrow> string \<Rightarrow> exn + json" where
  "attr_get v k = (case v of JObj fs \<Rightarrow> Inr (json_get fs k) | _ \<Rightarrow> Inl (RuntimeExn ''AttributeError''))"

definition item_0 :: "json \<Rightarrow> exn + json" where
  "item_0 v =
     (case v of
        JList (x # _) \<Rightarrow> Inr x
      | JList [] \<Rightarrow> Inl (RuntimeExn ''IndexError'')
      | JStr (c # _) \<Rightarrow> Inr (JStr [c])
      | JStr [] \<Rightarrow> Inl (RuntimeExn ''IndexError'')
      | JObj _ \<Rightarrow> Inl (RuntimeExn ''KeyError'')
      | _ \<Rightarrow> Inl (RuntimeExn ''TypeError''))"

definition iterate :: "json \<Rightarrow> exn + json list" where
  "iterate v =
     (case v of
        JList xs \<Rightarrow> Inr xs
      | JStr s \<Rightarrow> Inr (map (\<lambda>c. JStr [c]) s)
      | JObj fs \<Rightarrow> Inr (map (\<lambda>(k, _). JStr k) fs)
      | _ \<Rightarrow> Inl (RuntimeExn ''TypeError''))"

fun map_exn :: "('a \<Rightarrow> exn + 'b) \<Rightarrow> 'a list \<Rightarrow> exn + 'b list" where
  "map_exn f [] = Inr []"
| "map_exn f (x # xs) =
     (case f x of Inl e \<Rightarrow> Inl e | Inr y \<Rightarrow> (case map_exn f xs of Inl e \<Rightarrow> Inl e | Inr ys \<Rightarrow> Inr (y # ys)))"

definition py_float :: "py_lib \<Rightarrow> json \<Rightarrow> exn + rat" where
  "py_float py v =
     (case v of
        JInt n \<Rightarrow> Inr (of_int n)
      | JRat r \<Rightarrow> Inr r
      | JBool b \<Rightarrow> Inr (if b then 1 else 0)
      | JStr s \<Rightarrow> (case pl_float py s of Some r \<Rightarrow> Inr r | None \<Rightarrow> Inl (ValueExn ''could not convert string to float''))
      | _ \<Rightarrow> Inl (RuntimeExn ''TypeError''))"

definition py_int :: "py_lib \<Rightarrow> json \<Rightarrow> exn + int" where
  "py_int py v =
     (case v of
        JInt n \<Rightarrow> Inr n
      | JRat r \<Rightarrow> Inr (if 0 \<le> r then \<lfloor>r\<rfloor> else - \<lfloor>- r\<rfloor>)
      | JBool b \<Rightarrow> Inr (if b then 1 else 0)
      | JStr s \<Rightarrow> (case pl_int py s of Some n \<Rightarrow> Inr n | None \<Rightarrow> Inl (ValueExn ''invalid literal for int()''))
      | _ \<Rightarrow> Inl (RuntimeExn ''TypeError''))"

section \<open>Adapters\<close>

record ai_env =
  ai_http :: http_env
  ai_py :: py_lib
  ai_clock :: "net \<Rightarrow> rat"

record ai_client =
  cl_kind :: ai_provider
  cl_api_key :: string
  cl_base_url :: string

definition default_base_url :: "ai_provider \<Rightarrow> string option" where
  "default_base_url k =
     (case k of
        AP_OPENAI \<Rightarrow> Some ''https://api.openai.com/v1''
      | AP_ANTHROPIC \<Rightarrow> Some ''https://api.anthropic.com/v1''
      | AP_GEMINI \<Rightarrow> Some ''https://generativelanguage.googleapis.com/v1beta''
      | AP_OPENROUTER \<Rightarrow> Some ''https://openrouter.ai/api/v1''
      | AP_CUSTOM \<Rightarrow> None)"

definition rstrip_slash :: "string \<Rightarrow> string" where
  "rstrip_slash s = rev (dropWhile (\<lambda>c. c = CHR ''/'') (rev s))"

text \<open>The constructors; a missing \<open>base_url\<close> of the custom adapter is Python's TypeError.\<close>

definition make_client :: "ai_provider \<Rightarrow> string \<Rightarrow> string option \<Rightarrow> exn + ai_client" where
  "make_client k key url =
     (case (case url of Some u \<Rightarrow> Some u | None \<Rightarrow> default_base_url k) of
        None \<Rightarrow> Inl (RuntimeExn ''TypeError'')
      | Some u \<Rightarrow>
          if k = AP_CUSTOM \<and> u = []
          then Inl (AppExn (app_error_init ProviderError
                 (Some ''A custom AI provider requires metadata.base_url on its credential'')
                 (Some ''PROVIDER_BASE_URL_REQUIRED'') None (Some 422)))
          else Inr \<lparr>cl_kind = k, cl_api_key = key, cl_base_url = rstrip_slash u\<rparr>)"

definition provider_key :: "ai_client \<Rightarrow> string" where
  "provider_key cl = ai_provider_value (cl_kind cl)"

definition credential_statuses :: "int list" where
  "credential_statuses = [401, 403]"

definition error_for :: "string \<Rightarrow> int \<Rightarrow> exn" where
  "error_for key status =
     (let both = [(''provider'', JStr key), (''provider_status'', JInt status)] in
      if status \<in> set credential_statuses
      then AppExn (app_error_init ProviderError (Some (''The configured '' @ key @ '' credential was rejected''))
             (Some ''PROVIDER_CREDENTIAL_REJECTED'') (Some both) (Some 422))
      else if status = 429
      then AppExn (app_error_init ProviderError (Some (key @ '' rate limit reached; try again shortly''))
             (Some ''PROVIDER_RATE_LIMITED'') (Some [(''provider'', JStr key)]) (Some 429))
      else if status \<ge> 500
      then AppExn (app_error_init ProviderUnavailableError (Some (key @ '' is temporarily unavailable'')) None
             (Some both) None)
      else AppExn (app_error_init ProviderError (Some (key @ '' rejected the request''))
             (Some ''PROVIDER_REQUEST_REJECTED'') (Some both) None))"

definition provider_post ::
  "ai_env \<Rightarrow> ai_client \<Rightarrow> string \<Rightarrow> (string \<times> json) list \<Rightarrow> (string \<times> string) list \<Rightarrow> ((string \<times> json) list \<times> int) online" where
  "provider_post env cl path payload headers =
     ebind (gets (ai_clock env)) (\<lambda>started.
     ebind (post_json (ai_http env) (cl_base_url cl @ path) (JObj payload) headers) (\<lambda>response.
     ebind (gets (ai_clock env)) (\<lambda>finished.
     if \<not> resp_is_success response then raise (error_for (provider_key cl) (resp_status response))
     else ebind (lift_sum (resp_json (pl_parse (ai_py env)) response)) (\<lambda>body. case body of
            JObj fs \<Rightarrow> ret (fs, \<lfloor>(finished - started) * 1000\<rfloor>)
          | _ \<Rightarrow> raise (err_coded ProviderError (provider_key cl @ '' returned an unexpected response shape'')
                   ''PROVIDER_BAD_RESPONSE'')))))"

definition require_text :: "json \<Rightarrow> string \<Rightarrow> exn + string" where
  "require_text txt key =
     (let blank = Inl (AppExn (coded_error ProviderError (key @ '' returned an empty completion'')
                    ''PROVIDER_EMPTY_RESPONSE'' [(''provider'', JStr key)])) in
      if \<not> json_truthy txt then blank
      else case txt of
        JStr s \<Rightarrow> if str_strip s = [] then blank else Inr (str_strip s)
      | _ \<Rightarrow> Inl (RuntimeExn ''AttributeError''))"

definition anthropic_api_version :: string where
  "anthropic_api_version = ''2023-06-01''"

definition client_headers :: "ai_client \<Rightarrow> (string \<times> string) list" where
  "client_headers cl =
     (case cl_kind cl of
        AP_ANTHROPIC \<Rightarrow> [(''x-api-key'', cl_api_key cl), (''anthropic-version'', anthropic_api_version)]
      | AP_GEMINI \<Rightarrow> [(''x-goog-api-key'', cl_api_key cl)]
      | AP_OPENROUTER \<Rightarrow> [(''Authorization'', ''Bearer '' @ cl_api_key cl),
                            (''HTTP-Referer'', ''https://buildseo.example''), (''X-Title'', ''BuildSEO'')]
      | _ \<Rightarrow> [(''Authorization'', ''Bearer '' @ cl_api_key cl)])"

definition role_message :: "string \<Rightarrow> string \<Rightarrow> json" where
  "role_message role content = JObj [(''role'', JStr role), (''content'', JStr content)]"

section \<open>OpenAI and what is compatible with it\<close>

definition openai_payload :: "generation_request \<Rightarrow> (string \<times> json) list" where
  "openai_payload rq =
     dict_merge
       ([(''model'', JStr (gq_model rq)),
         (''messages'', JList ((case gq_system rq of
                                  None \<Rightarrow> [] | Some s \<Rightarrow> if s = [] then [] else [role_message ''system'' s])
                                @ [role_message ''user'' (gq_prompt rq)])),
         (''max_completion_tokens'', JInt (gq_max_tokens rq)),
         (''temperature'', JRat (gq_temperature rq))]
        @ (if gq_json_output rq then [(''response_format'', JObj [(''type'', JStr ''json_object'')])] else []))
       (gq_extra rq)"

definition openai_result ::
  "py_lib \<Rightarrow> string \<Rightarrow> generation_request \<Rightarrow> (string \<times> json) list \<Rightarrow> int \<Rightarrow> exn + generation_result" where
  "openai_result py key rq body elapsed =
     (let choices = py_or (json_get body ''choices'') (JList []) in
      if \<not> json_truthy choices
      then Inl (err_coded ProviderError ''OpenAI returned no choices'' ''PROVIDER_EMPTY_RESPONSE'')
      else case item_0 choices of Inl e \<Rightarrow> Inl e | Inr choice \<Rightarrow>
      case attr_get choice ''message'' of Inl e \<Rightarrow> Inl e | Inr m \<Rightarrow>
      let message = py_or m (JObj []); usage = py_or (json_get body ''usage'') (JObj []) in
      case attr_get message ''content'' of Inl e \<Rightarrow> Inl e | Inr content \<Rightarrow>
      case require_text content key of Inl e \<Rightarrow> Inl e | Inr txt \<Rightarrow>
      case attr_get usage ''prompt_tokens'' of Inl e \<Rightarrow> Inl e | Inr input_tokens \<Rightarrow>
      case attr_get usage ''completion_tokens'' of Inl e \<Rightarrow> Inl e | Inr output_tokens \<Rightarrow>
      case attr_get choice ''finish_reason'' of Inl e \<Rightarrow> Inl e | Inr finish \<Rightarrow>
      Inr \<lparr>gr_text = txt, gr_model = py_str (pl_render py) (py_or (json_get body ''model'') (JStr (gq_model rq))),
           gr_provider = key, gr_input_tokens = input_tokens, gr_output_tokens = output_tokens,
           gr_finish_reason = finish, gr_provider_request_id = json_get body ''id'', gr_latency_ms = Some elapsed\<rparr>)"

definition openai_generate :: "ai_env \<Rightarrow> ai_client \<Rightarrow> generation_request \<Rightarrow> generation_result online" where
  "openai_generate env cl rq =
     ebind (provider_post env cl ''/chat/completions'' (openai_payload rq) (client_headers cl)) (\<lambda>(body, elapsed).
     lift_sum (openai_result (ai_py env) (provider_key cl) rq body elapsed))"

definition row_vector :: "json \<Rightarrow> exn + json list" where
  "row_vector row =
     (case attr_get row ''embedding'' of Inl e \<Rightarrow> Inl e | Inr v \<Rightarrow> iterate (py_or v (JList [])))"

definition openai_embed :: "ai_env \<Rightarrow> ai_client \<Rightarrow> embedding_request \<Rightarrow> embedding_result online" where
  "openai_embed env cl rq =
     ebind (provider_post env cl ''/embeddings''
              (dict_merge [(''model'', JStr (er_model rq)), (''input'', JList (map JStr (er_texts rq)))] (er_extra rq))
              (client_headers cl)) (\<lambda>(body, elapsed).
     ebind (lift_sum (iterate (py_or (json_get body ''data'') (JList [])))) (\<lambda>rows.
     ebind (lift_sum (map_exn row_vector rows)) (\<lambda>vectors.
     ebind (lift_sum (attr_get (py_or (json_get body ''usage'') (JObj [])) ''prompt_tokens'')) (\<lambda>input_tokens.
     ret \<lparr>ev_vectors = vectors,
          ev_model = py_str (pl_render (ai_py env)) (py_or (json_get body ''model'') (JStr (er_model rq))),
          ev_provider = provider_key cl, ev_input_tokens = input_tokens, ev_latency_ms = Some elapsed\<rparr>))))"

section \<open>Anthropic\<close>

definition json_instruction :: string where
  "json_instruction = ''Respond with a single valid JSON object and nothing else.''"

definition two_newlines :: string where
  "two_newlines = [CHR 0x0A, CHR 0x0A]"

definition anthropic_system :: "generation_request \<Rightarrow> string option" where
  "anthropic_system rq =
     (if gq_json_output rq
      then Some (if truthy (gq_system rq) then the (gq_system rq) @ two_newlines @ json_instruction else json_instruction)
      else gq_system rq)"

definition anthropic_payload :: "generation_request \<Rightarrow> (string \<times> json) list" where
  "anthropic_payload rq =
     dict_merge
       ([(''model'', JStr (gq_model rq)), (''max_tokens'', JInt (gq_max_tokens rq)),
         (''messages'', JList [role_message ''user'' (gq_prompt rq)])]
        @ (if truthy (anthropic_system rq) then [(''system'', JStr (the (anthropic_system rq)))] else []))
       (gq_extra rq)"

definition dict_text :: "py_lib \<Rightarrow> (string \<times> json) list \<Rightarrow> string" where
  "dict_text py fs = (case map_of fs ''text'' of None \<Rightarrow> [] | Some v \<Rightarrow> py_str (pl_render py) v)"

definition block_text :: "py_lib \<Rightarrow> json \<Rightarrow> string" where
  "block_text py b =
     (case b of
        JObj fs \<Rightarrow> if map_of fs ''type'' = Some (JStr ''text'') then dict_text py fs else []
      | _ \<Rightarrow> [])"

definition anthropic_result ::
  "py_lib \<Rightarrow> string \<Rightarrow> generation_request \<Rightarrow> (string \<times> json) list \<Rightarrow> int \<Rightarrow> exn + generation_result" where
  "anthropic_result py key rq body elapsed =
     (case iterate (py_or (json_get body ''content'') (JList [])) of Inl e \<Rightarrow> Inl e | Inr blocks \<Rightarrow>
      let usage = py_or (json_get body ''usage'') (JObj []) in
      case require_text (JStr (concat (map (block_text py) blocks))) key of Inl e \<Rightarrow> Inl e | Inr txt \<Rightarrow>
      case attr_get usage ''input_tokens'' of Inl e \<Rightarrow> Inl e | Inr input_tokens \<Rightarrow>
      case attr_get usage ''output_tokens'' of Inl e \<Rightarrow> Inl e | Inr output_tokens \<Rightarrow>
      Inr \<lparr>gr_text = txt, gr_model = py_str (pl_render py) (py_or (json_get body ''model'') (JStr (gq_model rq))),
           gr_provider = key, gr_input_tokens = input_tokens, gr_output_tokens = output_tokens,
           gr_finish_reason = json_get body ''stop_reason'', gr_provider_request_id = json_get body ''id'',
           gr_latency_ms = Some elapsed\<rparr>)"

definition anthropic_generate :: "ai_env \<Rightarrow> ai_client \<Rightarrow> generation_request \<Rightarrow> generation_result online" where
  "anthropic_generate env cl rq =
     ebind (provider_post env cl ''/messages'' (anthropic_payload rq) (client_headers cl)) (\<lambda>(body, elapsed).
     lift_sum (anthropic_result (ai_py env) (provider_key cl) rq body elapsed))"

section \<open>Gemini\<close>

definition parts_of :: "string \<Rightarrow> json" where
  "parts_of s = JList [JObj [(''text'', JStr s)]]"

definition gemini_payload :: "generation_request \<Rightarrow> (string \<times> json) list" where
  "gemini_payload rq =
     dict_merge
       ([(''contents'', JList [JObj [(''role'', JStr ''user''), (''parts'', parts_of (gq_prompt rq))]]),
         (''generationConfig'', JObj ([(''maxOutputTokens'', JInt (gq_max_tokens rq)),
                                       (''temperature'', JRat (gq_temperature rq))]
            @ (if gq_json_output rq then [(''responseMimeType'', JStr ''application/json'')] else [])))]
        @ (if truthy (gq_system rq)
           then [(''systemInstruction'', JObj [(''parts'', parts_of (the (gq_system rq)))])] else []))
       (gq_extra rq)"

definition part_text :: "py_lib \<Rightarrow> json \<Rightarrow> string" where
  "part_text py p = (case p of JObj fs \<Rightarrow> dict_text py fs | _ \<Rightarrow> [])"

definition gemini_result ::
  "py_lib \<Rightarrow> string \<Rightarrow> generation_request \<Rightarrow> (string \<times> json) list \<Rightarrow> int \<Rightarrow> exn + generation_result" where
  "gemini_result py key rq body elapsed =
     (let candidates = py_or (json_get body ''candidates'') (JList []) in
      if \<not> json_truthy candidates
      then Inl (AppExn (coded_error ProviderError ''Gemini returned no candidates; the request may have been filtered''
             ''PROVIDER_EMPTY_RESPONSE'' [(''provider'', JStr key)]))
      else case item_0 candidates of Inl e \<Rightarrow> Inl e | Inr candidate \<Rightarrow>
      case attr_get candidate ''content'' of Inl e \<Rightarrow> Inl e | Inr content \<Rightarrow>
      case attr_get (py_or content (JObj [])) ''parts'' of Inl e \<Rightarrow> Inl e | Inr ps \<Rightarrow>
      case iterate (py_or ps (JList [])) of Inl e \<Rightarrow> Inl e | Inr parts \<Rightarrow>
      let usage = py_or (json_get body ''usageMetadata'') (JObj []) in
      case require_text (JStr (concat (map (part_text py) parts))) key of Inl e \<Rightarrow> Inl e | Inr txt \<Rightarrow>
      case attr_get usage ''promptTokenCount'' of Inl e \<Rightarrow> Inl e | Inr input_tokens \<Rightarrow>
      case attr_get usage ''candidatesTokenCount'' of Inl e \<Rightarrow> Inl e | Inr output_tokens \<Rightarrow>
      case attr_get candidate ''finishReason'' of Inl e \<Rightarrow> Inl e | Inr finish \<Rightarrow>
      Inr \<lparr>gr_text = txt,
           gr_model = py_str (pl_render py) (py_or (json_get body ''modelVersion'') (JStr (gq_model rq))),
           gr_provider = key, gr_input_tokens = input_tokens, gr_output_tokens = output_tokens,
           gr_finish_reason = finish, gr_provider_request_id = json_get body ''responseId'',
           gr_latency_ms = Some elapsed\<rparr>)"

definition gemini_generate :: "ai_env \<Rightarrow> ai_client \<Rightarrow> generation_request \<Rightarrow> generation_result online" where
  "gemini_generate env cl rq =
     ebind (provider_post env cl (''/models/'' @ gq_model rq @ '':generateContent'') (gemini_payload rq) (client_headers cl))
       (\<lambda>(body, elapsed). lift_sum (gemini_result (ai_py env) (provider_key cl) rq body elapsed))"

definition gemini_vector :: "py_lib \<Rightarrow> (string \<times> json) list \<Rightarrow> exn + json list" where
  "gemini_vector py body =
     (case attr_get (py_or (json_get body ''embedding'') (JObj [])) ''values'' of Inl e \<Rightarrow> Inl e | Inr v \<Rightarrow>
      case iterate (py_or v (JList [])) of Inl e \<Rightarrow> Inl e | Inr xs \<Rightarrow>
      case map_exn (py_float py) xs of Inl e \<Rightarrow> Inl e | Inr rs \<Rightarrow> Inr (map JRat rs))"

fun gemini_vectors :: "ai_env \<Rightarrow> ai_client \<Rightarrow> string \<Rightarrow> string list \<Rightarrow> (json list list \<times> int) online" where
  "gemini_vectors env cl model [] = ret ([], 0)"
| "gemini_vectors env cl model (txt # txts) =
     ebind (provider_post env cl (''/models/'' @ model @ '':embedContent'')
              [(''content'', JObj [(''parts'', parts_of txt)])] (client_headers cl)) (\<lambda>(body, elapsed).
     ebind (lift_sum (gemini_vector (ai_py env) body)) (\<lambda>v.
     ebind (gemini_vectors env cl model txts) (\<lambda>(vs, total).
     ret (v # vs, elapsed + total))))"

definition gemini_embed :: "ai_env \<Rightarrow> ai_client \<Rightarrow> embedding_request \<Rightarrow> embedding_result online" where
  "gemini_embed env cl rq =
     ebind (gemini_vectors env cl (er_model rq) (er_texts rq)) (\<lambda>(vs, total).
     ret \<lparr>ev_vectors = vs, ev_model = er_model rq, ev_provider = provider_key cl,
          ev_input_tokens = JNull, ev_latency_ms = Some total\<rparr>)"

section \<open>The protocol\<close>

definition embedding_not_supported :: "string \<Rightarrow> string \<Rightarrow> exn" where
  "embedding_not_supported msg key =
     AppExn (coded_error ProviderNotSupportedError msg ''EMBEDDING_NOT_SUPPORTED'' [(''provider'', JStr key)])"

definition ai_generate :: "ai_env \<Rightarrow> ai_client \<Rightarrow> generation_request \<Rightarrow> generation_result online" where
  "ai_generate env cl rq =
     (case cl_kind cl of
        AP_ANTHROPIC \<Rightarrow> anthropic_generate env cl rq
      | AP_GEMINI \<Rightarrow> gemini_generate env cl rq
      | _ \<Rightarrow> openai_generate env cl rq)"

definition ai_embed :: "ai_env \<Rightarrow> ai_client \<Rightarrow> embedding_request \<Rightarrow> embedding_result online" where
  "ai_embed env cl rq =
     (case cl_kind cl of
        AP_ANTHROPIC \<Rightarrow> raise (embedding_not_supported
          ''Anthropic does not provide an embedding endpoint. Configure a different provider for the 'embedding' purpose.''
          (provider_key cl))
      | AP_OPENROUTER \<Rightarrow> raise (embedding_not_supported
          ''OpenRouter does not expose an embedding endpoint. Configure a different provider for the 'embedding' purpose.''
          (provider_key cl))
      | AP_GEMINI \<Rightarrow> gemini_embed env cl rq
      | _ \<Rightarrow> openai_embed env cl rq)"

definition default_models :: "(string \<times> string) list" where
  "default_models =
     [(''openai'', ''gpt-4o''), (''anthropic'', ''claude-opus-5''), (''gemini'', ''gemini-2.5-pro''),
      (''openrouter'', ''anthropic/claude-opus-5'')]"

definition default_embedding_models :: "(string \<times> string) list" where
  "default_embedding_models = [(''openai'', ''text-embedding-3-small''), (''gemini'', ''text-embedding-004'')]"

end
