(* ===== verification/AiUsage.thy ===== *)
theory AiUsage
  imports AiProviders Scoring "HOL-Library.Product_Lexorder" "HOL-Library.List_Lexorder" "HOL-Library.Char_ord"
begin

text \<open>
  AI usage accounting, \<open>integrations/ai/usage.py\<close> with \<open>repositories/ai_usage.py\<close>: the cost estimate, the
  append-only ledger and its per-model rollup.  Amounts are exact rationals, rounded as Python rounds.
\<close>

section \<open>Cost\<close>

record model_price =
  mp_input :: rat
  mp_output :: rat

definition price :: "rat \<Rightarrow> rat \<Rightarrow> model_price" where
  "price i p = \<lparr>mp_input = i, mp_output = p\<rparr>"

definition model_prices :: "(string \<times> model_price) list" where
  "model_prices =
     [(''gpt-4o'', price (250/100) 10), (''gpt-4o-mini'', price (15/100) (60/100)),
      (''text-embedding-3-small'', price (2/100) 0), (''text-embedding-3-large'', price (13/100) 0),
      (''claude-opus-5'', price 5 25), (''claude-sonnet-5'', price 2 10), (''claude-haiku-4-5'', price 1 5),
      (''gemini-2.5-pro'', price (125/100) 10), (''gemini-2.5-flash'', price (30/100) (250/100))]"

definition round6 :: "rat \<Rightarrow> rat" where
  "round6 x = of_int (round_even (x * 1000000)) / 1000000"

text \<open>A token count as the provider sent it: \<open>(tokens or 0) / 1_000_000\<close>.\<close>

definition token_number :: "json \<Rightarrow> exn + rat" where
  "token_number v =
     (case py_or v (JInt 0) of
        JInt n \<Rightarrow> Inr (of_int n)
      | JRat r \<Rightarrow> Inr r
      | JBool b \<Rightarrow> Inr (if b then 1 else 0)
      | _ \<Rightarrow> Inl (RuntimeExn ''TypeError''))"

definition estimate_cost :: "string \<Rightarrow> json \<Rightarrow> json \<Rightarrow> exn + rat option" where
  "estimate_cost model input_tokens output_tokens =
     (case map_of model_prices model of
        None \<Rightarrow> Inr None
      | Some p \<Rightarrow>
          if input_tokens = JNull \<and> output_tokens = JNull then Inr None
          else case token_number input_tokens of Inl e \<Rightarrow> Inl e | Inr i \<Rightarrow>
               case token_number output_tokens of Inl e \<Rightarrow> Inl e | Inr k \<Rightarrow>
               Inr (Some (round6 (i / 1000000 * mp_input p + k / 1000000 * mp_output p))))"

section \<open>The ledger\<close>

text \<open>The count checks of the table; what is no integer does not fit the column and the flush raises.\<close>

definition usage_ok :: "db \<Rightarrow> bool" where
  "usage_ok d =
     list_all (\<lambda>u. (case aiu_input_tokens u of None \<Rightarrow> True | Some n \<Rightarrow> 0 \<le> n)
                 \<and> (case aiu_output_tokens u of None \<Rightarrow> True | Some n \<Rightarrow> 0 \<le> n)
                 \<and> (case aiu_estimated_cost u of None \<Rightarrow> True | Some c \<Rightarrow> 0 \<le> c)) (ai_usage_records d)"

definition flush_usage :: "unit svc" where
  "flush_usage = flush_check usage_ok ''ai_usage_records''"

definition token_column :: "json \<Rightarrow> exn + int option" where
  "token_column v =
     (case v of
        JNull \<Rightarrow> Inr None
      | JInt n \<Rightarrow> Inr (Some n)
      | JBool b \<Rightarrow> Inr (Some (if b then 1 else 0))
      | _ \<Rightarrow> Inl (RuntimeExn ''DBAPIError''))"

record usage_entry =
  ue_provider :: string
  ue_model :: string
  ue_operation :: ai_operation
  ue_purpose :: "string option"
  ue_input_tokens :: json
  ue_output_tokens :: json
  ue_latency_ms :: "int option"
  ue_status :: ai_usage_status
  ue_error_code :: "string option"

definition usage_row ::
  "usage_entry \<Rightarrow> int option \<Rightarrow> int option \<Rightarrow> rat option \<Rightarrow> request_context \<Rightarrow> nat \<Rightarrow> nat \<Rightarrow> int \<Rightarrow> ai_usage_row" where
  "usage_row e i k cost c rid t n =
     \<lparr>aiu_id = rid, aiu_tenant_id = t, aiu_provider = ue_provider e, aiu_model = ue_model e,
      aiu_operation = ue_operation e, aiu_purpose = ue_purpose e, aiu_input_tokens = i, aiu_output_tokens = k,
      aiu_estimated_cost = cost, aiu_request_id = rc_request_id c, aiu_status = ue_status e,
      aiu_error_code = ue_error_code e, aiu_latency_ms = ue_latency_ms e, aiu_created_at = n\<rparr>"

definition record_usage :: "usage_entry \<Rightarrow> ai_usage_row svc" where
  "record_usage e =
     ebind (lift_sum (estimate_cost (ue_model e) (ue_input_tokens e) (ue_output_tokens e))) (\<lambda>cost.
     ebind (lift_sum (token_column (ue_input_tokens e))) (\<lambda>i.
     ebind (lift_sum (token_column (ue_output_tokens e))) (\<lambda>k.
     ebind (gets w_ctx) (\<lambda>c.
     ebind (repo_new ai_usage_model (usage_row e i k cost c)) (\<lambda>row.
     ethen flush_usage (ret row))))))"

definition record_generation :: "generation_result \<Rightarrow> string option \<Rightarrow> ai_usage_row svc" where
  "record_generation r purpose =
     record_usage \<lparr>ue_provider = gr_provider r, ue_model = gr_model r, ue_operation = AO_GENERATE,
       ue_purpose = purpose, ue_input_tokens = gr_input_tokens r, ue_output_tokens = gr_output_tokens r,
       ue_latency_ms = gr_latency_ms r, ue_status = AS_SUCCEEDED, ue_error_code = None\<rparr>"

definition record_embedding :: "embedding_result \<Rightarrow> string option \<Rightarrow> ai_usage_row svc" where
  "record_embedding r purpose =
     record_usage \<lparr>ue_provider = ev_provider r, ue_model = ev_model r, ue_operation = AO_EMBED,
       ue_purpose = purpose, ue_input_tokens = ev_input_tokens r, ue_output_tokens = JNull,
       ue_latency_ms = ev_latency_ms r, ue_status = AS_SUCCEEDED, ue_error_code = None\<rparr>"

definition record_failure ::
  "string \<Rightarrow> string \<Rightarrow> ai_operation \<Rightarrow> string \<Rightarrow> string option \<Rightarrow> ai_usage_row svc" where
  "record_failure provider model op cod purpose =
     record_usage \<lparr>ue_provider = provider, ue_model = model, ue_operation = op, ue_purpose = purpose,
       ue_input_tokens = JNull, ue_output_tokens = JNull, ue_latency_ms = None, ue_status = AS_FAILED,
       ue_error_code = Some cod\<rparr>"

section \<open>Reports\<close>

record usage_filters =
  uf_provider :: "string option"
  uf_model :: "string option"
  uf_operation :: "string option"
  uf_status :: "string option"
  uf_since :: "int option"
  uf_until :: "int option"

definition usage_build_filters :: "usage_filters \<Rightarrow> (ai_usage_row \<Rightarrow> bool) list" where
  "usage_build_filters f =
     text_filter (\<lambda>u. Some (aiu_provider u)) (uf_provider f)
     @ text_filter (\<lambda>u. Some (aiu_model u)) (uf_model f)
     @ text_filter (\<lambda>u. Some (ai_operation_value (aiu_operation u))) (uf_operation f)
     @ text_filter (\<lambda>u. Some (ai_usage_status_value (aiu_status u))) (uf_status f)
     @ (case uf_since f of None \<Rightarrow> [] | Some t \<Rightarrow> [\<lambda>u. t \<le> aiu_created_at u])
     @ (case uf_until f of None \<Rightarrow> [] | Some t \<Rightarrow> [\<lambda>u. aiu_created_at u < t])"

definition list_usage :: "page_params \<Rightarrow> sort_params option \<Rightarrow> usage_filters \<Rightarrow> ai_usage_row page svc" where
  "list_usage pg srt f = repo_list_page ai_usage_model pg srt (usage_build_filters f)"

record usage_summary_row =
  us_provider :: string
  us_model :: string
  us_operation :: ai_operation
  us_requests :: nat
  us_input_tokens :: int
  us_output_tokens :: int
  us_estimated_cost :: rat
  us_failures :: nat

definition or_zero :: "'a::zero option \<Rightarrow> 'a" where
  "or_zero x = (case x of None \<Rightarrow> 0 | Some v \<Rightarrow> v)"

definition usage_group :: "ai_usage_row \<Rightarrow> string \<times> string \<times> ai_operation" where
  "usage_group u = (aiu_provider u, aiu_model u, aiu_operation u)"

definition summary_row :: "ai_usage_row list \<Rightarrow> string \<times> string \<times> ai_operation \<Rightarrow> usage_summary_row" where
  "summary_row us g =
     (let mine = filter (\<lambda>u. usage_group u = g) us in
      \<lparr>us_provider = fst g, us_model = fst (snd g), us_operation = snd (snd g), us_requests = length mine,
       us_input_tokens = sum_list (map (\<lambda>u. or_zero (aiu_input_tokens u)) mine),
       us_output_tokens = sum_list (map (\<lambda>u. or_zero (aiu_output_tokens u)) mine),
       us_estimated_cost = sum_list (map (\<lambda>u. or_zero (aiu_estimated_cost u)) mine),
       us_failures = length (filter (\<lambda>u. aiu_status u = AS_FAILED) mine)\<rparr>)"

text \<open>\<open>if since:\<close> keeps every bound that is given: a datetime is always true.\<close>

definition in_window :: "int option \<Rightarrow> int option \<Rightarrow> ai_usage_row \<Rightarrow> bool" where
  "in_window since until u =
     ((case since of None \<Rightarrow> True | Some t \<Rightarrow> t \<le> aiu_created_at u)
      \<and> (case until of None \<Rightarrow> True | Some t \<Rightarrow> aiu_created_at u < t))"

definition summarize :: "ai_usage_row list \<Rightarrow> usage_summary_row list" where
  "summarize us =
     sort_key (\<lambda>r. (us_provider r, us_model r)) (map (summary_row us) (remdups (map usage_group us)))"

record usage_summary =
  sy_rows :: "usage_summary_row list"
  sy_total_requests :: nat
  sy_total_input_tokens :: int
  sy_total_output_tokens :: int
  sy_total_estimated_cost :: rat
  sy_since :: "int option"
  sy_until :: "int option"

definition summary_of :: "usage_summary_row list \<Rightarrow> int option \<Rightarrow> int option \<Rightarrow> usage_summary" where
  "summary_of rows since until =
     \<lparr>sy_rows = rows, sy_total_requests = sum_list (map us_requests rows),
      sy_total_input_tokens = sum_list (map us_input_tokens rows),
      sy_total_output_tokens = sum_list (map us_output_tokens rows),
      sy_total_estimated_cost = round6 (sum_list (map us_estimated_cost rows)),
      sy_since = since, sy_until = until\<rparr>"

definition usage_report :: "int option \<Rightarrow> int option \<Rightarrow> usage_summary svc" where
  "usage_report since until =
     ebind (repo_where ai_usage_model (in_window since until)) (\<lambda>us.
     ret (summary_of (summarize us) since until))"

section \<open>A rollup loses nothing\<close>

lemma sum_over_groups:
  fixes h :: "'a \<Rightarrow> 'b::comm_monoid_add"
  assumes "distinct gs" "g ` set us \<subseteq> set gs"
  shows "sum_list (map (\<lambda>k. sum_list (map h (filter (\<lambda>u. g u = k) us))) gs) = sum_list (map h us)"
proof -
  have "sum_list (map (\<lambda>k. sum_list (map h (filter (\<lambda>u. g u = k) us))) gs)
      = (\<Sum>k\<in>set gs. sum_list (map h (filter (\<lambda>u. g u = k) us)))"
    by (rule sum_list_distinct_conv_sum_set [OF assms(1)])
  also have "\<dots> = sum_list (map h us)" using assms(2)
  proof (induction us)
    case (Cons u us)
    have "(\<Sum>k\<in>set gs. sum_list (map h (filter (\<lambda>x. g x = k) (u # us))))
        = (\<Sum>k\<in>set gs. (if g u = k then h u else 0) + sum_list (map h (filter (\<lambda>x. g x = k) us)))"
      by (rule sum.cong) simp_all
    also have "\<dots> = h u + (\<Sum>k\<in>set gs. sum_list (map h (filter (\<lambda>x. g x = k) us)))"
      using Cons.prems by (simp add: sum.distrib)
    finally show ?case using Cons by simp
  qed simp
  finally show ?thesis .
qed

lemma sum_list_sort_key:
  fixes f :: "'a \<Rightarrow> 'b::comm_monoid_add"
  shows "sum_list (map f (sort_key k xs)) = sum_list (map f xs)"
  by (metis mset_map mset_sort sum_mset_sum_list)

end
