(* ===== verification/AiFactory.thy ===== *)
theory AiFactory
  imports AiUsage
begin

text \<open>
  Choosing and checking AI providers: the per-workspace configuration of \<open>api/v1/ai.py\<close>, the factory of
  \<open>integrations/ai/factory.py\<close> that turns a configuration into an adapter, and the probe of
  \<open>credentials/verification.py\<close>.  What a provider answers is a parameter of the services here;
  \<open>over_http\<close> is the instance the adapters of \<open>AiProviders\<close> give.
\<close>

section \<open>Configurations\<close>

record ai_config_upsert =
  au_purpose :: ai_purpose
  au_provider :: ai_provider
  au_model :: string
  au_credential_id :: "nat option"
  au_parameters :: "(string \<times> json) list"
  au_is_default :: bool

definition validate_ai_config :: "ai_config_upsert \<Rightarrow> exn + ai_config_upsert" where
  "validate_ai_config p =
     (case reject_secret_shaped_keys (au_parameters p) of Inl e \<Rightarrow> Inl e | Inr m \<Rightarrow>
      if au_credential_id p = None \<and> au_provider p \<noteq> AP_CUSTOM
      then Inl (ValueExn (''credential_id is required for provider '' @ [CHR 0x27] @ ai_provider_value (au_provider p) @ [CHR 0x27]))
      else Inr (p\<lparr>au_parameters := m\<rparr>))"

definition get_default_for_purpose :: "ai_purpose \<Rightarrow> ai_config_row option svc" where
  "get_default_for_purpose p =
     ebind (repo_where ai_config_model (\<lambda>k. aic_purpose k = p \<and> aic_is_default k)) scalar_one_or_none"

definition get_for_purpose_and_provider :: "ai_purpose \<Rightarrow> string \<Rightarrow> ai_config_row option svc" where
  "get_for_purpose_and_provider p provider =
     ebind (repo_where ai_config_model (\<lambda>k. aic_purpose k = p \<and> aic_provider k = provider)) scalar_one_or_none"

definition list_ai_configs :: "ai_config_row list svc" where
  "list_ai_configs =
     ebind (repo_rows ai_config_model) (\<lambda>ks.
       ret (sort_key (\<lambda>k. (ai_purpose_value (aic_purpose k), aic_provider k)) ks))"

definition clear_default_for_purpose :: "ai_purpose \<Rightarrow> unit svc" where
  "clear_default_for_purpose p =
     ebind (repo_where ai_config_model (\<lambda>k. aic_purpose k = p \<and> aic_is_default k)) (\<lambda>ks.
     ethen (for_each (\<lambda>k. repo_save ai_config_model (k\<lparr>aic_is_default := False\<rparr>)) ks) flush_credentials)"

definition new_ai_config :: "ai_config_upsert \<Rightarrow> nat \<Rightarrow> nat \<Rightarrow> int \<Rightarrow> ai_config_row" where
  "new_ai_config p i t n =
     \<lparr>aic_id = i, aic_tenant_id = t, aic_purpose = au_purpose p, aic_provider = ai_provider_value (au_provider p),
      aic_model = au_model p, aic_credential_id = au_credential_id p, aic_parameters = au_parameters p,
      aic_is_default = au_is_default p, aic_created_at = n, aic_updated_at = n\<rparr>"

definition replaced_config :: "ai_config_upsert \<Rightarrow> ai_config_row \<Rightarrow> ai_config_row" where
  "replaced_config p k =
     k\<lparr>aic_model := au_model p, aic_credential_id := au_credential_id p, aic_parameters := au_parameters p,
       aic_is_default := au_is_default p\<rparr>"

definition upsert_ai_config :: "ai_config_upsert \<Rightarrow> ai_config_row svc" where
  "upsert_ai_config p =
     ethen (case au_credential_id p of None \<Rightarrow> ret () | Some i \<Rightarrow> done_with (get_credential i)) (
     ethen (do_when (au_is_default p) (clear_default_for_purpose (au_purpose p))) (
     ebind (get_for_purpose_and_provider (au_purpose p) (ai_provider_value (au_provider p))) (\<lambda>existing.
     ebind (case existing of
              None \<Rightarrow> repo_new ai_config_model (new_ai_config p)
            | Some k \<Rightarrow> ethen (repo_save ai_config_model (replaced_config p k)) (ret (replaced_config p k))) (\<lambda>k.
     ethen flush_credentials (
     ethen (audit_on A_AI_CONFIG_UPDATED ''tenant_ai_config'' (aic_id k)
              [(''purpose'', JStr (ai_purpose_value (aic_purpose k))), (''provider'', JStr (aic_provider k)),
               (''model'', JStr (aic_model k)), (''is_default'', JBool (aic_is_default k))]) (
     ret k))))))"

definition delete_ai_config :: "nat \<Rightarrow> unit svc" where
  "delete_ai_config i =
     ebind (repo_get ai_config_model i) (\<lambda>found. case found of
       None \<Rightarrow> raise (not_found ''tenant_ai_config'' i)
     | Some k \<Rightarrow>
         ethen (repo_delete ai_config_model k) (
         ethen flush_credentials (
         audit_on A_AI_CONFIG_UPDATED ''tenant_ai_config'' i
           [(''purpose'', JStr (ai_purpose_value (aic_purpose k))), (''provider'', JStr (aic_provider k)),
            (''reason'', JStr ''deleted'')])))"

section \<open>The factory\<close>

record ai_services =
  ax_credentials :: credential_service
  ax_py :: py_lib
  ax_generate :: "ai_client \<Rightarrow> generation_request \<Rightarrow> exn + generation_result"

definition over_http :: "ai_env \<Rightarrow> net \<Rightarrow> ai_client \<Rightarrow> generation_request \<Rightarrow> exn + generation_result" where
  "over_http env s cl rq = fst (ai_generate env cl rq s)"

definition provider_classes :: "(string \<times> ai_provider) list" where
  "provider_classes =
     map (\<lambda>k. (ai_provider_value k, k)) [AP_OPENAI, AP_ANTHROPIC, AP_GEMINI, AP_OPENROUTER, AP_CUSTOM]"

definition base_url_argument :: "string \<Rightarrow> string option" where
  "base_url_argument url = (if url = [] then None else Some url)"

definition build_provider :: "ai_services \<Rightarrow> ai_config_row \<Rightarrow> ai_client svc" where
  "build_provider ax k =
     (case map_of provider_classes (aic_provider k) of
        None \<Rightarrow> raise (AppExn (app_error_init ProviderNotSupportedError
                  (Some (''Provider '' @ [CHR 0x27] @ aic_provider k @ [CHR 0x27] @ '' has no adapter'')) None
                  (Some [(''provider'', JStr (aic_provider k))]) None))
      | Some kind \<Rightarrow>
          ebind (case aic_credential_id k of
                   Some i \<Rightarrow>
                     ebind (get_secret_for_credential (ax_credentials ax) i) (\<lambda>(c, key).
                       ret (key, metadata_base_url (pl_render (ax_py ax)) c))
                 | None \<Rightarrow>
                     if aic_provider k \<noteq> ai_provider_value AP_CUSTOM
                     then raise (AppExn (app_error_init CredentialNotConfiguredError
                            (Some (''The '' @ [CHR 0x27] @ aic_provider k @ [CHR 0x27]
                              @ '' configuration has no credential attached'')) None
                            (Some [(''provider'', JStr (aic_provider k)),
                                   (''purpose'', JStr (ai_purpose_value (aic_purpose k)))]) None))
                     else ret ([], case map_of (aic_parameters k) ''base_url'' of
                                     None \<Rightarrow> [] | Some v \<Rightarrow> py_str (pl_render (ax_py ax)) v)) (\<lambda>(key, url).
          lift_sum (make_client kind key (base_url_argument url))))"

definition provider_for_purpose :: "ai_services \<Rightarrow> ai_purpose \<Rightarrow> (ai_client \<times> ai_config_row) svc" where
  "provider_for_purpose ax p =
     ebind (get_default_for_purpose p) (\<lambda>found. case found of
       None \<Rightarrow> raise (AppExn (coded_error CredentialNotConfiguredError
                (''No AI provider is configured for '' @ [CHR 0x27] @ ai_purpose_value p @ [CHR 0x27]
                 @ '' in this workspace. Configure one with PUT /api/v1/ai/configs.'')
                ''AI_PROVIDER_NOT_CONFIGURED'' [(''purpose'', JStr (ai_purpose_value p))]))
     | Some k \<Rightarrow> ebind (build_provider ax k) (\<lambda>cl. ret (cl, k)))"

section \<open>Verification\<close>

record verification_outcome =
  vo_verified :: bool
  vo_error_code :: "string option"
  vo_checked_at :: "int option"
  vo_skipped :: bool

definition skipped_outcome :: "string \<Rightarrow> verification_outcome" where
  "skipped_outcome cod =
     \<lparr>vo_verified = False, vo_error_code = Some cod, vo_checked_at = None, vo_skipped = True\<rparr>"

definition probe_request :: "string \<Rightarrow> generation_request" where
  "probe_request model =
     \<lparr>gq_prompt = ''ping'', gq_model = model, gq_system = None, gq_max_tokens = 8, gq_temperature = 0,
      gq_json_output = False, gq_extra = []\<rparr>"

definition probe_credential :: "ai_services \<Rightarrow> ai_provider \<Rightarrow> string \<Rightarrow> credential_row \<Rightarrow> generation_result svc" where
  "probe_credential ax kind model c =
     ebind (get_secret_for_credential (ax_credentials ax) (crd_id c)) (\<lambda>(_, secret).
     ebind (lift_sum (make_client kind secret (base_url_argument (metadata_base_url (pl_render (ax_py ax)) c)))) (\<lambda>cl.
     lift_sum (ax_generate ax cl (probe_request model))))"

definition verify_credential ::
  "ai_services \<Rightarrow> credential_row \<Rightarrow> (credential_row \<times> verification_outcome) svc" where
  "verify_credential ax c =
     (if crd_provider_type c \<noteq> CP_AI then ret (c, skipped_outcome ''provider_not_verifiable'')
      else case (map_of provider_classes (crd_provider c), map_of default_models (crd_provider c)) of
        (Some kind, Some model) \<Rightarrow>
          ebind (recover (ebind (probe_credential ax kind model c) (\<lambda>_. ret None))
                   (\<lambda>e. case e of
                      AppExn x \<Rightarrow> if is_app_error e ProviderError then ret (Some (err_code x)) else raise e
                    | _ \<Rightarrow> raise e)) (\<lambda>failed.
          ebind (mark_verification c (failed = None) failed) (\<lambda>c'.
          ebind now (\<lambda>n.
          ret (c', \<lparr>vo_verified = (failed = None), vo_error_code = failed,
                    vo_checked_at = (case crd_last_verified_at c' of Some t \<Rightarrow> if failed = None then Some t else Some n | None \<Rightarrow> Some n),
                    vo_skipped = False\<rparr>))))
      | _ \<Rightarrow> ret (c, skipped_outcome ''no_probe_available''))"

end
