(* ===== verification/Content.thy ===== *)
theory Content
  imports AiFactory Submissions
begin

text \<open>
  Listing copy, \<open>opportunities/content.py\<close>: the brief, the request to the workspace's provider, the
  reading of its reply, the drafts and their review, with the draft queries of
  \<open>repositories/submissions.py\<close>.
\<close>

section \<open>Payloads\<close>

record content_request =
  cg_tone :: "string option"
  cg_keywords :: "string list"
  cg_max_description_words :: int
  cg_include_short_description :: bool
  cg_include_long_description :: bool
  cg_regenerate :: bool

record content_review =
  cv_decision :: content_status
  cv_notes :: "string option"
  cv_edited_content :: "(string \<times> json) list option"

definition validate_review :: "content_review \<Rightarrow> exn + content_review" where
  "validate_review p =
     (if cv_decision p \<notin> {Ct_APPROVED, Ct_REJECTED} then Inl (ValueExn ''decision must be APPROVED or REJECTED'')
      else Inr p)"

definition editable_fields :: "string list" where
  "editable_fields =
     [''listing_title'', ''short_description'', ''long_description'', ''business_description'',
      ''category_suggestion'', ''anchor_suggestion'', ''tags'']"

section \<open>The brief\<close>

definition newline_text :: string where
  "newline_text = [CHR 0x0A]"

definition system_prompt :: string where
  "system_prompt =
     join_with newline_text
      [''You write directory listing copy for a link-building platform.'',
       [],
       ''Write accurate, useful copy for a legitimate business directory submission. '' @
       ''Follow the directory's category and the client's actual business. Do not '' @
       ''invent facts, awards, credentials, customer counts or claims that are not in '' @
       ''the brief. Do not keyword-stuff. Write as a person describing a business, not '' @
       ''as an SEO tool.'',
       [],
       ''Reply with a single JSON object containing exactly these keys:'',
       ''  listing_title          - up to 70 characters'',
       ''  short_description      - one sentence, up to 160 characters'',
       ''  long_description       - 2-4 sentences'',
       ''  business_description   - a neutral one-paragraph description of the business'',
       ''  category_suggestion    - the directory category that fits best'',
       ''  anchor_suggestion      - natural anchor text, usually the brand name'',
       ''  tags                   - array of up to 8 short topical tags'',
       []]"

definition told :: "string \<Rightarrow> string option \<Rightarrow> string list" where
  "told label x = (if truthy x then [label @ the x] else [])"

definition build_prompt :: "client_website_row \<Rightarrow> publisher_row \<Rightarrow> string \<Rightarrow> content_request \<Rightarrow> string" where
  "build_prompt site pub target p =
     join_with newline_text
       ([''Business to list:'', ''- Name: '' @ web_name site, ''- Website: '' @ web_website_url site,
         ''- URL to list: '' @ target]
        @ told ''- Industry: '' (web_industry site)
        @ told ''- About: '' (web_description site)
        @ told ''- Primary market: '' (web_target_country site)
        @ told ''- Language: '' (web_target_language site)
        @ [[], ''Directory it is being submitted to:'',
           ''- Name: '' @ (if truthy (pub_name pub) then the (pub_name pub) else pub_normalized_domain pub)]
        @ told ''- Category: '' (map_option publisher_category_value (pub_category pub))
        @ told ''- About: '' (pub_description pub)
        @ told ''- Country focus: '' (pub_country pub)
        @ [[], ''Requirements:'',
           ''- long_description must be at most '' @ show_int (cg_max_description_words p) @ '' words.'']
        @ (if truthy (cg_tone p) then [''- Tone: '' @ the (cg_tone p) @ ''.''] else [])
        @ (if cg_keywords p \<noteq> []
           then [''- Work these terms in only where they read naturally: '' @ join_with '', '' (cg_keywords p) @ ''.''] else [])
        @ (if cg_include_short_description p then [] else [''- short_description may be an empty string.''])
        @ (if cg_include_long_description p then [] else [''- long_description may be an empty string.'']))"

definition provider_extra :: "(string \<times> json) list \<Rightarrow> (string \<times> json) list" where
  "provider_extra ps = filter (\<lambda>(k, _). k \<notin> {''max_tokens'', ''temperature'', ''base_url''}) ps"

section \<open>The reply\<close>

definition not_json :: "string \<Rightarrow> exn" where
  "not_json msg = err_coded ProviderError msg ''CONTENT_NOT_JSON''"

definition unfenced :: "string \<Rightarrow> string" where
  "unfenced txt =
     (let s = str_strip txt in
      if starts_with ''```'' s
      then (let t = strip_chars ''`'' s in if starts_with ''json'' (str_lower t) then drop 4 t else t)
      else s)"

text \<open>From the first opening brace to the last closing one.\<close>

definition braced :: "string \<Rightarrow> string option" where
  "braced s =
     (let start = length (takeWhile (\<lambda>c. c \<noteq> CHR ''{'') s);
          behind = length (takeWhile (\<lambda>c. c \<noteq> CHR ''}'') (rev s))
      in if start = length s \<or> behind = length s \<or> length s - 1 - behind \<le> start then None
         else Some (take (length s - behind - start) (drop start s)))"

definition coerced_field :: "py_lib \<Rightarrow> (string \<times> json) list \<Rightarrow> string \<Rightarrow> string \<times> json" where
  "coerced_field py parsed key =
     (key,
      if key = ''tags''
      then (case json_get parsed key of
              JList tags \<Rightarrow> JList (take 8 (map (\<lambda>t. JStr (take 60 (py_str (pl_render py) t))) tags))
            | _ \<Rightarrow> JList [])
      else (case json_get parsed key of
              JNull \<Rightarrow> JStr []
            | v \<Rightarrow> JStr (take 4000 (str_strip (py_str (pl_render py) v)))))"

definition parse_content :: "py_lib \<Rightarrow> string \<Rightarrow> exn + (string \<times> json) list" where
  "parse_content py txt =
     (case braced (unfenced txt) of
        None \<Rightarrow> Inl (not_json ''The AI provider did not return JSON listing content'')
      | Some object_text \<Rightarrow>
          (case pl_parse py object_text of
             None \<Rightarrow> Inl (not_json ''The AI provider returned malformed JSON listing content'')
           | Some (JObj parsed) \<Rightarrow>
               (let copy = map (coerced_field py parsed) editable_fields in
                if \<not> json_truthy (json_get copy ''listing_title'')
                then Inl (err_coded ProviderError ''The AI provider returned no listing title'' ''CONTENT_INCOMPLETE'')
                else Inr copy)
           | Some _ \<Rightarrow> Inl (not_json ''The AI provider returned an unexpected content shape'')))"

section \<open>Drafts\<close>

definition list_for_opportunity :: "nat \<Rightarrow> content_row list svc" where
  "list_for_opportunity oid =
     ebind (repo_where content_model (\<lambda>c. con_opportunity_id c = oid)) (\<lambda>cs.
       ret (sort_key (\<lambda>c. - con_created_at c) cs))"

definition contents_ok :: "db \<Rightarrow> bool" where
  "contents_ok d =
     (distinct (map con_id (generated_contents d))
      \<and> list_all (\<lambda>c. con_opportunity_id c \<in> set (map opp_id (opportunities d))) (generated_contents d))"

definition flush_contents :: "unit svc" where
  "flush_contents = flush_check contents_ok ''generated_contents''"

definition supersede_drafts :: "nat \<Rightarrow> unit svc" where
  "supersede_drafts oid =
     ebind (list_for_opportunity oid) (\<lambda>cs.
     ethen (for_each (\<lambda>c. do_when (con_content_status c \<in> {Ct_DRAFT, Ct_PENDING_REVIEW})
              (repo_save content_model (c\<lparr>con_content_status := Ct_SUPERSEDED\<rparr>))) cs)
       flush_contents)"

definition new_draft ::
  "nat \<Rightarrow> (string \<times> json) list \<Rightarrow> generation_result \<Rightarrow> int \<Rightarrow> nat \<Rightarrow> nat \<Rightarrow> int \<Rightarrow> content_row" where
  "new_draft oid copy r made i t n =
     \<lparr>con_id = i, con_tenant_id = t, con_opportunity_id = oid, con_content_status = Ct_PENDING_REVIEW,
      con_generated_content = copy, con_ai_provider = Some (gr_provider r), con_ai_model = Some (gr_model r),
      con_generation_timestamp = Some made, con_reviewed_by_user_id = None, con_reviewed_at = None,
      con_review_notes = None, con_created_at = n, con_updated_at = n\<rparr>"

section \<open>Generating\<close>

definition config_number ::
  "(json \<Rightarrow> exn + 'a) \<Rightarrow> (string \<times> json) list \<Rightarrow> string \<Rightarrow> json \<Rightarrow> exn + 'a" where
  "config_number f ps key dflt = f (case map_of ps key of None \<Rightarrow> dflt | Some v \<Rightarrow> v)"

definition content_generation_request ::
  "py_lib \<Rightarrow> ai_config_row \<Rightarrow> string \<Rightarrow> exn + generation_request" where
  "content_generation_request py k prompt =
     (case config_number (py_int py) (aic_parameters k) ''max_tokens'' (JInt 1500) of Inl e \<Rightarrow> Inl e | Inr m \<Rightarrow>
      case config_number (py_float py) (aic_parameters k) ''temperature'' (JRat (1/2)) of Inl e \<Rightarrow> Inl e | Inr t \<Rightarrow>
      Inr \<lparr>gq_prompt = prompt, gq_model = aic_model k, gq_system = Some system_prompt, gq_max_tokens = m,
           gq_temperature = t, gq_json_output = True, gq_extra = provider_extra (aic_parameters k)\<rparr>)"

definition generation_purpose :: string where
  "generation_purpose = ai_purpose_value AU_CONTENT_GENERATION"

text \<open>The call and its accounting; a failure is recorded before it is raised again.\<close>

definition call_provider :: "ai_services \<Rightarrow> ai_client \<Rightarrow> ai_config_row \<Rightarrow> string \<Rightarrow> generation_result svc" where
  "call_provider ax cl k prompt =
     recover
       (ebind (lift_sum (content_generation_request (ax_py ax) k prompt)) (\<lambda>rq. lift_sum (ax_generate ax cl rq)))
       (\<lambda>e. case e of
          AppExn x \<Rightarrow>
            if is_app_error e ProviderError
            then ebind (record_failure (aic_provider k) (aic_model k) AO_GENERATE (err_code x) (Some generation_purpose))
                   (\<lambda>_. raise e)
            else raise e
        | _ \<Rightarrow> raise e)"

definition already_approved :: "content_row \<Rightarrow> exn" where
  "already_approved c =
     AppExn (coded_error BusinessRuleError
       ''This opportunity already has approved content. Pass regenerate=true to supersede it.''
       ''CONTENT_ALREADY_APPROVED'' [(''content_id'', JId (con_id c))])"

definition content_sources :: "nat \<Rightarrow> (opportunity_row \<times> publisher_row \<times> client_website_row) svc" where
  "content_sources oid =
     ebind (get_with_publisher oid) (\<lambda>pair. case pair of
       None \<Rightarrow> raise (not_found ''opportunity'' oid)
     | Some (op, pub) \<Rightarrow>
         ebind (repo_get campaign_model (opp_campaign_id op)) (\<lambda>campaign. case campaign of
           None \<Rightarrow> raise (not_found ''campaign'' (opp_campaign_id op))
         | Some c \<Rightarrow>
             ebind (repo_get client_website_model (cmp_client_website_id c)) (\<lambda>site. case site of
               None \<Rightarrow> raise (not_found ''client_website'' (cmp_client_website_id c))
             | Some s \<Rightarrow> ret (op, pub, s))))"

definition store_draft :: "ai_services \<Rightarrow> nat \<Rightarrow> string \<Rightarrow> generation_result \<Rightarrow> content_row svc" where
  "store_draft ax oid target r =
     ebind (lift_sum (parse_content (ax_py ax) (gr_text r))) (\<lambda>parsed.
     let copy = dict_set ''target_url'' (JStr target) parsed in
     ethen (supersede_drafts oid) (
     ebind now (\<lambda>made.
     ebind (repo_new content_model (new_draft oid copy r made)) (\<lambda>c.
     ethen flush_contents (
     ethen (audit_on A_CONTENT_GENERATED ''generated_content'' (con_id c)
              [(''opportunity_id'', JId oid), (''ai_provider'', JStr (gr_provider r)),
               (''ai_model'', JStr (gr_model r)), (''content_id'', JId (con_id c)),
               (''field_count'', JInt (int (length copy)))]) (
     ret c))))))"

definition generate_content :: "ai_services \<Rightarrow> nat \<Rightarrow> content_request \<Rightarrow> content_row svc" where
  "generate_content ax oid p =
     ebind (content_sources oid) (\<lambda>(op, pub, site).
     ebind (if cg_regenerate p then ret None else get_approved_for_opportunity oid) (\<lambda>existing.
     ethen (case existing of None \<Rightarrow> ret () | Some c \<Rightarrow> raise (already_approved c)) (
     ebind (provider_for_purpose ax AU_CONTENT_GENERATION) (\<lambda>(cl, k).
     ebind (call_provider ax cl k (build_prompt site pub (opp_target_url op) p)) (\<lambda>r.
     ethen (done_with (record_generation r (Some generation_purpose))) (
     store_draft ax oid (opp_target_url op) r))))))"

section \<open>Reviewing\<close>

definition already_reviewed :: "content_row \<Rightarrow> exn" where
  "already_reviewed c =
     AppExn (coded_error BusinessRuleError ''This draft has already been reviewed'' ''CONTENT_ALREADY_REVIEWED''
       [(''content_status'', JStr (content_status_value (con_content_status c)))])"

definition clean_edits :: "content_review \<Rightarrow> (string \<times> json) list" where
  "clean_edits p =
     (case cv_edited_content p of None \<Rightarrow> [] | Some fs \<Rightarrow> filter (\<lambda>(k, _). k \<in> set editable_fields) fs)"

definition reviewed :: "content_review \<Rightarrow> nat \<Rightarrow> int \<Rightarrow> content_row \<Rightarrow> content_row" where
  "reviewed p reviewer n c =
     c\<lparr>con_generated_content := dict_merge (con_generated_content c) (clean_edits p),
       con_content_status := cv_decision p, con_reviewed_by_user_id := Some reviewer,
       con_reviewed_at := Some n, con_review_notes := cv_notes p\<rparr>"

definition review_content :: "nat \<Rightarrow> content_review \<Rightarrow> nat \<Rightarrow> content_row svc" where
  "review_content cid p reviewer =
     ebind (repo_get_or_raise content_model ''generated_content'' cid) (\<lambda>c.
     ethen (raise_if (con_content_status c \<in> {Ct_APPROVED, Ct_REJECTED}) (already_reviewed c)) (
     ebind now (\<lambda>n.
     let c' = reviewed p reviewer n c in
     ethen (repo_save content_model c') (
     ethen flush_contents (
     ebind (audit_record A_CONTENT_REVIEWED (Some ''generated_content'') (Some (JId cid))
              [(''content_id'', JId cid), (''decision'', JStr (content_status_value (cv_decision p))),
               (''edited'', JBool (clean_edits p \<noteq> []))] (Some reviewer)) (\<lambda>_.
     ret c'))))))"

definition approved_for_opportunity :: "nat \<Rightarrow> content_row option svc" where
  "approved_for_opportunity oid = get_approved_for_opportunity oid"

end
