(* ===== verification/CredentialProperties.thy ===== *)
theory CredentialProperties
  imports Content
begin

text \<open>
  Properties of tenant credentials: what a sealed row gives back and to whom, where a secret can end up,
  and what the updates and the live check make of a row's status.
\<close>

section \<open>Sealing and opening\<close>

text \<open>The deployment: authenticated encryption as documented, a known current key, random bytes of the
  right lengths.\<close>

definition vault_ok :: "credential_service \<Rightarrow> bool" where
  "vault_ok sv =
     (gcm_contract (ec_aead (ct_encryption sv)) \<and> keys_ok (ec_keys (ct_encryption sv))
      \<and> (\<forall>k. entropy_ok (ct_entropy sv k)))"

lemma vault_parts:
  assumes "vault_ok sv"
  shows "gcm_contract (ec_aead (ct_encryption sv))" "keys_ok (ec_keys (ct_encryption sv))" "entropy_ok (ct_entropy sv k)"
  using assms by (simp_all add: vault_ok_def)

lemma vault_seals:
  assumes "vault_ok sv" "encrypt (ct_encryption sv) (ct_entropy sv k) s d = Inr p"
  shows "decrypt (ct_encryption sv) p d = Inr s" "d' \<noteq> d \<Longrightarrow> decrypt (ct_encryption sv) p d' = Inl (err CredentialDecryptionError)"
proof -
  have "s \<noteq> []" using assms(2) by (auto simp: encrypt_def)
  then show "decrypt (ct_encryption sv) p d = Inr s"
    using seal_decrypts [OF vault_parts [OF assms(1)], of s k d] assms(2) by auto
  show "d' \<noteq> d \<Longrightarrow> decrypt (ct_encryption sv) p d' = Inl (err CredentialDecryptionError)"
    by (rule seal_is_bound [OF vault_parts [OF assms(1)] assms(2)])
qed

lemma payload_eta:
  "\<lparr>ep_ciphertext = ep_ciphertext x, ep_nonce = ep_nonce x, ep_encrypted_dek = ep_encrypted_dek x,
    ep_dek_nonce = ep_dek_nonce x, ep_key_version = ep_key_version x\<rparr> = x"
  by simp

lemma wp_create_credential:
  "wp (create_credential sv p)
     (\<lambda>c v. \<exists>sealed k. encrypt (ct_encryption sv) (ct_entropy sv k) (cc_secret p) (credential_aad c) = Inr sealed
        \<and> sealed_of c = sealed \<and> crd_provider c = cc_provider p \<and> w_tenant v = Some (crd_tenant_id c)
        \<and> c \<in> set (credentials (w_db v)) \<and> crd_status c = CS_CONFIGURED)
     (\<lambda>_ _. True) w"
  by (auto simp: create_credential_def get_by_provider_and_label_def repo_where_def repo_rows_def wp_simps wp_scalar
      Let_def flush_credentials_def audit_on_def new_credential_def credential_aad_def sealed_of_def payload_eta
      intro: exI split: option.split list.split sum.split)

lemma created_opens:
  assumes "vault_ok sv" "create_credential sv p w = (Inr c, v)"
  shows "c \<in> set (credentials (w_db v)) \<and> resolve_secret sv c = Inr (cc_secret p)"
proof -
  obtain k where k: "encrypt (ct_encryption sv) (ct_entropy sv k) (cc_secret p) (credential_aad c) = Inr (sealed_of c)"
    and row: "c \<in> set (credentials (w_db v))"
    using wp_Inr [OF wp_create_credential assms(2)] by blast
  then show ?thesis using vault_seals(1) [OF assms(1) k] by (simp add: resolve_secret_def)
qed

text \<open>C27: A stored secret can be read back, and only from its own row: the created row opens to the secret
  it was given, and the same sealed columns under another workspace, row or provider raise the decryption
  error.\<close>

theorem sealed_to_its_row:
  assumes "vault_ok sv" "create_credential sv p w = (Inr c, v)"
  shows "c \<in> set (credentials (w_db v)) \<and> resolve_secret sv c = Inr (cc_secret p)
     \<and> (\<forall>c'. sealed_of c' = sealed_of c
          \<and> crd_tenant_id c < 2 ^ 128 \<and> crd_tenant_id c' < 2 ^ 128 \<and> crd_id c < 2 ^ 128 \<and> crd_id c' < 2 ^ 128
          \<and> (crd_tenant_id c', crd_id c', str_lower (crd_provider c'))
               \<noteq> (crd_tenant_id c, crd_id c, str_lower (crd_provider c))
          \<longrightarrow> resolve_secret sv c' = Inl (err CredentialDecryptionError))"
proof -
  obtain k where k: "encrypt (ct_encryption sv) (ct_entropy sv k) (cc_secret p) (credential_aad c) = Inr (sealed_of c)"
    and row: "c \<in> set (credentials (w_db v))"
    using wp_Inr [OF wp_create_credential assms(2)] by blast
  have "resolve_secret sv c' = Inl (err CredentialDecryptionError)"
    if "sealed_of c' = sealed_of c" "credential_aad c' \<noteq> credential_aad c" for c'
    using vault_seals(2) [OF assms(1) k that(2)] that(1) by (simp add: resolve_secret_def)
  moreover have "resolve_secret sv c = Inr (cc_secret p)"
    using vault_seals(1) [OF assms(1) k] by (simp add: resolve_secret_def)
  ultimately show ?thesis using row aad_inj unfolding credential_aad_def by (metis (no_types, lifting) prod.inject)
qed

definition toy_keys :: key_provider where
  "toy_keys = \<lparr>kp_current = 1, kp_key = (\<lambda>v. if v = 1 then Some (replicate 32 (CHR ''k'')) else None)\<rparr>"

definition toy_vault :: credential_service where
  "toy_vault = \<lparr>ct_encryption = \<lparr>ec_aead = toy_aead, ec_keys = toy_keys\<rparr>,
     ct_entropy = (\<lambda>_. \<lparr>en_dek = replicate 32 (CHR ''d''), en_nonce = replicate 12 (CHR ''n''),
                         en_dek_nonce = replicate 12 (CHR ''m'')\<rparr>)\<rparr>"

lemma toy_vault_ok: "vault_ok toy_vault"
  by (simp add: vault_ok_def toy_vault_def toy_contract toy_keys_def keys_ok_def entropy_ok_def master_key_bytes_def
      dek_bytes_def nonce_bytes_def)

definition demo_secret :: credential_create where
  "demo_secret = \<lparr>cc_provider = ''openai'', cc_provider_type = CP_AI, cc_label = ''main'',
     cc_secret = ''sk-live-0123456789'', cc_provider_metadata = [], cc_verify = False\<rparr>"

definition vault_world :: world where
  "vault_world = initial_world\<lparr>w_tenant := Some 5, w_next := 40\<rparr>"

lemma demo_stored:
  "s \<noteq> [] \<Longrightarrow> \<exists>c v. create_credential toy_vault (demo_secret\<lparr>cc_secret := s\<rparr>) vault_world = (Inr c, v) \<and> crd_id c = 40 \<and> crd_tenant_id c = 5
     \<and> credentials (w_db v) = [c] \<and> tenant_ai_configs (w_db v) = [] \<and> w_tenant v = Some 5 \<and> crd_provider c = ''openai''
     \<and> crd_provider_type c = CP_AI \<and> crd_status c = CS_CONFIGURED \<and> crd_provider_metadata c = []
     \<and> credentials_ok (w_db v)"
  by (simp add: create_credential_def get_by_provider_and_label_def repo_where_def repo_rows_def comp_defs query_def
      require_tenant_id_def vault_world_def initial_world_def empty_db_def tenant_rows_def fresh_id_def demo_secret_def
      encrypt_def toy_vault_def toy_keys_def current_key_def Let_def now_def change_db_def flush_credentials_def
      flush_check_def new_credential_def credentials_ok_def audit_on_def audit_record_def repo_new_def toy_aead_def tagged_def)

lemma sealed_to_its_row_witness:
  "\<exists>c. resolve_secret toy_vault c = Inr ''sk-live-0123456789''
     \<and> resolve_secret toy_vault (c\<lparr>crd_tenant_id := 6\<rparr>) = Inl (err CredentialDecryptionError)"
proof -
  have same: "demo_secret\<lparr>cc_secret := ''sk-live-0123456789''\<rparr> = demo_secret" by (simp add: demo_secret_def)
  obtain c v where c: "create_credential toy_vault demo_secret vault_world = (Inr c, v)" "crd_id c = 40" "crd_tenant_id c = 5"
    using demo_stored [of "''sk-live-0123456789''", unfolded same] by blast
  note own = sealed_to_its_row [OF toy_vault_ok c(1)]
  have "sealed_of (c\<lparr>crd_tenant_id := 6\<rparr>) = sealed_of c" by (simp add: sealed_of_def)
  then have "resolve_secret toy_vault (c\<lparr>crd_tenant_id := 6\<rparr>) = Inl (err CredentialDecryptionError)"
    using own c(2,3) by auto
  then show ?thesis using own by (intro exI [of _ c]) (simp add: demo_secret_def)
qed

section \<open>Where a secret can end up\<close>

text \<open>A database with the sealed columns and the display hints blanked out.\<close>

definition blind_row :: "credential_row \<Rightarrow> credential_row" where
  "blind_row c = c\<lparr>crd_ciphertext := [], crd_nonce := [], crd_encrypted_dek := [], crd_dek_nonce := [],
     crd_masked_hint := []\<rparr>"

definition blind :: "world \<Rightarrow> world" where
  "blind w = w\<lparr>w_db := (w_db w)\<lparr>credentials := map blind_row (credentials (w_db w))\<rparr>\<rparr>"

lemma create_exactly:
  assumes "create_credential sv p w = (Inr c, v)"
  shows "\<exists>sealed t. encrypt (ct_encryption sv) (ct_entropy sv (w_next w)) (cc_secret p)
        (build_credential_aad t (w_next w) (cc_provider p)) = Inr sealed
     \<and> w_tenant w = Some t \<and> c = new_credential p sealed (w_next w) t (w_now w)
     \<and> v = w\<lparr>w_next := Suc (Suc (w_next w)), w_db := (w_db w)\<lparr>credentials := credentials (w_db w) @ [c],
          audit_logs := audit_logs (w_db w) @ [audit_entry A_CREDENTIAL_CREATED (Some ''credential'') (Some (JId (w_next w)))
            [(''provider'', JStr (cc_provider p)),
             (''provider_type'', JStr (credential_provider_type_value (cc_provider_type p))),
             (''label'', JStr (cc_label p))] None (w_ctx w) (Suc (w_next w)) t (w_now w)]\<rparr>\<rparr>"
proof -
  have "wp (create_credential sv p) (\<lambda>c v. \<exists>sealed t. encrypt (ct_encryption sv) (ct_entropy sv (w_next w)) (cc_secret p)
        (build_credential_aad t (w_next w) (cc_provider p)) = Inr sealed
     \<and> w_tenant w = Some t \<and> c = new_credential p sealed (w_next w) t (w_now w)
     \<and> v = w\<lparr>w_next := Suc (Suc (w_next w)), w_db := (w_db w)\<lparr>credentials := credentials (w_db w) @ [c],
          audit_logs := audit_logs (w_db w) @ [audit_entry A_CREDENTIAL_CREATED (Some ''credential'') (Some (JId (w_next w)))
            [(''provider'', JStr (cc_provider p)),
             (''provider_type'', JStr (credential_provider_type_value (cc_provider_type p))),
             (''label'', JStr (cc_label p))] None (w_ctx w) (Suc (w_next w)) t (w_now w)]\<rparr>\<rparr>) (\<lambda>_ _. True) w"
    by (auto simp: create_credential_def get_by_provider_and_label_def repo_where_def repo_rows_def wp_simps wp_scalar
        Let_def flush_credentials_def split: option.split list.split sum.split)
  from wp_Inr [OF this assms] show ?thesis .
qed

lemma new_credential_blind:
  "cc_provider p = cc_provider q \<Longrightarrow> cc_provider_type p = cc_provider_type q \<Longrightarrow> cc_label p = cc_label q \<Longrightarrow>
   cc_provider_metadata p = cc_provider_metadata q \<Longrightarrow> ep_key_version x = ep_key_version y \<Longrightarrow>
   blind_row (new_credential p x i t n) = blind_row (new_credential q y i t n)"
  by (simp add: new_credential_def blind_row_def)

lemma encrypt_version: "encrypt ec r s d = Inr p \<Longrightarrow> ep_key_version p = kp_current (ec_keys ec)"
  by (auto simp: encrypt_def Let_def split: if_splits sum.splits)

subsection \<open>Updates\<close>

lemma reads_renamed: "reads (renamed c l)"
  unfolding renamed_def get_by_provider_and_label_def by (intro reads_intros)

lemma blind_rows:
  "map blind_row (row_put crd_id c rows) = row_put crd_id (blind_row c) (map blind_row rows)"
  by (simp add: row_put_def blind_row_def)

lemma blind_view:
  assumes "blind_row c = blind_row d"
  shows "crd_provider c = crd_provider d" "crd_label c = crd_label d" "crd_status c = crd_status d"
    "crd_key_version c = crd_key_version d" "crd_id c = crd_id d"
    "blind_row (c\<lparr>crd_updated_at := n\<rparr>) = blind_row (d\<lparr>crd_updated_at := n\<rparr>)"
  using assms by (cases c; cases d; simp add: blind_row_def)+

lemma restated_blind:
  assumes "blind_row c = blind_row d"
  shows "blind_row (fst (restated u (c, l))) = blind_row (fst (restated u (d, l)))
     \<and> snd (restated u (c, l)) = snd (restated u (d, l))"
  using assms blind_view(3) [OF assms]
  by (cases c; cases d) (simp add: restated_def edit_field_def blind_row_def split: option.split)

lemma stored_blind:
  assumes "stored_update cid (c, l) w = (Inr c', v)" "stored_update cid (d, l) w' = (Inr d', v')"
    and "blind_row c = blind_row d" and "blind w = blind w'"
  shows "blind_row c' = blind_row d' \<and> blind v = blind v'"
proof -
  have run: "\<exists>t. w_tenant w = Some t \<and> c' = c \<and> v = w\<lparr>w_next := Suc (w_next w), w_db := (w_db w)
      \<lparr>credentials := row_put crd_id (c\<lparr>crd_updated_at := w_now w\<rparr>) (credentials (w_db w)),
       audit_logs := audit_logs (w_db w) @ [audit_entry (if ''secret'' \<in> set l then A_CREDENTIAL_ROTATED else A_CREDENTIAL_UPDATED)
          (Some ''credential'') (Some (JId cid)) [(''provider'', JStr (crd_provider c)), (''label'', JStr (crd_label c)),
               (''changed_fields'', JList (map JStr l)),
               (''status'', JStr (credential_status_value (crd_status c))),
               (''key_version'', JInt (crd_key_version c))] None (w_ctx w) (w_next w) t (w_now w)]\<rparr>\<rparr>"
    if "stored_update cid (c, l) w = (Inr c', v)" for c c' w v
  proof -
    let ?Q = "\<lambda>c' v. \<exists>t. w_tenant w = Some t \<and> c' = c \<and> v = w\<lparr>w_next := Suc (w_next w), w_db := (w_db w)
      \<lparr>credentials := row_put crd_id (c\<lparr>crd_updated_at := w_now w\<rparr>) (credentials (w_db w)),
       audit_logs := audit_logs (w_db w) @ [audit_entry (if ''secret'' \<in> set l then A_CREDENTIAL_ROTATED else A_CREDENTIAL_UPDATED)
          (Some ''credential'') (Some (JId cid)) [(''provider'', JStr (crd_provider c)), (''label'', JStr (crd_label c)),
               (''changed_fields'', JList (map JStr l)),
               (''status'', JStr (credential_status_value (crd_status c))),
               (''key_version'', JInt (crd_key_version c))] None (w_ctx w) (w_next w) t (w_now w)]\<rparr>\<rparr>"
    have "wp (stored_update cid (c, l)) ?Q (\<lambda>_ _. True) w"
      by (simp add: stored_update_def wp_simps credential_table.wp_save flush_credentials_def split: option.split)
    from wp_Inr [OF this that] show ?thesis .
  qed
  have same: "w_tenant w = w_tenant w'" "w_next w = w_next w'" "w_now w = w_now w'" "w_ctx w = w_ctx w'"
    using assms(4) by (cases w; cases w'; simp add: blind_def)+
  show ?thesis
    using run [OF assms(1)] run [OF assms(2)] same assms(3,4) blind_view [OF assms(3)]
    by (cases w; cases w'; cases "w_db w"; cases "w_db w'") (auto simp: blind_def blind_rows)
qed

subsection \<open>Two runs with different secrets\<close>

datatype secret_write = SW_Create credential_create | SW_Rotate nat credential_update

definition write_secret :: "credential_service \<Rightarrow> secret_write \<Rightarrow> string \<Rightarrow> credential_row svc" where
  "write_secret sv x s =
     (case x of
        SW_Create p \<Rightarrow> create_credential sv (p\<lparr>cc_secret := s\<rparr>)
      | SW_Rotate cid u \<Rightarrow> update_credential sv cid (u\<lparr>cu_secret := Some s\<rparr>))"

lemma reseal_exactly:
  assumes "reseal sv c s w = (Inr r, v)"
  shows "\<exists>sealed. encrypt (ct_encryption sv) (ct_entropy sv (w_next w)) s (credential_aad c) = Inr sealed
     \<and> r = reseal_row sealed s c \<and> v = w\<lparr>w_next := Suc (w_next w)\<rparr>"
proof -
  have "wp (reseal sv c s) (\<lambda>r v. \<exists>sealed. encrypt (ct_encryption sv) (ct_entropy sv (w_next w)) s (credential_aad c) = Inr sealed
     \<and> r = reseal_row sealed s c \<and> v = w\<lparr>w_next := Suc (w_next w)\<rparr>) (\<lambda>_ _. True) w"
    by (simp add: reseal_def wp_simps split: sum.split)
  from wp_Inr [OF this assms] show ?thesis .
qed

lemma rotation_parts:
  assumes "update_credential sv cid (u\<lparr>cu_secret := Some s\<rparr>) w = (Inr c', v)"
  shows "\<exists>c c1 l1 sealed. get_credential cid w = (Inr c, w) \<and> renamed c (cu_label u) w = (Inr (c1, l1), w)
     \<and> encrypt (ct_encryption sv) (ct_entropy sv (w_next w)) s (credential_aad c1) = Inr sealed
     \<and> stored_update cid (restated u (reseal_row sealed s c1, l1 @ [''secret''])) (w\<lparr>w_next := Suc (w_next w)\<rparr>) = (Inr c', v)"
proof -
  have read: "get_credential cid w = (Inr c, x) \<Longrightarrow> x = w" "renamed c (cu_label u) w = (Inr z, x) \<Longrightarrow> x = w" for c x z
    using reads_renamed reads_repo(4) unfolding get_credential_def reads_def by (metis snd_conv)+
  have same: "restated (u\<lparr>cu_secret := Some s\<rparr>) = restated u" by (simp add: restated_def fun_eq_iff)
  obtain c where c: "get_credential cid w = (Inr c, w)"
    and rest: "ebind (renamed c (cu_label u)) (\<lambda>(c1, l1). ebind (ebind (reseal sv c1 s) (\<lambda>r. ret (r, l1 @ [''secret''])))
       (\<lambda>x. stored_update cid (restated u x))) w = (Inr c', v)"
    using assms read(1) unfolding update_credential_def same by (subst (asm) ebind_Inr_iff) fastforce
  obtain c1 l1 where c1: "renamed c (cu_label u) w = (Inr (c1, l1), w)"
    and rest: "ebind (ebind (reseal sv c1 s) (\<lambda>r. ret (r, l1 @ [''secret'']))) (\<lambda>x. stored_update cid (restated u x)) w
        = (Inr c', v)"
    using rest read(2) by (subst (asm) ebind_Inr_iff) fastforce
  obtain r x where r: "reseal sv c1 s w = (Inr r, x)"
    and store: "stored_update cid (restated u (r, l1 @ [''secret''])) x = (Inr c', v)"
    using rest by (auto simp: ebind_Inr_iff ret_def)
  from reseal_exactly [OF r] store c c1 show ?thesis by blast
qed

lemma restated_hint: "crd_masked_hint (fst (restated u (c, l))) = crd_masked_hint c"
  by (simp add: restated_def edit_field_def split: option.split)

lemma stored_hint:
  assumes "stored_update cid x w = (Inr c', v)"
  shows "c' = fst x"
proof -
  have "wp (stored_update cid x) (\<lambda>c' v. c' = fst x) (\<lambda>_ _. True) w"
    by (cases x) (simp add: stored_update_def wp_simps credential_table.wp_save flush_credentials_def split: option.split)
  from wp_Inr [OF this assms] show ?thesis .
qed

text \<open>C29: Storing or rotating a secret lets it reach the sealed columns and the masked hint, and nothing
  else: two runs from the same state that differ in the secret alone return rows and leave databases, audit
  trail included, that agree on everything but those columns.\<close>

theorem secret_reaches_only_sealed_columns:
  assumes "write_secret sv x s w = (Inr c, v)" and "write_secret sv x s' w = (Inr c', v')"
  shows "blind v = blind v' \<and> blind_row c = blind_row c'
     \<and> crd_masked_hint c = mask_secret s \<and> crd_masked_hint c' = mask_secret s'"
proof (cases x)
  case (SW_Create p)
  obtain y t where y: "encrypt (ct_encryption sv) (ct_entropy sv (w_next w)) s
        (build_credential_aad t (w_next w) (cc_provider p)) = Inr y" "w_tenant w = Some t"
      "c = new_credential (p\<lparr>cc_secret := s\<rparr>) y (w_next w) t (w_now w)"
    using create_exactly assms(1) SW_Create by (fastforce simp: write_secret_def)
  obtain z t' where z: "encrypt (ct_encryption sv) (ct_entropy sv (w_next w)) s'
        (build_credential_aad t' (w_next w) (cc_provider p)) = Inr z" "w_tenant w = Some t'"
      "c' = new_credential (p\<lparr>cc_secret := s'\<rparr>) z (w_next w) t' (w_now w)"
    using create_exactly assms(2) SW_Create by (fastforce simp: write_secret_def)
  have row: "blind_row c = blind_row c'"
    using y(2,3) z(2,3) encrypt_version [OF y(1)] encrypt_version [OF z(1)] by (auto intro!: new_credential_blind)
  show ?thesis
    using row create_exactly [of sv "p\<lparr>cc_secret := s\<rparr>" w c v] create_exactly [of sv "p\<lparr>cc_secret := s'\<rparr>" w c' v']
      assms SW_Create y(3) z(3)
    by (auto simp: write_secret_def blind_def new_credential_def)
next
  case (SW_Rotate cid u)
  obtain r r1 l y where y: "get_credential cid w = (Inr r, w)" "renamed r (cu_label u) w = (Inr (r1, l), w)"
      "encrypt (ct_encryption sv) (ct_entropy sv (w_next w)) s (credential_aad r1) = Inr y"
      "stored_update cid (restated u (reseal_row y s r1, l @ [''secret''])) (w\<lparr>w_next := Suc (w_next w)\<rparr>) = (Inr c, v)"
    using rotation_parts assms(1) SW_Rotate by (fastforce simp: write_secret_def)
  obtain z where z: "encrypt (ct_encryption sv) (ct_entropy sv (w_next w)) s' (credential_aad r1) = Inr z"
      "stored_update cid (restated u (reseal_row z s' r1, l @ [''secret''])) (w\<lparr>w_next := Suc (w_next w)\<rparr>) = (Inr c', v')"
    using rotation_parts [where sv = sv and cid = cid and u = u and s = s' and w = w and c' = c' and v = v'] assms(2) SW_Rotate y(1,2) by (auto simp: write_secret_def)
  have "blind_row (reseal_row y s r1) = blind_row (reseal_row z s' r1)"
    using encrypt_version [OF y(3)] encrypt_version [OF z(1)] by (simp add: reseal_row_def blind_row_def)
  note low = restated_blind [OF this, of u "l @ [''secret'']"]
  have "blind_row c = blind_row c' \<and> blind v = blind v'"
    using stored_blind [of cid "fst (restated u (reseal_row y s r1, l @ [''secret'']))" "snd (restated u (reseal_row y s r1, l @ [''secret'']))"]
      y(4) z(2) low by (metis prod.collapse)
  then show ?thesis
    using stored_hint [OF y(4)] stored_hint [OF z(2)] by (simp add: restated_hint reseal_row_def)
qed

lemma secret_reaches_only_sealed_columns_witness:
  "\<exists>c v c' v'. write_secret toy_vault (SW_Create demo_secret) ''sk-live-0123456789'' vault_world = (Inr c, v)
     \<and> write_secret toy_vault (SW_Create demo_secret) ''another-secret'' vault_world = (Inr c', v')
     \<and> blind v = blind v' \<and> crd_masked_hint c = ''sk-****6789'' \<and> crd_masked_hint c' = ''ano****cret''"
proof -
  obtain c v where c: "write_secret toy_vault (SW_Create demo_secret) ''sk-live-0123456789'' vault_world = (Inr c, v)"
    using demo_stored [of "''sk-live-0123456789''"] by (auto simp: write_secret_def)
  obtain c' v' where c': "write_secret toy_vault (SW_Create demo_secret) ''another-secret'' vault_world = (Inr c', v')"
    using demo_stored [of "''another-secret''"] by (auto simp: write_secret_def)
  have "mask_secret ''sk-live-0123456789'' = ''sk-****6789''" "mask_secret ''another-secret'' = ''ano****cret''"
    by (simp_all add: mask_secret_def numeral_eq_Suc)
  then show ?thesis using secret_reaches_only_sealed_columns [OF c c'] c c' by metis
qed

section \<open>Rotation of the master key\<close>

text \<open>Under the deployment's own key provider a new master-key version makes every stored secret
  unreadable, and the rewrapping that should carry it over fails the same way: the provider knows one
  version only, so the old key is gone the moment the new one is configured.\<close>

theorem rotation_strands_credentials:
  assumes "env_master_key old n = Inr kp" and "env_master_key new m = Inr kp'" and "n \<noteq> m"
    and "ec_keys (ct_encryption sv) = kp" and "create_credential sv p w = (Inr c, v)"
  shows "resolve_secret (sv\<lparr>ct_encryption := (ct_encryption sv)\<lparr>ec_keys := kp'\<rparr>\<rparr>) c
      = Inl (key_unavailable ''Stored credential was encrypted with an unavailable key version'' n)
    \<and> rewrap ((ct_encryption sv)\<lparr>ec_keys := kp'\<rparr>) nonce (sealed_of c) (credential_aad c)
      = Inl (key_unavailable ''Cannot rewrap: source key version is unavailable'' n)"
proof -
  obtain sealed t where sealed: "encrypt (ct_encryption sv) (ct_entropy sv (w_next w)) (cc_secret p)
        (build_credential_aad t (w_next w) (cc_provider p)) = Inr sealed" "c = new_credential p sealed (w_next w) t (w_now w)"
    using create_exactly [OF assms(5)] by blast
  have "kp_current kp = n" using assms(1) by (auto simp: env_master_key_def split: if_splits)
  then have "crd_key_version c = n" using encrypt_version [OF sealed(1)] sealed(2) assms(4) by (simp add: new_credential_def)
  moreover have "kp_key kp' n = None" using assms(2,3) by (auto simp: env_master_key_def split: if_splits)
  ultimately show ?thesis by (simp add: resolve_secret_def decrypt_def rewrap_def sealed_of_def)
qed

definition env_vault :: "key_provider \<Rightarrow> credential_service" where
  "env_vault kp = toy_vault\<lparr>ct_encryption := (ct_encryption toy_vault)\<lparr>ec_keys := kp\<rparr>\<rparr>"

lemma rotation_strands_credentials_witness:
  "\<exists>kp kp' c v.
     env_master_key (replicate 32 (CHR ''a'')) 1 = Inr kp \<and> env_master_key (replicate 32 (CHR ''b'')) 2 = Inr kp'
     \<and> create_credential (env_vault kp) demo_secret vault_world = (Inr c, v)
     \<and> resolve_secret (env_vault kp\<lparr>ct_encryption := (ct_encryption (env_vault kp))\<lparr>ec_keys := kp'\<rparr>\<rparr>) c
         = Inl (key_unavailable ''Stored credential was encrypted with an unavailable key version'' 1)"
proof -
  obtain kp where kp: "env_master_key (replicate 32 (CHR ''a'')) 1 = Inr kp"
    and parts: "kp = \<lparr>kp_current = 1, kp_key = (\<lambda>v. if v \<noteq> 1 then None else Some (replicate 32 (CHR ''a'')))\<rparr>"
    by (simp add: env_master_key_def master_key_bytes_def)
  obtain kp' where kp': "env_master_key (replicate 32 (CHR ''b'')) 2 = Inr kp'"
    by (simp add: env_master_key_def master_key_bytes_def)
  obtain c v where c: "create_credential (env_vault kp) demo_secret vault_world = (Inr c, v)"
    by (atomize_elim, unfold parts env_vault_def)
      (simp add: create_credential_def get_by_provider_and_label_def repo_where_def repo_rows_def comp_defs query_def
      require_tenant_id_def vault_world_def initial_world_def empty_db_def tenant_rows_def fresh_id_def demo_secret_def
      encrypt_def toy_vault_def current_key_def Let_def now_def change_db_def flush_credentials_def
      flush_check_def new_credential_def credentials_ok_def audit_on_def audit_record_def repo_new_def toy_aead_def tagged_def)
  have "ec_keys (ct_encryption (env_vault kp)) = kp" by (simp add: env_vault_def)
  from rotation_strands_credentials [OF kp kp' _ this c] show ?thesis using kp kp' c by auto
qed

section \<open>The live check\<close>

lemma credentials_ok_put:
  assumes "credentials_ok d" "c \<in> set (credentials d)" "sealed_of c' = sealed_of c"
    "crd_id c' = crd_id c" "crd_tenant_id c' = crd_tenant_id c" "crd_provider c' = crd_provider c" "crd_label c' = crd_label c"
  shows "credentials_ok (d\<lparr>credentials := row_put crd_id c' (credentials d)\<rparr>)"
proof -
  have own: "r \<in> set (credentials d) \<Longrightarrow> crd_id r = crd_id c \<Longrightarrow> r = c" for r
    using assms(1,2) by (auto simp: credentials_ok_def distinct_map inj_on_def)
  have keys: "map (\<lambda>r. (crd_tenant_id r, crd_provider r, crd_label r)) (row_put crd_id c' (credentials d))
      = map (\<lambda>r. (crd_tenant_id r, crd_provider r, crd_label r)) (credentials d)"
    using own assms(4-7) by (auto simp: row_put_def)
  have "list_all (\<lambda>c. 1 \<le> crd_key_version c \<and> crd_ciphertext c \<noteq> [] \<and> length (crd_nonce c) = 12
      \<and> length (crd_dek_nonce c) = 12) (row_put crd_id c' (credentials d))"
    using assms(1-3) by (auto simp: credentials_ok_def list_all_iff sealed_of_def dest!: row_put_set)
  then show ?thesis using assms(1) keys unfolding credentials_ok_def by (simp del: set_map cong: option.case_cong)
qed


text \<open>A caller who may update credentials can declare a key verified: a PATCH that carries a new secret
  and the status VERIFIED stores the unproven key as VERIFIED, although a rotation is meant to reset it.\<close>

theorem patch_forges_verified:
  assumes "update_credential sv cid \<lparr>cu_label = None, cu_secret = Some s, cu_status = Some CS_VERIFIED,
      cu_provider_metadata = None, cu_verify = False\<rparr> w = (Inr c, v)"
  shows "crd_status c = CS_VERIFIED \<and> crd_last_verified_at c = None \<and> is_usable (crd_provider c) c
     \<and> crd_masked_hint c = mask_secret s"
proof -
  let ?u = "\<lparr>cu_label = None, cu_secret = None, cu_status = Some CS_VERIFIED, cu_provider_metadata = None, cu_verify = False\<rparr>"
  obtain r l y w' where "stored_update cid (restated ?u (reseal_row y s r, l)) w' = (Inr c, v)"
    using rotation_parts [where sv = sv and cid = cid and u = ?u and s = s and w = w and c' = c and v = v] assms by auto
  then show ?thesis
    using stored_hint by (fastforce simp: restated_def edit_field_def reseal_row_def is_usable_def)
qed

subsection \<open>A credential under check\<close>

definition plain_py :: py_lib where
  "plain_py = \<lparr>pl_parse = (\<lambda>_. None), pl_render = (\<lambda>_. []), pl_float = (\<lambda>_. None), pl_int = (\<lambda>_. None)\<rparr>"

definition failing :: "exn \<Rightarrow> ai_services" where
  "failing e = \<lparr>ax_credentials = toy_vault, ax_py = plain_py, ax_generate = (\<lambda>_ _. Inl e)\<rparr>"

lemma demo_held:
  obtains c v where "create_credential toy_vault demo_secret vault_world = (Inr c, v)" "crd_id c = 40" "crd_tenant_id c = 5"
    "credentials (w_db v) = [c]" "tenant_ai_configs (w_db v) = []" "w_tenant v = Some 5" "crd_provider c = ''openai''"
    "crd_provider_type c = CP_AI" "crd_status c = CS_CONFIGURED" "crd_provider_metadata c = []" "credentials_ok (w_db v)"
proof -
  have same: "demo_secret\<lparr>cc_secret := ''sk-live-0123456789''\<rparr> = demo_secret" by (simp add: demo_secret_def)
  show ?thesis using demo_stored [of "''sk-live-0123456789''", unfolded same] that by blast
qed

lemma wp_demo_get:
  "credentials (w_db v) = [c] \<Longrightarrow> w_tenant v = Some (crd_tenant_id c) \<Longrightarrow> get_credential (crd_id c) v = (Inr c, v)"
  unfolding get_credential_def
  by (rule credential_table.get_or_raise_found [of v "crd_tenant_id c" c, simplified]) simp_all


lemma patch_forges_verified_witness:
  "\<exists>c v c' u. crd_status c = CS_CONFIGURED \<and> credentials (w_db v) = [c]
     \<and> update_credential toy_vault (crd_id c) \<lparr>cu_label = None, cu_secret = Some ''unproven'', cu_status = Some CS_VERIFIED,
           cu_provider_metadata = None, cu_verify = False\<rparr> v = (Inr c', u) \<and> crd_status c' = CS_VERIFIED"
proof -
  obtain c v where c: "create_credential toy_vault demo_secret vault_world = (Inr c, v)" "crd_id c = 40" "crd_tenant_id c = 5"
    "credentials (w_db v) = [c]" "tenant_ai_configs (w_db v) = []" "w_tenant v = Some 5" "crd_provider c = ''openai''"
    "crd_provider_type c = CP_AI" "crd_status c = CS_CONFIGURED" "crd_provider_metadata c = []" "credentials_ok (w_db v)"
    by (rule demo_held)
  let ?u = "\<lparr>cu_label = None, cu_secret = Some ''unproven'', cu_status = Some CS_VERIFIED,
           cu_provider_metadata = None, cu_verify = False\<rparr>"
  have "get_credential 40 v = (Inr c, v)" using wp_demo_get [OF c(4)] c(2,3,6) by simp
  then have "wp (update_credential toy_vault 40 ?u) (\<lambda>_ _. True) (\<lambda>_ _. False) v"
    using c(2-7,11)
    by (simp add: update_credential_def wp_ebind wp_def [of "get_credential 40"] renamed_def wp_simps reseal_def encrypt_def
        toy_vault_def toy_keys_def current_key_def toy_aead_def tagged_def Let_def restated_def edit_field_def stored_update_def
        credential_table.wp_save flush_credentials_def credentials_ok_def row_put_def reseal_row_def)
  from wp_only_returns [OF this] obtain c' u where u: "update_credential toy_vault 40 ?u v = (Inr c', u)" by blast
  then show ?thesis using patch_forges_verified [OF u] c(2,4,9) by metis
qed

end
