(* ===== verification/ContentProperties.thy ===== *)
theory ContentProperties
  imports CredentialProperties SubmissionProperties Opportunities
begin

text \<open>
  Properties of listing copy: what the reader of a reply lets through, what every stored draft looks like
  after any sequence of requests, and what generating leaves of the earlier drafts.
\<close>

section \<open>The reply\<close>

definition short_text :: "nat \<Rightarrow> json \<Rightarrow> bool" where
  "short_text n v = (case v of JStr s \<Rightarrow> length s \<le> n | _ \<Rightarrow> False)"

definition bounded_field :: "string \<times> json \<Rightarrow> bool" where
  "bounded_field f =
     (if fst f = ''tags''
      then (case snd f of JList ts \<Rightarrow> length ts \<le> 8 \<and> list_all (short_text 60) ts | _ \<Rightarrow> False)
      else short_text 4000 (snd f))"

lemma coerced_bounded: "bounded_field (coerced_field py parsed key)"
  by (auto simp: bounded_field_def coerced_field_def short_text_def list_all_iff split: json.split dest!: in_set_takeD)

text \<open>C31: Whatever the model replies, the copy read from it has exactly the seven editable fields, each a
  text of at most 4000 characters (the tags at most eight texts of at most 60), and a title that is not
  empty.\<close>

theorem parsed_content_is_bounded:
  assumes "parse_content py txt = Inr copy"
  shows "map fst copy = editable_fields \<and> list_all bounded_field copy
     \<and> (\<exists>title. map_of copy ''listing_title'' = Some (JStr title) \<and> title \<noteq> [])"
proof -
  obtain parsed where copy: "copy = map (coerced_field py parsed) editable_fields"
    and title: "json_truthy (json_get copy ''listing_title'')"
    using assms by (auto simp: parse_content_def Let_def split: option.splits json.splits if_splits)
  have keys: "map fst copy = editable_fields" unfolding copy by (simp add: coerced_field_def comp_def)
  have "map_of copy ''listing_title'' = Some (snd (coerced_field py parsed ''listing_title''))"
    unfolding copy by (simp add: editable_fields_def coerced_field_def)
  then have "\<exists>title. map_of copy ''listing_title'' = Some (JStr title) \<and> title \<noteq> []"
    using title by (auto simp: json_get_def coerced_field_def split: json.splits)
  then show ?thesis using keys coerced_bounded by (simp add: copy list_all_iff)
qed

definition toy_py :: py_lib where
  "toy_py = \<lparr>pl_parse = (\<lambda>s. if s = ''{}'' then Some (JObj [(''listing_title'', JStr ''Acme''), (''html'', JStr ''<b>'')])
                         else None),
     pl_render = (\<lambda>_. []), pl_float = (\<lambda>_. None), pl_int = (\<lambda>_. None)\<rparr>"

lemma toy_reply:
  "parse_content toy_py ''Here you are: {} Enjoy'' =
     Inr [(''listing_title'', JStr ''Acme''), (''short_description'', JStr []), (''long_description'', JStr []),
          (''business_description'', JStr []), (''category_suggestion'', JStr []), (''anchor_suggestion'', JStr []),
          (''tags'', JList [])]"
  by code_simp

lemma parsed_content_is_bounded_witness:
  "\<exists>copy. parse_content toy_py ''Here you are: {} Enjoy'' = Inr copy \<and> list_all bounded_field copy
     \<and> map_of copy ''html'' = None"
  using parsed_content_is_bounded [OF toy_reply] toy_reply by (auto simp: map_of_eq_None_iff editable_fields_def)

section \<open>Drafts\<close>

definition signed_off :: "content_row \<Rightarrow> bool" where
  "signed_off c =
     ((con_content_status c \<in> {Ct_APPROVED, Ct_REJECTED}) = (con_reviewed_by_user_id c \<noteq> None)
      \<and> (con_reviewed_by_user_id c \<noteq> None \<longrightarrow> con_reviewed_at c \<noteq> None))"

definition known_fields :: "content_row \<Rightarrow> bool" where
  "known_fields c = (set (map fst (con_generated_content c)) \<subseteq> insert ''target_url'' (set editable_fields))"

definition attributed :: "content_row \<Rightarrow> bool" where
  "attributed c = (con_ai_provider c \<noteq> None \<and> con_ai_model c \<noteq> None \<and> con_generation_timestamp c \<noteq> None)"

definition draft_ok :: "content_row \<Rightarrow> bool" where
  "draft_ok c = (signed_off c \<and> known_fields c \<and> attributed c)"

definition drafts_ok :: "db \<Rightarrow> bool" where
  "drafts_ok d = list_all draft_ok (generated_contents d)"

lemma dict_set_keys: "set (map fst (dict_set k v d)) = insert k (set (map fst d))"
proof (cases "k \<in> set (map fst d)")
  case True
  have "map fst (map (\<lambda>(a, b). (a, if a = k then v else b)) d) = map fst d" by (induction d) auto
  then show ?thesis using True by (simp only: dict_set_def if_True insert_absorb)
qed (simp add: dict_set_def)

lemma dict_merge_keys: "set (map fst (dict_merge d e)) = set (map fst d) \<union> set (map fst e)"
proof (induction e arbitrary: d)
  case (Cons kv e)
  have step: "dict_merge d (kv # e) = dict_merge (dict_set (fst kv) (snd kv) d) e" by (simp add: dict_merge_def split_def)
  show ?case unfolding step Cons.IH dict_set_keys by simp
qed (simp add: dict_merge_def)

lemma reviewed_ok:
  assumes "draft_ok c" "validate_review p = Inr p"
  shows "draft_ok (reviewed p u n c)"
proof -
  have "set (map fst (clean_edits p)) \<subseteq> set editable_fields"
    by (auto simp: clean_edits_def split: option.split)
  then have "known_fields (reviewed p u n c)"
    using assms(1) unfolding draft_ok_def known_fields_def reviewed_def by (auto simp: dict_merge_keys [unfolded set_map])
  then show ?thesis using assms
    by (auto simp: draft_ok_def signed_off_def attributed_def reviewed_def validate_review_def split: if_splits)
qed

lemma new_draft_ok:
  assumes "parse_content py txt = Inr parsed"
  shows "draft_ok (new_draft oid (dict_set ''target_url'' url parsed) r made i t n)"
proof -
  have "map fst parsed = editable_fields"
    using assms by (auto simp: parse_content_def Let_def coerced_field_def comp_def split: option.splits json.splits if_splits)
  then show ?thesis
    using dict_set_keys [of "''target_url''" url parsed]
    by (auto simp: draft_ok_def signed_off_def known_fields_def attributed_def new_draft_def)
qed

section \<open>Every stored draft\<close>

lemma reads_content_queries:
  "reads (content_sources oid)" "reads (list_for_opportunity oid)" "reads (get_credential i)"
  "reads (get_secret_for_credential sv i)" "reads (build_provider ax k)" "reads (provider_for_purpose ax pu)"
proof -
  show q: "reads (content_sources oid)" "reads (list_for_opportunity oid)" "reads (get_credential i)" for oid i
    unfolding content_sources_def list_for_opportunity_def get_credential_def
    by (intro reads_intros reads_submission_queries)+
  show r: "reads (get_secret_for_credential sv i)" for sv i
    unfolding get_secret_for_credential_def by (intro reads_intros q)
  show b: "reads (build_provider ax k)" for k
    unfolding build_provider_def by (intro reads_intros r)
  show "reads (provider_for_purpose ax pu)"
    unfolding provider_for_purpose_def get_default_for_purpose_def by (intro reads_intros b)
qed

lemma part_usage:
  "inside (same_part generated_contents) uncommitted (record_usage e)"
  unfolding record_usage_def flush_usage_def by (intro frame_intros; simp)

lemma drafts_other: "generated_contents d = generated_contents e \<Longrightarrow> drafts_ok d = drafts_ok e"
  by (simp add: drafts_ok_def)

lemmas keeping_usage = keeping_part [OF part_usage drafts_other]

lemma keeping_call: "inside (keeping drafts_ok) uncommitted (call_provider ax cl k prompt)"
  unfolding call_provider_def
proof (rule keeping_try(1))
  show "inside (keeping drafts_ok) uncommitted (case e of AppExn x \<Rightarrow>
      if is_app_error e ProviderError
      then ebind (record_failure (aic_provider k) (aic_model k) AO_GENERATE (err_code x) (Some generation_purpose)) (\<lambda>_. raise e)
      else raise e | _ \<Rightarrow> raise e)" for e
    unfolding record_failure_def by (cases e) (auto intro!: frame_intros keeping_usage)
qed (intro reads_intros)

lemma drafts_put:
  assumes "drafts_ok d" "draft_ok r"
  shows "drafts_ok (d\<lparr>generated_contents := row_put con_id r (generated_contents d)\<rparr>)"
  using assms unfolding drafts_ok_def list_all_iff by (auto dest!: row_put_set)

lemma superseded_ok:
  "draft_ok c \<Longrightarrow> con_content_status c \<in> {Ct_DRAFT, Ct_PENDING_REVIEW} \<Longrightarrow>
   draft_ok (c\<lparr>con_content_status := Ct_SUPERSEDED, con_updated_at := n\<rparr>)"
  by (auto simp: draft_ok_def signed_off_def known_fields_def attributed_def)

lemma keeping_supersede: "inside (keeping drafts_ok) uncommitted (supersede_drafts oid)"
  unfolding inside_def
proof
  fix w
  let ?P = "\<lambda>v. keeping drafts_ok w v"
  let ?open = "\<lambda>c. con_content_status c \<in> {Ct_DRAFT, Ct_PENDING_REVIEW}"
  let ?step = "\<lambda>c. do_when (?open c) (repo_save content_model (c\<lparr>con_content_status := Ct_SUPERSEDED\<rparr>))"
  have each: "wp (?step c) (\<lambda>_. ?P) (\<lambda>_. ?P) v" if "drafts_ok (w_db w) \<longrightarrow> draft_ok c" "?P v" for c v
  proof (cases "?open c")
    case True
    have "drafts_ok (w_db w) \<Longrightarrow> drafts_ok ((w_db v)\<lparr>generated_contents := row_put con_id
        (c\<lparr>con_content_status := Ct_SUPERSEDED, con_updated_at := w_now v\<rparr>) (generated_contents (w_db v))\<rparr>)"
      using that True by (intro drafts_put superseded_ok) (simp_all add: keeping_def)
    then show ?thesis using that True by (simp add: wp_simps content_table.wp_save keeping_def uncommitted_def)
  qed (use that in \<open>simp add: wp_simps\<close>)
  show "wp (supersede_drafts oid) (\<lambda>_. keeping drafts_ok w) (\<lambda>_. uncommitted w) w"
  proof (cases "w_tenant w")
    case (Some t)
    let ?cs = "sort_key (\<lambda>c. - con_created_at c) (filter (\<lambda>c. con_opportunity_id c = oid) (tenant_rows content_model t (w_db w)))"
    have "wp (for_each ?step ?cs) (\<lambda>_. ?P) (\<lambda>_. ?P) w"
      by (rule wp_for_each, rule each) (auto simp: tenant_rows_def drafts_ok_def list_all_iff keeping_def)
    then have "wp (for_each ?step ?cs) (\<lambda>_. wp flush_contents (\<lambda>_. keeping drafts_ok w) (\<lambda>_. uncommitted w)) (\<lambda>_. uncommitted w) w"
      by (rule wp_mono) (auto simp: flush_contents_def wp_simps keeping_def uncommitted_def)
    then show ?thesis using Some
      by (simp add: supersede_drafts_def list_for_opportunity_def wp_simps content_table.wp_where)
  qed (simp add: supersede_drafts_def list_for_opportunity_def wp_simps content_table.wp_where)
qed

lemma keeping_audit:
  "inside (keeping drafts_ok) uncommitted (audit_record a rt ri md u)"
  "inside (keeping drafts_ok) uncommitted (audit_on a r i md)"
  by (rule keeping_part [where f = generated_contents, OF part_audit(1) drafts_other]
      keeping_part [where f = generated_contents, OF part_audit(2) drafts_other]; simp)+

lemma keeping_new_draft:
  assumes "\<And>i t n. draft_ok (mk i t n)"
  shows "inside (keeping drafts_ok) uncommitted (repo_new content_model mk)"
  using assms
  by (simp add: inside_def content_table.wp_new keeping_def uncommitted_def drafts_ok_def split: option.split)

lemma keeping_generate: "inside (keeping drafts_ok) uncommitted (generate_content ax oid p)"
proof -
  note step = keeping.inside_ebind keeping.inside_ethen inside_prod inside_if inside_option keeping_try(2)
  note leaf = reads_intros [THEN keeping_reads] reads_content_queries [THEN keeping_reads]
    reads_submission_queries [THEN keeping_reads] reads_session [THEN keeping_reads] keeping_call keeping_usage
    keeping_supersede keeping_audit keeping_flush
  show ?thesis unfolding generate_content_def store_draft_def Let_def record_generation_def flush_contents_def done_with_def
    by (rule step leaf keeping_new_draft new_draft_ok | assumption)+
qed

lemma keeping_review:
  assumes "validate_review p = Inr p"
  shows "inside (keeping drafts_ok) uncommitted (review_content cid p u)"
  unfolding inside_def review_content_def wp_ebind
proof
  fix w
  show "wp (repo_get_or_raise content_model ''generated_content'' cid)
     (\<lambda>c. wp (ethen (raise_if (con_content_status c \<in> {Ct_APPROVED, Ct_REJECTED}) (already_reviewed c))
        (ebind now (\<lambda>n. let c' = reviewed p u n c in ethen (repo_save content_model c') (ethen flush_contents
          (ebind (audit_record A_CONTENT_REVIEWED (Some ''generated_content'') (Some (JId cid))
              [(''content_id'', JId cid), (''decision'', JStr (content_status_value (cv_decision p))),
               (''edited'', JBool (clean_edits p \<noteq> []))] (Some u)) (\<lambda>_. ret c'))))))
        (\<lambda>_. keeping drafts_ok w) (\<lambda>_. uncommitted w))
     (\<lambda>_. uncommitted w) w"
  proof (rule content_table.wp_get_or_raise)
    fix c assume "c \<in> set (m_rows content_model (w_db w))"
    then have "drafts_ok (w_db w) \<Longrightarrow> draft_ok (reviewed p u n c)" for n
      using reviewed_ok [OF _ assms] by (simp add: drafts_ok_def list_all_iff)
    then have good: "drafts_ok (w_db w) \<Longrightarrow> draft_ok (reviewed p u n c\<lparr>con_updated_at := n\<rparr>)" for n
      by (simp add: draft_ok_def signed_off_def known_fields_def attributed_def)
    have "drafts_ok (w_db w) \<Longrightarrow> drafts_ok ((w_db w)\<lparr>generated_contents :=
        row_put con_id (reviewed p u n c\<lparr>con_updated_at := n\<rparr>) (generated_contents (w_db w))\<rparr>)" for n
      by (rule drafts_put [OF _ good])
    then show "wp (ethen (raise_if (con_content_status c \<in> {Ct_APPROVED, Ct_REJECTED}) (already_reviewed c))
        (ebind now (\<lambda>n. let c' = reviewed p u n c in ethen (repo_save content_model c') (ethen flush_contents
          (ebind (audit_record A_CONTENT_REVIEWED (Some ''generated_content'') (Some (JId cid))
              [(''content_id'', JId cid), (''decision'', JStr (content_status_value (cv_decision p))),
               (''edited'', JBool (clean_edits p \<noteq> []))] (Some u)) (\<lambda>_. ret c'))))))
        (\<lambda>_. keeping drafts_ok w) (\<lambda>_. uncommitted w) w"
      by (simp add: wp_simps content_table.wp_save flush_contents_def Let_def keeping_def uncommitted_def drafts_ok_def
          split: option.split)
  qed simp
qed

lemma keeping_withdraw: "inside (keeping drafts_ok) uncommitted (delete_opportunity oid)"
proof -
  have "drafts_ok d \<Longrightarrow> drafts_ok (drop_opportunities P d)" for P d
    by (auto simp: drafts_ok_def drop_opportunities_def Let_def list_all_iff)
  then show ?thesis
    unfolding delete_opportunity_def get_opportunity_def flush_opportunities_def
    by (intro keeping.inside_ebind keeping.inside_ethen keeping_change keeping_flush keeping_audit keeping_reads reads_repo)
qed

subsection \<open>Requests\<close>

datatype content_call =
    C_Generate nat content_request
  | C_Review nat content_review
  | C_Withdraw nat

fun content_handler :: "ai_services \<Rightarrow> nat \<Rightarrow> content_call \<Rightarrow> unit svc" where
  "content_handler ax u (C_Generate oid p) = done_with (generate_content ax oid p)"
| "content_handler ax u (C_Review cid p) = ebind (lift_sum (validate_review p)) (\<lambda>q. done_with (review_content cid q u))"
| "content_handler ax u (C_Withdraw oid) = delete_opportunity oid"

text \<open>A sequence of requests, each of some user in some workspace with its own provider behaviour.\<close>

definition serve_content :: "ai_services \<times> nat \<times> nat \<times> content_call \<Rightarrow> world \<Rightarrow> world" where
  "serve_content r w = (case r of (ax, t, u, c) \<Rightarrow> snd (session_scope (Some t) (Some u) (content_handler ax u c) w))"

lemma validated_review: "validate_review p = Inr q \<Longrightarrow> q = p \<and> validate_review q = Inr q"
  by (auto simp: validate_review_def split: if_splits)

lemma keeping_content: "inside (keeping drafts_ok) uncommitted (content_handler ax u c)"
proof (cases c)
  case (C_Review cid p)
  show ?thesis unfolding C_Review content_handler.simps done_with_def
  proof (rule keeping_try(2))
    fix q assume "validate_review p = Inr q"
    then have "validate_review q = Inr q" using validated_review by blast
    then show "inside (keeping drafts_ok) uncommitted (ebind (review_content cid q u) (\<lambda>_. ret ()))"
      by (intro keeping.inside_ebind keeping_reads reads_ret keeping_review)
  qed
qed (simp_all add: done_with_def keeping.inside_ebind keeping_generate keeping_withdraw keeping_reads reads_ret)

text \<open>C32: However requests to generate, review and withdraw interleave across workspaces, every stored draft
  names the provider, model and time that produced it, holds no field a draft does not have, and is approved
  or rejected exactly when a reviewer and the time of review are recorded.\<close>

theorem stored_drafts_are_signed:
  assumes "generated_contents (w_committed w) = []"
  shows "\<forall>c\<in>set (generated_contents (w_committed (fold serve_content rs w))).
      (con_content_status c \<in> {Ct_APPROVED, Ct_REJECTED} \<longleftrightarrow> con_reviewed_by_user_id c \<noteq> None)
      \<and> (con_reviewed_by_user_id c \<noteq> None \<longrightarrow> con_reviewed_at c \<noteq> None)
      \<and> set (map fst (con_generated_content c)) \<subseteq> insert ''target_url'' (set editable_fields)
      \<and> con_ai_provider c \<noteq> None \<and> con_ai_model c \<noteq> None \<and> con_generation_timestamp c \<noteq> None"
proof -
  have "drafts_ok (w_committed w) \<Longrightarrow> drafts_ok (w_committed (fold serve_content rs w))"
    by (induction rs arbitrary: w) (auto simp: serve_content_def split_def intro: scope_keeping [OF keeping_content])
  then show ?thesis using assms
    by (auto simp: drafts_ok_def list_all_iff draft_ok_def signed_off_def known_fields_def attributed_def)
qed

section \<open>Generating again\<close>

definition open_draft :: "content_row \<Rightarrow> bool" where
  "open_draft c = (con_content_status c \<in> {Ct_DRAFT, Ct_PENDING_REVIEW})"

definition close_draft :: "nat \<Rightarrow> nat \<Rightarrow> int \<Rightarrow> content_row \<Rightarrow> content_row" where
  "close_draft t oid n c =
     (if con_tenant_id c = t \<and> con_opportunity_id c = oid \<and> open_draft c
      then c\<lparr>con_content_status := Ct_SUPERSEDED, con_updated_at := n\<rparr> else c)"

lemma save_each:
  assumes "distinct (map con_id rows)" "set cs \<subseteq> set rows" "distinct (map con_id cs)"
  shows "for_each (\<lambda>c. do_when (open_draft c) (repo_save content_model (c\<lparr>con_content_status := Ct_SUPERSEDED\<rparr>))) cs
      (w\<lparr>w_db := d\<lparr>generated_contents := rows\<rparr>\<rparr>)
    = (Inr (), w\<lparr>w_db := d\<lparr>generated_contents := map (\<lambda>r. if r \<in> set cs \<and> open_draft r
          then r\<lparr>con_content_status := Ct_SUPERSEDED, con_updated_at := w_now w\<rparr> else r) rows\<rparr>\<rparr>)"
  using assms
proof (induction cs arbitrary: rows)
  case Nil
  then show ?case by (simp add: ret_def)
next
  case (Cons c cs)
  let ?put = "c\<lparr>con_content_status := Ct_SUPERSEDED, con_updated_at := w_now w\<rparr>"
  let ?rows = "map (\<lambda>r. if open_draft c \<and> r = c then ?put else r) rows"
  have other: "con_id r \<noteq> con_id c" if "r \<in> set cs" for r
    using imageI [OF that, of con_id] Cons.prems(3) by auto
  have own: "\<forall>r\<in>set rows. (con_id r = con_id c) = (r = c)"
    using Cons.prems(1,2) by (auto simp: distinct_map inj_on_def)
  have "map con_id ?rows = map con_id rows" by simp
  then have "distinct (map con_id ?rows)" using Cons.prems(1) by (simp only:)
  moreover have "set cs \<subseteq> set ?rows" using Cons.prems(2) other by (force simp: image_iff)
  ultimately have IH: "for_each (\<lambda>c. do_when (open_draft c) (repo_save content_model (c\<lparr>con_content_status := Ct_SUPERSEDED\<rparr>))) cs
      (w\<lparr>w_db := d\<lparr>generated_contents := ?rows\<rparr>\<rparr>)
    = (Inr (), w\<lparr>w_db := d\<lparr>generated_contents := map (\<lambda>r. if r \<in> set cs \<and> open_draft r
          then r\<lparr>con_content_status := Ct_SUPERSEDED, con_updated_at := w_now w\<rparr> else r) ?rows\<rparr>\<rparr>)"
    using Cons.prems(3) by (intro Cons.IH) simp_all
  have "row_put con_id ?put rows = map (\<lambda>r. if r = c then ?put else r) rows" using own by (auto simp: row_put_def)
  then have "do_when (open_draft c) (repo_save content_model (c\<lparr>con_content_status := Ct_SUPERSEDED\<rparr>))
      (w\<lparr>w_db := d\<lparr>generated_contents := rows\<rparr>\<rparr>) = (Inr (), w\<lparr>w_db := d\<lparr>generated_contents := ?rows\<rparr>\<rparr>)"
    by (simp add: do_when_def repo_save_def comp_defs now_def change_db_def)
  moreover have "map (\<lambda>r. if r \<in> set cs \<and> open_draft r then r\<lparr>con_content_status := Ct_SUPERSEDED, con_updated_at := w_now w\<rparr> else r)
      ?rows = map (\<lambda>r. if r \<in> set (c # cs) \<and> open_draft r
         then r\<lparr>con_content_status := Ct_SUPERSEDED, con_updated_at := w_now w\<rparr> else r) rows"
    using other by (auto simp: open_draft_def)
  ultimately show ?case using IH by (simp add: ethen_def ebind_def)
qed

lemma wp_supersede:
  assumes "w_tenant w = Some t" "distinct (map con_id (generated_contents (w_db w)))"
    and "flushed (w\<lparr>w_db := (w_db w)\<lparr>generated_contents := map (close_draft t oid (w_now w)) (generated_contents (w_db w))\<rparr>\<rparr>)"
  shows "wp (supersede_drafts oid) (\<lambda>_. flushed) (\<lambda>_ _. True) w"
proof -
  let ?cs = "sort_key (\<lambda>c. - con_created_at c) (filter (\<lambda>c. con_opportunity_id c = oid) (tenant_rows content_model t (w_db w)))"
  have "set ?cs \<subseteq> set (generated_contents (w_db w))" by (auto simp: tenant_rows_def)
  moreover have "distinct (map con_id ?cs)" using assms(2) by (auto simp: distinct_map tenant_rows_def inj_on_def)
  ultimately have "for_each (\<lambda>c. do_when (open_draft c) (repo_save content_model (c\<lparr>con_content_status := Ct_SUPERSEDED\<rparr>))) ?cs w
    = (Inr (), w\<lparr>w_db := (w_db w)\<lparr>generated_contents := map (\<lambda>r. if r \<in> set ?cs \<and> open_draft r
          then r\<lparr>con_content_status := Ct_SUPERSEDED, con_updated_at := w_now w\<rparr> else r) (generated_contents (w_db w))\<rparr>\<rparr>)"
    using save_each [OF assms(2), where cs = ?cs and w = w and d = "w_db w"] by simp
  also have "map (\<lambda>r. if r \<in> set ?cs \<and> open_draft r
          then r\<lparr>con_content_status := Ct_SUPERSEDED, con_updated_at := w_now w\<rparr> else r) (generated_contents (w_db w))
      = map (close_draft t oid (w_now w)) (generated_contents (w_db w))"
    by (auto simp: tenant_rows_def close_draft_def)
  finally have "wp (for_each (\<lambda>c. do_when (open_draft c) (repo_save content_model (c\<lparr>con_content_status := Ct_SUPERSEDED\<rparr>))) ?cs)
      (\<lambda>_. wp flush_contents (\<lambda>_. flushed) (\<lambda>_ _. True)) (\<lambda>_ _. True) w"
    using assms(3) by (simp add: wp_def [of "for_each f xs" for f xs] flush_contents_def wp_simps)
  then show ?thesis using assms(1)
    unfolding open_draft_def supersede_drafts_def list_for_opportunity_def by (simp add: wp_simps content_table.wp_where)
qed

lemma wp_any: "(\<And>a t. Q a t) \<Longrightarrow> (\<And>e t. E e t) \<Longrightarrow> wp m Q E s"
  by (simp add: wp_def split: sum.split prod.split)

lemma wp_call_same: "wp (call_provider ax cl k prompt) (\<lambda>_ v. v = w) (\<lambda>_ _. True) w"
  by (auto simp: call_provider_def wp_simps split: sum.split exn.split) (rule wp_any; simp add: wp_simps)+

definition calm :: "world \<Rightarrow> world \<Rightarrow> bool" where
  "calm w v = (generated_contents (w_db v) = generated_contents (w_db w) \<and> w_tenant v = w_tenant w \<and> w_now v = w_now w)"

lemma wp_record_calm: "wp (record_generation r pu) (\<lambda>_. calm w) (\<lambda>_ _. True) w"
  by (auto simp: record_generation_def record_usage_def flush_usage_def wp_simps ai_usage_table.wp_new calm_def
      split: sum.split option.split)

lemma wp_generate:
  assumes "w_tenant w = Some t" "distinct (map con_id (generated_contents (w_db w)))"
  shows "wp (generate_content ax oid p)
     (\<lambda>c v. generated_contents (w_db v) = map (close_draft t oid (w_now w)) (generated_contents (w_db w)) @ [c]
        \<and> con_tenant_id c = t \<and> con_opportunity_id c = oid \<and> con_content_status c = Ct_PENDING_REVIEW
        \<and> con_reviewed_by_user_id c = None) (\<lambda>_ _. True) w"
proof -
  let ?Q = "\<lambda>c v. generated_contents (w_db v) = map (close_draft t oid (w_now w)) (generated_contents (w_db w)) @ [c]
        \<and> con_tenant_id c = t \<and> con_opportunity_id c = oid \<and> con_content_status c = Ct_PENDING_REVIEW
        \<and> con_reviewed_by_user_id c = None"
  have rest: "wp (store_draft ax oid target r) ?Q (\<lambda>_ _. True) v" if "calm w v" for target r v
    unfolding store_draft_def Let_def wp_ebind wp_lift_sum
  proof (split sum.split, intro conjI allI impI TrueI, unfold wp_ethen)
    fix parsed
    show "wp (supersede_drafts oid) (\<lambda>_. wp (ebind now (\<lambda>made.
       ebind (repo_new content_model (new_draft oid (dict_set ''target_url'' (JStr target) parsed) r made)) (\<lambda>c.
       ethen flush_contents (
       ethen (audit_on A_CONTENT_GENERATED ''generated_content'' (con_id c)
              [(''opportunity_id'', JId oid), (''ai_provider'', JStr (gr_provider r)),
               (''ai_model'', JStr (gr_model r)), (''content_id'', JId (con_id c)),
               (''field_count'', JInt (int (length (dict_set ''target_url'' (JStr target) parsed))))]) (ret c))))) ?Q (\<lambda>_ _. True))
       (\<lambda>_ _. True) v"
      by (rule wp_supersede [where t = t])
        (use that assms in \<open>auto simp: calm_def wp_simps content_table.wp_new flush_contents_def new_draft_def
          split: option.split\<close>)
  qed
  have call: "wp (call_provider ax cl k prompt) (\<lambda>r. wp (ethen (done_with (record_generation r (Some generation_purpose)))
      (store_draft ax oid target r)) ?Q (\<lambda>_ _. True)) (\<lambda>_ _. True) w" for cl k prompt target
  proof (rule wp_mono [OF wp_call_same]; clarify)
    fix r
    show "wp (ethen (done_with (record_generation r (Some generation_purpose))) (store_draft ax oid target r))
        ?Q (\<lambda>_ _. True) w"
      by (simp add: wp_simps done_with_def) (rule wp_mono [OF wp_record_calm], auto simp: rest wp_ret)
  qed
  have go: "wp (ebind (provider_for_purpose ax AU_CONTENT_GENERATION) (\<lambda>(cl, k).
     ebind (call_provider ax cl k (build_prompt site pub (opp_target_url op) p)) (\<lambda>r.
     ethen (done_with (record_generation r (Some generation_purpose))) (
     store_draft ax oid (opp_target_url op) r)))) ?Q (\<lambda>_ _. True) w" for site pub op
    unfolding wp_ebind
    by (rule wp_reads [OF reads_content_queries(6)]) (simp_all add: wp_case_prod wp_ebind call split: prod.split)
  show ?thesis
    unfolding generate_content_def wp_ebind
  proof (rule wp_reads [OF reads_content_queries(1)], clarify, unfold wp_ebind)
    fix op pub site
    show "wp (if cg_regenerate p then ret None else get_approved_for_opportunity oid) (\<lambda>existing.
       wp (ethen (case existing of None \<Rightarrow> ret () | Some c \<Rightarrow> raise (already_approved c)) (
         ebind (provider_for_purpose ax AU_CONTENT_GENERATION) (\<lambda>(cl, k).
         ebind (call_provider ax cl k (build_prompt site pub (opp_target_url op) p)) (\<lambda>r.
         ethen (done_with (record_generation r (Some generation_purpose))) (
         store_draft ax oid (opp_target_url op) r))))) ?Q (\<lambda>_ _. True)) (\<lambda>_ _. True) w"
      by (rule wp_reads, intro reads_if reads_ret reads_submission_queries)
        (auto simp: wp_ethen wp_ret wp_raise wp_case_option go split: option.split)
  qed simp
qed

text \<open>C33: A successful generation leaves the opportunity with exactly one draft awaiting review, the new one:
  the drafts that were still open are SUPERSEDED, not deleted, and everything already reviewed, by this
  opportunity or any other, stays as it was.  So an approved draft stays approved under regenerate=true.\<close>

theorem generation_supersedes_open_drafts:
  assumes "generate_content ax oid p w = (Inr c, v)" and "w_tenant w = Some t"
    and "distinct (map con_id (generated_contents (w_db w)))"
  shows "generated_contents (w_db v) = map (close_draft t oid (w_now w)) (generated_contents (w_db w)) @ [c]
     \<and> filter (\<lambda>r. con_tenant_id r = t \<and> con_opportunity_id r = oid \<and> open_draft r) (generated_contents (w_db v)) = [c]
     \<and> con_content_status c = Ct_PENDING_REVIEW \<and> con_reviewed_by_user_id c = None"
proof -
  note out = wp_Inr [OF wp_generate [OF assms(2,3)] assms(1)]
  have "\<not> (con_tenant_id r = t \<and> con_opportunity_id r = oid \<and> open_draft r)" if "r = close_draft t oid n r'" for r r' n
    unfolding that by (auto simp: close_draft_def open_draft_def)
  then have "filter (\<lambda>r. con_tenant_id r = t \<and> con_opportunity_id r = oid \<and> open_draft r)
      (map (close_draft t oid (w_now w)) (generated_contents (w_db w))) = []"
    by (auto simp: filter_empty_conv)
  then show ?thesis using out by (simp add: open_draft_def)
qed

section \<open>A concrete workspace\<close>

definition demo_site :: client_website_row where
  "demo_site = \<lparr>web_id = 40, web_tenant_id = 5, web_name = ''Acme'', web_domain = ''c.com'',
     web_normalized_domain = ''c.com'', web_website_url = ''https://c.com/'', web_description = None,
     web_industry = None, web_target_country = None, web_target_countries = [], web_target_language = None,
     web_status = W_ACTIVE, web_created_at = 0, web_updated_at = 0\<rparr>"

definition demo_campaign :: campaign_row where
  "demo_campaign = \<lparr>cmp_id = 30, cmp_tenant_id = 5, cmp_client_website_id = 40, cmp_name = ''Launch'',
     cmp_description = None, cmp_status = C_ACTIVE, cmp_target_country = None, cmp_target_language = None,
     cmp_budget = None, cmp_free_only = True, cmp_target_link_count = None, cmp_start_date = None,
     cmp_end_date = None, cmp_created_at = 0, cmp_updated_at = 0\<rparr>"

definition demo_ai_config :: ai_config_row where
  "demo_ai_config = \<lparr>aic_id = 50, aic_tenant_id = 5, aic_purpose = AU_CONTENT_GENERATION,
     aic_provider = ''custom'', aic_model = ''m'', aic_credential_id = None,
     aic_parameters = [(''base_url'', JStr ''https://llm.example'')], aic_is_default = True,
     aic_created_at = 0, aic_updated_at = 0\<rparr>"

definition content_world :: world where
  "content_world = demo_world\<lparr>w_committed := (w_committed demo_world)
     \<lparr>client_websites := [demo_site], campaigns := [demo_campaign], tenant_ai_configs := [demo_ai_config]\<rparr>\<rparr>"

definition plain_request :: content_request where
  "plain_request = \<lparr>cg_tone = None, cg_keywords = [], cg_max_description_words = 100,
     cg_include_short_description = True, cg_include_long_description = True, cg_regenerate = False\<rparr>"

definition replying :: "exn + string \<Rightarrow> ai_services" where
  "replying r = \<lparr>ax_credentials = toy_vault, ax_py = toy_py,
     ax_generate = (\<lambda>cl rq. case r of Inl e \<Rightarrow> Inl e | Inr txt \<Rightarrow>
        Inr \<lparr>gr_text = txt, gr_model = gq_model rq, gr_provider = provider_key cl, gr_input_tokens = JInt 12,
             gr_output_tokens = JNull, gr_finish_reason = JNull, gr_provider_request_id = JNull,
             gr_latency_ms = Some 3\<rparr>)\<rparr>"

definition demo_copy :: "(string \<times> json) list" where
  "demo_copy = [(''listing_title'', JStr ''Acme''), (''short_description'', JStr []), (''long_description'', JStr []),
     (''business_description'', JStr []), (''category_suggestion'', JStr []), (''anchor_suggestion'', JStr []),
     (''tags'', JList []), (''target_url'', JStr ''https://c.com/'')]"

definition demo_draft :: content_row where
  "demo_draft = \<lparr>con_id = 101, con_tenant_id = 5, con_opportunity_id = 20, con_content_status = Ct_PENDING_REVIEW,
     con_generated_content = demo_copy, con_ai_provider = Some ''custom'', con_ai_model = Some ''m'',
     con_generation_timestamp = Some 0, con_reviewed_by_user_id = None, con_reviewed_at = None,
     con_review_notes = None, con_created_at = 0, con_updated_at = 0\<rparr>"

lemma demo_sources:
  "content_sources 20 (open_session (Some 5) (Some 7) content_world)
     = (Inr (demo_opportunity, demo_publisher, demo_site), open_session (Some 5) (Some 7) content_world)"
  by (rule wp_exec [THEN iffD1])
    (simp add: content_sources_def run_simps campaign_table.wp_where client_website_table.wp_where wp_scalar
      content_world_def demo_world_def open_session_def initial_world_def empty_db_def demo_campaign_def demo_site_def
      demo_opportunity_def)

lemma demo_config:
  "provider_for_purpose (replying r) AU_CONTENT_GENERATION (open_session (Some 5) (Some 7) content_world)
     = (Inr (\<lparr>cl_kind = AP_CUSTOM, cl_api_key = [], cl_base_url = ''https://llm.example''\<rparr>, demo_ai_config),
        open_session (Some 5) (Some 7) content_world)"
  by (rule wp_exec [THEN iffD1])
    (simp add: provider_for_purpose_def get_default_for_purpose_def build_provider_def wp_simps ai_config_table.wp_where wp_scalar
      content_world_def demo_world_def open_session_def initial_world_def empty_db_def demo_ai_config_def tenant_rows_def
      provider_classes_def make_client_def base_url_argument_def rstrip_slash_def replying_def)

lemma demo_reply:
  "parse_content toy_py ''{}'' =
     Inr [(''listing_title'', JStr ''Acme''), (''short_description'', JStr []), (''long_description'', JStr []),
          (''business_description'', JStr []), (''category_suggestion'', JStr []), (''anchor_suggestion'', JStr []),
          (''tags'', JList [])]"
  by code_simp

lemma demo_none_approved:
  "get_approved_for_opportunity 20 (open_session (Some 5) (Some 7) content_world)
     = (Inr None, open_session (Some 5) (Some 7) content_world)"
  by (rule wp_exec [THEN iffD1])
    (simp add: run_simps content_world_def demo_world_def open_session_def initial_world_def empty_db_def)

lemma wp_demo_reads:
  "wp (content_sources 20) Q E (open_session (Some 5) (Some 7) content_world)
     = Q (demo_opportunity, demo_publisher, demo_site) (open_session (Some 5) (Some 7) content_world)"
  "wp (get_approved_for_opportunity 20) Q'' E (open_session (Some 5) (Some 7) content_world)
     = Q'' None (open_session (Some 5) (Some 7) content_world)"
  "wp (provider_for_purpose (replying r) AU_CONTENT_GENERATION) Q' E (open_session (Some 5) (Some 7) content_world)
     = Q' (\<lparr>cl_kind = AP_CUSTOM, cl_api_key = [], cl_base_url = ''https://llm.example''\<rparr>, demo_ai_config)
         (open_session (Some 5) (Some 7) content_world)"
  by (simp_all add: wp_def demo_sources demo_none_approved demo_config)

text \<open>The call's result, and the state of the session when it is made.\<close>

definition demo_result :: generation_result where
  "demo_result = \<lparr>gr_text = ''{}'', gr_model = ''m'', gr_provider = ''custom'', gr_input_tokens = JInt 12,
     gr_output_tokens = JNull, gr_finish_reason = JNull, gr_provider_request_id = JNull, gr_latency_ms = Some 3\<rparr>"

lemma demo_request:
  "\<exists>rq. content_generation_request toy_py demo_ai_config prompt = Inr rq \<and> gq_model rq = ''m''"
  by (simp add: content_generation_request_def config_number_def demo_ai_config_def py_int_def py_float_def)

lemma demo_called:
  "call_provider (replying (Inr ''{}'')) \<lparr>cl_kind = AP_CUSTOM, cl_api_key = [], cl_base_url = u\<rparr> demo_ai_config prompt w
     = (Inr demo_result, w)"
proof -
  obtain rq where "content_generation_request toy_py demo_ai_config prompt = Inr rq" "gq_model rq = ''m''"
    using demo_request by blast
  then show ?thesis
    by (simp add: call_provider_def recover_def comp_defs replying_def demo_result_def provider_key_def)
qed

lemma wp_demo_call:
  "wp (call_provider (replying (Inr ''{}'')) \<lparr>cl_kind = AP_CUSTOM, cl_api_key = [], cl_base_url = u\<rparr> demo_ai_config prompt) Q E w
     = Q demo_result w"
  by (simp add: wp_def demo_called)

lemma demo_usage: "estimate_cost ''m'' a b = Inr None"
  by (simp add: estimate_cost_def model_prices_def)

lemma demo_open:
  "generated_contents (w_db (open_session (Some 5) (Some 7) content_world)) = []"
  "ai_usage_records (w_db (open_session (Some 5) (Some 7) content_world)) = []"
  "opportunities (w_db (open_session (Some 5) (Some 7) content_world)) = [demo_opportunity]"
  "w_tenant (open_session (Some 5) (Some 7) content_world) = Some 5"
  "w_now (open_session (Some 5) (Some 7) content_world) = 0"
  "w_next (open_session (Some 5) (Some 7) content_world) = 100"
  by (simp_all add: content_world_def demo_world_def open_session_def initial_world_def empty_db_def)

lemma demo_generation:
  "\<exists>c v. generate_content (replying (Inr ''{}'')) 20 plain_request (open_session (Some 5) (Some 7) content_world) = (Inr c, v)
      \<and> c = demo_draft \<and> w_tenant v = Some 5 \<and> generated_contents (w_db v) = [demo_draft]"
proof -
  have py: "ax_py (replying r) = toy_py" for r by (simp add: replying_def)
  show ?thesis
    by (rule wp_only_returns)
      (simp add: generate_content_def wp_simps wp_demo_reads wp_demo_call plain_request_def done_with_def
        record_generation_def record_usage_def demo_usage demo_result_def token_column_def ai_usage_table.wp_new usage_row_def
        flush_usage_def usage_ok_def demo_open store_draft_def py demo_reply supersede_drafts_def list_for_opportunity_def
        content_table.wp_where content_table.wp_new tenant_rows_def flush_contents_def contents_ok_def new_draft_def
        dict_set_def demo_copy_def demo_draft_def Let_def)
qed

lemma generation_supersedes_open_drafts_witness:
  "\<exists>v. generate_content (replying (Inr ''{}'')) 20 plain_request (open_session (Some 5) (Some 7) content_world) = (Inr demo_draft, v)
      \<and> filter (\<lambda>r. con_tenant_id r = 5 \<and> con_opportunity_id r = 20 \<and> open_draft r) (generated_contents (w_db v)) = [demo_draft]"
proof -
  obtain v where v: "generate_content (replying (Inr ''{}'')) 20 plain_request (open_session (Some 5) (Some 7) content_world)
      = (Inr demo_draft, v)"
    using demo_generation by blast
  have "distinct (map con_id (generated_contents (w_db (open_session (Some 5) (Some 7) content_world))))"
    by (simp add: demo_open)
  then show ?thesis using generation_supersedes_open_drafts [OF v demo_open(4)] v by blast
qed

lemma stored_drafts_are_signed_witness:
  "let v = fold serve_content [(replying (Inr ''{}''), 5, 7, C_Generate 20 plain_request)] content_world
   in generated_contents (w_committed v) = [demo_draft] \<and> (\<forall>c\<in>set (generated_contents (w_committed v)). con_ai_provider c \<noteq> None)"
proof -
  let ?rs = "[(replying (Inr ''{}''), 5::nat, 7::nat, C_Generate 20 plain_request)]"
  obtain v where "generate_content (replying (Inr ''{}'')) 20 plain_request (open_session (Some 5) (Some 7) content_world)
      = (Inr demo_draft, v)" "generated_contents (w_db v) = [demo_draft]"
    using demo_generation by blast
  then have "generated_contents (w_committed (fold serve_content ?rs content_world)) = [demo_draft]"
    by (simp add: serve_content_def session_scope_def done_with_def ebind_def ret_def session_commit_def modify_def
        close_session_def)
  moreover have "generated_contents (w_committed content_world) = []"
    by (simp add: content_world_def demo_world_def empty_db_def)
  ultimately show ?thesis using stored_drafts_are_signed [of content_world ?rs] by simp
qed

section \<open>A call that fails\<close>

text \<open>A failed provider call is accounted for in the session only.  The FAILED row is flushed and the
  exception raised again, so the request's rollback takes the row with it: the committed ledger shows
  nothing, however often a dead key is tried.\<close>

theorem failed_call_is_not_recorded:
  assumes "content_sources oid (open_session (Some t) (Some u) w) = (Inr (op, pub, site), open_session (Some t) (Some u) w)"
    and "cg_regenerate p"
    and "provider_for_purpose ax AU_CONTENT_GENERATION (open_session (Some t) (Some u) w)
           = (Inr (cl, k), open_session (Some t) (Some u) w)"
    and "content_generation_request (ax_py ax) k (build_prompt site pub (opp_target_url op) p) = Inr rq"
    and "ax_generate ax cl rq = Inl (AppExn x)" and "is_app_error (AppExn x) ProviderError"
    and "usage_ok (w_committed w)"
  shows "(\<exists>row v. generate_content ax oid p (open_session (Some t) (Some u) w) = (Inl (AppExn x), v)
            \<and> ai_usage_records (w_db v) = ai_usage_records (w_committed w) @ [row]
            \<and> aiu_status row = AS_FAILED \<and> aiu_error_code row = Some (err_code x))
     \<and> w_committed (snd (session_scope (Some t) (Some u) (generate_content ax oid p) w)) = w_committed w"
proof -
  let ?w = "open_session (Some t) (Some u) w"
  have sources: "wp (content_sources oid) Q E ?w = Q (op, pub, site) ?w" for Q E using assms(1) by (simp add: wp_def)
  have provider: "wp (provider_for_purpose ax AU_CONTENT_GENERATION) Q E ?w = Q (cl, k) ?w" for Q E
    using assms(3) by (simp add: wp_def)
  have start: "w_db ?w = w_committed w" "w_committed ?w = w_committed w" "w_tenant ?w = Some t"
    by (simp_all add: open_session_def)
  have cost: "estimate_cost m JNull JNull = Inr None" for m by (simp add: estimate_cost_def split: option.split)
  have "usage_ok ((w_committed w)\<lparr>ai_usage_records := ai_usage_records (w_committed w) @ [row]\<rparr>)"
    if "aiu_input_tokens row = None" "aiu_output_tokens row = None" "aiu_estimated_cost row = None" for row
    using assms(7) that by (simp add: usage_ok_def)
  then have "wp (generate_content ax oid p) (\<lambda>_ _. False)
      (\<lambda>e v. e = AppExn x \<and> (\<exists>row. ai_usage_records (w_db v) = ai_usage_records (w_committed w) @ [row]
            \<and> aiu_status row = AS_FAILED \<and> aiu_error_code row = Some (err_code x)) \<and> w_committed v = w_committed w) ?w"
    using assms(2,4-6)
    by (simp add: generate_content_def wp_simps sources provider call_provider_def record_failure_def record_usage_def cost
        token_column_def flush_usage_def ai_usage_table.wp_new usage_row_def start)
  note fails = wp_only_raises [OF this]
  then obtain v where v: "generate_content ax oid p ?w = (Inl (AppExn x), v)" "w_committed v = w_committed w"
      "\<exists>row. ai_usage_records (w_db v) = ai_usage_records (w_committed w) @ [row]
            \<and> aiu_status row = AS_FAILED \<and> aiu_error_code row = Some (err_code x)"
    by (elim exE conjE) simp
  then have "w_committed (snd (session_scope (Some t) (Some u) (generate_content ax oid p) w)) = w_committed w"
    by (simp add: session_scope_def session_rollback_def modify_def close_session_def)
  then show ?thesis using v by blast
qed

lemma failed_call_is_not_recorded_witness:
  "let ax = replying (Inl (err ProviderUnavailableError)); p = plain_request\<lparr>cg_regenerate := True\<rparr>
   in \<exists>v. generate_content ax 20 p (open_session (Some 5) (Some 7) content_world) = (Inl (err ProviderUnavailableError), v)
        \<and> ai_usage_records (w_db v) \<noteq> []
        \<and> ai_usage_records (w_committed (snd (session_scope (Some 5) (Some 7) (generate_content ax 20 p) content_world))) = []"
proof -
  let ?ax = "replying (Inl (err ProviderUnavailableError))" and ?p = "plain_request\<lparr>cg_regenerate := True\<rparr>"
  have py: "ax_py ?ax = toy_py" by (simp add: replying_def)
  obtain rq where rq: "content_generation_request (ax_py ?ax) demo_ai_config
      (build_prompt demo_site demo_publisher (opp_target_url demo_opportunity) ?p) = Inr rq"
    unfolding py using demo_request by blast
  obtain x where x: "err ProviderUnavailableError = AppExn x" "is_app_error (AppExn x) ProviderError"
    by (simp add: err_def is_subclass_def)
  have "usage_ok (w_committed content_world)" "cg_regenerate ?p"
    by (simp_all add: usage_ok_def content_world_def demo_world_def empty_db_def plain_request_def)
  note run = failed_call_is_not_recorded [OF demo_sources this(2) demo_config rq _ x(2) this(1)]
  have "ax_generate ?ax cl rq = Inl (AppExn x)" for cl by (simp add: replying_def x(1))
  from run [OF this] show ?thesis
    by (auto simp: Let_def x(1) content_world_def demo_world_def empty_db_def)
qed

end
