(* ===== verification/AiProperties.thy ===== *)
theory AiProperties
  imports NetProperties ContentProperties
begin

text \<open>
  Properties of the AI integrations: where an API key travels, and what the usage report adds up to.
\<close>

section \<open>What a call puts on the wire\<close>

text \<open>\<open>posted P\<close>: everything sent in between satisfies \<open>P\<close>.\<close>

definition posted :: "(http_request \<Rightarrow> bool) \<Rightarrow> net \<Rightarrow> net \<Rightarrow> bool" where
  "posted P s t = (\<exists>new. nt_log t = nt_log s @ new \<and> list_all P new)"

lemma posted_trans: "posted P s t \<Longrightarrow> posted P t u \<Longrightarrow> posted P s u"
  unfolding posted_def by (elim exE conjE, rule_tac x = "new @ newa" in exI) simp

interpretation posted: frame "posted P" "posted P" for P
proof
  show "posted P s s" for s by (simp add: posted_def)
qed (auto intro: posted_trans)

lemma posted_transmit: "P rq \<Longrightarrow> inside (posted P) (posted P) (transmit env rq)"
  by (simp add: inside_def wp_def transmit_def posted_def)

lemma posted_send:
  assumes "P rq"
  shows "inside (posted P) (posted P) (send_once env cap rq)"
  unfolding send_once_def
proof (rule posted.inside_ebind [OF posted_transmit [of P rq, OF assms]])
  show "inside (posted P) (posted P) (case a of SendTimeout \<Rightarrow> raise (transport_error ProviderTimeoutError (hr_url rq))
      | SendFailed \<Rightarrow> raise (transport_error ProviderUnavailableError (hr_url rq)) | SendRaised e \<Rightarrow> raise e
      | Sent r \<Rightarrow> lift_sum (receive (hr_url rq) cap r))" for a
    by (cases a) (auto intro: posted.inside_basic)
qed

lemma posted_attempts:
  assumes "P rq" and "\<And>st loc. inside (posted P) (posted P) (follow st loc)"
  shows "inside (posted P) (posted P) (attempts env cap rq follow i n)"
proof (induction n arbitrary: i)
  case 0
  then show ?case by (simp add: posted.inside_basic)
next
  case (Suc n)
  have again: "inside (posted P) (posted P) (ethen (sleep_backoff env i x) (attempts env cap rq follow (Suc i) n))" for x
    unfolding sleep_backoff_def
    by (intro posted.inside_ethen posted.inside_modify Suc.IH) (simp add: posted_def)
  have late: "inside (posted P) (posted P) m \<Longrightarrow> posted P s t \<Longrightarrow> wp m (\<lambda>_. posted P s) (\<lambda>_. posted P s) t"
    for m :: "http_response online" and s t
    using posted_trans by (blast intro: wp_mono [OF insideD])
  show ?case unfolding inside_def wp_attempt
  proof
    fix s
    show "wp (send_once env cap rq)
       (\<lambda>r t. if resp_status r \<in> set retry_status_codes \<and> n \<noteq> 0
          then wp (ethen (sleep_backoff env i (map_of (resp_headers r) ''retry-after'')) (attempts env cap rq follow (Suc i) n))
                 (\<lambda>_. posted P s) (\<lambda>_. posted P s) t
          else case wants_redirect (he_config env) r of
                 Some location \<Rightarrow> wp (follow (resp_status r) location) (\<lambda>_. posted P s) (\<lambda>_. posted P s) t
               | None \<Rightarrow> posted P s t)
       (\<lambda>e t. if is_transient e \<and> n \<noteq> 0
          then wp (ethen (sleep_backoff env i None) (attempts env cap rq follow (Suc i) n)) (\<lambda>_. posted P s) (\<lambda>_. posted P s) t
          else posted P s t) s"
      by (rule wp_mono [OF insideD [OF posted_send [of P rq, OF assms(1)]]])
        (auto intro: late again assms(2) split: option.split)
  qed
qed

lemma posted_visit:
  assumes "P rq" and "\<And>st url q. P q \<Longrightarrow> P (redirected st url q)"
  shows "inside (posted P) (posted P) (visit env cap budget left rq)"
  using assms(1)
proof (induction left arbitrary: rq)
  case 0
  show ?case unfolding visit.simps
    by (intro posted.inside_ethen posted.inside_basic posted_attempts 0)
next
  case (Suc left)
  show ?case unfolding visit.simps
    by (intro posted.inside_ethen posted.inside_ebind posted.inside_basic posted_attempts Suc.IH assms(2) Suc.prems)
qed

text \<open>The body a provider's request has: a function of the request, not of the client's key.\<close>

definition payload_of :: "ai_provider \<Rightarrow> generation_request \<Rightarrow> (string \<times> json) list" where
  "payload_of k rq =
     (case k of AP_ANTHROPIC \<Rightarrow> anthropic_payload rq | AP_GEMINI \<Rightarrow> gemini_payload rq | _ \<Rightarrow> openai_payload rq)"

definition sent_headers :: "ai_client \<Rightarrow> (string \<times> string) list" where
  "sent_headers cl =
     dict_merge [(''Content-Type'', ''application/json''), (''Accept'', ''application/json'')] (client_headers cl)"

definition provider_request :: "ai_client \<Rightarrow> generation_request \<Rightarrow> http_request \<Rightarrow> bool" where
  "provider_request cl rq r =
     (hr_headers r = sent_headers cl \<and> hr_params r = [] \<and> hr_content r = None
      \<and> hr_json r \<in> {None, Some (JObj (payload_of (cl_kind cl) rq))})"

lemma posted_provider:
  assumes "payload = payload_of (cl_kind cl) rq"
  shows "inside (posted (provider_request cl rq)) (posted (provider_request cl rq))
     (provider_post env cl path payload (client_headers cl))"
proof -
  have call: "inside (posted (provider_request cl rq)) (posted (provider_request cl rq))
      (post_json (ai_http env) url (JObj payload) (client_headers cl))" for url
    unfolding post_json_def http_call_def Let_def
    by (rule posted_visit) (auto simp: provider_request_def sent_headers_def redirected_def plain_call_def assms)
  have answer: "inside (posted (provider_request cl rq)) (posted (provider_request cl rq))
      (case body of JObj fs \<Rightarrow> ret (fs, n) | _ \<Rightarrow> raise e)" for body n e
    by (cases body) (auto intro: posted.inside_basic)
  show ?thesis unfolding provider_post_def
    by (intro posted.inside_ebind inside_if call answer posted.inside_basic)
qed

lemma posted_generate:
  "inside (posted (provider_request cl rq)) (posted (provider_request cl rq)) (ai_generate env cl rq)"
  unfolding ai_generate_def openai_generate_def anthropic_generate_def gemini_generate_def
  by (cases "cl_kind cl"; simp; intro posted.inside_ebind inside_prod posted_provider posted.inside_basic;
      simp add: payload_of_def)

lemma sends_generate:
  "sends (he_config (ai_http env)) (call_limit (he_config (ai_http env)) plain_call) (ai_generate env cl rq)"
proof -
  let ?c = "he_config (ai_http env)"
  have same: "call_limit c (plain_call\<lparr>co_json := j, co_headers := h\<rparr>) = call_limit c plain_call" for c j h
    by (simp add: call_limit_def attempt_budget_def)
  have post: "sends ?c (call_limit ?c plain_call) (post_json (ai_http env) url p h)" for url p h
    unfolding post_json_def using sends_call [of "ai_http env" "plain_call\<lparr>co_json := j, co_headers := k\<rparr>" for j k] same by metis
  have still: "sends ?c 0 (case body of JObj fs \<Rightarrow> ret (fs, n) | _ \<Rightarrow> raise e)" for body n e
    by (cases body) (auto intro: sends_still)
  have "sends ?c (0 + (call_limit ?c plain_call + (0 + (0 + 0)))) (provider_post env cl path pl hd)" for path pl hd
    unfolding provider_post_def
    by (intro sends_ebind sends_if still sends_still post sends_reads reads_gets)
  then have one: "sends ?c (call_limit ?c plain_call) (provider_post env cl path pl hd)" for path pl hd by simp
  have "sends ?c (call_limit ?c plain_call + 0) (ebind (provider_post env cl path pl hd) (\<lambda>(b, e). lift_sum (f b e)))"
    for path pl hd and f :: "(string \<times> json) list \<Rightarrow> int \<Rightarrow> exn + generation_result"
    by (intro sends_ebind one) (auto intro: sends_still split: prod.split)
  then show ?thesis
    unfolding ai_generate_def openai_generate_def anthropic_generate_def gemini_generate_def by (simp split: ai_provider.split)
qed


definition demo_ai :: ai_env where
  "demo_ai = \<lparr>ai_http = demo_http, ai_py = toy_py, ai_clock = (\<lambda>_. 0)\<rparr>"

definition keyed_client :: ai_client where
  "keyed_client = \<lparr>cl_kind = AP_ANTHROPIC, cl_api_key = ''sk-ant-1'', cl_base_url = ''https://api.anthropic.com/v1''\<rparr>"

lemma demo_post:
  "\<exists>r. post_json demo_http ''https://api.anthropic.com/v1/messages'' body hs quiet
     = (Inr r, quiet\<lparr>nt_log := [request_of ''POST'' ''https://api.anthropic.com/v1/messages''
         (plain_call\<lparr>co_json := Some body,
          co_headers := dict_merge [(''Content-Type'', ''application/json''), (''Accept'', ''application/json'')] hs\<rparr>)]\<rparr>)
     \<and> resp_status r = 404"
proof -
  let ?u = "''https://api.anthropic.com/v1/messages''"
  let ?o = "plain_call\<lparr>co_json := Some body,
          co_headers := dict_merge [(''Content-Type'', ''application/json''), (''Accept'', ''application/json'')] hs\<rparr>"
  have safe: "assert_safe_url (he_config demo_http) ?u = Inr ()" by code_simp
  have sent: "he_send demo_http (nt_log quiet) (request_of ''POST'' ?u ?o) = Sent (case page_answer ?u 404 [] of Sent r \<Rightarrow> r)"
    by (simp add: demo_http_def demo_web_def request_of_def page_answer_def)
  have got: "\<exists>r. receive ?u (size_cap (he_config demo_http) ?o) (case page_answer ?u 404 [] of Sent r \<Rightarrow> r) = Inr r
      \<and> resp_status r = 404 \<and> wants_redirect (he_config demo_http) r = None"
    by (simp add: page_answer_def receive_def declared_length_def header_of_def wants_redirect_def size_cap_def plain_call_def
        demo_http_def default_http_config_def)
  then obtain r where r: "receive ?u (size_cap (he_config demo_http) ?o) (case page_answer ?u 404 [] of Sent r \<Rightarrow> r) = Inr r"
    "resp_status r = 404" "wants_redirect (he_config demo_http) r = None" by blast
  have budget: "0 \<le> attempt_budget (he_config demo_http) ?o"
    by (simp add: attempt_budget_def plain_call_def demo_http_def default_http_config_def)
  have "http_call demo_http ''POST'' ?u ?o quiet = (Inr r, quiet\<lparr>nt_log := nt_log quiet @ [request_of ''POST'' ?u ?o]\<rparr>)"
    by (rule call_answered [OF safe budget sent r(1)]) (use r(2,3) in \<open>simp_all add: retry_status_codes_def\<close>)
  then show ?thesis using r(2) by (simp add: post_json_def quiet_def)
qed


section \<open>The usage report\<close>

text \<open>C35: The usage report loses nothing: its totals are those of the rows of the workspace in the window, each
  combination of provider, model and operation has exactly one line, and the lines are in order.\<close>

theorem usage_report_is_complete:
  assumes "usage_report since until w = (Inr y, v)" and "w_tenant w = Some t"
  shows "let us = filter (\<lambda>u. aiu_tenant_id u = t \<and> in_window since until u) (ai_usage_records (w_db w)) in
      sy_total_requests y = length us
      \<and> sy_total_input_tokens y = sum_list (map (\<lambda>u. or_zero (aiu_input_tokens u)) us)
      \<and> sy_total_output_tokens y = sum_list (map (\<lambda>u. or_zero (aiu_output_tokens u)) us)
      \<and> sy_total_estimated_cost y = round6 (sum_list (map (\<lambda>u. or_zero (aiu_estimated_cost u)) us))
      \<and> sum_list (map us_failures (sy_rows y)) = length (filter (\<lambda>u. aiu_status u = AS_FAILED) us)
      \<and> distinct (map (\<lambda>r. (us_provider r, us_model r, us_operation r)) (sy_rows y))
      \<and> set (map (\<lambda>r. (us_provider r, us_model r, us_operation r)) (sy_rows y)) = usage_group ` set us
      \<and> sorted (map (\<lambda>r. (us_provider r, us_model r)) (sy_rows y)) \<and> v = w"
proof -
  define us where "us = filter (\<lambda>u. aiu_tenant_id u = t \<and> in_window since until u) (ai_usage_records (w_db w))"
  have "wp (usage_report since until) (\<lambda>y v. y = summary_of (summarize us) since until \<and> v = w) (\<lambda>_ _. True) w"
    using assms(2) by (simp add: usage_report_def wp_simps ai_usage_table.wp_where tenant_rows_def us_def conj_commute)
  from wp_Inr [OF this assms(1)] have y: "y = summary_of (summarize us) since until" "v = w" by simp_all
  let ?gs = "remdups (map usage_group us)"
  have total: "sum_list (map f (summarize us)) = sum_list (map h us)"
    if "\<And>g. f (summary_row us g) = sum_list (map h (filter (\<lambda>u. usage_group u = g) us))"
    for f :: "usage_summary_row \<Rightarrow> 'b::comm_monoid_add" and h
    using sum_over_groups [of ?gs usage_group us h] that
    by (simp add: summarize_def sum_list_sort_key comp_def)
  have ones: "length xs = sum_list (map (\<lambda>_. 1) xs)" for xs :: "'c list" by (induction xs) simp_all
  have failed: "length (filter P xs) = sum_list (map (\<lambda>x. if P x then 1 else 0) xs)" for P and xs :: "'c list"
    by (induction xs) simp_all
  have keys: "map (\<lambda>r. (us_provider r, us_model r, us_operation r)) (map (summary_row us) ?gs) = ?gs"
    by (simp add: summary_row_def Let_def comp_def)
  have same: "mset (map (\<lambda>r. (us_provider r, us_model r, us_operation r)) (summarize us)) = mset ?gs"
    unfolding summarize_def mset_map mset_sort by (simp only: mset_map [symmetric] keys)
  have groups: "distinct (map (\<lambda>r. (us_provider r, us_model r, us_operation r)) (summarize us))"
    "set (map (\<lambda>r. (us_provider r, us_model r, us_operation r)) (summarize us)) = usage_group ` set us"
    using mset_eq_imp_distinct_iff [OF same] mset_eq_setD [OF same] by simp_all
  have "sorted (map (\<lambda>r. (us_provider r, us_model r)) (summarize us))"
    unfolding summarize_def by (rule sorted_sort_key)
  moreover have "sum_list (map us_requests (summarize us)) = length us"
    unfolding ones [of us] by (rule total) (simp add: summary_row_def Let_def ones)
  moreover have "sum_list (map us_failures (summarize us)) = length (filter (\<lambda>u. aiu_status u = AS_FAILED) us)"
    unfolding failed by (rule total) (simp add: summary_row_def Let_def failed)
  ultimately show ?thesis
    using groups total [of us_input_tokens "\<lambda>u. or_zero (aiu_input_tokens u)"]
      total [of us_output_tokens "\<lambda>u. or_zero (aiu_output_tokens u)"]
      total [of us_estimated_cost "\<lambda>u. or_zero (aiu_estimated_cost u)"]
    by (simp add: us_def [symmetric] y summary_of_def summary_row_def Let_def)
qed

definition demo_usage_row :: "nat \<Rightarrow> string \<Rightarrow> int \<Rightarrow> ai_usage_status \<Rightarrow> ai_usage_row" where
  "demo_usage_row i m n st = \<lparr>aiu_id = i, aiu_tenant_id = 5, aiu_provider = ''openai'', aiu_model = m,
     aiu_operation = AO_GENERATE, aiu_purpose = None, aiu_input_tokens = Some n, aiu_output_tokens = None,
     aiu_estimated_cost = None, aiu_request_id = None, aiu_status = st, aiu_error_code = None,
     aiu_latency_ms = None, aiu_created_at = 0\<rparr>"

definition usage_world :: world where
  "usage_world = vault_world\<lparr>w_db := empty_db\<lparr>ai_usage_records :=
     [demo_usage_row 1 ''gpt-4o'' 10 AS_SUCCEEDED, demo_usage_row 2 ''gpt-4o-mini'' 5 AS_SUCCEEDED,
      demo_usage_row 3 ''gpt-4o'' 7 AS_FAILED]\<rparr>\<rparr>"

lemma usage_report_is_complete_witness:
  "\<exists>y. usage_report None None usage_world = (Inr y, usage_world)
     \<and> sy_total_requests y = 3 \<and> sy_total_input_tokens y = 22 \<and> length (sy_rows y) = 2"
proof -
  obtain y where y: "usage_report None None usage_world = (Inr y, usage_world)"
    by (simp add: usage_report_def repo_where_def repo_rows_def comp_defs query_def require_tenant_id_def usage_world_def
        vault_world_def)
  have t: "w_tenant usage_world = Some 5" by (simp add: usage_world_def vault_world_def)
  have us: "filter (\<lambda>u. aiu_tenant_id u = 5 \<and> in_window None None u) (ai_usage_records (w_db usage_world))
     = [demo_usage_row 1 ''gpt-4o'' 10 AS_SUCCEEDED, demo_usage_row 2 ''gpt-4o-mini'' 5 AS_SUCCEEDED,
      demo_usage_row 3 ''gpt-4o'' 7 AS_FAILED]"
    by (simp add: usage_world_def demo_usage_row_def in_window_def)
  note full = usage_report_is_complete [OF y t, unfolded us Let_def]
  have two: "card (usage_group ` set [demo_usage_row 1 ''gpt-4o'' 10 AS_SUCCEEDED, demo_usage_row 2 ''gpt-4o-mini'' 5 AS_SUCCEEDED,
      demo_usage_row 3 ''gpt-4o'' 7 AS_FAILED]) = 2"
    by (simp add: usage_group_def demo_usage_row_def card_insert_if)
  have d: "distinct (map (\<lambda>r. (us_provider r, us_model r, us_operation r)) (sy_rows y))"
    and groups: "set (map (\<lambda>r. (us_provider r, us_model r, us_operation r)) (sy_rows y))
      = usage_group ` set [demo_usage_row 1 ''gpt-4o'' 10 AS_SUCCEEDED, demo_usage_row 2 ''gpt-4o-mini'' 5 AS_SUCCEEDED,
          demo_usage_row 3 ''gpt-4o'' 7 AS_FAILED]"
    using full by blast+
  have "length (map (\<lambda>r. (us_provider r, us_model r, us_operation r)) (sy_rows y)) = 2"
    using distinct_card [OF d] unfolding groups two by (rule sym)
  then have "length (sy_rows y) = 2" by simp
  moreover have "sy_total_requests y = 3" "sy_total_input_tokens y = 22"
    using full by (simp_all add: demo_usage_row_def or_zero_def)
  ultimately show ?thesis using y by blast
qed

end
