(* ===== verification/Responses.thy ===== *)
theory Responses
  imports Session
begin

text \<open>
  The envelopes of \<open>core/responses.py\<close> and the exception handlers of \<open>core/error_handlers.py\<close>.  A
  handler reads the ambient request context for the request id; which handler Starlette picks for an
  exception is left to Starlette.  Log lines are left out.  The cause of an integrity error is the
  driver's: \<open>db_cause\<close> names the ones the code tells apart.
\<close>

section \<open>Web responses\<close>

text \<open>Header names are kept in lower case, as Starlette keeps them.\<close>

record web_response =
  ws_status :: int
  ws_headers :: "(string \<times> string) list"
  ws_body :: json

definition set_header :: "string \<Rightarrow> string \<Rightarrow> web_response \<Rightarrow> web_response" where
  "set_header k v r = r\<lparr>ws_headers := dict_set (str_lower k) v (ws_headers r)\<rparr>"

definition set_default_header :: "string \<Rightarrow> string \<Rightarrow> web_response \<Rightarrow> web_response" where
  "set_default_header k v r =
     (if str_lower k \<in> set (map fst (ws_headers r)) then r
      else r\<lparr>ws_headers := ws_headers r @ [(str_lower k, v)]\<rparr>)"

section \<open>Success envelopes\<close>

record pagination_meta =
  pm_page :: int
  pm_page_size :: int
  pm_total :: int
  pm_total_pages :: int
  pm_has_next :: bool
  pm_has_previous :: bool

definition pagination_meta_build :: "int \<Rightarrow> int \<Rightarrow> int \<Rightarrow> pagination_meta" where
  "pagination_meta_build page sz rows =
     (let pages = (if sz \<noteq> 0 then (rows + sz - 1) div sz else 0)
      in \<lparr>pm_page = page, pm_page_size = sz, pm_total = rows, pm_total_pages = pages,
          pm_has_next = (page < pages), pm_has_previous = (1 < page \<and> 0 < pages)\<rparr>)"

definition pagination_meta_json :: "pagination_meta \<Rightarrow> json" where
  "pagination_meta_json m =
     JObj [(''page'', JInt (pm_page m)), (''page_size'', JInt (pm_page_size m)), (''total'', JInt (pm_total m)),
           (''total_pages'', JInt (pm_total_pages m)), (''has_next'', JBool (pm_has_next m)),
           (''has_previous'', JBool (pm_has_previous m))]"

definition ok :: "json \<Rightarrow> (string \<times> json) list \<Rightarrow> json" where
  "ok payload meta = JObj [(''data'', payload), (''meta'', JObj meta)]"

definition paginated :: "json list \<Rightarrow> int \<Rightarrow> int \<Rightarrow> int \<Rightarrow> json" where
  "paginated items page sz rows =
     JObj [(''data'', JList items), (''meta'', pagination_meta_json (pagination_meta_build page sz rows))]"

section \<open>The error envelope\<close>

definition error_detail :: "string \<Rightarrow> string \<Rightarrow> (string \<times> json) list \<Rightarrow> json" where
  "error_detail code msg details =
     JObj [(''error'', JObj [(''code'', JStr code), (''message'', JStr msg), (''details'', JObj details)])]"

definition error_response ::
  "request_context \<Rightarrow> int \<Rightarrow> string \<Rightarrow> string \<Rightarrow> (string \<times> json) list option \<Rightarrow>
   (string \<times> string) list option \<Rightarrow> web_response" where
  "error_response ctx status code msg details headers =
     \<lparr>ws_status = status,
      ws_headers = (case headers of None \<Rightarrow> [] | Some hs \<Rightarrow> map (\<lambda>(k, v). (str_lower k, v)) hs),
      ws_body = error_detail code msg
        (dict_set ''request_id'' (JStr (the (or_else (rc_request_id ctx) (Some ''unknown''))))
           (case details of None \<Rightarrow> [] | Some ds \<Rightarrow> ds))\<rparr>"

definition app_error_handler :: "request_context \<Rightarrow> app_error \<Rightarrow> web_response" where
  "app_error_handler ctx e =
     error_response ctx (int (err_status e)) (err_code e) (err_message e) (Some (err_details e))
       (case err_retry_after e of
          Some n \<Rightarrow> if is_subclass (err_class e) RateLimitExceededError \<and> n \<noteq> 0
                   then Some [(''Retry-After'', show_int n)] else None
        | None \<Rightarrow> None)"

text \<open>One field error of the request validation; \<open>vi_input\<close> is the offending value.\<close>

record validation_issue =
  vi_loc :: "string list"
  vi_msg :: "string option"
  vi_input :: json

definition issue_location :: "validation_issue \<Rightarrow> string" where
  "issue_location i =
     (let loc = join_with ''.'' (filter (\<lambda>p. p \<noteq> ''body'') (vi_loc i)) in if loc = [] then ''body'' else loc)"

definition field_errors :: "validation_issue list \<Rightarrow> (string \<times> string list) list" where
  "field_errors issues =
     fold (\<lambda>i fs. let k = issue_location i; m = (case vi_msg i of None \<Rightarrow> ''invalid value'' | Some m \<Rightarrow> m)
                  in dict_set k ((case map_of fs k of None \<Rightarrow> [] | Some ms \<Rightarrow> ms) @ [m]) fs) issues []"

definition validation_error_handler :: "request_context \<Rightarrow> validation_issue list \<Rightarrow> web_response" where
  "validation_error_handler ctx issues =
     error_response ctx 422 ''VALIDATION_ERROR'' ''Request validation failed''
       (Some [(''fields'', JObj (map (\<lambda>(k, ms). (k, JList (map JStr ms))) (field_errors issues)))]) None"

datatype db_cause = UniqueViolation | ForeignKeyViolation | OtherCause

definition integrity_verdict :: "db_cause \<Rightarrow> string \<times> string \<times> int" where
  "integrity_verdict c =
     (case c of
        UniqueViolation \<Rightarrow> (''DUPLICATE_RESOURCE'', ''A resource with these values already exists'', 409)
      | ForeignKeyViolation \<Rightarrow> (''RELATED_RESOURCE_NOT_FOUND'', ''A referenced resource does not exist'', 409)
      | OtherCause \<Rightarrow> (''CONSTRAINT_VIOLATION'', ''The request violates a database constraint'', 409))"

definition integrity_error_handler :: "request_context \<Rightarrow> db_cause \<Rightarrow> web_response" where
  "integrity_error_handler ctx c =
     (case integrity_verdict c of (code, msg, status) \<Rightarrow> error_response ctx status code msg None None)"

definition database_error_handler :: "request_context \<Rightarrow> web_response" where
  "database_error_handler ctx =
     error_response ctx 503 ''DATABASE_UNAVAILABLE'' ''The database is temporarily unavailable'' None None"

text \<open>Starlette's own exception: its detail is used when it is a text.\<close>

record http_exception =
  hx_status :: int
  hx_detail :: json
  hx_headers :: "(string \<times> string) list option"

definition http_codes :: "(int \<times> string) list" where
  "http_codes = [(404, ''ENDPOINT_NOT_FOUND''), (405, ''METHOD_NOT_ALLOWED''), (401, ''AUTHENTICATION_FAILED''),
     (403, ''PERMISSION_DENIED'')]"

definition http_exception_handler :: "request_context \<Rightarrow> http_exception \<Rightarrow> web_response" where
  "http_exception_handler ctx x =
     error_response ctx (hx_status x)
       (case map_of http_codes (hx_status x) of None \<Rightarrow> ''HTTP_ERROR'' | Some c \<Rightarrow> c)
       (case hx_detail x of JStr d \<Rightarrow> d | _ \<Rightarrow> ''Request could not be processed'') None (hx_headers x)"

definition unhandled_error_handler :: "request_context \<Rightarrow> web_response" where
  "unhandled_error_handler ctx =
     error_response ctx 500 ''INTERNAL_ERROR'' ''An unexpected error occurred'' None None"

section \<open>Lemmas\<close>

lemma set_header_get: "map_of (ws_headers (set_header k v r)) = (map_of (ws_headers r))(str_lower k \<mapsto> v)"
  by (simp add: set_header_def)

lemma set_default_header_get:
  "map_of (ws_headers (set_default_header k v r)) (str_lower k')
   = (if str_lower k' = str_lower k \<and> map_of (ws_headers r) (str_lower k) = None then Some v
      else map_of (ws_headers r) (str_lower k'))"
proof -
  have "str_lower k \<in> set (map fst (ws_headers r)) \<longleftrightarrow> map_of (ws_headers r) (str_lower k) \<noteq> None"
    by (simp add: map_of_eq_None_iff)
  then show ?thesis by (auto simp: set_default_header_def map_add_def simp del: set_map split: option.split)
qed

lemma headers_keep_rest [simp]:
  "ws_status (set_header k v r) = ws_status r" "ws_body (set_header k v r) = ws_body r"
  "ws_status (set_default_header k v r) = ws_status r" "ws_body (set_default_header k v r) = ws_body r"
  by (simp_all add: set_header_def set_default_header_def)

text \<open>The offending value of a rejected field is in no part of the response.\<close>

lemma rejected_value_is_dropped:
  "validation_error_handler ctx (map (vi_input_update (\<lambda>_. v)) issues) = validation_error_handler ctx issues"
proof -
  have "fold (\<lambda>i fs. let k = issue_location i; m = (case vi_msg i of None \<Rightarrow> ''invalid value'' | Some m \<Rightarrow> m)
                  in dict_set k ((case map_of fs k of None \<Rightarrow> [] | Some ms \<Rightarrow> ms) @ [m]) fs)
          (map (vi_input_update (\<lambda>_. v)) issues) acc
      = fold (\<lambda>i fs. let k = issue_location i; m = (case vi_msg i of None \<Rightarrow> ''invalid value'' | Some m \<Rightarrow> m)
                  in dict_set k ((case map_of fs k of None \<Rightarrow> [] | Some ms \<Rightarrow> ms) @ [m]) fs) issues acc" for acc
    by (induction issues arbitrary: acc) (simp_all add: issue_location_def)
  then show ?thesis by (simp add: validation_error_handler_def field_errors_def)
qed

text \<open>Page arithmetic: the pages just cover the rows, and there is a next page exactly when rows are left.\<close>

lemma pagination_meta_exact:
  assumes "0 < sz" "0 \<le> rows" "1 \<le> page"
  shows "let m = pagination_meta_build page sz rows in
     rows \<le> pm_total_pages m * sz \<and> (pm_total_pages m - 1) * sz < rows
     \<and> (pm_has_next m \<longleftrightarrow> page * sz < rows)"
proof -
  let ?n = "(rows + sz - 1) div sz"
  have "?n * sz + (rows + sz - 1) mod sz = rows + sz - 1" by simp
  moreover have "0 \<le> (rows + sz - 1) mod sz" "(rows + sz - 1) mod sz < sz" using assms(1) by simp_all
  ultimately have covers: "rows \<le> ?n * sz" "?n * sz < rows + sz" by linarith+
  have "page < ?n \<longleftrightarrow> page * sz < rows"
  proof
    assume "page < ?n"
    then have "(page + 1) * sz \<le> ?n * sz" using assms(1) by (intro mult_right_mono) auto
    then show "page * sz < rows" using covers by (simp add: algebra_simps)
  next
    assume "page * sz < rows"
    then have "page * sz < ?n * sz" using covers by linarith
    then show "page < ?n" using assms(1) by (simp add: mult_less_cancel_right)
  qed
  then show ?thesis using covers assms(1) by (simp add: pagination_meta_build_def Let_def algebra_simps)
qed

end
