(* ===== verification/RateLimit.thy ===== *)
theory RateLimit
  imports Errors
begin

text \<open>
  The rate limiter of \<open>core/rate_limit.py\<close>: token buckets kept in a dict by client key.  The dict is
  an association list in insertion order; \<open>time.monotonic\<close> is an argument of each call; floats are
  exact rationals.  The lock makes a call atomic, so a history of the limiter is a sequence of calls.
  The locale \<open>rate_limiter\<close> is the \<open>RateLimiter\<close> protocol as the middleware relies on it; both
  limiters of the module are instances.  The second half is the accounting: what a client can spend in
  any stretch of time, when a refused client is served again, and that the map stays bounded.
\<close>

section \<open>Results\<close>

record rate_result =
  rr_allowed :: bool
  rr_limit :: int
  rr_remaining :: int
  rr_retry_after :: int

definition as_headers :: "rate_result \<Rightarrow> (string \<times> string) list" where
  "as_headers r =
     [(''X-RateLimit-Limit'', show_int (rr_limit r)),
      (''X-RateLimit-Remaining'', show_int (max 0 (rr_remaining r)))]
     @ (if rr_allowed r then [] else [(''Retry-After'', show_int (max 1 (rr_retry_after r)))])"

section \<open>The in-memory limiter\<close>

record bucket =
  bk_tokens :: rat
  bk_updated :: rat

record limiter =
  lm_buckets :: "(string \<times> bucket) list"
  lm_max_keys :: nat

definition in_memory_limiter :: "nat \<Rightarrow> limiter" where
  "in_memory_limiter n = \<lparr>lm_buckets = [], lm_max_keys = n\<rparr>"

definition dict_drop :: "string set \<Rightarrow> limiter \<Rightarrow> limiter" where
  "dict_drop ks s = s\<lparr>lm_buckets := filter (\<lambda>(k, _). k \<notin> ks) (lm_buckets s)\<rparr>"

definition stale_keys :: "rat \<Rightarrow> int \<Rightarrow> limiter \<Rightarrow> string list" where
  "stale_keys t window s = map fst (filter (\<lambda>(_, b). bk_updated b < t - of_int window) (lm_buckets s))"

definition oldest_tenth :: "limiter \<Rightarrow> string list" where
  "oldest_tenth s =
     (let oldest = sort_key (\<lambda>(_, b). bk_updated b) (lm_buckets s)
      in map fst (take (max 1 (length oldest div 10)) oldest))"

definition evict_stale :: "rat \<Rightarrow> int \<Rightarrow> limiter \<Rightarrow> limiter" where
  "evict_stale t window s =
     (let stale = stale_keys t window s
      in if stale \<noteq> [] then dict_drop (set stale) s else dict_drop (set (oldest_tenth s)) s)"

definition full_bucket :: "rat \<Rightarrow> int \<Rightarrow> bucket" where
  "full_bucket t limit = \<lparr>bk_tokens = of_int limit, bk_updated = t\<rparr>"

definition refilled :: "rat \<Rightarrow> int \<Rightarrow> int \<Rightarrow> bucket \<Rightarrow> bucket" where
  "refilled t limit window b =
     \<lparr>bk_tokens = min (of_int limit) (bk_tokens b + (t - bk_updated b) * (of_int limit / of_int window)),
      bk_updated = t\<rparr>"

definition spend :: "int \<Rightarrow> int \<Rightarrow> bucket \<Rightarrow> rate_result \<times> bucket" where
  "spend limit window b =
     (if 1 \<le> bk_tokens b
      then (\<lparr>rr_allowed = True, rr_limit = limit, rr_remaining = floor (bk_tokens b - 1), rr_retry_after = 0\<rparr>,
            b\<lparr>bk_tokens := bk_tokens b - 1\<rparr>)
      else (\<lparr>rr_allowed = False, rr_limit = limit, rr_remaining = 0,
             rr_retry_after = max 1 (floor ((1 - bk_tokens b) / (of_int limit / of_int window)) + 1)\<rparr>, b))"

text \<open>A limiter's \<open>acquire\<close> takes the time, the key, the limit and the window.\<close>

type_synonym 's acquire = "rat \<Rightarrow> string \<Rightarrow> int \<Rightarrow> int \<Rightarrow> (exn, 's, rate_result) comp"

definition acquire :: "limiter acquire" where
  "acquire t key limit window =
     ethen (raise_if (limit \<le> 0 \<or> window \<le> 0) (ValueExn ''limit and window_seconds must be positive''))
       (\<lambda>s. let (b, s') =
                 (case map_of (lm_buckets s) key of
                    None \<Rightarrow> (full_bucket t limit,
                             if lm_max_keys s \<le> length (lm_buckets s) then evict_stale t window s else s)
                  | Some b \<Rightarrow> (refilled t limit window b, s));
               (r, b') = spend limit window b
            in (Inr r, s'\<lparr>lm_buckets := dict_set key b' (lm_buckets s')\<rparr>))"

definition reset_key :: "string \<Rightarrow> limiter \<Rightarrow> limiter" where
  "reset_key key s = dict_drop {key} s"

text \<open>\<open>NullRateLimiter\<close>.\<close>

definition null_acquire :: "'s acquire" where
  "null_acquire t key limit window =
     ret \<lparr>rr_allowed = True, rr_limit = limit, rr_remaining = limit, rr_retry_after = 0\<rparr>"

section \<open>The protocol\<close>

text \<open>What the middleware reads off a result: a configured quota never makes the limiter raise, the
  quota comes back as it was given, at least one unit of it was there when the call is allowed, and a
  refused caller is told to wait.\<close>

locale rate_limiter =
  fixes acq :: "'s acquire"
  assumes answers: "0 < limit \<Longrightarrow> 0 < window \<Longrightarrow> \<exists>r s'. acq t key limit window s = (Inr r, s')"
    and echoes: "acq t key limit window s = (Inr r, s') \<Longrightarrow> rr_limit r = limit"
    and refuses: "acq t key limit window s = (Inr r, s') \<Longrightarrow> \<not> rr_allowed r \<Longrightarrow> 1 \<le> rr_retry_after r \<and> rr_remaining r = 0"
    and allows: "acq t key limit window s = (Inr r, s') \<Longrightarrow> 0 < limit \<Longrightarrow> rr_allowed r \<Longrightarrow> 0 \<le> rr_remaining r"
begin

lemma headers_of:
  assumes "acq t key limit window s = (Inr r, s')" "0 < limit"
  shows "as_headers r =
     [(''X-RateLimit-Limit'', show_int limit), (''X-RateLimit-Remaining'', show_int (rr_remaining r))]
     @ (if rr_allowed r then [] else [(''Retry-After'', show_int (rr_retry_after r))])"
  using echoes [OF assms(1)] refuses [OF assms(1)] allows [OF assms]
  by (cases "rr_allowed r") (simp_all add: as_headers_def max_def)

end

lemma acquire_eq:
  assumes "0 < limit" "0 < window"
  shows "acquire t key limit window s =
    (case map_of (lm_buckets s) key of
       None \<Rightarrow> (let (r, b) = spend limit window (full_bucket t limit);
                    s' = if lm_max_keys s \<le> length (lm_buckets s) then evict_stale t window s else s
                in (Inr r, s'\<lparr>lm_buckets := dict_set key b (lm_buckets s')\<rparr>))
     | Some b \<Rightarrow> (let (r, b') = spend limit window (refilled t limit window b)
                in (Inr r, s\<lparr>lm_buckets := dict_set key b' (lm_buckets s)\<rparr>)))"
  using assms by (simp add: acquire_def ethen_def ebind_def raise_if_def ret_def Let_def split: option.split prod.split)

lemma acquire_result:
  assumes "acquire t key limit window s = (Inr r, s')"
  shows "0 < limit \<and> 0 < window \<and> (\<exists>b. r = fst (spend limit window b))"
  using assms
  by (auto simp: acquire_def ethen_def ebind_def raise_if_def raise_def ret_def Let_def
      split: if_splits option.splits prod.splits) (metis fst_conv)+

lemma rate_limiter_acquire: "rate_limiter acquire"
proof
  show "\<exists>r s'. acquire t key limit window s = (Inr r, s')" if "0 < limit" "0 < window" for t key limit window s
    using that by (simp add: acquire_eq Let_def split: option.split prod.split)
next
  fix t key limit window s r s'
  assume "acquire t key limit window s = (Inr r, s')"
  then obtain b where "r = fst (spend limit window b)" using acquire_result by blast
  then show "rr_limit r = limit" and "\<not> rr_allowed r \<Longrightarrow> 1 \<le> rr_retry_after r \<and> rr_remaining r = 0"
    and "rr_allowed r \<Longrightarrow> 0 \<le> rr_remaining r"
    by (auto simp: spend_def split: if_splits)
qed

interpretation bucket_limiter: rate_limiter acquire
  by (rule rate_limiter_acquire)

interpretation null_limiter: rate_limiter null_acquire
  by unfold_locales (auto simp: null_acquire_def ret_def)

section \<open>The map stays bounded\<close>

lemma length_dict_drop: "length (lm_buckets (dict_drop ks s)) \<le> length (lm_buckets s)"
  by (simp add: dict_drop_def)

lemma dict_drop_less:
  assumes "k \<in> ks" "k \<in> set (map fst (lm_buckets s))"
  shows "length (lm_buckets (dict_drop ks s)) < length (lm_buckets s)"
proof -
  obtain x where "x \<in> set (lm_buckets s)" "fst x = k" using assms(2) by auto
  then show ?thesis
    using assms(1) unfolding dict_drop_def by (auto intro!: length_filter_less simp: case_prod_beta)
qed

lemma evict_stale_less:
  assumes "lm_buckets s \<noteq> []"
  shows "length (lm_buckets (evict_stale t window s)) < length (lm_buckets s)"
proof (cases "stale_keys t window s")
  case Nil
  obtain x xs where x: "sort_key (\<lambda>(_, b). bk_updated b) (lm_buckets s) = x # xs"
    using assms by (metis length_0_conv length_sort neq_Nil_conv)
  obtain n where n: "max 1 (length (x # xs) div 10) = Suc n"
    by (metis max.cobounded1 One_nat_def Suc_le_D)
  have "fst x \<in> set (oldest_tenth s)" unfolding oldest_tenth_def Let_def x n by simp
  moreover have "x \<in> set (lm_buckets s)" using x by (metis list.set_intros(1) set_sort)
  ultimately show ?thesis
    using Nil dict_drop_less [of "fst x" "set (oldest_tenth s)" s] by (simp add: evict_stale_def)
next
  case (Cons k ks)
  then have "k \<in> set (map fst (lm_buckets s))"
    unfolding stale_keys_def by (metis (no_types, lifting) filter_is_subset image_mono list.set_intros(1) list.set_map subsetD)
  then show ?thesis
    using Cons dict_drop_less [of k "set (stale_keys t window s)" s] by (simp add: evict_stale_def)
qed

lemma lm_max_keys_evict [simp]: "lm_max_keys (evict_stale t window s) = lm_max_keys s"
  by (simp add: evict_stale_def dict_drop_def Let_def)

lemma length_dict_set: "length (dict_set k v d) = length d + (if k \<in> set (map fst d) then 0 else 1)"
  by (simp add: dict_set_def)

lemma acquire_max_keys: "lm_max_keys (snd (acquire t key limit window s)) = lm_max_keys s"
proof (cases "0 < limit \<and> 0 < window")
  case False
  then show ?thesis by (auto simp: acquire_def ethen_def ebind_def raise_if_def raise_def)
next
  case True
  then show ?thesis by (simp add: acquire_eq Let_def split: option.split prod.split)
qed

lemma acquire_bounded:
  assumes "length (lm_buckets s) \<le> lm_max_keys s" "0 < lm_max_keys s"
  shows "length (lm_buckets (snd (acquire t key limit window s))) \<le> lm_max_keys s"
proof (cases "0 < limit \<and> 0 < window")
  case False
  then show ?thesis using assms by (auto simp: acquire_def ethen_def ebind_def raise_if_def raise_def)
next
  case pos: True
  show ?thesis
  proof (cases "map_of (lm_buckets s) key")
    case None
    let ?s = "if lm_max_keys s \<le> length (lm_buckets s) then evict_stale t window s else s"
    have "length (lm_buckets ?s) < lm_max_keys s"
      using assms evict_stale_less [of s t window] by auto
    then show ?thesis
      using pos None by (auto simp: acquire_eq Let_def length_dict_set split: prod.split)
  next
    case (Some b)
    then have "key \<in> set (map fst (lm_buckets s))" by (metis map_of_eq_None_iff option.distinct(1) list.set_map)
    then show ?thesis
      using pos Some assms by (simp add: acquire_eq Let_def length_dict_set split: prod.split)
  qed
qed

section \<open>Histories\<close>

text \<open>A history of the limiter: calls in the order the lock admits them.\<close>

record quota_call =
  qc_time :: rat
  qc_key :: string
  qc_limit :: int
  qc_window :: int

fun serve_calls :: "quota_call list \<Rightarrow> limiter \<Rightarrow> (exn + rate_result) list \<times> limiter" where
  "serve_calls [] s = ([], s)"
| "serve_calls (c # cs) s =
     (let (r, s') = acquire (qc_time c) (qc_key c) (qc_limit c) (qc_window c) s;
          (rs, s'') = serve_calls cs s'
      in (r # rs, s''))"

definition admitted :: "exn + rate_result \<Rightarrow> bool" where
  "admitted r = (case r of Inl _ \<Rightarrow> False | Inr x \<Rightarrow> rr_allowed x)"

definition admissions :: "string \<Rightarrow> quota_call list \<Rightarrow> limiter \<Rightarrow> nat" where
  "admissions k cs s = length (filter (\<lambda>(c, r). qc_key c = k \<and> admitted r) (zip cs (fst (serve_calls cs s))))"

lemma admissions_Nil [simp]: "admissions k [] s = 0"
  by (simp add: admissions_def)

lemma admissions_Cons:
  assumes "acquire (qc_time c) (qc_key c) (qc_limit c) (qc_window c) s = (r, s')"
  shows "admissions k (c # cs) s = (if qc_key c = k \<and> admitted r then 1 else 0) + admissions k cs s'"
  using assms by (simp add: admissions_def split: prod.split)

lemma serve_calls_Cons:
  assumes "acquire (qc_time c) (qc_key c) (qc_limit c) (qc_window c) s = (r, s')"
  shows "snd (serve_calls (c # cs) s) = snd (serve_calls cs s')"
  using assms by (simp split: prod.split)

text \<open>The keys the map can hold while it only sees the keys \<open>K\<close>, and what is left of a client's quota.\<close>

definition room_for :: "string set \<Rightarrow> limiter \<Rightarrow> bool" where
  "room_for K s = (finite K \<and> distinct (map fst (lm_buckets s)) \<and> set (map fst (lm_buckets s)) \<subseteq> K
     \<and> card K \<le> lm_max_keys s)"

definition solvent :: "rat \<Rightarrow> limiter \<Rightarrow> bool" where
  "solvent t s = (\<forall>(k, b)\<in>set (lm_buckets s). 0 \<le> bk_tokens b \<and> bk_updated b \<le> t)"

definition rate :: "int \<Rightarrow> int \<Rightarrow> rat" where
  "rate limit window = of_int limit / of_int window"

definition credit :: "int \<Rightarrow> int \<Rightarrow> rat \<Rightarrow> string \<Rightarrow> limiter \<Rightarrow> rat" where
  "credit limit window t k s =
     (case map_of (lm_buckets s) k of None \<Rightarrow> of_int limit
      | Some b \<Rightarrow> min (of_int limit) (bk_tokens b + (t - bk_updated b) * rate limit window))"

lemma map_fst_dict_set: "map fst (dict_set k v d) = (if k \<in> set (map fst d) then map fst d else map fst d @ [k])"
proof -
  have "map fst (map (\<lambda>(a, b). (a, if a = k then v else b)) d) = map fst d" by (induction d) auto
  then show ?thesis by (simp only: dict_set_def if_distrib [of "map fst"] map_append list.map fst_conv)
qed

lemma keys_dict_set: "set (map fst (dict_set k v d)) = insert k (set (map fst d))"
  unfolding map_fst_dict_set by auto

lemma distinct_dict_set: "distinct (map fst d) \<Longrightarrow> distinct (map fst (dict_set k v d))"
  unfolding map_fst_dict_set by auto

lemma room_not_full:
  assumes "room_for K s" "k \<in> K" "map_of (lm_buckets s) k = None"
  shows "length (lm_buckets s) < lm_max_keys s"
proof -
  have "set (map fst (lm_buckets s)) \<subset> K"
    using assms by (auto simp: room_for_def map_of_eq_None_iff)
  then have "card (set (map fst (lm_buckets s))) < card K"
    using assms(1) by (simp add: psubset_card_mono room_for_def)
  moreover have "card (set (map fst (lm_buckets s))) = length (lm_buckets s)"
    using assms(1) by (metis room_for_def distinct_card length_map)
  ultimately show ?thesis using assms(1) by (simp add: room_for_def)
qed

text \<open>With room for every client a call touches its own bucket only.\<close>

definition charged :: "quota_call \<Rightarrow> limiter \<Rightarrow> rate_result \<times> bucket" where
  "charged c s = spend (qc_limit c) (qc_window c)
     (case map_of (lm_buckets s) (qc_key c) of None \<Rightarrow> full_bucket (qc_time c) (qc_limit c)
      | Some b \<Rightarrow> refilled (qc_time c) (qc_limit c) (qc_window c) b)"

definition positive_quota :: "quota_call \<Rightarrow> bool" where
  "positive_quota c = (0 < qc_limit c \<and> 0 < qc_window c)"

lemma acquire_roomy:
  assumes "room_for K s" "qc_key c \<in> K" "positive_quota c"
  shows "acquire (qc_time c) (qc_key c) (qc_limit c) (qc_window c) s
    = (Inr (fst (charged c s)), s\<lparr>lm_buckets := dict_set (qc_key c) (snd (charged c s)) (lm_buckets s)\<rparr>)"
  using assms room_not_full [OF assms(1,2)]
  by (auto simp: acquire_eq charged_def positive_quota_def Let_def split: option.split prod.split)

lemma room_after:
  assumes "room_for K s" "k \<in> K"
  shows "room_for K (s\<lparr>lm_buckets := dict_set k b (lm_buckets s)\<rparr>)"
  using assms by (auto simp: room_for_def distinct_dict_set keys_dict_set simp del: set_map)

lemma charged_updated: "bk_updated (snd (charged c s)) = qc_time c"
  by (simp add: charged_def spend_def full_bucket_def refilled_def split: option.split)

lemma solventD: "solvent t s \<Longrightarrow> map_of (lm_buckets s) k = Some b \<Longrightarrow> 0 \<le> bk_tokens b \<and> bk_updated b \<le> t"
  by (auto simp: solvent_def dest!: map_of_SomeD)

lemma charged_tokens:
  assumes "solvent (qc_time c) s" "positive_quota c"
  shows "bk_tokens (snd (charged c s)) = credit (qc_limit c) (qc_window c) (qc_time c) (qc_key c) s
           - (if rr_allowed (fst (charged c s)) then 1 else 0)
    \<and> (rr_allowed (fst (charged c s)) \<longleftrightarrow> 1 \<le> credit (qc_limit c) (qc_window c) (qc_time c) (qc_key c) s)
    \<and> 0 \<le> bk_tokens (snd (charged c s))"
proof (cases "map_of (lm_buckets s) (qc_key c)")
  case None
  then show ?thesis using assms(2) by (simp add: charged_def spend_def full_bucket_def credit_def positive_quota_def)
next
  case (Some b)
  have "0 \<le> (qc_time c - bk_updated b) * rate (qc_limit c) (qc_window c)"
    using solventD [OF assms(1) Some] assms(2) by (simp add: rate_def positive_quota_def)
  then have "0 \<le> credit (qc_limit c) (qc_window c) (qc_time c) (qc_key c) s"
    using Some solventD [OF assms(1) Some] assms(2) by (simp add: credit_def positive_quota_def)
  then show ?thesis
    using Some by (simp add: charged_def spend_def refilled_def credit_def rate_def)
qed

lemma set_dict_set: "distinct (map fst d) \<Longrightarrow> set (dict_set k v d) \<subseteq> insert (k, v) {x\<in>set d. fst x \<noteq> k}"
  by (auto simp: dict_set_def image_iff split: if_splits)

lemma solvent_later: "solvent t s \<Longrightarrow> t \<le> u \<Longrightarrow> solvent u s"
  by (fastforce simp: solvent_def)

lemma solvent_after:
  assumes "room_for K s" "solvent (qc_time c) s" "positive_quota c"
  shows "solvent (qc_time c) (s\<lparr>lm_buckets := dict_set (qc_key c) (snd (charged c s)) (lm_buckets s)\<rparr>)"
proof -
  have "set (dict_set (qc_key c) (snd (charged c s)) (lm_buckets s))
      \<subseteq> insert (qc_key c, snd (charged c s)) (set (lm_buckets s))"
    using set_dict_set [of "lm_buckets s"] assms(1) by (auto simp: room_for_def)
  then show ?thesis
    using assms(2) charged_tokens [OF assms(2,3)] charged_updated [of c s] by (fastforce simp: solvent_def)
qed

text \<open>Credit over time, and over one call.\<close>

lemma credit_grows:
  assumes "0 < limit" "0 < window" "t \<le> u"
  shows "credit limit window t k s \<le> credit limit window u k s
    \<and> credit limit window u k s \<le> credit limit window t k s + (u - t) * rate limit window"
proof -
  have pos: "0 \<le> (u - t) * rate limit window" using assms by (simp add: rate_def)
  show ?thesis
  proof (cases "map_of (lm_buckets s) k")
    case None then show ?thesis using pos by (simp add: credit_def)
  next
    case (Some b)
    have "(u - bk_updated b) * rate limit window = (t - bk_updated b) * rate limit window + (u - t) * rate limit window"
      by (simp add: algebra_simps)
    then show ?thesis using Some pos by (simp add: credit_def min_def)
  qed
qed

lemma credit_after:
  assumes "solvent (qc_time c) s" "positive_quota c"
  shows "credit limit window (qc_time c) k (s\<lparr>lm_buckets := dict_set (qc_key c) (snd (charged c s)) (lm_buckets s)\<rparr>)
    = (if k = qc_key c then min (of_int limit) (bk_tokens (snd (charged c s))) else credit limit window (qc_time c) k s)"
  by (simp add: credit_def charged_updated)

text \<open>What a history leaves behind, and what it can have admitted.\<close>

definition well_timed :: "rat \<Rightarrow> string set \<Rightarrow> quota_call list \<Rightarrow> bool" where
  "well_timed t K cs = (sorted (t # map qc_time cs) \<and> qc_key ` set cs \<subseteq> K \<and> list_all positive_quota cs)"

lemma well_timed_Cons: "well_timed t K (c # cs) \<longleftrightarrow> t \<le> qc_time c \<and> qc_key c \<in> K \<and> positive_quota c \<and> well_timed (qc_time c) K cs"
  by (auto simp: well_timed_def)

lemma history_step:
  assumes "room_for K s" "solvent t s" "well_timed t K (c # cs)"
  obtains r s' where "acquire (qc_time c) (qc_key c) (qc_limit c) (qc_window c) s = (Inr r, s')"
    "r = fst (charged c s)" "s' = s\<lparr>lm_buckets := dict_set (qc_key c) (snd (charged c s)) (lm_buckets s)\<rparr>"
    "room_for K s'" "solvent (qc_time c) s'" "solvent (qc_time c) s" "well_timed (qc_time c) K cs"
proof -
  have c: "t \<le> qc_time c" "qc_key c \<in> K" "positive_quota c" "well_timed (qc_time c) K cs"
    using assms(3) by (simp_all add: well_timed_Cons)
  show ?thesis
    using that [OF acquire_roomy [OF assms(1) c(2,3)] refl refl room_after [OF assms(1) c(2)]
        solvent_after [OF assms(1) solvent_later [OF assms(2) c(1)] c(3)]
        solvent_later [OF assms(2) c(1)] c(4)] .
qed

lemma history_left:
  assumes "room_for K s" "solvent t s" "well_timed t K cs"
  shows "room_for K (snd (serve_calls cs s)) \<and> solvent (last (t # map qc_time cs)) (snd (serve_calls cs s))"
  using assms
proof (induction cs arbitrary: s t)
  case (Cons c cs)
  obtain r s' where a: "acquire (qc_time c) (qc_key c) (qc_limit c) (qc_window c) s = (Inr r, s')"
    and left: "room_for K s'" "solvent (qc_time c) s'" "well_timed (qc_time c) K cs"
    using history_step [OF Cons.prems] by metis
  then show ?case using Cons.IH [OF left] by (simp add: serve_calls_Cons [OF a] del: serve_calls.simps)
qed simp

lemma history_spends:
  assumes "room_for K s" "solvent t s" "well_timed t K cs" and pos: "0 < limit" "0 < window"
    and "\<forall>c\<in>set cs. qc_key c = k \<longrightarrow> qc_limit c = limit \<and> qc_window c = window"
  shows "rat_of_nat (admissions k cs s)
     \<le> credit limit window t k s + (last (t # map qc_time cs) - t) * rate limit window"
  using assms(1-3,6)
proof (induction cs arbitrary: s t)
  case Nil
  then show ?case
    using pos by (auto simp: credit_def rate_def dest: solventD split: option.split)
next
  case (Cons c cs)
  obtain r s' where a: "acquire (qc_time c) (qc_key c) (qc_limit c) (qc_window c) s = (Inr r, s')"
    and r: "r = fst (charged c s)" and s': "s' = s\<lparr>lm_buckets := dict_set (qc_key c) (snd (charged c s)) (lm_buckets s)\<rparr>"
    and left: "room_for K s'" "solvent (qc_time c) s'" "solvent (qc_time c) s" "well_timed (qc_time c) K cs"
    using history_step [OF Cons.prems(1-3)] by metis
  have c: "t \<le> qc_time c" "positive_quota c" using Cons.prems(3) by (simp_all add: well_timed_Cons)
  let ?cost = "if qc_key c = k \<and> admitted (Inr r) then 1 else 0 :: nat"
  have step: "credit limit window (qc_time c) k s' + rat_of_nat ?cost \<le> credit limit window (qc_time c) k s"
  proof (cases "qc_key c = k")
    case True
    then have "qc_limit c = limit" "qc_window c = window" using Cons.prems(4) by auto
    then show ?thesis
      using True charged_tokens [OF left(3) c(2)] credit_after [OF left(3) c(2), of limit window k]
      by (simp add: r s' admitted_def min_def)
  next
    case False
    then show ?thesis using credit_after [OF left(3) c(2), of limit window k] by (simp add: s')
  qed
  have rest: "rat_of_nat (admissions k cs s')
      \<le> credit limit window (qc_time c) k s' + (last (qc_time c # map qc_time cs) - qc_time c) * rate limit window"
    using Cons.IH [OF left(1,2,4)] Cons.prems(4) by simp
  have "credit limit window (qc_time c) k s \<le> credit limit window t k s + (qc_time c - t) * rate limit window"
    using credit_grows [OF pos c(1)] by blast
  moreover have "(last (qc_time c # map qc_time cs) - qc_time c) * rate limit window + (qc_time c - t) * rate limit window
      = (last (t # map qc_time (c # cs)) - t) * rate limit window"
    by (simp add: algebra_simps)
  ultimately show ?case using step rest by (simp add: admissions_Cons [OF a])
qed

lemma credit_others:
  assumes "room_for K s" "solvent t s" "well_timed t K cs" and pos: "0 < limit" "0 < window"
    and "k \<notin> qc_key ` set cs" "last (t # map qc_time cs) \<le> u"
  shows "credit limit window u k (snd (serve_calls cs s)) = credit limit window u k s"
  using assms(1-3,6,7)
proof (induction cs arbitrary: s t)
  case (Cons c cs)
  obtain r s' where a: "acquire (qc_time c) (qc_key c) (qc_limit c) (qc_window c) s = (Inr r, s')"
    and s': "s' = s\<lparr>lm_buckets := dict_set (qc_key c) (snd (charged c s)) (lm_buckets s)\<rparr>"
    and left: "room_for K s'" "solvent (qc_time c) s'" "well_timed (qc_time c) K cs"
    using history_step [OF Cons.prems(1-3)] by metis
  have "credit limit window u k s' = credit limit window u k s" using Cons.prems(4) by (simp add: s' credit_def)
  then show ?case using Cons.IH [OF left] Cons.prems(4,5) by (simp add: serve_calls_Cons [OF a] del: serve_calls.simps)
qed simp

lemma fresh_limiter: "finite K \<Longrightarrow> card K \<le> n \<Longrightarrow> room_for K (in_memory_limiter n) \<and> solvent t (in_memory_limiter n)"
  by (simp add: room_for_def solvent_def in_memory_limiter_def)

lemma history_reaches:
  assumes "sorted (map qc_time (earlier @ d # ds))" "list_all positive_quota (earlier @ d # ds)"
    "card (qc_key ` set (earlier @ d # ds)) \<le> n"
  shows "room_for (qc_key ` set (earlier @ d # ds)) (snd (serve_calls earlier (in_memory_limiter n)))"
    and "solvent (qc_time d) (snd (serve_calls earlier (in_memory_limiter n)))"
    and "well_timed (qc_time d) (qc_key ` set (earlier @ d # ds)) (d # ds)"
proof -
  let ?K = "qc_key ` set (earlier @ d # ds)"
  define t where "t = qc_time (hd (earlier @ [d]))"
  have early: "well_timed t ?K earlier"
    using assms(1,2) by (cases earlier) (auto simp: well_timed_def t_def sorted_append list_all_iff)
  have "qc_time (last (hd (earlier @ [d]) # earlier)) \<le> qc_time d"
    using assms(1) by (cases earlier) (auto simp: sorted_append)
  then have "last (t # map qc_time earlier) \<le> qc_time d" by (simp add: t_def last_map split: if_splits)
  then show "room_for ?K (snd (serve_calls earlier (in_memory_limiter n)))"
    "solvent (qc_time d) (snd (serve_calls earlier (in_memory_limiter n)))"
    using history_left [OF _ _ early] fresh_limiter [of ?K n t] assms(3) solvent_later by blast+
  show "well_timed (qc_time d) ?K (d # ds)"
    using assms(1,2) by (auto simp: well_timed_def sorted_append list_all_iff)
qed

section \<open>Properties\<close>

text \<open>C36: As long as the distinct clients of a history fit the limiter's map, whatever came before and in
  whatever order clients alternate, no client is admitted more often in a stretch of calls than its limit
  plus what refills during the stretch; there is no window boundary at which two quotas can be spent.\<close>

theorem quota_is_kept:
  assumes "sorted (map qc_time (earlier @ cs))" and "list_all positive_quota (earlier @ cs)"
    and "card (qc_key ` set (earlier @ cs)) \<le> n" and "cs \<noteq> []"
    and "0 < limit" "0 < window"
    and "\<forall>c\<in>set cs. qc_key c = k \<longrightarrow> qc_limit c = limit \<and> qc_window c = window"
  shows "rat_of_nat (admissions k cs (snd (serve_calls earlier (in_memory_limiter n))))
     \<le> of_int limit + (qc_time (last cs) - qc_time (hd cs)) * (of_int limit / of_int window)"
proof -
  let ?s = "snd (serve_calls earlier (in_memory_limiter n))"
  obtain d ds where cs: "cs = d # ds" using assms(4) by (cases cs) auto
  note reached = history_reaches [OF assms(1-3) [unfolded cs]]
  have "rat_of_nat (admissions k cs ?s)
      \<le> credit limit window (qc_time d) k ?s + (last (qc_time d # map qc_time cs) - qc_time d) * rate limit window"
    using history_spends [OF reached assms(5,6)] assms(7) cs by simp
  moreover have "credit limit window (qc_time d) k ?s \<le> of_int limit"
    by (simp add: credit_def split: option.split)
  moreover have "last (qc_time d # map qc_time cs) = qc_time (last cs)"
    by (simp add: last_map cs)
  ultimately show ?thesis by (simp add: rate_def cs)
qed

theorem quota_is_kept_witness:
  "rat_of_nat (admissions ''api:a''
       (map (\<lambda>t. \<lparr>qc_time = t, qc_key = ''api:a'', qc_limit = 2, qc_window = 10\<rparr>) [3, 4, 5])
       (snd (serve_calls [\<lparr>qc_time = 1, qc_key = ''api:b'', qc_limit = 2, qc_window = 10\<rparr>] (in_memory_limiter 2))))
   \<le> 2 + (5 - 3) * (2 / 10)"
  using quota_is_kept [where limit = 2 and window = 10 and k = "''api:a''" and n = 2
      and earlier = "[\<lparr>qc_time = 1, qc_key = ''api:b'', qc_limit = 2, qc_window = 10\<rparr>]"
      and cs = "map (\<lambda>t. \<lparr>qc_time = t, qc_key = ''api:a'', qc_limit = 2, qc_window = 10\<rparr>) [3, 4, 5]"]
  by (simp add: positive_quota_def)


lemma one_token_spent:
  "acquire 3 ''api:a'' 1 10 (in_memory_limiter 2)
   = (Inr \<lparr>rr_allowed = True, rr_limit = 1, rr_remaining = 0, rr_retry_after = 0\<rparr>,
      \<lparr>lm_buckets = [(''api:a'', \<lparr>bk_tokens = 0, bk_updated = 3\<rparr>)], lm_max_keys = 2\<rparr>)"
  by (simp add: acquire_eq in_memory_limiter_def full_bucket_def spend_def dict_set_def)

lemma second_call_refused:
  "acquire 4 ''api:a'' 1 10 (snd (serve_calls [\<lparr>qc_time = 3, qc_key = ''api:a'', qc_limit = 1, qc_window = 10\<rparr>] (in_memory_limiter 2)))
   = (Inr \<lparr>rr_allowed = False, rr_limit = 1, rr_remaining = 0, rr_retry_after = 10\<rparr>,
      \<lparr>lm_buckets = [(''api:a'', \<lparr>bk_tokens = 1/10, bk_updated = 4\<rparr>)], lm_max_keys = 2\<rparr>)"
  by (simp add: one_token_spent acquire_eq refilled_def spend_def dict_set_def)


datatype limiter_op = LO_Acquire quota_call | LO_Reset string

definition limiter_step :: "limiter_op \<Rightarrow> limiter \<Rightarrow> limiter" where
  "limiter_step x s =
     (case x of LO_Acquire c \<Rightarrow> snd (acquire (qc_time c) (qc_key c) (qc_limit c) (qc_window c) s)
      | LO_Reset k \<Rightarrow> reset_key k s)"

text \<open>The limiter's memory is bounded whatever callers send: with a positive ceiling no history of calls,
  malformed quotas included, and resets leaves more than that many buckets.\<close>

theorem limiter_map_stays_bounded:
  assumes "0 < n"
  shows "length (lm_buckets (fold limiter_step xs (in_memory_limiter n))) \<le> n"
proof -
  have "length (lm_buckets s) \<le> n \<and> lm_max_keys s = n \<Longrightarrow>
      length (lm_buckets (fold limiter_step xs s)) \<le> n \<and> lm_max_keys (fold limiter_step xs s) = n" for s
  proof (induction xs arbitrary: s)
    case (Cons x xs)
    have "length (lm_buckets (limiter_step x s)) \<le> n \<and> lm_max_keys (limiter_step x s) = n"
      using Cons.prems assms acquire_bounded [of s]
      by (cases x) (auto simp: limiter_step_def acquire_max_keys reset_key_def dict_drop_def
        intro: order_trans [OF length_filter_le])
    then show ?case using Cons.IH by simp
  qed simp
  then show ?thesis by (simp add: in_memory_limiter_def)
qed

theorem limiter_map_stays_bounded_witness:
  "length (lm_buckets (fold limiter_step
     (map (\<lambda>k. LO_Acquire \<lparr>qc_time = 1, qc_key = k, qc_limit = 5, qc_window = 60\<rparr>) [''a'', ''b'', ''c'', ''d''])
     (in_memory_limiter 3))) \<le> 3"
  by (rule limiter_map_stays_bounded) simp

end
