(* ===== verification/Middleware.thy ===== *)
theory Middleware
  imports Responses RateLimit Redaction
begin

text \<open>
  The ASGI middleware of \<open>api/middleware.py\<close> and its registration in \<open>main.py\<close>.  An application takes a
  request and works on the \<open>edge\<close>: the limiter's state, the ambient context, the monotonic clock, the
  count of random identifiers drawn and the log lines written.  A middleware is a function from the next
  application to an application.  The limiter is any \<open>rate_limiter\<close>; \<open>uuid4\<close> and the rendering of a
  duration are parameters, and so are Starlette's CORS and trusted-host middlewares.
\<close>

section \<open>Requests and applications\<close>

text \<open>Header names are in lower case, as ASGI hands them over.\<close>

record web_request =
  wq_method :: string
  wq_scheme :: string
  wq_path :: string
  wq_headers :: "(string \<times> string) list"
  wq_client :: "string option"

datatype log_line =
    LL_Done string string int
  | LL_Errored string string
  | LL_Throttled string string int

record 's edge =
  eg_limiter :: 's
  eg_ctx :: request_context
  eg_clock :: rat
  eg_drawn :: nat
  eg_log :: "log_line list"

type_synonym 's app = "web_request \<Rightarrow> (exn, 's edge, web_response) comp"

type_synonym 's middleware = "'s app \<Rightarrow> 's app"

definition request_header :: "web_request \<Rightarrow> string \<Rightarrow> string option" where
  "request_header rq name = map_of (wq_headers rq) (str_lower name)"

definition log_event :: "log_line \<Rightarrow> (exn, 's edge, unit) comp" where
  "log_event l = modify (\<lambda>e. e\<lparr>eg_log := eg_log e @ [l]\<rparr>)"

section \<open>The client's address\<close>

definition unthrottled_paths :: "string list" where
  "unthrottled_paths = [''/health'', ''/health/live'', ''/health/ready'', ''/metrics'']"

definition client_ip :: "web_request \<Rightarrow> string option" where
  "client_ip rq =
     (let forwarded = request_header rq ''x-forwarded-for'' in
      if truthy forwarded
      then (let first = str_strip (takeWhile (\<lambda>c. c \<noteq> CHR '','') (the forwarded)) in
            if first = [] then None else Some first)
      else wq_client rq)"

section \<open>Request context\<close>

definition request_id_header :: string where
  "request_id_header = ''X-Request-ID''"

definition draw_uuid :: "(nat \<Rightarrow> string) \<Rightarrow> (exn, 's edge, string) comp" where
  "draw_uuid uuid4 = (\<lambda>e. (Inr (uuid4 (eg_drawn e)), e\<lparr>eg_drawn := Suc (eg_drawn e)\<rparr>))"

definition request_id_of :: "(nat \<Rightarrow> string) \<Rightarrow> web_request \<Rightarrow> (exn, 's edge, string) comp" where
  "request_id_of uuid4 rq =
     (let incoming = request_header rq request_id_header in
      if truthy incoming \<and> length (the incoming) \<le> 128 then ret (the incoming) else draw_uuid uuid4)"

text \<open>The context is bound for the block and restored when it returns or raises.\<close>

definition in_context :: "request_context \<Rightarrow> (exn, 's edge, 'a) comp \<Rightarrow> (exn, 's edge, 'a) comp" where
  "in_context c body = (\<lambda>e. case body (e\<lparr>eg_ctx := c\<rparr>) of (r, e') \<Rightarrow> (r, e'\<lparr>eg_ctx := eg_ctx e\<rparr>))"

definition request_context_middleware :: "(nat \<Rightarrow> string) \<Rightarrow> 's middleware" where
  "request_context_middleware uuid4 call_next rq =
     ebind (request_id_of uuid4 rq) (\<lambda>rid.
     in_context \<lparr>rc_request_id = Some rid, rc_user_id = None, rc_tenant_id = None,
                 rc_client_ip = client_ip rq, rc_user_agent = request_header rq ''user-agent''\<rparr>
       (ebind (call_next rq) (\<lambda>r. ret (set_header request_id_header rid r))))"

section \<open>Access log\<close>

definition access_log_middleware :: "(rat \<Rightarrow> string) \<Rightarrow> 's middleware" where
  "access_log_middleware render_ms call_next rq =
     ebind (gets eg_clock) (\<lambda>started.
     ebind (recover (call_next rq)
              (\<lambda>x. ethen (log_event (LL_Errored (wq_method rq) (wq_path rq))) (raise x))) (\<lambda>r.
     ebind (gets eg_clock) (\<lambda>done_at.
     ethen (log_event (LL_Done (wq_method rq) (wq_path rq) (ws_status r)))
       (ret (set_header ''X-Response-Time-ms'' (render_ms ((done_at - started) * 1000)) r)))))"

section \<open>Throttling\<close>

record throttle =
  th_limit :: int
  th_window :: int
  th_auth_limit :: int
  th_auth_window :: int
  th_auth_prefix :: string

definition is_auth_path :: "throttle \<Rightarrow> web_request \<Rightarrow> bool" where
  "is_auth_path th rq = contains (th_auth_prefix th) (wq_path rq)"

definition quota_limit :: "throttle \<Rightarrow> web_request \<Rightarrow> int" where
  "quota_limit th rq = (if is_auth_path th rq then th_auth_limit th else th_limit th)"

definition quota_window :: "throttle \<Rightarrow> web_request \<Rightarrow> int" where
  "quota_window th rq = (if is_auth_path th rq then th_auth_window th else th_window th)"

definition quota_scope :: "throttle \<Rightarrow> web_request \<Rightarrow> string" where
  "quota_scope th rq = (if is_auth_path th rq then ''auth'' else ''api'')"

definition quota_key :: "throttle \<Rightarrow> web_request \<Rightarrow> string" where
  "quota_key th rq = quota_scope th rq @ '':'' @ the (or_else (client_ip rq) (Some ''unknown''))"

definition ask_limiter :: "'s acquire \<Rightarrow> throttle \<Rightarrow> web_request \<Rightarrow> (exn, 's edge, rate_result) comp" where
  "ask_limiter acq th rq =
     (\<lambda>e. case acq (eg_clock e) (quota_key th rq) (quota_limit th rq) (quota_window th rq) (eg_limiter e) of
            (r, l) \<Rightarrow> (r, e\<lparr>eg_limiter := l\<rparr>))"

definition too_many_requests :: "throttle \<Rightarrow> web_request \<Rightarrow> rate_result \<Rightarrow> exn" where
  "too_many_requests th rq r =
     AppExn (rate_limit_exceeded None (Some (rr_retry_after r))
       (Some [(''limit'', JInt (quota_limit th rq)), (''window_seconds'', JInt (quota_window th rq))]))"

definition rate_limit_middleware :: "'s acquire \<Rightarrow> throttle \<Rightarrow> 's middleware" where
  "rate_limit_middleware acq th call_next rq =
     (if wq_path rq \<in> set unthrottled_paths then call_next rq
      else ebind (ask_limiter acq th rq) (\<lambda>q.
           ethen (do_when (\<not> rr_allowed q)
                    (ethen (log_event (LL_Throttled (wq_path rq) (quota_scope th rq) (quota_limit th rq)))
                           (raise (too_many_requests th rq q)))) (
           ebind (call_next rq) (\<lambda>r. ret (fold (\<lambda>(k, v). set_header k v) (as_headers q) r)))))"

section \<open>Security headers\<close>

definition docs_paths :: "string list" where
  "docs_paths = [''/docs'', ''/redoc'']"

definition api_csp :: string where
  "api_csp = ''default-src 'none'; frame-ancestors 'none'; base-uri 'none'' @ [CHR 0x27]"

definition docs_csp :: string where
  "docs_csp =
     ''default-src 'none'; script-src 'self' 'unsafe-inline' https://cdn.jsdelivr.net; ''
     @ ''style-src 'self' 'unsafe-inline' https://cdn.jsdelivr.net; ''
     @ ''img-src 'self' data: https://cdn.jsdelivr.net https://fastapi.tiangolo.com; ''
     @ ''font-src 'self' data: https://cdn.jsdelivr.net; connect-src 'self'; worker-src 'self' blob:; ''
     @ ''frame-ancestors 'none'; base-uri 'none'' @ [CHR 0x27]"

definition default_headers :: "bool \<Rightarrow> web_request \<Rightarrow> (string \<times> string) list" where
  "default_headers hsts rq =
     [(''X-Content-Type-Options'', ''nosniff''), (''X-Frame-Options'', ''DENY''), (''Referrer-Policy'', ''no-referrer''),
      (''Content-Security-Policy'', if wq_path rq \<in> set docs_paths then docs_csp else api_csp),
      (''Permissions-Policy'', ''geolocation=(), microphone=(), camera=()''), (''Cache-Control'', ''no-store'')]
     @ (if hsts \<and> wq_scheme rq = ''https''
        then [(''Strict-Transport-Security'', ''max-age=31536000; includeSubDomains'')] else [])"

definition secure_headers_middleware :: "bool \<Rightarrow> 's middleware" where
  "secure_headers_middleware hsts call_next rq =
     ebind (call_next rq) (\<lambda>r. ret (fold (\<lambda>(k, v). set_default_header k v) (default_headers hsts rq) r))"

section \<open>Registration\<close>

text \<open>What is registered last runs first, so the list is written from the route outwards; the switches
  are settings.\<close>

record 's edge_settings =
  mw_secure_headers :: bool
  mw_is_production :: bool
  mw_rate_limit :: bool
  mw_throttle :: throttle
  mw_limiter :: "'s acquire"
  mw_cors :: "'s middleware option"
  mw_hosts :: "'s middleware option"
  mw_uuid4 :: "nat \<Rightarrow> string"
  mw_render_ms :: "rat \<Rightarrow> string"

definition registered :: "'s edge_settings \<Rightarrow> 's middleware list" where
  "registered cf =
     (if mw_secure_headers cf then [secure_headers_middleware (mw_is_production cf)] else [])
     @ (if mw_rate_limit cf then [rate_limit_middleware (mw_limiter cf) (mw_throttle cf)] else [])
     @ (case mw_cors cf of None \<Rightarrow> [] | Some m \<Rightarrow> [m])
     @ (case mw_hosts cf of None \<Rightarrow> [] | Some m \<Rightarrow> [m])
     @ [access_log_middleware (mw_render_ms cf), request_context_middleware (mw_uuid4 cf)]"

definition edge_stack :: "'s edge_settings \<Rightarrow> 's app \<Rightarrow> 's app" where
  "edge_stack cf routes = fold (\<lambda>m nxt. m nxt) (registered cf) routes"

end
