(* ===== verification/MiddlewareProperties.thy ===== *)
theory MiddlewareProperties
  imports Middleware
begin

text \<open>
  What the middleware does to a request: the headers of a returned response, the fate of a refused or
  failed one, and who is counted as whom by the limiter.
\<close>

section \<open>What a layer makes of the responses of the next\<close>

definition yields :: "'s app \<Rightarrow> web_request \<Rightarrow> (web_response \<Rightarrow> bool) \<Rightarrow> bool" where
  "yields app rq P = (\<forall>e r e'. app rq e = (Inr r, e') \<longrightarrow> P r)"

named_theorems yields_intros \<open>responses of a middleware\<close>

lemma yields_request_context [yields_intros]:
  "yields nxt rq (\<lambda>r. \<forall>rid. P (set_header request_id_header rid r)) \<Longrightarrow> yields (request_context_middleware uuid4 nxt) rq P"
  unfolding yields_def request_context_middleware_def in_context_def
  by (fastforce simp: ebind_def ret_def split: prod.splits sum.splits)

lemma yields_access_log [yields_intros]:
  "yields nxt rq (\<lambda>r. \<forall>v. P (set_header ''X-Response-Time-ms'' v r)) \<Longrightarrow> yields (access_log_middleware f nxt) rq P"
  unfolding yields_def access_log_middleware_def
  by (fastforce simp: ebind_def ethen_def ret_def gets_def recover_def log_event_def modify_def raise_def
      split: prod.splits sum.splits)

lemma yields_rate_limit [yields_intros]:
  "yields nxt rq (\<lambda>r. (wq_path rq \<in> set unthrottled_paths \<longrightarrow> P r)
      \<and> (wq_path rq \<notin> set unthrottled_paths \<longrightarrow> (\<forall>q t s l. acq t (quota_key th rq) (quota_limit th rq)
            (quota_window th rq) s = (Inr q, l) \<longrightarrow> rr_allowed q \<longrightarrow> P (fold (\<lambda>(k, v). set_header k v) (as_headers q) r))))
   \<Longrightarrow> yields (rate_limit_middleware acq th nxt) rq P"
  unfolding yields_def rate_limit_middleware_def ask_limiter_def
  by (auto simp: ebind_Inr_iff ethen_def do_when_def ret_def raise_def split: if_splits prod.splits) blast

lemma yields_secure_headers [yields_intros]:
  "yields nxt rq (\<lambda>r. P (fold (\<lambda>(k, v). set_default_header k v) (default_headers hsts rq) r))
   \<Longrightarrow> yields (secure_headers_middleware hsts nxt) rq P"
  unfolding yields_def secure_headers_middleware_def
  by (fastforce simp: ebind_def ret_def split: prod.splits sum.splits)

section \<open>Headers\<close>

lemma default_headers_fold:
  assumes "distinct (map (str_lower \<circ> fst) hs)" "(k, v) \<in> set hs"
  shows "map_of (ws_headers (fold (\<lambda>(k, v). set_default_header k v) hs r)) (str_lower k)
    = Some (case map_of (ws_headers r) (str_lower k) of None \<Rightarrow> v | Some x \<Rightarrow> x)"
  using assms
proof (induction hs arbitrary: r)
  case (Cons h hs)
  have keep: "map_of (ws_headers (fold (\<lambda>(k, v). set_default_header k v) gs q)) (str_lower k) = map_of (ws_headers q) (str_lower k)"
    if "str_lower k \<notin> (str_lower \<circ> fst) ` set gs" for gs q
    using that
  proof (induction gs arbitrary: q)
    case (Cons g gs)
    then show ?case by (cases g) (auto simp: set_default_header_get)
  qed simp
  show ?case
  proof (cases "(k, v) = h")
    case True
    have "str_lower k \<notin> (str_lower \<circ> fst) ` set hs" using Cons.prems(1) unfolding True [symmetric] by simp
    from keep [OF this] show ?thesis
      unfolding True [symmetric] by (simp add: set_default_header_get split: option.split)
  next
    case False
    then have "(k, v) \<in> set hs" using Cons.prems by auto
    moreover from this have "str_lower (fst h) \<noteq> str_lower k" using Cons.prems(1) by (auto simp: image_iff)
    ultimately show ?thesis
      using Cons.IH [of "set_default_header (fst h) (snd h) r"] Cons.prems(1)
      by (simp add: case_prod_beta set_default_header_get)
  qed
qed simp

lemma set_headers_fold:
  "str_lower k \<notin> (str_lower \<circ> fst) ` set hs \<Longrightarrow>
   map_of (ws_headers (fold (\<lambda>(k, v). set_header k v) hs r)) (str_lower k) = map_of (ws_headers r) (str_lower k)"
  by (induction hs arbitrary: r) (auto simp: set_header_get)

definition default_names :: "bool \<Rightarrow> string list" where
  "default_names b =
     [''X-Content-Type-Options'', ''X-Frame-Options'', ''Referrer-Policy'', ''Content-Security-Policy'',
      ''Permissions-Policy'', ''Cache-Control''] @ (if b then [''Strict-Transport-Security''] else [])"

lemma default_headers_names: "map fst (default_headers hsts rq) = default_names (hsts \<and> wq_scheme rq = ''https'')"
  by (simp add: default_headers_def default_names_def)

definition edge_headers :: "string list" where
  "edge_headers = [request_id_header, ''X-Response-Time-ms'', ''X-RateLimit-Limit'', ''X-RateLimit-Remaining'', ''Retry-After'']"

lemma lowered_names:
  "map str_lower (default_names True @ edge_headers) =
     [''x-content-type-options'', ''x-frame-options'', ''referrer-policy'', ''content-security-policy'',
      ''permissions-policy'', ''cache-control'', ''strict-transport-security'', ''x-request-id'',
      ''x-response-time-ms'', ''x-ratelimit-limit'', ''x-ratelimit-remaining'', ''retry-after'']"
  by code_simp

lemma default_names_apart:
  "distinct (map str_lower (default_names True @ edge_headers))"
  "distinct (map str_lower (default_names False @ edge_headers))"
proof -
  show all: "distinct (map str_lower (default_names True @ edge_headers))" unfolding lowered_names by simp
  have "default_names True = default_names False @ [''Strict-Transport-Security'']" by (simp add: default_names_def)
  then show "distinct (map str_lower (default_names False @ edge_headers))"
    using all by (simp only: map_append distinct_append set_append) auto
qed

lemma default_headers_distinct:
  "distinct (map (str_lower \<circ> fst) (default_headers hsts rq) @ map str_lower edge_headers)"
proof -
  have "map (str_lower \<circ> fst) (default_headers hsts rq) = map str_lower (default_names (hsts \<and> wq_scheme rq = ''https''))"
    by (simp only: default_headers_names [symmetric] map_map)
  then show ?thesis using default_names_apart by (cases "hsts \<and> wq_scheme rq = ''https''") (simp_all only: map_append simp_thms)
qed

lemma default_headers_apart:
  "(k, v) \<in> set (default_headers hsts rq) \<Longrightarrow> str_lower k \<notin> str_lower ` set edge_headers"
  using default_headers_distinct [of hsts rq] by (force simp del: distinct.simps)

section \<open>The whole stack\<close>

lemma as_headers_names: "map fst (as_headers q) \<in> {[''X-RateLimit-Limit'', ''X-RateLimit-Remaining''],
     [''X-RateLimit-Limit'', ''X-RateLimit-Remaining'', ''Retry-After'']}"
  by (simp add: as_headers_def)

lemma as_headers_keep:
  assumes "(k, v) \<in> set (default_headers hsts rq)"
  shows "map_of (ws_headers (fold (\<lambda>(k, v). set_header k v) (as_headers q) r)) (str_lower k) = map_of (ws_headers r) (str_lower k)"
proof (rule set_headers_fold)
  have "(str_lower \<circ> fst) ` set (as_headers q) \<subseteq> str_lower ` set edge_headers"
    using as_headers_names [of q] by (auto simp: edge_headers_def as_headers_def)
  then show "str_lower k \<notin> (str_lower \<circ> fst) ` set (as_headers q)"
    using default_headers_apart [OF assms] by blast
qed

lemma edge_header_keeps:
  assumes "(k, v) \<in> set (default_headers hsts rq)" "n \<in> set edge_headers"
  shows "map_of (ws_headers (set_header n x r)) (str_lower k) = map_of (ws_headers r) (str_lower k)"
  using default_headers_apart [OF assms(1)] assms(2) by (auto simp: set_header_get)

text \<open>A request of the application, and the identifier it gets.\<close>

definition given_request_id :: "'s edge_settings \<Rightarrow> web_request \<Rightarrow> 's edge \<Rightarrow> string" where
  "given_request_id cf rq e =
     (let incoming = request_header rq request_id_header in
      if truthy incoming \<and> length (the incoming) \<le> 128 then the incoming else mw_uuid4 cf (eg_drawn e))"

lemma request_id_of_eq: "\<exists>n. request_id_of (mw_uuid4 cf) rq e = (Inr (given_request_id cf rq e), e\<lparr>eg_drawn := n\<rparr>)"
  by (auto simp: request_id_of_def given_request_id_def draw_uuid_def ret_def Let_def intro: exI [of _ "eg_drawn e"])

definition own_stack :: "'s edge_settings \<Rightarrow> 's app \<Rightarrow> 's app" where
  "own_stack cf routes =
     (if mw_rate_limit cf then rate_limit_middleware (mw_limiter cf) (mw_throttle cf) else id)
       ((if mw_secure_headers cf then secure_headers_middleware (mw_is_production cf) else id) routes)"

lemma edge_stack_eq:
  assumes "mw_cors cf = None" "mw_hosts cf = None"
  shows "edge_stack cf routes = request_context_middleware (mw_uuid4 cf) (access_log_middleware (mw_render_ms cf) (own_stack cf routes))"
  using assms by (simp add: edge_stack_def registered_def own_stack_def)

lemma edge_stack_outer:
  "\<exists>nxt. edge_stack cf routes = request_context_middleware (mw_uuid4 cf) (access_log_middleware (mw_render_ms cf) nxt)"
  by (simp only: edge_stack_def registered_def fold_append comp_apply fold.simps id_apply) (rule exI, rule refl)

lemma request_context_out:
  assumes "request_context_middleware (mw_uuid4 cf) nxt rq e = (x, e')"
  shows "eg_ctx e' = eg_ctx e \<and> (\<forall>r. x = Inr r \<longrightarrow> map_of (ws_headers r) ''x-request-id'' = Some (given_request_id cf rq e))"
proof -
  have lower: "str_lower request_id_header = ''x-request-id''" by code_simp
  obtain n where "request_id_of (mw_uuid4 cf) rq e = (Inr (given_request_id cf rq e), e\<lparr>eg_drawn := n\<rparr>)"
    using request_id_of_eq by blast
  then show ?thesis
    using assms lower set_header_get [of request_id_header]
    by (auto simp: request_context_middleware_def in_context_def ebind_def ret_def split: prod.splits sum.splits)
qed

lemma stack_yields_defaults:
  assumes "(k, v) \<in> set (default_headers (mw_is_production cf) rq)" "mw_secure_headers cf" "mw_cors cf = None" "mw_hosts cf = None"
    and "yields routes rq (\<lambda>r. P (map_of (ws_headers r) (str_lower k)))"
  shows "yields (edge_stack cf routes) rq (\<lambda>r. \<exists>own. P own
     \<and> map_of (ws_headers r) (str_lower k) = Some (case own of None \<Rightarrow> v | Some x \<Rightarrow> x))"
proof -
  have names: "request_id_header \<in> set edge_headers" "''X-Response-Time-ms'' \<in> set edge_headers" by (simp_all add: edge_headers_def)
  let ?Q = "\<lambda>r. \<exists>own. P own \<and> map_of (ws_headers r) (str_lower k) = Some (case own of None \<Rightarrow> v | Some x \<Rightarrow> x)"
  let ?secure = "secure_headers_middleware (mw_is_production cf) routes"
  have secure: "yields ?secure rq ?Q"
    using assms(5) default_headers_fold [OF _ assms(1)] default_headers_distinct [of "mw_is_production cf" rq]
    by (intro yields_secure_headers) (auto simp: yields_def)
  have "yields (rate_limit_middleware (mw_limiter cf) (mw_throttle cf) ?secure) rq ?Q"
    using secure by (intro yields_rate_limit) (auto simp: yields_def as_headers_keep [OF assms(1)])
  then have "yields (own_stack cf routes) rq ?Q"
    using assms(2) secure by (simp add: own_stack_def)
  then show ?thesis
    unfolding edge_stack_eq [OF assms(3,4)]
    by (intro yields_intros) (simp add: edge_header_keeps [OF assms(1) names(1)] edge_header_keeps [OF assms(1) names(2)])
qed

section \<open>A caller that names itself\<close>

text \<open>The same request with an \<open>X-Forwarded-For\<close> of the caller's choice.\<close>

definition forged :: "web_request \<Rightarrow> string \<Rightarrow> web_request" where
  "forged rq ip = rq\<lparr>wq_headers := (''x-forwarded-for'', ip) # wq_headers rq\<rparr>"

definition plain_address :: "string \<Rightarrow> bool" where
  "plain_address ip = (ip \<noteq> [] \<and> list_all (\<lambda>c. c \<noteq> CHR '','' \<and> \<not> is_blank c) ip)"

fun serve_requests :: "'s app \<Rightarrow> web_request list \<Rightarrow> 's edge \<Rightarrow> (exn + web_response) list" where
  "serve_requests app [] e = []"
| "serve_requests app (rq # rqs) e = (case app rq e of (r, e') \<Rightarrow> r # serve_requests app rqs e')"

lemma str_strip_plain: "list_all (\<lambda>c. \<not> is_blank c) s \<Longrightarrow> str_strip s = s"
proof -
  have drop: "list_all (\<lambda>c. \<not> is_blank c) t \<Longrightarrow> dropWhile is_blank t = t" for t by (cases t) auto
  assume a: "list_all (\<lambda>c. \<not> is_blank c) s"
  then have "list_all (\<lambda>c. \<not> is_blank c) (rev s)" by (simp add: list_all_iff)
  then show "str_strip s = s" using a by (simp add: str_strip_def drop)
qed

lemma client_ip_forged: "plain_address ip \<Longrightarrow> client_ip (forged rq ip) = Some ip"
proof -
  assume a: "plain_address ip"
  have "str_lower ''x-forwarded-for'' = ''x-forwarded-for''" by code_simp
  then have "request_header (forged rq ip) ''x-forwarded-for'' = Some ip"
    by (simp add: request_header_def forged_def)
  moreover have first: "takeWhile (\<lambda>c. c \<noteq> CHR '','') ip = ip" "str_strip ip = ip"
    using a str_strip_plain [of ip] by (auto simp: plain_address_def list_all_iff takeWhile_eq_all_conv)
  ultimately show ?thesis using a by (simp add: client_ip_def truthy_def plain_address_def Let_def first)
qed

lemma forged_same [simp]:
  "wq_path (forged rq ip) = wq_path rq" "is_auth_path th (forged rq ip) = is_auth_path th rq"
  "quota_limit th (forged rq ip) = quota_limit th rq" "quota_window th (forged rq ip) = quota_window th rq"
  "quota_scope th (forged rq ip) = quota_scope th rq"
  by (simp_all add: forged_def is_auth_path_def quota_limit_def quota_window_def quota_scope_def)

lemma quota_key_forged: "plain_address ip \<Longrightarrow> quota_key th (forged rq ip) = quota_scope th rq @ '':'' @ ip"
  by (simp add: quota_key_def client_ip_forged or_else_def truthy_def plain_address_def)

lemma acquire_new_key:
  assumes "k \<notin> set (map fst (lm_buckets s))" "0 < limit" "0 < window"
  shows "\<exists>q s'. acquire t k limit window s = (Inr q, s') \<and> rr_allowed q
     \<and> set (map fst (lm_buckets s')) \<subseteq> insert k (set (map fst (lm_buckets s)))"
proof -
  let ?s = "if lm_max_keys s \<le> length (lm_buckets s) then evict_stale t window s else s"
  have "map_of (lm_buckets s) k = None" using assms(1) by (simp add: map_of_eq_None_iff)
  then have "acquire t k limit window s
      = (Inr (fst (spend limit window (full_bucket t limit))),
         ?s\<lparr>lm_buckets := dict_set k (snd (spend limit window (full_bucket t limit))) (lm_buckets ?s)\<rparr>)"
    using assms(2,3) by (simp add: acquire_eq Let_def split: prod.split)
  moreover have "rr_allowed (fst (spend limit window (full_bucket t limit)))"
    using assms(2) by (simp add: spend_def full_bucket_def)
  moreover have "set (map fst (lm_buckets ?s)) \<subseteq> set (map fst (lm_buckets s))"
    by (auto simp: evict_stale_def dict_drop_def Let_def)
  then have "set (map fst (dict_set k b (lm_buckets ?s))) \<subseteq> insert k (set (map fst (lm_buckets s)))" for b
    unfolding keys_dict_set by (rule insert_mono)
  ultimately show ?thesis by simp
qed

section \<open>A small deployment\<close>

definition small_settings :: "limiter edge_settings" where
  "small_settings = \<lparr>mw_secure_headers = True, mw_is_production = True, mw_rate_limit = True,
     mw_throttle = \<lparr>th_limit = 1, th_window = 60, th_auth_limit = 1, th_auth_window = 60, th_auth_prefix = ''/auth''\<rparr>,
     mw_limiter = acquire, mw_cors = None, mw_hosts = None, mw_uuid4 = (\<lambda>n. ''u'' @ show_nat n),
     mw_render_ms = (\<lambda>_. ''0.0'')\<rparr>"

definition small_routes :: "limiter app" where
  "small_routes rq = ret \<lparr>ws_status = 200, ws_headers = [(''cache-control'', ''max-age=60'')], ws_body = JNull\<rparr>"

definition small_request :: web_request where
  "small_request = \<lparr>wq_method = ''GET'', wq_scheme = ''https'', wq_path = ''/api/v1/jobs'',
     wq_headers = [(''x-request-id'', ''r1'')], wq_client = Some ''c''\<rparr>"

definition small_edge :: "limiter edge" where
  "small_edge = \<lparr>eg_limiter = in_memory_limiter 10, eg_ctx = no_context, eg_clock = 0, eg_drawn = 0, eg_log = []\<rparr>"

definition spent_edge :: "limiter edge" where
  "spent_edge = small_edge\<lparr>eg_limiter :=
     \<lparr>lm_buckets = [(''api:c'', \<lparr>bk_tokens = 0, bk_updated = 0\<rparr>)], lm_max_keys = 10\<rparr>\<rparr>"

lemma small_key:
  "quota_key (mw_throttle small_settings) small_request = ''api:c''" "quota_limit (mw_throttle small_settings) small_request = 1"
  "quota_window (mw_throttle small_settings) small_request = 60" "wq_path small_request \<notin> set unthrottled_paths"
  "quota_scope (mw_throttle small_settings) small_request = ''api''"
  by code_simp+

lemma small_answer: "\<exists>r e'. edge_stack small_settings small_routes small_request small_edge = (Inr r, e')"
proof -
  have "\<exists>q l. acquire 0 ''api:c'' 1 60 (in_memory_limiter 10) = (Inr q, l) \<and> rr_allowed q"
    using acquire_new_key [of "''api:c''" "in_memory_limiter 10" 1 60 0] by (auto simp: in_memory_limiter_def)
  moreover obtain n where "request_id_of (mw_uuid4 small_settings) small_request small_edge
      = (Inr (given_request_id small_settings small_request small_edge), small_edge\<lparr>eg_drawn := n\<rparr>)"
    using request_id_of_eq by blast
  moreover have "mw_cors small_settings = None" "mw_hosts small_settings = None" "mw_rate_limit small_settings"
    "mw_limiter small_settings = acquire" "mw_secure_headers small_settings" "mw_is_production small_settings"
    by (simp_all add: small_settings_def)
  moreover have "eg_clock small_edge = 0" "eg_limiter small_edge = in_memory_limiter 10" by (simp_all add: small_edge_def)
  ultimately show ?thesis
    by (auto simp: edge_stack_eq own_stack_def request_context_middleware_def access_log_middleware_def
        rate_limit_middleware_def secure_headers_middleware_def ask_limiter_def in_context_def ebind_def ethen_def gets_def
        recover_def do_when_def log_event_def modify_def ret_def small_key small_routes_def)
qed

section \<open>Properties\<close>

text \<open>A returned response carries the request's identifier, the caller's own if it is not too long, and every
  security header: the route's own value or the default, where only the two documentation pages get the
  relaxed policy.  The ambient context of the task is what it was before.\<close>

theorem returned_response_is_dressed:
  assumes "edge_stack cf routes rq e = (Inr r, e')"
  shows "eg_ctx e' = eg_ctx e \<and> map_of (ws_headers r) ''x-request-id'' = Some (given_request_id cf rq e)
     \<and> (mw_secure_headers cf \<and> mw_cors cf = None \<and> mw_hosts cf = None \<longrightarrow>
          (\<forall>(k, v)\<in>set (default_headers (mw_is_production cf) rq).
             \<exists>own. (\<exists>e0 r0 e1. routes rq e0 = (Inr r0, e1) \<and> map_of (ws_headers r0) (str_lower k) = own)
               \<and> map_of (ws_headers r) (str_lower k) = Some (case own of None \<Rightarrow> v | Some x \<Rightarrow> x)))"
proof -
  obtain nxt where "edge_stack cf routes = request_context_middleware (mw_uuid4 cf) (access_log_middleware (mw_render_ms cf) nxt)"
    using edge_stack_outer by blast
  then have "request_context_middleware (mw_uuid4 cf) (access_log_middleware (mw_render_ms cf) nxt) rq e = (Inr r, e')"
    using assms by simp
  note outer = request_context_out [OF this]
  have "\<exists>own. (\<exists>e0 r0 e1. routes rq e0 = (Inr r0, e1) \<and> map_of (ws_headers r0) (str_lower k) = own)
      \<and> map_of (ws_headers r) (str_lower k) = Some (case own of None \<Rightarrow> v | Some x \<Rightarrow> x)"
    if "mw_secure_headers cf" "mw_cors cf = None" "mw_hosts cf = None" "(k, v) \<in> set (default_headers (mw_is_production cf) rq)"
    for k v
  proof -
    have "yields routes rq (\<lambda>r0. \<exists>e0 r1 e1. routes rq e0 = (Inr r1, e1) \<and> map_of (ws_headers r1) (str_lower k) = map_of (ws_headers r0) (str_lower k))"
      by (auto simp: yields_def)
    from stack_yields_defaults [OF that(4,1-3), of routes
        "\<lambda>own. \<exists>e0 r0 e1. routes rq e0 = (Inr r0, e1) \<and> map_of (ws_headers r0) (str_lower k) = own", OF this]
    show ?thesis unfolding yields_def using assms by blast
  qed
  then show ?thesis using outer by blast
qed

theorem returned_response_is_dressed_witness:
  "\<exists>r e'. edge_stack small_settings small_routes small_request small_edge = (Inr r, e')
     \<and> map_of (ws_headers r) ''x-request-id'' = Some (given_request_id small_settings small_request small_edge)"
  using small_answer returned_response_is_dressed [of small_settings small_routes small_request small_edge] by blast



text \<open>C39: The quota does not hold a caller who names himself: whatever the limits and whatever the limiter has
  counted, any number of requests of one client are all let through if each carries an X-Forwarded-For
  address the limiter has not seen.\<close>

theorem forged_addresses_are_never_refused:
  assumes "0 < quota_limit th rq" "0 < quota_window th rq"
    and "\<forall>rq e. \<exists>r e'. routes rq e = (Inr r, e') \<and> eg_limiter e' = eg_limiter e"
    and "distinct ips" "list_all plain_address ips"
    and "\<forall>ip\<in>set ips. quota_scope th rq @ '':'' @ ip \<notin> set (map fst (lm_buckets (eg_limiter e)))"
  shows "list_all (\<lambda>x. \<exists>r. x = Inr r) (serve_requests (rate_limit_middleware acquire th routes) (map (forged rq) ips) e)"
  using assms(4-6)
proof (induction ips arbitrary: e)
  case (Cons ip ips)
  let ?rq = "forged rq ip" and ?k = "quota_scope th rq @ '':'' @ ip"
  have key: "quota_key th ?rq = ?k" using Cons.prems(2) by (simp add: quota_key_forged)
  have served: "\<exists>r e'. rate_limit_middleware acquire th routes ?rq e = (Inr r, e')
      \<and> set (map fst (lm_buckets (eg_limiter e'))) \<subseteq> insert ?k (set (map fst (lm_buckets (eg_limiter e))))"
  proof (cases "wq_path rq \<in> set unthrottled_paths")
    case True
    then show ?thesis using assms(3) by (auto simp: rate_limit_middleware_def) (metis order_refl subset_insertI2)
  next
    case False
    obtain q l where q: "acquire (eg_clock e) ?k (quota_limit th rq) (quota_window th rq) (eg_limiter e) = (Inr q, l)"
      "rr_allowed q" "set (map fst (lm_buckets l)) \<subseteq> insert ?k (set (map fst (lm_buckets (eg_limiter e))))"
      using acquire_new_key [of ?k "eg_limiter e"] Cons.prems(3) assms(1,2) by (metis list.set_intros(1))
    obtain r e' where "routes ?rq (e\<lparr>eg_limiter := l\<rparr>) = (Inr r, e')" "eg_limiter e' = l"
      using assms(3) by (metis edge.select_convs(1) edge.surjective edge.update_convs(1))
    then show ?thesis
      using False q key by (simp add: rate_limit_middleware_def ask_limiter_def ebind_def ethen_def do_when_def ret_def)
  qed
  then obtain r e' where step: "rate_limit_middleware acquire th routes ?rq e = (Inr r, e')"
    "set (map fst (lm_buckets (eg_limiter e'))) \<subseteq> insert ?k (set (map fst (lm_buckets (eg_limiter e))))" by blast
  have "\<forall>a\<in>set ips. quota_scope th rq @ '':'' @ a \<notin> set (map fst (lm_buckets (eg_limiter e')))"
    using step(2) Cons.prems(1,3) by (auto simp del: set_map)
  then show ?case using Cons.IH [of e'] Cons.prems(1,2) step(1) by simp
qed simp

theorem forged_addresses_are_never_refused_witness:
  "list_all (\<lambda>x. \<exists>r. x = Inr r)
     (serve_requests (rate_limit_middleware acquire (mw_throttle small_settings) small_routes)
        (map (forged small_request) [''10.0.0.1'', ''10.0.0.2'', ''10.0.0.3'']) spent_edge)"
  by (rule forged_addresses_are_never_refused)
    (simp_all add: small_key small_routes_def ret_def spent_edge_def plain_address_def is_blank_def)

end
