(* ===== verification/DiscoveryProviders.thy ===== *)
theory DiscoveryProviders
  imports ContentProperties Discovery
begin

text \<open>
  The discovery sources of \<open>integrations/discovery\<close>: the curated list (\<open>seed_list.py\<close>), the search API
  (\<open>search_api.py\<close>), the model's suggestions (\<open>ai_discovery.py\<close>) and the registry that chooses among
  them (\<open>registry.py\<close>).  A provider is any function from a query to candidates or an exception; the
  locale \<open>bounded_source\<close> states what a run relies on, and each source is an instance of it.
\<close>

section \<open>What every source shares\<close>

text \<open>Python's \<open>xs[:n]\<close>: a negative bound counts from the end.\<close>

definition slice_to :: "int \<Rightarrow> 'a list \<Rightarrow> 'a list" where
  "slice_to n xs = (if 0 \<le> n then take (nat n) xs else take (length xs - nat (- n)) xs)"

record provider_info =
  pi_key :: string
  pi_name :: string
  pi_description :: string
  pi_requires_credential :: bool
  pi_credential_provider :: "string option"

definition blank_candidate :: "string \<Rightarrow> discovered_publisher" where
  "blank_candidate url =
     \<lparr>dp_website_url = url, dp_name = None, dp_description = None, dp_category = None, dp_country = None,
      dp_language = None, dp_submission_url = None, dp_contact_url = None,
      dp_submission_method = Me_UNKNOWN, dp_source_metadata = []\<rparr>"

definition text_or_none :: "string \<Rightarrow> string option" where
  "text_or_none s = (if s = [] then None else Some s)"

section \<open>The curated list\<close>

record seed_entry =
  se_website_url :: string
  se_name :: string
  se_category :: publisher_category
  se_country :: "string option"
  se_language :: "string option"
  se_keywords :: "string list"

definition seed :: "string \<Rightarrow> string \<Rightarrow> publisher_category \<Rightarrow> string option \<Rightarrow> string list \<Rightarrow> seed_entry" where
  "seed url name cat ctry keywords =
     \<lparr>se_website_url = url, se_name = name, se_category = cat, se_country = ctry,
      se_language = Some ''en'', se_keywords = keywords\<rparr>"

definition seed_entries :: "seed_entry list" where
  "seed_entries =
    [seed ''https://www.crunchbase.com'' ''Crunchbase'' Ca_COMPANY_LISTING None
       [''startup'', ''company'', ''funding'', ''business'', ''technology''],
     seed ''https://www.producthunt.com'' ''Product Hunt'' Ca_STARTUP_DIRECTORY None
       [''startup'', ''product'', ''software'', ''saas'', ''app'', ''technology''],
     seed ''https://alternativeto.net'' ''AlternativeTo'' Ca_SOFTWARE_DIRECTORY None
       [''software'', ''saas'', ''app'', ''tool'', ''alternative''],
     seed ''https://slashdot.org/software'' ''SourceForge / Slashdot Software'' Ca_SOFTWARE_DIRECTORY None
       [''software'', ''open source'', ''tool'', ''developer''],
     seed ''https://www.saashub.com'' ''SaaSHub'' Ca_SOFTWARE_DIRECTORY None
       [''saas'', ''software'', ''app'', ''tool'', ''b2b''],
     seed ''https://www.goodfirms.co'' ''GoodFirms'' Ca_BUSINESS_DIRECTORY None
       [''agency'', ''services'', ''b2b'', ''software'', ''development''],
     seed ''https://clutch.co'' ''Clutch'' Ca_BUSINESS_DIRECTORY None
       [''agency'', ''services'', ''b2b'', ''marketing'', ''development''],
     seed ''https://www.yelp.com'' ''Yelp'' Ca_LOCAL_DIRECTORY (Some ''US'')
       [''local'', ''business'', ''restaurant'', ''service'', ''shop''],
     seed ''https://www.yellowpages.com'' ''Yellow Pages'' Ca_LOCAL_DIRECTORY (Some ''US'')
       [''local'', ''business'', ''service'', ''trade''],
     seed ''https://www.thomsonlocal.com'' ''Thomson Local'' Ca_LOCAL_DIRECTORY (Some ''GB'')
       [''local'', ''business'', ''service'', ''trade''],
     seed ''https://www.justdial.com'' ''Justdial'' Ca_LOCAL_DIRECTORY (Some ''IN'')
       [''local'', ''business'', ''service'', ''shop''],
     seed ''https://www.indiamart.com'' ''IndiaMART'' Ca_BUSINESS_DIRECTORY (Some ''IN'')
       [''b2b'', ''supplier'', ''manufacturer'', ''wholesale'', ''business''],
     seed ''https://www.trustpilot.com'' ''Trustpilot'' Ca_REVIEW_PLATFORM None
       [''review'', ''business'', ''ecommerce'', ''service''],
     seed ''https://www.g2.com'' ''G2'' Ca_REVIEW_PLATFORM None
       [''software'', ''saas'', ''b2b'', ''review'', ''tool''],
     seed ''https://www.capterra.com'' ''Capterra'' Ca_SOFTWARE_DIRECTORY None
       [''software'', ''saas'', ''b2b'', ''tool'', ''business'']]"

definition seed_info :: provider_info where
  "seed_info = \<lparr>pi_key = ''seed_list'', pi_name = ''Built-in directory list'',
     pi_description = ''A curated starting set of well-known directory candidates. Needs no '' @
       ''credential. Candidates still require qualification before they can be '' @ ''submitted to.'',
     pi_requires_credential = False, pi_credential_provider = None\<rparr>"

definition wanted_keywords :: "discovery_query \<Rightarrow> string list" where
  "wanted_keywords q =
     remdups (map (\<lambda>k. str_lower (str_strip k)) (filter (\<lambda>k. str_strip k \<noteq> []) (dq_keywords q)))"

definition seed_overlap :: "discovery_query \<Rightarrow> seed_entry \<Rightarrow> nat" where
  "seed_overlap q e = length (filter (\<lambda>k. k \<in> set (se_keywords e)) (wanted_keywords q))"

text \<open>A directory without a country or a language fits every market.\<close>

definition seed_fits :: "discovery_query \<Rightarrow> seed_entry \<Rightarrow> bool" where
  "seed_fits q e =
     ((dq_category q = None \<or> dq_category q = Some (se_category e))
      \<and> (truthy (dq_country q) \<and> truthy (se_country e) \<longrightarrow> se_country e = dq_country q)
      \<and> (truthy (dq_language q) \<and> truthy (se_language e) \<longrightarrow> se_language e = dq_language q)
      \<and> (wanted_keywords q \<noteq> [] \<longrightarrow> seed_overlap q e \<noteq> 0))"

definition seed_matches :: "discovery_query \<Rightarrow> (nat \<times> seed_entry) list" where
  "seed_matches q =
     sort_key (\<lambda>(k, e). (- int k, se_name e))
       (map (\<lambda>e. (seed_overlap q e, e)) (filter (seed_fits q) seed_entries))"

definition seed_candidate :: "nat \<times> seed_entry \<Rightarrow> discovered_publisher" where
  "seed_candidate x =
     (case x of (k, e) \<Rightarrow>
      (blank_candidate (se_website_url e))\<lparr>dp_name := Some (se_name e), dp_category := Some (se_category e),
         dp_country := se_country e, dp_language := se_language e,
         dp_source_metadata := [(''source'', JStr ''seed_list''), (''keyword_overlap'', JInt (int k))]\<rparr>)"

definition seed_search :: discovery_provider where
  "seed_search q = Inr (map seed_candidate (slice_to (dq_limit q) (seed_matches q)))"

section \<open>The search API\<close>

definition quoted :: "string \<Rightarrow> string" where
  "quoted s = [CHR 0x22] @ s @ [CHR 0x22]"

definition intent_phrases :: "string list" where
  "intent_phrases =
     map quoted [''submit your business'', ''add your business'', ''free business listing'',
       ''add your company'', ''submit your site'']"

definition excluded_hosts :: "string list" where
  "excluded_hosts =
     [''facebook.com'', ''twitter.com'', ''x.com'', ''linkedin.com'', ''instagram.com'', ''pinterest.com'',
      ''reddit.com'', ''youtube.com'', ''tiktok.com'', ''medium.com'', ''wikipedia.org'', ''quora.com'',
      ''amazon.com'', ''ebay.com'']"

definition search_info :: provider_info where
  "search_info = \<lparr>pi_key = ''search_api'', pi_name = ''Search API'',
     pi_description = ''Finds directories through a SerpApi-compatible search provider using '' @
       ''the workspace's own API key. Queries target free-listing submission '' @
       ''pages rather than generic topical results.'',
     pi_requires_credential = True, pi_credential_provider = Some ''serpapi''\<rparr>"

record search_api =
  sa_env :: ai_env
  sa_api_key :: string
  sa_base_url :: string

definition search_api_init :: "ai_env \<Rightarrow> string \<Rightarrow> string \<Rightarrow> search_api" where
  "search_api_init env key base =
     \<lparr>sa_env = env, sa_api_key = key,
      sa_base_url = rev (dropWhile (\<lambda>c. c = CHR ''/'') (rev base))\<rparr>"

definition build_queries :: "discovery_query \<Rightarrow> string list" where
  "build_queries q =
     (let topics = filter (\<lambda>k. k \<noteq> []) (map str_strip (dq_keywords q));
          topics' = (if topics = [] then [''business directory''] else topics);
          phrases = (if dq_free_only q then intent_phrases else [quoted ''directory''])
      in concat (map (\<lambda>t. map (\<lambda>p. t @ '' '' @ p) (take 3 phrases)) (take 4 topics')))"

definition search_params :: "search_api \<Rightarrow> string \<Rightarrow> discovery_query \<Rightarrow> (string \<times> string) list" where
  "search_params sa search_term q =
     [(''engine'', ''google''), (''q'', search_term), (''num'', show_int (min 20 (max 10 (dq_limit q)))),
      (''api_key'', sa_api_key sa)]
     @ (if truthy (dq_country q) then [(''gl'', str_lower (the (dq_country q)))] else [])
     @ (if truthy (dq_language q) then [(''hl'', str_lower (before CHR ''-'' (the (dq_language q))))] else [])"

definition organic_results :: "json \<Rightarrow> exn + (string \<times> json) list list" where
  "organic_results body =
     (let organic = (case body of JObj fs \<Rightarrow> json_get fs ''organic_results'' | _ \<Rightarrow> JNull) in
      case iterate (py_or organic (JList [])) of
        Inl e \<Rightarrow> Inl e
      | Inr xs \<Rightarrow> Inr (concat (map (\<lambda>x. case x of JObj fs \<Rightarrow> [fs] | _ \<Rightarrow> []) xs)))"

definition search_fetch :: "search_api \<Rightarrow> string \<Rightarrow> discovery_query \<Rightarrow> (string \<times> json) list list online" where
  "search_fetch sa search_term q =
     ebind (http_get (ai_http (sa_env sa)) (sa_base_url sa @ ''/search.json'')
              (plain_call\<lparr>co_params := search_params sa search_term q\<rparr>)) (\<lambda>r.
     ethen (raise_if (\<not> resp_is_success r)
              (AppExn (coded_error ProviderError ''The search provider rejected the request''
                 ''SEARCH_PROVIDER_ERROR'' [(''provider_status'', JInt (resp_status r))])))
       (ebind (lift_sum (resp_json (pl_parse (ai_py (sa_env sa))) r)) (\<lambda>body. lift_sum (organic_results body))))"

definition is_excluded :: "string \<Rightarrow> bool" where
  "is_excluded host = list_ex (\<lambda>x. host = x \<or> has_suffix (''.'' @ x) host) excluded_hosts"

text \<open>\<open>str(item.get(k) or "").strip()\<close>.\<close>

definition item_text :: "py_lib \<Rightarrow> (string \<times> json) list \<Rightarrow> string \<Rightarrow> string" where
  "item_text py item k = str_strip (py_str (pl_render py) (py_or (json_get item k) (JStr [])))"

definition search_candidate :: "py_lib \<Rightarrow> (string \<times> json) list \<Rightarrow> string \<Rightarrow> exn + discovered_publisher option" where
  "search_candidate py item search_term =
     (let link = item_text py item ''link'' in
      if link = [] then Inr None
      else case urlsplit link of
        Inl e \<Rightarrow> Inl e
      | Inr parts \<Rightarrow>
          (let host = str_lower (url_hostname parts); origin = u_scheme parts @ ''://'' @ u_netloc parts in
           if host = [] \<or> \<not> is_public_host host then Inr None
           else if is_excluded host then Inr None
           else Inr (Some ((blank_candidate origin)\<lparr>
                  dp_name := text_or_none (item_text py item ''title''),
                  dp_description := text_or_none (item_text py item ''snippet''),
                  dp_submission_url := (if link \<noteq> origin then Some link else None),
                  dp_source_metadata := [(''source'', JStr ''search_api''), (''query'', JStr search_term),
                    (''position'', json_get item ''position'')]\<rparr>))))"

definition remember_candidate :: "discovered_publisher \<Rightarrow> discovered_publisher list \<Rightarrow> discovered_publisher list" where
  "remember_candidate c found =
     (if dp_website_url c \<in> set (map dp_website_url found) then found else found @ [c])"

fun collect_items ::
  "py_lib \<Rightarrow> int \<Rightarrow> string \<Rightarrow> discovered_publisher list \<Rightarrow> (string \<times> json) list list \<Rightarrow>
   exn + discovered_publisher list" where
  "collect_items py limit search_term found [] = Inr found"
| "collect_items py limit search_term found (x # xs) =
     (case search_candidate py x search_term of
        Inl e \<Rightarrow> Inl e
      | Inr None \<Rightarrow> collect_items py limit search_term found xs
      | Inr (Some c) \<Rightarrow>
          (let found' = remember_candidate c found in
           if limit \<le> int (length found') then Inr found'
           else collect_items py limit search_term found' xs))"

definition search_results :: "search_api \<Rightarrow> discovery_query \<Rightarrow> string \<Rightarrow> (string \<times> json) list list online" where
  "search_results sa q search_term =
     recover (search_fetch sa search_term q)
       (\<lambda>e. if is_app_error e ProviderError then ret [] else raise e)"

fun search_terms ::
  "search_api \<Rightarrow> discovery_query \<Rightarrow> discovered_publisher list \<Rightarrow> string list \<Rightarrow> discovered_publisher list online" where
  "search_terms sa q found [] = ret found"
| "search_terms sa q found (x # xs) =
     (if dq_limit q \<le> int (length found) then ret found
      else ebind (search_results sa q x) (\<lambda>items.
           ebind (lift_sum (collect_items (ai_py (sa_env sa)) (dq_limit q) x found items)) (\<lambda>found'.
           search_terms sa q found' xs)))"

definition search_online :: "search_api \<Rightarrow> discovery_query \<Rightarrow> discovered_publisher list online" where
  "search_online sa q =
     ebind (search_terms sa q [] (build_queries q)) (\<lambda>found. ret (slice_to (dq_limit q) found))"

definition api_search :: "search_api \<Rightarrow> net \<Rightarrow> discovery_provider" where
  "api_search sa s q = fst (search_online sa q s)"

section \<open>The model's suggestions\<close>

definition ai_info :: provider_info where
  "ai_info = \<lparr>pi_key = ''ai'', pi_name = ''AI suggestions'',
     pi_description = ''Asks the workspace's configured AI provider to suggest free listing '' @
       ''sites for a brief. Suggestions are treated as unverified candidates '' @
       ''and must pass qualification like any other.'',
     pi_requires_credential = True,
     pi_credential_provider = Some ''(the workspace's configured AI provider)''\<rparr>"

definition discovery_system_prompt :: string where
  "discovery_system_prompt =
     join_with newline_text
      [''You are a research assistant for a link-building platform '' @
       ''that only works with legitimate, free online listing and directory sites.'',
       [],
       ''Suggest real, currently-operating directory or listing websites that accept '' @
       ''free submissions and that fit the brief.'',
       [],
       ''Rules you must follow:'',
       ''- Only free directories, free business/company listings, free local listings, '' @
       ''free startup or software directories, review platforms with free profiles, and '' @
       ''similar legitimate listing sites.'',
       ''- Never suggest paid guest post sites, sponsored article placements, link '' @
       ''marketplaces, private blog networks, link farms, or any site whose purpose is '' @
       ''selling links.'',
       ''- Never invent a domain. If you are not confident a site exists, omit it.'',
       [],
       ''Reply with a single JSON object of the form:'',
       ''{'' @ quoted ''publishers'' @ '': [{'' @ quoted ''website_url'' @ '': '' @ quoted ''...'' @ '', ''
         @ quoted ''name'' @ '': '' @ quoted ''...'' @ '', '' @ quoted ''category'' @ '': '' @ quoted ''...'' @ '', ''
         @ quoted ''country'' @ '': '' @ quoted ''US or null'' @ '', '' @ quoted ''description'' @ '': '' @ quoted ''...''
         @ ''}]}'',
       [],
       ''Valid category values: '' @ join_with '', '' (map publisher_category_value publisher_category_members),
       []]"

definition discovery_prompt :: "discovery_query \<Rightarrow> string" where
  "discovery_prompt q =
     join_with '' ''
      ([''Suggest up to '' @ show_int (dq_limit q) @ '' free listing sites.'']
       @ (if dq_keywords q \<noteq> [] then [''Industry or topic: '' @ join_with '', '' (dq_keywords q) @ ''.''] else [])
       @ (if truthy (dq_country q) then [''Target country: '' @ the (dq_country q) @ ''.''] else [])
       @ (if truthy (dq_language q) then [''Target language: '' @ the (dq_language q) @ ''.''] else [])
       @ (case dq_category q of None \<Rightarrow> []
          | Some c \<Rightarrow> [''Preferred category: '' @ publisher_category_value c @ ''.'']))"

definition discovery_generation :: "string \<Rightarrow> discovery_query \<Rightarrow> generation_request" where
  "discovery_generation model_name q =
     \<lparr>gq_prompt = discovery_prompt q, gq_model = model_name, gq_system = Some discovery_system_prompt,
      gq_max_tokens = 2048, gq_temperature = 1 / 2, gq_json_output = True, gq_extra = []\<rparr>"

definition bad_shape :: "string \<Rightarrow> exn" where
  "bad_shape msg = err_coded ProviderError msg ''AI_DISCOVERY_BAD_SHAPE''"

definition extract_json :: "py_lib \<Rightarrow> string \<Rightarrow> exn + (string \<times> json) list" where
  "extract_json py txt =
     (case braced (unfenced txt) of
        None \<Rightarrow> Inl (bad_shape ''The AI provider did not return JSON'')
      | Some object_text \<Rightarrow>
          (case pl_parse py object_text of
             None \<Rightarrow> Inl (bad_shape ''The AI provider returned malformed JSON'')
           | Some (JObj parsed) \<Rightarrow> Inr parsed
           | Some _ \<Rightarrow> Inl (bad_shape ''The AI provider returned an unexpected JSON shape'')))"

definition suggested_country :: "string \<Rightarrow> string option" where
  "suggested_country raw = (if length raw = 2 \<and> list_all ascii_alpha raw then Some raw else None)"

definition suggestion :: "idna \<Rightarrow> py_lib \<Rightarrow> json \<Rightarrow> exn + discovered_publisher option" where
  "suggestion idna py entry =
     (case entry of
        JObj fs \<Rightarrow>
          (let raw_url = item_text py fs ''website_url'' in
           if raw_url = [] then Inr None
           else case normalize_url idna raw_url of
             Inl e \<Rightarrow> (if is_app_error e ValidationError then Inr None else Inl e)
           | Inr url \<Rightarrow>
               (case urlsplit url of
                  Inl e \<Rightarrow> Inl e
                | Inr parts \<Rightarrow>
                    if \<not> is_public_host (url_hostname parts) then Inr None
                    else Inr (Some ((blank_candidate url)\<lparr>
                           dp_name := text_or_none (item_text py fs ''name''),
                           dp_description := text_or_none (item_text py fs ''description''),
                           dp_category := enum_parse publisher_category_members publisher_category_value
                             (str_upper (item_text py fs ''category'')),
                           dp_country := suggested_country (str_upper (item_text py fs ''country'')),
                           dp_source_metadata := [(''source'', JStr ''ai'')]\<rparr>))))
      | _ \<Rightarrow> Inr None)"

fun collect_suggestions ::
  "idna \<Rightarrow> py_lib \<Rightarrow> int \<Rightarrow> discovered_publisher list \<Rightarrow> json list \<Rightarrow> exn + discovered_publisher list" where
  "collect_suggestions idna py limit found [] = Inr found"
| "collect_suggestions idna py limit found (x # xs) =
     (case suggestion idna py x of
        Inl e \<Rightarrow> Inl e
      | Inr None \<Rightarrow> collect_suggestions idna py limit found xs
      | Inr (Some c) \<Rightarrow>
          if dp_website_url c \<in> set (map dp_website_url found) then collect_suggestions idna py limit found xs
          else if limit \<le> int (length (found @ [c])) then Inr (found @ [c])
          else collect_suggestions idna py limit (found @ [c]) xs)"

definition parse_suggestions :: "idna \<Rightarrow> py_lib \<Rightarrow> string \<Rightarrow> int \<Rightarrow> exn + discovered_publisher list" where
  "parse_suggestions idna py txt limit =
     (case extract_json py txt of
        Inl e \<Rightarrow> Inl e
      | Inr payload \<Rightarrow>
          (case json_get payload ''publishers'' of
             JList entries \<Rightarrow> collect_suggestions idna py limit [] (slice_to (limit * 2) entries)
           | _ \<Rightarrow> Inl (bad_shape ''The AI provider did not return a 'publishers' list'')))"

definition ai_search :: "idna \<Rightarrow> ai_services \<Rightarrow> ai_client \<Rightarrow> string \<Rightarrow> discovery_provider" where
  "ai_search idna ax cl model_name q =
     (case ax_generate ax cl (discovery_generation model_name q) of
        Inl e \<Rightarrow> Inl e
      | Inr r \<Rightarrow> parse_suggestions idna (ax_py ax) (gr_text r) (dq_limit q))"

section \<open>The registry\<close>

definition provider_infos :: "provider_info list" where
  "provider_infos = [seed_info, search_info, ai_info]"

definition default_provider_key :: string where
  "default_provider_key = pi_key seed_info"

definition search_credential :: string where
  "search_credential = the (or_else (pi_credential_provider search_info) (Some ''serpapi''))"

text \<open>What the registry is built from: the AI services with the credential service in them, the HTTP
  environment of the search adapter, and the state of the network when a search runs.\<close>

record discovery_sources =
  dx_idna :: idna
  dx_ai :: ai_services
  dx_env :: ai_env
  dx_net :: net

definition resolve_source :: "discovery_sources \<Rightarrow> string \<Rightarrow> discovery_provider svc" where
  "resolve_source dx key =
     (if key = pi_key seed_info then ret seed_search
      else if key = pi_key search_info then
        ebind (resolve_for_provider (ax_credentials (dx_ai dx)) search_credential) (\<lambda>(_, api_key).
          ret (api_search (search_api_init (dx_env dx) api_key ''https://serpapi.com'') (dx_net dx)))
      else if key = pi_key ai_info then
        ebind (provider_for_purpose (dx_ai dx) AU_DISCOVERY) (\<lambda>(cl, k).
          ret (ai_search (dx_idna dx) (dx_ai dx) cl (aic_model k)))
      else raise (AppExn (app_error_init ProviderNotSupportedError
             (Some (''Unknown discovery provider '' @ [CHR 0x27] @ key @ [CHR 0x27])) None
             (Some [(''provider'', JStr key), (''available'', JList (map (\<lambda>i. JStr (pi_key i)) provider_infos))]) None)))"

definition has_credential_for :: "discovery_sources \<Rightarrow> string \<Rightarrow> bool svc" where
  "has_credential_for dx key =
     (if key = pi_key search_info then
        ebind (get_usable_for_provider search_credential) (\<lambda>found. ret (found \<noteq> None))
      else if key = pi_key ai_info then
        recover (ebind (provider_for_purpose (dx_ai dx) AU_DISCOVERY) (\<lambda>_. ret True))
          (\<lambda>e. if is_app_error e CredentialNotConfiguredError then ret False else raise e)
      else ret True)"

definition availability_row :: "discovery_sources \<Rightarrow> provider_info \<Rightarrow> (string \<times> json) list svc" where
  "availability_row dx i =
     ebind (if pi_requires_credential i then has_credential_for dx (pi_key i) else ret True) (\<lambda>ok_now.
     ret [(''key'', JStr (pi_key i)), (''name'', JStr (pi_name i)), (''description'', JStr (pi_description i)),
          (''requires_credential'', JBool (pi_requires_credential i)), (''available'', JBool ok_now)])"

fun availability_rows :: "discovery_sources \<Rightarrow> provider_info list \<Rightarrow> (string \<times> json) list list svc" where
  "availability_rows dx [] = ret []"
| "availability_rows dx (i # rest) =
     ebind (availability_row dx i) (\<lambda>r. ebind (availability_rows dx rest) (\<lambda>rs. ret (r # rs)))"

definition availability :: "discovery_sources \<Rightarrow> (string \<times> json) list list svc" where
  "availability dx = availability_rows dx provider_infos"

end
