(* ===== verification/DiscoveryProperties.thy ===== *)
theory DiscoveryProperties
  imports DiscoveryProviders
begin

text \<open>
  What a discovery run can rely on: every source keeps to the contract \<open>bounded_source\<close>, and the listing of
  sources agrees with the resolution of one.
\<close>

section \<open>The contract of a source\<close>

text \<open>A source keeps to the limit, names no site twice and vouches for no candidate; \<open>fit\<close> is what else it
  promises of the ones it names.\<close>

locale bounded_source =
  fixes search :: discovery_provider and fit :: "discovered_publisher \<Rightarrow> bool"
  assumes within: "0 \<le> dq_limit q \<Longrightarrow> search q = Inr cs \<Longrightarrow> int (length cs) \<le> dq_limit q"
    and distinct_sites: "search q = Inr cs \<Longrightarrow> distinct (map dp_website_url cs)"
    and unvouched: "search q = Inr cs \<Longrightarrow> c \<in> set cs \<Longrightarrow> dp_submission_method c = Me_UNKNOWN \<and> fit c"
begin

lemma candidates:
  assumes "search q = Inr cs" "0 \<le> dq_limit q"
  shows "int (length cs) \<le> dq_limit q \<and> distinct (map dp_website_url cs)
     \<and> (\<forall>c\<in>set cs. dp_submission_method c = Me_UNKNOWN \<and> fit c)"
  using assms within distinct_sites unvouched by blast

end

lemma slice_to_length: "0 \<le> n \<Longrightarrow> int (length (slice_to n xs)) \<le> n"
  by (simp add: slice_to_def)

lemma slice_to_set: "set (slice_to n xs) \<subseteq> set xs"
  by (auto simp: slice_to_def dest: in_set_takeD)

lemma slice_to_distinct: "distinct (map f xs) \<Longrightarrow> distinct (map f (slice_to n xs))"
  by (simp add: slice_to_def take_map [symmetric])

lemma blank_candidate_fields [simp]:
  "dp_website_url (blank_candidate url) = url" "dp_submission_method (blank_candidate url) = Me_UNKNOWN"
  by (simp_all add: blank_candidate_def)

subsection \<open>The curated list\<close>

definition listed :: "discovered_publisher \<Rightarrow> bool" where
  "listed c = list_ex (\<lambda>e. dp_website_url c = se_website_url e \<and> dp_name c = Some (se_name e)) seed_entries"

lemma seed_urls_distinct: "distinct (map se_website_url seed_entries)"
  by (simp add: seed_entries_def seed_def)

lemma seed_candidate_fields [simp]:
  "dp_website_url (seed_candidate x) = se_website_url (snd x)" "dp_submission_method (seed_candidate x) = Me_UNKNOWN"
  "dp_name (seed_candidate x) = Some (se_name (snd x))"
  by (simp_all add: seed_candidate_def split: prod.split)

lemma seed_matches_urls: "distinct (map (se_website_url \<circ> snd) (seed_matches q))"
proof -
  have "distinct (map se_website_url (filter (seed_fits q) seed_entries))"
    using seed_urls_distinct by (rule distinct_map_filter)
  then have "distinct (map (se_website_url \<circ> snd) (map (\<lambda>e. (seed_overlap q e, e)) (filter (seed_fits q) seed_entries)))"
    by (simp add: comp_def)
  then show ?thesis
    by (simp only: seed_matches_def distinct_map distinct_sort set_sort) 
qed

interpretation seed_source: bounded_source seed_search listed
proof
  fix q cs assume cs: "seed_search q = Inr cs"
  then have eq: "cs = map seed_candidate (slice_to (dq_limit q) (seed_matches q))" by (simp add: seed_search_def)
  show "distinct (map dp_website_url cs)"
    using slice_to_distinct [OF seed_matches_urls, of "dq_limit q" q] by (simp add: eq comp_def)
  show "0 \<le> dq_limit q \<Longrightarrow> int (length cs) \<le> dq_limit q" by (simp add: eq slice_to_length)
  fix c assume "c \<in> set cs"
  then obtain x where "x \<in> set (slice_to (dq_limit q) (seed_matches q))" and x: "c = seed_candidate x" by (auto simp: eq)
  then have "x \<in> set (seed_matches q)" using slice_to_set [of "dq_limit q" "seed_matches q"] by blast
  then have "x \<in> (\<lambda>e. (seed_overlap q e, e)) ` set (filter (seed_fits q) seed_entries)"
    by (simp only: seed_matches_def set_sort set_map)
  then have "snd x \<in> set seed_entries" by (elim imageE) simp
  then show "dp_submission_method c = Me_UNKNOWN \<and> listed c"
    unfolding x listed_def list_ex_iff by (intro conjI bexI [of _ "snd x"]) simp_all
qed

subsection \<open>The search API\<close>

definition admitted_site :: "discovered_publisher \<Rightarrow> bool" where
  "admitted_site c =
     (\<exists>parts. dp_website_url c = u_scheme parts @ ''://'' @ u_netloc parts
        \<and> is_public_host (str_lower (url_hostname parts)) \<and> \<not> is_excluded (str_lower (url_hostname parts)))"

lemma search_candidate_fit:
  "search_candidate py x t = Inr (Some c) \<Longrightarrow> dp_submission_method c = Me_UNKNOWN \<and> admitted_site c"
  by (auto simp: search_candidate_def admitted_site_def Let_def split: if_splits sum.splits)

definition sound :: "discovered_publisher list \<Rightarrow> bool" where
  "sound cs = (distinct (map dp_website_url cs)
     \<and> list_all (\<lambda>c. dp_submission_method c = Me_UNKNOWN \<and> admitted_site c) cs)"

lemma sound_remember:
  "sound cs \<Longrightarrow> dp_submission_method c = Me_UNKNOWN \<and> admitted_site c \<Longrightarrow> sound (remember_candidate c cs)"
  by (simp add: sound_def remember_candidate_def)

lemma sound_collect: "sound cs \<Longrightarrow> collect_items py n t cs xs = Inr cs' \<Longrightarrow> sound cs'"
  by (induction xs arbitrary: cs)
    (auto simp: Let_def split: sum.splits option.splits if_splits dest: search_candidate_fit intro: sound_remember)

lemma sound_terms: "sound cs \<Longrightarrow> wp (search_terms sa q cs ts) (\<lambda>r _. sound r) (\<lambda>_ _. True) s"
proof (induction ts arbitrary: cs s)
  case (Cons t ts)
  have "wp (ebind (lift_sum (collect_items py n t cs items)) (\<lambda>r. search_terms sa q r ts))
      (\<lambda>r _. sound r) (\<lambda>_ _. True) s'" for py n items s'
    using Cons.IH sound_collect [OF Cons.prems] by (auto simp: wp_simps split: sum.split)
  then have "wp (ebind (search_results sa q t) (\<lambda>items. ebind (lift_sum (collect_items py n t cs items)) (\<lambda>r. search_terms sa q r ts)))
      (\<lambda>r _. sound r) (\<lambda>_ _. True) s'" for py n s'
    unfolding wp_ebind [of "search_results sa q t"] by (simp add: wp_def split: prod.split sum.split)
  then show ?case using Cons.prems by (simp add: wp_simps)
qed (simp add: wp_simps)

lemma sound_slice: "sound cs \<Longrightarrow> sound (slice_to n cs)"
  using slice_to_set [of n cs] by (auto simp: sound_def slice_to_distinct list_all_iff)

interpretation search_source: bounded_source "api_search sa s" admitted_site for sa s
proof
  fix q cs assume cs: "api_search sa s q = Inr cs"
  have "wp (search_online sa q) (\<lambda>r _. \<exists>all. sound all \<and> r = slice_to (dq_limit q) all) (\<lambda>_ _. True) s"
    unfolding search_online_def wp_ebind
    by (rule wp_mono [OF sound_terms]) (auto simp: sound_def wp_simps)
  then obtain all where all: "sound all" "cs = slice_to (dq_limit q) all"
    using cs by (auto simp: api_search_def wp_def split: sum.splits prod.splits)
  show "distinct (map dp_website_url cs)" using sound_slice [OF all(1)] all(2) by (simp add: sound_def)
  show "0 \<le> dq_limit q \<Longrightarrow> int (length cs) \<le> dq_limit q" by (simp add: all(2) slice_to_length)
  fix c assume "c \<in> set cs"
  then show "dp_submission_method c = Me_UNKNOWN \<and> admitted_site c"
    using sound_slice [OF all(1), of "dq_limit q"] all(2) by (auto simp: sound_def list_all_iff)
qed

subsection \<open>The model's suggestions\<close>

definition public_site :: "discovered_publisher \<Rightarrow> bool" where
  "public_site c = (case urlsplit (dp_website_url c) of Inl _ \<Rightarrow> False | Inr parts \<Rightarrow> is_public_host (url_hostname parts))"

lemma suggestion_fit: "suggestion idna py x = Inr (Some c) \<Longrightarrow> dp_submission_method c = Me_UNKNOWN \<and> public_site c"
  by (auto simp: suggestion_def public_site_def Let_def split: if_splits sum.splits json.splits)

definition offered :: "discovered_publisher list \<Rightarrow> bool" where
  "offered cs = (distinct (map dp_website_url cs)
     \<and> list_all (\<lambda>c. dp_submission_method c = Me_UNKNOWN \<and> public_site c) cs)"

lemma collected_offers: "collect_suggestions idna py n cs xs = Inr cs' \<Longrightarrow> offered cs \<Longrightarrow> offered cs'"
  by (induction xs arbitrary: cs)
    (auto simp: offered_def split: sum.splits option.splits if_splits dest!: suggestion_fit)

lemma collected_within:
  "collect_suggestions idna py n cs xs = Inr cs' \<Longrightarrow> int (length cs) < n \<or> cs = [] \<and> n = 0 \<and> xs = [] \<Longrightarrow>
   int (length cs') \<le> n"
  by (induction xs arbitrary: cs) (auto split: sum.splits option.splits if_splits)

interpretation ai_source: bounded_source "ai_search idna ax cl model_name" public_site for idna ax cl model_name
proof
  fix q cs assume "ai_search idna ax cl model_name q = Inr cs"
  then obtain xs where xs: "collect_suggestions idna (ax_py ax) (dq_limit q) [] (slice_to (dq_limit q * 2) xs) = Inr cs"
    by (auto simp: ai_search_def parse_suggestions_def split: sum.splits json.splits)
  have all: "offered cs" using collected_offers [OF xs] by (simp add: offered_def)
  then show "distinct (map dp_website_url cs)" by (simp add: offered_def)
  show "0 \<le> dq_limit q \<Longrightarrow> int (length cs) \<le> dq_limit q"
    using collected_within [OF xs] by (cases "dq_limit q = 0") (auto simp: slice_to_def)
  fix c assume "c \<in> set cs"
  then show "dp_submission_method c = Me_UNKNOWN \<and> public_site c" using all by (auto simp: offered_def list_all_iff)
qed

section \<open>What a run gets\<close>

lemma resolved_sources:
  assumes "resolve_source dx key w = (Inr search, v)"
  shows "key = pi_key seed_info \<and> search = seed_search
     \<or> key = pi_key search_info \<and> (\<exists>api_key. search = api_search (search_api_init (dx_env dx) api_key ''https://serpapi.com'') (dx_net dx))
     \<or> key = pi_key ai_info \<and> (\<exists>cl (k :: ai_config_row). search = ai_search (dx_idna dx) (dx_ai dx) cl (aic_model k))"
proof -
  have tail: "wp (ebind m f) Q E w" if "\<And>a s. wp (f a) Q E s" "\<And>e s. E e s" for m f Q and E :: "exn \<Rightarrow> world \<Rightarrow> bool"
    unfolding wp_ebind using that by (simp add: wp_def split: prod.split sum.split)
  have "wp (resolve_source dx key) (\<lambda>search _. key = pi_key seed_info \<and> search = seed_search
     \<or> key = pi_key search_info \<and> (\<exists>api_key. search = api_search (search_api_init (dx_env dx) api_key ''https://serpapi.com'') (dx_net dx))
     \<or> key = pi_key ai_info \<and> (\<exists>cl (k :: ai_config_row). search = ai_search (dx_idna dx) (dx_ai dx) cl (aic_model k))) (\<lambda>_ _. True) w"
    unfolding resolve_source_def
    by (auto simp: wp_ret wp_raise intro!: tail split: prod.split) blast
  from wp_Inr [OF this assms] show ?thesis .
qed

definition site_checked :: "string \<Rightarrow> discovered_publisher \<Rightarrow> bool" where
  "site_checked key c =
     (if key = ''seed_list'' then listed c else if key = ''search_api'' then admitted_site c else public_site c)"



section \<open>Availability\<close>

definition unconfigured :: "exn + 'a \<Rightarrow> bool" where
  "unconfigured r = (case r of Inl e \<Rightarrow> is_app_error e CredentialNotConfiguredError | Inr _ \<Rightarrow> False)"

lemma subclass_facts:
  "\<not> is_subclass CredentialDecryptionError CredentialNotConfiguredError"
  by code_simp

lemma decryption_is_configured: "resolve_secret sv c = Inl e \<Longrightarrow> \<not> is_app_error e CredentialNotConfiguredError"
  using subclass_facts
  by (auto simp: resolve_secret_def decrypt_def key_unavailable_def app_error_init_def err_def Let_def
      split: option.splits if_splits)

lemma configured_facts: "is_subclass CredentialNotConfiguredError CredentialNotConfiguredError"
  by code_simp

lemma search_available:
  assumes "has_credential_for dx ''search_api'' w = (Inr b, v)"
  shows "b = (\<not> unconfigured (fst (resolve_source dx ''search_api'' w)))"
proof -
  have keys: "pi_key search_info = ''search_api''" "pi_key seed_info = ''seed_list''" by (simp_all add: search_info_def seed_info_def)
  obtain c where found: "get_usable_for_provider search_credential w = (Inr c, v)" "b = (c \<noteq> None)"
    using assms by (auto simp: has_credential_for_def keys comp_defs split: sum.splits prod.splits)
  show ?thesis
  proof (cases c)
    case None
    then show ?thesis using found configured_facts
      by (simp add: resolve_source_def keys resolve_for_provider_def comp_defs unconfigured_def app_error_init_def Let_def)
  next
    case (Some r)
    then show ?thesis using found decryption_is_configured [of "ax_credentials (dx_ai dx)" r]
      by (auto simp: resolve_source_def keys resolve_for_provider_def comp_defs unconfigured_def split: sum.split)
  qed
qed

lemma ai_available:
  assumes "has_credential_for dx ''ai'' w = (Inr b, v)"
  shows "b = (\<not> unconfigured (fst (resolve_source dx ''ai'' w)))"
proof -
  have keys: "pi_key search_info = ''search_api''" "pi_key seed_info = ''seed_list''" "pi_key ai_info = ''ai''"
    by (simp_all add: search_info_def seed_info_def ai_info_def)
  show ?thesis using assms
    by (cases "provider_for_purpose (dx_ai dx) AU_DISCOVERY w")
      (auto simp: has_credential_for_def resolve_source_def keys recover_def comp_defs unconfigured_def
        split: sum.splits if_splits)
qed

lemma reads_has_credential: "reads (has_credential_for dx key)"
proof -
  have r: "reads (recover m (\<lambda>e. if P e then ret b else raise e))" if "reads m" for m :: "bool svc" and P b
    using that by (auto simp: reads_def recover_def comp_defs split: prod.split sum.split) (metis snd_conv)+
  then show ?thesis
    unfolding has_credential_for_def get_usable_for_provider_def
    by (intro reads_intros r reads_content_queries)
qed

lemma has_credential_same: "has_credential_for dx key w = (r, v) \<Longrightarrow> v = w"
  using reads_has_credential [of dx key] by (auto simp: reads_def dest: spec [of _ w])

text \<open>What the listing of sources says holds: a source is shown as available exactly when asking for it
  does not fail for want of a credential or of an AI configuration.\<close>

theorem availability_predicts_resolution:
  assumes "availability dx w = (Inr rows, v)" and "i \<in> set provider_infos"
  shows "v = w \<and> (\<exists>r\<in>set rows. json_get r ''key'' = JStr (pi_key i)
     \<and> json_get r ''available'' = JBool (\<not> unconfigured (fst (resolve_source dx (pi_key i) w))))"
proof -
  have keys: "pi_key search_info = ''search_api''" "pi_key seed_info = ''seed_list''" "pi_key ai_info = ''ai''"
    "pi_requires_credential search_info" "\<not> pi_requires_credential seed_info" "pi_requires_credential ai_info"
    by (simp_all add: search_info_def seed_info_def ai_info_def)
  obtain b1 v1 b2 where b1: "has_credential_for dx ''search_api'' w = (Inr b1, v1)"
    and b2: "has_credential_for dx ''ai'' v1 = (Inr b2, v)"
    and rows: "map (\<lambda>r. (json_get r ''key'', json_get r ''available'')) rows =
      [(JStr ''seed_list'', JBool True), (JStr ''search_api'', JBool b1), (JStr ''ai'', JBool b2)]"
    using assms(1)
    by (auto simp: availability_def provider_infos_def availability_row_def keys comp_defs json_get_def
        split: sum.splits prod.splits)
  have same: "v1 = w" "v = w" using has_credential_same [OF b1] has_credential_same [OF b2] by simp_all
  have seed: "\<not> unconfigured (fst (resolve_source dx ''seed_list'' w))"
    by (simp add: resolve_source_def keys ret_def unconfigured_def)
  have "(JStr (pi_key i), JBool (\<not> unconfigured (fst (resolve_source dx (pi_key i) w))))
      \<in> set (map (\<lambda>r. (json_get r ''key'', json_get r ''available'')) rows)"
    using assms(2) search_available [OF b1] ai_available [OF b2] seed
    unfolding rows by (auto simp: provider_infos_def keys same)
  then show ?thesis using same by auto
qed

theorem availability_predicts_resolution_witness:
  "\<forall>dx. let w = initial_world\<lparr>w_tenant := Some 1\<rparr> in
     \<exists>rows. availability dx w = (Inr rows, w) \<and> search_info \<in> set provider_infos
      \<and> unconfigured (fst (resolve_source dx ''search_api'' w))
      \<and> (\<exists>r\<in>set rows. json_get r ''key'' = JStr ''search_api'' \<and> json_get r ''available'' = JBool False)"
proof
  fix dx
  let ?w = "initial_world\<lparr>w_tenant := Some 1\<rparr>"
  have empty: "get_usable_for_provider search_credential ?w = (Inr None, ?w)"
    "get_default_for_purpose AU_DISCOVERY ?w = (Inr None, ?w)"
    by (simp_all add: get_usable_for_provider_def get_default_for_purpose_def repo_where_def repo_rows_def comp_defs
        require_tenant_id_def query_def tenant_rows_def initial_world_def empty_db_def)
  then obtain rows where rows: "availability dx ?w = (Inr rows, ?w)"
    using configured_facts
    by (auto simp: availability_def provider_infos_def availability_row_def has_credential_for_def search_info_def
        seed_info_def ai_info_def provider_for_purpose_def recover_def comp_defs coded_error_def app_error_init_def Let_def)
  have unconf: "unconfigured (fst (resolve_source dx ''search_api'' ?w))"
    using empty configured_facts
    by (simp add: resolve_source_def search_info_def seed_info_def resolve_for_provider_def comp_defs
        unconfigured_def app_error_init_def Let_def)
  have "search_info \<in> set provider_infos" "pi_key search_info = ''search_api''" by (simp_all add: provider_infos_def search_info_def)
  then show "let w = ?w in \<exists>rows. availability dx w = (Inr rows, w) \<and> search_info \<in> set provider_infos
      \<and> unconfigured (fst (resolve_source dx ''search_api'' w))
      \<and> (\<exists>r\<in>set rows. json_get r ''key'' = JStr ''search_api'' \<and> json_get r ''available'' = JBool False)"
    using availability_predicts_resolution [OF rows, of search_info] rows unconf by (auto simp: Let_def)
qed

end
