(* ===== verification/Idempotency.thy ===== *)
theory Idempotency
  imports Tables
begin

text \<open>
  Idempotency keys: \<open>api/dependencies/idempotency.py\<close>, \<open>repositories/idempotency.py\<close>, the unique
  constraint of \<open>models/idempotency.py\<close>, and the pattern the keyed create routes share.  The compact JSON
  dump with its SHA-256 digest is a parameter, applied to the payload with its keys sorted.  A resource
  identifier is stored as text, here the decimal text of the model's number.
\<close>

section \<open>Fingerprints\<close>

type_synonym digest = "json \<Rightarrow> string"

text \<open>\<open>sort_keys\<close>.\<close>

fun sorted_json :: "json \<Rightarrow> json"
  and sorted_items :: "json list \<Rightarrow> json list"
  and sorted_fields :: "(string \<times> json) list \<Rightarrow> (string \<times> json) list" where
  "sorted_json v =
     (case v of JObj fs \<Rightarrow> JObj (sort_key fst (sorted_fields fs)) | JList xs \<Rightarrow> JList (sorted_items xs) | _ \<Rightarrow> v)"
| "sorted_items [] = []"
| "sorted_items (x # xs) = sorted_json x # sorted_items xs"
| "sorted_fields [] = []"
| "sorted_fields ((k, v) # xs) = (k, sorted_json v) # sorted_fields xs"

declare sorted_json.simps [simp del]

definition request_fingerprint :: "digest \<Rightarrow> json \<Rightarrow> string" where
  "request_fingerprint dg payload = dg (sorted_json payload)"

section \<open>Identifiers as text\<close>

definition id_text :: "nat \<Rightarrow> string" where
  "id_text i = show_nat i"

definition is_decimal :: "char \<Rightarrow> bool" where
  "is_decimal c = (48 \<le> (of_char c :: nat) \<and> (of_char c :: nat) \<le> 57)"

definition text_id :: "string \<Rightarrow> exn + nat" where
  "text_id s =
     (if s \<noteq> [] \<and> list_all is_decimal s then Inr (foldl (\<lambda>a c. 10 * a + (of_char c - 48)) 0 s)
      else Inl (ValueExn ''badly formed hexadecimal UUID string''))"

section \<open>The ledger\<close>

definition idempotency_slot :: "idempotency_row \<Rightarrow> nat \<times> string \<times> string" where
  "idempotency_slot r = (idk_tenant_id r, idk_key r, idk_endpoint r)"

definition idempotency_ok :: "db \<Rightarrow> bool" where
  "idempotency_ok d = distinct (map idempotency_slot (idempotency_keys d))"

definition flush_idempotency :: "unit svc" where
  "flush_idempotency = flush_check idempotency_ok ''idempotency_keys''"

definition idempotency_get :: "string \<Rightarrow> string \<Rightarrow> idempotency_row option svc" where
  "idempotency_get key endpoint =
     ebind (repo_where idempotency_model (\<lambda>r. idk_key r = key \<and> idk_endpoint r = endpoint)) scalar_one_or_none"

definition purge_older_than :: "int \<Rightarrow> nat svc" where
  "purge_older_than days =
     ebind now (\<lambda>n.
     ebind require_tenant_id (\<lambda>t.
     let old = (\<lambda>r. idk_tenant_id r = t \<and> idk_created_at r < n - days * 86400) in
     ebind (query (\<lambda>d. filter old (idempotency_keys d))) (\<lambda>rs.
     ethen (change_db (\<lambda>d. d\<lparr>idempotency_keys := filter (\<lambda>r. \<not> old r) (idempotency_keys d)\<rparr>))
       (ret (length rs)))))"

section \<open>The guard\<close>

record idempotency_guard =
  ig_key :: "string option"
  ig_endpoint :: string

definition guard_for :: "string \<Rightarrow> string \<Rightarrow> string option \<Rightarrow> idempotency_guard" where
  "guard_for meth path key = \<lparr>ig_key = key, ig_endpoint = meth @ '' '' @ path\<rparr>"

definition key_reused :: "string \<Rightarrow> exn" where
  "key_reused endpoint =
     AppExn (app_error_init IdempotencyConflictError None None (Some [(''endpoint'', JStr endpoint)]) None)"

definition existing_record :: "digest \<Rightarrow> idempotency_guard \<Rightarrow> json \<Rightarrow> idempotency_row option svc" where
  "existing_record dg g payload =
     (if \<not> truthy (ig_key g) then ret None
      else ebind (idempotency_get (the (ig_key g)) (ig_endpoint g)) (\<lambda>found. case found of
             None \<Rightarrow> ret None
           | Some r \<Rightarrow> ethen (raise_if (idk_request_hash r \<noteq> request_fingerprint dg payload) (key_reused (ig_endpoint g)))
                        (ret (Some r))))"

definition new_idempotency_row ::
  "digest \<Rightarrow> idempotency_guard \<Rightarrow> json \<Rightarrow> int \<Rightarrow> json \<Rightarrow> string option \<Rightarrow> nat \<Rightarrow> nat \<Rightarrow> int \<Rightarrow> idempotency_row" where
  "new_idempotency_row dg g payload status body rid i t n =
     \<lparr>idk_id = i, idk_tenant_id = t, idk_key = the (ig_key g), idk_endpoint = ig_endpoint g,
      idk_request_hash = request_fingerprint dg payload, idk_response_status = Some status,
      idk_response_body = Some body, idk_resource_id = rid, idk_created_at = n\<rparr>"

definition remember :: "digest \<Rightarrow> idempotency_guard \<Rightarrow> json \<Rightarrow> int \<Rightarrow> json \<Rightarrow> string option \<Rightarrow> unit svc" where
  "remember dg g payload status body rid =
     (if \<not> truthy (ig_key g) then ret ()
      else ebind (repo_new idempotency_model (new_idempotency_row dg g payload status body rid)) (\<lambda>_. flush_idempotency))"

section \<open>Keyed creation\<close>

text \<open>What the keyed create routes share: a known key answers with the resource as it is now, anything else
  creates it and remembers the outcome.  The reply is its status, the row, and whether it is a replay.\<close>

record 'r keyed_route =
  kr_get :: "nat \<Rightarrow> 'r svc"
  kr_create :: "('r \<times> int) svc"
  kr_read :: "'r \<Rightarrow> json"
  kr_id :: "'r \<Rightarrow> nat"

definition keyed_create ::
  "digest \<Rightarrow> idempotency_guard \<Rightarrow> json \<Rightarrow> 'r keyed_route \<Rightarrow> (int \<times> 'r \<times> bool) svc" where
  "keyed_create dg g body k =
     ebind (existing_record dg g body) (\<lambda>replay.
     case (case replay of None \<Rightarrow> None | Some r \<Rightarrow> if truthy (idk_resource_id r) then idk_resource_id r else None) of
       Some rid \<Rightarrow> ebind (lift_sum (text_id rid)) (\<lambda>i. ebind (kr_get k i) (\<lambda>x. ret (200, x, True)))
     | None \<Rightarrow>
         ebind (kr_create k) (\<lambda>(x, status).
         ethen (remember dg g body status (kr_read k x) (Some (id_text (kr_id k x))))
           (ret (status, x, False))))"

section \<open>Lemmas\<close>

lemma text_id_of_id [simp]: "text_id (id_text i) = Inr i"
proof -
  let ?val = "\<lambda>s. foldl (\<lambda>a c. 10 * a + (of_char c - 48)) (0::nat) s"
  have digit: "(of_char (show_digit n) :: nat) = 48 + n mod 10" for n
  proof -
    have "48 + n mod 10 < 256" using mod_less_divisor [of 10 n] by linarith
    then show ?thesis by (simp add: show_digit_def)
  qed
  have dec: "is_decimal (show_digit n)" for n using mod_less_divisor [of 10 n] by (simp add: is_decimal_def digit)
  have "list_all is_decimal (show_nat i) \<and> show_nat i \<noteq> [] \<and> ?val (show_nat i) = i"
  proof (induction i rule: show_nat.induct)
    case (1 n)
    then show ?case
      by (subst (1 2 3) show_nat.simps) (auto simp: dec digit)
  qed
  then show ?thesis by (simp add: text_id_def id_text_def)
qed

lemma id_text_nonempty: "id_text i \<noteq> []"
  by (simp add: id_text_def show_nat.simps)

lemma sorted_fields_map: "sorted_fields fs = map (\<lambda>(k, v). (k, sorted_json v)) fs"
  by (induction fs) auto

text \<open>The order of the fields does not matter, at any depth it is used at.\<close>

lemma fingerprint_ignores_order:
  assumes "mset fs = mset gs" "distinct (map fst fs)"
  shows "request_fingerprint dg (JObj fs) = request_fingerprint dg (JObj gs)"
proof -
  let ?f = "map (\<lambda>(k, v). (k, sorted_json v))"
  have "map fst (?f fs) = map fst fs" by (induction fs) auto
  then have "distinct (map fst (?f fs))" using assms(2) by (simp only:)
  then have "inj_on fst (set (?f fs))" by (metis distinct_map)
  moreover have "mset (?f fs) = mset (?f gs)" using assms(1) by (metis mset_map)
  ultimately have "sort_key fst (?f fs) = sort_key fst (?f gs)" by (intro sort_key_inj_key_eq) simp_all
  then show ?thesis by (simp add: request_fingerprint_def sorted_json.simps [of "JObj fs"] sorted_json.simps [of "JObj gs"] sorted_fields_map)
qed

lemma reads_idempotency [reads_intros]:
  "reads (idempotency_get key ep)" "reads (existing_record dg g b)"
proof -
  show get: "reads (idempotency_get key ep)" for key ep
    unfolding idempotency_get_def by (intro reads_intros)
  show "reads (existing_record dg g b)"
    unfolding existing_record_def by (intro reads_intros get)
qed

text \<open>A slot of the ledger holds at most one row, so a known key finds it.\<close>

lemma idempotency_found:
  assumes "r \<in> set (idempotency_keys (w_db w))" "idempotency_ok (w_db w)" "w_tenant w = Some (idk_tenant_id r)"
  shows "idempotency_get (idk_key r) (idk_endpoint r) w = (Inr (Some r), w)"
proof -
  let ?P = "\<lambda>x. idk_tenant_id x = idk_tenant_id r \<and> idk_key x = idk_key r \<and> idk_endpoint x = idk_endpoint r"
  have "distinct (map idempotency_slot rows) \<Longrightarrow> r \<in> set rows \<Longrightarrow> filter ?P rows = [r]" for rows
  proof (induction rows)
    case (Cons x rows)
    have none: "r \<notin> set rows \<Longrightarrow> idempotency_slot r \<notin> idempotency_slot ` set rows \<Longrightarrow> filter ?P rows = []"
      by (auto simp: filter_empty_conv idempotency_slot_def image_iff)
    show ?case
    proof (cases "x = r")
      case True
      then show ?thesis using Cons.prems none by auto
    next
      case False
      then have "\<not> ?P x" using Cons.prems by (force simp: idempotency_slot_def)
      then show ?thesis using Cons False by auto
    qed
  qed simp
  then have "filter ?P (idempotency_keys (w_db w)) = [r]" using assms(1,2) by (simp add: idempotency_ok_def)
  then show ?thesis using assms(3)
    by (simp add: idempotency_get_def repo_where_def repo_rows_def tenant_rows_def ebind_def require_tenant_id_def
        query_def gets_def ret_def conj_comms cong: conj_cong)
qed

end
