(* ===== verification/Reads.thy ===== *)
theory Reads
  imports Tables
begin

text \<open>
  The response schemas of \<open>schemas\<close> (the \<open>*Read\<close> classes): what of a row leaves the program, as the
  JSON their \<open>model_dump\<close> gives, under the field names.  Two fields go out under an alias
  (\<open>provider_metadata\<close> and \<open>audit_metadata\<close> as \<open>metadata\<close>).  Decimals and floats are numbers, dates
  day numbers.
\<close>

definition full_name :: "user_row \<Rightarrow> string option" where
  "full_name u =
     (let parts = map the (filter truthy [usr_first_name u, usr_last_name u]); joined = join_with '' '' parts
      in if joined = [] then None else Some joined)"

definition tenant_read :: "tenant_row \<Rightarrow> json" where
  "tenant_read r = JObj
     [(''id'', JId (ten_id r)), (''name'', JStr (ten_name r)), (''slug'', JStr (ten_slug r)),
      (''status'', JStr (tenant_status_value (ten_status r))), (''settings'', JObj (ten_settings r)),
      (''created_at'', JTime (ten_created_at r)), (''updated_at'', JTime (ten_updated_at r))]"

definition submission_read :: "submission_row \<Rightarrow> json" where
  "submission_read r = JObj
     [(''id'', JId (sub_id r)), (''campaign_id'', JId (sub_campaign_id r)),
      (''opportunity_id'', JId (sub_opportunity_id r)),
      (''status'', JStr (submission_status_value (sub_status r))),
      (''submitted_url'', json_opt JStr (sub_submitted_url r)), (''target_url'', JStr (sub_target_url r)),
      (''anchor_text'', json_opt JStr (sub_anchor_text r)),
      (''submitted_title'', json_opt JStr (sub_submitted_title r)),
      (''submitted_description'', json_opt JStr (sub_submitted_description r)),
      (''submission_method'', JStr (submission_method_value (sub_submission_method r))),
      (''approved_by_user_id'', json_opt JId (sub_approved_by_user_id r)),
      (''approved_at'', json_opt JTime (sub_approved_at r)),
      (''submitted_at'', json_opt JTime (sub_submitted_at r)),
      (''published_at'', json_opt JTime (sub_published_at r)),
      (''verified_at'', json_opt JTime (sub_verified_at r)),
      (''failure_reason'', json_opt JStr (sub_failure_reason r)), (''notes'', json_opt JStr (sub_notes r)),
      (''verification_evidence'', JObj (sub_verification_evidence r)),
      (''created_at'', JTime (sub_created_at r)), (''updated_at'', JTime (sub_updated_at r))]"

definition opportunity_read :: "opportunity_row \<Rightarrow> json" where
  "opportunity_read r = JObj
     [(''id'', JId (opp_id r)), (''campaign_id'', JId (opp_campaign_id r)),
      (''publisher_id'', JId (opp_publisher_id r)),
      (''opportunity_type'', JStr (opportunity_type_value (opp_opportunity_type r))),
      (''target_url'', JStr (opp_target_url r)), (''suggested_anchor'', json_opt JStr (opp_suggested_anchor r)),
      (''suggested_title'', json_opt JStr (opp_suggested_title r)),
      (''suggested_description'', json_opt JStr (opp_suggested_description r)),
      (''category'', json_opt JStr (opp_category r)),
      (''status'', JStr (opportunity_status_value (opp_status r))),
      (''qualification_score'', json_opt JRat (opp_qualification_score r)),
      (''priority'', JInt (opp_priority r)), (''submission_url'', json_opt JStr (opp_submission_url r)),
      (''rejection_reason'', json_opt JStr (opp_rejection_reason r)),
      (''discovered_at'', json_opt JTime (opp_discovered_at r)),
      (''qualified_at'', json_opt JTime (opp_qualified_at r)), (''created_at'', JTime (opp_created_at r)),
      (''updated_at'', JTime (opp_updated_at r))]"

definition content_read :: "content_row \<Rightarrow> json" where
  "content_read r = JObj
     [(''id'', JId (con_id r)), (''opportunity_id'', JId (con_opportunity_id r)),
      (''content_status'', JStr (content_status_value (con_content_status r))),
      (''generated_content'', JObj (con_generated_content r)),
      (''ai_provider'', json_opt JStr (con_ai_provider r)), (''ai_model'', json_opt JStr (con_ai_model r)),
      (''generation_timestamp'', json_opt JTime (con_generation_timestamp r)),
      (''reviewed_by_user_id'', json_opt JId (con_reviewed_by_user_id r)),
      (''reviewed_at'', json_opt JTime (con_reviewed_at r)),
      (''review_notes'', json_opt JStr (con_review_notes r)), (''created_at'', JTime (con_created_at r)),
      (''updated_at'', JTime (con_updated_at r))]"

definition publisher_read :: "publisher_row \<Rightarrow> json" where
  "publisher_read r = JObj
     [(''id'', JId (pub_id r)), (''domain'', JStr (pub_domain r)),
      (''normalized_domain'', JStr (pub_normalized_domain r)), (''website_url'', JStr (pub_website_url r)),
      (''name'', json_opt JStr (pub_name r)), (''description'', json_opt JStr (pub_description r)),
      (''category'', json_opt (\<lambda>v. JStr (publisher_category_value v)) (pub_category r)),
      (''country'', json_opt JStr (pub_country r)), (''language'', json_opt JStr (pub_language r)),
      (''submission_url'', json_opt JStr (pub_submission_url r)),
      (''contact_url'', json_opt JStr (pub_contact_url r)),
      (''submission_method'', JStr (submission_method_value (pub_submission_method r))),
      (''pricing_type'', JStr (pricing_type_value (pub_pricing_type r))),
      (''link_type'', JStr (link_type_value (pub_link_type r))),
      (''dofollow_supported'', json_opt JBool (pub_dofollow_supported r)),
      (''nofollow_supported'', json_opt JBool (pub_nofollow_supported r)),
      (''status'', JStr (publisher_status_value (pub_status r))),
      (''quality_score'', json_opt JRat (pub_quality_score r)),
      (''relevance_score'', json_opt JRat (pub_relevance_score r)),
      (''spam_score'', json_opt JRat (pub_spam_score r)),
      (''authority_score'', json_opt JRat (pub_authority_score r)),
      (''organic_traffic'', json_opt JInt (pub_organic_traffic r)), (''signals'', JObj (pub_signals r)),
      (''is_submittable'', JBool (publisher_is_submittable r)),
      (''discovery_run_id'', json_opt JId (pub_discovery_run_id r)),
      (''last_checked_at'', json_opt JTime (pub_last_checked_at r)), (''created_at'', JTime (pub_created_at r)),
      (''updated_at'', JTime (pub_updated_at r))]"

definition discovery_run_read :: "discovery_run_row \<Rightarrow> json" where
  "discovery_run_read r = JObj
     [(''id'', JId (run_id r)), (''campaign_id'', json_opt JId (run_campaign_id r)),
      (''provider'', JStr (run_provider r)), (''query'', JObj (run_query r)),
      (''status'', JStr (discovery_run_status_value (run_status r))),
      (''results_found'', JInt (run_results_found r)),
      (''publishers_created'', JInt (run_publishers_created r)),
      (''duplicates_skipped'', JInt (run_duplicates_skipped r)), (''error'', json_opt JStr (run_error r)),
      (''started_at'', json_opt JTime (run_started_at r)),
      (''finished_at'', json_opt JTime (run_finished_at r)), (''created_at'', JTime (run_created_at r)),
      (''updated_at'', JTime (run_updated_at r))]"

definition campaign_read :: "campaign_row \<Rightarrow> json" where
  "campaign_read r = JObj
     [(''id'', JId (cmp_id r)), (''client_website_id'', JId (cmp_client_website_id r)),
      (''name'', JStr (cmp_name r)), (''description'', json_opt JStr (cmp_description r)),
      (''status'', JStr (campaign_status_value (cmp_status r))),
      (''target_country'', json_opt JStr (cmp_target_country r)),
      (''target_language'', json_opt JStr (cmp_target_language r)), (''budget'', json_opt JRat (cmp_budget r)),
      (''free_only'', JBool (cmp_free_only r)),
      (''target_link_count'', json_opt JInt (cmp_target_link_count r)),
      (''start_date'', json_opt JInt (cmp_start_date r)), (''end_date'', json_opt JInt (cmp_end_date r)),
      (''created_at'', JTime (cmp_created_at r)), (''updated_at'', JTime (cmp_updated_at r))]"

definition client_website_read :: "client_website_row \<Rightarrow> json" where
  "client_website_read r = JObj
     [(''id'', JId (web_id r)), (''name'', JStr (web_name r)), (''domain'', JStr (web_domain r)),
      (''normalized_domain'', JStr (web_normalized_domain r)), (''website_url'', JStr (web_website_url r)),
      (''description'', json_opt JStr (web_description r)), (''industry'', json_opt JStr (web_industry r)),
      (''target_country'', json_opt JStr (web_target_country r)),
      (''target_countries'', JList (map JStr (web_target_countries r))),
      (''target_language'', json_opt JStr (web_target_language r)),
      (''status'', JStr (client_website_status_value (web_status r))),
      (''created_at'', JTime (web_created_at r)), (''updated_at'', JTime (web_updated_at r))]"

definition credential_read :: "credential_row \<Rightarrow> json" where
  "credential_read r = JObj
     [(''id'', JId (crd_id r)), (''provider'', JStr (crd_provider r)),
      (''provider_type'', JStr (credential_provider_type_value (crd_provider_type r))),
      (''label'', JStr (crd_label r)), (''status'', JStr (credential_status_value (crd_status r))),
      (''masked_key'', JStr (crd_masked_hint r)), (''provider_metadata'', JObj (crd_provider_metadata r)),
      (''key_version'', JInt (crd_key_version r)),
      (''last_verified_at'', json_opt JTime (crd_last_verified_at r)),
      (''created_at'', JTime (crd_created_at r)), (''updated_at'', JTime (crd_updated_at r))]"

definition ai_config_read :: "ai_config_row \<Rightarrow> json" where
  "ai_config_read r = JObj
     [(''id'', JId (aic_id r)), (''purpose'', JStr (ai_purpose_value (aic_purpose r))),
      (''provider'', JStr (aic_provider r)), (''model'', JStr (aic_model r)),
      (''credential_id'', json_opt JId (aic_credential_id r)), (''parameters'', JObj (aic_parameters r)),
      (''is_default'', JBool (aic_is_default r)), (''created_at'', JTime (aic_created_at r)),
      (''updated_at'', JTime (aic_updated_at r))]"

definition job_read :: "job_row \<Rightarrow> json" where
  "job_read r = JObj
     [(''id'', JId (job_id r)), (''task_name'', JStr (job_task_name r)), (''payload'', JObj (job_payload r)),
      (''status'', JStr (job_status_value (job_status r))), (''attempts'', JInt (job_attempts r)),
      (''max_attempts'', JInt (job_max_attempts r)), (''run_at'', JTime (job_run_at r)),
      (''started_at'', json_opt JTime (job_started_at r)),
      (''finished_at'', json_opt JTime (job_finished_at r)), (''last_error'', json_opt JStr (job_last_error r)),
      (''created_at'', JTime (job_created_at r)), (''updated_at'', JTime (job_updated_at r))]"

definition audit_read :: "audit_row \<Rightarrow> json" where
  "audit_read r = JObj
     [(''id'', JId (aud_id r)), (''user_id'', json_opt JId (aud_user_id r)), (''action'', JStr (aud_action r)),
      (''resource_type'', json_opt JStr (aud_resource_type r)),
      (''resource_id'', json_opt id (aud_resource_id r)), (''audit_metadata'', JObj (aud_metadata r)),
      (''ip_address'', json_opt JStr (aud_ip_address r)), (''user_agent'', json_opt JStr (aud_user_agent r)),
      (''request_id'', json_opt JStr (aud_request_id r)), (''created_at'', JTime (aud_created_at r))]"

definition user_read :: "user_row \<Rightarrow> json" where
  "user_read r = JObj
     [(''id'', JId (usr_id r)), (''email'', JStr (usr_email r)),
      (''first_name'', json_opt JStr (usr_first_name r)), (''last_name'', json_opt JStr (usr_last_name r)),
      (''full_name'', json_opt JStr (full_name r)), (''is_active'', JBool (usr_is_active r)),
      (''is_verified'', JBool (usr_is_verified r)), (''last_login_at'', json_opt JTime (usr_last_login_at r)),
      (''created_at'', JTime (usr_created_at r)), (''updated_at'', JTime (usr_updated_at r))]"

definition ai_usage_read :: "ai_usage_row \<Rightarrow> json" where
  "ai_usage_read r = JObj
     [(''id'', JId (aiu_id r)), (''provider'', JStr (aiu_provider r)), (''model'', JStr (aiu_model r)),
      (''operation'', JStr (ai_operation_value (aiu_operation r))),
      (''purpose'', json_opt JStr (aiu_purpose r)), (''input_tokens'', json_opt JInt (aiu_input_tokens r)),
      (''output_tokens'', json_opt JInt (aiu_output_tokens r)),
      (''estimated_cost'', json_opt JRat (aiu_estimated_cost r)),
      (''request_id'', json_opt JStr (aiu_request_id r)),
      (''status'', JStr (ai_usage_status_value (aiu_status r))),
      (''error_code'', json_opt JStr (aiu_error_code r)), (''latency_ms'', json_opt JInt (aiu_latency_ms r)),
      (''created_at'', JTime (aiu_created_at r))]"

section \<open>Facts\<close>

text \<open>Whatever its sealed columns are, a credential is shown the same.\<close>

lemma credential_read_hides:
  "credential_read (c\<lparr>crd_ciphertext := x, crd_nonce := y, crd_encrypted_dek := z, crd_dek_nonce := u\<rparr>) = credential_read c"
  by (simp add: credential_read_def)

lemma user_read_hides: "user_read (u\<lparr>usr_password_hash := h\<rparr>) = user_read u"
  by (simp add: user_read_def full_name_def)

end
