(* ===== verification/Users.thy ===== *)
theory Users
  imports Reads Responses Tenants
begin

text \<open>
  The user directory: the membership joins of \<open>repositories/users.py\<close> and \<open>repositories/tenants.py\<close>,
  \<open>users/service.py\<close>, and the routes of \<open>api/v1/users.py\<close> and \<open>api/v1/me.py\<close>.  \<open>users\<close> and
  \<open>tenants\<close> are global tables; what confines a listing is the join with the memberships the session may
  see.
\<close>

section \<open>Directory queries\<close>

definition user_columns :: "(string \<times> (user_row \<Rightarrow> sort_val)) list" where
  "user_columns =
     [(''created_at'', \<lambda>u. SV_Int (usr_created_at u)), (''updated_at'', \<lambda>u. SV_Int (usr_updated_at u)),
      (''email'', \<lambda>u. SV_Str (str_lower (usr_email u))), (''last_login_at'', \<lambda>u. opt_sort SV_Int (usr_last_login_at u))]"

definition joined :: "('a \<Rightarrow> membership_row \<Rightarrow> bool) \<Rightarrow> 'a list \<Rightarrow> membership_row list \<Rightarrow> 'a list" where
  "joined on_clause xs ms = concat (map (\<lambda>x. map (\<lambda>_. x) (filter (on_clause x) ms)) xs)"

definition user_matches :: "string option \<Rightarrow> user_row \<Rightarrow> bool" where
  "user_matches search u =
     (if truthy search
      then ilike_term (the search) (usr_email u)
           \<or> (case usr_first_name u of None \<Rightarrow> False | Some n \<Rightarrow> ilike_term (the search) n)
           \<or> (case usr_last_name u of None \<Rightarrow> False | Some n \<Rightarrow> ilike_term (the search) n)
      else True)"

definition users_for_tenant ::
  "nat \<Rightarrow> page_params \<Rightarrow> sort_params option \<Rightarrow> string option \<Rightarrow> string option \<Rightarrow> user_row page svc" where
  "users_for_tenant tid pg srt search status =
     ebind (gets rls_memberships) (\<lambda>ms.
     ebind (query users) (\<lambda>us.
     lift_sum (paginate usr_id user_columns ''created_at'' pg srt
       (filter (user_matches search)
          (joined (\<lambda>u m. mem_user_id m = usr_id u \<and> mem_tenant_id m = tid
                     \<and> (truthy status \<longrightarrow> membership_status_value (mem_status m) = the status)) us ms)))))"

definition tenant_member :: "nat \<Rightarrow> nat \<Rightarrow> user_row option svc" where
  "tenant_member tid uid =
     ebind (gets rls_memberships) (\<lambda>ms.
     ebind (query users) (\<lambda>us.
     scalar_one_or_none
       (joined (\<lambda>u m. mem_user_id m = usr_id u \<and> mem_tenant_id m = tid \<and> usr_id u = uid) us ms)))"

section \<open>The user service\<close>

definition list_tenant_members ::
  "nat \<Rightarrow> page_params \<Rightarrow> sort_params option \<Rightarrow> string option \<Rightarrow> string option \<Rightarrow> user_row page svc" where
  "list_tenant_members tid pg srt search status = users_for_tenant tid pg srt search status"

definition get_tenant_member :: "nat \<Rightarrow> nat \<Rightarrow> user_row svc" where
  "get_tenant_member tid uid =
     ebind (tenant_member tid uid) (\<lambda>u. case u of None \<Rightarrow> raise (not_found ''user'' uid) | Some u \<Rightarrow> ret u)"

definition none_if_empty :: "string option \<Rightarrow> string option" where
  "none_if_empty x = (if truthy x then x else None)"

definition update_profile :: "user_row \<Rightarrow> string option \<Rightarrow> string option \<Rightarrow> user_row svc" where
  "update_profile u first last_part =
     (let u1 = (if first \<noteq> None then u\<lparr>usr_first_name := none_if_empty first\<rparr> else u);
          u2 = (if last_part \<noteq> None then u1\<lparr>usr_last_name := none_if_empty last_part\<rparr> else u1)
      in ethen (do_when (u2 \<noteq> u) (save_user u2)) (ret u2))"

record membership_summary =
  ms_tenant_id :: nat
  ms_tenant_name :: string
  ms_tenant_slug :: string
  ms_status :: membership_status
  ms_is_owner :: bool
  ms_roles :: "string list"

definition summary_for :: "(nat \<times> string list) list \<Rightarrow> db \<Rightarrow> membership_row \<Rightarrow> membership_summary list" where
  "summary_for roles_by d m =
     map (\<lambda>t. \<lparr>ms_tenant_id = ten_id t, ms_tenant_name = ten_name t, ms_tenant_slug = ten_slug t,
               ms_status = mem_status m, ms_is_owner = mem_is_owner m,
               ms_roles = (case map_of roles_by (mem_id m) of None \<Rightarrow> [] | Some rs \<Rightarrow> rs)\<rparr>)
       (take 1 (filter (\<lambda>t. ten_id t = mem_tenant_id m) (tenants d)))"

definition membership_summaries :: "nat \<Rightarrow> (nat \<times> string list) list \<Rightarrow> membership_summary list svc" where
  "membership_summaries uid roles_by =
     ebind (memberships_for_user uid) (\<lambda>ms. query (\<lambda>d. concat (map (summary_for roles_by d) ms)))"

section \<open>The caller's own view\<close>

record me_read =
  me_user :: json
  me_active_tenant_id :: "nat option"
  me_tenants :: "membership_summary list"
  me_permissions :: "string list"

definition active_workspace :: "nat option \<Rightarrow> membership_row list \<Rightarrow> nat option" where
  "active_workspace requested ms =
     map_option mem_tenant_id (find (\<lambda>m. Some (mem_tenant_id m) = requested \<and> mem_status m = M_ACTIVE) ms)"

fun roles_by_membership :: "nat option \<Rightarrow> membership_row list \<Rightarrow> (nat \<times> string list) list svc" where
  "roles_by_membership active [] = ret []"
| "roles_by_membership active (m # ms) =
     (if Some (mem_tenant_id m) = active
      then ebind (roles_for_membership_in (mem_id m) (Some (mem_tenant_id m))) (\<lambda>rs.
           ebind (roles_by_membership active ms) (\<lambda>rest. ret ((mem_id m, map role_slug rs) # rest)))
      else roles_by_membership active ms)"

definition read_me :: "principal \<Rightarrow> nat option \<Rightarrow> me_read svc" where
  "read_me p header =
     (let uid = usr_id (pr_user p) in
      ebind (memberships_for_user uid) (\<lambda>ms.
      let active = active_workspace (requested_tenant_id p header) ms in
      ethen (do_when (active \<noteq> None) (set_tenant_context active (Some uid))) (
      ebind (roles_by_membership active ms) (\<lambda>roles_by.
      ebind (membership_summaries uid roles_by) (\<lambda>summaries.
      ebind (case active of None \<Rightarrow> ret [] | Some t \<Rightarrow> ebind (effective_permissions uid t) (\<lambda>ps. ret (sort ps))) (\<lambda>perms.
      ret \<lparr>me_user = user_read (pr_user p), me_active_tenant_id = active, me_tenants = summaries,
           me_permissions = perms\<rparr>))))))"

definition update_me :: "principal \<Rightarrow> string option \<Rightarrow> string option \<Rightarrow> json svc" where
  "update_me p first last_part =
     ebind (update_profile (pr_user p) first last_part) (\<lambda>u. ret (ok (user_read u) []))"

definition list_my_tenants :: "principal \<Rightarrow> page_params \<Rightarrow> sort_params option \<Rightarrow> json svc" where
  "list_my_tenants p pg srt =
     ebind (tenants_for_user (usr_id (pr_user p)) pg srt True) (\<lambda>r.
     ret (ok (JList (map tenant_read (pg_items r))) [(''total'', JInt (pg_total r))]))"

section \<open>Lemmas\<close>

lemma joined_mem: "x \<in> set (joined on_clause xs ms) \<longleftrightarrow> x \<in> set xs \<and> (\<exists>m\<in>set ms. on_clause x m)"
  by (auto simp: joined_def)

lemma reads_directory [reads_intros]:
  "reads (users_for_tenant tid pg srt search status)" "reads (tenant_member tid uid)"
  "reads (tenants_for_user uid pg srt b)" "reads (list_tenant_members tid pg srt search status)"
  "reads (get_tenant_member tid uid)" "reads (membership_summaries uid rb)"
  unfolding users_for_tenant_def tenant_member_def tenants_for_user_def list_tenant_members_def get_tenant_member_def
    membership_summaries_def memberships_for_user_def
  by (intro reads_intros)+

text \<open>A caller finds members of the workspace only; anybody else does not exist.\<close>

lemma directory_is_confined:
  assumes "get_tenant_member tid uid w = (Inr u, v)"
  shows "u \<in> set (users (w_db w)) \<and> usr_id u = uid
     \<and> (\<exists>m\<in>set (tenant_memberships (w_db w)). mem_user_id m = uid \<and> mem_tenant_id m = tid)"
proof -
  let ?on = "\<lambda>u m. mem_user_id m = usr_id u \<and> mem_tenant_id m = tid \<and> usr_id u = uid"
  have "wp (get_tenant_member tid uid) (\<lambda>u _. u \<in> set (joined ?on (users (w_db w)) (rls_memberships w))) (\<lambda>_ _. True) w"
    unfolding get_tenant_member_def tenant_member_def
    by (auto simp: wp_simps wp_scalar split: list.splits option.splits)
  from wp_Inr [OF this assms] have "u \<in> set (joined ?on (users (w_db w)) (rls_memberships w))" .
  then show ?thesis by (auto simp: joined_mem rls_memberships_def)
qed

text \<open>The caller's own view agrees with the gate: who may enter a workspace is shown that workspace as the active
  one and the permissions the gate checks, in order.\<close>

lemma reads_roles_by: "reads (roles_by_membership active ms)"
  by (induction ms) (auto intro!: reads_intros simp: roles_for_membership_in_def split: option.split)

lemma returns_roles_by: "\<exists>rs. roles_by_membership active ms w = (Inr rs, w)"
proof (induction ms)
  case (Cons m ms)
  then show ?case
    by (auto simp: ebind_def ret_def roles_for_membership_in_def query_def gets_def)
qed (simp add: ret_def)

lemma effective_permissions_at:
  "effective_permissions uid tid w = (Inr ps, v) \<Longrightarrow> w_db w' = w_db w \<Longrightarrow> w_tenant w' = w_tenant w \<Longrightarrow> w_user w' = w_user w
   \<Longrightarrow> effective_permissions uid tid w' = (Inr ps, w')"
  by (auto simp: effective_permissions_def gets_def rls_memberships_def)

lemma find_some: "x \<in> set xs \<Longrightarrow> P x \<Longrightarrow> \<exists>y. find P xs = Some y \<and> y \<in> set xs \<and> P y"
  by (induction xs) auto

lemma read_me_shows:
  assumes "m \<in> set (rls_memberships w)" "mem_user_id m = usr_id (pr_user p)" "mem_status m = M_ACTIVE"
    and "requested_tenant_id p header = Some (mem_tenant_id m)"
    and "effective_permissions (usr_id (pr_user p)) (mem_tenant_id m)
       (w\<lparr>w_tenant := Some (mem_tenant_id m), w_user := Some (usr_id (pr_user p))\<rparr>) = (Inr ps, v)"
  shows "\<exists>me. read_me p header w = (Inr me, w\<lparr>w_tenant := Some (mem_tenant_id m), w_user := Some (usr_id (pr_user p))\<rparr>)
     \<and> me_active_tenant_id me = Some (mem_tenant_id m) \<and> me_permissions me = sort ps"
proof -
  let ?uid = "usr_id (pr_user p)" and ?w = "w\<lparr>w_tenant := Some (mem_tenant_id m), w_user := Some (usr_id (pr_user p))\<rparr>"
  let ?ms = "sort_key mem_created_at (filter (\<lambda>m. mem_user_id m = ?uid) (rls_memberships w))"
  have "m \<in> set ?ms" using assms(1,2) by simp
  then have active: "active_workspace (requested_tenant_id p header) ?ms = Some (mem_tenant_id m)"
    using find_some [of m ?ms "\<lambda>m'. Some (mem_tenant_id m') = Some (mem_tenant_id m) \<and> mem_status m' = M_ACTIVE"] assms(3,4)
    by (auto simp: active_workspace_def)
  obtain rb where rb: "roles_by_membership (Some (mem_tenant_id m)) ?ms ?w = (Inr rb, ?w)"
    using returns_roles_by by blast
  have perms: "effective_permissions ?uid (mem_tenant_id m) ?w = (Inr ps, ?w)"
    by (rule effective_permissions_at [OF assms(5)]) simp_all
  have "\<exists>ss. membership_summaries ?uid rb ?w = (Inr ss, ?w)"
    by (simp add: membership_summaries_def memberships_for_user_def ebind_def gets_def query_def)
  then obtain ss where ss: "membership_summaries ?uid rb ?w = (Inr ss, ?w)" by blast
  show ?thesis
    using active rb perms ss
    by (simp add: read_me_def memberships_for_user_def Let_def ebind_def ethen_def gets_def do_when_def
        set_tenant_context_def modify_def ret_def)
qed

lemma me_agrees_with_the_gate:
  assumes "get_tenant_context p (requested_tenant_id p header) w = (Inr c, v)"
  shows "\<exists>me u. read_me p header w = (Inr me, u) \<and> me_active_tenant_id me = Some (tenant_context_id c)
     \<and> me_permissions me = sort (tc_permissions c)"
proof -
  obtain tid where req: "requested_tenant_id p header = Some tid"
    using assms by (auto simp: get_tenant_context_def raise_def split: option.splits)
  let ?uid = "usr_id (pr_user p)" and ?w = "w\<lparr>w_tenant := Some tid, w_user := Some (usr_id (pr_user p))\<rparr>"
  have one: "wp (scalar_one_or_none rs) Q (\<lambda>_ _. True) v"
    if "\<And>r. r \<in> set rs \<Longrightarrow> Q (Some r) v" "rs = [] \<Longrightarrow> Q None v" for rs :: "'r list" and Q v
    using that by (cases rs rule: scalar_one_or_none.cases) (auto simp: wp_simps)
  have perms: "wp (effective_permissions ?uid i) Q E v = (\<forall>ps. effective_permissions ?uid i v = (Inr ps, v) \<longrightarrow> Q ps v)"
    for Q E v i by (simp add: wp_def effective_permissions_def gets_def)
  have "wp (get_tenant_context p (Some tid))
     (\<lambda>c _. tenant_context_id c = tid \<and> effective_permissions ?uid tid ?w = (Inr (tc_permissions c), ?w)
        \<and> (\<exists>m\<in>set (rls_memberships w). mem_user_id m = ?uid \<and> mem_status m = M_ACTIVE \<and> mem_tenant_id m = tid))
     (\<lambda>_ _. True) w"
    unfolding get_tenant_context_def active_membership_def tenant_by_id_def option.case
    unfolding wp_ebind wp_gets wp_query
    by (rule one; auto simp: wp_simps perms set_context_tenant_def tenant_context_id_def
        intro!: one effective_permissions_at)
  from wp_Inr [OF this assms [unfolded req]]
  obtain m where "m \<in> set (rls_memberships w)" "mem_user_id m = ?uid" "mem_status m = M_ACTIVE" "mem_tenant_id m = tid"
    and at: "tenant_context_id c = tid" "effective_permissions ?uid tid ?w = (Inr (tc_permissions c), ?w)"
    by blast
  then show ?thesis using read_me_shows [of m w p header "tc_permissions c" ?w] req by fastforce
qed

text \<open>It does not look at the workspace's status, though: a member of a suspended workspace is shown it as active,
  with permissions, while the gate refuses every request there.\<close>

lemma me_shows_closed_workspaces:
  assumes "m \<in> set (rls_memberships w)" "mem_user_id m = usr_id (pr_user p)" "mem_status m = M_ACTIVE"
    and "requested_tenant_id p header = Some (mem_tenant_id m)"
    and "tenant_by_id (mem_tenant_id m) w = (Inr (Some t), w)" "ten_status t \<noteq> T_ACTIVE"
    and "active_membership (usr_id (pr_user p)) (mem_tenant_id m) w = (Inr (Some m), w)"
  shows "(\<exists>me v. read_me p header w = (Inr me, v) \<and> me_active_tenant_id me = Some (mem_tenant_id m))
     \<and> get_tenant_context p (requested_tenant_id p header) w = (Inl (tenant_inactive (ten_status t)), w)"
proof -
  obtain ps v where "effective_permissions (usr_id (pr_user p)) (mem_tenant_id m)
       (w\<lparr>w_tenant := Some (mem_tenant_id m), w_user := Some (usr_id (pr_user p))\<rparr>) = (Inr ps, v)"
    by (simp add: effective_permissions_def gets_def)
  then have "\<exists>me v. read_me p header w = (Inr me, v) \<and> me_active_tenant_id me = Some (mem_tenant_id m)"
    using read_me_shows [OF assms(1-4)] by blast
  moreover have "get_tenant_context p (requested_tenant_id p header) w = (Inl (tenant_inactive (ten_status t)), w)"
    using assms(4-7) by (simp add: get_tenant_context_def ebind_def ethen_def raise_if_def raise_def)
  ultimately show ?thesis by blast
qed

end
