(* ===== verification/Services.thy ===== *)
theory Services
  imports DiscoveryProviders Crawler LinkVerifier Qualification Idempotency Reads Responses Users Rbac Jobs
begin

text \<open>
  \<open>services/factory.py\<close> and \<open>api/dependencies/services.py\<close>: the services of one request, built from the
  process's resources (\<open>bootstrap.py\<close>) and the workspace's settings.  A request that calls out does so in
  the state \<open>ar_net\<close> of the network; the answers of the outside are in the environments.  Below them the
  shape of a route of \<open>api/v1\<close>: its permission and its handler, run behind the request gate.
\<close>

section \<open>The factory\<close>

record app_resources =
  ar_idna :: idna
  ar_ai_env :: ai_env
  ar_net :: net
  ar_encryption :: encryption
  ar_entropy :: "nat \<Rightarrow> entropy"
  ar_form_fetch :: fetcher
  ar_digest :: digest
  ar_max_attempts :: int
  ar_tasks :: "string list"

record service_factory =
  sf_resources :: app_resources
  sf_tenant_settings :: "(string \<times> json) list"

definition get_services :: "app_resources \<Rightarrow> tenant_context \<Rightarrow> service_factory" where
  "get_services rs c = \<lparr>sf_resources = rs, sf_tenant_settings = ten_settings (tc_tenant c)\<rparr>"

definition scoring_weights_of :: "service_factory \<Rightarrow> scoring_weights" where
  "scoring_weights_of f =
     weights_from_mapping (case json_get (sf_tenant_settings f) ''scoring'' of JObj m \<Rightarrow> Some m | _ \<Rightarrow> None)"

definition http_of :: "service_factory \<Rightarrow> http_env" where
  "http_of f = ai_http (ar_ai_env (sf_resources f))"

definition crawler_of :: "service_factory \<Rightarrow> crawler" where
  "crawler_of f = \<lparr>cw_client = http_of f, cw_respect_robots = True\<rparr>"

definition qualification_service :: "service_factory \<Rightarrow> qualifier" where
  "qualification_service f =
     \<lparr>qf_crawler = (\<lambda>url. fst (fetch_site (crawler_of f) url (ar_net (sf_resources f)))),
      qf_metrics = null_metrics, qf_weights = scoring_weights_of f\<rparr>"

definition credential_service_of :: "service_factory \<Rightarrow> credential_service" where
  "credential_service_of f =
     \<lparr>ct_encryption = ar_encryption (sf_resources f), ct_entropy = ar_entropy (sf_resources f)\<rparr>"

definition ai_services_of :: "service_factory \<Rightarrow> ai_services" where
  "ai_services_of f =
     \<lparr>ax_credentials = credential_service_of f, ax_py = ai_py (ar_ai_env (sf_resources f)),
      ax_generate = over_http (ar_ai_env (sf_resources f)) (ar_net (sf_resources f))\<rparr>"

definition discovery_registry :: "service_factory \<Rightarrow> discovery_sources" where
  "discovery_registry f =
     \<lparr>dx_idna = ar_idna (sf_resources f), dx_ai = ai_services_of f, dx_env = ar_ai_env (sf_resources f),
      dx_net = ar_net (sf_resources f)\<rparr>"

text \<open>Automatic delivery stays off.\<close>

definition submission_service_of :: "service_factory \<Rightarrow> submission_service" where
  "submission_service_of f =
     \<lparr>sv_manual = manual_submit, sv_form = Some (form_submit (ar_form_fetch (sf_resources f)) False),
      sv_verifier = Some (\<lambda>url target.
        fst (verify_link (http_of f) (ar_idna (sf_resources f)) url target (ar_net (sf_resources f))))\<rparr>"

definition task_queue_enqueue ::
  "service_factory \<Rightarrow> string \<Rightarrow> (string \<times> json) list \<Rightarrow> nat \<Rightarrow> enqueued_task svc" where
  "task_queue_enqueue f task_name payload user =
     enqueue (ar_max_attempts (sf_resources f)) task_name payload 0 None None (Some user)"

section \<open>Routes\<close>

record endpoint =
  ep_permission :: perm
  ep_handler :: "service_factory \<Rightarrow> principal \<Rightarrow> tenant_context \<Rightarrow> web_response svc"

definition caller_id :: "principal \<Rightarrow> nat" where
  "caller_id p = usr_id (pr_user p)"

definition answer :: "int \<Rightarrow> json \<Rightarrow> web_response" where
  "answer status body = \<lparr>ws_status = status, ws_headers = [], ws_body = body\<rparr>"

definition no_content :: web_response where
  "no_content = answer 204 JNull"

definition shown :: "int \<Rightarrow> ('a \<Rightarrow> json) \<Rightarrow> 'a svc \<Rightarrow> web_response svc" where
  "shown status render m = ebind m (\<lambda>x. ret (answer status (ok (render x) [])))"

definition shown_all :: "('a \<Rightarrow> json) \<Rightarrow> 'a list svc \<Rightarrow> web_response svc" where
  "shown_all render m =
     ebind m (\<lambda>xs. ret (answer 200 (ok (JList (map render xs)) [(''total'', JInt (int (length xs)))])))"

definition shown_page :: "('a \<Rightarrow> json) \<Rightarrow> 'a page svc \<Rightarrow> web_response svc" where
  "shown_page render m =
     ebind m (\<lambda>p. ret (answer 200 (paginated (map render (pg_items p)) (pg_page p) (pg_page_size p) (pg_total p))))"

definition done_no_content :: "unit svc \<Rightarrow> web_response svc" where
  "done_no_content m = ethen m (ret no_content)"

text \<open>\<open>guarded_request\<close> with the principal handed to the route, and the services built for it.\<close>

definition api_request ::
  "jwt_service \<Rightarrow> app_resources \<Rightarrow> credentials option \<Rightarrow> nat option \<Rightarrow> endpoint \<Rightarrow> web_response svc" where
  "api_request js rs creds header ep =
     get_unscoped_session (
       ebind (get_principal js creds) (\<lambda>p.
       ebind (get_tenant_context p (requested_tenant_id p header)) (\<lambda>c.
       ebind (lift_sum (require_permission (perm_value (ep_permission ep)) c)) (\<lambda>c'.
         ep_handler ep (get_services rs c') p c'))))"

definition job_accepted :: "enqueued_task \<Rightarrow> json" where
  "job_accepted e = JObj
     [(''job_id'', JId (et_job_id e)), (''task_name'', JStr (et_task_name e)),
      (''status'', JStr (job_status_value (et_status e))), (''poll_url'', JStr (poll_url e))]"

text \<open>What the keyed creations answer: the row, and that it is a replay, or what \<open>meta\<close> says of a fresh one.\<close>

definition keyed_answer ::
  "('r \<Rightarrow> json) \<Rightarrow> (int \<Rightarrow> (string \<times> json) list) \<Rightarrow> (int \<times> 'r \<times> bool) svc \<Rightarrow> web_response svc" where
  "keyed_answer render meta m =
     ebind m (\<lambda>(status, r, replayed).
       ret (answer status (ok (render r) (if replayed then [(''replayed'', JBool True)] else meta status))))"

end
