(* ===== verification/WorkRoutes.thy ===== *)
theory WorkRoutes
  imports Services Opportunities Content
begin

text \<open>
  The routes of \<open>api/v1/opportunities.py\<close> and \<open>api/v1/submissions.py\<close>, each the permission its
  declaration demands and its handler.  A request body arrives parsed; \<open>*_dump\<close> is its
  \<open>model_dump(mode="json")\<close>, what an idempotency fingerprint is taken of.
\<close>

section \<open>Opportunities\<close>

definition opportunity_create_dump :: "opportunity_create \<Rightarrow> json" where
  "opportunity_create_dump pl = JObj
     [(''campaign_id'', JId (oc_campaign_id pl)), (''publisher_id'', JId (oc_publisher_id pl)),
      (''opportunity_type'', JStr (opportunity_type_value (oc_opportunity_type pl))),
      (''target_url'', JStr (oc_target_url pl)), (''suggested_anchor'', json_opt JStr (oc_suggested_anchor pl)),
      (''suggested_title'', json_opt JStr (oc_suggested_title pl)),
      (''suggested_description'', json_opt JStr (oc_suggested_description pl)),
      (''category'', json_category (oc_category pl)), (''priority'', JInt (oc_priority pl))]"

definition list_opportunities_route ::
  "page_params \<Rightarrow> sort_params option \<Rightarrow> opportunity_filters \<Rightarrow> endpoint" where
  "list_opportunities_route pg srt fs =
     \<lparr>ep_permission = P_OPPORTUNITY_READ,
      ep_handler = (\<lambda>f p c. shown_page opportunity_read (list_opportunities pg srt fs))\<rparr>"

definition create_opportunity_route :: "opportunity_create \<Rightarrow> string option \<Rightarrow> endpoint" where
  "create_opportunity_route pl key =
     \<lparr>ep_permission = P_OPPORTUNITY_CREATE,
      ep_handler = (\<lambda>f p c.
        keyed_answer opportunity_read (\<lambda>status. [(''created'', JBool (status = 201))])
          (keyed_create (ar_digest (sf_resources f)) (guard_for ''POST'' ''/api/v1/opportunities'' key)
             (opportunity_create_dump pl)
             \<lparr>kr_get = get_opportunity,
              kr_create = ebind (create_opportunity pl) (\<lambda>(op, created). ret (op, if created then 201 else 200)),
              kr_read = opportunity_read, kr_id = opp_id\<rparr>))\<rparr>"

definition opportunity_state_machine_route :: endpoint where
  "opportunity_state_machine_route =
     \<lparr>ep_permission = P_OPPORTUNITY_READ,
      ep_handler = (\<lambda>f p c. shown 200 (\<lambda>x. x) (ret opportunity_describe))\<rparr>"

definition get_opportunity_route :: "nat \<Rightarrow> endpoint" where
  "get_opportunity_route i =
     \<lparr>ep_permission = P_OPPORTUNITY_READ, ep_handler = (\<lambda>f p c. shown 200 opportunity_read (get_opportunity i))\<rparr>"

definition update_opportunity_route :: "nat \<Rightarrow> opportunity_update \<Rightarrow> endpoint" where
  "update_opportunity_route i u =
     \<lparr>ep_permission = P_OPPORTUNITY_UPDATE,
      ep_handler = (\<lambda>f p c. shown 200 opportunity_read (update_opportunity i u))\<rparr>"

definition delete_opportunity_route :: "nat \<Rightarrow> endpoint" where
  "delete_opportunity_route i =
     \<lparr>ep_permission = P_OPPORTUNITY_DELETE, ep_handler = (\<lambda>f p c. done_no_content (delete_opportunity i))\<rparr>"

definition qualify_opportunity_route :: "nat \<Rightarrow> endpoint" where
  "qualify_opportunity_route i =
     \<lparr>ep_permission = P_OPPORTUNITY_UPDATE,
      ep_handler = (\<lambda>f p c. shown 200 opportunity_read (qualify_opportunity i))\<rparr>"

definition select_opportunity_route :: "nat \<Rightarrow> endpoint" where
  "select_opportunity_route i =
     \<lparr>ep_permission = P_OPPORTUNITY_UPDATE,
      ep_handler = (\<lambda>f p c. shown 200 opportunity_read (transition_opportunity i O_SELECTED None))\<rparr>"

definition reject_opportunity_route :: "nat \<Rightarrow> string \<Rightarrow> endpoint" where
  "reject_opportunity_route i reason =
     \<lparr>ep_permission = P_OPPORTUNITY_UPDATE,
      ep_handler = (\<lambda>f p c. shown 200 opportunity_read (transition_opportunity i O_REJECTED (Some reason)))\<rparr>"

definition transition_opportunity_route :: "nat \<Rightarrow> opportunity_status \<Rightarrow> string option \<Rightarrow> endpoint" where
  "transition_opportunity_route i target reason =
     \<lparr>ep_permission = P_OPPORTUNITY_UPDATE,
      ep_handler = (\<lambda>f p c. shown 200 opportunity_read (transition_opportunity i target reason))\<rparr>"

definition generate_content_route :: "nat \<Rightarrow> content_request \<Rightarrow> endpoint" where
  "generate_content_route i rq =
     \<lparr>ep_permission = P_AI_GENERATE,
      ep_handler = (\<lambda>f p c. shown 200 content_read (generate_content (ai_services_of f) i rq))\<rparr>"

definition list_content_route :: "nat \<Rightarrow> endpoint" where
  "list_content_route i =
     \<lparr>ep_permission = P_OPPORTUNITY_READ,
      ep_handler = (\<lambda>f p c. shown_all content_read (list_for_opportunity i))\<rparr>"

text \<open>The route names the opportunity, but only the draft's identifier is used.\<close>

definition review_content_route :: "nat \<Rightarrow> nat \<Rightarrow> content_review \<Rightarrow> endpoint" where
  "review_content_route oid cid rv =
     \<lparr>ep_permission = P_OPPORTUNITY_UPDATE,
      ep_handler = (\<lambda>f p c. shown 200 content_read (review_content cid rv (caller_id p)))\<rparr>"

section \<open>Submissions\<close>

definition submission_create_dump :: "submission_create \<Rightarrow> json" where
  "submission_create_dump pl = JObj
     [(''opportunity_id'', JId (sc_opportunity_id pl)), (''anchor_text'', json_opt JStr (sc_anchor_text pl)),
      (''submitted_title'', json_opt JStr (sc_submitted_title pl)),
      (''submitted_description'', json_opt JStr (sc_submitted_description pl)),
      (''submission_method'', json_opt (\<lambda>m. JStr (submission_method_value m)) (sc_submission_method pl)),
      (''notes'', json_opt JStr (sc_notes pl)), (''use_approved_content'', JBool (sc_use_approved_content pl))]"

definition list_submissions_route ::
  "page_params \<Rightarrow> sort_params option \<Rightarrow> string option \<Rightarrow> string option \<Rightarrow> nat option \<Rightarrow> nat option \<Rightarrow>
   string option \<Rightarrow> endpoint" where
  "list_submissions_route pg srt search status cid oid meth =
     \<lparr>ep_permission = P_SUBMISSION_READ,
      ep_handler = (\<lambda>f p c. shown_page submission_read (list_submissions pg srt status cid oid meth search))\<rparr>"

definition create_submission_route :: "submission_create \<Rightarrow> string option \<Rightarrow> endpoint" where
  "create_submission_route pl key =
     \<lparr>ep_permission = P_SUBMISSION_CREATE,
      ep_handler = (\<lambda>f p c.
        keyed_answer submission_read (\<lambda>_. [])
          (keyed_create (ar_digest (sf_resources f)) (guard_for ''POST'' ''/api/v1/submissions'' key)
             (submission_create_dump pl)
             \<lparr>kr_get = get_submission, kr_create = ebind (create_submission pl) (\<lambda>s. ret (s, 201)),
              kr_read = submission_read, kr_id = sub_id\<rparr>))\<rparr>"

definition submission_state_machine_route :: endpoint where
  "submission_state_machine_route =
     \<lparr>ep_permission = P_SUBMISSION_READ,
      ep_handler = (\<lambda>f p c. shown 200 (\<lambda>x. x) (ret submission_describe))\<rparr>"

definition review_queue_route :: "nat \<Rightarrow> endpoint" where
  "review_queue_route limit =
     \<lparr>ep_permission = P_SUBMISSION_READ,
      ep_handler = (\<lambda>f p c. shown_all submission_read (list_awaiting_approval limit))\<rparr>"

definition get_submission_route :: "nat \<Rightarrow> endpoint" where
  "get_submission_route i =
     \<lparr>ep_permission = P_SUBMISSION_READ, ep_handler = (\<lambda>f p c. shown 200 submission_read (get_submission i))\<rparr>"

definition update_submission_route :: "nat \<Rightarrow> submission_update \<Rightarrow> endpoint" where
  "update_submission_route i u =
     \<lparr>ep_permission = P_SUBMISSION_UPDATE,
      ep_handler = (\<lambda>f p c. shown 200 submission_read (update_submission i u))\<rparr>"

definition delete_submission_route :: "nat \<Rightarrow> endpoint" where
  "delete_submission_route i =
     \<lparr>ep_permission = P_SUBMISSION_DELETE, ep_handler = (\<lambda>f p c. done_no_content (delete_submission i))\<rparr>"

definition submit_for_review_route :: "nat \<Rightarrow> endpoint" where
  "submit_for_review_route i =
     \<lparr>ep_permission = P_SUBMISSION_UPDATE,
      ep_handler = (\<lambda>f p c. shown 200 submission_read (prepare_for_review i))\<rparr>"

definition approve_submission_route :: "nat \<Rightarrow> string option \<Rightarrow> endpoint" where
  "approve_submission_route i notes =
     \<lparr>ep_permission = P_SUBMISSION_APPROVE,
      ep_handler = (\<lambda>f p c. shown 200 submission_read (approve_submission i (caller_id p) notes))\<rparr>"

definition execute_submission_route :: "nat \<Rightarrow> execute_request \<Rightarrow> endpoint" where
  "execute_submission_route i rq =
     \<lparr>ep_permission = P_SUBMISSION_UPDATE,
      ep_handler = (\<lambda>f p c. shown 200 submission_read (execute_submission (submission_service_of f) i rq))\<rparr>"

definition verify_submission_route :: "nat \<Rightarrow> verify_request \<Rightarrow> endpoint" where
  "verify_submission_route i rq =
     \<lparr>ep_permission = P_SUBMISSION_VERIFY,
      ep_handler = (\<lambda>f p c. shown 200 submission_read (verify_submission (submission_service_of f) i rq))\<rparr>"

definition verify_submission_async_route :: "nat \<Rightarrow> verify_request \<Rightarrow> endpoint" where
  "verify_submission_async_route i rq =
     \<lparr>ep_permission = P_SUBMISSION_VERIFY,
      ep_handler = (\<lambda>f p c.
        ethen (get_submission i)
          (shown 202 job_accepted (task_queue_enqueue f ''submission.verify''
             [(''submission_id'', JStr (id_text i)), (''published_url'', json_opt JStr (vf_published_url rq))]
             (caller_id p))))\<rparr>"

definition transition_submission_route :: "nat \<Rightarrow> submission_status \<Rightarrow> string option \<Rightarrow> endpoint" where
  "transition_submission_route i target reason =
     \<lparr>ep_permission = P_SUBMISSION_UPDATE,
      ep_handler = (\<lambda>f p c. shown 200 submission_read (transition_submission i target reason))\<rparr>"

end
