(* ===== verification/PublisherRoutes.thy ===== *)
theory PublisherRoutes
  imports Services Portfolio Publishers
begin

text \<open>
  The routes of \<open>api/v1/publishers.py\<close>, \<open>api/v1/campaigns.py\<close> and \<open>api/v1/client_websites.py\<close>.
\<close>

section \<open>Publishers and discovery\<close>

definition list_publishers_route :: "page_params \<Rightarrow> sort_params option \<Rightarrow> publisher_filters \<Rightarrow> endpoint" where
  "list_publishers_route pg srt fs =
     \<lparr>ep_permission = P_PUBLISHER_READ,
      ep_handler = (\<lambda>f p c. shown_page publisher_read (list_publishers pg srt fs))\<rparr>"

definition create_publisher_route :: "publisher_create \<Rightarrow> endpoint" where
  "create_publisher_route pl =
     \<lparr>ep_permission = P_PUBLISHER_CREATE,
      ep_handler = (\<lambda>f p c. shown 201 publisher_read (create_publisher (ar_idna (sf_resources f)) pl))\<rparr>"

definition list_discovery_providers_route :: endpoint where
  "list_discovery_providers_route =
     \<lparr>ep_permission = P_PUBLISHER_READ,
      ep_handler = (\<lambda>f p c. shown 200 (\<lambda>rows. JList (map JObj rows)) (availability (discovery_registry f)))\<rparr>"

definition list_discovery_runs_route ::
  "page_params \<Rightarrow> sort_params option \<Rightarrow> string option \<Rightarrow> string option \<Rightarrow> nat option \<Rightarrow> endpoint" where
  "list_discovery_runs_route pg srt status provider cid =
     \<lparr>ep_permission = P_PUBLISHER_READ,
      ep_handler = (\<lambda>f p c. shown_page discovery_run_read (list_runs pg srt status provider cid))\<rparr>"

record discovery_request =
  dr_provider :: string
  dr_query :: discovery_query
  dr_campaign_id :: "nat option"
  dr_run_async :: bool

definition discovery_payload :: "nat \<Rightarrow> discovery_request \<Rightarrow> (string \<times> json) list" where
  "discovery_payload rid rq =
     [(''run_id'', JStr (id_text rid)), (''provider'', JStr (dr_provider rq))] @ query_as_dict (dr_query rq)"

definition discover_publishers_route :: "discovery_request \<Rightarrow> endpoint" where
  "discover_publishers_route rq =
     \<lparr>ep_permission = P_PUBLISHER_DISCOVER,
      ep_handler = (\<lambda>f p c.
        ebind (start_run (dr_provider rq) (dr_query rq) (dr_campaign_id rq)) (\<lambda>r.
        if dr_run_async rq
        then shown 202 job_accepted
               (task_queue_enqueue f ''publisher.discovery'' (discovery_payload (run_id r) rq) (caller_id p))
        else ebind (resolve_source (discovery_registry f) (dr_provider rq)) (\<lambda>provider.
             shown 202 discovery_run_read
               (execute_run (ar_idna (sf_resources f)) r provider (dr_query rq)))))\<rparr>"

definition get_publisher_route :: "nat \<Rightarrow> endpoint" where
  "get_publisher_route i =
     \<lparr>ep_permission = P_PUBLISHER_READ, ep_handler = (\<lambda>f p c. shown 200 publisher_read (get_publisher i))\<rparr>"

definition update_publisher_route :: "nat \<Rightarrow> publisher_update \<Rightarrow> endpoint" where
  "update_publisher_route i u =
     \<lparr>ep_permission = P_PUBLISHER_UPDATE,
      ep_handler = (\<lambda>f p c. shown 200 publisher_read (update_publisher i u))\<rparr>"

definition delete_publisher_route :: "nat \<Rightarrow> endpoint" where
  "delete_publisher_route i =
     \<lparr>ep_permission = P_PUBLISHER_DELETE, ep_handler = (\<lambda>f p c. done_no_content (delete_publisher i))\<rparr>"

definition breakdown_json :: "score_breakdown \<Rightarrow> json" where
  "breakdown_json b = JObj
     [(''quality_score'', JRat (bd_quality_score b)), (''relevance_score'', JRat (bd_relevance_score b)),
      (''spam_score'', JRat (bd_spam_score b)), (''authority_score'', JRat (bd_authority_score b)),
      (''opportunity_score'', JRat (bd_opportunity_score b)),
      (''components'', JObj (map (\<lambda>(k, v). (k, JRat v)) (bd_components b))),
      (''reasons'', JList (map JStr (bd_reasons b))),
      (''recommended_status'', JStr (publisher_status_value (bd_recommended_status b))),
      (''eligible_for_submission'', JBool (bd_eligible_for_submission b))]"

definition qualification_result :: "publisher_row \<times> score_breakdown \<Rightarrow> json" where
  "qualification_result x =
     JObj [(''publisher'', publisher_read (fst x)), (''scores'', breakdown_json (snd x))]"

record qualification_request =
  qr_fetch_live :: bool
  qr_relevance_keywords :: "string list"
  qr_target_country :: "string option"

definition qualify_publisher_route :: "nat \<Rightarrow> qualification_request \<Rightarrow> endpoint" where
  "qualify_publisher_route i rq =
     \<lparr>ep_permission = P_PUBLISHER_QUALIFY,
      ep_handler = (\<lambda>f p c.
        shown 200 qualification_result
          (qualify_by_id (qualification_service f)
             \<lparr>qo_fetch_live = qr_fetch_live rq, qo_relevance_keywords = qr_relevance_keywords rq,
              qo_target_country = qr_target_country rq, qo_target_language = None\<rparr> i))\<rparr>"

definition qualify_publisher_async_route :: "nat \<Rightarrow> qualification_request \<Rightarrow> endpoint" where
  "qualify_publisher_async_route i rq =
     \<lparr>ep_permission = P_PUBLISHER_QUALIFY,
      ep_handler = (\<lambda>f p c.
        ethen (get_publisher i)
          (shown 202 job_accepted (task_queue_enqueue f ''publisher.qualify''
             [(''publisher_id'', JStr (id_text i)), (''fetch_live'', JBool (qr_fetch_live rq)),
              (''relevance_keywords'', JList (map JStr (qr_relevance_keywords rq))),
              (''target_country'', json_opt JStr (qr_target_country rq))]
             (caller_id p))))\<rparr>"

section \<open>Campaigns\<close>

definition list_campaigns_route ::
  "page_params \<Rightarrow> sort_params option \<Rightarrow> string option \<Rightarrow> string option \<Rightarrow> nat option \<Rightarrow> string option \<Rightarrow> endpoint" where
  "list_campaigns_route pg srt search status wid ctry =
     \<lparr>ep_permission = P_CAMPAIGN_READ,
      ep_handler = (\<lambda>f p c. shown_page campaign_read (list_campaigns pg srt status wid ctry search))\<rparr>"

definition create_campaign_route :: "campaign_create \<Rightarrow> endpoint" where
  "create_campaign_route pl =
     \<lparr>ep_permission = P_CAMPAIGN_CREATE, ep_handler = (\<lambda>f p c. shown 201 campaign_read (create_campaign pl))\<rparr>"

definition get_campaign_route :: "nat \<Rightarrow> endpoint" where
  "get_campaign_route i =
     \<lparr>ep_permission = P_CAMPAIGN_READ, ep_handler = (\<lambda>f p c. shown 200 campaign_read (get_campaign i))\<rparr>"

definition update_campaign_route :: "nat \<Rightarrow> campaign_update \<Rightarrow> endpoint" where
  "update_campaign_route i u =
     \<lparr>ep_permission = P_CAMPAIGN_UPDATE, ep_handler = (\<lambda>f p c. shown 200 campaign_read (update_campaign i u))\<rparr>"

definition delete_campaign_route :: "nat \<Rightarrow> endpoint" where
  "delete_campaign_route i =
     \<lparr>ep_permission = P_CAMPAIGN_DELETE, ep_handler = (\<lambda>f p c. done_no_content (delete_campaign i))\<rparr>"

definition campaign_stats_json :: "campaign_stats \<Rightarrow> json" where
  "campaign_stats_json s = JObj
     [(''campaign_id'', JId (cs_campaign_id s)), (''opportunities_total'', JInt (int (cs_opportunities_total s))),
      (''opportunities_qualified'', JInt (int (cs_opportunities_qualified s))),
      (''opportunities_ready'', JInt (int (cs_opportunities_ready s))),
      (''submissions_total'', JInt (int (cs_submissions_total s))),
      (''submissions_published'', JInt (int (cs_submissions_published s))),
      (''submissions_verified'', JInt (int (cs_submissions_verified s))),
      (''target_link_count'', json_opt JInt (cs_target_link_count s))]"

definition campaign_stats_route :: "nat \<Rightarrow> endpoint" where
  "campaign_stats_route i =
     \<lparr>ep_permission = P_CAMPAIGN_READ,
      ep_handler = (\<lambda>f p c. shown 200 campaign_stats_json (campaign_statistics i))\<rparr>"

section \<open>Client websites\<close>

definition list_client_websites_route ::
  "page_params \<Rightarrow> sort_params option \<Rightarrow> string option \<Rightarrow> string option \<Rightarrow> string option \<Rightarrow> string option \<Rightarrow> endpoint" where
  "list_client_websites_route pg srt search status industry ctry =
     \<lparr>ep_permission = P_CLIENT_WEBSITE_READ,
      ep_handler = (\<lambda>f p c. shown_page client_website_read (list_websites pg srt status industry ctry search))\<rparr>"

definition create_client_website_route :: "website_create \<Rightarrow> endpoint" where
  "create_client_website_route pl =
     \<lparr>ep_permission = P_CLIENT_WEBSITE_CREATE,
      ep_handler = (\<lambda>f p c. shown 201 client_website_read (create_website (ar_idna (sf_resources f)) pl))\<rparr>"

definition get_client_website_route :: "nat \<Rightarrow> endpoint" where
  "get_client_website_route i =
     \<lparr>ep_permission = P_CLIENT_WEBSITE_READ, ep_handler = (\<lambda>f p c. shown 200 client_website_read (get_website i))\<rparr>"

definition update_client_website_route :: "nat \<Rightarrow> website_update \<Rightarrow> endpoint" where
  "update_client_website_route i u =
     \<lparr>ep_permission = P_CLIENT_WEBSITE_UPDATE,
      ep_handler = (\<lambda>f p c. shown 200 client_website_read (update_website i u))\<rparr>"

definition delete_client_website_route :: "nat \<Rightarrow> endpoint" where
  "delete_client_website_route i =
     \<lparr>ep_permission = P_CLIENT_WEBSITE_DELETE, ep_handler = (\<lambda>f p c. done_no_content (delete_website i))\<rparr>"

end
