(* ===== verification/AdminRoutes.thy ===== *)
theory AdminRoutes
  imports Services
begin

text \<open>
  The routes of \<open>api/v1/credentials.py\<close>, \<open>ai.py\<close>, \<open>jobs.py\<close>, \<open>users.py\<close> and \<open>audit.py\<close>, and the routes of
  \<open>tenants.py\<close> and \<open>rbac.py\<close> that read; those that change a workspace are the calls of \<open>Rbac\<close>, which
  \<open>workspace_route\<close> makes routes of (what they answer is left out).
\<close>

section \<open>Credentials\<close>

definition list_credentials_route ::
  "page_params \<Rightarrow> sort_params option \<Rightarrow> string option \<Rightarrow> string option \<Rightarrow> string option \<Rightarrow> endpoint" where
  "list_credentials_route pg srt provider provider_type status =
     \<lparr>ep_permission = P_CREDENTIAL_READ,
      ep_handler = (\<lambda>f p c. shown_page credential_read (list_credentials pg srt provider provider_type status))\<rparr>"

text \<open>The fingerprint leaves the secret out.\<close>

definition credential_create_dump :: "credential_create \<Rightarrow> json" where
  "credential_create_dump pl = JObj
     [(''provider'', JStr (cc_provider pl)),
      (''provider_type'', JStr (credential_provider_type_value (cc_provider_type pl))),
      (''label'', JStr (cc_label pl)), (''provider_metadata'', JObj (cc_provider_metadata pl)),
      (''verify'', JBool (cc_verify pl))]"

definition create_and_verify :: "service_factory \<Rightarrow> credential_create \<Rightarrow> credential_row svc" where
  "create_and_verify f pl =
     ebind (create_credential (credential_service_of f) pl) (\<lambda>c.
       if cc_verify pl then ebind (verify_credential (ai_services_of f) c) (\<lambda>(c', _). ret c') else ret c)"

definition create_credential_route :: "credential_create \<Rightarrow> string option \<Rightarrow> endpoint" where
  "create_credential_route pl key =
     \<lparr>ep_permission = P_CREDENTIAL_CREATE,
      ep_handler = (\<lambda>f p c.
        keyed_answer credential_read (\<lambda>_. [])
          (keyed_create (ar_digest (sf_resources f)) (guard_for ''POST'' ''/api/v1/credentials'' key)
             (credential_create_dump pl)
             \<lparr>kr_get = get_credential, kr_create = ebind (create_and_verify f pl) (\<lambda>r. ret (r, 201)),
              kr_read = credential_read, kr_id = crd_id\<rparr>))\<rparr>"

definition get_credential_route :: "nat \<Rightarrow> endpoint" where
  "get_credential_route i =
     \<lparr>ep_permission = P_CREDENTIAL_READ, ep_handler = (\<lambda>f p c. shown 200 credential_read (get_credential i))\<rparr>"

definition update_credential_route :: "nat \<Rightarrow> credential_update \<Rightarrow> endpoint" where
  "update_credential_route i u =
     \<lparr>ep_permission = P_CREDENTIAL_UPDATE,
      ep_handler = (\<lambda>f p c. shown 200 credential_read
        (ebind (update_credential (credential_service_of f) i u) (\<lambda>r.
           if cu_verify u then ebind (verify_credential (ai_services_of f) r) (\<lambda>(r', _). ret r') else ret r)))\<rparr>"

definition delete_credential_route :: "nat \<Rightarrow> endpoint" where
  "delete_credential_route i =
     \<lparr>ep_permission = P_CREDENTIAL_DELETE, ep_handler = (\<lambda>f p c. done_no_content (delete_credential i))\<rparr>"

definition verify_result :: "credential_row \<Rightarrow> verification_outcome \<Rightarrow> int \<Rightarrow> json" where
  "verify_result r o' n = JObj
     [(''credential_id'', JId (crd_id r)), (''provider'', JStr (crd_provider r)),
      (''status'', JStr (credential_status_value (crd_status r))), (''verified'', JBool (vo_verified o')),
      (''error_code'', json_opt JStr (vo_error_code o')),
      (''checked_at'', JTime (case vo_checked_at o' of None \<Rightarrow> n | Some t \<Rightarrow> t))]"

definition verify_credential_route :: "nat \<Rightarrow> endpoint" where
  "verify_credential_route i =
     \<lparr>ep_permission = P_CREDENTIAL_UPDATE,
      ep_handler = (\<lambda>f p c.
        ebind (get_credential i) (\<lambda>r.
        ebind (verify_credential (ai_services_of f) r) (\<lambda>(r', o').
        ebind now (\<lambda>n. ret (answer 200 (ok (verify_result r' o' n) []))))))\<rparr>"

section \<open>AI configuration and usage\<close>

definition list_ai_configs_route :: endpoint where
  "list_ai_configs_route =
     \<lparr>ep_permission = P_INTEGRATION_READ, ep_handler = (\<lambda>f p c. shown_all ai_config_read list_ai_configs)\<rparr>"

definition upsert_ai_config_route :: "ai_config_upsert \<Rightarrow> endpoint" where
  "upsert_ai_config_route pl =
     \<lparr>ep_permission = P_INTEGRATION_UPDATE, ep_handler = (\<lambda>f p c. shown 200 ai_config_read (upsert_ai_config pl))\<rparr>"

definition delete_ai_config_route :: "nat \<Rightarrow> endpoint" where
  "delete_ai_config_route i =
     \<lparr>ep_permission = P_INTEGRATION_DELETE,
      ep_handler = (\<lambda>f p c. shown 200 (\<lambda>_. JObj [(''deleted'', JBool True)]) (delete_ai_config i))\<rparr>"

definition list_ai_usage_route :: "page_params \<Rightarrow> sort_params option \<Rightarrow> usage_filters \<Rightarrow> endpoint" where
  "list_ai_usage_route pg srt fs =
     \<lparr>ep_permission = P_AI_USAGE_READ, ep_handler = (\<lambda>f p c. shown_page ai_usage_read (list_usage pg srt fs))\<rparr>"

definition usage_row_json :: "usage_summary_row \<Rightarrow> json" where
  "usage_row_json r = JObj
     [(''provider'', JStr (us_provider r)), (''model'', JStr (us_model r)),
      (''operation'', JStr (ai_operation_value (us_operation r))), (''requests'', JInt (int (us_requests r))),
      (''input_tokens'', JInt (us_input_tokens r)), (''output_tokens'', JInt (us_output_tokens r)),
      (''estimated_cost'', JRat (us_estimated_cost r)), (''failures'', JInt (int (us_failures r)))]"

definition usage_summary_json :: "usage_summary \<Rightarrow> json" where
  "usage_summary_json s = JObj
     [(''rows'', JList (map usage_row_json (sy_rows s))), (''total_requests'', JInt (int (sy_total_requests s))),
      (''total_input_tokens'', JInt (sy_total_input_tokens s)),
      (''total_output_tokens'', JInt (sy_total_output_tokens s)),
      (''total_estimated_cost'', JRat (sy_total_estimated_cost s)),
      (''since'', json_opt JTime (sy_since s)), (''until'', json_opt JTime (sy_until s))]"

definition ai_usage_summary_route :: "int option \<Rightarrow> int option \<Rightarrow> endpoint" where
  "ai_usage_summary_route since until =
     \<lparr>ep_permission = P_AI_USAGE_READ, ep_handler = (\<lambda>f p c. shown 200 usage_summary_json (usage_report since until))\<rparr>"

section \<open>Jobs\<close>

definition job_build_filters :: "string option \<Rightarrow> string option \<Rightarrow> (job_row \<Rightarrow> bool) list" where
  "job_build_filters status task_name =
     (if truthy status then [\<lambda>j. job_status_value (job_status j) = the status] else [])
     @ (if truthy task_name then [\<lambda>j. job_task_name j = the task_name] else [])"

definition list_jobs_route ::
  "page_params \<Rightarrow> sort_params option \<Rightarrow> string option \<Rightarrow> string option \<Rightarrow> endpoint" where
  "list_jobs_route pg srt status task_name =
     \<lparr>ep_permission = P_JOB_READ,
      ep_handler = (\<lambda>f p c. shown_page job_read (repo_list_page job_model pg srt (job_build_filters status task_name)))\<rparr>"

definition list_task_types_route :: endpoint where
  "list_task_types_route =
     \<lparr>ep_permission = P_JOB_READ,
      ep_handler = (\<lambda>f p c. shown 200 (\<lambda>xs. JList (map JStr xs)) (ret (sort (ar_tasks (sf_resources f)))))\<rparr>"

definition get_job_route :: "nat \<Rightarrow> endpoint" where
  "get_job_route i =
     \<lparr>ep_permission = P_JOB_READ, ep_handler = (\<lambda>f p c. shown 200 job_read (repo_get_or_raise job_model ''job'' i))\<rparr>"

section \<open>Users and the audit trail\<close>

definition list_users_route ::
  "page_params \<Rightarrow> sort_params option \<Rightarrow> string option \<Rightarrow> string option \<Rightarrow> endpoint" where
  "list_users_route pg srt search status =
     \<lparr>ep_permission = P_USER_READ,
      ep_handler = (\<lambda>f p c. shown_page user_read (list_tenant_members (tenant_context_id c) pg srt search status))\<rparr>"

definition get_user_route :: "nat \<Rightarrow> endpoint" where
  "get_user_route i =
     \<lparr>ep_permission = P_USER_READ,
      ep_handler = (\<lambda>f p c. shown 200 user_read (get_tenant_member (tenant_context_id c) i))\<rparr>"

record audit_filters =
  af_action :: "string option"
  af_actions :: "string list"
  af_user_id :: "nat option"
  af_resource_type :: "string option"
  af_resource_id :: "string option"
  af_since :: "int option"
  af_until :: "int option"

text \<open>The stored text of a resource's identifier.\<close>

fun resource_text :: "json \<Rightarrow> string" where
  "resource_text (JId i) = id_text i"
| "resource_text (JStr s) = s"
| "resource_text _ = []"

definition audit_build_filters :: "audit_filters \<Rightarrow> (audit_row \<Rightarrow> bool) list" where
  "audit_build_filters a =
     (if truthy (af_action a) then [\<lambda>r. aud_action r = the (af_action a)] else [])
     @ (if af_actions a \<noteq> [] then [\<lambda>r. aud_action r \<in> set (af_actions a)] else [])
     @ (case af_user_id a of None \<Rightarrow> [] | Some u \<Rightarrow> [\<lambda>r. aud_user_id r = Some u])
     @ (if truthy (af_resource_type a) then [\<lambda>r. aud_resource_type r = af_resource_type a] else [])
     @ (if truthy (af_resource_id a) then [\<lambda>r. map_option resource_text (aud_resource_id r) = af_resource_id a] else [])
     @ (case af_since a of None \<Rightarrow> [] | Some t \<Rightarrow> [\<lambda>r. t \<le> aud_created_at r])
     @ (case af_until a of None \<Rightarrow> [] | Some t \<Rightarrow> [\<lambda>r. aud_created_at r < t])"

definition list_audit_logs_route :: "page_params \<Rightarrow> sort_params option \<Rightarrow> audit_filters \<Rightarrow> endpoint" where
  "list_audit_logs_route pg srt a =
     \<lparr>ep_permission = P_AUDIT_READ,
      ep_handler = (\<lambda>f p c. shown_page audit_read (repo_list_page audit_model pg srt (audit_build_filters a)))\<rparr>"

section \<open>The workspace\<close>

definition get_tenant_route :: "nat \<Rightarrow> endpoint" where
  "get_tenant_route path =
     \<lparr>ep_permission = P_TENANT_READ,
      ep_handler = (\<lambda>f p c. ethen (assert_path_matches_context path c) (shown 200 tenant_read (ret (tc_tenant c))))\<rparr>"

definition membership_read :: "membership_row \<Rightarrow> string list \<Rightarrow> user_row option \<Rightarrow> json" where
  "membership_read m slugs u = JObj
     [(''id'', JId (mem_id m)), (''tenant_id'', JId (mem_tenant_id m)), (''user_id'', JId (mem_user_id m)),
      (''status'', JStr (membership_status_value (mem_status m))), (''is_owner'', JBool (mem_is_owner m)),
      (''roles'', JList (map JStr slugs)), (''user'', json_opt user_read u),
      (''created_at'', JTime (mem_created_at m)), (''updated_at'', JTime (mem_updated_at m))]"

definition get_many_users :: "nat list \<Rightarrow> user_row list svc" where
  "get_many_users ids = query (\<lambda>d. filter (\<lambda>u. usr_id u \<in> set ids) (users d))"

fun member_rows :: "user_row list \<Rightarrow> membership_row list \<Rightarrow> json list svc" where
  "member_rows us [] = ret []"
| "member_rows us (m # ms) =
     ebind (roles_for_membership (mem_id m)) (\<lambda>slugs.
     ebind (member_rows us ms) (\<lambda>rest.
       ret (membership_read m slugs (find (\<lambda>u. usr_id u = mem_user_id m) us) # rest)))"

definition list_members_route ::
  "nat \<Rightarrow> page_params \<Rightarrow> sort_params option \<Rightarrow> string option \<Rightarrow> endpoint" where
  "list_members_route path pg srt status =
     \<lparr>ep_permission = P_USER_READ,
      ep_handler = (\<lambda>f p c.
        ethen (assert_path_matches_context path c) (
        ebind (list_members (tenant_context_id c) pg srt status) (\<lambda>r.
        ebind (get_many_users (map mem_user_id (pg_items r))) (\<lambda>us.
        ebind (member_rows us (pg_items r)) (\<lambda>rows.
          ret (answer 200 (paginated rows (pg_page r) (pg_page_size r) (pg_total r))))))))\<rparr>"

definition permission_read :: "permission_row \<Rightarrow> json" where
  "permission_read r = JObj
     [(''id'', JId (perm_id r)), (''code'', JStr (perm_code r)), (''resource'', JStr (perm_resource r)),
      (''action'', JStr (perm_action r)), (''description'', json_opt JStr (perm_description r))]"

definition list_permissions_route :: endpoint where
  "list_permissions_route =
     \<lparr>ep_permission = P_PERMISSION_READ, ep_handler = (\<lambda>f p c. shown_all permission_read permission_list)\<rparr>"

definition role_read :: "role_row \<Rightarrow> string list \<Rightarrow> json" where
  "role_read r codes = JObj
     [(''id'', JId (role_id r)), (''slug'', JStr (role_slug r)), (''name'', JStr (role_name r)),
      (''description'', json_opt JStr (role_description r)), (''is_system'', JBool (role_is_system r)),
      (''permissions'', JList (map JStr codes)), (''created_at'', JTime (role_created_at r)),
      (''updated_at'', JTime (role_updated_at r))]"

definition to_read :: "role_row \<Rightarrow> json svc" where
  "to_read r = ebind (codes_for_role (role_id r)) (\<lambda>codes. ret (role_read r codes))"

fun to_reads :: "role_row list \<Rightarrow> json list svc" where
  "to_reads [] = ret []"
| "to_reads (r # rs) = ebind (to_read r) (\<lambda>j. ebind (to_reads rs) (\<lambda>js. ret (j # js)))"

definition list_roles_route :: "page_params \<Rightarrow> sort_params option \<Rightarrow> bool option \<Rightarrow> endpoint" where
  "list_roles_route pg srt is_system =
     \<lparr>ep_permission = P_ROLE_READ,
      ep_handler = (\<lambda>f p c.
        ebind (list_roles pg srt is_system) (\<lambda>r.
        ebind (to_reads (pg_items r)) (\<lambda>rows.
          ret (answer 200 (paginated rows (pg_page r) (pg_page_size r) (pg_total r))))))\<rparr>"

definition get_role_route :: "nat \<Rightarrow> endpoint" where
  "get_role_route i =
     \<lparr>ep_permission = P_ROLE_READ, ep_handler = (\<lambda>f p c. shown 200 (\<lambda>j. j) (ebind (get_role i) to_read))\<rparr>"

definition workspace_route :: "nat \<Rightarrow> workspace_call \<Rightarrow> endpoint" where
  "workspace_route path call =
     \<lparr>ep_permission = call_permission call, ep_handler = (\<lambda>f p c. done_no_content (call_handler path call c))\<rparr>"

end
