(* ===== verification/Api.thy ===== *)
theory Api
  imports WorkRoutes PublisherRoutes AdminRoutes
begin

text \<open>
  What the workspace half of the HTTP interface publishes (\<open>api/router.py\<close>): every route behind the tenant
  gate, with any arguments a client can send.  A history of the interface is a list of requests, each with
  its token, workspace header and route, served one after the other while the clock and the outside move.
\<close>

section \<open>The published routes\<close>

inductive work_route :: "endpoint \<Rightarrow> bool" where
"work_route (list_opportunities_route pg srt fs)"
| "work_route (create_opportunity_route pl key)"
| "work_route opportunity_state_machine_route"
| "work_route (get_opportunity_route i)"
| "work_route (update_opportunity_route i u)"
| "work_route (delete_opportunity_route i)"
| "work_route (qualify_opportunity_route i)"
| "work_route (select_opportunity_route i)"
| "work_route (reject_opportunity_route i reason)"
| "work_route (transition_opportunity_route i target reason)"
| "work_route (generate_content_route i rq)"
| "work_route (list_content_route i)"
| "work_route (review_content_route oid cid rv)"
| "work_route (list_submissions_route pg srt search status cid oid meth)"
| "work_route (create_submission_route pl key)"
| "work_route submission_state_machine_route"
| "work_route (review_queue_route limit)"
| "work_route (get_submission_route i)"
| "work_route (update_submission_route i u)"
| "work_route (delete_submission_route i)"
| "work_route (submit_for_review_route i)"
| "work_route (approve_submission_route i notes)"
| "work_route (execute_submission_route i rq)"
| "work_route (verify_submission_route i rq)"
| "work_route (verify_submission_async_route i rq)"
| "work_route (transition_submission_route i target reason)"

inductive research_route :: "endpoint \<Rightarrow> bool" where
"research_route (list_publishers_route pg srt fs)"
| "research_route (create_publisher_route pl)"
| "research_route list_discovery_providers_route"
| "research_route (list_discovery_runs_route pg srt status provider cid)"
| "research_route (discover_publishers_route rq)"
| "research_route (get_publisher_route i)"
| "research_route (update_publisher_route i u)"
| "research_route (delete_publisher_route i)"
| "research_route (qualify_publisher_route i rq)"
| "research_route (qualify_publisher_async_route i rq)"
| "research_route (list_campaigns_route pg srt search status wid ctry)"
| "research_route (create_campaign_route pl)"
| "research_route (get_campaign_route i)"
| "research_route (update_campaign_route i u)"
| "research_route (delete_campaign_route i)"
| "research_route (campaign_stats_route i)"
| "research_route (list_client_websites_route pg srt search status industry ctry)"
| "research_route (create_client_website_route pl)"
| "research_route (get_client_website_route i)"
| "research_route (update_client_website_route i u)"
| "research_route (delete_client_website_route i)"

inductive admin_route :: "endpoint \<Rightarrow> bool" where
"admin_route (list_credentials_route pg srt provider provider_type status)"
| "admin_route (create_credential_route pl key)"
| "admin_route (get_credential_route i)"
| "admin_route (update_credential_route i u)"
| "admin_route (delete_credential_route i)"
| "admin_route (verify_credential_route i)"
| "admin_route list_ai_configs_route"
| "admin_route (upsert_ai_config_route pl)"
| "admin_route (delete_ai_config_route i)"
| "admin_route (list_ai_usage_route pg srt fs)"
| "admin_route (ai_usage_summary_route since until)"
| "admin_route (list_jobs_route pg srt status task_name)"
| "admin_route list_task_types_route"
| "admin_route (get_job_route i)"
| "admin_route (list_users_route pg srt search status)"
| "admin_route (get_user_route i)"
| "admin_route (list_audit_logs_route pg srt a)"
| "admin_route (get_tenant_route path)"
| "admin_route (list_members_route path pg srt status)"
| "admin_route list_permissions_route"
| "admin_route (list_roles_route pg srt is_system)"
| "admin_route (get_role_route i)"
| "admin_route (workspace_route path call)"

definition published :: "endpoint \<Rightarrow> bool" where
  "published ep = (work_route ep \<or> research_route ep \<or> admin_route ep)"

section \<open>Requests\<close>

text \<open>The network answers differently from one request to the next, and time passes.\<close>

record api_call =
  ac_resources :: app_resources
  ac_credentials :: "credentials option"
  ac_header :: "nat option"
  ac_endpoint :: endpoint
  ac_time :: int
  ac_ctx :: request_context

definition serve_api :: "jwt_service \<Rightarrow> api_call \<Rightarrow> world \<Rightarrow> world" where
  "serve_api js q w =
     snd (api_request js (ac_resources q) (ac_credentials q) (ac_header q) (ac_endpoint q) (w\<lparr>w_now := ac_time q, w_ctx := ac_ctx q\<rparr>))"

definition serve_all :: "jwt_service \<Rightarrow> api_call list \<Rightarrow> world \<Rightarrow> world" where
  "serve_all js qs w = fold (serve_api js) qs w"

end
