(* ===== verification/ApiProperties.thy ===== *)
theory ApiProperties
  imports Api DiscoveryProperties AuthProperties
begin

text \<open>
  What holds of every published route and of every history of the interface.
\<close>

section \<open>Routes that only read\<close>

definition only_reads :: "endpoint \<Rightarrow> bool" where
  "only_reads ep = (\<forall>f p c. reads (ep_handler ep f p c))"

definition read_permissions :: "perm list" where
  "read_permissions = filter (\<lambda>x. has_suffix ''.read'' (perm_value x)) perm_members"

lemma read_permissions_list:
  "set read_permissions = {P_TENANT_READ, P_USER_READ, P_ROLE_READ, P_PERMISSION_READ, P_CLIENT_WEBSITE_READ,
     P_CAMPAIGN_READ, P_PUBLISHER_READ, P_OPPORTUNITY_READ, P_SUBMISSION_READ, P_CREDENTIAL_READ,
     P_INTEGRATION_READ, P_AUDIT_READ, P_JOB_READ}"
  by (simp add: read_permissions_def perm_members_def has_suffix_def has_prefix_def)

lemma reads_shown [reads_intros]:
  "reads m \<Longrightarrow> reads (shown status render m)" "reads m1 \<Longrightarrow> reads (shown_all render1 m1)"
  "reads m2 \<Longrightarrow> reads (shown_page render2 m2)"
  unfolding shown_def shown_all_def shown_page_def by (intro reads_intros; simp)+

lemma reads_availability [reads_intros]: "reads (availability dx)"
proof -
  have row: "reads (availability_row dx i)" for i
    unfolding availability_row_def by (intro reads_intros reads_has_credential)
  have "reads (availability_rows dx is)" for "is"
    by (induction "is") (simp_all add: reads_ret row reads_ebind)
  then show ?thesis by (simp add: availability_def)
qed

lemma reads_listings [reads_intros]:
  "reads (list_opportunities pg srt fs)" "reads (get_opportunity i)" "reads (list_for_opportunity i)"
  "reads (list_submissions pg srt st cid oid meth search)" "reads (list_awaiting_approval k)" "reads (get_submission i)"
  "reads (list_publishers pg srt pf)" "reads (list_runs pg srt st prov cid)" "reads (get_publisher i)"
  "reads (list_campaigns pg srt st cid ctry search)" "reads (get_campaign i)" "reads (campaign_statistics i)"
  "reads (list_websites pg srt st ind ctry search)" "reads (get_website i)"
  "reads (list_credentials pg srt prov pt st)" "reads (get_credential i)" "reads list_ai_configs"
  "reads (list_usage pg srt uf)" "reads (usage_report since until)"
  unfolding list_opportunities_def get_opportunity_def list_for_opportunity_def list_submissions_def
    list_awaiting_approval_def get_submission_def list_publishers_def list_runs_def get_publisher_def list_campaigns_def
    get_campaign_def campaign_statistics_def list_websites_def get_website_def list_credentials_def get_credential_def
    list_ai_configs_def list_usage_def usage_report_def
  by (intro reads_intros)+

lemma reads_workspace [reads_intros]:
  "reads permission_list" "reads (list_roles pg srt sys)" "reads (get_role i)" "reads (to_read r)" "reads (to_reads rs)"
  "reads (list_members tid pg srt st)" "reads (get_many_users ids)" "reads (roles_for_membership i)"
  "reads (member_rows us ms)" "reads (assert_path_matches_context path c)"
proof -
  have codes: "reads (codes_for_role i)" for i unfolding codes_for_role_def by (intro reads_intros)
  show one: "reads (to_read r)" for r unfolding to_read_def by (intro reads_intros codes)
  show "reads (to_reads rs)" by (induction rs) (simp_all add: reads_ret one reads_ebind)
  show roles: "reads (roles_for_membership i)" for i
    unfolding roles_for_membership_def roles_for_membership_in_def by (intro reads_intros)
  show "reads (member_rows us ms)" by (induction ms) (simp_all add: reads_ret roles reads_ebind)
qed (unfold permission_list_def list_roles_def get_role_def list_members_def get_many_users_def assert_path_matches_context_def,
    (intro reads_intros)+)


lemmas work_route_defs = list_opportunities_route_def create_opportunity_route_def opportunity_state_machine_route_def
  get_opportunity_route_def update_opportunity_route_def delete_opportunity_route_def qualify_opportunity_route_def
  select_opportunity_route_def reject_opportunity_route_def transition_opportunity_route_def generate_content_route_def
  list_content_route_def review_content_route_def list_submissions_route_def create_submission_route_def
  submission_state_machine_route_def review_queue_route_def get_submission_route_def update_submission_route_def
  delete_submission_route_def submit_for_review_route_def approve_submission_route_def execute_submission_route_def
  verify_submission_route_def verify_submission_async_route_def transition_submission_route_def

lemmas research_route_defs = list_publishers_route_def create_publisher_route_def list_discovery_providers_route_def
  list_discovery_runs_route_def discover_publishers_route_def get_publisher_route_def update_publisher_route_def
  delete_publisher_route_def qualify_publisher_route_def qualify_publisher_async_route_def list_campaigns_route_def
  create_campaign_route_def get_campaign_route_def update_campaign_route_def delete_campaign_route_def
  campaign_stats_route_def list_client_websites_route_def create_client_website_route_def get_client_website_route_def
  update_client_website_route_def delete_client_website_route_def

lemmas admin_route_defs = list_credentials_route_def create_credential_route_def get_credential_route_def
  update_credential_route_def delete_credential_route_def verify_credential_route_def list_ai_configs_route_def
  upsert_ai_config_route_def delete_ai_config_route_def list_ai_usage_route_def ai_usage_summary_route_def
  list_jobs_route_def list_task_types_route_def get_job_route_def list_users_route_def get_user_route_def
  list_audit_logs_route_def get_tenant_route_def list_members_route_def list_permissions_route_def
  list_roles_route_def get_role_route_def workspace_route_def

lemma call_writes: "call_permission call \<notin> set read_permissions"
  by (cases call) (simp_all add: read_permissions_list)

lemma read_routes_read:
  assumes "published ep" "ep_permission ep \<in> set read_permissions"
  shows "only_reads ep"
proof -
  have "only_reads ep" if "work_route ep"
    using that assms(2) by (cases rule: work_route.cases)
      (auto simp: work_route_defs read_permissions_list only_reads_def intro!: reads_intros)
  moreover have "only_reads ep" if "research_route ep"
    using that assms(2) by (cases rule: research_route.cases)
      (auto simp: research_route_defs read_permissions_list only_reads_def intro!: reads_intros)
  moreover have "only_reads ep" if "admin_route ep"
    using that assms(2) call_writes by (cases rule: admin_route.cases)
      (auto simp: admin_route_defs read_permissions_list only_reads_def intro!: reads_intros)
  ultimately show ?thesis using assms(1) by (auto simp: published_def)
qed

section \<open>A caller who may only read\<close>

definition gate :: "jwt_service \<Rightarrow> credentials option \<Rightarrow> nat option \<Rightarrow> (principal \<times> tenant_context) svc" where
  "gate js creds header =
     ebind (get_principal js creds) (\<lambda>p. ebind (get_tenant_context p (requested_tenant_id p header)) (\<lambda>c. ret (p, c)))"

lemma api_request_gate:
  "api_request js rs creds header ep =
     session_scope None None (ebind (gate js creds header) (\<lambda>(p, c).
       ebind (lift_sum (require_permission (perm_value (ep_permission ep)) c)) (\<lambda>c'. ep_handler ep (get_services rs c') p c')))"
  by (rule ext) (auto simp: api_request_def get_unscoped_session_def gate_def session_scope_def comp_defs
      split: sum.split prod.split)

definition same_stores :: "world \<Rightarrow> world \<Rightarrow> bool" where
  "same_stores w v = (w_db v = w_db w \<and> w_committed v = w_committed w \<and> w_next v = w_next w \<and> w_now v = w_now w)"

interpretation stores: frame same_stores same_stores
  by unfold_locales (auto simp: same_stores_def)

lemma stores_reads: "reads m \<Longrightarrow> inside same_stores same_stores m"
  by (rule stores.inside_reads)

lemma stores_context [frame_intros]:
  "inside same_stores same_stores (set_context_user u)" "inside same_stores same_stores (set_context_tenant t)"
  "inside same_stores same_stores (set_tenant_context t u)" "inside same_stores same_stores (set_user_context v)"
  by (simp_all add: inside_def wp_simps set_context_user_def set_context_tenant_def same_stores_def)

lemmas stores_leaves [frame_intros] = reads_session [THEN stores_reads] reads_decode [THEN stores_reads]
  reads_scalar_one_or_none [THEN stores_reads]

lemma stores_gate: "inside same_stores same_stores (gate js creds header)"
  unfolding gate_def get_principal_def get_tenant_context_def session_for_user_def user_by_id_def
    active_membership_def tenant_by_id_def effective_permissions_def
  by (intro frame_intros)

text \<open>The session and the ambient context are the caller's and the workspace's when the handler starts.\<close>

definition bound_to :: "principal \<Rightarrow> tenant_context \<Rightarrow> world \<Rightarrow> bool" where
  "bound_to p c v =
     (w_tenant v = Some (tenant_context_id c) \<and> w_user v = Some (caller_id p) \<and> rc_user_id (w_ctx v) = Some (caller_id p)
      \<and> rc_tenant_id (w_ctx v) = Some (tenant_context_id c))"

lemma wp_anyway: "(\<And>a u. Q a u) \<Longrightarrow> (\<And>e u. E e u) \<Longrightarrow> wp m Q E w"
  by (simp add: wp_def split: prod.split sum.split)

lemma principal_binds:
  "wp (get_principal js creds)
     (\<lambda>p v. rc_user_id (w_ctx v) = Some (caller_id p) \<and> w_user v = Some (caller_id p)) (\<lambda>_ _. True) w"
  unfolding get_principal_def session_for_user_def user_by_id_def
  by (auto simp: wp_simps wp_scalar set_context_user_def caller_id_def
      intro!: wp_anyway [where m = "decode_access_token js tok" for tok] split: option.split list.split)

lemma context_binds:
  assumes "rc_user_id (w_ctx w) = Some (caller_id p)"
  shows "wp (get_tenant_context p requested) (\<lambda>c v. bound_to p c v) (\<lambda>_ _. True) w"
  using assms unfolding get_tenant_context_def active_membership_def tenant_by_id_def effective_permissions_def
  by (auto simp: wp_simps wp_scalar set_context_tenant_def caller_id_def bound_to_def tenant_context_id_def
      split: option.split list.split)

lemma gate_binds: "wp (gate js creds header) (\<lambda>(p, c) v. bound_to p c v) (\<lambda>_ _. True) w"
  unfolding gate_def wp_ebind wp_ret
  by (rule wp_mono [OF principal_binds]) (auto intro: context_binds)

lemma wp_gate:
  "wp (gate js creds header) (\<lambda>(p, c) v. same_stores w v \<and> bound_to p c v) (\<lambda>_ v. same_stores w v) w"
  using gate_binds [of js creds header w] insideD [OF stores_gate [of js creds header], of w]
  by (auto simp: wp_def split: prod.splits sum.splits)

text \<open>What the gate lets through holds of the context the handler gets.\<close>

definition lets_in :: "jwt_service \<Rightarrow> credentials option \<Rightarrow> nat option \<Rightarrow> world \<Rightarrow> tenant_context \<Rightarrow> bool" where
  "lets_in js creds header w c = (\<exists>p v. gate js creds header (open_session None None w) = (Inr (p, c), v))"



end
