(* ===== verification/Isolation.thy ===== *)
theory Isolation
  imports Cascades Tenants Rbac Credentials AiFactory
begin

text \<open>
  What a service may do to the rows of a workspace it is not bound to: nothing.  \<open>spared u F n d\<close> says
  that workspace \<open>u\<close> still has exactly the rows \<open>F\<close> and that nobody else's row has the key of one of them;
  \<open>yields I P m\<close> that a computation keeps the invariant \<open>I\<close> and what it returns satisfies \<open>P\<close>.  The locale
  \<open>spared_table\<close> proves once what the repository does to such a table; every tenant-owned table is an
  instance.
\<close>

section \<open>Computations under an invariant\<close>

definition yields :: "('s \<Rightarrow> bool) \<Rightarrow> ('a \<Rightarrow> bool) \<Rightarrow> ('e, 's, 'a) comp \<Rightarrow> bool" where
  "yields I P m = (\<forall>s. I s \<longrightarrow> wp m (\<lambda>a t. I t \<and> P a) (\<lambda>_. I) s)"

named_theorems yields_intros \<open>computations under an invariant\<close>

lemma yieldsI: "(\<And>s. I s \<Longrightarrow> wp m (\<lambda>a t. I t \<and> P a) (\<lambda>_. I) s) \<Longrightarrow> yields I P m"
  by (simp add: yields_def)

lemma yieldsD: "yields I P m \<Longrightarrow> I s \<Longrightarrow> wp m (\<lambda>a t. I t \<and> P a) (\<lambda>_. I) s"
  by (simp add: yields_def)

lemma yields_weaken: "yields I Q m \<Longrightarrow> (\<And>a. Q a \<Longrightarrow> P a) \<Longrightarrow> yields I P m"
  by (intro yieldsI) (blast intro: wp_mono [OF yieldsD])

lemma yields_bind:
  assumes "yields I Q m" and "\<And>a. Q a \<Longrightarrow> yields I P (f a)"
  shows "yields I P (ebind m f)"
proof (intro yieldsI, unfold wp_ebind)
  fix s assume "I s"
  show "wp m (\<lambda>a. wp (f a) (\<lambda>a t. I t \<and> P a) (\<lambda>_. I)) (\<lambda>_. I) s"
    by (rule wp_mono [OF yieldsD [OF assms(1) \<open>I s\<close>]]) (use yieldsD [OF assms(2)] in auto)
qed

lemma yields_reads: "reads m \<Longrightarrow> yields I (\<lambda>_. True) m"
  by (intro yieldsI wp_reads) simp_all

lemma yields_basic [yields_intros]:
  "P a \<Longrightarrow> yields I P (ret a)" "yields I P (raise e)" "(\<And>b. r = Inr b \<Longrightarrow> Q b) \<Longrightarrow> yields I Q (lift_sum r)"
  "Q' () \<Longrightarrow> yields I Q' (raise_if b e)"
  by (cases r; simp add: yields_def wp_simps)+

lemma yields_bind_basic [yields_intros]:
  "yields I P (f a) \<Longrightarrow> yields I P (ebind (ret a) f)" "yields I P (ebind (raise e) f)"
  "(\<And>b. r = Inr b \<Longrightarrow> yields I P (g b)) \<Longrightarrow> yields I P (ebind (lift_sum r) g)"
  "yields I P (h ()) \<Longrightarrow> yields I P (ebind (raise_if b e) h)"
  by (cases r; simp add: yields_def wp_simps)+

lemma yields_assoc [yields_intros]:
  "yields I P (ebind m (\<lambda>a. ebind (g a) f)) \<Longrightarrow> yields I P (ebind (ebind m g) f)"
proof -
  have "ebind (ebind m g) f = ebind m (\<lambda>a. ebind (g a) f)"
    by (rule ext) (simp add: ebind_def split: sum.split prod.split)
  then show "yields I P (ebind m (\<lambda>a. ebind (g a) f)) \<Longrightarrow> ?thesis" by simp
qed

lemma yields_case [yields_intros]:
  "(b \<Longrightarrow> yields I P m) \<Longrightarrow> (\<not> b \<Longrightarrow> yields I P n) \<Longrightarrow> yields I P (if b then m else n)"
  "(x = None \<Longrightarrow> yields I P m') \<Longrightarrow> (\<And>y. x = Some y \<Longrightarrow> yields I P (g y)) \<Longrightarrow>
   yields I P (case x of None \<Rightarrow> m' | Some y \<Rightarrow> g y)"
  "yields I P (k (fst p) (snd p)) \<Longrightarrow> yields I P (case p of (a, c) \<Rightarrow> k a c)"
  by (simp_all add: case_prod_beta split: option.split)

lemma yields_bind_case [yields_intros]:
  "(b \<Longrightarrow> yields I P (ebind m f)) \<Longrightarrow> (\<not> b \<Longrightarrow> yields I P (ebind n f)) \<Longrightarrow> yields I P (ebind (if b then m else n) f)"
  "(x = None \<Longrightarrow> yields I P (ebind m' f)) \<Longrightarrow> (\<And>y. x = Some y \<Longrightarrow> yields I P (ebind (g y) f)) \<Longrightarrow>
   yields I P (ebind (case x of None \<Rightarrow> m' | Some y \<Rightarrow> g y) f)"
  "yields I P (ebind (k (fst p) (snd p)) f) \<Longrightarrow> yields I P (ebind (case p of (a, c) \<Rightarrow> k a c) f)"
  by (simp_all add: case_prod_beta split: option.split)

lemma yields_do_when [yields_intros]:
  "(b \<Longrightarrow> yields I (\<lambda>_. True) m) \<Longrightarrow> yields I P (f ()) \<Longrightarrow> yields I P (ebind (do_when b m) f)"
  by (cases b) (auto simp: do_when_def intro: yields_bind yields_bind_basic)

lemma yields_for_each:
  "(\<And>x. x \<in> set xs \<Longrightarrow> yields I (\<lambda>_. True) (g x)) \<Longrightarrow> yields I (\<lambda>_. True) (for_each g xs)"
  by (induction xs) (auto simp: ethen_def intro: yields_bind yields_basic)

lemma yields_for_each_bind [yields_intros]:
  assumes "\<And>x. x \<in> set xs \<Longrightarrow> yields I (\<lambda>_. True) (g x)" and "yields I P (f ())"
  shows "yields I P (ebind (for_each g xs) f)"
  by (rule yields_bind [OF yields_for_each]) (use assms in auto)

lemma yields_done [yields_intros]: "yields I (\<lambda>_. True) m \<Longrightarrow> yields I (\<lambda>_. True) (done_with m)"
  unfolding done_with_def by (erule yields_bind) (simp add: yields_basic)

lemma yields_done_bind [yields_intros]:
  "yields I (\<lambda>_. True) m \<Longrightarrow> yields I P (f ()) \<Longrightarrow> yields I P (ebind (done_with m) f)"
  by (rule yields_bind [OF yields_done]) simp_all

lemma yields_recover:
  "yields I P m \<Longrightarrow> (\<And>e. yields I P (h e)) \<Longrightarrow> yields I P (recover m h)"
  by (intro yieldsI, unfold wp_recover) (blast intro: wp_mono [OF yieldsD] yieldsD)

lemma yields_leaf:
  assumes "reads m"
  shows "yields I (\<lambda>_. True) m" and "(\<And>a. yields I P (f a)) \<Longrightarrow> yields I P (ebind m f)"
  by (rule yields_reads [OF assms], rule yields_bind [OF yields_reads [OF assms]])

lemmas yields_reading [yields_intros] = reads_session [THEN yields_leaf(1)] reads_session [THEN yields_leaf(2)]
  reads_gets [THEN yields_leaf(1)] reads_gets [THEN yields_leaf(2)]
  reads_repo(5-7) [THEN yields_leaf(1)] reads_repo(5-7) [THEN yields_leaf(2)]

lemma yields_scalar [yields_intros]:
  "(\<And>x. (\<And>r. x = Some r \<Longrightarrow> r \<in> set rs) \<Longrightarrow> yields I P (f x)) \<Longrightarrow> yields I P (ebind (scalar_one_or_none rs) f)"
  "(\<And>x. (\<And>r. x = Some r \<Longrightarrow> r \<in> set rs) \<Longrightarrow> Q x) \<Longrightarrow> yields I Q (scalar_one_or_none rs)"
  by (cases rs rule: scalar_one_or_none.cases; auto intro: yields_intros)+

section \<open>A workspace's rows\<close>

definition workspace_model :: "tenant_row model" where
  "workspace_model = \<lparr>m_rows = tenants, m_upd = (\<lambda>f d. d\<lparr>tenants := f (tenants d)\<rparr>), m_id = ten_id,
     m_tenant = ten_id, m_touch = (\<lambda>n r. r\<lparr>ten_updated_at := n\<rparr>), m_columns = tenant_columns,
     m_default_sort = ''created_at''\<rparr>"

definition member_model :: "membership_row model" where
  "member_model = \<lparr>m_rows = tenant_memberships, m_upd = (\<lambda>f d. d\<lparr>tenant_memberships := f (tenant_memberships d)\<rparr>),
     m_id = mem_id, m_tenant = mem_tenant_id, m_touch = (\<lambda>n r. r\<lparr>mem_updated_at := n\<rparr>),
     m_columns = membership_columns, m_default_sort = ''created_at''\<rparr>"

lemma workspace_model_simps [simp]:
  "m_rows workspace_model = tenants" "m_upd workspace_model = (\<lambda>f d. d\<lparr>tenants := f (tenants d)\<rparr>)"
  "m_id workspace_model = ten_id" "m_tenant workspace_model = ten_id"
  "m_touch workspace_model = (\<lambda>n r. r\<lparr>ten_updated_at := n\<rparr>)"
  by (simp_all add: workspace_model_def)

lemma member_model_simps [simp]:
  "m_rows member_model = tenant_memberships"
  "m_upd member_model = (\<lambda>f d. d\<lparr>tenant_memberships := f (tenant_memberships d)\<rparr>)"
  "m_id member_model = mem_id" "m_tenant member_model = mem_tenant_id"
  "m_touch member_model = (\<lambda>n r. r\<lparr>mem_updated_at := n\<rparr>)"
  by (simp_all add: member_model_def)

text \<open>The rows of workspace \<open>u\<close> are those of \<open>F\<close>, and no other row has the key of one of them.\<close>

definition clean :: "'r model \<Rightarrow> nat \<Rightarrow> db \<Rightarrow> nat \<Rightarrow> db \<Rightarrow> bool" where
  "clean m u F n d =
     (filter (\<lambda>r. m_tenant m r = u) (m_rows m d) = m_rows m F
      \<and> (\<forall>r\<in>set (m_rows m d). m_tenant m r \<noteq> u \<longrightarrow> m_id m r \<notin> m_id m ` set (m_rows m F))
      \<and> (\<forall>r\<in>set (m_rows m F). m_id m r < n))"

definition outside :: "'r model \<Rightarrow> nat \<Rightarrow> db \<Rightarrow> 'r \<Rightarrow> bool" where
  "outside m u F r = (m_tenant m r \<noteq> u \<and> m_id m r \<notin> m_id m ` set (m_rows m F))"

text \<open>No row refers to one of another workspace.\<close>

definition self_contained :: "db \<Rightarrow> bool" where
  "self_contained F =
     ((\<forall>c\<in>set (campaigns F). cmp_client_website_id c \<in> web_id ` set (client_websites F))
      \<and> (\<forall>x\<in>set (opportunities F). opp_campaign_id x \<in> cmp_id ` set (campaigns F)
           \<and> opp_publisher_id x \<in> pub_id ` set (publishers F))
      \<and> (\<forall>s\<in>set (submissions F). sub_campaign_id s \<in> cmp_id ` set (campaigns F)
           \<and> sub_opportunity_id s \<in> opp_id ` set (opportunities F))
      \<and> (\<forall>c\<in>set (generated_contents F). con_opportunity_id c \<in> opp_id ` set (opportunities F))
      \<and> (\<forall>r\<in>set (discovery_runs F). case run_campaign_id r of None \<Rightarrow> True | Some c \<Rightarrow> c \<in> cmp_id ` set (campaigns F))
      \<and> (\<forall>g\<in>set (role_permissions F). rp_role_id g \<in> role_id ` set (roles F))
      \<and> (\<forall>a\<in>set (membership_roles F). mr_role_id a \<in> role_id ` set (roles F)
           \<and> mr_membership_id a \<in> mem_id ` set (tenant_memberships F)))"

definition spared :: "nat \<Rightarrow> db \<Rightarrow> nat \<Rightarrow> db \<Rightarrow> bool" where
  "spared u F n d =
     (self_contained F \<and> clean workspace_model u F n d \<and> clean member_model u F n d \<and> clean role_model u F n d
      \<and> clean role_permission_model u F n d \<and> clean membership_role_model u F n d
      \<and> clean client_website_model u F n d \<and> clean campaign_model u F n d \<and> clean publisher_model u F n d
      \<and> clean discovery_run_model u F n d \<and> clean opportunity_model u F n d \<and> clean submission_model u F n d
      \<and> clean content_model u F n d \<and> clean audit_model u F n d \<and> clean job_model u F n d
      \<and> clean credential_model u F n d \<and> clean ai_config_model u F n d \<and> clean ai_usage_model u F n d
      \<and> clean idempotency_model u F n d)"

definition grown :: "db \<Rightarrow> db \<Rightarrow> bool" where
  "grown d e = (\<exists>xs. audit_logs e = audit_logs d @ xs)"

text \<open>The invariant of a unit of work bound to another workspace.\<close>

definition safe :: "nat \<Rightarrow> db \<Rightarrow> db \<Rightarrow> world \<Rightarrow> bool" where
  "safe u F C w =
     (w_tenant w \<noteq> Some u \<and> w_committed w = C \<and> spared u F (w_next w) C \<and> spared u F (w_next w) (w_db w)
      \<and> grown C (w_db w))"

lemma clean_later: "clean m u F n d \<Longrightarrow> n \<le> k \<Longrightarrow> clean m u F k d"
  by (auto simp: clean_def)

lemma spared_later: "spared u F n d \<Longrightarrow> n \<le> k \<Longrightarrow> spared u F k d"
  by (auto simp: spared_def elim!: clean_later)

lemma clean_append:
  assumes "clean m u F n d" and "m_tenant m r \<noteq> u" and "n \<le> m_id m r" and "m_rows m e = m_rows m d @ [r]"
  shows "clean m u F n e"
proof -
  have "m_id m r \<notin> m_id m ` set (m_rows m F)" using assms(1,3) by (auto simp: clean_def)
  then show ?thesis using assms(1,2) by (auto simp: clean_def assms(4))
qed

lemma clean_mine:
  assumes "clean m u F n d" and "x \<in> set (m_rows m d)" and "m_tenant m x = u"
  shows "x \<in> set (m_rows m F)"
proof -
  have "x \<in> set (filter (\<lambda>r. m_tenant m r = u) (m_rows m d))" using assms(2,3) by simp
  then show ?thesis using assms(1) by (simp only: clean_def)
qed

lemma clean_owner:
  assumes "clean m u F n d" and "x \<in> set (m_rows m F)"
  shows "m_tenant m x = u"
proof -
  have "m_rows m F = filter (\<lambda>r. m_tenant m r = u) (m_rows m d)" using assms(1) by (simp add: clean_def)
  then have "x \<in> set (filter (\<lambda>r. m_tenant m r = u) (m_rows m d))" using assms(2) by simp
  then show ?thesis by simp
qed

lemma clean_foreign:
  assumes "clean m u F n d" and "x \<in> set (m_rows m d)" and "m_tenant m x \<noteq> u"
  shows "outside m u F x"
  using assms by (auto simp: clean_def outside_def)

lemma clean_put:
  assumes "clean m u F n d" and "outside m u F r" and "m_rows m e = row_put (m_id m) r (m_rows m d)"
  shows "clean m u F n e"
proof -
  have "filter (\<lambda>r. m_tenant m r = u) (row_put (m_id m) r rows) = filter (\<lambda>r. m_tenant m r = u) rows"
    if "\<forall>x\<in>set rows. m_tenant m x = u \<longrightarrow> m_id m x \<noteq> m_id m r" for rows
    using that assms(2) by (induction rows) (auto simp: row_put_def outside_def)
  moreover have "\<forall>x\<in>set (m_rows m d). m_tenant m x = u \<longrightarrow> m_id m x \<noteq> m_id m r"
    using clean_mine [OF assms(1)] assms(2) unfolding outside_def by (metis imageI)
  ultimately show ?thesis using assms by (auto simp: clean_def row_put_def outside_def split: if_splits)
qed

lemma clean_filter:
  assumes "clean m u F n d" and "\<And>r. r \<in> set (m_rows m F) \<Longrightarrow> Q r" and "m_rows m e = filter Q (m_rows m d)"
  shows "clean m u F n e"
proof -
  have eq: "filter (\<lambda>r. m_tenant m r = u) (m_rows m d) = m_rows m F" using assms(1) by (simp add: clean_def)
  have "filter (\<lambda>r. m_tenant m r = u) (filter Q (m_rows m d)) = filter Q (filter (\<lambda>r. m_tenant m r = u) (m_rows m d))"
    by (simp add: conj_commute)
  then have "filter (\<lambda>r. m_tenant m r = u) (m_rows m e) = m_rows m F"
    using assms(2) unfolding assms(3) eq by (simp add: filter_id_conv)
  then show ?thesis using assms(1,3) by (auto simp: clean_def)
qed

section \<open>Tables of the workspace\<close>

locale spared_table = tenant_table m for m :: "'r model" +
  assumes part: "spared u F n d \<Longrightarrow> clean m u F n d"
    and upd: "spared u F n d \<Longrightarrow> clean m u F n (m_upd m g d) \<Longrightarrow> spared u F n (m_upd m g d)"
    and trail: "audit_logs (m_upd m g d) = audit_logs d"
begin

lemma safe_upd:
  assumes "safe u F C w" and "clean m u F (w_next w) (m_upd m g (w_db w))"
  shows "safe u F C (w\<lparr>w_db := m_upd m g (w_db w)\<rparr>)"
  using assms upd by (simp add: safe_def grown_def trail)

lemma safe_part: "safe u F C w \<Longrightarrow> clean m u F (w_next w) (w_db w)"
  unfolding safe_def by (blast intro: part)

lemma own_rows:
  assumes "safe u F C w" and "w_tenant w = Some t" and "r \<in> set (tenant_rows m t (w_db w))"
  shows "outside m u F r"
proof -
  from safe_part [OF assms(1)] show ?thesis using assms by (auto simp: safe_def clean_def outside_def tenant_rows_def)
qed

lemma yields_where: "yields (safe u F C) (list_all (outside m u F)) (repo_where m p)"
  by (intro yieldsI) (auto simp: wp_where list_all_iff own_rows split: option.split)

lemma yields_get: "yields (safe u F C) (\<lambda>x. \<forall>r. x = Some r \<longrightarrow> outside m u F r) (repo_get m i)"
  unfolding repo_get_def
  by (rule yields_bind [OF yields_where]) (auto simp: list_all_iff intro!: yields_scalar)

lemma yields_get_or_raise: "yields (safe u F C) (outside m u F) (repo_get_or_raise m res i)"
  unfolding repo_get_or_raise_def
  by (rule yields_bind [OF yields_get]) (auto intro!: yields_intros)

lemma yields_save:
  assumes "outside m u F r"
  shows "yields (safe u F C) (\<lambda>_. True) (repo_save m r)"
proof (intro yieldsI, unfold wp_save, simp)
  fix w assume w: "safe u F C w"
  have "outside m u F (m_touch m (w_now w) r)" using assms by (simp add: outside_def touch_id touch_tenant)
  then have "clean m u F (w_next w) (m_upd m (row_put (m_id m) (m_touch m (w_now w) r)) (w_db w))"
    by (rule clean_put [OF safe_part [OF w]]) (rule rows_upd)
  then show "safe u F C (w\<lparr>w_db := m_upd m (row_put (m_id m) (m_touch m (w_now w) r)) (w_db w)\<rparr>)"
    using w by (rule safe_upd [rotated])
qed

lemma yields_delete:
  assumes "outside m u F r"
  shows "yields (safe u F C) (\<lambda>_. True) (repo_delete m r)"
proof (intro yieldsI, unfold wp_delete, simp)
  fix w assume w: "safe u F C w"
  have "clean m u F (w_next w) (m_upd m (row_drop (m_id m) (m_id m r)) (w_db w))"
  proof (rule clean_filter [OF safe_part [OF w], of "\<lambda>x. m_id m x \<noteq> m_id m r"])
    show "m_id m x \<noteq> m_id m r" if "x \<in> set (m_rows m F)" for x
      using assms that unfolding outside_def by (metis imageI)
  qed (simp add: rows_upd row_drop_def)
  then show "safe u F C (w\<lparr>w_db := m_upd m (row_drop (m_id m) (m_id m r)) (w_db w)\<rparr>)"
    using w by (rule safe_upd [rotated])
qed

lemma yields_new:
  assumes "\<And>i t n. m_id m (mk i t n) = i" and "\<And>i t n. m_tenant m (mk i t n) = t"
  shows "yields (safe u F C) (outside m u F) (repo_new m mk)"
proof (intro yieldsI)
  fix w assume w: "safe u F C w"
  show "wp (repo_new m mk) (\<lambda>a t. safe u F C t \<and> outside m u F a) (\<lambda>_. safe u F C) w"
  proof (cases "w_tenant w")
    case (Some t)
    let ?r = "mk (w_next w) t (w_now w)"
    let ?d = "m_upd m (\<lambda>rows. rows @ [?r]) (w_db w)"
    have t: "t \<noteq> u" using w Some by (simp add: safe_def)
    have c: "clean m u F (w_next w) (w_db w)" using w by (rule safe_part)
    then have "clean m u F (w_next w) ?d"
      by (rule clean_append [where r = ?r]) (simp_all add: assms t rows_upd)
    then have "safe u F C (w\<lparr>w_db := ?d\<rparr>)" using w by (rule safe_upd [rotated])
    then have "safe u F C (w\<lparr>w_next := Suc (w_next w), w_db := ?d\<rparr>)"
      by (auto simp: safe_def elim: spared_later)
    moreover have "outside m u F ?r" using c t by (auto simp: outside_def clean_def assms)
    ultimately show ?thesis using Some by (simp add: wp_new)
  qed (simp add: wp_new w)
qed

lemma yields_append:
  assumes "outside m u F r"
  shows "yields (safe u F C) (\<lambda>_. True) (change_db (m_upd m (\<lambda>rows. rows @ [r])))"
proof (intro yieldsI, unfold wp_change_db, simp)
  fix w assume w: "safe u F C w"
  have "clean m u F (w_next w) (m_upd m (\<lambda>rows. rows @ [r]) (w_db w))"
    using safe_part [OF w] assms by (auto simp: clean_def outside_def rows_upd)
  then show "safe u F C (w\<lparr>w_db := m_upd m (\<lambda>rows. rows @ [r]) (w_db w)\<rparr>)" using w by (rule safe_upd [rotated])
qed

lemma yields_filter:
  assumes "\<And>r. m_tenant m r = u \<Longrightarrow> Q r"
  shows "yields (safe u F C) (\<lambda>_. True) (change_db (m_upd m (filter Q)))"
proof (intro yieldsI, unfold wp_change_db, simp)
  fix w assume w: "safe u F C w"
  have "m_tenant m r = u" if "r \<in> set (m_rows m F)" for r
    using safe_part [OF w] that by (rule clean_owner)
  then have "clean m u F (w_next w) (m_upd m (filter Q) (w_db w))"
    using assms by (intro clean_filter [OF safe_part [OF w], of Q]) (auto simp: rows_upd)
  then show "safe u F C (w\<lparr>w_db := m_upd m (filter Q) (w_db w)\<rparr>)" using w by (rule safe_upd [rotated])
qed

lemma yields_fresh_key:
  assumes "\<And>i. i \<notin> m_id m ` set (m_rows m F) \<Longrightarrow> yields (safe u F C) P (f i)"
  shows "yields (safe u F C) P (ebind fresh_id f)"
proof (rule yields_bind [OF _ assms])
  show "yields (safe u F C) (\<lambda>i. i \<notin> m_id m ` set (m_rows m F)) fresh_id"
  proof (intro yieldsI)
    fix w assume w: "safe u F C w"
    have "w_next w \<notin> m_id m ` set (m_rows m F)" using safe_part [OF w] by (auto simp: clean_def)
    then show "wp fresh_id (\<lambda>a t. safe u F C t \<and> a \<notin> m_id m ` set (m_rows m F)) (\<lambda>_. safe u F C) w"
      using w by (auto simp: wp_simps safe_def elim: spared_later)
  qed
qed

lemmas binds =
  yields_bind [OF yields_where] yields_bind [OF yields_get] yields_bind [OF yields_get_or_raise]
  yields_bind [OF yields_save, rotated] yields_bind [OF yields_delete, rotated] yields_bind [OF yields_new, rotated 2]

end

interpretation workspace_table: tenant_table workspace_model
  by unfold_locales simp_all

interpretation member_table: tenant_table member_model
  by unfold_locales simp_all

interpretation workspace_spared: spared_table workspace_model
  by unfold_locales (simp_all add: spared_def clean_def)

interpretation member_spared: spared_table member_model
  by unfold_locales (simp_all add: spared_def clean_def)

interpretation role_spared: spared_table role_model
  by unfold_locales (simp_all add: spared_def clean_def)

interpretation role_permission_spared: spared_table role_permission_model
  by unfold_locales (simp_all add: spared_def clean_def)

interpretation membership_role_spared: spared_table membership_role_model
  by unfold_locales (simp_all add: spared_def clean_def)

interpretation client_website_spared: spared_table client_website_model
  by unfold_locales (simp_all add: spared_def clean_def)

interpretation campaign_spared: spared_table campaign_model
  by unfold_locales (simp_all add: spared_def clean_def)

interpretation publisher_spared: spared_table publisher_model
  by unfold_locales (simp_all add: spared_def clean_def)

interpretation discovery_run_spared: spared_table discovery_run_model
  by unfold_locales (simp_all add: spared_def clean_def)

interpretation opportunity_spared: spared_table opportunity_model
  by unfold_locales (simp_all add: spared_def clean_def)

interpretation submission_spared: spared_table submission_model
  by unfold_locales (simp_all add: spared_def clean_def)

interpretation content_spared: spared_table content_model
  by unfold_locales (simp_all add: spared_def clean_def)

interpretation job_spared: spared_table job_model
  by unfold_locales (simp_all add: spared_def clean_def)

interpretation credential_spared: spared_table credential_model
  by unfold_locales (simp_all add: spared_def clean_def)

interpretation ai_config_spared: spared_table ai_config_model
  by unfold_locales (simp_all add: spared_def clean_def)

interpretation ai_usage_spared: spared_table ai_usage_model
  by unfold_locales (simp_all add: spared_def clean_def)

interpretation idempotency_spared: spared_table idempotency_model
  by unfold_locales (simp_all add: spared_def clean_def)

lemmas yields_tables [yields_intros] =
  workspace_spared.binds
  member_spared.binds
  role_spared.binds
  role_permission_spared.binds
  membership_role_spared.binds
  client_website_spared.binds
  campaign_spared.binds
  publisher_spared.binds
  discovery_run_spared.binds
  opportunity_spared.binds
  submission_spared.binds
  content_spared.binds
  job_spared.binds
  credential_spared.binds
  ai_config_spared.binds
  ai_usage_spared.binds
  idempotency_spared.binds

section \<open>The session and the audit trail\<close>

lemma yields_fresh [yields_intros]:
  "(\<And>i. yields (safe u F C) P (f i)) \<Longrightarrow> yields (safe u F C) P (ebind fresh_id f)"
proof (rule yields_bind [of _ "\<lambda>_. True"])
  show "yields (safe u F C) (\<lambda>_. True) fresh_id"
    by (intro yieldsI) (auto simp: wp_simps safe_def elim: spared_later)
qed

lemma yields_flush:
  "yields (safe u F C) (\<lambda>_. True) (flush_check ok c)"
  by (intro yieldsI) (simp add: wp_simps safe_def grown_def)

lemma yields_audit:
  "yields (safe u F C) (\<lambda>_. True) (audit_record a rt ri md v)"
proof (intro yieldsI)
  fix w assume w: "safe u F C w"
  show "wp (audit_record a rt ri md v) (\<lambda>_ t. safe u F C t \<and> True) (\<lambda>_. safe u F C) w"
  proof (cases "w_tenant w")
    case (Some t)
    let ?r = "audit_entry a rt ri md v (w_ctx w) (w_next w) t (w_now w)"
    let ?d = "w_db w\<lparr>audit_logs := audit_logs (w_db w) @ [?r]\<rparr>"
    have s: "spared u F (w_next w) (w_db w)" and t: "t \<noteq> u" using w Some by (auto simp: safe_def)
    have "clean audit_model u F (w_next w) ?d"
      by (rule clean_append [where d = "w_db w" and r = ?r]) (use s t in \<open>simp_all add: spared_def audit_entry_def\<close>)
    then have "spared u F (w_next w) ?d" using s by (simp add: spared_def clean_def)
    then have "spared u F (Suc (w_next w)) ?d" by (rule spared_later) simp
    moreover have "spared u F (Suc (w_next w)) C" using w by (auto simp: safe_def elim: spared_later)
    moreover have "grown C ?d" using w by (auto simp: safe_def grown_def)
    ultimately show ?thesis using w Some by (simp add: wp_audit_record safe_def Let_def)
  qed (simp add: wp_audit_record w)
qed

lemma yields_audit_on: "yields (safe u F C) (\<lambda>_. True) (audit_on a rt i md)"
  unfolding audit_on_def by (rule yields_bind [OF yields_audit]) (simp add: yields_basic)

lemmas yields_session [yields_intros] = yields_flush yields_audit yields_audit_on
  yields_bind [OF yields_flush] yields_bind [OF yields_audit] yields_bind [OF yields_audit_on]

lemma yields_tenant_id:
  "(\<And>t. t \<noteq> u \<Longrightarrow> yields (safe u F C) P (f t)) \<Longrightarrow> yields (safe u F C) P (ebind require_tenant_id f)"
proof (rule yields_bind [of _ "\<lambda>t. t \<noteq> u"])
  show "yields (safe u F C) (\<lambda>t. t \<noteq> u) require_tenant_id"
    by (intro yieldsI) (auto simp: wp_simps safe_def split: option.split)
qed

lemma yields_drop:
  assumes "\<And>d n. spared u F n d \<Longrightarrow> spared u F n (g d) \<and> audit_logs (g d) = audit_logs d"
  shows "yields (safe u F C) (\<lambda>_. True) (change_db g)"
  by (intro yieldsI) (use assms in \<open>auto simp: wp_simps safe_def grown_def\<close>)

section \<open>Cascades\<close>

definition only_outside :: "'r model \<Rightarrow> db \<Rightarrow> ('r \<Rightarrow> bool) \<Rightarrow> bool" where
  "only_outside m F P = (\<forall>r\<in>set (m_rows m F). \<not> P r)"

text \<open>What a deletion by keys takes along leaves the workspace alone if the keys are not its own.\<close>

lemma clean_dropped:
  assumes "clean m u F n d" and "only_outside m F P" and "m_rows m e = filter (\<lambda>x. \<not> P x) (m_rows m d)"
  shows "clean m u F n e"
  using clean_filter [OF assms(1), of "\<lambda>x. \<not> P x"] assms(2,3) by (simp add: only_outside_def)

lemma gone_outside:
  assumes "clean m u F n d" and "only_outside m F P" and "i \<in> m_id m ` set (m_rows m F)"
  shows "i \<notin> set (map (m_id m) (filter P (m_rows m d)))"
proof
  assume "i \<in> set (map (m_id m) (filter P (m_rows m d)))"
  then obtain r where r: "r \<in> set (m_rows m d)" "P r" "m_id m r = i" by auto
  show False
  proof (cases "m_tenant m r = u")
    case True
    then show ?thesis using clean_mine [OF assms(1) r(1)] r(2) assms(2) by (simp add: only_outside_def)
  next
    case False
    then show ?thesis using assms(1,3) r by (auto simp: clean_def)
  qed
qed

lemma spared_drop_opportunities:
  assumes "spared u F n d" and "only_outside opportunity_model F P"
  shows "spared u F n (drop_opportunities P d)"
proof -
  let ?gone = "set (map opp_id (filter P (opportunities d)))"
  have c: "clean opportunity_model u F n d" "clean submission_model u F n d" "clean content_model u F n d"
    using assms(1) by (simp_all add: spared_def)
  have kept: "i \<notin> ?gone" if "i \<in> opp_id ` set (opportunities F)" for i
    using gone_outside [OF c(1) assms(2)] that by simp
  have s: "only_outside submission_model F (\<lambda>s. sub_opportunity_id s \<in> ?gone)"
    "only_outside content_model F (\<lambda>s. con_opportunity_id s \<in> ?gone)"
    using assms(1) kept by (auto simp only: spared_def self_contained_def only_outside_def submission_model_simps content_model_simps)
  have "clean opportunity_model u F n (drop_opportunities P d)"
    by (rule clean_dropped [OF c(1) assms(2)]) (simp add: drop_opportunities_def Let_def)
  moreover have "clean submission_model u F n (drop_opportunities P d)"
    by (rule clean_dropped [OF c(2) s(1)]) (simp add: drop_opportunities_def Let_def)
  moreover have "clean content_model u F n (drop_opportunities P d)"
    by (rule clean_dropped [OF c(3) s(2)]) (simp add: drop_opportunities_def Let_def)
  ultimately show ?thesis using assms(1)
    by (simp add: spared_def clean_def drop_opportunities_def Let_def)
qed

lemma spared_drop_publishers:
  assumes "spared u F n d" and "only_outside publisher_model F P"
  shows "spared u F n (drop_publishers P d)"
proof -
  let ?gone = "set (map pub_id (filter P (publishers d)))"
  let ?e = "drop_opportunities (\<lambda>x. opp_publisher_id x \<in> ?gone) d"
  have c: "clean publisher_model u F n d" using assms(1) by (simp add: spared_def)
  have "i \<notin> ?gone" if "i \<in> pub_id ` set (publishers F)" for i
    using gone_outside [OF c assms(2)] that by simp
  then have "only_outside opportunity_model F (\<lambda>x. opp_publisher_id x \<in> ?gone)"
    using assms(1) by (auto simp only: spared_def self_contained_def only_outside_def opportunity_model_simps)
  then have e: "spared u F n ?e" by (rule spared_drop_opportunities [OF assms(1)])
  have "clean publisher_model u F n (?e\<lparr>publishers := filter (\<lambda>x. \<not> P x) (publishers ?e)\<rparr>)"
    by (rule clean_dropped [OF c assms(2)]) simp
  then have "spared u F n (?e\<lparr>publishers := filter (\<lambda>x. \<not> P x) (publishers ?e)\<rparr>)"
    using e by (simp add: spared_def clean_def)
  then show ?thesis by (simp add: drop_publishers_def Let_def)
qed

lemma clean_clear_campaign:
  assumes "clean discovery_run_model u F n d" and "\<forall>r\<in>set (discovery_runs F). clear_campaign gone r = r"
    and "discovery_runs e = map (clear_campaign gone) (discovery_runs d)"
  shows "clean discovery_run_model u F n e"
proof -
  have keys: "run_tenant_id (clear_campaign gone r) = run_tenant_id r \<and> run_id (clear_campaign gone r) = run_id r" for r
    by (simp add: clear_campaign_def split: option.split)
  have "filter (\<lambda>r. run_tenant_id r = u) (map (clear_campaign gone) rows)
      = map (clear_campaign gone) (filter (\<lambda>r. run_tenant_id r = u) rows)" for rows
    by (induction rows) (simp_all add: keys)
  moreover have "filter (\<lambda>r. run_tenant_id r = u) (discovery_runs d) = discovery_runs F"
    using assms(1) by (simp add: clean_def)
  ultimately have "filter (\<lambda>r. run_tenant_id r = u) (discovery_runs e) = discovery_runs F"
    using assms(2) by (simp add: assms(3) map_idI)
  then show ?thesis using assms(1) by (auto simp: clean_def keys assms(3))
qed

lemma spared_drop_campaigns:
  assumes "spared u F n d" and "only_outside campaign_model F P"
  shows "spared u F n (drop_campaigns P d)"
proof -
  let ?gone = "map cmp_id (filter P (campaigns d))"
  let ?e = "drop_opportunities (\<lambda>x. opp_campaign_id x \<in> set ?gone) d"
  have c: "clean campaign_model u F n d" using assms(1) by (simp add: spared_def)
  have kept: "i \<notin> set ?gone" if "i \<in> cmp_id ` set (campaigns F)" for i
    using gone_outside [OF c assms(2)] that by simp
  have refs: "only_outside opportunity_model F (\<lambda>x. opp_campaign_id x \<in> set ?gone)"
    "only_outside submission_model F (\<lambda>x. sub_campaign_id x \<in> set ?gone)"
    using assms(1) kept
    by (auto simp only: spared_def self_contained_def only_outside_def opportunity_model_simps submission_model_simps)
  have runs: "clear_campaign ?gone r = r" if r: "r \<in> set (discovery_runs F)" for r
  proof (cases "run_campaign_id r")
    case (Some i)
    then have "i \<in> cmp_id ` set (campaigns F)"
      using assms(1) r by (auto simp only: spared_def self_contained_def option.case dest!: bspec [OF _ r])
    then show ?thesis using kept Some by (simp only: clear_campaign_def option.case if_False simp_thms)
  qed (simp add: clear_campaign_def)
  have e: "spared u F n ?e" using assms(1) refs(1) by (rule spared_drop_opportunities)
  let ?f = "?e\<lparr>campaigns := filter (\<lambda>x. \<not> P x) (campaigns ?e),
      submissions := filter (\<lambda>s. sub_campaign_id s \<notin> set ?gone) (submissions ?e),
      discovery_runs := map (clear_campaign ?gone) (discovery_runs ?e)\<rparr>"
  have "clean campaign_model u F n ?f" by (rule clean_dropped [OF c assms(2)]) simp
  moreover have "clean submission_model u F n ?f"
    by (rule clean_dropped [where d = ?e, OF _ refs(2)]) (use e in \<open>simp_all add: spared_def\<close>)
  moreover have "clean discovery_run_model u F n ?f"
    by (rule clean_clear_campaign [where d = ?e and gone = ?gone]) (use e runs in \<open>simp_all add: spared_def\<close>)
  ultimately have "spared u F n ?f" using e by (simp add: spared_def clean_def)
  then show ?thesis by (simp add: drop_campaigns_def Let_def)
qed

lemma spared_drop_websites:
  assumes "spared u F n d" and "only_outside client_website_model F P"
  shows "spared u F n (drop_websites P d)"
proof -
  let ?gone = "set (map web_id (filter P (client_websites d)))"
  let ?e = "drop_campaigns (\<lambda>x. cmp_client_website_id x \<in> ?gone) d"
  have c: "clean client_website_model u F n d" using assms(1) by (simp add: spared_def)
  have "i \<notin> ?gone" if "i \<in> web_id ` set (client_websites F)" for i
    using gone_outside [OF c assms(2)] that by simp
  then have "only_outside campaign_model F (\<lambda>x. cmp_client_website_id x \<in> ?gone)"
    using assms(1) by (auto simp only: spared_def self_contained_def only_outside_def campaign_model_simps)
  then have e: "spared u F n ?e" by (rule spared_drop_campaigns [OF assms(1)])
  have "client_websites ?e = client_websites d" by (simp add: drop_campaigns_def Let_def)
  then have "clean client_website_model u F n (?e\<lparr>client_websites := filter (\<lambda>x. \<not> P x) (client_websites ?e)\<rparr>)"
    by (intro clean_dropped [OF c assms(2)]) simp
  then have "spared u F n (?e\<lparr>client_websites := filter (\<lambda>x. \<not> P x) (client_websites ?e)\<rparr>)"
    using e by (simp add: spared_def clean_def)
  then show ?thesis by (simp add: drop_websites_def Let_def)
qed

lemma outside_key: "outside m u F r \<Longrightarrow> only_outside m F (\<lambda>x. m_id m x = m_id m r)"
  unfolding outside_def only_outside_def by (metis imageI)

lemma drops_keep_trail [simp]:
  "audit_logs (drop_opportunities p1 d) = audit_logs d" "audit_logs (drop_publishers p2 d) = audit_logs d"
  "audit_logs (drop_campaigns p3 d) = audit_logs d" "audit_logs (drop_websites p4 d) = audit_logs d"
  by (simp_all add: drop_opportunities_def drop_publishers_def drop_campaigns_def drop_websites_def Let_def)

lemma yields_cascades:
  "outside opportunity_model u F x1 \<Longrightarrow>
   yields (safe u F C) (\<lambda>_. True) (change_db (drop_opportunities (\<lambda>x. opp_id x = opp_id x1)))"
  "outside publisher_model u F x2 \<Longrightarrow>
   yields (safe u F C) (\<lambda>_. True) (change_db (drop_publishers (\<lambda>x. pub_id x = pub_id x2)))"
  "outside campaign_model u F x3 \<Longrightarrow>
   yields (safe u F C) (\<lambda>_. True) (change_db (drop_campaigns (\<lambda>x. cmp_id x = cmp_id x3)))"
  "outside client_website_model u F x4 \<Longrightarrow>
   yields (safe u F C) (\<lambda>_. True) (change_db (drop_websites (\<lambda>x. web_id x = web_id x4)))"
  using outside_key [of opportunity_model u F x1] outside_key [of publisher_model u F x2]
    outside_key [of campaign_model u F x3] outside_key [of client_website_model u F x4]
  by (auto intro!: yields_drop spared_drop_opportunities spared_drop_publishers spared_drop_campaigns
      spared_drop_websites)

lemmas yields_cascade_binds [yields_intros] = yields_cascades [THEN yields_bind]

end
