(* ===== verification/IsolationOps.thy ===== *)
theory IsolationOps
  imports Isolation PortfolioTree TenantOwners ApiProperties
begin

text \<open>
  Every operation of the services, run for one workspace, spares the others: the rules of \<open>Isolation\<close>
  applied to each.
\<close>

section \<open>Keys that an update keeps\<close>

lemma outside_same: "outside m u F r \<Longrightarrow> m_id m x = m_id m r \<Longrightarrow> m_tenant m x = m_tenant m r \<Longrightarrow> outside m u F x"
  by (simp add: outside_def)

lemma outside_edit [simp]:
  "outside client_website_model u F (fst (edit_website u1 x1)) = outside client_website_model u F x1"
  "outside campaign_model u F (fst (edit_campaign u2 x2)) = outside campaign_model u F x2"
  "outside publisher_model u F (fst (edit_publisher u3 x3)) = outside publisher_model u F x3"
  "outside opportunity_model u F (fst (edit_opportunity u4 x4)) = outside opportunity_model u F x4"
  using edit_kin(1) [of u1 x1] edit_kin(2) [of u2 x2] edit_kin(3) [of u3 x3] edit_kin(4) [of u4 x4]
  by (simp_all add: outside_def website_kin_def campaign_kin_def publisher_kin_def opportunity_kin_def)

lemma apply_update_keys [simp]:
  "sub_id (fst (send_back (apply_update v s))) = sub_id s"
  "sub_tenant_id (fst (send_back (apply_update v s))) = sub_tenant_id s"
  using apply_update_row [of v s]
  by (simp_all add: send_back_def clear_approval_def sub_key_def case_prod_beta)

section \<open>Submissions\<close>

lemmas submission_reads = reads_repo reads_scalar_one_or_none

lemma reads_submission_steps:
  "reads (get_live_for_opportunity i)" "reads (resolve_content p x)" "reads (verification_evidence sv rq s)"
  "reads (enforce_submission_free_only i)"
  unfolding get_live_for_opportunity_def resolve_content_def get_approved_for_opportunity_def
    verification_evidence_def Let_def enforce_submission_free_only_def
  by (intro reads_intros)+

lemmas yields_submission_steps [yields_intros] = reads_submission_steps [THEN yields_leaf(2)]

lemma yields_pair: "yields (safe u F C) (\<lambda>x. \<forall>a b. x = Some (a, b) \<longrightarrow> outside opportunity_model u F a) (get_with_publisher i)"
  unfolding get_with_publisher_def
  by (rule yields_bind [OF opportunity_spared.yields_where], intro yields_intros) (auto simp: list_all_iff)

lemma yields_load_pair: "yields (safe u F C) (\<lambda>x. outside opportunity_model u F (fst x)) (load_pair i)"
  unfolding load_pair_def by (rule yields_bind [OF yields_pair], intro yields_intros) auto

lemma yields_assert_free: "yields (safe u F C) (\<lambda>_. True) (assert_free p x)"
  unfolding assert_free_def ethen_def by (intro yields_intros) simp_all

lemma yields_get_submission: "yields (safe u F C) (outside submission_model u F) (get_submission i)"
  unfolding get_submission_def by (rule submission_spared.yields_get_or_raise)

lemmas submission_binds [yields_intros] = yields_load_pair [THEN yields_bind] yields_get_submission [THEN yields_bind]
  yields_assert_free [THEN yields_bind]

lemmas submission_steps = ethen_def Let_def flush_submissions_def save_submission_def advance_opportunity_def

lemma yields_create_submission: "yields (safe u F C) (outside submission_model u F) (create_submission p)"
  unfolding create_submission_def submission_steps
  by (intro yields_intros) (auto simp: new_submission_def split: prod.split)

lemma yields_update_submission: "yields (safe u F C) (\<lambda>_. True) (update_submission i v)"
  unfolding update_submission_def submission_steps by (intro yields_intros) (auto simp: outside_def)

lemma yields_transition_submission: "yields (safe u F C) (\<lambda>_. True) (transition_submission i target reason)"
  unfolding transition_submission_def submission_steps by (intro yields_intros) (auto simp: outside_def)

lemma yields_prepare_for_review: "yields (safe u F C) (\<lambda>_. True) (prepare_for_review i)"
  unfolding prepare_for_review_def submission_steps by (intro yields_intros) (auto simp: outside_def)

lemma yields_approve_submission: "yields (safe u F C) (\<lambda>_. True) (approve_submission i approver notes)"
  unfolding approve_submission_def submission_steps by (intro yields_intros) (auto simp: outside_def)

lemma yields_delete_submission: "yields (safe u F C) (\<lambda>_. True) (delete_submission i)"
  unfolding delete_submission_def submission_steps by (intro yields_intros) (auto simp: outside_def)

lemma yields_execute_submission: "yields (safe u F C) (\<lambda>_. True) (execute_submission sv i rq)"
  unfolding execute_submission_def execute_manual_def execute_failed_def execute_sent_def submission_steps
  by (intro yields_intros) (auto simp: outside_def)

lemma yields_verify_submission: "yields (safe u F C) (\<lambda>_. True) (verify_submission sv i rq)"
  unfolding verify_submission_def record_verified_def record_unverified_def submission_steps
  by (intro yields_intros) (auto simp: outside_def)

section \<open>Opportunities and their copy\<close>

lemmas opportunity_steps = ethen_def Let_def flush_opportunities_def save_opportunity_def get_opportunity_def

lemma yields_find_duplicate: "yields (safe u F C) (\<lambda>_. True) (find_duplicate c p url)"
  unfolding find_duplicate_def by (rule yields_reads, intro reads_intros)

lemmas opportunity_binds [yields_intros] = yields_find_duplicate [THEN yields_bind]

lemma yields_create_opportunity: "yields (safe u F C) (\<lambda>_. True) (create_opportunity p)"
  unfolding create_opportunity_def assert_free_publisher_def opportunity_steps
  by (intro yields_intros) (auto simp: new_opportunity_def)

lemma yields_update_opportunity: "yields (safe u F C) (\<lambda>_. True) (update_opportunity i v)"
  unfolding update_opportunity_def opportunity_steps by (intro yields_intros) auto

lemma outside_judged [simp]:
  "outside opportunity_model u F (moved_opportunity target reason n x) = outside opportunity_model u F x"
  "outside opportunity_model u F (judged_opportunity p n x) = outside opportunity_model u F x"
  by (simp_all add: outside_def moved_opportunity_def judged_opportunity_def Let_def)

lemma yields_transition_opportunity: "yields (safe u F C) (\<lambda>_. True) (transition_opportunity i target reason)"
  unfolding transition_opportunity_def opportunity_steps by (intro yields_intros) auto

lemma yields_qualify_opportunity: "yields (safe u F C) (\<lambda>_. True) (qualify_opportunity i)"
  unfolding qualify_opportunity_def opportunity_steps by (intro yields_intros) auto

lemma yields_delete_opportunity: "yields (safe u F C) (\<lambda>_. True) (delete_opportunity i)"
  unfolding delete_opportunity_def opportunity_steps by (intro yields_intros) auto

section \<open>Client websites and campaigns\<close>

lemmas portfolio_steps = ethen_def Let_def flush_websites_def flush_campaigns_def get_website_def get_campaign_def

lemma reads_portfolio_queries: "reads (website_by_domain nd)" "reads (campaign_by_name i nm)"
  unfolding website_by_domain_def campaign_by_name_def by (intro reads_intros)+

lemmas yields_portfolio_queries [yields_intros] = reads_portfolio_queries [THEN yields_leaf(2)]

lemma yields_websites:
  "yields (safe u F C) (\<lambda>_. True) (create_website idna p1)" "yields (safe u F C) (\<lambda>_. True) (update_website i1 v1)"
  "yields (safe u F C) (\<lambda>_. True) (delete_website i2)"
  unfolding create_website_def update_website_def delete_website_def portfolio_steps
  by ((intro yields_intros; auto simp: new_website_def))+

lemma yields_campaigns:
  "yields (safe u F C) (\<lambda>_. True) (create_campaign p1)" "yields (safe u F C) (\<lambda>_. True) (update_campaign i1 v1)"
  "yields (safe u F C) (\<lambda>_. True) (delete_campaign i2)"
  unfolding create_campaign_def update_campaign_def delete_campaign_def portfolio_steps
  by ((intro yields_intros; auto simp: new_campaign_def))+

section \<open>Publishers and discovery\<close>

lemmas publisher_steps = ethen_def Let_def flush_publishers_def flush_runs_def get_publisher_def save_publisher_def
  save_run_def record_completion_def

lemma reads_publisher_lookups:
  "reads (get_by_normalized_domain nd)" "reads (existing_domains nds)" "reads (gather qf on_line p)"
  unfolding get_by_normalized_domain_def existing_domains_def gather_def by (intro reads_intros)+

lemmas yields_publisher_queries [yields_intros] = reads_publisher_lookups [THEN yields_leaf(2)]

lemma outside_result [simp]:
  "outside publisher_model u F (apply_result ws sg r snapshot n p) = outside publisher_model u F p"
  by (simp add: outside_def apply_result_def Let_def)

lemma yields_publishers:
  "yields (safe u F C) (\<lambda>_. True) (create_publisher idna p1)" "yields (safe u F C) (\<lambda>_. True) (update_publisher i1 v1)"
  "yields (safe u F C) (\<lambda>_. True) (delete_publisher i2)"
  unfolding create_publisher_def update_publisher_def delete_publisher_def publisher_steps
  by ((intro yields_intros; auto simp: new_publisher_def))+

lemma yields_qualify_publisher: "yields (safe u F C) (\<lambda>_. True) (qualify_by_id qf qo i)"
  unfolding qualify_by_id_def qualify_publisher_def publisher_steps
  by (intro yields_intros) (auto simp: outside_def apply_result_def Let_def)

lemma yields_start_run: "yields (safe u F C) (outside discovery_run_model u F) (start_run key q cid)"
  unfolding start_run_def publisher_steps by (intro yields_intros) (auto simp: new_run_def)

lemma yields_insert_new: "yields (safe u F C) (\<lambda>_. True) (insert_new rid existing seen xs)"
proof (induction xs arbitrary: seen)
  case (Cons x xs)
  then show ?case unfolding insert_new.simps ethen_def
    by (intro yields_intros yields_bind [OF Cons.IH]) (auto simp: discovered_row_def split: prod.split)
qed (simp add: yields_basic)

lemmas discovery_binds [yields_intros] = yields_insert_new [THEN yields_bind]

lemma yields_execute_run:
  assumes "outside discovery_run_model u F r"
  shows "yields (safe u F C) (\<lambda>_. True) (execute_run idna r provider q)"
proof (cases "provider q")
  case (Inl e)
  then show ?thesis using assms unfolding execute_run_def publisher_steps
    by (simp only: sum.case) ((intro yields_intros; auto simp: outside_def failed_run_def))
next
  case (Inr cs)
  then show ?thesis using assms unfolding execute_run_def materialise_def publisher_steps
    by (simp only: sum.case) ((intro yields_intros; auto simp: outside_def completed_run_def))
qed

lemma yields_get_run: "yields (safe u F C) (outside discovery_run_model u F) (get_run i)"
  unfolding get_run_def by (rule discovery_run_spared.yields_get_or_raise)

section \<open>Credentials and AI\<close>

lemmas credential_steps = ethen_def Let_def flush_credentials_def get_credential_def stored_update_def

lemma reads_credential_queries:
  "reads (get_by_provider_and_label p l)" "reads (uses_credential i)"
  "reads (get_secret_for_credential sv i)"
  unfolding get_by_provider_and_label_def uses_credential_def get_secret_for_credential_def get_credential_def
  by (intro reads_intros)+

lemmas yields_credential_queries [yields_intros] = reads_credential_queries [THEN yields_leaf(2)]

lemma yields_create_credential: "yields (safe u F C) (outside credential_model u F) (create_credential sv p)"
  unfolding create_credential_def credential_steps
  apply (intro yields_credential_queries yields_bind_basic)
  apply (rule credential_spared.yields_fresh_key, rule yields_tenant_id)
  apply (intro yields_intros yields_bind [OF credential_spared.yields_append [simplified]])
  apply (auto simp: outside_def new_credential_def)
  done

lemma yields_update_credential: "yields (safe u F C) (outside credential_model u F) (update_credential sv i v)"
  unfolding update_credential_def renamed_def reseal_def credential_steps
  apply (intro yields_intros)
  apply (auto simp: outside_def restated_def edit_field_def reseal_row_def split: prod.split option.split)
  done

lemma yields_delete_credential: "yields (safe u F C) (\<lambda>_. True) (delete_credential i)"
  unfolding delete_credential_def credential_steps by (intro yields_intros) auto

lemma yields_probe: "yields (safe u F C) (\<lambda>_. True) (probe_credential ax kind model c)"
  unfolding probe_credential_def by (intro yields_intros) simp_all

lemma yields_mark: "outside credential_model u F c \<Longrightarrow> yields (safe u F C) (\<lambda>_. True) (mark_verification c b ec)"
  unfolding mark_verification_def credential_steps by (intro yields_intros) (auto simp: outside_def)

lemma reads_approved: "reads (get_approved_for_opportunity i)"
  unfolding get_approved_for_opportunity_def by (intro reads_intros)

lemma yields_probe_outcome:
  "yields (safe u F C) (\<lambda>_. True) (recover (ebind (probe_credential ax kind model c) (\<lambda>_. ret None))
     (\<lambda>e. case e of AppExn x \<Rightarrow> if is_app_error e ProviderError then ret (Some (err_code x)) else raise e | _ \<Rightarrow> raise e))"
  by (intro yields_recover yields_bind [OF yields_probe])
    (simp_all add: yields_basic split: exn.split)

lemma yields_verify_credential:
  assumes "outside credential_model u F c"
  shows "yields (safe u F C) (\<lambda>_. True) (verify_credential ax c)"
  unfolding verify_credential_def using assms
  by (auto split: option.split simp: yields_basic
      intro!: yields_bind [OF yields_probe_outcome] yields_bind [OF yields_mark] yields_intros)

lemmas yields_config_reads [yields_intros] = reads_content_queries(3) [THEN yields_leaf(1)]
  reads_content_queries(1,5,6) [THEN yields_leaf(2)] reads_approved [THEN yields_leaf(2)]

lemma yields_config_for:
  "yields (safe u F C) (\<lambda>x. \<forall>k. x = Some k \<longrightarrow> outside ai_config_model u F k) (get_for_purpose_and_provider p prov)"
  unfolding get_for_purpose_and_provider_def
  by (rule yields_bind [OF ai_config_spared.yields_where], intro yields_intros) (auto simp: list_all_iff)

lemma yields_clear_default: "yields (safe u F C) (\<lambda>_. True) (clear_default_for_purpose p)"
  unfolding clear_default_for_purpose_def credential_steps
  by (intro yields_intros ai_config_spared.yields_save) (auto simp: list_all_iff outside_def)

lemma yields_upsert_config: "yields (safe u F C) (\<lambda>_. True) (upsert_ai_config p)"
  unfolding upsert_ai_config_def ethen_def flush_credentials_def
  by (intro yields_intros yields_bind [OF yields_config_for] yields_clear_default)
    (auto simp: outside_def replaced_config_def new_ai_config_def)

lemma yields_delete_config: "yields (safe u F C) (\<lambda>_. True) (delete_ai_config i)"
  unfolding delete_ai_config_def credential_steps by (intro yields_intros) auto

lemma yields_record_usage: "yields (safe u F C) (\<lambda>_. True) (record_usage e)"
  unfolding record_usage_def flush_usage_def ethen_def by (intro yields_intros) (auto simp: usage_row_def)

lemma yields_call_provider: "yields (safe u F C) (\<lambda>_. True) (call_provider ax cl k prompt)"
  unfolding call_provider_def record_failure_def
  by (intro yields_recover) (auto split: exn.split intro!: yields_intros yields_bind [OF yields_record_usage])

section \<open>Copy\<close>

lemma yields_list_for_opportunity:
  "yields (safe u F C) (list_all (outside content_model u F)) (list_for_opportunity i)"
  unfolding list_for_opportunity_def
  by (rule yields_bind [OF content_spared.yields_where], intro yields_intros) (auto simp: list_all_iff)

lemma yields_supersede: "yields (safe u F C) (\<lambda>_. True) (supersede_drafts i)"
  unfolding supersede_drafts_def flush_contents_def ethen_def do_when_def
  apply (intro yields_intros yields_bind [OF yields_list_for_opportunity] content_spared.yields_save)
  apply (auto simp: list_all_iff outside_def)
  done

lemma yields_generate_content: "yields (safe u F C) (\<lambda>_. True) (generate_content ax i p)"
  unfolding generate_content_def store_draft_def record_generation_def flush_contents_def ethen_def Let_def
  apply (intro yields_intros yields_bind [OF yields_call_provider] yields_bind [OF yields_supersede] yields_record_usage)
  apply (auto simp: new_draft_def)
  done

lemma yields_review_content: "yields (safe u F C) (\<lambda>_. True) (review_content i p v)"
  unfolding review_content_def flush_contents_def ethen_def Let_def
  by (intro yields_intros) (auto simp: outside_def reviewed_def)

section \<open>Jobs and keyed creation\<close>

lemma reads_job_key: "reads (get_by_idempotency_key k)"
  unfolding get_by_idempotency_key_def by (intro reads_intros)

lemmas yields_key_reads [yields_intros] = reads_job_key [THEN yields_leaf(2)] reads_idempotency [THEN yields_leaf(2)]

lemma yields_enqueue: "yields (safe u F C) (\<lambda>_. True) (enqueue n task payload delay maxa key v)"
  unfolding enqueue_def flush_jobs_def ethen_def by (intro yields_intros) (auto simp: new_job_def)

lemma yields_remember: "yields (safe u F C) (\<lambda>_. True) (remember dg g body status j rid)"
  unfolding remember_def flush_idempotency_def by (intro yields_intros) (auto simp: new_idempotency_row_def)

lemma yields_keyed_create:
  assumes "reads (kr_get k i)" and "\<And>i. reads (kr_get k i)" and "yields (safe u F C) (\<lambda>_. True) (kr_create k)"
  shows "yields (safe u F C) (\<lambda>_. True) (keyed_create dg g body k)"
  unfolding keyed_create_def ethen_def
  by (intro yields_intros yields_leaf(2) [OF assms(2)] yields_bind [OF assms(3)] yields_bind [OF yields_remember]) simp_all

section \<open>The workspace and its members\<close>

lemma yields_assuming:
  "(\<And>n d. spared u F n d \<Longrightarrow> yields (safe u F C) P m) \<Longrightarrow> yields (safe u F C) P m"
  unfolding yields_def safe_def by blast

lemma save_workspace: "save_tenant t = repo_save workspace_model t" "save_membership m = repo_save member_model m"
  by (simp_all add: save_tenant_def save_membership_def repo_save_def)

lemmas yields_role_reads [yields_intros] = reads_roles [THEN yields_leaf(2)] reads_roles [THEN yields_leaf(1)]

lemma yields_replace:
  "yields (safe u F C) (\<lambda>_. True) (replace_for_role rid pids)"
  "yields (safe u F C) (\<lambda>_. True) (replace_for_membership mid rids)"
  unfolding replace_for_role_def replace_for_membership_def ethen_def
  by (rule yields_tenant_id, rule yields_bind [OF role_permission_spared.yields_filter [simplified]],
      simp, intro yields_intros; simp)
    (rule yields_tenant_id, rule yields_bind [OF membership_role_spared.yields_filter [simplified]],
      simp, intro yields_intros; simp)

lemma yields_new_role: "yields (safe u F C) (outside role_model u F) (new_role slug name descr b)"
  unfolding new_role_def ethen_def by (intro yields_intros) auto

lemma yields_update_tenant:
  assumes "ten_id t \<noteq> u"
  shows "yields (safe u F C) (\<lambda>_. True) (update_tenant t name status settings)"
proof (rule yields_assuming)
  fix n d assume "spared u F n d"
  then have "clean workspace_model u F n d" by (simp add: spared_def)
  then have "ten_id x = u" if "x \<in> set (tenants F)" for x using clean_owner [of workspace_model] that by simp
  then have out: "outside workspace_model u F x" if "ten_id x = ten_id t" for x
    using assms that by (auto simp: outside_def)
  show ?thesis
    unfolding update_tenant_def save_workspace flush_tenants_def ethen_def Let_def case_prod_beta
    apply (intro yields_intros workspace_spared.yields_save out)
    apply (simp_all split: option.split)
    done
qed

lemma yields_new_membership:
  "tid \<noteq> u \<Longrightarrow> yields (safe u F C) (\<lambda>_. True) (new_membership tid v status b)"
  unfolding new_membership_def flush_memberships_def ethen_def Let_def
  apply (rule member_spared.yields_fresh_key)
  apply (intro yields_intros yields_bind [OF member_spared.yields_append [simplified]])
  apply (auto simp: outside_def)
  done

lemma yields_add_member:
  "tid \<noteq> u \<Longrightarrow> yields (safe u F C) (\<lambda>_. True) (add_member tid email uid slugs status)"
  unfolding add_member_def create_membership_def ethen_def Let_def
  by (intro yields_intros yields_bind [OF yields_new_membership] yields_bind [OF yields_replace(2)]) simp_all

lemma yields_member:
  assumes "tid \<noteq> u"
  shows "yields (safe u F C) (\<lambda>x. \<forall>m. x = Some m \<longrightarrow> mem_id m = mid \<and> outside member_model u F m) (membership_in_tenant mid tid)"
proof (intro yieldsI)
  fix w assume w: "safe u F C w"
  have c: "clean member_model u F (w_next w) (w_db w)" using w by (rule member_spared.safe_part)
  have "outside member_model u F m" if "m \<in> set (rls_memberships w)" "mem_tenant_id m = tid" for m
    using clean_foreign [of member_model, OF c] assms that by (auto simp: rls_memberships_def)
  then show "wp (membership_in_tenant mid tid)
      (\<lambda>a t. safe u F C t \<and> (\<forall>m. a = Some m \<longrightarrow> mem_id m = mid \<and> outside member_model u F m)) (\<lambda>_. safe u F C) w"
    using w unfolding membership_in_tenant_def by (auto simp: wp_simps intro!: wp_one_row)
qed

lemma outside_member_changes [simp]:
  "outside member_model u F (fst (member_changes status b m)) = outside member_model u F m"
  by (simp add: member_changes_def outside_def split: option.split prod.split)

lemma yields_update_member:
  "tid \<noteq> u \<Longrightarrow> yields (safe u F C) (\<lambda>_. True) (update_member tid mid status slugs b)"
  unfolding update_member_def keep_an_owner_def settle_member_def assign_roles_def save_workspace flush_memberships_def
    ethen_def Let_def
  by (intro yields_intros yields_bind [OF yields_member] yields_bind [OF yields_replace(2)] member_spared.yields_save) auto

lemma spared_drop_membership:
  assumes "spared u F n d" and "only_outside member_model F (\<lambda>m. mem_id m = mid)"
  shows "spared u F n (d\<lparr>tenant_memberships := row_drop mem_id mid (tenant_memberships d),
     membership_roles := filter (\<lambda>a. mr_membership_id a \<noteq> mid) (membership_roles d)\<rparr>)"
    (is "spared u F n ?e")
proof -
  have "only_outside membership_role_model F (\<lambda>a. mr_membership_id a = mid)"
    using assms unfolding spared_def self_contained_def only_outside_def by fastforce
  moreover have c: "clean member_model u F n d" "clean membership_role_model u F n d"
    using assms(1) by (simp_all add: spared_def)
  ultimately have "clean member_model u F n ?e" "clean membership_role_model u F n ?e"
    by (auto intro: clean_dropped [OF c(1) assms(2)] clean_dropped [OF c(2)] simp: row_drop_def)
  then show ?thesis using assms(1) by (simp add: spared_def clean_def)
qed

lemma yields_delete_membership:
  assumes "mem_id m = mid \<and> outside member_model u F m"
  shows "yields (safe u F C) (\<lambda>_. True) (delete_membership mid)"
  unfolding delete_membership_def
  using outside_key [of member_model u F m] assms by (intro yields_drop) (simp add: spared_drop_membership)

lemma yields_remove_member:
  "tid \<noteq> u \<Longrightarrow> yields (safe u F C) (\<lambda>_. True) (remove_member tid mid)"
  unfolding remove_member_def keep_an_owner_def flush_memberships_def ethen_def
  by (intro yields_intros yields_bind [OF yields_member]
      yields_bind [OF yields_delete_membership]) auto

section \<open>Roles\<close>

lemma outside_role_changes [simp]:
  "outside role_model u F (fst (role_changes name descr r)) = outside role_model u F r"
  by (simp add: role_changes_def outside_def Let_def split: option.split)

lemma yields_create_role: "yields (safe u F C) (\<lambda>_. True) (create_role slug name descr perms)"
  unfolding create_role_def ethen_def
  by (intro yields_intros yields_bind [OF yields_new_role] yields_bind [OF yields_replace(1)]) simp_all

lemma yields_update_role: "yields (safe u F C) (\<lambda>_. True) (update_role rid name descr perms)"
  unfolding update_role_def ethen_def Let_def
  by (intro yields_intros yields_bind [OF yields_replace(1)] role_spared.yields_save) auto

lemma spared_drop_role:
  assumes "spared u F n d" and "only_outside role_model F (\<lambda>r. role_id r = rid)"
  shows "spared u F n (d\<lparr>roles := row_drop role_id rid (roles d),
     role_permissions := filter (\<lambda>g. rp_role_id g \<noteq> rid) (role_permissions d),
     membership_roles := filter (\<lambda>a. mr_role_id a \<noteq> rid) (membership_roles d)\<rparr>)"
    (is "spared u F n ?e")
proof -
  have "only_outside membership_role_model F (\<lambda>a. mr_role_id a = rid)"
    "only_outside role_permission_model F (\<lambda>g. rp_role_id g = rid)"
    using assms unfolding spared_def self_contained_def only_outside_def by fastforce+
  moreover have c: "clean role_model u F n d" "clean membership_role_model u F n d" "clean role_permission_model u F n d"
    using assms(1) by (simp_all add: spared_def)
  ultimately have "clean role_model u F n ?e" "clean membership_role_model u F n ?e" "clean role_permission_model u F n ?e"
    by (auto intro: clean_dropped [OF c(1) assms(2)] clean_dropped [OF c(2)] clean_dropped [OF c(3)] simp: row_drop_def)
  then show ?thesis using assms(1) by (simp add: spared_def clean_def)
qed

lemma yields_drop_role:
  assumes "role_id r = rid \<and> outside role_model u F r"
  shows "yields (safe u F C) (\<lambda>_. True) (drop_role rid)"
  unfolding drop_role_def
  using outside_key [of role_model u F r] assms by (intro yields_drop) (simp add: spared_drop_role)

lemma yields_role_at: "yields (safe u F C) (\<lambda>x. \<forall>r. x = Some r \<longrightarrow> role_id r = rid \<and> outside role_model u F r) (repo_get role_model rid)"
  unfolding repo_get_def
  by (intro yieldsI) (auto simp: wp_simps role_table.wp_where intro!: wp_one_row role_spared.own_rows split: option.split)

lemma yields_delete_role: "yields (safe u F C) (\<lambda>_. True) (delete_role rid)"
  unfolding delete_role_def ethen_def
  by (rule yields_bind [OF yields_role_at]) (auto intro!: yields_intros yields_bind [OF yields_drop_role])

end
