(* ===== verification/IsolationProperties.thy ===== *)
theory IsolationProperties
  imports IsolationOps
begin

text \<open>
  No route of the workspace interface, called by anyone who is not let into a workspace, touches a row of
  that workspace, and no route ever takes an entry of the audit trail back.
\<close>

section \<open>The routes\<close>

lemma yields_shown [yields_intros]:
  "yields I (\<lambda>_. True) m1 \<Longrightarrow> yields I (\<lambda>_. True) (shown status render1 m1)"
  "yields I (\<lambda>_. True) m2 \<Longrightarrow> yields I (\<lambda>_. True) (shown_all render2 m2)"
  "yields I (\<lambda>_. True) m3 \<Longrightarrow> yields I (\<lambda>_. True) (shown_page render3 m3)"
  "yields I (\<lambda>_. True) m4 \<Longrightarrow> yields I (\<lambda>_. True) (done_no_content m4)"
  "yields I (\<lambda>_. True) m5 \<Longrightarrow> yields I (\<lambda>_. True) (keyed_answer render5 meta m5)"
  unfolding shown_def shown_all_def shown_page_def done_no_content_def keyed_answer_def ethen_def case_prod_beta
  by (erule yields_bind, simp add: yields_basic)+

lemma yields_task_queue: "yields (safe u F C) (\<lambda>_. True) (task_queue_enqueue f task payload user)"
  unfolding task_queue_enqueue_def by (rule yields_enqueue)

lemma yields_paired:
  "yields I (\<lambda>_. True) m1 \<Longrightarrow> yields I (\<lambda>_. True) (ebind m1 (\<lambda>x. ret (g1 x)))"
  "yields I (\<lambda>_. True) m2 \<Longrightarrow> yields I (\<lambda>_. True) (ebind m2 (\<lambda>(x, y). ret (g2 x y)))"
  unfolding case_prod_beta by (erule yields_bind, simp add: yields_basic)+

lemmas yields_reading_ops = reads_listings [THEN yields_reads]

lemma yields_work_route:
  assumes "work_route ep" and "ep_permission ep \<notin> set read_permissions"
  shows "yields (safe u F C) (\<lambda>_. True) (ep_handler ep f p c)"
  using assms
proof (cases rule: work_route.cases)
qed (auto simp: work_route_defs read_permissions_list ethen_def intro!: yields_shown yields_keyed_create yields_paired
    yields_reading_ops reads_listings yields_create_opportunity yields_update_opportunity yields_delete_opportunity
    yields_qualify_opportunity yields_transition_opportunity yields_generate_content yields_review_content
    yields_weaken [OF yields_create_submission] yields_update_submission yields_delete_submission
    yields_prepare_for_review yields_approve_submission yields_execute_submission yields_verify_submission
    yields_transition_submission yields_basic yields_leaf(2) [OF reads_listings(6)] yields_task_queue)

lemma yields_resolve: "yields I (\<lambda>_. True) (resolve_source dx key)"
proof (rule yields_reads)
  show "reads (resolve_source dx key)"
    unfolding resolve_source_def resolve_for_provider_def get_usable_for_provider_def
    by (intro reads_intros reads_content_queries)
qed

lemma yields_discover:
  "yields (safe u F C) (\<lambda>_. True) (ep_handler (discover_publishers_route rq) f p c)"
  unfolding discover_publishers_route_def
  by (auto intro!: yields_bind [OF yields_start_run] yields_bind [OF yields_resolve] yields_shown yields_task_queue
      yields_execute_run)

lemma yields_research_route:
  assumes "research_route ep" and "ep_permission ep \<notin> set read_permissions"
  shows "yields (safe u F C) (\<lambda>_. True) (ep_handler ep f p c)"
  using assms
proof (cases rule: research_route.cases)
  case (5 rq)
  then show ?thesis using yields_discover by simp
qed (auto simp: research_route_defs read_permissions_list ethen_def intro!: yields_shown yields_reading_ops reads_listings yields_publishers
    yields_campaigns yields_websites yields_qualify_publisher yields_leaf(2) [OF reads_listings(9)] yields_task_queue)

lemma yields_call:
  assumes "tenant_context_id c \<noteq> u"
  shows "yields (safe u F C) (\<lambda>_. True) (call_handler path call c)"
proof -
  have t: "ten_id (tc_tenant c) \<noteq> u" using assms by (simp add: tenant_context_id_def)
  show ?thesis
    by (cases call)
      (auto simp: call_routes ethen_def intro!: yields_bind_basic yields_basic yields_done yields_update_tenant t assms
        yields_bind [OF yields_add_member] yields_bind [OF yields_update_member] yields_remove_member
        yields_bind [OF yields_create_role] yields_bind [OF yields_update_role] yields_delete_role
        reads_roles [THEN yields_reads])
qed

lemma yields_create_and_verify: "yields (safe u F C) (\<lambda>_. True) (create_and_verify f pl)"
  unfolding create_and_verify_def
  by (rule yields_bind [OF yields_create_credential]) (auto intro!: yields_case yields_paired yields_verify_credential yields_basic)

lemma yields_update_verified:
  "yields (safe u F C) (\<lambda>_. True) (ebind (update_credential sv i v) (\<lambda>r.
     if b then ebind (verify_credential ax r) (\<lambda>(r', _). ret r') else ret r))"
  by (rule yields_bind [OF yields_update_credential]) (auto intro!: yields_case yields_paired yields_verify_credential yields_basic)

lemma yields_get_credential: "yields (safe u F C) (outside credential_model u F) (get_credential i)"
  unfolding get_credential_def by (rule credential_spared.yields_get_or_raise)

lemma yields_verify_route: "yields (safe u F C) (\<lambda>_. True) (ep_handler (verify_credential_route i) f p c)"
  unfolding verify_credential_route_def case_prod_beta
  by (auto intro!: yields_bind [OF yields_get_credential] yields_bind [OF yields_verify_credential]
      yields_leaf(2) [OF reads_session(1)] yields_basic)

lemma yields_admin_route:
  assumes "admin_route ep" and "ep_permission ep \<notin> set read_permissions" and "tenant_context_id c \<noteq> u"
  shows "yields (safe u F C) (\<lambda>_. True) (ep_handler ep f p c)"
  using assms(1,2)
proof (cases rule: admin_route.cases)
  case (6 i)
  then show ?thesis using yields_verify_route by simp
qed (auto simp: admin_route_defs read_permissions_list ethen_def intro!: yields_shown yields_keyed_create yields_reading_ops reads_listings
    yields_paired yields_create_and_verify yields_update_verified yields_delete_credential yields_upsert_config
    yields_delete_config yields_call assms(3))

lemma yields_route:
  assumes "published ep" and "tenant_context_id c \<noteq> u"
  shows "yields (safe u F C) (\<lambda>_. True) (ep_handler ep f p c)"
proof (cases "ep_permission ep \<in> set read_permissions")
  case True
  then show ?thesis using read_routes_read [OF assms(1)] by (auto simp: only_reads_def intro: yields_reads)
next
  case False
  then show ?thesis using assms by (auto simp: published_def intro: yields_work_route yields_research_route yields_admin_route)
qed

section \<open>Requests\<close>

definition kept :: "nat \<Rightarrow> db \<Rightarrow> db \<Rightarrow> world \<Rightarrow> bool" where
  "kept u F C v =
     (w_committed v = C \<and> spared u F (w_next v) C \<and> spared u F (w_next v) (w_db v) \<and> grown C (w_db v))"

lemma safe_kept: "safe u F C v \<Longrightarrow> kept u F C v"
  by (simp add: safe_def kept_def)

lemma wp_outcome: "wp m Q E w \<Longrightarrow> wp m (\<lambda>a v. Q a v \<and> m w = (Inr a, v)) E w"
  by (auto simp: wp_def split: prod.split sum.split)

lemma request_is_safe:
  assumes "published ep" and "safe u F C (open_session None None w)"
    and "\<And>c. lets_in js creds header w c \<Longrightarrow> tenant_context_id c \<noteq> u"
  shows "wp (ebind (gate js creds header) (\<lambda>(p, c).
       ebind (lift_sum (require_permission (perm_value (ep_permission ep)) c)) (\<lambda>c'. ep_handler ep (get_services rs c') p c')))
     (\<lambda>_. kept u F C) (\<lambda>_. kept u F C) (open_session None None w)"
  unfolding wp_ebind
proof (rule wp_mono [OF wp_outcome [OF wp_gate]])
  fix x v
  assume x: "(case x of (p, c) \<Rightarrow> \<lambda>v. same_stores (open_session None None w) v \<and> bound_to p c v) v
      \<and> gate js creds header (open_session None None w) = (Inr x, v)"
  obtain p c where pc: "x = (p, c)" by (cases x)
  then have c: "tenant_context_id c \<noteq> u" using assms(3) [of c] x by (auto simp: lets_in_def)
  have v: "safe u F C v" using x pc assms(2) c by (simp add: safe_def same_stores_def bound_to_def)
  have "yields (safe u F C) (\<lambda>_. True) (ebind (lift_sum (require_permission (perm_value (ep_permission ep)) c))
      (\<lambda>c'. ep_handler ep (get_services rs c') p c'))"
    by (rule yields_bind_basic) (use c assms(1) in \<open>auto simp: require_permission_def split: if_splits intro: yields_route\<close>)
  from wp_mono [OF yieldsD [OF this v], of "\<lambda>_. kept u F C" "\<lambda>_. kept u F C"] show "wp (case x of (p, c) \<Rightarrow> ebind (lift_sum (require_permission (perm_value (ep_permission ep)) c))
      (\<lambda>c'. ep_handler ep (get_services rs c') p c')) (\<lambda>_. kept u F C) (\<lambda>_. kept u F C) v"
    by (simp add: pc safe_kept)
next
  fix e v assume "same_stores (open_session None None w) v"
  then show "kept u F C v" using assms(2) by (simp add: safe_def kept_def same_stores_def)
qed

lemma request_spares:
  assumes "published ep" and "spared u F (w_next w) (w_committed w)"
    and "\<And>c. lets_in js creds header w c \<Longrightarrow> tenant_context_id c \<noteq> u"
  shows "let v = snd (api_request js rs creds header ep w)
     in spared u F (w_next v) (w_committed v) \<and> grown (w_committed w) (w_committed v)"
proof -
  let ?m = "ebind (gate js creds header) (\<lambda>(p, c).
      ebind (lift_sum (require_permission (perm_value (ep_permission ep)) c)) (\<lambda>c'. ep_handler ep (get_services rs c') p c'))"
  have "safe u F (w_committed w) (open_session None None w)"
    using assms(2) by (simp add: safe_def open_session_def grown_def)
  from request_is_safe [OF assms(1) this assms(3)]
  have m: "wp ?m (\<lambda>_. kept u F (w_committed w)) (\<lambda>_. kept u F (w_committed w)) (open_session None None w)" .
  obtain r v where rv: "?m (open_session None None w) = (r, v)" by (cases "?m (open_session None None w)")
  then have v: "kept u F (w_committed w) v" using m by (auto simp: wp_def split: sum.splits)
  show ?thesis
  proof (cases r)
    case (Inl e)
    then show ?thesis using rv v
      by (simp add: api_request_gate session_scope_def close_session_def session_rollback_def modify_def Let_def kept_def grown_def)
  next
    case (Inr a)
    then show ?thesis using rv v
      by (simp add: api_request_gate session_scope_def close_session_def session_commit_def modify_def Let_def kept_def grown_def)
  qed
qed

section \<open>Who enters\<close>

definition claims_of :: "jwt_service \<Rightarrow> api_call \<Rightarrow> access_claims option" where
  "claims_of js q =
     (case ac_credentials q of None \<Rightarrow> None
      | Some cr \<Rightarrow> (case fst (decode_access_token js (cr_credentials cr) (initial_world\<lparr>w_now := ac_time q\<rparr>)) of
                    Inl _ \<Rightarrow> None | Inr c \<Rightarrow> Some c))"

definition belongs :: "db \<Rightarrow> nat \<Rightarrow> nat \<Rightarrow> bool" where
  "belongs d uid t =
     (\<exists>m\<in>set (tenant_memberships d). mem_user_id m = uid \<and> mem_tenant_id m = t \<and> mem_status m = M_ACTIVE)"

text \<open>A request enters a workspace if its token speaks for an active member and it asks for that workspace,
  by its header or else by the token.\<close>

definition enters :: "jwt_service \<Rightarrow> db \<Rightarrow> nat \<Rightarrow> api_call \<Rightarrow> bool" where
  "enters js d u q =
     (\<exists>c. claims_of js q = Some c \<and> (case ac_header q of Some t \<Rightarrow> Some t | None \<Rightarrow> ac_tenant_id c) = Some u
        \<and> belongs d (ac_user_id c) u)"

lemma decode_by_time: "w_now v = w_now w \<Longrightarrow> fst (decode_access_token js tok v) = fst (decode_access_token js tok w)"
  by (auto simp: decode_access_token_def comp_defs now_def split: sum.splits jwt_failure.splits option.splits prod.splits)

lemma principal_claims:
  assumes "ac_time q = w_now w"
  shows "wp (get_principal js (ac_credentials q))
     (\<lambda>p _. claims_of js q = Some (pr_claims p) \<and> usr_id (pr_user p) = ac_user_id (pr_claims p)) (\<lambda>_ _. True) w"
proof (cases "ac_credentials q")
  case (Some cr)
  have decode: "wp (decode_access_token js (cr_credentials cr)) Q (\<lambda>_ _. True) w"
    if "\<And>c. claims_of js q = Some c \<Longrightarrow> Q c w" for Q
  proof -
    have "fst (decode_access_token js (cr_credentials cr) w)
        = fst (decode_access_token js (cr_credentials cr) (initial_world\<lparr>w_now := ac_time q\<rparr>))"
      by (rule decode_by_time) (simp add: assms)
    moreover have "snd (decode_access_token js (cr_credentials cr) w) = w" using reads_decode by (simp add: reads_def)
    ultimately show ?thesis using that
      by (cases "decode_access_token js (cr_credentials cr) w") (auto simp: wp_def claims_of_def Some split: sum.split)
  qed
  show ?thesis
    unfolding Some get_principal_def option.case
    by (simp add: wp_simps)
      (intro impI decode wp_session_for_user; auto simp: wp_simps set_context_user_def
        intro!: wp_session_for_user wp_user_by_id)
qed (simp add: get_principal_def wp_simps)

lemma let_in_enters:
  assumes "lets_in js (ac_credentials q) (ac_header q) w c" and "w_now w = ac_time q"
  shows "enters js (w_committed w) (tenant_context_id c) q"
proof -
  let ?w = "open_session None None w"
  obtain p v where g: "gate js (ac_credentials q) (ac_header q) ?w = (Inr (p, c), v)"
    using assms(1) by (auto simp: lets_in_def)
  then obtain v1 where p: "get_principal js (ac_credentials q) ?w = (Inr p, v1)"
    and c: "get_tenant_context p (requested_tenant_id p (ac_header q)) v1 = (Inr c, v)"
    by (auto simp: gate_def ebind_Inr_iff ret_def)
  obtain tid where req: "requested_tenant_id p (ac_header q) = Some tid"
    using c by (cases "requested_tenant_id p (ac_header q)") (auto simp: get_tenant_context_def raise_def)
  have "w_db v1 = w_committed w" using wp_Inr [OF wp_principal p] by (simp add: open_session_def)
  moreover have "claims_of js q = Some (pr_claims p)" "usr_id (pr_user p) = ac_user_id (pr_claims p)"
    using wp_Inr [OF principal_claims p] assms(2) by (simp_all add: open_session_def)
  moreover from wp_Inr [OF wp_tenant_context [OF req] c]
  have "tc_membership c \<in> set (tenant_memberships (w_db v1))" "mem_status (tc_membership c) = M_ACTIVE"
    "mem_user_id (tc_membership c) = usr_id (pr_user p)" "mem_tenant_id (tc_membership c) = tid"
    "tenant_context_id c = tid"
    by (simp_all add: tenant_context_id_def)
  moreover have "(case ac_header q of Some t \<Rightarrow> Some t | None \<Rightarrow> ac_tenant_id (pr_claims p)) = Some tid"
    using req by (simp add: requested_tenant_id_def claimed_tenant_id_def split: option.splits)
  ultimately show ?thesis by (auto simp: enters_def belongs_def)
qed

section \<open>Histories\<close>

text \<open>The rows of one workspace, in every table that has them.\<close>

definition workspace_part :: "nat \<Rightarrow> db \<Rightarrow> db" where
  "workspace_part u d = empty_db\<lparr>
       tenants := tenant_rows workspace_model u d, tenant_memberships := tenant_rows member_model u d, roles :=
       tenant_rows role_model u d, role_permissions := tenant_rows role_permission_model u d, membership_roles
       := tenant_rows membership_role_model u d, client_websites := tenant_rows client_website_model u d,
       campaigns := tenant_rows campaign_model u d, publishers := tenant_rows publisher_model u d,
       discovery_runs := tenant_rows discovery_run_model u d, opportunities := tenant_rows opportunity_model u
       d, submissions := tenant_rows submission_model u d, generated_contents := tenant_rows content_model u d,
       audit_logs := tenant_rows audit_model u d, jobs := tenant_rows job_model u d, credentials :=
       tenant_rows credential_model u d, tenant_ai_configs := tenant_rows ai_config_model u d,
       ai_usage_records := tenant_rows ai_usage_model u d, idempotency_keys := tenant_rows idempotency_model u d\<rparr>"

text \<open>A workspace stands alone if its rows refer to its own rows only, nobody else's row has the key of one of
  them, and their keys have been given out.  The first matters: a discovery run may name a campaign of another
  workspace, which \<open>start_run\<close> does not check, and that campaign's deletion would then reach the run.\<close>

definition stands_alone :: "nat \<Rightarrow> nat \<Rightarrow> db \<Rightarrow> bool" where
  "stands_alone u n d = spared u (workspace_part u d) n d"

lemma spared_part:
  assumes "spared u (workspace_part u c) n d"
  shows "workspace_part u d = workspace_part u c"
  using assms unfolding spared_def clean_def tenant_rows_def workspace_part_def
  by (simp add: tenant_rows_def)

lemma belongs_part: "belongs (workspace_part u d) uid u = belongs d uid u"
  by (auto simp: belongs_def workspace_part_def tenant_rows_def)

lemma enters_part:
  assumes "workspace_part u d = workspace_part u c"
  shows "enters js d u q = enters js c u q"
proof -
  have "belongs d uid u = belongs c uid u" for uid using assms belongs_part by metis
  then show ?thesis by (simp add: enters_def)
qed

lemma serve_spares:
  assumes "published (ac_endpoint q)" and "spared u (workspace_part u c) (w_next w) (w_committed w)" and "\<not> enters js c u q"
  shows "spared u (workspace_part u c) (w_next (serve_api js q w)) (w_committed (serve_api js q w))
    \<and> grown (w_committed w) (w_committed (serve_api js q w))"
proof -
  let ?w = "w\<lparr>w_now := ac_time q, w_ctx := ac_ctx q\<rparr>"
  have "tenant_context_id c' \<noteq> u" if "lets_in js (ac_credentials q) (ac_header q) ?w c'" for c'
  proof
    assume "tenant_context_id c' = u"
    then have "enters js (w_committed w) u q" using let_in_enters [OF that] by simp
    then show False using assms(3) enters_part [OF spared_part [OF assms(2)]] by simp
  qed
  then show ?thesis
    using request_spares [OF assms(1), of u "workspace_part u c" ?w js "ac_credentials q" "ac_header q" "ac_resources q"]
      assms(2)
    by (simp add: serve_api_def Let_def)
qed

lemma history_spares:
  assumes "\<forall>q\<in>set qs. published (ac_endpoint q) \<and> \<not> enters js c u q"
    and "spared u (workspace_part u c) (w_next w) (w_committed w)"
  shows "spared u (workspace_part u c) (w_next (serve_all js qs w)) (w_committed (serve_all js qs w))
    \<and> grown (w_committed w) (w_committed (serve_all js qs w))"
  using assms
proof (induction qs arbitrary: w)
  case (Cons q qs)
  then have one: "spared u (workspace_part u c) (w_next (serve_api js q w)) (w_committed (serve_api js q w))"
    "grown (w_committed w) (w_committed (serve_api js q w))"
    using serve_spares [of q u c w js] by simp_all
  then show ?case using Cons.IH [OF _ one(1)] Cons.prems(1) by (auto simp: serve_all_def grown_def)
qed (simp add: serve_all_def grown_def)


definition neighbour_db :: db where
  "neighbour_db = demo_db\<lparr>
     tenants := tenants demo_db @ [\<lparr>ten_id = 8, ten_name = ''Globex'', ten_slug = ''globex'', ten_status = T_ACTIVE,
       ten_settings = [], ten_created_by_user_id = None, ten_created_at = 0, ten_updated_at = 0\<rparr>],
     tenant_memberships := tenant_memberships demo_db @ [\<lparr>mem_id = 22, mem_tenant_id = 8, mem_user_id = 5,
       mem_status = M_ACTIVE, mem_is_owner = True, mem_notes = None, mem_created_at = 0, mem_updated_at = 0\<rparr>],
     client_websites := [ContentProperties.demo_site\<lparr>web_tenant_id := 8\<rparr>],
     campaigns := [demo_campaign\<lparr>cmp_tenant_id := 8\<rparr>]\<rparr>"

definition neighbour_world :: world where
  "neighbour_world = demo_gate_world\<lparr>w_db := neighbour_db, w_committed := neighbour_db\<rparr>"

definition trespass :: "app_resources \<Rightarrow> nat option \<Rightarrow> api_call" where
  "trespass rs header =
     \<lparr>ac_resources = rs, ac_credentials = Some demo_bearer, ac_header = header,
      ac_endpoint = delete_client_website_route (web_id ContentProperties.demo_site), ac_time = 60, ac_ctx = no_context\<rparr>"

lemma trespass_stays_out: "published (ac_endpoint (trespass rs h)) \<and> \<not> enters demo_jwt neighbour_db 8 (trespass rs h)"
  by (simp add: trespass_def published_def research_route.intros enters_def claims_of_def demo_bearer_def demo_token_decodes
      belongs_def neighbour_db_def demo_db_def)


lemma unused_workspace:
  obtains u where "workspace_part u d = empty_db"
proof -
  let ?ids = "map ten_id (tenants d) @ map mem_tenant_id (tenant_memberships d) @ map role_tenant_id (roles d)
    @ map rp_tenant_id (role_permissions d) @ map mr_tenant_id (membership_roles d)
    @ map web_tenant_id (client_websites d) @ map cmp_tenant_id (campaigns d) @ map pub_tenant_id (publishers d)
    @ map run_tenant_id (discovery_runs d) @ map opp_tenant_id (opportunities d) @ map sub_tenant_id (submissions d)
    @ map con_tenant_id (generated_contents d) @ map aud_tenant_id (audit_logs d) @ map job_tenant_id (jobs d)
    @ map crd_tenant_id (credentials d) @ map aic_tenant_id (tenant_ai_configs d) @ map aiu_tenant_id (ai_usage_records d)
    @ map idk_tenant_id (idempotency_keys d)"
  obtain u where "u \<notin> set ?ids" using ex_new_if_finite [OF infinite_UNIV_nat, of "set ?ids"] by blast
  then have "workspace_part u d = empty_db"
    by (simp add: workspace_part_def tenant_rows_def empty_db_def filter_empty_conv image_iff eq_commute [of u])
  then show ?thesis by (rule that)
qed

lemma spared_unused: "workspace_part u d = empty_db \<Longrightarrow> spared u empty_db n d"
  by (simp add: workspace_part_def tenant_rows_def spared_def clean_def self_contained_def empty_db_def)



end
