(* ===== verification/Tasks.thy ===== *)
theory Tasks
  imports Services Opportunities
begin

text \<open>
  \<open>workers/tasks.py\<close>: the six task handlers, each a payload turned into a service call, and the registry
  they make (\<open>workers/registry.py\<close>); \<open>task_worker\<close> is the runner of \<open>Jobs\<close> with them.  A handler gets the
  services of the job's workspace, whose settings it reads in its own session.  An item of a payload list
  that is not a text fails at once, where Python fails on its first use.
\<close>

section \<open>Reading a payload\<close>

definition payload_item :: "(string \<times> json) list \<Rightarrow> string \<Rightarrow> exn + json" where
  "payload_item pl k = (case map_of pl k of None \<Rightarrow> Inl (RuntimeExn ''KeyError'') | Some v \<Rightarrow> Inr v)"

definition payload_get :: "(string \<times> json) list \<Rightarrow> string \<Rightarrow> json \<Rightarrow> json" where
  "payload_get pl k d = (case map_of pl k of None \<Rightarrow> d | Some v \<Rightarrow> v)"

text \<open>\<open>UUID(str(v))\<close>\<close>

definition payload_uuid :: "py_lib \<Rightarrow> json \<Rightarrow> exn + nat" where
  "payload_uuid py v = text_id (py_str (pl_render py) v)"

definition uuid_item :: "py_lib \<Rightarrow> (string \<times> json) list \<Rightarrow> string \<Rightarrow> nat svc" where
  "uuid_item py pl k = ebind (lift_sum (payload_item pl k)) (\<lambda>v. lift_sum (payload_uuid py v))"

definition text_value :: "json \<Rightarrow> exn + string" where
  "text_value v = (case v of JStr s \<Rightarrow> Inr s | _ \<Rightarrow> Inl (RuntimeExn ''AttributeError''))"

definition text_option :: "json \<Rightarrow> exn + string option" where
  "text_option v = (case v of JNull \<Rightarrow> Inr None | JStr s \<Rightarrow> Inr (Some s) | _ \<Rightarrow> Inl (RuntimeExn ''AttributeError''))"

text \<open>\<open>payload.get(k) or ()\<close>, as texts.\<close>

definition text_items :: "(string \<times> json) list \<Rightarrow> string \<Rightarrow> exn + string list" where
  "text_items pl k =
     (case iterate (py_or (payload_get pl k JNull) (JList [])) of
        Inl e \<Rightarrow> Inl e | Inr xs \<Rightarrow> map_exn text_value xs)"

definition payload_category :: "py_lib \<Rightarrow> (string \<times> json) list \<Rightarrow> exn + publisher_category option" where
  "payload_category py pl =
     (let raw = payload_get pl ''category'' JNull in
      if \<not> json_truthy raw then Inr None
      else case enum_parse publisher_category_members publisher_category_value (py_str (pl_render py) raw) of
        None \<Rightarrow> Inl (ValueExn ''not a valid PublisherCategory'') | Some c \<Rightarrow> Inr (Some c))"

definition payload_query :: "py_lib \<Rightarrow> (string \<times> json) list \<Rightarrow> discovery_query svc" where
  "payload_query py pl =
     ebind (lift_sum (text_items pl ''keywords'')) (\<lambda>ks.
     ebind (lift_sum (text_option (payload_get pl ''country'' JNull))) (\<lambda>ctry.
     ebind (lift_sum (text_option (payload_get pl ''language'' JNull))) (\<lambda>lang.
     ebind (lift_sum (payload_category py pl)) (\<lambda>cat.
     ebind (lift_sum (py_int py (payload_get pl ''limit'' (JInt 25)))) (\<lambda>limit.
       ret \<lparr>dq_keywords = ks, dq_country = ctry, dq_language = lang, dq_category = cat, dq_limit = limit,
            dq_free_only = True\<rparr>)))))"

section \<open>The handlers\<close>

type_synonym task_handler = "service_factory \<Rightarrow> task_envelope \<Rightarrow> unit svc"

definition py_of :: "service_factory \<Rightarrow> py_lib" where
  "py_of f = ai_py (ar_ai_env (sf_resources f))"

definition run_publisher_discovery :: task_handler where
  "run_publisher_discovery f env =
     ebind (uuid_item (py_of f) (te_payload env) ''run_id'') (\<lambda>rid.
     ebind (get_run rid) (\<lambda>r.
     ebind (payload_query (py_of f) (te_payload env)) (\<lambda>q.
     ebind (lift_sum (payload_item (te_payload env) ''provider'')) (\<lambda>key.
     ebind (resolve_source (discovery_registry f) (py_str (pl_render (py_of f)) key)) (\<lambda>provider.
       done_with (execute_run (ar_idna (sf_resources f)) r provider q))))))"

definition run_publisher_qualification :: task_handler where
  "run_publisher_qualification f env =
     (let pl = te_payload env in
      ebind (uuid_item (py_of f) pl ''publisher_id'') (\<lambda>i.
      ebind (lift_sum (text_items pl ''relevance_keywords'')) (\<lambda>ks.
      ebind (lift_sum (text_option (payload_get pl ''target_country'' JNull))) (\<lambda>ctry.
      ebind (lift_sum (text_option (payload_get pl ''target_language'' JNull))) (\<lambda>lang.
        done_with (qualify_by_id (qualification_service f)
          \<lparr>qo_fetch_live = json_truthy (payload_get pl ''fetch_live'' (JBool True)), qo_relevance_keywords = ks,
           qo_target_country = ctry, qo_target_language = lang\<rparr> i))))))"

definition run_opportunity_qualification :: task_handler where
  "run_opportunity_qualification f env =
     ebind (uuid_item (py_of f) (te_payload env) ''opportunity_id'') (\<lambda>i. done_with (qualify_opportunity i))"

definition run_content_generation :: task_handler where
  "run_content_generation f env =
     (let pl = te_payload env in
      ebind (lift_sum (text_option (payload_get pl ''tone'' JNull))) (\<lambda>tone.
      ebind (lift_sum (text_items pl ''keywords'')) (\<lambda>ks.
      ebind (lift_sum (py_int (py_of f) (payload_get pl ''max_description_words'' (JInt 120)))) (\<lambda>n.
      ebind (uuid_item (py_of f) pl ''opportunity_id'') (\<lambda>i.
        done_with (generate_content (ai_services_of f) i
          \<lparr>cg_tone = tone, cg_keywords = ks, cg_max_description_words = n, cg_include_short_description = True,
           cg_include_long_description = True,
           cg_regenerate = json_truthy (payload_get pl ''regenerate'' (JBool False))\<rparr>))))))"

text \<open>The validator of \<open>SubmissionVerifyRequest.published_url\<close>.\<close>

definition checked_published_url :: "idna \<Rightarrow> string option \<Rightarrow> exn + string option" where
  "checked_published_url idna v =
     (case v of
        None \<Rightarrow> Inr None
      | Some s \<Rightarrow>
          if str_strip s = [] then Inr None
          else case normalize_url idna s of
            Inl e \<Rightarrow> Inl (ValueExn ''published_url'') | Inr url \<Rightarrow> Inr (Some url))"

definition live_check_request :: "string option \<Rightarrow> verify_request" where
  "live_check_request url = \<lparr>vf_published_url = url, vf_fetch_live = True, vf_manual_result = None\<rparr>"

definition run_submission_verification :: task_handler where
  "run_submission_verification f env =
     ebind (uuid_item (py_of f) (te_payload env) ''submission_id'') (\<lambda>i.
     ebind (lift_sum (text_option (payload_get (te_payload env) ''published_url'' JNull))) (\<lambda>raw.
     ebind (lift_sum (checked_published_url (ar_idna (sf_resources f)) raw)) (\<lambda>url.
       done_with (verify_submission (submission_service_of f) i (live_check_request url)))))"

definition recheck_link :: "service_factory \<Rightarrow> nat \<Rightarrow> unit svc" where
  "recheck_link f i =
     recover (done_with (verify_submission (submission_service_of f) i (live_check_request None)))
       (\<lambda>e. if is_app_error e ResourceNotFoundError then ret () else raise e)"

definition run_link_monitor :: task_handler where
  "run_link_monitor f env =
     ebind (lift_sum (iterate (py_or (payload_get (te_payload env) ''submission_ids'' JNull) (JList [])))) (\<lambda>xs.
     ebind (lift_sum (map_exn (payload_uuid (py_of f)) xs)) (\<lambda>ids.
       for_each (recheck_link f) ids))"

section \<open>The registry\<close>

definition task_handlers :: "(string \<times> task_handler) list" where
  "task_handlers =
     [(''publisher.discovery'', run_publisher_discovery), (''publisher.qualify'', run_publisher_qualification),
      (''opportunity.qualify'', run_opportunity_qualification), (''content.generate'', run_content_generation),
      (''submission.verify'', run_submission_verification), (''link.monitor'', run_link_monitor)]"

text \<open>The runner reads the settings of the job's workspace in the session the handler then works in.\<close>

definition with_job_services :: "app_resources \<Rightarrow> task_handler \<Rightarrow> task_envelope \<Rightarrow> unit svc" where
  "with_job_services rs h env =
     ebind (tenant_by_id (te_tenant_id env)) (\<lambda>t.
       h \<lparr>sf_resources = rs, sf_tenant_settings = (case t of None \<Rightarrow> [] | Some t \<Rightarrow> ten_settings t)\<rparr> env)"

definition task_registry :: "app_resources \<Rightarrow> string \<Rightarrow> (task_envelope \<Rightarrow> unit svc) option" where
  "task_registry rs = map_option (with_job_services rs) \<circ> map_of task_handlers"

definition task_worker :: "app_resources \<Rightarrow> string \<Rightarrow> db_role \<Rightarrow> int \<Rightarrow> nat \<Rightarrow> int \<Rightarrow> worker" where
  "task_worker rs wid role timeout batch backoff =
     \<lparr>wk_role = role, wk_id = wid, wk_timeout = timeout, wk_batch = batch, wk_backoff = backoff,
      wk_registry = task_registry rs\<rparr>"

end
