(* ===== verification/Spec2Isabelle.thy ===== *)
theory Spec2Isabelle
  imports SubmissionProperties JobProperties AuthProperties TenantProperties PublisherProperties
    NetProperties CredentialProperties ContentProperties AiProperties Ids
    MiddlewareProperties DiscoveryProperties ApiProperties IsolationProperties Tasks
begin

text \<open>
  A verification development for a multi-tenant link-building backend: a FastAPI service on
  PostgreSQL whose workspaces (tenants) research free business directories, qualify them, and
  submit client sites to them under human approval.  The code is \<open>src/backend/app\<close>; paths below
  are relative to it.

  \<^bold>\<open>The program and its parts.\<close>  A request passes the gate (\<open>api/dependencies\<close>), which turns a
  bearer token into a principal, a requested workspace into a tenant context and the context into
  permissions; a service then works in one database session bound to that tenant
  (\<open>db/session.py\<close>), through repositories that filter every statement by tenant
  (\<open>repositories/base.py\<close>) and over tables under row-level security, and leaves an audit row
  (\<open>audit/service.py\<close>).  The session commits when the handler returns and rolls back when it
  raises.  Work that takes long is a row of \<open>jobs\<close> that a polling worker claims and runs
  (\<open>workers\<close>).

  \<^bold>\<open>How code becomes definitions.\<close>  A service operation is a function \<open>'a svc\<close>: from a \<open>world\<close> to
  a result (\<open>Inl\<close> the exception) and the world after it, \<open>Prelude\<close> and \<open>Session\<close>.  The world
  holds the database of the open session (\<open>w_db\<close>), the committed database (\<open>w_committed\<close>), the
  tenant and user of the session, the ambient request context, the clock and the next identifier.
  A table is a list of rows, a row a record with the columns of its mapped class (\<open>Models\<close>), an
  enum a datatype with its stored text (\<open>Enums\<close>), an exception a value of \<open>exn\<close> whose class,
  code, status and details are those of \<open>core/exceptions.py\<close> (\<open>Errors\<close>).  A flush checks the
  unique and check constraints of a table (\<open>flush_check\<close>), a deletion cascades (\<open>Cascades\<close>), and
  \<open>session_scope\<close> is the request's unit of work.  Each theory's opening text names its files.

  \<^bold>\<open>The theories.\<close>
  \<^item> \<open>Prelude\<close>: JSON values, computations with errors, weakest preconditions (\<open>wp_simps\<close>), frames
    (locale \<open>frame\<close>), table rows and partial updates.  \<open>Frames\<close>: invariants as frames, and what an operation
    leaves alone.
  \<^item> \<open>Enums\<close>, \<open>Errors\<close>, \<open>Workflows\<close>: \<open>core/enums.py\<close>, \<open>core/exceptions.py\<close>,
    \<open>submissions/workflow.py\<close>, \<open>opportunities/workflow.py\<close>; the contracts of text codings and of
    state machines are locales interpreted on every enum and on both tables.
  \<^item> \<open>Models\<close>, \<open>Session\<close>, \<open>Pagination\<close>, \<open>Repository\<close>, \<open>Tables\<close>: the mapped classes, sessions and
    row-level security, pages and sorting, the tenant repository (a locale interpreted on every
    table).
  \<^item> \<open>Redaction\<close>, \<open>AuditActions\<close>, \<open>AuditTrail\<close>: \<open>config/logging.py\<close> and \<open>audit\<close>.
  \<^item> \<open>SubmissionProviders\<close>, \<open>Submissions\<close>, \<open>SubmissionLifecycle\<close>, \<open>SubmissionProperties\<close>: the
    submission workflow, its providers, its simulation by an abstract step relation, and its
    properties.
  \<^item> \<open>Jobs\<close>, \<open>JobProperties\<close>: the queue and the worker.
  \<^item> \<open>Tokens\<close>, \<open>PasswordPolicy\<close>, \<open>Auth\<close>, \<open>AuthFamilies\<close>, \<open>Gate\<close>, \<open>AuthProperties\<close>: tokens, the
    password rules, authentication with rotating refresh tokens, the request gate.
  \<^item> \<open>PermCatalog\<close>, \<open>Rbac\<close>, \<open>Tenants\<close>, \<open>TenantOwners\<close>, \<open>TenantProvision\<close>, \<open>TenantGuards\<close>,
    \<open>TenantProperties\<close>: permissions, roles, workspaces and their members.
  \<^item> \<open>Urls\<close>, \<open>Domains\<close>: Python's URL splitting and IP addresses, and \<open>core/domains.py\<close> over them.
  \<^item> \<open>HttpClient\<close>, \<open>HtmlText\<close>, \<open>Robots\<close>, \<open>Crawler\<close>, \<open>LinkVerifier\<close>, \<open>NetProperties\<close>: the outbound
    HTTP client with its guard, retries and redirects, the polite crawler and the link verifier.
  \<^item> \<open>Scoring\<close>, \<open>PublisherStore\<close>, \<open>Qualification\<close>, \<open>Publishers\<close>, \<open>Discovery\<close>: publisher research;
    \<open>DiscoveryProviders\<close>, \<open>DiscoveryProperties\<close>: the three discovery sources and their registry.
  \<^item> \<open>Portfolio\<close>, \<open>Opportunities\<close>, \<open>Content\<close>, \<open>ContentProperties\<close>: client websites, campaigns,
    opportunities and their drafted copy.
  \<^item> \<open>PortfolioTree\<close>, \<open>PublisherProperties\<close>: the invariant that
    ties the working tables together, and the properties of research and domains.
  \<^item> \<open>Crypto\<close>, \<open>Credentials\<close>, \<open>CredentialProperties\<close>: envelope encryption and the workspace's
    provider credentials.  \<open>AiProviders\<close>, \<open>AiUsage\<close>, \<open>AiFactory\<close>, \<open>AiProperties\<close>: the five AI
    adapters, their accounting and their choice.
  \<^item> \<open>Ids\<close>, \<open>RateLimit\<close>, \<open>Responses\<close>, \<open>Middleware\<close>, \<open>MiddlewareProperties\<close>, \<open>Idempotency\<close>:
    identifiers, the limiter, envelopes and exception handlers, the middleware stack, idempotency
    keys.
  \<^item> \<open>Users\<close>, \<open>Reads\<close>: the user directory and what the response schemas show of a row.
  \<^item> \<open>Services\<close>, \<open>WorkRoutes\<close>, \<open>PublisherRoutes\<close>, \<open>AdminRoutes\<close>, \<open>Api\<close>, \<open>ApiProperties\<close>,
    \<open>Tasks\<close>: the service factory, every route behind the workspace gate, histories of requests over
    all of them, and the six background tasks, which run the same services.
  \<^item> \<open>Isolation\<close>, \<open>IsolationOps\<close>, \<open>IsolationProperties\<close>: what no operation bound to one workspace
    does to the rows of another (locale \<open>spared_table\<close>, interpreted on seventeen tables), for every
    operation, every published route and every history of the interface.

  \<^bold>\<open>What the lemmas show.\<close>  Services are proved by computing weakest preconditions: \<open>wp_simps\<close>
  rewrite a body to its branches, \<open>frame_intros\<close> and \<open>no_commit_intros\<close> discharge what an
  operation does not touch.  Invariants are proved per operation (\<open>keeps\<close>, \<open>plants\<close>, \<open>inside\<close>),
  lifted to requests by \<open>scope_committed\<close> and to all reachable databases by induction on the
  requests.  The submission service is a refinement: each operation is simulated by a path of
  \<open>sub_move\<close>, whose steps follow the published table.  Isolation is one more invariant, that of every
  session bound elsewhere: \<open>yields I P m\<close> composes along a body, and the repository's laws carry it from
  the operations to the routes and to histories of requests.  The scoring model is shown bounded and
  monotone, the discovery batch equal to a one-by-one reference, canonical domains to be fixed
  points reached from every spelling.  Where the code does not keep a promise of its own comments
  the property proves the concrete behaviour instead (for instance \<open>stale_approval_is_sent\<close>,
  \<open>user_update_moves_ownership\<close>, \<open>malformed_candidate_sinks_run\<close>).

  \<^bold>\<open>Parameters.\<close>  Code outside the repository is an argument: PyJWT, Argon2, SHA-256 and the
  random source (\<open>jwt_service\<close> and its companions), authenticated encryption, IDNA encoding, the
  answers of httpx to each request, \<open>json.loads\<close> and the rendering of numbers (\<open>py_lib\<close>), the digest of
  a canonical JSON text, \<open>uuid4\<close>, Starlette's CORS and trusted-host middlewares.  The services are
  moreover stated over any crawler, discovery or submission provider, AI vendor and job handler;
  \<open>Services\<close> and \<open>Tasks\<close> supply the ones of the repository.  What a property needs of a parameter is
  a hypothesis that states its documented behaviour, and its witness gives a concrete instance.

  \<^bold>\<open>Idealisations.\<close>  Identifiers are natural numbers drawn from one counter (UUIDs are compared and
  rendered only); instants are integer seconds and dates day numbers; floats and Decimals are
  exact rationals; text is ASCII where case or character classes matter; the clock stands still
  within one operation.  VARCHAR widths and the request schemas' length checks are left to the
  database and to the validation library.  Foreign keys appear as cascades and where an operation
  can violate one.  There is no fuel in the model: every loop is structural or has its measure.

  \<^bold>\<open>Not modelled.\<close>  What FastAPI does before a handler runs (matching a path, parsing a body), the
  authentication and health routes, which only render what a service returned, settings, logging
  set-up, engine construction and shutdown, the worker's poll loop, migrations other than the
  row-level security and the FREE-only trigger, seed and maintenance scripts.
\<close>

end
